(* ===== verification/Prelude.thy ===== *)
theory Prelude
  imports Main "HOL-Library.Word" "HOL-Library.AList"
begin

text \<open>
  Shared vocabulary of the development: the machine integers, identifiers and error values
  of the Go code, its integer division and its 64-bit wrap-around, and the generic lemmas
  the component theories use.

  \<^item> \<open>error\<close> holds the sentinel errors of the code by name, formatted errors
    (\<open>Errorf\<close>), wrapped errors (\<open>Wrap\<close>, which compares unequal to the sentinel it wraps,
    as \<open>errors.Wrap\<close> does) and run-time panics (\<open>Panic\<close>).
  \<^item> \<open>go_int64\<close> is two's complement wrap-around at 64 bits (\<open>time.Duration\<close>, \<open>int64\<close>);
    \<open>go_div\<close> and \<open>go_rem\<close> truncate towards zero as Go's \<open>/\<close> and \<open>%\<close> do.
\<close>

section \<open>Types\<close>

type_synonym byte = "8 word"
type_synonym u16 = "16 word"
type_synonym u32 = "32 word"
type_synonym eui64 = "64 word"
type_synonym devaddr = "32 word"
type_synonym aeskey = "128 word"
type_synonym uuid = nat

text \<open>Instants are nanoseconds since the Unix epoch, durations are nanoseconds.\<close>

type_synonym instant = int
type_synonym duration = int

datatype error =
    ErrDoesNotExist
  | ErrAlreadyExists
  | ErrInvalidMIC
  | ErrInvalidFPort
  | ErrFrameCounterReset
  | ErrFrameCounterRetransmission
  | ErrNoElements
  | ErrAbort
  | RedisNil
  | Errorf string
  | Wrap error string
  | Panic string

type_synonym 'a res = "error + 'a"

section \<open>Collections of facts\<close>

named_theorems go_simps "evaluation rules for the Go arithmetic of the model"
named_theorems frame_simps "fields an operation leaves alone"

section \<open>Go integer arithmetic\<close>

definition go_int64 :: "int \<Rightarrow> int" where
  "go_int64 x = (x + 2 ^ 63) mod 2 ^ 64 - 2 ^ 63"

definition go_div :: "int \<Rightarrow> int \<Rightarrow> int" where
  "go_div a b = sgn a * sgn b * (\<bar>a\<bar> div \<bar>b\<bar>)"

definition go_rem :: "int \<Rightarrow> int \<Rightarrow> int" where
  "go_rem a b = a - b * go_div a b"

lemma go_int64_id: "- (2 ^ 63) \<le> x \<Longrightarrow> x < 2 ^ 63 \<Longrightarrow> go_int64 x = x"
  by (simp add: go_int64_def)

lemma go_int64_lower: "- (2 ^ 63) \<le> go_int64 x"
  by (simp add: go_int64_def)

lemma go_int64_upper: "go_int64 x < 2 ^ 63"
proof -
  have "(x + 2 ^ 63) mod 2 ^ 64 < 2 ^ 64" by simp
  then show ?thesis by (simp add: go_int64_def)
qed

lemma go_div_nonneg [go_simps]: "0 \<le> a \<Longrightarrow> 0 < b \<Longrightarrow> go_div a b = a div b"
  by (cases "a = 0") (auto simp: go_div_def)

lemma go_rem_nonneg [go_simps]: "0 \<le> a \<Longrightarrow> 0 < b \<Longrightarrow> go_rem a b = a mod b"
  by (simp add: go_rem_def go_div_nonneg minus_mult_div_eq_mod)

lemma go_rem_self_zero [go_simps]: "go_rem 0 b = 0"
  by (simp add: go_rem_def go_div_def)

section \<open>Go maps\<close>

text \<open>
  A Go map is \<open>None\<close> when it is nil, else the list of its entries, one per key; the order of
  the list stands for the unspecified order in which \<open>range\<close> visits them. Reading and deleting
  work on a nil map, storing panics.
\<close>

type_synonym ('k, 'v) gomap = "('k \<times> 'v) list option"

definition gomap_get :: "('k, 'v) gomap \<Rightarrow> 'k \<Rightarrow> 'v option" where
  "gomap_get m k = (case m of None \<Rightarrow> None | Some al \<Rightarrow> map_of al k)"

definition gomap_put :: "('k, 'v) gomap \<Rightarrow> 'k \<Rightarrow> 'v \<Rightarrow> ('k, 'v) gomap res" where
  "gomap_put m k v =
     (case m of None \<Rightarrow> Inl (Panic ''assignment to entry in nil map'')
      | Some al \<Rightarrow> Inr (Some (AList.update k v al)))"

definition gomap_delete :: "('k, 'v) gomap \<Rightarrow> 'k \<Rightarrow> ('k, 'v) gomap" where
  "gomap_delete m k = map_option (AList.delete k) m"

definition gomap_ok :: "('k, 'v) gomap \<Rightarrow> bool" where
  "gomap_ok m \<longleftrightarrow> (\<exists>al. m = Some al \<and> distinct (map fst al))"

lemma gomap_get_put:
  "gomap_put m k v = Inr m' \<Longrightarrow> gomap_get m' k' = (if k' = k then Some v else gomap_get m k')"
  by (auto simp: gomap_put_def gomap_get_def update_conv' split: option.splits)

lemma gomap_get_delete [simp]:
  "gomap_get (gomap_delete m k) k' = (if k' = k then None else gomap_get m k')"
  by (auto simp: gomap_delete_def gomap_get_def delete_conv' split: option.splits)

lemma gomap_ok_put: "gomap_ok m \<Longrightarrow> \<exists>m'. gomap_put m k v = Inr m' \<and> gomap_ok m'"
  by (auto simp: gomap_put_def gomap_ok_def distinct_update)

lemma gomap_ok_delete [intro]: "gomap_ok m \<Longrightarrow> gomap_ok (gomap_delete m k)"
  by (auto simp: gomap_delete_def gomap_ok_def distinct_delete)

lemma gomap_ok_empty [simp]: "gomap_ok (Some [])"
  by (simp add: gomap_ok_def)

section \<open>Frame counters\<close>

text \<open>
  The loop both packet-loss computations run over the frame counters of the uplink history:
  the sum of the differences between neighbours, less one each.
\<close>

fun lost_loop :: "u32 list \<Rightarrow> u32 \<Rightarrow> u32 \<Rightarrow> u32" where
  "lost_loop [] previousFCnt lostPackets = lostPackets"
| "lost_loop (f # fs) previousFCnt lostPackets =
     lost_loop fs f (lostPackets + (f - previousFCnt - 1))"

fun lost_packets :: "u32 list \<Rightarrow> u32" where
  "lost_packets [] = 0"
| "lost_packets (f # fs) = lost_loop fs f 0"

lemma lost_loop_telescope:
  "lost_loop fs p acc = acc + (last (p # fs) - p - of_nat (length fs))"
  by (induction fs p acc rule: lost_loop.induct) (auto simp: algebra_simps)

lemma lost_packets_telescope:
  "fs \<noteq> [] \<Longrightarrow> lost_packets fs = last fs - hd fs - of_nat (length fs - 1)"
  by (cases fs) (auto simp: lost_loop_telescope)

section \<open>Results\<close>

definition is_error :: "'a res \<Rightarrow> bool" where
  "is_error r \<longleftrightarrow> (case r of Inl _ \<Rightarrow> True | Inr _ \<Rightarrow> False)"

lemma is_error_simps [simp]: "is_error (Inl e)" "\<not> is_error (Inr x)"
  by (simp_all add: is_error_def)

lemma res_cases:
  obtains e where "r = Inl e" | x where "r = (Inr x :: 'a res)"
  by (cases r) auto

end
