(* ===== verification/Gps.thy ===== *)
theory Gps
  imports Prelude
begin

text \<open>
  The GPS clock of \<open>internal/gps/gps.go\<close>: the leap-second table and the two conversions
  between UTC instants and durations since the GPS epoch. \<open>date\<close> is the
  \<open>time.Date(y, m, d, hh, mm, ss, 0, time.UTC)\<close> of the standard library, \<open>time_sub\<close> its
  saturating \<open>Time.Sub\<close>.
\<close>

section \<open>The standard library's calendar\<close>

definition second :: duration where "second = 1000000000"

definition millisecond :: duration where "millisecond = 1000000"

definition days_from_civil :: "int \<Rightarrow> int \<Rightarrow> int \<Rightarrow> int" where
  "days_from_civil y m d =
     (let y' = (if m \<le> 2 then y - 1 else y);
          era = y' div 400;
          yoe = y' mod 400;
          doy = (153 * (if m > 2 then m - 3 else m + 9) + 2) div 5 + d - 1;
          doe = yoe * 365 + yoe div 4 - yoe div 100 + doy
      in era * 146097 + doe - 719468)"

definition date :: "int \<Rightarrow> int \<Rightarrow> int \<Rightarrow> int \<Rightarrow> int \<Rightarrow> int \<Rightarrow> instant" where
  "date y m d hh mm ss =
     (days_from_civil y m d * 86400 + hh * 3600 + mm * 60 + ss) * second"

definition time_sub :: "instant \<Rightarrow> instant \<Rightarrow> duration" where
  "time_sub t u = max (- (2 ^ 63)) (min (2 ^ 63 - 1) (t - u))"

text \<open>The zero value of \<open>time.Time\<close> and the nanoseconds of \<open>UnixNano\<close>, which wrap.\<close>

definition zero_time :: instant where "zero_time = date 1 1 1 0 0 0"

definition UnixNano :: "instant \<Rightarrow> int" where "UnixNano t = go_int64 t"

section \<open>Definitions of gps.go\<close>

definition gpsEpochTime :: instant where
  "gpsEpochTime = date 1980 1 6 0 0 0"

definition leapSecondsTable :: "(instant \<times> duration) list" where
  "leapSecondsTable =
    [(date 1981 6 30 23 59 59, second),
     (date 1982 6 30 23 59 59, second),
     (date 1983 6 30 23 59 59, second),
     (date 1985 6 30 23 59 59, second),
     (date 1987 12 31 23 59 59, second),
     (date 1989 12 31 23 59 59, second),
     (date 1990 12 31 23 59 59, second),
     (date 1992 6 30 23 59 59, second),
     (date 1993 6 30 23 59 59, second),
     (date 1994 6 30 23 59 59, second),
     (date 1995 12 31 23 59 59, second),
     (date 1997 6 30 23 59 59, second),
     (date 1998 12 31 23 59 59, second),
     (date 2005 12 31 23 59 59, second),
     (date 2008 12 31 23 59 59, second),
     (date 2012 6 30 23 59 59, second),
     (date 2015 6 30 23 59 59, second),
     (date 2016 12 31 23 59 59, second)]"

fun drop_leaps :: "(instant \<times> duration) list \<Rightarrow> instant \<Rightarrow> instant" where
  "drop_leaps [] t = t"
| "drop_leaps ((lt, ld) # ls) t = drop_leaps ls (if lt < t then t - ld else t)"

definition NewFromTimeSinceGPSEpoch :: "duration \<Rightarrow> instant" where
  "NewFromTimeSinceGPSEpoch sinceEpoch = drop_leaps leapSecondsTable (gpsEpochTime + sinceEpoch)"

fun leap_offset :: "(instant \<times> duration) list \<Rightarrow> instant \<Rightarrow> duration" where
  "leap_offset [] t = 0"
| "leap_offset ((lt, ld) # ls) t = (if lt < t then ld else 0) + leap_offset ls t"

definition TimeSinceGPSEpoch :: "instant \<Rightarrow> duration" where
  "TimeSinceGPSEpoch t = go_int64 (time_sub t gpsEpochTime + leap_offset leapSecondsTable t)"

section \<open>Tables of leap seconds\<close>

text \<open>
  \<open>leap_table\<close>: ascending entries of positive duration, each at least its own duration after
  the ones before it. \<open>in_leap\<close>: the GPS instant \<open>u\<close> (GPS epoch plus duration) lies in the
  inserted second of an entry, which no UTC instant of the code stands for.
\<close>

fun leap_table :: "(instant \<times> duration) list \<Rightarrow> bool" where
  "leap_table [] = True"
| "leap_table ((lt, ld) # ls) =
     (0 < ld \<and> (\<forall>(l, d) \<in> set ls. lt \<le> l \<and> lt + d \<le> l) \<and> leap_table ls)"

fun in_leap :: "(instant \<times> duration) list \<Rightarrow> instant \<Rightarrow> bool" where
  "in_leap [] u = False"
| "in_leap ((lt, ld) # ls) u =
     (if lt < u then u - ld \<le> lt \<or> in_leap ls (u - ld) else in_leap ls u)"

lemma leap_offset_nonneg: "leap_table ls \<Longrightarrow> 0 \<le> leap_offset ls t"
  by (induction ls t rule: leap_offset.induct) (auto simp: add_nonneg_nonneg)

lemma leap_offset_upper: "leap_table ls \<Longrightarrow> leap_offset ls t \<le> sum_list (map snd ls)"
  by (induction ls t rule: leap_offset.induct) auto

lemma leap_offset_before:
  "\<forall>(l, d) \<in> set ls. t \<le> l \<Longrightarrow> leap_offset ls t = 0"
  by (induction ls t rule: leap_offset.induct) auto

lemma leap_offset_mono:
  "leap_table ls \<Longrightarrow> t \<le> u \<Longrightarrow> leap_offset ls t \<le> leap_offset ls u"
  by (induction ls t rule: leap_offset.induct) (auto intro: add_mono)

lemma drop_leaps_before:
  "\<forall>(l, d) \<in> set ls. t \<le> l \<Longrightarrow> drop_leaps ls t = t"
  by (induction ls t rule: drop_leaps.induct) auto

lemma leap_table_later:
  "leap_table ((l, d) # ls) \<Longrightarrow> t \<le> l \<Longrightarrow> \<forall>(l', d') \<in> set ls. t \<le> l'"
  by fastforce

lemma drop_leaps_offset:
  "leap_table ls \<Longrightarrow> drop_leaps ls (t + leap_offset ls t) = t"
proof (induction ls)
  case (Cons e ls)
  obtain l d where e: "e = (l, d)" by (cases e)
  show ?case
  proof (cases "l < t")
    case True
    have "l < t + (d + leap_offset ls t)"
      using True Cons.prems leap_offset_nonneg [of ls t] by (simp add: e)
    then show ?thesis using True Cons by (simp add: e)
  next
    case False
    then have "leap_offset ls t = 0"
      using Cons.prems leap_table_later [of l d ls t] by (auto simp: e intro: leap_offset_before)
    then show ?thesis using False Cons by (simp add: e)
  qed
qed simp

lemma drop_leaps_above:
  "m < u \<Longrightarrow> \<forall>(l, d) \<in> set ls. m + d \<le> l \<Longrightarrow> m < drop_leaps ls u"
  by (induction ls u rule: drop_leaps.induct) (auto split: if_splits)

lemma drop_leaps_le:
  "leap_table ls \<Longrightarrow> drop_leaps ls u \<le> u"
  by (induction ls u rule: drop_leaps.induct) (auto split: if_splits intro: order_trans)

lemma drop_leaps_lower:
  "leap_table ls \<Longrightarrow> u - sum_list (map snd ls) \<le> drop_leaps ls u"
  by (induction ls u rule: drop_leaps.induct) (auto split: if_splits)

lemma offset_drop_leaps:
  "leap_table ls \<Longrightarrow> \<forall>(l, d) \<in> set ls. d = c \<Longrightarrow>
   drop_leaps ls u + leap_offset ls (drop_leaps ls u) = (if in_leap ls u then u - c else u)"
proof (induction ls u rule: in_leap.induct)
  case (2 l d ls u)
  show ?case
  proof (cases "l < u")
    case True
    show ?thesis
    proof (cases "u - d \<le> l")
      case late: True
      then have "drop_leaps ls (u - d) = u - d" "leap_offset ls (u - d) = 0"
        using leap_table_later [OF "2.prems"(1)] drop_leaps_before leap_offset_before by blast+
      then show ?thesis using True late "2.prems" by simp
    next
      case False
      then have "l < drop_leaps ls (u - d)"
        using "2.prems" by (intro drop_leaps_above) auto
      then show ?thesis using True False 2 by (auto simp: algebra_simps)
    qed
  next
    case False
    then have "drop_leaps ls u = u" "leap_offset ls u = 0"
      using leap_table_later [OF "2.prems"(1), of u] drop_leaps_before leap_offset_before
      by (metis not_less)+
    then show ?thesis using False 2 by simp
  qed
qed simp

section \<open>The table of the code\<close>

lemmas gps_table_defs =
  leapSecondsTable_def gpsEpochTime_def date_def days_from_civil_def second_def

lemma leapSecondsTable_ok [simp]: "leap_table leapSecondsTable"
  by (simp add: gps_table_defs)

lemma leapSecondsTable_durations: "\<forall>(l, d) \<in> set leapSecondsTable. d = second"
  by (simp add: leapSecondsTable_def)

lemma leapSecondsTable_sum: "sum_list (map snd leapSecondsTable) = 18 * second"
  by (simp add: leapSecondsTable_def)

text \<open>The instants whose GPS duration the code can represent without saturation.\<close>

definition gps_range :: "instant \<Rightarrow> bool" where
  "gps_range t \<longleftrightarrow> - (2 ^ 63) \<le> t - gpsEpochTime \<and> t - gpsEpochTime + 18 * second < 2 ^ 63"

lemma TimeSinceGPSEpoch_range:
  assumes "gps_range t"
  shows "TimeSinceGPSEpoch t = t - gpsEpochTime + leap_offset leapSecondsTable t"
proof -
  have "0 \<le> leap_offset leapSecondsTable t" "leap_offset leapSecondsTable t \<le> 18 * second"
    using leap_offset_nonneg leap_offset_upper leapSecondsTable_sum by (metis leapSecondsTable_ok)+
  then show ?thesis
    using assms unfolding TimeSinceGPSEpoch_def time_sub_def gps_range_def
    by (subst go_int64_id) (auto simp: second_def)
qed

section \<open>Properties\<close>

text \<open>
  An instant survives the round trip through its GPS duration: the leap seconds that
  \<open>TimeSinceGPSEpoch\<close> adds are the ones \<open>NewFromTimeSinceGPSEpoch\<close> takes off again.
\<close>

theorem gps_time_roundtrip:
  assumes "gps_range t"
  shows "NewFromTimeSinceGPSEpoch (TimeSinceGPSEpoch t) = t"
  using assms drop_leaps_offset [OF leapSecondsTable_ok, of t]
  by (simp add: NewFromTimeSinceGPSEpoch_def TimeSinceGPSEpoch_range)

theorem gps_time_roundtrip_witness:
  "gps_range (date 2020 1 1 0 0 0) \<and>
   NewFromTimeSinceGPSEpoch (TimeSinceGPSEpoch (date 2020 1 1 0 0 0)) = date 2020 1 1 0 0 0"
proof -
  have "gps_range (date 2020 1 1 0 0 0)" by (simp add: gps_range_def gps_table_defs)
  then show ?thesis using gps_time_roundtrip by blast
qed

text \<open>
  A GPS duration survives the round trip through UTC except in the inserted second of a
  leap second, which comes back one second earlier.
\<close>

theorem gps_duration_roundtrip:
  assumes "0 \<le> d" and "d < 2 ^ 63 - 18 * second"
  shows "TimeSinceGPSEpoch (NewFromTimeSinceGPSEpoch d) =
    (if in_leap leapSecondsTable (gpsEpochTime + d) then d - second else d)"
proof -
  let ?t = "drop_leaps leapSecondsTable (gpsEpochTime + d)"
  have "?t \<le> gpsEpochTime + d" by (rule drop_leaps_le [OF leapSecondsTable_ok])
  moreover have "gpsEpochTime + d - 18 * second \<le> ?t"
    using drop_leaps_lower [OF leapSecondsTable_ok] by (simp add: leapSecondsTable_sum)
  ultimately have "gps_range ?t" using assms by (auto simp: gps_range_def second_def)
  then show ?thesis
    using offset_drop_leaps [OF leapSecondsTable_ok leapSecondsTable_durations, of "gpsEpochTime + d"]
    by (auto simp: NewFromTimeSinceGPSEpoch_def TimeSinceGPSEpoch_range)
qed

theorem gps_duration_roundtrip_witness:
  "TimeSinceGPSEpoch (NewFromTimeSinceGPSEpoch (1000000 * second)) = 1000000 * second \<and>
   \<not> in_leap leapSecondsTable (gpsEpochTime + 1000000 * second)"
proof -
  have "\<not> in_leap leapSecondsTable (gpsEpochTime + 1000000 * second)"
    by (simp add: gps_table_defs)
  then show ?thesis using gps_duration_roundtrip [of "1000000 * second"] by (simp add: second_def)
qed

text \<open>
  GPS durations keep the order of instants, so scheduling by GPS time is scheduling by
  time.
\<close>

theorem TimeSinceGPSEpoch_strict_mono:
  assumes "gps_range t" and "gps_range u" and "t < u"
  shows "TimeSinceGPSEpoch t < TimeSinceGPSEpoch u"
  using assms leap_offset_mono [OF leapSecondsTable_ok, of t u]
  by (simp add: TimeSinceGPSEpoch_range)

theorem TimeSinceGPSEpoch_strict_mono_witness:
  "TimeSinceGPSEpoch (date 2016 12 31 23 59 59) < TimeSinceGPSEpoch (date 2017 1 1 0 0 0)"
  by (rule TimeSinceGPSEpoch_strict_mono) (simp_all add: gps_range_def gps_table_defs)

end
