(* ===== verification/GoFloat.thy ===== *)
theory GoFloat
  imports Prelude Complex_Main
begin

text \<open>
  Go's \<open>float32\<close> and \<open>float64\<close> on finite values: a value is the rational it denotes and
  every operation is the exact rational operation rounded to nearest, ties to even
  (\<open>fl p emin\<close>: \<open>p\<close> bits of significand, least exponent \<open>emin\<close>). Infinities and NaN are
  not modelled, so the definitions that use these operations are about finite inputs whose
  results stay below the overflow threshold. \<open>f32_to_int\<close> is the conversion \<open>int(x)\<close>, which
  truncates towards zero.
\<close>

section \<open>Rounding\<close>

function blen :: "int \<Rightarrow> nat" where
  "blen n = (if n \<le> 0 then 0 else Suc (blen (n div 2)))"
  by pat_completeness auto
termination
  by (relation "measure nat") auto

declare blen.simps [simp del]

definition bexp :: "rat \<Rightarrow> int" where
  "bexp x =
     (let (n, d) = quotient_of \<bar>x\<bar>;
          e = int (blen n) - int (blen d)
      in if 2 powi e \<le> \<bar>x\<bar> then e else e - 1)"

definition rne :: "rat \<Rightarrow> int" where
  "rne q =
     (let f = \<lfloor>q\<rfloor>; r = q - of_int f
      in if r < 1 / 2 then f else if 1 / 2 < r then f + 1 else if even f then f else f + 1)"

definition fl :: "int \<Rightarrow> int \<Rightarrow> rat \<Rightarrow> rat" where
  "fl p emin x =
     (if x = 0 then 0
      else let e = max (bexp x - (p - 1)) emin
           in of_int (rne (x / 2 powi e)) * 2 powi e)"

definition f32 :: "rat \<Rightarrow> rat" where "f32 = fl 24 (-149)"

definition f64 :: "rat \<Rightarrow> rat" where "f64 = fl 53 (-1074)"

definition f32_sub :: "rat \<Rightarrow> rat \<Rightarrow> rat" where "f32_sub a b = f32 (a - b)"

definition f32_mul :: "rat \<Rightarrow> rat \<Rightarrow> rat" where "f32_mul a b = f32 (a * b)"

definition f32_div :: "rat \<Rightarrow> rat \<Rightarrow> rat" where "f32_div a b = f32 (a / b)"

definition f64_sub :: "rat \<Rightarrow> rat \<Rightarrow> rat" where "f64_sub a b = f64 (a - b)"

definition f64_mul :: "rat \<Rightarrow> rat \<Rightarrow> rat" where "f64_mul a b = f64 (a * b)"

definition f64_div :: "rat \<Rightarrow> rat \<Rightarrow> rat" where "f64_div a b = f64 (a / b)"

definition trunc :: "rat \<Rightarrow> int" where
  "trunc x = (if 0 \<le> x then \<lfloor>x\<rfloor> else \<lceil>x\<rceil>)"

section \<open>Size of the exponent\<close>

lemma blen_bounds: "0 < n \<Longrightarrow> 2 ^ (blen n - 1) \<le> n \<and> n < 2 ^ blen n"
proof (induction n rule: blen.induct)
  case (1 n)
  show ?case
  proof (cases "n div 2 \<le> 0")
    case True
    with 1 have "n = 1" by linarith
    then show ?thesis by (simp add: blen.simps [of 1] blen.simps [of 0])
  next
    case False
    with 1 have IH: "2 ^ (blen (n div 2) - 1) \<le> n div 2" "n div 2 < 2 ^ blen (n div 2)"
      by auto
    have b: "blen n = Suc (blen (n div 2))"
      using 1 by (simp add: blen.simps [of n])
    have pos: "0 < blen (n div 2)"
      using False by (subst blen.simps) simp
    then have "(2::int) ^ blen (n div 2) = 2 * 2 ^ (blen (n div 2) - 1)"
      by (cases "blen (n div 2)") auto
    then have lower: "2 ^ blen (n div 2) \<le> n" using IH(1) by linarith
    have "n < 2 * 2 ^ blen (n div 2)" using IH(2) by linarith
    with lower show ?thesis by (simp add: b)
  qed
qed

lemma powi_mono: "a \<le> b \<Longrightarrow> (2::rat) powi a \<le> 2 powi b"
  by (intro power_int_increasing) auto

lemma powi_double: "(2::rat) powi (a + 1) = 2 * 2 powi a"
  by (simp add: power_int_add)

lemma powi_nat: "(2::rat) powi (int n) = 2 ^ n"
  by simp

lemma powi_pos [simp]: "0 < (2::rat) powi e"
  by (simp add: zero_less_power_int)

lemma rat_blen_bounds:
  assumes "0 < n"
  shows "2 powi (int (blen n) - 1) \<le> (of_int n :: rat)" and "(of_int n :: rat) < 2 powi int (blen n)"
proof -
  have b: "0 < blen n" using assms by (subst blen.simps) simp
  have "(of_int (2 ^ (blen n - 1)) :: rat) \<le> of_int n"
    using blen_bounds [OF assms] of_int_le_iff by blast
  moreover have "(2::rat) powi (int (blen n) - 1) = 2 ^ (blen n - 1)"
    using b powi_nat [of "blen n - 1"] by (simp add: of_nat_diff)
  ultimately show "2 powi (int (blen n) - 1) \<le> (of_int n :: rat)" by simp
  have "(of_int n :: rat) < of_int (2 ^ blen n)"
    using blen_bounds [OF assms] of_int_less_iff by blast
  then show "(of_int n :: rat) < 2 powi int (blen n)" by simp
qed

lemma bexp_bounds:
  assumes "x \<noteq> 0"
  shows "2 powi bexp x \<le> \<bar>x\<bar>" and "\<bar>x\<bar> < 2 powi (bexp x + 1)"
proof -
  obtain n d where q: "quotient_of \<bar>x\<bar> = (n, d)" by (cases "quotient_of \<bar>x\<bar>")
  have d: "0 < d" using q by (rule quotient_of_denom_pos)
  have x: "\<bar>x\<bar> = of_int n / of_int d" using q by (rule quotient_of_div)
  have "0 < \<bar>x\<bar>" using assms by simp
  then have n: "0 < n" using d by (simp add: x zero_less_divide_iff)
  let ?a = "int (blen n)" and ?b = "int (blen d)"
  have nb: "2 powi (?a - 1) \<le> (of_int n :: rat)" "(of_int n :: rat) < 2 powi ?a"
    using rat_blen_bounds [of n] n by auto
  have db: "2 powi (?b - 1) \<le> (of_int d :: rat)" "(of_int d :: rat) < 2 powi ?b"
    using rat_blen_bounds [of d] d by auto
  have dpos: "0 < (of_int d :: rat)" using d by simp
  have "\<bar>x\<bar> < 2 powi ?a / 2 powi (?b - 1)"
    unfolding x using n by (intro frac_less [OF _ nb(2) _ db(1)]) auto
  also have "\<dots> = 2 powi (?a - ?b + 1)"
    by (simp add: power_int_diff power_int_add)
  finally have upper: "\<bar>x\<bar> < 2 powi (?a - ?b + 1)" .
  have "2 powi (?a - 1) / 2 powi ?b \<le> \<bar>x\<bar>"
    unfolding x using nb(1) db(2) n dpos by (intro frac_le) auto
  moreover have "(2::rat) powi (?a - 1) / 2 powi ?b = 2 powi (?a - 1 - ?b)"
    by (rule power_int_diff [symmetric]) simp
  moreover have "?a - 1 - ?b = ?a - ?b - 1" by simp
  ultimately have lower: "2 powi (?a - ?b - 1) \<le> \<bar>x\<bar>" by metis
  show "2 powi bexp x \<le> \<bar>x\<bar>" and "\<bar>x\<bar> < 2 powi (bexp x + 1)"
    using upper lower by (auto simp: bexp_def q Let_def)
qed

section \<open>Exact results and error bounds\<close>

lemma rne_of_int [simp]: "rne (of_int m) = m"
  by (simp add: rne_def)

lemma rne_error: "\<bar>of_int (rne q) - q\<bar> \<le> 1 / 2"
proof -
  define r where "r = q - of_int \<lfloor>q\<rfloor>"
  have r: "0 \<le> r" "r < 1" unfolding r_def by linarith+
  have "of_int (rne q) - q = (if r < 1 / 2 \<or> r = 1 / 2 \<and> even \<lfloor>q\<rfloor> then - r else 1 - r)"
    by (auto simp: rne_def Let_def r_def)
  then show ?thesis using r by (auto split: if_splits)
qed

lemma fl_0 [simp]: "fl p emin 0 = 0"
  by (simp add: fl_def)

lemma fl_exact:
  assumes "x = of_int m * 2 powi k" and "\<bar>m\<bar> < 2 ^ nat p" and "emin \<le> k" and "0 \<le> p"
  shows "fl p emin x = x"
proof (cases "x = 0")
  case True
  then show ?thesis by simp
next
  case False
  let ?e = "max (bexp x - (p - 1)) emin"
  have "\<bar>x\<bar> = of_int \<bar>m\<bar> * 2 powi k" by (simp add: assms(1) abs_mult)
  also have "\<dots> < 2 ^ nat p * 2 powi k"
    using assms(2) by (intro mult_strict_right_mono) (simp_all flip: of_int_less_iff [where 'a=rat])
  also have "\<dots> = 2 powi (p + k)"
    using assms(4) powi_nat [of "nat p"] by (simp add: power_int_add)
  finally have "\<bar>x\<bar> < 2 powi (p + k)" .
  then have "2 powi bexp x < (2::rat) powi (p + k)"
    using bexp_bounds(1) [OF False] by linarith
  then have "bexp x < p + k" using powi_mono [of "p + k" "bexp x"] by linarith
  then have ek: "?e \<le> k" using assms(3) by simp
  have "x / 2 powi ?e = of_int m * 2 powi (k - ?e)"
    by (simp add: assms(1) power_int_diff)
  also have "(2::rat) powi (k - ?e) = of_int (2 ^ nat (k - ?e))"
    using ek powi_nat [of "nat (k - ?e)"] by simp
  finally have "x / 2 powi ?e = of_int (m * 2 ^ nat (k - ?e))" by simp
  then have "rne (x / 2 powi ?e) = m * 2 ^ nat (k - ?e)"
    by (simp only: rne_of_int)
  then have "of_int (rne (x / 2 powi ?e)) * 2 powi ?e = x / 2 powi ?e * 2 powi ?e"
    using \<open>x / 2 powi ?e = of_int (m * 2 ^ nat (k - ?e))\<close> by simp
  then show ?thesis using False by (simp add: fl_def Let_def)
qed

lemma fl_error:
  assumes "x \<noteq> 0" and "emin \<le> bexp x - (p - 1)"
  shows "\<bar>fl p emin x - x\<bar> \<le> \<bar>x\<bar> / 2 powi p"
proof -
  let ?e = "bexp x - (p - 1)"
  let ?q = "x / 2 powi ?e"
  have "fl p emin x - x = (of_int (rne ?q) - ?q) * 2 powi ?e"
    using assms by (simp add: fl_def Let_def max_absorb1 left_diff_distrib)
  then have "\<bar>fl p emin x - x\<bar> = \<bar>of_int (rne ?q) - ?q\<bar> * 2 powi ?e"
    by (simp add: abs_mult)
  also have "\<dots> \<le> 1 / 2 * 2 powi ?e"
    by (intro mult_right_mono rne_error) simp
  also have "\<dots> = 2 powi bexp x / 2 powi p"
    by (simp add: power_int_diff power_int_add)
  also have "\<dots> \<le> \<bar>x\<bar> / 2 powi p"
    using bexp_bounds(1) [OF assms(1)] by (intro divide_right_mono) auto
  finally show ?thesis .
qed

lemma bexp_lower:
  assumes "2 powi k \<le> \<bar>x\<bar>"
  shows "k \<le> bexp x"
proof -
  have "x \<noteq> 0" using assms powi_pos [of k] by (metis abs_0 not_le)
  then have "2 powi k < (2::rat) powi (bexp x + 1)"
    using bexp_bounds(2) assms by fastforce
  then show ?thesis using powi_mono [of "bexp x + 1" k] by linarith
qed

lemma fl_mono_sign: "0 \<le> x \<Longrightarrow> 0 \<le> fl p emin x"
proof (cases "x = 0")
  case False
  assume x: "0 \<le> x"
  let ?q = "x / 2 powi max (bexp x - (p - 1)) emin"
  have "0 \<le> ?q" using x by simp
  then have "0 \<le> \<lfloor>?q\<rfloor>" by simp
  then have "0 \<le> rne ?q" by (simp add: rne_def Let_def)
  then show ?thesis using False by (simp add: fl_def Let_def)
qed simp

section \<open>The quarter grid\<close>

text \<open>
  Gateways report a signal-to-noise ratio as a multiple of a quarter dB. On such values of
  moderate size the subtractions of the code are exact, and a third of one truncates as the
  exact quotient does.
\<close>

definition on_grid :: "rat \<Rightarrow> rat \<Rightarrow> bool" where
  "on_grid B x \<longleftrightarrow> of_int \<lfloor>4 * x\<rfloor> = 4 * x \<and> \<bar>x\<bar> \<le> B"

lemma on_gridE:
  assumes "on_grid B x"
  obtains m :: int where "x = of_int m / 4" and "\<bar>of_int m\<bar> \<le> 4 * B"
proof
  show "x = of_int \<lfloor>4 * x\<rfloor> / 4" and "\<bar>of_int \<lfloor>4 * x\<rfloor>\<bar> \<le> 4 * B"
    using assms by (auto simp: on_grid_def abs_mult)
qed

lemma on_gridI:
  assumes "x = of_int m / 4" and "\<bar>x\<bar> \<le> B"
  shows "on_grid B x"
proof -
  have "4 * x = of_int m" using assms(1) by simp
  then show ?thesis using assms(2) by (simp only: on_grid_def floor_of_int)
qed

lemma on_grid_diff:
  assumes "on_grid A x" and "on_grid B y"
  shows "on_grid (A + B) (x - y)"
proof -
  obtain m n where "x = of_int m / 4" "y = of_int n / 4"
    using assms by (metis on_gridE)
  then have "x - y = of_int (m - n) / 4" by (simp add: field_simps)
  moreover have "\<bar>x - y\<bar> \<le> A + B" using assms by (auto simp: on_grid_def)
  ultimately show ?thesis by (rule on_gridI)
qed

lemma f32_grid:
  assumes "on_grid B x" and "B \<le> 1000000"
  shows "f32 x = x"
proof -
  obtain m where m: "x = of_int m / 4" "\<bar>of_int m\<bar> \<le> 4 * B" using assms(1) by (rule on_gridE)
  have "\<bar>of_int m\<bar> \<le> (of_int 4000000 :: rat)" using m(2) assms(2) by simp
  then have "\<bar>m\<bar> \<le> 4000000" by linarith
  then show ?thesis
    unfolding f32_def
    by (intro fl_exact [where m = m and k = "- 2"]) (simp_all add: m(1) power_int_minus)
qed

lemma trunc_close:
  assumes q: "q = of_int m / 12" and "\<not> 12 dvd m" and "\<bar>y - q\<bar> < 1 / 12"
  shows "trunc y = trunc q"
proof -
  have "m = 12 * (m div 12) + m mod 12" and "m mod 12 \<noteq> 0"
    using assms(2) by (auto simp: dvd_eq_mod_eq_0)
  moreover have "0 \<le> m mod 12" "m mod 12 < 12" by auto
  ultimately have m: "12 * (m div 12) + 1 \<le> m" "m \<le> 12 * (m div 12) + 11" by linarith+
  then have "of_int (12 * (m div 12) + 1) \<le> (of_int m :: rat)"
    "(of_int m :: rat) \<le> of_int (12 * (m div 12) + 11)"
    by (simp_all only: of_int_le_iff)
  then have b: "of_int (m div 12) + 1 / 12 \<le> q" "q \<le> of_int (m div 12) + 11 / 12"
    unfolding q by (simp_all add: field_simps)
  then have "of_int (m div 12) < y" "y < of_int (m div 12) + 1"
    using assms(3) by linarith+
  then have f: "\<lfloor>y\<rfloor> = m div 12" "\<lceil>y\<rceil> = m div 12 + 1" "\<lfloor>q\<rfloor> = m div 12" "\<lceil>q\<rceil> = m div 12 + 1"
    using b by linarith+
  have "0 \<le> q \<longleftrightarrow> 0 \<le> m div 12" "0 \<le> y \<longleftrightarrow> 0 \<le> m div 12"
    using f by (metis zero_le_floor)+
  then show ?thesis by (simp add: trunc_def f)
qed
lemma f32_div_3:
  assumes "on_grid B x" and "B \<le> 100000"
  shows "trunc (f32_div x 3) = trunc (x / 3)"
proof -
  obtain m where m: "x = of_int m / 4" "\<bar>of_int m\<bar> \<le> 4 * B" using assms(1) by (rule on_gridE)
  have bnd: "\<bar>of_int m\<bar> \<le> (400000 :: rat)" using m(2) assms(2) by simp
  show ?thesis
  proof (cases "12 dvd m")
    case True
    then obtain n where n: "m = 12 * n" by (rule dvdE)
    have "\<bar>of_int n\<bar> \<le> (of_int 400000 :: rat)" using bnd by (simp add: n abs_mult)
    then have "\<bar>n\<bar> \<le> 400000" by linarith
    then have "f32 (x / 3) = x / 3"
      unfolding f32_def by (intro fl_exact [where m = n and k = 0]) (simp_all add: m(1) n)
    then show ?thesis by (simp only: f32_div_def)
  next
    case False
    define q where "q = x / 3"
    have q: "q = of_int m / 12" by (simp add: q_def m(1))
    have "m \<noteq> 0" using False by auto
    then have "1 \<le> \<bar>m\<bar>" by linarith
    then have "(1 :: rat) \<le> \<bar>of_int m\<bar>" by linarith
    then have q_lower: "2 powi (-4) \<le> \<bar>q\<bar>" by (simp add: q power_int_minus)
    then have e: "-4 \<le> bexp q" by (rule bexp_lower)
    have "q \<noteq> 0" using \<open>m \<noteq> 0\<close> by (simp add: q)
    then have "\<bar>f32 q - q\<bar> \<le> \<bar>q\<bar> / 2 powi 24"
      unfolding f32_def using e by (intro fl_error) simp_all
    also have "\<dots> < 1 / 12" using bnd by (simp add: q)
    finally show ?thesis
      unfolding f32_div_def q_def [symmetric] by (rule trunc_close [OF q False])
  qed
qed


lemma Max_insert_max:
  "finite (S :: 'a::linorder set) \<Longrightarrow> Max (insert (max x y) S) = Max (insert x (insert y S))"
  by (cases "S = {}") (auto simp: max.assoc)

lemma f32_sub_grid:
  assumes "on_grid A x" and "on_grid B y" and "A + B \<le> 1000000"
  shows "f32_sub x y = x - y"
  unfolding f32_sub_def by (rule f32_grid [OF on_grid_diff [OF assms(1,2)] assms(3)])

lemma f32_lower:
  assumes "1 / 1000 \<le> x"
  shows "x * (1 - 1 / 2 ^ 24) \<le> f32 x"
proof -
  have "2 powi (-10) \<le> \<bar>x\<bar>" using assms by (simp add: power_int_minus)
  then have "-10 \<le> bexp x" by (rule bexp_lower)
  then have "\<bar>f32 x - x\<bar> \<le> \<bar>x\<bar> / 2 powi 24"
    unfolding f32_def using assms by (intro fl_error) simp_all
  then have "\<bar>f32 x - x\<bar> \<le> x / 2 ^ 24" using assms by simp
  then have "x - f32 x \<le> x / 2 ^ 24" by linarith
  then show ?thesis by (simp add: algebra_simps)
qed

section \<open>Rounding is idempotent\<close>

lemma rne_bound: "\<bar>q\<bar> < of_int N \<Longrightarrow> \<bar>rne q\<bar> \<le> N"
proof -
  assume "\<bar>q\<bar> < of_int N"
  then have "\<lfloor>q\<rfloor> < N" "- N \<le> \<lfloor>q\<rfloor>" by linarith+
  then show ?thesis by (auto simp: rne_def Let_def)
qed

lemma fl_idem:
  assumes p: "0 < p"
  shows "fl p emin (fl p emin x) = fl p emin x"
proof (cases "x = 0")
  case False
  define e where "e = max (bexp x - (p - 1)) emin"
  define m where "m = rne (x / 2 powi e)"
  have x: "fl p emin x = of_int m * 2 powi e" using False by (simp add: fl_def e_def m_def Let_def)
  have "\<bar>x\<bar> < 2 powi (bexp x + 1)" by (rule bexp_bounds(2) [OF False])
  also have "\<dots> \<le> 2 powi (p + e)" by (rule powi_mono) (simp add: e_def)
  also have "\<dots> = 2 ^ nat p * 2 powi e"
    using p powi_nat [of "nat p"] by (simp add: power_int_add)
  finally have "\<bar>x / 2 powi e\<bar> < of_int (2 ^ nat p)" by (simp add: divide_less_eq)
  then have "\<bar>m\<bar> \<le> 2 ^ nat p" unfolding m_def by (rule rne_bound)
  then consider "\<bar>m\<bar> < 2 ^ nat p" | "m = 2 ^ nat p" | "m = - (2 ^ nat p)" by linarith
  then show ?thesis
  proof cases
    case 1
    then show ?thesis unfolding x
      by (intro fl_exact [where m = m and k = e]) (simp_all add: e_def less_imp_le [OF p])
  next
    case 2
    then have "of_int m * 2 powi e = of_int 1 * (2 :: rat) powi (p + e)"
      using p powi_nat [of "nat p"] by (simp add: power_int_add)
    then show ?thesis unfolding x
      using fl_exact [of _ 1 "p + e" p emin] p by (simp add: e_def)
  next
    case 3
    then have "of_int m * 2 powi e = of_int (-1) * (2 :: rat) powi (p + e)"
      using p powi_nat [of "nat p"] by (simp add: power_int_add)
    then show ?thesis unfolding x
      using fl_exact [of _ "-1" "p + e" p emin] p by (simp add: e_def)
  qed
qed simp

lemma f32_idem [simp]: "f32 (f32 x) = f32 x"
  by (simp add: f32_def fl_idem)

end
