(* ===== verification/Lorawan.thy ===== *)
theory Lorawan
  imports Prelude
begin

text \<open>
  The vocabulary the code shares with the library \<open>github.com/brocaar/lorawan\<close>, which is
  not part of the repository: the data types the code reads and writes (with the fields it
  touches), and the regional band, a record of functions that every definition using the
  band takes as an argument. Nothing here defines what those functions return.

  A request and its answer carry the same command identifier in LoRaWAN (\<open>LinkADRReq\<close> and
  \<open>LinkADRAns\<close> are both \<open>0x03\<close>), so one constructor of \<open>cid\<close> stands for each pair.
\<close>

section \<open>Mac-commands\<close>

datatype cid =
    CID_Reset
  | CID_LinkCheck
  | CID_LinkADR
  | CID_RXParamSetup
  | CID_DevStatus
  | CID_NewChannel
  | CID_RXTimingSetup
  | CID_TXParamSetup
  | CID_Rekey
  | CID_DeviceTime
  | CID_RejoinParamSetup
  | CID_PingSlotInfo
  | CID_PingSlotChannel
  | CID_DeviceMode
  | CID_Other byte

datatype dwell_time = DwellTimeNoLimit | DwellTime400ms

datatype device_mode_class = DeviceModeClassA | DeviceModeClassC | DeviceModeRFU byte

record link_adr_req =
  la_DataRate :: byte
  la_TXPower :: byte
  la_ChMask :: "bool list"
  la_ChMaskCntl :: byte
  la_NbRep :: byte

datatype mac_payload =
    LinkADRReqPayload link_adr_req
  | LinkADRAnsPayload (ChannelMaskACK: bool) (DataRateACK: bool) (PowerACK: bool)
  | LinkCheckAnsPayload (lc_Margin: byte) (lc_GwCnt: byte)
  | DevStatusAnsPayload (ds_Battery: byte) (ds_Margin: int)
  | PingSlotInfoReqPayload (Periodicity: byte)
  | PingSlotChannelReqPayload (psc_Frequency: u32) (psc_DR: byte)
  | PingSlotChannelAnsPayload (psc_DataRateOK: bool) (psc_ChannelFrequencyOK: bool)
  | DeviceTimeAnsPayload duration
  | NewChannelReqPayload (nc_ChIndex: byte) (nc_Freq: u32) (nc_MaxDR: byte) (nc_MinDR: byte)
  | NewChannelAnsPayload (nc_ChannelFrequencyOK: bool) (nc_DataRateRangeOK: bool)
  | RXParamSetupReqPayload (rxp_Frequency: u32) (rxp_RX2DataRate: byte) (rxp_RX1DROffset: byte)
  | RXParamSetupAnsPayload (rxp_ChannelACK: bool) (rxp_RX2DataRateACK: bool) (rxp_RX1DROffsetACK: bool)
  | TXParamSetupReqPayload (txp_DownlinkDwelltime: dwell_time) (txp_UplinkDwellTime: dwell_time)
      (txp_MaxEIRP: byte)
  | RXTimingSetupReqPayload (rxt_Delay: byte)
  | RejoinParamSetupReqPayload (rjp_MaxTimeN: byte) (rjp_MaxCountN: byte)
  | RejoinParamSetupAnsPayload (rjp_TimeOK: bool)
  | RekeyIndPayload (rk_DevMinor: byte)
  | RekeyConfPayload (rk_ServMinor: byte)
  | ResetIndPayload (rs_DevMinor: byte)
  | ResetConfPayload (rs_ServMinor: byte)
  | DeviceModeIndPayload device_mode_class
  | DeviceModeConfPayload device_mode_class

record mac_command =
  mc_CID :: cid
  mc_Payload :: "mac_payload option"

section \<open>The band\<close>

datatype modulation = LoRaModulation | FSKModulation | LRFHSSModulation

record data_rate =
  Modulation :: modulation
  SpreadFactor :: int
  Bandwidth :: int
  BitRate :: int
  CodingRate :: string
  OccupiedChannelWidth :: int

record channel =
  ch_Frequency :: u32
  ch_MinDR :: int
  ch_MaxDR :: int

record band =
  GetDataRate :: "int \<Rightarrow> data_rate res"
  BandDataRateIndex :: "bool \<Rightarrow> data_rate \<Rightarrow> int res"
  GetEnabledUplinkDataRates :: "int list"
  GetTXPowerOffset :: "int \<Rightarrow> int res"
  GetStandardUplinkChannelIndices :: "int list"
  GetUplinkChannelIndex :: "u32 \<Rightarrow> bool \<Rightarrow> int res"
  GetUplinkChannel :: "int \<Rightarrow> channel res"
  GetEnabledUplinkChannelIndicesForLinkADRReqPayloads ::
    "int list \<Rightarrow> link_adr_req list \<Rightarrow> int list res"
  GetLinkADRReqPayloadsForEnabledUplinkChannelIndices :: "int list \<Rightarrow> link_adr_req list"

section \<open>A sample band\<close>

text \<open>
  A band on which witnesses evaluate, after EU868: data-rates 0 to 5 are LoRa at 125 kHz, 6 is
  LoRa at 250 kHz, 7 FSK and 8 to 11 LR-FHSS; three standard channels and five more.
\<close>

definition sample_data_rates :: "data_rate list" where
  "sample_data_rates =
     map (\<lambda>sf. \<lparr>Modulation = LoRaModulation, SpreadFactor = sf, Bandwidth = 125, BitRate = 0,
                CodingRate = [], OccupiedChannelWidth = 0\<rparr>) [12, 11, 10, 9, 8, 7] @
     [\<lparr>Modulation = LoRaModulation, SpreadFactor = 7, Bandwidth = 250, BitRate = 0,
       CodingRate = [], OccupiedChannelWidth = 0\<rparr>,
      \<lparr>Modulation = FSKModulation, SpreadFactor = 0, Bandwidth = 0, BitRate = 50000,
       CodingRate = [], OccupiedChannelWidth = 0\<rparr>] @
     map (\<lambda>(cr, ocw). \<lparr>Modulation = LRFHSSModulation, SpreadFactor = 0, Bandwidth = 0, BitRate = 0,
                CodingRate = cr, OccupiedChannelWidth = ocw\<rparr>)
       [(''1/3'', 137000), (''4/6'', 137000), (''1/3'', 336000), (''4/6'', 336000)]"

definition sample_channels :: "u32 list" where
  "sample_channels = [868100000, 868300000, 868500000, 867100000, 867300000, 867500000, 867700000, 867900000]"

definition sample_index :: "u32 \<Rightarrow> bool \<Rightarrow> int res" where
  "sample_index f defaultChannel =
     (case find (\<lambda>i. sample_channels ! i = f) [0..<length sample_channels] of
        Some i \<Rightarrow> if defaultChannel = (i < 3) then Inr (int i) else Inl (Errorf ''unknown channel'')
      | None \<Rightarrow> Inl (Errorf ''unknown channel''))"

definition sample_channel :: "int \<Rightarrow> channel res" where
  "sample_channel i =
     (if 0 \<le> i \<and> i < 8 then Inr \<lparr>ch_Frequency = sample_channels ! nat i, ch_MinDR = 0, ch_MaxDR = 5\<rparr>
      else Inl (Errorf ''invalid channel''))"

definition sample_band :: band where
  "sample_band =
     \<lparr>GetDataRate = (\<lambda>i. if 0 \<le> i \<and> i < 12 then Inr (sample_data_rates ! nat i)
                        else Inl (Errorf ''invalid data-rate'')),
      BandDataRateIndex = (\<lambda>_ d. case find (\<lambda>i. sample_data_rates ! i = d) [0..<12] of
                             Some i \<Rightarrow> Inr (int i) | None \<Rightarrow> Inl (Errorf ''data-rate not found'')),
      GetEnabledUplinkDataRates = [0, 1, 2, 3, 4, 5, 8, 9, 10, 11],
      GetTXPowerOffset = (\<lambda>i. if 0 \<le> i \<and> i < 8 then Inr (-2 * i) else Inl (Errorf ''invalid tx-power'')),
      GetStandardUplinkChannelIndices = [0, 1, 2],
      GetUplinkChannelIndex = sample_index,
      GetUplinkChannel = sample_channel,
      GetEnabledUplinkChannelIndicesForLinkADRReqPayloads =
        (\<lambda>_ pls. Inr (concat (map (\<lambda>pl. map int (filter (\<lambda>i. la_ChMask pl ! i) [0..<length (la_ChMask pl)])) pls))),
      GetLinkADRReqPayloadsForEnabledUplinkChannelIndices = (\<lambda>_. [])\<rparr>"

end
