(* ===== verification/Profiles.thy ===== *)
theory Profiles
  imports Prelude Complex_Main
begin

text \<open>
  The configuration records of \<open>internal/storage\<close> that the other components read: the
  device-profile (\<open>device_profile.go\<close>), the service-profile (\<open>service_profile.go\<close>) and the
  device (\<open>device.go\<close>).
\<close>

record device_profile =
  dp_CreatedAt :: instant
  dp_UpdatedAt :: instant
  dp_ID :: uuid
  dp_SupportsClassB :: bool
  dp_ClassBTimeout :: int
  dp_PingSlotPeriod :: int
  dp_PingSlotDR :: int
  dp_PingSlotFreq :: u32
  dp_SupportsClassC :: bool
  dp_ClassCTimeout :: int
  dp_MACVersion :: string
  dp_RegParamsRevision :: string
  dp_RXDelay1 :: int
  dp_RXDROffset1 :: int
  dp_RXDataRate2 :: int
  dp_RXFreq2 :: u32
  dp_FactoryPresetFreqs :: "u32 list"
  dp_MaxEIRP :: int
  dp_MaxDutyCycle :: int
  dp_SupportsJoin :: bool
  dp_RFRegion :: string
  dp_Supports32bitFCnt :: bool
  dp_ADRAlgorithmID :: string

record service_profile =
  sp_CreatedAt :: instant
  sp_UpdatedAt :: instant
  sp_ID :: uuid
  sp_ULRate :: int
  sp_ULBucketSize :: int
  sp_ULRatePolicy :: string
  sp_DLRate :: int
  sp_DLBucketSize :: int
  sp_DLRatePolicy :: string
  sp_AddGWMetadata :: bool
  sp_DevStatusReqFreq :: int
  sp_ReportDevStatusBattery :: bool
  sp_ReportDevStatusMargin :: bool
  sp_DRMin :: int
  sp_DRMax :: int
  sp_ChannelMask :: "byte list"
  sp_PRAllowed :: bool
  sp_HRAllowed :: bool
  sp_RAAllowed :: bool
  sp_NwkGeoLoc :: bool
  sp_TargetPER :: int
  sp_MinGWDiversity :: int
  sp_GwsPrivate :: bool

datatype device_mode = DeviceModeA | DeviceModeB | DeviceModeC

record device =
  d_DevEUI :: eui64
  d_CreatedAt :: instant
  d_UpdatedAt :: instant
  d_DeviceProfileID :: uuid
  d_ServiceProfileID :: uuid
  d_RoutingProfileID :: uuid
  d_SkipFCntCheck :: bool
  d_ReferenceAltitude :: rat
  d_Mode :: device_mode
  d_IsDisabled :: bool

section \<open>Zero values\<close>

definition zero_device_profile :: device_profile where
  "zero_device_profile =
     \<lparr>dp_CreatedAt = 0, dp_UpdatedAt = 0, dp_ID = 0, dp_SupportsClassB = False, dp_ClassBTimeout = 0,
      dp_PingSlotPeriod = 0, dp_PingSlotDR = 0, dp_PingSlotFreq = 0, dp_SupportsClassC = False,
      dp_ClassCTimeout = 0, dp_MACVersion = [], dp_RegParamsRevision = [], dp_RXDelay1 = 0,
      dp_RXDROffset1 = 0, dp_RXDataRate2 = 0, dp_RXFreq2 = 0, dp_FactoryPresetFreqs = [],
      dp_MaxEIRP = 0, dp_MaxDutyCycle = 0, dp_SupportsJoin = False, dp_RFRegion = [],
      dp_Supports32bitFCnt = False, dp_ADRAlgorithmID = []\<rparr>"

definition zero_service_profile :: service_profile where
  "zero_service_profile =
     \<lparr>sp_CreatedAt = 0, sp_UpdatedAt = 0, sp_ID = 0, sp_ULRate = 0, sp_ULBucketSize = 0,
      sp_ULRatePolicy = [], sp_DLRate = 0, sp_DLBucketSize = 0, sp_DLRatePolicy = [],
      sp_AddGWMetadata = False, sp_DevStatusReqFreq = 0, sp_ReportDevStatusBattery = False,
      sp_ReportDevStatusMargin = False, sp_DRMin = 0, sp_DRMax = 0, sp_ChannelMask = [],
      sp_PRAllowed = False, sp_HRAllowed = False, sp_RAAllowed = False, sp_NwkGeoLoc = False,
      sp_TargetPER = 0, sp_MinGWDiversity = 0, sp_GwsPrivate = False\<rparr>"

definition zero_device :: device where
  "zero_device =
     \<lparr>d_DevEUI = 0, d_CreatedAt = 0, d_UpdatedAt = 0, d_DeviceProfileID = 0, d_ServiceProfileID = 0,
      d_RoutingProfileID = 0, d_SkipFCntCheck = False, d_ReferenceAltitude = 0,
      d_Mode = DeviceModeA, d_IsDisabled = False\<rparr>"

end
