(* ===== verification/Adr.thy ===== *)
theory Adr
  imports GoFloat Lorawan
begin

text \<open>
  The adaptive data-rate algorithms of \<open>internal/adr\<close>: the request and response of
  \<open>adr/structs.go\<close>, the LoRa handler (\<open>default.go\<close>), the LR-FHSS handler (\<open>lr_fhss.go\<close>), the
  combined handler (\<open>lora_lr_fhss.go\<close>) and the handler registry (\<open>adr.go\<close>). Signal-to-noise
  ratios are \<open>float32\<close> values (\<open>GoFloat\<close>). An error of the code comes with a response that
  no caller reads; it is left out (\<open>error + handle_response\<close>).
\<close>

section \<open>Requests and responses\<close>

record uplink_meta_data =
  um_FCnt :: u32
  um_MaxSNR :: rat
  um_MaxRSSI :: int
  um_TXPowerIndex :: int
  um_GatewayCount :: int

record handle_request =
  hr_Region :: string
  hr_DevEUI :: eui64
  hr_MACVersion :: string
  hr_RegParamsRevision :: string
  hr_ADR :: bool
  hr_DR :: int
  hr_TxPowerIndex :: int
  hr_NbTrans :: int
  hr_MaxTxPowerIndex :: int
  hr_RequiredSNRForDR :: rat
  hr_InstallationMargin :: rat
  hr_MinDR :: int
  hr_MaxDR :: int
  hr_UplinkHistory :: "uplink_meta_data list"

record handle_response =
  hp_DR :: int
  hp_TxPowerIndex :: int
  hp_NbTrans :: int

definition current_response :: "handle_request \<Rightarrow> handle_response" where
  "current_response req =
     \<lparr>hp_DR = hr_DR req, hp_TxPowerIndex = hr_TxPowerIndex req, hp_NbTrans = hr_NbTrans req\<rparr>"

section \<open>The LoRa handler\<close>

definition pktLossRateTable :: "int list list" where
  "pktLossRateTable = [[1, 1, 2], [1, 2, 3], [2, 3, 3], [3, 3, 3]]"

definition requiredHistoryCount :: nat where
  "requiredHistoryCount = 20"

fun maxSNR_loop :: "uplink_meta_data list \<Rightarrow> rat \<Rightarrow> rat" where
  "maxSNR_loop [] snrM = snrM"
| "maxSNR_loop (m # ms) snrM =
     maxSNR_loop ms (if um_MaxSNR m > snrM then um_MaxSNR m else snrM)"

definition getMaxSNR :: "handle_request \<Rightarrow> rat" where
  "getMaxSNR req = maxSNR_loop (hr_UplinkHistory req) (-999)"

definition getHistoryCount :: "handle_request \<Rightarrow> nat" where
  "getHistoryCount req =
     length (filter (\<lambda>uh. hr_TxPowerIndex req = um_TXPowerIndex uh) (hr_UplinkHistory req))"

function getIdealTxPowerIndexAndDR :: "int \<Rightarrow> int \<Rightarrow> int \<Rightarrow> int \<Rightarrow> int \<Rightarrow> int \<times> int" where
  "getIdealTxPowerIndexAndDR nStep txPowerIndex dr maxTxPowerIndex maxDR =
     (if nStep = 0 then (txPowerIndex, dr)
      else if nStep > 0 then
        (if dr < maxDR
         then getIdealTxPowerIndexAndDR (nStep - 1) txPowerIndex (dr + 1) maxTxPowerIndex maxDR
         else if txPowerIndex < maxTxPowerIndex
         then getIdealTxPowerIndexAndDR (nStep - 1) (txPowerIndex + 1) dr maxTxPowerIndex maxDR
         else getIdealTxPowerIndexAndDR (nStep - 1) txPowerIndex dr maxTxPowerIndex maxDR)
      else
        (if txPowerIndex > 0
         then getIdealTxPowerIndexAndDR (nStep + 1) (txPowerIndex - 1) dr maxTxPowerIndex maxDR
         else getIdealTxPowerIndexAndDR (nStep + 1) txPowerIndex dr maxTxPowerIndex maxDR))"
  by pat_completeness auto
termination
  by (relation "measure (\<lambda>(nStep, _). nat \<bar>nStep\<bar>)") auto

declare getIdealTxPowerIndexAndDR.simps [simp del]

definition getNbTrans :: "int \<Rightarrow> rat \<Rightarrow> int" where
  "getNbTrans currentNbTrans pktLossRate =
     (let cur = (if currentNbTrans < 1 then 1 else currentNbTrans);
          cur = (if cur > 3 then 3 else cur)
      in if pktLossRate < 5 then pktLossRateTable ! 0 ! nat (cur - 1)
         else if pktLossRate < 10 then pktLossRateTable ! 1 ! nat (cur - 1)
         else if pktLossRate < 30 then pktLossRateTable ! 2 ! nat (cur - 1)
         else pktLossRateTable ! 3 ! nat (cur - 1))"

definition getPacketLossPercentage :: "handle_request \<Rightarrow> rat" where
  "getPacketLossPercentage req =
     (if length (hr_UplinkHistory req) < requiredHistoryCount then 0
      else f32_mul (f32_div (f32 (of_int (uint (lost_packets (map um_FCnt (hr_UplinkHistory req))))))
                            (f32 (of_nat (length (hr_UplinkHistory req))))) 100)"

fun maxLoRaDR_loop :: "band \<Rightarrow> int list \<Rightarrow> int \<Rightarrow> int res" where
  "maxLoRaDR_loop b [] maxLoRaDR = Inr maxLoRaDR"
| "maxLoRaDR_loop b (i # is) maxLoRaDR =
     (case GetDataRate b i of
        Inl e \<Rightarrow> Inl e
      | Inr dr \<Rightarrow>
          maxLoRaDR_loop b is
            (if Modulation dr = LoRaModulation \<and> Bandwidth dr = 125 then i else maxLoRaDR))"

definition nSteps :: "handle_request \<Rightarrow> int" where
  "nSteps req =
     trunc (f32_div (f32_sub (f32_sub (getMaxSNR req) (hr_RequiredSNRForDR req))
                             (hr_InstallationMargin req)) 3)"

definition DefaultHandler_Handle :: "band \<Rightarrow> handle_request \<Rightarrow> handle_response res" where
  "DefaultHandler_Handle b req =
     (let resp = current_response req in
      if \<not> hr_ADR req then Inr resp
      else case maxLoRaDR_loop b (GetEnabledUplinkDataRates b) 0 of
        Inl e \<Rightarrow> Inl e
      | Inr maxLoRaDR \<Rightarrow>
          let maxDR = (if hr_MaxDR req > maxLoRaDR then maxLoRaDR else hr_MaxDR req);
              resp = (if hr_DR req > maxDR then resp\<lparr>hp_DR := maxDR\<rparr> else resp);
              resp = resp\<lparr>hp_NbTrans := getNbTrans (hr_NbTrans req) (getPacketLossPercentage req)\<rparr>;
              nStep = nSteps req
          in if nStep < 0 \<and> getHistoryCount req \<noteq> requiredHistoryCount then Inr resp
             else let (tx, dr) = getIdealTxPowerIndexAndDR nStep (hp_TxPowerIndex resp) (hp_DR resp)
                                   (hr_MaxTxPowerIndex req) maxDR
                  in Inr (resp\<lparr>hp_TxPowerIndex := tx, hp_DR := dr\<rparr>))"

section \<open>The LR-FHSS handler\<close>

definition getMedian :: "uplink_meta_data list \<Rightarrow> int" where
  "getMedian upMetaData =
     (if upMetaData = [] then 0
      else let rssi = sort (map um_MaxRSSI upMetaData); m = length rssi div 2
           in if length rssi mod 2 \<noteq> 0 then rssi ! m
              else go_div (rssi ! (m - 1) + rssi ! m) 2)"

text \<open>
  \<open>lrFHSSDataRates\<close> is a Go map: here the association list of its entries, in the order they
  were first inserted. The code ranges over it in an unspecified order and then picks a
  random element; \<open>rnd\<close> is the random number, \<open>rnd mod n\<close> the \<open>Intn(n)\<close> of it, so that every
  choice the code can make is the choice for some \<open>rnd\<close>.
\<close>

fun lrFHSS_loop :: "band \<Rightarrow> int \<Rightarrow> int list \<Rightarrow> (int \<times> data_rate) list \<Rightarrow> (int \<times> data_rate) list res" where
  "lrFHSS_loop b maxDR [] acc = Inr acc"
| "lrFHSS_loop b maxDR (i # is) acc =
     (case GetDataRate b i of
        Inl e \<Rightarrow> Inl e
      | Inr dr \<Rightarrow>
          lrFHSS_loop b maxDR is
            (if i \<le> maxDR \<and> Modulation dr = LRFHSSModulation \<and> i \<notin> fst ` set acc
             then acc @ [(i, dr)] else acc))"

definition drs_with_coding_rate :: "string \<Rightarrow> (int \<times> data_rate) list \<Rightarrow> int list" where
  "drs_with_coding_rate cr m = map fst (filter (\<lambda>(k, v). CodingRate v = cr) m)"

definition LRFHSSHandler_Handle :: "nat \<Rightarrow> band \<Rightarrow> handle_request \<Rightarrow> handle_response res" where
  "LRFHSSHandler_Handle rnd b req =
     (let resp = current_response req in
      if \<not> hr_ADR req then Inr resp
      else case GetDataRate b (hr_DR req) of
        Inl e \<Rightarrow> Inl e
      | Inr dr \<Rightarrow>
          if Modulation dr = LRFHSSModulation \<and> CodingRate dr = ''4/6'' then Inr resp
          else let medRSSI = getMedian (hr_UplinkHistory req) in
            if medRSSI < -130 \<and> Modulation dr = LRFHSSModulation \<and> CodingRate dr = ''1/3''
            then Inr resp
            else case lrFHSS_loop b (hr_MaxDR req) (GetEnabledUplinkDataRates b) [] of
              Inl e \<Rightarrow> Inl e
            | Inr lrFHSSDataRates \<Rightarrow>
                if lrFHSSDataRates = [] then Inr resp
                else
                  let drs = (if medRSSI \<ge> -130 \<and> length (hr_UplinkHistory req) = 20
                             then drs_with_coding_rate ''4/6'' lrFHSSDataRates else []);
                      drs = (if drs = [] then drs_with_coding_rate ''1/3'' lrFHSSDataRates else drs)
                  in if drs = [] then Inr resp
                     else Inr \<lparr>hp_DR = drs ! (rnd mod length drs), hp_TxPowerIndex = 0, hp_NbTrans = 1\<rparr>)"

section \<open>The combined handler and the registry\<close>

definition LoRaLRFHSSHandler_Handle :: "nat \<Rightarrow> band \<Rightarrow> handle_request \<Rightarrow> handle_response res" where
  "LoRaLRFHSSHandler_Handle rnd b req =
     (case DefaultHandler_Handle b req of
        Inl e \<Rightarrow> Inl e
      | Inr loRaResp \<Rightarrow>
         (case GetDataRate b (hp_DR loRaResp) of
            Inl e \<Rightarrow> Inl e
          | Inr loRaDR \<Rightarrow>
             (case LRFHSSHandler_Handle rnd b req of
                Inl e \<Rightarrow> Inl e
              | Inr lrFHSSResp \<Rightarrow>
                  if SpreadFactor loRaDR < 10 then Inr loRaResp else Inr lrFHSSResp)))"

type_synonym adr_handlers = "(string \<times> (handle_request \<Rightarrow> handle_response res)) list"

definition adr_init :: "nat \<Rightarrow> band \<Rightarrow> adr_handlers" where
  "adr_init rnd b =
     [(''default'', DefaultHandler_Handle b),
      (''lora_lr_fhss'', LoRaLRFHSSHandler_Handle rnd b),
      (''lr_fhss'', LRFHSSHandler_Handle rnd b)]"

text \<open>One round of the loop of \<open>Setup\<close>: a plugin that answered with its ID and name.\<close>

definition register_plugin ::
  "string \<Rightarrow> (handle_request \<Rightarrow> handle_response res) \<Rightarrow> adr_handlers \<Rightarrow> adr_handlers" where
  "register_plugin id' h hs = (id', h) # filter (\<lambda>(k, _). k \<noteq> id') hs"

definition GetHandler :: "band \<Rightarrow> adr_handlers \<Rightarrow> string \<Rightarrow> handle_request \<Rightarrow> handle_response res" where
  "GetHandler b hs id' =
     (case map_of hs id' of None \<Rightarrow> DefaultHandler_Handle b | Some h \<Rightarrow> h)"

section \<open>The power and data-rate steps\<close>

lemma ideal_closed_form:
  "getIdealTxPowerIndexAndDR nStep tx dr maxTx maxDR =
     (if 0 \<le> nStep
      then let d = min nStep (max 0 (maxDR - dr))
           in (tx + min (nStep - d) (max 0 (maxTx - tx)), dr + d)
      else (if 0 < tx then max 0 (tx + nStep) else tx, dr))"
  by (induction nStep tx dr maxTx maxDR rule: getIdealTxPowerIndexAndDR.induct)
    (subst getIdealTxPowerIndexAndDR.simps, auto simp: Let_def)

section \<open>The signal-to-noise margin\<close>

lemma maxSNR_loop_Max: "maxSNR_loop ms z = Max (insert z (um_MaxSNR ` set ms))"
proof (induction ms arbitrary: z)
  case (Cons m ms)
  have "maxSNR_loop (m # ms) z = maxSNR_loop ms (max z (um_MaxSNR m))"
    by (simp add: max_def)
  then show ?case by (simp add: Cons.IH Max_insert_max del: Max_insert)
qed simp

lemma on_grid_maxSNR:
  assumes "\<forall>m \<in> set (hr_UplinkHistory req). on_grid 1000 (um_MaxSNR m)"
  shows "on_grid 1000 (getMaxSNR req)"
proof -
  have "getMaxSNR req \<in> insert (-999) (um_MaxSNR ` set (hr_UplinkHistory req))"
    unfolding getMaxSNR_def maxSNR_loop_Max by (intro Max_in) auto
  moreover have "on_grid 1000 (-999)" by (rule on_gridI [where m = "-3996"]) simp_all
  ultimately show ?thesis using assms by auto
qed

lemma nSteps_grid:
  assumes "\<forall>m \<in> set (hr_UplinkHistory req). on_grid 1000 (um_MaxSNR m)"
    and "on_grid 1000 (hr_RequiredSNRForDR req)"
    and "on_grid 1000 (hr_InstallationMargin req)"
  shows "nSteps req =
    trunc ((getMaxSNR req - hr_RequiredSNRForDR req - hr_InstallationMargin req) / 3)"
proof -
  let ?a = "getMaxSNR req - hr_RequiredSNRForDR req"
  have a: "on_grid 2000 ?a"
    using on_grid_diff [OF on_grid_maxSNR [OF assms(1)] assms(2)] by simp
  have ab: "on_grid 3000 (?a - hr_InstallationMargin req)"
    using on_grid_diff [OF a assms(3)] by simp
  have "f32_sub (getMaxSNR req) (hr_RequiredSNRForDR req) = ?a"
    using f32_sub_grid [OF on_grid_maxSNR [OF assms(1)] assms(2)] by simp
  moreover have "f32_sub ?a (hr_InstallationMargin req) = ?a - hr_InstallationMargin req"
    using f32_sub_grid [OF a assms(3)] by simp
  ultimately show ?thesis
    using f32_div_3 [OF ab] by (simp add: nSteps_def)
qed

section \<open>Packet loss\<close>

definition loss_rate :: "int \<Rightarrow> rat" where
  "loss_rate n = f32_mul (f32_div (f32 (of_int n)) (f32 20)) 100"

lemma f32_20: "f32 20 = 20"
  by code_simp

lemma loss_rate_large:
  assumes "7 \<le> n"
  shows "30 \<le> loss_rate n"
proof -
  have "(7::rat) \<le> of_int n" using assms by simp
  then have n: "69 / 10 \<le> f32 (of_int n)"
    using f32_lower [of "of_int n"] by (simp add: algebra_simps)
  let ?q = "f32 (of_int n) / 20"
  have q: "34 / 100 \<le> f32 ?q" 
    using f32_lower [of "f32 (of_int n) / 20"] n by (simp add: algebra_simps)
  show ?thesis
    using f32_lower [of "f32 ?q * 100"] q
    by (simp add: loss_rate_def f32_mul_def f32_div_def f32_20 algebra_simps)
qed

lemma loss_rate_small:
  "loss_rate 0 = 0" "loss_rate 1 = 5"
  by code_simp+

lemma loss_rate_middle:
  assumes "2 \<le> n" and "n \<le> 5"
  shows "10 \<le> loss_rate n \<and> loss_rate n < 30"
proof -
  have "n = 2 \<or> n = 3 \<or> n = 4 \<or> n = 5" using assms by auto
  moreover have "10 \<le> loss_rate 2" "loss_rate 2 < 30" "10 \<le> loss_rate 3" "loss_rate 3 < 30"
    "10 \<le> loss_rate 4" "loss_rate 4 < 30" "10 \<le> loss_rate 5" "loss_rate 5 < 30"
    by code_simp+
  ultimately show ?thesis by auto
qed

lemma loss_rate_6: "30 \<le> loss_rate 6"
  by code_simp

lemma loss_rate_thresholds:
  assumes "0 \<le> n"
  shows "loss_rate n < 5 \<longleftrightarrow> n = 0" "loss_rate n < 10 \<longleftrightarrow> n \<le> 1" "loss_rate n < 30 \<longleftrightarrow> n \<le> 5"
proof -
  consider "n = 0" | "n = 1" | "2 \<le> n" "n \<le> 5" | "n = 6" | "7 \<le> n"
    using assms by linarith
  then have "(loss_rate n < 5 \<longleftrightarrow> n = 0) \<and> (loss_rate n < 10 \<longleftrightarrow> n \<le> 1) \<and> (loss_rate n < 30 \<longleftrightarrow> n \<le> 5)"
    by cases (use loss_rate_small loss_rate_middle [of n] loss_rate_6 loss_rate_large [of n] in auto)
  then show "loss_rate n < 5 \<longleftrightarrow> n = 0" "loss_rate n < 10 \<longleftrightarrow> n \<le> 1" "loss_rate n < 30 \<longleftrightarrow> n \<le> 5"
    by blast+
qed

lemma getPacketLossPercentage_full:
  "length (hr_UplinkHistory req) = 20 \<Longrightarrow>
   getPacketLossPercentage req = loss_rate (uint (lost_packets (map um_FCnt (hr_UplinkHistory req))))"
  by (simp add: getPacketLossPercentage_def requiredHistoryCount_def loss_rate_def)

lemma getNbTrans_clamp:
  "getNbTrans n l =
     (let c = max 1 (min 3 n) in
      if l < 5 then (if c = 3 then 2 else 1)
      else if l < 10 then c
      else if l < 30 then (if c = 1 then 2 else 3)
      else 3)"
proof -
  have "n \<le> 1 \<or> n = 2 \<or> 3 \<le> n" by linarith
  then show ?thesis
    by (auto simp: getNbTrans_def pktLossRateTable_def Let_def numeral_2_eq_2)
qed

section \<open>The contract of a handler\<close>

text \<open>
  What the downlink code relies on when it calls a handler of the registry: a device with
  ADR disabled keeps its parameters, and a response stays in the range the request spans.
\<close>

locale adr_handler =
  fixes enabled :: "int list"
    and handle :: "handle_request \<Rightarrow> handle_response res"
  assumes disabled_keeps: "handle req = Inr r \<Longrightarrow> \<not> hr_ADR req \<Longrightarrow> r = current_response req"
    and nb_trans: "handle req = Inr r \<Longrightarrow> hp_NbTrans r = hr_NbTrans req \<or> hp_NbTrans r \<in> {1, 2, 3}"
    and dr_upper: "handle req = Inr r \<Longrightarrow> hp_DR r \<le> max (hr_DR req) (hr_MaxDR req)"
    and dr_lower: "handle req = Inr r \<Longrightarrow> \<forall>i \<in> set enabled. 0 \<le> i \<Longrightarrow> 0 \<le> hr_DR req \<Longrightarrow>
      0 \<le> hr_MaxDR req \<Longrightarrow> 0 \<le> hp_DR r"
    and tx_upper: "handle req = Inr r \<Longrightarrow>
      hp_TxPowerIndex r \<le> max 0 (max (hr_TxPowerIndex req) (hr_MaxTxPowerIndex req))"
    and tx_lower: "handle req = Inr r \<Longrightarrow> 0 \<le> hr_TxPowerIndex req \<Longrightarrow> 0 \<le> hp_TxPowerIndex r"
begin

lemma response_range:
  assumes "handle req = Inr r" and "\<forall>i \<in> set enabled. 0 \<le> i"
    and "0 \<le> hr_DR req" "hr_DR req < n" "0 \<le> hr_MaxDR req" "hr_MaxDR req < n"
    and "0 \<le> hr_TxPowerIndex req" "hr_TxPowerIndex req < n" "hr_MaxTxPowerIndex req < n"
    and "0 \<le> hr_NbTrans req" "hr_NbTrans req < n" "3 < n"
  shows "hp_DR r \<in> {0..<n}" and "hp_TxPowerIndex r \<in> {0..<n}" and "hp_NbTrans r \<in> {0..<n}"
proof -
  show "hp_DR r \<in> {0..<n}"
    using dr_upper [OF assms(1)] dr_lower [OF assms(1-3,5)] assms(4,6) by auto
  show "hp_TxPowerIndex r \<in> {0..<n}"
    using tx_upper [OF assms(1)] tx_lower [OF assms(1,7)] assms(7-9) by auto
  show "hp_NbTrans r \<in> {0..<n}"
    using nb_trans [OF assms(1)] assms(10-12) by auto
qed

end

text \<open>The contract from one fact about each response: unchanged, or adapted within bounds.\<close>

definition adapted :: "int list \<Rightarrow> handle_request \<Rightarrow> handle_response \<Rightarrow> bool" where
  "adapted enabled req r \<longleftrightarrow>
     hr_ADR req \<and> hp_NbTrans r \<in> {1, 2, 3} \<and> hp_DR r \<le> hr_MaxDR req \<and>
     ((\<forall>i \<in> set enabled. 0 \<le> i) \<and> 0 \<le> hr_DR req \<and> 0 \<le> hr_MaxDR req \<longrightarrow> 0 \<le> hp_DR r) \<and>
     hp_TxPowerIndex r \<le> max 0 (max (hr_TxPowerIndex req) (hr_MaxTxPowerIndex req)) \<and>
     (0 \<le> hr_TxPowerIndex req \<longrightarrow> 0 \<le> hp_TxPowerIndex r)"

lemma adr_handlerI:
  assumes "\<And>req r. handle req = Inr r \<Longrightarrow> r = current_response req \<or> adapted enabled req r"
  shows "adr_handler enabled handle"
  by unfold_locales (use assms in \<open>fastforce simp: current_response_def adapted_def\<close>)+

lemma maxLoRaDR_loop_mem:
  "maxLoRaDR_loop b is z = Inr m \<Longrightarrow> m = z \<or> m \<in> set is"
  by (induction b "is" z rule: maxLoRaDR_loop.induct) (auto split: sum.splits if_splits)

definition lora_target :: "handle_request \<Rightarrow> int \<Rightarrow> int \<times> int" where
  "lora_target req maxDR =
     (let n = nSteps req; dr = min (hr_DR req) maxDR; tx = hr_TxPowerIndex req in
      if 0 \<le> n
      then let d = min n (maxDR - dr)
           in (tx + min (n - d) (max 0 (hr_MaxTxPowerIndex req - tx)), dr + d)
      else if getHistoryCount req = requiredHistoryCount
      then (if 0 < tx then max 0 (tx + n) else tx, dr)
      else (tx, dr))"

definition lora_response :: "handle_request \<Rightarrow> int \<Rightarrow> handle_response" where
  "lora_response req maxDR =
     \<lparr>hp_DR = snd (lora_target req maxDR), hp_TxPowerIndex = fst (lora_target req maxDR),
      hp_NbTrans = getNbTrans (hr_NbTrans req) (getPacketLossPercentage req)\<rparr>"

lemma DefaultHandler_spec:
  "DefaultHandler_Handle b req =
     (if \<not> hr_ADR req then Inr (current_response req)
      else case maxLoRaDR_loop b (GetEnabledUplinkDataRates b) 0 of
        Inl e \<Rightarrow> Inl e
      | Inr m \<Rightarrow> Inr (lora_response req (min (hr_MaxDR req) m)))"
proof (cases "maxLoRaDR_loop b (GetEnabledUplinkDataRates b) 0")
  case (Inr m)
  define M where "M = min (hr_MaxDR req) m"
  have M: "(if hr_MaxDR req > m then m else hr_MaxDR req) = M" by (simp add: M_def)
  have "min (hr_DR req) M = (if hr_DR req > M then M else hr_DR req)" by simp
  then show ?thesis
    by (simp add: DefaultHandler_Handle_def lora_response_def lora_target_def Let_def M M_def [symmetric]
        ideal_closed_form current_response_def Inr)
qed (simp add: DefaultHandler_Handle_def Let_def)

lemma lora_target_bounds:
  assumes "lora_target req maxDR = (tx, dr)"
  shows "min (hr_DR req) maxDR \<le> dr" and "dr \<le> maxDR"
    and "tx \<le> max (hr_TxPowerIndex req) (hr_MaxTxPowerIndex req)"
    and "0 \<le> hr_TxPowerIndex req \<Longrightarrow> 0 \<le> tx"
  using assms by (auto simp: lora_target_def Let_def min_def max_def split: if_splits)

lemma getNbTrans_range: "getNbTrans n l \<in> {1, 2, 3}"
  by (auto simp: getNbTrans_clamp Let_def)

lemma Default_bounds:
  assumes "DefaultHandler_Handle b req = Inr r" and "hr_ADR req"
  shows "hp_DR r \<le> hr_MaxDR req"
    and "hp_TxPowerIndex r \<le> max (hr_TxPowerIndex req) (hr_MaxTxPowerIndex req)"
    and "0 \<le> hr_TxPowerIndex req \<Longrightarrow> 0 \<le> hp_TxPowerIndex r"
    and "\<forall>i \<in> set (GetEnabledUplinkDataRates b). 0 \<le> i \<Longrightarrow> 0 \<le> hr_DR req \<Longrightarrow>
      0 \<le> hr_MaxDR req \<Longrightarrow> 0 \<le> hp_DR r"
    and "hp_NbTrans r \<in> {1, 2, 3}"
proof -
  obtain m where m: "maxLoRaDR_loop b (GetEnabledUplinkDataRates b) 0 = Inr m"
    and r: "r = lora_response req (min (hr_MaxDR req) m)"
    using assms by (auto simp: DefaultHandler_spec split: sum.splits)
  note t = lora_target_bounds [OF surjective_pairing [of "lora_target req (min (hr_MaxDR req) m)"]]
  show "hp_DR r \<le> hr_MaxDR req"
    and "hp_TxPowerIndex r \<le> max (hr_TxPowerIndex req) (hr_MaxTxPowerIndex req)"
    and "0 \<le> hr_TxPowerIndex req \<Longrightarrow> 0 \<le> hp_TxPowerIndex r"
    and "hp_NbTrans r \<in> {1, 2, 3}"
    using t getNbTrans_range by (simp_all add: r lora_response_def)
  assume "\<forall>i \<in> set (GetEnabledUplinkDataRates b). 0 \<le> i" "0 \<le> hr_DR req" "0 \<le> hr_MaxDR req"
  then have "0 \<le> min (hr_DR req) (min (hr_MaxDR req) m)"
    using maxLoRaDR_loop_mem [OF m] by auto
  then show "0 \<le> hp_DR r"
    using order_trans [OF _ t(1)] by (simp add: r lora_response_def)
qed

lemma Default_adapted:
  "DefaultHandler_Handle b req = Inr r \<Longrightarrow>
   r = current_response req \<or> adapted (GetEnabledUplinkDataRates b) req r"
proof (cases "hr_ADR req")
  case True
  assume "DefaultHandler_Handle b req = Inr r"
  note bounds = Default_bounds [OF this True]
  show ?thesis using bounds True by (auto simp: adapted_def le_max_iff_disj)
qed (simp add: DefaultHandler_spec)

interpretation default_adr:
  adr_handler "GetEnabledUplinkDataRates b" "DefaultHandler_Handle b" for b
  by (rule adr_handlerI) (rule Default_adapted)

section \<open>The LR-FHSS handlers\<close>

lemma lrFHSS_loop_mem:
  "lrFHSS_loop b maxDR is acc = Inr m \<Longrightarrow> (i, dr) \<in> set m \<Longrightarrow>
   (i, dr) \<in> set acc \<or>
   i \<in> set is \<and> i \<le> maxDR \<and> GetDataRate b i = Inr dr \<and> Modulation dr = LRFHSSModulation"
  by (induction b maxDR "is" acc rule: lrFHSS_loop.induct) (auto split: sum.splits if_splits)

lemma lrFHSS_loop_grows:
  "lrFHSS_loop b maxDR is acc = Inr m \<Longrightarrow> set acc \<subseteq> set m"
  by (induction b maxDR "is" acc rule: lrFHSS_loop.induct) (auto split: sum.splits if_splits)

lemma lrFHSS_loop_complete:
  "lrFHSS_loop b maxDR is acc = Inr m \<Longrightarrow> i \<in> set is \<Longrightarrow> i \<le> maxDR \<Longrightarrow>
   GetDataRate b i = Inr dr \<Longrightarrow> Modulation dr = LRFHSSModulation \<Longrightarrow> i \<in> fst ` set m"
proof (induction b maxDR "is" acc rule: lrFHSS_loop.induct)
  case (2 b maxDR j js acc)
  obtain drj where j: "GetDataRate b j = Inr drj" using 2(2) by (auto split: sum.splits)
  let ?acc = "if j \<le> maxDR \<and> Modulation drj = LRFHSSModulation \<and> j \<notin> fst ` set acc
    then acc @ [(j, drj)] else acc"
  have run: "lrFHSS_loop b maxDR js ?acc = Inr m" using 2(2) by (simp add: j)
  show ?case
  proof (cases "i = j")
    case True
    then have "i \<in> fst ` set ?acc" using 2 j by force
    then show ?thesis using lrFHSS_loop_grows [OF run] by blast
  next
    case False
    then show ?thesis using 2(1) [OF j run] 2(3-) by simp
  qed
qed simp

definition lrfhss_choice :: "band \<Rightarrow> handle_request \<Rightarrow> string \<Rightarrow> int \<Rightarrow> bool" where
  "lrfhss_choice b req cr i \<longleftrightarrow>
     i \<in> set (GetEnabledUplinkDataRates b) \<and> i \<le> hr_MaxDR req \<and>
     (\<exists>dr. GetDataRate b i = Inr dr \<and> Modulation dr = LRFHSSModulation \<and> CodingRate dr = cr)"

lemma drs_with_coding_rate_choice:
  assumes "lrFHSS_loop b (hr_MaxDR req) (GetEnabledUplinkDataRates b) [] = Inr m"
  shows "i \<in> set (drs_with_coding_rate cr m) \<longleftrightarrow> lrfhss_choice b req cr i"
proof
  assume "i \<in> set (drs_with_coding_rate cr m)"
  then show "lrfhss_choice b req cr i"
    using lrFHSS_loop_mem [OF assms] by (auto simp: drs_with_coding_rate_def lrfhss_choice_def)
next
  assume c: "lrfhss_choice b req cr i"
  then obtain dr where dr: "GetDataRate b i = Inr dr" "CodingRate dr = cr" and "i \<in> fst ` set m"
    using lrFHSS_loop_complete [OF assms] by (auto simp: lrfhss_choice_def)
  then obtain dr' where "(i, dr') \<in> set m" by auto
  then have "(i, dr) \<in> set m" using lrFHSS_loop_mem [OF assms, of i dr'] dr(1) by auto
  then show "i \<in> set (drs_with_coding_rate cr m)"
    using dr(2) by (force simp: drs_with_coding_rate_def)
qed

lemma LRFHSS_cases:
  assumes "LRFHSSHandler_Handle rnd b req = Inr r"
  obtains "r = current_response req"
  | cr where "hr_ADR req" "hp_TxPowerIndex r = 0" "hp_NbTrans r = 1" "lrfhss_choice b req cr (hp_DR r)"
      "cr = ''4/6'' \<and> -130 \<le> getMedian (hr_UplinkHistory req) \<and> length (hr_UplinkHistory req) = 20
       \<or> cr = ''1/3''"
proof (cases "r = current_response req")
  case True
  then show ?thesis by (rule that(1))
next
  case False
  then obtain m drs where m: "lrFHSS_loop b (hr_MaxDR req) (GetEnabledUplinkDataRates b) [] = Inr m"
    and drs: "drs \<noteq> []" "hp_DR r = drs ! (rnd mod length drs)"
    and r: "hr_ADR req" "hp_TxPowerIndex r = 0" "hp_NbTrans r = 1"
    and cr: "drs = drs_with_coding_rate ''4/6'' m \<and> -130 \<le> getMedian (hr_UplinkHistory req)
        \<and> length (hr_UplinkHistory req) = 20 \<or> drs = drs_with_coding_rate ''1/3'' m"
    using assms by (auto simp: LRFHSSHandler_Handle_def Let_def split: if_splits sum.splits)
  have "hp_DR r \<in> set drs" using drs by simp
  then show ?thesis
    using cr that(2) [OF r] drs_with_coding_rate_choice [OF m] by auto
qed


lemma LRFHSS_adapted:
  "LRFHSSHandler_Handle rnd b req = Inr r \<Longrightarrow>
   r = current_response req \<or> adapted (GetEnabledUplinkDataRates b) req r"
  by (erule LRFHSS_cases) (auto simp: adapted_def lrfhss_choice_def)

interpretation lrfhss_adr:
  adr_handler "GetEnabledUplinkDataRates b" "LRFHSSHandler_Handle rnd b" for rnd b
  by (rule adr_handlerI) (rule LRFHSS_adapted)

lemma LoRaLRFHSS_cases:
  assumes "LoRaLRFHSSHandler_Handle rnd b req = Inr r"
  obtains "DefaultHandler_Handle b req = Inr r"
  | "LRFHSSHandler_Handle rnd b req = Inr r"
  using assms by (auto simp: LoRaLRFHSSHandler_Handle_def split: sum.splits if_splits)

lemma LoRaLRFHSS_adapted:
  "LoRaLRFHSSHandler_Handle rnd b req = Inr r \<Longrightarrow>
   r = current_response req \<or> adapted (GetEnabledUplinkDataRates b) req r"
  by (erule LoRaLRFHSS_cases) (auto dest: Default_adapted LRFHSS_adapted)

interpretation combined_adr:
  adr_handler "GetEnabledUplinkDataRates b" "LoRaLRFHSSHandler_Handle rnd b" for rnd b
  by (rule adr_handlerI) (rule LoRaLRFHSS_adapted)

lemma GetHandler_builtin:
  "GetHandler b (adr_init rnd b) i \<in>
     {DefaultHandler_Handle b, LoRaLRFHSSHandler_Handle rnd b, LRFHSSHandler_Handle rnd b}"
  by (simp add: GetHandler_def adr_init_def)

lemma GetHandler_adapted:
  "GetHandler b (adr_init rnd b) i req = Inr r \<Longrightarrow>
   r = current_response req \<or> adapted (GetEnabledUplinkDataRates b) req r"
  using GetHandler_builtin [of b rnd i]
  by (auto dest: Default_adapted LRFHSS_adapted LoRaLRFHSS_adapted)

interpretation builtin_adr:
  adr_handler "GetEnabledUplinkDataRates b" "GetHandler b (adr_init rnd b) i" for rnd b i
  by (rule adr_handlerI) (rule GetHandler_adapted)

section \<open>Properties\<close>

text \<open>
  C16: the LoRa algorithm in closed form. With SNRs, required SNR and margin in quarter dB, the
  number of 3 dB steps the code computes in \<open>float32\<close> is the exact one; a device with ADR
  disabled keeps its parameters, an error of the band is passed on, and otherwise positive
  steps first raise the data-rate to the highest LoRa data-rate allowed and then lower the
  transmit power, while negative steps raise the power when the twenty last uplinks used it.
\<close>

theorem default_adr_closed_form:
  assumes "\<forall>m \<in> set (hr_UplinkHistory req). on_grid 1000 (um_MaxSNR m)"
    and "on_grid 1000 (hr_RequiredSNRForDR req)" and "on_grid 1000 (hr_InstallationMargin req)"
  shows "DefaultHandler_Handle b req =
     (if \<not> hr_ADR req then Inr (current_response req)
      else case maxLoRaDR_loop b (GetEnabledUplinkDataRates b) 0 of
        Inl e \<Rightarrow> Inl e
      | Inr m \<Rightarrow> Inr (lora_response req (min (hr_MaxDR req) m))) \<and>
    nSteps req = trunc ((Max (insert (-999) (um_MaxSNR ` set (hr_UplinkHistory req)))
                         - hr_RequiredSNRForDR req - hr_InstallationMargin req) / 3)"
  using nSteps_grid [OF assms] DefaultHandler_spec [of b req]
  by (simp only: getMaxSNR_def maxSNR_loop_Max simp_thms)

text \<open>A request of a device with ADR enabled at DR 2, three 3 dB steps above what it needs.\<close>

definition sample_request :: handle_request where
  "sample_request =
     \<lparr>hr_Region = ''EU868'', hr_DevEUI = 1, hr_MACVersion = ''1.0.3'', hr_RegParamsRevision = ''A'',
      hr_ADR = True, hr_DR = 2, hr_TxPowerIndex = 0, hr_NbTrans = 1, hr_MaxTxPowerIndex = 5,
      hr_RequiredSNRForDR = -15, hr_InstallationMargin = 10, hr_MinDR = 0, hr_MaxDR = 4,
      hr_UplinkHistory = [\<lparr>um_FCnt = 10, um_MaxSNR = 17 / 4, um_MaxRSSI = -60, um_TXPowerIndex = 0,
                           um_GatewayCount = 1\<rparr>]\<rparr>"

lemma sample_request_grid:
  "\<forall>m \<in> set (hr_UplinkHistory sample_request). on_grid 1000 (um_MaxSNR m)"
  "on_grid 1000 (hr_RequiredSNRForDR sample_request)"
  "on_grid 1000 (hr_InstallationMargin sample_request)"
proof -
  have "on_grid 1000 (17 / 4)" by (rule on_gridI [where m = 17]) simp_all
  moreover have "on_grid 1000 (-15)" by (rule on_gridI [where m = "-60"]) simp_all
  moreover have "on_grid 1000 10" by (rule on_gridI [where m = 40]) simp_all
  ultimately show "\<forall>m \<in> set (hr_UplinkHistory sample_request). on_grid 1000 (um_MaxSNR m)"
    "on_grid 1000 (hr_RequiredSNRForDR sample_request)"
    "on_grid 1000 (hr_InstallationMargin sample_request)"
    by (simp_all add: sample_request_def)
qed

lemma trunc_9_25: "trunc (37 / 12) = 3"
  by code_simp

theorem default_adr_closed_form_witness:
  "DefaultHandler_Handle sample_band sample_request =
   Inr \<lparr>hp_DR = 4, hp_TxPowerIndex = 1, hp_NbTrans = 1\<rparr>"
proof -
  have "nSteps sample_request = trunc (37 / 12)"
    using default_adr_closed_form [OF sample_request_grid, of sample_band] by (simp add: sample_request_def)
  moreover have "maxLoRaDR_loop sample_band (GetEnabledUplinkDataRates sample_band) 0 = Inr 5"
    by (simp add: sample_band_def sample_data_rates_def)
  ultimately show ?thesis
    using default_adr_closed_form [OF sample_request_grid, of sample_band]
    by (simp add: trunc_9_25 sample_request_def lora_response_def lora_target_def Let_def
        getNbTrans_clamp getPacketLossPercentage_def requiredHistoryCount_def)
qed

text \<open>
  The number of transmissions follows the frames lost among the twenty last uplinks, for
  the frame counters modulo \<open>2 ^ 32\<close>: one transmission less when none is missing, as many when
  one is, one more for two to five and three from six on, always between one and three.
\<close>

theorem nb_trans_by_lost_frames:
  assumes "length (hr_UplinkHistory req) = 20"
    and "lost = uint (um_FCnt (last (hr_UplinkHistory req)) - um_FCnt (hd (hr_UplinkHistory req)) - 19)"
    and "cur = max 1 (min 3 (hr_NbTrans req))"
  shows "getNbTrans (hr_NbTrans req) (getPacketLossPercentage req) =
    (if lost = 0 then max 1 (cur - 1) else if lost = 1 then cur
     else if lost \<le> 5 then min 3 (cur + 1) else 3)"
proof -
  have ne: "hr_UplinkHistory req \<noteq> []" using assms(1) by auto
  have "lost_packets (map um_FCnt (hr_UplinkHistory req)) =
      um_FCnt (last (hr_UplinkHistory req)) - um_FCnt (hd (hr_UplinkHistory req)) - 19"
    using lost_packets_telescope [of "map um_FCnt (hr_UplinkHistory req)"] assms(1) ne
    by (simp add: last_map hd_map)
  then have "getPacketLossPercentage req = loss_rate lost"
    using getPacketLossPercentage_full [OF assms(1)] assms(2) by simp
  moreover have "0 \<le> lost" using assms(2) by simp
  moreover have "cur = 1 \<or> cur = 2 \<or> cur = 3" using assms(3) by linarith
  ultimately show ?thesis
    using loss_rate_thresholds [of lost]
    by (auto simp: getNbTrans_clamp Let_def assms(3) [symmetric])
qed

definition sample_history :: "u32 list \<Rightarrow> uplink_meta_data list" where
  "sample_history = map (\<lambda>f. \<lparr>um_FCnt = f, um_MaxSNR = 0, um_MaxRSSI = -100, um_TXPowerIndex = 0,
     um_GatewayCount = 1\<rparr>)"

theorem nb_trans_by_lost_frames_witness:
  "let req = sample_request\<lparr>hr_UplinkHistory :=
       sample_history [4294967290,4294967291,4294967292,4294967293,4294967294,4294967295,
         0,1,2,3,4,5,6,7,8,9,10,11,12,16]\<rparr>
   in getNbTrans (hr_NbTrans req) (getPacketLossPercentage req) = 2"
proof -
  define req where "req = sample_request\<lparr>hr_UplinkHistory :=
       sample_history [4294967290,4294967291,4294967292,4294967293,4294967294,4294967295,
         0,1,2,3,4,5,6,7,8,9,10,11,12,16]\<rparr>"
  have "getNbTrans (hr_NbTrans req) (getPacketLossPercentage req) = 2"
    using nb_trans_by_lost_frames [of req 3 1] by (simp add: req_def sample_history_def sample_request_def)
  then show ?thesis by (simp add: req_def)
qed

text \<open>
  Whatever built-in algorithm the registry gives for an identifier, the parameters it
  answers stay in the range of the request: a request within \<open>[0, n)\<close> gets a response within
  \<open>[0, n)\<close>, never a data-rate above the maximum or the current one, and a device with ADR
  disabled keeps its parameters.
\<close>

theorem builtin_adr_response_range:
  assumes "GetHandler b (adr_init rnd b) i req = Inr r"
    and "\<forall>j \<in> set (GetEnabledUplinkDataRates b). 0 \<le> j"
    and "hr_DR req \<in> {0..<n}" "hr_MaxDR req \<in> {0..<n}" "hr_TxPowerIndex req \<in> {0..<n}"
    and "hr_MaxTxPowerIndex req < n" "hr_NbTrans req \<in> {0..<n}" "3 < n"
  shows "hp_DR r \<in> {0..<n} \<and> hp_TxPowerIndex r \<in> {0..<n} \<and> hp_NbTrans r \<in> {0..<n} \<and>
    hp_DR r \<le> max (hr_DR req) (hr_MaxDR req) \<and> (\<not> hr_ADR req \<longrightarrow> r = current_response req)"
  using builtin_adr.response_range [OF assms(1,2), of n] builtin_adr.dr_upper [OF assms(1)]
    builtin_adr.disabled_keeps [OF assms(1)] assms(3-)
  by auto

theorem builtin_adr_response_range_witness:
  "\<exists>r. GetHandler sample_band (adr_init 7 sample_band) ''default'' (sample_request\<lparr>hr_ADR := False\<rparr>) = Inr r \<and>
     hp_DR r \<in> {0..<256} \<and> hp_TxPowerIndex r \<in> {0..<256} \<and> hp_NbTrans r \<in> {0..<256}"
proof -
  let ?req = "sample_request\<lparr>hr_ADR := False\<rparr>"
  have "GetHandler sample_band (adr_init 7 sample_band) ''default'' ?req = Inr (current_response ?req)"
    by (simp add: GetHandler_def adr_init_def DefaultHandler_spec)
  moreover have "\<forall>j \<in> set (GetEnabledUplinkDataRates sample_band). 0 \<le> j"
    by (simp add: sample_band_def sample_data_rates_def)
  ultimately show ?thesis
    using builtin_adr_response_range [of sample_band 7 "''default''" ?req _ 256]
    by (auto simp: sample_request_def)
qed

text \<open>
  The LR-FHSS algorithm either keeps the parameters of the device or picks an enabled
  LR-FHSS data-rate not above the maximum, with one transmission at full power; it picks
  coding-rate 4/6 only when the median RSSI of a full history is at least -130.
\<close>

theorem lr_fhss_choice:
  assumes "LRFHSSHandler_Handle rnd b req = Inr r"
  shows "r = current_response req \<or>
    (\<exists>cr. r = \<lparr>hp_DR = hp_DR r, hp_TxPowerIndex = 0, hp_NbTrans = 1\<rparr> \<and>
       lrfhss_choice b req cr (hp_DR r) \<and>
       (cr = ''1/3'' \<or> cr = ''4/6'' \<and> -130 \<le> getMedian (hr_UplinkHistory req) \<and>
                      length (hr_UplinkHistory req) = 20))"
  using assms by (rule LRFHSS_cases) auto

theorem lr_fhss_choice_witness:
  "lrfhss_choice sample_band (sample_request\<lparr>hr_MaxDR := 9\<rparr>) ''1/3'' 8 \<and>
   LRFHSSHandler_Handle 0 sample_band (sample_request\<lparr>hr_MaxDR := 9\<rparr>) =
     Inr \<lparr>hp_DR = 8, hp_TxPowerIndex = 0, hp_NbTrans = 1\<rparr>"
proof -
  let ?req = "sample_request\<lparr>hr_MaxDR := 9\<rparr>" and ?r = "\<lparr>hp_DR = 8, hp_TxPowerIndex = 0, hp_NbTrans = 1\<rparr>"
  have run: "LRFHSSHandler_Handle 0 sample_band ?req = Inr ?r"
    by (simp add: LRFHSSHandler_Handle_def sample_band_def sample_data_rates_def sample_request_def Let_def getMedian_def
        drs_with_coding_rate_def)
  moreover have "?r \<noteq> current_response ?req" by (simp add: current_response_def sample_request_def)
  ultimately show ?thesis
    using lr_fhss_choice [OF run] by (auto simp: sample_request_def)
qed

end
