(* ===== verification/ClassB.thy ===== *)
theory ClassB
  imports Gps
begin

text \<open>
  The Class-B beacon and ping-slot arithmetic of \<open>internal/helpers/classb/classb.go\<close>. The AES
  block encryption of the standard library is the parameter \<open>aes\<close> (key, block, index of an
  output byte), the library's byte encoding of a device address the parameter \<open>marshal\<close>.
  \<open>NewCipher\<close> cannot fail on the 16-byte key and AES blocks have 16 bytes, so the two checks
  that follow it are not branches of the model.
\<close>

unbundle bit_operations_syntax

section \<open>Definitions of classb.go\<close>

definition beaconPeriod :: duration where "beaconPeriod = 128 * second"
definition beaconReserved :: duration where "beaconReserved = 2120 * millisecond"
definition pingPeriodBase :: int where "pingPeriodBase = 4096"
definition slotLen :: duration where "slotLen = 30 * millisecond"

definition GetBeaconStartForTime :: "instant \<Rightarrow> duration" where
  "GetBeaconStartForTime ts =
     (let gpsTime = TimeSinceGPSEpoch ts in gpsTime - go_rem gpsTime beaconPeriod)"

definition le_bytes :: "u32 \<Rightarrow> byte list" where
  "le_bytes w = [ucast w, ucast (drop_bit 8 w), ucast (drop_bit 16 w), ucast (drop_bit 24 w)]"

definition ping_block :: "u32 \<Rightarrow> byte list \<Rightarrow> byte list" where
  "ping_block beaconTime devAddrBytes =
     le_bytes beaconTime @ take 4 (devAddrBytes @ replicate 4 0) @ replicate 8 0"

definition GetPingOffset ::
  "(byte list \<Rightarrow> byte list \<Rightarrow> nat \<Rightarrow> byte) \<Rightarrow> (devaddr \<Rightarrow> byte list res) \<Rightarrow>
   duration \<Rightarrow> devaddr \<Rightarrow> int \<Rightarrow> int res" where
  "GetPingOffset aes marshal beacon devAddr pingNb =
     (if pingNb = 0 then Inl (Errorf ''pingNb must be > 0'')
      else if go_rem beacon beaconPeriod \<noteq> 0 then Inl (Errorf ''beacon must be a multiple'')
      else case marshal devAddr of
        Inl e \<Rightarrow> Inl (Wrap e ''marshal devaddr error'')
      | Inr devAddrBytes \<Rightarrow>
          let pingPeriod = go_div pingPeriodBase pingNb;
              beaconTime = word_of_int (go_rem (go_div beacon second) (2 ^ 32));
              rand = aes (replicate 16 0) (ping_block beaconTime devAddrBytes)
          in if pingPeriod = 0 then Inl (Panic ''integer divide by zero'')
             else Inr (go_rem (uint (rand 0) + uint (rand 1) * 256) pingPeriod))"

definition slot_time :: "int \<Rightarrow> int \<Rightarrow> duration \<Rightarrow> int \<Rightarrow> duration" where
  "slot_time pingPeriod pingOffset beaconStart n =
     go_int64 (beaconStart + beaconReserved + (pingOffset + n * pingPeriod) * slotLen)"

text \<open>The outer loop has no bound of its own: \<open>None\<close> stands for running forever.\<close>

partial_function (option) ping_slot_loop ::
  "(duration \<Rightarrow> int res) \<Rightarrow> int \<Rightarrow> duration \<Rightarrow> duration \<Rightarrow> duration res option" where
  "ping_slot_loop offset pingNb after beaconStart =
     (case offset beaconStart of
        Inl e \<Rightarrow> Some (Inl e)
      | Inr pingOffset \<Rightarrow>
         (case find (\<lambda>t. t > after)
             (map (slot_time (go_div pingPeriodBase pingNb) pingOffset beaconStart) [0..pingNb - 1]) of
            Some t \<Rightarrow> Some (Inr t)
          | None \<Rightarrow> ping_slot_loop offset pingNb after (go_int64 (beaconStart + beaconPeriod))))"

definition GetNextPingSlotAfter ::
  "(byte list \<Rightarrow> byte list \<Rightarrow> nat \<Rightarrow> byte) \<Rightarrow> (devaddr \<Rightarrow> byte list res) \<Rightarrow>
   duration \<Rightarrow> devaddr \<Rightarrow> int \<Rightarrow> duration res option" where
  "GetNextPingSlotAfter aes marshal after devAddr pingNb =
     (if pingNb = 0 then Some (Inl (Errorf ''pingNb must be > 0''))
      else ping_slot_loop (\<lambda>beacon. GetPingOffset aes marshal beacon devAddr pingNb) pingNb after
             (after - go_rem after beaconPeriod))"

section \<open>The ping slots\<close>

text \<open>
  \<open>ping_slot off pn t\<close>: \<open>t\<close> is one of the \<open>pn\<close> slots of a beacon period, where \<open>off k\<close> is the
  offset of the period that starts \<open>k\<close> beacons after the GPS epoch.
\<close>

definition slot_of :: "(int \<Rightarrow> int) \<Rightarrow> int \<Rightarrow> int \<Rightarrow> int \<Rightarrow> duration" where
  "slot_of off pn k n =
     k * beaconPeriod + beaconReserved + (off k + n * (pingPeriodBase div pn)) * slotLen"

definition ping_slot :: "(int \<Rightarrow> int) \<Rightarrow> int \<Rightarrow> duration \<Rightarrow> bool" where
  "ping_slot off pn t \<longleftrightarrow> (\<exists>k n. 0 \<le> k \<and> 0 \<le> n \<and> n < pn \<and> t = slot_of off pn k n)"

lemmas class_b_defs =
  beaconPeriod_def beaconReserved_def slotLen_def pingPeriodBase_def second_def millisecond_def

definition offsets_ok :: "(int \<Rightarrow> int) \<Rightarrow> int \<Rightarrow> bool" where
  "offsets_ok off pn \<longleftrightarrow>
     0 < pn \<and> pn \<le> 4096 \<and> (\<forall>k. 0 \<le> off k \<and> off k < pingPeriodBase div pn)"

lemma offsets_okD:
  assumes "offsets_ok off pn"
  shows "0 < pn" "pn \<le> 4096" "0 \<le> off k" "off k < pingPeriodBase div pn" "0 < pingPeriodBase div pn"
  using assms le_less_trans by (auto simp: offsets_ok_def)

lemma slot_index:
  assumes "offsets_ok off pn" and "0 \<le> n" and "n < pn"
  shows "0 \<le> off k + n * (pingPeriodBase div pn)" and "off k + n * (pingPeriodBase div pn) < 4096"
proof -
  let ?p = "pingPeriodBase div pn"
  note ok = offsets_okD(1,2,5) [OF assms(1)] offsets_okD(3,4) [OF assms(1), of k]
  show "0 \<le> off k + n * ?p" using ok assms by simp
  have "(n + 1) * ?p \<le> pn * ?p" using ok assms by (intro mult_right_mono) auto
  also have "pn * ?p = pingPeriodBase - pingPeriodBase mod pn"
    by (simp add: minus_mod_eq_mult_div)
  also have "\<dots> \<le> pingPeriodBase" using ok(1) by simp
  finally show "off k + n * ?p < 4096"
    using ok by (simp add: algebra_simps pingPeriodBase_def)
qed

lemma slot_in_window:
  assumes "offsets_ok off pn" and "0 \<le> n" and "n < pn"
  shows "k * beaconPeriod < slot_of off pn k n" and "slot_of off pn k n < (k + 1) * beaconPeriod"
  using slot_index [OF assms, of k] by (auto simp: slot_of_def class_b_defs)

lemma slot_mono:
  assumes "offsets_ok off pn" and "m \<le> n"
  shows "slot_of off pn k m \<le> slot_of off pn k n"
proof -
  have "m * (pingPeriodBase div pn) \<le> n * (pingPeriodBase div pn)"
    using assms offsets_okD(5) by (simp add: mult_right_mono)
  then show ?thesis by (simp add: slot_of_def slotLen_def millisecond_def)
qed

lemma slot_other_beacon:
  assumes "offsets_ok off pn" and "k < k'" and "0 \<le> n" "n < pn" "0 \<le> n'" "n' < pn"
  shows "slot_of off pn k n < slot_of off pn k' n'"
proof -
  have "(k + 1) * beaconPeriod \<le> k' * beaconPeriod"
    using assms(2) by (intro mult_right_mono) (auto simp: class_b_defs)
  then show ?thesis
    using slot_in_window(2) [OF assms(1,3,4), of k] slot_in_window(1) [OF assms(1,5,6), of k'] by linarith
qed

text \<open>Slots of one period that are late enough, in the order the inner loop tries them.\<close>

lemma find_slot_Some:
  assumes ok: "offsets_ok off pn"
    and find: "find (\<lambda>t. t > after) (map (slot_of off pn k) [0..pn - 1]) = Some s"
    and "0 \<le> k" and "k * beaconPeriod \<le> after"
  shows "ping_slot off pn s" and "after < s" and "\<forall>t. ping_slot off pn t \<and> after < t \<longrightarrow> s \<le> t"
proof -
  obtain i where i: "i < nat pn" "s = slot_of off pn k (int i)" "after < s"
    and before: "\<forall>j < i. \<not> after < slot_of off pn k (int j)"
    using find by (auto simp: find_Some_iff nth_upto)
  show "ping_slot off pn s" using i(1,2) assms(3) unfolding ping_slot_def
    by (intro exI [of _ k] exI [of _ "int i"]) auto
  show "after < s" by (rule i(3))
  show "\<forall>t. ping_slot off pn t \<and> after < t \<longrightarrow> s \<le> t"
  proof (intro allI impI, elim conjE)
    fix t assume "ping_slot off pn t" "after < t"
    then obtain k' n where t: "t = slot_of off pn k' n" "0 \<le> n" "n < pn"
      by (auto simp: ping_slot_def)
    consider "k' < k" | "k' = k" | "k < k'" by linarith
    then show "s \<le> t"
    proof cases
      case 1
      then have "(k' + 1) * beaconPeriod \<le> k * beaconPeriod"
        by (intro mult_right_mono) (auto simp: class_b_defs)
      then have "t < after" using slot_in_window(2) [OF ok t(2,3), of k'] assms(4) t(1) by linarith
      then show ?thesis using \<open>after < t\<close> by simp
    next
      case 2
      have "i \<le> nat n" using before \<open>after < t\<close> t 2 by (metis int_nat_eq not_less)
      then have "int i \<le> n" using t(2) by linarith
      then show ?thesis using slot_mono [OF ok] by (simp add: i(2) t(1) 2)
    next
      case 3
      moreover have "int i < pn" using i(1) by linarith
      ultimately show ?thesis
        using slot_other_beacon [OF ok, of k k' "int i" n] i(2) t by simp
    qed
  qed
qed

lemma find_slot_None:
  assumes ok: "offsets_ok off pn"
    and find: "find (\<lambda>t. t > after) (map (slot_of off pn k) [0..pn - 1]) = None"
    and "0 \<le> k" and "k * beaconPeriod \<le> after" and "after < (k + 1) * beaconPeriod"
  shows "find (\<lambda>t. t > after) (map (slot_of off pn (k + 1)) [0..pn - 1]) = Some (slot_of off pn (k + 1) 0)"
    and "\<forall>t. ping_slot off pn t \<and> after < t \<longrightarrow> slot_of off pn (k + 1) 0 \<le> t"
proof -
  have pn: "0 < pn" using ok by (rule offsets_okD)
  have late: "after < slot_of off pn (k + 1) 0"
    using slot_in_window(1) [OF ok _ pn, of "k + 1"] assms(5) by simp
  have "[0..pn - 1] = 0 # [1..pn - 1]" using pn by (simp add: upto_rec1)
  then show "find (\<lambda>t. t > after) (map (slot_of off pn (k + 1)) [0..pn - 1]) = Some (slot_of off pn (k + 1) 0)"
    using late by simp
  show "\<forall>t. ping_slot off pn t \<and> after < t \<longrightarrow> slot_of off pn (k + 1) 0 \<le> t"
  proof (intro allI impI, elim conjE)
    fix t assume "ping_slot off pn t" "after < t"
    then obtain k' n where t: "t = slot_of off pn k' n" "0 \<le> n" "n < pn"
      by (auto simp: ping_slot_def)
    have "k < k'"
    proof (rule ccontr)
      assume "\<not> k < k'"
      then consider "k' = k" | "k' < k" by linarith
      then show False
      proof cases
        case 1
        then have "t \<in> set (map (slot_of off pn k) [0..pn - 1])" using t by simp
        then show False using find \<open>after < t\<close> by (auto simp: find_None_iff)
      next
        case 2
        then have "(k' + 1) * beaconPeriod \<le> k * beaconPeriod"
          by (intro mult_right_mono) (auto simp: class_b_defs)
        then show False
          using slot_in_window(2) [OF ok t(2,3), of k'] assms(4) t(1) \<open>after < t\<close> by linarith
      qed
    qed
    then consider "k' = k + 1" | "k + 1 < k'" by linarith
    then show "slot_of off pn (k + 1) 0 \<le> t"
    proof cases
      case 1
      then show ?thesis using slot_mono [OF ok t(2)] t(1) by simp
    next
      case 2
      then show ?thesis using slot_other_beacon [OF ok 2 _ pn t(2,3)] t(1) by simp
    qed
  qed
qed


section \<open>The scheduling loop\<close>

lemma slot_time_slot_of:
  assumes "offsets_ok off pn" and "0 \<le> n" "n < pn" and "0 \<le> k" and "(k + 1) * beaconPeriod < 2 ^ 63"
  shows "slot_time (go_div pingPeriodBase pn) (off k) (k * beaconPeriod) n = slot_of off pn k n"
proof -
  have "0 \<le> k * beaconPeriod" using assms(4) by (simp add: class_b_defs)
  then have "- (2 ^ 63) \<le> slot_of off pn k n" "slot_of off pn k n < 2 ^ 63"
    using slot_in_window [OF assms(1-3), of k] assms(5) by linarith+
  then show ?thesis
    using offsets_okD(1) [OF assms(1)]
    by (simp add: slot_time_def slot_of_def go_simps go_int64_id pingPeriodBase_def)
qed

lemma map_slot_time:
  assumes "offsets_ok off pn" and "0 \<le> k" and "(k + 1) * beaconPeriod < 2 ^ 63"
  shows "map (slot_time (go_div pingPeriodBase pn) (off k) (k * beaconPeriod)) [0..pn - 1] =
    map (slot_of off pn k) [0..pn - 1]"
  using slot_time_slot_of [OF assms(1) _ _ assms(2,3)] by simp

lemma ping_slot_loop_least:
  assumes ok: "offsets_ok off pn" and offset: "\<And>k. 0 \<le> k \<Longrightarrow> offset (k * beaconPeriod) = Inr (off k)"
    and k: "0 \<le> k" "k * beaconPeriod \<le> after" "after < (k + 1) * beaconPeriod" "after < 2 ^ 62"
  shows "\<exists>s. ping_slot_loop offset pn after (k * beaconPeriod) = Some (Inr s) \<and>
    ping_slot off pn s \<and> after < s \<and> (\<forall>t. ping_slot off pn t \<and> after < t \<longrightarrow> s \<le> t)"
proof -
  have small: "(k + 1) * beaconPeriod < 2 ^ 63" "(k + 1 + 1) * beaconPeriod < 2 ^ 63"
    using k by (auto simp: class_b_defs algebra_simps)
  note slots = map_slot_time [OF ok k(1) small(1)]
  have "0 \<le> k + 1" using k(1) by simp
  note slots' = map_slot_time [OF ok this small(2)]
  show ?thesis
  proof (cases "find (\<lambda>t. t > after) (map (slot_of off pn k) [0..pn - 1])")
    case (Some s)
    then have "ping_slot_loop offset pn after (k * beaconPeriod) = Some (Inr s)"
      by (subst ping_slot_loop.simps) (simp add: offset k slots)
    then show ?thesis using find_slot_Some [OF ok Some k(1,2)] by blast
  next
    case None
    let ?s = "slot_of off pn (k + 1) 0"
    have pn: "0 < pn" using ok by (rule offsets_okD)
    have next_beacon: "go_int64 (k * beaconPeriod + beaconPeriod) = (k + 1) * beaconPeriod"
      using small(1) k(1) by (subst go_int64_id) (auto simp: class_b_defs algebra_simps)
    have "ping_slot_loop offset pn after (k * beaconPeriod) =
        ping_slot_loop offset pn after ((k + 1) * beaconPeriod)"
      using None by (subst ping_slot_loop.simps) (simp add: offset k slots next_beacon)
    also have "\<dots> = Some (Inr ?s)"
      using find_slot_None(1) [OF ok None k(1-3)] k(1)
      by (subst ping_slot_loop.simps) (simp add: offset slots')
    finally have "ping_slot_loop offset pn after (k * beaconPeriod) = Some (Inr ?s)" .
    moreover have "ping_slot off pn ?s"
      using k(1) pn unfolding ping_slot_def by (intro exI [of _ "k + 1"] exI [of _ 0]) simp
    moreover have "after < ?s"
      using slot_in_window(1) [OF ok _ pn, of "k + 1"] k(3) by simp
    ultimately show ?thesis using find_slot_None(2) [OF ok None k(1-3)] by blast
  qed
qed


lemma ping_slot_loop_after:
  assumes "ping_slot_loop offset pn after start = Some (Inr s)"
  shows "after < s"
proof -
  have "\<And>r. ping_slot_loop offset pn after start = Some r \<Longrightarrow> case r of Inl _ \<Rightarrow> True | Inr s \<Rightarrow> after < s"
  proof (rule ping_slot_loop.raw_induct [where P = "\<lambda>offset pn after start r.
      case r of Inl _ \<Rightarrow> True | Inr s \<Rightarrow> after < s"])
    fix loop offset pn after start r
    assume IH: "\<And>offset pn after start r. loop offset pn after start = Some r \<Longrightarrow>
        case r of Inl _ \<Rightarrow> True | Inr s \<Rightarrow> after < (s :: duration)"
      and eq: "(case offset start of Inl e \<Rightarrow> Some (Inl e)
         | Inr pingOffset \<Rightarrow>
           (case find (\<lambda>t. t > after)
              (map (slot_time (go_div pingPeriodBase pn) pingOffset start) [0..pn - 1]) of
              Some t \<Rightarrow> Some (Inr t)
            | None \<Rightarrow> loop offset pn after (go_int64 (start + beaconPeriod)))) = Some r"
    show "case r of Inl _ \<Rightarrow> True | Inr s \<Rightarrow> after < s"
      using eq by (auto simp: find_Some_iff split: sum.splits option.splits dest: IH)
  qed
  then show ?thesis using assms by fastforce
qed

text \<open>
  The interface the downlink queues use: asked for a slot after an instant, a scheduler that
  answers names a later one. Queue items scheduled one after the other, each a margin after
  the one before, are emitted in the order they were queued.
\<close>

locale slot_scheduler =
  fixes next_slot :: "duration \<Rightarrow> duration res option"
  assumes next_slot_after: "next_slot t = Some (Inr s) \<Longrightarrow> t < s"
begin

inductive schedule :: "duration \<Rightarrow> duration \<Rightarrow> duration list \<Rightarrow> bool" for margin where
  schedule_Nil: "schedule margin t []"
| schedule_Cons: "next_slot (t + margin) = Some (Inr s) \<Longrightarrow> schedule margin s ss \<Longrightarrow>
    schedule margin t (s # ss)"

lemma schedule_sorted:
  assumes "schedule margin t ss" and "0 \<le> margin"
  shows "sorted_wrt (<) (t # ss)"
  using assms
proof (induction rule: schedule.induct)
  case (schedule_Cons t s ss)
  then have "t < s" using next_slot_after by fastforce
  with schedule_Cons show ?case by fastforce
qed simp

end

interpretation class_b: slot_scheduler "\<lambda>t. GetNextPingSlotAfter aes marshal t devAddr pingNb"
  for aes marshal devAddr pingNb
  by unfold_locales (auto simp: GetNextPingSlotAfter_def split: if_splits dest: ping_slot_loop_after)

section \<open>Properties\<close>

lemma GetPingOffset_value:
  assumes "marshal devAddr = Inr bs" and "0 < pingNb" and "pingNb \<le> 4096"
  obtains off where "offsets_ok off pingNb"
    and "\<And>k. 0 \<le> k \<Longrightarrow> GetPingOffset aes marshal (k * beaconPeriod) devAddr pingNb = Inr (off k)"
proof
  define rnd where "rnd k = aes (replicate 16 0)
    (ping_block (word_of_int (go_rem (go_div (k * beaconPeriod) second) (2 ^ 32))) bs)" for k
  let ?off = "\<lambda>k. (uint (rnd k 0) + uint (rnd k 1) * 256) mod (pingPeriodBase div pingNb)"
  have p: "0 < pingPeriodBase div pingNb"
    using assms(2,3) by (simp add: pingPeriodBase_def pos_imp_zdiv_pos_iff)
  then show "offsets_ok ?off pingNb"
    using assms(2,3) by (simp add: offsets_ok_def)
  fix k :: int assume "0 \<le> k"
  have nonneg: "0 \<le> k * beaconPeriod" and pos: "0 < beaconPeriod" "0 < pingPeriodBase"
    using \<open>0 \<le> k\<close> by (simp_all add: class_b_defs)
  have "go_rem (k * beaconPeriod) beaconPeriod = 0" using nonneg pos by (simp add: go_simps)
  then show "GetPingOffset aes marshal (k * beaconPeriod) devAddr pingNb = Inr (?off k)"
    using assms p pos by (simp add: GetPingOffset_def rnd_def go_simps Let_def)
qed

lemma next_ping_slot_after:
  assumes "marshal devAddr = Inr bs" and "0 < pingNb" and "pingNb \<le> 4096"
    and "0 \<le> after" and "after < 2 ^ 62"
  shows "\<exists>off s.
    (\<forall>k \<ge> 0. GetPingOffset aes marshal (k * beaconPeriod) devAddr pingNb = Inr (off k)) \<and>
    GetNextPingSlotAfter aes marshal after devAddr pingNb = Some (Inr s) \<and>
    ping_slot off pingNb s \<and> after < s \<and> (\<forall>t. ping_slot off pingNb t \<and> after < t \<longrightarrow> s \<le> t)"
proof -
  obtain off where off: "offsets_ok off pingNb"
    "\<And>k. 0 \<le> k \<Longrightarrow> GetPingOffset aes marshal (k * beaconPeriod) devAddr pingNb = Inr (off k)"
    using GetPingOffset_value [of marshal devAddr bs pingNb aes] assms(1-3) by blast
  define k where "k = after div beaconPeriod"
  have pos: "0 < beaconPeriod" by (simp add: class_b_defs)
  have "after = k * beaconPeriod + after mod beaconPeriod" by (simp add: k_def)
  moreover have "0 \<le> after mod beaconPeriod" "after mod beaconPeriod < beaconPeriod"
    using pos by auto
  ultimately have k: "k * beaconPeriod \<le> after" "after < (k + 1) * beaconPeriod"
    by (auto simp: algebra_simps)
  have "0 \<le> k" using assms(4) pos by (simp add: k_def pos_imp_zdiv_nonneg_iff)
  moreover have "after - go_rem after beaconPeriod = k * beaconPeriod"
    using assms(4) pos by (simp add: go_simps k_def minus_mod_eq_div_mult)
  ultimately show ?thesis
    using ping_slot_loop_least [OF off _ k assms(5)] off(2) assms(2)
    by (auto simp: GetNextPingSlotAfter_def)
qed

text \<open>
  C17: the next ping slot. For one to 4096 pings per beacon period, \<open>GetNextPingSlotAfter\<close>
  returns, and what it returns is the first of all ping slots of the device after the given
  instant, in this beacon period or a later one.
\<close>

theorem next_ping_slot_is_least:
  assumes "marshal devAddr = Inr bs" and "0 < pingNb" and "pingNb \<le> 4096"
    and "0 \<le> after" and "after < 2 ^ 62"
  shows "\<exists>off s.
    (\<forall>k \<ge> 0. GetPingOffset aes marshal (k * beaconPeriod) devAddr pingNb = Inr (off k)) \<and>
    GetNextPingSlotAfter aes marshal after devAddr pingNb = Some (Inr s) \<and>
    ping_slot off pingNb s \<and> after < s \<and> (\<forall>t. ping_slot off pingNb t \<and> after < t \<longrightarrow> s \<le> t)"
  using next_ping_slot_after [of marshal devAddr bs pingNb after aes] assms by simp

theorem next_ping_slot_is_least_witness:
  "\<exists>off s. GetNextPingSlotAfter (\<lambda>_ _ _. 0) (\<lambda>_. Inr [1, 2, 3, 4]) 1000 0 16 = Some (Inr s) \<and>
     ping_slot off 16 s \<and> 1000 < s"
  using next_ping_slot_is_least [of "\<lambda>_. Inr [1, 2, 3, 4]" 0 "[1, 2, 3, 4]" 16 1000 "\<lambda>_ _ _. 0"]
  by auto

text \<open>
  C18: the ping offset is a slot number below the ping period, an error for zero pings or a
  time that does not start a beacon period, and a division by zero (a panic) when a device
  asks for more pings than a beacon period has slots.
\<close>

theorem ping_offset_outcomes:
  "(pingNb = 0 \<longrightarrow> (\<exists>m. GetPingOffset aes marshal beacon devAddr pingNb = Inl (Errorf m))) \<and>
   (go_rem beacon beaconPeriod \<noteq> 0 \<longrightarrow>
      (\<exists>m. GetPingOffset aes marshal beacon devAddr pingNb = Inl (Errorf m))) \<and>
   (0 < pingNb \<and> pingNb \<le> 4096 \<and> go_rem beacon beaconPeriod = 0 \<and> marshal devAddr = Inr bs \<longrightarrow>
      (\<exists>n. GetPingOffset aes marshal beacon devAddr pingNb = Inr n \<and> 0 \<le> n \<and> n < 4096 div pingNb)) \<and>
   (4096 < pingNb \<and> go_rem beacon beaconPeriod = 0 \<and> marshal devAddr = Inr bs \<longrightarrow>
      (\<exists>m. GetPingOffset aes marshal beacon devAddr pingNb = Inl (Panic m)))"
proof -
  have p: "0 < pingPeriodBase div pingNb" "pingPeriodBase div pingNb = 4096 div pingNb"
    if "0 < pingNb" "pingNb \<le> 4096"
    using that by (simp_all add: pingPeriodBase_def pos_imp_zdiv_pos_iff)
  have z: "go_div pingPeriodBase pingNb = 0" if "4096 < pingNb"
    using that by (simp add: go_simps pingPeriodBase_def)
  show ?thesis using p z by (auto simp: GetPingOffset_def go_simps pingPeriodBase_def Let_def)
qed

theorem ping_offset_outcomes_witness:
  "\<exists>n. GetPingOffset (\<lambda>_ _ _. 255) (\<lambda>_. Inr [1, 2, 3, 4]) (128 * second) 1 64 = Inr n \<and> 0 \<le> n \<and> n < 64"
proof -
  have "go_rem (128 * second) beaconPeriod = 0" by (simp add: go_simps beaconPeriod_def second_def)
  then show ?thesis
    using ping_offset_outcomes [of 64 "\<lambda>_ _ _. 255" "\<lambda>_. Inr [1, 2, 3, 4]" "128 * second" 1] by simp
qed

end
