(* ===== verification/DeviceSession.thy ===== *)
theory DeviceSession
  imports GoFloat Gps Lorawan Profiles
begin

text \<open>
  The device-session of \<open>internal/storage/device_session.go\<close> and its pure operations: the
  uplink history, the packet-loss percentage, the reset to boot parameters and the
  reconstruction of the 32-bit frame counter. The \<open>PendingRejoinDeviceSession\<close> pointer makes
  the Go struct recursive: \<open>ds_Pending\<close> is the chain of pending sessions reached through it,
  outermost first, empty for nil.
\<close>

section \<open>State\<close>

definition UplinkHistorySize :: nat where "UplinkHistorySize = 20"

record uplink_history =
  uh_FCnt :: u32
  uh_MaxSNR :: rat
  uh_MaxRSSI :: int
  uh_TXPowerIndex :: int
  uh_GatewayCount :: int

record key_envelope =
  ke_KEKLabel :: string
  ke_AESKey :: "byte list"

record session =
  ds_MACVersion :: string
  ds_DeviceProfileID :: uuid
  ds_ServiceProfileID :: uuid
  ds_RoutingProfileID :: uuid
  ds_DevAddr :: devaddr
  ds_DevEUI :: eui64
  ds_JoinEUI :: eui64
  ds_FNwkSIntKey :: aeskey
  ds_SNwkSIntKey :: aeskey
  ds_NwkSEncKey :: aeskey
  ds_AppSKeyEvelope :: "key_envelope option"
  ds_FCntUp :: u32
  ds_NFCntDown :: u32
  ds_AFCntDown :: u32
  ds_ConfFCnt :: u32
  ds_SkipFCntValidation :: bool
  ds_RXWindow :: int
  ds_RXDelay :: byte
  ds_RX1DROffset :: byte
  ds_RX2DR :: byte
  ds_RX2Frequency :: u32
  ds_TXPowerIndex :: int
  ds_DR :: int
  ds_ADR :: bool
  ds_MinSupportedTXPowerIndex :: int
  ds_MaxSupportedTXPowerIndex :: int
  ds_NbTrans :: byte
  ds_EnabledChannels :: "int list"
  ds_EnabledUplinkChannels :: "int list"
  ds_ExtraUplinkChannels :: "(int, channel) gomap"
  ds_ChannelFrequencies :: "u32 list"
  ds_UplinkHistory :: "uplink_history list"
  ds_LastDevStatusRequested :: instant
  ds_BeaconLocked :: bool
  ds_PingSlotNb :: int
  ds_PingSlotDR :: int
  ds_PingSlotFrequency :: u32
  ds_RejoinRequestEnabled :: bool
  ds_RejoinRequestMaxCountN :: int
  ds_RejoinRequestMaxTimeN :: int
  ds_RejoinCount0 :: u16
  ds_ReferenceAltitude :: rat
  ds_UplinkDwellTime400ms :: bool
  ds_DownlinkDwellTime400ms :: bool
  ds_UplinkMaxEIRPIndex :: byte
  ds_MACCommandErrorCount :: "(cid, int) gomap"
  ds_IsDisabled :: bool

record device_session = session +
  ds_Pending :: "session list"

definition with_pending :: "session \<Rightarrow> session list \<Rightarrow> device_session" where
  "with_pending s ps = session.extend s (device_session.fields ps)"

definition PendingRejoinDeviceSession :: "device_session \<Rightarrow> device_session option" where
  "PendingRejoinDeviceSession s =
     (case ds_Pending s of [] \<Rightarrow> None | p # ps \<Rightarrow> Some (with_pending p ps))"

section \<open>Operations\<close>

definition AppendUplinkHistory :: "uplink_history \<Rightarrow> 'a session_scheme \<Rightarrow> 'a session_scheme" where
  "AppendUplinkHistory up s =
     (if ds_UplinkHistory s \<noteq> [] \<and> uh_FCnt (last (ds_UplinkHistory s)) = uh_FCnt up then s
      else let h = ds_UplinkHistory s @ [up]; count = length h
           in if count > UplinkHistorySize
              then s\<lparr>ds_UplinkHistory := drop (count - UplinkHistorySize) h\<rparr>
              else s\<lparr>ds_UplinkHistory := h\<rparr>)"

definition GetPacketLossPercentage :: "'a session_scheme \<Rightarrow> rat" where
  "GetPacketLossPercentage s =
     (if length (ds_UplinkHistory s) < UplinkHistorySize then 0
      else f64_mul (f64_div (f64 (of_int (uint (lost_packets (map uh_FCnt (ds_UplinkHistory s))))))
                            (f64 (of_nat (length (ds_UplinkHistory s))))) 100)"

datatype mac_version = LoRaWAN1_0 | LoRaWAN1_1

definition GetMACVersion :: "'a session_scheme \<Rightarrow> mac_version" where
  "GetMACVersion s = (if take 3 (ds_MACVersion s) = ''1.1'' then LoRaWAN1_1 else LoRaWAN1_0)"

text \<open>
  The tail of \<open>ResetToBootParameters\<close>: the factory frequencies beyond the standard channels.
  The map of extra channels is fresh there, so storing to it does not fail.
\<close>

fun reset_extra_channels ::
  "band \<Rightarrow> u32 list \<Rightarrow> 'a session_scheme \<Rightarrow> 'a session_scheme" where
  "reset_extra_channels b [] s = s"
| "reset_extra_channels b (f # fs) s =
     (case GetUplinkChannelIndex b f False of
        Inl _ \<Rightarrow> reset_extra_channels b fs s
      | Inr i \<Rightarrow>
          let s = s\<lparr>ds_EnabledUplinkChannels := ds_EnabledUplinkChannels s @ [i]\<rparr> in
          (case GetUplinkChannel b i of
             Inl _ \<Rightarrow> reset_extra_channels b fs s
           | Inr c \<Rightarrow>
              (case gomap_put (ds_ExtraUplinkChannels s) i c of
                 Inl _ \<Rightarrow> s
               | Inr m \<Rightarrow> reset_extra_channels b fs (s\<lparr>ds_ExtraUplinkChannels := m\<rparr>))))"

definition ResetToBootParameters ::
  "band \<Rightarrow> device_profile \<Rightarrow> 'a session_scheme \<Rightarrow> 'a session_scheme" where
  "ResetToBootParameters b dp s =
     (if dp_SupportsJoin dp then s
      else
        let s = s\<lparr>ds_TXPowerIndex := 0,
                  ds_MinSupportedTXPowerIndex := 0,
                  ds_MaxSupportedTXPowerIndex := 0,
                  ds_ExtraUplinkChannels := Some [],
                  ds_RXDelay := word_of_int (dp_RXDelay1 dp),
                  ds_RX1DROffset := word_of_int (dp_RXDROffset1 dp),
                  ds_RX2DR := word_of_int (dp_RXDataRate2 dp),
                  ds_RX2Frequency := dp_RXFreq2 dp,
                  ds_EnabledUplinkChannels := GetStandardUplinkChannelIndices b,
                  ds_ChannelFrequencies := dp_FactoryPresetFreqs dp,
                  ds_PingSlotDR := dp_PingSlotDR dp,
                  ds_PingSlotFrequency := dp_PingSlotFreq dp,
                  ds_NbTrans := 1\<rparr>;
            s = (if dp_PingSlotPeriod dp \<noteq> 0
                 then s\<lparr>ds_PingSlotNb := go_div (2 ^ 12) (dp_PingSlotPeriod dp)\<rparr> else s)
        in if length (dp_FactoryPresetFreqs dp) > length (ds_EnabledUplinkChannels s)
           then reset_extra_channels b
                  (drop (length (ds_EnabledUplinkChannels s)) (dp_FactoryPresetFreqs dp)) s
           else s)"

definition GetFullFCntUp :: "u32 \<Rightarrow> u32 \<Rightarrow> u32" where
  "GetFullFCntUp nextExpectedFullFCnt truncatedFCntUp =
     (let next16 = ucast (nextExpectedFullFCnt mod 2 ^ 16) :: u16 in
      if truncatedFCntUp = ucast (next16 - 1) then nextExpectedFullFCnt - 1
      else nextExpectedFullFCnt + ucast ((ucast truncatedFCntUp :: u16) - next16))"

section \<open>Frame counters over the integers\<close>

lemma uint_u32_mod_16: "uint (x mod 2 ^ 16 :: u32) = uint x mod 2 ^ 16"
  by (simp add: uint_mod)

lemma ucast_u32_u16: "uint (ucast (x :: u32) :: u16) = uint x mod 65536"
  by (simp add: unsigned_ucast_eq take_bit_eq_mod)

lemma ucast_u16_u32: "uint (ucast (x :: u16) :: u32) = uint x"
proof -
  have "uint x < 65536" using uint_lt2p [of x] by simp
  then show ?thesis by (simp add: unsigned_ucast_eq take_bit_eq_mod)
qed

text \<open>The counter distance of 16 bits, over the integers.\<close>

lemma uint_add_mod: "uint (x + y :: u32) = (uint x + uint y) mod 4294967296"
  by (simp add: uint_word_ariths)
lemma uint_sub_mod: "uint (x - y :: u32) = (uint x - uint y) mod 4294967296"
  by (simp add: uint_word_ariths)
lemma uint_sub_mod16: "uint (x - y :: u16) = (uint x - uint y) mod 65536"
  by (simp add: uint_word_ariths)

lemma uint_u32_bounds: "0 \<le> uint (x :: u32)" "uint x < 4294967296"
  using uint_lt2p [of x] by auto

lemma GetFullFCntUp_value:
  "uint (GetFullFCntUp n t) =
     (if uint t = (uint n - 1) mod 65536 then (uint n - 1) mod 4294967296
      else (uint n + (uint t - uint n) mod 65536) mod 4294967296)"
proof -
  define m where "m = (ucast (n mod 2 ^ 16) :: u16)"
  have m: "uint m = uint n mod 65536"
    by (simp add: m_def ucast_u32_u16 uint_mod)
  have def: "GetFullFCntUp n t = (if t = ucast (m - 1) then n - 1 else n + ucast (ucast t - m))"
    by (simp add: GetFullFCntUp_def m_def)
  have eq: "t = ucast (m - 1) \<longleftrightarrow> uint t = (uint n - 1) mod 65536"
    by (simp add: word_uint_eq_iff ucast_u16_u32 uint_sub_mod16 m mod_diff_left_eq)
  have "uint (n - 1) = (uint n - 1) mod 4294967296"
    by (simp add: uint_sub_mod)
  moreover have "uint (n + ucast (ucast t - m)) = (uint n + (uint t - uint n) mod 65536) mod 4294967296"
    by (simp add: uint_add_mod ucast_u16_u32 uint_sub_mod16 ucast_u32_u16 m mod_diff_eq)
  ultimately show ?thesis by (simp add: def eq)
qed

lemma GetFullFCntUp_reconstructs:
  assumes "uint (c - (n - 1)) < 65536"
  shows "GetFullFCntUp n (c mod 2 ^ 16) = c"
proof -
  define w where "w = c - (n - 1)"
  define x d where "x = uint n - 1" and "d = uint w"
  have d: "0 \<le> d" "d < 65536" using assms by (simp_all add: d_def w_def)
  have "c = n - 1 + w" by (simp add: w_def)
  then have uc: "uint c = (x + d) mod 4294967296"
    by (simp only: uint_add_mod uint_sub_mod x_def d_def uint_1 mod_add_left_eq)
  have t: "uint (c mod 2 ^ 16) = (x + d) mod 65536"
    by (simp add: uint_mod uc mod_mod_cancel)
  have value': "uint (GetFullFCntUp n (c mod 2 ^ 16)) =
     (if (x + d) mod 65536 = x mod 65536 then x mod 4294967296
      else (x + 1 + ((x + d) mod 65536 - (x + 1)) mod 65536) mod 4294967296)"
    unfolding GetFullFCntUp_value t by (simp add: x_def)
  show ?thesis
  proof (cases "d = 0")
    case True
    show ?thesis unfolding word_uint_eq_iff value' uc by (simp add: True)
  next
    case False
    have "(x + d) mod 65536 \<noteq> x mod 65536"
    proof
      assume "(x + d) mod 65536 = x mod 65536"
      then have "65536 dvd d" by (metis add_diff_cancel_left' mod_eq_dvd_iff)
      then show False using d False by (auto dest: zdvd_imp_le)
    qed
    moreover have "((x + d) mod 65536 - (x + 1)) mod 65536 = d - 1"
    proof -
      have "((x + d) mod 65536 - (x + 1)) mod 65536 = (x + d - (x + 1)) mod 65536"
        by (rule mod_diff_left_eq)
      then show ?thesis using d False by simp
    qed
    ultimately show ?thesis
      unfolding word_uint_eq_iff value' uc by simp
  qed
qed

lemma GetFullFCntUp_window:
  assumes "uint t < 65536"
  shows "GetFullFCntUp n t mod 2 ^ 16 = t" and "uint (GetFullFCntUp n t - (n - 1)) < 65536"
proof -
  define x r where "x = uint n" and "r = (uint t - x) mod 65536"
  have r: "0 \<le> r" "r < 65536" by (simp_all add: r_def)
  have v: "uint (GetFullFCntUp n t) =
     (if uint t = (x - 1) mod 65536 then (x - 1) mod 4294967296 else (x + r) mod 4294967296)"
    by (simp add: GetFullFCntUp_value x_def r_def)
  have "(x + r) mod 65536 = uint t mod 65536" by (simp add: r_def mod_add_right_eq)
  then show "GetFullFCntUp n t mod 2 ^ 16 = t"
    using assms by (simp add: word_uint_eq_iff uint_mod v mod_mod_cancel)
  have u1: "uint (n - 1) = (x - 1) mod 4294967296" by (simp add: uint_sub_mod x_def)
  show "uint (GetFullFCntUp n t - (n - 1)) < 65536"
  proof (cases "uint t = (x - 1) mod 65536")
    case True
    then show ?thesis unfolding uint_sub_mod [of "GetFullFCntUp n t"] u1 v by simp
  next
    case False
    have "r \<noteq> 65535"
    proof
      assume "r = 65535"
      then have "((uint t - x) mod 65536 + 1) mod 65536 = 0" by (simp add: r_def)
      then have "(uint t - x + 1) mod 65536 = 0" by (simp only: mod_add_left_eq)
      moreover have "uint t - x + 1 = uint t - (x - 1)" by simp
      ultimately have "65536 dvd uint t - (x - 1)" by (simp add: dvd_eq_mod_eq_0)
      then have "uint t mod 65536 = (x - 1) mod 65536" by (simp add: mod_eq_dvd_iff)
      then show False using False assms by simp
    qed
    moreover have "uint (GetFullFCntUp n t - (n - 1)) = (x + r - (x - 1)) mod 4294967296"
      unfolding uint_sub_mod [of "GetFullFCntUp n t"] u1 v using False
      by (simp only: if_False mod_diff_eq)
    ultimately show ?thesis using r by simp
  qed
qed

section \<open>The uplink history\<close>

text \<open>At most twenty records, neighbours with different frame counters.\<close>

definition history_ok :: "uplink_history list \<Rightarrow> bool" where
  "history_ok h \<longleftrightarrow> length h \<le> UplinkHistorySize \<and> distinct_adj (map uh_FCnt h)"

lemma distinct_adj_drop: "distinct_adj xs \<Longrightarrow> distinct_adj (drop n xs)"
  by (metis append_take_drop_id distinct_adj_append_iff)

lemma AppendUplinkHistory_history:
  "ds_UplinkHistory (AppendUplinkHistory up s) =
     (let h = ds_UplinkHistory s in
      if h \<noteq> [] \<and> uh_FCnt (last h) = uh_FCnt up then h
      else drop (length h + 1 - UplinkHistorySize) (h @ [up]))"
  by (auto simp: AppendUplinkHistory_def Let_def)

lemma AppendUplinkHistory_frame:
  "AppendUplinkHistory up s = s\<lparr>ds_UplinkHistory := ds_UplinkHistory (AppendUplinkHistory up s)\<rparr>"
  by (auto simp: AppendUplinkHistory_def Let_def)

lemma AppendUplinkHistory_ok:
  assumes "history_ok (ds_UplinkHistory s)"
  shows "history_ok (ds_UplinkHistory (AppendUplinkHistory up s))"
proof -
  let ?h = "ds_UplinkHistory s"
  have "distinct_adj (map uh_FCnt (?h @ [up]))" if "?h = [] \<or> uh_FCnt (last ?h) \<noteq> uh_FCnt up"
    using assms that by (auto simp: history_ok_def distinct_adj_append_iff last_map)
  then have "distinct_adj (map uh_FCnt (drop n (?h @ [up])))"
    if "?h = [] \<or> uh_FCnt (last ?h) \<noteq> uh_FCnt up" for n
    unfolding drop_map [symmetric] using that distinct_adj_drop by blast
  then show ?thesis
    using assms by (auto simp: AppendUplinkHistory_history Let_def history_ok_def UplinkHistorySize_def
        simp del: drop_append map_append)
qed


fun recent :: "'a list \<Rightarrow> 'a list" where
  "recent h = drop (length h - UplinkHistorySize) h"

fun skip_retransmissions :: "uplink_history list \<Rightarrow> uplink_history list \<Rightarrow> uplink_history list" where
  "skip_retransmissions h [] = h"
| "skip_retransmissions h (up # ups) =
     skip_retransmissions (if h \<noteq> [] \<and> uh_FCnt (last h) = uh_FCnt up then h else h @ [up]) ups"

lemma recent_snoc: "recent (recent h @ [x]) = recent (h @ [x])"
proof (cases "length h < UplinkHistorySize")
  case False
  then have "length h + 1 - 20 = Suc (length h - 20)" "length (drop (length h - 20) h) = 20"
    by (auto simp: UplinkHistorySize_def)
  then show ?thesis by (simp add: UplinkHistorySize_def)
qed (simp add: UplinkHistorySize_def)

lemma recent_last: "h \<noteq> [] \<Longrightarrow> recent h \<noteq> [] \<and> last (recent h) = last h"
proof -
  assume "h \<noteq> []"
  then have "length h - 20 < length h" by simp
  then show ?thesis by (simp add: UplinkHistorySize_def last_drop)
qed

lemma AppendUplinkHistory_recent:
  assumes "ds_UplinkHistory s = recent h"
  shows "ds_UplinkHistory (AppendUplinkHistory up s) =
    recent (if h \<noteq> [] \<and> uh_FCnt (last h) = uh_FCnt up then h else h @ [up])"
proof (cases "h = []")
  case False
  have "length (recent h) \<le> UplinkHistorySize" by simp
  then show ?thesis
    using assms recent_last [OF False] recent_snoc [of h up] False
    by (auto simp: AppendUplinkHistory_history Let_def simp del: recent.simps)
      (auto simp: UplinkHistorySize_def)
qed (use assms in \<open>simp add: AppendUplinkHistory_history Let_def\<close>)

lemma fold_AppendUplinkHistory:
  "ds_UplinkHistory s = recent h \<Longrightarrow>
   ds_UplinkHistory (fold AppendUplinkHistory ups s) = recent (skip_retransmissions h ups)"
proof (induction h ups arbitrary: s rule: skip_retransmissions.induct)
  case (2 h up ups)
  show ?case using "2.IH" AppendUplinkHistory_recent [OF "2.prems", of up] by (simp del: recent.simps)
qed simp

section \<open>The boot parameters\<close>

definition boot_indices :: "band \<Rightarrow> u32 list \<Rightarrow> int list" where
  "boot_indices b fs =
     concat (map (\<lambda>f. case GetUplinkChannelIndex b f False of Inl _ \<Rightarrow> [] | Inr i \<Rightarrow> [i]) fs)"

definition boot_channels :: "band \<Rightarrow> int list \<Rightarrow> (int \<times> channel) list \<Rightarrow> (int \<times> channel) list" where
  "boot_channels b is m =
     fold (\<lambda>i m. case GetUplinkChannel b i of Inl _ \<Rightarrow> m | Inr c \<Rightarrow> AList.update i c m) is m"

lemma boot_channels_distinct: "distinct (map fst m) \<Longrightarrow> distinct (map fst (boot_channels b is m))"
  unfolding boot_channels_def
  by (induction "is" arbitrary: m) (auto split: sum.split simp: distinct_update)

lemma boot_indices_simps [simp]:
  "boot_indices b [] = []"
  "boot_indices b (f # fs) =
     (case GetUplinkChannelIndex b f False of Inl _ \<Rightarrow> [] | Inr i \<Rightarrow> [i]) @ boot_indices b fs"
  by (simp_all add: boot_indices_def)

lemma boot_channels_simps [simp]:
  "boot_channels b [] m = m"
  "boot_channels b (i # is) m =
     boot_channels b is (case GetUplinkChannel b i of Inl _ \<Rightarrow> m | Inr c \<Rightarrow> AList.update i c m)"
  by (simp_all add: boot_channels_def)

lemma reset_extra_channels_eq:
  "ds_ExtraUplinkChannels s = Some m \<Longrightarrow>
   reset_extra_channels b fs s =
   s\<lparr>ds_EnabledUplinkChannels := ds_EnabledUplinkChannels s @ boot_indices b fs,
     ds_ExtraUplinkChannels := Some (boot_channels b (boot_indices b fs) m)\<rparr>"
proof (induction fs arbitrary: s m)
  case (Cons f fs)
  then show ?case
    by (cases "GetUplinkChannelIndex b f False"; cases "GetUplinkChannel b (projr (GetUplinkChannelIndex b f False))")
      (simp_all add: gomap_put_def Let_def)
qed simp

definition boot_extra :: "band \<Rightarrow> device_profile \<Rightarrow> int list" where
  "boot_extra b dp =
     boot_indices b (drop (length (GetStandardUplinkChannelIndices b)) (dp_FactoryPresetFreqs dp))"

lemma ResetToBootParameters_eq:
  assumes "\<not> dp_SupportsJoin dp"
  shows "ResetToBootParameters b dp s =
    s\<lparr>ds_TXPowerIndex := 0,
      ds_MinSupportedTXPowerIndex := 0,
      ds_MaxSupportedTXPowerIndex := 0,
      ds_RXDelay := word_of_int (dp_RXDelay1 dp),
      ds_RX1DROffset := word_of_int (dp_RXDROffset1 dp),
      ds_RX2DR := word_of_int (dp_RXDataRate2 dp),
      ds_RX2Frequency := dp_RXFreq2 dp,
      ds_ChannelFrequencies := dp_FactoryPresetFreqs dp,
      ds_PingSlotDR := dp_PingSlotDR dp,
      ds_PingSlotFrequency := dp_PingSlotFreq dp,
      ds_NbTrans := 1,
      ds_PingSlotNb := (if dp_PingSlotPeriod dp = 0 then ds_PingSlotNb s
                        else go_div (2 ^ 12) (dp_PingSlotPeriod dp)),
      ds_EnabledUplinkChannels := GetStandardUplinkChannelIndices b @ boot_extra b dp,
      ds_ExtraUplinkChannels := Some (boot_channels b (boot_extra b dp) [])\<rparr>"
  using assms
  by (simp add: ResetToBootParameters_def Let_def reset_extra_channels_eq boot_extra_def)

section \<open>Properties\<close>

text \<open>
  C14: the server recovers the full frame counter from its 16 low bits: a frame at most one
  behind and less than \<open>2 ^ 16 - 1\<close> ahead of the expected counter is given its own counter.
\<close>

theorem full_fcnt_reconstructed:
  assumes "uint (c - (nextFCnt - 1)) < 2 ^ 16"
  shows "GetFullFCntUp nextFCnt (c mod 2 ^ 16) = c"
  using assms GetFullFCntUp_reconstructs [of c nextFCnt] by simp

theorem full_fcnt_reconstructed_witness:
  "GetFullFCntUp 65535 (65537 mod 2 ^ 16) = 65537"
  by (rule full_fcnt_reconstructed) simp

text \<open>
  Whatever 16-bit counter a frame carries, the full counter agrees with it in the low 16
  bits and lies in the window that starts one before the expected counter.
\<close>

theorem full_fcnt_window:
  assumes "uint t < 2 ^ 16"
  shows "GetFullFCntUp nextFCnt t mod 2 ^ 16 = t \<and>
    uint (GetFullFCntUp nextFCnt t - (nextFCnt - 1)) < 2 ^ 16"
  using assms GetFullFCntUp_window [of t nextFCnt] by simp

theorem full_fcnt_window_witness:
  "GetFullFCntUp 70000 7 mod 2 ^ 16 = 7 \<and> uint (GetFullFCntUp 70000 7 - 69999) < 2 ^ 16"
  using full_fcnt_window [of 7 70000] by simp

text \<open>
  The uplink history of a session that has received the frames \<open>ups\<close> is the twenty most
  recent of them after skipping every frame that repeats the frame counter before it.
\<close>

theorem uplink_history_is_recent:
  assumes "ds_UplinkHistory s = []"
  shows "ds_UplinkHistory (fold AppendUplinkHistory ups s) = recent (skip_retransmissions [] ups) \<and>
    history_ok (ds_UplinkHistory (fold AppendUplinkHistory ups s))"
proof -
  have "history_ok (ds_UplinkHistory (fold AppendUplinkHistory us t))"
    if "history_ok (ds_UplinkHistory t)" for us and t :: "'a session_scheme"
    using that by (induction us arbitrary: t) (auto intro: AppendUplinkHistory_ok)
  moreover have "history_ok (ds_UplinkHistory s)" using assms by (simp add: history_ok_def)
  ultimately have "history_ok (ds_UplinkHistory (fold AppendUplinkHistory ups s))" by blast
  then show ?thesis using fold_AppendUplinkHistory [of s "[]" ups] assms by simp
qed

definition sample_uplink :: "u32 \<Rightarrow> uplink_history" where
  "sample_uplink f = \<lparr>uh_FCnt = f, uh_MaxSNR = 5, uh_MaxRSSI = -90, uh_TXPowerIndex = 0, uh_GatewayCount = 1\<rparr>"

theorem uplink_history_is_recent_witness:
  "\<exists>s :: session. ds_UplinkHistory s = [] \<and>
     map uh_FCnt (ds_UplinkHistory (fold AppendUplinkHistory (map sample_uplink [7, 8, 8, 9]) s)) = [7, 8, 9]"
proof -
  obtain s :: session where s: "ds_UplinkHistory s = []"
    using session.select_convs(32) by metis
  have "ds_UplinkHistory (fold AppendUplinkHistory (map sample_uplink [7, 8, 8, 9]) s) =
      recent (skip_retransmissions [] (map sample_uplink [7, 8, 8, 9]))"
    using uplink_history_is_recent [OF s] by blast
  then show ?thesis using s by (auto simp: sample_uplink_def UplinkHistorySize_def)
qed

text \<open>
  A reset of an ABP device to its boot parameters depends only on its profile and the
  band: repeating it changes nothing. It leaves the security context, the frame counters and
  the pending session alone, enables the standard channels first and has its extra channels
  in an allocated map. A device that joins over the air is left as it is.
\<close>

theorem reset_to_boot_idempotent:
  fixes s :: device_session
  shows "ResetToBootParameters b dp (ResetToBootParameters b dp s) = ResetToBootParameters b dp s \<and>
    (let s' = ResetToBootParameters b dp s in
     ds_DevAddr s' = ds_DevAddr s \<and> ds_DevEUI s' = ds_DevEUI s \<and> ds_FNwkSIntKey s' = ds_FNwkSIntKey s \<and>
     ds_SNwkSIntKey s' = ds_SNwkSIntKey s \<and> ds_NwkSEncKey s' = ds_NwkSEncKey s \<and>
     ds_FCntUp s' = ds_FCntUp s \<and> ds_NFCntDown s' = ds_NFCntDown s \<and> ds_AFCntDown s' = ds_AFCntDown s \<and>
     ds_ConfFCnt s' = ds_ConfFCnt s \<and> ds_Pending s' = ds_Pending s \<and>
     (if dp_SupportsJoin dp then s' = s
      else ds_NbTrans s' = 1 \<and> ds_TXPowerIndex s' = 0 \<and> gomap_ok (ds_ExtraUplinkChannels s') \<and>
        take (length (GetStandardUplinkChannelIndices b)) (ds_EnabledUplinkChannels s') =
          GetStandardUplinkChannelIndices b))"
proof (cases "dp_SupportsJoin dp")
  case True
  then have "ResetToBootParameters b dp t = t" for t :: device_session
    by (simp add: ResetToBootParameters_def)
  then show ?thesis using True by simp
next
  case False
  then show ?thesis
    by (simp add: ResetToBootParameters_eq gomap_ok_def boot_channels_distinct)
qed

end
