(* ===== verification/SessionPB.thy ===== *)
theory SessionPB
  imports DeviceSession
begin

text \<open>
  The conversion of the device-session and of the gateway meta-data set to and from their
  protocol buffer messages (\<open>internal/storage/device_session.go\<close>, \<open>deviceSessionToPB\<close> and
  \<open>deviceSessionFromPB\<close>, \<open>deviceGatewayRXInfoSetToPB\<close> and \<open>deviceGatewayRXInfoSetFromPB\<close>).
  The messages are the structs generated from \<open>device_session.proto\<close>; their wire encoding is
  the library's. Identifiers and keys, which the messages hold as bytes or text, keep their
  value; \<open>int\<close> fields go through \<open>uint32\<close> and an SNR through \<open>float32\<close>. The nested message of
  the pending session is encoded as bytes inside the outer one: a chain here, as in
  \<open>device_session\<close>.

  \<open>device_session_roundtrip\<close> says what a session is after it was stored and loaded:
  \<open>stored d\<close> is \<open>d\<close> without the two fields the message lacks (\<open>RXWindow\<close>, \<open>EnabledChannels\<close>)
  and with the SNRs of the history rounded, for a session whose integers fit
  (\<open>session_fits\<close>) and whose maps are allocated.
\<close>


section \<open>The message\<close>

record channel_pb =
  cpb_Frequency :: u32
  cpb_MinDr :: u32
  cpb_MaxDr :: u32

record history_pb =
  hpb_FCnt :: u32
  hpb_MaxSnr :: rat
  hpb_TxPowerIndex :: u32
  hpb_GatewayCount :: u32
  hpb_MaxRssi :: int

record session_pb =
  pb_MacVersion :: string
  pb_DeviceProfileId :: uuid
  pb_ServiceProfileId :: uuid
  pb_RoutingProfileId :: uuid
  pb_DevAddr :: devaddr
  pb_DevEui :: eui64
  pb_JoinEui :: eui64
  pb_FNwkSIntKey :: aeskey
  pb_SNwkSIntKey :: aeskey
  pb_NwkSEncKey :: aeskey
  pb_AppSKeyEnvelope :: "key_envelope option"
  pb_FCntUp :: u32
  pb_NFCntDown :: u32
  pb_AFCntDown :: u32
  pb_ConfFCnt :: u32
  pb_SkipFCntCheck :: bool
  pb_RxDelay :: u32
  pb_Rx1DrOffset :: u32
  pb_Rx2Dr :: u32
  pb_Rx2Frequency :: u32
  pb_TxPowerIndex :: u32
  pb_Dr :: u32
  pb_Adr :: bool
  pb_MinSupportedTxPowerIndex :: u32
  pb_MaxSupportedTxPowerIndex :: u32
  pb_NbTrans :: u32
  pb_EnabledUplinkChannels :: "u32 list"
  pb_ExtraUplinkChannels :: "(u32 \<times> channel_pb) list"
  pb_ChannelFrequencies :: "u32 list"
  pb_UplinkAdrHistory :: "history_pb list"
  pb_LastDeviceStatusRequestTimeUnixNs :: int
  pb_BeaconLocked :: bool
  pb_PingSlotNb :: u32
  pb_PingSlotDr :: u32
  pb_PingSlotFrequency :: u32
  pb_RejoinRequestEnabled :: bool
  pb_RejoinRequestMaxCountN :: u32
  pb_RejoinRequestMaxTimeN :: u32
  pb_RejoinCount_0 :: u32
  pb_ReferenceAltitude :: rat
  pb_UplinkDwellTime_400Ms :: bool
  pb_DownlinkDwellTime_400Ms :: bool
  pb_UplinkMaxEirpIndex :: u32
  pb_MacCommandErrorCount :: "(cid \<times> u32) list"
  pb_IsDisabled :: bool

record device_session_pb = session_pb +
  pb_Pending :: "session_pb list"

section \<open>Conversions\<close>

definition to_u32 :: "int \<Rightarrow> u32" where "to_u32 i = word_of_int i"

definition channel_to_pb :: "channel \<Rightarrow> channel_pb" where
  "channel_to_pb c =
     \<lparr>cpb_Frequency = ch_Frequency c, cpb_MinDr = to_u32 (ch_MinDR c), cpb_MaxDr = to_u32 (ch_MaxDR c)\<rparr>"

definition history_to_pb :: "uplink_history \<Rightarrow> history_pb" where
  "history_to_pb h =
     \<lparr>hpb_FCnt = uh_FCnt h, hpb_MaxSnr = f32 (uh_MaxSNR h), hpb_TxPowerIndex = to_u32 (uh_TXPowerIndex h),
      hpb_GatewayCount = to_u32 (uh_GatewayCount h), hpb_MaxRssi = uh_MaxRSSI h\<rparr>"

definition copy_map :: "('a \<Rightarrow> 'c) \<Rightarrow> ('b \<Rightarrow> 'd) \<Rightarrow> ('a \<times> 'b) list \<Rightarrow> ('c \<times> 'd) list" where
  "copy_map f g m = fold (\<lambda>(k, v) out. AList.update (f k) (g v) out) m []"

definition entries :: "('k, 'v) gomap \<Rightarrow> ('k \<times> 'v) list" where
  "entries m = (case m of None \<Rightarrow> [] | Some al \<Rightarrow> al)"

definition session_to_pb :: "'a session_scheme \<Rightarrow> session_pb" where
  "session_to_pb d =
     \<lparr>pb_MacVersion = ds_MACVersion d,
      pb_DeviceProfileId = ds_DeviceProfileID d,
      pb_ServiceProfileId = ds_ServiceProfileID d,
      pb_RoutingProfileId = ds_RoutingProfileID d,
      pb_DevAddr = ds_DevAddr d,
      pb_DevEui = ds_DevEUI d,
      pb_JoinEui = ds_JoinEUI d,
      pb_FNwkSIntKey = ds_FNwkSIntKey d,
      pb_SNwkSIntKey = ds_SNwkSIntKey d,
      pb_NwkSEncKey = ds_NwkSEncKey d,
      pb_AppSKeyEnvelope = ds_AppSKeyEvelope d,
      pb_FCntUp = ds_FCntUp d,
      pb_NFCntDown = ds_NFCntDown d,
      pb_AFCntDown = ds_AFCntDown d,
      pb_ConfFCnt = ds_ConfFCnt d,
      pb_SkipFCntCheck = ds_SkipFCntValidation d,
      pb_RxDelay = ucast (ds_RXDelay d),
      pb_Rx1DrOffset = ucast (ds_RX1DROffset d),
      pb_Rx2Dr = ucast (ds_RX2DR d),
      pb_Rx2Frequency = ds_RX2Frequency d,
      pb_TxPowerIndex = to_u32 (ds_TXPowerIndex d),
      pb_Dr = to_u32 (ds_DR d),
      pb_Adr = ds_ADR d,
      pb_MinSupportedTxPowerIndex = to_u32 (ds_MinSupportedTXPowerIndex d),
      pb_MaxSupportedTxPowerIndex = to_u32 (ds_MaxSupportedTXPowerIndex d),
      pb_NbTrans = ucast (ds_NbTrans d),
      pb_EnabledUplinkChannels = map to_u32 (ds_EnabledUplinkChannels d),
      pb_ExtraUplinkChannels = copy_map to_u32 channel_to_pb (entries (ds_ExtraUplinkChannels d)),
      pb_ChannelFrequencies = ds_ChannelFrequencies d,
      pb_UplinkAdrHistory = map history_to_pb (ds_UplinkHistory d),
      pb_LastDeviceStatusRequestTimeUnixNs = UnixNano (ds_LastDevStatusRequested d),
      pb_BeaconLocked = ds_BeaconLocked d,
      pb_PingSlotNb = to_u32 (ds_PingSlotNb d),
      pb_PingSlotDr = to_u32 (ds_PingSlotDR d),
      pb_PingSlotFrequency = ds_PingSlotFrequency d,
      pb_RejoinRequestEnabled = ds_RejoinRequestEnabled d,
      pb_RejoinRequestMaxCountN = to_u32 (ds_RejoinRequestMaxCountN d),
      pb_RejoinRequestMaxTimeN = to_u32 (ds_RejoinRequestMaxTimeN d),
      pb_RejoinCount_0 = ucast (ds_RejoinCount0 d),
      pb_ReferenceAltitude = ds_ReferenceAltitude d,
      pb_UplinkDwellTime_400Ms = ds_UplinkDwellTime400ms d,
      pb_DownlinkDwellTime_400Ms = ds_DownlinkDwellTime400ms d,
      pb_UplinkMaxEirpIndex = ucast (ds_UplinkMaxEIRPIndex d),
      pb_MacCommandErrorCount = copy_map id to_u32 (entries (ds_MACCommandErrorCount d)),
      pb_IsDisabled = ds_IsDisabled d\<rparr>"

definition deviceSessionToPB :: "device_session \<Rightarrow> device_session_pb" where
  "deviceSessionToPB d =
     session_pb.extend (session_to_pb d) (device_session_pb.fields (map session_to_pb (ds_Pending d)))"

definition channel_from_pb :: "channel_pb \<Rightarrow> channel" where
  "channel_from_pb c =
     \<lparr>ch_Frequency = cpb_Frequency c, ch_MinDR = uint (cpb_MinDr c), ch_MaxDR = uint (cpb_MaxDr c)\<rparr>"

definition history_from_pb :: "history_pb \<Rightarrow> uplink_history" where
  "history_from_pb h =
     \<lparr>uh_FCnt = hpb_FCnt h, uh_MaxSNR = hpb_MaxSnr h, uh_MaxRSSI = hpb_MaxRssi h,
      uh_TXPowerIndex = uint (hpb_TxPowerIndex h), uh_GatewayCount = uint (hpb_GatewayCount h)\<rparr>"

definition session_from_pb :: "'a session_pb_scheme \<Rightarrow> session" where
  "session_from_pb d =
     \<lparr>ds_MACVersion = pb_MacVersion d,
      ds_DeviceProfileID = pb_DeviceProfileId d,
      ds_ServiceProfileID = pb_ServiceProfileId d,
      ds_RoutingProfileID = pb_RoutingProfileId d,
      ds_DevAddr = pb_DevAddr d,
      ds_DevEUI = pb_DevEui d,
      ds_JoinEUI = pb_JoinEui d,
      ds_FNwkSIntKey = pb_FNwkSIntKey d,
      ds_SNwkSIntKey = pb_SNwkSIntKey d,
      ds_NwkSEncKey = pb_NwkSEncKey d,
      ds_AppSKeyEvelope = pb_AppSKeyEnvelope d,
      ds_FCntUp = pb_FCntUp d,
      ds_NFCntDown = pb_NFCntDown d,
      ds_AFCntDown = pb_AFCntDown d,
      ds_ConfFCnt = pb_ConfFCnt d,
      ds_SkipFCntValidation = pb_SkipFCntCheck d,
      ds_RXWindow = 0,
      ds_RXDelay = ucast (pb_RxDelay d),
      ds_RX1DROffset = ucast (pb_Rx1DrOffset d),
      ds_RX2DR = ucast (pb_Rx2Dr d),
      ds_RX2Frequency = pb_Rx2Frequency d,
      ds_TXPowerIndex = uint (pb_TxPowerIndex d),
      ds_DR = uint (pb_Dr d),
      ds_ADR = pb_Adr d,
      ds_MinSupportedTXPowerIndex = uint (pb_MinSupportedTxPowerIndex d),
      ds_MaxSupportedTXPowerIndex = uint (pb_MaxSupportedTxPowerIndex d),
      ds_NbTrans = ucast (pb_NbTrans d),
      ds_EnabledChannels = [],
      ds_EnabledUplinkChannels = map uint (pb_EnabledUplinkChannels d),
      ds_ExtraUplinkChannels = Some (copy_map uint channel_from_pb (pb_ExtraUplinkChannels d)),
      ds_ChannelFrequencies = pb_ChannelFrequencies d,
      ds_UplinkHistory = map history_from_pb (pb_UplinkAdrHistory d),
      ds_LastDevStatusRequested =
        (if pb_LastDeviceStatusRequestTimeUnixNs d > 0 then pb_LastDeviceStatusRequestTimeUnixNs d
         else zero_time),
      ds_BeaconLocked = pb_BeaconLocked d,
      ds_PingSlotNb = uint (pb_PingSlotNb d),
      ds_PingSlotDR = uint (pb_PingSlotDr d),
      ds_PingSlotFrequency = pb_PingSlotFrequency d,
      ds_RejoinRequestEnabled = pb_RejoinRequestEnabled d,
      ds_RejoinRequestMaxCountN = uint (pb_RejoinRequestMaxCountN d),
      ds_RejoinRequestMaxTimeN = uint (pb_RejoinRequestMaxTimeN d),
      ds_RejoinCount0 = ucast (pb_RejoinCount_0 d),
      ds_ReferenceAltitude = pb_ReferenceAltitude d,
      ds_UplinkDwellTime400ms = pb_UplinkDwellTime_400Ms d,
      ds_DownlinkDwellTime400ms = pb_DownlinkDwellTime_400Ms d,
      ds_UplinkMaxEIRPIndex = ucast (pb_UplinkMaxEirpIndex d),
      ds_MACCommandErrorCount = Some (copy_map id uint (pb_MacCommandErrorCount d)),
      ds_IsDisabled = pb_IsDisabled d\<rparr>"

definition deviceSessionFromPB :: "device_session_pb \<Rightarrow> device_session" where
  "deviceSessionFromPB d = with_pending (session_from_pb d) (map session_from_pb (pb_Pending d))"

section \<open>The round trip\<close>

definition fits32 :: "int \<Rightarrow> bool" where "fits32 i \<longleftrightarrow> 0 \<le> i \<and> i < 2 ^ 32"

definition session_fits :: "'a session_scheme \<Rightarrow> bool" where
  "session_fits d \<longleftrightarrow>
     fits32 (ds_TXPowerIndex d) \<and> fits32 (ds_DR d) \<and>
     fits32 (ds_MinSupportedTXPowerIndex d) \<and> fits32 (ds_MaxSupportedTXPowerIndex d) \<and>
     list_all fits32 (ds_EnabledUplinkChannels d) \<and>
     list_all (\<lambda>(i, c). fits32 i \<and> fits32 (ch_MinDR c) \<and> fits32 (ch_MaxDR c)) (entries (ds_ExtraUplinkChannels d)) \<and>
     gomap_ok (ds_ExtraUplinkChannels d) \<and>
     list_all (\<lambda>h. fits32 (uh_TXPowerIndex h) \<and> fits32 (uh_GatewayCount h)) (ds_UplinkHistory d) \<and>
     (0 < ds_LastDevStatusRequested d \<and> ds_LastDevStatusRequested d < 2 ^ 63 \<or>
      ds_LastDevStatusRequested d = zero_time) \<and>
     fits32 (ds_PingSlotNb d) \<and> fits32 (ds_PingSlotDR d) \<and>
     fits32 (ds_RejoinRequestMaxCountN d) \<and> fits32 (ds_RejoinRequestMaxTimeN d) \<and>
     list_all (\<lambda>(k, n). fits32 n) (entries (ds_MACCommandErrorCount d)) \<and>
     gomap_ok (ds_MACCommandErrorCount d)"

text \<open>What a session is after it was stored and loaded again.\<close>

definition stored_session :: "'a session_scheme \<Rightarrow> 'a session_scheme" where
  "stored_session d =
     d\<lparr>ds_RXWindow := 0, ds_EnabledChannels := [],
       ds_UplinkHistory := map (\<lambda>h. h\<lparr>uh_MaxSNR := f32 (uh_MaxSNR h)\<rparr>) (ds_UplinkHistory d)\<rparr>"

definition stored :: "device_session \<Rightarrow> device_session" where
  "stored d = (stored_session d)\<lparr>ds_Pending := map stored_session (ds_Pending d)\<rparr>"

lemma fits32_uint [simp]: "fits32 i \<Longrightarrow> uint (to_u32 i) = i"
  by (simp add: fits32_def to_u32_def uint_word_of_int)

lemma to_u32_inj: "fits32 i \<Longrightarrow> fits32 j \<Longrightarrow> to_u32 i = to_u32 j \<longleftrightarrow> i = j"
  by (metis fits32_uint)

lemma ucast_byte_u32 [simp]: "ucast (ucast (x :: byte) :: u32) = x"
  by (rule bit_word_eqI) (auto simp: bit_simps)

lemma ucast_u16_u32_back [simp]: "ucast (ucast (x :: u16) :: u32) = x"
  by (rule bit_word_eqI) (auto simp: bit_simps)

lemma channel_roundtrip:
  "fits32 (ch_MinDR c) \<Longrightarrow> fits32 (ch_MaxDR c) \<Longrightarrow> channel_from_pb (channel_to_pb c) = c"
  by (simp add: channel_from_pb_def channel_to_pb_def)

lemma history_roundtrip:
  "fits32 (uh_TXPowerIndex h) \<Longrightarrow> fits32 (uh_GatewayCount h) \<Longrightarrow>
   history_from_pb (history_to_pb h) = h\<lparr>uh_MaxSNR := f32 (uh_MaxSNR h)\<rparr>"
  by (simp add: history_from_pb_def history_to_pb_def)

lemma update_fresh: "k \<notin> fst ` set al \<Longrightarrow> AList.update k v al = al @ [(k, v)]"
  by (induction al) auto

lemma copy_map_fold:
  "inj_on f (fst ` set m) \<Longrightarrow> distinct (map fst m) \<Longrightarrow> f ` fst ` set m \<inter> fst ` set acc = {} \<Longrightarrow>
   fold (\<lambda>(k, v) out. AList.update (f k) (g v) out) m acc = acc @ map (\<lambda>(k, v). (f k, g v)) m"
proof (induction m arbitrary: acc)
  case (Cons e m)
  obtain k v where e: "e = (k, v)" by (cases e)
  have fresh: "f k \<notin> fst ` set acc" using Cons.prems by (auto simp: e)
  have "f ` fst ` set m \<inter> fst ` set (acc @ [(f k, g v)]) = {}"
    using Cons.prems by (auto simp: e)
  then show ?case using Cons fresh by (simp add: e update_fresh)
qed simp

lemma copy_map_eq:
  "inj_on f (fst ` set m) \<Longrightarrow> distinct (map fst m) \<Longrightarrow> copy_map f g m = map (\<lambda>(k, v). (f k, g v)) m"
  by (simp add: copy_map_def copy_map_fold)

lemma copy_map_roundtrip:
  assumes "distinct (map fst m)" and inverse: "\<And>k v. (k, v) \<in> set m \<Longrightarrow> f' (f k) = k \<and> g' (g v) = v"
  shows "copy_map f' g' (copy_map f g m) = m"
proof -
  have inj: "inj_on f (fst ` set m)"
    using inverse by (intro inj_on_inverseI [where g = f']) auto
  then have 1: "copy_map f g m = map (\<lambda>(k, v). (f k, g v)) m" using assms(1) by (rule copy_map_eq)
  let ?m = "map (\<lambda>(k, v). (f k, g v)) m"
  have keys: "map fst ?m = map f (map fst m)" by (auto simp: comp_def split_def)
  have "distinct (map f (map fst m))" unfolding distinct_map [of f] using assms(1) inj by simp
  then have "distinct (map fst ?m)" by (simp only: keys)
  moreover have "inj_on f' (fst ` set ?m)"
    using inverse by (intro inj_on_inverseI [where g = f]) force
  ultimately have "copy_map f' g' ?m = map (\<lambda>(k, v). (f' k, g' v)) ?m" by (intro copy_map_eq)
  also have "\<dots> = m" using inverse by (auto simp: comp_def split_def intro!: map_idI)
  finally show ?thesis by (simp add: 1)
qed

lemma UnixNano_zero_time: "UnixNano zero_time < 0"
  by (simp add: UnixNano_def zero_time_def go_int64_def date_def days_from_civil_def second_def)

lemma session_roundtrip:
  assumes "session_fits (d :: session)"
  shows "session_from_pb (session_to_pb d) = stored_session d"
proof -
  obtain ex where ex: "ds_ExtraUplinkChannels d = Some ex" "distinct (map fst ex)"
    using assms by (auto simp: session_fits_def gomap_ok_def)
  obtain ec where ec: "ds_MACCommandErrorCount d = Some ec" "distinct (map fst ec)"
    using assms by (auto simp: session_fits_def gomap_ok_def)
  have "copy_map uint channel_from_pb (copy_map to_u32 channel_to_pb ex) = ex"
    using ex assms by (intro copy_map_roundtrip)
      (auto simp: session_fits_def entries_def list_all_iff channel_roundtrip)
  moreover have "copy_map id uint (copy_map id to_u32 ec) = ec"
    using ec assms by (intro copy_map_roundtrip) (auto simp: session_fits_def entries_def list_all_iff)
  moreover have "map (uint \<circ> to_u32) (ds_EnabledUplinkChannels d) = ds_EnabledUplinkChannels d"
    using assms by (auto simp: session_fits_def list_all_iff intro!: map_idI)
  moreover have "map (history_from_pb \<circ> history_to_pb) (ds_UplinkHistory d) =
      map (\<lambda>h. h\<lparr>uh_MaxSNR := f32 (uh_MaxSNR h)\<rparr>) (ds_UplinkHistory d)"
    using assms by (auto simp: session_fits_def list_all_iff history_roundtrip)
  moreover have "0 < UnixNano (ds_LastDevStatusRequested d) \<Longrightarrow>
      UnixNano (ds_LastDevStatusRequested d) = ds_LastDevStatusRequested d"
    "\<not> 0 < UnixNano (ds_LastDevStatusRequested d) \<Longrightarrow> zero_time = ds_LastDevStatusRequested d"
    using assms UnixNano_zero_time by (auto simp: session_fits_def UnixNano_def go_int64_id)
  ultimately show ?thesis
    using assms
    by (intro session.equality)
      (simp_all add: session_from_pb_def session_to_pb_def stored_session_def ex(1) ec(1) entries_def session_fits_def)
qed


lemma session_to_pb_truncate [simp]: "session_to_pb (session.truncate d) = session_to_pb d"
  by (simp add: session_to_pb_def session.defs)

lemma stored_session_simps [simp]:
  "ds_DevAddr (stored_session d) = ds_DevAddr d" "ds_DevEUI (stored_session d) = ds_DevEUI d"
  by (simp_all add: stored_session_def)

lemma stored_simps [simp]:
  "ds_DevAddr (stored d) = ds_DevAddr d" "ds_DevEUI (stored d) = ds_DevEUI d"
  "ds_Pending (stored d) = map stored_session (ds_Pending d)"
  by (simp_all add: stored_def)

lemma session_from_pb_extend [simp]: "session_from_pb (session_pb.extend p q) = session_from_pb p"
  by (simp add: session_from_pb_def session_pb.defs)

lemma pb_Pending_extend [simp]: "pb_Pending (session_pb.extend p (device_session_pb.fields ps)) = ps"
  by (simp add: session_pb.defs device_session_pb.defs)

lemma with_pending_stored [simp]:
  "with_pending (stored_session (session.truncate d)) (map stored_session (ds_Pending d)) = stored d"
  by (rule device_session.equality)
    (simp_all add: with_pending_def stored_def stored_session_def session.defs device_session.defs)

lemma device_session_roundtrip:
  assumes "session_fits d" and "list_all session_fits (ds_Pending d)"
  shows "deviceSessionFromPB (deviceSessionToPB d) = stored d"
proof -
  let ?d = "session.truncate d"
  have "session_fits ?d" using assms(1) by (simp add: session_fits_def session.defs)
  then have base: "session_from_pb (session_to_pb d) = stored_session ?d"
    using session_roundtrip [of ?d] by simp
  have pending: "map session_from_pb (map session_to_pb (ds_Pending d)) = map stored_session (ds_Pending d)"
    using assms(2) session_roundtrip by (auto simp: list_all_iff)
  show ?thesis
    by (simp only: deviceSessionFromPB_def deviceSessionToPB_def session_from_pb_extend
        pb_Pending_extend base pending with_pending_stored)
qed

lemma stored_session_fits [simp]: "session_fits (stored_session d) \<longleftrightarrow> session_fits d"
  by (simp add: session_fits_def stored_session_def list.pred_map comp_def)

lemma stored_fits [simp]: "session_fits (stored d) \<longleftrightarrow> session_fits d"
  by (simp add: session_fits_def stored_def stored_session_def list.pred_map comp_def)

lemma stored_session_idem [simp]: "stored_session (stored_session d) = stored_session d"
  by (simp add: stored_session_def)

lemma stored_idem [simp]: "stored (stored d) = stored d"
  by (simp add: stored_def stored_session_def)

section \<open>The gateway meta-data of the last uplink\<close>

record gw_rx_info =
  gri_GatewayID :: eui64
  gri_RSSI :: int
  gri_LoRaSNR :: rat
  gri_Antenna :: u32
  gri_Board :: u32
  gri_Context :: "byte list"

record gw_rx_info_set =
  gris_DevEUI :: eui64
  gris_DR :: int
  gris_Items :: "gw_rx_info list"

record gw_rx_info_pb =
  gpb_GatewayId :: eui64
  gpb_Rssi :: "32 word"
  gpb_LoraSnr :: rat
  gpb_Board :: u32
  gpb_Antenna :: u32
  gpb_Context :: "byte list"

record gw_rx_info_set_pb =
  gspb_DevEui :: eui64
  gspb_Dr :: u32
  gspb_Items :: "gw_rx_info_pb list"

definition deviceGatewayRXInfoSetToPB :: "gw_rx_info_set \<Rightarrow> gw_rx_info_set_pb" where
  "deviceGatewayRXInfoSetToPB d =
     \<lparr>gspb_DevEui = gris_DevEUI d,
      gspb_Dr = to_u32 (gris_DR d),
      gspb_Items = map (\<lambda>i.
        \<lparr>gpb_GatewayId = gri_GatewayID i, gpb_Rssi = word_of_int (gri_RSSI i),
         gpb_LoraSnr = gri_LoRaSNR i, gpb_Board = gri_Board i, gpb_Antenna = gri_Antenna i,
         gpb_Context = gri_Context i\<rparr>) (gris_Items d)\<rparr>"

definition deviceGatewayRXInfoSetFromPB :: "gw_rx_info_set_pb \<Rightarrow> gw_rx_info_set" where
  "deviceGatewayRXInfoSetFromPB d =
     \<lparr>gris_DevEUI = gspb_DevEui d,
      gris_DR = uint (gspb_Dr d),
      gris_Items = map (\<lambda>i.
        \<lparr>gri_GatewayID = gpb_GatewayId i, gri_RSSI = sint (gpb_Rssi i),
         gri_LoRaSNR = gpb_LoraSnr i, gri_Antenna = gpb_Antenna i, gri_Board = gpb_Board i,
         gri_Context = gpb_Context i\<rparr>) (gspb_Items d)\<rparr>"

definition rx_info_set_fits :: "gw_rx_info_set \<Rightarrow> bool" where
  "rx_info_set_fits d \<longleftrightarrow>
     fits32 (gris_DR d) \<and> list_all (\<lambda>i. - (2 ^ 31) \<le> gri_RSSI i \<and> gri_RSSI i < 2 ^ 31) (gris_Items d)"

lemma sint_word_of_int_32: "- (2 ^ 31) \<le> i \<Longrightarrow> i < 2 ^ 31 \<Longrightarrow> sint (word_of_int i :: u32) = i"
  by (simp add: sint_word_ariths signed_take_bit_int_eq_self signed_of_int)

lemma rx_info_set_roundtrip:
  assumes "rx_info_set_fits d"
  shows "deviceGatewayRXInfoSetFromPB (deviceGatewayRXInfoSetToPB d) = d"
proof (rule gw_rx_info_set.equality)
  show "gris_Items (deviceGatewayRXInfoSetFromPB (deviceGatewayRXInfoSetToPB d)) = gris_Items d"
    using assms
    by (auto simp: deviceGatewayRXInfoSetFromPB_def deviceGatewayRXInfoSetToPB_def
        rx_info_set_fits_def list_all_iff sint_word_of_int_32 intro!: map_idI)
qed (use assms in \<open>simp_all add: deviceGatewayRXInfoSetFromPB_def deviceGatewayRXInfoSetToPB_def rx_info_set_fits_def\<close>)

section \<open>Properties\<close>

text \<open>A session with zero values, in which every map is allocated.\<close>

definition zero_session :: session where
  "zero_session =
     \<lparr>ds_MACVersion = [], ds_DeviceProfileID = 0, ds_ServiceProfileID = 0, ds_RoutingProfileID = 0,
      ds_DevAddr = 0, ds_DevEUI = 0, ds_JoinEUI = 0, ds_FNwkSIntKey = 0, ds_SNwkSIntKey = 0,
      ds_NwkSEncKey = 0, ds_AppSKeyEvelope = None, ds_FCntUp = 0, ds_NFCntDown = 0,
      ds_AFCntDown = 0, ds_ConfFCnt = 0, ds_SkipFCntValidation = False, ds_RXWindow = 0,
      ds_RXDelay = 0, ds_RX1DROffset = 0, ds_RX2DR = 0, ds_RX2Frequency = 0, ds_TXPowerIndex = 0,
      ds_DR = 0, ds_ADR = False, ds_MinSupportedTXPowerIndex = 0, ds_MaxSupportedTXPowerIndex = 0,
      ds_NbTrans = 0, ds_EnabledChannels = [], ds_EnabledUplinkChannels = [],
      ds_ExtraUplinkChannels = Some [], ds_ChannelFrequencies = [], ds_UplinkHistory = [],
      ds_LastDevStatusRequested = zero_time, ds_BeaconLocked = False, ds_PingSlotNb = 0,
      ds_PingSlotDR = 0, ds_PingSlotFrequency = 0, ds_RejoinRequestEnabled = False,
      ds_RejoinRequestMaxCountN = 0, ds_RejoinRequestMaxTimeN = 0, ds_RejoinCount0 = 0,
      ds_ReferenceAltitude = 0, ds_UplinkDwellTime400ms = False, ds_DownlinkDwellTime400ms = False,
      ds_UplinkMaxEIRPIndex = 0, ds_MACCommandErrorCount = Some [], ds_IsDisabled = False\<rparr>"

definition zero_device_session :: device_session where
  "zero_device_session = with_pending zero_session []"

lemma zero_session_fits [simp]: "session_fits zero_session"
  by (simp add: session_fits_def zero_session_def fits32_def entries_def)

text \<open>
  C15: a device-session, pending session included, comes back from its message as \<open>stored d\<close>,
  a fixed point: what was loaded once is stored and loaded again without any further change.
\<close>

theorem session_message_roundtrip:
  assumes "session_fits d" and "list_all session_fits (ds_Pending d)"
  shows "deviceSessionFromPB (deviceSessionToPB d) = stored d \<and>
    deviceSessionFromPB (deviceSessionToPB (stored d)) = stored d"
proof -
  have "session_fits (stored d)" "list_all session_fits (ds_Pending (stored d))"
    using assms by (auto simp: stored_fits list_all_iff stored_session_fits)
  then show ?thesis
    using assms by (simp add: device_session_roundtrip stored_idem)
qed

theorem session_message_roundtrip_witness:
  "let d = with_pending (zero_session\<lparr>ds_FCntUp := 8, ds_RXWindow := 1\<rparr>) [zero_session\<lparr>ds_DevAddr := 9\<rparr>]
   in deviceSessionFromPB (deviceSessionToPB d) = stored d \<and> stored d \<noteq> d"
proof -
  define d where "d = with_pending (zero_session\<lparr>ds_FCntUp := 8, ds_RXWindow := 1\<rparr>) [zero_session\<lparr>ds_DevAddr := 9\<rparr>]"
  have "session_fits d" "list_all session_fits (ds_Pending d)"
    by (simp_all add: d_def session_fits_def with_pending_def zero_session_def session.defs
        device_session.defs fits32_def entries_def)
  moreover have "ds_RXWindow (stored d) \<noteq> ds_RXWindow d"
    by (simp add: d_def stored_def stored_session_def with_pending_def session.defs device_session.defs)
  ultimately show ?thesis using session_message_roundtrip [of d] by (metis d_def)
qed

end
