(* ===== verification/Redis.thy ===== *)
theory Redis
  imports Lorawan
begin

text \<open>
  The Redis commands the code issues. The server is not part of the repository: \<open>redis\<close> is a
  record with one function per command (a transaction of the code is one function), on a
  state \<open>'s\<close> of which the model knows nothing, with string and list values of type \<open>'v\<close> and set
  members of type \<open>'m\<close>. Every definition that talks to Redis takes such a record.

  The locale \<open>redis_server\<close> states what the commands are documented to do, in terms of the
  values, sets and lists a state holds: a command that fails may or may not have been
  executed. \<open>mem_redis\<close> is a server with expiring keys that can be unreachable; it satisfies
  the laws.

  \<open>codec\<close> is an encoding of the libraries (protocol buffers, gob): what was encoded decodes to
  itself.
\<close>

section \<open>Keys\<close>

text \<open>
  A key is a template of the code applied to its parameters, below a fixed prefix
  (\<open>GetRedisKey\<close>); the templates are pairwise different strings, so a constructor each.
\<close>

datatype redis_key =
    devAddrKey devaddr
  | deviceSessionKey eui64
  | deviceGatewayRXInfoSetKey eui64
  | macCommandQueueKey eui64
  | macCommandPendingKey eui64 cid
  | downlinkFrameKey u32
  | collectKey string string
  | collectLockKey string string
  | deviceDownlinkLockKey eui64
  | gatewayDownlinkLockKey eui64
  | prDevAddrKey devaddr
  | prDevEUIKey eui64
  | prDeviceSessionKey uuid
  | deviceProfileKey uuid
  | serviceProfileKey uuid
  | gatewayMetaKey eui64

section \<open>Commands\<close>

record ('s, 'v, 'm) redis =
  rd_Set :: "redis_key \<Rightarrow> 'v \<Rightarrow> duration \<Rightarrow> 's \<Rightarrow> unit res \<times> 's"
  rd_SetNX :: "redis_key \<Rightarrow> 'v \<Rightarrow> duration \<Rightarrow> 's \<Rightarrow> bool res \<times> 's"
  rd_Get :: "redis_key \<Rightarrow> 's \<Rightarrow> 'v res"
  rd_MGet :: "redis_key list \<Rightarrow> 's \<Rightarrow> 'v option list res"
  rd_Exists :: "redis_key \<Rightarrow> 's \<Rightarrow> int res"
  rd_Del :: "redis_key \<Rightarrow> 's \<Rightarrow> int res \<times> 's"
  rd_SAdd_PExpire :: "redis_key \<Rightarrow> 'm \<Rightarrow> duration \<Rightarrow> 's \<Rightarrow> unit res \<times> 's"
  rd_SMembers :: "redis_key \<Rightarrow> 's \<Rightarrow> 'm list res"
  rd_SMembers_Del :: "redis_key \<Rightarrow> 's \<Rightarrow> 'm list res \<times> 's"
  rd_SRem :: "redis_key \<Rightarrow> 'm \<Rightarrow> 's \<Rightarrow> unit res \<times> 's"
  rd_RPush_PExpire :: "redis_key \<Rightarrow> 'v \<Rightarrow> duration \<Rightarrow> 's \<Rightarrow> unit res \<times> 's"
  rd_LRange :: "redis_key \<Rightarrow> 's \<Rightarrow> 'v list res"
  rd_LRem :: "redis_key \<Rightarrow> 'v \<Rightarrow> 's \<Rightarrow> int res \<times> 's"

record ('a, 'v) codec =
  enc :: "'a \<Rightarrow> 'v res"
  dec :: "'v \<Rightarrow> 'a res"

definition codec_ok :: "('a, 'v) codec \<Rightarrow> bool" where
  "codec_ok c \<longleftrightarrow> (\<forall>x v. enc c x = Inr v \<longrightarrow> dec c v = Inr x)"

lemma codec_okD: "codec_ok c \<Longrightarrow> enc c x = Inr v \<Longrightarrow> dec c v = Inr x"
  by (simp add: codec_ok_def)

definition plain_codec :: "('a, 'a) codec" where
  "plain_codec = \<lparr>enc = Inr, dec = Inr\<rparr>"

lemma plain_codec_ok [simp]: "codec_ok plain_codec"
  by (simp add: codec_ok_def plain_codec_def)

text \<open>What a state holds, key by key.\<close>

record ('v, 'm) contents =
  c_val :: "redis_key \<Rightarrow> 'v option"
  c_set :: "redis_key \<Rightarrow> 'm set"
  c_list :: "redis_key \<Rightarrow> 'v list"

definition without :: "('v, 'm) contents \<Rightarrow> redis_key \<Rightarrow> ('v, 'm) contents" where
  "without c k =
     \<lparr>c_val = (c_val c)(k := None), c_set = (c_set c)(k := {}), c_list = (c_list c)(k := [])\<rparr>"

definition absent :: "('v, 'm) contents \<Rightarrow> redis_key \<Rightarrow> bool" where
  "absent c k \<longleftrightarrow> c_val c k = None \<and> c_set c k = {} \<and> c_list c k = []"

text \<open>A command that should turn \<open>c\<close> into \<open>c1\<close> and may have failed.\<close>

definition executed :: "'a res \<Rightarrow> 'c \<Rightarrow> 'c \<Rightarrow> 'c \<Rightarrow> bool" where
  "executed r c c1 c' \<longleftrightarrow> c' = c1 \<or> is_error r \<and> c' = c"

lemma executed_cases:
  assumes "executed r c c1 c'"
  obtains "c' = c1" | e where "r = Inl e" "c' = c"
  using assms by (cases r) (auto simp: executed_def)

locale redis_server =
  fixes R :: "('s, 'v, 'm) redis"
    and holds :: "'s \<Rightarrow> ('v, 'm) contents"
  assumes Set: "rd_Set R k v ttl s = (r, s') \<Longrightarrow> 0 < ttl \<Longrightarrow>
      executed r (holds s) ((holds s)\<lparr>c_val := (c_val (holds s))(k \<mapsto> v)\<rparr>) (holds s')"
    and SetNX: "rd_SetNX R k v ttl s = (rb, s') \<Longrightarrow> 0 < ttl \<Longrightarrow>
      (case rb of Inl _ \<Rightarrow> True | Inr b \<Rightarrow> b \<longleftrightarrow> c_val (holds s) k = None) \<and>
      executed rb (holds s)
        (if c_val (holds s) k = None then (holds s)\<lparr>c_val := (c_val (holds s))(k \<mapsto> v)\<rparr> else holds s) (holds s')"
    and Get: "rd_Get R k s = Inr v \<Longrightarrow> c_val (holds s) k = Some v"
    and Get_Nil: "rd_Get R k s = Inl RedisNil \<Longrightarrow> c_val (holds s) k = None"
    and MGet: "rd_MGet R ks s = Inr os \<Longrightarrow> os = map (c_val (holds s)) ks"
    and Exists: "rd_Exists R k s = Inr n \<Longrightarrow> n = (if c_val (holds s) k = None then 0 else 1)"
    and Del: "rd_Del R k s = (rn, s') \<Longrightarrow>
      (case rn of Inl _ \<Rightarrow> True | Inr n \<Rightarrow> n = (if absent (holds s) k then 0 else 1)) \<and>
      executed rn (holds s) (without (holds s) k) (holds s')"
    and SAdd: "rd_SAdd_PExpire R k m ttl s = (r, s') \<Longrightarrow> 0 < ttl \<Longrightarrow>
      executed r (holds s) ((holds s)\<lparr>c_set := (c_set (holds s))(k := insert m (c_set (holds s) k))\<rparr>) (holds s')"
    and SMembers: "rd_SMembers R k s = Inr ms \<Longrightarrow> distinct ms \<and> set ms = c_set (holds s) k"
    and SMembers_Nil: "rd_SMembers R k s = Inl RedisNil \<Longrightarrow> c_set (holds s) k = {}"
    and SMembers_Del: "rd_SMembers_Del R k s = (rms, s') \<Longrightarrow>
      (case rms of Inl _ \<Rightarrow> True | Inr ms \<Rightarrow> distinct ms \<and> set ms = c_set (holds s) k) \<and>
      executed rms (holds s) (without (holds s) k) (holds s')"
    and SRem: "rd_SRem R k m s = (r, s') \<Longrightarrow>
      executed r (holds s) ((holds s)\<lparr>c_set := (c_set (holds s))(k := c_set (holds s) k - {m})\<rparr>) (holds s')"
    and RPush: "rd_RPush_PExpire R k v ttl s = (r, s') \<Longrightarrow> 0 < ttl \<Longrightarrow>
      executed r (holds s) ((holds s)\<lparr>c_list := (c_list (holds s))(k := c_list (holds s) k @ [v])\<rparr>) (holds s')"
    and LRange: "rd_LRange R k s = Inr vs \<Longrightarrow> vs = c_list (holds s) k"
    and LRem: "rd_LRem R k v s = (rn, s') \<Longrightarrow>
      (case rn of Inl _ \<Rightarrow> True
       | Inr n \<Rightarrow> n = int (length (filter (\<lambda>x. x = v) (c_list (holds s) k)))) \<and>
      executed rn (holds s) ((holds s)\<lparr>c_list := (c_list (holds s))(k := removeAll v (c_list (holds s) k))\<rparr>) (holds s')"

section \<open>A server with expiring keys\<close>

text \<open>
  Every key has a deadline; what is past it is gone. While \<open>m_up\<close> is false every command
  fails and changes nothing.
\<close>

record ('v, 'm) mem =
  m_now :: instant
  m_up :: bool
  m_val :: "redis_key \<Rightarrow> ('v \<times> instant) option"
  m_set :: "redis_key \<Rightarrow> ('m list \<times> instant) option"
  m_list :: "redis_key \<Rightarrow> ('v list \<times> instant) option"

definition live :: "instant \<Rightarrow> ('a \<times> instant) option \<Rightarrow> 'a option" where
  "live now e = (case e of None \<Rightarrow> None | Some (x, deadline) \<Rightarrow> if now < deadline then Some x else None)"

definition mem_val :: "('v, 'm) mem \<Rightarrow> redis_key \<Rightarrow> 'v option" where
  "mem_val s k = live (m_now s) (m_val s k)"

definition mem_set :: "('v, 'm) mem \<Rightarrow> redis_key \<Rightarrow> 'm list" where
  "mem_set s k = (case live (m_now s) (m_set s k) of None \<Rightarrow> [] | Some ms \<Rightarrow> remdups ms)"

definition mem_list :: "('v, 'm) mem \<Rightarrow> redis_key \<Rightarrow> 'v list" where
  "mem_list s k = (case live (m_now s) (m_list s k) of None \<Rightarrow> [] | Some vs \<Rightarrow> vs)"

definition mem_holds :: "('v, 'm) mem \<Rightarrow> ('v, 'm) contents" where
  "mem_holds s = \<lparr>c_val = mem_val s, c_set = (\<lambda>k. set (mem_set s k)), c_list = mem_list s\<rparr>"

definition mem_down :: error where
  "mem_down = Errorf ''connection refused''"

definition mem_deadline :: "(redis_key \<Rightarrow> ('a \<times> instant) option) \<Rightarrow> redis_key \<Rightarrow> instant" where
  "mem_deadline m k = (case m k of None \<Rightarrow> 0 | Some (_, t) \<Rightarrow> t)"

definition mem_redis :: "(('v, 'm) mem, 'v, 'm) redis" where
  "mem_redis =
     \<lparr>rd_Set = (\<lambda>k v ttl s. if m_up s then (Inr (), s\<lparr>m_val := (m_val s)(k \<mapsto> (v, m_now s + ttl))\<rparr>)
                           else (Inl mem_down, s)),
      rd_SetNX = (\<lambda>k v ttl s. if \<not> m_up s then (Inl mem_down, s)
                             else if mem_val s k = None
                             then (Inr True, s\<lparr>m_val := (m_val s)(k \<mapsto> (v, m_now s + ttl))\<rparr>)
                             else (Inr False, s)),
      rd_Get = (\<lambda>k s. if \<not> m_up s then Inl mem_down
                      else case mem_val s k of None \<Rightarrow> Inl RedisNil | Some v \<Rightarrow> Inr v),
      rd_MGet = (\<lambda>ks s. if m_up s then Inr (map (mem_val s) ks) else Inl mem_down),
      rd_Exists = (\<lambda>k s. if m_up s then Inr (if mem_val s k = None then 0 else 1) else Inl mem_down),
      rd_Del = (\<lambda>k s. if \<not> m_up s then (Inl mem_down, s)
                      else (Inr (if mem_val s k = None \<and> mem_set s k = [] \<and> mem_list s k = [] then 0 else 1),
                            s\<lparr>m_val := (m_val s)(k := None), m_set := (m_set s)(k := None),
                              m_list := (m_list s)(k := None)\<rparr>)),
      rd_SAdd_PExpire = (\<lambda>k m ttl s. if m_up s
                      then (Inr (), s\<lparr>m_set := (m_set s)(k \<mapsto> (mem_set s k @ [m], m_now s + ttl))\<rparr>)
                      else (Inl mem_down, s)),
      rd_SMembers = (\<lambda>k s. if m_up s then Inr (mem_set s k) else Inl mem_down),
      rd_SMembers_Del = (\<lambda>k s. if m_up s then (Inr (mem_set s k),
                            s\<lparr>m_val := (m_val s)(k := None), m_set := (m_set s)(k := None),
                              m_list := (m_list s)(k := None)\<rparr>)
                               else (Inl mem_down, s)),
      rd_SRem = (\<lambda>k m s. if m_up s
                      then (Inr (), s\<lparr>m_set := (m_set s)(k \<mapsto> (removeAll m (mem_set s k), mem_deadline (m_set s) k))\<rparr>)
                      else (Inl mem_down, s)),
      rd_RPush_PExpire = (\<lambda>k v ttl s. if m_up s
                      then (Inr (), s\<lparr>m_list := (m_list s)(k \<mapsto> (mem_list s k @ [v], m_now s + ttl))\<rparr>)
                      else (Inl mem_down, s)),
      rd_LRange = (\<lambda>k s. if m_up s then Inr (mem_list s k) else Inl mem_down),
      rd_LRem = (\<lambda>k v s. if m_up s
                      then (Inr (int (length (filter (\<lambda>x. x = v) (mem_list s k)))),
                            s\<lparr>m_list := (m_list s)(k \<mapsto> (removeAll v (mem_list s k), mem_deadline (m_list s) k))\<rparr>)
                      else (Inl mem_down, s))\<rparr>"

text \<open>The commands of the server one by one, to run flows on it.\<close>

lemma mem_redis_run:
  "rd_Set mem_redis = (\<lambda>k v ttl s. if m_up s then (Inr (), s\<lparr>m_val := (m_val s)(k \<mapsto> (v, m_now s + ttl))\<rparr>) else (Inl mem_down, s))"
  "rd_SetNX mem_redis = (\<lambda>k v ttl s. if \<not> m_up s then (Inl mem_down, s) else if mem_val s k = None then (Inr True, s\<lparr>m_val := (m_val s)(k \<mapsto> (v, m_now s + ttl))\<rparr>) else (Inr False, s))"
  "rd_Get mem_redis = (\<lambda>k s. if \<not> m_up s then Inl mem_down else case mem_val s k of None \<Rightarrow> Inl RedisNil | Some v \<Rightarrow> Inr v)"
  "rd_MGet mem_redis = (\<lambda>ks s. if m_up s then Inr (map (mem_val s) ks) else Inl mem_down)"
  "rd_Exists mem_redis = (\<lambda>k s. if m_up s then Inr (if mem_val s k = None then 0 else 1) else Inl mem_down)"
  "rd_Del mem_redis = (\<lambda>k s. if \<not> m_up s then (Inl mem_down, s) else (Inr (if mem_val s k = None \<and> mem_set s k = [] \<and> mem_list s k = [] then 0 else 1), s\<lparr>m_val := (m_val s)(k := None), m_set := (m_set s)(k := None), m_list := (m_list s)(k := None)\<rparr>))"
  "rd_SAdd_PExpire mem_redis = (\<lambda>k m ttl s. if m_up s then (Inr (), s\<lparr>m_set := (m_set s)(k \<mapsto> (mem_set s k @ [m], m_now s + ttl))\<rparr>) else (Inl mem_down, s))"
  "rd_SMembers mem_redis = (\<lambda>k s. if m_up s then Inr (mem_set s k) else Inl mem_down)"
  "rd_SMembers_Del mem_redis = (\<lambda>k s. if m_up s then (Inr (mem_set s k), s\<lparr>m_val := (m_val s)(k := None), m_set := (m_set s)(k := None), m_list := (m_list s)(k := None)\<rparr>) else (Inl mem_down, s))"
  "rd_SRem mem_redis = (\<lambda>k m s. if m_up s then (Inr (), s\<lparr>m_set := (m_set s)(k \<mapsto> (removeAll m (mem_set s k), mem_deadline (m_set s) k))\<rparr>) else (Inl mem_down, s))"
  "rd_RPush_PExpire mem_redis = (\<lambda>k v ttl s. if m_up s then (Inr (), s\<lparr>m_list := (m_list s)(k \<mapsto> (mem_list s k @ [v], m_now s + ttl))\<rparr>) else (Inl mem_down, s))"
  "rd_LRange mem_redis = (\<lambda>k s. if m_up s then Inr (mem_list s k) else Inl mem_down)"
  "rd_LRem mem_redis = (\<lambda>k v s. if m_up s then (Inr (int (length (filter (\<lambda>x. x = v) (mem_list s k)))), s\<lparr>m_list := (m_list s)(k \<mapsto> (removeAll v (mem_list s k), mem_deadline (m_list s) k))\<rparr>) else (Inl mem_down, s))"
  by (simp_all add: mem_redis_def)

definition mem_empty :: "('v, 'm) mem" where
  "mem_empty = \<lparr>m_now = 0, m_up = True, m_val = (\<lambda>_. None), m_set = (\<lambda>_. None), m_list = (\<lambda>_. None)\<rparr>"

lemma live_deadline: "live now e \<noteq> None \<Longrightarrow> live now (Some (x, case e of None \<Rightarrow> 0 | Some (_, t) \<Rightarrow> t)) = Some x"
  by (auto simp: live_def split: option.splits if_splits)

lemma mem_set_SRem: "set (mem_set (s\<lparr>m_set := (m_set s)(k \<mapsto> (removeAll m (mem_set s k), mem_deadline (m_set s) k))\<rparr>) k) =
    set (mem_set s k) - {m}"
  by (auto simp: mem_set_def live_def mem_deadline_def split: option.splits if_splits)

lemma mem_list_LRem: "mem_list (s\<lparr>m_list := (m_list s)(k \<mapsto> (removeAll v (mem_list s k), mem_deadline (m_list s) k))\<rparr>) k =
    removeAll v (mem_list s k)"
  by (auto simp: mem_list_def live_def mem_deadline_def split: option.splits if_splits)


lemma mem_simps [simp]:
  "mem_val (s\<lparr>m_val := f\<rparr>) k = live (m_now s) (f k)"
  "mem_val (s\<lparr>m_set := g\<rparr>) k = mem_val s k" "mem_val (s\<lparr>m_list := h\<rparr>) k = mem_val s k"
  "mem_set (s\<lparr>m_val := f\<rparr>) k = mem_set s k" "mem_set (s\<lparr>m_list := h\<rparr>) k = mem_set s k"
  "mem_list (s\<lparr>m_val := f\<rparr>) k = mem_list s k" "mem_list (s\<lparr>m_set := g\<rparr>) k = mem_list s k"
  by (simp_all add: mem_val_def mem_set_def mem_list_def)

lemma live_simps [simp]:
  "live now None = None" "live now (Some (x, t)) = (if now < t then Some x else None)"
  by (simp_all add: live_def)

lemma mem_set_other [simp]: "k' \<noteq> k \<Longrightarrow> mem_set (s\<lparr>m_set := (m_set s)(k := e)\<rparr>) k' = mem_set s k'"
  by (simp add: mem_set_def)

lemma mem_list_other [simp]: "k' \<noteq> k \<Longrightarrow> mem_list (s\<lparr>m_list := (m_list s)(k := e)\<rparr>) k' = mem_list s k'"
  by (simp add: mem_list_def)

lemma mem_holds_val: "mem_holds (s\<lparr>m_val := (m_val s)(k := e)\<rparr>) =
    (mem_holds s)\<lparr>c_val := (c_val (mem_holds s))(k := live (m_now s) e)\<rparr>"
  by (auto simp: mem_holds_def fun_eq_iff mem_val_def)

lemma mem_holds_set: "mem_holds (s\<lparr>m_set := (m_set s)(k := e)\<rparr>) =
    (mem_holds s)\<lparr>c_set := (c_set (mem_holds s))(k := set (mem_set (s\<lparr>m_set := (m_set s)(k := e)\<rparr>) k))\<rparr>"
  by (auto simp: mem_holds_def fun_eq_iff)

lemma mem_holds_list: "mem_holds (s\<lparr>m_list := (m_list s)(k := e)\<rparr>) =
    (mem_holds s)\<lparr>c_list := (c_list (mem_holds s))(k := mem_list (s\<lparr>m_list := (m_list s)(k := e)\<rparr>) k)\<rparr>"
  by (auto simp: mem_holds_def fun_eq_iff)

lemma mem_holds_sel [simp]:
  "c_val (mem_holds s) = mem_val s" "c_set (mem_holds s) k = set (mem_set s k)" "c_list (mem_holds s) = mem_list s"
  by (simp_all add: mem_holds_def)

lemma mem_set_new [simp]: "0 < ttl \<Longrightarrow> set (mem_set (s\<lparr>m_set := (m_set s)(k \<mapsto> (ms, m_now s + ttl))\<rparr>) k) = set ms"
  by (simp add: mem_set_def)

lemma mem_list_new [simp]: "0 < ttl \<Longrightarrow> mem_list (s\<lparr>m_list := (m_list s)(k \<mapsto> (vs, m_now s + ttl))\<rparr>) k = vs"
  by (simp add: mem_list_def)

lemma mem_set_distinct [simp]: "distinct (mem_set s k)"
  by (simp add: mem_set_def split: option.split)

lemma mem_set_gone [simp]: "mem_set (s\<lparr>m_set := (m_set s)(k := None)\<rparr>) k = []"
  by (simp add: mem_set_def)

lemma mem_list_gone [simp]: "mem_list (s\<lparr>m_list := (m_list s)(k := None)\<rparr>) k = []"
  by (simp add: mem_list_def)

lemma mem_delete:
  "mem_holds (s\<lparr>m_val := (m_val s)(k := None), m_set := (m_set s)(k := None), m_list := (m_list s)(k := None)\<rparr>) =
   without (mem_holds s) k"
  by (auto simp: without_def mem_holds_def fun_eq_iff mem_val_def mem_set_def mem_list_def)

text \<open>The same server when it answers every read.\<close>

definition steady_redis :: "(('v, 'm) mem, 'v, 'm) redis" where
  "steady_redis = mem_redis
     \<lparr>rd_Get := \<lambda>k s. case mem_val s k of None \<Rightarrow> Inl RedisNil | Some v \<Rightarrow> Inr v\<rparr>"

lemmas mem_facts =
  mem_redis_def executed_def absent_def mem_down_def mem_holds_val mem_holds_set mem_holds_list
  mem_delete mem_set_SRem mem_list_LRem fun_upd_idem fun_eq_iff insert_commute

interpretation mem_server: redis_server mem_redis mem_holds
  by unfold_locales
    (auto simp: mem_facts intro!: contents.equality split: if_splits option.splits)

interpretation steady_server: redis_server steady_redis mem_holds
  by unfold_locales
    (auto simp: steady_redis_def mem_facts intro!: contents.equality split: if_splits option.splits)

end
