(* ===== verification/SessionStore.thy ===== *)
theory SessionStore
  imports SessionPB Redis
begin

text \<open>
  The device-session store of \<open>internal/storage/device_session.go\<close>: saving, loading and deleting
  a session, the index from device addresses to DevEUIs, the choice of the session an uplink
  frame belongs to, and the gateway meta-data of the last uplink.

  An operation takes the Redis commands, the codec of its message and \<open>deviceSessionTTL\<close>, and
  returns its result with the new Redis state. \<open>indexed\<close> is the invariant of the index;
  the locale \<open>session_store\<close> holds the lemmas over a Redis server and a codec that satisfy
  their laws. Expiry is not one of the operations: a session outlives its index entry by no
  more than the time \<open>SaveDeviceSession\<close> takes.
\<close>

section \<open>Saving and loading\<close>

type_synonym 'v session_codec = "(device_session_pb, 'v) codec"

definition SaveDeviceSession ::
  "('s, 'v, eui64) redis \<Rightarrow> 'v session_codec \<Rightarrow> duration \<Rightarrow> device_session \<Rightarrow> 's \<Rightarrow> unit res \<times> 's" where
  "SaveDeviceSession R c deviceSessionTTL d s =
     (case enc c (deviceSessionToPB d) of
        Inl e \<Rightarrow> (Inl (Wrap e ''protobuf encode error''), s)
      | Inr b \<Rightarrow>
         (case rd_SAdd_PExpire R (devAddrKey (ds_DevAddr d)) (ds_DevEUI d) deviceSessionTTL s of
            (Inl e, s) \<Rightarrow> (Inl (Wrap e ''exec error''), s)
          | (Inr _, s) \<Rightarrow>
             (case (case PendingRejoinDeviceSession d of
                      None \<Rightarrow> (Inr (), s)
                    | Some p \<Rightarrow> rd_SAdd_PExpire R (devAddrKey (ds_DevAddr p)) (ds_DevEUI d) deviceSessionTTL s) of
                (Inl e, s) \<Rightarrow> (Inl (Wrap e ''exec error''), s)
              | (Inr _, s) \<Rightarrow>
                 (case rd_Set R (deviceSessionKey (ds_DevEUI d)) b deviceSessionTTL s of
                    (Inl e, s) \<Rightarrow> (Inl (Wrap e ''set error''), s)
                  | (Inr _, s) \<Rightarrow> (Inr (), s)))))"

definition GetDeviceSession ::
  "('s, 'v, eui64) redis \<Rightarrow> 'v session_codec \<Rightarrow> eui64 \<Rightarrow> 's \<Rightarrow> device_session res" where
  "GetDeviceSession R c devEUI s =
     (case rd_Get R (deviceSessionKey devEUI) s of
        Inl e \<Rightarrow> if e = RedisNil then Inl ErrDoesNotExist else Inl (Wrap e ''get error'')
      | Inr val \<Rightarrow>
         (case dec c val of
            Inl e \<Rightarrow> Inl (Wrap e ''unmarshal protobuf error'')
          | Inr dsPB \<Rightarrow> Inr (deviceSessionFromPB dsPB)))"

definition DeleteDeviceSession :: "('s, 'v, eui64) redis \<Rightarrow> eui64 \<Rightarrow> 's \<Rightarrow> unit res \<times> 's" where
  "DeleteDeviceSession R devEUI s =
     (case rd_Del R (deviceSessionKey devEUI) s of
        (Inl e, s) \<Rightarrow> (Inl (Wrap e ''delete error''), s)
      | (Inr val, s) \<Rightarrow> if val = 0 then (Inl ErrDoesNotExist, s) else (Inr (), s))"

definition DeviceSessionExists :: "('s, 'v, eui64) redis \<Rightarrow> eui64 \<Rightarrow> 's \<Rightarrow> bool res" where
  "DeviceSessionExists R devEUI s =
     (case rd_Exists R (deviceSessionKey devEUI) s of
        Inl e \<Rightarrow> Inl (Wrap e ''get exists error'')
      | Inr r \<Rightarrow> Inr (r = 1))"

section \<open>The sessions of a device address\<close>

definition GetDevEUIsForDevAddr :: "('s, 'v, eui64) redis \<Rightarrow> devaddr \<Rightarrow> 's \<Rightarrow> eui64 list res" where
  "GetDevEUIsForDevAddr R devAddr s =
     (case rd_SMembers R (devAddrKey devAddr) s of
        Inl e \<Rightarrow> if e = RedisNil then Inr [] else Inl (Wrap e ''get deveuis for devaddr error'')
      | Inr val \<Rightarrow> Inr val)"

definition matching_sessions :: "devaddr \<Rightarrow> device_session \<Rightarrow> device_session list" where
  "matching_sessions devAddr d =
     (if ds_DevAddr d = devAddr then [d] else []) @
     (case PendingRejoinDeviceSession d of
        None \<Rightarrow> []
      | Some p \<Rightarrow> if ds_DevAddr p = devAddr then [p] else [])"

fun sessions_loop ::
  "('s, 'v, eui64) redis \<Rightarrow> 'v session_codec \<Rightarrow> devaddr \<Rightarrow> eui64 list \<Rightarrow> device_session list \<Rightarrow> 's \<Rightarrow>
   device_session list \<times> 's" where
  "sessions_loop R c devAddr [] items s = (items, s)"
| "sessions_loop R c devAddr (devEUI # devEUIs) items s =
     (case GetDeviceSession R c devEUI s of
        Inl e \<Rightarrow>
          sessions_loop R c devAddr devEUIs items
            (if e = ErrDoesNotExist then snd (rd_SRem R (devAddrKey devAddr) devEUI s) else s)
      | Inr d \<Rightarrow> sessions_loop R c devAddr devEUIs (items @ matching_sessions devAddr d) s)"

definition GetDeviceSessionsForDevAddr ::
  "('s, 'v, eui64) redis \<Rightarrow> 'v session_codec \<Rightarrow> devaddr \<Rightarrow> 's \<Rightarrow> device_session list res \<times> 's" where
  "GetDeviceSessionsForDevAddr R c devAddr s =
     (case GetDevEUIsForDevAddr R devAddr s of
        Inl e \<Rightarrow> (Inl e, s)
      | Inr devEUIs \<Rightarrow>
          let (items, s) = sessions_loop R c devAddr devEUIs [] s in (Inr items, s))"

section \<open>The session of an uplink frame\<close>

text \<open>
  \<open>validate\<close> is \<open>ValidateUplinkDataMIC\<close> of the received frame with the frame counter set to its
  last argument. The code leaves the counter it tried last in the frame: it is part of the
  result. An \<open>Inl\<close> comes without a session, an \<open>Inr\<close> with one and possibly an error.
\<close>

datatype phy_payload = MACPayload devaddr u32 | OtherPayload

type_synonym mic_check = "mac_version \<Rightarrow> u32 \<Rightarrow> byte \<Rightarrow> byte \<Rightarrow> aeskey \<Rightarrow> aeskey \<Rightarrow> u32 \<Rightarrow> bool res"

definition session_mic :: "mic_check \<Rightarrow> int \<Rightarrow> int \<Rightarrow> device_session \<Rightarrow> u32 \<Rightarrow> bool res" where
  "session_mic validate txDR txCh d fCnt =
     validate (GetMACVersion d) (ds_ConfFCnt d) (word_of_int txDR) (word_of_int txCh)
       (ds_FNwkSIntKey d) (ds_SNwkSIntKey d) fCnt"

fun mic_loop :: "(u32 \<Rightarrow> bool res) \<Rightarrow> u32 list \<Rightarrow> u32 \<Rightarrow> bool \<Rightarrow> u32 \<times> bool res" where
  "mic_loop mic [] fCnt micOK = (fCnt, Inr micOK)"
| "mic_loop mic (fullFCnt # fs) fCnt micOK =
     (case mic fullFCnt of
        Inl e \<Rightarrow> (fullFCnt, Inl (Wrap e ''validate mic error''))
      | Inr micOK \<Rightarrow> if micOK then (fullFCnt, Inr True) else mic_loop mic fs fullFCnt False)"

definition fcnt_verdict :: "device_session \<Rightarrow> u32 \<Rightarrow> device_session \<times> error option" where
  "fcnt_verdict ds fCnt =
     (if fCnt \<ge> ds_FCntUp ds then (ds, None)
      else if ds_SkipFCntValidation ds then (ds\<lparr>ds_FCntUp := 0, ds_UplinkHistory := []\<rparr>, None)
      else if fCnt = ds_FCntUp ds - 1 then (ds, Some ErrFrameCounterRetransmission)
      else (ds, Some ErrFrameCounterReset))"

fun phy_loop ::
  "mic_check \<Rightarrow> int \<Rightarrow> int \<Rightarrow> u32 \<Rightarrow> device_session list \<Rightarrow> u32 \<Rightarrow>
   u32 \<times> ((device_session \<times> error option) option) res" where
  "phy_loop validate txDR txCh originalFCnt [] fCnt = (fCnt, Inr None)"
| "phy_loop validate txDR txCh originalFCnt (ds # dss) fCnt =
     (case mic_loop (session_mic validate txDR txCh ds)
             [GetFullFCntUp (ds_FCntUp ds) originalFCnt, originalFCnt] originalFCnt False of
        (fCnt, Inl e) \<Rightarrow> (fCnt, Inl e)
      | (fCnt, Inr micOK) \<Rightarrow>
          if micOK then (fCnt, Inr (Some (fcnt_verdict ds fCnt)))
          else phy_loop validate txDR txCh originalFCnt dss fCnt)"

definition GetDeviceSessionForPHYPayload ::
  "('s, 'v, eui64) redis \<Rightarrow> 'v session_codec \<Rightarrow> mic_check \<Rightarrow> phy_payload \<Rightarrow> int \<Rightarrow> int \<Rightarrow> 's \<Rightarrow>
   (u32 \<times> (device_session \<times> error option) res) \<times> 's" where
  "GetDeviceSessionForPHYPayload R c validate phy txDR txCh s =
     (case phy of
        OtherPayload \<Rightarrow> ((0, Inl (Errorf ''expected *lorawan.MACPayload'')), s)
      | MACPayload devAddr originalFCnt \<Rightarrow>
         (case GetDeviceSessionsForDevAddr R c devAddr s of
            (Inl e, s) \<Rightarrow> ((originalFCnt, Inl e), s)
          | (Inr deviceSessions, s) \<Rightarrow>
              if deviceSessions = [] then ((originalFCnt, Inl ErrDoesNotExist), s)
              else case phy_loop validate txDR txCh originalFCnt deviceSessions originalFCnt of
                (fCnt, Inl e) \<Rightarrow> ((fCnt, Inl e), s)
              | (fCnt, Inr (Some r)) \<Rightarrow> ((fCnt, Inr r), s)
              | (fCnt, Inr None) \<Rightarrow> ((fCnt, Inr (hd deviceSessions, Some ErrInvalidMIC)), s)))"

section \<open>The gateway meta-data of the last uplink\<close>

type_synonym 'v rx_info_codec = "(gw_rx_info_set_pb, 'v) codec"

definition SaveDeviceGatewayRXInfoSet ::
  "('s, 'v, 'm) redis \<Rightarrow> 'v rx_info_codec \<Rightarrow> duration \<Rightarrow> gw_rx_info_set \<Rightarrow> 's \<Rightarrow> unit res \<times> 's" where
  "SaveDeviceGatewayRXInfoSet R c deviceSessionTTL rxInfoSet s =
     (case enc c (deviceGatewayRXInfoSetToPB rxInfoSet) of
        Inl e \<Rightarrow> (Inl (Wrap e ''protobuf encode error''), s)
      | Inr b \<Rightarrow>
         (case rd_Set R (deviceGatewayRXInfoSetKey (gris_DevEUI rxInfoSet)) b deviceSessionTTL s of
            (Inl e, s) \<Rightarrow> (Inl (Wrap e ''psetex error''), s)
          | (Inr _, s) \<Rightarrow> (Inr (), s)))"

definition DeleteDeviceGatewayRXInfoSet :: "('s, 'v, 'm) redis \<Rightarrow> eui64 \<Rightarrow> 's \<Rightarrow> unit res \<times> 's" where
  "DeleteDeviceGatewayRXInfoSet R devEUI s =
     (case rd_Del R (deviceGatewayRXInfoSetKey devEUI) s of
        (Inl e, s) \<Rightarrow> (Inl (Wrap e ''delete error''), s)
      | (Inr val, s) \<Rightarrow> if val = 0 then (Inl ErrDoesNotExist, s) else (Inr (), s))"

definition GetDeviceGatewayRXInfoSet ::
  "('s, 'v, 'm) redis \<Rightarrow> 'v rx_info_codec \<Rightarrow> eui64 \<Rightarrow> 's \<Rightarrow> gw_rx_info_set res" where
  "GetDeviceGatewayRXInfoSet R c devEUI s =
     (case rd_Get R (deviceGatewayRXInfoSetKey devEUI) s of
        Inl e \<Rightarrow> if e = RedisNil then Inl ErrDoesNotExist else Inl (Wrap e ''get error'')
      | Inr val \<Rightarrow>
         (case dec c val of
            Inl e \<Rightarrow> Inl (Wrap e ''protobuf unmarshal error'')
          | Inr p \<Rightarrow> Inr (deviceGatewayRXInfoSetFromPB p)))"

fun rx_info_sets_loop :: "'v rx_info_codec \<Rightarrow> 'v option list \<Rightarrow> gw_rx_info_set list" where
  "rx_info_sets_loop c [] = []"
| "rx_info_sets_loop c (None # bs) = rx_info_sets_loop c bs"
| "rx_info_sets_loop c (Some b # bs) =
     (case dec c b of
        Inl _ \<Rightarrow> rx_info_sets_loop c bs
      | Inr p \<Rightarrow> deviceGatewayRXInfoSetFromPB p # rx_info_sets_loop c bs)"

definition GetDeviceGatewayRXInfoSetForDevEUIs ::
  "('s, 'v, 'm) redis \<Rightarrow> 'v rx_info_codec \<Rightarrow> eui64 list \<Rightarrow> 's \<Rightarrow> gw_rx_info_set list res" where
  "GetDeviceGatewayRXInfoSetForDevEUIs R c devEUIs s =
     (if devEUIs = [] then Inr []
      else case rd_MGet R (map deviceGatewayRXInfoSetKey devEUIs) s of
        Inl e \<Rightarrow> Inl (Wrap e ''get byte slices error'')
      | Inr bs \<Rightarrow> Inr (rx_info_sets_loop c bs))"


section \<open>What the store holds\<close>

definition session_at :: "'v session_codec \<Rightarrow> ('v, eui64) contents \<Rightarrow> eui64 \<Rightarrow> device_session option" where
  "session_at c C devEUI =
     (case c_val C (deviceSessionKey devEUI) of
        None \<Rightarrow> None
      | Some b \<Rightarrow> (case dec c b of Inl _ \<Rightarrow> None | Inr p \<Rightarrow> Some (deviceSessionFromPB p)))"

definition addresses :: "device_session \<Rightarrow> devaddr set" where
  "addresses d = insert (ds_DevAddr d) (set (map ds_DevAddr (take 1 (ds_Pending d))))"

text \<open>
  The invariant: a stored session decodes, is stored under its own DevEUI, and this DevEUI is
  registered for its device address and for the one of its pending session.
\<close>

definition indexed :: "'v session_codec \<Rightarrow> ('v, eui64) contents \<Rightarrow> bool" where
  "indexed c C \<longleftrightarrow>
     (\<forall>devEUI. c_val C (deviceSessionKey devEUI) \<noteq> None \<longrightarrow>
        (\<exists>d. session_at c C devEUI = Some d \<and> ds_DevEUI d = devEUI \<and>
             (\<forall>a \<in> addresses d. devEUI \<in> c_set C (devAddrKey a))))"

lemma indexed_mono:
  assumes "indexed c C" and "\<And>e. c_val C' (deviceSessionKey e) \<in> {c_val C (deviceSessionKey e), None}"
    and "\<And>a e. e \<in> c_set C (devAddrKey a) \<Longrightarrow> c_val C' (deviceSessionKey e) \<noteq> None \<Longrightarrow> e \<in> c_set C' (devAddrKey a)"
  shows "indexed c C'"
  unfolding indexed_def
proof (intro allI impI)
  fix e assume e: "c_val C' (deviceSessionKey e) \<noteq> None"
  then have same: "c_val C' (deviceSessionKey e) = c_val C (deviceSessionKey e)" using assms(2) [of e] by auto
  then obtain d where "session_at c C e = Some d" "ds_DevEUI d = e"
    "\<forall>a \<in> addresses d. e \<in> c_set C (devAddrKey a)"
    using assms(1) e unfolding indexed_def by metis
  then show "\<exists>d. session_at c C' e = Some d \<and> ds_DevEUI d = e \<and> (\<forall>a \<in> addresses d. e \<in> c_set C' (devAddrKey a))"
    using assms(3) e same by (intro exI [of _ d]) (auto simp: session_at_def)
qed

lemma indexed_grow:
  assumes "indexed c C" and "c_val C' = c_val C" and "\<And>k. c_set C k \<subseteq> c_set C' k"
  shows "indexed c C'"
  using assms(1) by (rule indexed_mono) (use assms(2) subsetD [OF assms(3)] in auto)

lemma fromPB_toPB_fields:
  "ds_DevEUI (deviceSessionFromPB (deviceSessionToPB d)) = ds_DevEUI d"
  "ds_DevAddr (deviceSessionFromPB (deviceSessionToPB d)) = ds_DevAddr d"
  "map ds_DevAddr (ds_Pending (deviceSessionFromPB (deviceSessionToPB d))) = map ds_DevAddr (ds_Pending d)"
  by (simp_all add: deviceSessionFromPB_def deviceSessionToPB_def with_pending_def session.defs
      device_session.defs session_from_pb_def session_to_pb_def session_pb.defs device_session_pb.defs)

lemma addresses_stored [simp]: "addresses (deviceSessionFromPB (deviceSessionToPB d)) = addresses d"
  unfolding addresses_def take_map [symmetric] fromPB_toPB_fields by simp

lemma PendingRejoin_addresses:
  "addresses d = insert (ds_DevAddr d)
     (case PendingRejoinDeviceSession d of None \<Rightarrow> {} | Some p \<Rightarrow> {ds_DevAddr p})"
  by (cases "ds_Pending d")
    (simp_all add: addresses_def PendingRejoinDeviceSession_def with_pending_def session.defs)

lemma matching_addresses: "matching_sessions a m \<noteq> [] \<longleftrightarrow> a \<in> addresses m"
  by (auto simp: matching_sessions_def PendingRejoin_addresses split: option.splits)

section \<open>The operations on it\<close>

locale session_store = redis_server R holds
  for R :: "('s, 'v, eui64) redis" and holds +
  fixes c :: "'v session_codec" and ttl :: duration
  assumes codec: "codec_ok c" and ttl: "0 < ttl"
begin

lemma register:
  assumes "rd_SAdd_PExpire R (devAddrKey a) e ttl s = (r, s')"
  shows "c_val (holds s') = c_val (holds s)" and "c_list (holds s') = c_list (holds s)"
    and "c_set (holds s) k \<subseteq> c_set (holds s') k"
    and "\<not> is_error r \<Longrightarrow> e \<in> c_set (holds s') (devAddrKey a)"
  using SAdd [OF assms ttl] by (auto simp: executed_def)

lemma indexed_register:
  "rd_SAdd_PExpire R (devAddrKey a) e ttl s = (r, s') \<Longrightarrow> indexed c (holds s) \<Longrightarrow> indexed c (holds s')"
  by (erule indexed_grow) (auto dest: register)

lemma indexed_Set:
  assumes "indexed c C" and "dec c b = Inr (deviceSessionToPB d)"
    and "\<forall>a \<in> addresses d. ds_DevEUI d \<in> c_set C (devAddrKey a)"
  shows "indexed c (C\<lparr>c_val := (c_val C)(deviceSessionKey (ds_DevEUI d) \<mapsto> b)\<rparr>)"
  using assms by (auto simp: indexed_def session_at_def fromPB_toPB_fields)

lemma Save_cases:
  assumes "SaveDeviceSession R c ttl d s = (r, s')"
  obtains s1 where "c_val (holds s1) = c_val (holds s)" "\<And>k. c_set (holds s) k \<subseteq> c_set (holds s1) k" "s' = s1"
      "is_error r"
  | s1 b r' where "c_val (holds s1) = c_val (holds s)" "\<And>k. c_set (holds s) k \<subseteq> c_set (holds s1) k"
      "enc c (deviceSessionToPB d) = Inr b" "\<forall>a \<in> addresses d. ds_DevEUI d \<in> c_set (holds s1) (devAddrKey a)"
      "rd_Set R (deviceSessionKey (ds_DevEUI d)) b ttl s1 = (r', s')" "is_error r' = is_error r"
proof (cases "enc c (deviceSessionToPB d)")
  case (Inl e)
  then have "s' = s" "is_error r" using assms by (auto simp: SaveDeviceSession_def)
  then show ?thesis using that(1) [of s] by blast
next
  case (Inr b)
  obtain r1 s1 where 1: "rd_SAdd_PExpire R (devAddrKey (ds_DevAddr d)) (ds_DevEUI d) ttl s = (r1, s1)"
    by fastforce
  note k1 = register [OF 1]
  obtain r2 s2 where 2: "(case PendingRejoinDeviceSession d of None \<Rightarrow> (Inr (), s1)
      | Some p \<Rightarrow> rd_SAdd_PExpire R (devAddrKey (ds_DevAddr p)) (ds_DevEUI d) ttl s1) = (r2, s2)"
    by fastforce
  have k2: "c_val (holds s2) = c_val (holds s1)" "c_set (holds s1) k \<subseteq> c_set (holds s2) k" for k
    using 2 register by (auto split: option.splits)
  have k2': "\<not> is_error r2 \<Longrightarrow> PendingRejoinDeviceSession d = Some p \<Longrightarrow>
      ds_DevEUI d \<in> c_set (holds s2) (devAddrKey (ds_DevAddr p))" for p
    using 2 register(4) by auto
  have sub: "c_set (holds s) k \<subseteq> c_set (holds s2) k" for k
    using k1(3) [of k] k2(2) [of k] by blast
  obtain r3 s3 where 3: "rd_Set R (deviceSessionKey (ds_DevEUI d)) b ttl s2 = (r3, s3)" by fastforce
  show ?thesis
  proof (cases r1)
    case (Inl e1)
    then have "s' = s1" "is_error r" using assms 1 Inr by (auto simp: SaveDeviceSession_def)
    then show ?thesis using that(1) [of s1] k1(1,3) by blast
  next
    case r1: (Inr u1)
    show ?thesis
    proof (cases r2)
      case (Inl e2)
      then have "s' = s2" "is_error r" using assms 1 2 Inr r1 by (auto simp: SaveDeviceSession_def)
      then show ?thesis using that(1) [of s2] k1(1) k2(1) sub by simp
    next
      case r2: (Inr u2)
      have "\<forall>a \<in> addresses d. ds_DevEUI d \<in> c_set (holds s2) (devAddrKey a)"
        using k1(4) k2(2) k2' r1 r2 by (auto simp: PendingRejoin_addresses split: option.splits)
      moreover have "s' = s3" "is_error r3 = is_error r"
        using assms 1 2 3 r1 r2 Inr by (auto simp: SaveDeviceSession_def split: sum.splits)
      ultimately show ?thesis
        using that(2) [of s2 b r3] k1(1) k2(1) sub Inr 3 by simp
    qed
  qed
qed

lemma Save_indexed:
  assumes "SaveDeviceSession R c ttl d s = (r, s')" and "indexed c (holds s)"
  shows "indexed c (holds s')"
  using assms(1)
proof (rule Save_cases)
  fix s1 assume "c_val (holds s1) = c_val (holds s)" "\<And>k. c_set (holds s) k \<subseteq> c_set (holds s1) k" "s' = s1"
  then show ?thesis using indexed_grow [OF assms(2)] by simp
next
  fix s1 b r'
  assume k: "c_val (holds s1) = c_val (holds s)" "\<And>k. c_set (holds s) k \<subseteq> c_set (holds s1) k"
    and b: "enc c (deviceSessionToPB d) = Inr b"
    and reg: "\<forall>a \<in> addresses d. ds_DevEUI d \<in> c_set (holds s1) (devAddrKey a)"
    and set: "rd_Set R (deviceSessionKey (ds_DevEUI d)) b ttl s1 = (r', s')"
  have i1: "indexed c (holds s1)" using indexed_grow [OF assms(2) k] .
  show ?thesis
    using Set [OF set ttl] i1 indexed_Set [OF i1 codec_okD [OF codec b] reg]
    by (auto simp: executed_def)
qed

lemma Save_stores:
  assumes "SaveDeviceSession R c ttl d s = (Inr (), s')"
  shows "session_at c (holds s') e =
     (if e = ds_DevEUI d then Some (deviceSessionFromPB (deviceSessionToPB d)) else session_at c (holds s) e)"
    and "\<forall>a \<in> addresses d. ds_DevEUI d \<in> c_set (holds s') (devAddrKey a)"
  using assms
proof (atomize (full), rule Save_cases)
  fix s1 b r'
  assume k: "c_val (holds s1) = c_val (holds s)"
    and b: "enc c (deviceSessionToPB d) = Inr b"
    and reg: "\<forall>a \<in> addresses d. ds_DevEUI d \<in> c_set (holds s1) (devAddrKey a)"
    and set: "rd_Set R (deviceSessionKey (ds_DevEUI d)) b ttl s1 = (r', s')"
    and r: "is_error r' = is_error (Inr ())"
  have "holds s' = (holds s1)\<lparr>c_val := (c_val (holds s1))(deviceSessionKey (ds_DevEUI d) \<mapsto> b)\<rparr>"
    using Set [OF set ttl] r by (auto simp: executed_def)
  then show "session_at c (holds s') e = (if e = ds_DevEUI d then Some (deviceSessionFromPB (deviceSessionToPB d))
      else session_at c (holds s) e) \<and> (\<forall>a \<in> addresses d. ds_DevEUI d \<in> c_set (holds s') (devAddrKey a))"
    using codec_okD [OF codec b] k reg by (simp add: session_at_def)
qed simp

lemma GetDeviceSession_at:
  assumes "GetDeviceSession R c e s = r"
  shows "r = Inr d \<Longrightarrow> session_at c (holds s) e = Some d"
    and "r = Inl ErrDoesNotExist \<Longrightarrow> c_val (holds s) (deviceSessionKey e) = None"
  using assms Get Get_Nil by (auto simp: GetDeviceSession_def session_at_def split: sum.splits if_splits)

lemma SRem_dead:
  assumes "rd_SRem R (devAddrKey a) e s = (r, s')" and "c_val (holds s) (deviceSessionKey e) = None"
  shows "c_val (holds s') = c_val (holds s)" and "c_list (holds s') = c_list (holds s)"
    and "x \<in> c_set (holds s) k \<Longrightarrow> c_val (holds s) (deviceSessionKey x) \<noteq> None \<Longrightarrow> x \<in> c_set (holds s') k"
    and "c_set (holds s') k \<subseteq> c_set (holds s) k"
  using SRem [OF assms(1)] assms(2) by (auto simp: executed_def split: if_splits)

lemma loop_frame:
  assumes "sessions_loop R c a es items s = (items', s')"
  shows "c_val (holds s') = c_val (holds s) \<and>
    (\<forall>x k. x \<in> c_set (holds s) k \<longrightarrow> c_val (holds s) (deviceSessionKey x) \<noteq> None \<longrightarrow> x \<in> c_set (holds s') k) \<and>
    (\<forall>k. c_set (holds s') k \<subseteq> c_set (holds s) k)"
  using assms
proof (induction es arbitrary: items s)
  case (Cons e es)
  show ?case
  proof (cases "GetDeviceSession R c e s")
    case (Inl er)
    show ?thesis
    proof (cases "er = ErrDoesNotExist")
      case True
      obtain r s1 where 1: "rd_SRem R (devAddrKey a) e s = (r, s1)" by fastforce
      have "c_val (holds s) (deviceSessionKey e) = None" using GetDeviceSession_at(2) Inl True by blast
      note dead = SRem_dead [OF 1 this]
      have "sessions_loop R c a es items s1 = (items', s')" using Cons.prems Inl True 1 by simp
      note IH = Cons.IH [OF this]
      have "x \<in> c_set (holds s') k" if "x \<in> c_set (holds s) k" "c_val (holds s) (deviceSessionKey x) \<noteq> None" for x k
        using dead(3) [OF that] that(2) IH dead(1) by simp
      moreover have "c_set (holds s') k \<subseteq> c_set (holds s) k" for k
        using IH dead(4) [of k] by blast
      ultimately show ?thesis using IH dead(1) by simp
    qed (use Cons Inl in simp)
  qed (use Cons in simp)
qed simp

lemma loop_error_step:
  assumes "sessions_loop R c a (e # es) items s = out" and "GetDeviceSession R c e s = Inl er"
  obtains s1 where "sessions_loop R c a es items s1 = out" "c_val (holds s1) = c_val (holds s)"
proof (cases "er = ErrDoesNotExist")
  case True
  then have "c_val (holds s) (deviceSessionKey e) = None" using GetDeviceSession_at(2) assms(2) by blast
  then have "c_val (holds (snd (rd_SRem R (devAddrKey a) e s))) = c_val (holds s)"
    using SRem_dead(1) [of a e s] by (metis prod.collapse)
  then show ?thesis using that [of "snd (rd_SRem R (devAddrKey a) e s)"] assms True by simp
qed (use that [of s] assms in simp)

lemma session_at_cong: "c_val C' = c_val C \<Longrightarrow> session_at c C' = session_at c C"
  by (simp add: session_at_def fun_eq_iff)

lemma loop_sound:
  assumes "sessions_loop R c a es items s = (items', s')" and "d \<in> set items'"
  shows "d \<in> set items \<or> (\<exists>e \<in> set es. \<exists>m. session_at c (holds s) e = Some m \<and> d \<in> set (matching_sessions a m))"
  using assms
proof (induction es arbitrary: items s)
  case (Cons e es)
  show ?case
  proof (cases "GetDeviceSession R c e s")
    case (Inl er)
    obtain s1 where 1: "sessions_loop R c a es items s1 = (items', s')" "c_val (holds s1) = c_val (holds s)"
      using loop_error_step [OF Cons.prems(1) Inl] by blast
    then show ?thesis using Cons.IH [OF 1(1)] Cons.prems(2) session_at_cong [OF 1(2)] by auto
  next
    case (Inr m)
    then have at: "session_at c (holds s) e = Some m" using GetDeviceSession_at(1) by blast
    have "sessions_loop R c a es (items @ matching_sessions a m) s = (items', s')"
      using Cons.prems(1) Inr by simp
    from Cons.IH [OF this] show ?thesis using Cons.prems(2) at by auto
  qed
qed simp

lemma loop_complete:
  assumes "\<forall>t k er. rd_Get R k t = Inl er \<longrightarrow> er = RedisNil"
    and "sessions_loop R c a es items s = (items', s')"
    and "d \<in> set items \<or> (\<exists>e \<in> set es. \<exists>m. session_at c (holds s) e = Some m \<and> d \<in> set (matching_sessions a m))"
  shows "d \<in> set items'"
  using assms(2,3)
proof (induction es arbitrary: items s)
  case (Cons e es)
  have get: "GetDeviceSession R c e s = Inr m" if "session_at c (holds s) e = Some m" for m
    using that assms(1) Get [of "deviceSessionKey e" s] Get_Nil [of "deviceSessionKey e" s]
    by (auto simp: GetDeviceSession_def session_at_def split: sum.splits option.splits)
  show ?case
  proof (cases "GetDeviceSession R c e s")
    case (Inl er)
    obtain s1 where 1: "sessions_loop R c a es items s1 = (items', s')" "c_val (holds s1) = c_val (holds s)"
      using loop_error_step [OF Cons.prems(1) Inl] by blast
    have "session_at c (holds s) e = None" using get Inl by (cases "session_at c (holds s) e") auto
    then show ?thesis using Cons.IH [OF 1(1)] Cons.prems(2) session_at_cong [OF 1(2)] by auto
  next
    case (Inr m)
    then have at: "session_at c (holds s) e = Some m" using GetDeviceSession_at(1) by blast
    have "sessions_loop R c a es (items @ matching_sessions a m) s = (items', s')"
      using Cons.prems(1) Inr by simp
    from Cons.IH [OF this] show ?thesis using Cons.prems(2) at by auto
  qed
qed simp

lemma answered:
  assumes "\<forall>t k er. rd_Get R k t = Inl er \<longrightarrow> er = RedisNil" and "session_at c (holds s) e = Some m"
  shows "GetDeviceSession R c e s = Inr m"
  using assms Get [of "deviceSessionKey e" s] Get_Nil [of "deviceSessionKey e" s]
  by (auto simp: GetDeviceSession_def session_at_def split: sum.splits option.splits)

lemma lookup_indexed:
  assumes "GetDeviceSessionsForDevAddr R c a s = (r, s')" and "indexed c (holds s)"
  shows "indexed c (holds s')"
proof (cases "GetDevEUIsForDevAddr R a s")
  case (Inl e)
  then show ?thesis using assms by (simp add: GetDeviceSessionsForDevAddr_def)
next
  case (Inr es)
  then obtain items where "sessions_loop R c a es [] s = (items, s')"
    using assms(1) by (auto simp: GetDeviceSessionsForDevAddr_def split: prod.splits)
  from loop_frame [OF this] have f: "c_val (holds s') = c_val (holds s)"
    "\<And>x k. x \<in> c_set (holds s) k \<Longrightarrow> c_val (holds s) (deviceSessionKey x) \<noteq> None \<Longrightarrow> x \<in> c_set (holds s') k"
    by blast+
  show ?thesis using assms(2) by (rule indexed_mono) (use f in auto)
qed

lemma lookup_sound:
  assumes "GetDeviceSessionsForDevAddr R c a s = (Inr items, s')" and "d \<in> set items"
  shows "\<exists>e m. session_at c (holds s) e = Some m \<and> d \<in> set (matching_sessions a m)"
proof -
  obtain es where "sessions_loop R c a es [] s = (items, s')"
    using assms(1) by (auto simp: GetDeviceSessionsForDevAddr_def split: prod.splits sum.splits)
  from loop_sound [OF this assms(2)] show ?thesis by auto
qed

lemma lookup_complete:
  assumes "\<forall>t k er. rd_Get R k t = Inl er \<longrightarrow> er = RedisNil"
    and "GetDeviceSessionsForDevAddr R c a s = (Inr items, s')"
    and "session_at c (holds s) e = Some m" and "e \<in> c_set (holds s) (devAddrKey a)"
    and "d \<in> set (matching_sessions a m)"
  shows "d \<in> set items"
proof -
  obtain es where es: "GetDevEUIsForDevAddr R a s = Inr es" "sessions_loop R c a es [] s = (items, s')"
    using assms(2) by (auto simp: GetDeviceSessionsForDevAddr_def split: prod.splits sum.splits)
  have "e \<in> set es"
    using es(1) assms(4) SMembers [of "devAddrKey a" s] SMembers_Nil [of "devAddrKey a" s]
    by (auto simp: GetDevEUIsForDevAddr_def split: sum.splits if_splits)
  then show ?thesis using loop_complete [OF assms(1) es(2)] assms(3,5) by blast
qed

lemma Del_indexed:
  assumes "DeleteDeviceSession R e s = (r, s')" and "indexed c (holds s)"
  shows "indexed c (holds s')"
proof -
  obtain rn where "rd_Del R (deviceSessionKey e) s = (rn, s')"
    using assms(1) by (auto simp: DeleteDeviceSession_def split: prod.splits sum.splits if_splits)
  then have "executed rn (holds s) (without (holds s) (deviceSessionKey e)) (holds s')"
    using Del by blast
  then have "holds s' = holds s \<or> holds s' = without (holds s) (deviceSessionKey e)"
    by (auto simp: executed_def)
  moreover have "indexed c (without (holds s) (deviceSessionKey e))"
    using assms(2) by (rule indexed_mono) (auto simp: without_def)
  ultimately show ?thesis using assms(2) by auto
qed

lemma SaveRX_indexed:
  assumes "SaveDeviceGatewayRXInfoSet R c' ttl i s = (r, s')" and "indexed c (holds s)"
  shows "indexed c (holds s')"
proof (cases "enc c' (deviceGatewayRXInfoSetToPB i)")
  case (Inl e)
  then show ?thesis using assms by (simp add: SaveDeviceGatewayRXInfoSet_def)
next
  case (Inr b)
  then obtain r' where "rd_Set R (deviceGatewayRXInfoSetKey (gris_DevEUI i)) b ttl s = (r', s')"
    using assms(1) by (auto simp: SaveDeviceGatewayRXInfoSet_def split: prod.splits sum.splits)
  from Set [OF this ttl] show ?thesis
    by (rule executed_cases) (use assms(2) in \<open>auto simp: indexed_def session_at_def\<close>)
qed

end

lemma session_storeI: "redis_server R holds \<Longrightarrow> codec_ok c \<Longrightarrow> 0 < ttl \<Longrightarrow> session_store R holds c ttl"
  by (simp add: session_store_def session_store_axioms_def)

section \<open>The session a frame belongs to\<close>

definition accepted_fcnt :: "(u32 \<Rightarrow> bool res) \<Rightarrow> device_session \<Rightarrow> u32 \<Rightarrow> u32 option" where
  "accepted_fcnt mic ds originalFCnt =
     find (\<lambda>f. mic f = Inr True) [GetFullFCntUp (ds_FCntUp ds) originalFCnt, originalFCnt]"

lemma find_unique:
  assumes "x \<in> set xs" and "P x" and "\<forall>y \<in> set xs. P y \<longrightarrow> y = x"
  shows "find P xs = Some x"
proof (cases "find P xs")
  case None
  then show ?thesis using assms(1,2) by (metis find_None_iff)
next
  case (Some y)
  then have "P y" "y \<in> set xs" by (auto simp: find_Some_iff)
  then show ?thesis using assms(3) Some by blast
qed

lemma accepted_fcnt_simps:
  "mic (GetFullFCntUp (ds_FCntUp m) orig) = Inr True \<Longrightarrow>
   accepted_fcnt mic m orig = Some (GetFullFCntUp (ds_FCntUp m) orig)"
  "mic (GetFullFCntUp (ds_FCntUp m) orig) = Inr False \<Longrightarrow> mic orig = Inr True \<Longrightarrow>
   accepted_fcnt mic m orig = Some orig"
  "mic (GetFullFCntUp (ds_FCntUp m) orig) = Inr False \<Longrightarrow> mic orig = Inr False \<Longrightarrow>
   accepted_fcnt mic m orig = None"
  by (simp_all add: accepted_fcnt_def)

lemma phy_loop_accepts:
  assumes "phy_loop validate txDR txCh orig dss f0 = (f, Inr (Some v))"
  shows "\<exists>m \<in> set dss. accepted_fcnt (session_mic validate txDR txCh m) m orig = Some f \<and> v = fcnt_verdict m f"
  using assms
proof (induction dss arbitrary: f0)
  case (Cons m dss)
  then show ?case
    by (cases "session_mic validate txDR txCh m (GetFullFCntUp (ds_FCntUp m) orig)";
        cases "session_mic validate txDR txCh m orig")
      (auto simp: accepted_fcnt_simps split: if_splits)
qed simp

lemma phy_loop_find:
  assumes "\<forall>m \<in> set dss. \<forall>g. \<exists>b. session_mic validate txDR txCh m g = Inr b"
  shows "snd (phy_loop validate txDR txCh orig dss f0) =
     Inr (map_option (\<lambda>m. fcnt_verdict m (the (accepted_fcnt (session_mic validate txDR txCh m) m orig)))
           (find (\<lambda>m. accepted_fcnt (session_mic validate txDR txCh m) m orig \<noteq> None) dss))"
  using assms
proof (induction dss arbitrary: f0)
  case (Cons m dss)
  obtain b1 b2 where "session_mic validate txDR txCh m (GetFullFCntUp (ds_FCntUp m) orig) = Inr b1"
    "session_mic validate txDR txCh m orig = Inr b2" using Cons.prems by (meson list.set_intros(1))
  then show ?case using Cons by (cases b1; cases b2) (simp_all add: accepted_fcnt_simps)
qed simp

lemma accepted_fcnt_mic: "accepted_fcnt mic ds orig = Some f \<Longrightarrow> mic f = Inr True \<and> f \<in> {GetFullFCntUp (ds_FCntUp ds) orig, orig}"
  by (auto simp: accepted_fcnt_def split: if_splits)

lemma fcnt_verdict_ok:
  "fcnt_verdict m f = (d, None) \<longleftrightarrow>
     ds_FCntUp m \<le> f \<and> d = m \<or>
     \<not> ds_FCntUp m \<le> f \<and> ds_SkipFCntValidation m \<and> d = m\<lparr>ds_FCntUp := 0, ds_UplinkHistory := []\<rparr>"
  by (auto simp: fcnt_verdict_def)

lemma retransmitted_fcnt:
  assumes "n \<noteq> 0" and "n = f + 1"
  shows "GetFullFCntUp n (f mod 2 ^ 16) = f"
  using GetFullFCntUp_reconstructs [of f n] assms by simp

text \<open>A counter with an upper half is lost once it is two or more behind.\<close>

lemma old_fcnt_not_reconstructed:
  assumes "f < n" and "f + 1 \<noteq> n" and "2 ^ 16 \<le> f"
  shows "GetFullFCntUp n (f mod 2 ^ 16) \<noteq> f" "f mod 2 ^ 16 \<noteq> f"
proof -
  have u: "uint f < uint n" "65536 \<le> uint f" "uint f + 1 \<noteq> uint n" "0 \<le> uint f" "uint n < 2 ^ 32"
  proof -
    show "uint f < uint n" "65536 \<le> uint f" "0 \<le> uint f" using assms(1,3) by (simp_all add: word_less_def word_le_def)
    show "uint n < 2 ^ 32" using uint_lt2p[of n] by simp
    show "uint f + 1 \<noteq> uint n"
    proof
      assume "uint f + 1 = uint n"
      then have "f + 1 = n" by (metis word_of_int_uint wi_hom_add word_1_wi)
      then show False using assms(2) by simp
    qed
  qed
  have "uint (f mod 2 ^ 16) = uint f mod 65536" by (simp add: uint_mod)
  then show "f mod 2 ^ 16 \<noteq> f" using u by (metis Euclidean_Rings.pos_mod_bound linorder_not_le zero_less_numeral)
  show "GetFullFCntUp n (f mod 2 ^ 16) \<noteq> f"
  proof
    assume "GetFullFCntUp n (f mod 2 ^ 16) = f"
    then have "uint (f - (n - 1)) < 2 ^ 16"
      using GetFullFCntUp_window[of "f mod 2 ^ 16" n] by (simp add: uint_mod)
    moreover have "uint (n - 1) = uint n - 1" using u by (simp add: uint_sub_if')
    then have "uint (f - (n - 1)) = uint f - (uint n - 1) + 2 ^ 32" using u by (simp add: uint_sub_if')
    ultimately show False using u by simp
  qed
qed

section \<open>Properties\<close>

text \<open>A session as it is stored, without the rounding of its message.\<close>

interpretation mem_sessions: session_store mem_redis mem_holds plain_codec 1000
  by unfold_locales simp_all

text \<open>
  C3: the index from device addresses to DevEUIs never misses a stored session, main or
  pending, whichever operation ran and whether or not one of its Redis commands failed: saving
  registers the addresses before it stores the session, and a lookup removes from the index
  only DevEUIs without a session.
\<close>

theorem session_index_invariant:
  assumes "redis_server R holds" and "codec_ok c" and "0 < ttl" and "indexed c (holds s)"
  shows "indexed c (holds (snd (SaveDeviceSession R c ttl d s))) \<and>
    indexed c (holds (snd (DeleteDeviceSession R devEUI s))) \<and>
    indexed c (holds (snd (GetDeviceSessionsForDevAddr R c devAddr s))) \<and>
    indexed c (holds (snd (GetDeviceSessionForPHYPayload R c validate phy txDR txCh s))) \<and>
    indexed c (holds (snd (SaveDeviceGatewayRXInfoSet R c' ttl info s)))"
proof -
  have st: "session_store R holds c ttl" using assms(1-3) by (rule session_storeI)
  note rules = session_store.Save_indexed [OF st] session_store.Del_indexed [OF st]
    session_store.lookup_indexed [OF st] session_store.SaveRX_indexed [OF st]
  have "indexed c (holds (snd (SaveDeviceSession R c ttl d s)))"
    "indexed c (holds (snd (DeleteDeviceSession R devEUI s)))"
    "\<And>a. indexed c (holds (snd (GetDeviceSessionsForDevAddr R c a s)))"
    "indexed c (holds (snd (SaveDeviceGatewayRXInfoSet R c' ttl info s)))"
    using rules assms(4) by (metis prod.collapse)+
  moreover have "snd (GetDeviceSessionForPHYPayload R c validate phy txDR txCh s) =
      (case phy of OtherPayload \<Rightarrow> s | MACPayload a _ \<Rightarrow> snd (GetDeviceSessionsForDevAddr R c a s))"
    by (auto simp: GetDeviceSessionForPHYPayload_def split: phy_payload.split prod.splits sum.splits option.splits)
  ultimately show ?thesis using assms(4) by (auto split: phy_payload.split)
qed

definition sample_session :: device_session where
  "sample_session = with_pending (zero_session\<lparr>ds_DevAddr := 7, ds_DevEUI := 1, ds_FCntUp := 11\<rparr>)
     [zero_session\<lparr>ds_DevAddr := 9, ds_DevEUI := 1\<rparr>]"

lemma sample_session_simps [simp]:
  "ds_DevAddr sample_session = 7" "ds_DevEUI sample_session = 1" "ds_FCntUp sample_session = 11"
  "ds_Pending sample_session = [zero_session\<lparr>ds_DevAddr := 9, ds_DevEUI := 1\<rparr>]"
  "\<not> ds_SkipFCntValidation sample_session"
  by (simp_all add: sample_session_def with_pending_def session.defs device_session.defs zero_session_def)

lemma sample_session_fits: "session_fits sample_session" "list_all session_fits (ds_Pending sample_session)"
  by (simp_all add: session_fits_def sample_session_def with_pending_def zero_session_def session.defs
      device_session.defs fits32_def entries_def)

lemma mem_empty_indexed: "indexed plain_codec (mem_holds mem_empty)"
  by (simp add: indexed_def mem_empty_def mem_val_def)

theorem session_index_invariant_witness:
  "indexed plain_codec (mem_holds (snd (SaveDeviceSession mem_redis plain_codec 1000 sample_session mem_empty)))"
  using session_index_invariant [OF mem_server.redis_server_axioms plain_codec_ok _ mem_empty_indexed, of 1000]
  by simp

text \<open>
  C5: a saved session is what the next load of its DevEUI returns, as \<open>stored d\<close>, unless Redis
  does not answer; the sessions of other devices are untouched; and a look-up by its device
  address, or by the one of its pending session, finds it.
\<close>

theorem saved_session_is_found:
  assumes "redis_server R holds" and "codec_ok c" and "0 < ttl"
    and "\<forall>t k er. rd_Get R k t = Inl er \<longrightarrow> er = RedisNil"
    and "session_fits d" and "list_all session_fits (ds_Pending d)"
    and "SaveDeviceSession R c ttl d s = (Inr (), s')"
  shows "GetDeviceSession R c (ds_DevEUI d) s' = Inr (stored d) \<and>
    (\<forall>e. e \<noteq> ds_DevEUI d \<longrightarrow> GetDeviceSession R c e s' = Inr x \<longrightarrow> session_at c (holds s) e = Some x) \<and>
    (\<forall>a items s''. GetDeviceSessionsForDevAddr R c a s' = (Inr items, s'') \<longrightarrow>
       set (matching_sessions a (stored d)) \<subseteq> set items)"
proof -
  have st: "session_store R holds c ttl" using assms(1-3) by (rule session_storeI)
  note at = session_store.Save_stores [OF st assms(7)]
  have here: "session_at c (holds s') (ds_DevEUI d) = Some (stored d)"
    using at(1) [of "ds_DevEUI d"] device_session_roundtrip [OF assms(5,6)] by simp
  have "GetDeviceSession R c (ds_DevEUI d) s' = Inr (stored d)"
    using session_store.answered [OF st assms(4) here] .
  moreover have "session_at c (holds s) e = Some x"
    if "e \<noteq> ds_DevEUI d" "GetDeviceSession R c e s' = Inr x" for e
    using session_store.GetDeviceSession_at(1) [OF st that(2)] at(1) [of e] that(1) by simp
  moreover have "set (matching_sessions a (stored d)) \<subseteq> set items"
    if "GetDeviceSessionsForDevAddr R c a s' = (Inr items, s'')" for a items s''
  proof (cases "a \<in> addresses (stored d)")
    case True
    then have "ds_DevEUI d \<in> c_set (holds s') (devAddrKey a)"
      using at(2) device_session_roundtrip [OF assms(5,6)] by (metis addresses_stored)
    then show ?thesis using session_store.lookup_complete [OF st assms(4) that here] by blast
  next
    case False
    then have "matching_sessions a (stored d) = []" using matching_addresses by blast
    then show ?thesis by simp
  qed
  ultimately show ?thesis by blast
qed

theorem saved_session_is_found_witness:
  "GetDeviceSession steady_redis plain_codec 1
     (snd (SaveDeviceSession steady_redis plain_codec 1000 sample_session mem_empty)) = Inr (stored sample_session)"
proof -
  obtain s' where s': "SaveDeviceSession steady_redis plain_codec 1000 sample_session mem_empty = (Inr (), s')"
    by (simp add: SaveDeviceSession_def plain_codec_def steady_redis_def mem_redis_def mem_empty_def
        PendingRejoinDeviceSession_def split: option.split)
  have "\<forall>t k er. rd_Get steady_redis k t = Inl er \<longrightarrow> er = RedisNil"
    by (simp add: steady_redis_def split: option.split)
  from saved_session_is_found [OF steady_server.redis_server_axioms plain_codec_ok _ this sample_session_fits s']
  show ?thesis by (simp add: s')
qed

text \<open>
  C4: the look-up by device address answers exactly the stored sessions, main or pending, that
  use the address, once the index holds and Redis answers the reads.
\<close>

theorem sessions_of_devaddr_exact:
  assumes "redis_server R holds" and "codec_ok c" and "indexed c (holds s)"
    and "\<forall>t k er. rd_Get R k t = Inl er \<longrightarrow> er = RedisNil"
    and "GetDeviceSessionsForDevAddr R c devAddr s = (Inr items, s')"
  shows "set items = {d. \<exists>e m. session_at c (holds s) e = Some m \<and>
           (d = m \<or> PendingRejoinDeviceSession m = Some d) \<and> ds_DevAddr d = devAddr}"
proof -
  have st: "session_store R holds c 1" using assms(1,2) by (rule session_storeI) simp
  have m: "d \<in> set (matching_sessions devAddr m) \<longleftrightarrow>
      (d = m \<or> PendingRejoinDeviceSession m = Some d) \<and> ds_DevAddr d = devAddr" for d m
    by (auto simp: matching_sessions_def split: option.split)
  have "d \<in> set items" if "session_at c (holds s) e = Some m" "d \<in> set (matching_sessions devAddr m)" for d e m
  proof -
    have "c_val (holds s) (deviceSessionKey e) \<noteq> None"
      using that(1) by (auto simp: session_at_def split: option.splits)
    then have "\<forall>a \<in> addresses m. e \<in> c_set (holds s) (devAddrKey a)"
      using assms(3) that(1) unfolding indexed_def by (metis option.inject)
    moreover have "devAddr \<in> addresses m"
      using that(2) matching_addresses [of devAddr m] by fastforce
    ultimately show ?thesis
      using session_store.lookup_complete [OF st assms(4,5) that(1) _ that(2)] by blast
  qed
  then show ?thesis using session_store.lookup_sound [OF st assms(5)] m by blast
qed

definition sample_store :: "(device_session_pb, eui64) mem" where
  "sample_store = snd (SaveDeviceSession steady_redis plain_codec 1000 sample_session mem_empty)"

lemma steady_answers: "\<forall>t k er. rd_Get steady_redis k t = Inl er \<longrightarrow> er = RedisNil"
  by (simp add: steady_redis_def split: option.split)

lemma sample_store_indexed: "indexed plain_codec (mem_holds sample_store)"
proof -
  have "session_store steady_redis mem_holds plain_codec 1000"
    by (rule session_storeI [OF steady_server.redis_server_axioms]) simp_all
  from session_store.Save_indexed [OF this _ mem_empty_indexed] show ?thesis
    unfolding sample_store_def by (metis prod.collapse)
qed

lemma sample_get: "GetDeviceSession steady_redis plain_codec 1 sample_store = Inr (stored sample_session)"
  using device_session_roundtrip [OF sample_session_fits]
  by (simp add: sample_store_def GetDeviceSession_def SaveDeviceSession_def plain_codec_def steady_redis_def
      mem_redis_def mem_empty_def mem_val_def PendingRejoinDeviceSession_def)

theorem sessions_of_devaddr_exact_witness:
  "\<exists>items s'. GetDeviceSessionsForDevAddr steady_redis plain_codec 9 sample_store = (Inr items, s') \<and>
     set items = {d. \<exists>e m. session_at plain_codec (mem_holds sample_store) e = Some m \<and>
       (d = m \<or> PendingRejoinDeviceSession m = Some d) \<and> ds_DevAddr d = 9}"
proof -
  obtain items s' where r: "GetDeviceSessionsForDevAddr steady_redis plain_codec 9 sample_store = (Inr items, s')"
    by (cases "GetDeviceSessionsForDevAddr steady_redis plain_codec 9 sample_store")
      (auto simp: GetDeviceSessionsForDevAddr_def GetDevEUIsForDevAddr_def steady_redis_def mem_redis_def
        sample_store_def SaveDeviceSession_def mem_empty_def plain_codec_def PendingRejoinDeviceSession_def
        split: prod.splits if_splits)
  then show ?thesis
    using sessions_of_devaddr_exact [OF steady_server.redis_server_axioms plain_codec_ok
        sample_store_indexed steady_answers r] by blast
qed

lemma lookup_accepts:
  assumes "redis_server R holds" and "codec_ok c"
    and "GetDeviceSessionForPHYPayload R c validate (MACPayload devAddr orig) txDR txCh s = ((f, Inr (d, None)), s')"
  shows "\<exists>m e x. session_at c (holds s) e = Some x \<and> (m = x \<or> PendingRejoinDeviceSession x = Some m) \<and>
    ds_DevAddr m = devAddr \<and>
    validate (GetMACVersion m) (ds_ConfFCnt m) (word_of_int txDR) (word_of_int txCh)
      (ds_FNwkSIntKey m) (ds_SNwkSIntKey m) f = Inr True \<and>
    f \<in> {GetFullFCntUp (ds_FCntUp m) orig, orig} \<and>
    (if ds_FCntUp m \<le> f then d = m
     else ds_SkipFCntValidation m \<and> d = m\<lparr>ds_FCntUp := 0, ds_UplinkHistory := []\<rparr>)"
proof -
  have st: "session_store R holds c 1" using assms(1,2) by (rule session_storeI) simp
  obtain items s1 where items: "GetDeviceSessionsForDevAddr R c devAddr s = (Inr items, s1)"
    and loop: "phy_loop validate txDR txCh orig items orig = (f, Inr (Some (d, None)))"
    using assms(3) by (auto simp: GetDeviceSessionForPHYPayload_def split: prod.splits sum.splits option.splits if_splits)
  obtain m where m: "m \<in> set items" "accepted_fcnt (session_mic validate txDR txCh m) m orig = Some f"
    "fcnt_verdict m f = (d, None)"
    using phy_loop_accepts [OF loop] by auto
  obtain e x where x: "session_at c (holds s) e = Some x" "m \<in> set (matching_sessions devAddr x)"
    using session_store.lookup_sound [OF st items m(1)] by blast
  have "(m = x \<or> PendingRejoinDeviceSession x = Some m) \<and> ds_DevAddr m = devAddr"
    using x(2) by (auto simp: matching_sessions_def split: option.splits if_splits)
  moreover have "session_mic validate txDR txCh m f = Inr True \<and> f \<in> {GetFullFCntUp (ds_FCntUp m) orig, orig}"
    using m(2) by (rule accepted_fcnt_mic)
  moreover have "if ds_FCntUp m \<le> f then d = m
     else ds_SkipFCntValidation m \<and> d = m\<lparr>ds_FCntUp := 0, ds_UplinkHistory := []\<rparr>"
    using m(3) by (auto simp: fcnt_verdict_ok)
  ultimately show ?thesis using x(1) unfolding session_mic_def by blast
qed

text \<open>
  C1: an uplink that the look-up accepts is authentic and fresh: some stored session of its
  device address validates its MIC at the counter \<open>f\<close> the frame is left with, \<open>f\<close> is the
  received counter or the one reconstructed from it, and it is not below the counter the
  session expects next, unless the session skips the validation, which restarts its counter
  and forgets its history.
\<close>

theorem accepted_uplink_is_authentic_and_fresh:
  assumes "redis_server R holds" and "codec_ok c"
    and "GetDeviceSessionForPHYPayload R c validate (MACPayload devAddr orig) txDR txCh s = ((f, Inr (d, None)), s')"
  shows "\<exists>m e x. session_at c (holds s) e = Some x \<and> (m = x \<or> PendingRejoinDeviceSession x = Some m) \<and>
    ds_DevAddr m = devAddr \<and>
    validate (GetMACVersion m) (ds_ConfFCnt m) (word_of_int txDR) (word_of_int txCh)
      (ds_FNwkSIntKey m) (ds_SNwkSIntKey m) f = Inr True \<and>
    f \<in> {GetFullFCntUp (ds_FCntUp m) orig, orig} \<and>
    (if ds_FCntUp m \<le> f then d = m
     else ds_SkipFCntValidation m \<and> d = m\<lparr>ds_FCntUp := 0, ds_UplinkHistory := []\<rparr>)"
  by (rule lookup_accepts [OF assms])

lemma sample_sessions:
  "GetDeviceSessionsForDevAddr steady_redis plain_codec 7 sample_store = (Inr [stored sample_session], sample_store)"
proof -
  have "GetDevEUIsForDevAddr steady_redis 7 sample_store = Inr [1]"
    by (simp add: GetDevEUIsForDevAddr_def steady_redis_def mem_redis_def
        sample_store_def SaveDeviceSession_def mem_empty_def plain_codec_def PendingRejoinDeviceSession_def
        with_pending_def session.defs zero_session_def mem_set_def)
  then show ?thesis
    by (simp add: GetDeviceSessionsForDevAddr_def sample_get matching_sessions_def PendingRejoinDeviceSession_def
        with_pending_def session.defs stored_session_def)
qed

lemma sample_lookup:
  "GetDeviceSessionForPHYPayload steady_redis plain_codec (\<lambda>_ _ _ _ _ _ g. Inr (g = 12)) (MACPayload 7 12) 0 0 sample_store
   = ((12, Inr (stored sample_session, None)), sample_store)"
proof -
  have "GetFullFCntUp 11 12 = 12" using GetFullFCntUp_reconstructs [of 12 11] by simp
  then show ?thesis
    by (simp add: GetDeviceSessionForPHYPayload_def sample_sessions session_mic_def fcnt_verdict_def
        stored_def stored_session_def)
qed

theorem accepted_uplink_is_authentic_and_fresh_witness:
  "\<exists>m e x. session_at plain_codec (mem_holds sample_store) e = Some x \<and>
     (m = x \<or> PendingRejoinDeviceSession x = Some m) \<and> ds_DevAddr m = 7 \<and>
     12 \<in> {GetFullFCntUp (ds_FCntUp m) 12, 12}"
proof -
  let ?v = "\<lambda>_ _ _ _ _ _ g. Inr (g = 12)"
  from accepted_uplink_is_authentic_and_fresh [OF steady_server.redis_server_axioms plain_codec_ok sample_lookup]
  show ?thesis by blast
qed

text \<open>
  C2: a frame cannot be replayed. A frame with a counter \<open>f\<close> below the one its session expects, as every
  frame has that the session has processed, whose MIC is valid at \<open>f\<close> only and under the keys of
  this session only, is refused whenever the session does not skip the validation: with the retransmission
  error when it is the latest one, with the reset error for an earlier one of the first \<open>2 ^ 16\<close>, and
  with the MIC error for the others, whose upper half the received sixteen bits do not give back.
\<close>

theorem replayed_uplink_is_refused:
  assumes "GetDeviceSessionsForDevAddr R c devAddr s = (Inr items, s')"
    and "m \<in> set items" and "f < ds_FCntUp m" and "\<not> ds_SkipFCntValidation m"
    and "\<forall>x \<in> set items. \<forall>g. session_mic validate txDR txCh x g = Inr (x = m \<and> g = f)"
  shows "snd (fst (GetDeviceSessionForPHYPayload R c validate (MACPayload devAddr (f mod 2 ^ 16)) txDR txCh s)) =
    Inr (if f + 1 = ds_FCntUp m then (m, Some ErrFrameCounterRetransmission)
         else if f < 2 ^ 16 then (m, Some ErrFrameCounterReset)
         else (hd items, Some ErrInvalidMIC))"
proof -
  let ?o = "f mod 2 ^ 16"
  let ?P = "\<lambda>x. accepted_fcnt (session_mic validate txDR txCh x) x ?o \<noteq> None"
  define seen where "seen \<longleftrightarrow> f + 1 = ds_FCntUp m \<or> f < 2 ^ 16"
  have acc: "accepted_fcnt (session_mic validate txDR txCh m) m ?o = (if seen then Some f else None)"
  proof (cases seen)
    case True
    have "?o = f" if "f < 2 ^ 16" using that by (simp add: mod_word_less)
    moreover have "GetFullFCntUp (ds_FCntUp m) ?o = f" if "f + 1 = ds_FCntUp m"
      using that retransmitted_fcnt[of "ds_FCntUp m" f] assms(3) by (metis word_not_simps(1))
    ultimately have "GetFullFCntUp (ds_FCntUp m) ?o = f \<or> ?o = f" using True unfolding seen_def by blast
    then show ?thesis using True bspec[OF assms(5) assms(2)] by (auto simp: accepted_fcnt_def)
  next
    case False
    then have "GetFullFCntUp (ds_FCntUp m) ?o \<noteq> f" "?o \<noteq> f"
      using old_fcnt_not_reconstructed[OF assms(3)] by (simp_all add: seen_def not_less)
    then show ?thesis using False assms(2,5) by (simp add: accepted_fcnt_def)
  qed
  have other: "\<not> ?P x" if "x \<in> set items" "x \<noteq> m" for x
    using that assms(5) by (simp add: accepted_fcnt_def)
  have "find ?P items = (if seen then Some m else None)"
  proof (cases seen)
    case True
    have "find ?P items = Some m"
      by (rule find_unique[OF assms(2)]) (use acc other True in \<open>simp, blast\<close>)
    then show ?thesis using True by simp
  next
    case False
    then have "\<not> ?P x" if "x \<in> set items" for x using that acc other by (cases "x = m") auto
    then have "find ?P items = None" by (simp add: find_None_iff)
    then show ?thesis using False by simp
  qed
  then have "snd (phy_loop validate txDR txCh ?o items ?o) = Inr (if seen then Some (fcnt_verdict m f) else None)"
    using phy_loop_find [of items validate txDR txCh ?o ?o] assms(5) acc by simp
  moreover have "fcnt_verdict m f = (m, Some (if f + 1 = ds_FCntUp m then ErrFrameCounterRetransmission else ErrFrameCounterReset))"
    using assms(3,4) by (simp add: fcnt_verdict_def eq_diff_eq)
  ultimately show ?thesis
    using assms(1,2) by (auto simp: GetDeviceSessionForPHYPayload_def seen_def split: prod.splits)
qed

theorem replayed_uplink_is_refused_witness:
  "snd (fst (GetDeviceSessionForPHYPayload steady_redis plain_codec (\<lambda>_ _ _ _ _ _ g. Inr (g = 10)) (MACPayload 7 (10 mod 2 ^ 16)) 0 0
     sample_store)) = Inr (stored sample_session, Some ErrFrameCounterRetransmission) \<and>
   snd (fst (GetDeviceSessionForPHYPayload steady_redis plain_codec (\<lambda>_ _ _ _ _ _ g. Inr (g = 9)) (MACPayload 7 (9 mod 2 ^ 16)) 0 0
     sample_store)) = Inr (stored sample_session, Some ErrFrameCounterReset)"
  using replayed_uplink_is_refused [OF sample_sessions, of _ 10 "\<lambda>_ _ _ _ _ _ g. Inr (g = 10)"]
    replayed_uplink_is_refused [OF sample_sessions, of _ 9 "\<lambda>_ _ _ _ _ _ g. Inr (g = 9)"]
  by (simp add: session_mic_def stored_def stored_session_def)

end
