(* ===== verification/MacQueue.thy ===== *)
theory MacQueue
  imports Redis
begin

text \<open>
  The mac-command queue of \<open>internal/storage/mac_command.go\<close>: blocks of mac-commands, their
  size and byte encoding, the queue of a device and the block it is expected to answer, one
  per command identifier. The encoding of a single mac-command is the library's (\<open>marshal\<close>,
  \<open>unmarshal\<close>, \<open>payload_size\<close>), the encoding of a block is gob's (a \<open>codec\<close>).
\<close>

section \<open>Blocks\<close>

record mac_block =
  mb_CID :: cid
  mb_External :: bool
  mb_MACCommands :: "mac_command list"

fun size_loop :: "(mac_command \<Rightarrow> byte list res) \<Rightarrow> mac_command list \<Rightarrow> int \<Rightarrow> int res" where
  "size_loop marshal [] count = Inr count"
| "size_loop marshal (mc # mcs) count =
     (case marshal mc of
        Inl e \<Rightarrow> Inl (Wrap e ''marshal binary error'')
      | Inr b \<Rightarrow> size_loop marshal mcs (count + int (length b)))"

definition MACCommandBlock_Size :: "(mac_command \<Rightarrow> byte list res) \<Rightarrow> mac_block \<Rightarrow> int res" where
  "MACCommandBlock_Size marshal m = size_loop marshal (mb_MACCommands m) 0"

fun MACCommands_MarshalBinary :: "(mac_command \<Rightarrow> byte list res) \<Rightarrow> mac_command list \<Rightarrow> byte list res" where
  "MACCommands_MarshalBinary marshal [] = Inr []"
| "MACCommands_MarshalBinary marshal (mac # macs) =
     (case marshal mac of
        Inl e \<Rightarrow> Inl e
      | Inr b \<Rightarrow>
         (case MACCommands_MarshalBinary marshal macs of Inl e \<Rightarrow> Inl e | Inr bs \<Rightarrow> Inr (b @ bs)))"

text \<open>
  The loop over the bytes: \<open>data\<close> is what is left from position \<open>i\<close> on, \<open>m\<close> the commands read
  so far. On an error the commands before it stay in \<open>m\<close>.
\<close>

function MACCommands_UnmarshalBinary ::
  "(byte \<Rightarrow> nat res) \<Rightarrow> (byte list \<Rightarrow> mac_command res) \<Rightarrow> byte list \<Rightarrow> mac_command list \<Rightarrow>
   error option \<times> mac_command list" where
  "MACCommands_UnmarshalBinary payload_size unmarshal data m =
     (case data of
        [] \<Rightarrow> (None, m)
      | cid # _ \<Rightarrow>
          let pLen = (case payload_size cid of Inl _ \<Rightarrow> 0 | Inr s \<Rightarrow> s) in
          if length data < pLen + 1 then (Some (Errorf ''not enough remaining bytes''), m)
          else (case unmarshal (take (pLen + 1) data) of
                  Inl e \<Rightarrow> (Some e, m)
                | Inr mc \<Rightarrow> MACCommands_UnmarshalBinary payload_size unmarshal (drop (pLen + 1) data) (m @ [mc])))"
  by pat_completeness auto
termination
  by (relation "measure (\<lambda>(_, _, data, _). length data)") auto

declare MACCommands_UnmarshalBinary.simps [simp del]

section \<open>The queue and the pending blocks\<close>

type_synonym 'v block_codec = "(mac_block, 'v) codec"

definition FlushMACCommandQueue :: "('s, 'v, 'm) redis \<Rightarrow> eui64 \<Rightarrow> 's \<Rightarrow> unit res \<times> 's" where
  "FlushMACCommandQueue R devEUI s =
     (case rd_Del R (macCommandQueueKey devEUI) s of
        (Inl e, s) \<Rightarrow> (Inl (Wrap e ''flush mac-command queue error''), s)
      | (Inr _, s) \<Rightarrow> (Inr (), s))"

definition CreateMACCommandQueueItem ::
  "('s, 'v, 'm) redis \<Rightarrow> 'v block_codec \<Rightarrow> duration \<Rightarrow> eui64 \<Rightarrow> mac_block \<Rightarrow> 's \<Rightarrow> unit res \<times> 's" where
  "CreateMACCommandQueueItem R c deviceSessionTTL devEUI block s =
     (case enc c block of
        Inl e \<Rightarrow> (Inl (Wrap e ''gob encode error''), s)
      | Inr buf \<Rightarrow>
         (case rd_RPush_PExpire R (macCommandQueueKey devEUI) buf deviceSessionTTL s of
            (Inl e, s) \<Rightarrow> (Inl (Wrap e ''create mac-command queue item error''), s)
          | (Inr _, s) \<Rightarrow> (Inr (), s)))"

fun decode_blocks :: "'v block_codec \<Rightarrow> 'v list \<Rightarrow> mac_block list res" where
  "decode_blocks c [] = Inr []"
| "decode_blocks c (v # vs) =
     (case dec c v of
        Inl e \<Rightarrow> Inl (Wrap e ''gob decode error'')
      | Inr block \<Rightarrow> (case decode_blocks c vs of Inl e \<Rightarrow> Inl e | Inr out \<Rightarrow> Inr (block # out)))"

definition GetMACCommandQueueItems ::
  "('s, 'v, 'm) redis \<Rightarrow> 'v block_codec \<Rightarrow> eui64 \<Rightarrow> 's \<Rightarrow> mac_block list res" where
  "GetMACCommandQueueItems R c devEUI s =
     (case rd_LRange R (macCommandQueueKey devEUI) s of
        Inl e \<Rightarrow> Inl (Wrap e ''get mac-command queue items error'')
      | Inr values \<Rightarrow> decode_blocks c values)"

definition DeleteMACCommandQueueItem ::
  "('s, 'v, 'm) redis \<Rightarrow> 'v block_codec \<Rightarrow> eui64 \<Rightarrow> mac_block \<Rightarrow> 's \<Rightarrow> unit res \<times> 's" where
  "DeleteMACCommandQueueItem R c devEUI block s =
     (case enc c block of
        Inl e \<Rightarrow> (Inl (Wrap e ''gob encode error''), s)
      | Inr buf \<Rightarrow>
         (case rd_LRem R (macCommandQueueKey devEUI) buf s of
            (Inl e, s) \<Rightarrow> (Inl (Wrap e ''delete mac-command queue item error''), s)
          | (Inr val, s) \<Rightarrow> if val = 0 then (Inl ErrDoesNotExist, s) else (Inr (), s)))"

definition SetPendingMACCommand ::
  "('s, 'v, 'm) redis \<Rightarrow> 'v block_codec \<Rightarrow> duration \<Rightarrow> eui64 \<Rightarrow> mac_block \<Rightarrow> 's \<Rightarrow> unit res \<times> 's" where
  "SetPendingMACCommand R c deviceSessionTTL devEUI block s =
     (case enc c block of
        Inl e \<Rightarrow> (Inl (Wrap e ''gob encode error''), s)
      | Inr buf \<Rightarrow>
         (case rd_Set R (macCommandPendingKey devEUI (mb_CID block)) buf deviceSessionTTL s of
            (Inl e, s) \<Rightarrow> (Inl (Wrap e ''set mac-command pending error''), s)
          | (Inr _, s) \<Rightarrow> (Inr (), s)))"

definition GetPendingMACCommand ::
  "('s, 'v, 'm) redis \<Rightarrow> 'v block_codec \<Rightarrow> eui64 \<Rightarrow> cid \<Rightarrow> 's \<Rightarrow> mac_block option res" where
  "GetPendingMACCommand R c devEUI cid s =
     (case rd_Get R (macCommandPendingKey devEUI cid) s of
        Inl e \<Rightarrow> if e = RedisNil then Inr None else Inl (Wrap e ''get pending mac-command error'')
      | Inr val \<Rightarrow>
         (case dec c val of
            Inl e \<Rightarrow> Inl (Wrap e ''gob decode error'')
          | Inr block \<Rightarrow> Inr (Some block)))"

definition DeletePendingMACCommand :: "('s, 'v, 'm) redis \<Rightarrow> eui64 \<Rightarrow> cid \<Rightarrow> 's \<Rightarrow> unit res \<times> 's" where
  "DeletePendingMACCommand R devEUI cid s =
     (case rd_Del R (macCommandPendingKey devEUI cid) s of
        (Inl e, s) \<Rightarrow> (Inl (Wrap e ''delete pending mac-command error''), s)
      | (Inr val, s) \<Rightarrow> if val = 0 then (Inl ErrDoesNotExist, s) else (Inr (), s))"

section \<open>Encoding\<close>

lemma size_loop_length:
  "size_loop marshal mcs n =
     (case MACCommands_MarshalBinary marshal mcs of
        Inl e \<Rightarrow> Inl (Wrap e ''marshal binary error'')
      | Inr bs \<Rightarrow> Inr (n + int (length bs)))"
  by (induction marshal mcs n rule: size_loop.induct) (auto split: sum.splits)

text \<open>
  What the library's encoding promises: a command starts with its identifier, whose payload
  size is known unless the payload is empty, and decodes to itself.
\<close>

definition mac_encoding_ok ::
  "(mac_command \<Rightarrow> byte list res) \<Rightarrow> (byte \<Rightarrow> nat res) \<Rightarrow> (byte list \<Rightarrow> mac_command res) \<Rightarrow> mac_command \<Rightarrow> bool" where
  "mac_encoding_ok marshal payload_size unmarshal mc \<longleftrightarrow>
     (case marshal mc of
        Inl _ \<Rightarrow> True
      | Inr [] \<Rightarrow> False
      | Inr (b # bs) \<Rightarrow> unmarshal (b # bs) = Inr mc \<and>
          (case payload_size b of Inl _ \<Rightarrow> bs = [] | Inr n \<Rightarrow> n = length bs))"

lemma Unmarshal_Marshal:
  assumes "\<forall>mc \<in> set mcs. mac_encoding_ok marshal payload_size unmarshal mc"
    and "MACCommands_MarshalBinary marshal mcs = Inr bs"
  shows "MACCommands_UnmarshalBinary payload_size unmarshal bs m = (None, m @ mcs)"
  using assms
proof (induction mcs arbitrary: bs m)
  case Nil
  then show ?case by (simp add: MACCommands_UnmarshalBinary.simps)
next
  case (Cons mc mcs)
  obtain e es where e: "marshal mc = Inr e" "MACCommands_MarshalBinary marshal mcs = Inr es" "bs = e @ es"
    using Cons.prems(2) by (auto split: sum.splits)
  obtain b r where b: "e = b # r" "unmarshal e = Inr mc"
    and n: "(case payload_size b of Inl _ \<Rightarrow> 0 | Inr n \<Rightarrow> n) = length r"
    using Cons.prems(1) e(1) by (auto simp: mac_encoding_ok_def split: list.splits sum.splits)
  show ?case
    using Cons.IH [OF _ e(2), of "m @ [mc]"] Cons.prems(1) n b
    by (subst MACCommands_UnmarshalBinary.simps) (simp add: e(3))
qed

section \<open>The store\<close>

definition queue_of :: "'v block_codec \<Rightarrow> ('v, 'm) contents \<Rightarrow> eui64 \<Rightarrow> mac_block list res" where
  "queue_of c C devEUI = decode_blocks c (c_list C (macCommandQueueKey devEUI))"

definition pending_of :: "'v block_codec \<Rightarrow> ('v, 'm) contents \<Rightarrow> eui64 \<Rightarrow> cid \<Rightarrow> mac_block option" where
  "pending_of c C devEUI cid =
     (case c_val C (macCommandPendingKey devEUI cid) of
        None \<Rightarrow> None
      | Some v \<Rightarrow> (case dec c v of Inl _ \<Rightarrow> None | Inr b \<Rightarrow> Some b))"

text \<open>Every queued value is the encoding of a block.\<close>

definition encoded_queue :: "'v block_codec \<Rightarrow> ('v, 'm) contents \<Rightarrow> eui64 \<Rightarrow> bool" where
  "encoded_queue c C devEUI \<longleftrightarrow> (\<forall>v \<in> set (c_list C (macCommandQueueKey devEUI)). \<exists>b. enc c b = Inr v)"

lemma decode_blocks_append:
  "decode_blocks c (vs @ ws) =
     (case decode_blocks c vs of Inl e \<Rightarrow> Inl e
      | Inr bs \<Rightarrow> (case decode_blocks c ws of Inl e \<Rightarrow> Inl e | Inr bs' \<Rightarrow> Inr (bs @ bs')))"
  by (induction vs) (auto split: sum.splits)

lemma decode_blocks_removeAll:
  assumes "codec_ok c" and "\<forall>v \<in> set vs. \<exists>b. enc c b = Inr v" and "enc c block = Inr buf"
    and "decode_blocks c vs = Inr bs"
  shows "decode_blocks c (removeAll buf vs) = Inr (removeAll block bs)"
    and "buf \<in> set vs \<longleftrightarrow> block \<in> set bs"
  using assms(2,4)
proof (atomize (full), induction vs arbitrary: bs)
  case (Cons v vs)
  obtain b where b: "enc c b = Inr v" using Cons.prems by auto
  then have d: "dec c v = Inr b" using assms(1) by (simp add: codec_ok_def)
  obtain bs' where bs': "decode_blocks c vs = Inr bs'" "bs = b # bs'"
    using Cons.prems(2) d by (auto split: sum.splits)
  have "v = buf \<longleftrightarrow> b = block"
    using b assms(3) d codec_okD [OF assms(1,3)] by auto
  then show ?case using Cons.IH [OF _ bs'(1)] Cons.prems(1) d bs' by auto
qed simp

context redis_server
begin

lemma Create_effect:
  assumes "CreateMACCommandQueueItem R c ttl devEUI block s = (r, s')" and "0 < ttl" and "codec_ok c"
  shows "executed r (holds s) ((holds s)\<lparr>c_list := (c_list (holds s))
      (macCommandQueueKey devEUI := c_list (holds s) (macCommandQueueKey devEUI) @ [projr (enc c block)])\<rparr>) (holds s')"
    and "r = Inr () \<Longrightarrow> enc c block = Inr (projr (enc c block))"
proof -
  have "executed r (holds s) ((holds s)\<lparr>c_list := (c_list (holds s))
      (macCommandQueueKey devEUI := c_list (holds s) (macCommandQueueKey devEUI) @ [projr (enc c block)])\<rparr>) (holds s') \<and>
    (r = Inr () \<longrightarrow> enc c block = Inr (projr (enc c block)))"
  proof (cases "enc c block")
    case (Inl e)
    then show ?thesis using assms(1) by (auto simp: CreateMACCommandQueueItem_def executed_def)
  next
    case (Inr buf)
    obtain r1 s1 where 1: "rd_RPush_PExpire R (macCommandQueueKey devEUI) buf ttl s = (r1, s1)" by fastforce
    then have "s' = s1" "is_error r = is_error r1"
      using assms(1) Inr by (auto simp: CreateMACCommandQueueItem_def split: sum.splits)
    then show ?thesis using RPush [OF 1 assms(2)] Inr by (simp add: executed_def)
  qed
  then show "executed r (holds s) ((holds s)\<lparr>c_list := (c_list (holds s))
      (macCommandQueueKey devEUI := c_list (holds s) (macCommandQueueKey devEUI) @ [projr (enc c block)])\<rparr>) (holds s')"
    and "r = Inr () \<Longrightarrow> enc c block = Inr (projr (enc c block))" by blast+
qed

lemma Delete_effect:
  assumes "DeleteMACCommandQueueItem R c devEUI block s = (r, s')" and "enc c block = Inr buf"
    and "r = Inr () \<or> r = Inl ErrDoesNotExist"
  shows "holds s' = (holds s)\<lparr>c_list := (c_list (holds s))
      (macCommandQueueKey devEUI := removeAll buf (c_list (holds s) (macCommandQueueKey devEUI)))\<rparr>"
    and "r = Inl ErrDoesNotExist \<longleftrightarrow> buf \<notin> set (c_list (holds s) (macCommandQueueKey devEUI))"
proof -
  obtain rn where rn: "rd_LRem R (macCommandQueueKey devEUI) buf s = (rn, s')"
    using assms(1,2) by (auto simp: DeleteMACCommandQueueItem_def split: prod.splits sum.splits if_splits)
  obtain n where n: "rn = Inr n" "r = (if n = 0 then Inl ErrDoesNotExist else Inr ())"
    using assms(1-3) rn by (auto simp: DeleteMACCommandQueueItem_def split: sum.splits if_splits)
  have "n = int (length (filter (\<lambda>x. x = buf) (c_list (holds s) (macCommandQueueKey devEUI))))"
    and "holds s' = (holds s)\<lparr>c_list := (c_list (holds s))
      (macCommandQueueKey devEUI := removeAll buf (c_list (holds s) (macCommandQueueKey devEUI)))\<rparr>"
    using LRem [OF rn] n(1) by (simp_all add: executed_def)
  then show "holds s' = (holds s)\<lparr>c_list := (c_list (holds s))
      (macCommandQueueKey devEUI := removeAll buf (c_list (holds s) (macCommandQueueKey devEUI)))\<rparr>"
    and "r = Inl ErrDoesNotExist \<longleftrightarrow> buf \<notin> set (c_list (holds s) (macCommandQueueKey devEUI))"
    using n(2) by (auto simp: filter_empty_conv)
qed


lemma queue_frame: "c_list C' (macCommandQueueKey e) = c_list C (macCommandQueueKey e) \<Longrightarrow> queue_of c C' e = queue_of c C e"
  by (simp add: queue_of_def)

lemma Create_queue:
  assumes "CreateMACCommandQueueItem R c ttl devEUI block s = (Inr (), s')" and "0 < ttl" and "codec_ok c"
    and "queue_of c (holds s) devEUI = Inr bs" and "encoded_queue c (holds s) devEUI"
  shows "queue_of c (holds s') devEUI = Inr (bs @ [block]) \<and> encoded_queue c (holds s') devEUI \<and>
    (\<forall>e. e \<noteq> devEUI \<longrightarrow> queue_of c (holds s') e = queue_of c (holds s) e)"
proof -
  note eff = Create_effect [OF assms(1-3)]
  have d: "dec c (projr (enc c block)) = Inr block" using codec_okD [OF assms(3) eff(2)] by simp
  have "holds s' = (holds s)\<lparr>c_list := (c_list (holds s))
      (macCommandQueueKey devEUI := c_list (holds s) (macCommandQueueKey devEUI) @ [projr (enc c block)])\<rparr>"
    using eff(1) by (simp add: executed_def)
  then show ?thesis
    using assms(4,5) d eff(2) by (auto simp: queue_of_def decode_blocks_append encoded_queue_def)
qed

lemma Delete_queue:
  assumes "DeleteMACCommandQueueItem R c devEUI block s = (r, s')" and "codec_ok c"
    and "queue_of c (holds s) devEUI = Inr bs" and "encoded_queue c (holds s) devEUI"
    and "r = Inr () \<or> r = Inl ErrDoesNotExist"
  shows "queue_of c (holds s') devEUI = Inr (removeAll block bs) \<and> encoded_queue c (holds s') devEUI \<and>
    (r = Inl ErrDoesNotExist \<longleftrightarrow> block \<notin> set bs)"
proof -
  obtain buf where buf: "enc c block = Inr buf"
    using assms(1,5) by (auto simp: DeleteMACCommandQueueItem_def split: sum.splits)
  note eff = Delete_effect [OF assms(1) buf assms(5)]
  let ?vs = "c_list (holds s) (macCommandQueueKey devEUI)"
  have "\<forall>v \<in> set ?vs. \<exists>b. enc c b = Inr v" "decode_blocks c ?vs = Inr bs"
    using assms(3,4) by (simp_all add: encoded_queue_def queue_of_def)
  note rem = decode_blocks_removeAll [OF assms(2) this(1) buf this(2)]
  have "encoded_queue c (holds s') devEUI" using eff(1) assms(4) by (simp add: encoded_queue_def)
  then show ?thesis using eff rem by (simp add: queue_of_def)
qed

lemma Pending_effect:
  assumes "SetPendingMACCommand R c ttl devEUI block s = (Inr (), s')" and "0 < ttl" and "codec_ok c"
  shows "pending_of c (holds s') = (pending_of c (holds s))(devEUI := (pending_of c (holds s) devEUI)(mb_CID block := Some block))"
proof -
  obtain buf where buf: "enc c block = Inr buf" "rd_Set R (macCommandPendingKey devEUI (mb_CID block)) buf ttl s = (Inr (), s')"
    using assms(1) by (auto simp: SetPendingMACCommand_def split: prod.splits sum.splits)
  have "holds s' = (holds s)\<lparr>c_val := (c_val (holds s))(macCommandPendingKey devEUI (mb_CID block) \<mapsto> buf)\<rparr>"
    using Set [OF buf(2) assms(2)] by (simp add: executed_def)
  then show ?thesis using codec_okD [OF assms(3) buf(1)] by (auto simp: pending_of_def fun_eq_iff)
qed

lemma DeletePending_effect:
  assumes "DeletePendingMACCommand R devEUI cid s = (r, s')" and "\<not> is_error r \<or> r = Inl ErrDoesNotExist"
  shows "pending_of c (holds s') = (pending_of c (holds s))(devEUI := (pending_of c (holds s) devEUI)(cid := None))"
proof -
  obtain rn t where rn: "rd_Del R (macCommandPendingKey devEUI cid) s = (rn, t)" by fastforce
  then have "t = s'" "\<not> is_error rn"
    using assms by (auto simp: DeletePendingMACCommand_def split: sum.splits if_splits)
  then have "holds s' = without (holds s) (macCommandPendingKey devEUI cid)"
    using Del [OF rn] by (simp add: executed_def)
  then show ?thesis by (auto simp: pending_of_def without_def fun_eq_iff)
qed

lemma GetPending_value:
  "GetPendingMACCommand R c devEUI cid s = Inr b \<Longrightarrow> b = pending_of c (holds s) devEUI cid"
  using Get Get_Nil by (auto simp: GetPendingMACCommand_def pending_of_def split: sum.splits if_splits)

end

section \<open>Properties\<close>

text \<open>
  A list of mac-commands comes back from its bytes, appended to what was read before, and
  the size of a block is the number of these bytes.
\<close>

theorem mac_commands_roundtrip:
  assumes "\<forall>mc \<in> set mcs. mac_encoding_ok marshal payload_size unmarshal mc"
    and "MACCommands_MarshalBinary marshal mcs = Inr bs"
  shows "MACCommands_UnmarshalBinary payload_size unmarshal bs m = (None, m @ mcs) \<and>
    MACCommandBlock_Size marshal \<lparr>mb_CID = cid, mb_External = ext, mb_MACCommands = mcs\<rparr> = Inr (int (length bs))"
  using assms Unmarshal_Marshal by (simp add: MACCommandBlock_Size_def size_loop_length)

text \<open>An encoding of two commands, \<open>DevStatusReq\<close> without and \<open>RXTimingSetupReq\<close> with a payload.\<close>

definition dev_status_req :: mac_command where
  "dev_status_req = \<lparr>mc_CID = CID_DevStatus, mc_Payload = None\<rparr>"

definition rx_timing_req :: "byte \<Rightarrow> mac_command" where
  "rx_timing_req d = \<lparr>mc_CID = CID_RXTimingSetup, mc_Payload = Some (RXTimingSetupReqPayload d)\<rparr>"

definition sample_marshal :: "mac_command \<Rightarrow> byte list res" where
  "sample_marshal mc =
     (case mc_Payload mc of
        None \<Rightarrow> Inr [6]
      | Some (RXTimingSetupReqPayload d) \<Rightarrow> Inr [8, d]
      | Some _ \<Rightarrow> Inl (Errorf ''not in the sample''))"

definition sample_payload_size :: "byte \<Rightarrow> nat res" where
  "sample_payload_size b = (if b = 8 then Inr 1 else Inl (Errorf ''no payload''))"

definition sample_unmarshal :: "byte list \<Rightarrow> mac_command res" where
  "sample_unmarshal bs =
     (case bs of
        [b] \<Rightarrow> Inr dev_status_req
      | [b, d] \<Rightarrow> Inr (rx_timing_req d)
      | _ \<Rightarrow> Inl (Errorf ''not in the sample''))"

theorem mac_commands_roundtrip_witness:
  "MACCommands_UnmarshalBinary sample_payload_size sample_unmarshal [6, 8, 5, 6] [] =
   (None, [dev_status_req, rx_timing_req 5, dev_status_req])"
  using mac_commands_roundtrip [of "[dev_status_req, rx_timing_req 5, dev_status_req]" sample_marshal
      sample_payload_size sample_unmarshal "[6, 8, 5, 6]" "[]"]
  by (simp add: mac_encoding_ok_def sample_marshal_def sample_payload_size_def sample_unmarshal_def
      dev_status_req_def rx_timing_req_def)

text \<open>
  C23: the queue of a device is a queue: a created item is the last one, deleting a block
  removes every copy of it and fails exactly when there is none, flushing empties the queue,
  and the queues of other devices are untouched.
\<close>

theorem mac_queue_operations:
  assumes "redis_server R holds" and "codec_ok c" and "0 < ttl"
    and "queue_of c (holds s) devEUI = Inr bs" and "encoded_queue c (holds s) devEUI"
  shows "(CreateMACCommandQueueItem R c ttl devEUI block s = (Inr (), s1) \<longrightarrow>
      queue_of c (holds s1) devEUI = Inr (bs @ [block]) \<and> encoded_queue c (holds s1) devEUI \<and>
      (\<forall>e. e \<noteq> devEUI \<longrightarrow> queue_of c (holds s1) e = queue_of c (holds s) e)) \<and>
    (DeleteMACCommandQueueItem R c devEUI block s = (r, s2) \<and> r \<in> {Inr (), Inl ErrDoesNotExist} \<longrightarrow>
      queue_of c (holds s2) devEUI = Inr (removeAll block bs) \<and> encoded_queue c (holds s2) devEUI \<and>
      (r = Inl ErrDoesNotExist \<longleftrightarrow> block \<notin> set bs)) \<and>
    (GetMACCommandQueueItems R c devEUI s = Inr out \<longrightarrow> out = bs) \<and>
    (FlushMACCommandQueue R devEUI s = (Inr (), s3) \<longrightarrow> queue_of c (holds s3) devEUI = Inr [])"
proof -
  have "out = bs" if "GetMACCommandQueueItems R c devEUI s = Inr out"
    using that assms(4) redis_server.LRange [OF assms(1)]
    by (auto simp: GetMACCommandQueueItems_def queue_of_def split: sum.splits)
  moreover have "queue_of c (holds s3) devEUI = Inr []" if "FlushMACCommandQueue R devEUI s = (Inr (), s3)"
  proof -
    obtain rn t where rn: "rd_Del R (macCommandQueueKey devEUI) s = (rn, t)" by fastforce
    then have "t = s3" "\<not> is_error rn"
      using that by (auto simp: FlushMACCommandQueue_def split: sum.splits)
    then show ?thesis using redis_server.Del [OF assms(1) rn]
      by (simp add: executed_def queue_of_def without_def)
  qed
  ultimately show ?thesis
    using redis_server.Create_queue [OF assms(1) _ assms(3,2,4,5)]
      redis_server.Delete_queue [OF assms(1) _ assms(2,4,5), of block r s2] by blast
qed

definition sample_block :: mac_block where
  "sample_block = \<lparr>mb_CID = CID_DevStatus, mb_External = True, mb_MACCommands = [dev_status_req]\<rparr>"

definition block_codec :: "('a, 'a) codec" where
  "block_codec = \<lparr>enc = Inr, dec = Inr\<rparr>"

lemma block_codec_ok: "codec_ok block_codec"
  by (simp add: codec_ok_def block_codec_def)

theorem mac_queue_operations_witness:
  "queue_of block_codec (mem_holds (snd (CreateMACCommandQueueItem mem_redis block_codec 60 3 sample_block
     (mem_empty :: (mac_block, eui64) mem)))) 3 = Inr [sample_block]"
proof -
  let ?s = "mem_empty :: (mac_block, eui64) mem"
  have q: "queue_of block_codec (mem_holds ?s) 3 = Inr []" "encoded_queue block_codec (mem_holds ?s) 3"
    by (simp_all add: queue_of_def encoded_queue_def mem_empty_def mem_list_def)
  obtain s1 where s1: "CreateMACCommandQueueItem mem_redis block_codec 60 3 sample_block ?s = (Inr (), s1)"
    by (simp add: CreateMACCommandQueueItem_def block_codec_def mem_redis_def mem_empty_def)
  from mac_queue_operations [OF mem_server.redis_server_axioms block_codec_ok _ q, THEN conjunct1, THEN mp, OF _ s1]
  have "queue_of block_codec (mem_holds s1) 3 = Inr [sample_block]" by simp
  then show ?thesis by (simp add: s1)
qed

text \<open>
  The block a device is expected to answer is kept per device and command identifier:
  setting one replaces only the one with the same identifier, deleting it leaves none, and
  reading answers the block set last or nothing.
\<close>

theorem pending_mac_command_per_cid:
  assumes "redis_server R holds" and "codec_ok c" and "0 < ttl"
  shows "(SetPendingMACCommand R c ttl devEUI block s = (Inr (), s1) \<longrightarrow>
      pending_of c (holds s1) = (pending_of c (holds s))(devEUI := (pending_of c (holds s) devEUI)(mb_CID block := Some block))) \<and>
    (DeletePendingMACCommand R devEUI cid s = (r, s2) \<and> r \<in> {Inr (), Inl ErrDoesNotExist} \<longrightarrow>
      pending_of c (holds s2) = (pending_of c (holds s))(devEUI := (pending_of c (holds s) devEUI)(cid := None))) \<and>
    (GetPendingMACCommand R c devEUI cid s = Inr b \<longrightarrow> b = pending_of c (holds s) devEUI cid)"
  using redis_server.Pending_effect [OF assms(1) _ assms(3,2), of devEUI block s s1]
    redis_server.DeletePending_effect [OF assms(1), of devEUI cid s r s2 c]
    redis_server.GetPending_value [OF assms(1), of c devEUI cid s b]
  by auto

theorem pending_mac_command_per_cid_witness:
  "pending_of block_codec (mem_holds (snd (SetPendingMACCommand mem_redis block_codec 60 3 sample_block
     (mem_empty :: (mac_block, eui64) mem)))) 3 CID_DevStatus = Some sample_block"
proof -
  let ?s = "mem_empty :: (mac_block, eui64) mem"
  obtain s1 where s1: "SetPendingMACCommand mem_redis block_codec 60 3 sample_block ?s = (Inr (), s1)"
    by (simp add: SetPendingMACCommand_def block_codec_def mem_redis_def mem_empty_def)
  then show ?thesis
    using pending_mac_command_per_cid [OF mem_server.redis_server_axioms block_codec_ok, of 60 3 sample_block ?s s1]
    by (simp add: sample_block_def)
qed

end
