(* ===== verification/Gateway.thy ===== *)
theory Gateway
  imports Lorawan GoFloat
begin

text \<open>
  The messages of the gateway (\<open>chirpstack-api/go/gw\<close>, generated elsewhere: the fields the code
  touches), the received packet of \<open>internal/models\<close>, and the translation between their
  modulation and the data-rates of the band (\<open>internal/helpers/helpers.go\<close>).
\<close>

section \<open>Messages\<close>

datatype gw_modulation = Modulation_LORA | Modulation_FSK | Modulation_LR_FHSS | Modulation_Other int

record lora_info =
  li_Bandwidth :: u32
  li_SpreadingFactor :: u32
  li_CodeRate :: string
  li_PolarizationInversion :: bool

record fsk_info =
  fi_FrequencyDeviation :: u32
  fi_Datarate :: u32

record lr_fhss_info =
  hi_OperatingChannelWidth :: u32
  hi_CodeRate :: string
  hi_GridSteps :: u32

text \<open>The oneof of the modulation parameters; \<open>None\<close> where it is not set.\<close>

datatype modulation_info =
    LoraModulationInfo lora_info
  | FskModulationInfo fsk_info
  | LrFhssModulationInfo lr_fhss_info

record mod_carrier =
  mi_Modulation :: gw_modulation
  mi_ModulationInfo :: "modulation_info option"

record uplink_tx_info = mod_carrier +
  ut_Frequency :: u32

record gw_location =
  loc_Latitude :: rat
  loc_Longitude :: rat
  loc_Altitude :: rat

text \<open>
  A protocol buffer duration or timestamp is what the library's conversion returns for it:
  the value and whether it comes with an error. A fine-timestamp, whose fields the code reads, is
  kept as the message it is.
\<close>

record proto_timestamp =
  pt_Seconds :: int
  pt_Nanos :: int

datatype fine_timestamp =
    EncryptedFineTimestamp (ft_EncryptedNs: "byte list") (ft_FpgaId: "byte list")
  | PlainFineTimestamp (ft_Time: "proto_timestamp option")

record rx_info =
  ri_GatewayId :: "byte list"
  ri_Time :: "(instant \<times> bool) option"
  ri_TimeSinceGpsEpoch :: "(duration \<times> bool) option"
  ri_Rssi :: int
  ri_LoraSnr :: rat
  ri_Channel :: u32
  ri_RfChain :: u32
  ri_Board :: u32
  ri_Antenna :: u32
  ri_Location :: "gw_location option"
  ri_Context :: "byte list"
  ri_UplinkId :: "byte list"
  ri_FineTimestamp :: "fine_timestamp option"

text \<open>\<open>'p\<close> is the type of the physical payload, \<open>'r\<close> the roaming meta-data.\<close>

record ('p, 'r) rx_packet =
  rp_DR :: int
  rp_PHYPayload :: 'p
  rp_TXInfo :: "uplink_tx_info option"
  rp_RXInfoSet :: "rx_info list"
  rp_GatewayIsPrivate :: "(eui64, bool) gomap"
  rp_GatewayServiceProfile :: "(eui64, uuid) gomap"
  rp_RoamingMetaData :: "'r option"

section \<open>Identifiers\<close>

text \<open>Copying bytes into a fixed array pads with zeros and drops what does not fit.\<close>

definition to_array :: "nat \<Rightarrow> byte list \<Rightarrow> byte list" where
  "to_array n bs = take n (bs @ replicate n 0)"

definition bytes_eui64 :: "byte list \<Rightarrow> eui64" where
  "bytes_eui64 bs = word_rcat (to_array 8 bs)"

definition GetGatewayID :: "rx_info \<Rightarrow> eui64" where
  "GetGatewayID v = bytes_eui64 (ri_GatewayId v)"

section \<open>Data-rates\<close>

definition no_data_rate :: data_rate where
  "no_data_rate = \<lparr>Modulation = LoRaModulation, SpreadFactor = 0, Bandwidth = 0, BitRate = 0,
     CodingRate = [], OccupiedChannelWidth = 0\<rparr>"

definition GetLoraModulationInfo :: "'a mod_carrier_scheme \<Rightarrow> lora_info option" where
  "GetLoraModulationInfo v =
     (case mi_ModulationInfo v of Some (LoraModulationInfo i) \<Rightarrow> Some i | _ \<Rightarrow> None)"

definition GetFskModulationInfo :: "'a mod_carrier_scheme \<Rightarrow> fsk_info option" where
  "GetFskModulationInfo v =
     (case mi_ModulationInfo v of Some (FskModulationInfo i) \<Rightarrow> Some i | _ \<Rightarrow> None)"

definition GetLrFhssModulationInfo :: "'a mod_carrier_scheme \<Rightarrow> lr_fhss_info option" where
  "GetLrFhssModulationInfo v =
     (case mi_ModulationInfo v of Some (LrFhssModulationInfo i) \<Rightarrow> Some i | _ \<Rightarrow> None)"

definition defaultCodeRate :: string where "defaultCodeRate = ''4/5''"

definition SetDownlinkTXInfoDataRate ::
  "band \<Rightarrow> int \<Rightarrow> 'a mod_carrier_scheme \<Rightarrow> 'a mod_carrier_scheme res" where
  "SetDownlinkTXInfoDataRate b dr txInfo =
     (case GetDataRate b dr of
        Inl e \<Rightarrow> Inl (Wrap e ''get data-rate error'')
      | Inr dataRate \<Rightarrow>
         (case Modulation dataRate of
            LoRaModulation \<Rightarrow> Inr (txInfo\<lparr>
              mi_Modulation := Modulation_LORA,
              mi_ModulationInfo := Some (LoraModulationInfo
                \<lparr>li_Bandwidth = word_of_int (Bandwidth dataRate),
                 li_SpreadingFactor = word_of_int (SpreadFactor dataRate),
                 li_CodeRate = defaultCodeRate, li_PolarizationInversion = True\<rparr>)\<rparr>)
          | FSKModulation \<Rightarrow> Inr (txInfo\<lparr>
              mi_Modulation := Modulation_FSK,
              mi_ModulationInfo := Some (FskModulationInfo
                \<lparr>fi_FrequencyDeviation = word_of_int (go_div (BitRate dataRate) 2),
                 fi_Datarate = word_of_int (BitRate dataRate)\<rparr>)\<rparr>)
          | LRFHSSModulation \<Rightarrow> Inl (Errorf ''unexpected modulation'')))"

definition SetUplinkTXInfoDataRate ::
  "band \<Rightarrow> int \<Rightarrow> 'a mod_carrier_scheme \<Rightarrow> 'a mod_carrier_scheme res" where
  "SetUplinkTXInfoDataRate b dr txInfo =
     (case GetDataRate b dr of
        Inl e \<Rightarrow> Inl (Wrap e ''get data-rate error'')
      | Inr dataRate \<Rightarrow>
         (case Modulation dataRate of
            LoRaModulation \<Rightarrow> Inr (txInfo\<lparr>
              mi_Modulation := Modulation_LORA,
              mi_ModulationInfo := Some (LoraModulationInfo
                \<lparr>li_Bandwidth = word_of_int (Bandwidth dataRate),
                 li_SpreadingFactor = word_of_int (SpreadFactor dataRate),
                 li_CodeRate = defaultCodeRate, li_PolarizationInversion = True\<rparr>)\<rparr>)
          | FSKModulation \<Rightarrow> Inr (txInfo\<lparr>
              mi_Modulation := Modulation_FSK,
              mi_ModulationInfo := Some (FskModulationInfo
                \<lparr>fi_FrequencyDeviation = 0, fi_Datarate = word_of_int (BitRate dataRate)\<rparr>)\<rparr>)
          | LRFHSSModulation \<Rightarrow> Inr (txInfo\<lparr>
              mi_Modulation := Modulation_LR_FHSS,
              mi_ModulationInfo := Some (LrFhssModulationInfo
                \<lparr>hi_OperatingChannelWidth = word_of_int (OccupiedChannelWidth dataRate),
                 hi_CodeRate = CodingRate dataRate, hi_GridSteps = 0\<rparr>)\<rparr>)))"

definition GetDataRateIndex :: "band \<Rightarrow> bool \<Rightarrow> 'a mod_carrier_scheme \<Rightarrow> int res" where
  "GetDataRateIndex b uplink v =
     (case mi_Modulation v of
        Modulation_LORA \<Rightarrow>
          (case GetLoraModulationInfo v of
             None \<Rightarrow> Inl (Errorf ''lora_modulation_info must not be nil'')
           | Some modInfo \<Rightarrow> BandDataRateIndex b uplink (no_data_rate
               \<lparr>Modulation := LoRaModulation, SpreadFactor := uint (li_SpreadingFactor modInfo),
                Bandwidth := uint (li_Bandwidth modInfo)\<rparr>))
      | Modulation_FSK \<Rightarrow>
          (case GetFskModulationInfo v of
             None \<Rightarrow> Inl (Errorf ''fsk_modulation_info must not be nil'')
           | Some modInfo \<Rightarrow> BandDataRateIndex b uplink (no_data_rate
               \<lparr>Modulation := FSKModulation, BitRate := uint (fi_Datarate modInfo)\<rparr>))
      | Modulation_LR_FHSS \<Rightarrow>
          (case GetLrFhssModulationInfo v of
             None \<Rightarrow> Inl (Errorf ''lr_fhss_modulation_info must not be nil'')
           | Some modInfo \<Rightarrow> BandDataRateIndex b uplink (no_data_rate
               \<lparr>Modulation := LRFHSSModulation, CodingRate := hi_CodeRate modInfo,
                OccupiedChannelWidth := uint (hi_OperatingChannelWidth modInfo)\<rparr>))
      | Modulation_Other _ \<Rightarrow> Inl (Errorf ''unknown modulation''))"

section \<open>Properties\<close>

text \<open>
  A data-rate as a message can carry it: the parameters of the other modulations are zero and
  its own are unsigned 32-bit numbers.
\<close>

definition u32_range :: "int \<Rightarrow> bool" where "u32_range i \<longleftrightarrow> 0 \<le> i \<and> i < 2 ^ 32"

definition plain_data_rate :: "data_rate \<Rightarrow> bool" where
  "plain_data_rate d \<longleftrightarrow>
     (case Modulation d of
        LoRaModulation \<Rightarrow> BitRate d = 0 \<and> CodingRate d = [] \<and> OccupiedChannelWidth d = 0 \<and>
          u32_range (SpreadFactor d) \<and> u32_range (Bandwidth d)
      | FSKModulation \<Rightarrow> SpreadFactor d = 0 \<and> Bandwidth d = 0 \<and> CodingRate d = [] \<and>
          OccupiedChannelWidth d = 0 \<and> u32_range (BitRate d)
      | LRFHSSModulation \<Rightarrow> SpreadFactor d = 0 \<and> Bandwidth d = 0 \<and> BitRate d = 0 \<and>
          u32_range (OccupiedChannelWidth d))"

lemma u32_range_uint [simp]: "u32_range i \<Longrightarrow> uint (word_of_int i :: u32) = i"
  by (simp add: u32_range_def uint_word_of_int)

text \<open>
  The data-rate index of an uplink is found again from the modulation its index was
  written with, for every band whose index look-up inverts its data-rates; a downlink carries
  the same data-rate, and LR-FHSS, which is uplink only, is refused for it.
\<close>

theorem data_rate_roundtrip:
  assumes "GetDataRate b dr = Inr d" and "plain_data_rate d" and "BandDataRateIndex b up d = Inr dr"
  shows "\<exists>m. SetUplinkTXInfoDataRate b dr txInfo = Inr m \<and> GetDataRateIndex b up m = Inr dr \<and>
    mod_carrier.more m = mod_carrier.more txInfo \<and>
    (case SetDownlinkTXInfoDataRate b dr txInfo of
       Inl _ \<Rightarrow> Modulation d = LRFHSSModulation
     | Inr m' \<Rightarrow> Modulation d \<noteq> LRFHSSModulation \<and> GetDataRateIndex b up m' = Inr dr)"
proof -
  have "no_data_rate\<lparr>Modulation := LoRaModulation, SpreadFactor := SpreadFactor d, Bandwidth := Bandwidth d\<rparr> = d"
    if "Modulation d = LoRaModulation"
    using that assms(2) by (intro data_rate.equality) (simp_all add: no_data_rate_def plain_data_rate_def)
  moreover have "no_data_rate\<lparr>Modulation := FSKModulation, BitRate := BitRate d\<rparr> = d" if "Modulation d = FSKModulation"
    using that assms(2) by (intro data_rate.equality) (simp_all add: no_data_rate_def plain_data_rate_def)
  moreover have "no_data_rate\<lparr>Modulation := LRFHSSModulation, CodingRate := CodingRate d,
      OccupiedChannelWidth := OccupiedChannelWidth d\<rparr> = d" if "Modulation d = LRFHSSModulation"
    using that assms(2) by (intro data_rate.equality) (simp_all add: no_data_rate_def plain_data_rate_def)
  ultimately show ?thesis
    using assms
    by (cases "Modulation d")
      (simp_all add: SetUplinkTXInfoDataRate_def SetDownlinkTXInfoDataRate_def GetDataRateIndex_def
        GetLoraModulationInfo_def GetFskModulationInfo_def GetLrFhssModulationInfo_def plain_data_rate_def)
qed

definition sample_tx_info :: uplink_tx_info where
  "sample_tx_info = \<lparr>mi_Modulation = Modulation_Other 9, mi_ModulationInfo = None, ut_Frequency = 868100000\<rparr>"

theorem data_rate_roundtrip_witness:
  "\<exists>m. SetUplinkTXInfoDataRate sample_band 8 sample_tx_info = Inr m \<and> GetDataRateIndex sample_band True m = Inr 8 \<and>
    mod_carrier.more m = mod_carrier.more sample_tx_info"
proof -
  have "GetDataRate sample_band 8 = Inr (sample_data_rates ! 8)"
    by (simp add: sample_band_def)
  moreover have "plain_data_rate (sample_data_rates ! 8)" by code_simp
  moreover have "BandDataRateIndex sample_band True (sample_data_rates ! 8) = Inr 8" by code_simp
  ultimately
  show ?thesis using data_rate_roundtrip [of sample_band 8 "sample_data_rates ! 8" True sample_tx_info]
    by auto
qed

end
