(* ===== verification/MacCommand.thy ===== *)
theory MacCommand
  imports SessionStore MacQueue Gateway
begin

text \<open>
  The mac-command handlers of \<open>internal/maccommand\<close>: one definition per handler and request
  builder, each in the order of the code, and their dispatch (\<open>mac_Handle\<close>, the code's
  \<open>Handle\<close>). A handler returns its result and the device-session it leaves, also when it fails
  half-way. A type assertion without check on the pending block and a write to a nil map are
  \<open>Panic\<close>s. The band, the current time and the device table are parameters; calls to the
  application-server are collected.

  \<open>keeps\<close> (security context and pending session are untouched) and \<open>safe\<close> (no panic, maps stay
  allocated) are proved handler by handler and combined by the properties over \<open>mac_Handle\<close>.
\<close>

section \<open>Blocks and counters\<close>

definition answer :: "cid \<Rightarrow> mac_payload option \<Rightarrow> mac_block list" where
  "answer c pl =
     [\<lparr>mb_CID = c, mb_External = False, mb_MACCommands = [\<lparr>mc_CID = c, mc_Payload = pl\<rparr>]\<rparr>]"

definition request :: "cid \<Rightarrow> mac_payload option \<Rightarrow> mac_block" where
  "request c pl =
     \<lparr>mb_CID = c, mb_External = False, mb_MACCommands = [\<lparr>mc_CID = c, mc_Payload = pl\<rparr>]\<rparr>"

definition count_error :: "cid \<Rightarrow> 'a session_scheme \<Rightarrow> 'a session_scheme res" where
  "count_error c ds =
     (case gomap_put (ds_MACCommandErrorCount ds) c
             ((case gomap_get (ds_MACCommandErrorCount ds) c of None \<Rightarrow> 0 | Some n \<Rightarrow> n) + 1) of
        Inl e \<Rightarrow> Inl e
      | Inr m \<Rightarrow> Inr (ds\<lparr>ds_MACCommandErrorCount := m\<rparr>))"

definition reset_errors :: "cid \<Rightarrow> 'a session_scheme \<Rightarrow> 'a session_scheme" where
  "reset_errors c ds = ds\<lparr>ds_MACCommandErrorCount := gomap_delete (ds_MACCommandErrorCount ds) c\<rparr>"

definition type_assertion :: error where "type_assertion = Panic ''interface conversion''"

definition no_pending :: "mac_block option \<Rightarrow> bool" where
  "no_pending pending \<longleftrightarrow> (case pending of None \<Rightarrow> True | Some p \<Rightarrow> mb_MACCommands p = [])"

text \<open>The payload of the first command, where the code has checked that there is one.\<close>

definition first_payload :: "mac_block \<Rightarrow> mac_payload option" where
  "first_payload b = mc_Payload (hd (mb_MACCommands b))"

section \<open>Link ADR\<close>

fun link_adr_acks :: "mac_command list \<Rightarrow> bool \<times> bool \<times> bool \<Rightarrow> (bool \<times> bool \<times> bool) res" where
  "link_adr_acks [] acks = Inr acks"
| "link_adr_acks (mc # mcs) (channelMaskACK, dataRateACK, powerACK) =
     (case mc_Payload mc of
        Some (LinkADRAnsPayload c d p) \<Rightarrow>
          link_adr_acks mcs (channelMaskACK \<and> c, dataRateACK \<and> d, powerACK \<and> p)
      | _ \<Rightarrow> Inl (Errorf ''expected *lorawan.LinkADRAnsPayload''))"

fun link_adr_payloads :: "mac_command list \<Rightarrow> link_adr_req list res" where
  "link_adr_payloads [] = Inr []"
| "link_adr_payloads (mc # mcs) =
     (case mc_Payload mc of
        Some (LinkADRReqPayload r) \<Rightarrow>
          (case link_adr_payloads mcs of Inl e \<Rightarrow> Inl e | Inr rs \<Rightarrow> Inr (r # rs))
      | _ \<Rightarrow> Inl type_assertion)"

definition handleLinkADRAns ::
  "band \<Rightarrow> mac_block \<Rightarrow> mac_block option \<Rightarrow> 'a session_scheme \<Rightarrow> mac_block list res \<times> 'a session_scheme" where
  "handleLinkADRAns b block pendingBlock ds =
     (if mb_MACCommands block = [] then (Inl (Errorf ''at least 1 mac-command expected, got none''), ds)
      else if no_pending pendingBlock then (Inl (Errorf ''expected pending mac-command''), ds)
      else case link_adr_acks (mb_MACCommands block) (True, True, True) of
        Inl e \<Rightarrow> (Inl e, ds)
      | Inr (channelMaskACK, dataRateACK, powerACK) \<Rightarrow>
         (case link_adr_payloads (mb_MACCommands (the pendingBlock)) of
            Inl e \<Rightarrow> (Inl e, ds)
          | Inr linkADRPayloads \<Rightarrow>
              let adrReq = last linkADRPayloads in
              if channelMaskACK \<and> dataRateACK \<and> powerACK then
                let ds = reset_errors CID_LinkADR ds in
                (case GetEnabledUplinkChannelIndicesForLinkADRReqPayloads b
                        (ds_EnabledUplinkChannels ds) linkADRPayloads of
                   Inl e \<Rightarrow> (Inl (Wrap e ''get enalbed channels for link_adr_req payloads error''), ds)
                 | Inr chans \<Rightarrow>
                     (Inr [], ds\<lparr>ds_TXPowerIndex := uint (la_TXPower adrReq),
                                 ds_DR := uint (la_DataRate adrReq),
                                 ds_NbTrans := la_NbRep adrReq,
                                 ds_EnabledUplinkChannels := chans\<rparr>))
              else if \<not> ds_ADR ds \<and> channelMaskACK then
                let ds = reset_errors CID_LinkADR ds in
                (case GetEnabledUplinkChannelIndicesForLinkADRReqPayloads b
                        (ds_EnabledUplinkChannels ds) linkADRPayloads of
                   Inl e \<Rightarrow> (Inl (Wrap e ''get enalbed channels for link_adr_req payloads error''), ds)
                 | Inr chans \<Rightarrow>
                     let ds = ds\<lparr>ds_EnabledUplinkChannels := chans, ds_NbTrans := la_NbRep adrReq\<rparr>;
                         ds = (if dataRateACK then ds\<lparr>ds_DR := uint (la_DataRate adrReq)\<rparr> else ds);
                         ds = (if powerACK then ds\<lparr>ds_TXPowerIndex := uint (la_TXPower adrReq)\<rparr> else ds)
                     in (Inr [], ds))
              else
                (case count_error CID_LinkADR ds of
                   Inl e \<Rightarrow> (Inl e, ds)
                 | Inr ds \<Rightarrow>
                     let ds = (if \<not> powerACK \<and> la_TXPower adrReq = 0
                               then ds\<lparr>ds_TXPowerIndex := 1, ds_MinSupportedTXPowerIndex := 1\<rparr> else ds);
                         ds = (if \<not> powerACK \<and> la_TXPower adrReq > 0
                               then ds\<lparr>ds_MaxSupportedTXPowerIndex := uint (la_TXPower adrReq) - 1\<rparr> else ds)
                     in (Inr [], ds))))"

section \<open>Link check, device status and device time\<close>

definition SpreadFactorToRequiredSNRTable :: "(int \<times> rat) list" where
  "SpreadFactorToRequiredSNRTable =
     [(6, -5), (7, -15 / 2), (8, -10), (9, -25 / 2), (10, -15), (11, -35 / 2), (12, -20)]"

definition handleLinkCheckReq :: "('p, 'r) rx_packet \<Rightarrow> mac_block list res" where
  "handleLinkCheckReq rxPacket =
     (if rp_RXInfoSet rxPacket = [] then Inl (Errorf ''rx info-set contains zero items'')
      else case rp_TXInfo rxPacket of
        None \<Rightarrow> Inl (Panic ''nil pointer dereference'')
      | Some txInfo \<Rightarrow>
          if mi_Modulation txInfo \<noteq> Modulation_LORA
          then Inl (Errorf ''modulation not supported for LinkCheckReq mac-command'')
          else case GetLoraModulationInfo txInfo of
            None \<Rightarrow> Inl (Errorf ''lora_modulation_info must not be nil'')
          | Some modInfo \<Rightarrow>
             (case map_of SpreadFactorToRequiredSNRTable (uint (li_SpreadingFactor modInfo)) of
                None \<Rightarrow> Inl (Errorf ''sf not in sf to required snr table'')
              | Some requiredSNR \<Rightarrow>
                  let margin = f64_sub (ri_LoraSnr (hd (rp_RXInfoSet rxPacket))) requiredSNR;
                      margin = (if margin < 0 then 0 else margin)
                  in Inr (answer CID_LinkCheck (Some (LinkCheckAnsPayload
                       (word_of_int (trunc margin)) (of_nat (length (rp_RXInfoSet rxPacket))))))))"

definition RequestDevStatus :: "instant \<Rightarrow> 'a session_scheme \<Rightarrow> mac_block \<times> 'a session_scheme" where
  "RequestDevStatus now ds = (request CID_DevStatus None, ds\<lparr>ds_LastDevStatusRequested := now\<rparr>)"

record set_device_status_request =
  sds_DevEui :: eui64
  sds_Battery :: u32
  sds_Margin :: int
  sds_ExternalPowerSource :: bool
  sds_BatteryLevelUnavailable :: bool
  sds_BatteryLevel :: rat

definition device_status_request :: "service_profile \<Rightarrow> eui64 \<Rightarrow> byte \<Rightarrow> int \<Rightarrow> set_device_status_request" where
  "device_status_request sp devEUI battery margin =
     (let req = \<lparr>sds_DevEui = devEUI, sds_Battery = 0, sds_Margin = 0, sds_ExternalPowerSource = False,
                 sds_BatteryLevelUnavailable = False, sds_BatteryLevel = 0\<rparr>;
          req = (if sp_ReportDevStatusBattery sp
                 then let req = req\<lparr>sds_Battery := ucast battery\<rparr>
                      in if battery = 255 then req\<lparr>sds_BatteryLevelUnavailable := True\<rparr>
                         else if battery = 0 then req\<lparr>sds_ExternalPowerSource := True\<rparr>
                         else req\<lparr>sds_BatteryLevel := f32_mul (f32_div (f32 (of_int (uint battery))) 254) 100\<rparr>
                 else req\<lparr>sds_BatteryLevelUnavailable := True\<rparr>)
      in if sp_ReportDevStatusMargin sp then req\<lparr>sds_Margin := margin\<rparr> else req)"

text \<open>The second component are the calls to the application-server, made in the background.\<close>

definition handleDevStatusAns ::
  "service_profile \<Rightarrow> eui64 \<Rightarrow> mac_block \<Rightarrow> mac_block list res \<times> set_device_status_request list" where
  "handleDevStatusAns sp devEUI block =
     (if length (mb_MACCommands block) \<noteq> 1 then (Inl (Errorf ''exactly one mac-command expected''), [])
      else case first_payload block of
        Some (DevStatusAnsPayload battery margin) \<Rightarrow>
          if \<not> sp_ReportDevStatusBattery sp \<and> \<not> sp_ReportDevStatusMargin sp then (Inr [], [])
          else (Inr [], [device_status_request sp devEUI battery margin])
      | _ \<Rightarrow> (Inl (Errorf ''expected *lorawan.DevStatusAnsPayload''), []))"

fun device_time_loop :: "rx_info list \<Rightarrow> duration \<Rightarrow> instant \<Rightarrow> duration \<times> instant" where
  "device_time_loop [] timeSinceGPSEpoch timeField = (timeSinceGPSEpoch, timeField)"
| "device_time_loop (rxInfo # rest) timeSinceGPSEpoch timeField =
     (case ri_TimeSinceGpsEpoch rxInfo of
        Some (d, _) \<Rightarrow> device_time_loop rest d timeField
      | None \<Rightarrow>
         (case ri_Time rxInfo of
            Some (t, _) \<Rightarrow> device_time_loop rest timeSinceGPSEpoch t
          | None \<Rightarrow> device_time_loop rest timeSinceGPSEpoch timeField))"

definition handleDeviceTimeReq :: "instant \<Rightarrow> ('p, 'r) rx_packet \<Rightarrow> mac_block list res" where
  "handleDeviceTimeReq now rxPacket =
     (if rp_RXInfoSet rxPacket = [] then Inl (Errorf ''rx info-set contains zero items'')
      else let (timeSinceGPSEpoch, timeField) = device_time_loop (rp_RXInfoSet rxPacket) 0 zero_time;
               timeSinceGPSEpoch =
                 (if timeSinceGPSEpoch = 0
                  then TimeSinceGPSEpoch (if timeField = zero_time then now else timeField)
                  else timeSinceGPSEpoch)
           in Inr (answer CID_DeviceTime (Some (DeviceTimeAnsPayload timeSinceGPSEpoch))))"

section \<open>Class B\<close>

text \<open>\<open>1 << (7 - pl.Periodicity)\<close>: the shift count is an unsigned byte, the result an \<open>int\<close>.\<close>

definition go_shl1 :: "byte \<Rightarrow> int" where
  "go_shl1 n = (if uint n < 64 then go_int64 (2 ^ nat (uint n)) else 0)"

definition handlePingSlotInfoReq ::
  "mac_block \<Rightarrow> 'a session_scheme \<Rightarrow> mac_block list res \<times> 'a session_scheme" where
  "handlePingSlotInfoReq block ds =
     (if length (mb_MACCommands block) \<noteq> 1 then (Inl (Errorf ''exactly one mac-command expected''), ds)
      else case first_payload block of
        Some (PingSlotInfoReqPayload periodicity) \<Rightarrow>
          (Inr (answer CID_PingSlotInfo None), ds\<lparr>ds_PingSlotNb := go_shl1 (7 - periodicity)\<rparr>)
      | _ \<Rightarrow> (Inl (Errorf ''expected *lorawan.PingSlotInfoReqPayload''), ds))"

definition RequestPingSlotChannel :: "int \<Rightarrow> u32 \<Rightarrow> mac_block" where
  "RequestPingSlotChannel dr freq =
     request CID_PingSlotChannel (Some (PingSlotChannelReqPayload freq (word_of_int dr)))"

definition handlePingSlotChannelAns ::
  "mac_block \<Rightarrow> mac_block option \<Rightarrow> 'a session_scheme \<Rightarrow> mac_block list res \<times> 'a session_scheme" where
  "handlePingSlotChannelAns block pendingBlock ds =
     (if length (mb_MACCommands block) \<noteq> 1 then (Inl (Errorf ''exactly one mac-command expected''), ds)
      else if no_pending pendingBlock then (Inl (Errorf ''expected pending mac-command''), ds)
      else case first_payload (the pendingBlock) of
        Some (PingSlotChannelReqPayload freq dr) \<Rightarrow>
         (case first_payload block of
            Some (PingSlotChannelAnsPayload dataRateOK channelFrequencyOK) \<Rightarrow>
              if \<not> channelFrequencyOK \<or> \<not> dataRateOK
              then (case count_error CID_PingSlotChannel ds of Inl e \<Rightarrow> (Inl e, ds) | Inr ds \<Rightarrow> (Inr [], ds))
              else (Inr [], (reset_errors CID_PingSlotChannel ds)
                     \<lparr>ds_PingSlotDR := uint dr, ds_PingSlotFrequency := freq\<rparr>)
          | _ \<Rightarrow> (Inl (Errorf ''expected *lorawan.PingSlotChannelAnsPayload''), ds))
      | _ \<Rightarrow> (Inl type_assertion, ds))"

section \<open>Channels\<close>

definition channel_differs :: "(int, channel) gomap \<Rightarrow> int \<Rightarrow> channel \<Rightarrow> bool" where
  "channel_differs currentChannels i wanted =
     (case gomap_get currentChannels i of
        None \<Rightarrow> True
      | Some current \<Rightarrow> ch_Frequency current \<noteq> ch_Frequency wanted \<or>
          ch_MinDR current \<noteq> ch_MinDR wanted \<or> ch_MaxDR current \<noteq> ch_MaxDR wanted)"

definition new_channel_req :: "int \<Rightarrow> channel \<Rightarrow> mac_command" where
  "new_channel_req i wanted =
     \<lparr>mc_CID = CID_NewChannel,
      mc_Payload = Some (NewChannelReqPayload (word_of_int i) (ch_Frequency wanted)
        (word_of_int (ch_MaxDR wanted)) (word_of_int (ch_MinDR wanted)))\<rparr>"

definition RequestNewChannels ::
  "int \<Rightarrow> (int, channel) gomap \<Rightarrow> (int, channel) gomap \<Rightarrow> mac_block option res" where
  "RequestNewChannels maxChannels currentChannels wantedChannels =
     (let wantedChannelNumbers = sort (map fst (entries wantedChannels));
          out = concat (map (\<lambda>i.
            let wanted = the (gomap_get wantedChannels i)
            in if channel_differs currentChannels i wanted then [new_channel_req i wanted] else [])
            wantedChannelNumbers)
      in if int (length out) > maxChannels \<and> maxChannels < 0
         then Inl (Panic ''slice bounds out of range'')
         else let out = (if int (length out) > maxChannels then take (nat maxChannels) out else out)
              in if out = [] then Inr None
                 else Inr (Some \<lparr>mb_CID = CID_NewChannel, mb_External = False, mb_MACCommands = out\<rparr>))"

fun new_channel_loop ::
  "(mac_command \<times> mac_command) list \<Rightarrow> 'a session_scheme \<Rightarrow> mac_block list res \<times> 'a session_scheme" where
  "new_channel_loop [] ds = (Inr [], ds)"
| "new_channel_loop ((mc, pending) # rest) ds =
     (case mc_Payload mc of
        Some (NewChannelAnsPayload channelFrequencyOK dataRateRangeOK) \<Rightarrow>
         (case mc_Payload pending of
            Some (NewChannelReqPayload chIndex freq maxDR minDR) \<Rightarrow>
              if channelFrequencyOK \<and> dataRateRangeOK then
                let ds = reset_errors CID_NewChannel ds in
                (case gomap_put (ds_ExtraUplinkChannels ds) (uint chIndex)
                        \<lparr>ch_Frequency = freq, ch_MinDR = uint minDR, ch_MaxDR = uint maxDR\<rparr> of
                   Inl e \<Rightarrow> (Inl e, ds)
                 | Inr m \<Rightarrow>
                     let ds = ds\<lparr>ds_ExtraUplinkChannels := m\<rparr>;
                         ds = (if uint chIndex \<in> set (ds_EnabledUplinkChannels ds) then ds
                               else ds\<lparr>ds_EnabledUplinkChannels := ds_EnabledUplinkChannels ds @ [uint chIndex]\<rparr>)
                     in new_channel_loop rest ds)
              else
                (case count_error CID_NewChannel ds of
                   Inl e \<Rightarrow> (Inl e, ds)
                 | Inr ds \<Rightarrow> new_channel_loop rest ds)
          | _ \<Rightarrow> (Inl (Errorf ''expected *lorawan.NewChannelReqPayload''), ds))
      | _ \<Rightarrow> (Inl (Errorf ''expected *lorawan.NewChannelAnsPayload''), ds))"

definition handleNewChannelAns ::
  "mac_block \<Rightarrow> mac_block option \<Rightarrow> 'a session_scheme \<Rightarrow> mac_block list res \<times> 'a session_scheme" where
  "handleNewChannelAns block pending ds =
     (if mb_MACCommands block = [] then (Inl (Errorf ''at least 1 mac-command expected, got none''), ds)
      else if no_pending pending then (Inl (Errorf ''expected pending mac-command''), ds)
      else if length (mb_MACCommands block) \<noteq> length (mb_MACCommands (the pending))
      then (Inl (Errorf ''number of mac-command answers differs from the requests''), ds)
      else new_channel_loop (zip (mb_MACCommands block) (mb_MACCommands (the pending))) ds)"

section \<open>Receive and transmit parameters\<close>

definition RequestRXParamSetup :: "int \<Rightarrow> u32 \<Rightarrow> int \<Rightarrow> mac_block" where
  "RequestRXParamSetup rx1DROffset rx2Frequency rx2DR =
     request CID_RXParamSetup (Some (RXParamSetupReqPayload rx2Frequency (word_of_int rx2DR) (word_of_int rx1DROffset)))"

definition handleRXParamSetupAns ::
  "mac_block \<Rightarrow> mac_block option \<Rightarrow> 'a session_scheme \<Rightarrow> mac_block list res \<times> 'a session_scheme" where
  "handleRXParamSetupAns block pendingBlock ds =
     (if length (mb_MACCommands block) \<noteq> 1 then (Inl (Errorf ''exactly one mac-command expected''), ds)
      else if no_pending pendingBlock then (Inl (Errorf ''expected pending mac-command''), ds)
      else case first_payload (the pendingBlock) of
        Some (RXParamSetupReqPayload freq rx2DR rx1DROffset) \<Rightarrow>
         (case first_payload block of
            Some (RXParamSetupAnsPayload channelACK rx2DataRateACK rx1DROffsetACK) \<Rightarrow>
              if \<not> channelACK \<or> \<not> rx1DROffsetACK \<or> \<not> rx2DataRateACK
              then (case count_error CID_RXParamSetup ds of Inl e \<Rightarrow> (Inl e, ds) | Inr ds \<Rightarrow> (Inr [], ds))
              else (Inr [], (reset_errors CID_RXParamSetup ds)
                     \<lparr>ds_RX2Frequency := freq, ds_RX2DR := rx2DR, ds_RX1DROffset := rx1DROffset\<rparr>)
          | _ \<Rightarrow> (Inl (Errorf ''expected *lorawan.RXParamSetupAnsPayload''), ds))
      | _ \<Rightarrow> (Inl type_assertion, ds))"

definition RequestRXTimingSetup :: "int \<Rightarrow> mac_block" where
  "RequestRXTimingSetup del = request CID_RXTimingSetup (Some (RXTimingSetupReqPayload (word_of_int del)))"

definition handleRXTimingSetupAns ::
  "mac_block option \<Rightarrow> 'a session_scheme \<Rightarrow> mac_block list res \<times> 'a session_scheme" where
  "handleRXTimingSetupAns pendingBlock ds =
     (if no_pending pendingBlock then (Inl (Errorf ''expected pending mac-command''), ds)
      else case first_payload (the pendingBlock) of
        Some (RXTimingSetupReqPayload del) \<Rightarrow> (Inr [], ds\<lparr>ds_RXDelay := del\<rparr>)
      | _ \<Rightarrow> (Inl type_assertion, ds))"

definition RequestTXParamSetup :: "bool \<Rightarrow> bool \<Rightarrow> byte \<Rightarrow> mac_block" where
  "RequestTXParamSetup uplinkDwellTime400ms downlinkDwellTime400ms maxEIRP =
     request CID_TXParamSetup (Some (TXParamSetupReqPayload
       (if downlinkDwellTime400ms then DwellTime400ms else DwellTimeNoLimit)
       (if uplinkDwellTime400ms then DwellTime400ms else DwellTimeNoLimit) maxEIRP))"

definition handleTXParamSetupAns ::
  "mac_block option \<Rightarrow> 'a session_scheme \<Rightarrow> mac_block list res \<times> 'a session_scheme" where
  "handleTXParamSetupAns pendingBlock ds =
     (if no_pending pendingBlock then (Inl (Errorf ''expected pending mac-command''), ds)
      else case first_payload (the pendingBlock) of
        Some (TXParamSetupReqPayload downlinkDwelltime uplinkDwellTime maxEIRP) \<Rightarrow>
          (Inr [], ds\<lparr>ds_UplinkDwellTime400ms := (uplinkDwellTime = DwellTime400ms),
                      ds_DownlinkDwellTime400ms := (downlinkDwelltime = DwellTime400ms),
                      ds_UplinkMaxEIRPIndex := maxEIRP\<rparr>)
      | _ \<Rightarrow> (Inl (Errorf ''expected *lorawan.TXParamSetupReqPayload''), ds))"

definition RequestRejoinParamSetup :: "int \<Rightarrow> int \<Rightarrow> mac_block" where
  "RequestRejoinParamSetup maxTimeN maxCountN =
     request CID_RejoinParamSetup (Some (RejoinParamSetupReqPayload (word_of_int maxTimeN) (word_of_int maxCountN)))"

definition handleRejoinParamSetupAns ::
  "mac_block \<Rightarrow> mac_block option \<Rightarrow> 'a session_scheme \<Rightarrow> mac_block list res \<times> 'a session_scheme" where
  "handleRejoinParamSetupAns block pendingBlock ds =
     (if length (mb_MACCommands block) \<noteq> 1 then (Inl (Errorf ''exactly one mac-command expected''), ds)
      else if no_pending pendingBlock then (Inl (Errorf ''expected pending mac-command''), ds)
      else case first_payload (the pendingBlock) of
        Some (RejoinParamSetupReqPayload maxTimeN maxCountN) \<Rightarrow>
         (case first_payload block of
            Some (RejoinParamSetupAnsPayload timeOK) \<Rightarrow>
              (Inr [], ds\<lparr>ds_RejoinRequestEnabled := True,
                          ds_RejoinRequestMaxCountN := uint maxCountN,
                          ds_RejoinRequestMaxTimeN := uint maxTimeN\<rparr>)
          | _ \<Rightarrow> (Inl (Errorf ''expected *lorawan.RejoinParamSetupAnsPayload''), ds))
      | _ \<Rightarrow> (Inl type_assertion, ds))"

section \<open>Activation and device mode\<close>

definition servLoRaWANVersionMinor :: byte where "servLoRaWANVersionMinor = 1"

definition negotiated_minor :: "byte \<Rightarrow> byte" where
  "negotiated_minor dev = (if servLoRaWANVersionMinor > dev then dev else servLoRaWANVersionMinor)"

definition handleRekeyInd :: "mac_block \<Rightarrow> mac_block list res" where
  "handleRekeyInd block =
     (if length (mb_MACCommands block) \<noteq> 1 then Inl (Errorf ''exactly one mac-command expected'')
      else case first_payload block of
        Some (RekeyIndPayload minor) \<Rightarrow>
          Inr (answer CID_Rekey (Some (RekeyConfPayload (negotiated_minor minor))))
      | _ \<Rightarrow> Inl (Errorf ''expected *lorawan.RekeyIndPayload''))"

definition handleResetInd ::
  "band \<Rightarrow> device_profile \<Rightarrow> mac_block \<Rightarrow> 'a session_scheme \<Rightarrow> mac_block list res \<times> 'a session_scheme" where
  "handleResetInd b dp block ds =
     (if length (mb_MACCommands block) \<noteq> 1 then (Inl (Errorf ''exactly one mac-command expected''), ds)
      else case first_payload block of
        Some (ResetIndPayload minor) \<Rightarrow>
          (Inr (answer CID_Reset (Some (ResetConfPayload (negotiated_minor minor)))),
           ResetToBootParameters b dp ds)
      | _ \<Rightarrow> (Inl (Errorf ''expected *lorawan.ResetIndPayload''), ds))"

text \<open>The device table: \<open>GetDevice\<close> and \<open>UpdateDevice\<close> of the database \<open>'db\<close>.\<close>

record 'db device_table =
  tb_GetDevice :: "eui64 \<Rightarrow> 'db \<Rightarrow> device res"
  tb_UpdateDevice :: "device \<Rightarrow> 'db \<Rightarrow> unit res \<times> 'db"

definition handleDeviceModeInd ::
  "'db device_table \<Rightarrow> eui64 \<Rightarrow> mac_block \<Rightarrow> 'db \<Rightarrow> mac_block list res \<times> 'db" where
  "handleDeviceModeInd T devEUI block db =
     (if length (mb_MACCommands block) \<noteq> 1 then (Inl (Errorf ''exactly 1 mac-command is expected''), db)
      else case first_payload block of
        Some (DeviceModeIndPayload cls) \<Rightarrow>
         (case tb_GetDevice T devEUI db of
            Inl e \<Rightarrow> (Inl (Wrap e ''get device error''), db)
          | Inr d \<Rightarrow>
             (case (case cls of DeviceModeClassA \<Rightarrow> Some DeviceModeA
                    | DeviceModeClassC \<Rightarrow> Some DeviceModeC | DeviceModeRFU _ \<Rightarrow> None) of
                None \<Rightarrow> (Inl (Errorf ''unexpected device mode''), db)
              | Some m \<Rightarrow>
                 (case tb_UpdateDevice T (d\<lparr>d_Mode := m\<rparr>) db of
                    (Inl e, db) \<Rightarrow> (Inl (Wrap e ''update device error''), db)
                  | (Inr _, db) \<Rightarrow> (Inr (answer CID_DeviceMode (Some (DeviceModeConfPayload cls))), db))))
      | _ \<Rightarrow> (Inl (Errorf ''expected *lorawan.DeviceModeIntPayload''), db))"

section \<open>Dispatch\<close>

text \<open>
  What a handler may change: the device-session, the calls to the application-server and the
  device table.
\<close>

record 'db mac_state =
  ms_ds :: device_session
  ms_AS :: "set_device_status_request list"
  ms_db :: 'db

definition on_ds :: "(device_session \<Rightarrow> mac_block list res \<times> device_session) \<Rightarrow> 'db mac_state \<Rightarrow> mac_block list res \<times> 'db mac_state" where
  "on_ds f st = (case f (ms_ds st) of (r, ds) \<Rightarrow> (r, st\<lparr>ms_ds := ds\<rparr>))"

definition mac_Handle ::
  "band \<Rightarrow> 'db device_table \<Rightarrow> instant \<Rightarrow> device_profile \<Rightarrow> service_profile \<Rightarrow> mac_block \<Rightarrow> mac_block option \<Rightarrow>
   ('p, 'r) rx_packet \<Rightarrow> 'db mac_state \<Rightarrow> mac_block list res \<times> 'db mac_state" where
  "mac_Handle b T now dp sp block pending rxPacket st =
     (case mb_CID block of
        CID_LinkADR \<Rightarrow> on_ds (handleLinkADRAns b block pending) st
      | CID_LinkCheck \<Rightarrow> (handleLinkCheckReq rxPacket, st)
      | CID_DevStatus \<Rightarrow>
         (case handleDevStatusAns sp (ds_DevEUI (ms_ds st)) block of
            (r, calls) \<Rightarrow> (r, st\<lparr>ms_AS := ms_AS st @ calls\<rparr>))
      | CID_PingSlotInfo \<Rightarrow> on_ds (handlePingSlotInfoReq block) st
      | CID_PingSlotChannel \<Rightarrow> on_ds (handlePingSlotChannelAns block pending) st
      | CID_DeviceTime \<Rightarrow> (handleDeviceTimeReq now rxPacket, st)
      | CID_NewChannel \<Rightarrow> on_ds (handleNewChannelAns block pending) st
      | CID_RXParamSetup \<Rightarrow> on_ds (handleRXParamSetupAns block pending) st
      | CID_TXParamSetup \<Rightarrow> on_ds (handleTXParamSetupAns pending) st
      | CID_RXTimingSetup \<Rightarrow> on_ds (handleRXTimingSetupAns pending) st
      | CID_Rekey \<Rightarrow> (handleRekeyInd block, st)
      | CID_Reset \<Rightarrow> on_ds (handleResetInd b dp block) st
      | CID_RejoinParamSetup \<Rightarrow> on_ds (handleRejoinParamSetupAns block pending) st
      | CID_DeviceMode \<Rightarrow>
         (case handleDeviceModeInd T (ds_DevEUI (ms_ds st)) block (ms_db st) of
            (r, db) \<Rightarrow> (r, st\<lparr>ms_db := db\<rparr>))
      | CID_Other _ \<Rightarrow> (Inl (Errorf ''undefined CID''), st))"

section \<open>What a mac-command leaves alone\<close>

definition security_context :: "'a session_scheme \<Rightarrow>
  (devaddr \<times> eui64 \<times> eui64) \<times> (aeskey \<times> aeskey \<times> aeskey \<times> key_envelope option) \<times>
  (u32 \<times> u32 \<times> u32 \<times> u32 \<times> bool) \<times> bool" where
  "security_context ds =
     ((ds_DevAddr ds, ds_DevEUI ds, ds_JoinEUI ds),
      (ds_FNwkSIntKey ds, ds_SNwkSIntKey ds, ds_NwkSEncKey ds, ds_AppSKeyEvelope ds),
      (ds_FCntUp ds, ds_NFCntDown ds, ds_AFCntDown ds, ds_ConfFCnt ds, ds_SkipFCntValidation ds),
      ds_IsDisabled ds)"

lemma security_context_update [frame_simps]:
  "security_context (ds\<lparr>ds_MACCommandErrorCount := a\<rparr>) = security_context ds"
  "security_context (ds\<lparr>ds_TXPowerIndex := b\<rparr>) = security_context ds"
  "security_context (ds\<lparr>ds_DR := b\<rparr>) = security_context ds"
  "security_context (ds\<lparr>ds_NbTrans := w\<rparr>) = security_context ds"
  "security_context (ds\<lparr>ds_EnabledUplinkChannels := is\<rparr>) = security_context ds"
  "security_context (ds\<lparr>ds_ExtraUplinkChannels := ch\<rparr>) = security_context ds"
  "security_context (ds\<lparr>ds_MinSupportedTXPowerIndex := b\<rparr>) = security_context ds"
  "security_context (ds\<lparr>ds_MaxSupportedTXPowerIndex := b\<rparr>) = security_context ds"
  "security_context (ds\<lparr>ds_PingSlotNb := b\<rparr>) = security_context ds"
  "security_context (ds\<lparr>ds_PingSlotDR := b\<rparr>) = security_context ds"
  "security_context (ds\<lparr>ds_PingSlotFrequency := f\<rparr>) = security_context ds"
  "security_context (ds\<lparr>ds_RX2Frequency := f\<rparr>) = security_context ds"
  "security_context (ds\<lparr>ds_RX2DR := w\<rparr>) = security_context ds"
  "security_context (ds\<lparr>ds_RX1DROffset := w\<rparr>) = security_context ds"
  "security_context (ds\<lparr>ds_RXDelay := w\<rparr>) = security_context ds"
  "security_context (ds\<lparr>ds_UplinkDwellTime400ms := p\<rparr>) = security_context ds"
  "security_context (ds\<lparr>ds_DownlinkDwellTime400ms := p\<rparr>) = security_context ds"
  "security_context (ds\<lparr>ds_UplinkMaxEIRPIndex := w\<rparr>) = security_context ds"
  "security_context (ds\<lparr>ds_RejoinRequestEnabled := p\<rparr>) = security_context ds"
  "security_context (ds\<lparr>ds_RejoinRequestMaxCountN := b\<rparr>) = security_context ds"
  "security_context (ds\<lparr>ds_RejoinRequestMaxTimeN := b\<rparr>) = security_context ds"
  "security_context (ds\<lparr>ds_ChannelFrequencies := fs\<rparr>) = security_context ds"
  by (simp_all add: security_context_def)

lemma count_error_cases:
  assumes "count_error c ds = r"
  obtains m where "r = Inl (Panic m)" "ds_MACCommandErrorCount ds = None"
  | n where "r = Inr (ds\<lparr>ds_MACCommandErrorCount := n\<rparr>)" "gomap_ok (ds_MACCommandErrorCount ds) \<longrightarrow> gomap_ok n"
      "gomap_get n c = Some ((case gomap_get (ds_MACCommandErrorCount ds) c of None \<Rightarrow> 0 | Some k \<Rightarrow> k) + 1)"
proof (cases "ds_MACCommandErrorCount ds")
  case None
  then show ?thesis using assms that(1) by (auto simp: count_error_def gomap_put_def)
next
  case (Some al)
  then show ?thesis using assms that(2)
    by (auto simp: count_error_def gomap_put_def gomap_ok_def gomap_get_def update_conv' distinct_update)
qed

text \<open>A handler that keeps the security context and the pending session.\<close>

definition keeps :: "(device_session \<Rightarrow> 'r \<times> device_session) \<Rightarrow> bool" where
  "keeps f \<longleftrightarrow> (\<forall>ds. security_context (snd (f ds)) = security_context ds \<and> ds_Pending (snd (f ds)) = ds_Pending ds)"

lemma keepsI: "(\<And>ds. security_context (snd (f ds)) = security_context ds \<and> ds_Pending (snd (f ds)) = ds_Pending ds) \<Longrightarrow> keeps f"
  by (simp add: keeps_def)

lemma keeps_count_error:
  "count_error c ds = Inr ds' \<Longrightarrow> security_context ds' = security_context ds \<and> ds_Pending ds' = ds_Pending (ds :: device_session)"
  by (erule count_error_cases) (auto simp: frame_simps)

lemma reset_errors_frame [frame_simps]:
  "security_context (reset_errors c ds) = security_context ds"
  "ds_Pending (reset_errors c d) = ds_Pending d"
  by (simp_all add: reset_errors_def security_context_def)

lemma LinkADR_keeps: "keeps (handleLinkADRAns b block pending)"
  by (rule keepsI)
    (auto simp: handleLinkADRAns_def Let_def frame_simps dest: keeps_count_error split: sum.splits prod.splits)

lemma new_channel_loop_keeps:
  "security_context (snd (new_channel_loop ps ds)) = security_context ds \<and>
   ds_Pending (snd (new_channel_loop ps ds)) = ds_Pending (ds :: device_session)"
proof (induction ps ds rule: new_channel_loop.induct)
  case (2 mc pending rest ds)
  then show ?case
    by (auto simp: Let_def frame_simps dest: keeps_count_error
        split: option.splits mac_payload.splits sum.splits)
qed simp

lemma keeps_handlers:
  "keeps (handlePingSlotInfoReq block)" "keeps (handlePingSlotChannelAns block pending)"
  "keeps (handleNewChannelAns block pending)" "keeps (handleRXParamSetupAns block pending)"
  "keeps (handleRXTimingSetupAns pending)" "keeps (handleTXParamSetupAns pending)"
  "keeps (handleRejoinParamSetupAns block pending)" "keeps (handleResetInd b dp block)"
proof -
  show "keeps (handlePingSlotInfoReq block)"
    by (rule keepsI) (simp add: handlePingSlotInfoReq_def frame_simps split: option.split mac_payload.split)
  show "keeps (handlePingSlotChannelAns block pending)"
    by (rule keepsI) (auto simp: handlePingSlotChannelAns_def frame_simps dest: keeps_count_error
        split: option.split mac_payload.split sum.split)
  show "keeps (handleNewChannelAns block pending)"
    by (rule keepsI) (simp add: handleNewChannelAns_def new_channel_loop_keeps)
  show "keeps (handleRXParamSetupAns block pending)"
    by (rule keepsI) (auto simp: handleRXParamSetupAns_def frame_simps dest: keeps_count_error
        split: option.split mac_payload.split sum.split)
  show "keeps (handleRXTimingSetupAns pending)"
    by (rule keepsI) (simp add: handleRXTimingSetupAns_def frame_simps split: option.split mac_payload.split)
  show "keeps (handleTXParamSetupAns pending)"
    by (rule keepsI) (simp add: handleTXParamSetupAns_def frame_simps split: option.split mac_payload.split)
  show "keeps (handleRejoinParamSetupAns block pending)"
    by (rule keepsI) (simp add: handleRejoinParamSetupAns_def frame_simps split: option.split mac_payload.split)
  have "security_context (ResetToBootParameters b dp ds) = security_context ds \<and>
      ds_Pending (ResetToBootParameters b dp ds) = ds_Pending ds" for ds :: device_session
  proof (cases "dp_SupportsJoin dp")
    case True
    then show ?thesis by (simp add: ResetToBootParameters_def)
  next
    case False
    then show ?thesis by (simp add: ResetToBootParameters_eq security_context_def)
  qed
  then show "keeps (handleResetInd b dp block)"
    by (intro keepsI) (simp add: handleResetInd_def split: option.split mac_payload.split)
qed

lemma on_ds_keeps:
  "keeps f \<Longrightarrow> security_context (ms_ds (snd (on_ds f st))) = security_context (ms_ds st) \<and>
   ds_Pending (ms_ds (snd (on_ds f st))) = ds_Pending (ms_ds st)"
  by (auto simp: on_ds_def keeps_def split: prod.split) (metis snd_conv)+

section \<open>Freedom from panics\<close>

definition not_panic :: "'a res \<Rightarrow> bool" where
  "not_panic r \<longleftrightarrow> (\<forall>m. r \<noteq> Inl (Panic m))"

definition maps_allocated :: "'a session_scheme \<Rightarrow> bool" where
  "maps_allocated ds \<longleftrightarrow> gomap_ok (ds_MACCommandErrorCount ds) \<and> gomap_ok (ds_ExtraUplinkChannels ds)"

text \<open>The payloads a pending block of a command identifier is made of.\<close>

definition request_payload :: "cid \<Rightarrow> mac_payload option \<Rightarrow> bool" where
  "request_payload c pl \<longleftrightarrow>
     (case c of
        CID_LinkADR \<Rightarrow> (\<exists>r. pl = Some (LinkADRReqPayload r))
      | CID_PingSlotChannel \<Rightarrow> (\<exists>f d. pl = Some (PingSlotChannelReqPayload f d))
      | CID_RXParamSetup \<Rightarrow> (\<exists>f d r. pl = Some (RXParamSetupReqPayload f d r))
      | CID_RXTimingSetup \<Rightarrow> (\<exists>d. pl = Some (RXTimingSetupReqPayload d))
      | CID_RejoinParamSetup \<Rightarrow> (\<exists>t n. pl = Some (RejoinParamSetupReqPayload t n))
      | _ \<Rightarrow> True)"

definition pending_typed :: "cid \<Rightarrow> mac_block option \<Rightarrow> bool" where
  "pending_typed c pending \<longleftrightarrow>
     (case pending of None \<Rightarrow> True
      | Some p \<Rightarrow> \<forall>mc \<in> set (mb_MACCommands p). request_payload c (mc_Payload mc))"

definition safe :: "'r res \<times> 'a session_scheme \<Rightarrow> bool" where
  "safe out \<longleftrightarrow> not_panic (fst out) \<and> maps_allocated (snd out)"

lemma not_panic_simps [simp]:
  "not_panic (Inr x)" "not_panic (Inl (Errorf m))" "not_panic (Inl (Wrap e m))" "\<not> not_panic (Inl (Panic m))"
  by (simp_all add: not_panic_def)

lemma maps_allocated_simps [simp]:
  "maps_allocated ds \<Longrightarrow> maps_allocated (reset_errors c ds)"
  by (auto simp: maps_allocated_def reset_errors_def)

lemma count_error_safe:
  assumes "maps_allocated ds"
  obtains ds' where "count_error c ds = Inr ds'" "maps_allocated ds'"
    "ds_ExtraUplinkChannels ds' = ds_ExtraUplinkChannels ds"
proof (rule count_error_cases [OF refl, of c ds])
  fix m assume "ds_MACCommandErrorCount ds = None"
  then show ?thesis using assms by (simp add: maps_allocated_def gomap_ok_def)
next
  fix n assume n: "count_error c ds = Inr (ds\<lparr>ds_MACCommandErrorCount := n\<rparr>)"
    "gomap_ok (ds_MACCommandErrorCount ds) \<longrightarrow> gomap_ok n"
  show ?thesis by (rule that [OF n(1)]) (use assms n(2) in \<open>simp_all add: maps_allocated_def\<close>)
qed

lemma link_adr_acks_safe: "link_adr_acks mcs a = Inl e \<Longrightarrow> not_panic (Inl e :: 'a res)"
  by (induction mcs a rule: link_adr_acks.induct) (auto split: option.splits mac_payload.splits)

lemma link_adr_payloads_safe:
  "\<forall>mc \<in> set mcs. request_payload CID_LinkADR (mc_Payload mc) \<Longrightarrow> \<exists>rs. link_adr_payloads mcs = Inr rs \<and> length rs = length mcs"
  by (induction mcs) (auto simp: request_payload_def)


lemma maps_allocated_cong:
  "maps_allocated ds \<Longrightarrow> ds_MACCommandErrorCount ds' = ds_MACCommandErrorCount ds \<Longrightarrow>
   ds_ExtraUplinkChannels ds' = ds_ExtraUplinkChannels ds \<Longrightarrow> maps_allocated ds'"
  by (simp add: maps_allocated_def)

lemma safe_nack:
  assumes "maps_allocated ds"
  shows "safe (case count_error c ds of Inl e \<Rightarrow> (Inl e, ds) | Inr ds \<Rightarrow> (Inr ([] :: mac_block list), ds))"
  using assms by (rule count_error_safe [where c = c]) (simp add: safe_def)

lemma first_pending_typed:
  "pending_typed c pending \<Longrightarrow> \<not> no_pending pending \<Longrightarrow> request_payload c (first_payload (the pending))"
  by (cases pending) (auto simp: pending_typed_def no_pending_def first_payload_def)

lemma LinkADR_safe:
  assumes "maps_allocated ds" and "pending_typed CID_LinkADR pending"
  shows "safe (handleLinkADRAns b block pending ds)"
proof (cases "mb_MACCommands block = [] \<or> no_pending pending")
  case True
  then show ?thesis using assms(1) by (auto simp: handleLinkADRAns_def safe_def)
next
  case False
  then obtain rs where rs: "link_adr_payloads (mb_MACCommands (the pending)) = Inr rs"
    using assms(2) link_adr_payloads_safe [of "mb_MACCommands (the pending)"]
    by (cases pending) (auto simp: no_pending_def pending_typed_def)
  obtain ds' where ds': "count_error CID_LinkADR ds = Inr ds'" "maps_allocated ds'"
    using count_error_safe [OF assms(1)] by metis
  have cong: "maps_allocated ds \<Longrightarrow> maps_allocated (ds\<lparr>ds_TXPowerIndex := a\<rparr>)"
    "maps_allocated ds \<Longrightarrow> maps_allocated (ds\<lparr>ds_DR := a\<rparr>)"
    "maps_allocated ds \<Longrightarrow> maps_allocated (ds\<lparr>ds_NbTrans := w\<rparr>)"
    "maps_allocated ds \<Longrightarrow> maps_allocated (ds\<lparr>ds_EnabledUplinkChannels := is\<rparr>)"
    "maps_allocated ds \<Longrightarrow> maps_allocated (ds\<lparr>ds_MinSupportedTXPowerIndex := a\<rparr>)"
    "maps_allocated ds \<Longrightarrow> maps_allocated (ds\<lparr>ds_MaxSupportedTXPowerIndex := a\<rparr>)"
    for ds :: "'a session_scheme" and a w "is" by (simp_all add: maps_allocated_def)
  show ?thesis
    using False rs ds' assms(1) link_adr_acks_safe
    by (auto simp: handleLinkADRAns_def safe_def Let_def cong split: sum.split prod.split)
qed

lemma new_channel_loop_safe:
  "maps_allocated ds \<Longrightarrow> safe (new_channel_loop ps ds)"
proof (induction ps ds rule: new_channel_loop.induct)
  case (1 ds)
  then show ?case by (simp add: safe_def)
next
  case (2 mc pending rest ds)
  obtain ds' where ds': "count_error CID_NewChannel ds = Inr ds'" "maps_allocated ds'"
    using count_error_safe [OF 2(3)] by metis
  have ok: "gomap_ok (ds_ExtraUplinkChannels (reset_errors CID_NewChannel ds))"
    using maps_allocated_simps [OF 2(3), of CID_NewChannel] by (simp add: maps_allocated_def)
  have put: "\<exists>m. gomap_put (ds_ExtraUplinkChannels (reset_errors CID_NewChannel ds)) k v = Inr m \<and> gomap_ok m" for k v
    using ok by (rule gomap_ok_put)
  have upd: "maps_allocated (reset_errors CID_NewChannel ds\<lparr>ds_ExtraUplinkChannels := m\<rparr>)"
    "maps_allocated (reset_errors CID_NewChannel ds\<lparr>ds_ExtraUplinkChannels := m, ds_EnabledUplinkChannels := is\<rparr>)"
    if "gomap_ok m" for m "is"
    using that maps_allocated_simps [OF 2(3), of CID_NewChannel] by (simp_all add: maps_allocated_def)
  have keep: "safe (Inl (Errorf m) :: mac_block list res, ds)" for m
    using 2(3) by (simp add: safe_def)
  show ?case
  proof (cases "mc_Payload mc")
    case (Some pl)
    show ?thesis
    proof (cases pl)
      case (NewChannelAnsPayload f d)
      show ?thesis
      proof (cases "mc_Payload pending")
        case pp: (Some ppl)
        show ?thesis
        proof (cases ppl)
          case (NewChannelReqPayload i fr mx mn)
          obtain m where m: "gomap_put (ds_ExtraUplinkChannels (reset_errors CID_NewChannel ds)) (uint i)
              \<lparr>ch_Frequency = fr, ch_MinDR = uint mn, ch_MaxDR = uint mx\<rparr> = Inr m" "gomap_ok m"
            using put by blast
          note IH = 2(1) [OF Some NewChannelAnsPayload pp NewChannelReqPayload _ refl m(1) refl refl]
            2(2) [OF Some NewChannelAnsPayload pp NewChannelReqPayload _ ds'(1) ds'(2)]
          show ?thesis
            using IH upd [OF m(2)] ds' m Some pp NewChannelAnsPayload NewChannelReqPayload
            by (auto simp: Let_def)
        qed (use Some pp NewChannelAnsPayload keep in simp_all)
      qed (use Some NewChannelAnsPayload keep in simp)
    qed (use Some keep in simp_all)
  qed (use keep in simp)
qed

lemma safe_handlers:
  assumes "maps_allocated ds"
  shows "safe (handlePingSlotInfoReq block ds)"
    and "pending_typed CID_PingSlotChannel pending \<Longrightarrow> safe (handlePingSlotChannelAns block pending ds)"
    and "safe (handleNewChannelAns block pending ds)"
    and "pending_typed CID_RXParamSetup pending \<Longrightarrow> safe (handleRXParamSetupAns block pending ds)"
    and "pending_typed CID_RXTimingSetup pending \<Longrightarrow> safe (handleRXTimingSetupAns pending ds)"
    and "safe (handleTXParamSetupAns pending ds)"
    and "pending_typed CID_RejoinParamSetup pending \<Longrightarrow> safe (handleRejoinParamSetupAns block pending ds)"
    and "safe (handleResetInd b dp block ds)"
proof -
  note [simp] = safe_def
  show "safe (handlePingSlotInfoReq block ds)"
    using assms by (simp add: handlePingSlotInfoReq_def maps_allocated_def split: option.split mac_payload.split)
  show "safe (handlePingSlotChannelAns block pending ds)" if "pending_typed CID_PingSlotChannel pending"
  proof (cases "no_pending pending")
    case False
    then have "\<exists>f d. first_payload (the pending) = Some (PingSlotChannelReqPayload f d)"
      using first_pending_typed [OF that] by (simp add: request_payload_def)
    then show ?thesis
      using assms safe_nack [OF assms, of CID_PingSlotChannel] maps_allocated_simps [OF assms, of CID_PingSlotChannel]
      by (auto simp: handlePingSlotChannelAns_def maps_allocated_def split: option.split mac_payload.split)
  qed (use assms in \<open>simp add: handlePingSlotChannelAns_def\<close>)
  show "safe (handleNewChannelAns block pending ds)"
    using assms new_channel_loop_safe [OF assms] by (simp add: handleNewChannelAns_def)
  show "safe (handleRXParamSetupAns block pending ds)" if "pending_typed CID_RXParamSetup pending"
  proof (cases "no_pending pending")
    case False
    then have "\<exists>f d r. first_payload (the pending) = Some (RXParamSetupReqPayload f d r)"
      using first_pending_typed [OF that] by (simp add: request_payload_def)
    then show ?thesis
      using assms safe_nack [OF assms, of CID_RXParamSetup] maps_allocated_simps [OF assms, of CID_RXParamSetup]
      by (auto simp: handleRXParamSetupAns_def maps_allocated_def split: option.split mac_payload.split)
  qed (use assms in \<open>simp add: handleRXParamSetupAns_def\<close>)
  show "safe (handleRXTimingSetupAns pending ds)" if "pending_typed CID_RXTimingSetup pending"
    using assms first_pending_typed [OF that]
    by (auto simp: handleRXTimingSetupAns_def maps_allocated_def request_payload_def)
  show "safe (handleTXParamSetupAns pending ds)"
    using assms by (simp add: handleTXParamSetupAns_def maps_allocated_def split: option.split mac_payload.split)
  show "safe (handleRejoinParamSetupAns block pending ds)" if "pending_typed CID_RejoinParamSetup pending"
    using assms first_pending_typed [OF that]
    by (auto simp: handleRejoinParamSetupAns_def maps_allocated_def request_payload_def
        split: option.split mac_payload.split)
  have "maps_allocated (ResetToBootParameters b dp ds)"
  proof (cases "dp_SupportsJoin dp")
    case True
    then show ?thesis using assms by (simp add: ResetToBootParameters_def)
  next
    case False
    then show ?thesis using assms
      by (simp add: ResetToBootParameters_eq maps_allocated_def gomap_ok_def boot_channels_distinct)
  qed
  then show "safe (handleResetInd b dp block ds)"
    using assms by (simp add: handleResetInd_def split: option.split mac_payload.split)
qed

section \<open>Channels over rounds\<close>

definition new_channel_diffs :: "(int, channel) gomap \<Rightarrow> (int, channel) gomap \<Rightarrow> int list" where
  "new_channel_diffs currentChannels wantedChannels =
     filter (\<lambda>i. channel_differs currentChannels i (the (gomap_get wantedChannels i)))
       (sort (map fst (entries wantedChannels)))"

lemma concat_map_if: "concat (map (\<lambda>i. if P i then [f i] else []) xs) = map f (filter P xs)"
  by (induction xs) auto

lemma RequestNewChannels_eq:
  assumes "0 \<le> n"
  shows "RequestNewChannels n cur wanted =
     (let out = take (nat n) (new_channel_diffs cur wanted) in
      Inr (if out = [] then None
           else Some \<lparr>mb_CID = CID_NewChannel, mb_External = False,
                      mb_MACCommands = map (\<lambda>i. new_channel_req i (the (gomap_get wanted i))) out\<rparr>))"
proof -
  let ?d = "new_channel_diffs cur wanted"
  let ?f = "\<lambda>i. new_channel_req i (the (gomap_get wanted i))"
  have "concat (map (\<lambda>i. let w = the (gomap_get wanted i) in if channel_differs cur i w then [new_channel_req i w] else [])
      (sort (map fst (entries wanted)))) = map ?f ?d"
    unfolding new_channel_diffs_def Let_def by (rule concat_map_if)
  moreover have "(if int (length (map ?f ?d)) > n then take (nat n) (map ?f ?d) else map ?f ?d) = map ?f (take (nat n) ?d)"
    by (simp add: take_map)
  ultimately show ?thesis using assms by (simp add: RequestNewChannels_def Let_def take_map)
qed

text \<open>The answer of a device that accepts every channel.\<close>

definition ack_channels :: "mac_block \<Rightarrow> mac_block" where
  "ack_channels p =
     \<lparr>mb_CID = CID_NewChannel, mb_External = False,
      mb_MACCommands = map (\<lambda>_. \<lparr>mc_CID = CID_NewChannel, mc_Payload = Some (NewChannelAnsPayload True True)\<rparr>)
        (mb_MACCommands p)\<rparr>"

definition channel_fits :: "int \<Rightarrow> channel \<Rightarrow> bool" where
  "channel_fits i c \<longleftrightarrow> 0 \<le> i \<and> i < 256 \<and> 0 \<le> ch_MinDR c \<and> ch_MinDR c < 256 \<and> 0 \<le> ch_MaxDR c \<and> ch_MaxDR c < 256"

lemma byte_fits: "0 \<le> i \<Longrightarrow> i < 256 \<Longrightarrow> uint (word_of_int i :: byte) = i"
  by (simp add: uint_word_of_int)

lemma new_channel_loop_acks:
  assumes "maps_allocated ds" and "\<forall>i \<in> set is. channel_fits i (w i)"
  shows "\<exists>ds'. new_channel_loop (zip (map (\<lambda>_. \<lparr>mc_CID = CID_NewChannel, mc_Payload = Some (NewChannelAnsPayload True True)\<rparr>) is)
        (map (\<lambda>i. new_channel_req i (w i)) is)) ds = (Inr [], ds') \<and> maps_allocated ds' \<and>
      (\<forall>j. gomap_get (ds_ExtraUplinkChannels ds') j =
        (if j \<in> set is then Some (w j) else gomap_get (ds_ExtraUplinkChannels ds) j)) \<and>
      set (ds_EnabledUplinkChannels ds') = set (ds_EnabledUplinkChannels ds) \<union> set is \<and>
      (is \<noteq> [] \<longrightarrow> gomap_get (ds_MACCommandErrorCount ds') CID_NewChannel = None)"
  using assms
proof (induction "is" arbitrary: ds)
  case (Cons i js)
  let ?ds = "reset_errors CID_NewChannel ds"
  have fits: "uint (word_of_int i :: byte) = i" "uint (word_of_int (ch_MinDR (w i)) :: byte) = ch_MinDR (w i)"
    "uint (word_of_int (ch_MaxDR (w i)) :: byte) = ch_MaxDR (w i)"
    using Cons.prems(2) by (simp_all add: channel_fits_def byte_fits)
  have alloc: "maps_allocated ?ds" using Cons.prems(1) by simp
  then obtain m where m: "gomap_put (ds_ExtraUplinkChannels ?ds) i (w i) = Inr m" "gomap_ok m"
    using gomap_ok_put [of "ds_ExtraUplinkChannels ?ds" i "w i"] by (auto simp: maps_allocated_def)
  define ds1 where "ds1 = ?ds\<lparr>ds_ExtraUplinkChannels := m\<rparr>"
  define ds2 where "ds2 = (if i \<in> set (ds_EnabledUplinkChannels ds1) then ds1
    else ds1\<lparr>ds_EnabledUplinkChannels := ds_EnabledUplinkChannels ds1 @ [i]\<rparr>)"
  have a2: "maps_allocated ds2" using alloc m(2) by (simp add: maps_allocated_def ds1_def ds2_def)
  have x2: "ds_ExtraUplinkChannels ds2 = m" "gomap_get (ds_MACCommandErrorCount ds2) CID_NewChannel = None"
    "set (ds_EnabledUplinkChannels ds2) = insert i (set (ds_EnabledUplinkChannels ds))"
    by (auto simp: ds1_def ds2_def reset_errors_def)
  have get: "gomap_get m j = (if j = i then Some (w i) else gomap_get (ds_ExtraUplinkChannels ds) j)" for j
    using gomap_get_put [OF m(1)] by (simp add: reset_errors_def)
  have rec: "\<lparr>ch_Frequency = ch_Frequency (w i), ch_MinDR = ch_MinDR (w i), ch_MaxDR = ch_MaxDR (w i)\<rparr> = w i"
    by simp
  have step: "new_channel_loop (zip (map (\<lambda>_. \<lparr>mc_CID = CID_NewChannel, mc_Payload = Some (NewChannelAnsPayload True True)\<rparr>) (i # js))
      (map (\<lambda>i. new_channel_req i (w i)) (i # js))) ds =
    new_channel_loop (zip (map (\<lambda>_. \<lparr>mc_CID = CID_NewChannel, mc_Payload = Some (NewChannelAnsPayload True True)\<rparr>) js)
      (map (\<lambda>i. new_channel_req i (w i)) js)) ds2"
    by (simp add: new_channel_req_def Let_def ds1_def ds2_def m(1) fits rec)
  obtain ds' where ds': "new_channel_loop (zip (map (\<lambda>_. \<lparr>mc_CID = CID_NewChannel, mc_Payload = Some (NewChannelAnsPayload True True)\<rparr>) js)
      (map (\<lambda>i. new_channel_req i (w i)) js)) ds2 = (Inr [], ds')" "maps_allocated ds'"
    "\<forall>j. gomap_get (ds_ExtraUplinkChannels ds') j = (if j \<in> set js then Some (w j) else gomap_get (ds_ExtraUplinkChannels ds2) j)"
    "set (ds_EnabledUplinkChannels ds') = set (ds_EnabledUplinkChannels ds2) \<union> set js"
    "js \<noteq> [] \<longrightarrow> gomap_get (ds_MACCommandErrorCount ds') CID_NewChannel = None"
    using Cons.IH [OF a2] Cons.prems(2) by auto
  have "gomap_get (ds_MACCommandErrorCount ds') CID_NewChannel = None"
    using ds'(1,5) x2(2) by (cases "js = []") auto
  then show ?case using step ds' x2 get by (intro exI [of _ ds']) auto
qed simp

lemma filter_not_take: "distinct xs \<Longrightarrow> filter (\<lambda>i. i \<notin> set (take n xs)) xs = drop n xs"
proof (induction xs arbitrary: n)
  case (Cons x xs)
  show ?case
  proof (cases n)
    case (Suc m)
    have "filter (\<lambda>i. i \<notin> set (take n (x # xs))) xs = filter (\<lambda>i. i \<notin> set (take m xs)) xs"
      using Cons.prems Suc by (intro filter_cong) auto
    then show ?thesis using Cons Suc by simp
  qed simp
qed simp

definition channel_round :: "int \<Rightarrow> (int, channel) gomap \<Rightarrow> device_session \<Rightarrow> device_session" where
  "channel_round maxChannels wanted ds =
     (case RequestNewChannels maxChannels (ds_ExtraUplinkChannels ds) wanted of
        Inr (Some p) \<Rightarrow> snd (handleNewChannelAns (ack_channels p) (Some p) ds)
      | _ \<Rightarrow> ds)"

lemma channel_round_effect:
  assumes "0 \<le> n" and "maps_allocated ds" and "gomap_ok wanted"
    and "\<forall>(i, c) \<in> set (entries wanted). channel_fits i c"
  shows "new_channel_diffs (ds_ExtraUplinkChannels (channel_round n wanted ds)) wanted =
      drop (nat n) (new_channel_diffs (ds_ExtraUplinkChannels ds) wanted)"
    and "maps_allocated (channel_round n wanted ds)"
    and "set (ds_EnabledUplinkChannels (channel_round n wanted ds)) = set (ds_EnabledUplinkChannels ds) \<union>
      set (take (nat n) (new_channel_diffs (ds_ExtraUplinkChannels ds) wanted))"
proof -
  let ?d = "new_channel_diffs (ds_ExtraUplinkChannels ds) wanted"
  let ?is = "take (nat n) ?d"
  let ?w = "\<lambda>i. the (gomap_get wanted i)"
  obtain al where al: "wanted = Some al" "distinct (map fst al)" using assms(3) by (auto simp: gomap_ok_def)
  have keys: "set ?d \<subseteq> fst ` set al" by (auto simp: new_channel_diffs_def entries_def al(1))
  have fits: "channel_fits i (?w i)" if "i \<in> fst ` set al" for i
    using that assms(4) al by (auto simp: gomap_get_def entries_def)
  have dist: "distinct ?d" using al by (simp add: new_channel_diffs_def entries_def)
  have differs: "channel_differs cur i (?w i) = (i \<notin> set ?is \<and> channel_differs (ds_ExtraUplinkChannels ds) i (?w i))"
    if "\<forall>j. gomap_get cur j = (if j \<in> set ?is then Some (?w j) else gomap_get (ds_ExtraUplinkChannels ds) j)" for cur i
    using that by (simp add: channel_differs_def)
  have filt: "filter (\<lambda>i. i \<notin> set ?is) ?d = drop (nat n) ?d"
    using dist by (rule filter_not_take)
  show "new_channel_diffs (ds_ExtraUplinkChannels (channel_round n wanted ds)) wanted = drop (nat n) ?d"
    and "maps_allocated (channel_round n wanted ds)"
    and "set (ds_EnabledUplinkChannels (channel_round n wanted ds)) = set (ds_EnabledUplinkChannels ds) \<union> set ?is"
  proof (atomize (full), cases "?is = []")
    case True
    then have "channel_round n wanted ds = ds"
      by (simp add: channel_round_def RequestNewChannels_eq [OF assms(1)] Let_def)
    then show "new_channel_diffs (ds_ExtraUplinkChannels (channel_round n wanted ds)) wanted = drop (nat n) ?d \<and>
      maps_allocated (channel_round n wanted ds) \<and>
      set (ds_EnabledUplinkChannels (channel_round n wanted ds)) = set (ds_EnabledUplinkChannels ds) \<union> set ?is"
      using True assms(2) filt by (metis append_Nil append_take_drop_id list.set(1) sup_bot.right_neutral)
  next
    case False
    have "\<forall>i \<in> set ?is. channel_fits i (?w i)" using keys fits by (meson in_set_takeD subsetD)
    from new_channel_loop_acks [OF assms(2) this] obtain ds' where
      ds': "new_channel_loop (zip (map (\<lambda>_. \<lparr>mc_CID = CID_NewChannel, mc_Payload = Some (NewChannelAnsPayload True True)\<rparr>) ?is)
        (map (\<lambda>i. new_channel_req i (?w i)) ?is)) ds = (Inr [], ds')" "maps_allocated ds'"
      "\<forall>j. gomap_get (ds_ExtraUplinkChannels ds') j = (if j \<in> set ?is then Some (?w j) else gomap_get (ds_ExtraUplinkChannels ds) j)"
      "set (ds_EnabledUplinkChannels ds') = set (ds_EnabledUplinkChannels ds) \<union> set ?is" by blast
    let ?p = "\<lparr>mb_CID = CID_NewChannel, mb_External = False,
      mb_MACCommands = map (\<lambda>i. new_channel_req i (?w i)) ?is\<rparr>"
    have "channel_round n wanted ds = snd (handleNewChannelAns (ack_channels ?p) (Some ?p) ds)"
      using False by (simp add: channel_round_def RequestNewChannels_eq [OF assms(1)] Let_def)
    also have "handleNewChannelAns (ack_channels ?p) (Some ?p) ds = (Inr [], ds')"
      using False ds'(1) by (simp add: handleNewChannelAns_def ack_channels_def no_pending_def comp_def)
    finally have r: "channel_round n wanted ds = ds'" by simp
    have "new_channel_diffs (ds_ExtraUplinkChannels ds') wanted = filter (\<lambda>i. i \<notin> set ?is) ?d"
      using differs [OF ds'(3)] by (simp add: new_channel_diffs_def conj_commute)
    then show "new_channel_diffs (ds_ExtraUplinkChannels (channel_round n wanted ds)) wanted = drop (nat n) ?d \<and>
      maps_allocated (channel_round n wanted ds) \<and>
      set (ds_EnabledUplinkChannels (channel_round n wanted ds)) = set (ds_EnabledUplinkChannels ds) \<union> set ?is"
      using r filt ds'(2,4) by simp
  qed
qed

section \<open>Properties\<close>

lemma mac_Handle_safe:
  assumes "maps_allocated (ms_ds st)" and "pending_typed (mb_CID block) pending" and "rp_TXInfo rxPacket \<noteq> None"
  shows "not_panic (fst (mac_Handle b T now dp sp block pending rxPacket st)) \<and>
    maps_allocated (ms_ds (snd (mac_Handle b T now dp sp block pending rxPacket st)))"
proof -
  have on: "not_panic (fst (on_ds f st)) \<and> maps_allocated (ms_ds (snd (on_ds f st)))"
    if "safe (f (ms_ds st))" for f
    using that by (auto simp: on_ds_def safe_def split: prod.split)
  note handlers = safe_handlers [OF assms(1)] LinkADR_safe [OF assms(1)]
  have check: "not_panic (handleLinkCheckReq rxPacket)"
    using assms(3) by (auto simp: handleLinkCheckReq_def Let_def split: option.split)
  have status: "not_panic (fst (handleDevStatusAns sp e block))" for e
    by (simp add: handleDevStatusAns_def split: option.split mac_payload.split)
  have time: "not_panic (handleDeviceTimeReq now rxPacket)"
    by (simp add: handleDeviceTimeReq_def Let_def split: prod.split)
  have rekey: "not_panic (handleRekeyInd block)"
    by (simp add: handleRekeyInd_def split: option.split mac_payload.split)
  have mode: "not_panic (fst (handleDeviceModeInd T e block db))" for e db
    by (simp add: handleDeviceModeInd_def split: option.split mac_payload.split sum.split prod.split
        device_mode_class.split)
  show ?thesis
    using assms(1,2) handlers on check status time rekey mode
    by (cases "mb_CID block") (simp_all add: mac_Handle_def split: prod.split, (metis fst_conv)+)
qed

text \<open>
  C19: no mac-command of a device makes the server panic. With the maps of the session
  allocated (as they are once it was loaded), the pending block made of the requests its
  identifier stands for, and the meta-data of the received packet present, every handler
  returns a result or an error, and leaves the maps allocated.
\<close>

theorem mac_commands_never_panic:
  assumes "maps_allocated (ms_ds st)" and "pending_typed (mb_CID block) pending" and "rp_TXInfo rxPacket \<noteq> None"
  shows "not_panic (fst (mac_Handle b T now dp sp block pending rxPacket st)) \<and>
    maps_allocated (ms_ds (snd (mac_Handle b T now dp sp block pending rxPacket st)))"
  by (rule mac_Handle_safe [OF assms])

definition sample_mac_state :: "unit mac_state" where
  "sample_mac_state = \<lparr>ms_ds = zero_device_session, ms_AS = [], ms_db = ()\<rparr>"

definition sample_rx_packet :: "(unit, unit) rx_packet" where
  "sample_rx_packet =
     \<lparr>rp_DR = 0, rp_PHYPayload = (), rp_TXInfo = Some sample_tx_info, rp_RXInfoSet = [],
      rp_GatewayIsPrivate = Some [], rp_GatewayServiceProfile = Some [], rp_RoamingMetaData = None\<rparr>"

lemma zero_device_session_maps: "maps_allocated zero_device_session"
  by (simp add: maps_allocated_def zero_device_session_def with_pending_def session.defs zero_session_def)

theorem mac_commands_never_panic_witness:
  "\<forall>T now dp sp. let block = \<lparr>mb_CID = CID_RXTimingSetup, mb_External = False, mb_MACCommands = []\<rparr>
   in not_panic (fst (mac_Handle sample_band T now dp sp block (Some (RequestRXTimingSetup 3)) sample_rx_packet sample_mac_state))"
proof (intro allI)
  fix T now dp sp
  have "pending_typed CID_RXTimingSetup (Some (RequestRXTimingSetup 3))"
    by (simp add: pending_typed_def RequestRXTimingSetup_def request_def request_payload_def)
  then show "let block = \<lparr>mb_CID = CID_RXTimingSetup, mb_External = False, mb_MACCommands = []\<rparr>
   in not_panic (fst (mac_Handle sample_band T now dp sp block (Some (RequestRXTimingSetup 3)) sample_rx_packet sample_mac_state))"
    using mac_commands_never_panic [of sample_mac_state
        "\<lparr>mb_CID = CID_RXTimingSetup, mb_External = False, mb_MACCommands = []\<rparr>" "Some (RequestRXTimingSetup 3)" sample_rx_packet
        sample_band T now dp sp] zero_device_session_maps
    by (simp add: sample_mac_state_def sample_rx_packet_def Let_def)
qed

lemma mac_Handle_keeps:
  "security_context (ms_ds (snd (mac_Handle b T now dp sp block pending rxPacket st))) = security_context (ms_ds st) \<and>
   ds_Pending (ms_ds (snd (mac_Handle b T now dp sp block pending rxPacket st))) = ds_Pending (ms_ds st)"
  using on_ds_keeps [OF LinkADR_keeps [of b block pending], of st] on_ds_keeps [OF keeps_handlers(1) [of block], of st]
    on_ds_keeps [OF keeps_handlers(2) [of block pending], of st] on_ds_keeps [OF keeps_handlers(3) [of block pending], of st]
    on_ds_keeps [OF keeps_handlers(4) [of block pending], of st] on_ds_keeps [OF keeps_handlers(5) [of pending], of st]
    on_ds_keeps [OF keeps_handlers(6) [of pending], of st] on_ds_keeps [OF keeps_handlers(7) [of block pending], of st]
    on_ds_keeps [OF keeps_handlers(8) [of b dp block], of st]
  by (cases "mb_CID block") (simp_all add: mac_Handle_def split: prod.split)

text \<open>
  C20: a mac-command never touches the security context of a device: whatever block a device
  sends and whatever was pending, its address, identifiers, keys, frame counters and pending
  session are what they were, also when the handler fails.
\<close>

theorem mac_commands_keep_security_context:
  "security_context (ms_ds (snd (mac_Handle b T now dp sp block pending rxPacket st))) = security_context (ms_ds st) \<and>
   ds_Pending (ms_ds (snd (mac_Handle b T now dp sp block pending rxPacket st))) = ds_Pending (ms_ds st)"
  by (rule mac_Handle_keeps)

text \<open>
  C21: the channels of a device converge. With \<open>n\<close> channels per block and a device that accepts
  them, each round of request and answer settles the next \<open>n\<close> channels, in the order of their
  indices, that differ from the wanted ones; after enough rounds no request is made, and the
  settled channels are enabled.
\<close>

theorem new_channels_converge:
  assumes "0 < n" and "maps_allocated ds" and "gomap_ok wanted"
    and "\<forall>(i, c) \<in> set (entries wanted). channel_fits i c"
  shows "new_channel_diffs (ds_ExtraUplinkChannels ((channel_round n wanted ^^ k) ds)) wanted =
      drop (k * nat n) (new_channel_diffs (ds_ExtraUplinkChannels ds) wanted) \<and>
    (length (new_channel_diffs (ds_ExtraUplinkChannels ds) wanted) \<le> k * nat n \<longrightarrow>
      RequestNewChannels n (ds_ExtraUplinkChannels ((channel_round n wanted ^^ k) ds)) wanted = Inr None) \<and>
    set (take (k * nat n) (new_channel_diffs (ds_ExtraUplinkChannels ds) wanted)) \<subseteq>
      set (ds_EnabledUplinkChannels ((channel_round n wanted ^^ k) ds))"
proof -
  let ?d = "new_channel_diffs (ds_ExtraUplinkChannels ds) wanted"
  let ?s = "\<lambda>k. (channel_round n wanted ^^ k) ds"
  have "maps_allocated (?s k) \<and> new_channel_diffs (ds_ExtraUplinkChannels (?s k)) wanted = drop (k * nat n) ?d \<and>
    set (take (k * nat n) ?d) \<subseteq> set (ds_EnabledUplinkChannels (?s k))"
  proof (induction k)
    case (Suc k)
    note eff = channel_round_effect [of n "?s k" wanted, OF _ _ assms(3,4)]
    have "take (Suc k * nat n) ?d = take (k * nat n) ?d @ take (nat n) (drop (k * nat n) ?d)"
      by (metis add.commute mult_Suc take_add)
    then show ?case using Suc eff assms(1) by (auto simp: add.commute)
  qed (use assms(2) in simp)
  then show ?thesis
    using assms(1) by (simp add: RequestNewChannels_eq Let_def)
qed

definition sample_wanted :: "(int, channel) gomap" where
  "sample_wanted = Some (map (\<lambda>i. (i, \<lparr>ch_Frequency = 867100000, ch_MinDR = 0, ch_MaxDR = 5\<rparr>)) [7, 3, 5, 4])"

theorem new_channels_converge_witness:
  "RequestNewChannels 3 (ds_ExtraUplinkChannels ((channel_round 3 sample_wanted ^^ 2) zero_device_session)) sample_wanted = Inr None"
proof -
  have "gomap_ok sample_wanted" "\<forall>(i, c) \<in> set (entries sample_wanted). channel_fits i c"
    by (simp_all add: sample_wanted_def gomap_ok_def entries_def channel_fits_def)
  moreover have "length (new_channel_diffs (ds_ExtraUplinkChannels zero_device_session) sample_wanted) \<le> 2 * nat 3"
    unfolding new_channel_diffs_def
    by (rule order_trans [OF length_filter_le]) (simp add: sample_wanted_def entries_def)
  ultimately show ?thesis
    using new_channels_converge [of 3, OF _ zero_device_session_maps, of sample_wanted 2] by simp
qed

text \<open>
  The answer to a link ADR request. A device that acknowledges everything gets the last
  request's power, data-rate and repetition and the channels the band derives; one with ADR
  disabled that acknowledges the channel mask gets the channels and the repetition, and the
  data-rate and power it acknowledged; any other answer counts an error and, when the power
  was refused, limits it: below the requested index, or to index 1 from a refused index 0.
\<close>

theorem link_adr_answer:
  fixes ds :: device_session
  assumes "acks \<noteq> []" and "reqs \<noteq> []"
    and "mb_MACCommands block = map (\<lambda>(c, d, p). \<lparr>mc_CID = CID_LinkADR, mc_Payload = Some (LinkADRAnsPayload c d p)\<rparr>) acks"
    and "mb_MACCommands pending = map (\<lambda>r. \<lparr>mc_CID = CID_LinkADR, mc_Payload = Some (LinkADRReqPayload r)\<rparr>) reqs"
    and "GetEnabledUplinkChannelIndicesForLinkADRReqPayloads b (ds_EnabledUplinkChannels ds) reqs = Inr chans"
    and "maps_allocated ds"
    and "maskOK = (\<forall>(c, d, p) \<in> set acks. c)" and "rateOK = (\<forall>(c, d, p) \<in> set acks. d)" and "powerOK = (\<forall>(c, d, p) \<in> set acks. p)"
    and "tx = uint (la_TXPower (last reqs))"
  shows "\<exists>ds'. handleLinkADRAns b block (Some pending) ds = (Inr [], ds') \<and>
    (if maskOK \<and> (\<not> ds_ADR ds \<or> rateOK \<and> powerOK)
     then ds_EnabledUplinkChannels ds' = chans \<and> ds_NbTrans ds' = la_NbRep (last reqs) \<and>
       ds_DR ds' = (if rateOK then uint (la_DataRate (last reqs)) else ds_DR ds) \<and>
       ds_TXPowerIndex ds' = (if powerOK then tx else ds_TXPowerIndex ds) \<and>
       ds_MaxSupportedTXPowerIndex ds' = ds_MaxSupportedTXPowerIndex ds \<and>
       gomap_get (ds_MACCommandErrorCount ds') CID_LinkADR = None
     else ds_EnabledUplinkChannels ds' = ds_EnabledUplinkChannels ds \<and> ds_NbTrans ds' = ds_NbTrans ds \<and>
       ds_DR ds' = ds_DR ds \<and>
       ds_TXPowerIndex ds' = (if \<not> powerOK \<and> tx = 0 then 1 else ds_TXPowerIndex ds) \<and>
       ds_MaxSupportedTXPowerIndex ds' = (if \<not> powerOK \<and> tx \<noteq> 0 then tx - 1 else ds_MaxSupportedTXPowerIndex ds) \<and>
       gomap_get (ds_MACCommandErrorCount ds') CID_LinkADR =
         Some ((case gomap_get (ds_MACCommandErrorCount ds) CID_LinkADR of None \<Rightarrow> 0 | Some k \<Rightarrow> k) + 1))"
proof -
  have acks: "link_adr_acks (map (\<lambda>(c, d, p). \<lparr>mc_CID = CID_LinkADR, mc_Payload = Some (LinkADRAnsPayload c d p)\<rparr>) xs) (m, r, w) =
      Inr (m \<and> (\<forall>(c, d, p) \<in> set xs. c), r \<and> (\<forall>(c, d, p) \<in> set xs. d), w \<and> (\<forall>(c, d, p) \<in> set xs. p))" for xs m r w
    by (induction xs arbitrary: m r w) auto
  have reqs: "link_adr_payloads (map (\<lambda>r. \<lparr>mc_CID = CID_LinkADR, mc_Payload = Some (LinkADRReqPayload r)\<rparr>) rs) = Inr rs" for rs
    by (induction rs) auto
  obtain n where n: "count_error CID_LinkADR ds = Inr (ds\<lparr>ds_MACCommandErrorCount := n\<rparr>)"
    "gomap_get n CID_LinkADR = Some ((case gomap_get (ds_MACCommandErrorCount ds) CID_LinkADR of None \<Rightarrow> 0 | Some k \<Rightarrow> k) + 1)"
  proof (rule count_error_cases [OF refl, of CID_LinkADR ds])
    fix m assume "ds_MACCommandErrorCount ds = None"
    then show ?thesis using assms(6) by (simp add: maps_allocated_def gomap_ok_def)
  qed (use that in blast)
  have tx: "0 < la_TXPower (last reqs) \<longleftrightarrow> tx \<noteq> 0" "la_TXPower (last reqs) = 0 \<longleftrightarrow> tx = 0"
    by (simp_all add: assms(10) word_gt_0 unsigned_eq_0_iff)
  have run: "handleLinkADRAns b block (Some pending) ds = (Inr [],
    if maskOK \<and> rateOK \<and> powerOK then (reset_errors CID_LinkADR ds)\<lparr>ds_TXPowerIndex := tx, ds_DR := uint (la_DataRate (last reqs)),
        ds_NbTrans := la_NbRep (last reqs), ds_EnabledUplinkChannels := chans\<rparr>
    else if \<not> ds_ADR ds \<and> maskOK then
      let ds = (reset_errors CID_LinkADR ds)\<lparr>ds_EnabledUplinkChannels := chans, ds_NbTrans := la_NbRep (last reqs)\<rparr>;
          ds = (if rateOK then ds\<lparr>ds_DR := uint (la_DataRate (last reqs))\<rparr> else ds)
      in if powerOK then ds\<lparr>ds_TXPowerIndex := tx\<rparr> else ds
    else
      let ds = ds\<lparr>ds_MACCommandErrorCount := n\<rparr>;
          ds = (if \<not> powerOK \<and> tx = 0 then ds\<lparr>ds_TXPowerIndex := 1, ds_MinSupportedTXPowerIndex := 1\<rparr> else ds)
      in if \<not> powerOK \<and> tx \<noteq> 0 then ds\<lparr>ds_MaxSupportedTXPowerIndex := tx - 1\<rparr> else ds)"
  proof -
    have ack: "link_adr_acks (mb_MACCommands block) (True, True, True) = Inr (maskOK, rateOK, powerOK)"
      by (simp add: assms(3,7-9) acks)
    have req: "link_adr_payloads (mb_MACCommands pending) = Inr reqs" by (simp add: assms(4) reqs)
    have ne: "mb_MACCommands block \<noteq> []" "\<not> no_pending (Some pending)"
      using assms(1,2) by (simp_all add: assms(3,4) no_pending_def)
    have chans: "GetEnabledUplinkChannelIndicesForLinkADRReqPayloads b
        (ds_EnabledUplinkChannels (reset_errors CID_LinkADR ds)) reqs = Inr chans"
      using assms(5) by (simp add: reset_errors_def)
    show ?thesis
      by (cases maskOK; cases rateOK; cases powerOK; cases "ds_ADR ds")
        (simp_all add: handleLinkADRAns_def ack req ne chans n(1) tx Let_def assms(10) [symmetric])
  qed
  show ?thesis
    by (rule exI, rule conjI, rule run) (auto simp: Let_def reset_errors_def n(2))
qed

theorem link_adr_answer_witness:
  "let req = \<lparr>la_DataRate = 5, la_TXPower = 3, la_ChMask = replicate 3 True, la_ChMaskCntl = 0, la_NbRep = 1\<rparr>;
       block = \<lparr>mb_CID = CID_LinkADR, mb_External = False,
         mb_MACCommands = [\<lparr>mc_CID = CID_LinkADR, mc_Payload = Some (LinkADRAnsPayload True True False)\<rparr>]\<rparr>;
       pending = \<lparr>mb_CID = CID_LinkADR, mb_External = False,
         mb_MACCommands = [\<lparr>mc_CID = CID_LinkADR, mc_Payload = Some (LinkADRReqPayload req)\<rparr>]\<rparr>;
       ds = zero_device_session\<lparr>ds_ADR := True\<rparr>
   in ds_MaxSupportedTXPowerIndex (snd (handleLinkADRAns sample_band block (Some pending) ds)) = 2"
proof -
  define req where "req = \<lparr>la_DataRate = 5, la_TXPower = 3, la_ChMask = replicate 3 True, la_ChMaskCntl = 0, la_NbRep = 1\<rparr>"
  define block where "block = \<lparr>mb_CID = CID_LinkADR, mb_External = False,
         mb_MACCommands = [\<lparr>mc_CID = CID_LinkADR, mc_Payload = Some (LinkADRAnsPayload True True False)\<rparr>]\<rparr>"
  define pending where "pending = \<lparr>mb_CID = CID_LinkADR, mb_External = False,
         mb_MACCommands = [\<lparr>mc_CID = CID_LinkADR, mc_Payload = Some (LinkADRReqPayload req)\<rparr>]\<rparr>"
  define ds where "ds = zero_device_session\<lparr>ds_ADR := True\<rparr>"
  have "maps_allocated ds" using zero_device_session_maps by (simp add: ds_def maps_allocated_def)
  moreover obtain chans where "GetEnabledUplinkChannelIndicesForLinkADRReqPayloads sample_band (ds_EnabledUplinkChannels ds) [req] = Inr chans"
    by (simp add: sample_band_def)
  ultimately have "ds_MaxSupportedTXPowerIndex (snd (handleLinkADRAns sample_band block (Some pending) ds)) = 2"
    using link_adr_answer [of "[(True, True, False)]" "[req]" block pending sample_band ds chans True True False 3]
    by (auto simp: block_def pending_def req_def ds_def)
  then show ?thesis by (simp add: req_def block_def pending_def ds_def)
qed

end
