(* ===== verification/Database.thy ===== *)
theory Database
  imports Prelude "HOL-Library.Multiset"
begin

text \<open>
  The SQL side of \<open>internal/storage\<close>. PostgreSQL is not part of the repository: \<open>table\<close> is a record
  with what a statement does to one table of a database of type \<open>'db\<close> - scanning its rows, in
  whatever order the server has them, inserting a row (the answer is the row with its generated
  key), updating and deleting the rows that satisfy a condition (the answer is how many). The
  \<open>where\<close>, \<open>order by\<close>, \<open>limit\<close> and aggregates of a statement are in the repository and are part of
  the definitions that issue it.

  The locale \<open>sql_table\<close> says what the statements are documented to do: one that fails may have
  been executed or not, never by half. \<open>columns\<close> is what the columns can hold of a row (a timestamp
  has microseconds). \<open>mem_table\<close> keeps its rows in a list, and satisfies the laws.
\<close>

section \<open>Errors\<close>

datatype sql_error =
    sql_ErrNoRows
  | unique_violation
  | foreign_key_violation
  | sql_failure string

definition handlePSQLError :: "sql_error \<Rightarrow> string \<Rightarrow> error" where
  "handlePSQLError err description =
     (case err of
        sql_ErrNoRows \<Rightarrow> ErrDoesNotExist
      | unique_violation \<Rightarrow> ErrAlreadyExists
      | foreign_key_violation \<Rightarrow> ErrDoesNotExist
      | sql_failure m \<Rightarrow> Wrap (Errorf m) description)"

section \<open>Tables\<close>

record ('db, 'r) table =
  tb_scan :: "'db \<Rightarrow> sql_error + 'r list"
  tb_insert :: "'r \<Rightarrow> 'db \<Rightarrow> (sql_error + 'r) \<times> 'db"
  tb_update :: "('r \<Rightarrow> bool) \<Rightarrow> ('r \<Rightarrow> 'r) \<Rightarrow> 'db \<Rightarrow> (sql_error + nat) \<times> 'db"
  tb_delete :: "('r \<Rightarrow> bool) \<Rightarrow> 'db \<Rightarrow> (sql_error + nat) \<times> 'db"

text \<open>\<open>sqlx.Select\<close> scans all rows of the answer, \<open>sqlx.Get\<close> the first one.\<close>

definition sqlx_Select :: "('db, 'r) table \<Rightarrow> ('r list \<Rightarrow> 'a list) \<Rightarrow> 'db \<Rightarrow> 'a list res" where
  "sqlx_Select T query db =
     (case tb_scan T db of
        Inl e \<Rightarrow> Inl (handlePSQLError e ''select error'')
      | Inr rs \<Rightarrow> Inr (query rs))"

definition sqlx_Get :: "('db, 'r) table \<Rightarrow> ('r list \<Rightarrow> 'a list) \<Rightarrow> 'db \<Rightarrow> 'a res" where
  "sqlx_Get T query db =
     (case tb_scan T db of
        Inl e \<Rightarrow> Inl (handlePSQLError e ''select error'')
      | Inr rs \<Rightarrow> (case query rs of
          [] \<Rightarrow> Inl (handlePSQLError sql_ErrNoRows ''select error'')
        | r # _ \<Rightarrow> Inr r))"

text \<open>\<open>Exec\<close> of an insert, and of an update or delete that has to find its row.\<close>

definition sqlx_Insert :: "('db, 'r) table \<Rightarrow> 'r \<Rightarrow> 'db \<Rightarrow> 'r res \<times> 'db" where
  "sqlx_Insert T r db =
     (case tb_insert T r db of
        (Inl e, db') \<Rightarrow> (Inl (handlePSQLError e ''insert error''), db')
      | (Inr r', db') \<Rightarrow> (Inr r', db'))"

definition affected :: "(sql_error + nat) \<times> 'db \<Rightarrow> string \<Rightarrow> unit res \<times> 'db" where
  "affected r description =
     (case r of
        (Inl e, db') \<Rightarrow> (Inl (handlePSQLError e description), db')
      | (Inr ra, db') \<Rightarrow> (if ra = 0 then Inl ErrDoesNotExist else Inr (), db'))"

definition executed_any :: "(sql_error + nat) \<times> 'db \<Rightarrow> string \<Rightarrow> unit res \<times> 'db" where
  "executed_any r description =
     (case r of
        (Inl e, db') \<Rightarrow> (Inl (handlePSQLError e description), db')
      | (Inr _, db') \<Rightarrow> (Inr (), db'))"

section \<open>What the statements do\<close>

definition sql_ran :: "(sql_error + 'a) \<Rightarrow> 'c \<Rightarrow> 'c \<Rightarrow> 'c \<Rightarrow> bool" where
  "sql_ran r c c1 c' \<longleftrightarrow> c' = c1 \<or> (\<exists>e. r = Inl e) \<and> c' = c"

lemma size_filter_witness: "0 < size (filter_mset P M) \<Longrightarrow> \<exists>r \<in># M. P r"
  by (induction M) (auto split: if_splits)

locale sql_table =
  fixes T :: "('db, 'r) table"
    and rows :: "'db \<Rightarrow> 'r multiset"
    and columns :: "'r \<Rightarrow> 'r"
    and keyed :: "'r \<Rightarrow> 'r \<Rightarrow> bool"
  assumes scan: "tb_scan T db = Inr rs \<Longrightarrow> mset rs = rows db"
    and insert: "tb_insert T r db = (x, db') \<Longrightarrow>
      (\<exists>r'. keyed (columns r) r' \<and> x \<in> {Inr r'} \<union> range Inl \<and>
            sql_ran x (rows db) (add_mset r' (rows db)) (rows db'))"
    and update: "tb_update T P f db = (n, db') \<Longrightarrow>
      (case n of Inl _ \<Rightarrow> True | Inr k \<Rightarrow> k = size (filter_mset P (rows db))) \<and>
      sql_ran n (rows db) (image_mset (\<lambda>r. if P r then columns (f r) else r) (rows db)) (rows db')"
    and delete: "tb_delete T P db = (n, db') \<Longrightarrow>
      (case n of Inl _ \<Rightarrow> True | Inr k \<Rightarrow> k = size (filter_mset P (rows db))) \<and>
      sql_ran n (rows db) (filter_mset (\<lambda>r. \<not> P r) (rows db)) (rows db')"
begin

lemma select_rows:
  assumes "sqlx_Select T q db = Inr xs"
  shows "\<exists>rs. mset rs = rows db \<and> xs = q rs"
proof (cases "tb_scan T db")
  case (Inl e)
  then show ?thesis using assms by (simp add: sqlx_Select_def)
next
  case (Inr rs)
  then show ?thesis using assms scan[OF Inr] by (auto simp: sqlx_Select_def)
qed

lemma get_row:
  assumes "sqlx_Get T q db = Inr x"
  shows "\<exists>rs. mset rs = rows db \<and> q rs \<noteq> [] \<and> x = hd (q rs)"
proof (cases "tb_scan T db")
  case (Inl e)
  then show ?thesis using assms by (simp add: sqlx_Get_def)
next
  case (Inr rs)
  then show ?thesis using assms scan[OF Inr]
    by (intro exI[of _ rs]) (auto simp: sqlx_Get_def split: list.splits)
qed

lemma inserted:
  assumes "sqlx_Insert T r db = (Inr r', db')"
  shows "keyed (columns r) r' \<and> rows db' = add_mset r' (rows db)"
proof -
  obtain x db1 where i: "tb_insert T r db = (x, db1)" by fastforce
  then have "x = Inr r'" "db1 = db'"
    using assms by (auto simp: sqlx_Insert_def split: sum.splits)
  then show ?thesis using insert[OF i] by (auto simp: sql_ran_def)
qed

lemma inserted_or_not:
  assumes "sqlx_Insert T r db = (x, db')"
  shows "\<exists>r'. keyed (columns r) r' \<and> rows db' \<in> {rows db, add_mset r' (rows db)}"
proof -
  obtain y db1 where i: "tb_insert T r db = (y, db1)" by fastforce
  then have "db1 = db'"
    using assms by (auto simp: sqlx_Insert_def split: sum.splits)
  then show ?thesis using insert[OF i] by (auto simp: sql_ran_def)
qed

lemma updated:
  assumes "affected (tb_update T P f db) d = (Inr u, db')"
  shows "rows db' = image_mset (\<lambda>r. if P r then columns (f r) else r) (rows db) \<and> (\<exists>r \<in># rows db. P r)"
proof -
  obtain x db1 where i: "tb_update T P f db = (x, db1)" by fastforce
  then obtain n where "x = Inr n" "db1 = db'" "n \<noteq> 0"
    using assms by (cases x) (auto simp: affected_def split: if_splits)
  then show ?thesis using update[OF i] by (auto simp: sql_ran_def dest: size_filter_witness)
qed

lemma deleted:
  assumes "affected (tb_delete T P db) d = (Inr u, db')"
  shows "rows db' = filter_mset (\<lambda>r. \<not> P r) (rows db) \<and> (\<exists>r \<in># rows db. P r)"
proof -
  obtain x db1 where i: "tb_delete T P db = (x, db1)" by fastforce
  then obtain n where "x = Inr n" "db1 = db'" "n \<noteq> 0"
    using assms by (cases x) (auto simp: affected_def split: if_splits)
  then show ?thesis using delete[OF i] by (auto simp: sql_ran_def dest: size_filter_witness)
qed

lemma deleted_any:
  assumes "executed_any (tb_delete T P db) d = (Inr u, db')"
  shows "rows db' = filter_mset (\<lambda>r. \<not> P r) (rows db)"
proof -
  obtain x db1 where i: "tb_delete T P db = (x, db1)" by fastforce
  then obtain n where "x = Inr n" "db1 = db'"
    using assms by (cases x) (auto simp: executed_any_def)
  then show ?thesis using delete[OF i] by (auto simp: sql_ran_def)
qed

end

section \<open>A table in memory\<close>

text \<open>
  The rows of the table in insertion order and the next generated key; \<open>clash\<close> is the unique
  constraint, \<open>assign\<close> puts the generated key into a row. While \<open>mt_up\<close> is false every statement
  fails and changes nothing. The table is one component of a database, read by \<open>g\<close> and written
  by \<open>p\<close>.
\<close>

record 'r memtable =
  mt_up :: bool
  mt_next :: int
  mt_rows :: "'r list"

definition mem_gone :: sql_error where
  "mem_gone = sql_failure ''connection refused''"

definition mem_table ::
  "('db \<Rightarrow> 'r memtable) \<Rightarrow> ('r memtable \<Rightarrow> 'db \<Rightarrow> 'db) \<Rightarrow> ('r \<Rightarrow> 'r) \<Rightarrow> (int \<Rightarrow> 'r \<Rightarrow> 'r) \<Rightarrow>
   ('r \<Rightarrow> 'r \<Rightarrow> bool) \<Rightarrow> ('db, 'r) table" where
  "mem_table g p columns assign clash =
     \<lparr>tb_scan = (\<lambda>db. if mt_up (g db) then Inr (mt_rows (g db)) else Inl mem_gone),
      tb_insert = (\<lambda>r db.
        let r' = assign (mt_next (g db)) (columns r) in
        if \<not> mt_up (g db) then (Inl mem_gone, db)
        else if list_ex (clash r') (mt_rows (g db)) then (Inl unique_violation, db)
        else (Inr r', p ((g db)\<lparr>mt_next := mt_next (g db) + 1, mt_rows := mt_rows (g db) @ [r']\<rparr>) db)),
      tb_update = (\<lambda>P f db.
        if \<not> mt_up (g db) then (Inl mem_gone, db)
        else (Inr (length (filter P (mt_rows (g db)))),
              p ((g db)\<lparr>mt_rows := map (\<lambda>r. if P r then columns (f r) else r) (mt_rows (g db))\<rparr>) db)),
      tb_delete = (\<lambda>P db.
        if \<not> mt_up (g db) then (Inl mem_gone, db)
        else (Inr (length (filter P (mt_rows (g db)))),
              p ((g db)\<lparr>mt_rows := filter (\<lambda>r. \<not> P r) (mt_rows (g db))\<rparr>) db))\<rparr>"

definition mem_rows :: "('db \<Rightarrow> 'r memtable) \<Rightarrow> 'db \<Rightarrow> 'r multiset" where
  "mem_rows g db = mset (mt_rows (g db))"

definition mem_keyed :: "(int \<Rightarrow> 'r \<Rightarrow> 'r) \<Rightarrow> 'r \<Rightarrow> 'r \<Rightarrow> bool" where
  "mem_keyed assign r r' \<longleftrightarrow> (\<exists>k. r' = assign k r)"

lemma mem_table_laws:
  assumes gp: "\<And>t db. g (p t db) = t"
  shows "sql_table (mem_table g p columns assign clash) (mem_rows g) columns (mem_keyed assign)"
proof
  let ?T = "mem_table g p columns assign clash"
  fix db x n db' r P f rs
  show "tb_scan ?T db = Inr rs \<Longrightarrow> mset rs = mem_rows g db"
    by (auto simp: mem_table_def mem_rows_def split: if_splits)
  show "tb_insert ?T r db = (x, db') \<Longrightarrow>
      (\<exists>r'. mem_keyed assign (columns r) r' \<and> x \<in> {Inr r'} \<union> range Inl \<and>
        sql_ran x (mem_rows g db) (add_mset r' (mem_rows g db)) (mem_rows g db'))"
    by (intro exI[of _ "assign (mt_next (g db)) (columns r)"])
      (auto simp: mem_table_def mem_rows_def mem_keyed_def sql_ran_def gp Let_def split: if_splits)
  show "tb_update ?T P f db = (n, db') \<Longrightarrow>
      (case n of Inl _ \<Rightarrow> True | Inr k \<Rightarrow> k = size (filter_mset P (mem_rows g db))) \<and>
      sql_ran n (mem_rows g db) (image_mset (\<lambda>r. if P r then columns (f r) else r) (mem_rows g db)) (mem_rows g db')"
    by (auto simp: mem_table_def mem_rows_def sql_ran_def gp mset_filter[symmetric] simp del: mset_filter split: if_splits)
  show "tb_delete ?T P db = (n, db') \<Longrightarrow>
      (case n of Inl _ \<Rightarrow> True | Inr k \<Rightarrow> k = size (filter_mset P (mem_rows g db))) \<and>
      sql_ran n (mem_rows g db) (filter_mset (\<lambda>r. \<not> P r) (mem_rows g db)) (mem_rows g db')"
    by (auto simp: mem_table_def mem_rows_def sql_ran_def gp mset_filter[symmetric] simp del: mset_filter split: if_splits)
qed

text \<open>A database with one table, timestamps kept as they are.\<close>

definition one_table :: "(int \<Rightarrow> 'r \<Rightarrow> 'r) \<Rightarrow> ('r \<Rightarrow> 'r \<Rightarrow> bool) \<Rightarrow> ('r memtable, 'r) table" where
  "one_table assign clash = mem_table (\<lambda>t. t) (\<lambda>t _. t) (\<lambda>r. r) assign clash"

interpretation one_table: sql_table "one_table assign clash" "mem_rows (\<lambda>t. t)" "\<lambda>r. r" "mem_keyed assign"
  unfolding one_table_def by (rule mem_table_laws) simp

end
