(* ===== verification/DeviceQueue.thy ===== *)
theory DeviceQueue
  imports Database ClassB SessionPB
begin

text \<open>
  The downlink queue of a device (\<open>internal/storage/device_queue.go\<close>): the table \<open>device_queue\<close>,
  the operations on it, the scheduling of Class-B items at ping slots and the selection of the
  devices the scheduler serves. \<open>now\<close> arguments are the values \<open>time.Now()\<close> returns.
\<close>

section \<open>Items\<close>

record device_queue_item =
  qi_ID :: int
  qi_CreatedAt :: instant
  qi_UpdatedAt :: instant
  qi_DevAddr :: devaddr
  qi_DevEUI :: eui64
  qi_FRMPayload :: "byte list"
  qi_FCnt :: u32
  qi_FPort :: byte
  qi_Confirmed :: bool
  qi_IsPending :: bool
  qi_EmitAtTimeSinceGPSEpoch :: "duration option"
  qi_TimeoutAfter :: "instant option"
  qi_RetryAfter :: "instant option"

type_synonym 'db queue_table = "('db, device_queue_item) table"

definition classBScheduleMargin :: duration where
  "classBScheduleMargin = 5 * second"

definition Validate :: "device_queue_item \<Rightarrow> unit res" where
  "Validate d = (if qi_FPort d = 0 then Inl ErrInvalidFPort else Inr ())"

section \<open>Queries\<close>

text \<open>\<open>where dev_eui = $1\<close>, and the queries of the code over the rows it leaves.\<close>

definition items_of :: "eui64 \<Rightarrow> device_queue_item list \<Rightarrow> device_queue_item list" where
  "items_of devEUI rs = filter (\<lambda>r. qi_DevEUI r = devEUI) rs"

definition GetDeviceQueueItem :: "'db queue_table \<Rightarrow> int \<Rightarrow> 'db \<Rightarrow> device_queue_item res" where
  "GetDeviceQueueItem T i db = sqlx_Get T (filter (\<lambda>r. qi_ID r = i)) db"

definition GetDeviceQueueItemsForDevEUI ::
  "'db queue_table \<Rightarrow> eui64 \<Rightarrow> 'db \<Rightarrow> device_queue_item list res" where
  "GetDeviceQueueItemsForDevEUI T devEUI db = sqlx_Select T (\<lambda>rs. sort_key qi_FCnt (items_of devEUI rs)) db"

definition GetDeviceQueueItemCountForDevEUI :: "'db queue_table \<Rightarrow> eui64 \<Rightarrow> 'db \<Rightarrow> int res" where
  "GetDeviceQueueItemCountForDevEUI T devEUI db =
     sqlx_Get T (\<lambda>rs. [int (length (items_of devEUI rs))]) db"

definition emit_times :: "eui64 \<Rightarrow> device_queue_item list \<Rightarrow> duration list" where
  "emit_times devEUI rs = List.map_filter qi_EmitAtTimeSinceGPSEpoch (items_of devEUI rs)"

definition GetMaxEmitAtTimeSinceGPSEpochForDevEUI ::
  "'db queue_table \<Rightarrow> eui64 \<Rightarrow> 'db \<Rightarrow> duration res" where
  "GetMaxEmitAtTimeSinceGPSEpochForDevEUI T devEUI db =
     sqlx_Get T (\<lambda>rs. [case emit_times devEUI rs of [] \<Rightarrow> 0 | t # ts \<Rightarrow> fold max ts t]) db"

definition in_flight :: "instant \<Rightarrow> device_queue_item \<Rightarrow> bool" where
  "in_flight now qi \<longleftrightarrow>
     qi_IsPending qi \<and> (case qi_TimeoutAfter qi of None \<Rightarrow> False | Some t \<Rightarrow> now < t)"

definition GetNextDeviceQueueItemForDevEUI ::
  "'db queue_table \<Rightarrow> eui64 \<Rightarrow> instant \<Rightarrow> 'db \<Rightarrow> (device_queue_item \<times> bool) res" where
  "GetNextDeviceQueueItemForDevEUI T devEUI now db =
     (case sqlx_Select T (\<lambda>rs. take 2 (sort_key qi_FCnt (items_of devEUI rs))) db of
        Inl e \<Rightarrow> Inl e
      | Inr [] \<Rightarrow> Inl ErrDoesNotExist
      | Inr (qi # qis) \<Rightarrow>
          if in_flight now qi then Inl ErrDoesNotExist else Inr (qi, length (qi # qis) > 1))"

definition GetPendingDeviceQueueItemForDevEUI ::
  "'db queue_table \<Rightarrow> eui64 \<Rightarrow> 'db \<Rightarrow> device_queue_item res" where
  "GetPendingDeviceQueueItemForDevEUI T devEUI db =
     (case sqlx_Get T (\<lambda>rs. take 1 (sort_key qi_FCnt (items_of devEUI rs))) db of
        Inl e \<Rightarrow> Inl e
      | Inr qi \<Rightarrow> if \<not> qi_IsPending qi then Inl ErrDoesNotExist else Inr qi)"

section \<open>Writing\<close>

text \<open>
  Scheduling of a Class-B item: after the last item of the queue (or now) and the margin, at the
  next ping slot of the device; an acknowledgement is expected within the Class-B timeout.
  \<open>None\<close> is a search that does not end. What an operation that fails has stored in the struct it
  was given is not observed: every caller drops it.
\<close>

definition schedule_class_b ::
  "'db queue_table \<Rightarrow> (byte list \<Rightarrow> byte list \<Rightarrow> nat \<Rightarrow> byte) \<Rightarrow> (devaddr \<Rightarrow> byte list res) \<Rightarrow>
   device_queue_item \<Rightarrow> device_profile \<Rightarrow> 'a session_scheme \<Rightarrow> instant \<Rightarrow> 'db \<Rightarrow>
   device_queue_item res option" where
  "schedule_class_b T aes marshal qi dp ds now db =
     (if qi_TimeoutAfter qi = None \<and> qi_EmitAtTimeSinceGPSEpoch qi = None \<and>
         dp_SupportsClassB dp \<and> ds_BeaconLocked ds
      then case GetMaxEmitAtTimeSinceGPSEpochForDevEUI T (qi_DevEUI qi) db of
          Inl e \<Rightarrow> Some (Inl (Wrap e ''get max emit-at time since gps epoch for deveui error''))
        | Inr last_emit \<Rightarrow>
            let scheduleAfterGPSEpochTS = (if last_emit = 0 then TimeSinceGPSEpoch now else last_emit);
                scheduleAfterGPSEpochTS = go_int64 (scheduleAfterGPSEpochTS + classBScheduleMargin)
            in (case GetNextPingSlotAfter aes marshal scheduleAfterGPSEpochTS (ds_DevAddr ds) (ds_PingSlotNb ds) of
                  None \<Rightarrow> None
                | Some (Inl e) \<Rightarrow> Some (Inl (Wrap e ''get next ping-slot error''))
                | Some (Inr gpsEpochTS) \<Rightarrow>
                    Some (Inr (qi\<lparr>qi_EmitAtTimeSinceGPSEpoch := Some gpsEpochTS,
                                qi_TimeoutAfter := Some (NewFromTimeSinceGPSEpoch gpsEpochTS +
                                  go_int64 (second * dp_ClassBTimeout dp))\<rparr>)))
      else Some (Inr qi))"

definition CreateDeviceQueueItem ::
  "'db queue_table \<Rightarrow> (byte list \<Rightarrow> byte list \<Rightarrow> nat \<Rightarrow> byte) \<Rightarrow> (devaddr \<Rightarrow> byte list res) \<Rightarrow>
   device_queue_item \<Rightarrow> device_profile \<Rightarrow> 'a session_scheme \<Rightarrow> instant \<Rightarrow> instant \<Rightarrow> 'db \<Rightarrow>
   (device_queue_item res \<times> 'db) option" where
  "CreateDeviceQueueItem T aes marshal qi dp ds now created db =
     (case Validate qi of
        Inl e \<Rightarrow> Some (Inl e, db)
      | Inr _ \<Rightarrow>
         (case schedule_class_b T aes marshal qi dp ds now db of
            None \<Rightarrow> None
          | Some (Inl e) \<Rightarrow> Some (Inl e, db)
          | Some (Inr qi) \<Rightarrow>
              let qi = qi\<lparr>qi_CreatedAt := created, qi_UpdatedAt := created\<rparr> in
              Some (case sqlx_Insert T qi db of
                  (Inl e, db) \<Rightarrow> (Inl e, db)
                | (Inr r, db) \<Rightarrow> (Inr (qi\<lparr>qi_ID := qi_ID r\<rparr>), db))))"

text \<open>The update statement sets every column but the key and \<open>created_at\<close>.\<close>

definition UpdateDeviceQueueItem ::
  "'db queue_table \<Rightarrow> device_queue_item \<Rightarrow> instant \<Rightarrow> 'db \<Rightarrow> unit res \<times> 'db" where
  "UpdateDeviceQueueItem T qi now db =
     affected (tb_update T (\<lambda>r. qi_ID r = qi_ID qi)
                 (\<lambda>r. qi\<lparr>qi_CreatedAt := qi_CreatedAt r, qi_UpdatedAt := now\<rparr>) db) ''update error''"

definition DeleteDeviceQueueItem :: "'db queue_table \<Rightarrow> int \<Rightarrow> 'db \<Rightarrow> unit res \<times> 'db" where
  "DeleteDeviceQueueItem T i db = affected (tb_delete T (\<lambda>r. qi_ID r = i) db) ''delete error''"

definition FlushDeviceQueueForDevEUI :: "'db queue_table \<Rightarrow> eui64 \<Rightarrow> 'db \<Rightarrow> unit res \<times> 'db" where
  "FlushDeviceQueueForDevEUI T devEUI db =
     executed_any (tb_delete T (\<lambda>r. qi_DevEUI r = devEUI) db) ''delete error''"

section \<open>The devices to serve\<close>

text \<open>
  The query of the scheduler, over the devices and the items of the queue; \<open>locked\<close> are the
  devices another instance is working on (\<open>skip locked\<close>). A comparison with a null column is
  not true.
\<close>

definition queue_ready :: "duration \<Rightarrow> device \<Rightarrow> device_queue_item \<Rightarrow> bool" where
  "queue_ready scheduleTime d dq \<longleftrightarrow>
     qi_DevEUI dq = d_DevEUI d \<and>
     (d_Mode d = DeviceModeC \<or>
      d_Mode d = DeviceModeB \<and>
        (case qi_EmitAtTimeSinceGPSEpoch dq of None \<Rightarrow> False | Some t \<Rightarrow> t \<le> scheduleTime))"

definition queue_blocked :: "instant \<Rightarrow> device \<Rightarrow> device_queue_item \<Rightarrow> bool" where
  "queue_blocked now d dq \<longleftrightarrow>
     qi_DevEUI dq = d_DevEUI d \<and>
     (in_flight now dq \<or> (case qi_RetryAfter dq of None \<Rightarrow> False | Some t \<Rightarrow> now < t))"

definition GetDevicesWithClassBOrClassCDeviceQueueItems ::
  "('db, device) table \<Rightarrow> 'db queue_table \<Rightarrow> duration \<Rightarrow> (eui64 \<Rightarrow> bool) \<Rightarrow> nat \<Rightarrow> instant \<Rightarrow> instant \<Rightarrow>
   'db \<Rightarrow> device list res" where
  "GetDevicesWithClassBOrClassCDeviceQueueItems D T schedulerInterval locked batch now now' db =
     (let gpsEpochScheduleTime = TimeSinceGPSEpoch (now + go_int64 (schedulerInterval * 2)) in
      case tb_scan T db of
        Inl e \<Rightarrow> Inl (handlePSQLError e ''select error'')
      | Inr dqs \<Rightarrow>
         sqlx_Select D (\<lambda>ds. take batch (filter (\<lambda>d. \<not> locked (d_DevEUI d)) (sort_key d_DevEUI
           (filter (\<lambda>d. d_Mode d \<in> {DeviceModeB, DeviceModeC} \<and>
                        list_ex (queue_ready gpsEpochScheduleTime d) dqs \<and>
                        \<not> list_ex (queue_blocked now' d) dqs) ds)))) db)"

section \<open>The table behind the queue\<close>

text \<open>
  The columns that come back as they were written; a timestamp may be rounded to a microsecond.
\<close>

definition qi_columns :: "device_queue_item \<Rightarrow>
    devaddr \<times> eui64 \<times> byte list \<times> u32 \<times> byte \<times> bool \<times> bool \<times> duration option" where
  "qi_columns r = (qi_DevAddr r, qi_DevEUI r, qi_FRMPayload r, qi_FCnt r, qi_FPort r, qi_Confirmed r,
     qi_IsPending r, qi_EmitAtTimeSinceGPSEpoch r)"

definition close_times :: "instant option \<Rightarrow> instant option \<Rightarrow> bool" where
  "close_times a b = rel_option (\<lambda>t t'. \<bar>t - t'\<bar> \<le> 1000) a b"

lemma qi_columns_simps [simp]:
  "qi_columns (r\<lparr>qi_ID := k\<rparr>) = qi_columns r" "qi_columns (r\<lparr>qi_CreatedAt := t\<rparr>) = qi_columns r"
  "qi_columns (r\<lparr>qi_UpdatedAt := t\<rparr>) = qi_columns r"
  by (simp_all add: qi_columns_def)

locale queue_db = sql_table T rows columns keyed
  for T :: "('db, device_queue_item) table" and rows columns keyed +
  assumes written_columns: "qi_columns (columns r) = qi_columns r" "qi_ID (columns r) = qi_ID r"
    and written_timeout: "close_times (qi_TimeoutAfter r) (qi_TimeoutAfter (columns r))"
    and keyed_columns: "keyed r r' \<Longrightarrow> r' = r\<lparr>qi_ID := qi_ID r'\<rparr>"
begin

lemma inserted_item:
  assumes "sqlx_Insert T r db = (Inr r', db')"
  shows "rows db' = add_mset r' (rows db) \<and> qi_columns r' = qi_columns r"
proof -
  have "keyed (columns r) r'" "rows db' = add_mset r' (rows db)"
    using inserted[OF assms] by auto
  moreover from this have "r' = (columns r)\<lparr>qi_ID := qi_ID r'\<rparr>" using keyed_columns by blast
  then have "qi_columns r' = qi_columns (columns r)" by (metis qi_columns_simps(1))
  ultimately show ?thesis by (simp add: written_columns)
qed

lemma max_emit:
  assumes "GetMaxEmitAtTimeSinceGPSEpochForDevEUI T devEUI db = Inr m"
  shows "(\<forall>r \<in># rows db. qi_DevEUI r = devEUI \<longrightarrow>
            (case qi_EmitAtTimeSinceGPSEpoch r of None \<Rightarrow> True | Some u \<Rightarrow> u \<le> m)) \<and>
         (m = 0 \<or> (\<exists>r \<in># rows db. qi_DevEUI r = devEUI \<and> qi_EmitAtTimeSinceGPSEpoch r = Some m))"
proof -
  obtain rs where rs: "mset rs = rows db"
    "m = (case emit_times devEUI rs of [] \<Rightarrow> 0 | t # ts \<Rightarrow> fold max ts t)"
    using get_row[OF assms[unfolded GetMaxEmitAtTimeSinceGPSEpochForDevEUI_def]] by auto
  have m: "(\<forall>u \<in> set (emit_times devEUI rs). u \<le> m) \<and> (m = 0 \<or> m \<in> set (emit_times devEUI rs))"
  proof (cases "emit_times devEUI rs")
    case (Cons t ts)
    then have "m = Max (set (t # ts))" using rs(2) by (simp only: Max.set_eq_fold list.case)
    then show ?thesis using Cons Max_in[of "set (t # ts)"] by auto
  qed (simp add: rs(2))
  have "set (emit_times devEUI rs) = {u. \<exists>r \<in># rows db. qi_DevEUI r = devEUI \<and> qi_EmitAtTimeSinceGPSEpoch r = Some u}"
    unfolding rs(1)[symmetric] by (force simp: emit_times_def items_of_def List.map_filter_def image_iff)
  then show ?thesis using m by (auto split: option.splits)
qed

lemma head_of_queue:
  assumes "sqlx_Select T (\<lambda>rs. take 2 (sort_key qi_FCnt (items_of devEUI rs))) db = Inr xs"
  shows "(xs = [] \<longleftrightarrow> (\<forall>r \<in># rows db. qi_DevEUI r \<noteq> devEUI)) \<and>
     (\<forall>qi qis. xs = qi # qis \<longrightarrow> qi \<in># rows db \<and> qi_DevEUI qi = devEUI \<and>
        (\<forall>r \<in># rows db. qi_DevEUI r = devEUI \<longrightarrow> qi_FCnt qi \<le> qi_FCnt r) \<and>
        (length xs > 1 \<longleftrightarrow> size {#r \<in># rows db. qi_DevEUI r = devEUI#} > 1))"
proof -
  obtain rs where rs: "mset rs = rows db" "xs = take 2 (sort_key qi_FCnt (items_of devEUI rs))"
    using select_rows[OF assms] by auto
  let ?ys = "sort_key qi_FCnt (items_of devEUI rs)"
  have set_ys: "set ?ys = {r. r \<in># rows db \<and> qi_DevEUI r = devEUI}"
    unfolding rs(1)[symmetric] by (auto simp: items_of_def)
  have "length ?ys = size (mset (items_of devEUI rs))" by simp
  then have len: "length ?ys = size {#r \<in># rows db. qi_DevEUI r = devEUI#}"
    unfolding rs(1)[symmetric] items_of_def by simp
  show ?thesis
  proof (cases ?ys)
    case Nil
    then show ?thesis using set_ys rs(2) by auto
  next
    case (Cons y ys)
    have "sorted (map qi_FCnt (y # ys))" unfolding Cons[symmetric] by simp
    then have "\<forall>r \<in> set (y # ys). qi_FCnt y \<le> qi_FCnt r" by auto
    moreover have "set (y # ys) = {r. r \<in># rows db \<and> qi_DevEUI r = devEUI}"
      using set_ys unfolding Cons .
    moreover have "length (y # ys) = size {#r \<in># rows db. qi_DevEUI r = devEUI#}"
      using len unfolding Cons .
    ultimately show ?thesis unfolding rs(2) Cons by (cases ys) auto
  qed
qed

lemma next_item:
  shows "(\<forall>qi more. GetNextDeviceQueueItemForDevEUI T devEUI now db = Inr (qi, more) \<longrightarrow>
      qi \<in># rows db \<and> qi_DevEUI qi = devEUI \<and> \<not> in_flight now qi \<and>
      (\<forall>r \<in># rows db. qi_DevEUI r = devEUI \<longrightarrow> qi_FCnt qi \<le> qi_FCnt r) \<and>
      (more \<longleftrightarrow> size {#r \<in># rows db. qi_DevEUI r = devEUI#} > 1)) \<and>
    ((\<forall>r \<in># rows db. qi_DevEUI r \<noteq> devEUI) \<longrightarrow>
      \<not> (\<exists>x. GetNextDeviceQueueItemForDevEUI T devEUI now db = Inr x))"
proof (cases "sqlx_Select T (\<lambda>rs. take 2 (sort_key qi_FCnt (items_of devEUI rs))) db")
  case (Inl e)
  then show ?thesis by (simp add: GetNextDeviceQueueItemForDevEUI_def)
next
  case (Inr xs)
  note head = head_of_queue[OF Inr]
  show ?thesis
  proof (cases xs)
    case Nil
    then show ?thesis using Inr by (simp add: GetNextDeviceQueueItemForDevEUI_def)
  next
    case (Cons qi qis)
    then show ?thesis using Inr head by (auto simp: GetNextDeviceQueueItemForDevEUI_def)
  qed
qed

end


section \<open>A queue in memory\<close>

definition microseconds :: "instant \<Rightarrow> instant" where
  "microseconds t = (t + 500) div 1000 * 1000"

definition queue_rounded :: "device_queue_item \<Rightarrow> device_queue_item" where
  "queue_rounded r = r\<lparr>qi_CreatedAt := microseconds (qi_CreatedAt r), qi_UpdatedAt := microseconds (qi_UpdatedAt r),
     qi_TimeoutAfter := map_option microseconds (qi_TimeoutAfter r),
     qi_RetryAfter := map_option microseconds (qi_RetryAfter r)\<rparr>"

definition queue_memory :: "(device_queue_item memtable, device_queue_item) table" where
  "queue_memory = mem_table (\<lambda>t. t) (\<lambda>t _. t) queue_rounded (\<lambda>k r. r\<lparr>qi_ID := k\<rparr>) (\<lambda>r r'. qi_ID r = qi_ID r')"

lemma microseconds_close: "\<bar>t - microseconds t\<bar> \<le> 1000"
proof -
  have "t + 500 = microseconds t + (t + 500) mod 1000" by (simp add: microseconds_def)
  moreover have "0 \<le> (t + 500) mod 1000" "(t + 500) mod 1000 < 1000" by simp_all
  ultimately show ?thesis by linarith
qed

interpretation queue_memory: queue_db queue_memory "mem_rows (\<lambda>t. t)" queue_rounded "mem_keyed (\<lambda>k r. r\<lparr>qi_ID := k\<rparr>)"
  unfolding queue_memory_def
  by (intro queue_db.intro mem_table_laws queue_db_axioms.intro)
    (auto simp: mem_keyed_def queue_rounded_def qi_columns_def close_times_def microseconds_close option.rel_map
      intro: option.rel_refl)

definition sample_item :: device_queue_item where
  "sample_item =
     \<lparr>qi_ID = 1, qi_CreatedAt = 0, qi_UpdatedAt = 0, qi_DevAddr = 0x01020304, qi_DevEUI = 7,
      qi_FRMPayload = [1, 2, 3], qi_FCnt = 10, qi_FPort = 20, qi_Confirmed = True, qi_IsPending = False,
      qi_EmitAtTimeSinceGPSEpoch = None, qi_TimeoutAfter = None, qi_RetryAfter = None\<rparr>"

definition sample_queue :: "device_queue_item memtable" where
  "sample_queue =
     \<lparr>mt_up = True, mt_next = 3,
      mt_rows = [sample_item\<lparr>qi_ID := 2, qi_FCnt := 11, qi_EmitAtTimeSinceGPSEpoch := Some (1000 * second)\<rparr>, sample_item]\<rparr>"

definition class_b_session :: device_session where
  "class_b_session = zero_device_session\<lparr>ds_DevAddr := 0x01020304, ds_BeaconLocked := True, ds_PingSlotNb := 16\<rparr>"

section \<open>Properties\<close>

lemma class_b_scheduled:
  assumes "schedule_class_b T aes marshal qi dp ds now db = Some (Inr qi')"
    and "qi_TimeoutAfter qi = None" "qi_EmitAtTimeSinceGPSEpoch qi = None"
    and "dp_SupportsClassB dp" "ds_BeaconLocked ds"
  shows "\<exists>m t. GetMaxEmitAtTimeSinceGPSEpochForDevEUI T (qi_DevEUI qi) db = Inr m \<and>
    GetNextPingSlotAfter aes marshal
      (go_int64 ((if m = 0 then TimeSinceGPSEpoch now else m) + classBScheduleMargin))
      (ds_DevAddr ds) (ds_PingSlotNb ds) = Some (Inr t) \<and>
    qi' = qi\<lparr>qi_EmitAtTimeSinceGPSEpoch := Some t,
             qi_TimeoutAfter := Some (NewFromTimeSinceGPSEpoch t + go_int64 (second * dp_ClassBTimeout dp))\<rparr>"
  using assms by (auto simp: schedule_class_b_def Let_def split: sum.splits option.splits)

text \<open>
  C24: Class-B items are spaced. When an item without a timeout is enqueued for a Class-B device
  that has the beacon, the operation returns; and when it succeeds the row it adds is to be sent
  at a ping slot of the device, more than the margin of five seconds after every item of the
  device's queue (or after now, for an empty queue), so no two items of a queue share a slot.
\<close>

theorem class_b_items_are_spaced:
  assumes "queue_db T rows columns keyed"
    and "dp_SupportsClassB dp" "ds_BeaconLocked ds"
    and "qi_TimeoutAfter qi = None" "qi_EmitAtTimeSinceGPSEpoch qi = None"
    and "marshal (ds_DevAddr ds) = Inr bs" "0 < ds_PingSlotNb ds" "ds_PingSlotNb ds \<le> 4096"
    and "0 \<le> TimeSinceGPSEpoch now" "TimeSinceGPSEpoch now < 2 ^ 61"
    and "\<And>r u. r \<in># rows db \<Longrightarrow> qi_EmitAtTimeSinceGPSEpoch r = Some u \<Longrightarrow> 0 \<le> u \<and> u < 2 ^ 61"
  shows "\<exists>x db'. CreateDeviceQueueItem T aes marshal qi dp ds now created db = Some (x, db') \<and>
    (\<forall>qi'. x = Inr qi' \<longrightarrow> (\<exists>off t r.
        (\<forall>k \<ge> 0. GetPingOffset aes marshal (k * beaconPeriod) (ds_DevAddr ds) (ds_PingSlotNb ds) = Inr (off k)) \<and>
        rows db' = add_mset r (rows db) \<and> qi_columns r = qi_columns qi' \<and>
        qi_EmitAtTimeSinceGPSEpoch qi' = Some t \<and> ping_slot off (ds_PingSlotNb ds) t \<and>
        qi_TimeoutAfter qi' = Some (NewFromTimeSinceGPSEpoch t + go_int64 (second * dp_ClassBTimeout dp)) \<and>
        (\<forall>q u. q \<in># rows db \<longrightarrow> qi_DevEUI q = qi_DevEUI qi \<longrightarrow> qi_EmitAtTimeSinceGPSEpoch q = Some u \<longrightarrow>
           u + classBScheduleMargin < t) \<and>
        ((\<forall>q \<in># rows db. qi_DevEUI q = qi_DevEUI qi \<longrightarrow> qi_EmitAtTimeSinceGPSEpoch q = None) \<longrightarrow>
           TimeSinceGPSEpoch now + classBScheduleMargin < t)))"
proof (cases "Validate qi")
  case (Inl e)
  then show ?thesis by (simp add: CreateDeviceQueueItem_def)
next
  case (Inr u)
  note valid = this
  show ?thesis
  proof (cases "GetMaxEmitAtTimeSinceGPSEpochForDevEUI T (qi_DevEUI qi) db")
    case (Inl e)
    then show ?thesis using assms(2-5) valid by (simp add: CreateDeviceQueueItem_def schedule_class_b_def)
  next
    case (Inr m)
    define after where "after = (if m = 0 then TimeSinceGPSEpoch now else m) + classBScheduleMargin"
    note max = queue_db.max_emit[OF assms(1) Inr]
    have "0 \<le> m" "m < 2 ^ 61" using max assms(11) by auto
    then have after: "0 \<le> after" "after < 2 ^ 62" "go_int64 after = after"
      using assms(9,10) by (auto simp: after_def classBScheduleMargin_def second_def go_int64_id)
    obtain off t where slot:
      "\<forall>k \<ge> 0. GetPingOffset aes marshal (k * beaconPeriod) (ds_DevAddr ds) (ds_PingSlotNb ds) = Inr (off k)"
      "GetNextPingSlotAfter aes marshal after (ds_DevAddr ds) (ds_PingSlotNb ds) = Some (Inr t)"
      "ping_slot off (ds_PingSlotNb ds) t" "after < t"
      using next_ping_slot_after[of marshal "ds_DevAddr ds" bs "ds_PingSlotNb ds" after aes] assms(6-8) after(1,2) by auto
    define qi1 where "qi1 = qi\<lparr>qi_EmitAtTimeSinceGPSEpoch := Some t,
      qi_TimeoutAfter := Some (NewFromTimeSinceGPSEpoch t + go_int64 (second * dp_ClassBTimeout dp)),
      qi_CreatedAt := created, qi_UpdatedAt := created\<rparr>"
    obtain x db' where ins: "sqlx_Insert T qi1 db = (x, db')" by fastforce
    have create: "CreateDeviceQueueItem T aes marshal qi dp ds now created db =
        Some (case x of Inl e \<Rightarrow> Inl e | Inr r \<Rightarrow> Inr (qi1\<lparr>qi_ID := qi_ID r\<rparr>), db')"
      using assms(2-5) valid Inr slot(2) after(3) ins
      by (auto simp: CreateDeviceQueueItem_def schedule_class_b_def Let_def after_def qi1_def split: sum.splits)
    have later: "u + classBScheduleMargin < t"
      if "q \<in># rows db" "qi_DevEUI q = qi_DevEUI qi" "qi_EmitAtTimeSinceGPSEpoch q = Some u" for q u
    proof -
      have "u \<le> m" using max that by (fastforce split: option.splits)
      then show ?thesis using slot(4) assms(9) by (simp add: after_def split: if_splits)
    qed
    show ?thesis
    proof (cases x)
      case (Inl e)
      then show ?thesis using create by auto
    next
      case (Inr r)
      have "rows db' = add_mset r (rows db)" "qi_columns r = qi_columns qi1"
        using queue_db.inserted_item[OF assms(1) ins[unfolded Inr]] by auto
      moreover have "TimeSinceGPSEpoch now + classBScheduleMargin < t"
        if "\<forall>q \<in># rows db. qi_DevEUI q = qi_DevEUI qi \<longrightarrow> qi_EmitAtTimeSinceGPSEpoch q = None"
        using that max slot(4) by (fastforce simp: after_def)
      ultimately show ?thesis using create Inr slot(1,3) later
        by (auto simp: qi1_def)
    qed
  qed
qed

theorem class_b_items_are_spaced_witness:
  "\<exists>x db'. CreateDeviceQueueItem queue_memory (\<lambda>_ _ _. 0) (\<lambda>_. Inr [4, 3, 2, 1]) sample_item
      (zero_device_profile\<lparr>dp_SupportsClassB := True\<rparr>) class_b_session (date 2020 1 1 0 0 0) 0 sample_queue = Some (x, db') \<and>
    (case x of Inl _ \<Rightarrow> True
     | Inr qi' \<Rightarrow> case qi_EmitAtTimeSinceGPSEpoch qi' of None \<Rightarrow> False | Some t \<Rightarrow> 1005 * second < t)"
proof -
  have now: "0 \<le> TimeSinceGPSEpoch (date 2020 1 1 0 0 0)" "TimeSinceGPSEpoch (date 2020 1 1 0 0 0) < 2 ^ 61"
    by (simp_all add: TimeSinceGPSEpoch_def time_sub_def gps_table_defs go_int64_def)
  have rows: "mem_rows (\<lambda>t. t) sample_queue =
      {#sample_item\<lparr>qi_ID := 2, qi_FCnt := 11, qi_EmitAtTimeSinceGPSEpoch := Some (1000 * second)\<rparr>, sample_item#}"
    by (simp add: mem_rows_def sample_queue_def)
  have emits: "0 \<le> u \<and> u < 2 ^ 61"
    if "r \<in># mem_rows (\<lambda>t. t) sample_queue" "qi_EmitAtTimeSinceGPSEpoch r = Some u" for r u
    using that by (auto simp: rows sample_item_def second_def)
  show ?thesis
    using class_b_items_are_spaced[OF queue_memory.queue_db_axioms,
        of "zero_device_profile\<lparr>dp_SupportsClassB := True\<rparr>" class_b_session sample_item
           "\<lambda>_. Inr [4, 3, 2, 1]" "[4, 3, 2, 1]" "date 2020 1 1 0 0 0" sample_queue "\<lambda>_ _ _. 0" 0] now emits
    by (simp add: rows class_b_session_def zero_device_session_def sample_item_def classBScheduleMargin_def)
      (fastforce simp: second_def split: sum.splits option.splits)
qed

text \<open>
  The item to send next. What \<open>GetNextDeviceQueueItemForDevEUI\<close> returns is a row of the
  device with the least frame counter, it is not in flight, and the flag tells whether the device
  has more rows; the item is refused with \<open>ErrDoesNotExist\<close> for a device without rows.
\<close>

theorem next_item_is_least_and_not_in_flight:
  assumes "queue_db T rows columns keyed"
  shows "(\<forall>qi more. GetNextDeviceQueueItemForDevEUI T devEUI now db = Inr (qi, more) \<longrightarrow>
      qi \<in># rows db \<and> qi_DevEUI qi = devEUI \<and> \<not> in_flight now qi \<and>
      (\<forall>r \<in># rows db. qi_DevEUI r = devEUI \<longrightarrow> qi_FCnt qi \<le> qi_FCnt r) \<and>
      (more \<longleftrightarrow> size {#r \<in># rows db. qi_DevEUI r = devEUI#} > 1)) \<and>
    ((\<forall>r \<in># rows db. qi_DevEUI r \<noteq> devEUI) \<longrightarrow>
      \<not> (\<exists>x. GetNextDeviceQueueItemForDevEUI T devEUI now db = Inr x))"
  by (rule queue_db.next_item [OF assms])

theorem next_item_is_least_and_not_in_flight_witness:
  "GetNextDeviceQueueItemForDevEUI queue_memory 7 0 sample_queue = Inr (sample_item, True) \<and>
   \<not> in_flight 0 sample_item"
proof -
  have "GetNextDeviceQueueItemForDevEUI queue_memory 7 0 sample_queue = Inr (sample_item, True)"
    by (simp add: GetNextDeviceQueueItemForDevEUI_def sqlx_Select_def queue_memory_def mem_table_def
        sample_queue_def sample_item_def items_of_def in_flight_def)
  then show ?thesis
    using next_item_is_least_and_not_in_flight[OF queue_memory.queue_db_axioms, of 7 0 sample_queue] by blast
qed

text \<open>
  An item in flight blocks its queue. After the update that marks the least item of a device
  as pending with a timeout, no item of the device is handed out before the timeout (less the
  microsecond a timestamp may be rounded by).
\<close>

theorem pending_item_blocks_the_queue:
  assumes "queue_db T rows columns keyed"
    and "UpdateDeviceQueueItem T qi now db = (Inr u, db')"
    and "qi_IsPending qi" "qi_TimeoutAfter qi = Some t" "now' + 1000 < t"
    and "\<And>r. r \<in># rows db \<Longrightarrow> qi_DevEUI r = qi_DevEUI qi \<Longrightarrow> qi_ID r \<noteq> qi_ID qi \<Longrightarrow> qi_FCnt qi < qi_FCnt r"
  shows "\<not> (\<exists>x. GetNextDeviceQueueItemForDevEUI T (qi_DevEUI qi) now' db' = Inr x)"
proof
  let ?new = "\<lambda>r. qi\<lparr>qi_CreatedAt := qi_CreatedAt r, qi_UpdatedAt := now\<rparr>"
  assume "\<exists>x. GetNextDeviceQueueItemForDevEUI T (qi_DevEUI qi) now' db' = Inr x"
  then obtain q more where "GetNextDeviceQueueItemForDevEUI T (qi_DevEUI qi) now' db' = Inr (q, more)"
    by fastforce
  then have q: "q \<in># rows db'" "qi_DevEUI q = qi_DevEUI qi" "\<not> in_flight now' q"
    "\<And>r. r \<in># rows db' \<Longrightarrow> qi_DevEUI r = qi_DevEUI qi \<Longrightarrow> qi_FCnt q \<le> qi_FCnt r"
    using queue_db.next_item[OF assms(1)] by blast+
  have upd: "rows db' = image_mset (\<lambda>r. if qi_ID r = qi_ID qi then columns (?new r) else r) (rows db)"
    "\<exists>r \<in># rows db. qi_ID r = qi_ID qi"
    using sql_table.updated[OF queue_db.axioms(1)[OF assms(1)] assms(2)[unfolded UpdateDeviceQueueItem_def]] by auto
  have new: "qi_DevEUI (columns (?new r)) = qi_DevEUI qi" "qi_FCnt (columns (?new r)) = qi_FCnt qi"
    "qi_IsPending (columns (?new r))" "close_times (Some t) (qi_TimeoutAfter (columns (?new r)))" for r
    using queue_db.written_columns(1)[OF assms(1), of "?new r"] queue_db.written_timeout[OF assms(1), of "?new r"]
      assms(3,4) by (simp_all add: qi_columns_def)
  have flying: "in_flight now' (columns (?new r))" for r
    using new(3,4)[of r] assms(5)
    by (cases "qi_TimeoutAfter (columns (?new r))") (auto simp: in_flight_def close_times_def)
  obtain r0 where r0: "r0 \<in># rows db" "qi_ID r0 = qi_ID qi" using upd(2) by auto
  then have "columns (?new r0) \<in># rows db'" unfolding upd(1) by (auto intro!: image_eqI[of _ _ r0])
  then have least: "qi_FCnt q \<le> qi_FCnt qi" using q(4) new(1,2) by metis
  obtain r where r: "r \<in># rows db" "q = (if qi_ID r = qi_ID qi then columns (?new r) else r)"
    using q(1) upd(1) by auto
  show False
  proof (cases "qi_ID r = qi_ID qi")
    case True
    then show False using r(2) flying[of r] q(3) by simp
  next
    case False
    then show False using r q(2) least assms(6)[of r] by (simp add: leD)
  qed
qed

theorem pending_item_blocks_the_queue_witness:
  "\<exists>db'. UpdateDeviceQueueItem queue_memory
      (sample_item\<lparr>qi_IsPending := True, qi_TimeoutAfter := Some (20 * second)\<rparr>) 0 sample_queue = (Inr (), db') \<and>
    \<not> (\<exists>x. GetNextDeviceQueueItemForDevEUI queue_memory 7 (10 * second) db' = Inr x)"
proof -
  let ?qi = "sample_item\<lparr>qi_IsPending := True, qi_TimeoutAfter := Some (20 * second)\<rparr>"
  obtain r db' where u: "UpdateDeviceQueueItem queue_memory ?qi 0 sample_queue = (r, db')" by fastforce
  then have r: "r = Inr ()"
    by (simp add: UpdateDeviceQueueItem_def affected_def queue_memory_def mem_table_def sample_queue_def sample_item_def)
  have least: "qi_FCnt ?qi < qi_FCnt r"
    if "r \<in># mem_rows (\<lambda>t. t) sample_queue" "qi_ID r \<noteq> qi_ID ?qi" for r
    using that by (auto simp: mem_rows_def sample_queue_def sample_item_def)
  have "\<not> (\<exists>x. GetNextDeviceQueueItemForDevEUI queue_memory (qi_DevEUI ?qi) (10 * second) db' = Inr x)"
    by (rule pending_item_blocks_the_queue[OF queue_memory.queue_db_axioms u[unfolded r], of "20 * second"])
      (use least in \<open>simp_all add: second_def\<close>)
  then show ?thesis using u r by (simp add: sample_item_def)
qed

text \<open>
  Whom the scheduler serves. Every device the query returns is in Class-B or Class-C mode, is
  not being worked on by another instance, has an item of its queue that is due (any item in
  Class-C, one whose ping slot is at most two scheduler intervals ahead in Class-B), and has no
  item that is in flight or to be retried later; and when fewer devices than asked for are
  returned, every such device is among them.
\<close>

theorem scheduled_devices:
  assumes "queue_db T rows columns keyed" and "sql_table D drows dstored dkeyed"
    and "GetDevicesWithClassBOrClassCDeviceQueueItems D T schedulerInterval locked batch now now' db = Inr ds"
  shows "set ds \<subseteq> {d. d \<in># drows db \<and> \<not> locked (d_DevEUI d) \<and> d_Mode d \<noteq> DeviceModeA \<and>
      (\<exists>r \<in># rows db. queue_ready (TimeSinceGPSEpoch (now + go_int64 (schedulerInterval * 2))) d r) \<and>
      (\<forall>r \<in># rows db. \<not> queue_blocked now' d r)} \<and>
    length ds \<le> batch \<and>
    (length ds < batch \<longrightarrow> {d. d \<in># drows db \<and> \<not> locked (d_DevEUI d) \<and> d_Mode d \<noteq> DeviceModeA \<and>
      (\<exists>r \<in># rows db. queue_ready (TimeSinceGPSEpoch (now + go_int64 (schedulerInterval * 2))) d r) \<and>
      (\<forall>r \<in># rows db. \<not> queue_blocked now' d r)} \<subseteq> set ds)"
proof -
  define time where "time = TimeSinceGPSEpoch (now + go_int64 (schedulerInterval * 2))"
  define ok where "ok d \<longleftrightarrow> d_Mode d \<in> {DeviceModeB, DeviceModeC} \<and>
    (\<exists>r \<in># rows db. queue_ready time d r) \<and> \<not> (\<exists>r \<in># rows db. queue_blocked now' d r)" for d
  obtain dqs where scan: "tb_scan T db = Inr dqs"
    using assms(3) by (cases "tb_scan T db")
      (simp_all add: GetDevicesWithClassBOrClassCDeviceQueueItems_def Let_def)
  have dqs: "set_mset (rows db) = set dqs"
    using sql_table.scan[OF queue_db.axioms(1)[OF assms(1)] scan] by (metis set_mset_mset)
  then have oks: "ok = (\<lambda>d. d_Mode d \<in> {DeviceModeB, DeviceModeC} \<and>
      list_ex (queue_ready time d) dqs \<and> \<not> list_ex (queue_blocked now' d) dqs)"
    by (simp add: ok_def list_ex_iff fun_eq_iff)
  have "sqlx_Select D (\<lambda>ds. take batch (filter (\<lambda>d. \<not> locked (d_DevEUI d)) (sort_key d_DevEUI (filter ok ds)))) db = Inr ds"
    using assms(3) scan by (simp add: GetDevicesWithClassBOrClassCDeviceQueueItems_def Let_def time_def[symmetric] oks)
  then obtain rs where rs: "mset rs = drows db"
    "ds = take batch (filter (\<lambda>d. \<not> locked (d_DevEUI d)) (sort_key d_DevEUI (filter ok rs)))"
    using sql_table.select_rows[OF assms(2)] by blast
  define ys where "ys = filter (\<lambda>d. \<not> locked (d_DevEUI d)) (sort_key d_DevEUI (filter ok rs))"
  have mode: "d_Mode d \<in> {DeviceModeB, DeviceModeC} \<longleftrightarrow> d_Mode d \<noteq> DeviceModeA" for d :: device
    by (cases "d_Mode d") auto
  have "set ys = {d. d \<in># drows db \<and> \<not> locked (d_DevEUI d) \<and> ok d}"
    unfolding ys_def rs(1)[symmetric] by auto
  then have "set ys = {d. d \<in># drows db \<and> \<not> locked (d_DevEUI d) \<and> d_Mode d \<noteq> DeviceModeA \<and>
      (\<exists>r \<in># rows db. queue_ready time d r) \<and> (\<forall>r \<in># rows db. \<not> queue_blocked now' d r)}"
    unfolding ok_def mode by auto
  moreover have "ds = take batch ys" using rs(2) by (simp add: ys_def)
  then have "set ds \<subseteq> set ys" "length ds \<le> batch" "length ds < batch \<Longrightarrow> set ys \<subseteq> set ds"
    by (auto dest: in_set_takeD simp: min_def split: if_splits)
  ultimately show ?thesis unfolding time_def[symmetric] by auto
qed

definition scheduler_table :: "(device_queue_item memtable \<times> device memtable, device) table" where
  "scheduler_table = mem_table snd (\<lambda>t db. (fst db, t)) (\<lambda>r. r) (\<lambda>_ r. r) (\<lambda>r r'. d_DevEUI r = d_DevEUI r')"

definition scheduler_queue :: "(device_queue_item memtable \<times> device memtable, device_queue_item) table" where
  "scheduler_queue = mem_table fst (\<lambda>t db. (t, snd db)) queue_rounded (\<lambda>k r. r\<lparr>qi_ID := k\<rparr>) (\<lambda>r r'. qi_ID r = qi_ID r')"

interpretation scheduler_table: sql_table scheduler_table "mem_rows snd" "\<lambda>r. r" "mem_keyed (\<lambda>_ r. r)"
  unfolding scheduler_table_def by (rule mem_table_laws) simp

interpretation scheduler_queue: queue_db scheduler_queue "mem_rows fst" queue_rounded "mem_keyed (\<lambda>k r. r\<lparr>qi_ID := k\<rparr>)"
  unfolding scheduler_queue_def
  by (intro queue_db.intro mem_table_laws queue_db_axioms.intro)
    (auto simp: mem_keyed_def queue_rounded_def qi_columns_def close_times_def microseconds_close option.rel_map
      intro: option.rel_refl)

theorem scheduled_devices_witness:
  "GetDevicesWithClassBOrClassCDeviceQueueItems scheduler_table scheduler_queue second (\<lambda>_. False) 10 0 0
     (sample_queue, \<lparr>mt_up = True, mt_next = 0, mt_rows = [zero_device, zero_device\<lparr>d_DevEUI := 7, d_Mode := DeviceModeC\<rparr>]\<rparr>) =
     Inr [zero_device\<lparr>d_DevEUI := 7, d_Mode := DeviceModeC\<rparr>] \<and>
   \<not> (\<exists>r. r \<in># mem_rows fst (sample_queue, \<lparr>mt_up = True, mt_next = 0, mt_rows = [zero_device, zero_device\<lparr>d_DevEUI := 7, d_Mode := DeviceModeC\<rparr>]\<rparr>) \<and>
      queue_blocked 0 (zero_device\<lparr>d_DevEUI := 7, d_Mode := DeviceModeC\<rparr>) r)"
    (is "?query = Inr [?d] \<and> _")
proof -
  have "?query = Inr [?d]"
    by (simp add: GetDevicesWithClassBOrClassCDeviceQueueItems_def Let_def sqlx_Select_def scheduler_table_def
        scheduler_queue_def mem_table_def sample_queue_def sample_item_def queue_ready_def queue_blocked_def
        in_flight_def zero_device_def)
  then show ?thesis
    using scheduled_devices[OF scheduler_queue.queue_db_axioms scheduler_table.sql_table_axioms, of second "\<lambda>_. False" 10 0 0
        "(sample_queue, \<lparr>mt_up = True, mt_next = 0, mt_rows = [zero_device, ?d]\<rparr>)" "[?d]"]
    by simp
qed

end
