(* ===== verification/Devices.thy ===== *)
theory Devices
  imports Database Redis Profiles
begin

text \<open>
  The device, its activations and the profiles (\<open>internal/storage/device.go\<close>,
  \<open>device_profile.go\<close>, \<open>service_profile.go\<close>, \<open>routing_profile.go\<close>): one table each, and the
  read-through caches of the device- and service-profiles in Redis. \<open>now\<close> is what \<open>time.Now()\<close>
  returns, \<open>newUUID\<close> what \<open>uuid.NewV4()\<close> does.
\<close>

section \<open>Devices\<close>

definition CreateDevice :: "('db, device) table \<Rightarrow> device \<Rightarrow> instant \<Rightarrow> 'db \<Rightarrow> device res \<times> 'db" where
  "CreateDevice T d now db =
     (let d = d\<lparr>d_CreatedAt := now, d_UpdatedAt := now\<rparr> in
      case sqlx_Insert T d db of
        (Inl e, db) \<Rightarrow> (Inl e, db)
      | (Inr _, db) \<Rightarrow> (Inr d, db))"

definition GetDevice :: "('db, device) table \<Rightarrow> eui64 \<Rightarrow> 'db \<Rightarrow> device res" where
  "GetDevice T devEUI db = sqlx_Get T (filter (\<lambda>r. d_DevEUI r = devEUI)) db"

definition UpdateDevice :: "('db, device) table \<Rightarrow> instant \<Rightarrow> device \<Rightarrow> 'db \<Rightarrow> unit res \<times> 'db" where
  "UpdateDevice T now d db =
     affected (tb_update T (\<lambda>r. d_DevEUI r = d_DevEUI d)
                 (\<lambda>r. d\<lparr>d_CreatedAt := d_CreatedAt r, d_UpdatedAt := now\<rparr>) db) ''update error''"

definition DeleteDevice :: "('db, device) table \<Rightarrow> eui64 \<Rightarrow> 'db \<Rightarrow> unit res \<times> 'db" where
  "DeleteDevice T devEUI db = affected (tb_delete T (\<lambda>r. d_DevEUI r = devEUI) db) ''delete error''"

section \<open>Device activations\<close>

datatype join_type = JoinRequestType | RejoinRequestType0 | RejoinRequestType1 | RejoinRequestType2

record device_activation =
  da_ID :: int
  da_CreatedAt :: instant
  da_DevEUI :: eui64
  da_JoinEUI :: eui64
  da_DevAddr :: devaddr
  da_FNwkSIntKey :: aeskey
  da_SNwkSIntKey :: aeskey
  da_NwkSEncKey :: aeskey
  da_DevNonce :: u16
  da_JoinReqType :: join_type

type_synonym 'db activation_table = "('db, device_activation) table"

definition CreateDeviceActivation ::
  "'db activation_table \<Rightarrow> device_activation \<Rightarrow> instant \<Rightarrow> 'db \<Rightarrow> device_activation res \<times> 'db" where
  "CreateDeviceActivation T da now db =
     (let da = da\<lparr>da_CreatedAt := now\<rparr> in
      case sqlx_Insert T da db of
        (Inl e, db) \<Rightarrow> (Inl e, db)
      | (Inr r, db) \<Rightarrow> (Inr (da\<lparr>da_ID := da_ID r\<rparr>), db))"

definition DeleteDeviceActivationsForDevice :: "'db activation_table \<Rightarrow> eui64 \<Rightarrow> 'db \<Rightarrow> unit res \<times> 'db" where
  "DeleteDeviceActivationsForDevice T devEUI db =
     executed_any (tb_delete T (\<lambda>r. da_DevEUI r = devEUI) db) ''delete error''"

text \<open>\<open>where dev_eui = $1 order by id desc\<close>\<close>

definition activations_of :: "eui64 \<Rightarrow> device_activation list \<Rightarrow> device_activation list" where
  "activations_of devEUI rs = rev (sort_key da_ID (filter (\<lambda>r. da_DevEUI r = devEUI) rs))"

definition GetLastDeviceActivationForDevEUI ::
  "'db activation_table \<Rightarrow> eui64 \<Rightarrow> 'db \<Rightarrow> device_activation res" where
  "GetLastDeviceActivationForDevEUI T devEUI db = sqlx_Get T (\<lambda>rs. take 1 (activations_of devEUI rs)) db"

definition nonce_used :: "eui64 \<Rightarrow> eui64 \<Rightarrow> u16 \<Rightarrow> join_type \<Rightarrow> device_activation \<Rightarrow> bool" where
  "nonce_used joinEUI devEUI nonce joinType r \<longleftrightarrow>
     da_DevEUI r = devEUI \<and> da_JoinEUI r = joinEUI \<and> da_DevNonce r = nonce \<and> da_JoinReqType r = joinType"

definition ValidateDevNonce ::
  "'db activation_table \<Rightarrow> eui64 \<Rightarrow> eui64 \<Rightarrow> u16 \<Rightarrow> join_type \<Rightarrow> 'db \<Rightarrow> unit res" where
  "ValidateDevNonce T joinEUI devEUI nonce joinType db =
     (case sqlx_Get T (\<lambda>rs. [length (filter (nonce_used joinEUI devEUI nonce joinType) rs)]) db of
        Inl e \<Rightarrow> Inl e
      | Inr n \<Rightarrow> if n \<noteq> 0 then Inl ErrAlreadyExists else Inr ())"

text \<open>
  The delete statement removes the rows of a sub-select that skips the twenty latest rows of the
  device (\<open>offset 20\<close>); it is one statement, so the rows are those at its start.
\<close>

definition ClearDeviceNoncesForDevice :: "'db activation_table \<Rightarrow> eui64 \<Rightarrow> 'db \<Rightarrow> unit res \<times> 'db" where
  "ClearDeviceNoncesForDevice T devEUI db =
     (case tb_scan T db of
        Inl e \<Rightarrow> (Inl (handlePSQLError e ''device devnonce delete error''), db)
      | Inr rs \<Rightarrow>
          executed_any (tb_delete T (\<lambda>r. da_ID r \<in> set (map da_ID (drop 20 (activations_of devEUI rs)))) db)
            ''device devnonce delete error'')"

section \<open>Profiles\<close>

record routing_profile =
  rp_ID :: uuid
  rp_CreatedAt :: instant
  rp_UpdatedAt :: instant
  rp_ASID :: string
  rp_CACert :: string
  rp_TLSCert :: string
  rp_TLSKey :: string

text \<open>An identifier that is not set (\<open>uuid.Nil\<close>) is generated.\<close>

definition ensure_uuid :: "uuid res \<Rightarrow> uuid \<Rightarrow> uuid res" where
  "ensure_uuid newUUID i =
     (if i = 0 then (case newUUID of Inl e \<Rightarrow> Inl (Wrap e ''new uuid v4 error'') | Inr u \<Rightarrow> Inr u) else Inr i)"

definition CreateDeviceProfile ::
  "('db, device_profile) table \<Rightarrow> uuid res \<Rightarrow> device_profile \<Rightarrow> instant \<Rightarrow> 'db \<Rightarrow> device_profile res \<times> 'db" where
  "CreateDeviceProfile T newUUID dp now db =
     (case ensure_uuid newUUID (dp_ID dp) of
        Inl e \<Rightarrow> (Inl e, db)
      | Inr i \<Rightarrow>
          let dp = dp\<lparr>dp_ID := i, dp_CreatedAt := now, dp_UpdatedAt := now\<rparr> in
          (case sqlx_Insert T dp db of
             (Inl e, db) \<Rightarrow> (Inl e, db)
           | (Inr _, db) \<Rightarrow> (Inr dp, db)))"

definition GetDeviceProfile :: "('db, device_profile) table \<Rightarrow> uuid \<Rightarrow> 'db \<Rightarrow> device_profile res" where
  "GetDeviceProfile T i db = sqlx_Get T (filter (\<lambda>r. dp_ID r = i)) db"

definition UpdateDeviceProfile ::
  "('db, device_profile) table \<Rightarrow> device_profile \<Rightarrow> instant \<Rightarrow> 'db \<Rightarrow> unit res \<times> 'db" where
  "UpdateDeviceProfile T dp now db =
     affected (tb_update T (\<lambda>r. dp_ID r = dp_ID dp)
                 (\<lambda>r. dp\<lparr>dp_CreatedAt := dp_CreatedAt r, dp_UpdatedAt := now\<rparr>) db) ''update error''"

definition DeleteDeviceProfile :: "('db, device_profile) table \<Rightarrow> uuid \<Rightarrow> 'db \<Rightarrow> unit res \<times> 'db" where
  "DeleteDeviceProfile T i db = affected (tb_delete T (\<lambda>r. dp_ID r = i) db) ''delete error''"

definition CreateServiceProfile ::
  "('db, service_profile) table \<Rightarrow> uuid res \<Rightarrow> service_profile \<Rightarrow> instant \<Rightarrow> 'db \<Rightarrow> service_profile res \<times> 'db" where
  "CreateServiceProfile T newUUID sp now db =
     (case ensure_uuid newUUID (sp_ID sp) of
        Inl e \<Rightarrow> (Inl e, db)
      | Inr i \<Rightarrow>
          let sp = sp\<lparr>sp_ID := i, sp_CreatedAt := now, sp_UpdatedAt := now\<rparr> in
          (case sqlx_Insert T sp db of
             (Inl e, db) \<Rightarrow> (Inl e, db)
           | (Inr _, db) \<Rightarrow> (Inr sp, db)))"

definition GetServiceProfile :: "('db, service_profile) table \<Rightarrow> uuid \<Rightarrow> 'db \<Rightarrow> service_profile res" where
  "GetServiceProfile T i db = sqlx_Get T (filter (\<lambda>r. sp_ID r = i)) db"

definition UpdateServiceProfile ::
  "('db, service_profile) table \<Rightarrow> service_profile \<Rightarrow> instant \<Rightarrow> 'db \<Rightarrow> unit res \<times> 'db" where
  "UpdateServiceProfile T sp now db =
     affected (tb_update T (\<lambda>r. sp_ID r = sp_ID sp)
                 (\<lambda>r. sp\<lparr>sp_CreatedAt := sp_CreatedAt r, sp_UpdatedAt := now\<rparr>) db) ''update error''"

definition DeleteServiceProfile :: "('db, service_profile) table \<Rightarrow> uuid \<Rightarrow> 'db \<Rightarrow> unit res \<times> 'db" where
  "DeleteServiceProfile T i db = affected (tb_delete T (\<lambda>r. sp_ID r = i) db) ''delete error''"

definition CreateRoutingProfile ::
  "('db, routing_profile) table \<Rightarrow> uuid res \<Rightarrow> routing_profile \<Rightarrow> instant \<Rightarrow> 'db \<Rightarrow> routing_profile res \<times> 'db" where
  "CreateRoutingProfile T newUUID rp now db =
     (case ensure_uuid newUUID (rp_ID rp) of
        Inl e \<Rightarrow> (Inl e, db)
      | Inr i \<Rightarrow>
          let rp = rp\<lparr>rp_ID := i, rp_CreatedAt := now, rp_UpdatedAt := now\<rparr> in
          (case sqlx_Insert T rp db of
             (Inl e, db) \<Rightarrow> (Inl e, db)
           | (Inr _, db) \<Rightarrow> (Inr rp, db)))"

definition GetRoutingProfile :: "('db, routing_profile) table \<Rightarrow> uuid \<Rightarrow> 'db \<Rightarrow> routing_profile res" where
  "GetRoutingProfile T i db = sqlx_Get T (filter (\<lambda>r. rp_ID r = i)) db"

definition UpdateRoutingProfile ::
  "('db, routing_profile) table \<Rightarrow> routing_profile \<Rightarrow> instant \<Rightarrow> 'db \<Rightarrow> unit res \<times> 'db" where
  "UpdateRoutingProfile T rp now db =
     affected (tb_update T (\<lambda>r. rp_ID r = rp_ID rp)
                 (\<lambda>r. rp\<lparr>rp_CreatedAt := rp_CreatedAt r, rp_UpdatedAt := now\<rparr>) db) ''update error''"

definition DeleteRoutingProfile :: "('db, routing_profile) table \<Rightarrow> uuid \<Rightarrow> 'db \<Rightarrow> unit res \<times> 'db" where
  "DeleteRoutingProfile T i db = affected (tb_delete T (\<lambda>r. rp_ID r = i) db) ''delete error''"

definition GetAllRoutingProfiles :: "('db, routing_profile) table \<Rightarrow> 'db \<Rightarrow> routing_profile list res" where
  "GetAllRoutingProfiles T db = sqlx_Select T (\<lambda>rs. rs) db"

section \<open>Caches\<close>

text \<open>
  The three operations of a read-through cache, as the code repeats them for every kind of
  object (\<open>gob\<close> is the codec). \<open>cached\<close> is \<open>GetAndCache...\<close>: an error of the cache is only logged.
\<close>

definition cache_create ::
  "('s, 'v, 'm) redis \<Rightarrow> ('a, 'v) codec \<Rightarrow> duration \<Rightarrow> string \<Rightarrow> string \<Rightarrow> redis_key \<Rightarrow> 'a \<Rightarrow> 's \<Rightarrow> unit res \<times> 's" where
  "cache_create R gob ttl encode_error set_error key x s =
     (case enc gob x of
        Inl e \<Rightarrow> (Inl (Wrap e encode_error), s)
      | Inr v \<Rightarrow> (case rd_Set R key v ttl s of
          (Inl e, s) \<Rightarrow> (Inl (Wrap e set_error), s)
        | (Inr _, s) \<Rightarrow> (Inr (), s)))"

definition cache_get :: "('s, 'v, 'm) redis \<Rightarrow> ('a, 'v) codec \<Rightarrow> redis_key \<Rightarrow> 's \<Rightarrow> 'a res" where
  "cache_get R gob key s =
     (case rd_Get R key s of
        Inl e \<Rightarrow> Inl (if e = RedisNil then ErrDoesNotExist else Wrap e ''get error'')
      | Inr v \<Rightarrow> (case dec gob v of Inl e \<Rightarrow> Inl (Wrap e ''gob decode error'') | Inr x \<Rightarrow> Inr x))"

definition cache_flush :: "('s, 'v, 'm) redis \<Rightarrow> redis_key \<Rightarrow> 's \<Rightarrow> unit res \<times> 's" where
  "cache_flush R key s =
     (case rd_Del R key s of
        (Inl e, s) \<Rightarrow> (Inl (Wrap e ''delete error''), s)
      | (Inr _, s) \<Rightarrow> (Inr (), s))"

definition cached ::
  "('s \<Rightarrow> 'a res) \<Rightarrow> 'a res \<Rightarrow> ('a \<Rightarrow> 's \<Rightarrow> unit res \<times> 's) \<Rightarrow> string \<Rightarrow> 's \<Rightarrow> 'a res \<times> 's" where
  "cached get_cache get_row create_cache what s =
     (case get_cache s of
        Inr x \<Rightarrow> (Inr x, s)
      | Inl _ \<Rightarrow> (case get_row of
          Inl e \<Rightarrow> (Inl (Wrap e what), s)
        | Inr x \<Rightarrow> (Inr x, snd (create_cache x s))))"

definition CreateDeviceProfileCache ::
  "('s, 'v, 'm) redis \<Rightarrow> (device_profile, 'v) codec \<Rightarrow> duration \<Rightarrow> device_profile \<Rightarrow> 's \<Rightarrow> unit res \<times> 's" where
  "CreateDeviceProfileCache R gob deviceSessionTTL dp s =
     cache_create R gob deviceSessionTTL ''gob encode device-profile error'' ''set device-profile error''
       (deviceProfileKey (dp_ID dp)) dp s"

definition GetDeviceProfileCache ::
  "('s, 'v, 'm) redis \<Rightarrow> (device_profile, 'v) codec \<Rightarrow> uuid \<Rightarrow> 's \<Rightarrow> device_profile res" where
  "GetDeviceProfileCache R gob i s = cache_get R gob (deviceProfileKey i) s"

definition FlushDeviceProfileCache :: "('s, 'v, 'm) redis \<Rightarrow> uuid \<Rightarrow> 's \<Rightarrow> unit res \<times> 's" where
  "FlushDeviceProfileCache R i s = cache_flush R (deviceProfileKey i) s"

definition GetAndCacheDeviceProfile ::
  "('s, 'v, 'm) redis \<Rightarrow> (device_profile, 'v) codec \<Rightarrow> duration \<Rightarrow> ('db, device_profile) table \<Rightarrow> uuid \<Rightarrow>
   'db \<Rightarrow> 's \<Rightarrow> device_profile res \<times> 's" where
  "GetAndCacheDeviceProfile R gob deviceSessionTTL T i db s =
     cached (GetDeviceProfileCache R gob i) (GetDeviceProfile T i db)
       (CreateDeviceProfileCache R gob deviceSessionTTL) ''get device-profile error'' s"

definition CreateServiceProfileCache ::
  "('s, 'v, 'm) redis \<Rightarrow> (service_profile, 'v) codec \<Rightarrow> duration \<Rightarrow> service_profile \<Rightarrow> 's \<Rightarrow> unit res \<times> 's" where
  "CreateServiceProfileCache R gob deviceSessionTTL sp s =
     cache_create R gob deviceSessionTTL ''gob encode service-profile error'' ''set service-profile error''
       (serviceProfileKey (sp_ID sp)) sp s"

definition GetServiceProfileCache ::
  "('s, 'v, 'm) redis \<Rightarrow> (service_profile, 'v) codec \<Rightarrow> uuid \<Rightarrow> 's \<Rightarrow> service_profile res" where
  "GetServiceProfileCache R gob i s = cache_get R gob (serviceProfileKey i) s"

definition GetAndCacheServiceProfile ::
  "('s, 'v, 'm) redis \<Rightarrow> (service_profile, 'v) codec \<Rightarrow> duration \<Rightarrow> ('db, service_profile) table \<Rightarrow> uuid \<Rightarrow>
   'db \<Rightarrow> 's \<Rightarrow> service_profile res \<times> 's" where
  "GetAndCacheServiceProfile R gob deviceSessionTTL T i db s =
     cached (GetServiceProfileCache R gob i) (GetServiceProfile T i db)
       (CreateServiceProfileCache R gob deviceSessionTTL) ''get service-profile-error'' s"

section \<open>Activations and nonces\<close>

lemma drop_sorted_desc:
  assumes "sorted_wrt (\<lambda>x y. f y < (f x :: int)) xs"
  shows "x \<in> set (drop n xs) \<longleftrightarrow> x \<in> set xs \<and> n \<le> length (filter (\<lambda>y. f x < f y) xs)"
  using assms
proof (induction xs arbitrary: n)
  case (Cons a xs)
  have below: "f y < f a" if "y \<in> set xs" for y using Cons.prems that by simp
  then have "\<not> f a < f y" if "y \<in> set xs" for y using that by (meson not_less_iff_gr_or_eq)
  then have none: "filter (\<lambda>y. f a < f y) xs = []" by (simp add: filter_empty_conv)
  have out: "a \<notin> set xs" using below by blast
  show ?case
  proof (cases n)
    case 0
    then show ?thesis by simp
  next
    case (Suc m)
    have "x \<in> set (drop m xs) \<longleftrightarrow> x \<in> set xs \<and> m \<le> length (filter (\<lambda>y. f x < f y) xs)"
      using Cons by simp
    then show ?thesis using Suc none out below[of x] in_set_dropD[of x m xs]
      by (cases "x = a") auto
  qed
qed simp

lemma size_filter_key: "size {#x \<in># mset xs. f x = i#} = count (mset (map f xs)) i"
  by (induction xs) auto

lemma distinct_mapI:
  assumes "\<And>i. size {#x \<in># mset xs. f x = i#} \<le> 1"
  shows "distinct (map f xs)"
proof -
  have "count (mset (map f xs)) i = (if i \<in> set (map f xs) then 1 else 0)" for i
    using assms[of i] unfolding size_filter_key
    by (metis One_nat_def count_eq_zero_iff le_Suc_eq le_zero_eq set_mset_mset)
  then show ?thesis unfolding distinct_count_atmost_1 by blast
qed

lemma sorted_wrt_strict:
  assumes "sorted_wrt (\<lambda>x y. f y \<le> (f x :: int)) xs" and "distinct (map f xs)"
  shows "sorted_wrt (\<lambda>x y. f y < f x) xs"
  using assms
proof (induction xs)
  case (Cons a xs)
  have "f y < f a" if "y \<in> set xs" for y
  proof -
    have "f y \<le> f a" "f y \<noteq> f a" using Cons.prems that by (auto simp: image_iff)
    then show ?thesis by simp
  qed
  then show ?case using Cons by simp
qed simp

locale activation_db = sql_table T rows columns keyed
  for T :: "('db, device_activation) table" and rows columns keyed +
  assumes columns_same: "\<exists>t. columns r = r\<lparr>da_CreatedAt := t\<rparr>"
    and keyed_same: "keyed r r' \<Longrightarrow> \<exists>k. r' = r\<lparr>da_ID := k\<rparr>"
begin

lemma validate:
  "ValidateDevNonce T joinEUI devEUI nonce joinType db = Inr () \<Longrightarrow>
     \<not> (\<exists>r \<in># rows db. nonce_used joinEUI devEUI nonce joinType r)"
  "(\<exists>r \<in># rows db. nonce_used joinEUI devEUI nonce joinType r) \<Longrightarrow>
     \<exists>e. ValidateDevNonce T joinEUI devEUI nonce joinType db = Inl e"
proof -
  have *: "n = 0 \<longleftrightarrow> \<not> (\<exists>r \<in># rows db. nonce_used joinEUI devEUI nonce joinType r)"
    if "sqlx_Get T (\<lambda>rs. [length (filter (nonce_used joinEUI devEUI nonce joinType) rs)]) db = Inr n" (is ?g) for n
  proof -
    have g: ?g by (rule that)
    obtain rs where "mset rs = rows db" "n = length (filter (nonce_used joinEUI devEUI nonce joinType) rs)"
      using get_row[OF g] by auto
    then show ?thesis by (metis filter_empty_conv length_0_conv set_mset_mset)
  qed
  show "ValidateDevNonce T joinEUI devEUI nonce joinType db = Inr () \<Longrightarrow>
     \<not> (\<exists>r \<in># rows db. nonce_used joinEUI devEUI nonce joinType r)"
    using * by (auto simp: ValidateDevNonce_def split: sum.splits if_splits)
  show "(\<exists>r \<in># rows db. nonce_used joinEUI devEUI nonce joinType r) \<Longrightarrow>
     \<exists>e. ValidateDevNonce T joinEUI devEUI nonce joinType db = Inl e"
    using * by (auto simp: ValidateDevNonce_def split: sum.splits)
qed

lemma created:
  assumes "CreateDeviceActivation T da now db = (Inr da', db')"
  shows "\<exists>r. rows db' = add_mset r (rows db) \<and>
    nonce_used (da_JoinEUI da) (da_DevEUI da) (da_DevNonce da) (da_JoinReqType da) r"
proof -
  obtain x db1 where i: "sqlx_Insert T (da\<lparr>da_CreatedAt := now\<rparr>) db = (x, db1)" by fastforce
  then obtain r where x: "x = Inr r" "db1 = db'"
    using assms by (auto simp: CreateDeviceActivation_def split: sum.splits)
  have r: "keyed (columns (da\<lparr>da_CreatedAt := now\<rparr>)) r" "rows db' = add_mset r (rows db)"
    using inserted[OF i[unfolded x]] by auto
  obtain t where "columns (da\<lparr>da_CreatedAt := now\<rparr>) = da\<lparr>da_CreatedAt := now, da_CreatedAt := t\<rparr>"
    using columns_same by blast
  moreover obtain k where "r = (columns (da\<lparr>da_CreatedAt := now\<rparr>))\<lparr>da_ID := k\<rparr>"
    using keyed_same[OF r(1)] by blast
  ultimately show ?thesis using r(2) by (auto simp: nonce_used_def)
qed

lemma cleared:
  assumes "ClearDeviceNoncesForDevice T devEUI db = (Inr u, db')"
    and ids: "\<And>i. size {#r \<in># rows db. da_ID r = i#} \<le> 1"
  shows "rows db' = {#r \<in># rows db. da_DevEUI r \<noteq> devEUI \<or>
      size {#q \<in># rows db. da_DevEUI q = devEUI \<and> da_ID r < da_ID q#} < 20#}"
proof -
  obtain rs where sc: "tb_scan T db = Inr rs"
    using assms(1) by (cases "tb_scan T db") (auto simp: ClearDeviceNoncesForDevice_def)
  note rs = scan[OF sc]
  let ?ys = "activations_of devEUI rs"
  have del: "rows db' = {#r \<in># rows db. da_ID r \<notin> set (map da_ID (drop 20 ?ys))#}"
    using deleted_any assms(1) sc by (auto simp: ClearDeviceNoncesForDevice_def)
  have "distinct (map da_ID rs)" using ids by (intro distinct_mapI) (simp add: rs[symmetric])
  then have dist: "distinct (map da_ID ?ys)" "inj_on da_ID (set rs)"
    by (simp_all add: activations_of_def rev_map[symmetric] distinct_map inj_on_def)
  have "sorted (map da_ID (sort_key da_ID (filter (\<lambda>r. da_DevEUI r = devEUI) rs)))" by simp
  then have "sorted_wrt (\<lambda>x y. da_ID y \<le> da_ID x) ?ys"
    unfolding activations_of_def sorted_wrt_rev by (simp only: sorted_map)
  then have "sorted_wrt (\<lambda>x y. da_ID y < da_ID x) ?ys"
    using dist(1) by (rule sorted_wrt_strict)
  note late = drop_sorted_desc[OF this]
  have ys: "set ?ys = {r \<in> set rs. da_DevEUI r = devEUI}" by (auto simp: activations_of_def)
  have "mset ?ys = {#q \<in># rows db. da_DevEUI q = devEUI#}" by (simp add: activations_of_def rs[symmetric])
  then have num: "length (filter P ?ys) = size {#q \<in># rows db. da_DevEUI q = devEUI \<and> P q#}" for P
    by (metis (no_types, lifting) filter_filter_mset filter_mset_cong mset_filter size_mset)
  have "da_ID r \<in> set (map da_ID (drop 20 ?ys)) \<longleftrightarrow> r \<in> set (drop 20 ?ys)" if "r \<in> set rs" for r
    using dist(2) that ys in_set_dropD[of _ 20 ?ys] by (auto simp: inj_on_def)
  then have "da_ID r \<notin> set (map da_ID (drop 20 ?ys)) \<longleftrightarrow> da_DevEUI r \<noteq> devEUI \<or>
      size {#q \<in># rows db. da_DevEUI q = devEUI \<and> da_ID r < da_ID q#} < 20" if "r \<in> set rs" for r
    using that by (auto simp: late ys num)
  then show ?thesis unfolding del by (intro filter_mset_cong) (auto simp flip: rs)
qed

end

text \<open>
  A DevNonce is accepted once. When the activation of an accepted join-request is stored,
  the same nonce (for the same JoinEUI, DevEUI and kind of request) is refused, also after
  \<open>ClearDeviceNoncesForDevice\<close>, which keeps the twenty latest activations of the device and every
  activation of the other devices.
\<close>

theorem dev_nonce_is_used_once:
  assumes "activation_db T rows columns keyed"
    and "CreateDeviceActivation T da now db = (Inr da', db1)"
    and "\<And>i. size {#r \<in># rows db1. da_ID r = i#} \<le> 1"
    and "\<And>r. r \<in># rows db1 \<Longrightarrow> r \<notin># rows db \<Longrightarrow> \<forall>q \<in># rows db. da_ID q < da_ID r"
    and "ClearDeviceNoncesForDevice T devEUI db1 = (Inr u, db2)"
  shows "(\<exists>e. ValidateDevNonce T (da_JoinEUI da) (da_DevEUI da) (da_DevNonce da) (da_JoinReqType da) db1 = Inl e) \<and>
    (\<exists>e. ValidateDevNonce T (da_JoinEUI da) (da_DevEUI da) (da_DevNonce da) (da_JoinReqType da) db2 = Inl e) \<and>
    rows db2 = {#r \<in># rows db1. da_DevEUI r \<noteq> devEUI \<or>
      size {#q \<in># rows db1. da_DevEUI q = devEUI \<and> da_ID r < da_ID q#} < 20#}"
proof -
  obtain r where r: "rows db1 = add_mset r (rows db)"
    "nonce_used (da_JoinEUI da) (da_DevEUI da) (da_DevNonce da) (da_JoinReqType da) r"
    using activation_db.created[OF assms(1,2)] by auto
  have new: "r \<notin># rows db"
  proof
    assume "r \<in># rows db"
    then have "2 \<le> size {#q \<in># rows db1. da_ID q = da_ID r#}"
      unfolding r(1) by (auto dest!: multi_member_split)
    then show False using assms(3)[of "da_ID r"] by simp
  qed
  note cleared = activation_db.cleared[OF assms(1,5,3)]
  have "\<forall>q \<in># rows db. da_ID q < da_ID r" using assms(4)[of r] new r(1) by simp
  then have "{#q \<in># rows db1. da_DevEUI q = devEUI \<and> da_ID r < da_ID q#} = {#}"
    unfolding r(1) by (auto simp: filter_mset_eq_conv)
  then have "size {#q \<in># rows db1. da_DevEUI q = devEUI \<and> da_ID r < da_ID q#} < 20"
    by (simp only: size_empty)
  moreover have in1: "r \<in># rows db1" by (simp add: r(1))
  ultimately have in2: "r \<in># rows db2" unfolding cleared by simp
  show ?thesis
    by (intro conjI activation_db.validate(2)[OF assms(1)] cleared bexI[of _ r] r(2) in1 in2)
qed

definition activation_memory :: "(device_activation memtable, device_activation) table" where
  "activation_memory = one_table (\<lambda>k r. r\<lparr>da_ID := k\<rparr>) (\<lambda>r r'. da_ID r = da_ID r')"

lemma activation_same: "\<exists>t. r = r\<lparr>da_CreatedAt := t\<rparr>"
  by (rule exI[of _ "da_CreatedAt r"]) simp

interpretation activation_memory: activation_db activation_memory "mem_rows (\<lambda>t. t)" "\<lambda>r. r"
    "mem_keyed (\<lambda>k r. r\<lparr>da_ID := k\<rparr>)"
  unfolding activation_memory_def
  by (intro activation_db.intro one_table.sql_table_axioms activation_db_axioms.intro)
    (auto simp: mem_keyed_def activation_same)

definition sample_activation :: device_activation where
  "sample_activation =
     \<lparr>da_ID = 4, da_CreatedAt = 0, da_DevEUI = 7, da_JoinEUI = 8, da_DevAddr = 0x01020304, da_FNwkSIntKey = 1,
      da_SNwkSIntKey = 2, da_NwkSEncKey = 3, da_DevNonce = 258, da_JoinReqType = JoinRequestType\<rparr>"

definition sample_activations :: "device_activation memtable" where
  "sample_activations = \<lparr>mt_up = True, mt_next = 5, mt_rows = [sample_activation]\<rparr>"

theorem dev_nonce_is_used_once_witness:
  "\<exists>da' db1 db2.
    CreateDeviceActivation activation_memory (sample_activation\<lparr>da_DevNonce := 300\<rparr>) 0 sample_activations = (Inr da', db1) \<and>
    ClearDeviceNoncesForDevice activation_memory 7 db1 = (Inr (), db2) \<and>
    (\<exists>e. ValidateDevNonce activation_memory 8 7 300 JoinRequestType db2 = Inl e)"
proof -
  define da' where "da' = sample_activation\<lparr>da_ID := 5, da_DevNonce := 300\<rparr>"
  define db1 where "db1 = \<lparr>mt_up = True, mt_next = 6, mt_rows = [sample_activation, da']\<rparr>"
  have create: "CreateDeviceActivation activation_memory (sample_activation\<lparr>da_DevNonce := 300\<rparr>) 0 sample_activations = (Inr da', db1)"
    by (simp add: CreateDeviceActivation_def Let_def sqlx_Insert_def activation_memory_def one_table_def mem_table_def
        sample_activations_def sample_activation_def da'_def db1_def)
  obtain r db2 where clear: "ClearDeviceNoncesForDevice activation_memory 7 db1 = (r, db2)" by fastforce
  then have r: "r = Inr ()"
    by (simp add: ClearDeviceNoncesForDevice_def executed_any_def activation_memory_def one_table_def mem_table_def db1_def)
  have ids: "size {#r \<in># mem_rows (\<lambda>t. t) db1. da_ID r = i#} \<le> 1" for i
    by (simp add: mem_rows_def db1_def da'_def sample_activation_def)
  have late: "\<forall>q \<in># mem_rows (\<lambda>t. t) sample_activations. da_ID q < da_ID r"
    if "r \<in># mem_rows (\<lambda>t. t) db1" "r \<notin># mem_rows (\<lambda>t. t) sample_activations" for r
    using that by (auto simp: mem_rows_def db1_def da'_def sample_activation_def sample_activations_def)
  have "\<exists>e. ValidateDevNonce activation_memory 8 7 300 JoinRequestType db2 = Inl e"
    using dev_nonce_is_used_once[OF activation_memory.activation_db_axioms create ids late clear[unfolded r]]
    by (simp add: sample_activation_def)
  then show ?thesis using create clear r by blast
qed

section \<open>Cache coherence\<close>

text \<open>What the cache holds for a key decodes to a good object.\<close>

definition cache_ok :: "('a, 'v) codec \<Rightarrow> ('v, 'm) contents \<Rightarrow> redis_key \<Rightarrow> ('a \<Rightarrow> bool) \<Rightarrow> bool" where
  "cache_ok gob c key good \<longleftrightarrow> (\<forall>v. c_val c key = Some v \<longrightarrow> (\<exists>x. dec gob v = Inr x \<and> good x))"

context redis_server
begin

lemma cache_flushed:
  assumes "cache_flush R key s = (r, s')"
  shows "(r = Inr u \<longrightarrow> c_val (holds s') key = None) \<and>
    (\<forall>k. k \<noteq> key \<longrightarrow> c_val (holds s') k = c_val (holds s) k)"
proof -
  obtain rn s1 where d: "rd_Del R key s = (rn, s1)" by fastforce
  then have "s1 = s'" "r = Inr u \<Longrightarrow> \<not> is_error rn"
    using assms by (auto simp: cache_flush_def split: sum.splits)
  then show ?thesis using Del[OF d] by (auto simp: executed_def without_def)
qed

lemma cache_created:
  assumes "cache_create R gob ttl m m' key x s = (r, s')" "codec_ok gob" "0 < ttl"
  shows "(\<forall>k. k \<noteq> key \<longrightarrow> c_val (holds s') k = c_val (holds s) k) \<and>
    (cache_ok gob (holds s) key good \<and> good x \<longrightarrow> cache_ok gob (holds s') key good)"
proof (cases "enc gob x")
  case (Inl e)
  then show ?thesis using assms(1) by (simp add: cache_create_def)
next
  case (Inr v)
  obtain r1 s1 where st: "rd_Set R key v ttl s = (r1, s1)" by fastforce
  then have "s1 = s'" using assms(1) Inr by (auto simp: cache_create_def split: sum.splits)
  then show ?thesis
    using Set[OF st assms(3)] codec_okD[OF assms(2) Inr] by (auto simp: executed_def cache_ok_def)
qed

lemma cached_coherent:
  assumes "cached (cache_get R gob key) get_row (\<lambda>x. cache_create R gob ttl m m' (keyof x) x) what s = (r, s')"
    and "codec_ok gob" "0 < ttl"
    and "cache_ok gob (holds s) key good"
    and "\<And>x. get_row = Inr x \<Longrightarrow> good x" "\<And>x. get_row = Inr x \<Longrightarrow> keyof x = key"
  shows "(\<forall>x. r = Inr x \<longrightarrow> good x) \<and> cache_ok gob (holds s') key good \<and>
    (\<forall>k. k \<noteq> key \<longrightarrow> c_val (holds s') k = c_val (holds s) k)"
proof (cases "cache_get R gob key s")
  case (Inr x)
  then obtain v where "rd_Get R key s = Inr v" "dec gob v = Inr x"
    by (auto simp: cache_get_def split: sum.splits)
  then have "good x" using Get assms(4) by (fastforce simp: cache_ok_def)
  then show ?thesis using assms(1,4) Inr by (auto simp: cached_def)
next
  case (Inl e)
  show ?thesis
  proof (cases get_row)
    case (Inl e')
    then show ?thesis using assms(1,4) \<open>cache_get R gob key s = Inl e\<close> by (auto simp: cached_def)
  next
    case (Inr x)
    obtain r1 s1 where cr: "cache_create R gob ttl m m' (keyof x) x s = (r1, s1)" by fastforce
    have "r = Inr x" "s1 = s'" using assms(1) Inl Inr cr by (auto simp: cached_def)
    then show ?thesis
      using cache_created[OF cr assms(2,3)] assms(4) assms(5,6)[OF Inr] by auto
  qed
qed

end

text \<open>
  C25: profile caching. The API flushes the cached profile and then writes the row. When no reader
  runs between the two, every device-profile read afterwards through the cache is a row of the
  table with the identifier asked for, and the cache holds only such profiles from then on.
\<close>

theorem device_profile_cache_is_coherent:
  assumes "redis_server R holds" and "codec_ok gob" and "0 < ttl"
    and "sql_table T rows columns keyed" and "\<And>r. dp_ID (columns r) = dp_ID r"
    and "\<And>i. cache_ok gob (holds s) (deviceProfileKey i) (\<lambda>p. p \<in># rows db \<and> dp_ID p = i)"
    and "FlushDeviceProfileCache R (dp_ID dp) s = (Inr (), s1)"
    and "UpdateDeviceProfile T dp now db = (Inr (), db1)"
    and "GetAndCacheDeviceProfile R gob ttl T i db1 s1 = (x, s2)"
  shows "(\<forall>p. x = Inr p \<longrightarrow> p \<in># rows db1 \<and> dp_ID p = i) \<and>
    (\<forall>j. cache_ok gob (holds s2) (deviceProfileKey j) (\<lambda>p. p \<in># rows db1 \<and> dp_ID p = j))"
proof -
  have flush: "c_val (holds s1) (deviceProfileKey (dp_ID dp)) = None"
    "\<And>k. k \<noteq> deviceProfileKey (dp_ID dp) \<Longrightarrow> c_val (holds s1) k = c_val (holds s) k"
    using redis_server.cache_flushed[OF assms(1) assms(7)[unfolded FlushDeviceProfileCache_def]] by auto
  have rows1: "rows db1 = image_mset (\<lambda>r. if dp_ID r = dp_ID dp
      then columns (dp\<lparr>dp_CreatedAt := dp_CreatedAt r, dp_UpdatedAt := now\<rparr>) else r) (rows db)"
    using sql_table.updated[OF assms(4) assms(8)[unfolded UpdateDeviceProfile_def]] by auto
  have keep: "p \<in># rows db1" if "p \<in># rows db" "dp_ID p \<noteq> dp_ID dp" for p
    unfolding rows1 using that by (auto intro!: image_eqI[of _ _ p])
  have ok1: "cache_ok gob (holds s1) (deviceProfileKey j) (\<lambda>p. p \<in># rows db1 \<and> dp_ID p = j)" for j
  proof (cases "j = dp_ID dp")
    case True
    then show ?thesis using flush(1) by (simp add: cache_ok_def)
  next
    case False
    then show ?thesis using assms(6)[of j] keep flush(2)[of "deviceProfileKey j"]
      by (auto simp: cache_ok_def)
  qed
  have row: "p \<in># rows db1 \<and> dp_ID p = i"
    if g: "GetDeviceProfile T i db1 = Inr p" for p
  proof -
    obtain rs where rs: "mset rs = rows db1" "filter (\<lambda>r. dp_ID r = i) rs \<noteq> []" "p = hd (filter (\<lambda>r. dp_ID r = i) rs)"
      using sql_table.get_row[OF assms(4) g[unfolded GetDeviceProfile_def]] by auto
    then have "p \<in> set (filter (\<lambda>r. dp_ID r = i) rs)" using hd_in_set by blast
    then show ?thesis by (simp add: rs(1)[symmetric])
  qed
  have "cached (cache_get R gob (deviceProfileKey i)) (GetDeviceProfile T i db1)
      (\<lambda>p. cache_create R gob ttl ''gob encode device-profile error'' ''set device-profile error'' (deviceProfileKey (dp_ID p)) p)
      ''get device-profile error'' s1 = (x, s2)"
    using assms(9) by (simp add: GetAndCacheDeviceProfile_def GetDeviceProfileCache_def[abs_def] CreateDeviceProfileCache_def[abs_def])
  note coherent = redis_server.cached_coherent[OF assms(1) this assms(2,3) ok1[of i] row]
  have "cache_ok gob (holds s2) (deviceProfileKey j) (\<lambda>p. p \<in># rows db1 \<and> dp_ID p = j)" for j
    using coherent row ok1[of j] by (cases "j = i") (auto simp: cache_ok_def)
  then show ?thesis using coherent row by blast
qed

definition profile_memory :: "(device_profile memtable, device_profile) table" where
  "profile_memory = one_table (\<lambda>_ r. r) (\<lambda>r r'. dp_ID r = dp_ID r')"

interpretation profile_memory: sql_table profile_memory "mem_rows (\<lambda>t. t)" "\<lambda>r. r" "mem_keyed (\<lambda>_ r. r)"
  unfolding profile_memory_def by (rule one_table.sql_table_axioms)

definition sample_profiles :: "device_profile memtable" where
  "sample_profiles = \<lparr>mt_up = True, mt_next = 0, mt_rows = [zero_device_profile\<lparr>dp_ID := 3, dp_RXDelay1 := 1\<rparr>]\<rparr>"

definition updated_profiles :: "device_profile memtable" where
  "updated_profiles = \<lparr>mt_up = True, mt_next = 0, mt_rows = [zero_device_profile\<lparr>dp_ID := 3, dp_RXDelay1 := 5\<rparr>]\<rparr>"

lemma update_sample_profiles:
  "UpdateDeviceProfile profile_memory (zero_device_profile\<lparr>dp_ID := 3, dp_RXDelay1 := 5\<rparr>) 0 sample_profiles =
     (Inr (), updated_profiles)"
  by (simp add: UpdateDeviceProfile_def affected_def profile_memory_def one_table_def mem_table_def
      sample_profiles_def updated_profiles_def zero_device_profile_def)

theorem device_profile_cache_is_coherent_witness:
  "\<exists>s1 x s2. FlushDeviceProfileCache mem_redis 3 (mem_empty :: (device_profile, unit) mem) = (Inr (), s1) \<and>
     GetAndCacheDeviceProfile mem_redis plain_codec 1 profile_memory 3 updated_profiles s1 = (x, s2) \<and>
     x = Inr (zero_device_profile\<lparr>dp_ID := 3, dp_RXDelay1 := 5\<rparr>) \<and>
     cache_ok plain_codec (mem_holds s2) (deviceProfileKey 3) (\<lambda>p. p \<in># mem_rows (\<lambda>t. t) updated_profiles \<and> dp_ID p = 3)"
proof -
  let ?s = "mem_empty :: (device_profile, unit) mem"
  obtain r s1 where f: "FlushDeviceProfileCache mem_redis 3 ?s = (r, s1)" by fastforce
  then have r: "r = Inr ()"
    by (auto simp: FlushDeviceProfileCache_def cache_flush_def mem_redis_def mem_empty_def)
  then have s1: "rd_Get mem_redis (deviceProfileKey 3) s1 = Inl RedisNil"
    using f by (auto simp: FlushDeviceProfileCache_def cache_flush_def mem_redis_def mem_empty_def mem_val_def)
  obtain x s2 where g: "GetAndCacheDeviceProfile mem_redis plain_codec 1 profile_memory 3 updated_profiles s1 = (x, s2)"
    by fastforce
  have x: "x = Inr (zero_device_profile\<lparr>dp_ID := 3, dp_RXDelay1 := 5\<rparr>)"
    using g s1 by (auto simp: GetAndCacheDeviceProfile_def cached_def GetDeviceProfileCache_def cache_get_def
        GetDeviceProfile_def sqlx_Get_def profile_memory_def one_table_def mem_table_def updated_profiles_def)
  have empty: "cache_ok plain_codec (mem_holds ?s) (deviceProfileKey i) (\<lambda>p. p \<in># mem_rows (\<lambda>t. t) sample_profiles \<and> dp_ID p = i)" for i
    by (simp add: cache_ok_def mem_empty_def mem_val_def)
  let ?dp = "zero_device_profile\<lparr>dp_ID := 3, dp_RXDelay1 := 5\<rparr>"
  have f': "FlushDeviceProfileCache mem_redis (dp_ID ?dp) ?s = (Inr (), s1)" using f r by simp
  have "cache_ok plain_codec (mem_holds s2) (deviceProfileKey 3) (\<lambda>p. p \<in># mem_rows (\<lambda>t. t) updated_profiles \<and> dp_ID p = 3)"
    using device_profile_cache_is_coherent[OF mem_server.redis_server_axioms plain_codec_ok _
        profile_memory.sql_table_axioms refl empty f' update_sample_profiles g] by simp
  then show ?thesis using f r g x by blast
qed

text \<open>
  A reader between the flush and the update defeats it: it caches the row that is about to be
  replaced, and from then on the cache serves the old profile.
\<close>

theorem profile_cache_race:
  "\<exists>s1 old s2 s3.
     FlushDeviceProfileCache mem_redis 3 (mem_empty :: (device_profile, unit) mem) = (Inr (), s1) \<and>
     GetAndCacheDeviceProfile mem_redis plain_codec 1 profile_memory 3 sample_profiles s1 = (Inr old, s2) \<and>
     UpdateDeviceProfile profile_memory (zero_device_profile\<lparr>dp_ID := 3, dp_RXDelay1 := 5\<rparr>) 0 sample_profiles =
       (Inr (), updated_profiles) \<and>
     GetAndCacheDeviceProfile mem_redis plain_codec 1 profile_memory 3 updated_profiles s2 = (Inr old, s3) \<and>
     old \<notin># mem_rows (\<lambda>t. t) updated_profiles"
proof -
  let ?s = "mem_empty :: (device_profile, unit) mem"
  let ?old = "zero_device_profile\<lparr>dp_ID := 3, dp_RXDelay1 := 1\<rparr>"
  obtain r s1 where f: "FlushDeviceProfileCache mem_redis 3 ?s = (r, s1)" by fastforce
  then have r: "r = Inr ()" and up: "m_up s1" "m_now s1 = 0"
    and s1: "rd_Get mem_redis (deviceProfileKey 3) s1 = Inl RedisNil"
    by (auto simp: FlushDeviceProfileCache_def cache_flush_def mem_redis_def mem_empty_def mem_val_def)
  obtain x s2 where g: "GetAndCacheDeviceProfile mem_redis plain_codec 1 profile_memory 3 sample_profiles s1 = (x, s2)"
    by fastforce
  then have x: "x = Inr ?old" and s2: "rd_Get mem_redis (deviceProfileKey 3) s2 = Inr ?old"
    using s1 up by (auto simp: GetAndCacheDeviceProfile_def cached_def GetDeviceProfileCache_def cache_get_def
        CreateDeviceProfileCache_def cache_create_def plain_codec_def
        GetDeviceProfile_def sqlx_Get_def profile_memory_def one_table_def mem_table_def sample_profiles_def
        mem_redis_def mem_val_def)
  have "GetAndCacheDeviceProfile mem_redis plain_codec 1 profile_memory 3 updated_profiles s2 = (Inr ?old, s2)"
    by (simp add: GetAndCacheDeviceProfile_def cached_def GetDeviceProfileCache_def cache_get_def s2 plain_codec_def)
  moreover have "?old \<notin># mem_rows (\<lambda>t. t) updated_profiles"
    by (simp add: mem_rows_def updated_profiles_def zero_device_profile_def)
  ultimately show ?thesis using f r g x update_sample_profiles by blast
qed

end
