(* ===== verification/GatewayStore.thy ===== *)
theory GatewayStore
  imports Devices
begin

text \<open>
  The gateways (\<open>internal/storage/gateway.go\<close>) and gateway-profiles (\<open>gateway_profile.go\<close>): the
  tables \<open>gateway\<close>, \<open>gateway_board\<close>, \<open>gateway_profile\<close> and \<open>gateway_profile_extra_channel\<close>, and the
  gateway meta-data cached in Redis. A row of \<open>gateway\<close> has no boards (\<open>db:"-"\<close>): they are rows of
  their own, numbered by their position. Altitude and location are finite floats, as rationals.
\<close>

section \<open>Data\<close>

record gps_point =
  Latitude :: rat
  Longitude :: rat

record gateway_board =
  gb_FPGAID :: "eui64 option"
  gb_FineTimestampKey :: "aeskey option"

record gateway =
  gw_GatewayID :: eui64
  gw_RoutingProfileID :: uuid
  gw_ServiceProfileID :: "uuid option"
  gw_GatewayProfileID :: "uuid option"
  gw_CreatedAt :: instant
  gw_UpdatedAt :: instant
  gw_FirstSeenAt :: "instant option"
  gw_LastSeenAt :: "instant option"
  gw_Location :: gps_point
  gw_Altitude :: rat
  gw_TLSCert :: "byte list"
  gw_Boards :: "gateway_board list"

record gateway_meta =
  gm_GatewayID :: eui64
  gm_RoutingProfileID :: uuid
  gm_GatewayProfileID :: "uuid option"
  gm_ServiceProfileID :: "uuid option"
  gm_Location :: gps_point
  gm_Altitude :: rat
  gm_IsPrivate :: bool
  gm_Boards :: "gateway_board list"

record board_row =
  br_id :: nat
  br_gateway_id :: eui64
  br_board :: gateway_board

type_synonym 'db gateway_table = "('db, gateway) table"
type_synonym 'db board_table = "('db, board_row) table"

section \<open>Writing\<close>

text \<open>The loop over the boards stops at the first insert that fails.\<close>

fun insert_boards :: "'db board_table \<Rightarrow> eui64 \<Rightarrow> nat \<Rightarrow> gateway_board list \<Rightarrow> 'db \<Rightarrow> unit res \<times> 'db" where
  "insert_boards B gatewayID i [] db = (Inr (), db)"
| "insert_boards B gatewayID i (board # boards) db =
     (case sqlx_Insert B \<lparr>br_id = i, br_gateway_id = gatewayID, br_board = board\<rparr> db of
        (Inl e, db) \<Rightarrow> (Inl e, db)
      | (Inr _, db) \<Rightarrow> insert_boards B gatewayID (Suc i) boards db)"

definition CreateGateway ::
  "'db gateway_table \<Rightarrow> 'db board_table \<Rightarrow> gateway \<Rightarrow> instant \<Rightarrow> 'db \<Rightarrow> unit res \<times> 'db" where
  "CreateGateway G B gw now db =
     (case sqlx_Insert G (gw\<lparr>gw_CreatedAt := now, gw_UpdatedAt := now, gw_Boards := []\<rparr>) db of
        (Inl e, db) \<Rightarrow> (Inl e, db)
      | (Inr _, db) \<Rightarrow> insert_boards B (gw_GatewayID gw) 0 (gw_Boards gw) db)"

definition FlushGatewayMetaCache :: "('s, 'v, 'm) redis \<Rightarrow> eui64 \<Rightarrow> 's \<Rightarrow> unit res \<times> 's" where
  "FlushGatewayMetaCache R gatewayID s = cache_flush R (gatewayMetaKey gatewayID) s"

definition wrap_res :: "string \<Rightarrow> 'a res \<Rightarrow> 'a res" where
  "wrap_res what r = (case r of Inl e \<Rightarrow> Inl (Wrap e what) | Inr x \<Rightarrow> Inr x)"

definition UpdateGateway ::
  "('s, 'v, 'm) redis \<Rightarrow> 'db gateway_table \<Rightarrow> 'db board_table \<Rightarrow> gateway \<Rightarrow> instant \<Rightarrow> 'db \<Rightarrow> 's \<Rightarrow>
   unit res \<times> 'db \<times> 's" where
  "UpdateGateway R G B gw now db s =
     (case affected (tb_update G (\<lambda>r. gw_GatewayID r = gw_GatewayID gw)
             (\<lambda>r. gw\<lparr>gw_CreatedAt := gw_CreatedAt r, gw_UpdatedAt := now, gw_Boards := []\<rparr>) db) ''update error'' of
        (Inl e, db) \<Rightarrow> (Inl e, db, s)
      | (Inr _, db) \<Rightarrow>
         (case executed_any (tb_delete B (\<lambda>b. br_gateway_id b = gw_GatewayID gw) db) ''delete error'' of
            (Inl e, db) \<Rightarrow> (Inl e, db, s)
          | (Inr _, db) \<Rightarrow>
             (case insert_boards B (gw_GatewayID gw) 0 (gw_Boards gw) db of
                (Inl e, db) \<Rightarrow> (Inl e, db, s)
              | (Inr _, db) \<Rightarrow>
                 (case FlushGatewayMetaCache R (gw_GatewayID gw) s of
                    (r, s) \<Rightarrow> (wrap_res ''flush gateway cache error'' r, db, s)))))"

text \<open>Location and altitude are only written when all three values are non-zero.\<close>

definition UpdateGatewayState ::
  "('s, 'v, 'm) redis \<Rightarrow> 'db gateway_table \<Rightarrow> eui64 \<Rightarrow> rat \<Rightarrow> rat \<Rightarrow> rat \<Rightarrow> instant \<Rightarrow> 'db \<Rightarrow> 's \<Rightarrow>
   unit res \<times> 'db \<times> 's" where
  "UpdateGatewayState R G i lat lon alt now db s =
     (let given = lat \<noteq> 0 \<and> lon \<noteq> 0 \<and> alt \<noteq> 0 in
      case affected (tb_update G (\<lambda>r. gw_GatewayID r = i)
             (\<lambda>r. r\<lparr>gw_FirstSeenAt := Some (case gw_FirstSeenAt r of None \<Rightarrow> now | Some t \<Rightarrow> t),
                    gw_LastSeenAt := Some now,
                    gw_Location := (if given then \<lparr>Latitude = lat, Longitude = lon\<rparr> else gw_Location r),
                    gw_Altitude := (if given then alt else gw_Altitude r)\<rparr>) db) ''update error'' of
        (Inl e, db) \<Rightarrow> (Inl e, db, s)
      | (Inr _, db) \<Rightarrow> (case FlushGatewayMetaCache R i s of (r, s) \<Rightarrow> (r, db, s)))"

definition DeleteGateway ::
  "('s, 'v, 'm) redis \<Rightarrow> 'db gateway_table \<Rightarrow> eui64 \<Rightarrow> 'db \<Rightarrow> 's \<Rightarrow> unit res \<times> 'db \<times> 's" where
  "DeleteGateway R G i db s =
     (case affected (tb_delete G (\<lambda>r. gw_GatewayID r = i) db) ''delete error'' of
        (Inl e, db) \<Rightarrow> (Inl e, db, s)
      | (Inr _, db) \<Rightarrow>
         (case FlushGatewayMetaCache R i s of (r, s) \<Rightarrow> (wrap_res ''flush gateway cache error'' r, db, s)))"

section \<open>Reading\<close>

definition boards_of :: "eui64 \<Rightarrow> board_row list \<Rightarrow> gateway_board list" where
  "boards_of i bs = map br_board (sort_key br_id (filter (\<lambda>b. br_gateway_id b = i) bs))"

definition GetGateway :: "'db gateway_table \<Rightarrow> 'db board_table \<Rightarrow> eui64 \<Rightarrow> 'db \<Rightarrow> gateway res" where
  "GetGateway G B i db =
     (case sqlx_Get G (filter (\<lambda>r. gw_GatewayID r = i)) db of
        Inl e \<Rightarrow> Inl e
      | Inr gw \<Rightarrow> (case sqlx_Select B (boards_of i) db of
          Inl e \<Rightarrow> Inl e
        | Inr bs \<Rightarrow> Inr (gw\<lparr>gw_Boards := bs\<rparr>)))"

text \<open>The error for a missing gateway counts the entries of the still empty result.\<close>

definition GetGatewaysForIDs ::
  "'db gateway_table \<Rightarrow> eui64 list \<Rightarrow> 'db \<Rightarrow> (eui64, gateway) gomap res" where
  "GetGatewaysForIDs G ids db =
     (case sqlx_Select G (filter (\<lambda>r. gw_GatewayID r \<in> set ids)) db of
        Inl e \<Rightarrow> Inl e
      | Inr gws \<Rightarrow>
          if length gws \<noteq> length ids then Inl (Errorf ''expected gateways, got 0'')
          else Inr (Some (fold (\<lambda>gw. AList.update (gw_GatewayID gw) gw) gws [])))"

text \<open>\<open>left join service_profile\<close>: at most one profile has the identifier.\<close>

definition is_private :: "service_profile list \<Rightarrow> uuid option \<Rightarrow> bool" where
  "is_private sps i =
     (case i of None \<Rightarrow> False
      | Some i \<Rightarrow> (case filter (\<lambda>sp. sp_ID sp = i) sps of [] \<Rightarrow> False | sp # _ \<Rightarrow> sp_GwsPrivate sp))"

definition GetGatewayMeta ::
  "'db gateway_table \<Rightarrow> 'db board_table \<Rightarrow> ('db, service_profile) table \<Rightarrow> eui64 \<Rightarrow> 'db \<Rightarrow> gateway_meta res" where
  "GetGatewayMeta G B S i db =
     (case tb_scan S db of
        Inl e \<Rightarrow> Inl (handlePSQLError e ''select error'')
      | Inr sps \<Rightarrow>
         (case sqlx_Get G (filter (\<lambda>r. gw_GatewayID r = i)) db of
            Inl e \<Rightarrow> Inl e
          | Inr gw \<Rightarrow> (case sqlx_Select B (boards_of i) db of
              Inl e \<Rightarrow> Inl e
            | Inr bs \<Rightarrow> Inr \<lparr>gm_GatewayID = gw_GatewayID gw, gm_RoutingProfileID = gw_RoutingProfileID gw,
                 gm_GatewayProfileID = gw_GatewayProfileID gw, gm_ServiceProfileID = gw_ServiceProfileID gw,
                 gm_Location = gw_Location gw, gm_Altitude = gw_Altitude gw,
                 gm_IsPrivate = is_private sps (gw_ServiceProfileID gw), gm_Boards = bs\<rparr>)))"

section \<open>The meta-data cache\<close>

definition CreateGatewayMetaCache ::
  "('s, 'v, 'm) redis \<Rightarrow> (gateway_meta, 'v) codec \<Rightarrow> duration \<Rightarrow> gateway_meta \<Rightarrow> 's \<Rightarrow> unit res \<times> 's" where
  "CreateGatewayMetaCache R gob deviceSessionTTL gw s =
     cache_create R gob deviceSessionTTL ''gob encode gateway meta error'' ''set gateway meta error''
       (gatewayMetaKey (gm_GatewayID gw)) gw s"

definition GetGatewayMetaCache ::
  "('s, 'v, 'm) redis \<Rightarrow> (gateway_meta, 'v) codec \<Rightarrow> eui64 \<Rightarrow> 's \<Rightarrow> gateway_meta res" where
  "GetGatewayMetaCache R gob i s = cache_get R gob (gatewayMetaKey i) s"

definition GetAndCacheGatewayMeta ::
  "('s, 'v, 'm) redis \<Rightarrow> (gateway_meta, 'v) codec \<Rightarrow> duration \<Rightarrow> 'db gateway_table \<Rightarrow> 'db board_table \<Rightarrow>
   ('db, service_profile) table \<Rightarrow> eui64 \<Rightarrow> 'db \<Rightarrow> 's \<Rightarrow> gateway_meta res \<times> 's" where
  "GetAndCacheGatewayMeta R gob deviceSessionTTL G B S i db s =
     cached (GetGatewayMetaCache R gob i) (GetGatewayMeta G B S i db)
       (CreateGatewayMetaCache R gob deviceSessionTTL) ''get gateway error'' s"

fun flush_gateways :: "('s, 'v, 'm) redis \<Rightarrow> eui64 list \<Rightarrow> 's \<Rightarrow> unit res \<times> 's" where
  "flush_gateways R [] s = (Inr (), s)"
| "flush_gateways R (i # ids) s =
     (case FlushGatewayMetaCache R i s of
        (Inl e, s) \<Rightarrow> (Inl (Wrap e ''flush gateway meta cache error''), s)
      | (Inr _, s) \<Rightarrow> flush_gateways R ids s)"

definition FlushGatewayMetaCacheForServiceProfile ::
  "('s, 'v, 'm) redis \<Rightarrow> 'db gateway_table \<Rightarrow> uuid \<Rightarrow> 'db \<Rightarrow> 's \<Rightarrow> unit res \<times> 's" where
  "FlushGatewayMetaCacheForServiceProfile R G serviceProfileID db s =
     (case sqlx_Select G (\<lambda>gs. map gw_GatewayID (filter (\<lambda>g. gw_ServiceProfileID g = Some serviceProfileID) gs)) db of
        Inl e \<Rightarrow> (Inl e, s)
      | Inr gwIDs \<Rightarrow> flush_gateways R gwIDs s)"

definition FlushServiceProfileCache ::
  "('s, 'v, 'm) redis \<Rightarrow> 'db gateway_table \<Rightarrow> uuid \<Rightarrow> 'db \<Rightarrow> 's \<Rightarrow> unit res \<times> 's" where
  "FlushServiceProfileCache R G i db s =
     (case cache_flush R (serviceProfileKey i) s of
        (Inl e, s) \<Rightarrow> (Inl e, s)
      | (Inr _, s) \<Rightarrow>
         (case FlushGatewayMetaCacheForServiceProfile R G i db s of
            (r, s) \<Rightarrow> (wrap_res ''flush gateway meta cache for service-profile id error'' r, s)))"

section \<open>Gateway-profiles\<close>

record extra_channel =
  ec_Modulation :: string
  ec_Frequency :: int
  ec_Bandwidth :: int
  ec_Bitrate :: int
  ec_SpreadingFactors :: "int list"

record gateway_profile =
  gp_ID :: uuid
  gp_CreatedAt :: instant
  gp_UpdatedAt :: instant
  gp_Channels :: "int list"
  gp_StatsInterval :: duration
  gp_ExtraChannels :: "extra_channel list"

record extra_channel_row =
  er_id :: int
  er_gateway_profile_id :: uuid
  er_channel :: extra_channel

type_synonym 'db extra_table = "('db, extra_channel_row) table"

definition GetVersion :: "gateway_profile \<Rightarrow> uuid \<times> int" where
  "GetVersion p = (gp_ID p, gp_UpdatedAt p div 1000000000)"

fun insert_extra_channels :: "'db extra_table \<Rightarrow> uuid \<Rightarrow> extra_channel list \<Rightarrow> 'db \<Rightarrow> unit res \<times> 'db" where
  "insert_extra_channels E i [] db = (Inr (), db)"
| "insert_extra_channels E i (ec # ecs) db =
     (case sqlx_Insert E \<lparr>er_id = 0, er_gateway_profile_id = i, er_channel = ec\<rparr> db of
        (Inl e, db) \<Rightarrow> (Inl e, db)
      | (Inr _, db) \<Rightarrow> insert_extra_channels E i ecs db)"

definition CreateGatewayProfile ::
  "('db, gateway_profile) table \<Rightarrow> 'db extra_table \<Rightarrow> uuid res \<Rightarrow> gateway_profile \<Rightarrow> instant \<Rightarrow> 'db \<Rightarrow>
   gateway_profile res \<times> 'db" where
  "CreateGatewayProfile T E newUUID c now db =
     (case ensure_uuid newUUID (gp_ID c) of
        Inl e \<Rightarrow> (Inl e, db)
      | Inr i \<Rightarrow>
          let c = c\<lparr>gp_ID := i, gp_CreatedAt := now, gp_UpdatedAt := now\<rparr> in
          (case sqlx_Insert T (c\<lparr>gp_ExtraChannels := []\<rparr>) db of
             (Inl e, db) \<Rightarrow> (Inl e, db)
           | (Inr _, db) \<Rightarrow> (case insert_extra_channels E i (gp_ExtraChannels c) db of
               (Inl e, db) \<Rightarrow> (Inl e, db)
             | (Inr _, db) \<Rightarrow> (Inr c, db))))"

definition GetGatewayProfile ::
  "('db, gateway_profile) table \<Rightarrow> 'db extra_table \<Rightarrow> uuid \<Rightarrow> 'db \<Rightarrow> gateway_profile res" where
  "GetGatewayProfile T E i db =
     (case sqlx_Get T (filter (\<lambda>r. gp_ID r = i)) db of
        Inl e \<Rightarrow> Inl e
      | Inr c \<Rightarrow> (case sqlx_Select E (\<lambda>es. map er_channel (sort_key er_id (filter (\<lambda>r. er_gateway_profile_id r = i) es))) db of
          Inl e \<Rightarrow> Inl e
        | Inr ecs \<Rightarrow> Inr (c\<lparr>gp_ExtraChannels := ecs\<rparr>)))"

definition UpdateGatewayProfile ::
  "('db, gateway_profile) table \<Rightarrow> 'db extra_table \<Rightarrow> gateway_profile \<Rightarrow> instant \<Rightarrow> 'db \<Rightarrow> unit res \<times> 'db" where
  "UpdateGatewayProfile T E c now db =
     (case affected (tb_update T (\<lambda>r. gp_ID r = gp_ID c)
             (\<lambda>r. r\<lparr>gp_UpdatedAt := now, gp_Channels := gp_Channels c, gp_StatsInterval := gp_StatsInterval c\<rparr>) db)
           ''update error'' of
        (Inl e, db) \<Rightarrow> (Inl e, db)
      | (Inr _, db) \<Rightarrow>
         (case executed_any (tb_delete E (\<lambda>r. er_gateway_profile_id r = gp_ID c) db) ''delete error'' of
            (Inl e, db) \<Rightarrow> (Inl e, db)
          | (Inr _, db) \<Rightarrow> insert_extra_channels E (gp_ID c) (gp_ExtraChannels c) db))"

definition DeleteGatewayProfile :: "('db, gateway_profile) table \<Rightarrow> uuid \<Rightarrow> 'db \<Rightarrow> unit res \<times> 'db" where
  "DeleteGatewayProfile T i db = affected (tb_delete T (\<lambda>r. gp_ID r = i) db) ''delete error''"

end
