(* ===== verification/MinGateway.thy ===== *)
theory MinGateway
  imports SessionPB "HOL-Library.Multiset"
begin

text \<open>
  The set of gateways through which a multicast reaches a group of devices
  (\<open>internal/downlink/multicast/min_gw_set.go\<close>): a graph of gateways and devices, a minimum
  spanning forest of it, and the gateways with an edge to a device.

  The graph library is not part of the repository. \<open>kruskal\<close> is a parameter: given the weighted
  edges of a graph, the edges of a minimum spanning forest, each in either orientation. The locale
  \<open>spanning\<close> says that they are edges of the graph and connect what the graph connects;
  \<open>simple_kruskal\<close>, which merges components edge by edge in the order of the weights, does. Where
  the code ranges over a map, \<open>order\<close> is the permutation of the keys the run-time picks.
\<close>

section \<open>The graph\<close>

text \<open>The weight of a device edge is computed from the graph when it is asked for.\<close>

datatype edge_weight = Fixed rat | PerGateway eui64

record edge =
  e_From :: eui64
  e_To :: eui64
  e_Weight :: edge_weight

type_synonym graph = "edge list"
type_synonym spanning_forest = "(eui64 \<times> eui64 \<times> rat) list \<Rightarrow> (eui64 \<times> eui64) list"

definition same_ends :: "edge \<Rightarrow> edge \<Rightarrow> bool" where
  "same_ends e f \<longleftrightarrow> {e_From e, e_To e} = {e_From f, e_To f}"

text \<open>An undirected graph without loops: setting an edge replaces the one between its ends.\<close>

definition SetWeightedEdge :: "edge \<Rightarrow> graph \<Rightarrow> graph res" where
  "SetWeightedEdge e g =
     (if e_From e = e_To e then Inl (Panic ''simple: adding self edge'')
      else Inr (filter (\<lambda>f. \<not> same_ends e f) g @ [e]))"

definition neighbours :: "graph \<Rightarrow> eui64 \<Rightarrow> eui64 list" where
  "neighbours g n = remdups (map e_To (filter (\<lambda>e. e_From e = n) g) @ map e_From (filter (\<lambda>e. e_To e = n) g))"

definition Weight :: "graph \<Rightarrow> edge_weight \<Rightarrow> rat" where
  "Weight g w =
     (case w of
        Fixed x \<Rightarrow> x
      | PerGateway gw \<Rightarrow>
          (let n = length (neighbours g gw) in if n \<noteq> 0 then 1 / of_nat n else 1))"

definition weighted :: "graph \<Rightarrow> (eui64 \<times> eui64 \<times> rat) list" where
  "weighted g = map (\<lambda>e. (e_From e, e_To e, Weight g (e_Weight e))) g"

section \<open>The gateways\<close>

definition getGatewaySet :: "(eui64 list \<Rightarrow> eui64 list) \<Rightarrow> gw_rx_info_set list \<Rightarrow> eui64 list" where
  "getGatewaySet order rxInfoSets =
     order (remdups (concat (map (\<lambda>rxInfoSet. map gri_GatewayID (gris_Items rxInfoSet)) rxInfoSets)))"

fun connect_gateways :: "eui64 \<Rightarrow> eui64 list \<Rightarrow> graph \<Rightarrow> graph res" where
  "connect_gateways first [] g = Inr g"
| "connect_gateways first (gatewayID # ids) g =
     (case SetWeightedEdge \<lparr>e_From = first, e_To = gatewayID, e_Weight = Fixed (- 999)\<rparr> g of
        Inl e \<Rightarrow> Inl e
      | Inr g \<Rightarrow> connect_gateways first ids g)"

definition required_snr :: "int \<Rightarrow> rat option" where
  "required_snr sf =
     map_of [(6, - 5), (7, - 75 / 10), (8, - 10), (9, - 125 / 10), (10, - 15), (11, - 175 / 10), (12, - 20)] sf"

text \<open>An invalid data-rate is only logged; its spreading-factor is zero then.\<close>

definition reqSNR :: "band \<Rightarrow> rat \<Rightarrow> gw_rx_info_set \<Rightarrow> rat" where
  "reqSNR b installationMargin rxInfo =
     (let sf = (case GetDataRate b (gris_DR rxInfo) of Inl _ \<Rightarrow> 0 | Inr dr \<Rightarrow> SpreadFactor dr) in
      case required_snr sf of None \<Rightarrow> 0 | Some snr \<Rightarrow> snr + installationMargin)"

definition usable_items :: "band \<Rightarrow> rat \<Rightarrow> gw_rx_info_set \<Rightarrow> gw_rx_info list" where
  "usable_items b installationMargin rxInfo =
     (let req = reqSNR b installationMargin rxInfo;
          hasReqSNR = list_ex (\<lambda>item. gri_LoRaSNR item \<ge> req) (gris_Items rxInfo)
      in filter (\<lambda>item. \<not> (gri_LoRaSNR item < req \<and> hasReqSNR)) (gris_Items rxInfo))"

fun connect_device :: "eui64 \<Rightarrow> gw_rx_info list \<Rightarrow> graph \<Rightarrow> graph res" where
  "connect_device devEUI [] g = Inr g"
| "connect_device devEUI (item # items) g =
     (case SetWeightedEdge \<lparr>e_From = devEUI, e_To = gri_GatewayID item, e_Weight = PerGateway (gri_GatewayID item)\<rparr> g of
        Inl e \<Rightarrow> Inl e
      | Inr g \<Rightarrow> connect_device devEUI items g)"

fun addDeviceEdges :: "band \<Rightarrow> rat \<Rightarrow> gw_rx_info_set list \<Rightarrow> graph \<Rightarrow> graph res" where
  "addDeviceEdges b installationMargin [] g = Inr g"
| "addDeviceEdges b installationMargin (rxInfo # rxInfos) g =
     (case connect_device (gris_DevEUI rxInfo) (usable_items b installationMargin rxInfo) g of
        Inl e \<Rightarrow> Inl e
      | Inr g \<Rightarrow> addDeviceEdges b installationMargin rxInfos g)"

text \<open>The gateways at the ends of the edges that do not run between two gateways.\<close>

definition gateway_ends :: "eui64 list \<Rightarrow> (eui64 \<times> eui64) list \<Rightarrow> eui64 list" where
  "gateway_ends gwSet es =
     remdups (concat (map (\<lambda>(f, t).
       if f \<in> set gwSet \<and> t \<in> set gwSet then []
       else (if f \<in> set gwSet then [f] else []) @ (if t \<in> set gwSet then [t] else [])) es))"

definition GetMinimumGatewaySet ::
  "spanning_forest \<Rightarrow> (eui64 list \<Rightarrow> eui64 list) \<Rightarrow> band \<Rightarrow> rat \<Rightarrow> gw_rx_info_set list \<Rightarrow> eui64 list res" where
  "GetMinimumGatewaySet kruskal order b installationMargin rxInfoSets =
     (let gwSet = getGatewaySet order rxInfoSets in
      case (case gwSet of [] \<Rightarrow> Inr [] | first # ids \<Rightarrow> connect_gateways first ids []) of
        Inl e \<Rightarrow> Inl e
      | Inr g \<Rightarrow> (case addDeviceEdges b installationMargin rxInfoSets g of
          Inl e \<Rightarrow> Inl e
        | Inr g \<Rightarrow> Inr (order (gateway_ends gwSet (kruskal (weighted g))))))"

section \<open>Spanning forests\<close>

definition linked :: "(eui64 \<times> eui64) set \<Rightarrow> (eui64 \<times> eui64) set" where
  "linked E = (E \<union> E\<inverse>)\<^sup>*"

lemma linked_mono: "E \<subseteq> F \<Longrightarrow> linked E \<subseteq> linked F"
  unfolding linked_def by (rule rtrancl_mono) blast

lemma linked_edge: "(u, v) \<in> E \<Longrightarrow> (u, v) \<in> linked E \<and> (v, u) \<in> linked E"
  unfolding linked_def by blast

lemma linked_sym: "(u, v) \<in> linked E \<Longrightarrow> (v, u) \<in> linked E"
  unfolding linked_def by (metis converse_Un converse_converse converseI rtrancl_converse sup_commute)

lemma linked_trans: "(u, v) \<in> linked E \<Longrightarrow> (v, w) \<in> linked E \<Longrightarrow> (u, w) \<in> linked E"
  unfolding linked_def by (rule rtrancl_trans)

definition ends :: "(eui64 \<times> eui64 \<times> rat) list \<Rightarrow> (eui64 \<times> eui64) set" where
  "ends ws = (\<lambda>(u, v, _). (u, v)) ` set ws"

locale spanning =
  fixes kruskal :: spanning_forest
  assumes edges: "(u, v) \<in> set (kruskal ws) \<Longrightarrow> (u, v) \<in> ends ws \<or> (v, u) \<in> ends ws"
    and connects: "(u, v) \<in> ends ws \<Longrightarrow> (u, v) \<in> linked (set (kruskal ws))"
begin

text \<open>A node with an edge in the graph keeps one in the forest.\<close>

lemma keeps_an_edge:
  assumes "(u, v) \<in> ends ws \<or> (v, u) \<in> ends ws" and "u \<noteq> v"
  shows "\<exists>x. ((u, x) \<in> set (kruskal ws) \<or> (x, u) \<in> set (kruskal ws)) \<and>
             ((u, x) \<in> ends ws \<or> (x, u) \<in> ends ws)"
proof -
  have "(u, v) \<in> linked (set (kruskal ws))" using assms(1) connects linked_sym by blast
  then obtain x where "(u, x) \<in> set (kruskal ws) \<union> (set (kruskal ws))\<inverse>"
    using assms(2) unfolding linked_def by (meson converse_rtranclE)
  then show ?thesis using edges by blast
qed

end

text \<open>\<open>lab\<close> names the component of every node.\<close>

fun merge_components :: "(eui64 \<Rightarrow> eui64) \<Rightarrow> (eui64 \<times> eui64 \<times> rat) list \<Rightarrow> (eui64 \<times> eui64) list" where
  "merge_components lab [] = []"
| "merge_components lab ((u, v, w) # ws) =
     (if lab u = lab v then merge_components lab ws
      else (u, v) # merge_components (\<lambda>x. if lab x = lab u then lab v else lab x) ws)"

definition simple_kruskal :: spanning_forest where
  "simple_kruskal ws = merge_components (\<lambda>x. x) (sort_key (\<lambda>(_, _, w). w) ws)"

lemma merge_components_edges: "set (merge_components lab ws) \<subseteq> ends ws"
  by (induction lab ws rule: merge_components.induct) (auto simp: ends_def)

lemma merge_components_connects:
  assumes "\<forall>x y. lab x = lab y \<longrightarrow> (x, y) \<in> linked E"
  shows "ends ws \<subseteq> linked (E \<union> set (merge_components lab ws))"
  using assms
proof (induction lab ws arbitrary: E rule: merge_components.induct)
  case (1 lab)
  then show ?case by (simp add: ends_def)
next
  case (2 lab u v w ws)
  show ?case
  proof (cases "lab u = lab v")
    case True
    then have "(u, v) \<in> linked E" using 2(3) by blast
    moreover have "linked E \<subseteq> linked (E \<union> set (merge_components lab ws))" by (rule linked_mono) blast
    ultimately show ?thesis using 2(1)[OF True 2(3)] True by (auto simp: ends_def)
  next
    case False
    let ?lab = "\<lambda>x. if lab x = lab u then lab v else lab x"
    let ?E = "insert (u, v) E"
    have old: "(x, y) \<in> linked ?E" if "lab x = lab y" for x y
      using 2(3) that linked_mono[of E ?E] by blast
    have uv: "(u, v) \<in> linked ?E" by (rule linked_edge[THEN conjunct1]) simp
    have "(x, y) \<in> linked ?E" if xy: "?lab x = ?lab y" for x y
    proof -
      have x: "(x, v) \<in> linked ?E" if "lab x = lab u" for x
        using old[OF that] uv by (rule linked_trans)
      consider "lab x = lab y" | "lab x = lab u" "lab y = lab v" | "lab x = lab v" "lab y = lab u"
        using xy by (auto split: if_splits)
      then show ?thesis
      proof cases
        case 1
        then show ?thesis by (rule old)
      next
        case 2
        then have "(v, y) \<in> linked ?E" using old[of v y] by simp
        then show ?thesis using x[OF 2(1)] linked_trans by blast
      next
        case 3
        then have "(x, v) \<in> linked ?E" using old[of x v] by simp
        then show ?thesis using linked_sym[OF x[OF 3(2)]] linked_trans by blast
      qed
    qed
    then have "ends ws \<subseteq> linked (?E \<union> set (merge_components ?lab ws))"
      using 2(2)[OF False] by blast
    moreover have "?E \<union> set (merge_components ?lab ws) = E \<union> set (merge_components lab ((u, v, w) # ws))"
      using False by auto
    ultimately have "ends ws \<subseteq> linked (E \<union> set (merge_components lab ((u, v, w) # ws)))" by simp
    moreover have "(u, v) \<in> linked (E \<union> set (merge_components lab ((u, v, w) # ws)))"
      using False by (intro linked_edge[THEN conjunct1]) simp
    ultimately show ?thesis by (auto simp: ends_def)
  qed
qed

interpretation simple_kruskal: spanning simple_kruskal
proof
  fix u v ws
  have sorted: "ends (sort_key (\<lambda>(_, _, w). w) ws) = ends ws" by (simp add: ends_def)
  show "(u, v) \<in> set (simple_kruskal ws) \<Longrightarrow> (u, v) \<in> ends ws \<or> (v, u) \<in> ends ws"
    using merge_components_edges[of "\<lambda>x. x" "sort_key (\<lambda>(_, _, w). w) ws"] sorted
    by (auto simp: simple_kruskal_def)
  show "(u, v) \<in> ends ws \<Longrightarrow> (u, v) \<in> linked (set (simple_kruskal ws))"
    using merge_components_connects[of "\<lambda>x. x" "{}" "sort_key (\<lambda>(_, _, w). w) ws"] sorted
    by (auto simp: simple_kruskal_def linked_def)
qed

section \<open>Coverage\<close>

definition adj :: "graph \<Rightarrow> eui64 \<Rightarrow> eui64 \<Rightarrow> bool" where
  "adj g u v \<longleftrightarrow> (\<exists>e \<in> set g. {e_From e, e_To e} = {u, v})"

lemma adj_ends: "adj g u v \<longleftrightarrow> (u, v) \<in> ends (weighted g) \<or> (v, u) \<in> ends (weighted g)"
  by (auto simp: adj_def ends_def weighted_def doubleton_eq_iff image_iff)

lemma SetWeightedEdge_adj:
  assumes "e_From e \<noteq> e_To e"
  shows "\<exists>g'. SetWeightedEdge e g = Inr g' \<and> (\<forall>u v. adj g' u v \<longleftrightarrow> adj g u v \<or> {u, v} = {e_From e, e_To e})"
  using assms by (auto simp: SetWeightedEdge_def adj_def same_ends_def)

lemma connect_gateways_adj:
  assumes "first \<notin> set ids"
  shows "\<exists>g'. connect_gateways first ids g = Inr g' \<and>
    (\<forall>u v. adj g' u v \<longleftrightarrow> adj g u v \<or> (\<exists>i \<in> set ids. {u, v} = {first, i}))"
  using assms
proof (induction first ids g rule: connect_gateways.induct)
  case (2 first i ids g)
  let ?e = "\<lparr>e_From = first, e_To = i, e_Weight = Fixed (- 999)\<rparr>"
  have "e_From ?e \<noteq> e_To ?e" using 2(2) by auto
  then obtain g1 where g1: "SetWeightedEdge ?e g = Inr g1"
    "\<forall>u v. adj g1 u v \<longleftrightarrow> adj g u v \<or> {u, v} = {first, i}"
    using SetWeightedEdge_adj[of ?e g] by auto
  then show ?case using 2(1)[OF g1(1)] 2(2) by auto
qed simp

lemma connect_device_adj:
  assumes "\<forall>item \<in> set items. gri_GatewayID item \<noteq> d"
  shows "\<exists>g'. connect_device d items g = Inr g' \<and>
    (\<forall>u v. adj g' u v \<longleftrightarrow> adj g u v \<or> (\<exists>item \<in> set items. {u, v} = {d, gri_GatewayID item}))"
  using assms
proof (induction d items g rule: connect_device.induct)
  case (2 d item items g)
  let ?e = "\<lparr>e_From = d, e_To = gri_GatewayID item, e_Weight = PerGateway (gri_GatewayID item)\<rparr>"
  have "e_From ?e \<noteq> e_To ?e" using 2(2) by auto
  then obtain g1 where g1: "SetWeightedEdge ?e g = Inr g1"
    "\<forall>u v. adj g1 u v \<longleftrightarrow> adj g u v \<or> {u, v} = {d, gri_GatewayID item}"
    using SetWeightedEdge_adj[of ?e g] by auto
  then show ?case using 2(1)[OF g1(1)] 2(2) by auto
qed simp

lemma usable_items_subset: "set (usable_items b m rx) \<subseteq> set (gris_Items rx)"
  by (auto simp: usable_items_def Let_def)

lemma usable_items_nonempty: "gris_Items rx \<noteq> [] \<Longrightarrow> usable_items b m rx \<noteq> []"
  by (cases "list_ex (\<lambda>item. gri_LoRaSNR item \<ge> reqSNR b m rx) (gris_Items rx)")
    (auto simp: usable_items_def Let_def filter_empty_conv list_ex_iff not_less)

lemma usable_items_snr:
  assumes "item \<in> set (usable_items b m rx)" and "i \<in> set (gris_Items rx)" and "reqSNR b m rx \<le> gri_LoRaSNR i"
  shows "reqSNR b m rx \<le> gri_LoRaSNR item"
  using assms by (auto simp: usable_items_def Let_def list_ex_iff)

lemma addDeviceEdges_adj:
  assumes "\<forall>rx \<in> set rxs. \<forall>item \<in> set (gris_Items rx). gri_GatewayID item \<noteq> gris_DevEUI rx"
  shows "\<exists>g'. addDeviceEdges b m rxs g = Inr g' \<and>
    (\<forall>u v. adj g' u v \<longleftrightarrow> adj g u v \<or>
       (\<exists>rx \<in> set rxs. \<exists>item \<in> set (usable_items b m rx). {u, v} = {gris_DevEUI rx, gri_GatewayID item}))"
  using assms
proof (induction b m rxs g rule: addDeviceEdges.induct)
  case (2 b m rx rxs g)
  have "\<forall>item \<in> set (usable_items b m rx). gri_GatewayID item \<noteq> gris_DevEUI rx"
    using 2(2) usable_items_subset[of b m rx] by auto
  then obtain g1 where g1: "connect_device (gris_DevEUI rx) (usable_items b m rx) g = Inr g1"
    "\<forall>u v. adj g1 u v \<longleftrightarrow> adj g u v \<or> (\<exists>item \<in> set (usable_items b m rx). {u, v} = {gris_DevEUI rx, gri_GatewayID item})"
    using connect_device_adj[of "usable_items b m rx" "gris_DevEUI rx" g] by auto
  then show ?case using 2(1)[OF g1(1)] 2(2) by auto
qed simp

lemma gateway_endsI:
  assumes "(d, x) \<in> set es \<or> (x, d) \<in> set es" "d \<notin> set S" "x \<in> set S"
  shows "x \<in> set (gateway_ends S es)"
  using assms(1)
proof
  assume "(d, x) \<in> set es"
  then show ?thesis using assms(2,3) by (auto simp: gateway_ends_def intro!: bexI[of _ "(d, x)"])
next
  assume "(x, d) \<in> set es"
  then show ?thesis using assms(2,3) by (auto simp: gateway_ends_def intro!: bexI[of _ "(x, d)"])
qed

lemma connect_gateway_list:
  assumes "distinct gwSet"
  shows "\<exists>g. (case gwSet of [] \<Rightarrow> Inr [] | first # ids \<Rightarrow> connect_gateways first ids []) = Inr g \<and>
    (\<forall>u v. adj g u v \<longrightarrow> u \<in> set gwSet \<and> v \<in> set gwSet)"
proof (cases gwSet)
  case (Cons first ids)
  then show ?thesis using connect_gateways_adj[of first ids "[]"] assms
    by (auto simp: adj_def doubleton_eq_iff)
qed (simp add: adj_def)

text \<open>
  C40: a multicast reaches its devices. For any order of the gateways and any algorithm that
  answers a spanning forest, the set of gateways is computed, consists of gateways the devices
  were heard by, and has for every device that was heard at all one that heard it - with the
  required signal-to-noise ratio, if any gateway did.
\<close>

theorem multicast_gateways_cover_devices:
  assumes "spanning kruskal" and "\<And>xs. mset (order xs) = mset xs"
    and "distinct (map gris_DevEUI rxs)"
    and "\<forall>rx \<in> set rxs. \<forall>rx' \<in> set rxs. \<forall>item \<in> set (gris_Items rx'). gri_GatewayID item \<noteq> gris_DevEUI rx"
  shows "\<exists>gws. GetMinimumGatewaySet kruskal order b m rxs = Inr gws \<and>
    (\<forall>gw \<in> set gws. \<exists>rx \<in> set rxs. \<exists>item \<in> set (gris_Items rx). gri_GatewayID item = gw) \<and>
    (\<forall>rx \<in> set rxs. gris_Items rx \<noteq> [] \<longrightarrow> (\<exists>item \<in> set (gris_Items rx). gri_GatewayID item \<in> set gws \<and>
       ((\<exists>i \<in> set (gris_Items rx). reqSNR b m rx \<le> gri_LoRaSNR i) \<longrightarrow> reqSNR b m rx \<le> gri_LoRaSNR item)))"
proof -
  define gwSet where "gwSet = getGatewaySet order rxs"
  have order: "set (order xs) = set xs" for xs using assms(2) by (metis set_mset_mset)
  have "distinct gwSet"
    unfolding gwSet_def getGatewaySet_def using assms(2) by (metis distinct_remdups mset_eq_imp_distinct_iff)
  then obtain g0 where g0: "(case gwSet of [] \<Rightarrow> Inr [] | first # ids \<Rightarrow> connect_gateways first ids []) = Inr g0"
    "\<And>u v. adj g0 u v \<Longrightarrow> u \<in> set gwSet \<and> v \<in> set gwSet"
    using connect_gateway_list[of gwSet] by blast
  obtain g where g: "addDeviceEdges b m rxs g0 = Inr g"
    "\<And>u v. adj g u v \<longleftrightarrow> adj g0 u v \<or>
       (\<exists>rx \<in> set rxs. \<exists>item \<in> set (usable_items b m rx). {u, v} = {gris_DevEUI rx, gri_GatewayID item})"
    using addDeviceEdges_adj[of rxs b m g0] assms(4) by blast
  define gws where "gws = order (gateway_ends gwSet (kruskal (weighted g)))"
  have gws: "GetMinimumGatewaySet kruskal order b m rxs = Inr gws"
    using g0(1) g(1) by (simp add: GetMinimumGatewaySet_def Let_def gwSet_def[symmetric] gws_def)
  have gwSet: "set gwSet = {gw. \<exists>rx \<in> set rxs. \<exists>item \<in> set (gris_Items rx). gri_GatewayID item = gw}"
    unfolding gwSet_def getGatewaySet_def order by auto
  have "set gws \<subseteq> set gwSet"
    unfolding gws_def order by (auto simp: gateway_ends_def split: if_splits)
  moreover have "\<exists>item \<in> set (usable_items b m rx). gri_GatewayID item \<in> set gws"
    if rx: "rx \<in> set rxs" "gris_Items rx \<noteq> []" for rx
  proof -
    let ?d = "gris_DevEUI rx"
    have d: "?d \<notin> set gwSet" using gwSet assms(4) rx(1) by auto
    obtain item where item: "item \<in> set (usable_items b m rx)"
      using hd_in_set[OF usable_items_nonempty[OF rx(2), of b m]] by blast
    then have "adj g ?d (gri_GatewayID item)" using g(2) rx(1) by blast
    moreover have "?d \<noteq> gri_GatewayID item" using item usable_items_subset rx(1) assms(4) by force
    ultimately obtain x where x: "(?d, x) \<in> set (kruskal (weighted g)) \<or> (x, ?d) \<in> set (kruskal (weighted g))" "adj g ?d x"
      using spanning.keeps_an_edge[OF assms(1)] unfolding adj_ends by blast
    then obtain rx' item' where i: "rx' \<in> set rxs" "item' \<in> set (usable_items b m rx')"
      "{?d, x} = {gris_DevEUI rx', gri_GatewayID item'}"
      using g(2) g0(2) d by blast
    have gw': "gri_GatewayID item' \<in> set gwSet" using i(1,2) usable_items_subset gwSet by blast
    then have "?d = gris_DevEUI rx'" "x = gri_GatewayID item'"
      using i(3) d by (auto simp: doubleton_eq_iff)
    then have "rx' = rx" using assms(3) i(1) rx(1) by (auto simp: distinct_map inj_on_def)
    have "x \<in> set gws"
      unfolding gws_def order using x(1) d gw' \<open>x = gri_GatewayID item'\<close> gateway_endsI by blast
    then show ?thesis using i(2) \<open>rx' = rx\<close> \<open>x = gri_GatewayID item'\<close> by blast
  qed
  then have "\<exists>item \<in> set (gris_Items rx). gri_GatewayID item \<in> set gws \<and>
      ((\<exists>i \<in> set (gris_Items rx). reqSNR b m rx \<le> gri_LoRaSNR i) \<longrightarrow> reqSNR b m rx \<le> gri_LoRaSNR item)"
    if "rx \<in> set rxs" "gris_Items rx \<noteq> []" for rx
    using that usable_items_subset usable_items_snr by (meson subsetD)
  ultimately show ?thesis using gws gwSet by auto
qed

definition sample_heard :: "gw_rx_info_set list" where
  "sample_heard =
     (let item = (\<lambda>gw snr. \<lparr>gri_GatewayID = gw, gri_RSSI = 0, gri_LoRaSNR = snr, gri_Antenna = 0, gri_Board = 0, gri_Context = []\<rparr>)
      in [\<lparr>gris_DevEUI = 1, gris_DR = 0, gris_Items = [item 21 (- 21), item 22 (- 20)]\<rparr>,
          \<lparr>gris_DevEUI = 2, gris_DR = 0, gris_Items = [item 22 (- 30)]\<rparr>])"

theorem multicast_gateways_cover_devices_witness:
  "\<exists>gws. GetMinimumGatewaySet simple_kruskal (\<lambda>xs. xs) sample_band 0 sample_heard = Inr gws \<and>
    22 \<in> set gws"
  using multicast_gateways_cover_devices[OF simple_kruskal.spanning_axioms, of "\<lambda>xs. xs" sample_heard sample_band 0]
  by (fastforce simp: sample_heard_def Let_def)

end
