(* ===== verification/Frames.thy ===== *)
theory Frames
  imports Gateway Redis
begin

text \<open>
  Frames: the LoRaWAN frame of the library \<open>github.com/brocaar/lorawan\<close> (the fields the code
  touches) with the functions of the library as a record of parameters, the downlink messages of
  the gateway (\<open>chirpstack-api/go/gw\<close>), and the downlink frame the server keeps in Redis until
  the gateway acknowledges it (\<open>internal/storage/downlink_frame.go\<close>).
\<close>

section \<open>LoRaWAN frames\<close>

datatype mtype =
    JoinRequest | JoinAccept | UnconfirmedDataUp | UnconfirmedDataDown
  | ConfirmedDataUp | ConfirmedDataDown | RejoinRequest | Proprietary

record fctrl =
  fc_ADR :: bool
  fc_ADRACKReq :: bool
  fc_ACK :: bool
  fc_FPending :: bool
  fc_ClassB :: bool

definition no_fctrl :: fctrl where
  "no_fctrl = \<lparr>fc_ADR = False, fc_ADRACKReq = False, fc_ACK = False, fc_FPending = False, fc_ClassB = False\<rparr>"

datatype payload = MACCommandItem mac_command | DataItem "byte list"

record mac_frame =
  mf_DevAddr :: devaddr
  mf_FCtrl :: fctrl
  mf_FCnt :: u32
  mf_FOpts :: "payload list"
  mf_FPort :: "byte option"
  mf_FRMPayload :: "payload list"

datatype frame_payload =
    MACFrame mac_frame
  | JoinRequestFrame (jr_JoinEUI: eui64) (jr_DevEUI: eui64) (jr_DevNonce: u16)
  | RejoinFrame02 (rj_Type: nat) (rj_NetID: u32) (rj_DevEUI: eui64) (rj_RJCount0: u16)
  | RejoinFrame1 (rj1_JoinEUI: eui64) (rj1_DevEUI: eui64) (rj1_RJCount1: u16)
  | BytesFrame "byte list"

record phy =
  phy_MType :: mtype
  phy_MACPayload :: "frame_payload option"

section \<open>Gateway messages\<close>

datatype downlink_timing = IMMEDIATELY | DELAY duration | GPS_EPOCH duration

record downlink_tx_info = mod_carrier +
  dt_Frequency :: u32
  dt_Power :: int
  dt_Board :: u32
  dt_Antenna :: u32
  dt_Timing :: downlink_timing
  dt_Context :: "byte list"

record downlink_frame_item =
  di_PhyPayload :: "byte list"
  di_TxInfo :: "downlink_tx_info option"

record gw_downlink_frame =
  gd_GatewayId :: "byte list"
  gd_Token :: u32
  gd_DownlinkId :: "byte list"
  gd_Items :: "downlink_frame_item list"

definition empty_tx_info :: downlink_tx_info where
  "empty_tx_info =
     \<lparr>mi_Modulation = Modulation_LORA, mi_ModulationInfo = None, dt_Frequency = 0, dt_Power = 0, dt_Board = 0,
      dt_Antenna = 0, dt_Timing = IMMEDIATELY, dt_Context = []\<rparr>"

definition empty_frame :: gw_downlink_frame where
  "empty_frame = \<lparr>gd_GatewayId = [], gd_Token = 0, gd_DownlinkId = [], gd_Items = []\<rparr>"

section \<open>Identifiers as bytes\<close>

text \<open>The bytes of a word, the most significant first.\<close>

definition be_bytes :: "nat \<Rightarrow> 'a::len word \<Rightarrow> byte list" where
  "be_bytes n w = rev (map (\<lambda>i. ucast (drop_bit (8 * i) w)) [0..<n])"

lemma be_bytes_length [simp]: "length (be_bytes n w) = n"
  by (simp add: be_bytes_def)

lemma word_rcat_be_bytes:
  fixes w :: "'a::len word"
  assumes "LENGTH('a) \<le> 8 * n"
  shows "word_rcat (be_bytes n w) = w"
proof (rule bit_word_eqI)
  fix k
  assume k: "k < LENGTH('a)"
  then have d: "k div 8 < n" "8 * (k div 8) + k mod 8 = k" using assms by auto
  have m: "k mod 8 < Suc (Suc (Suc (Suc (Suc (Suc (Suc (Suc 0)))))))" by simp
  note horner = bit_horner_sum_uint_exp_iff [where ?'a = 8, simplified]
  show "bit (word_rcat (be_bytes n w) :: 'a word) k \<longleftrightarrow> bit w k"
    using k d m by (simp add: word_rcat_def be_bytes_def bit_word_of_int_iff horner bit_ucast_iff
        bit_drop_bit_eq add.commute)
qed

definition eui64_bytes :: "eui64 \<Rightarrow> byte list" where
  "eui64_bytes e = be_bytes 8 e"

definition bytes_uuid :: "byte list \<Rightarrow> uuid" where
  "bytes_uuid bs = unat (word_rcat (to_array 16 bs) :: 128 word)"

definition uuid_bytes :: "uuid \<Rightarrow> byte list" where
  "uuid_bytes u = be_bytes 16 (of_nat u :: 128 word)"

definition key_bytes :: "aeskey \<Rightarrow> byte list" where
  "key_bytes k = be_bytes 16 k"

definition bytes_key :: "byte list \<Rightarrow> aeskey" where
  "bytes_key bs = word_rcat (to_array 16 bs)"

lemma to_array_same [simp]: "length bs = n \<Longrightarrow> to_array n bs = bs"
  by (simp add: to_array_def)

lemma bytes_lengths [simp]:
  "length (eui64_bytes e) = 8" "length (uuid_bytes u) = 16" "length (key_bytes k) = 16"
  by (simp_all add: eui64_bytes_def uuid_bytes_def key_bytes_def)

lemma eui64_bytes_some [simp]: "eui64_bytes e \<noteq> []"
  using bytes_lengths(1)[of e] by fastforce

lemma bytes_eui64_bytes [simp]: "bytes_eui64 (eui64_bytes e) = e"
  by (simp add: bytes_eui64_def eui64_bytes_def word_rcat_be_bytes)

lemma bytes_uuid_bytes [simp]: "u < 2 ^ 128 \<Longrightarrow> bytes_uuid (uuid_bytes u) = u"
  by (simp add: bytes_uuid_def uuid_bytes_def word_rcat_be_bytes unsigned_of_nat take_bit_nat_eq_self)

lemma bytes_key_bytes [simp]: "bytes_key (key_bytes k) = k"
  by (simp add: bytes_key_def key_bytes_def word_rcat_be_bytes)

section \<open>The downlink frame store\<close>

record stored_frame =
  sf_Token :: u32
  sf_DevEui :: "byte list"
  sf_RoutingProfileId :: "byte list"
  sf_DeviceQueueItemId :: int
  sf_MulticastGroupId :: "byte list"
  sf_MulticastQueueItemId :: int
  sf_EncryptedFopts :: bool
  sf_NwkSEncKey :: "byte list"
  sf_DownlinkFrame :: gw_downlink_frame

type_synonym 'v frame_codec = "(stored_frame, 'v) codec"

definition downlinkFrameTTL :: duration where "downlinkFrameTTL = 10 * 1000000000"

definition SaveDownlinkFrame ::
  "('s, 'v, 'm) redis \<Rightarrow> 'v frame_codec \<Rightarrow> stored_frame \<Rightarrow> 's \<Rightarrow> unit res \<times> 's" where
  "SaveDownlinkFrame R c frame s =
     (case enc c frame of
        Inl e \<Rightarrow> (Inl (Wrap e ''marshal proto error''), s)
      | Inr b \<Rightarrow>
         (case rd_Set R (downlinkFrameKey (sf_Token frame)) b downlinkFrameTTL s of
            (Inl e, s) \<Rightarrow> (Inl (Wrap e ''save downlink-frame error''), s)
          | (Inr _, s) \<Rightarrow> (Inr (), s)))"

definition GetDownlinkFrame ::
  "('s, 'v, 'm) redis \<Rightarrow> 'v frame_codec \<Rightarrow> u16 \<Rightarrow> 's \<Rightarrow> stored_frame res" where
  "GetDownlinkFrame R c token s =
     (case rd_Get R (downlinkFrameKey (ucast token)) s of
        Inl e \<Rightarrow> Inl (if e = RedisNil then ErrDoesNotExist else Wrap e ''get downlink-frame error'')
      | Inr val \<Rightarrow>
         (case dec c val of
            Inl e \<Rightarrow> Inl (Wrap e ''protobuf unmarshal error'')
          | Inr df \<Rightarrow> Inr df))"

end
