(* ===== verification/World.thy ===== *)
theory World
  imports MacCommand DeviceQueue GatewayStore SessionStore Frames
begin

text \<open>
  What a flow of the server runs on: the database, Redis and the calls it has made to the
  outside (gateways, application-server, network-controller), a list in the order they were
  issued. A flow is a list of tasks over a context that extends this record; a task returns an
  error or not and the new context (\<open>run_tasks\<close>), and \<open>flow_handle\<close> turns the flow's own abort
  into success as the handlers of the code do.

  SQL transactions (\<open>storage.Transaction\<close>): \<open>sql_session\<close> has the three statements that control
  them; the locale \<open>sql_transactions\<close> says that a rollback restores what the table had when the
  transaction began, and that statements in between do not change what that was. Redis and the
  calls made are outside of transactions.
\<close>

section \<open>Calls\<close>

record uplink_data_request =
  ud_DevEui :: "byte list"
  ud_JoinEui :: "byte list"
  ud_FCnt :: u32
  ud_FPort :: u32
  ud_Adr :: bool
  ud_Dr :: u32
  ud_TxInfo :: "uplink_tx_info option"
  ud_RxInfo :: "rx_info list"
  ud_Data :: "byte list"
  ud_ConfirmedUplink :: bool
  ud_DeviceActivationContext :: "(byte list \<times> string \<times> byte list) option"

record meta_data_request =
  md_GatewayId :: "byte list"
  md_DevEui :: "byte list"
  md_MulticastGroupId :: "byte list"
  md_MessageType :: "mtype option"
  md_PhyPayloadByteCount :: u32
  md_MacCommandByteCount :: u32
  md_ApplicationPayloadByteCount :: u32

datatype error_type =
    GENERIC | OTAA | DATA_UP_FCNT_RESET | DATA_UP_MIC | DATA_UP_FCNT_RETRANSMISSION
  | DATA_DOWN_PAYLOAD_SIZE | DATA_DOWN_GATEWAY | DEVICE_QUEUE_ITEM_SIZE | DEVICE_QUEUE_ITEM_FCNT

record reencrypt_item =
  re_FrmPayload :: "byte list"
  re_FCnt :: u32
  re_FPort :: u32
  re_Confirmed :: bool

record reencrypt_request =
  rq_DevEui :: "byte list"
  rq_DevAddr :: "byte list"
  rq_FCntStart :: u32
  rq_Items :: "reencrypt_item list"

text \<open>The meta-data of a downlink between networks (\<open>backend.DLMetaData\<close>), optional fields as options.\<close>

record gw_info_element =
  gi_ID :: "byte list"
  gi_ULToken :: "byte list"
  gi_DLAllowed :: bool

record dl_meta_data =
  dm_ClassMode :: "string option"
  dm_DevEUI :: "eui64 option"
  dm_FNSULToken :: "byte list"
  dm_DLFreq1 :: "rat option"
  dm_DLFreq2 :: "rat option"
  dm_DataRate1 :: "int option"
  dm_DataRate2 :: "int option"
  dm_RXDelay1 :: "int option"
  dm_GWInfo :: "gw_info_element list"

text \<open>The requests to a join-server, and the meta-data of an uplink between networks.\<close>

record join_request =
  jq_ReceiverID :: eui64
  jq_TransactionID :: u32
  jq_MACVersion :: string
  jq_PHYPayload :: "byte list"
  jq_DevEUI :: eui64
  jq_DevAddr :: devaddr
  jq_OptNeg :: bool
  jq_RX2DataRate :: byte
  jq_RX1DROffset :: byte
  jq_RxDelay :: int
  jq_CFList :: "byte list"

record ul_gw_info =
  ug_ID :: "byte list"
  ug_FineRecvTime :: "int option"
  ug_RSSI :: "int option"
  ug_SNR :: "rat option"
  ug_Lat :: "rat option"
  ug_Lon :: "rat option"
  ug_ULToken :: "byte list"
  ug_DLAllowed :: bool

record ul_meta_data =
  um_DevEUI :: "eui64 option"
  um_DevAddr :: "devaddr option"
  um_DataRate :: "int option"
  um_ULFreq :: "rat option"
  um_RecvTime :: instant
  um_RFRegion :: string
  um_GWCnt :: "int option"
  um_GWInfo :: "ul_gw_info list"

datatype call =
    SendTXPacket gw_downlink_frame
  | HandleTxAck "byte list" u32 "byte list" "downlink_tx_info option"
  | HandleError "byte list" u32 error_type
  | HandleDownlinkACK "byte list" u32 bool
  | HandleUplinkData uplink_data_request
  | SetDeviceStatus set_device_status_request
  | HandleDownlinkMetaData meta_data_request
  | HandleUplinkMetaData meta_data_request "uplink_tx_info option" "rx_info list"
  | HandleUplinkMACCommand "byte list" cid "byte list list"
  | ReEncryptDeviceQueueItems reencrypt_request
  | XmitDataReq u32 "byte list" dl_meta_data
  | JoinReq join_request
  | RejoinReq join_request
  | HomeNSReq eui64 eui64
  | PRStartReq u32 "byte list" ul_meta_data
  | XmitUplink u32 "byte list" ul_meta_data
  | HandleRejectedUplinkFrameSet "byte list" "uplink_tx_info option" "rx_info list"
  | HandleProprietaryUplink "byte list" "byte list" "uplink_tx_info option" "rx_info list"

record ('db, 's) world =
  w_DB :: 'db
  w_Redis :: 's
  w_Calls :: "call list"

definition call_out :: "call \<Rightarrow> ('db, 's, 'z) world_scheme \<Rightarrow> ('db, 's, 'z) world_scheme" where
  "call_out c w = w\<lparr>w_Calls := w_Calls w @ [c]\<rparr>"

lemma call_out_simps [simp]:
  "w_DB (call_out c w) = w_DB w" "w_Redis (call_out c w) = w_Redis w"
  "w_Calls (call_out c w) = w_Calls w @ [c]"
  by (simp_all add: call_out_def)

section \<open>Tasks\<close>

type_synonym 'c task = "'c \<Rightarrow> unit res \<times> 'c"

fun run_tasks :: "'c task list \<Rightarrow> 'c task" where
  "run_tasks [] c = (Inr (), c)"
| "run_tasks (t # ts) c =
     (case t c of
        (Inl e, c) \<Rightarrow> (Inl e, c)
      | (Inr _, c) \<Rightarrow> run_tasks ts c)"

definition flow_handle :: "'c task list \<Rightarrow> 'c task" where
  "flow_handle ts c =
     (case run_tasks ts c of
        (Inl e, c) \<Rightarrow> (if e = ErrAbort then Inr () else Inl e, c)
      | (Inr _, c) \<Rightarrow> (Inr (), c))"

definition task_when :: "('c \<Rightarrow> bool) \<Rightarrow> 'c task list \<Rightarrow> 'c task" where
  "task_when P ts c = (if P c then run_tasks ts c else (Inr (), c))"

definition update_ctx :: "('c \<Rightarrow> 'c) \<Rightarrow> 'c task" where
  "update_ctx f c = (Inr (), f c)"

definition wrapping :: "string \<Rightarrow> 'c task \<Rightarrow> 'c task" where
  "wrapping what t c = (case t c of (Inl e, c) \<Rightarrow> (Inl (Wrap e what), c) | (Inr _, c) \<Rightarrow> (Inr (), c))"

definition on_Redis :: "('s \<Rightarrow> 'a res \<times> 's) \<Rightarrow> ('db, 's, 'z) world_scheme \<Rightarrow> 'a res \<times> ('db, 's, 'z) world_scheme" where
  "on_Redis f w = (case f (w_Redis w) of (r, s) \<Rightarrow> (r, w\<lparr>w_Redis := s\<rparr>))"

definition on_DB :: "('db \<Rightarrow> 'a res \<times> 'db) \<Rightarrow> ('db, 's, 'z) world_scheme \<Rightarrow> 'a res \<times> ('db, 's, 'z) world_scheme" where
  "on_DB f w = (case f (w_DB w) of (r, db) \<Rightarrow> (r, w\<lparr>w_DB := db\<rparr>))"

definition forget :: "'a res \<times> 'c \<Rightarrow> unit res \<times> 'c" where
  "forget r = (case r of (Inl e, c) \<Rightarrow> (Inl e, c) | (Inr _, c) \<Rightarrow> (Inr (), c))"

text \<open>Reading a value into the context.\<close>

definition reading :: "('c \<Rightarrow> 'a res) \<Rightarrow> ('a \<Rightarrow> 'c \<Rightarrow> 'c) \<Rightarrow> string \<Rightarrow> 'c task" where
  "reading get put what c = (case get c of Inl e \<Rightarrow> (Inl (Wrap e what), c) | Inr x \<Rightarrow> (Inr (), put x c))"

lemma run_tasks_append:
  "run_tasks (ts @ us) c =
     (case run_tasks ts c of (Inl e, c) \<Rightarrow> (Inl e, c) | (Inr _, c) \<Rightarrow> run_tasks us c)"
  by (induction ts c rule: run_tasks.induct) (auto split: prod.splits sum.splits)

text \<open>When a task succeeds.\<close>

lemma run_tasks_ok:
  "run_tasks [] c = (Inr u, c') \<longleftrightarrow> c' = c"
  "run_tasks (t # ts) c = (Inr u, c') \<longleftrightarrow> (\<exists>c1. t c = (Inr (), c1) \<and> run_tasks ts c1 = (Inr u, c'))"
  by (auto simp: run_tasks.simps split: prod.splits sum.splits)

lemma task_when_ok:
  "task_when P ts c = (Inr u, c') \<longleftrightarrow> (if P c then run_tasks ts c = (Inr u, c') else c' = c)"
  by (auto simp: task_when_def)

lemma wrapping_ok: "wrapping what t c = (Inr u, c') \<longleftrightarrow> t c = (Inr (), c')"
  by (auto simp: wrapping_def split: prod.splits sum.splits)

lemma on_DB_ok: "on_DB f w = (Inr x, w') \<longleftrightarrow> (\<exists>db. f (w_DB w) = (Inr x, db) \<and> w' = w\<lparr>w_DB := db\<rparr>)"
  by (auto simp: on_DB_def split: prod.splits)

lemma on_Redis_ok: "on_Redis f w = (Inr x, w') \<longleftrightarrow> (\<exists>s. f (w_Redis w) = (Inr x, s) \<and> w' = w\<lparr>w_Redis := s\<rparr>)"
  by (auto simp: on_Redis_def split: prod.splits)

lemma reading_ok: "reading get put what c = (Inr u, c') \<longleftrightarrow> (\<exists>x. get c = Inr x \<and> c' = put x c)"
  by (auto simp: reading_def split: sum.splits)

lemma update_ctx_ok: "update_ctx f c = (Inr u, c') \<longleftrightarrow> c' = f c"
  by (auto simp: update_ctx_def)

text \<open>Tasks that never end the flow silently.\<close>

definition no_abort :: "'c task \<Rightarrow> bool" where
  "no_abort t \<longleftrightarrow> (\<forall>c c'. t c \<noteq> (Inl ErrAbort, c'))"

named_theorems no_abort_intros "tasks whose errors are not the abort of the flow"

lemma no_abort_run_tasks [no_abort_intros]: "(\<And>t. t \<in> set ts \<Longrightarrow> no_abort t) \<Longrightarrow> no_abort (run_tasks ts)"
proof -
  assume *: "\<And>t. t \<in> set ts \<Longrightarrow> no_abort t"
  have "run_tasks ts c \<noteq> (Inl ErrAbort, c')" for c c'
    using *
  proof (induction ts c rule: run_tasks.induct)
    case (2 t ts c)
    obtain r c1 where t: "t c = (r, c1)" by fastforce
    show ?case
    proof (cases r)
      case (Inl e)
      then have "e \<noteq> ErrAbort" using 2(2)[of t] t by (auto simp: no_abort_def)
      then show ?thesis using Inl t by (simp add: run_tasks.simps)
    next
      case (Inr u)
      then show ?thesis using 2(1)[OF t[symmetric] Inr] 2(2) t by (simp add: run_tasks.simps)
    qed
  qed simp
  then show ?thesis by (simp add: no_abort_def)
qed

lemma no_abort_task_when [no_abort_intros]: "no_abort (run_tasks ts) \<Longrightarrow> no_abort (task_when P ts)"
  by (simp add: no_abort_def task_when_def)

lemma no_abort_wrapping [no_abort_intros]: "no_abort (wrapping what t)"
  by (auto simp: no_abort_def wrapping_def split: prod.splits sum.splits)

lemma no_abort_reading [no_abort_intros]: "no_abort (reading get put what)"
  by (auto simp: no_abort_def reading_def split: sum.splits)

lemma no_abort_update_ctx [no_abort_intros]: "no_abort (update_ctx f)"
  by (auto simp: no_abort_def update_ctx_def)

lemma flow_handle_ok:
  "no_abort (run_tasks ts) \<Longrightarrow> flow_handle ts c = (Inr u, c') \<longleftrightarrow> run_tasks ts c = (Inr (), c')"
  by (auto simp: flow_handle_def no_abort_def split: prod.splits sum.splits if_splits)

text \<open>What every task keeps, the flow keeps.\<close>

lemma run_tasks_keep:
  assumes "run_tasks ts c = (r, c')"
    and "\<And>t c r c'. t \<in> set ts \<Longrightarrow> t c = (r, c') \<Longrightarrow> f c' = f c"
  shows "f c' = f c"
  using assms
proof (induction ts c arbitrary: r c' rule: run_tasks.induct)
  case (2 t ts c)
  obtain r1 c1 where t: "t c = (r1, c1)" by fastforce
  then have f1: "f c1 = f c" using 2(3)[of t] by simp
  show ?case
  proof (cases r1)
    case (Inl e)
    then show ?thesis using 2(2) t f1 by simp
  next
    case (Inr u)
    then show ?thesis using 2(1)[OF t[symmetric] Inr, of r c'] 2(2,3) t f1 by auto
  qed
qed simp

lemma flow_handle_tasks: "flow_handle ts c = (r, c') \<Longrightarrow> \<exists>r. run_tasks ts c = (r, c')"
  by (auto simp: flow_handle_def split: prod.splits sum.splits if_splits)

lemma run_tasks_inv:
  assumes "run_tasks ts c = (r, c')" and "I c"
    and "\<And>t c r c'. t \<in> set ts \<Longrightarrow> t c = (r, c') \<Longrightarrow> I c \<Longrightarrow> I c'"
  shows "I c'"
  using assms
proof (induction ts c arbitrary: r c' rule: run_tasks.induct)
  case (2 t ts c)
  obtain r1 c1 where t: "t c = (r1, c1)" by fastforce
  then have "I c1" using 2(3,4) by auto
  then show ?case
    using 2(1)[OF t[symmetric]] 2(2,4) t by (cases r1) (auto simp: run_tasks.simps)
qed simp

section \<open>Transactions\<close>

record 'db sql_session =
  sx_Begin :: "'db \<Rightarrow> unit res \<times> 'db"
  sx_Commit :: "'db \<Rightarrow> unit res \<times> 'db"
  sx_Rollback :: "'db \<Rightarrow> unit res \<times> 'db"

definition Transaction :: "'db sql_session \<Rightarrow> ('db, 's, 'z) world_scheme task \<Rightarrow> ('db, 's, 'z) world_scheme task" where
  "Transaction X f w =
     (case on_DB (sx_Begin X) w of
        (Inl e, w) \<Rightarrow> (Inl (Wrap e ''storage: begin transaction error''), w)
      | (Inr _, w) \<Rightarrow>
         (case f w of
            (Inl e, w) \<Rightarrow>
              (case on_DB (sx_Rollback X) w of
                 (Inl e', w) \<Rightarrow> (Inl (Wrap e' ''storage: transaction rollback error''), w)
               | (Inr _, w) \<Rightarrow> (Inl e, w))
          | (Inr _, w) \<Rightarrow>
              (case on_DB (sx_Commit X) w of
                 (Inl e, w) \<Rightarrow> (Inl (Wrap e ''storage: transaction commit error''), w)
               | (Inr _, w) \<Rightarrow> (Inr (), w))))"

lemma Transaction_ok:
  "Transaction X f w = (Inr u, w') \<longleftrightarrow>
     (\<exists>w1 w2. on_DB (sx_Begin X) w = (Inr (), w1) \<and> f w1 = (Inr (), w2) \<and> on_DB (sx_Commit X) w2 = (Inr (), w'))"
  by (auto simp: Transaction_def split: prod.splits sum.splits)

lemma no_abort_Transaction [no_abort_intros]: "no_abort f \<Longrightarrow> no_abort (Transaction X f)"
  by (auto simp: no_abort_def Transaction_def split: prod.splits sum.splits)

lemmas tasks_ok = run_tasks_ok task_when_ok wrapping_ok on_DB_ok on_Redis_ok reading_ok update_ctx_ok Transaction_ok

text \<open>\<open>base\<close>: the rows when the transaction in progress began.\<close>

locale sql_transactions = sql_table T rows columns keyed
  for T :: "('db, 'r) table" and rows columns keyed +
  fixes X :: "'db sql_session" and base :: "'db \<Rightarrow> 'r multiset"
  assumes begin_ok: "sx_Begin X db = (Inr u, db') \<Longrightarrow> rows db' = rows db \<and> base db' = rows db"
    and begin_fails: "sx_Begin X db = (Inl e, db') \<Longrightarrow> rows db' = rows db"
    and commit_ok: "sx_Commit X db = (Inr u, db') \<Longrightarrow> rows db' = rows db"
    and rollback_ok: "sx_Rollback X db = (Inr u, db') \<Longrightarrow> rows db' = base db"
    and insert_base: "base (snd (tb_insert T r db)) = base db"
    and update_base: "base (snd (tb_update T P f db)) = base db"
    and delete_base: "base (snd (tb_delete T P db)) = base db"
begin

lemma transaction_rolls_back:
  assumes "Transaction X f w = (Inl e, w')"
    and "\<And>w r w1. f w = (r, w1) \<Longrightarrow> base (w_DB w1) = base (w_DB w)"
    and "\<And>db e db'. sx_Rollback X db \<noteq> (Inl e, db')" "\<And>db e db'. sx_Commit X db \<noteq> (Inl e, db')"
  shows "rows (w_DB w') = rows (w_DB w)"
proof -
  obtain r1 db1 where b: "sx_Begin X (w_DB w) = (r1, db1)" by fastforce
  show ?thesis
  proof (cases r1)
    case (Inl e1)
    then show ?thesis using assms(1) b begin_fails[OF b[unfolded Inl]] by (auto simp: Transaction_def on_DB_def)
  next
    case (Inr u)
    note db1 = begin_ok[OF b[unfolded Inr]]
    obtain r2 w2 where f: "f (w\<lparr>w_DB := db1\<rparr>) = (r2, w2)" by fastforce
    have base2: "base (w_DB w2) = rows (w_DB w)" using assms(2)[OF f] db1 by simp
    show ?thesis
    proof (cases r2)
      case (Inl e2)
      obtain r3 db3 where rb: "sx_Rollback X (w_DB w2) = (r3, db3)" by fastforce
      then obtain u3 where "r3 = Inr u3" using assms(3) by (cases r3) auto
      then show ?thesis using assms(1) b Inr f Inl rb rollback_ok[of "w_DB w2" u3 db3] base2
        by (auto simp: Transaction_def on_DB_def)
    next
      case (Inr u2)
      obtain r3 db3 where cm: "sx_Commit X (w_DB w2) = (r3, db3)" by fastforce
      then obtain u3 where "r3 = Inr u3" using assms(4) by (cases r3) auto
      then show ?thesis using assms(1) b \<open>r1 = Inr u\<close> f Inr cm
        by (auto simp: Transaction_def on_DB_def)
    qed
  qed
qed

end

declare run_tasks.simps(2) [simp del]

section \<open>The clients\<close>

text \<open>
  \<open>pool\<close> is the connection pool of the application-servers: whether it has or makes a
  connection for a routing-profile.
\<close>

definition GetASClientForRoutingProfileID ::
  "('db, routing_profile) table \<Rightarrow> (routing_profile \<Rightarrow> unit res) \<Rightarrow> uuid \<Rightarrow> 'db \<Rightarrow> unit res" where
  "GetASClientForRoutingProfileID T pool i db =
     (case GetRoutingProfile T i db of
        Inl e \<Rightarrow> Inl (Wrap e ''get routing-profile error'')
      | Inr rp \<Rightarrow> (case pool rp of
          Inl e \<Rightarrow> Inl (Wrap e ''get application-server client error'')
        | Inr _ \<Rightarrow> Inr ()))"

text \<open>\<open>send\<close> is what the gateway backend answers, which may depend on what was sent before.\<close>

definition send_packet ::
  "(gw_downlink_frame \<Rightarrow> call list \<Rightarrow> unit res) \<Rightarrow> gw_downlink_frame \<Rightarrow> ('db, 's, 'z) world_scheme task" where
  "send_packet send frame w =
     (case send frame (w_Calls w) of
        Inl e \<Rightarrow> (Inl e, w)
      | Inr _ \<Rightarrow> (Inr (), call_out (SendTXPacket frame) w))"

text \<open>Running a flow.\<close>

lemmas run_flow = flow_handle_def run_tasks.simps task_when_def update_ctx_def wrapping_def on_Redis_def on_DB_def
  reading_def Transaction_def call_out_def Let_def

end
