(* ===== verification/MemoryWorld.thy ===== *)
theory MemoryWorld
  imports World
begin

text \<open>
  A world in memory on which the flows can be run: eight tables, a copy of them taken when a
  transaction begins and put back by a rollback, and a Redis server whose values are messages.
  It provides the interfaces of the flows (\<open>sql_transactions\<close>, \<open>session_store\<close>), so what a flow
  assumes of its database and of Redis can be met.
\<close>

section \<open>Tables with transactions\<close>

record tables =
  t_queue :: "device_queue_item memtable"
  t_devices :: "device memtable"
  t_routing :: "routing_profile memtable"
  t_profiles :: "device_profile memtable"
  t_services :: "service_profile memtable"
  t_activations :: "device_activation memtable"
  t_gateways :: "gateway memtable"
  t_boards :: "board_row memtable"

text \<open>The tables and what they were when the transaction began.\<close>

type_synonym memory_db = "tables \<times> tables"

definition memory_session :: "memory_db sql_session" where
  "memory_session =
     \<lparr>sx_Begin = (\<lambda>(t, _). (Inr (), (t, t))), sx_Commit = (\<lambda>db. (Inr (), db)),
      sx_Rollback = (\<lambda>(_, old). (Inr (), (old, old)))\<rparr>"

definition memory_table ::
  "(tables \<Rightarrow> 'r memtable) \<Rightarrow> ('r memtable \<Rightarrow> tables \<Rightarrow> tables) \<Rightarrow> (int \<Rightarrow> 'r \<Rightarrow> 'r) \<Rightarrow> ('r \<Rightarrow> 'r \<Rightarrow> bool) \<Rightarrow>
   (memory_db, 'r) table" where
  "memory_table g p = mem_table (\<lambda>db. g (fst db)) (\<lambda>m db. (p m (fst db), snd db)) (\<lambda>r. r)"

lemma mem_table_keeps:
  assumes "\<And>m db. b (p m db) = b db"
  shows "b (snd (tb_insert (mem_table g p columns assign clash) r db)) = b db"
    "b (snd (tb_update (mem_table g p columns assign clash) P f db)) = b db"
    "b (snd (tb_delete (mem_table g p columns assign clash) P db)) = b db"
  using assms by (simp_all add: mem_table_def Let_def)

lemma memory_table_laws:
  assumes "\<And>m t. g (p m t) = m"
  shows "sql_transactions (memory_table g p assign clash) (mem_rows (\<lambda>db. g (fst db))) (\<lambda>r. r)
    (mem_keyed assign) memory_session (mem_rows (\<lambda>db. g (snd db)))"
  unfolding memory_table_def
  by (intro sql_transactions.intro mem_table_laws sql_transactions_axioms.intro mem_table_keeps)
    (auto simp: assms memory_session_def mem_rows_def)

definition memory_queue :: "(memory_db, device_queue_item) table" where
  "memory_queue = memory_table t_queue (\<lambda>m. t_queue_update (\<lambda>_. m)) (\<lambda>k r. r\<lparr>qi_ID := k\<rparr>) (\<lambda>r r'. qi_ID r = qi_ID r')"

definition memory_devices :: "(memory_db, device) table" where
  "memory_devices = memory_table t_devices (\<lambda>m. t_devices_update (\<lambda>_. m)) (\<lambda>_ r. r) (\<lambda>r r'. d_DevEUI r = d_DevEUI r')"

definition memory_routing :: "(memory_db, routing_profile) table" where
  "memory_routing = memory_table t_routing (\<lambda>m. t_routing_update (\<lambda>_. m)) (\<lambda>_ r. r) (\<lambda>r r'. rp_ID r = rp_ID r')"

definition memory_profiles :: "(memory_db, device_profile) table" where
  "memory_profiles = memory_table t_profiles (\<lambda>m. t_profiles_update (\<lambda>_. m)) (\<lambda>_ r. r) (\<lambda>r r'. dp_ID r = dp_ID r')"

definition memory_services :: "(memory_db, service_profile) table" where
  "memory_services = memory_table t_services (\<lambda>m. t_services_update (\<lambda>_. m)) (\<lambda>_ r. r) (\<lambda>r r'. sp_ID r = sp_ID r')"

definition memory_activations :: "(memory_db, device_activation) table" where
  "memory_activations =
     memory_table t_activations (\<lambda>m. t_activations_update (\<lambda>_. m)) (\<lambda>k r. r\<lparr>da_ID := k\<rparr>) (\<lambda>r r'. da_ID r = da_ID r')"

definition memory_gateways :: "(memory_db, gateway) table" where
  "memory_gateways =
     memory_table t_gateways (\<lambda>m. t_gateways_update (\<lambda>_. m)) (\<lambda>_ r. r) (\<lambda>r r'. gw_GatewayID r = gw_GatewayID r')"

definition memory_boards :: "(memory_db, board_row) table" where
  "memory_boards = memory_table t_boards (\<lambda>m. t_boards_update (\<lambda>_. m)) (\<lambda>_ r. r)
     (\<lambda>r r'. br_id r = br_id r' \<and> br_gateway_id r = br_gateway_id r')"

lemmas memory_tables = memory_queue_def memory_devices_def memory_routing_def memory_profiles_def
  memory_services_def memory_activations_def memory_gateways_def memory_boards_def memory_table_def mem_table_def

abbreviation queue_rows :: "memory_db \<Rightarrow> device_queue_item multiset" where
  "queue_rows \<equiv> mem_rows (\<lambda>db. t_queue (fst db))"

interpretation memory_queue: sql_transactions memory_queue queue_rows "\<lambda>r. r" "mem_keyed (\<lambda>k r. r\<lparr>qi_ID := k\<rparr>)"
  memory_session "mem_rows (\<lambda>db. t_queue (snd db))"
  unfolding memory_queue_def by (rule memory_table_laws) simp

section \<open>Messages\<close>

datatype redis_value =
    SessionValue device_session_pb
  | FrameValue stored_frame
  | DeviceProfileValue device_profile
  | ServiceProfileValue service_profile
  | RxInfoValue gw_rx_info_set_pb
  | BlockValue mac_block
  | GatewayMetaValue gateway_meta

definition session_values :: "redis_value session_codec" where
  "session_values = \<lparr>enc = \<lambda>x. Inr (SessionValue x), dec = \<lambda>v. case v of SessionValue x \<Rightarrow> Inr x | _ \<Rightarrow> Inl (Errorf ''proto'')\<rparr>"

definition frame_values :: "redis_value frame_codec" where
  "frame_values = \<lparr>enc = \<lambda>x. Inr (FrameValue x), dec = \<lambda>v. case v of FrameValue x \<Rightarrow> Inr x | _ \<Rightarrow> Inl (Errorf ''proto'')\<rparr>"

definition device_profile_values :: "(device_profile, redis_value) codec" where
  "device_profile_values =
     \<lparr>enc = \<lambda>x. Inr (DeviceProfileValue x), dec = \<lambda>v. case v of DeviceProfileValue x \<Rightarrow> Inr x | _ \<Rightarrow> Inl (Errorf ''gob'')\<rparr>"

definition service_profile_values :: "(service_profile, redis_value) codec" where
  "service_profile_values =
     \<lparr>enc = \<lambda>x. Inr (ServiceProfileValue x), dec = \<lambda>v. case v of ServiceProfileValue x \<Rightarrow> Inr x | _ \<Rightarrow> Inl (Errorf ''gob'')\<rparr>"

definition rx_info_values :: "redis_value rx_info_codec" where
  "rx_info_values = \<lparr>enc = \<lambda>x. Inr (RxInfoValue x), dec = \<lambda>v. case v of RxInfoValue x \<Rightarrow> Inr x | _ \<Rightarrow> Inl (Errorf ''proto'')\<rparr>"

definition block_values :: "redis_value block_codec" where
  "block_values = \<lparr>enc = \<lambda>x. Inr (BlockValue x), dec = \<lambda>v. case v of BlockValue x \<Rightarrow> Inr x | _ \<Rightarrow> Inl (Errorf ''gob'')\<rparr>"

definition gateway_meta_values :: "(gateway_meta, redis_value) codec" where
  "gateway_meta_values =
     \<lparr>enc = \<lambda>x. Inr (GatewayMetaValue x), dec = \<lambda>v. case v of GatewayMetaValue x \<Rightarrow> Inr x | _ \<Rightarrow> Inl (Errorf ''gob'')\<rparr>"

lemma gateway_meta_values_ok [simp]: "codec_ok gateway_meta_values"
  by (simp add: codec_ok_def gateway_meta_values_def)

lemmas value_codecs = session_values_def frame_values_def device_profile_values_def
  service_profile_values_def rx_info_values_def block_values_def

lemma value_codecs_run:
  "enc session_values x1 = Inr (SessionValue x1)" "dec session_values v = (case v of SessionValue y \<Rightarrow> Inr y | _ \<Rightarrow> Inl (Errorf ''proto''))"
  "enc frame_values x2 = Inr (FrameValue x2)" "dec frame_values v = (case v of FrameValue y \<Rightarrow> Inr y | _ \<Rightarrow> Inl (Errorf ''proto''))"
  "enc device_profile_values x3 = Inr (DeviceProfileValue x3)" "dec device_profile_values v = (case v of DeviceProfileValue y \<Rightarrow> Inr y | _ \<Rightarrow> Inl (Errorf ''gob''))"
  "enc service_profile_values x4 = Inr (ServiceProfileValue x4)" "dec service_profile_values v = (case v of ServiceProfileValue y \<Rightarrow> Inr y | _ \<Rightarrow> Inl (Errorf ''gob''))"
  "enc rx_info_values x5 = Inr (RxInfoValue x5)" "dec rx_info_values v = (case v of RxInfoValue y \<Rightarrow> Inr y | _ \<Rightarrow> Inl (Errorf ''proto''))"
  "enc block_values x6 = Inr (BlockValue x6)" "dec block_values v = (case v of BlockValue y \<Rightarrow> Inr y | _ \<Rightarrow> Inl (Errorf ''gob''))"
  by (simp_all add: value_codecs)

lemma value_codecs_ok:
  "codec_ok session_values" "codec_ok frame_values" "codec_ok device_profile_values"
  "codec_ok service_profile_values" "codec_ok rx_info_values" "codec_ok block_values"
  by (simp_all add: codec_ok_def value_codecs)

type_synonym memory = "(redis_value, eui64) mem"

interpretation memory_sessions: session_store "mem_redis :: (memory, redis_value, eui64) redis" mem_holds session_values 1000
  by unfold_locales (simp_all add: value_codecs_ok)

section \<open>A sample\<close>

text \<open>Device 7 in Class-A with one queued item, its session, one routing-profile and one gateway.\<close>

definition sample_routing :: routing_profile where
  "sample_routing = \<lparr>rp_ID = 0, rp_CreatedAt = 0, rp_UpdatedAt = 0, rp_ASID = ''as:8001'', rp_CACert = [], rp_TLSCert = [], rp_TLSKey = []\<rparr>"

definition sample_gateway :: gateway where
  "sample_gateway =
     \<lparr>gw_GatewayID = 0, gw_RoutingProfileID = 0, gw_ServiceProfileID = Some 0, gw_GatewayProfileID = None, gw_CreatedAt = 0,
      gw_UpdatedAt = 0, gw_FirstSeenAt = None, gw_LastSeenAt = None, gw_Location = \<lparr>Latitude = 50, Longitude = 4\<rparr>,
      gw_Altitude = 10, gw_TLSCert = [], gw_Boards = []\<rparr>"

definition sample_tables :: tables where
  "sample_tables =
     \<lparr>t_queue = \<lparr>mt_up = True, mt_next = 3, mt_rows = [sample_item, sample_item\<lparr>qi_ID := 2, qi_FCnt := 11\<rparr>]\<rparr>,
      t_devices = \<lparr>mt_up = True, mt_next = 0, mt_rows = [zero_device\<lparr>d_DevEUI := 7\<rparr>]\<rparr>,
      t_routing = \<lparr>mt_up = True, mt_next = 0, mt_rows = [sample_routing]\<rparr>,
      t_profiles = \<lparr>mt_up = True, mt_next = 0, mt_rows = [zero_device_profile]\<rparr>,
      t_services = \<lparr>mt_up = True, mt_next = 0, mt_rows = [zero_service_profile]\<rparr>,
      t_activations = \<lparr>mt_up = True, mt_next = 1, mt_rows = []\<rparr>,
      t_gateways = \<lparr>mt_up = True, mt_next = 0, mt_rows = [sample_gateway]\<rparr>,
      t_boards = \<lparr>mt_up = True, mt_next = 0, mt_rows = []\<rparr>\<rparr>"

definition device_7 :: device_session where
  "device_7 = zero_device_session\<lparr>ds_DevEUI := 7, ds_DevAddr := 0x01020304, ds_NFCntDown := 10, ds_MACVersion := ''1.0.3''\<rparr>"

definition memory_7 :: memory where
  "memory_7 = mem_empty
     \<lparr>m_val := [deviceSessionKey 7 \<mapsto> (SessionValue (deviceSessionToPB device_7), 1000)],
      m_set := [devAddrKey 0x01020304 \<mapsto> ([7], 1000)]\<rparr>"

lemma device_7_message [simp]: "deviceSessionFromPB (deviceSessionToPB device_7) = device_7"
proof -
  have "session_fits device_7" "list_all session_fits (ds_Pending device_7)"
    by (simp_all add: device_7_def zero_device_session_def with_pending_def session.defs device_session.defs
        session_fits_def zero_session_def fits32_def entries_def)
  moreover have "stored device_7 = device_7"
    by (intro session.equality)
      (simp_all add: stored_def stored_session_def device_7_def zero_device_session_def with_pending_def session.defs
        device_session.defs zero_session_def entries_def)
  ultimately show ?thesis using device_session_roundtrip by simp
qed

lemma device_7_facts [simp]:
  "ds_DevAddr device_7 = 0x01020304" "ds_DevEUI device_7 = 7" "ds_Pending device_7 = []"
  "ds_NFCntDown device_7 = 10" "GetMACVersion device_7 = LoRaWAN1_0"
  by (simp_all add: device_7_def zero_device_session_def with_pending_def session.defs device_session.defs GetMACVersion_def)

lemma device_7_more [simp]:
  "ds_FCntUp device_7 = 0" "ds_RoutingProfileID device_7 = 0" "ds_ServiceProfileID device_7 = 0"
  "ds_DeviceProfileID device_7 = 0" "\<not> ds_IsDisabled device_7" "ds_DR device_7 = 0" "\<not> ds_BeaconLocked device_7"
  "ds_ExtraUplinkChannels device_7 = Some []" "ds_RX2Frequency device_7 = 0" "ds_RX2DR device_7 = 0" "ds_RXDelay device_7 = 0"
  "ds_RX1DROffset device_7 = 0" "ds_MACCommandErrorCount device_7 = Some []" "ds_EnabledUplinkChannels device_7 = []"
  "ds_MaxSupportedTXPowerIndex device_7 = 0" "ds_TXPowerIndex device_7 = 0" "ds_NbTrans device_7 = 0"
  "ds_NwkSEncKey device_7 = 0" "ds_SNwkSIntKey device_7 = 0" "ds_AFCntDown device_7 = 0"
  by (simp_all add: device_7_def zero_device_session_def with_pending_def session.defs device_session.defs zero_session_def)

lemma memory_7_indexed: "indexed session_values (mem_holds memory_7)"
  by (auto simp: indexed_def session_at_def mem_val_def mem_set_def memory_7_def mem_empty_def session_values_def addresses_def split: if_splits)

end
