(* ===== verification/Ack.thy ===== *)
theory Ack
  imports MemoryWorld
begin

text \<open>
  The handling of a gateway's transmission acknowledgement (\<open>internal/downlink/ack/ack.go\<close>): the
  frame is found by its token, and on success the queue item is removed or becomes pending, the
  downlink counter of the session goes up and the application-server is told; on failure the
  error is reported (or, for an old gateway, the next frame is sent). The tables, codecs and
  clients are a record \<open>ack_env\<close>; \<open>ack_context\<close> extends the world with the fields of the code's
  context. Frame logging is a call of the library of Redis streams and is left out: it returns
  no error the flow looks at, except for \<open>log_error\<close>, which stands for the decoding,
  decrypting and encoding that precede it.
\<close>

section \<open>Context\<close>

datatype tx_ack_status = TxAckStatus_OK | TxAckStatus_Error nat

record tx_ack_item =
  ai_Status :: tx_ack_status

record downlink_tx_ack =
  ta_Token :: u32
  ta_DownlinkId :: "byte list"
  ta_Error :: string
  ta_Items :: "tx_ack_item list"

record ('db, 's) ack_context = "('db, 's) world" +
  ac_Token :: u16
  ac_TXAck :: downlink_tx_ack
  ac_Status :: tx_ack_status
  ac_Frame :: stored_frame
  ac_Item :: "downlink_frame_item option"
  ac_DeviceSession :: device_session
  ac_DeviceProfile :: device_profile
  ac_QueueItem :: device_queue_item
  ac_MType :: mtype
  ac_MACPayload :: "mac_frame option"

text \<open>
  \<open>k_status\<close> is the table \<open>gw.TxAckStatus_value\<close>, \<open>k_decode\<close> and \<open>k_payload_size\<close> the library's
  decoding of a frame (what it leaves in the frame, also on an error, which is only logged) and encoding of a payload, \<open>k_now\<close> the clock.
\<close>

record ('db, 's, 'v) ack_env =
  k_Redis :: "('s, 'v, eui64) redis"
  k_Sessions :: "'v session_codec"
  k_Frames :: "'v frame_codec"
  k_Profiles :: "(device_profile, 'v) codec"
  k_TTL :: duration
  k_Queue :: "'db queue_table"
  k_Devices :: "('db, device) table"
  k_DeviceProfiles :: "('db, device_profile) table"
  k_RoutingProfiles :: "('db, routing_profile) table"
  k_Delete_Multicast :: "int \<Rightarrow> 'db \<Rightarrow> unit res \<times> 'db"
  k_Session :: "'db sql_session"
  k_pool :: "routing_profile \<Rightarrow> unit res"
  k_send :: "gw_downlink_frame \<Rightarrow> call list \<Rightarrow> unit res"
  k_status :: "string \<Rightarrow> tx_ack_status option"
  k_decode :: "byte list \<Rightarrow> mtype \<times> frame_payload option"
  k_payload_size :: "payload \<Rightarrow> nat res"
  k_log_error :: "stored_frame \<Rightarrow> downlink_frame_item \<Rightarrow> error option"
  k_now :: instant

section \<open>Conditions\<close>

definition onError :: "('db, 's) ack_context task list \<Rightarrow> ('db, 's) ack_context task" where
  "onError = task_when (\<lambda>c. ac_Status c \<noteq> TxAckStatus_OK)"

definition onNoError :: "('db, 's) ack_context task list \<Rightarrow> ('db, 's) ack_context task" where
  "onNoError = task_when (\<lambda>c. ac_Status c = TxAckStatus_OK)"

definition mac_only :: "mac_frame \<Rightarrow> bool" where
  "mac_only pl \<longleftrightarrow> mf_FPort pl = None \<or> mf_FPort pl = Some 0"

definition forApplicationPayload :: "('db, 's) ack_context task list \<Rightarrow> ('db, 's) ack_context task" where
  "forApplicationPayload = task_when (\<lambda>c. sf_DevEui (ac_Frame c) \<noteq> [] \<and>
     (case ac_MACPayload c of None \<Rightarrow> False | Some pl \<Rightarrow> \<not> mac_only pl))"

definition forMACOnlyPayload :: "('db, 's) ack_context task list \<Rightarrow> ('db, 's) ack_context task" where
  "forMACOnlyPayload = task_when (\<lambda>c. sf_DevEui (ac_Frame c) \<noteq> [] \<and>
     (case ac_MACPayload c of None \<Rightarrow> False | Some pl \<Rightarrow> mac_only pl))"

definition forMulticastPayload :: "('db, 's) ack_context task list \<Rightarrow> ('db, 's) ack_context task" where
  "forMulticastPayload = task_when (\<lambda>c. sf_MulticastGroupId (ac_Frame c) \<noteq> [] \<and> sf_MulticastQueueItemId (ac_Frame c) \<noteq> 0)"

definition forUnconfirmedDownlink :: "('db, 's) ack_context task list \<Rightarrow> ('db, 's) ack_context task" where
  "forUnconfirmedDownlink = task_when (\<lambda>c. ac_MType c = UnconfirmedDataDown)"

definition forConfirmedDownlink :: "('db, 's) ack_context task list \<Rightarrow> ('db, 's) ack_context task" where
  "forConfirmedDownlink = task_when (\<lambda>c. ac_MType c = ConfirmedDataDown)"

section \<open>Finding the frame\<close>

definition ack_token :: "downlink_tx_ack \<Rightarrow> u16 \<Rightarrow> u16" where
  "ack_token a token =
     (if ta_Token a \<noteq> 0 then ucast (ta_Token a)
      else if length (ta_DownlinkId a) = 16 then word_rcat (take 2 (ta_DownlinkId a))
      else token)"

definition getToken :: "('db, 's) ack_context task" where
  "getToken = update_ctx (\<lambda>c. c\<lparr>ac_Token := ack_token (ac_TXAck c) (ac_Token c)\<rparr>)"

text \<open>The item that was sent: the first acknowledged one, else the last reported one.\<close>

definition acked_item :: "tx_ack_item list \<Rightarrow> downlink_frame_item list \<Rightarrow> downlink_frame_item" where
  "acked_item acks items =
     (if acks = [] then hd items
      else case find (\<lambda>i. ai_Status (acks ! i) = TxAckStatus_OK) [0..<length acks] of
        Some i \<Rightarrow> items ! i
      | None \<Rightarrow> items ! (length acks - 1))"

definition getDownlinkFrame :: "('db, 's, 'v) ack_env \<Rightarrow> ('db, 's) ack_context task" where
  "getDownlinkFrame E c =
     (case GetDownlinkFrame (k_Redis E) (k_Frames E) (ac_Token c) (w_Redis c) of
        Inl _ \<Rightarrow> (Inl ErrAbort, c)
      | Inr frame \<Rightarrow>
          let items = gd_Items (sf_DownlinkFrame frame); acks = ta_Items (ac_TXAck c); c = c\<lparr>ac_Frame := frame\<rparr> in
          if items = [] then (Inl (Errorf ''downlink-frame has no items''), c)
          else if length acks > length items
          then (Inl (Errorf ''tx ack contains more items than downlink command''), c)
          else (Inr (), c\<lparr>ac_Item := Some (acked_item acks items)\<rparr>))"

definition decodePHYPayload :: "('db, 's, 'v) ack_env \<Rightarrow> ('db, 's) ack_context task" where
  "decodePHYPayload E c =
     (case ac_Item c of
        None \<Rightarrow> (Inl (Panic ''nil DownlinkFrameItem''), c)
      | Some item \<Rightarrow>
         (case k_decode E (di_PhyPayload item) of
            (mt, pl) \<Rightarrow> (Inr (), c\<lparr>ac_MType := mt,
              ac_MACPayload := (case pl of Some (MACFrame m) \<Rightarrow> Some m | _ \<Rightarrow> ac_MACPayload c)\<rparr>)))"

section \<open>Gateways that acknowledge one item at a time\<close>

definition saveDownlinkFrames :: "('db, 's, 'v) ack_env \<Rightarrow> ('db, 's) ack_context task" where
  "saveDownlinkFrames E c =
     (let items = gd_Items (sf_DownlinkFrame (ac_Frame c)) in
      if ta_Items (ac_TXAck c) \<noteq> [] \<or> length items < 2 then (Inr (), c)
      else let c = c\<lparr>ac_Frame := (ac_Frame c)\<lparr>sf_DownlinkFrame := (sf_DownlinkFrame (ac_Frame c))\<lparr>gd_Items := tl items\<rparr>\<rparr>\<rparr>
           in wrapping ''save downlink-frames error''
                (on_Redis (SaveDownlinkFrame (k_Redis E) (k_Frames E) (ac_Frame c))) c)"

text \<open>The items are those that \<open>saveDownlinkFrames\<close> left.\<close>

definition sendDownlinkFrame :: "('db, 's, 'v) ack_env \<Rightarrow> ('db, 's) ack_context task" where
  "sendDownlinkFrame E c =
     (let frame = sf_DownlinkFrame (ac_Frame c) in
      if ta_Items (ac_TXAck c) \<noteq> [] \<or> length (gd_Items frame) < 2 then (Inr (), c)
      else wrapping ''send downlink-frame to gateway error''
             (send_packet (k_send E) (frame\<lparr>gd_Items := [gd_Items frame ! 1]\<rparr>)) c)"

section \<open>The device\<close>

definition ack_dev_eui :: "('db, 's) ack_context \<Rightarrow> eui64" where
  "ack_dev_eui c = bytes_eui64 (sf_DevEui (ac_Frame c))"

definition getDeviceSession :: "('db, 's, 'v) ack_env \<Rightarrow> ('db, 's) ack_context task" where
  "getDeviceSession E =
     reading (\<lambda>c. GetDeviceSession (k_Redis E) (k_Sessions E) (ack_dev_eui c) (w_Redis c))
       (\<lambda>ds. ac_DeviceSession_update (\<lambda>_. ds)) ''get device-session error''"

definition lockDevice :: "('db, 's, 'v) ack_env \<Rightarrow> ('db, 's) ack_context task" where
  "lockDevice E =
     reading (\<lambda>c. GetDevice (k_Devices E) (ack_dev_eui c) (w_DB c)) (\<lambda>_ c. c) ''get device error''"

definition getDeviceProfile :: "('db, 's, 'v) ack_env \<Rightarrow> ('db, 's) ack_context task" where
  "getDeviceProfile E c =
     (case GetAndCacheDeviceProfile (k_Redis E) (k_Profiles E) (k_TTL E) (k_DeviceProfiles E)
             (ds_DeviceProfileID (ac_DeviceSession c)) (w_DB c) (w_Redis c) of
        (Inl e, s) \<Rightarrow> (Inl (Wrap e ''get device-queue error''), c\<lparr>w_Redis := s\<rparr>)
      | (Inr dp, s) \<Rightarrow> (Inr (), c\<lparr>w_Redis := s, ac_DeviceProfile := dp\<rparr>))"

definition getDeviceQueueItem :: "('db, 's, 'v) ack_env \<Rightarrow> ('db, 's) ack_context task" where
  "getDeviceQueueItem E =
     reading (\<lambda>c. GetDeviceQueueItem (k_Queue E) (sf_DeviceQueueItemId (ac_Frame c)) (w_DB c))
       (\<lambda>qi. ac_QueueItem_update (\<lambda>_. qi)) ''get device-queue item error''"

definition deleteDeviceQueueItem :: "('db, 's, 'v) ack_env \<Rightarrow> ('db, 's) ack_context task" where
  "deleteDeviceQueueItem E c =
     wrapping ''delete device-queue item error''
       (on_DB (DeleteDeviceQueueItem (k_Queue E) (sf_DeviceQueueItemId (ac_Frame c)))) c"

definition deleteMulticastQueueItem :: "('db, 's, 'v) ack_env \<Rightarrow> ('db, 's) ack_context task" where
  "deleteMulticastQueueItem E c =
     wrapping ''delete multicast-queue item''
       (on_DB (k_Delete_Multicast E (sf_MulticastQueueItemId (ac_Frame c)))) c"

definition setDeviceQueueItemPending :: "('db, 's, 'v) ack_env \<Rightarrow> ('db, 's) ack_context task" where
  "setDeviceQueueItemPending E c =
     (let dp = ac_DeviceProfile c; qi = ac_QueueItem c;
          timeout = (if dp_SupportsClassC dp then k_now E + go_int64 (dp_ClassCTimeout dp * second) else k_now E);
          qi = qi\<lparr>qi_IsPending := True,
                  qi_TimeoutAfter := (case qi_TimeoutAfter qi of None \<Rightarrow> Some timeout | Some t \<Rightarrow> Some t)\<rparr>;
          c = c\<lparr>ac_QueueItem := qi\<rparr>
      in wrapping ''update device-queue item error'' (on_DB (UpdateDeviceQueueItem (k_Queue E) qi (k_now E))) c)"

definition setDeviceSessionConfFcnt :: "('db, 's) ack_context task" where
  "setDeviceSessionConfFcnt =
     update_ctx (\<lambda>c. c\<lparr>ac_DeviceSession := (ac_DeviceSession c)\<lparr>ds_ConfFCnt := qi_FCnt (ac_QueueItem c)\<rparr>\<rparr>)"

definition count_application_frame :: "device_session \<Rightarrow> device_session" where
  "count_application_frame ds =
     (if GetMACVersion ds = LoRaWAN1_0 then ds\<lparr>ds_NFCntDown := ds_NFCntDown ds + 1\<rparr>
      else ds\<lparr>ds_AFCntDown := ds_AFCntDown ds + 1\<rparr>)"

definition incrementAFCntDown :: "('db, 's) ack_context task" where
  "incrementAFCntDown = update_ctx (\<lambda>c. c\<lparr>ac_DeviceSession := count_application_frame (ac_DeviceSession c)\<rparr>)"

definition incrementNFcntDown :: "('db, 's) ack_context task" where
  "incrementNFcntDown =
     update_ctx (\<lambda>c. c\<lparr>ac_DeviceSession := (ac_DeviceSession c)\<lparr>ds_NFCntDown := ds_NFCntDown (ac_DeviceSession c) + 1\<rparr>\<rparr>)"

definition saveDeviceSession :: "('db, 's, 'v) ack_env \<Rightarrow> ('db, 's) ack_context task" where
  "saveDeviceSession E c =
     wrapping ''save device-session error''
       (on_Redis (SaveDeviceSession (k_Redis E) (k_Sessions E) (k_TTL E) (ac_DeviceSession c))) c"

section \<open>Reports\<close>

definition ack_tx_info :: "('db, 's) ack_context \<Rightarrow> downlink_tx_info option" where
  "ack_tx_info c = (case ac_Item c of None \<Rightarrow> None | Some item \<Rightarrow> di_TxInfo item)"

definition sendTxAckToApplicationServer :: "('db, 's, 'v) ack_env \<Rightarrow> ('db, 's) ack_context task" where
  "sendTxAckToApplicationServer E c =
     (case GetASClientForRoutingProfileID (k_RoutingProfiles E) (k_pool E)
             (bytes_uuid (sf_RoutingProfileId (ac_Frame c))) (w_DB c) of
        Inl e \<Rightarrow> (Inl (Wrap e ''get application-server client for routing-profile id error''), c)
      | Inr _ \<Rightarrow> (Inr (), call_out (HandleTxAck (sf_DevEui (ac_Frame c)) (qi_FCnt (ac_QueueItem c))
            (gd_GatewayId (sf_DownlinkFrame (ac_Frame c))) (ack_tx_info c)) c))"

definition sendErrorToApplicationServerOnLastFrame :: "('db, 's, 'v) ack_env \<Rightarrow> ('db, 's) ack_context task" where
  "sendErrorToApplicationServerOnLastFrame E c =
     (case ac_MACPayload c of
        None \<Rightarrow> (Inr (), c)
      | Some pl \<Rightarrow>
          if ta_Items (ac_TXAck c) = [] \<and> length (gd_Items (sf_DownlinkFrame (ac_Frame c))) \<ge> 2 then (Inr (), c)
          else case GetASClientForRoutingProfileID (k_RoutingProfiles E) (k_pool E)
                      (bytes_uuid (sf_RoutingProfileId (ac_Frame c))) (w_DB c) of
            Inl e \<Rightarrow> (Inl (Wrap e ''get application-server client for routing-profile id error''), c)
          | Inr _ \<Rightarrow> (Inr (), call_out (HandleError (sf_DevEui (ac_Frame c)) (mf_FCnt pl) DATA_DOWN_GATEWAY) c))"

definition payload_sizes :: "(payload \<Rightarrow> nat res) \<Rightarrow> payload list \<Rightarrow> nat" where
  "payload_sizes size_of pls = sum_list (map (\<lambda>pl. case size_of pl of Inl _ \<Rightarrow> 0 | Inr n \<Rightarrow> n) pls)"

definition sendDownlinkMetaDataToNetworkController :: "('db, 's, 'v) ack_env \<Rightarrow> ('db, 's) ack_context task" where
  "sendDownlinkMetaDataToNetworkController E c =
     (let app = (case ac_MACPayload c of None \<Rightarrow> 0
                 | Some pl \<Rightarrow> if mac_only pl then 0 else payload_sizes (k_payload_size E) (mf_FRMPayload pl));
          mac = (case ac_MACPayload c of None \<Rightarrow> 0
                 | Some pl \<Rightarrow> (if mac_only pl then payload_sizes (k_payload_size E) (mf_FRMPayload pl) else 0) +
                              payload_sizes (k_payload_size E) (mf_FOpts pl))
      in (Inr (), call_out (HandleDownlinkMetaData
            \<lparr>md_GatewayId = gd_GatewayId (sf_DownlinkFrame (ac_Frame c)), md_DevEui = sf_DevEui (ac_Frame c),
             md_MulticastGroupId = sf_MulticastGroupId (ac_Frame c),
             md_MessageType = (if ac_MType c \<in> {JoinAccept, UnconfirmedDataDown, ConfirmedDataDown} then Some (ac_MType c) else None),
             md_PhyPayloadByteCount = of_nat (case ac_Item c of None \<Rightarrow> 0 | Some i \<Rightarrow> length (di_PhyPayload i)),
             md_MacCommandByteCount = of_nat mac, md_ApplicationPayloadByteCount = of_nat app\<rparr>) c))"

definition logDownlinkFrame :: "('db, 's, 'v) ack_env \<Rightarrow> ('db, 's) ack_context task" where
  "logDownlinkFrame E c =
     (if sf_DevEui (ac_Frame c) = [] then (Inr (), c)
      else case ac_Item c of
        None \<Rightarrow> (Inl (Panic ''nil DownlinkFrameItem''), c)
      | Some item \<Rightarrow> (case k_log_error E (ac_Frame c) item of None \<Rightarrow> (Inr (), c) | Some e \<Rightarrow> (Inl e, c)))"

section \<open>The flow\<close>

definition application_tasks :: "('db, 's, 'v) ack_env \<Rightarrow> ('db, 's) ack_context task list" where
  "application_tasks E =
     [lockDevice E, getDeviceSession E, getDeviceQueueItem E,
      forUnconfirmedDownlink [deleteDeviceQueueItem E],
      forConfirmedDownlink [getDeviceProfile E, setDeviceQueueItemPending E, setDeviceSessionConfFcnt],
      incrementAFCntDown, saveDeviceSession E, sendTxAckToApplicationServer E]"

definition handleDownlinkTXAckTasks :: "('db, 's, 'v) ack_env \<Rightarrow> ('db, 's) ack_context task list" where
  "handleDownlinkTXAckTasks E =
     [getToken, getDownlinkFrame E, decodePHYPayload E,
      onError
        [forApplicationPayload [sendErrorToApplicationServerOnLastFrame E],
         forMACOnlyPayload [sendErrorToApplicationServerOnLastFrame E],
         forMulticastPayload [deleteMulticastQueueItem E],
         saveDownlinkFrames E, sendDownlinkFrame E],
      onNoError
        [Transaction (k_Session E) (run_tasks [forApplicationPayload (application_tasks E)]),
         forMACOnlyPayload [getDeviceSession E, incrementNFcntDown, saveDeviceSession E],
         forMulticastPayload [deleteMulticastQueueItem E],
         sendDownlinkMetaDataToNetworkController E,
         logDownlinkFrame E]]"

fun ack_status :: "tx_ack_item list \<Rightarrow> tx_ack_status \<Rightarrow> tx_ack_status" where
  "ack_status [] st = st"
| "ack_status (i # is) st =
     (if ai_Status i = TxAckStatus_OK then TxAckStatus_OK else ack_status is (ai_Status i))"

definition ack_outcome :: "('db, 's, 'v) ack_env \<Rightarrow> downlink_tx_ack \<Rightarrow> tx_ack_status res" where
  "ack_outcome E a =
     (if ta_Items a \<noteq> [] then Inr (ack_status (ta_Items a) TxAckStatus_OK)
      else if ta_Error a = [] then Inr TxAckStatus_OK
      else case k_status E (ta_Error a) of
        Some st \<Rightarrow> Inr st
      | None \<Rightarrow> Inl (Errorf ''invalid ack error''))"

text \<open>\<open>c\<close> holds the world and the zero values of the context.\<close>

definition HandleDownlinkTXAck ::
  "('db, 's, 'v) ack_env \<Rightarrow> downlink_tx_ack \<Rightarrow> ('db, 's) ack_context \<Rightarrow> unit res \<times> ('db, 's) ack_context" where
  "HandleDownlinkTXAck E a c =
     (case ack_outcome E a of
        Inl e \<Rightarrow> (Inl e, c)
      | Inr st \<Rightarrow> flow_handle (handleDownlinkTXAckTasks E) (c\<lparr>ac_TXAck := a, ac_Status := st\<rparr>))"

text \<open>The home network runs the same tasks when a roaming partner has taken the frame; the abort is an error here.\<close>

definition HandleRoamingTxAck ::
  "('db, 's, 'v) ack_env \<Rightarrow> downlink_tx_ack \<Rightarrow> ('db, 's) ack_context \<Rightarrow> unit res \<times> ('db, 's) ack_context" where
  "HandleRoamingTxAck E a c =
     run_tasks (handleDownlinkTXAckTasks E) (c\<lparr>ac_TXAck := a, ac_Status := TxAckStatus_OK\<rparr>)"

section \<open>What an acknowledgement does\<close>

lemma sendTxAck_ok:
  "sendTxAckToApplicationServer E c = (Inr u, c') \<longleftrightarrow>
     GetASClientForRoutingProfileID (k_RoutingProfiles E) (k_pool E)
       (bytes_uuid (sf_RoutingProfileId (ac_Frame c))) (w_DB c) = Inr () \<and>
     c' = call_out (HandleTxAck (sf_DevEui (ac_Frame c)) (qi_FCnt (ac_QueueItem c))
            (gd_GatewayId (sf_DownlinkFrame (ac_Frame c))) (ack_tx_info c)) c"
  by (auto simp: sendTxAckToApplicationServer_def split: sum.splits)

lemma application_unconfirmed:
  assumes "run_tasks (application_tasks E) c = (Inr u, c')" and "ac_MType c = UnconfirmedDataDown"
  shows "\<exists>ds qi db s.
    GetDeviceSession (k_Redis E) (k_Sessions E) (ack_dev_eui c) (w_Redis c) = Inr ds \<and>
    DeleteDeviceQueueItem (k_Queue E) (sf_DeviceQueueItemId (ac_Frame c)) (w_DB c) = (Inr (), db) \<and>
    SaveDeviceSession (k_Redis E) (k_Sessions E) (k_TTL E) (count_application_frame ds) (w_Redis c) = (Inr (), s) \<and>
    GetDeviceQueueItem (k_Queue E) (sf_DeviceQueueItemId (ac_Frame c)) (w_DB c) = Inr qi \<and>
    c' = c\<lparr>w_DB := db, w_Redis := s, ac_DeviceSession := count_application_frame ds, ac_QueueItem := qi,
      w_Calls := w_Calls c @ [HandleTxAck (sf_DevEui (ac_Frame c)) (qi_FCnt qi) (gd_GatewayId (sf_DownlinkFrame (ac_Frame c))) (ack_tx_info c)]\<rparr>"
  using assms(1)
  by (auto simp: application_tasks_def tasks_ok lockDevice_def getDeviceSession_def getDeviceQueueItem_def
      forUnconfirmedDownlink_def forConfirmedDownlink_def deleteDeviceQueueItem_def incrementAFCntDown_def
      saveDeviceSession_def ack_dev_eui_def assms(2) sendTxAck_ok call_out_def ack_tx_info_def)

lemma indexed_session: "indexed k C \<Longrightarrow> session_at k C e = Some d \<Longrightarrow> ds_DevEUI d = e"
proof -
  assume i: "indexed k C" and at: "session_at k C e = Some d"
  then have "c_val C (deviceSessionKey e) \<noteq> None" by (auto simp: session_at_def split: option.splits)
  then show "ds_DevEUI d = e" using i at unfolding indexed_def by fastforce
qed


text \<open>The tasks after the frame was found end the flow with an error, or not at all.\<close>

lemma no_abort_ack_tasks [no_abort_intros]:
  "no_abort (getDeviceProfile E)" "no_abort (saveDownlinkFrames E)" "no_abort (sendDownlinkFrame E)"
  "no_abort (sendErrorToApplicationServerOnLastFrame E)" "no_abort (sendTxAckToApplicationServer E)"
  "no_abort (sendDownlinkMetaDataToNetworkController E)" "no_abort (setDeviceQueueItemPending E)"
  "no_abort (deleteDeviceQueueItem E)" "no_abort (deleteMulticastQueueItem E)"
  "no_abort (saveDeviceSession E)"
  unfolding no_abort_def
  by (auto simp: getDeviceProfile_def saveDownlinkFrames_def sendDownlinkFrame_def Let_def wrapping_def
      sendErrorToApplicationServerOnLastFrame_def sendTxAckToApplicationServer_def setDeviceQueueItemPending_def
      deleteDeviceQueueItem_def deleteMulticastQueueItem_def saveDeviceSession_def
      sendDownlinkMetaDataToNetworkController_def split: prod.splits sum.splits option.splits if_splits)

lemma no_abort_after_frame:
  assumes "\<And>f i. k_log_error E f i \<noteq> Some ErrAbort"
  shows "no_abort (run_tasks (drop 3 (handleDownlinkTXAckTasks E)))"
proof -
  have [no_abort_intros]: "no_abort (logDownlinkFrame E)"
    using assms by (auto simp: no_abort_def logDownlinkFrame_def split: option.splits)
  show ?thesis
    by (auto simp: handleDownlinkTXAckTasks_def application_tasks_def onError_def onNoError_def
        forApplicationPayload_def forMACOnlyPayload_def forMulticastPayload_def forUnconfirmedDownlink_def
        forConfirmedDownlink_def lockDevice_def getDeviceSession_def getDeviceQueueItem_def
        setDeviceSessionConfFcnt_def incrementAFCntDown_def incrementNFcntDown_def intro!: no_abort_intros)
qed

text \<open>A flow that got past the look-up of the frame.\<close>

lemma frame_was_found:
  assumes "HandleDownlinkTXAck E a c = (Inr (), c')" and "ack_outcome E a = Inr st"
    and "GetDownlinkFrame (k_Redis E) (k_Frames E) (ack_token a (ac_Token c)) (w_Redis c) = Inr frame"
    and "k_decode E (di_PhyPayload (acked_item (ta_Items a) (gd_Items (sf_DownlinkFrame frame)))) = (mt, Some (MACFrame pl))"
    and "\<And>f i. k_log_error E f i \<noteq> Some ErrAbort"
  shows "run_tasks (drop 3 (handleDownlinkTXAckTasks E))
    (c\<lparr>ac_TXAck := a, ac_Status := st, ac_Token := ack_token a (ac_Token c), ac_Frame := frame,
       ac_Item := Some (acked_item (ta_Items a) (gd_Items (sf_DownlinkFrame frame))),
       ac_MType := mt, ac_MACPayload := Some pl\<rparr>) = (Inr (), c')"
proof -
  let ?rest = "drop 3 (handleDownlinkTXAckTasks E)"
  have "flow_handle (getToken # getDownlinkFrame E # decodePHYPayload E # ?rest) (c\<lparr>ac_TXAck := a, ac_Status := st\<rparr>) = (Inr (), c')"
    using assms(1,2) by (simp add: HandleDownlinkTXAck_def handleDownlinkTXAckTasks_def)
  then have "flow_handle ?rest
    (c\<lparr>ac_TXAck := a, ac_Status := st, ac_Token := ack_token a (ac_Token c), ac_Frame := frame,
       ac_Item := Some (acked_item (ta_Items a) (gd_Items (sf_DownlinkFrame frame))),
       ac_MType := mt, ac_MACPayload := Some pl\<rparr>) = (Inr (), c')"
    using assms(3,4)
    by (auto simp: flow_handle_def run_tasks.simps getToken_def update_ctx_def getDownlinkFrame_def
        decodePHYPayload_def Let_def split: if_splits)
  then show ?thesis using flow_handle_ok[OF no_abort_after_frame[OF assms(5)]] by simp
qed

text \<open>
  C26: a transmitted unconfirmed downlink is settled. When the positive acknowledgement of an
  unconfirmed frame with an application payload is handled without an error, the queue item of
  the frame and no other is gone, the stored session of the device has its downlink counter
  increased by one (the network counter for LoRaWAN 1.0, the application counter for 1.1) and is
  otherwise what its message carries, and the application-server has been told.
\<close>

theorem unconfirmed_downlink_is_settled:
  assumes "session_store (k_Redis E) holds (k_Sessions E) (k_TTL E)"
    and "sql_transactions (k_Queue E) rows columns keyed (k_Session E) base"
    and "ack_outcome E a = Inr TxAckStatus_OK"
    and "GetDownlinkFrame (k_Redis E) (k_Frames E) (ack_token a (ac_Token c)) (w_Redis c) = Inr frame"
    and "sf_DevEui frame \<noteq> []" "sf_MulticastGroupId frame = []"
    and "k_decode E (di_PhyPayload (acked_item (ta_Items a) (gd_Items (sf_DownlinkFrame frame)))) =
           (UnconfirmedDataDown, Some (MACFrame pl))" "\<not> mac_only pl"
    and "indexed (k_Sessions E) (holds (w_Redis c))"
    and "\<And>f i. k_log_error E f i \<noteq> Some ErrAbort"
    and "HandleDownlinkTXAck E a c = (Inr (), c')"
  shows "\<exists>ds qi tx md. qi \<in># rows (w_DB c) \<and> qi_ID qi = sf_DeviceQueueItemId frame \<and>
    rows (w_DB c') = {#r \<in># rows (w_DB c). qi_ID r \<noteq> sf_DeviceQueueItemId frame#} \<and>
    session_at (k_Sessions E) (holds (w_Redis c)) (bytes_eui64 (sf_DevEui frame)) = Some ds \<and>
    session_at (k_Sessions E) (holds (w_Redis c')) (bytes_eui64 (sf_DevEui frame)) =
      Some (deviceSessionFromPB (deviceSessionToPB
        (if GetMACVersion ds = LoRaWAN1_0 then ds\<lparr>ds_NFCntDown := ds_NFCntDown ds + 1\<rparr>
         else ds\<lparr>ds_AFCntDown := ds_AFCntDown ds + 1\<rparr>))) \<and>
    w_Calls c' = w_Calls c @ [HandleTxAck (sf_DevEui frame) (qi_FCnt qi) (gd_GatewayId (sf_DownlinkFrame frame)) tx,
      HandleDownlinkMetaData md]"
proof -
  define c2 where "c2 = c\<lparr>ac_TXAck := a, ac_Status := TxAckStatus_OK, ac_Token := ack_token a (ac_Token c), ac_Frame := frame,
       ac_Item := Some (acked_item (ta_Items a) (gd_Items (sf_DownlinkFrame frame))),
       ac_MType := UnconfirmedDataDown, ac_MACPayload := Some pl\<rparr>"
  have "run_tasks (drop 3 (handleDownlinkTXAckTasks E)) c2 = (Inr (), c')"
    unfolding c2_def using frame_was_found[OF assms(11,3,4,7,10)] .
  then obtain w1 w2 w3 where t:
    "on_DB (sx_Begin (k_Session E)) c2 = (Inr (), w1)"
    "run_tasks [forApplicationPayload (application_tasks E)] w1 = (Inr (), w2)"
    "on_DB (sx_Commit (k_Session E)) w2 = (Inr (), w3)"
    "run_tasks [forMACOnlyPayload [getDeviceSession E, incrementNFcntDown, saveDeviceSession E],
         forMulticastPayload [deleteMulticastQueueItem E],
         sendDownlinkMetaDataToNetworkController E, logDownlinkFrame E] w3 = (Inr (), c')"
    by (auto simp: handleDownlinkTXAckTasks_def onError_def onNoError_def task_when_ok run_tasks_ok Transaction_ok c2_def)
  from t(1) obtain db1 where b: "sx_Begin (k_Session E) (w_DB c2) = (Inr (), db1)" "w1 = c2\<lparr>w_DB := db1\<rparr>"
    by (auto simp: on_DB_ok)
  have "run_tasks (application_tasks E) w1 = (Inr (), w2)"
    using t(2) assms(5,8) by (auto simp: run_tasks_ok forApplicationPayload_def task_when_ok b c2_def)
  from application_unconfirmed[OF this] obtain ds qi db2 s2 where ap:
    "GetDeviceSession (k_Redis E) (k_Sessions E) (bytes_eui64 (sf_DevEui frame)) (w_Redis c) = Inr ds"
    "DeleteDeviceQueueItem (k_Queue E) (sf_DeviceQueueItemId frame) db1 = (Inr (), db2)"
    "SaveDeviceSession (k_Redis E) (k_Sessions E) (k_TTL E) (count_application_frame ds) (w_Redis c) = (Inr (), s2)"
    "GetDeviceQueueItem (k_Queue E) (sf_DeviceQueueItemId frame) db1 = Inr qi"
    "w2 = w1\<lparr>w_DB := db2, w_Redis := s2, ac_DeviceSession := count_application_frame ds, ac_QueueItem := qi,
      w_Calls := w_Calls c @ [HandleTxAck (sf_DevEui frame) (qi_FCnt qi) (gd_GatewayId (sf_DownlinkFrame frame)) (ack_tx_info w1)]\<rparr>"
    by (auto simp: b c2_def ack_dev_eui_def)
  from t(3) obtain db3 where k: "sx_Commit (k_Session E) db2 = (Inr (), db3)" "w3 = w2\<lparr>w_DB := db3\<rparr>"
    by (auto simp: on_DB_ok ap)
  have fin: "w_DB c' = db3 \<and> w_Redis c' = s2 \<and> (\<exists>md. w_Calls c' = w_Calls w2 @ [HandleDownlinkMetaData md])"
    using t(4) assms(6,8)
    by (auto simp: run_tasks_ok forMACOnlyPayload_def forMulticastPayload_def task_when_ok k ap b c2_def
        sendDownlinkMetaDataToNetworkController_def logDownlinkFrame_def Let_def call_out_def split: if_splits option.splits)
  note X = sql_transactions.axioms(1)[OF assms(2)]
  have rows: "rows (w_DB c') = {#r \<in># rows (w_DB c). qi_ID r \<noteq> sf_DeviceQueueItemId frame#}"
    using sql_transactions.begin_ok[OF assms(2) b(1)] sql_transactions.commit_ok[OF assms(2) k(1)]
      sql_table.deleted[OF X ap(2)[unfolded DeleteDeviceQueueItem_def]] fin by (simp add: c2_def)
  obtain rs where "mset rs = rows (w_DB c)" "filter (\<lambda>r. qi_ID r = sf_DeviceQueueItemId frame) rs \<noteq> []"
      "qi = hd (filter (\<lambda>r. qi_ID r = sf_DeviceQueueItemId frame) rs)"
    using sql_table.get_row[OF X ap(4)[unfolded GetDeviceQueueItem_def]] sql_transactions.begin_ok[OF assms(2) b(1)]
    by (auto simp: c2_def)
  then have qi: "qi \<in># rows (w_DB c) \<and> qi_ID qi = sf_DeviceQueueItemId frame"
    using hd_in_set[of "filter (\<lambda>r. qi_ID r = sf_DeviceQueueItemId frame) rs"] by (auto simp flip: set_mset_mset)
  have at: "session_at (k_Sessions E) (holds (w_Redis c)) (bytes_eui64 (sf_DevEui frame)) = Some ds"
    using session_store.GetDeviceSession_at(1)[OF assms(1) refl ap(1)] .
  then have "ds_DevEUI (count_application_frame ds) = bytes_eui64 (sf_DevEui frame)"
    using indexed_session[OF assms(9)] by (auto simp: count_application_frame_def)
  then have "session_at (k_Sessions E) (holds (w_Redis c')) (bytes_eui64 (sf_DevEui frame)) =
      Some (deviceSessionFromPB (deviceSessionToPB (count_application_frame ds)))"
    using session_store.Save_stores(1)[OF assms(1) ap(3)] fin by simp
  moreover obtain md where "w_Calls c' = w_Calls c @ [HandleTxAck (sf_DevEui frame) (qi_FCnt qi)
      (gd_GatewayId (sf_DownlinkFrame frame)) (ack_tx_info w1), HandleDownlinkMetaData md]"
    using fin by (auto simp: ap)
  ultimately show ?thesis using rows qi at unfolding count_application_frame_def by blast
qed

section \<open>A sample\<close>

definition sample_frame :: stored_frame where
  "sample_frame =
     \<lparr>sf_Token = 5, sf_DevEui = eui64_bytes 7, sf_RoutingProfileId = uuid_bytes 0, sf_DeviceQueueItemId = 1,
      sf_MulticastGroupId = [], sf_MulticastQueueItemId = 0, sf_EncryptedFopts = False, sf_NwkSEncKey = [],
      sf_DownlinkFrame = empty_frame\<lparr>gd_Items := [\<lparr>di_PhyPayload = [0x60], di_TxInfo = None\<rparr>]\<rparr>\<rparr>"

definition sample_mac_frame :: mac_frame where
  "sample_mac_frame = \<lparr>mf_DevAddr = 0x01020304, mf_FCtrl = no_fctrl, mf_FCnt = 10, mf_FOpts = [], mf_FPort = Some 20, mf_FRMPayload = []\<rparr>"

definition sample_ack_env :: "(memory_db, memory, redis_value) ack_env" where
  "sample_ack_env =
     \<lparr>k_Redis = mem_redis, k_Sessions = session_values, k_Frames = frame_values, k_Profiles = device_profile_values,
      k_TTL = 1000, k_Queue = memory_queue, k_Devices = memory_devices, k_DeviceProfiles = memory_profiles,
      k_RoutingProfiles = memory_routing, k_Delete_Multicast = (\<lambda>_ db. (Inl ErrDoesNotExist, db)),
      k_Session = memory_session, k_pool = (\<lambda>_. Inr ()), k_send = (\<lambda>_ _. Inr ()), k_status = (\<lambda>_. None),
      k_decode = (\<lambda>_. (UnconfirmedDataDown, Some (MACFrame sample_mac_frame))), k_payload_size = (\<lambda>_. Inr 0),
      k_log_error = (\<lambda>_ _. None), k_now = 0\<rparr>"

definition sample_ack :: downlink_tx_ack where
  "sample_ack = \<lparr>ta_Token = 5, ta_DownlinkId = [], ta_Error = [], ta_Items = []\<rparr>"

definition sample_ack_context :: "(memory_db, memory) ack_context" where
  "sample_ack_context =
     \<lparr>w_DB = (sample_tables, sample_tables),
      w_Redis = memory_7\<lparr>m_val := (m_val memory_7)(downlinkFrameKey 5 \<mapsto> (FrameValue sample_frame, 1000))\<rparr>,
      w_Calls = [], ac_Token = 0, ac_TXAck = sample_ack, ac_Status = TxAckStatus_OK, ac_Frame = sample_frame,
      ac_Item = None, ac_DeviceSession = zero_device_session, ac_DeviceProfile = zero_device_profile,
      ac_QueueItem = sample_item, ac_MType = JoinRequest, ac_MACPayload = None\<rparr>"

lemmas run_ack = HandleDownlinkTXAck_def handleDownlinkTXAckTasks_def application_tasks_def ack_outcome_def
  getToken_def getDownlinkFrame_def decodePHYPayload_def onError_def onNoError_def forApplicationPayload_def
  forMACOnlyPayload_def forMulticastPayload_def forUnconfirmedDownlink_def forConfirmedDownlink_def
  lockDevice_def getDeviceSession_def getDeviceQueueItem_def deleteDeviceQueueItem_def incrementAFCntDown_def
  saveDeviceSession_def sendTxAckToApplicationServer_def sendDownlinkMetaDataToNetworkController_def logDownlinkFrame_def
  ack_token_def acked_item_def mac_only_def ack_dev_eui_def count_application_frame_def

lemmas run_stores = GetDownlinkFrame_def GetDeviceSession_def SaveDeviceSession_def PendingRejoinDeviceSession_def
  GetDeviceQueueItem_def DeleteDeviceQueueItem_def GetDevice_def affected_def sqlx_Get_def
  GetASClientForRoutingProfileID_def GetRoutingProfile_def memory_tables memory_session_def
  mem_redis_def mem_val_def mem_set_def value_codecs

lemma sample_ack_runs:
  "\<exists>c'. HandleDownlinkTXAck sample_ack_env sample_ack sample_ack_context = (Inr (), c')"
  by (simp add: run_flow run_ack run_stores sample_ack_env_def sample_ack_def sample_ack_context_def memory_7_def mem_empty_def
     sample_frame_def sample_mac_frame_def empty_frame_def sample_tables_def sample_item_def sample_routing_def zero_device_def )

lemma sample_codec: "k_Sessions sample_ack_env = session_values"
  by (simp add: sample_ack_env_def)

theorem unconfirmed_downlink_is_settled_witness:
  "\<exists>c'. HandleDownlinkTXAck sample_ack_env sample_ack sample_ack_context = (Inr (), c') \<and>
     queue_rows (w_DB c') = {#sample_item\<lparr>qi_ID := 2, qi_FCnt := 11\<rparr>#} \<and>
     (\<exists>ds. session_at session_values (mem_holds (w_Redis c')) 7 = Some ds \<and>
       ds = deviceSessionFromPB (deviceSessionToPB (device_7\<lparr>ds_NFCntDown := 11\<rparr>)))"
proof -
  obtain c' where c': "HandleDownlinkTXAck sample_ack_env sample_ack sample_ack_context = (Inr (), c')"
    using sample_ack_runs by blast
  have at: "session_at session_values (mem_holds (w_Redis sample_ack_context)) 7 = Some device_7"
    by (simp add: session_at_def mem_val_def sample_ack_context_def memory_7_def mem_empty_def session_values_def)
  have ix: "indexed session_values (mem_holds (w_Redis sample_ack_context))"
    using memory_7_indexed by (auto simp: sample_ack_context_def indexed_def session_at_def mem_val_def mem_set_def)
  have "\<exists>ds qi tx md. qi \<in># queue_rows (w_DB sample_ack_context) \<and> qi_ID qi = sf_DeviceQueueItemId sample_frame \<and>
    queue_rows (w_DB c') = {#r \<in># queue_rows (w_DB sample_ack_context). qi_ID r \<noteq> sf_DeviceQueueItemId sample_frame#} \<and>
    session_at session_values (mem_holds (w_Redis sample_ack_context)) (bytes_eui64 (sf_DevEui sample_frame)) = Some ds \<and>
    session_at session_values (mem_holds (w_Redis c')) (bytes_eui64 (sf_DevEui sample_frame)) =
      Some (deviceSessionFromPB (deviceSessionToPB
        (if GetMACVersion ds = LoRaWAN1_0 then ds\<lparr>ds_NFCntDown := ds_NFCntDown ds + 1\<rparr>
         else ds\<lparr>ds_AFCntDown := ds_AFCntDown ds + 1\<rparr>))) \<and>
    w_Calls c' = w_Calls sample_ack_context @ [HandleTxAck (sf_DevEui sample_frame) (qi_FCnt qi)
      (gd_GatewayId (sf_DownlinkFrame sample_frame)) tx, HandleDownlinkMetaData md]"
    by (rule unconfirmed_downlink_is_settled[OF _ _ _ _ _ _ _ _ _ _ c', of mem_holds queue_rows "\<lambda>r. r"
        "mem_keyed (\<lambda>k r. r\<lparr>qi_ID := k\<rparr>)" "mem_rows (\<lambda>db. t_queue (snd db))" sample_frame sample_mac_frame,
        unfolded sample_codec])
     (use ix memory_sessions.session_store_axioms memory_queue.sql_transactions_axioms in
       \<open>simp_all add: sample_ack_env_def ack_outcome_def sample_ack_def GetDownlinkFrame_def ack_token_def mem_redis_def
         mem_val_def sample_ack_context_def memory_7_def mem_empty_def frame_values_def sample_frame_def mac_only_def sample_mac_frame_def\<close>)
  then show ?thesis using c' at
    by (auto simp: sample_frame_def GetMACVersion_def device_7_def sample_ack_context_def mem_rows_def sample_tables_def sample_item_def)
qed

section \<open>Negative acknowledgements\<close>

definition beyond_frames :: "('v, 'm) contents \<Rightarrow> ('v, 'm) contents \<Rightarrow> bool" where
  "beyond_frames C C' \<longleftrightarrow> c_set C' = c_set C \<and> c_list C' = c_list C \<and>
     (\<forall>k. (\<forall>t. k \<noteq> downlinkFrameKey t) \<longrightarrow> c_val C' k = c_val C k)"

lemma beyond_frames_refl [simp]: "beyond_frames C C"
  by (simp add: beyond_frames_def)












end
