(* ===== verification/UplinkData.thy ===== *)
theory UplinkData
  imports MemoryWorld
begin

text \<open>
  The handling of a data uplink (\<open>internal/uplink/data/data.go\<close>) with the filters on the
  receiving gateways (\<open>internal/helpers/filters.go\<close>): the session is found and the frame checked,
  mac-commands are grouped by identifier and answered, the application-server is told, the frame
  counter is synchronised and the session saved, an acknowledgement settles the pending queue
  item, and a response is scheduled.

  \<open>up_env\<close> holds what the flow runs on. The library's frame decoding, decryption and MIC
  validation are functions of it; the passive-roaming forwarding of a foreign device and the
  response flow are the functions \<open>u_HandleRoamingFNS\<close> and \<open>u_HandleResponse\<close>. Logging is left out.
  Requests the code sends in a goroutine are recorded as made at that point.
\<close>

section \<open>Receiving gateways\<close>

definition gateway_is_private :: "('p, 'r) rx_packet \<Rightarrow> rx_info \<Rightarrow> bool" where
  "gateway_is_private p rxInfo = (gomap_get (rp_GatewayIsPrivate p) (GetGatewayID rxInfo) = Some True)"

definition gateway_service_profile :: "('p, 'r) rx_packet \<Rightarrow> rx_info \<Rightarrow> uuid" where
  "gateway_service_profile p rxInfo =
     (case gomap_get (rp_GatewayServiceProfile p) (GetGatewayID rxInfo) of None \<Rightarrow> 0 | Some i \<Rightarrow> i)"

definition FilterRxInfoByPublicOnly :: "bool \<Rightarrow> ('p, 'r) rx_packet \<Rightarrow> ('p, 'r) rx_packet res" where
  "FilterRxInfoByPublicOnly forceGwsPrivate rxPacket =
     (if forceGwsPrivate then Inl ErrNoElements
      else let rxInfoSet = filter (\<lambda>rxInfo. \<not> gateway_is_private rxPacket rxInfo) (rp_RXInfoSet rxPacket) in
        if rxInfoSet = [] then Inl ErrNoElements else Inr (rxPacket\<lparr>rp_RXInfoSet := rxInfoSet\<rparr>))"

definition FilterRxInfoByServiceProfileID ::
  "bool \<Rightarrow> uuid \<Rightarrow> ('p, 'r) rx_packet \<Rightarrow> ('p, 'r) rx_packet res" where
  "FilterRxInfoByServiceProfileID forceGwsPrivate serviceProfileID rxPacket =
     (let rxInfoSet = filter (\<lambda>rxInfo. \<not> (gateway_is_private rxPacket rxInfo \<or> forceGwsPrivate) \<or>
            gateway_service_profile rxPacket rxInfo = serviceProfileID) (rp_RXInfoSet rxPacket)
      in if rxInfoSet = [] then Inl ErrNoElements else Inr (rxPacket\<lparr>rp_RXInfoSet := rxInfoSet\<rparr>))"

section \<open>Context\<close>

type_synonym 'r up_packet = "(phy, 'r) rx_packet"

text \<open>
  \<open>ux_MACPayload\<close> is the payload of the packet: the code keeps one pointer to it, so writing goes
  through \<open>set_mac_payload\<close>.
\<close>

record ('db, 's, 'r) uplink_context = "('db, 's) world" +
  ux_RXPacket :: "'r up_packet"
  ux_MACPayload :: mac_frame
  ux_DeviceSession :: device_session
  ux_DeviceProfile :: device_profile
  ux_ServiceProfile :: service_profile
  ux_MACCommandResponses :: "mac_block list"
  ux_MustSendDownlink :: bool

record ('db, 's, 'v, 'r) up_env =
  u_Redis :: "('s, 'v, eui64) redis"
  u_Sessions :: "'v session_codec"
  u_Blocks :: "'v block_codec"
  u_RxInfo :: "'v rx_info_codec"
  u_DeviceProfileCodec :: "(device_profile, 'v) codec"
  u_ServiceProfileCodec :: "(service_profile, 'v) codec"
  u_TTL :: duration
  u_Queue :: "'db queue_table"
  u_Devices :: "('db, device) table"
  u_DeviceProfiles :: "('db, device_profile) table"
  u_ServiceProfiles :: "('db, service_profile) table"
  u_RoutingProfiles :: "('db, routing_profile) table"
  u_Session :: "'db sql_session"
  u_lock :: 'v
  u_pool :: "routing_profile \<Rightarrow> unit res"
  u_Band :: band
  u_UplinkChannelIndex :: "u32 \<Rightarrow> int \<Rightarrow> int res"
  u_ReceiveDelay2 :: duration
  u_classCDownlinkLockDuration :: duration
  u_disableMACCommands :: bool
  u_ForceGwsPrivate :: bool
  u_has_controller :: bool
  u_roamingEnabled :: bool
  u_IsNetID :: "devaddr \<Rightarrow> bool"
  u_validate :: "phy \<Rightarrow> mic_check"
  u_DecodeFOpts :: "mac_frame \<Rightarrow> mac_frame res"
  u_DecryptFOpts :: "aeskey \<Rightarrow> mac_frame \<Rightarrow> mac_frame res"
  u_DecryptFRMPayload :: "aeskey \<Rightarrow> mac_frame \<Rightarrow> mac_frame res"
  u_log_error :: "'r up_packet \<Rightarrow> error option"
  u_phy_size :: "phy \<Rightarrow> nat res"
  u_payload_size :: "payload \<Rightarrow> nat res"
  u_marshal_command :: "mac_command \<Rightarrow> byte list res"
  u_HandleDownlinkACK :: "byte list \<Rightarrow> u32 \<Rightarrow> error option"
  u_aes :: "byte list \<Rightarrow> byte list \<Rightarrow> nat \<Rightarrow> byte"
  u_marshal_addr :: "devaddr \<Rightarrow> byte list res"
  u_now :: instant
  u_HandleRoamingFNS :: "'r up_packet \<Rightarrow> ('db, 's) world \<Rightarrow> unit res \<times> ('db, 's) world"
  u_HandleResponse :: "'r up_packet \<Rightarrow> service_profile \<Rightarrow> device_session \<Rightarrow> bool \<Rightarrow> bool \<Rightarrow> bool \<Rightarrow>
    mac_block list \<Rightarrow> ('db, 's) world \<Rightarrow> unit res \<times> ('db, 's) world"

type_synonym ('db, 's, 'r) up_task = "('db, 's, 'r) uplink_context task"

definition set_mac_payload :: "mac_frame \<Rightarrow> ('db, 's, 'r) uplink_context \<Rightarrow> ('db, 's, 'r) uplink_context" where
  "set_mac_payload m c =
     c\<lparr>ux_MACPayload := m,
       ux_RXPacket := (ux_RXPacket c)\<lparr>rp_PHYPayload := (rp_PHYPayload (ux_RXPacket c))\<lparr>phy_MACPayload := Some (MACFrame m)\<rparr>\<rparr>\<rparr>"

text \<open>A flow of another component, on the world the context extends.\<close>

definition in_world :: "(('db, 's) world \<Rightarrow> unit res \<times> ('db, 's) world) \<Rightarrow> ('db, 's, 'r) up_task" where
  "in_world f c =
     (case f (world.truncate c) of
        (r, w) \<Rightarrow> (r, c\<lparr>w_DB := w_DB w, w_Redis := w_Redis w, w_Calls := w_Calls w\<rparr>))"

section \<open>The session of a frame\<close>

definition setContextFromDataPHYPayload :: "('db, 's, 'r) up_task" where
  "setContextFromDataPHYPayload c =
     (case phy_MACPayload (rp_PHYPayload (ux_RXPacket c)) of
        Some (MACFrame m) \<Rightarrow> (Inr (), c\<lparr>ux_MACPayload := m\<rparr>)
      | _ \<Rightarrow> (Inl (Errorf ''expected *lorawan.MACPayload''), c))"

definition IsRoamingDevAddr :: "bool \<Rightarrow> (devaddr \<Rightarrow> bool) \<Rightarrow> devaddr \<Rightarrow> bool" where
  "IsRoamingDevAddr roamingEnabled isNetID devAddr \<longleftrightarrow> roamingEnabled \<and> \<not> isNetID devAddr"

definition handlePassiveRoamingDevice :: "('db, 's, 'v, 'r) up_env \<Rightarrow> ('db, 's, 'r) up_task" where
  "handlePassiveRoamingDevice E c =
     (if IsRoamingDevAddr (u_roamingEnabled E) (u_IsNetID E) (mf_DevAddr (ux_MACPayload c))
      then (Inl ErrAbort, snd (in_world (u_HandleRoamingFNS E (ux_RXPacket c)) c))
      else (Inr (), c))"

definition report_type :: "error \<Rightarrow> error_type option" where
  "report_type e =
     (case e of
        ErrFrameCounterReset \<Rightarrow> Some DATA_UP_FCNT_RESET
      | ErrInvalidMIC \<Rightarrow> Some DATA_UP_MIC
      | ErrFrameCounterRetransmission \<Rightarrow> Some DATA_UP_FCNT_RETRANSMISSION
      | _ \<Rightarrow> None)"

text \<open>Telling the application-server is best effort.\<close>

definition report_uplink_error ::
  "('db, 's, 'v, 'r) up_env \<Rightarrow> device_session \<Rightarrow> error \<Rightarrow> ('db, 's, 'r) uplink_context \<Rightarrow> ('db, 's, 'r) uplink_context" where
  "report_uplink_error E ds e c =
     (case report_type e of
        None \<Rightarrow> c
      | Some t \<Rightarrow>
          (case GetASClientForRoutingProfileID (u_RoutingProfiles E) (u_pool E) (ds_RoutingProfileID ds) (w_DB c) of
             Inl _ \<Rightarrow> c
           | Inr _ \<Rightarrow> call_out (HandleError (eui64_bytes (ds_DevEUI ds)) (mf_FCnt (ux_MACPayload c)) t) c))"

definition getDeviceSessionForPHYPayload :: "('db, 's, 'v, 'r) up_env \<Rightarrow> ('db, 's, 'r) up_task" where
  "getDeviceSessionForPHYPayload E c =
     (let p = ux_RXPacket c; pl = ux_MACPayload c in
      case rp_TXInfo p of
        None \<Rightarrow> (Inl (Panic ''nil TXInfo''), c)
      | Some txInfo \<Rightarrow>
         (case u_UplinkChannelIndex E (ut_Frequency txInfo) (rp_DR p) of
            Inl e \<Rightarrow> (Inl (Wrap e ''get channel error''), c)
          | Inr txCh \<Rightarrow>
             (case GetDeviceSessionForPHYPayload (u_Redis E) (u_Sessions E) (u_validate E (rp_PHYPayload p))
                     (MACPayload (mf_DevAddr pl) (mf_FCnt pl)) (rp_DR p) txCh (w_Redis c) of
                ((fCnt, r), s) \<Rightarrow>
                  let c = set_mac_payload (pl\<lparr>mf_FCnt := fCnt\<rparr>) (c\<lparr>w_Redis := s\<rparr>) in
                  (case r of
                     Inl e \<Rightarrow> (Inl (Wrap e ''get device-session error''), c)
                   | Inr (ds, Some e) \<Rightarrow> (Inl (Wrap e ''get device-session error''), report_uplink_error E ds e c)
                   | Inr (ds, None) \<Rightarrow> (Inr (), c\<lparr>ux_DeviceSession := ds\<rparr>)))))"

definition abortOnDeviceIsDisabled :: "('db, 's, 'r) up_task" where
  "abortOnDeviceIsDisabled c = (if ds_IsDisabled (ux_DeviceSession c) then Inl ErrAbort else Inr (), c)"

section \<open>Profiles, lock and filter\<close>

definition up_getDeviceProfile :: "('db, 's, 'v, 'r) up_env \<Rightarrow> ('db, 's, 'r) up_task" where
  "up_getDeviceProfile E c =
     (case GetAndCacheDeviceProfile (u_Redis E) (u_DeviceProfileCodec E) (u_TTL E) (u_DeviceProfiles E)
             (ds_DeviceProfileID (ux_DeviceSession c)) (w_DB c) (w_Redis c) of
        (Inl e, s) \<Rightarrow> (Inl (Wrap e ''get device-profile error''), c\<lparr>w_Redis := s\<rparr>)
      | (Inr dp, s) \<Rightarrow> (Inr (), c\<lparr>w_Redis := s, ux_DeviceProfile := dp\<rparr>))"

definition up_getServiceProfile :: "('db, 's, 'v, 'r) up_env \<Rightarrow> ('db, 's, 'r) up_task" where
  "up_getServiceProfile E c =
     (case GetAndCacheServiceProfile (u_Redis E) (u_ServiceProfileCodec E) (u_TTL E) (u_ServiceProfiles E)
             (ds_ServiceProfileID (ux_DeviceSession c)) (w_DB c) (w_Redis c) of
        (Inl e, s) \<Rightarrow> (Inl (Wrap e ''get service-profile error''), c\<lparr>w_Redis := s\<rparr>)
      | (Inr sp, s) \<Rightarrow> (Inr (), c\<lparr>w_Redis := s, ux_ServiceProfile := sp\<rparr>))"

definition lock_ttl :: "('db, 's, 'v, 'r) up_env \<Rightarrow> device_session \<Rightarrow> duration" where
  "lock_ttl E ds =
     go_int64 ((if ds_RXDelay ds \<noteq> 0 then go_int64 (uint (ds_RXDelay ds) * second) else u_ReceiveDelay2 E) +
               u_classCDownlinkLockDuration E)"

definition setDownlinkDeviceLock :: "('db, 's, 'v, 'r) up_env \<Rightarrow> ('db, 's, 'r) up_task" where
  "setDownlinkDeviceLock E c =
     (if dp_SupportsClassC (ux_DeviceProfile c) then
        wrapping ''set downlink device lock error''
          (on_Redis (rd_Set (u_Redis E) (deviceDownlinkLockKey (ds_DevEUI (ux_DeviceSession c))) (u_lock E)
            (lock_ttl E (ux_DeviceSession c)))) c
      else (Inr (), c))"

definition filterRxInfoByServiceProfile :: "('db, 's, 'v, 'r) up_env \<Rightarrow> ('db, 's, 'r) up_task" where
  "filterRxInfoByServiceProfile E c =
     (case FilterRxInfoByServiceProfileID (u_ForceGwsPrivate E) (ds_ServiceProfileID (ux_DeviceSession c)) (ux_RXPacket c) of
        Inl e \<Rightarrow> (Inl (if e = ErrNoElements then ErrAbort else e), c)
      | Inr p \<Rightarrow> (Inr (), c\<lparr>ux_RXPacket := p\<rparr>))"

section \<open>Mac-commands\<close>

definition decryptFOptsMACCommands :: "('db, 's, 'v, 'r) up_env \<Rightarrow> ('db, 's, 'r) up_task" where
  "decryptFOptsMACCommands E c =
     (if GetMACVersion (ux_DeviceSession c) = LoRaWAN1_0 then
        (case u_DecodeFOpts E (ux_MACPayload c) of
           Inl e \<Rightarrow> (Inl (Wrap e ''decode fOpts to mac-commands error''), c)
         | Inr m \<Rightarrow> (Inr (), set_mac_payload m c))
      else
        (case u_DecryptFOpts E (ds_NwkSEncKey (ux_DeviceSession c)) (ux_MACPayload c) of
           Inl e \<Rightarrow> (Inl (Wrap e ''decrypt fOpts mac-commands error''), c)
         | Inr m \<Rightarrow> (Inr (), set_mac_payload m c)))"

definition decryptFRMPayloadMACCommands :: "('db, 's, 'v, 'r) up_env \<Rightarrow> ('db, 's, 'r) up_task" where
  "decryptFRMPayloadMACCommands E c =
     (if mf_FPort (ux_MACPayload c) = Some 0 then
        (case u_DecryptFRMPayload E (ds_NwkSEncKey (ux_DeviceSession c)) (ux_MACPayload c) of
           Inl e \<Rightarrow> (Inl (Wrap e ''decrypt FRMPayload error''), c)
         | Inr m \<Rightarrow> (Inr (), set_mac_payload m c))
      else (Inr (), c))"

text \<open>Grouping by identifier, the blocks in the order of the first command of each.\<close>

fun add_command :: "mac_command \<Rightarrow> mac_block list \<Rightarrow> mac_block list" where
  "add_command cmd [] = [\<lparr>mb_CID = mc_CID cmd, mb_External = False, mb_MACCommands = [cmd]\<rparr>]"
| "add_command cmd (b # bs) =
     (if mb_CID b = mc_CID cmd then b\<lparr>mb_MACCommands := mb_MACCommands b @ [cmd]\<rparr> # bs
      else b # add_command cmd bs)"

fun group_commands :: "payload list \<Rightarrow> mac_block list \<Rightarrow> mac_block list res" where
  "group_commands [] blocks = Inr blocks"
| "group_commands (MACCommandItem cmd # pls) blocks = group_commands pls (add_command cmd blocks)"
| "group_commands (DataItem _ # pls) blocks = Inl (Errorf ''expected *lorawan.MACCommand'')"

definition must_respond :: "cid \<Rightarrow> bool" where
  "must_respond c \<longleftrightarrow> c = CID_RXTimingSetup \<or> c = CID_RXParamSetup"

definition proprietary :: "cid \<Rightarrow> bool" where
  "proprietary c \<longleftrightarrow> (case c of CID_Other b \<Rightarrow> b \<ge> 0x80 | _ \<Rightarrow> False)"

definition is_panic :: "error \<Rightarrow> bool" where
  "is_panic e \<longleftrightarrow> (case e of Panic _ \<Rightarrow> True | _ \<Rightarrow> False)"

text \<open>An error of a handler is logged and the flow goes on; a panic is not an error.\<close>

definition device_statements :: "('db, 's, 'v, 'r) up_env \<Rightarrow> 'db device_table" where
  "device_statements E =
     \<lparr>tb_GetDevice = GetDevice (u_Devices E), tb_UpdateDevice = UpdateDevice (u_Devices E) (u_now E)\<rparr>"

definition handle_command_block ::
  "('db, 's, 'v, 'r) up_env \<Rightarrow> mac_block \<Rightarrow> mac_block option \<Rightarrow> ('db, 's, 'r) uplink_context \<Rightarrow>
   mac_block list res \<times> ('db, 's, 'r) uplink_context" where
  "handle_command_block E block pending c =
     (case mac_Handle (u_Band E) (device_statements E) (u_now E) (ux_DeviceProfile c) (ux_ServiceProfile c) block pending
             (ux_RXPacket c) \<lparr>ms_ds = ux_DeviceSession c, ms_AS = [], ms_db = w_DB c\<rparr> of
        (r, st) \<Rightarrow>
          (case r of Inl e \<Rightarrow> if is_panic e then Inl e else Inr [] | Inr bs \<Rightarrow> Inr bs,
           c\<lparr>ux_DeviceSession := ms_ds st, w_DB := ms_db st,
             w_Calls := w_Calls c @ map SetDeviceStatus (ms_AS st)\<rparr>))"

definition report_command_block ::
  "('db, 's, 'v, 'r) up_env \<Rightarrow> mac_block \<Rightarrow> ('db, 's, 'r) up_task" where
  "report_command_block E block c =
     (if u_has_controller E then
        (Inr (), call_out (HandleUplinkMACCommand (eui64_bytes (ds_DevEUI (ux_DeviceSession c))) (mb_CID block)
          (concat (map (\<lambda>cmd. case u_marshal_command E cmd of Inl _ \<Rightarrow> [] | Inr b \<Rightarrow> [b]) (mb_MACCommands block)))) c)
      else (Inl (Panic ''nil network-controller client''), c))"

definition up_mac_block ::
  "('db, 's, 'v, 'r) up_env \<Rightarrow> mac_block \<Rightarrow> ('db, 's, 'r) uplink_context \<Rightarrow>
   mac_block list res \<times> ('db, 's, 'r) uplink_context" where
  "up_mac_block E block c =
     (let devEUI = ds_DevEUI (ux_DeviceSession c); cid = mb_CID block;
          report = (\<lambda>out c. case report_command_block E block c of (Inl e, c) \<Rightarrow> (Inl e, c) | (Inr _, c) \<Rightarrow> (Inr out, c))
      in if u_disableMACCommands E then report [] c
      else case GetPendingMACCommand (u_Redis E) (u_Blocks E) devEUI cid (w_Redis c) of
        Inl _ \<Rightarrow> (Inr [], c)
      | Inr pending \<Rightarrow>
          let external = (case pending of None \<Rightarrow> False | Some p \<Rightarrow> mb_External p);
              c = (if pending = None then c
                   else c\<lparr>w_Redis := snd (DeletePendingMACCommand (u_Redis E) devEUI cid (w_Redis c))\<rparr>)
          in case (if proprietary cid then (Inr [], c) else handle_command_block E block pending c) of
            (Inl e, c) \<Rightarrow> (Inl e, c)
          | (Inr out, c) \<Rightarrow> if proprietary cid \<or> external then report out c else (Inr out, c))"

fun up_mac_blocks ::
  "('db, 's, 'v, 'r) up_env \<Rightarrow> mac_block list \<Rightarrow> mac_block list \<Rightarrow> bool \<Rightarrow> ('db, 's, 'r) uplink_context \<Rightarrow>
   (mac_block list \<times> bool) res \<times> ('db, 's, 'r) uplink_context" where
  "up_mac_blocks E [] out must c = (Inr (out, must), c)"
| "up_mac_blocks E (block # blocks) out must c =
     (case up_mac_block E block c of
        (Inl e, c) \<Rightarrow> (Inl e, c)
      | (Inr bs, c) \<Rightarrow> up_mac_blocks E blocks (out @ bs) (must \<or> must_respond (mb_CID block)) c)"

definition handleUplinkMACCommands ::
  "('db, 's, 'v, 'r) up_env \<Rightarrow> payload list \<Rightarrow> ('db, 's, 'r) uplink_context \<Rightarrow>
   (mac_block list \<times> bool) res \<times> ('db, 's, 'r) uplink_context" where
  "handleUplinkMACCommands E commands c =
     (case group_commands commands [] of
        Inl e \<Rightarrow> (Inl e, c)
      | Inr blocks \<Rightarrow> up_mac_blocks E blocks [] False c)"

definition up_commands :: "('db, 's, 'v, 'r) up_env \<Rightarrow> payload list \<Rightarrow> ('db, 's, 'r) up_task" where
  "up_commands E pls c =
     (case handleUplinkMACCommands E pls c of
        (Inl e, c) \<Rightarrow> (if is_panic e then Inl e else Inr (), c)
      | (Inr (blocks, must), c) \<Rightarrow>
          (Inr (), c\<lparr>ux_MACCommandResponses := ux_MACCommandResponses c @ blocks,
                    ux_MustSendDownlink := ux_MustSendDownlink c \<or> must\<rparr>))"

definition handleFOptsMACCommands :: "('db, 's, 'v, 'r) up_env \<Rightarrow> ('db, 's, 'r) up_task" where
  "handleFOptsMACCommands E c =
     (if mf_FOpts (ux_MACPayload c) = [] then (Inr (), c)
      else up_commands E (mf_FOpts (ux_MACPayload c)) c)"

definition handleFRMPayloadMACCommands :: "('db, 's, 'v, 'r) up_env \<Rightarrow> ('db, 's, 'r) up_task" where
  "handleFRMPayloadMACCommands E c =
     (if mf_FPort (ux_MACPayload c) \<noteq> Some 0 then (Inr (), c)
      else if mf_FRMPayload (ux_MACPayload c) = []
      then (Inl (Errorf ''expected mac commands, but FRMPayload is empty (FPort=0)''), c)
      else up_commands E (mf_FRMPayload (ux_MACPayload c)) c)"

section \<open>The session follows the frame\<close>

definition setADR :: "('db, 's, 'r) up_task" where
  "setADR = update_ctx (\<lambda>c. c\<lparr>ux_DeviceSession := (ux_DeviceSession c)\<lparr>ds_ADR := fc_ADR (mf_FCtrl (ux_MACPayload c))\<rparr>\<rparr>)"

definition follow_data_rate :: "int \<Rightarrow> device_session \<Rightarrow> device_session" where
  "follow_data_rate dr ds =
     (if ds_DR ds \<noteq> dr then ds\<lparr>ds_TXPowerIndex := 0, ds_UplinkHistory := []\<rparr> else ds)\<lparr>ds_DR := dr\<rparr>"

definition setUplinkDataRate :: "('db, 's, 'r) up_task" where
  "setUplinkDataRate =
     update_ctx (\<lambda>c. c\<lparr>ux_DeviceSession := follow_data_rate (rp_DR (ux_RXPacket c)) (ux_DeviceSession c)\<rparr>)"

definition set_device_mode :: "('db, 's, 'v, 'r) up_env \<Rightarrow> device_mode \<Rightarrow> ('db, 's, 'r) up_task" where
  "set_device_mode E mode c =
     (case GetDevice (u_Devices E) (ds_DevEUI (ux_DeviceSession c)) (w_DB c) of
        Inl e \<Rightarrow> (Inl (Wrap e ''get device''), c)
      | Inr d \<Rightarrow> wrapping ''update device error''
          (on_DB (UpdateDevice (u_Devices E) (u_now E) (d\<lparr>d_Mode := mode\<rparr>))) c)"

text \<open>A search for a ping slot that does not end is a panic here.\<close>

fun create_queue_items :: "('db, 's, 'v, 'r) up_env \<Rightarrow> device_queue_item list \<Rightarrow> ('db, 's, 'r) up_task" where
  "create_queue_items E [] c = (Inr (), c)"
| "create_queue_items E (item # items) c =
     (case CreateDeviceQueueItem (u_Queue E) (u_aes E) (u_marshal_addr E) item (ux_DeviceProfile c)
             (ux_DeviceSession c) (u_now E) (u_now E) (w_DB c) of
        None \<Rightarrow> (Inl (Panic ''no ping slot''), c)
      | Some (Inl e, db) \<Rightarrow> (Inl (Wrap e ''create device-queue item error''), c\<lparr>w_DB := db\<rparr>)
      | Some (Inr _, db) \<Rightarrow> create_queue_items E items (c\<lparr>w_DB := db\<rparr>))"

definition recreate_queue :: "('db, 's, 'v, 'r) up_env \<Rightarrow> ('db, 's, 'r) up_task" where
  "recreate_queue E c =
     (let devEUI = ds_DevEUI (ux_DeviceSession c) in
      case GetDeviceQueueItemsForDevEUI (u_Queue E) devEUI (w_DB c) of
        Inl e \<Rightarrow> (Inl (Wrap e ''get device-queue items error''), c)
      | Inr items \<Rightarrow>
         (case wrapping ''flush device-queue for deveui error'' (on_DB (FlushDeviceQueueForDevEUI (u_Queue E) devEUI)) c of
            (Inl e, c) \<Rightarrow> (Inl e, c)
          | (Inr _, c) \<Rightarrow> create_queue_items E items c))"

definition setBeaconLocked :: "('db, 's, 'v, 'r) up_env \<Rightarrow> ('db, 's, 'r) up_task" where
  "setBeaconLocked E c =
     (let classB = fc_ClassB (mf_FCtrl (ux_MACPayload c)) in
      if ds_BeaconLocked (ux_DeviceSession c) = classB then (Inr (), c)
      else let c = c\<lparr>ux_DeviceSession := (ux_DeviceSession c)\<lparr>ds_BeaconLocked := classB\<rparr>\<rparr> in
        if classB
        then run_tasks [set_device_mode E DeviceModeB,
               wrapping ''re-create device-queue items error'' (Transaction (u_Session E) (recreate_queue E))] c
        else set_device_mode E DeviceModeA c)"

definition max_snr :: "rx_info list \<Rightarrow> rat" where
  "max_snr rxs = (case rxs of [] \<Rightarrow> 0 | r # rs \<Rightarrow> fold (\<lambda>r m. if ri_LoraSnr r > m then ri_LoraSnr r else m) rs (ri_LoraSnr r))"

definition appendMetaDataToUplinkHistory :: "('db, 's, 'r) up_task" where
  "appendMetaDataToUplinkHistory =
     update_ctx (\<lambda>c. c\<lparr>ux_DeviceSession := AppendUplinkHistory
       \<lparr>uh_FCnt = mf_FCnt (ux_MACPayload c), uh_MaxSNR = max_snr (rp_RXInfoSet (ux_RXPacket c)), uh_MaxRSSI = 0,
        uh_TXPowerIndex = ds_TXPowerIndex (ux_DeviceSession c),
        uh_GatewayCount = int (length (rp_RXInfoSet (ux_RXPacket c)))\<rparr> (ux_DeviceSession c)\<rparr>)"

definition rx_info_set_of :: "eui64 \<Rightarrow> 'r up_packet \<Rightarrow> gw_rx_info_set" where
  "rx_info_set_of devEUI p =
     \<lparr>gris_DevEUI = devEUI, gris_DR = rp_DR p,
      gris_Items = map (\<lambda>r. \<lparr>gri_GatewayID = GetGatewayID r, gri_RSSI = ri_Rssi r, gri_LoRaSNR = ri_LoraSnr r,
        gri_Antenna = ri_Antenna r, gri_Board = ri_Board r, gri_Context = ri_Context r\<rparr>) (rp_RXInfoSet p)\<rparr>"

definition storeDeviceGatewayRXInfoSet :: "('db, 's, 'v, 'r) up_env \<Rightarrow> ('db, 's, 'r) up_task" where
  "storeDeviceGatewayRXInfoSet E c =
     wrapping ''save device gateway rx-info set error''
       (on_Redis (SaveDeviceGatewayRXInfoSet (u_Redis E) (u_RxInfo E) (u_TTL E)
         (rx_info_set_of (ds_DevEUI (ux_DeviceSession c)) (ux_RXPacket c)))) c"

definition syncUplinkFCnt :: "('db, 's, 'r) up_task" where
  "syncUplinkFCnt =
     update_ctx (\<lambda>c. c\<lparr>ux_DeviceSession := (ux_DeviceSession c)\<lparr>ds_FCntUp := mf_FCnt (ux_MACPayload c) + 1\<rparr>\<rparr>)"

definition up_saveDeviceSession :: "('db, 's, 'v, 'r) up_env \<Rightarrow> ('db, 's, 'r) up_task" where
  "up_saveDeviceSession E c =
     on_Redis (SaveDeviceSession (u_Redis E) (u_Sessions E) (u_TTL E) (ux_DeviceSession c)) c"

section \<open>Reports\<close>

definition logUplinkFrame :: "('db, 's, 'v, 'r) up_env \<Rightarrow> ('db, 's, 'r) up_task" where
  "logUplinkFrame E c =
     (case u_log_error E (ux_RXPacket c) of
        None \<Rightarrow> (Inr (), c) | Some e \<Rightarrow> (Inl (Wrap e ''create uplink frame-log error''), c))"

definition getApplicationServerClientForDataUp :: "('db, 's, 'v, 'r) up_env \<Rightarrow> ('db, 's, 'r) up_task" where
  "getApplicationServerClientForDataUp E c =
     (case GetASClientForRoutingProfileID (u_RoutingProfiles E) (u_pool E)
             (ds_RoutingProfileID (ux_DeviceSession c)) (w_DB c) of
        Inl e \<Rightarrow> (Inl e, c) | Inr _ \<Rightarrow> (Inr (), c))"

definition payload_bytes :: "('db, 's, 'v, 'r) up_env \<Rightarrow> payload list \<Rightarrow> nat" where
  "payload_bytes E pls = sum_list (map (\<lambda>pl. case u_payload_size E pl of Inl _ \<Rightarrow> 0 | Inr n \<Rightarrow> n) pls)"

definition sendUplinkMetaDataToNetworkController :: "('db, 's, 'v, 'r) up_env \<Rightarrow> ('db, 's, 'r) up_task" where
  "sendUplinkMetaDataToNetworkController E c =
     (let p = ux_RXPacket c; pl = ux_MACPayload c; mt = phy_MType (rp_PHYPayload p);
          app = (mf_FPort pl \<noteq> None \<and> mf_FPort pl \<noteq> Some 0); frm = payload_bytes E (mf_FRMPayload pl)
      in (Inr (), if \<not> u_has_controller E then c else call_out (HandleUplinkMetaData
            \<lparr>md_GatewayId = [], md_DevEui = eui64_bytes (ds_DevEUI (ux_DeviceSession c)), md_MulticastGroupId = [],
             md_MessageType = (if mt \<in> {UnconfirmedDataUp, ConfirmedDataUp} then Some mt else None),
             md_PhyPayloadByteCount = of_nat (case u_phy_size E (rp_PHYPayload p) of Inl _ \<Rightarrow> 0 | Inr n \<Rightarrow> n),
             md_MacCommandByteCount = of_nat (payload_bytes E (mf_FOpts pl) + (if app then 0 else frm)),
             md_ApplicationPayloadByteCount = of_nat (if app then frm else 0)\<rparr>
            (rp_TXInfo p) (rp_RXInfoSet p)) c))"

definition data_up_request :: "('db, 's, 'r) uplink_context \<Rightarrow> byte list \<Rightarrow> uplink_data_request" where
  "data_up_request c bytes =
     (let ds = ux_DeviceSession c; p = ux_RXPacket c; pl = ux_MACPayload c in
      \<lparr>ud_DevEui = eui64_bytes (ds_DevEUI ds), ud_JoinEui = eui64_bytes (ds_JoinEUI ds), ud_FCnt = mf_FCnt pl,
       ud_FPort = (case mf_FPort pl of None \<Rightarrow> 0 | Some f \<Rightarrow> ucast f), ud_Adr = fc_ADR (mf_FCtrl pl),
       ud_Dr = word_of_int (rp_DR p), ud_TxInfo = rp_TXInfo p,
       ud_RxInfo = (if sp_AddGWMetadata (ux_ServiceProfile c) then rp_RXInfoSet p else []), ud_Data = bytes,
       ud_ConfirmedUplink = (phy_MType (rp_PHYPayload p) = ConfirmedDataUp),
       ud_DeviceActivationContext = map_option (\<lambda>k. (be_bytes 4 (ds_DevAddr ds), ke_KEKLabel k, ke_AESKey k))
         (ds_AppSKeyEvelope ds)\<rparr>)"

definition sendFRMPayloadToApplicationServer :: "('db, 's, 'r) up_task" where
  "sendFRMPayloadToApplicationServer c =
     (let pl = ux_MACPayload c;
          sent = (\<lambda>bytes. (Inr (), (call_out (HandleUplinkData (data_up_request c bytes)) c)
            \<lparr>ux_DeviceSession := (ux_DeviceSession c)\<lparr>ds_AppSKeyEvelope := None\<rparr>\<rparr>))
      in if mf_FPort pl \<noteq> None \<and> mf_FPort pl \<noteq> Some 0 then
           (case mf_FRMPayload pl of
              [DataItem bytes] \<Rightarrow> sent bytes
            | [MACCommandItem _] \<Rightarrow> (Inl (Errorf ''expected type *lorawan.DataPayload''), c)
            | _ \<Rightarrow> sent [])
         else sent [])"

definition handleUplinkACK :: "('db, 's, 'v, 'r) up_env \<Rightarrow> ('db, 's, 'r) up_task" where
  "handleUplinkACK E c =
     (let ds = ux_DeviceSession c in
      if \<not> fc_ACK (mf_FCtrl (ux_MACPayload c)) then (Inr (), c)
      else case GetPendingDeviceQueueItemForDevEUI (u_Queue E) (ds_DevEUI ds) (w_DB c) of
        Inl _ \<Rightarrow> (Inr (), c)
      | Inr qi \<Rightarrow>
          if qi_FCnt qi \<noteq> ds_NFCntDown ds - 1 then (Inr (), c)
          else case wrapping ''delete device-queue item error'' (on_DB (DeleteDeviceQueueItem (u_Queue E) (qi_ID qi))) c of
            (Inl e, c) \<Rightarrow> (Inl e, c)
          | (Inr _, c) \<Rightarrow>
              (case u_HandleDownlinkACK E (eui64_bytes (ds_DevEUI ds)) (qi_FCnt qi) of
                 None \<Rightarrow> (Inr (), call_out (HandleDownlinkACK (eui64_bytes (ds_DevEUI ds)) (qi_FCnt qi) True) c)
               | Some e \<Rightarrow> (Inl (Wrap e ''application-server client error''), c)))"

definition handleDownlink :: "('db, 's, 'v, 'r) up_env \<Rightarrow> ('db, 's, 'r) up_task" where
  "handleDownlink E c =
     (let fctrl = mf_FCtrl (ux_MACPayload c) in
      wrapping ''run uplink response flow error''
        (in_world (u_HandleResponse E (ux_RXPacket c) (ux_ServiceProfile c) (ux_DeviceSession c) (fc_ADR fctrl)
          (fc_ADRACKReq fctrl \<or> ux_MustSendDownlink c) (phy_MType (rp_PHYPayload (ux_RXPacket c)) = ConfirmedDataUp)
          (ux_MACCommandResponses c))) c)"

definition handlePassiveRoamingDownlink :: "('db, 's, 'v, 'r) up_env \<Rightarrow> ('db, 's, 'r) up_task" where
  "handlePassiveRoamingDownlink E c = (Inr (), snd (handleDownlink E c))"

section \<open>The flow\<close>

definition isRoaming :: "bool \<Rightarrow> ('db, 's, 'r) up_task list \<Rightarrow> ('db, 's, 'r) up_task" where
  "isRoaming r = task_when (\<lambda>c. r = (rp_RoamingMetaData (ux_RXPacket c) \<noteq> None))"

definition frame_tasks :: "('db, 's, 'v, 'r) up_env \<Rightarrow> ('db, 's, 'r) up_task list" where
  "frame_tasks E =
     [up_getDeviceProfile E, up_getServiceProfile E, setDownlinkDeviceLock E, filterRxInfoByServiceProfile E,
      decryptFOptsMACCommands E, decryptFRMPayloadMACCommands E, logUplinkFrame E,
      getApplicationServerClientForDataUp E, setADR, setUplinkDataRate, setBeaconLocked E,
      sendUplinkMetaDataToNetworkController E, handleFOptsMACCommands E, handleFRMPayloadMACCommands E,
      storeDeviceGatewayRXInfoSet E, appendMetaDataToUplinkHistory, sendFRMPayloadToApplicationServer]"

definition uplink_tasks :: "('db, 's, 'v, 'r) up_env \<Rightarrow> ('db, 's, 'r) up_task list" where
  "uplink_tasks E =
     [setContextFromDataPHYPayload, handlePassiveRoamingDevice E, getDeviceSessionForPHYPayload E,
      abortOnDeviceIsDisabled] @
     frame_tasks E @
     [syncUplinkFCnt, up_saveDeviceSession E, handleUplinkACK E,
      isRoaming False [handleDownlink E], isRoaming True [handlePassiveRoamingDownlink E]]"

text \<open>\<open>c\<close> holds the world and the zero values of the context.\<close>

definition Handle :: "('db, 's, 'v, 'r) up_env \<Rightarrow> 'r up_packet \<Rightarrow> ('db, 's, 'r) up_task" where
  "Handle E rxPacket c = flow_handle (uplink_tasks E) (c\<lparr>ux_RXPacket := rxPacket\<rparr>)"

section \<open>Grouping\<close>

text \<open>What grouping is meant to compute: one block per identifier, in the order of first occurrence.\<close>

definition commands_of :: "payload list \<Rightarrow> mac_command list" where
  "commands_of pls = concat (map (\<lambda>pl. case pl of MACCommandItem cmd \<Rightarrow> [cmd] | DataItem _ \<Rightarrow> []) pls)"

definition command_blocks :: "mac_command list \<Rightarrow> mac_block list" where
  "command_blocks cmds =
     map (\<lambda>c. \<lparr>mb_CID = c, mb_External = False, mb_MACCommands = filter (\<lambda>cmd. mc_CID cmd = c) cmds\<rparr>)
       (rev (remdups (rev (map mc_CID cmds))))"

lemma add_command_map:
  assumes "distinct cs"
  shows "add_command cmd (map (\<lambda>c. \<lparr>mb_CID = c, mb_External = False, mb_MACCommands = f c\<rparr>) cs) =
    map (\<lambda>c. \<lparr>mb_CID = c, mb_External = False, mb_MACCommands = f c @ (if mc_CID cmd = c then [cmd] else [])\<rparr>) cs @
    (if mc_CID cmd \<in> set cs then [] else [\<lparr>mb_CID = mc_CID cmd, mb_External = False, mb_MACCommands = [cmd]\<rparr>])"
  using assms by (induction cs) (auto intro: map_cong)

lemma add_command_blocks: "add_command cmd (command_blocks cmds) = command_blocks (cmds @ [cmd])"
proof (cases "mc_CID cmd \<in> set (map mc_CID cmds)")
  case True
  then show ?thesis
    by (auto simp: command_blocks_def add_command_map)
next
  case False
  then have "filter (\<lambda>x. mc_CID x = mc_CID cmd) cmds = []"
    by (intro filter_False ballI) (metis image_eqI set_map)
  with False show ?thesis
    by (auto simp: command_blocks_def add_command_map)
qed

lemma group_commands_from:
  "group_commands pls (command_blocks cmds) =
     (if list_all (\<lambda>pl. case pl of MACCommandItem _ \<Rightarrow> True | DataItem _ \<Rightarrow> False) pls
      then Inr (command_blocks (cmds @ commands_of pls)) else Inl (Errorf ''expected *lorawan.MACCommand''))"
  by (induction pls arbitrary: cmds rule: group_commands.induct[of "\<lambda>pls _. _ pls"])
    (auto simp: commands_of_def add_command_blocks)

text \<open>
  Grouping the mac-commands of a frame computes the blocks it is meant to: one block per
  identifier in the order of first occurrence, with the commands of the identifier in their
  order, and an error exactly when an item is not a mac-command.
\<close>

theorem commands_are_grouped:
  "group_commands pls [] =
     (if list_all (\<lambda>pl. case pl of MACCommandItem _ \<Rightarrow> True | DataItem _ \<Rightarrow> False) pls
      then Inr (command_blocks (commands_of pls)) else Inl (Errorf ''expected *lorawan.MACCommand''))"
  using group_commands_from[of pls "[]"] by (simp add: command_blocks_def)

section \<open>Handling the commands of a frame\<close>

text \<open>Every pending block that Redis holds for a device is made of requests of its identifier.\<close>

definition typed_pending :: "'v block_codec \<Rightarrow> ('v, 'm) contents \<Rightarrow> eui64 \<Rightarrow> bool" where
  "typed_pending k C e \<longleftrightarrow> (\<forall>cid p. pending_of k C e cid = Some p \<longrightarrow> pending_typed cid (Some p))"

definition commands_ready ::
  "('s \<Rightarrow> ('v, eui64) contents) \<Rightarrow> ('db, 's, 'v, 'r) up_env \<Rightarrow> ('db, 's, 'r) uplink_context \<Rightarrow> bool" where
  "commands_ready holds E c \<longleftrightarrow>
     u_has_controller E \<and> rp_TXInfo (ux_RXPacket c) \<noteq> None \<and> maps_allocated (ux_DeviceSession c) \<and>
     typed_pending (u_Blocks E) (holds (w_Redis c)) (ds_DevEUI (ux_DeviceSession c))"

definition same_security :: "('db, 's, 'r) uplink_context \<Rightarrow> ('db, 's, 'r) uplink_context \<Rightarrow> bool" where
  "same_security c c' \<longleftrightarrow>
     security_context (ux_DeviceSession c') = security_context (ux_DeviceSession c) \<and>
     ds_Pending (ux_DeviceSession c') = ds_Pending (ux_DeviceSession c) \<and> ux_MACPayload c' = ux_MACPayload c"

lemma same_security_trans: "same_security a b \<Longrightarrow> same_security b c \<Longrightarrow> same_security a c"
  by (simp add: same_security_def)

lemma same_security_refl [simp]: "same_security c c"
  by (simp add: same_security_def)

lemma same_security_dev: "same_security c c' \<Longrightarrow> ds_DevEUI (ux_DeviceSession c') = ds_DevEUI (ux_DeviceSession c)"
  by (simp add: same_security_def security_context_def)

lemma pending_read:
  assumes "redis_server R holds" and "GetPendingMACCommand R k e cid s = Inr (Some p)"
  shows "pending_of k (holds s) e cid = Some p"
  using assms(2) redis_server.Get[OF assms(1)]
  by (fastforce simp: GetPendingMACCommand_def pending_of_def split: sum.splits if_splits)

lemma pending_deleted:
  assumes "redis_server R holds" and "typed_pending k (holds s) e"
  shows "typed_pending k (holds (snd (DeletePendingMACCommand R e' cid s))) e"
proof -
  obtain r s' where d: "rd_Del R (macCommandPendingKey e' cid) s = (r, s')" by fastforce
  then have "snd (DeletePendingMACCommand R e' cid s) = s'"
    by (auto simp: DeletePendingMACCommand_def split: sum.splits)
  moreover have "holds s' = holds s \<or> holds s' = without (holds s) (macCommandPendingKey e' cid)"
    using redis_server.Del[OF assms(1) d] by (auto simp: executed_def split: sum.splits if_splits)
  ultimately show ?thesis using assms(2)
    by (auto simp: typed_pending_def pending_of_def without_def split: option.splits if_splits)
qed

text \<open>Whether or not anything fails, the commands keep the security context and the frame.\<close>

lemma handle_block_same:
  assumes "handle_command_block E block pending c = (r, c')"
  shows "same_security c c'"
proof -
  let ?st = "\<lparr>ms_ds = ux_DeviceSession c, ms_AS = [], ms_db = w_DB c\<rparr>"
  obtain x st where "mac_Handle (u_Band E) (device_statements E) (u_now E) (ux_DeviceProfile c) (ux_ServiceProfile c) block pending
      (ux_RXPacket c) ?st = (x, st)" by fastforce
  then show ?thesis
    using assms mac_Handle_keeps[of "u_Band E" "device_statements E" "u_now E" "ux_DeviceProfile c" "ux_ServiceProfile c" block
        pending "ux_RXPacket c" ?st]
    by (auto simp: handle_command_block_def same_security_def)
qed

lemma report_block_same: "report_command_block E block c = (r, c') \<Longrightarrow> same_security c c'"
  by (auto simp: report_command_block_def same_security_def call_out_def split: if_splits)

lemma mac_block_same:
  assumes "up_mac_block E block c = (r, c')"
  shows "same_security c c'"
proof -
  have report: "same_security c1 c2"
    if "(case report_command_block E block c1 of (Inl e, c) \<Rightarrow> (Inl e, c) | (Inr _, c) \<Rightarrow> (Inr out, c)) = (r1, c2)" for out r1 c1 c2
    using that by (auto split: prod.splits sum.splits dest: report_block_same)
  let ?e = "ds_DevEUI (ux_DeviceSession c)"
  show ?thesis
  proof (cases "u_disableMACCommands E")
    case True
    then show ?thesis using assms report by (simp add: up_mac_block_def Let_def)
  next
    case False
    show ?thesis
    proof (cases "GetPendingMACCommand (u_Redis E) (u_Blocks E) ?e (mb_CID block) (w_Redis c)")
      case (Inl e)
      then show ?thesis using False assms by (simp add: up_mac_block_def Let_def)
    next
      case (Inr pending)
      define c1 where "c1 = (if pending = None then c
        else c\<lparr>w_Redis := snd (DeletePendingMACCommand (u_Redis E) ?e (mb_CID block) (w_Redis c))\<rparr>)"
      obtain r2 c2 where h: "(if proprietary (mb_CID block) then (Inr [], c1) else handle_command_block E block pending c1) = (r2, c2)"
        by fastforce
      have "same_security c c1" by (simp add: c1_def same_security_def)
      moreover have "same_security c1 c2" using h by (auto dest: handle_block_same split: if_splits)
      ultimately have c2: "same_security c c2" by (rule same_security_trans)
      have "(case r2 of Inl e \<Rightarrow> (Inl e, c2)
          | Inr out \<Rightarrow> if proprietary (mb_CID block) \<or> (case pending of None \<Rightarrow> False | Some p \<Rightarrow> mb_External p)
              then (case report_command_block E block c2 of (Inl e, c) \<Rightarrow> (Inl e, c) | (Inr _, c) \<Rightarrow> (Inr out, c))
              else (Inr out, c2)) = (r, c')"
        using assms False Inr h by (simp add: up_mac_block_def Let_def c1_def[symmetric])
      then show ?thesis using c2 same_security_trans[OF c2 report] by (auto split: sum.splits if_splits)
    qed
  qed
qed

lemma mac_blocks_same: "up_mac_blocks E blocks out must c = (r, c') \<Longrightarrow> same_security c c'"
proof (induction blocks arbitrary: out must c)
  case (Cons block blocks)
  obtain r1 c1 where b: "up_mac_block E block c = (r1, c1)" by fastforce
  then show ?case
    using Cons mac_block_same[OF b] by (cases r1) (auto intro: same_security_trans)
qed simp

lemma commands_same: "handleUplinkMACCommands E pls c = (r, c') \<Longrightarrow> same_security c c'"
  by (auto simp: handleUplinkMACCommands_def split: sum.splits dest!: mac_blocks_same)

text \<open>Nothing panics when the maps and the pending blocks are well-formed.\<close>

lemma handle_block_ready:
  assumes "handle_command_block E block pending c = (r, c')" and "commands_ready holds E c"
    and "pending_typed (mb_CID block) pending"
  shows "not_panic r \<and> commands_ready holds E c'"
proof -
  let ?st = "\<lparr>ms_ds = ux_DeviceSession c, ms_AS = [], ms_db = w_DB c\<rparr>"
  let ?h = "mac_Handle (u_Band E) (device_statements E) (u_now E) (ux_DeviceProfile c) (ux_ServiceProfile c) block pending (ux_RXPacket c) ?st"
  obtain x st where h: "?h = (x, st)" by fastforce
  have "not_panic x \<and> maps_allocated (ms_ds st)"
    using mac_Handle_safe[of ?st block pending "ux_RXPacket c" "u_Band E" "device_statements E" "u_now E" "ux_DeviceProfile c" "ux_ServiceProfile c"]
      assms(2,3) h by (simp add: commands_ready_def)
  moreover have "security_context (ms_ds st) = security_context (ux_DeviceSession c) \<and> ds_Pending (ms_ds st) = ds_Pending (ux_DeviceSession c)"
    using mac_Handle_keeps[of "u_Band E" "device_statements E" "u_now E" "ux_DeviceProfile c" "ux_ServiceProfile c" block pending "ux_RXPacket c" ?st] h
    by simp
  moreover have "r = (case x of Inl e \<Rightarrow> if is_panic e then Inl e else Inr [] | Inr bs \<Rightarrow> Inr bs)"
    "c' = c\<lparr>ux_DeviceSession := ms_ds st, w_DB := ms_db st, w_Calls := w_Calls c @ map SetDeviceStatus (ms_AS st)\<rparr>"
    using assms(1) h by (simp_all add: handle_command_block_def)
  moreover from this(1) have "not_panic r" if "not_panic x"
    using that by (auto simp: not_panic_def is_panic_def split: sum.splits error.splits)
  ultimately show ?thesis using assms(2) by (simp add: commands_ready_def same_security_def security_context_def)
qed

lemma report_block_ready:
  assumes "report_command_block E block c = (r, c')" and "commands_ready holds E c"
  shows "not_panic r \<and> commands_ready holds E c'"
  using assms by (auto simp: report_command_block_def commands_ready_def same_security_def call_out_def)

lemma mac_block_ready:
  assumes "redis_server (u_Redis E) holds" and "up_mac_block E block c = (r, c')" and "commands_ready holds E c"
  shows "not_panic r \<and> commands_ready holds E c'"
proof -
  have report: "not_panic r1 \<and> commands_ready holds E c2"
    if "(case report_command_block E block c1 of (Inl e, c) \<Rightarrow> (Inl e, c) | (Inr _, c) \<Rightarrow> (Inr out, c)) = (r1, c2)"
      "commands_ready holds E c1" for out r1 c1 c2
    using that report_block_ready[of E block c1] by (auto simp: not_panic_def split: prod.splits sum.splits)
  show ?thesis
  proof (cases "u_disableMACCommands E")
    case True
    then show ?thesis using assms(2,3) report[of "[]" c] by (simp add: up_mac_block_def Let_def)
  next
    case False
    let ?e = "ds_DevEUI (ux_DeviceSession c)"
    show ?thesis
    proof (cases "GetPendingMACCommand (u_Redis E) (u_Blocks E) ?e (mb_CID block) (w_Redis c)")
      case (Inl e)
      then show ?thesis using False assms(2,3) by (auto simp: up_mac_block_def Let_def not_panic_def)
    next
      case (Inr pending)
      define c1 where "c1 = (if pending = None then c
        else c\<lparr>w_Redis := snd (DeletePendingMACCommand (u_Redis E) ?e (mb_CID block) (w_Redis c))\<rparr>)"
      have c1: "commands_ready holds E c1"
        using assms(3) pending_deleted[OF assms(1)] by (auto simp: c1_def commands_ready_def)
      have typed: "pending_typed (mb_CID block) pending"
        using Inr pending_read[OF assms(1)] assms(3)
        by (cases pending) (auto simp: commands_ready_def typed_pending_def pending_typed_def)
      obtain r2 c2 where h: "(if proprietary (mb_CID block) then (Inr [], c1) else handle_command_block E block pending c1) = (r2, c2)"
        by fastforce
      then have c2: "not_panic r2" "commands_ready holds E c2"
        using handle_block_ready[of E block pending c1 r2 c2 holds] c1 typed
        by (auto split: if_splits)
      let ?external = "case pending of None \<Rightarrow> False | Some p \<Rightarrow> mb_External p"
      have "(case r2 of Inl e \<Rightarrow> (Inl e, c2)
          | Inr out \<Rightarrow> if proprietary (mb_CID block) \<or> ?external
              then (case report_command_block E block c2 of (Inl e, c) \<Rightarrow> (Inl e, c) | (Inr _, c) \<Rightarrow> (Inr out, c))
              else (Inr out, c2)) = (r, c')"
        using assms(2) False Inr h by (simp add: up_mac_block_def Let_def c1_def[symmetric])
      then show ?thesis
        using c2 report[of _ c2 r c'] by (auto simp: not_panic_def split: sum.splits if_splits)
    qed
  qed
qed

lemma mac_blocks_ready:
  assumes "redis_server (u_Redis E) holds"
  shows "up_mac_blocks E blocks out must c = (r, c') \<Longrightarrow> commands_ready holds E c \<Longrightarrow>
    not_panic r \<and> commands_ready holds E c'"
proof (induction blocks arbitrary: out must c)
  case (Cons block blocks)
  obtain r1 c1 where b: "up_mac_block E block c = (r1, c1)" by fastforce
  note c1 = mac_block_ready[OF assms b Cons.prems(2)]
  show ?case
  proof (cases r1)
    case (Inl e)
    then show ?thesis using Cons.prems(1) b c1 by (auto simp: not_panic_def)
  next
    case (Inr bs)
    then have "up_mac_blocks E blocks (out @ bs) (must \<or> must_respond (mb_CID block)) c1 = (r, c')"
      using Cons.prems(1) b by simp
    from Cons.IH[OF this] c1 show ?thesis by blast
  qed
qed (auto simp: not_panic_def)

text \<open>
  The mac-commands of a frame cannot crash the server or touch the security context. From a
  session whose maps are allocated and a Redis whose pending blocks for the device are of the
  identifier they are stored under, whatever commands the frame carries, there is no panic, maps
  and pending blocks are still well-formed, and keys, counters, addresses and the pending session
  are those from before.
\<close>

theorem frame_commands_are_safe:
  assumes "redis_server (u_Redis E) holds" and "u_has_controller E" and "rp_TXInfo (ux_RXPacket c) \<noteq> None"
    and "maps_allocated (ux_DeviceSession c)"
    and "typed_pending (u_Blocks E) (holds (w_Redis c)) (ds_DevEUI (ux_DeviceSession c))"
    and "handleUplinkMACCommands E pls c = (r, c')"
  shows "not_panic r \<and> maps_allocated (ux_DeviceSession c') \<and>
    typed_pending (u_Blocks E) (holds (w_Redis c')) (ds_DevEUI (ux_DeviceSession c')) \<and> same_security c c'"
proof (cases "group_commands pls []")
  case (Inl e)
  then show ?thesis
    using assms(4-6) group_commands_from[of pls "[]"]
    by (auto simp: handleUplinkMACCommands_def not_panic_def command_blocks_def split: if_splits)
next
  case (Inr blocks)
  have "commands_ready holds E c" using assms(2-5) by (simp add: commands_ready_def)
  then show ?thesis
    using mac_blocks_ready[OF assms(1), of blocks "[]" False c r c'] assms(6) Inr
      commands_same[OF assms(6)]
    by (auto simp: handleUplinkMACCommands_def commands_ready_def)
qed

section \<open>Frames without effect\<close>

definition only_reported ::
  "('s \<Rightarrow> ('v, eui64) contents) \<Rightarrow> ('db, 's, 'r) uplink_context \<Rightarrow> ('db, 's, 'r) uplink_context \<Rightarrow> bool" where
  "only_reported holds c c' \<longleftrightarrow>
     w_DB c' = w_DB c \<and> c_val (holds (w_Redis c')) = c_val (holds (w_Redis c)) \<and>
     (\<exists>cs. w_Calls c' = w_Calls c @ cs \<and> set cs \<subseteq> {HandleError d f t | d f t. True})"

text \<open>A stored session of the address under which the frame is valid at a counter it may have.\<close>

definition authentic_for ::
  "('s \<Rightarrow> ('v, eui64) contents) \<Rightarrow> ('db, 's, 'v, 'r) up_env \<Rightarrow> 'r up_packet \<Rightarrow> 's \<Rightarrow> device_session \<Rightarrow> u32 \<Rightarrow> bool" where
  "authentic_for holds E p s m f \<longleftrightarrow>
     (\<exists>pl e x txCh. phy_MACPayload (rp_PHYPayload p) = Some (MACFrame pl) \<and> ds_DevAddr m = mf_DevAddr pl \<and>
       session_at (u_Sessions E) (holds s) e = Some x \<and> (m = x \<or> PendingRejoinDeviceSession x = Some m) \<and>
       \<not> ds_IsDisabled m \<and>
       u_validate E (rp_PHYPayload p) (GetMACVersion m) (ds_ConfFCnt m) (word_of_int (rp_DR p)) (word_of_int txCh)
         (ds_FNwkSIntKey m) (ds_SNwkSIntKey m) f = Inr True \<and>
       f \<in> {GetFullFCntUp (ds_FCntUp m) (mf_FCnt pl), mf_FCnt pl} \<and>
       (ds_FCntUp m \<le> f \<or> ds_SkipFCntValidation m))"

lemma lookup_keeps_values:
  assumes "redis_server R holds" and "codec_ok c"
    and "GetDeviceSessionForPHYPayload R c validate phy txDR txCh s = (x, s')"
  shows "c_val (holds s') = c_val (holds s)"
proof -
  have st: "session_store R holds c 1" using assms(1,2) by (rule session_storeI) simp
  have "c_val (holds s1) = c_val (holds s)" if "GetDeviceSessionsForDevAddr R c a s = (r, s1)" for a r s1
    using that session_store.loop_frame[OF st]
    by (auto simp: GetDeviceSessionsForDevAddr_def split: prod.splits sum.splits)
  then show ?thesis using assms(3)
    by (auto simp: GetDeviceSessionForPHYPayload_def split: phy_payload.splits prod.splits sum.splits option.splits if_splits)
qed

lemma set_mac_payload_simps [simp]:
  "w_DB (set_mac_payload m c) = w_DB c" "w_Redis (set_mac_payload m c) = w_Redis c" "w_Calls (set_mac_payload m c) = w_Calls c"
  "ux_DeviceSession (set_mac_payload m c) = ux_DeviceSession c" "ux_MACPayload (set_mac_payload m c) = m"
  "rp_RXInfoSet (ux_RXPacket (set_mac_payload m c)) = rp_RXInfoSet (ux_RXPacket c)"
  by (simp_all add: set_mac_payload_def)

lemma only_reported_error:
  "only_reported holds c0 c \<Longrightarrow> only_reported holds c0 (report_uplink_error E ds e c)"
  by (auto simp: only_reported_def report_uplink_error_def split: option.splits sum.splits)

lemma session_lookup_task:
  assumes "redis_server (u_Redis E) holds" and "codec_ok (u_Sessions E)"
    and "getDeviceSessionForPHYPayload E c = (r, c')"
    and "phy_MACPayload (rp_PHYPayload (ux_RXPacket c)) = Some (MACFrame (ux_MACPayload c))"
  shows "only_reported holds c c'" and "r = Inr () \<Longrightarrow> \<not> ds_IsDisabled (ux_DeviceSession c') \<Longrightarrow>
    \<exists>m f. authentic_for holds E (ux_RXPacket c) (w_Redis c) m f"
proof -
  let ?p = "ux_RXPacket c" and ?pl = "ux_MACPayload c"
  have same: "only_reported holds c c" by (simp add: only_reported_def)
  have both: "only_reported holds c c' \<and> (r = Inr () \<longrightarrow> \<not> ds_IsDisabled (ux_DeviceSession c') \<longrightarrow>
    (\<exists>m f. authentic_for holds E ?p (w_Redis c) m f))"
  proof (cases "\<exists>t ch. rp_TXInfo ?p = Some t \<and> u_UplinkChannelIndex E (ut_Frequency t) (rp_DR ?p) = Inr ch")
    case False
    then show ?thesis using assms(3) same
      by (auto simp: getDeviceSessionForPHYPayload_def Let_def split: option.splits sum.splits)
  next
    case True
    then obtain t ch where t: "rp_TXInfo ?p = Some t" "u_UplinkChannelIndex E (ut_Frequency t) (rp_DR ?p) = Inr ch" by blast
    obtain f y s where look: "GetDeviceSessionForPHYPayload (u_Redis E) (u_Sessions E) (u_validate E (rp_PHYPayload ?p))
        (MACPayload (mf_DevAddr ?pl) (mf_FCnt ?pl)) (rp_DR ?p) ch (w_Redis c) = ((f, y), s)"
      by (metis prod.collapse)
    let ?c1 = "set_mac_payload (?pl\<lparr>mf_FCnt := f\<rparr>) (c\<lparr>w_Redis := s\<rparr>)"
    have "c_val (holds s) = c_val (holds (w_Redis c))" using lookup_keeps_values[OF assms(1,2) look] .
    then have c1: "only_reported holds c ?c1" "\<And>ds. only_reported holds c (?c1\<lparr>ux_DeviceSession := ds\<rparr>)"
      by (simp_all add: only_reported_def)
    consider (error) e where "y = Inl e" | (refused) ds e where "y = Inr (ds, Some e)" | (ok) ds where "y = Inr (ds, None)"
      by (metis sum.exhaust prod.exhaust option.exhaust)
    then show ?thesis
    proof cases
      case error
      then show ?thesis using assms(3) t look c1 by (auto simp: getDeviceSessionForPHYPayload_def Let_def)
    next
      case refused
      then show ?thesis using assms(3) t look only_reported_error[OF c1(1)]
        by (auto simp: getDeviceSessionForPHYPayload_def Let_def)
    next
      case ok
      then have c': "c' = ?c1\<lparr>ux_DeviceSession := ds\<rparr>"
        using assms(3) t look by (simp add: getDeviceSessionForPHYPayload_def Let_def)
      obtain m e x where m: "session_at (u_Sessions E) (holds (w_Redis c)) e = Some x" "m = x \<or> PendingRejoinDeviceSession x = Some m"
        "ds_DevAddr m = mf_DevAddr ?pl"
        "u_validate E (rp_PHYPayload ?p) (GetMACVersion m) (ds_ConfFCnt m) (word_of_int (rp_DR ?p)) (word_of_int ch)
          (ds_FNwkSIntKey m) (ds_SNwkSIntKey m) f = Inr True"
        "f \<in> {GetFullFCntUp (ds_FCntUp m) (mf_FCnt ?pl), mf_FCnt ?pl}"
        "if ds_FCntUp m \<le> f then ds = m else ds_SkipFCntValidation m \<and> ds = m\<lparr>ds_FCntUp := 0, ds_UplinkHistory := []\<rparr>"
        using lookup_accepts[OF assms(1,2) look[unfolded ok]] by blast
      have "ds_IsDisabled m = ds_IsDisabled ds" "ds_FCntUp m \<le> f \<or> ds_SkipFCntValidation m"
        using m(6) by (auto split: if_splits)
      then have "authentic_for holds E ?p (w_Redis c) m f" if "\<not> ds_IsDisabled ds"
        using m that assms(4) unfolding authentic_for_def by blast
      then show ?thesis using c1(2) c' by auto
    qed
  qed
  then show "only_reported holds c c'" "r = Inr () \<Longrightarrow> \<not> ds_IsDisabled (ux_DeviceSession c') \<Longrightarrow>
    \<exists>m f. authentic_for holds E ?p (w_Redis c) m f" by blast+
qed

text \<open>
  C34: an uplink has no effect unless it is authentic and fresh. For a frame that is not handed to
  another network, either the database, every stored value of Redis and the calls are what they
  were, error reports for the application-server apart, or some stored session of the frame's
  address, of a device that is not disabled, validates its MIC at a counter that is not below the
  expected one (or skips that check).
\<close>

theorem effects_need_an_authentic_frame:
  assumes "redis_server (u_Redis E) holds" and "codec_ok (u_Sessions E)"
    and "\<And>pl. phy_MACPayload (rp_PHYPayload p) = Some (MACFrame pl) \<Longrightarrow>
      \<not> IsRoamingDevAddr (u_roamingEnabled E) (u_IsNetID E) (mf_DevAddr pl)"
    and "Handle E p c = (r, c')"
  shows "only_reported holds c c' \<or> (\<exists>m f. authentic_for holds E p (w_Redis c) m f)"
proof (rule disjCI)
  assume no: "\<not> (\<exists>m f. authentic_for holds E p (w_Redis c) m f)"
  let ?c = "c\<lparr>ux_RXPacket := p\<rparr>"
  define rest where "rest = drop 4 (uplink_tasks E)"
  have tasks: "uplink_tasks E = setContextFromDataPHYPayload # handlePassiveRoamingDevice E #
      getDeviceSessionForPHYPayload E # abortOnDeviceIsDisabled # rest"
    by (simp add: rest_def uplink_tasks_def)
  obtain x where run: "run_tasks (uplink_tasks E) ?c = (x, c')"
    using flow_handle_tasks[of "uplink_tasks E" ?c] assms(4) by (auto simp: Handle_def)
  show "only_reported holds c c'"
  proof (cases "\<exists>pl. phy_MACPayload (rp_PHYPayload p) = Some (MACFrame pl)")
    case False
    then show ?thesis using run
      by (auto simp: tasks run_tasks.simps setContextFromDataPHYPayload_def only_reported_def
          split: option.splits frame_payload.splits)
  next
    case True
    then obtain pl where pl: "phy_MACPayload (rp_PHYPayload p) = Some (MACFrame pl)" by blast
    let ?c1 = "?c\<lparr>ux_MACPayload := pl\<rparr>"
    have run1: "run_tasks (getDeviceSessionForPHYPayload E # abortOnDeviceIsDisabled # rest) ?c1 = (x, c')"
      using run pl assms(3)[OF pl]
      by (simp add: tasks run_tasks.simps setContextFromDataPHYPayload_def handlePassiveRoamingDevice_def)
    obtain r2 c2 where look: "getDeviceSessionForPHYPayload E ?c1 = (r2, c2)" by fastforce
    have only: "only_reported holds c c2"
      using session_lookup_task(1)[OF assms(1,2) look] pl by (simp add: only_reported_def)
    show ?thesis
    proof (cases r2)
      case (Inl e)
      then show ?thesis using only run1 look by (simp add: run_tasks.simps)
    next
      case (Inr u)
      then have "ds_IsDisabled (ux_DeviceSession c2)"
        using session_lookup_task(2)[OF assms(1,2) look] pl no by auto
      then show ?thesis using only run1 look Inr
        by (simp add: run_tasks.simps abortOnDeviceIsDisabled_def)
    qed
  qed
qed

section \<open>The session advances\<close>

text \<open>What the tasks between the look-up and the saving keep: the device and the frame's counter.\<close>

definition on_frame :: "eui64 \<Rightarrow> u32 \<Rightarrow> ('db, 's, 'r) uplink_context \<Rightarrow> bool" where
  "on_frame e f c \<longleftrightarrow> ds_DevEUI (ux_DeviceSession c) = e \<and> mf_FCnt (ux_MACPayload c) = f"

text \<open>The library's decoding and decryption of a frame leave its counter alone.\<close>

definition frame_library_ok :: "('db, 's, 'v, 'r) up_env \<Rightarrow> bool" where
  "frame_library_ok E \<longleftrightarrow>
     (\<forall>m m'. u_DecodeFOpts E m = Inr m' \<longrightarrow> mf_FCnt m' = mf_FCnt m) \<and>
     (\<forall>k m m'. u_DecryptFOpts E k m = Inr m' \<longrightarrow> mf_FCnt m' = mf_FCnt m) \<and>
     (\<forall>k m m'. u_DecryptFRMPayload E k m = Inr m' \<longrightarrow> mf_FCnt m' = mf_FCnt m)"

lemma on_frame_context [simp]:
  "on_frame e f (c\<lparr>w_DB := db\<rparr>) = on_frame e f c" "on_frame e f (c\<lparr>w_Redis := s\<rparr>) = on_frame e f c"
  "on_frame e f (c\<lparr>w_Calls := cs\<rparr>) = on_frame e f c" "on_frame e f (call_out x c) = on_frame e f c"
  "on_frame e f (c\<lparr>ux_RXPacket := p\<rparr>) = on_frame e f c" "on_frame e f (c\<lparr>ux_DeviceProfile := dp\<rparr>) = on_frame e f c"
  "on_frame e f (c\<lparr>ux_ServiceProfile := sp\<rparr>) = on_frame e f c"
  "on_frame e f (c\<lparr>ux_MACCommandResponses := bs\<rparr>) = on_frame e f c"
  "on_frame e f (c\<lparr>ux_MustSendDownlink := b\<rparr>) = on_frame e f c"
  by (simp_all add: on_frame_def call_out_def)

lemma on_frame_same_security: "same_security c c' \<Longrightarrow> on_frame e f c' = on_frame e f c"
  by (simp add: on_frame_def same_security_def security_context_def)

lemma on_frame_wrapping:
  "wrapping what t c = (r, c') \<Longrightarrow> (\<And>x c1. t c = (x, c1) \<Longrightarrow> on_frame e f c1 = on_frame e f c) \<Longrightarrow> on_frame e f c' = on_frame e f c"
  by (auto simp: wrapping_def split: prod.splits sum.splits)

lemma on_frame_on_DB: "on_DB g c = (r, c') \<Longrightarrow> on_frame e f c' = on_frame e f c"
  by (auto simp: on_DB_def split: prod.splits)

lemma on_frame_on_Redis: "on_Redis g c = (r, c') \<Longrightarrow> on_frame e f c' = on_frame e f c"
  by (auto simp: on_Redis_def split: prod.splits)

lemma on_frame_create: "create_queue_items E items c = (r, c') \<Longrightarrow> on_frame e f c' = on_frame e f c"
  by (induction E items c rule: create_queue_items.induct) (auto split: option.splits prod.splits sum.splits)

lemma on_frame_recreate: "recreate_queue E c = (r, c') \<Longrightarrow> on_frame e f c' = on_frame e f c"
proof -
  assume r: "recreate_queue E c = (r, c')"
  let ?flush = "wrapping ''flush device-queue for deveui error''
    (on_DB (FlushDeviceQueueForDevEUI (u_Queue E) (ds_DevEUI (ux_DeviceSession c))))"
  obtain x c1 where fl: "?flush c = (x, c1)" by fastforce
  have "on_frame e f c1 = on_frame e f c" using fl on_frame_wrapping on_frame_on_DB by blast
  then show ?thesis
    using r fl on_frame_create[of E _ c1] by (auto simp: recreate_queue_def Let_def split: sum.splits)
qed

lemma on_frame_Transaction:
  assumes "Transaction X t c = (r, c')" and "\<And>x c1 c2. t c1 = (x, c2) \<Longrightarrow> on_frame e f c2 = on_frame e f c1"
  shows "on_frame e f c' = on_frame e f c"
proof -
  obtain r1 c1 where b: "on_DB (sx_Begin X) c = (r1, c1)" by fastforce
  obtain r2 c2 where t: "t c1 = (r2, c2)" by fastforce
  obtain r3 c3 where k: "on_DB (sx_Commit X) c2 = (r3, c3)" by fastforce
  obtain r4 c4 where l: "on_DB (sx_Rollback X) c2 = (r4, c4)" by fastforce
  have "c' \<in> {c1, c3, c4}" using assms(1) b t k l by (auto simp: Transaction_def split: sum.splits)
  then show ?thesis using on_frame_on_DB[OF b] on_frame_on_DB[OF k] on_frame_on_DB[OF l] assms(2)[OF t] by auto
qed

lemma on_frame_mode: "set_device_mode E mode c = (r, c') \<Longrightarrow> on_frame e f c' = on_frame e f c"
  by (auto simp: set_device_mode_def split: sum.splits dest: on_frame_wrapping on_frame_on_DB)

lemma on_frame_beacon:
  assumes "setBeaconLocked E c = (r, c')"
  shows "on_frame e f c' = on_frame e f c"
proof -
  let ?b = "fc_ClassB (mf_FCtrl (ux_MACPayload c))"
  let ?c1 = "c\<lparr>ux_DeviceSession := (ux_DeviceSession c)\<lparr>ds_BeaconLocked := ?b\<rparr>\<rparr>"
  let ?re = "wrapping ''re-create device-queue items error'' (Transaction (u_Session E) (recreate_queue E))"
  have c1: "on_frame e f ?c1 = on_frame e f c" by (simp add: on_frame_def)
  obtain r2 c2 where m: "set_device_mode E (if ?b then DeviceModeB else DeviceModeA) ?c1 = (r2, c2)" by fastforce
  obtain r3 c3 where t: "?re c2 = (r3, c3)" by fastforce
  have "on_frame e f c2 = on_frame e f c" using on_frame_mode[OF m] c1 by simp
  moreover have "on_frame e f c3 = on_frame e f c2"
    by (rule on_frame_wrapping[OF t]) (use on_frame_Transaction on_frame_recreate in blast)
  moreover have "c' \<in> {c, c2, c3}"
    using assms m t by (auto simp: setBeaconLocked_def Let_def run_tasks.simps split: if_splits sum.splits)
  ultimately show ?thesis by auto
qed

lemma on_frame_commands:
  assumes "up_commands E pls c = (r, c')"
  shows "on_frame e f c' = on_frame e f c"
proof -
  obtain x c1 where h: "handleUplinkMACCommands E pls c = (x, c1)" by fastforce
  note on_frame_same_security[OF commands_same[OF h], of e f]
  moreover have "on_frame e f c' = on_frame e f c1"
    using assms h by (cases x) (auto simp: up_commands_def split: prod.splits)
  ultimately show ?thesis by simp
qed

lemma on_frame_profiles:
  "up_getDeviceProfile E c = (r, c') \<Longrightarrow> on_frame e f c' = on_frame e f c"
  "up_getServiceProfile E c = (r, c') \<Longrightarrow> on_frame e f c' = on_frame e f c"
  "setDownlinkDeviceLock E c = (r, c') \<Longrightarrow> on_frame e f c' = on_frame e f c"
  "filterRxInfoByServiceProfile E c = (r, c') \<Longrightarrow> on_frame e f c' = on_frame e f c"
  by (auto simp: up_getDeviceProfile_def up_getServiceProfile_def setDownlinkDeviceLock_def filterRxInfoByServiceProfile_def
      wrapping_def on_Redis_def split: prod.splits sum.splits if_splits)

lemma on_frame_decrypt:
  "frame_library_ok E \<Longrightarrow> decryptFOptsMACCommands E c = (r, c') \<Longrightarrow> on_frame e f c' = on_frame e f c"
  "frame_library_ok E \<Longrightarrow> decryptFRMPayloadMACCommands E c = (r, c') \<Longrightarrow> on_frame e f c' = on_frame e f c"
  by (auto simp: decryptFOptsMACCommands_def decryptFRMPayloadMACCommands_def frame_library_ok_def on_frame_def
      split: sum.splits if_splits)

lemma AppendUplinkHistory_dev [simp]:
  "ds_DevEUI (AppendUplinkHistory h d) = ds_DevEUI d" "ds_DevAddr (AppendUplinkHistory h d) = ds_DevAddr d"
  "ds_Pending (AppendUplinkHistory h d') = ds_Pending d'"
  by (simp_all add: AppendUplinkHistory_def Let_def)

lemma on_frame_session:
  "setADR c = (r, c') \<Longrightarrow> on_frame e f c' = on_frame e f c"
  "setUplinkDataRate c = (r, c') \<Longrightarrow> on_frame e f c' = on_frame e f c"
  "appendMetaDataToUplinkHistory c = (r, c') \<Longrightarrow> on_frame e f c' = on_frame e f c"
  by (auto simp: setADR_def setUplinkDataRate_def appendMetaDataToUplinkHistory_def update_ctx_def on_frame_def follow_data_rate_def)

lemma on_frame_reports:
  "logUplinkFrame E c = (r, c') \<Longrightarrow> on_frame e f c' = on_frame e f c"
  "getApplicationServerClientForDataUp E c = (r, c') \<Longrightarrow> on_frame e f c' = on_frame e f c"
  "sendUplinkMetaDataToNetworkController E c = (r, c') \<Longrightarrow> on_frame e f c' = on_frame e f c"
  "storeDeviceGatewayRXInfoSet E c = (r, c') \<Longrightarrow> on_frame e f c' = on_frame e f c"
  by (auto simp: logUplinkFrame_def getApplicationServerClientForDataUp_def sendUplinkMetaDataToNetworkController_def Let_def
      storeDeviceGatewayRXInfoSet_def wrapping_def on_Redis_def split: option.splits sum.splits prod.splits if_splits)

lemma on_frame_payload: "sendFRMPayloadToApplicationServer c = (r, c') \<Longrightarrow> on_frame e f c' = on_frame e f c"
  by (auto simp: sendFRMPayloadToApplicationServer_def Let_def on_frame_def call_out_def
      split: if_splits list.splits payload.splits)

lemma on_frame_mac:
  "handleFOptsMACCommands E c = (r, c') \<Longrightarrow> on_frame e f c' = on_frame e f c"
  "handleFRMPayloadMACCommands E c = (r, c') \<Longrightarrow> on_frame e f c' = on_frame e f c"
  by (auto simp: handleFOptsMACCommands_def handleFRMPayloadMACCommands_def split: if_splits dest: on_frame_commands)

lemmas on_frame_tasks = on_frame_profiles on_frame_decrypt on_frame_session on_frame_reports on_frame_payload on_frame_mac
  on_frame_beacon

lemma frame_tasks_on_frame:
  assumes "frame_library_ok E" and "t \<in> set (frame_tasks E)" and "t c = (r, c')" and "on_frame e f c"
  shows "on_frame e f c'"
  using assms(2) on_frame_tasks[where c = c and c' = c' and r = r and e = e and f = f] assms(1,3,4)
  by (simp add: frame_tasks_def) blast

lemma no_abort_up_helpers [no_abort_intros]:
  "no_abort (create_queue_items E items)" "no_abort (up_commands E pls)" "no_abort (set_device_mode E m)"
proof -
  show "no_abort (create_queue_items E items)"
    unfolding no_abort_def
  proof (intro allI)
    fix c c' show "create_queue_items E items c \<noteq> (Inl ErrAbort, c')"
      by (induction E items c rule: create_queue_items.induct) (auto split: option.splits prod.splits sum.splits)
  qed
  show "no_abort (up_commands E pls)"
    by (auto simp: no_abort_def up_commands_def is_panic_def split: prod.splits sum.splits error.splits)
  show "no_abort (set_device_mode E m)"
    by (auto simp: no_abort_def set_device_mode_def wrapping_def split: sum.splits prod.splits)
qed

lemma no_abort_beacon [no_abort_intros]: "no_abort (setBeaconLocked E)"
proof -
  have "no_abort (run_tasks [set_device_mode E DeviceModeB,
      wrapping ''re-create device-queue items error'' (Transaction (u_Session E) (recreate_queue E))])"
    by (auto intro!: no_abort_intros)
  then show ?thesis using no_abort_up_helpers(3)[of E DeviceModeA] by (auto simp: no_abort_def setBeaconLocked_def Let_def)
qed

lemma no_abort_up_tasks [no_abort_intros]:
  "no_abort (up_getDeviceProfile E)" "no_abort (up_getServiceProfile E)" "no_abort (setDownlinkDeviceLock E)"
  "no_abort (decryptFOptsMACCommands E)" "no_abort (decryptFRMPayloadMACCommands E)" "no_abort (logUplinkFrame E)"
  "no_abort (sendUplinkMetaDataToNetworkController E)" "no_abort (storeDeviceGatewayRXInfoSet E)"
  "no_abort (sendFRMPayloadToApplicationServer)" "no_abort (getApplicationServerClientForDataUp E)"
  "no_abort (up_saveDeviceSession E)" "no_abort (handleUplinkACK E)" "no_abort (handleDownlink E)"
  "no_abort (handlePassiveRoamingDownlink E)"
  unfolding no_abort_def
  by (auto simp: up_getDeviceProfile_def up_getServiceProfile_def setDownlinkDeviceLock_def
      decryptFOptsMACCommands_def decryptFRMPayloadMACCommands_def logUplinkFrame_def Let_def wrapping_def
      sendUplinkMetaDataToNetworkController_def storeDeviceGatewayRXInfoSet_def sendFRMPayloadToApplicationServer_def
      getApplicationServerClientForDataUp_def GetASClientForRoutingProfileID_def up_saveDeviceSession_def on_Redis_def
      SaveDeviceSession_def handleUplinkACK_def handleDownlink_def handlePassiveRoamingDownlink_def
      split: prod.splits sum.splits option.splits list.splits payload.splits if_splits)

lemma no_abort_up_session [no_abort_intros]:
  "no_abort setADR" "no_abort setUplinkDataRate" "no_abort appendMetaDataToUplinkHistory" "no_abort syncUplinkFCnt"
  by (auto simp: setADR_def setUplinkDataRate_def appendMetaDataToUplinkHistory_def syncUplinkFCnt_def intro!: no_abort_intros)

lemma no_abort_up_mac [no_abort_intros]: "no_abort (handleFOptsMACCommands E)" "no_abort (handleFRMPayloadMACCommands E)"
  using no_abort_up_helpers(2)[of E] unfolding no_abort_def
  by (simp_all add: handleFOptsMACCommands_def handleFRMPayloadMACCommands_def)

lemma no_abort_after_save: "no_abort (run_tasks [syncUplinkFCnt, up_saveDeviceSession E, handleUplinkACK E,
      isRoaming False [handleDownlink E], isRoaming True [handlePassiveRoamingDownlink E]])"
  by (auto simp: isRoaming_def intro!: no_abort_intros)

definition heard_openly :: "('db, 's, 'v, 'r) up_env \<Rightarrow> uuid \<Rightarrow> 'r up_packet \<Rightarrow> bool" where
  "heard_openly E sp p \<longleftrightarrow> (\<exists>rx \<in> set (rp_RXInfoSet p).
     \<not> (gateway_is_private p rx \<or> u_ForceGwsPrivate E) \<or> gateway_service_profile p rx = sp)"

lemma filter_heard:
  assumes "heard_openly E (ds_ServiceProfileID (ux_DeviceSession c)) (ux_RXPacket c)"
  shows "\<exists>p. filterRxInfoByServiceProfile E c = (Inr (), c\<lparr>ux_RXPacket := p\<rparr>)"
  using assms
  by (auto simp: filterRxInfoByServiceProfile_def FilterRxInfoByServiceProfileID_def heard_openly_def Let_def filter_empty_conv)

text \<open>From the look-up of the session to its saving nothing aborts.\<close>

lemma frame_tasks_no_abort:
  assumes "heard_openly E (ds_ServiceProfileID (ux_DeviceSession c)) (ux_RXPacket c)"
  shows "run_tasks (frame_tasks E) c \<noteq> (Inl ErrAbort, c')"
proof
  assume run: "run_tasks (frame_tasks E) c = (Inl ErrAbort, c')"
  define early where "early = [up_getDeviceProfile E, up_getServiceProfile E, setDownlinkDeviceLock E]"
  define later where "later = drop 4 (frame_tasks E)"
  have ft: "frame_tasks E = early @ filterRxInfoByServiceProfile E # later"
    by (simp add: early_def later_def frame_tasks_def)
  obtain r1 c1 where e: "run_tasks early c = (r1, c1)" by fastforce
  have "ux_DeviceSession c1 = ux_DeviceSession c \<and> ux_RXPacket c1 = ux_RXPacket c"
    using e by (auto simp: early_def run_tasks.simps up_getDeviceProfile_def up_getServiceProfile_def setDownlinkDeviceLock_def
        wrapping_def on_Redis_def split: prod.splits sum.splits if_splits)
  then obtain p where f: "filterRxInfoByServiceProfile E c1 = (Inr (), c1\<lparr>ux_RXPacket := p\<rparr>)"
    using filter_heard[of E c1] assms by auto
  have "no_abort (run_tasks early)" by (auto simp: early_def intro!: no_abort_intros)
  moreover have "no_abort (run_tasks later)" by (auto simp: later_def frame_tasks_def intro!: no_abort_intros)
  ultimately show False
    using run e f by (cases r1) (auto simp: ft run_tasks_append run_tasks.simps no_abort_def)
qed

definition fcnt_at :: "('s \<Rightarrow> ('v, eui64) contents) \<Rightarrow> ('db, 's, 'v, 'r) up_env \<Rightarrow> 's \<Rightarrow> eui64 \<Rightarrow> u32 option" where
  "fcnt_at holds E s e = map_option ds_FCntUp (session_at (u_Sessions E) (holds s) e)"

text \<open>The store has a session of the device of \<open>d\<close>, at the uplink counter of \<open>d\<close>.\<close>

definition stored_for :: "('s \<Rightarrow> ('v, eui64) contents) \<Rightarrow> 'v session_codec \<Rightarrow> 's \<Rightarrow> device_session \<Rightarrow> bool" where
  "stored_for holds codec s d \<longleftrightarrow>
     (\<exists>d'. session_at codec (holds s) (ds_DevEUI d) = Some d' \<and> ds_DevEUI d' = ds_DevEUI d \<and> ds_FCntUp d' = ds_FCntUp d)"

definition responses_keep_fcnt :: "('s \<Rightarrow> ('v, eui64) contents) \<Rightarrow> ('db, 's, 'v, 'r) up_env \<Rightarrow> bool" where
  "responses_keep_fcnt holds E \<longleftrightarrow>
     (\<forall>q sp d a b k ms w x w' e. stored_for holds (u_Sessions E) (w_Redis w) d \<longrightarrow>
        u_HandleResponse E q sp d a b k ms w = (x, w') \<longrightarrow>
        fcnt_at holds E (w_Redis w') e = fcnt_at holds E (w_Redis w) e)"

lemma fromPB_toPB_FCntUp: "ds_FCntUp (deviceSessionFromPB (deviceSessionToPB d)) = ds_FCntUp d"
  by (simp add: deviceSessionFromPB_def deviceSessionToPB_def with_pending_def session.defs
      device_session.defs session_from_pb_def session_to_pb_def session_pb.defs device_session_pb.defs)

lemma saved_and_answered:
  assumes "session_store (u_Redis E) holds (u_Sessions E) (u_TTL E)"
    and "responses_keep_fcnt holds E"
    and "run_tasks [syncUplinkFCnt, up_saveDeviceSession E, handleUplinkACK E,
      isRoaming False [handleDownlink E], isRoaming True [handlePassiveRoamingDownlink E]] c = (Inr (), c')"
    and "on_frame e f c"
  shows "fcnt_at holds E (w_Redis c') e = Some (f + 1)"
proof -
  let ?ds = "(ux_DeviceSession c)\<lparr>ds_FCntUp := mf_FCnt (ux_MACPayload c) + 1\<rparr>"
  obtain s c1 c2 where t:
    "SaveDeviceSession (u_Redis E) (u_Sessions E) (u_TTL E) ?ds (w_Redis c) = (Inr (), s)"
    "handleUplinkACK E (c\<lparr>ux_DeviceSession := ?ds, w_Redis := s\<rparr>) = (Inr (), c1)"
    "isRoaming False [handleDownlink E] c1 = (Inr (), c2)"
    "isRoaming True [handlePassiveRoamingDownlink E] c2 = (Inr (), c')"
    using assms(3) by (auto simp: tasks_ok syncUplinkFCnt_def up_saveDeviceSession_def)
  have stored: "session_at (u_Sessions E) (holds s) e = Some (deviceSessionFromPB (deviceSessionToPB ?ds))" "ds_DevEUI ?ds = e"
    using session_store.Save_stores(1)[OF assms(1) t(1), of e] assms(4) by (simp_all add: on_frame_def)
  then have "fcnt_at holds E s e = Some (f + 1)"
    using assms(4) by (simp add: fcnt_at_def on_frame_def fromPB_toPB_FCntUp)
  have c1: "w_Redis c1 = s" "ux_DeviceSession c1 = ?ds"
    using t(2) by (auto simp: handleUplinkACK_def Let_def wrapping_def on_DB_def call_out_def split: if_splits sum.splits prod.splits option.splits)
  have down: "fcnt_at holds E (w_Redis c4) e = fcnt_at holds E (w_Redis c3) e"
    if ran: "handleDownlink E c3 = (r, c4)" and same: "w_Redis c3 = s" "ux_DeviceSession c3 = ?ds" for c3 r c4
  proof -
    have "stored_for holds (u_Sessions E) (w_Redis (world.truncate c3)) (ux_DeviceSession c3)"
      using stored same by (simp add: stored_for_def fromPB_toPB_fields fromPB_toPB_FCntUp world.defs)
    moreover obtain sp a b k ms x w where
      "u_HandleResponse E (ux_RXPacket c3) sp (ux_DeviceSession c3) a b k ms (world.truncate c3) = (x, w)" "w_Redis c4 = w_Redis w"
      using ran by (auto simp: handleDownlink_def Let_def wrapping_def in_world_def split: prod.splits sum.splits)
    ultimately have "fcnt_at holds E (w_Redis c4) e = fcnt_at holds E (w_Redis (world.truncate c3)) e"
      using assms(2) unfolding responses_keep_fcnt_def by metis
    then show ?thesis by (simp add: world.defs)
  qed
  have "fcnt_at holds E (w_Redis c') e = fcnt_at holds E (w_Redis c1) e"
  proof (cases "rp_RoamingMetaData (ux_RXPacket c1) = None")
    case True
    then have d: "handleDownlink E c1 = (Inr (), c2)" using t(3) by (auto simp: isRoaming_def task_when_ok run_tasks_ok)
    then have "ux_RXPacket c2 = ux_RXPacket c1"
      by (auto simp: handleDownlink_def Let_def wrapping_def in_world_def split: prod.splits sum.splits)
    then have "c' = c2" using t(4) True by (auto simp: isRoaming_def task_when_ok)
    then show ?thesis using down[OF d c1] by simp
  next
    case False
    then have "c2 = c1" using t(3) by (auto simp: isRoaming_def task_when_ok)
    then have "c' = snd (handleDownlink E c1)"
      using t(4) False by (auto simp: isRoaming_def task_when_ok run_tasks_ok handlePassiveRoamingDownlink_def)
    then show ?thesis using down[OF _ c1, of "fst (handleDownlink E c1)" c'] by simp
  qed
  then show ?thesis using \<open>fcnt_at holds E s e = Some (f + 1)\<close> c1 by simp
qed

text \<open>
  A processed uplink advances its session, if the response flow leaves the uplink counters of stored
  sessions alone when the store has the session it is given at its counter; \<open>Exchange\<close> shows that
  the response flow of the server does.
\<close>

lemma processed_uplink_advances_the_session:
  assumes "session_store (u_Redis E) holds (u_Sessions E) (u_TTL E)" and "frame_library_ok E"
    and "phy_MACPayload (rp_PHYPayload p) = Some (MACFrame pl)"
    and "\<not> IsRoamingDevAddr (u_roamingEnabled E) (u_IsNetID E) (mf_DevAddr pl)"
    and "rp_TXInfo p = Some t" and "u_UplinkChannelIndex E (ut_Frequency t) (rp_DR p) = Inr ch"
    and "GetDeviceSessionForPHYPayload (u_Redis E) (u_Sessions E) (u_validate E (rp_PHYPayload p))
           (MACPayload (mf_DevAddr pl) (mf_FCnt pl)) (rp_DR p) ch (w_Redis c) = ((f, Inr (ds, None)), s)"
    and "\<not> ds_IsDisabled ds" and "heard_openly E (ds_ServiceProfileID ds) p"
    and "responses_keep_fcnt holds E"
    and "Handle E p c = (Inr (), c')"
  shows "fcnt_at holds E (w_Redis c') (ds_DevEUI ds) = Some (f + 1)"
proof -
  let ?post = "[syncUplinkFCnt, up_saveDeviceSession E, handleUplinkACK E,
      isRoaming False [handleDownlink E], isRoaming True [handlePassiveRoamingDownlink E]]"
  define c1 where "c1 = (set_mac_payload (pl\<lparr>mf_FCnt := f\<rparr>) (c\<lparr>ux_RXPacket := p, ux_MACPayload := pl, w_Redis := s\<rparr>))
    \<lparr>ux_DeviceSession := ds\<rparr>"
  have "flow_handle (frame_tasks E @ ?post) c1 = (Inr (), c')"
    using assms(3-8,11)
    by (simp add: Handle_def uplink_tasks_def flow_handle_def run_tasks.simps setContextFromDataPHYPayload_def
        handlePassiveRoamingDevice_def getDeviceSessionForPHYPayload_def abortOnDeviceIsDisabled_def c1_def Let_def)
  then obtain x where x: "run_tasks (frame_tasks E @ ?post) c1 = (x, c')" "x = Inr () \<or> x = Inl ErrAbort"
    by (auto simp: flow_handle_def split: prod.splits sum.splits if_splits)
  obtain r2 c2 where mid: "run_tasks (frame_tasks E) c1 = (r2, c2)" by fastforce
  have "heard_openly E (ds_ServiceProfileID (ux_DeviceSession c1)) (ux_RXPacket c1)"
    using assms(9) by (simp add: heard_openly_def c1_def set_mac_payload_def gateway_is_private_def gateway_service_profile_def)
  then have "r2 = Inr ()"
    using frame_tasks_no_abort mid x by (cases r2) (auto simp: run_tasks_append)
  then have post: "run_tasks ?post c2 = (Inr (), c')"
    using x mid no_abort_after_save[of E] by (auto simp: run_tasks_append no_abort_def)
  have "on_frame (ds_DevEUI ds) f c1" by (simp add: on_frame_def c1_def)
  then have "on_frame (ds_DevEUI ds) f c2"
    using run_tasks_inv[of "frame_tasks E" c1 r2 c2 "on_frame (ds_DevEUI ds) f"] mid frame_tasks_on_frame[OF assms(2)] by blast
  then show ?thesis using saved_and_answered[OF assms(1,10) post] by blast
qed

section \<open>A sample\<close>

definition sample_up_env :: "(memory_db, memory, redis_value, 'r) up_env" where
  "sample_up_env =
     \<lparr>u_Redis = mem_redis, u_Sessions = session_values, u_Blocks = block_values, u_RxInfo = rx_info_values,
      u_DeviceProfileCodec = device_profile_values, u_ServiceProfileCodec = service_profile_values, u_TTL = 1000,
      u_Queue = memory_queue, u_Devices = memory_devices, u_DeviceProfiles = memory_profiles,
      u_ServiceProfiles = memory_services, u_RoutingProfiles = memory_routing, u_Session = memory_session,
      u_lock = DeviceProfileValue zero_device_profile, u_pool = (\<lambda>_. Inr ()), u_Band = sample_band, u_UplinkChannelIndex = (\<lambda>_ _. Inr 0),
      u_ReceiveDelay2 = 2 * second, u_classCDownlinkLockDuration = second, u_disableMACCommands = False,
      u_ForceGwsPrivate = False, u_has_controller = True, u_roamingEnabled = False, u_IsNetID = (\<lambda>_. True),
      u_validate = (\<lambda>_ _ _ _ _ _ _ f. Inr (f = 5)), u_DecodeFOpts = Inr, u_DecryptFOpts = (\<lambda>_. Inr),
      u_DecryptFRMPayload = (\<lambda>_. Inr), u_log_error = (\<lambda>_. None), u_phy_size = (\<lambda>_. Inr 13),
      u_payload_size = (\<lambda>_. Inr 1), u_marshal_command = (\<lambda>_. Inr []), u_HandleDownlinkACK = (\<lambda>_ _. None),
      u_aes = (\<lambda>_ _ _. 0), u_marshal_addr = (\<lambda>_. Inr [4, 3, 2, 1]), u_now = 0,
      u_HandleRoamingFNS = (\<lambda>_ w. (Inr (), w)), u_HandleResponse = (\<lambda>_ _ _ _ _ _ _ w. (Inr (), w))\<rparr>"

lemma sample_up_env_simps [simp]:
  "u_Redis sample_up_env = mem_redis" "u_Sessions sample_up_env = session_values"
  "u_Blocks sample_up_env = block_values" "u_RxInfo sample_up_env = rx_info_values"
  "u_DeviceProfileCodec sample_up_env = device_profile_values"
  "u_ServiceProfileCodec sample_up_env = service_profile_values" "u_TTL sample_up_env = 1000"
  "u_Queue sample_up_env = memory_queue" "u_Devices sample_up_env = memory_devices"
  "u_DeviceProfiles sample_up_env = memory_profiles" "u_ServiceProfiles sample_up_env = memory_services"
  "u_RoutingProfiles sample_up_env = memory_routing" "u_Session sample_up_env = memory_session"
  "u_pool sample_up_env = (\<lambda>_. Inr ())"
  "u_Band sample_up_env = sample_band" "u_UplinkChannelIndex sample_up_env = (\<lambda>_ _. Inr 0)"
  "u_ReceiveDelay2 sample_up_env = 2 * second" "u_classCDownlinkLockDuration sample_up_env = second"
  "u_disableMACCommands sample_up_env = False" "u_ForceGwsPrivate sample_up_env = False"
  "u_has_controller sample_up_env = True" "u_roamingEnabled sample_up_env = False"
  "u_IsNetID sample_up_env = (\<lambda>_. True)"
  "u_validate sample_up_env = (\<lambda>_ _ _ _ _ _ _ f. Inr (f = 5))" "u_DecodeFOpts sample_up_env = Inr"
  "u_DecryptFOpts sample_up_env = (\<lambda>_. Inr)" "u_DecryptFRMPayload sample_up_env = (\<lambda>_. Inr)"
  "u_log_error sample_up_env = (\<lambda>_. None)" "u_phy_size sample_up_env = (\<lambda>_. Inr 13)"
  "u_payload_size sample_up_env = (\<lambda>_. Inr 1)" "u_marshal_command sample_up_env = (\<lambda>_. Inr [])"
  "u_HandleDownlinkACK sample_up_env = (\<lambda>_ _. None)" "u_aes sample_up_env = (\<lambda>_ _ _. 0)"
  "u_marshal_addr sample_up_env = (\<lambda>_. Inr [4, 3, 2, 1])" "u_now sample_up_env = 0"
  "u_HandleRoamingFNS sample_up_env = (\<lambda>_ w. (Inr (), w))"
  "u_HandleResponse sample_up_env = (\<lambda>_ _ _ _ _ _ _ w. (Inr (), w))"
  by (simp_all add: sample_up_env_def)

definition sample_uplink_frame :: mac_frame where
  "sample_uplink_frame =
     \<lparr>mf_DevAddr = 0x01020304, mf_FCtrl = no_fctrl, mf_FCnt = 5,
      mf_FOpts = [MACCommandItem \<lparr>mc_CID = CID_LinkCheck, mc_Payload = None\<rparr>], mf_FPort = Some 1,
      mf_FRMPayload = [DataItem [1, 2, 3]]\<rparr>"

definition sample_uplink :: "'r up_packet" where
  "sample_uplink =
     \<lparr>rp_DR = 0, rp_PHYPayload = \<lparr>phy_MType = UnconfirmedDataUp, phy_MACPayload = Some (MACFrame sample_uplink_frame)\<rparr>,
      rp_TXInfo = Some \<lparr>mi_Modulation = Modulation_LORA, mi_ModulationInfo = None, ut_Frequency = 868100000\<rparr>,
      rp_RXInfoSet = [\<lparr>ri_GatewayId = [], ri_Time = None, ri_TimeSinceGpsEpoch = None, ri_Rssi = - 60, ri_LoraSnr = 5,
        ri_Channel = 0, ri_RfChain = 0, ri_Board = 0, ri_Antenna = 0, ri_Location = None, ri_Context = [], ri_UplinkId = [],
        ri_FineTimestamp = None\<rparr>],
      rp_GatewayIsPrivate = Some [], rp_GatewayServiceProfile = Some [], rp_RoamingMetaData = None\<rparr>"

definition sample_up_context :: "(memory_db, memory, 'r) uplink_context" where
  "sample_up_context =
     \<lparr>w_DB = (sample_tables, sample_tables), w_Redis = memory_7, w_Calls = [], ux_RXPacket = sample_uplink,
      ux_MACPayload = sample_uplink_frame, ux_DeviceSession = device_7, ux_DeviceProfile = zero_device_profile,
      ux_ServiceProfile = zero_service_profile, ux_MACCommandResponses = [], ux_MustSendDownlink = False\<rparr>"

lemma sample_full_fcnt: "GetFullFCntUp 0 5 = 5"
  using GetFullFCntUp_reconstructs [of 5 0] by simp

lemma sample_uplink_lookup:
  "GetDeviceSessionForPHYPayload mem_redis session_values (\<lambda>_ _ _ _ _ _ f. Inr (f = 5)) (MACPayload 0x01020304 5) 0 0 memory_7 =
     ((5, Inr (device_7, None)), memory_7)"
  by (simp add: GetDeviceSessionForPHYPayload_def GetDeviceSessionsForDevAddr_def GetDevEUIsForDevAddr_def GetDeviceSession_def
      matching_sessions_def mem_redis_def memory_7_def mem_empty_def mem_set_def mem_val_def session_values_def
      session_mic_def fcnt_verdict_def sample_full_fcnt PendingRejoinDeviceSession_def)

lemmas run_uplink = Handle_def uplink_tasks_def frame_tasks_def setContextFromDataPHYPayload_def handlePassiveRoamingDevice_def
  getDeviceSessionForPHYPayload_def abortOnDeviceIsDisabled_def up_getDeviceProfile_def up_getServiceProfile_def
  setDownlinkDeviceLock_def filterRxInfoByServiceProfile_def decryptFOptsMACCommands_def decryptFRMPayloadMACCommands_def
  logUplinkFrame_def getApplicationServerClientForDataUp_def setADR_def setUplinkDataRate_def setBeaconLocked_def
  sendUplinkMetaDataToNetworkController_def handleFOptsMACCommands_def handleFRMPayloadMACCommands_def
  storeDeviceGatewayRXInfoSet_def appendMetaDataToUplinkHistory_def sendFRMPayloadToApplicationServer_def
  syncUplinkFCnt_def up_saveDeviceSession_def handleUplinkACK_def isRoaming_def handleDownlink_def
  handlePassiveRoamingDownlink_def IsRoamingDevAddr_def in_world_def set_mac_payload_def
  FilterRxInfoByServiceProfileID_def gateway_is_private_def gateway_service_profile_def gomap_get_def

lemmas run_profiles = GetAndCacheDeviceProfile_def GetAndCacheServiceProfile_def cached_def cache_get_def cache_create_def
  GetDeviceProfileCache_def GetServiceProfileCache_def CreateDeviceProfileCache_def CreateServiceProfileCache_def
  GetDeviceProfile_def GetServiceProfile_def

lemmas run_commands = up_commands_def handleUplinkMACCommands_def up_mac_block_def GetPendingMACCommand_def
  handle_command_block_def mac_Handle_def handleLinkCheckReq_def proprietary_def must_respond_def is_panic_def

lemmas run_world = GetDeviceSession_def SaveDeviceSession_def GetDevice_def affected_def sqlx_Get_def
  GetASClientForRoutingProfileID_def GetRoutingProfile_def memory_session_def mem_redis_run mem_val_def mem_set_def value_codecs_run
  SaveDeviceGatewayRXInfoSet_def

lemma world_simps [simp]:
  "world.truncate c = \<lparr>w_DB = w_DB c, w_Redis = w_Redis c, w_Calls = w_Calls c\<rparr>"
  by (simp add: world.defs)

lemmas run_sample_uplink = run_flow run_uplink run_profiles run_world memory_tables sample_up_context_def sample_uplink_def
  sample_uplink_frame_def sample_uplink_lookup run_commands sample_tables_def memory_7_def[THEN arg_cong, of m_val]
  memory_7_def[THEN arg_cong, of m_set] memory_7_def[THEN arg_cong, of m_now] memory_7_def[THEN arg_cong, of m_up] mem_empty_def
  zero_device_profile_def zero_service_profile_def sample_routing_def no_fctrl_def GetLoraModulationInfo_def follow_data_rate_def
  PendingRejoinDeviceSession_def

lemma sample_uplink_runs:
  "\<exists>c'. Handle sample_up_env sample_uplink sample_up_context = (Inr (), c')"
  by (simp add: run_sample_uplink)

text \<open>With another response flow, for a frame a roaming partner has forwarded.\<close>

lemma sample_roaming_uplink_runs:
  "\<exists>c'. Handle (sample_up_env\<lparr>u_HandleResponse := h\<rparr>) (sample_uplink\<lparr>rp_RoamingMetaData := Some m\<rparr>) sample_up_context = (Inr (), c')"
  by (simp add: run_sample_uplink)

lemma memory_7_store: "session_store (u_Redis sample_up_env) mem_holds (u_Sessions sample_up_env) (u_TTL sample_up_env)"
  using memory_sessions.session_store_axioms by simp

lemma memory_7_redis: "redis_server (u_Redis sample_up_env) mem_holds"
  using mem_server.redis_server_axioms by simp

theorem frame_commands_are_safe_witness:
  "\<exists>r c'. handleUplinkMACCommands sample_up_env
      [MACCommandItem \<lparr>mc_CID = CID_RXTimingSetup, mc_Payload = None\<rparr>, MACCommandItem \<lparr>mc_CID = CID_LinkADR, mc_Payload = None\<rparr>]
      (sample_up_context :: (memory_db, memory, unit) uplink_context) = (r, c') \<and> not_panic r \<and> maps_allocated (ux_DeviceSession c')"
proof -
  obtain r c' where h: "handleUplinkMACCommands sample_up_env
      [MACCommandItem \<lparr>mc_CID = CID_RXTimingSetup, mc_Payload = None\<rparr>, MACCommandItem \<lparr>mc_CID = CID_LinkADR, mc_Payload = None\<rparr>]
      (sample_up_context :: (memory_db, memory, unit) uplink_context) = (r, c')" by fastforce
  have maps: "maps_allocated device_7"
    using zero_device_session_maps by (simp add: device_7_def maps_allocated_def)
  have "typed_pending block_values (mem_holds memory_7) e" for e
    by (simp add: typed_pending_def pending_of_def memory_7_def mem_empty_def mem_val_def)
  then show ?thesis
    using frame_commands_are_safe[OF memory_7_redis _ _ _ _ h] h maps
    by (simp add: sample_up_context_def sample_uplink_def)
qed

theorem effects_need_an_authentic_frame_witness:
  "\<exists>r c'. Handle (sample_up_env\<lparr>u_validate := \<lambda>_ _ _ _ _ _ _ _. Inr False\<rparr>) sample_uplink (sample_up_context :: (memory_db, memory, unit) uplink_context) = (r, c') \<and>
     only_reported mem_holds sample_up_context c'"
proof -
  let ?E = "(sample_up_env :: (memory_db, memory, redis_value, unit) up_env)\<lparr>u_validate := \<lambda>_ _ _ _ _ _ _ _. Inr False\<rparr>"
  let ?c = "sample_up_context :: (memory_db, memory, unit) uplink_context"
  obtain r c' where h: "Handle ?E sample_uplink ?c = (r, c')" by fastforce
  have "only_reported mem_holds ?c c' \<or>
      (\<exists>m f. authentic_for mem_holds ?E sample_uplink (w_Redis ?c) m f)"
    by (rule effects_need_an_authentic_frame[OF _ _ _ h])
      (use memory_7_redis value_codecs_ok in \<open>simp_all add: IsRoamingDevAddr_def\<close>)
  then show ?thesis using h by (auto simp: authentic_for_def)
qed

lemma sample_uplink_advances:
  "\<exists>c'. Handle sample_up_env sample_uplink (sample_up_context :: (memory_db, memory, unit) uplink_context) = (Inr (), c') \<and>
     fcnt_at mem_holds (sample_up_env :: (memory_db, memory, redis_value, unit) up_env) (w_Redis c') 7 = Some 6"
proof -
  obtain c' where c': "Handle sample_up_env sample_uplink (sample_up_context :: (memory_db, memory, unit) uplink_context) = (Inr (), c')"
    using sample_uplink_runs by blast
  have "fcnt_at mem_holds (sample_up_env :: (memory_db, memory, redis_value, unit) up_env) (w_Redis c') (ds_DevEUI device_7) = Some (5 + 1)"
    by (rule processed_uplink_advances_the_session[OF memory_7_store _ _ _ _ _ _ _ _ _ c', of sample_uplink_frame _ 0 5 device_7 memory_7])
      (auto simp: frame_library_ok_def sample_uplink_def IsRoamingDevAddr_def sample_uplink_frame_def
        sample_up_context_def sample_uplink_lookup heard_openly_def gateway_is_private_def gomap_get_def
        responses_keep_fcnt_def)
  then show ?thesis using c' by simp
qed

end
