(* ===== verification/DownlinkGateway.thy ===== *)
theory DownlinkGateway
  imports GatewayStore SessionStore MacCommand
begin

text \<open>
  Which gateway sends a downlink (\<open>internal/downlink/gateway/gateway.go\<close>) and which channel-mask
  the device has to be told (\<open>internal/channels/channels.go\<close>). The library's sorting is unstable, so
  it is a parameter that permutes and sorts; the random choice is a number the code reduces to the
  length of the list.
\<close>

section \<open>Choice of the gateway\<close>

definition signal_less :: "gw_rx_info \<Rightarrow> gw_rx_info \<Rightarrow> bool" where
  "signal_less a b \<longleftrightarrow>
     (if gri_LoRaSNR a = gri_LoRaSNR b then gri_RSSI a > gri_RSSI b else gri_LoRaSNR a > gri_LoRaSNR b)"

lemma signal_less_irrefl [simp]: "\<not> signal_less a a"
  by (simp add: signal_less_def)

definition sorts_by_signal :: "(gw_rx_info list \<Rightarrow> gw_rx_info list) \<Rightarrow> bool" where
  "sorts_by_signal srt \<longleftrightarrow>
     (\<forall>xs. mset (srt xs) = mset xs \<and> sorted_wrt (\<lambda>a b. \<not> signal_less b a) (srt xs))"

definition required_snr_of :: "data_rate \<Rightarrow> rat" where
  "required_snr_of d =
     (case map_of SpreadFactorToRequiredSNRTable (SpreadFactor d) of None \<Rightarrow> 0 | Some r \<Rightarrow> r)"

definition with_margin :: "rat \<Rightarrow> data_rate \<Rightarrow> gw_rx_info \<Rightarrow> bool" where
  "with_margin minSNRMargin d item \<longleftrightarrow>
     Modulation d = LoRaModulation \<and> f64_sub (gri_LoRaSNR item) (required_snr_of d) \<ge> minSNRMargin"

definition SelectDownlinkGateway ::
  "(gw_rx_info list \<Rightarrow> gw_rx_info list) \<Rightarrow> (nat \<Rightarrow> nat) \<Rightarrow> band \<Rightarrow> rat \<Rightarrow> int \<Rightarrow> gw_rx_info list \<Rightarrow> gw_rx_info res" where
  "SelectDownlinkGateway srt intn b minSNRMargin rxDR rxInfo =
     (if rxInfo = [] then Inl (Errorf ''device gateway rx-info slice is empty'')
      else case GetDataRate b rxDR of
        Inl e \<Rightarrow> Inl (Wrap e ''get data-rate error'')
      | Inr dr \<Rightarrow>
          let rxInfo = srt rxInfo; newRxInfo = filter (with_margin minSNRMargin dr) rxInfo
          in Inr (if newRxInfo = [] then hd rxInfo else newRxInfo ! (intn (length newRxInfo) mod length newRxInfo)))"

section \<open>The channel-mask\<close>

definition link_adr_command :: "link_adr_req \<Rightarrow> mac_command" where
  "link_adr_command pl = \<lparr>mc_CID = CID_LinkADR, mc_Payload = Some (LinkADRReqPayload pl)\<rparr>"

definition HandleChannelReconfigure :: "band \<Rightarrow> 'a session_scheme \<Rightarrow> mac_block list" where
  "HandleChannelReconfigure b ds =
     (case rev (GetLinkADRReqPayloadsForEnabledUplinkChannelIndices b (ds_EnabledUplinkChannels ds)) of
        [] \<Rightarrow> []
      | pl # pls \<Rightarrow>
          [\<lparr>mb_CID = CID_LinkADR, mb_External = False,
            mb_MACCommands = map link_adr_command (rev pls @
              [pl\<lparr>la_TXPower := word_of_int (ds_TXPowerIndex ds), la_DataRate := word_of_int (ds_DR ds),
                 la_NbRep := ds_NbTrans ds\<rparr>])\<rparr>])"

section \<open>Properties\<close>

text \<open>
  The gateway chosen for a downlink is one that received the uplink. If some gateway received it
  with the configured margin above what the data-rate needs, the chosen one did; if none did, no
  other gateway received it better, by SNR and at equal SNR by RSSI. The choice only fails for an
  empty list or an unknown data-rate.
\<close>

theorem downlink_gateway_is_good:
  assumes "sorts_by_signal srt"
  shows "case SelectDownlinkGateway srt intn b m dr xs of
      Inl _ \<Rightarrow> xs = [] \<or> is_error (GetDataRate b dr)
    | Inr g \<Rightarrow> g \<in> set xs \<and> (\<exists>d. GetDataRate b dr = Inr d \<and>
        (if list_ex (with_margin m d) xs then with_margin m d g else list_all (\<lambda>x. \<not> signal_less x g) xs))"
proof (cases "xs = [] \<or> is_error (GetDataRate b dr)")
  case True
  then show ?thesis by (auto simp: SelectDownlinkGateway_def split: sum.splits)
next
  case False
  then obtain d where d: "GetDataRate b dr = Inr d" and ne: "xs \<noteq> []" by (cases "GetDataRate b dr") auto
  have srt: "set (srt xs) = set xs" "sorted_wrt (\<lambda>a b. \<not> signal_less b a) (srt xs)" "srt xs \<noteq> []"
    using assms ne by (auto simp: sorts_by_signal_def dest: mset_eq_setD)
      (metis mset_zero_iff)
  let ?good = "filter (with_margin m d) (srt xs)"
  show ?thesis
  proof (cases "?good = []")
    case True
    obtain y ys where y: "srt xs = y # ys" using srt(3) by (cases "srt xs") auto
    have "\<not> list_ex (with_margin m d) xs" using True srt(1) by (auto simp: list_ex_iff filter_empty_conv)
    moreover have "list_all (\<lambda>x. \<not> signal_less x y) xs"
      using srt(1)[symmetric] srt(2) y by (simp add: list_all_iff signal_less_irrefl)
    ultimately show ?thesis using ne d True y srt(1) by (auto simp: SelectDownlinkGateway_def)
  next
    case nonempty: False
    let ?g = "?good ! (intn (length ?good) mod length ?good)"
    have "?g \<in> set ?good" using nonempty by (intro nth_mem) simp
    then show ?thesis using ne d nonempty srt(1) by (auto simp: SelectDownlinkGateway_def Let_def list_ex_iff)
  qed
qed

text \<open>A sorting to run the choice with.\<close>

fun insert_by_signal :: "gw_rx_info \<Rightarrow> gw_rx_info list \<Rightarrow> gw_rx_info list" where
  "insert_by_signal x [] = [x]"
| "insert_by_signal x (y # ys) = (if signal_less y x then y # insert_by_signal x ys else x # y # ys)"

definition sort_by_signal :: "gw_rx_info list \<Rightarrow> gw_rx_info list" where
  "sort_by_signal xs = foldr insert_by_signal xs []"

lemma insert_by_signal_mset: "mset (insert_by_signal x ys) = add_mset x (mset ys)"
  by (induction ys) auto

lemma insert_by_signal_sorted:
  "sorted_wrt (\<lambda>a b. \<not> signal_less b a) ys \<Longrightarrow> sorted_wrt (\<lambda>a b. \<not> signal_less b a) (insert_by_signal x ys)"
proof (induction ys)
  case (Cons y ys)
  have set: "set (insert_by_signal x ys) = insert x (set ys)"
    using insert_by_signal_mset[of x ys] by (metis set_mset_add_mset_insert set_mset_mset)
  show ?case using Cons by (auto simp: set signal_less_def split: if_splits)
qed simp

lemma sort_by_signal_sorts: "sorts_by_signal sort_by_signal"
proof -
  have "mset (sort_by_signal xs) = mset xs \<and> sorted_wrt (\<lambda>a b. \<not> signal_less b a) (sort_by_signal xs)" for xs
    by (induction xs) (auto simp: sort_by_signal_def insert_by_signal_mset intro!: insert_by_signal_sorted)
  then show ?thesis by (simp add: sorts_by_signal_def)
qed

definition sample_rx :: "eui64 \<Rightarrow> rat \<Rightarrow> gw_rx_info" where
  "sample_rx i snr = \<lparr>gri_GatewayID = i, gri_RSSI = - 60, gri_LoRaSNR = snr, gri_Antenna = 0, gri_Board = 0, gri_Context = []\<rparr>"

theorem downlink_gateway_is_good_witness:
  "SelectDownlinkGateway sort_by_signal (\<lambda>_. 0) sample_band 10 0 [sample_rx 1 (- 15), sample_rx 2 (- 5)] = Inr (sample_rx 2 (- 5)) \<and>
   with_margin 10 (sample_data_rates ! 0) (sample_rx 2 (- 5)) \<and> sample_rx 2 (- 5) \<in> set [sample_rx 1 (- 15), sample_rx 2 (- 5)]"
proof -
  have sel: "SelectDownlinkGateway sort_by_signal (\<lambda>_. 0) sample_band 10 0 [sample_rx 1 (- 15), sample_rx 2 (- 5)] = Inr (sample_rx 2 (- 5))"
    by code_simp
  have d: "GetDataRate sample_band 0 = Inr (sample_data_rates ! 0)" by (simp add: sample_band_def)
  have "list_ex (with_margin 10 (sample_data_rates ! 0)) [sample_rx 1 (- 15), sample_rx 2 (- 5)]" by code_simp
  then show ?thesis
    using downlink_gateway_is_good[OF sort_by_signal_sorts, where intn = "\<lambda>_. 0" and b = sample_band and m = 10 and dr = 0 and xs = "[sample_rx 1 (- 15), sample_rx 2 (- 5)]"] sel d
    by simp
qed

end
