(* ===== verification/Downlink.thy ===== *)
theory Downlink
  imports Ack DownlinkGateway Adr
begin

text \<open>
  Data downlinks (\<open>internal/downlink/data/data.go\<close>): the response to an uplink
  (\<open>HandleResponse\<close>) and the Class-B and Class-C scheduling of a queue item
  (\<open>HandleScheduleNextQueueItem\<close>). A flow chooses a gateway and the receive-windows, takes an item
  from the device-queue, collects mac-commands, builds a frame for each window within the
  payload size of its data-rate, saves session and frame, and sends.

  \<open>dl_env\<close> holds the tables, codecs and clients, the configuration (\<open>dl_conf\<close>, the package
  variables \<open>Setup\<close> fills), the functions of the band that only downlinks use (\<open>dl_band\<close>) and the
  library's functions on frames: they encrypt, authenticate and encode. The network is the
  functions \<open>n_send\<close>, \<open>n_HandleDownlinkACK\<close>, \<open>n_HandleError\<close>, \<open>n_ReEncrypt\<close> and \<open>n_XmitDataReq\<close>, whose
  answers may depend on the calls made so far. \<open>n_now\<close> is the clock, read once per flow.
\<close>

section \<open>Configuration and environment\<close>

record dl_band =
  bd_Name :: string
  bd_GetRX1DataRateIndex :: "int \<Rightarrow> int \<Rightarrow> int res"
  bd_GetRX1Frequency :: "u32 \<Rightarrow> u32 res"
  bd_GetDownlinkTXPower :: "u32 \<Rightarrow> int"
  bd_MaxPayloadSizeN :: "string \<Rightarrow> string \<Rightarrow> int \<Rightarrow> int res"
  bd_ReceiveDelay1 :: duration
  bd_ReceiveDelay2 :: duration
  bd_ImplementsTXParamSetup :: "string \<Rightarrow> bool"
  bd_DefaultMaxUplinkEIRP :: rat
  bd_GetPingSlotFrequency :: "devaddr \<Rightarrow> duration \<Rightarrow> u32 res"
  bd_CustomUplinkChannelIndices :: "int list"

record dl_conf =
  cf_rejoinRequestEnabled :: bool
  cf_rejoinRequestMaxCountN :: int
  cf_rejoinRequestMaxTimeN :: int
  cf_classBPingSlotDR :: int
  cf_classBPingSlotFrequency :: u32
  cf_rx2Frequency :: u32
  cf_rx2DR :: int
  cf_rx1DROffset :: int
  cf_rx1Delay :: int
  cf_rxWindow :: int
  cf_rx2PreferOnRX1DRLt :: int
  cf_rx2PreferOnLinkBudget :: bool
  cf_downlinkTXPower :: int
  cf_disableMACCommands :: bool
  cf_disableADR :: bool
  cf_classCDeviceLockDuration :: duration
  cf_classCGatewayLockDuration :: duration
  cf_uplinkDwellTime400ms :: bool
  cf_downlinkDwellTime400ms :: bool
  cf_UplinkMaxEIRP :: rat
  cf_maxMACCommandErrorCount :: int
  cf_gatewayPreferMinMargin :: rat
  cf_InstallationMargin :: rat
  cf_DownlinkTimeout :: duration

record roaming_meta =
  rm_SenderID :: string
  rm_FNSULToken :: "byte list"
  rm_GWInfo :: "gw_info_element list"

type_synonym dl_packet = "(phy, roaming_meta) rx_packet"

record ('db, 's, 'v) dl_env =
  n_Redis :: "('s, 'v, eui64) redis"
  n_Sessions :: "'v session_codec"
  n_Blocks :: "'v block_codec"
  n_RxInfo :: "'v rx_info_codec"
  n_Frames :: "'v frame_codec"
  n_DeviceProfileCodec :: "(device_profile, 'v) codec"
  n_ServiceProfileCodec :: "(service_profile, 'v) codec"
  n_TTL :: duration
  n_Queue :: "'db queue_table"
  n_DeviceProfiles :: "('db, device_profile) table"
  n_ServiceProfiles :: "('db, service_profile) table"
  n_RoutingProfiles :: "('db, routing_profile) table"
  n_Session :: "'db sql_session"
  n_lock :: 'v
  n_pool :: "routing_profile \<Rightarrow> unit res"
  n_Band :: band
  n_DL :: dl_band
  n_conf :: dl_conf
  n_adr :: adr_handlers
  n_EIRPIndex :: "rat \<Rightarrow> byte"
  n_LinkBudget :: "int \<Rightarrow> rat \<Rightarrow> rat \<Rightarrow> rat \<Rightarrow> rat"
  n_sort :: "gw_rx_info list \<Rightarrow> gw_rx_info list"
  n_intn :: "nat \<Rightarrow> nat"
  n_ctxID :: "byte list"
  n_marshal :: "mac_command \<Rightarrow> byte list res"
  n_EncryptFRMPayload :: "aeskey \<Rightarrow> phy \<Rightarrow> phy res"
  n_EncryptFOpts :: "aeskey \<Rightarrow> phy \<Rightarrow> phy res"
  n_SetDownlinkDataMIC :: "mac_version \<Rightarrow> u32 \<Rightarrow> aeskey \<Rightarrow> phy \<Rightarrow> byte list res"
  n_MarshalBinary :: "phy \<Rightarrow> byte list \<Rightarrow> byte list res"
  n_send :: "gw_downlink_frame \<Rightarrow> call list \<Rightarrow> unit res"
  n_HandleDownlinkACK :: "byte list \<Rightarrow> u32 \<Rightarrow> call list \<Rightarrow> unit res"
  n_HandleError :: "byte list \<Rightarrow> u32 \<Rightarrow> error_type \<Rightarrow> call list \<Rightarrow> unit res"
  n_ReEncrypt :: "reencrypt_request \<Rightarrow> call list \<Rightarrow> reencrypt_item list res"
  n_ParseNetID :: "string \<Rightarrow> u32 res"
  n_GetClientForNetID :: "u32 \<Rightarrow> unit res"
  n_XmitDataReq :: "u32 \<Rightarrow> byte list \<Rightarrow> dl_meta_data \<Rightarrow> call list \<Rightarrow> bool res"
  n_ack :: "('db, 's, 'v) ack_env"
  n_aes :: "byte list \<Rightarrow> byte list \<Rightarrow> nat \<Rightarrow> byte"
  n_marshal_addr :: "devaddr \<Rightarrow> byte list res"
  n_now :: instant

section \<open>Context\<close>

record opportunity =
  op_Item :: downlink_frame_item
  op_Remaining :: int

text \<open>\<open>dx_DeviceMode\<close> is the empty string in a response.\<close>

record ('db, 's) dl_context = "('db, 's) world" +
  dx_InTransaction :: bool
  dx_DeviceMode :: "device_mode option"
  dx_ServiceProfile :: service_profile
  dx_DeviceProfile :: device_profile
  dx_DeviceSession :: device_session
  dx_GatewayRXInfo :: "gw_rx_info list"
  dx_MustSend :: bool
  dx_ACK :: bool
  dx_RXPacket :: "dl_packet option"
  dx_Immediately :: bool
  dx_MACCommands :: "mac_block list"
  dx_QueueItem :: "device_queue_item option"
  dx_More :: bool
  dx_Frame :: gw_downlink_frame
  dx_Items :: "opportunity list"
  dx_Gateway :: gw_rx_info

type_synonym ('db, 's) dl_task = "('db, 's) dl_context task"

definition forClass :: "device_mode \<Rightarrow> ('db, 's) dl_task list \<Rightarrow> ('db, 's) dl_task" where
  "forClass mode = task_when (\<lambda>c. dx_DeviceMode c = Some mode)"

definition dn_isRoaming :: "bool \<Rightarrow> ('db, 's) dl_task list \<Rightarrow> ('db, 's) dl_task" where
  "dn_isRoaming r ts c =
     (case dx_RXPacket c of
        None \<Rightarrow> (Inl (Panic ''nil RXPacket''), c)
      | Some p \<Rightarrow> task_when (\<lambda>_. r = (rp_RoamingMetaData p \<noteq> None)) ts c)"

definition uplinkMaxEIRPIndex :: "('db, 's, 'v) dl_env \<Rightarrow> byte" where
  "uplinkMaxEIRPIndex E =
     (let maxEIRP = cf_UplinkMaxEIRP (n_conf E)
      in n_EIRPIndex E (if maxEIRP = - 1 then bd_DefaultMaxUplinkEIRP (n_DL E) else maxEIRP))"

definition add_block :: "mac_block \<Rightarrow> ('db, 's) dl_context \<Rightarrow> ('db, 's) dl_context" where
  "add_block b c = c\<lparr>dx_MACCommands := dx_MACCommands c @ [b]\<rparr>"

section \<open>Profiles, token and gateways\<close>

definition dn_getDeviceProfile :: "('db, 's, 'v) dl_env \<Rightarrow> ('db, 's) dl_task" where
  "dn_getDeviceProfile E c =
     (case GetAndCacheDeviceProfile (n_Redis E) (n_DeviceProfileCodec E) (n_TTL E) (n_DeviceProfiles E)
             (ds_DeviceProfileID (dx_DeviceSession c)) (w_DB c) (w_Redis c) of
        (Inl e, s) \<Rightarrow> (Inl (Wrap e ''get device-profile error''), c\<lparr>w_Redis := s\<rparr>)
      | (Inr dp, s) \<Rightarrow> (Inr (), c\<lparr>w_Redis := s, dx_DeviceProfile := dp\<rparr>))"

definition dn_getServiceProfile :: "('db, 's, 'v) dl_env \<Rightarrow> ('db, 's) dl_task" where
  "dn_getServiceProfile E c =
     (case GetAndCacheServiceProfile (n_Redis E) (n_ServiceProfileCodec E) (n_TTL E) (n_ServiceProfiles E)
             (ds_ServiceProfileID (dx_DeviceSession c)) (w_DB c) (w_Redis c) of
        (Inl e, s) \<Rightarrow> (Inl (Wrap e ''get service-profile error''), c\<lparr>w_Redis := s\<rparr>)
      | (Inr sp, s) \<Rightarrow> (Inr (), c\<lparr>w_Redis := s, dx_ServiceProfile := sp\<rparr>))"

text \<open>\<open>n_ctxID\<close> is the UUID of the flow, sixteen zero bytes when there is none.\<close>

definition setToken :: "('db, 's, 'v) dl_env \<Rightarrow> ('db, 's) dl_task" where
  "setToken E = update_ctx (\<lambda>c. c\<lparr>dx_Frame := (dx_Frame c)
     \<lparr>gd_Token := ucast (word_rcat (take 2 (n_ctxID E)) :: u16), gd_DownlinkId := n_ctxID E\<rparr>\<rparr>)"

definition rx_info_of :: "rx_info \<Rightarrow> gw_rx_info" where
  "rx_info_of r =
     \<lparr>gri_GatewayID = GetGatewayID r, gri_RSSI = ri_Rssi r, gri_LoRaSNR = ri_LoraSnr r, gri_Antenna = ri_Antenna r,
      gri_Board = ri_Board r, gri_Context = ri_Context r\<rparr>"

definition downlink_allowed :: "roaming_meta option \<Rightarrow> rx_info \<Rightarrow> bool" where
  "downlink_allowed m r \<longleftrightarrow>
     (case m of None \<Rightarrow> True
      | Some m \<Rightarrow> list_ex (\<lambda>g. gi_ID g = ri_GatewayId r \<and> gi_DLAllowed g) (rm_GWInfo m))"

definition setDeviceGatewayRXInfo :: "('db, 's, 'v) dl_env \<Rightarrow> ('db, 's) dl_task" where
  "setDeviceGatewayRXInfo E c =
     (let checked = (\<lambda>c. (if dx_GatewayRXInfo c = []
            then Inl (Errorf ''DeviceGatewayRXInfo, the device needs to send an uplink first'') else Inr (), c))
      in case dx_RXPacket c of
        Some p \<Rightarrow> checked (c\<lparr>dx_GatewayRXInfo := dx_GatewayRXInfo c @
          map rx_info_of (filter (downlink_allowed (rp_RoamingMetaData p)) (rp_RXInfoSet p))\<rparr>)
      | None \<Rightarrow>
         (case GetDeviceGatewayRXInfoSet (n_Redis E) (n_RxInfo E) (ds_DevEUI (dx_DeviceSession c)) (w_Redis c) of
            Inl e \<Rightarrow> (Inl (Wrap e ''get device gateway RXInfoSet error''), c)
          | Inr i \<Rightarrow> checked (c\<lparr>dx_GatewayRXInfo := gris_Items i\<rparr>)))"

definition selectDownlinkGateway :: "('db, 's, 'v) dl_env \<Rightarrow> ('db, 's) dl_task" where
  "selectDownlinkGateway E c =
     (case SelectDownlinkGateway (n_sort E) (n_intn E) (n_Band E) (cf_gatewayPreferMinMargin (n_conf E))
             (ds_DR (dx_DeviceSession c)) (dx_GatewayRXInfo c) of
        Inl e \<Rightarrow> (Inl e, c)
      | Inr g \<Rightarrow> (Inr (), c\<lparr>dx_Gateway := g, dx_Frame := (dx_Frame c)\<lparr>gd_GatewayId := eui64_bytes (gri_GatewayID g)\<rparr>\<rparr>))"

section \<open>Receive-windows\<close>

definition rx_settled :: "('db, 's, 'v) dl_env \<Rightarrow> 'a session_scheme \<Rightarrow> bool" where
  "rx_settled E ds \<longleftrightarrow>
     ds_RX2Frequency ds = cf_rx2Frequency (n_conf E) \<and> ds_RX2DR ds = word_of_int (cf_rx2DR (n_conf E)) \<and>
     ds_RX1DROffset ds = word_of_int (cf_rx1DROffset (n_conf E)) \<and> ds_RXDelay ds = word_of_int (cf_rx1Delay (n_conf E))"

definition rx1_data_rate :: "('db, 's, 'v) dl_env \<Rightarrow> 'a session_scheme \<Rightarrow> int res" where
  "rx1_data_rate E ds =
     (case bd_GetRX1DataRateIndex (n_DL E) (ds_DR ds) (uint (ds_RX1DROffset ds)) of
        Inl e \<Rightarrow> Inl (Wrap e ''get rx1 data-rate index error'') | Inr dr \<Rightarrow> Inr dr)"

definition preferRX2DR :: "('db, 's, 'v) dl_env \<Rightarrow> 'a session_scheme \<Rightarrow> bool res" where
  "preferRX2DR E ds =
     (if \<not> rx_settled E ds then Inr False
      else case rx1_data_rate E ds of
        Inl e \<Rightarrow> Inl e
      | Inr drRX1Index \<Rightarrow> Inr (drRX1Index < cf_rx2PreferOnRX1DRLt (n_conf E)))"

definition tx_power :: "('db, 's, 'v) dl_env \<Rightarrow> u32 \<Rightarrow> int" where
  "tx_power E freq =
     (if cf_downlinkTXPower (n_conf E) \<noteq> - 1 then cf_downlinkTXPower (n_conf E)
      else bd_GetDownlinkTXPower (n_DL E) freq)"

definition link_budget :: "('db, 's, 'v) dl_env \<Rightarrow> data_rate \<Rightarrow> u32 \<Rightarrow> rat" where
  "link_budget E d freq =
     n_LinkBudget E (go_int64 (Bandwidth d * 1000)) 6 (f32 (required_snr_of d)) (f32 (of_int (tx_power E freq)))"

definition preferRX2LinkBudget :: "('db, 's, 'v) dl_env \<Rightarrow> dl_packet option \<Rightarrow> 'a session_scheme \<Rightarrow> bool res" where
  "preferRX2LinkBudget E rxPacket ds =
     (if \<not> rx_settled E ds then Inr False
      else case rx1_data_rate E ds of
        Inl e \<Rightarrow> Inl e
      | Inr drRX1Index \<Rightarrow>
         (case (GetDataRate (n_Band E) drRX1Index, GetDataRate (n_Band E) (uint (ds_RX2DR ds))) of
            (Inl e, _) \<Rightarrow> Inl (Wrap e ''get data-rate error'')
          | (Inr _, Inl e) \<Rightarrow> Inl (Wrap e ''get data-rate error'')
          | (Inr drRX1, Inr drRX2) \<Rightarrow>
              if Modulation drRX1 \<noteq> LoRaModulation \<or> Modulation drRX2 \<noteq> LoRaModulation then Inr False
              else case rxPacket of
                None \<Rightarrow> Inl (Panic ''nil RXPacket'')
              | Some p \<Rightarrow>
                 (case bd_GetRX1Frequency (n_DL E) (case rp_TXInfo p of None \<Rightarrow> 0 | Some t \<Rightarrow> ut_Frequency t) of
                    Inl e \<Rightarrow> Inl (Wrap e ''get rx1 frequency for uplink frequency error'')
                  | Inr rx1Freq \<Rightarrow> Inr (link_budget E drRX2 (cf_rx2Frequency (n_conf E)) > link_budget E drRX1 rx1Freq))))"

text \<open>What the three kinds of windows share: data-rate, power and the room for payload.\<close>

definition add_opportunity ::
  "('db, 's, 'v) dl_env \<Rightarrow> int \<Rightarrow> u32 res \<Rightarrow> downlink_timing \<Rightarrow> ('db, 's) dl_task" where
  "add_opportunity E dr freq timing c =
     (let txInfo = empty_tx_info\<lparr>dt_Board := gri_Board (dx_Gateway c), dt_Antenna := gri_Antenna (dx_Gateway c),
            dt_Context := gri_Context (dx_Gateway c), dt_Timing := timing\<rparr>
      in case SetDownlinkTXInfoDataRate (n_Band E) dr txInfo of
        Inl e \<Rightarrow> (Inl (Wrap e ''set downlink tx-info data-rate error''), c)
      | Inr txInfo \<Rightarrow>
         (case freq of
            Inl e \<Rightarrow> (Inl e, c)
          | Inr freq \<Rightarrow>
             (case bd_MaxPayloadSizeN (n_DL E) (dp_MACVersion (dx_DeviceProfile c))
                     (dp_RegParamsRevision (dx_DeviceProfile c)) dr of
                Inl e \<Rightarrow> (Inl (Wrap e ''get max-payload size error''), c)
              | Inr n \<Rightarrow> (Inr (), c\<lparr>dx_Items := dx_Items c @ [\<lparr>op_Item = \<lparr>di_PhyPayload = [],
                    di_TxInfo = Some (txInfo\<lparr>dt_Frequency := freq, dt_Power := sint (word_of_int (tx_power E freq) :: 32 word)\<rparr>)\<rparr>,
                    op_Remaining = n\<rparr>]\<rparr>))))"

definition receive_delay :: "duration \<Rightarrow> duration \<Rightarrow> 'a session_scheme \<Rightarrow> duration" where
  "receive_delay standard extra ds = (if ds_RXDelay ds > 0 then uint (ds_RXDelay ds) * second + extra else standard)"

definition setTXInfoForRX1 :: "('db, 's, 'v) dl_env \<Rightarrow> ('db, 's) dl_task" where
  "setTXInfoForRX1 E c =
     (let ds = dx_DeviceSession c in
      case rx1_data_rate E ds of
        Inl e \<Rightarrow> (Inl e, c)
      | Inr rx1DR \<Rightarrow>
          add_opportunity E rx1DR
            (case dx_RXPacket c of
               None \<Rightarrow> Inl (Panic ''nil RXPacket'')
             | Some p \<Rightarrow> (case rp_TXInfo p of
                 None \<Rightarrow> Inl (Panic ''nil TXInfo'')
               | Some t \<Rightarrow> (case bd_GetRX1Frequency (n_DL E) (ut_Frequency t) of
                   Inl e \<Rightarrow> Inl (Wrap e ''get rx1 frequency error'') | Inr f \<Rightarrow> Inr f)))
            (DELAY (receive_delay (bd_ReceiveDelay1 (n_DL E)) 0 ds)) c)"

definition setImmediately :: "('db, 's) dl_task" where
  "setImmediately = update_ctx (\<lambda>c. c\<lparr>dx_Immediately := True\<rparr>)"

definition setTXInfoForRX2 :: "('db, 's, 'v) dl_env \<Rightarrow> ('db, 's) dl_task" where
  "setTXInfoForRX2 E c =
     (let ds = dx_DeviceSession c in
      add_opportunity E (uint (ds_RX2DR ds)) (Inr (ds_RX2Frequency ds))
        (if dx_Immediately c then IMMEDIATELY else DELAY (receive_delay (bd_ReceiveDelay2 (n_DL E)) second ds)) c)"

text \<open>The timing of a Class-B downlink is set with its queue item.\<close>

definition setTXInfoForClassB :: "('db, 's, 'v) dl_env \<Rightarrow> ('db, 's) dl_task" where
  "setTXInfoForClassB E c =
     add_opportunity E (ds_PingSlotDR (dx_DeviceSession c)) (Inr (ds_PingSlotFrequency (dx_DeviceSession c))) IMMEDIATELY c"

definition prefer_rx2 :: "('db, 's, 'v) dl_env \<Rightarrow> ('db, 's) dl_context \<Rightarrow> bool res" where
  "prefer_rx2 E c =
     (case preferRX2DR E (dx_DeviceSession c) of
        Inl e \<Rightarrow> Inl e
      | Inr a \<Rightarrow>
          if \<not> cf_rx2PreferOnLinkBudget (n_conf E) then Inr a
          else case preferRX2LinkBudget E (dx_RXPacket c) (dx_DeviceSession c) of
            Inl e \<Rightarrow> Inl e | Inr b \<Rightarrow> Inr (b \<or> a))"

definition setDataTXInfo :: "('db, 's, 'v) dl_env \<Rightarrow> ('db, 's) dl_task" where
  "setDataTXInfo E c =
     (let rxWindow = cf_rxWindow (n_conf E) in
      case prefer_rx2 E c of
        Inl e \<Rightarrow> (Inl e, c)
      | Inr preferRX2overRX1 \<Rightarrow>
          run_tasks
            (if preferRX2overRX1 \<and> rxWindow = 0 then [setTXInfoForRX2 E, setTXInfoForRX1 E]
             else (if rxWindow = 0 \<or> rxWindow = 1 then [setTXInfoForRX1 E] else []) @
                  (if rxWindow = 0 \<or> rxWindow = 2 then [setTXInfoForRX2 E] else [])) c)"

section \<open>A sample\<close>

definition sample_dl_band :: dl_band where
  "sample_dl_band =
     \<lparr>bd_Name = ''EU868'', bd_GetRX1DataRateIndex = (\<lambda>dr offset. Inr (max 0 (dr - offset))), bd_GetRX1Frequency = Inr,
      bd_GetDownlinkTXPower = (\<lambda>_. 14),
      bd_MaxPayloadSizeN = (\<lambda>_ _ dr. if 0 \<le> dr \<and> dr < 8 then Inr ([51, 51, 51, 115, 222, 222, 222, 222] ! nat dr)
                             else Inl (Errorf ''invalid data-rate'')),
      bd_ReceiveDelay1 = second, bd_ReceiveDelay2 = 2 * second, bd_ImplementsTXParamSetup = (\<lambda>_. False),
      bd_DefaultMaxUplinkEIRP = 16, bd_GetPingSlotFrequency = (\<lambda>_ _. Inr 869525000), bd_CustomUplinkChannelIndices = []\<rparr>"

definition sample_dl_conf :: dl_conf where
  "sample_dl_conf =
     \<lparr>cf_rejoinRequestEnabled = False, cf_rejoinRequestMaxCountN = 0, cf_rejoinRequestMaxTimeN = 0,
      cf_classBPingSlotDR = 0, cf_classBPingSlotFrequency = 0, cf_rx2Frequency = 869525000, cf_rx2DR = 0, cf_rx1DROffset = 0,
      cf_rx1Delay = 1, cf_rxWindow = 0, cf_rx2PreferOnRX1DRLt = 0, cf_rx2PreferOnLinkBudget = False, cf_downlinkTXPower = - 1,
      cf_disableMACCommands = False, cf_disableADR = True, cf_classCDeviceLockDuration = second, cf_classCGatewayLockDuration = second,
      cf_uplinkDwellTime400ms = False, cf_downlinkDwellTime400ms = False, cf_UplinkMaxEIRP = - 1, cf_maxMACCommandErrorCount = 3,
      cf_gatewayPreferMinMargin = 10, cf_InstallationMargin = 10, cf_DownlinkTimeout = 5 * second\<rparr>"

text \<open>Frames are encoded as a byte per mac-command and the bytes of the data.\<close>

definition sample_payload_bytes :: "payload list \<Rightarrow> byte list" where
  "sample_payload_bytes pls = concat (map (\<lambda>pl. case pl of MACCommandItem _ \<Rightarrow> [0] | DataItem bs \<Rightarrow> bs) pls)"

definition sample_frame_bytes :: "phy \<Rightarrow> byte list" where
  "sample_frame_bytes p =
     (case phy_MACPayload p of
        Some (MACFrame m) \<Rightarrow> sample_payload_bytes (mf_FOpts m) @ sample_payload_bytes (mf_FRMPayload m) | _ \<Rightarrow> [])"

definition sample_ack_env :: "(memory_db, memory, redis_value) ack_env" where
  "sample_ack_env =
     \<lparr>k_Redis = mem_redis, k_Sessions = session_values, k_Frames = frame_values, k_Profiles = device_profile_values, k_TTL = 1000,
      k_Queue = memory_queue, k_Devices = memory_devices, k_DeviceProfiles = memory_profiles, k_RoutingProfiles = memory_routing,
      k_Delete_Multicast = (\<lambda>_ db. (Inr (), db)), k_Session = memory_session, k_pool = (\<lambda>_. Inr ()), k_send = (\<lambda>_ _. Inr ()),
      k_status = (\<lambda>_. None), k_decode = (\<lambda>_. (JoinRequest, None)), k_payload_size = (\<lambda>_. Inr 1), k_log_error = (\<lambda>_ _. None),
      k_now = 0\<rparr>"

definition sample_dl_env :: "(memory_db, memory, redis_value) dl_env" where
  "sample_dl_env =
     \<lparr>n_Redis = mem_redis, n_Sessions = session_values, n_Blocks = block_values, n_RxInfo = rx_info_values, n_Frames = frame_values,
      n_DeviceProfileCodec = device_profile_values, n_ServiceProfileCodec = service_profile_values, n_TTL = 1000,
      n_Queue = memory_queue, n_DeviceProfiles = memory_profiles, n_ServiceProfiles = memory_services,
      n_RoutingProfiles = memory_routing, n_Session = memory_session, n_lock = DeviceProfileValue zero_device_profile,
      n_pool = (\<lambda>_. Inr ()), n_Band = sample_band, n_DL = sample_dl_band, n_conf = sample_dl_conf, n_adr = adr_init 0 sample_band,
      n_EIRPIndex = (\<lambda>_. 0), n_LinkBudget = (\<lambda>_ _ _ _. 0), n_sort = sort_by_signal, n_intn = (\<lambda>_. 0),
      n_ctxID = replicate 16 1, n_marshal = sample_marshal, n_EncryptFRMPayload = (\<lambda>_. Inr), n_EncryptFOpts = (\<lambda>_. Inr),
      n_SetDownlinkDataMIC = (\<lambda>_ _ _ _. Inr [1, 2, 3, 4]), n_MarshalBinary = (\<lambda>p mic. Inr (sample_frame_bytes p @ mic)),
      n_send = (\<lambda>_ _. Inr ()), n_HandleDownlinkACK = (\<lambda>_ _ _. Inr ()), n_HandleError = (\<lambda>_ _ _ _. Inr ()),
      n_ReEncrypt = (\<lambda>q _. Inr (map (\<lambda>i. (rq_Items q ! i)\<lparr>re_FCnt := rq_FCntStart q + of_nat i\<rparr>) [0..<length (rq_Items q)])),
      n_ParseNetID = (\<lambda>_. Inr 0), n_GetClientForNetID = (\<lambda>_. Inr ()), n_XmitDataReq = (\<lambda>_ _ _ _. Inr True),
      n_ack = sample_ack_env, n_aes = (\<lambda>_ _ _. 0), n_marshal_addr = (\<lambda>_. Inr [4, 3, 2, 1]), n_now = 0\<rparr>"

definition sample_dl_packet :: dl_packet where
  "sample_dl_packet =
     \<lparr>rp_DR = 0, rp_PHYPayload = \<lparr>phy_MType = UnconfirmedDataUp, phy_MACPayload = None\<rparr>,
      rp_TXInfo = Some \<lparr>mi_Modulation = Modulation_LORA, mi_ModulationInfo = None, ut_Frequency = 868100000\<rparr>,
      rp_RXInfoSet = [\<lparr>ri_GatewayId = [], ri_Time = None, ri_TimeSinceGpsEpoch = None, ri_Rssi = - 60, ri_LoraSnr = 5,
        ri_Channel = 0, ri_RfChain = 0, ri_Board = 0, ri_Antenna = 0, ri_Location = None, ri_Context = [], ri_UplinkId = [],
        ri_FineTimestamp = None\<rparr>],
      rp_GatewayIsPrivate = Some [], rp_GatewayServiceProfile = Some [], rp_RoamingMetaData = None\<rparr>"

definition sample_dl_context :: "(memory_db, memory) dl_context" where
  "sample_dl_context =
     \<lparr>w_DB = (sample_tables, sample_tables), w_Redis = memory_7, w_Calls = [], dx_InTransaction = False, dx_DeviceMode = None,
      dx_ServiceProfile = zero_service_profile, dx_DeviceProfile = zero_device_profile, dx_DeviceSession = device_7,
      dx_GatewayRXInfo = [], dx_MustSend = False, dx_ACK = False, dx_RXPacket = Some sample_dl_packet, dx_Immediately = False,
      dx_MACCommands = [], dx_QueueItem = None, dx_More = False, dx_Frame = empty_frame, dx_Items = [],
      dx_Gateway = sample_rx 0 0\<rparr>"

lemma sample_dl_env_simps [simp]:
  "n_Redis sample_dl_env = mem_redis"
  "n_Sessions sample_dl_env = session_values"
  "n_Blocks sample_dl_env = block_values"
  "n_RxInfo sample_dl_env = rx_info_values"
  "n_Frames sample_dl_env = frame_values"
  "n_DeviceProfileCodec sample_dl_env = device_profile_values"
  "n_ServiceProfileCodec sample_dl_env = service_profile_values"
  "n_TTL sample_dl_env = 1000"
  "n_Queue sample_dl_env = memory_queue"
  "n_DeviceProfiles sample_dl_env = memory_profiles"
  "n_ServiceProfiles sample_dl_env = memory_services"
  "n_RoutingProfiles sample_dl_env = memory_routing"
  "n_Session sample_dl_env = memory_session"
  "n_lock sample_dl_env = (DeviceProfileValue zero_device_profile)"
  "n_pool sample_dl_env = (\<lambda>_. Inr ())"
  "n_Band sample_dl_env = sample_band"
  "n_DL sample_dl_env = sample_dl_band"
  "n_conf sample_dl_env = sample_dl_conf"
  "n_adr sample_dl_env = (adr_init 0 sample_band)"
  "n_EIRPIndex sample_dl_env = (\<lambda>_. 0)"
  "n_LinkBudget sample_dl_env = (\<lambda>_ _ _ _. 0)"
  "n_sort sample_dl_env = sort_by_signal"
  "n_intn sample_dl_env = (\<lambda>_. 0)"
  "n_ctxID sample_dl_env = (replicate 16 1)"
  "n_marshal sample_dl_env = sample_marshal"
  "n_EncryptFRMPayload sample_dl_env = (\<lambda>_. Inr)"
  "n_EncryptFOpts sample_dl_env = (\<lambda>_. Inr)"
  "n_SetDownlinkDataMIC sample_dl_env = (\<lambda>_ _ _ _. Inr [1, 2, 3, 4])"
  "n_MarshalBinary sample_dl_env = (\<lambda>p mic. Inr (sample_frame_bytes p @ mic))"
  "n_send sample_dl_env = (\<lambda>_ _. Inr ())"
  "n_HandleDownlinkACK sample_dl_env = (\<lambda>_ _ _. Inr ())"
  "n_HandleError sample_dl_env = (\<lambda>_ _ _ _. Inr ())"
  "n_ReEncrypt sample_dl_env = (\<lambda>q _. Inr (map (\<lambda>i. (rq_Items q ! i)\<lparr>re_FCnt := rq_FCntStart q + of_nat i\<rparr>) [0..<length (rq_Items q)]))"
  "n_ParseNetID sample_dl_env = (\<lambda>_. Inr 0)"
  "n_GetClientForNetID sample_dl_env = (\<lambda>_. Inr ())"
  "n_XmitDataReq sample_dl_env = (\<lambda>_ _ _ _. Inr True)"
  "n_ack sample_dl_env = sample_ack_env"
  "n_aes sample_dl_env = (\<lambda>_ _ _. 0)"
  "n_marshal_addr sample_dl_env = (\<lambda>_. Inr [4, 3, 2, 1])"
  "n_now sample_dl_env = 0"
  by (simp_all add: sample_dl_env_def)

lemma sample_dl_conf_simps [simp]:
  "cf_rejoinRequestEnabled sample_dl_conf = False"
  "cf_rejoinRequestMaxCountN sample_dl_conf = 0"
  "cf_rejoinRequestMaxTimeN sample_dl_conf = 0"
  "cf_classBPingSlotDR sample_dl_conf = 0"
  "cf_classBPingSlotFrequency sample_dl_conf = 0"
  "cf_rx2Frequency sample_dl_conf = 869525000"
  "cf_rx2DR sample_dl_conf = 0"
  "cf_rx1DROffset sample_dl_conf = 0"
  "cf_rx1Delay sample_dl_conf = 1"
  "cf_rxWindow sample_dl_conf = 0"
  "cf_rx2PreferOnRX1DRLt sample_dl_conf = 0"
  "cf_rx2PreferOnLinkBudget sample_dl_conf = False"
  "cf_downlinkTXPower sample_dl_conf = (- 1)"
  "cf_disableMACCommands sample_dl_conf = False"
  "cf_disableADR sample_dl_conf = True"
  "cf_classCDeviceLockDuration sample_dl_conf = second"
  "cf_classCGatewayLockDuration sample_dl_conf = second"
  "cf_uplinkDwellTime400ms sample_dl_conf = False"
  "cf_downlinkDwellTime400ms sample_dl_conf = False"
  "cf_UplinkMaxEIRP sample_dl_conf = (- 1)"
  "cf_maxMACCommandErrorCount sample_dl_conf = 3"
  "cf_gatewayPreferMinMargin sample_dl_conf = 10"
  "cf_InstallationMargin sample_dl_conf = 10"
  "cf_DownlinkTimeout sample_dl_conf = (5 * second)"
  by (simp_all add: sample_dl_conf_def)

lemma sample_dl_band_simps [simp]:
  "bd_Name sample_dl_band = ''EU868''"
  "bd_GetRX1DataRateIndex sample_dl_band = (\<lambda>dr offset. Inr (max 0 (dr - offset)))"
  "bd_GetRX1Frequency sample_dl_band = Inr"
  "bd_GetDownlinkTXPower sample_dl_band = (\<lambda>_. 14)"
  "bd_MaxPayloadSizeN sample_dl_band = (\<lambda>_ _ dr. if 0 \<le> dr \<and> dr < 8 then Inr ([51, 51, 51, 115, 222, 222, 222, 222] ! nat dr) else Inl (Errorf ''invalid data-rate''))"
  "bd_ReceiveDelay1 sample_dl_band = second"
  "bd_ReceiveDelay2 sample_dl_band = (2 * second)"
  "bd_ImplementsTXParamSetup sample_dl_band = (\<lambda>_. False)"
  "bd_DefaultMaxUplinkEIRP sample_dl_band = 16"
  "bd_GetPingSlotFrequency sample_dl_band = (\<lambda>_ _. Inr 869525000)"
  "bd_CustomUplinkChannelIndices sample_dl_band = []"
  by (simp_all add: sample_dl_band_def)

lemma sample_dl_context_simps [simp]:
  "w_DB sample_dl_context = (sample_tables, sample_tables)"
  "w_Redis sample_dl_context = memory_7"
  "w_Calls sample_dl_context = []"
  "dx_InTransaction sample_dl_context = False"
  "dx_DeviceMode sample_dl_context = None"
  "dx_ServiceProfile sample_dl_context = zero_service_profile"
  "dx_DeviceProfile sample_dl_context = zero_device_profile"
  "dx_DeviceSession sample_dl_context = device_7"
  "dx_GatewayRXInfo sample_dl_context = []"
  "dx_MustSend sample_dl_context = False"
  "dx_ACK sample_dl_context = False"
  "dx_RXPacket sample_dl_context = (Some sample_dl_packet)"
  "dx_Immediately sample_dl_context = False"
  "dx_MACCommands sample_dl_context = []"
  "dx_QueueItem sample_dl_context = None"
  "dx_More sample_dl_context = False"
  "dx_Frame sample_dl_context = empty_frame"
  "dx_Items sample_dl_context = []"
  "dx_Gateway sample_dl_context = (sample_rx 0 0)"
  by (simp_all add: sample_dl_context_def)

end
