(* ===== verification/DownlinkCommands.thy ===== *)
theory DownlinkCommands
  imports Downlink
begin

text \<open>
  The mac-commands a downlink carries (\<open>setMACCommands\<close> and the functions it runs in
  \<open>internal/downlink/data/data.go\<close>): requests for what the session lacks, the channel-mask, the
  outcome of the ADR algorithm and the queued commands of the controller, less what must not be
  sent; what remains is stored as pending. The last section follows the requests for parameters through the
  answers of a device that accepts them.
\<close>

section \<open>Requests\<close>

definition requestDevStatus :: "('db, 's, 'v) dl_env \<Rightarrow> ('db, 's) dl_task" where
  "requestDevStatus E c =
     (let freq = sp_DevStatusReqFreq (dx_ServiceProfile c) in
      if freq = 0 then (Inr (), c)
      else if time_sub (n_now E) (ds_LastDevStatusRequested (dx_DeviceSession c)) \<ge> go_div (24 * 3600 * second) freq
      then (case RequestDevStatus (n_now E) (dx_DeviceSession c) of
              (b, ds) \<Rightarrow> (Inr (), add_block b (c\<lparr>dx_DeviceSession := ds\<rparr>)))
      else (Inr (), c))"

definition requestRejoinParamSetup :: "('db, 's, 'v) dl_env \<Rightarrow> ('db, 's) dl_task" where
  "requestRejoinParamSetup E c =
     (let ds = dx_DeviceSession c; f = n_conf E in
      if \<not> cf_rejoinRequestEnabled f \<or> GetMACVersion ds = LoRaWAN1_0 then (Inr (), c)
      else if \<not> ds_RejoinRequestEnabled ds \<or> ds_RejoinRequestMaxCountN ds \<noteq> cf_rejoinRequestMaxCountN f \<or>
              ds_RejoinRequestMaxTimeN ds \<noteq> cf_rejoinRequestMaxTimeN f
      then (Inr (), add_block (RequestRejoinParamSetup (cf_rejoinRequestMaxTimeN f) (cf_rejoinRequestMaxCountN f)) c)
      else (Inr (), c))"

definition setPingSlotParameters :: "('db, 's, 'v) dl_env \<Rightarrow> ('db, 's) dl_task" where
  "setPingSlotParameters E c =
     (let ds = dx_DeviceSession c; f = n_conf E in
      if \<not> dp_SupportsClassB (dx_DeviceProfile c) then (Inr (), c)
      else if cf_classBPingSlotDR f \<noteq> ds_PingSlotDR ds \<or> cf_classBPingSlotFrequency f \<noteq> ds_PingSlotFrequency ds
      then (Inr (), add_block (RequestPingSlotChannel (cf_classBPingSlotDR f) (cf_classBPingSlotFrequency f)) c)
      else (Inr (), c))"

definition setRXParameters :: "('db, 's, 'v) dl_env \<Rightarrow> ('db, 's) dl_task" where
  "setRXParameters E c =
     (let ds = dx_DeviceSession c; f = n_conf E;
          c = (if ds_RX2Frequency ds \<noteq> cf_rx2Frequency f \<or> ds_RX2DR ds \<noteq> word_of_int (cf_rx2DR f) \<or>
                  ds_RX1DROffset ds \<noteq> word_of_int (cf_rx1DROffset f)
               then add_block (RequestRXParamSetup (cf_rx1DROffset f) (cf_rx2Frequency f) (cf_rx2DR f)) c else c)
      in (Inr (), if ds_RXDelay ds \<noteq> word_of_int (cf_rx1Delay f)
                  then add_block (RequestRXTimingSetup (cf_rx1Delay f)) c else c))"

definition setTXParameters :: "('db, 's, 'v) dl_env \<Rightarrow> ('db, 's) dl_task" where
  "setTXParameters E c =
     (let ds = dx_DeviceSession c; f = n_conf E in
      if \<not> bd_ImplementsTXParamSetup (n_DL E) (ds_MACVersion ds) then (Inr (), c)
      else let i = n_EIRPIndex E (f32 (of_int (dp_MaxEIRP (dx_DeviceProfile c))));
               deviceMaxEIRPIndex = (if i < uplinkMaxEIRPIndex E then i else uplinkMaxEIRPIndex E)
        in (Inr (), if ds_UplinkDwellTime400ms ds \<noteq> cf_uplinkDwellTime400ms f \<or>
                       ds_DownlinkDwellTime400ms ds \<noteq> cf_downlinkDwellTime400ms f \<or>
                       ds_UplinkMaxEIRPIndex ds \<noteq> deviceMaxEIRPIndex
                    then add_block (RequestTXParamSetup (cf_uplinkDwellTime400ms f) (cf_downlinkDwellTime400ms f)
                           deviceMaxEIRPIndex) c
                    else c))"

text \<open>The wanted channels; the channels of the session that are not wanted any more are forgotten.\<close>

fun wanted_channels :: "band \<Rightarrow> int list \<Rightarrow> (int \<times> channel) list \<Rightarrow> (int \<times> channel) list res" where
  "wanted_channels b [] m = Inr m"
| "wanted_channels b (i # is) m =
     (case GetUplinkChannel b i of
        Inl e \<Rightarrow> Inl (Wrap e ''get uplink channel error'')
      | Inr ch \<Rightarrow> wanted_channels b is (AList.update i ch m))"

definition requestCustomChannelReconfiguration :: "('db, 's, 'v) dl_env \<Rightarrow> ('db, 's) dl_task" where
  "requestCustomChannelReconfiguration E c =
     (case wanted_channels (n_Band E) (bd_CustomUplinkChannelIndices (n_DL E)) [] of
        Inl e \<Rightarrow> (Inl e, c)
      | Inr wanted \<Rightarrow>
          let current = map_option (filter (\<lambda>(k, _). k \<in> set (map fst wanted))) (ds_ExtraUplinkChannels (dx_DeviceSession c));
              c = c\<lparr>dx_DeviceSession := (dx_DeviceSession c)\<lparr>ds_ExtraUplinkChannels := current\<rparr>\<rparr>
          in (case RequestNewChannels 3 current (Some wanted) of
                Inl e \<Rightarrow> (Inl e, c)
              | Inr None \<Rightarrow> (Inr (), c)
              | Inr (Some b) \<Rightarrow> (Inr (), add_block b c)))"

definition requestChannelMaskReconfiguration :: "('db, 's, 'v) dl_env \<Rightarrow> ('db, 's) dl_task" where
  "requestChannelMaskReconfiguration E = update_ctx (\<lambda>c.
     c\<lparr>dx_MACCommands := dx_MACCommands c @ HandleChannelReconfigure (n_Band E) (dx_DeviceSession c)\<rparr>)"

definition getMACCommandsFromQueue :: "('db, 's, 'v) dl_env \<Rightarrow> ('db, 's) dl_task" where
  "getMACCommandsFromQueue E =
     reading (\<lambda>c. GetMACCommandQueueItems (n_Redis E) (n_Blocks E) (ds_DevEUI (dx_DeviceSession c)) (w_Redis c))
       (\<lambda>blocks c. c\<lparr>dx_MACCommands := dx_MACCommands c @ blocks\<rparr>) ''get mac-command queue items error''"

section \<open>Adaptive data-rate\<close>

text \<open>The highest power index with an offset, the indices of the band being below \<open>n\<close>: the loop of the
  code stops at the first index the band does not have, which a band has among its 256.\<close>

fun max_tx_power_loop :: "band \<Rightarrow> nat \<Rightarrow> int \<Rightarrow> int \<Rightarrow> int option" where
  "max_tx_power_loop b 0 i best = None"
| "max_tx_power_loop b (Suc n) i best =
     (case GetTXPowerOffset b i of
        Inl _ \<Rightarrow> Some best
      | Inr offset \<Rightarrow> max_tx_power_loop b n (i + 1) (if offset \<noteq> 0 then i else best))"

definition adr_history :: "'a session_scheme \<Rightarrow> uplink_meta_data list" where
  "adr_history ds = map (\<lambda>uh. \<lparr>um_FCnt = uh_FCnt uh, um_MaxSNR = f32 (uh_MaxSNR uh), um_MaxRSSI = 0,
     um_TXPowerIndex = uh_TXPowerIndex uh, um_GatewayCount = uh_GatewayCount uh\<rparr>) (ds_UplinkHistory ds)"

definition adr_request ::
  "('db, 's, 'v) dl_env \<Rightarrow> data_rate \<Rightarrow> int \<Rightarrow> ('db, 's) dl_context \<Rightarrow> handle_request" where
  "adr_request E dr maxTxPowerIndex c =
     (let ds = dx_DeviceSession c in
      \<lparr>hr_Region = bd_Name (n_DL E), hr_DevEUI = ds_DevEUI ds, hr_MACVersion = ds_MACVersion ds,
       hr_RegParamsRevision = dp_RegParamsRevision (dx_DeviceProfile c), hr_ADR = ds_ADR ds, hr_DR = ds_DR ds,
       hr_TxPowerIndex = ds_TXPowerIndex ds, hr_NbTrans = uint (ds_NbTrans ds), hr_MaxTxPowerIndex = maxTxPowerIndex,
       hr_RequiredSNRForDR = f32 (required_snr_of dr),
       hr_InstallationMargin = f32 (cf_InstallationMargin (n_conf E)),
       hr_MinDR = sp_DRMin (dx_ServiceProfile c), hr_MaxDR = sp_DRMax (dx_ServiceProfile c),
       hr_UplinkHistory = adr_history ds\<rparr>)"

text \<open>
  The last link-ADR block gets the new parameters in its last command: the code goes through the
  pointer to its payload.
\<close>

definition set_adr_parameters :: "handle_response \<Rightarrow> mac_block \<Rightarrow> mac_block res" where
  "set_adr_parameters r b =
     (case rev (mb_MACCommands b) of
        [] \<Rightarrow> Inl (Panic ''index out of range'')
      | m # ms \<Rightarrow>
         (case mc_Payload m of
            Some (LinkADRReqPayload pl) \<Rightarrow>
              Inr (b\<lparr>mb_MACCommands := rev ms @ [m\<lparr>mc_Payload := Some (LinkADRReqPayload
                (pl\<lparr>la_DataRate := word_of_int (hp_DR r), la_TXPower := word_of_int (hp_TxPowerIndex r),
                   la_NbRep := word_of_int (hp_NbTrans r)\<rparr>))\<rparr>]\<rparr>)
          | _ \<Rightarrow> Inl (Errorf ''expected *lorawan.LinkADRReqPayload'')))"

fun in_last_link_adr :: "(mac_block \<Rightarrow> mac_block res) \<Rightarrow> mac_block list \<Rightarrow> mac_block list res" where
  "in_last_link_adr f [] = Inr []"
| "in_last_link_adr f (b # bs) =
     (if mb_CID b = CID_LinkADR \<and> \<not> list_ex (\<lambda>b. mb_CID b = CID_LinkADR) bs
      then (case f b of Inl e \<Rightarrow> Inl e | Inr b \<Rightarrow> Inr (b # bs))
      else (case in_last_link_adr f bs of Inl e \<Rightarrow> Inl e | Inr bs \<Rightarrow> Inr (b # bs)))"

text \<open>
  Without one, a block for the first group of sixteen enabled channels; \<open>cntl\<close> is that group, -1
  until a channel is seen. A channel outside of the mask is an index panic.
\<close>

fun first_channel_group :: "int list \<Rightarrow> int \<Rightarrow> bool list \<Rightarrow> (int \<times> bool list) res" where
  "first_channel_group [] cntl chMask = Inr (cntl, chMask)"
| "first_channel_group (ch # chs) cntl chMask =
     (if cntl \<noteq> go_div ch 16 \<and> cntl \<noteq> - 1 then Inr (cntl, chMask)
      else let i = go_rem ch 16 in
        if i < 0 then Inl (Panic ''index out of range'')
        else first_channel_group chs (go_div ch 16) (chMask[nat i := True]))"

definition adr_block :: "handle_response \<Rightarrow> int \<Rightarrow> bool list \<Rightarrow> mac_block" where
  "adr_block r cntl chMask =
     \<lparr>mb_CID = CID_LinkADR, mb_External = False,
      mb_MACCommands = [link_adr_command
        \<lparr>la_DataRate = word_of_int (hp_DR r), la_TXPower = word_of_int (hp_TxPowerIndex r), la_ChMask = chMask,
         la_ChMaskCntl = word_of_int cntl, la_NbRep = word_of_int (hp_NbTrans r)\<rparr>]\<rparr>"

definition apply_adr :: "handle_response \<Rightarrow> ('db, 's) dl_task" where
  "apply_adr r c =
     (if list_ex (\<lambda>b. mb_CID b = CID_LinkADR) (dx_MACCommands c)
      then (case in_last_link_adr (set_adr_parameters r) (dx_MACCommands c) of
              Inl e \<Rightarrow> (Inl e, c) | Inr bs \<Rightarrow> (Inr (), c\<lparr>dx_MACCommands := bs\<rparr>))
      else (case first_channel_group (ds_EnabledUplinkChannels (dx_DeviceSession c)) (- 1) (replicate 16 False) of
              Inl e \<Rightarrow> (Inl e, c)
            | Inr (cntl, chMask) \<Rightarrow> (Inr (), add_block (adr_block r cntl chMask) c)))"

definition requestADRChange :: "('db, 's, 'v) dl_env \<Rightarrow> ('db, 's) dl_task" where
  "requestADRChange E c =
     (let ds = dx_DeviceSession c in
      if cf_disableADR (n_conf E) then (Inr (), c)
      else case (if ds_MaxSupportedTXPowerIndex ds \<noteq> 0 then Some (ds_MaxSupportedTXPowerIndex ds)
                 else max_tx_power_loop (n_Band E) 256 0 0) of
        None \<Rightarrow> (Inl (Panic ''no last tx-power index''), c)
      | Some maxTxPowerIndex \<Rightarrow>
         (case GetDataRate (n_Band E) (ds_DR ds) of
            Inl e \<Rightarrow> (Inl (Wrap e ''get data-rate error''), c)
          | Inr dr \<Rightarrow>
              let req = adr_request E dr maxTxPowerIndex c in
              (case GetHandler (n_Band E) (n_adr E) (dp_ADRAlgorithmID (dx_DeviceProfile c)) req of
                 Inl e \<Rightarrow> (Inl (Wrap e ''handle adr error''), c)
               | Inr r \<Rightarrow>
                   if hp_DR r \<noteq> hr_DR req \<or> hp_TxPowerIndex r \<noteq> hr_TxPowerIndex req \<or> hp_NbTrans r \<noteq> hr_NbTrans req
                   then apply_adr r c else (Inr (), c))))"

section \<open>What is sent\<close>

definition incompatibleMACCommands :: "(cid \<times> cid list) list" where
  "incompatibleMACCommands = [(CID_NewChannel, [CID_LinkADR]), (CID_LinkADR, [CID_NewChannel])]"

fun filter_incompatible :: "(cid \<times> cid list) list \<Rightarrow> mac_block list \<Rightarrow> mac_block list" where
  "filter_incompatible [] bs = bs"
| "filter_incompatible ((cid, conflicting) # ms) bs =
     filter_incompatible ms
       (if list_ex (\<lambda>b. mb_CID b = cid) bs then filter (\<lambda>b. mb_CID b \<notin> set conflicting) bs else bs)"

definition filterIncompatibleMACCommands :: "mac_block list \<Rightarrow> mac_block list" where
  "filterIncompatibleMACCommands bs = filter_incompatible incompatibleMACCommands bs"

definition error_count :: "'a session_scheme \<Rightarrow> cid \<Rightarrow> int" where
  "error_count ds cid = (case gomap_get (ds_MACCommandErrorCount ds) cid of None \<Rightarrow> 0 | Some n \<Rightarrow> n)"

definition sendable_blocks :: "('db, 's, 'v) dl_env \<Rightarrow> 'a session_scheme \<Rightarrow> mac_block list \<Rightarrow> mac_block list" where
  "sendable_blocks E ds bs =
     (let bs = (if cf_disableMACCommands (n_conf E) then filter mb_External bs else bs) in
      filterIncompatibleMACCommands
        (filter (\<lambda>b. error_count ds (mb_CID b) \<le> cf_maxMACCommandErrorCount (n_conf E)) bs))"

fun store_pending :: "('db, 's, 'v) dl_env \<Rightarrow> mac_block list \<Rightarrow> ('db, 's) dl_task" where
  "store_pending E [] c = (Inr (), c)"
| "store_pending E (b # bs) c =
     (let devEUI = ds_DevEUI (dx_DeviceSession c) in
      case wrapping ''set mac-command pending error''
             (on_Redis (SetPendingMACCommand (n_Redis E) (n_Blocks E) (n_TTL E) devEUI b)) c of
        (Inl e, c) \<Rightarrow> (Inl e, c)
      | (Inr _, c) \<Rightarrow>
         (case (if mb_External b then wrapping ''delete mac-command block from queue error''
                  (on_Redis (DeleteMACCommandQueueItem (n_Redis E) (n_Blocks E) devEUI b)) c else (Inr (), c)) of
            (Inl e, c) \<Rightarrow> (Inl e, c)
          | (Inr _, c) \<Rightarrow> store_pending E bs c))"

definition mac_command_tasks :: "('db, 's, 'v) dl_env \<Rightarrow> ('db, 's) dl_task list" where
  "mac_command_tasks E =
     [requestCustomChannelReconfiguration E, requestChannelMaskReconfiguration E, requestADRChange E, requestDevStatus E,
      requestRejoinParamSetup E, setPingSlotParameters E, setRXParameters E, setTXParameters E,
      getMACCommandsFromQueue E]"

definition setMACCommands :: "('db, 's, 'v) dl_env \<Rightarrow> ('db, 's) dl_task" where
  "setMACCommands E c =
     (case run_tasks (mac_command_tasks E) c of
        (Inl e, c) \<Rightarrow> (Inl e, c)
      | (Inr _, c) \<Rightarrow>
          let c = c\<lparr>dx_MACCommands := sendable_blocks E (dx_DeviceSession c) (dx_MACCommands c)\<rparr>
          in store_pending E (dx_MACCommands c) c)"

section \<open>What is stored\<close>

lemma incompatible_closed_form:
  "filterIncompatibleMACCommands bs =
     (if list_ex (\<lambda>b. mb_CID b = CID_NewChannel) bs then filter (\<lambda>b. mb_CID b \<noteq> CID_LinkADR) bs else bs)"
proof (cases "list_ex (\<lambda>b. mb_CID b = CID_NewChannel) bs")
  case True
  have "\<not> list_ex (\<lambda>b. mb_CID b = CID_LinkADR) (filter (\<lambda>b. mb_CID b \<noteq> CID_LinkADR) bs)"
    by (simp add: list_ex_iff)
  then show ?thesis using True by (simp add: filterIncompatibleMACCommands_def incompatibleMACCommands_def)
next
  case False
  then have "filter (\<lambda>b. mb_CID b \<noteq> CID_NewChannel) bs = bs" by (auto simp: list_ex_iff filter_id_conv)
  then show ?thesis using False by (simp add: filterIncompatibleMACCommands_def incompatibleMACCommands_def)
qed

lemma delete_keeps_pending:
  assumes "redis_server R holds" and "DeleteMACCommandQueueItem R c dev b s = (Inr (), s')"
  shows "pending_of k (holds s') = pending_of k (holds s)"
proof -
  obtain buf where "enc c b = Inr buf" using assms(2) by (auto simp: DeleteMACCommandQueueItem_def split: sum.splits)
  from redis_server.Delete_effect(1)[OF assms this] show ?thesis by (simp add: pending_of_def fun_eq_iff)
qed

lemma store_pending_step:
  assumes "redis_server (n_Redis E) holds" and "codec_ok (n_Blocks E)" and "0 < n_TTL E"
    and "store_pending E (b # bs) c = (Inr (), c')"
  obtains s where "store_pending E bs (c\<lparr>w_Redis := s\<rparr>) = (Inr (), c')"
    "pending_of (n_Blocks E) (holds s) = (pending_of (n_Blocks E) (holds (w_Redis c)))
      (ds_DevEUI (dx_DeviceSession c) := (pending_of (n_Blocks E) (holds (w_Redis c)) (ds_DevEUI (dx_DeviceSession c)))(mb_CID b := Some b))"
proof -
  let ?dev = "ds_DevEUI (dx_DeviceSession c)"
  obtain r1 s1 where s1: "SetPendingMACCommand (n_Redis E) (n_Blocks E) (n_TTL E) ?dev b (w_Redis c) = (r1, s1)" by fastforce
  then have r1: "r1 = Inr ()" using assms(4) by (cases r1) (simp_all add: Let_def wrapping_def on_Redis_def)
  note set = redis_server.Pending_effect[OF assms(1) s1[unfolded r1] assms(3,2)]
  show ?thesis
  proof (cases "mb_External b")
    case False
    then show ?thesis using that[OF _ set] assms(4) s1 r1 by (simp add: Let_def wrapping_def on_Redis_def)
  next
    case True
    obtain r2 s2 where s2: "DeleteMACCommandQueueItem (n_Redis E) (n_Blocks E) ?dev b s1 = (r2, s2)" by fastforce
    then have r2: "r2 = Inr ()" using assms(4) s1 r1 True by (cases r2) (simp_all add: Let_def wrapping_def on_Redis_def)
    have r: "store_pending E bs (c\<lparr>w_Redis := s2\<rparr>) = (Inr (), c')"
      using assms(4) s1 r1 True s2 r2 by (simp add: Let_def wrapping_def on_Redis_def)
    show ?thesis using that[OF r] set delete_keeps_pending[OF assms(1) s2[unfolded r2]] by simp
  qed
qed

lemma store_pending_effect:
  assumes "redis_server (n_Redis E) holds" and "codec_ok (n_Blocks E)" and "0 < n_TTL E"
    and "store_pending E bs c = (Inr (), c')"
  shows "pending_of (n_Blocks E) (holds (w_Redis c')) = (pending_of (n_Blocks E) (holds (w_Redis c)))
      (ds_DevEUI (dx_DeviceSession c) :=
         foldl (\<lambda>p b. p(mb_CID b := Some b)) (pending_of (n_Blocks E) (holds (w_Redis c)) (ds_DevEUI (dx_DeviceSession c))) bs)
    \<and> (\<exists>s. c' = c\<lparr>w_Redis := s\<rparr>)"
  using assms(4)
proof (induction bs arbitrary: c)
  case Nil
  then show ?case by (auto intro: exI[of _ "w_Redis c'"])
next
  case (Cons b bs)
  obtain s where s: "store_pending E bs (c\<lparr>w_Redis := s\<rparr>) = (Inr (), c')"
    "pending_of (n_Blocks E) (holds s) = (pending_of (n_Blocks E) (holds (w_Redis c)))
      (ds_DevEUI (dx_DeviceSession c) := (pending_of (n_Blocks E) (holds (w_Redis c)) (ds_DevEUI (dx_DeviceSession c)))(mb_CID b := Some b))"
    using store_pending_step[OF assms(1-3) Cons.prems] by metis
  then show ?case using Cons.IH[OF s(1)] by auto
qed

text \<open>
  C32: what is sent together can be sent together, and is remembered. After the mac-commands of a
  downlink are set, a channel request and a link-ADR request are never both among them (the
  link-ADR blocks give way), no command is among them that the device has refused more often than
  allowed, and none that is not from the controller when mac-commands are disabled. Every block is
  pending in Redis, the last one for each identifier, and nothing else about pending commands has
  changed, for any device.
\<close>

theorem sent_commands_are_pending:
  assumes "redis_server (n_Redis E) holds" and "codec_ok (n_Blocks E)" and "0 < n_TTL E"
    and "setMACCommands E c = (Inr (), c')"
  shows "\<exists>c1. run_tasks (mac_command_tasks E) c = (Inr (), c1) \<and>
    mset (dx_MACCommands c') \<subseteq># mset (dx_MACCommands c1) \<and>
    \<not> (CID_NewChannel \<in> mb_CID ` set (dx_MACCommands c') \<and> CID_LinkADR \<in> mb_CID ` set (dx_MACCommands c')) \<and>
    list_all (\<lambda>b. error_count (dx_DeviceSession c') (mb_CID b) \<le> cf_maxMACCommandErrorCount (n_conf E) \<and>
      (mb_External b \<or> \<not> cf_disableMACCommands (n_conf E))) (dx_MACCommands c') \<and>
    pending_of (n_Blocks E) (holds (w_Redis c')) = (pending_of (n_Blocks E) (holds (w_Redis c1)))
      (ds_DevEUI (dx_DeviceSession c') := foldl (\<lambda>p b. p(mb_CID b := Some b))
        (pending_of (n_Blocks E) (holds (w_Redis c1)) (ds_DevEUI (dx_DeviceSession c'))) (dx_MACCommands c'))"
proof -
  obtain c1 where c1: "run_tasks (mac_command_tasks E) c = (Inr (), c1)"
    "store_pending E (sendable_blocks E (dx_DeviceSession c1) (dx_MACCommands c1))
      (c1\<lparr>dx_MACCommands := sendable_blocks E (dx_DeviceSession c1) (dx_MACCommands c1)\<rparr>) = (Inr (), c')"
    using assms(4) by (auto simp: setMACCommands_def Let_def split: prod.splits sum.splits)
  note eff = store_pending_effect[OF assms(1-3) c1(2)]
  then have "dx_MACCommands c' = sendable_blocks E (dx_DeviceSession c1) (dx_MACCommands c1)" "dx_DeviceSession c' = dx_DeviceSession c1"
    by auto
  then show ?thesis using c1(1) eff
    by (intro exI[of _ c1])
      (auto simp: sendable_blocks_def Let_def incompatible_closed_form list_all_iff list_ex_iff
        intro: multiset_filter_subset subset_mset.order_trans)
qed

lemmas run_mac_commands = setMACCommands_def mac_command_tasks_def requestCustomChannelReconfiguration_def
  requestChannelMaskReconfiguration_def requestADRChange_def requestDevStatus_def requestRejoinParamSetup_def
  setPingSlotParameters_def setRXParameters_def setTXParameters_def getMACCommandsFromQueue_def add_block_def
  RequestNewChannels_def HandleChannelReconfigure_def reading_def update_ctx_def entries_def

lemma sample_mac_commands_run:
  "\<exists>c'. setMACCommands sample_dl_env sample_dl_context = (Inr (), c') \<and>
    dx_MACCommands c' = [RequestRXParamSetup 0 869525000 0, RequestRXTimingSetup 1] \<and> ds_DevEUI (dx_DeviceSession c') = 7"
  by (simp add: run_mac_commands run_tasks.simps zero_service_profile_def zero_device_profile_def sample_band_def
      GetMACCommandQueueItems_def mem_redis_run memory_7_def mem_empty_def mem_list_def sendable_blocks_def
      incompatible_closed_form error_count_def gomap_get_def RequestRXParamSetup_def RequestRXTimingSetup_def request_def
      wrapping_def on_Redis_def SetPendingMACCommand_def value_codecs_run Let_def)

theorem sent_commands_are_pending_witness:
  "\<exists>c'. setMACCommands sample_dl_env sample_dl_context = (Inr (), c') \<and>
    pending_of block_values (mem_holds (w_Redis c')) 7 CID_RXTimingSetup = Some (RequestRXTimingSetup 1)"
proof -
  obtain c' where c': "setMACCommands sample_dl_env sample_dl_context = (Inr (), c')"
    "dx_MACCommands c' = [RequestRXParamSetup 0 869525000 0, RequestRXTimingSetup 1]" "ds_DevEUI (dx_DeviceSession c') = 7"
    using sample_mac_commands_run by blast
  have "redis_server (n_Redis sample_dl_env) mem_holds" "codec_ok (n_Blocks sample_dl_env)" "0 < n_TTL sample_dl_env"
    using mem_server.redis_server_axioms by (simp_all add: value_codecs_ok)
  from sent_commands_are_pending[OF this c'(1)] c'
  show ?thesis by (auto simp: RequestRXParamSetup_def RequestRXTimingSetup_def request_def)
qed

section \<open>The data-rate the algorithm asked for\<close>

abbreviation link_adr_of :: "mac_block list \<Rightarrow> mac_block option" where
  "link_adr_of bs \<equiv> find (\<lambda>b. mb_CID b = CID_LinkADR) (rev bs)"

lemma find_append: "find P (xs @ ys) = (case find P xs of None \<Rightarrow> find P ys | Some x \<Rightarrow> Some x)"
  by (induction xs) auto

lemma find_rev_none: "\<not> list_ex P xs \<Longrightarrow> find P (rev xs) = None"
  by (auto simp: find_None_iff list_ex_iff)

lemma find_rev_some: "list_ex P xs \<Longrightarrow> find P (rev xs) \<noteq> None"
  by (auto simp: find_None_iff list_ex_iff)

lemma in_last_link_adr_find:
  assumes "in_last_link_adr f bs = Inr bs'" and "list_ex (\<lambda>b. mb_CID b = CID_LinkADR) bs"
    and "\<And>b b'. f b = Inr b' \<Longrightarrow> mb_CID b' = mb_CID b"
  shows "\<exists>b b'. link_adr_of bs = Some b \<and> f b = Inr b' \<and> link_adr_of bs' = Some b'"
  using assms(1,2)
proof (induction bs arbitrary: bs')
  case (Cons b bs)
  let ?P = "\<lambda>b. mb_CID b = CID_LinkADR"
  show ?case
  proof (cases "list_ex ?P bs")
    case True
    then obtain bs1 where "in_last_link_adr f bs = Inr bs1" "bs' = b # bs1"
      using Cons.prems(1) by (auto split: sum.splits)
    then show ?thesis using Cons.IH[of bs1] True by (auto simp: find_append)
  next
    case False
    then obtain b' where b': "mb_CID b = CID_LinkADR" "f b = Inr b'" "bs' = b' # bs"
      using Cons.prems by (auto split: sum.splits)
    then show ?thesis using assms(3)[OF b'(2)] find_rev_none[OF False] by (simp add: find_append)
  qed
qed simp

lemma link_adr_payloads_snoc:
  "link_adr_payloads (ms @ [m]) =
     (case link_adr_payloads ms of Inl e \<Rightarrow> Inl e
      | Inr rs \<Rightarrow> (case mc_Payload m of Some (LinkADRReqPayload r) \<Rightarrow> Inr (rs @ [r]) | _ \<Rightarrow> Inl type_assertion))"
  by (induction ms) (auto split: sum.splits option.splits mac_payload.splits)

definition carries_adr :: "handle_response \<Rightarrow> mac_block \<Rightarrow> bool" where
  "carries_adr r b \<longleftrightarrow>
     (\<exists>rs pl. link_adr_payloads (mb_MACCommands b) = Inr (rs @ [pl]) \<and> la_DataRate pl = word_of_int (hp_DR r) \<and>
        la_TXPower pl = word_of_int (hp_TxPowerIndex r) \<and> la_NbRep pl = word_of_int (hp_NbTrans r))"

lemma set_adr_parameters_ok:
  assumes "set_adr_parameters r b = Inr b'"
  obtains m ms pl where "rev (mb_MACCommands b) = m # ms" "mc_Payload m = Some (LinkADRReqPayload pl)"
    "b' = b\<lparr>mb_MACCommands := rev ms @ [m\<lparr>mc_Payload := Some (LinkADRReqPayload
                (pl\<lparr>la_DataRate := word_of_int (hp_DR r), la_TXPower := word_of_int (hp_TxPowerIndex r),
                   la_NbRep := word_of_int (hp_NbTrans r)\<rparr>))\<rparr>]\<rparr>"
proof (cases "rev (mb_MACCommands b)")
  case Nil
  then show ?thesis using assms by (simp add: set_adr_parameters_def)
next
  case (Cons m ms)
  show ?thesis
  proof (cases "mc_Payload m")
    case None
    then show ?thesis using assms Cons by (simp add: set_adr_parameters_def)
  next
    case (Some pl)
    show ?thesis using assms Cons Some that by (cases pl) (simp_all add: set_adr_parameters_def)
  qed
qed

lemma set_adr_parameters_cid: "set_adr_parameters r b = Inr b' \<Longrightarrow> mb_CID b' = mb_CID b"
  by (erule set_adr_parameters_ok) simp

lemma find_rev_in: "find P (rev xs) = Some x \<Longrightarrow> x \<in> set xs \<and> P x"
  by (induction xs) (auto simp: find_append split: option.splits if_splits)

lemma apply_adr_carries:
  assumes "apply_adr r c = (Inr (), c1)"
    and "list_all (\<lambda>b. mb_CID b \<noteq> CID_LinkADR \<or> \<not> is_error (link_adr_payloads (mb_MACCommands b))) (dx_MACCommands c)"
  shows "\<exists>b. link_adr_of (dx_MACCommands c1) = Some b \<and> carries_adr r b"
proof (cases "list_ex (\<lambda>b. mb_CID b = CID_LinkADR) (dx_MACCommands c)")
  case False
  then obtain cntl m where "first_channel_group (ds_EnabledUplinkChannels (dx_DeviceSession c)) (- 1) (replicate 16 False) = Inr (cntl, m)"
    "c1 = add_block (adr_block r cntl m) c"
    using assms(1) by (auto simp: apply_adr_def split: sum.splits)
  then show ?thesis
    by (auto simp: add_block_def adr_block_def carries_adr_def link_adr_command_def)
next
  case True
  then obtain bs where bs: "in_last_link_adr (set_adr_parameters r) (dx_MACCommands c) = Inr bs" "c1 = c\<lparr>dx_MACCommands := bs\<rparr>"
    using assms(1) by (auto simp: apply_adr_def split: sum.splits)
  obtain b b' where b: "link_adr_of (dx_MACCommands c) = Some b" "set_adr_parameters r b = Inr b'" "link_adr_of bs = Some b'"
    using in_last_link_adr_find[OF bs(1) True set_adr_parameters_cid[of r]] by blast
  have "mb_CID b = CID_LinkADR" "b \<in> set (dx_MACCommands c)" using find_rev_in[OF b(1)] by simp_all
  then obtain ps where ps: "link_adr_payloads (mb_MACCommands b) = Inr ps"
    using assms(2) by (cases "link_adr_payloads (mb_MACCommands b)") (auto simp: list_all_iff)
  obtain m ms pl where m: "rev (mb_MACCommands b) = m # ms" "mc_Payload m = Some (LinkADRReqPayload pl)"
    "b' = b\<lparr>mb_MACCommands := rev ms @ [m\<lparr>mc_Payload := Some (LinkADRReqPayload
                (pl\<lparr>la_DataRate := word_of_int (hp_DR r), la_TXPower := word_of_int (hp_TxPowerIndex r),
                   la_NbRep := word_of_int (hp_NbTrans r)\<rparr>))\<rparr>]\<rparr>"
    using set_adr_parameters_ok[OF b(2)] .
  have "mb_MACCommands b = rev ms @ [m]" using m(1) by (metis rev_eq_Cons_iff)
  then obtain rs where "link_adr_payloads (rev ms) = Inr rs"
    using ps m(2) by (auto simp: link_adr_payloads_snoc split: sum.splits)
  then have "carries_adr r b'" by (simp add: carries_adr_def m(3) link_adr_payloads_snoc)
  then show ?thesis using b(3) bs(2) by simp
qed

text \<open>
  C33: the adaptive data-rate loop closes. The algorithm of the device is asked with the largest power index the
  device supports, or the last one of the band with an offset. When its answer differs from the session in
  the data-rate, the power index or the number of transmissions, the last link-ADR block of the commands
  asks for the answer, and a device that acknowledges it ends with these parameters in its session, as
  the bytes the command has for them. When it does not differ, nothing is added.
\<close>

theorem adr_change_takes_effect:
  assumes "requestADRChange E c = (Inr (), c1)" and "\<not> cf_disableADR (n_conf E)" and "s = dx_DeviceSession c"
    and "list_all (\<lambda>b. mb_CID b \<noteq> CID_LinkADR \<or> \<not> is_error (link_adr_payloads (mb_MACCommands b))) (dx_MACCommands c)"
  shows "\<exists>r d tx. GetDataRate (n_Band E) (ds_DR s) = Inr d \<and>
    (if ds_MaxSupportedTXPowerIndex s \<noteq> 0 then tx = ds_MaxSupportedTXPowerIndex s
     else max_tx_power_loop (n_Band E) 256 0 0 = Some tx) \<and>
    GetHandler (n_Band E) (n_adr E) (dp_ADRAlgorithmID (dx_DeviceProfile c)) (adr_request E d tx c) = Inr r \<and>
    (if hp_DR r = ds_DR s \<and> hp_TxPowerIndex r = ds_TXPowerIndex s \<and> hp_NbTrans r = uint (ds_NbTrans s) then c1 = c
     else \<exists>pending. link_adr_of (dx_MACCommands c1) = Some pending \<and>
       (\<forall>acks ds ds' out. mb_MACCommands acks \<noteq> [] \<longrightarrow>
          link_adr_acks (mb_MACCommands acks) (True, True, True) = Inr (True, True, True) \<longrightarrow>
          handleLinkADRAns (n_Band E) acks (Some pending) (ds :: device_session) = (Inr out, ds') \<longrightarrow>
          ds_DR ds' = hp_DR r mod 256 \<and> ds_TXPowerIndex ds' = hp_TxPowerIndex r mod 256 \<and>
          uint (ds_NbTrans ds') = hp_NbTrans r mod 256))"
proof -
  let ?max = "if ds_MaxSupportedTXPowerIndex s \<noteq> 0 then Some (ds_MaxSupportedTXPowerIndex s) else max_tx_power_loop (n_Band E) 256 0 0"
  let ?same = "\<lambda>r. hp_DR r = ds_DR s \<and> hp_TxPowerIndex r = ds_TXPowerIndex s \<and> hp_NbTrans r = uint (ds_NbTrans s)"
  have fields: "hr_DR (adr_request E d tx c) = ds_DR s" "hr_TxPowerIndex (adr_request E d tx c) = ds_TXPowerIndex s"
    "hr_NbTrans (adr_request E d tx c) = uint (ds_NbTrans s)" for d tx
    by (simp_all add: adr_request_def Let_def assms(3))
  have run: "(case ?max of None \<Rightarrow> (Inl (Panic ''no last tx-power index''), c)
      | Some tx \<Rightarrow> (case GetDataRate (n_Band E) (ds_DR s) of
          Inl e \<Rightarrow> (Inl (Wrap e ''get data-rate error''), c)
        | Inr d \<Rightarrow> (case GetHandler (n_Band E) (n_adr E) (dp_ADRAlgorithmID (dx_DeviceProfile c)) (adr_request E d tx c) of
            Inl e \<Rightarrow> (Inl (Wrap e ''handle adr error''), c)
          | Inr r \<Rightarrow> if hp_DR r \<noteq> ds_DR s \<or> hp_TxPowerIndex r \<noteq> ds_TXPowerIndex s \<or> hp_NbTrans r \<noteq> uint (ds_NbTrans s)
              then apply_adr r c else (Inr (), c)))) = (Inr (), c1)"
    using assms(1,2) unfolding requestADRChange_def Let_def fields assms(3)[symmetric] by (simp only: if_False)
  obtain tx where tx: "?max = Some tx" using run by (cases ?max) auto
  obtain d where d: "GetDataRate (n_Band E) (ds_DR s) = Inr d"
    using run unfolding tx by (cases "GetDataRate (n_Band E) (ds_DR s)") auto
  obtain r where h: "GetHandler (n_Band E) (n_adr E) (dp_ADRAlgorithmID (dx_DeviceProfile c)) (adr_request E d tx c) = Inr r"
    using run unfolding tx d
    by (cases "GetHandler (n_Band E) (n_adr E) (dp_ADRAlgorithmID (dx_DeviceProfile c)) (adr_request E d tx c)") auto
  have r: "(if ?same r then (Inr (), c) else apply_adr r c) = (Inr (), c1)"
    using run unfolding tx d by (auto simp: h split: if_splits)
  have look: "GetDataRate (n_Band E) (ds_DR s) = Inr d"
    "if ds_MaxSupportedTXPowerIndex s \<noteq> 0 then tx = ds_MaxSupportedTXPowerIndex s
     else max_tx_power_loop (n_Band E) 256 0 0 = Some tx"
    "GetHandler (n_Band E) (n_adr E) (dp_ADRAlgorithmID (dx_DeviceProfile c)) (adr_request E d tx c) = Inr r"
    using tx d h by (simp_all split: if_splits)
  show ?thesis
  proof (cases "?same r")
    case True
    then show ?thesis using look r by (intro exI[of _ r] exI[of _ d] exI[of _ tx]) simp
  next
    case False
    then have "apply_adr r c = (Inr (), c1)" using r by (simp split: if_splits)
    from apply_adr_carries[OF this assms(4)] obtain pending where
      pending: "link_adr_of (dx_MACCommands c1) = Some pending" "carries_adr r pending" by blast
    obtain rs pl where pl: "link_adr_payloads (mb_MACCommands pending) = Inr (rs @ [pl])" "la_DataRate pl = word_of_int (hp_DR r)"
      "la_TXPower pl = word_of_int (hp_TxPowerIndex r)" "la_NbRep pl = word_of_int (hp_NbTrans r)"
      using pending(2) by (auto simp: carries_adr_def)
    have "mb_MACCommands pending \<noteq> []" using pl(1) by auto
    then have "ds_DR ds' = hp_DR r mod 256 \<and> ds_TXPowerIndex ds' = hp_TxPowerIndex r mod 256 \<and> uint (ds_NbTrans ds') = hp_NbTrans r mod 256"
      if "mb_MACCommands acks \<noteq> []" "link_adr_acks (mb_MACCommands acks) (True, True, True) = Inr (True, True, True)"
        "handleLinkADRAns (n_Band E) acks (Some pending) ds = (Inr out, ds')" for acks out and ds ds' :: device_session
      using that pl by (auto simp: handleLinkADRAns_def no_pending_def Let_def uint_word_of_int split: sum.splits)
    then show ?thesis using look False pending(1) by (intro exI[of _ r] exI[of _ d] exI[of _ tx]) auto
  qed
qed

text \<open>A handler that asks for data-rate 5.\<close>

definition adr_to_5 :: handle_response where
  "adr_to_5 = \<lparr>hp_DR = 5, hp_TxPowerIndex = 1, hp_NbTrans = 2\<rparr>"

definition adr_env :: "(memory_db, memory, redis_value) dl_env" where
  "adr_env = sample_dl_env\<lparr>n_conf := sample_dl_conf\<lparr>cf_disableADR := False\<rparr>, n_adr := [([], \<lambda>_. Inr adr_to_5)]\<rparr>"

definition link_adr_accepted :: mac_block where
  "link_adr_accepted = \<lparr>mb_CID = CID_LinkADR, mb_External = False,
     mb_MACCommands = [\<lparr>mc_CID = CID_LinkADR, mc_Payload = Some (LinkADRAnsPayload True True True)\<rparr>]\<rparr>"

theorem adr_change_takes_effect_witness:
  "\<exists>c1 pending. requestADRChange adr_env sample_dl_context = (Inr (), c1) \<and> link_adr_of (dx_MACCommands c1) = Some pending \<and>
    ds_DR (snd (handleLinkADRAns sample_band link_adr_accepted (Some pending) device_7)) = 5"
proof -
  have band: "n_Band adr_env = sample_band" "n_adr adr_env = [([], \<lambda>_. Inr adr_to_5)]" "dp_ADRAlgorithmID zero_device_profile = []"
    by (simp_all add: adr_env_def zero_device_profile_def)
  have loop: "max_tx_power_loop sample_band 256 0 0 = Some 7" by code_simp
  have "GetDataRate sample_band 0 = Inr (sample_data_rates ! 0)" by (simp add: sample_band_def)
  moreover have "\<not> cf_disableADR (n_conf adr_env)" by (simp add: adr_env_def)
  ultimately have run: "requestADRChange adr_env sample_dl_context =
      (Inr (), add_block (adr_block adr_to_5 (- 1) (replicate 16 False)) sample_dl_context)"
    by (simp add: requestADRChange_def band loop GetHandler_def adr_to_5_def adr_request_def apply_adr_def)
  let ?b = "adr_block adr_to_5 (- 1) (replicate 16 False)"
  have "list_all (\<lambda>b. mb_CID b \<noteq> CID_LinkADR \<or> \<not> is_error (link_adr_payloads (mb_MACCommands b))) (dx_MACCommands sample_dl_context)"
    by simp
  note adr = adr_change_takes_effect[OF run \<open>\<not> cf_disableADR (n_conf adr_env)\<close> refl this]
  have pending: "link_adr_of (dx_MACCommands (add_block ?b sample_dl_context)) = Some ?b"
    by (simp add: add_block_def adr_block_def)
  have acks: "mb_MACCommands link_adr_accepted \<noteq> []"
    "link_adr_acks (mb_MACCommands link_adr_accepted) (True, True, True) = Inr (True, True, True)"
    by (simp_all add: link_adr_accepted_def)
  obtain ds' where ds': "handleLinkADRAns sample_band link_adr_accepted (Some ?b) device_7 = (Inr [], ds')"
    by (simp add: handleLinkADRAns_def acks no_pending_def adr_block_def link_adr_command_def reset_errors_def sample_band_def)
  have "ds_DR ds' = 5"
    using adr pending acks ds' by (auto simp: band GetHandler_def adr_to_5_def)
  then show ?thesis using run pending ds' by auto
qed

section \<open>Parameters settle\<close>

text \<open>
  The tasks that compare the parameters of the session with the configuration, which follow each other in
  \<open>mac_command_tasks\<close>, and a device that accepts what they request: the server handles its
  answers with the requests as pending blocks.
\<close>

definition parameter_tasks :: "('db, 's, 'v) dl_env \<Rightarrow> ('db, 's) dl_task list" where
  "parameter_tasks E = [requestRejoinParamSetup E, setPingSlotParameters E, setRXParameters E, setTXParameters E]"

definition acceptance :: "cid \<Rightarrow> mac_payload option" where
  "acceptance cid =
     (case cid of
        CID_RXParamSetup \<Rightarrow> Some (RXParamSetupAnsPayload True True True)
      | CID_PingSlotChannel \<Rightarrow> Some (PingSlotChannelAnsPayload True True)
      | CID_RejoinParamSetup \<Rightarrow> Some (RejoinParamSetupAnsPayload True)
      | _ \<Rightarrow> None)"

fun handle_acceptances ::
  "(mac_block \<Rightarrow> mac_block option \<Rightarrow> 'x \<Rightarrow> mac_block list res \<times> 'x) \<Rightarrow> mac_block list \<Rightarrow> 'x \<Rightarrow> mac_block list res \<times> 'x" where
  "handle_acceptances handle [] st = (Inr [], st)"
| "handle_acceptances handle (b # bs) st =
     (case handle (hd (answer (mb_CID b) (acceptance (mb_CID b)))) (Some b) st of
        (Inl e, st) \<Rightarrow> (Inl e, st)
      | (Inr _, st) \<Rightarrow> handle_acceptances handle bs st)"

lemma parameter_tasks_follow:
  "mac_command_tasks E =
     [requestCustomChannelReconfiguration E, requestChannelMaskReconfiguration E, requestADRChange E, requestDevStatus E] @
     parameter_tasks E @ [getMACCommandsFromQueue E]"
  by (simp add: mac_command_tasks_def parameter_tasks_def)

lemma accepted_requests:
  "mac_Handle bd T now dp sp (hd (answer CID_RejoinParamSetup (acceptance CID_RejoinParamSetup))) (Some (RequestRejoinParamSetup t n)) rx st =
     (Inr [], st\<lparr>ms_ds := (ms_ds st)\<lparr>ds_RejoinRequestEnabled := True, ds_RejoinRequestMaxCountN := n mod 256, ds_RejoinRequestMaxTimeN := t mod 256\<rparr>\<rparr>)"
  "mac_Handle bd T now dp sp (hd (answer CID_PingSlotChannel (acceptance CID_PingSlotChannel))) (Some (RequestPingSlotChannel dr freq)) rx st =
     (Inr [], st\<lparr>ms_ds := (reset_errors CID_PingSlotChannel (ms_ds st))\<lparr>ds_PingSlotDR := dr mod 256, ds_PingSlotFrequency := freq\<rparr>\<rparr>)"
  "mac_Handle bd T now dp sp (hd (answer CID_RXParamSetup (acceptance CID_RXParamSetup))) (Some (RequestRXParamSetup off freq dr)) rx st =
     (Inr [], st\<lparr>ms_ds := (reset_errors CID_RXParamSetup (ms_ds st))
        \<lparr>ds_RX2Frequency := freq, ds_RX2DR := word_of_int dr, ds_RX1DROffset := word_of_int off\<rparr>\<rparr>)"
  "mac_Handle bd T now dp sp (hd (answer CID_RXTimingSetup (acceptance CID_RXTimingSetup))) (Some (RequestRXTimingSetup del)) rx st =
     (Inr [], st\<lparr>ms_ds := (ms_ds st)\<lparr>ds_RXDelay := word_of_int del\<rparr>\<rparr>)"
  "mac_Handle bd T now dp sp (hd (answer CID_TXParamSetup (acceptance CID_TXParamSetup))) (Some (RequestTXParamSetup up down eirp)) rx st =
     (Inr [], st\<lparr>ms_ds := (ms_ds st)\<lparr>ds_UplinkDwellTime400ms := up, ds_DownlinkDwellTime400ms := down, ds_UplinkMaxEIRPIndex := eirp\<rparr>\<rparr>)"
  by (simp_all add: mac_Handle_def on_ds_def acceptance_def answer_def request_def no_pending_def first_payload_def uint_word_of_int
      handleRXParamSetupAns_def RequestRXParamSetup_def handlePingSlotChannelAns_def RequestPingSlotChannel_def
      handleRXTimingSetupAns_def RequestRXTimingSetup_def handleTXParamSetupAns_def RequestTXParamSetup_def
      handleRejoinParamSetupAns_def RequestRejoinParamSetup_def)

lemma request_cids:
  "mb_CID (RequestRejoinParamSetup t n) = CID_RejoinParamSetup" "mb_CID (RequestPingSlotChannel i freq) = CID_PingSlotChannel"
  "mb_CID (RequestRXParamSetup off freq i) = CID_RXParamSetup" "mb_CID (RequestRXTimingSetup i) = CID_RXTimingSetup"
  "mb_CID (RequestTXParamSetup up down eirp) = CID_TXParamSetup"
  by (simp_all add: request_def RequestRejoinParamSetup_def RequestPingSlotChannel_def RequestRXParamSetup_def
      RequestRXTimingSetup_def RequestTXParamSetup_def)

text \<open>When each of the five requests is made.\<close>

definition max_eirp_index :: "('db, 's, 'v) dl_env \<Rightarrow> ('db, 's) dl_context \<Rightarrow> byte" where
  "max_eirp_index E c =
     (let i = n_EIRPIndex E (f32 (of_int (dp_MaxEIRP (dx_DeviceProfile c)))) in if i < uplinkMaxEIRPIndex E then i else uplinkMaxEIRPIndex E)"

definition rejoin_settled where
  "rejoin_settled E ds \<longleftrightarrow> (cf_rejoinRequestEnabled (n_conf E) \<and> GetMACVersion ds \<noteq> LoRaWAN1_0 \<longrightarrow>
     ds_RejoinRequestEnabled ds \<and> ds_RejoinRequestMaxCountN ds = cf_rejoinRequestMaxCountN (n_conf E) \<and>
     ds_RejoinRequestMaxTimeN ds = cf_rejoinRequestMaxTimeN (n_conf E))"

definition ping_slot_settled where
  "ping_slot_settled E classB ds \<longleftrightarrow> (classB \<longrightarrow>
     ds_PingSlotDR ds = cf_classBPingSlotDR (n_conf E) \<and> ds_PingSlotFrequency ds = cf_classBPingSlotFrequency (n_conf E))"

definition rx_param_settled where
  "rx_param_settled E ds \<longleftrightarrow> ds_RX2Frequency ds = cf_rx2Frequency (n_conf E) \<and> ds_RX2DR ds = word_of_int (cf_rx2DR (n_conf E)) \<and>
     ds_RX1DROffset ds = word_of_int (cf_rx1DROffset (n_conf E))"

definition tx_param_settled where
  "tx_param_settled E eirp ds \<longleftrightarrow> (bd_ImplementsTXParamSetup (n_DL E) (ds_MACVersion ds) \<longrightarrow>
     ds_UplinkDwellTime400ms ds = cf_uplinkDwellTime400ms (n_conf E) \<and>
     ds_DownlinkDwellTime400ms ds = cf_downlinkDwellTime400ms (n_conf E) \<and> ds_UplinkMaxEIRPIndex ds = eirp)"

definition parameter_requests :: "('db, 's, 'v) dl_env \<Rightarrow> ('db, 's) dl_context \<Rightarrow> mac_block list" where
  "parameter_requests E c =
     (let f = n_conf E; ds = dx_DeviceSession c in
      (if \<not> rejoin_settled E ds then [RequestRejoinParamSetup (cf_rejoinRequestMaxTimeN f) (cf_rejoinRequestMaxCountN f)] else []) @
      (if \<not> ping_slot_settled E (dp_SupportsClassB (dx_DeviceProfile c)) ds
       then [RequestPingSlotChannel (cf_classBPingSlotDR f) (cf_classBPingSlotFrequency f)] else []) @
      (if \<not> rx_param_settled E ds then [RequestRXParamSetup (cf_rx1DROffset f) (cf_rx2Frequency f) (cf_rx2DR f)] else []) @
      (if ds_RXDelay ds \<noteq> word_of_int (cf_rx1Delay f) then [RequestRXTimingSetup (cf_rx1Delay f)] else []) @
      (if \<not> tx_param_settled E (max_eirp_index E c) ds
       then [RequestTXParamSetup (cf_uplinkDwellTime400ms f) (cf_downlinkDwellTime400ms f) (max_eirp_index E c)] else []) @ [])"

lemma parameter_blocks:
  "run_tasks (parameter_tasks E) c = (Inr (), c\<lparr>dx_MACCommands := dx_MACCommands c @ parameter_requests E c\<rparr>)"
proof -
  let ?f = "n_conf E"
  have "requestRejoinParamSetup E c = (Inr (), c\<lparr>dx_MACCommands := dx_MACCommands c @
    (if \<not> rejoin_settled E (dx_DeviceSession c) then [RequestRejoinParamSetup (cf_rejoinRequestMaxTimeN ?f) (cf_rejoinRequestMaxCountN ?f)] else [])\<rparr>)" for c
    by (auto simp: requestRejoinParamSetup_def rejoin_settled_def add_block_def Let_def)
  moreover have "setPingSlotParameters E c = (Inr (), c\<lparr>dx_MACCommands := dx_MACCommands c @
    (if \<not> ping_slot_settled E (dp_SupportsClassB (dx_DeviceProfile c)) (dx_DeviceSession c)
     then [RequestPingSlotChannel (cf_classBPingSlotDR ?f) (cf_classBPingSlotFrequency ?f)] else [])\<rparr>)" for c
    by (auto simp: setPingSlotParameters_def ping_slot_settled_def add_block_def Let_def)
  moreover have "setRXParameters E c = (Inr (), c\<lparr>dx_MACCommands := dx_MACCommands c @
    (if \<not> rx_param_settled E (dx_DeviceSession c) then [RequestRXParamSetup (cf_rx1DROffset ?f) (cf_rx2Frequency ?f) (cf_rx2DR ?f)] else []) @
    (if ds_RXDelay (dx_DeviceSession c) \<noteq> word_of_int (cf_rx1Delay ?f) then [RequestRXTimingSetup (cf_rx1Delay ?f)] else [])\<rparr>)" for c
    by (auto simp: setRXParameters_def rx_param_settled_def add_block_def Let_def)
  moreover have "setTXParameters E c = (Inr (), c\<lparr>dx_MACCommands := dx_MACCommands c @
    (if \<not> tx_param_settled E (max_eirp_index E c) (dx_DeviceSession c)
     then [RequestTXParamSetup (cf_uplinkDwellTime400ms ?f) (cf_downlinkDwellTime400ms ?f) (max_eirp_index E c)] else [])\<rparr>)" for c
    by (auto simp: setTXParameters_def tx_param_settled_def max_eirp_index_def add_block_def Let_def)
  ultimately show ?thesis by (simp add: parameter_tasks_def parameter_requests_def run_tasks.simps max_eirp_index_def Let_def)
qed

lemma handle_acceptances_step:
  assumes "handle (hd (answer (mb_CID b) (acceptance (mb_CID b)))) (Some b) st = (Inr [], st')"
  shows "handle_acceptances handle ((if p then [b] else []) @ bs) st = handle_acceptances handle bs (if p then st' else st)"
  using assms by simp

lemma accepted_parameters:
  fixes st :: "'d mac_state"
  assumes "f = n_conf E" and "cf_rejoinRequestMaxCountN f \<in> {0..<256}" "cf_rejoinRequestMaxTimeN f \<in> {0..<256}"
    and "cf_classBPingSlotDR f \<in> {0..<256}" and "ms_ds st = dx_DeviceSession c"
  shows "\<exists>st'. handle_acceptances (\<lambda>block pending. mac_Handle bd T now dp sp block pending rx) (parameter_requests E c) st = (Inr [], st') \<and>
    rejoin_settled E (ms_ds st') \<and> ping_slot_settled E (dp_SupportsClassB (dx_DeviceProfile c)) (ms_ds st') \<and>
    rx_param_settled E (ms_ds st') \<and> ds_RXDelay (ms_ds st') = word_of_int (cf_rx1Delay f) \<and>
    tx_param_settled E (max_eirp_index E c) (ms_ds st')"
proof -
  let ?handle = "\<lambda>block pending. mac_Handle bd T now dp sp block pending rx :: 'd mac_state \<Rightarrow> _"
  let ?ds = "dx_DeviceSession c" and ?B = "dp_SupportsClassB (dx_DeviceProfile c)" and ?eirp = "max_eirp_index E c"
  let ?p1 = "\<not> rejoin_settled E ?ds" and ?p2 = "\<not> ping_slot_settled E ?B ?ds" and ?p3 = "\<not> rx_param_settled E ?ds"
    and ?p4 = "ds_RXDelay ?ds \<noteq> word_of_int (cf_rx1Delay f)" and ?p5 = "\<not> tx_param_settled E ?eirp ?ds"
  define s1 where "s1 = (if ?p1 then st\<lparr>ms_ds := (ms_ds st)\<lparr>ds_RejoinRequestEnabled := True,
    ds_RejoinRequestMaxCountN := cf_rejoinRequestMaxCountN f, ds_RejoinRequestMaxTimeN := cf_rejoinRequestMaxTimeN f\<rparr>\<rparr> else st)"
  define s2 where "s2 = (if ?p2 then s1\<lparr>ms_ds := (reset_errors CID_PingSlotChannel (ms_ds s1))
    \<lparr>ds_PingSlotDR := cf_classBPingSlotDR f, ds_PingSlotFrequency := cf_classBPingSlotFrequency f\<rparr>\<rparr> else s1)"
  define s3 where "s3 = (if ?p3 then s2\<lparr>ms_ds := (reset_errors CID_RXParamSetup (ms_ds s2))
    \<lparr>ds_RX2Frequency := cf_rx2Frequency f, ds_RX2DR := word_of_int (cf_rx2DR f), ds_RX1DROffset := word_of_int (cf_rx1DROffset f)\<rparr>\<rparr> else s2)"
  define s4 where "s4 = (if ?p4 then s3\<lparr>ms_ds := (ms_ds s3)\<lparr>ds_RXDelay := word_of_int (cf_rx1Delay f)\<rparr>\<rparr> else s3)"
  define s5 where "s5 = (if ?p5 then s4\<lparr>ms_ds := (ms_ds s4)\<lparr>ds_UplinkDwellTime400ms := cf_uplinkDwellTime400ms f,
    ds_DownlinkDwellTime400ms := cf_downlinkDwellTime400ms f, ds_UplinkMaxEIRPIndex := ?eirp\<rparr>\<rparr> else s4)"
  have bytes: "cf_rejoinRequestMaxCountN f mod 256 = cf_rejoinRequestMaxCountN f" "cf_rejoinRequestMaxTimeN f mod 256 = cf_rejoinRequestMaxTimeN f"
    "cf_classBPingSlotDR f mod 256 = cf_classBPingSlotDR f" using assms(2-4) by simp_all
  have step: "handle_acceptances ?handle ((if p then [b] else []) @ bs) x = handle_acceptances ?handle bs (if p then x' else x)"
    if "?handle (hd (answer (mb_CID b) (acceptance (mb_CID b)))) (Some b) x = (Inr [], x')" for p b bs x x'
    by (rule handle_acceptances_step) (rule that)
  have handled: "handle_acceptances ?handle (parameter_requests E c) st = (Inr [], s5)"
  proof -
    have h1: "handle_acceptances ?handle ((if ?p1 then [RequestRejoinParamSetup (cf_rejoinRequestMaxTimeN f) (cf_rejoinRequestMaxCountN f)] else []) @ bs) st =
        handle_acceptances ?handle bs s1" for bs
      unfolding s1_def by (rule step) (simp only: request_cids accepted_requests bytes)
    have h2: "handle_acceptances ?handle ((if ?p2 then [RequestPingSlotChannel (cf_classBPingSlotDR f) (cf_classBPingSlotFrequency f)] else []) @ bs) s1 =
        handle_acceptances ?handle bs s2" for bs
      unfolding s2_def by (rule step) (simp only: request_cids accepted_requests bytes)
    have h3: "handle_acceptances ?handle ((if ?p3 then [RequestRXParamSetup (cf_rx1DROffset f) (cf_rx2Frequency f) (cf_rx2DR f)] else []) @ bs) s2 =
        handle_acceptances ?handle bs s3" for bs
      unfolding s3_def by (rule step) (simp only: request_cids accepted_requests)
    have h4: "handle_acceptances ?handle ((if ?p4 then [RequestRXTimingSetup (cf_rx1Delay f)] else []) @ bs) s3 =
        handle_acceptances ?handle bs s4" for bs
      unfolding s4_def by (rule step) (simp only: request_cids accepted_requests)
    have h5: "handle_acceptances ?handle ((if ?p5 then [RequestTXParamSetup (cf_uplinkDwellTime400ms f) (cf_downlinkDwellTime400ms f) ?eirp] else []) @ bs) s4 =
        handle_acceptances ?handle bs s5" for bs
      unfolding s5_def by (rule step) (simp only: request_cids accepted_requests)
    show ?thesis
      unfolding parameter_requests_def Let_def assms(1)[symmetric] by (simp only: h1 h2 h3 h4 h5 handle_acceptances.simps)
  qed
  have settled: "rejoin_settled E (ms_ds s5)" "ping_slot_settled E ?B (ms_ds s5)" "rx_param_settled E (ms_ds s5)"
    "ds_RXDelay (ms_ds s5) = word_of_int (cf_rx1Delay f)" "tx_param_settled E ?eirp (ms_ds s5)"
    by (simp_all add: s1_def s2_def s3_def s4_def s5_def assms(1,5) reset_errors_def GetMACVersion_def
        rejoin_settled_def ping_slot_settled_def rx_param_settled_def tx_param_settled_def)
  with handled show ?thesis by (intro exI[of _ s5] conjI)
qed

text \<open>
  C22: requests for parameters settle. When a device accepts what the server requests of it in one downlink, each
  answer handled by the dispatcher with its request as the pending block, its session has the
  configured rejoin parameters, Class-B ping-slot, second receive-window, receive delay and dwell times,
  as far as the device has them, and nothing more is requested. The configured values of one
  byte fit a byte.
\<close>

theorem parameter_requests_settle:
  fixes E :: "('db, 's, 'v) dl_env" and st :: "'d mac_state"
  assumes "f = n_conf E" and "cf_rejoinRequestMaxCountN f \<in> {0..<256}" "cf_rejoinRequestMaxTimeN f \<in> {0..<256}"
    and "cf_classBPingSlotDR f \<in> {0..<256}" and "ms_ds st = dx_DeviceSession c"
  shows "\<exists>bs st' ds'. run_tasks (parameter_tasks E) c = (Inr (), c\<lparr>dx_MACCommands := dx_MACCommands c @ bs\<rparr>) \<and>
    handle_acceptances (\<lambda>block pending. mac_Handle bd T now dp sp block pending rx) bs st = (Inr [], st') \<and> ms_ds st' = ds' \<and>
    (cf_rejoinRequestEnabled f \<and> GetMACVersion ds' \<noteq> LoRaWAN1_0 \<longrightarrow> ds_RejoinRequestEnabled ds' \<and>
       ds_RejoinRequestMaxCountN ds' = cf_rejoinRequestMaxCountN f \<and> ds_RejoinRequestMaxTimeN ds' = cf_rejoinRequestMaxTimeN f) \<and>
    (dp_SupportsClassB (dx_DeviceProfile c) \<longrightarrow>
       ds_PingSlotDR ds' = cf_classBPingSlotDR f \<and> ds_PingSlotFrequency ds' = cf_classBPingSlotFrequency f) \<and>
    ds_RX2Frequency ds' = cf_rx2Frequency f \<and> ds_RX2DR ds' = word_of_int (cf_rx2DR f) \<and>
    ds_RX1DROffset ds' = word_of_int (cf_rx1DROffset f) \<and> ds_RXDelay ds' = word_of_int (cf_rx1Delay f) \<and>
    (bd_ImplementsTXParamSetup (n_DL E) (ds_MACVersion ds') \<longrightarrow>
       ds_UplinkDwellTime400ms ds' = cf_uplinkDwellTime400ms f \<and> ds_DownlinkDwellTime400ms ds' = cf_downlinkDwellTime400ms f) \<and>
    run_tasks (parameter_tasks E) (c\<lparr>dx_DeviceSession := ds'\<rparr>) = (Inr (), c\<lparr>dx_DeviceSession := ds'\<rparr>)"
proof -
  obtain st' where handled: "handle_acceptances (\<lambda>block pending. mac_Handle bd T now dp sp block pending rx) (parameter_requests E c) st = (Inr [], st')"
    and settled: "rejoin_settled E (ms_ds st')" "ping_slot_settled E (dp_SupportsClassB (dx_DeviceProfile c)) (ms_ds st')"
      "rx_param_settled E (ms_ds st')" "ds_RXDelay (ms_ds st') = word_of_int (cf_rx1Delay f)"
      "tx_param_settled E (max_eirp_index E c) (ms_ds st')"
    using accepted_parameters[OF assms, where bd = bd and T = T and now = now and dp = dp and sp = sp and rx = rx] by (elim exE conjE)
  have "parameter_requests E (c\<lparr>dx_DeviceSession := ms_ds st'\<rparr>) = []"
    using settled by (simp add: parameter_requests_def max_eirp_index_def assms(1))
  then have again: "run_tasks (parameter_tasks E) (c\<lparr>dx_DeviceSession := ms_ds st'\<rparr>) = (Inr (), c\<lparr>dx_DeviceSession := ms_ds st'\<rparr>)"
    by (simp add: parameter_blocks)
  note configured = settled[unfolded rejoin_settled_def ping_slot_settled_def rx_param_settled_def tx_param_settled_def, folded assms(1)]
  show ?thesis
    by (rule exI[of _ "parameter_requests E c"], rule exI[of _ st'], rule exI[of _ "ms_ds st'"], intro conjI,
        rule parameter_blocks, rule handled, rule refl) (use configured again in simp_all)
qed

definition settling_env :: "(memory_db, memory, redis_value) dl_env" where
  "settling_env = sample_dl_env\<lparr>n_conf := sample_dl_conf\<lparr>cf_rejoinRequestEnabled := True, cf_rejoinRequestMaxCountN := 5,
     cf_rejoinRequestMaxTimeN := 6, cf_classBPingSlotDR := 3, cf_classBPingSlotFrequency := 868100000\<rparr>\<rparr>"

definition settling_context :: "(memory_db, memory) dl_context" where
  "settling_context = sample_dl_context\<lparr>dx_DeviceProfile := zero_device_profile\<lparr>dp_SupportsClassB := True\<rparr>,
     dx_DeviceSession := device_7\<lparr>ds_MACVersion := ''1.1.0''\<rparr>\<rparr>"

theorem parameter_requests_settle_witness:
  "\<forall>T now dp sp. \<exists>bs ds'. run_tasks (parameter_tasks settling_env) settling_context =
      (Inr (), settling_context\<lparr>dx_MACCommands := bs\<rparr>) \<and>
    (\<exists>st'. handle_acceptances (\<lambda>block pending. mac_Handle sample_band T now dp sp block pending sample_rx_packet) bs
        (sample_mac_state\<lparr>ms_ds := dx_DeviceSession settling_context\<rparr>) = (Inr [], st') \<and> ms_ds st' = ds') \<and>
    ds_RX2Frequency ds' = 869525000 \<and> ds_RXDelay ds' = 1 \<and> ds_PingSlotDR ds' = 3 \<and>
    run_tasks (parameter_tasks settling_env) (settling_context\<lparr>dx_DeviceSession := ds'\<rparr>) =
      (Inr (), settling_context\<lparr>dx_DeviceSession := ds'\<rparr>)"
proof (intro allI)
  fix T now dp sp
  show "\<exists>bs ds'. run_tasks (parameter_tasks settling_env) settling_context =
      (Inr (), settling_context\<lparr>dx_MACCommands := bs\<rparr>) \<and>
    (\<exists>st'. handle_acceptances (\<lambda>block pending. mac_Handle sample_band T now dp sp block pending sample_rx_packet) bs
        (sample_mac_state\<lparr>ms_ds := dx_DeviceSession settling_context\<rparr>) = (Inr [], st') \<and> ms_ds st' = ds') \<and>
    ds_RX2Frequency ds' = 869525000 \<and> ds_RXDelay ds' = 1 \<and> ds_PingSlotDR ds' = 3 \<and>
    run_tasks (parameter_tasks settling_env) (settling_context\<lparr>dx_DeviceSession := ds'\<rparr>) =
      (Inr (), settling_context\<lparr>dx_DeviceSession := ds'\<rparr>)"
    using parameter_requests_settle [OF refl, of settling_env "sample_mac_state\<lparr>ms_ds := dx_DeviceSession settling_context\<rparr>"
        settling_context sample_band T now dp sp sample_rx_packet]
    by (simp add: settling_env_def settling_context_def sample_dl_conf_def sample_dl_context_def sample_mac_state_def) blast
qed

end
