(* ===== verification/DownlinkFrames.thy ===== *)
theory DownlinkFrames
  imports DownlinkCommands
begin

text \<open>
  The frames of a downlink, one for each receive-window (\<open>setPHYPayloads\<close> of
  \<open>internal/downlink/data/data.go\<close>): mac-commands as far as they fit, in the options of the frame
  or as its payload, and the queue item when there is room for it.
\<close>

section \<open>Building a frame\<close>

text \<open>Blocks are taken up to the first one that does not fit.\<close>

fun collect_commands ::
  "(mac_command \<Rightarrow> byte list res) \<Rightarrow> mac_block list \<Rightarrow> int \<Rightarrow> int \<Rightarrow> payload list \<Rightarrow> (int \<times> int \<times> payload list) res" where
  "collect_commands marshal [] remaining macCommandSize out = Inr (remaining, macCommandSize, out)"
| "collect_commands marshal (b # bs) remaining macCommandSize out =
     (case MACCommandBlock_Size marshal b of
        Inl e \<Rightarrow> Inl (Wrap e ''get mac-command block size error'')
      | Inr s \<Rightarrow>
          if remaining - s < 0 then Inr (remaining, macCommandSize, out)
          else collect_commands marshal bs (remaining - s) (macCommandSize + s)
                 (out @ map MACCommandItem (mb_MACCommands b)))"

definition plan_frame :: "('db, 's, 'v) dl_env \<Rightarrow> ('db, 's) dl_context \<Rightarrow> int \<Rightarrow> (phy \<times> int) res" where
  "plan_frame E c remaining =
     (case collect_commands (n_marshal E) (dx_MACCommands c) remaining 0 [] of
        Inl e \<Rightarrow> Inl e
      | Inr (remaining, macCommandSize, macCommands) \<Rightarrow>
          let fctrl = no_fctrl\<lparr>fc_ADR := \<not> cf_disableADR (n_conf E), fc_ACK := dx_ACK c, fc_FPending := dx_More c\<rparr>;
              macPL = \<lparr>mf_DevAddr = ds_DevAddr (dx_DeviceSession c), mf_FCtrl = fctrl,
                mf_FCnt = ds_NFCntDown (dx_DeviceSession c), mf_FOpts = [], mf_FPort = None, mf_FRMPayload = []\<rparr>;
              frame = (\<lambda>mtype pl. \<lparr>phy_MType = mtype, phy_MACPayload = Some (MACFrame pl)\<rparr>)
          in Inr (if macCommandSize > 15
            then (frame UnconfirmedDataDown (macPL\<lparr>mf_FCtrl := fctrl\<lparr>fc_FPending := dx_QueueItem c \<noteq> None\<rparr>,
                    mf_FRMPayload := macCommands, mf_FPort := Some 0\<rparr>), remaining)
            else let macPL = macPL\<lparr>mf_FOpts := macCommands\<rparr> in
              (case dx_QueueItem c of
                 None \<Rightarrow> (frame UnconfirmedDataDown macPL, remaining)
               | Some qi \<Rightarrow>
                   let n = int (length (qi_FRMPayload qi)) in
                   if n \<le> remaining
                   then (frame (if qi_Confirmed qi then ConfirmedDataDown else UnconfirmedDataDown)
                           (macPL\<lparr>mf_FPort := Some (qi_FPort qi), mf_FCnt := qi_FCnt qi,
                              mf_FRMPayload := [DataItem (qi_FRMPayload qi)]\<rparr>), remaining - n)
                   else (frame UnconfirmedDataDown (macPL\<lparr>mf_FCtrl := fctrl\<lparr>fc_FPending := True\<rparr>\<rparr>), remaining))))"

definition fport_of :: "phy \<Rightarrow> byte option" where
  "fport_of p = (case phy_MACPayload p of Some (MACFrame m) \<Rightarrow> mf_FPort m | _ \<Rightarrow> None)"

text \<open>Encryption, message integrity code and encoding are the library's.\<close>

definition seal_frame :: "('db, 's, 'v) dl_env \<Rightarrow> 'a session_scheme \<Rightarrow> phy \<Rightarrow> byte list res" where
  "seal_frame E ds phy =
     (case (if fport_of phy = Some 0 then n_EncryptFRMPayload E (ds_NwkSEncKey ds) phy else Inr phy) of
        Inl e \<Rightarrow> Inl (Wrap e ''encrypt frmpayload error'')
      | Inr phy \<Rightarrow>
         (case (if GetMACVersion ds \<noteq> LoRaWAN1_0 then n_EncryptFOpts E (ds_NwkSEncKey ds) phy else Inr phy) of
            Inl e \<Rightarrow> Inl (Wrap e ''encrypt FOpts error'')
          | Inr phy \<Rightarrow>
             (case n_SetDownlinkDataMIC E (GetMACVersion ds) (ds_FCntUp ds - 1) (ds_SNwkSIntKey ds) phy of
                Inl e \<Rightarrow> Inl (Wrap e ''set MIC error'')
              | Inr mic \<Rightarrow>
                 (case n_MarshalBinary E phy mic of
                    Inl e \<Rightarrow> Inl (Wrap e ''marshal binary error'')
                  | Inr b \<Rightarrow> Inr b))))"

definition window_frame :: "('db, 's, 'v) dl_env \<Rightarrow> ('db, 's) dl_context \<Rightarrow> opportunity \<Rightarrow> opportunity res" where
  "window_frame E c w =
     (case plan_frame E c (op_Remaining w) of
        Inl e \<Rightarrow> Inl e
      | Inr (phy, remaining) \<Rightarrow>
         (case seal_frame E (dx_DeviceSession c) phy of
            Inl e \<Rightarrow> Inl e
          | Inr b \<Rightarrow> Inr \<lparr>op_Item = (op_Item w)\<lparr>di_PhyPayload := b\<rparr>, op_Remaining = remaining\<rparr>))"

fun phy_payloads :: "('db, 's, 'v) dl_env \<Rightarrow> opportunity list \<Rightarrow> opportunity list \<Rightarrow> ('db, 's) dl_task" where
  "phy_payloads E finished [] c = (Inr (), c\<lparr>dx_Items := finished\<rparr>)"
| "phy_payloads E finished (w # ws) c =
     (case window_frame E c w of
        Inl e \<Rightarrow> (Inl e, c\<lparr>dx_Items := finished @ w # ws\<rparr>)
      | Inr w' \<Rightarrow> phy_payloads E (finished @ [w']) ws
          (c\<lparr>dx_Frame := (dx_Frame c)\<lparr>gd_Items := gd_Items (dx_Frame c) @ [op_Item w']\<rparr>\<rparr>))"

definition setPHYPayloads :: "('db, 's, 'v) dl_env \<Rightarrow> ('db, 's) dl_task" where
  "setPHYPayloads E c = phy_payloads E [] (dx_Items c) c"

section \<open>What is in a frame\<close>

definition payload_length :: "(mac_command \<Rightarrow> byte list res) \<Rightarrow> payload \<Rightarrow> int" where
  "payload_length marshal pl =
     (case pl of
        MACCommandItem mc \<Rightarrow> (case marshal mc of Inl _ \<Rightarrow> 0 | Inr bs \<Rightarrow> int (length bs))
      | DataItem bs \<Rightarrow> int (length bs))"

definition payload_lengths :: "(mac_command \<Rightarrow> byte list res) \<Rightarrow> payload list \<Rightarrow> int" where
  "payload_lengths marshal pls = sum_list (map (payload_length marshal) pls)"

lemma payload_lengths_simps [simp]:
  "payload_lengths marshal [] = 0"
  "payload_lengths marshal (pl # pls) = payload_length marshal pl + payload_lengths marshal pls"
  "payload_lengths marshal (pls @ pls') = payload_lengths marshal pls + payload_lengths marshal pls'"
  "payload_length marshal (DataItem bs) = int (length bs)"
  by (simp_all add: payload_lengths_def payload_length_def)

lemma size_loop_lengths:
  "size_loop marshal mcs n = Inr s \<Longrightarrow> s = n + payload_lengths marshal (map MACCommandItem mcs)"
  by (induction marshal mcs n rule: size_loop.induct) (auto simp: payload_length_def split: sum.splits)

lemma payload_lengths_nonneg: "0 \<le> payload_lengths marshal pls"
  by (induction pls) (auto simp: payload_length_def split: payload.splits sum.splits)

definition commands_in :: "mac_block list \<Rightarrow> payload list" where
  "commands_in bs = map MACCommandItem (concat (map mb_MACCommands bs))"

lemma commands_in_simps [simp]:
  "commands_in [] = []" "commands_in (b # bs) = map MACCommandItem (mb_MACCommands b) @ commands_in bs"
  by (simp_all add: commands_in_def)

lemma collect_commands_prefix:
  assumes "collect_commands marshal bs r z out = Inr (r', z', out')" and "0 \<le> r"
  shows "\<exists>n. out' = out @ commands_in (take n bs) \<and> z' = z + payload_lengths marshal (commands_in (take n bs)) \<and>
    r' = r - payload_lengths marshal (commands_in (take n bs)) \<and> 0 \<le> r'"
  using assms
proof (induction bs arbitrary: r z out)
  case Nil
  then show ?case by auto
next
  case (Cons b bs)
  obtain s where s: "MACCommandBlock_Size marshal b = Inr s" using Cons.prems(1) by (auto split: sum.splits)
  then have len: "s = payload_lengths marshal (map MACCommandItem (mb_MACCommands b))"
    using size_loop_lengths[of marshal "mb_MACCommands b" 0 s] by (simp add: MACCommandBlock_Size_def)
  show ?case
  proof (cases "r - s < 0")
    case True
    then show ?thesis using Cons.prems s by (intro exI[of _ 0]) auto
  next
    case False
    obtain n where "out' = (out @ map MACCommandItem (mb_MACCommands b)) @ commands_in (take n bs)"
      "z' = z + s + payload_lengths marshal (commands_in (take n bs))"
      "r' = r - s - payload_lengths marshal (commands_in (take n bs))" "0 \<le> r'"
      using Cons.IH[of "r - s" "z + s" "out @ map MACCommandItem (mb_MACCommands b)"] Cons.prems(1) s False by auto
    then show ?thesis using len by (intro exI[of _ "Suc n"]) auto
  qed
qed

text \<open>A frame of the network: mac-commands in the options, or as the payload of port 0.\<close>

definition network_frame :: "('db, 's) dl_context \<Rightarrow> mtype \<Rightarrow> mac_frame \<Rightarrow> bool" where
  "network_frame c mt m \<longleftrightarrow>
     mt = UnconfirmedDataDown \<and> mf_FCnt m = ds_NFCntDown (dx_DeviceSession c) \<and>
     (mf_FPort m = None \<and> mf_FRMPayload m = [] \<or> mf_FPort m = Some 0 \<and> mf_FOpts m = []) \<and>
     (dx_QueueItem c = None \<or> fc_FPending (mf_FCtrl m))"

text \<open>A frame that carries the queue item.\<close>

definition item_frame :: "('db, 's) dl_context \<Rightarrow> mtype \<Rightarrow> mac_frame \<Rightarrow> bool" where
  "item_frame c mt m \<longleftrightarrow>
     (\<exists>qi. dx_QueueItem c = Some qi \<and> mf_FRMPayload m = [DataItem (qi_FRMPayload qi)] \<and> mf_FPort m = Some (qi_FPort qi) \<and>
        mf_FCnt m = qi_FCnt qi \<and> mt = (if qi_Confirmed qi then ConfirmedDataDown else UnconfirmedDataDown) \<and>
        fc_FPending (mf_FCtrl m) = dx_More c)"

definition commands_of_frame :: "mac_frame \<Rightarrow> payload list" where
  "commands_of_frame m = mf_FOpts m @ filter (\<lambda>pl. case pl of MACCommandItem _ \<Rightarrow> True | DataItem _ \<Rightarrow> False) (mf_FRMPayload m)"

definition good_frame :: "('db, 's, 'v) dl_env \<Rightarrow> ('db, 's) dl_context \<Rightarrow> int \<Rightarrow> phy \<Rightarrow> bool" where
  "good_frame E c room p \<longleftrightarrow>
     (\<exists>m n. phy_MACPayload p = Some (MACFrame m) \<and> mf_DevAddr m = ds_DevAddr (dx_DeviceSession c) \<and>
        payload_lengths (n_marshal E) (mf_FOpts m) \<le> 15 \<and>
        payload_lengths (n_marshal E) (mf_FOpts m) + payload_lengths (n_marshal E) (mf_FRMPayload m) \<le> room \<and>
        commands_of_frame m = commands_in (take n (dx_MACCommands c)) \<and>
        fc_ACK (mf_FCtrl m) = dx_ACK c \<and>
        (network_frame c (phy_MType p) m \<or> item_frame c (phy_MType p) m))"

lemma commands_in_are_commands: "filter (\<lambda>pl. case pl of MACCommandItem _ \<Rightarrow> True | DataItem _ \<Rightarrow> False) (commands_in bs) = commands_in bs"
  by (simp add: commands_in_def filter_id_conv)

lemma plan_frame_good:
  assumes "plan_frame E c room = Inr (p, room')" and "0 \<le> room"
  shows "good_frame E c room p"
proof -
  obtain r z out where col: "collect_commands (n_marshal E) (dx_MACCommands c) room 0 [] = Inr (r, z, out)"
    using assms(1) by (auto simp: plan_frame_def split: sum.splits)
  obtain n where n: "out = commands_in (take n (dx_MACCommands c))" "z = payload_lengths (n_marshal E) out" "r = room - z" "0 \<le> r"
    using collect_commands_prefix[OF col assms(2)] by auto
  let ?m = "\<lparr>mf_DevAddr = ds_DevAddr (dx_DeviceSession c),
      mf_FCtrl = no_fctrl\<lparr>fc_ADR := \<not> cf_disableADR (n_conf E), fc_ACK := dx_ACK c, fc_FPending := dx_More c\<rparr>,
      mf_FCnt = ds_NFCntDown (dx_DeviceSession c), mf_FOpts = [], mf_FPort = None, mf_FRMPayload = []\<rparr>"
  consider "z > 15" | "z \<le> 15" "dx_QueueItem c = None"
    | qi where "z \<le> 15" "dx_QueueItem c = Some qi" "int (length (qi_FRMPayload qi)) \<le> r"
    | qi where "z \<le> 15" "dx_QueueItem c = Some qi" "\<not> int (length (qi_FRMPayload qi)) \<le> r"
    by fastforce
  then show ?thesis
  proof cases
    case 1
    then have "p = \<lparr>phy_MType = UnconfirmedDataDown, phy_MACPayload = Some (MACFrame (?m\<lparr>mf_FCtrl := (mf_FCtrl ?m)
        \<lparr>fc_FPending := dx_QueueItem c \<noteq> None\<rparr>, mf_FRMPayload := out, mf_FPort := Some 0\<rparr>))\<rparr>"
      using assms(1) col by (simp add: plan_frame_def Let_def)
    then show ?thesis using n unfolding good_frame_def
      by (auto simp: network_frame_def commands_of_frame_def commands_in_are_commands intro!: exI[of _ n])
  next
    case 2
    then have "p = \<lparr>phy_MType = UnconfirmedDataDown, phy_MACPayload = Some (MACFrame (?m\<lparr>mf_FOpts := out\<rparr>))\<rparr>"
      using assms(1) col by (simp add: plan_frame_def Let_def)
    then show ?thesis using n 2 unfolding good_frame_def
      by (auto simp: network_frame_def commands_of_frame_def intro!: exI[of _ n])
  next
    case 3
    then have "p = \<lparr>phy_MType = (if qi_Confirmed qi then ConfirmedDataDown else UnconfirmedDataDown), phy_MACPayload = Some (MACFrame
        (?m\<lparr>mf_FOpts := out, mf_FPort := Some (qi_FPort qi), mf_FCnt := qi_FCnt qi, mf_FRMPayload := [DataItem (qi_FRMPayload qi)]\<rparr>))\<rparr>"
      using assms(1) col by (simp add: plan_frame_def Let_def)
    then show ?thesis using n 3 unfolding good_frame_def
      by (auto simp: item_frame_def commands_of_frame_def intro!: exI[of _ n])
  next
    case 4
    then have "p = \<lparr>phy_MType = UnconfirmedDataDown, phy_MACPayload = Some (MACFrame
        (?m\<lparr>mf_FOpts := out, mf_FCtrl := (mf_FCtrl ?m)\<lparr>fc_FPending := True\<rparr>\<rparr>))\<rparr>"
      using assms(1) col by (simp add: plan_frame_def Let_def)
    then show ?thesis using n 4 unfolding good_frame_def
      by (auto simp: network_frame_def commands_of_frame_def intro!: exI[of _ n])
  qed
qed

lemma window_frame_same: "window_frame E (c\<lparr>dx_Frame := f\<rparr>) w = window_frame E c w"
  by (simp add: window_frame_def plan_frame_def Let_def split: sum.split)

lemma phy_payloads_frames:
  assumes "phy_payloads E finished ws c = (Inr (), c')" and "list_all (\<lambda>w. 0 \<le> op_Remaining w) ws"
  shows "\<exists>is. gd_Items (dx_Frame c') = gd_Items (dx_Frame c) @ is \<and>
    list_all2 (\<lambda>w i. \<exists>p. good_frame E c (op_Remaining w) p \<and> di_TxInfo i = di_TxInfo (op_Item w) \<and>
      seal_frame E (dx_DeviceSession c) p = Inr (di_PhyPayload i)) ws is"
  using assms
proof (induction ws arbitrary: finished c)
  case Nil
  then show ?case by auto
next
  case (Cons w ws)
  obtain p r b where w: "plan_frame E c (op_Remaining w) = Inr (p, r)" "seal_frame E (dx_DeviceSession c) p = Inr b"
    "window_frame E c w = Inr \<lparr>op_Item = (op_Item w)\<lparr>di_PhyPayload := b\<rparr>, op_Remaining = r\<rparr>"
    using Cons.prems(1) by (fastforce simp: window_frame_def split: sum.splits)
  let ?i = "(op_Item w)\<lparr>di_PhyPayload := b\<rparr>"
  let ?c = "c\<lparr>dx_Frame := (dx_Frame c)\<lparr>gd_Items := gd_Items (dx_Frame c) @ [?i]\<rparr>\<rparr>"
  have same: "good_frame E ?c = good_frame E c"
    by (simp add: good_frame_def fun_eq_iff network_frame_def item_frame_def)
  have "phy_payloads E (finished @ [\<lparr>op_Item = ?i, op_Remaining = r\<rparr>]) ws ?c = (Inr (), c')"
    using Cons.prems(1) w(3) by simp
  from Cons.IH[OF this] obtain "is" where "is": "gd_Items (dx_Frame c') = gd_Items (dx_Frame ?c) @ is"
    "list_all2 (\<lambda>w i. \<exists>p. good_frame E c (op_Remaining w) p \<and> di_TxInfo i = di_TxInfo (op_Item w) \<and>
      seal_frame E (dx_DeviceSession c) p = Inr (di_PhyPayload i)) ws is"
    using Cons.prems(2) by (auto simp: same)
  have "good_frame E c (op_Remaining w) p" using plan_frame_good[OF w(1)] Cons.prems(2) by simp
  then show ?case using "is" w(2) by (intro exI[of _ "?i # is"]) auto
qed

text \<open>
  C30: downlink frames fit their receive-windows. For every window one frame is built, in the order
  of the windows, and sealed with the keys of the session. Its options take at most 15 bytes,
  options and payload together at most what the data-rate of the window allows, and its
  mac-commands are the first blocks of the list, none of them by half. It carries the queue item,
  with its port, counter and kind and the more-flag of the queue; or it is the network's own, with
  the network counter, unconfirmed, and tells the device when a queue item is left behind.
\<close>

theorem downlink_frames_fit:
  assumes "setPHYPayloads E c = (Inr (), c')" and "list_all (\<lambda>w. 0 \<le> op_Remaining w) (dx_Items c)"
  shows "\<exists>is. gd_Items (dx_Frame c') = gd_Items (dx_Frame c) @ is \<and>
    list_all2 (\<lambda>w i. \<exists>p. good_frame E c (op_Remaining w) p \<and> di_TxInfo i = di_TxInfo (op_Item w) \<and>
      seal_frame E (dx_DeviceSession c) p = Inr (di_PhyPayload i)) (dx_Items c) is"
  using phy_payloads_frames[OF assms(1)[unfolded setPHYPayloads_def] assms(2)] .

text \<open>A queue item of three bytes and two mac-commands, of one and two bytes, in windows of 51 and 4 bytes.\<close>

definition framed_context :: "(memory_db, memory) dl_context" where
  "framed_context = sample_dl_context
     \<lparr>dx_QueueItem := Some sample_item, dx_MACCommands := [sample_block, RequestRXTimingSetup 1],
      dx_Items := map (\<lambda>n. \<lparr>op_Item = \<lparr>di_PhyPayload = [], di_TxInfo = None\<rparr>, op_Remaining = n\<rparr>) [51, 4]\<rparr>"

theorem downlink_frames_fit_witness:
  "\<exists>c'. setPHYPayloads sample_dl_env framed_context = (Inr (), c') \<and>
    map di_PhyPayload (gd_Items (dx_Frame c')) = [[0, 0, 1, 2, 3, 1, 2, 3, 4], [0, 0, 1, 2, 3, 4]] \<and>
    (\<exists>p. good_frame sample_dl_env framed_context 4 p)"
proof -
  have size: "MACCommandBlock_Size sample_marshal sample_block = Inr 1"
    "MACCommandBlock_Size sample_marshal (RequestRXTimingSetup 1) = Inr 2"
    by (simp_all add: MACCommandBlock_Size_def sample_block_def RequestRXTimingSetup_def request_def sample_marshal_def dev_status_req_def)
  have item: "length (qi_FRMPayload sample_item) = 3" "qi_FRMPayload sample_item = [1, 2, 3]" by (simp_all add: sample_item_def)
  have bytes: "sample_payload_bytes (map MACCommandItem (mb_MACCommands sample_block) @
      map MACCommandItem (mb_MACCommands (RequestRXTimingSetup 1))) = [0, 0]"
    by (simp add: sample_payload_bytes_def sample_block_def RequestRXTimingSetup_def request_def)
  have data: "sample_payload_bytes [DataItem bs] = bs" "sample_payload_bytes [] = []" for bs
    by (simp_all add: sample_payload_bytes_def)
  have windows: "\<exists>w. window_frame sample_dl_env framed_context \<lparr>op_Item = \<lparr>di_PhyPayload = [], di_TxInfo = None\<rparr>, op_Remaining = 51\<rparr> = Inr w \<and>
      di_PhyPayload (op_Item w) = [0, 0, 1, 2, 3, 1, 2, 3, 4]"
    "\<exists>w. window_frame sample_dl_env framed_context \<lparr>op_Item = \<lparr>di_PhyPayload = [], di_TxInfo = None\<rparr>, op_Remaining = 4\<rparr> = Inr w \<and>
      di_PhyPayload (op_Item w) = [0, 0, 1, 2, 3, 4]"
    by (simp_all add: window_frame_def framed_context_def plan_frame_def size item seal_frame_def fport_of_def sample_frame_bytes_def
        bytes data Let_def sample_item_def[THEN arg_cong, of qi_FPort])
  have run: "\<exists>c'. setPHYPayloads sample_dl_env framed_context = (Inr (), c') \<and>
    map di_PhyPayload (gd_Items (dx_Frame c')) = [[0, 0, 1, 2, 3, 1, 2, 3, 4], [0, 0, 1, 2, 3, 4]]"
  proof -
    have "dx_Items framed_context = map (\<lambda>n. \<lparr>op_Item = \<lparr>di_PhyPayload = [], di_TxInfo = None\<rparr>, op_Remaining = n\<rparr>) [51, 4]"
      "gd_Items (dx_Frame framed_context) = []" by (simp_all add: framed_context_def empty_frame_def)
    moreover obtain w1 w2 where
      "window_frame sample_dl_env framed_context \<lparr>op_Item = \<lparr>di_PhyPayload = [], di_TxInfo = None\<rparr>, op_Remaining = 51\<rparr> = Inr w1"
      "window_frame sample_dl_env framed_context \<lparr>op_Item = \<lparr>di_PhyPayload = [], di_TxInfo = None\<rparr>, op_Remaining = 4\<rparr> = Inr w2"
      "di_PhyPayload (op_Item w1) = [0, 0, 1, 2, 3, 1, 2, 3, 4]" "di_PhyPayload (op_Item w2) = [0, 0, 1, 2, 3, 4]"
      using windows by blast
    ultimately show ?thesis by (simp add: setPHYPayloads_def window_frame_same)
  qed
  then obtain c' where run': "setPHYPayloads sample_dl_env framed_context = (Inr (), c') \<and>
    map di_PhyPayload (gd_Items (dx_Frame c')) = [[0, 0, 1, 2, 3, 1, 2, 3, 4], [0, 0, 1, 2, 3, 4]]" ..
  note c' = conjunct1[OF run']
  have "list_all (\<lambda>w. 0 \<le> op_Remaining w) (dx_Items framed_context)" by (simp add: framed_context_def)
  note fit = downlink_frames_fit[OF c' this]
  have "dx_Items framed_context = map (\<lambda>n. \<lparr>op_Item = \<lparr>di_PhyPayload = [], di_TxInfo = None\<rparr>, op_Remaining = n\<rparr>) [51, 4]"
    by (simp add: framed_context_def)
  then have "\<exists>p. good_frame sample_dl_env framed_context 4 p"
    using fit by (elim exE conjE) (auto simp: list_all2_Cons1)
  then show ?thesis using run' by (intro exI[of _ c']) simp
qed

end
