(* ===== verification/DownlinkQueue.thy ===== *)
theory DownlinkQueue
  imports Downlink
begin

text \<open>
  The queue item of a downlink (\<open>getNextDeviceQueueItem\<close> of \<open>internal/downlink/data/data.go\<close>). The
  head of the device-queue is taken when it can be sent; else the queue is put in order and tried
  again: an item that has timed out or is too large is dropped and reported, a queue that is not
  at the frame counter of the session is encrypted again by the application-server, and one whose
  ping slot has passed is scheduled anew. Nothing in the code bounds the number of rounds, so the
  loop is a partial function; \<open>queue_rounds_end\<close> says when it ends.
\<close>

section \<open>One round\<close>

definition expected_fcnt :: "'a session_scheme \<Rightarrow> u32" where
  "expected_fcnt ds = (if GetMACVersion ds = LoRaWAN1_0 then ds_NFCntDown ds else ds_AFCntDown ds)"

definition timed_out :: "instant \<Rightarrow> device_queue_item \<Rightarrow> bool" where
  "timed_out now qi \<longleftrightarrow> (case qi_TimeoutAfter qi of None \<Rightarrow> False | Some t \<Rightarrow> t < now)"

definition slot_passed :: "instant \<Rightarrow> device_queue_item \<Rightarrow> bool" where
  "slot_passed now qi \<longleftrightarrow>
     (case qi_EmitAtTimeSinceGPSEpoch qi of None \<Rightarrow> False | Some t \<Rightarrow> t \<le> TimeSinceGPSEpoch now)"

definition sendable_item :: "instant \<Rightarrow> u32 \<Rightarrow> int \<Rightarrow> device_queue_item \<Rightarrow> bool" where
  "sendable_item now fCnt maxPayloadSize qi \<longleftrightarrow>
     qi_FCnt qi = fCnt \<and> \<not> timed_out now qi \<and> int (length (qi_FRMPayload qi)) \<le> maxPayloadSize \<and> \<not> slot_passed now qi"

text \<open>A Class-B item sets the timing of its only window, and the frequency when the session has none.\<close>

definition hand_out :: "('db, 's, 'v) dl_env \<Rightarrow> device_queue_item \<Rightarrow> bool \<Rightarrow> ('db, 's) dl_task" where
  "hand_out E qi moreItems c =
     (let c = c\<lparr>dx_QueueItem := Some qi, dx_More := moreItems\<rparr> in
      case (dx_RXPacket c, qi_EmitAtTimeSinceGPSEpoch qi, dx_Items c) of
        (None, Some emitAt, [w]) \<Rightarrow>
          (case di_TxInfo (op_Item w) of
             None \<Rightarrow> (Inl (Panic ''nil TxInfo''), c)
           | Some txInfo \<Rightarrow>
               let txInfo = txInfo\<lparr>dt_Timing := GPS_EPOCH emitAt\<rparr>;
                   put = (\<lambda>t. c\<lparr>dx_Items := [w\<lparr>op_Item := (op_Item w)\<lparr>di_TxInfo := Some t\<rparr>\<rparr>]\<rparr>)
               in if ds_PingSlotFrequency (dx_DeviceSession c) \<noteq> 0 then (Inr (), put txInfo)
                  else (case bd_GetPingSlotFrequency (n_DL E) (ds_DevAddr (dx_DeviceSession c))
                               (emitAt - go_rem emitAt (128 * second)) of
                          Inl e \<Rightarrow> (Inl (Wrap e ''get ping-slot frequency error''), put txInfo)
                        | Inr freq \<Rightarrow> (Inr (), put (txInfo\<lparr>dt_Frequency := freq\<rparr>))))
      | _ \<Rightarrow> (Inr (), c))"

definition drop_item ::
  "('db, 's, 'v) dl_env \<Rightarrow> device_queue_item \<Rightarrow> (call list \<Rightarrow> unit res) \<Rightarrow> call \<Rightarrow> ('db, 's) dl_task" where
  "drop_item E qi reply report c =
     (case wrapping ''delete device-queue item error'' (on_DB (DeleteDeviceQueueItem (n_Queue E) (qi_ID qi))) c of
        (Inl e, c) \<Rightarrow> (Inl e, c)
      | (Inr _, c) \<Rightarrow>
         (case reply (w_Calls c) of
            Inl e \<Rightarrow> (Inl (Wrap e ''application-server client error''), c)
          | Inr _ \<Rightarrow> (Inr (), call_out report c)))"

definition drop_timed_out :: "('db, 's, 'v) dl_env \<Rightarrow> device_queue_item \<Rightarrow> ('db, 's) dl_task" where
  "drop_timed_out E qi c =
     (let dev = eui64_bytes (ds_DevEUI (dx_DeviceSession c))
      in drop_item E qi (n_HandleDownlinkACK E dev (qi_FCnt qi)) (HandleDownlinkACK dev (qi_FCnt qi) False) c)"

definition drop_too_large :: "('db, 's, 'v) dl_env \<Rightarrow> device_queue_item \<Rightarrow> ('db, 's) dl_task" where
  "drop_too_large E qi c =
     (let dev = eui64_bytes (ds_DevEUI (dx_DeviceSession c))
      in drop_item E qi (n_HandleError E dev (qi_FCnt qi) DEVICE_QUEUE_ITEM_SIZE)
           (HandleError dev (qi_FCnt qi) DEVICE_QUEUE_ITEM_SIZE) c)"

text \<open>A search for a ping slot that does not end is a panic here.\<close>

fun enqueue_items :: "('db, 's, 'v) dl_env \<Rightarrow> device_queue_item list \<Rightarrow> ('db, 's) dl_task" where
  "enqueue_items E [] c = (Inr (), c)"
| "enqueue_items E (qi # qis) c =
     (case CreateDeviceQueueItem (n_Queue E) (n_aes E) (n_marshal_addr E) qi (dx_DeviceProfile c)
             (dx_DeviceSession c) (n_now E) (n_now E) (w_DB c) of
        None \<Rightarrow> (Inl (Panic ''no ping slot''), c)
      | Some (Inl e, db) \<Rightarrow> (Inl (Wrap e ''create device-queue item error''), c\<lparr>w_DB := db\<rparr>)
      | Some (Inr _, db) \<Rightarrow> enqueue_items E qis (c\<lparr>w_DB := db\<rparr>))"

definition reencrypt_request_of :: "device_session \<Rightarrow> u32 \<Rightarrow> device_queue_item list \<Rightarrow> reencrypt_request" where
  "reencrypt_request_of ds fCnt items =
     \<lparr>rq_DevEui = eui64_bytes (ds_DevEUI ds), rq_DevAddr = be_bytes 4 (ds_DevAddr ds), rq_FCntStart = fCnt,
      rq_Items = map (\<lambda>qi. \<lparr>re_FrmPayload = qi_FRMPayload qi, re_FCnt = qi_FCnt qi, re_FPort = ucast (qi_FPort qi),
        re_Confirmed = qi_Confirmed qi\<rparr>) items\<rparr>"

definition reencrypted_item :: "device_session \<Rightarrow> reencrypt_item \<Rightarrow> device_queue_item" where
  "reencrypted_item ds i =
     \<lparr>qi_ID = 0, qi_CreatedAt = zero_time, qi_UpdatedAt = zero_time, qi_DevAddr = ds_DevAddr ds, qi_DevEUI = ds_DevEUI ds,
      qi_FRMPayload = re_FrmPayload i, qi_FCnt = re_FCnt i, qi_FPort = ucast (re_FPort i), qi_Confirmed = re_Confirmed i,
      qi_IsPending = False, qi_EmitAtTimeSinceGPSEpoch = None, qi_TimeoutAfter = None, qi_RetryAfter = None\<rparr>"

definition reencrypt_queue :: "('db, 's, 'v) dl_env \<Rightarrow> u32 \<Rightarrow> ('db, 's) dl_task" where
  "reencrypt_queue E fCnt c =
     (let ds = dx_DeviceSession c in
      case GetDeviceQueueItemsForDevEUI (n_Queue E) (ds_DevEUI ds) (w_DB c) of
        Inl e \<Rightarrow> (Inl (Wrap e ''get device-queue items error''), c)
      | Inr items \<Rightarrow>
          let req = reencrypt_request_of ds fCnt items in
          (case n_ReEncrypt E req (w_Calls c) of
             Inl e \<Rightarrow> (Inl (Wrap e ''application-server client error''), c)
           | Inr resp \<Rightarrow>
              (case wrapping ''flush device-queue error'' (on_DB (FlushDeviceQueueForDevEUI (n_Queue E) (ds_DevEUI ds)))
                      (call_out (ReEncryptDeviceQueueItems req) c) of
                 (Inl e, c) \<Rightarrow> (Inl e, c)
               | (Inr _, c) \<Rightarrow> enqueue_items E (map (reencrypted_item ds) resp) c)))"

definition unscheduled :: "device_queue_item \<Rightarrow> device_queue_item" where
  "unscheduled qi = qi\<lparr>qi_ID := 0, qi_IsPending := False, qi_EmitAtTimeSinceGPSEpoch := None,
     qi_TimeoutAfter := None, qi_RetryAfter := None\<rparr>"

definition reschedule_queue :: "('db, 's, 'v) dl_env \<Rightarrow> ('db, 's) dl_task" where
  "reschedule_queue E c =
     (let dev = ds_DevEUI (dx_DeviceSession c) in
      case GetDeviceQueueItemsForDevEUI (n_Queue E) dev (w_DB c) of
        Inl e \<Rightarrow> (Inl (Wrap e ''get device-queue items error''), c)
      | Inr items \<Rightarrow>
         (case wrapping ''flush device-queue error'' (on_DB (FlushDeviceQueueForDevEUI (n_Queue E) dev)) c of
            (Inl e, c) \<Rightarrow> (Inl e, c)
          | (Inr _, c) \<Rightarrow> enqueue_items E (map unscheduled items) c))"

text \<open>The scheduler's flow runs in a transaction already.\<close>

definition in_transaction :: "('db, 's, 'v) dl_env \<Rightarrow> ('db, 's) dl_task \<Rightarrow> ('db, 's) dl_task" where
  "in_transaction E t c = (if dx_InTransaction c then t c else Transaction (n_Session E) t c)"

text \<open>What is done about an item that cannot be sent, the first reason that applies.\<close>

definition repair_queue :: "('db, 's, 'v) dl_env \<Rightarrow> u32 \<Rightarrow> int \<Rightarrow> device_queue_item \<Rightarrow> ('db, 's) dl_task" where
  "repair_queue E fCnt maxPayloadSize qi c =
     (case GetASClientForRoutingProfileID (n_RoutingProfiles E) (n_pool E) (ds_RoutingProfileID (dx_DeviceSession c)) (w_DB c) of
        Inl e \<Rightarrow> (Inl e, c)
      | Inr _ \<Rightarrow>
          if timed_out (n_now E) qi then drop_timed_out E qi c
          else if int (length (qi_FRMPayload qi)) > maxPayloadSize then drop_too_large E qi c
          else if qi_FCnt qi \<noteq> fCnt then in_transaction E (reencrypt_queue E fCnt) c
          else if slot_passed (n_now E) qi then in_transaction E (reschedule_queue E) c
          else (Inr (), c))"

fun error_cause :: "error \<Rightarrow> error" where
  "error_cause (Wrap e _) = error_cause e"
| "error_cause e = e"

text \<open>A round answers whether the loop is left.\<close>

definition queue_round ::
  "('db, 's, 'v) dl_env \<Rightarrow> u32 \<Rightarrow> int \<Rightarrow> ('db, 's) dl_context \<Rightarrow> bool res \<times> ('db, 's) dl_context" where
  "queue_round E fCnt maxPayloadSize c =
     (case GetNextDeviceQueueItemForDevEUI (n_Queue E) (ds_DevEUI (dx_DeviceSession c)) (n_now E) (w_DB c) of
        Inl e \<Rightarrow> (if error_cause e = ErrDoesNotExist then Inr True else Inl (Wrap e ''get next device-queue item error''), c)
      | Inr (qi, moreItems) \<Rightarrow>
          if sendable_item (n_now E) fCnt maxPayloadSize qi
          then (case hand_out E qi moreItems c of (Inl e, c) \<Rightarrow> (Inl e, c) | (Inr _, c) \<Rightarrow> (Inr True, c))
          else (case repair_queue E fCnt maxPayloadSize qi c of (Inl e, c) \<Rightarrow> (Inl e, c) | (Inr _, c) \<Rightarrow> (Inr False, c)))"

partial_function (option) queue_rounds ::
  "('db, 's, 'v) dl_env \<Rightarrow> u32 \<Rightarrow> int \<Rightarrow> ('db, 's) dl_context \<Rightarrow> (unit res \<times> ('db, 's) dl_context) option" where
  "queue_rounds E fCnt maxPayloadSize c =
     (case queue_round E fCnt maxPayloadSize c of
        (Inl e, c) \<Rightarrow> Some (Inl e, c)
      | (Inr finished, c) \<Rightarrow> if finished then Some (Inr (), c) else queue_rounds E fCnt maxPayloadSize c)"

declare queue_rounds.simps [code]

text \<open>A flow needs a result, so rounds without an end are a panic in it.\<close>

definition getNextDeviceQueueItem :: "('db, 's, 'v) dl_env \<Rightarrow> ('db, 's) dl_task" where
  "getNextDeviceQueueItem E c =
     (case dx_Items c of
        [] \<Rightarrow> (Inl (Errorf ''DownlinkFrameItems is 0''), c)
      | w # _ \<Rightarrow>
         (case queue_rounds E (expected_fcnt (dx_DeviceSession c)) (op_Remaining w) c of
            None \<Rightarrow> (Inl (Panic ''queue rounds without end''), c)
          | Some r \<Rightarrow> r))"

section \<open>What a round changes\<close>

definition same_but_db :: "('db, 's) dl_context \<Rightarrow> ('db, 's) dl_context \<Rightarrow> bool" where
  "same_but_db c c' \<longleftrightarrow> (\<exists>db cs. c' = c\<lparr>w_DB := db, w_Calls := cs\<rparr>)"

lemma same_but_db_refl [simp]: "same_but_db c c"
  by (auto simp: same_but_db_def intro!: exI[of _ "w_DB c"] exI[of _ "w_Calls c"])

lemma same_but_db_update [simp]: "same_but_db c (c\<lparr>w_DB := db\<rparr>)"
  by (auto simp: same_but_db_def intro!: exI[of _ db] exI[of _ "w_Calls c"])

lemma same_but_db_call [simp]: "same_but_db c (call_out x c)"
  by (auto simp: same_but_db_def call_out_def intro!: exI[of _ "w_DB c"] exI[of _ "w_Calls c @ [x]"])

lemma same_but_db_trans: "same_but_db a b \<Longrightarrow> same_but_db b c \<Longrightarrow> same_but_db a c"
  by (auto simp: same_but_db_def) (metis dl_context.surjective world.update_convs)

lemma same_but_db_fields:
  assumes "same_but_db c c'"
  shows "dx_DeviceSession c' = dx_DeviceSession c" "dx_DeviceProfile c' = dx_DeviceProfile c"
    "dx_InTransaction c' = dx_InTransaction c" "dx_QueueItem c' = dx_QueueItem c" "dx_Items c' = dx_Items c"
    "dx_RXPacket c' = dx_RXPacket c" "w_Redis c' = w_Redis c"
  using assms by (auto simp: same_but_db_def)

definition device_queue :: "('db \<Rightarrow> device_queue_item multiset) \<Rightarrow> ('db, 's) dl_context \<Rightarrow> device_queue_item multiset" where
  "device_queue rows c = {#r \<in># rows (w_DB c). qi_DevEUI r = ds_DevEUI (dx_DeviceSession c)#}"

text \<open>The device is not in Class-B: an item is queued without a ping slot.\<close>

definition class_a :: "('db, 's) dl_context \<Rightarrow> bool" where
  "class_a c \<longleftrightarrow> \<not> (dp_SupportsClassB (dx_DeviceProfile c) \<and> ds_BeaconLocked (dx_DeviceSession c))"

text \<open>The item that was found: the next one of the device, it can be sent, and the context carries it.\<close>

definition handed_out ::
  "('db, 's, 'v) dl_env \<Rightarrow> ('db \<Rightarrow> device_queue_item multiset) \<Rightarrow> u32 \<Rightarrow> int \<Rightarrow> device_queue_item \<Rightarrow> bool \<Rightarrow>
   ('db, 's) dl_context \<Rightarrow> ('db, 's) dl_context \<Rightarrow> bool" where
  "handed_out E rows fCnt maxPayloadSize qi moreItems c c' \<longleftrightarrow>
     qi \<in># device_queue rows c \<and> \<not> in_flight (n_now E) qi \<and> sendable_item (n_now E) fCnt maxPayloadSize qi \<and>
     (moreItems \<longleftrightarrow> size (device_queue rows c) > 1) \<and> hand_out E qi moreItems c = (Inr (), c')"

text \<open>A queue at the counter: its least item has it.\<close>

definition at_counter :: "u32 \<Rightarrow> device_queue_item multiset \<Rightarrow> bool" where
  "at_counter fCnt N \<longleftrightarrow> (\<exists>r \<in># N. qi_FCnt r = fCnt) \<and> (\<forall>r \<in># N. fCnt \<le> qi_FCnt r)"

text \<open>What the rounds make smaller: the items, then how far the queue is from being in order.\<close>

definition disorder :: "u32 \<Rightarrow> device_queue_item multiset \<Rightarrow> nat" where
  "disorder fCnt N =
     (if N = {#} then 0 else if \<not> at_counter fCnt N then 2
      else if \<exists>r \<in># N. qi_EmitAtTimeSinceGPSEpoch r \<noteq> None then 1 else 0)"

definition weight :: "u32 \<Rightarrow> device_queue_item multiset \<Rightarrow> nat" where
  "weight fCnt N = 3 * size N + disorder fCnt N"

lemma weight_in_order:
  assumes "N' = {#} \<or> at_counter fCnt N'" and "\<forall>r \<in># N'. qi_EmitAtTimeSinceGPSEpoch r = None"
  shows "weight fCnt N' = 3 * size N'"
  using assms by (auto simp: weight_def disorder_def)

lemma weight_bounds: "3 * size N \<le> weight fCnt N" "weight fCnt N \<le> 3 * size N + 2"
  by (auto simp: weight_def disorder_def)

text \<open>
  What the loop relies on: the queue table and its transactions, and an application-server that
  answers at most the items it was asked for, numbered from the counter it was given.
\<close>

locale downlink_queue =
  queue_db "n_Queue E" rows columns keyed + sql_transactions "n_Queue E" rows columns keyed "n_Session E" base
  for E :: "('db, 's, 'v) dl_env" and rows columns keyed base +
  assumes reencrypts: "n_ReEncrypt E q cs = Inr is \<Longrightarrow>
    length is \<le> length (rq_Items q) \<and> (\<forall>i < length is. re_FCnt (is ! i) = rq_FCntStart q + of_nat i)"
begin

abbreviation queue_of_device :: "('db, 's) dl_context \<Rightarrow> device_queue_item multiset" where
  "queue_of_device \<equiv> device_queue rows"

lemma enqueue_rows:
  assumes "enqueue_items E qis c = (Inr (), c')" and "class_a c"
  shows "same_but_db c c' \<and>
    (\<exists>N. rows (w_DB c') = rows (w_DB c) + N \<and> image_mset qi_columns N = image_mset qi_columns (mset qis))"
  using assms
proof (induction qis arbitrary: c)
  case Nil
  then show ?case by auto
next
  case (Cons qi qis)
  define qi1 where "qi1 = qi\<lparr>qi_CreatedAt := n_now E, qi_UpdatedAt := n_now E\<rparr>"
  obtain x db where ins: "sqlx_Insert (n_Queue E) qi1 (w_DB c) = (x, db)" by fastforce
  have valid: "Validate qi = Inr ()" using Cons.prems(1) by (auto simp: CreateDeviceQueueItem_def split: sum.splits)
  have create: "CreateDeviceQueueItem (n_Queue E) (n_aes E) (n_marshal_addr E) qi (dx_DeviceProfile c) (dx_DeviceSession c)
      (n_now E) (n_now E) (w_DB c) = Some (case x of Inl e \<Rightarrow> Inl e | Inr r \<Rightarrow> Inr (qi1\<lparr>qi_ID := qi_ID r\<rparr>), db)"
    using valid ins Cons.prems(2)
    by (auto simp: CreateDeviceQueueItem_def schedule_class_b_def class_a_def qi1_def split: sum.splits)
  then obtain r where x: "x = Inr r" using Cons.prems(1) by (cases x) auto
  have rest: "enqueue_items E qis (c\<lparr>w_DB := db\<rparr>) = (Inr (), c')" "class_a (c\<lparr>w_DB := db\<rparr>)"
    using Cons.prems create x by (auto simp: class_a_def)
  obtain N where N: "rows (w_DB c') = rows db + N" "image_mset qi_columns N = image_mset qi_columns (mset qis)"
    "same_but_db (c\<lparr>w_DB := db\<rparr>) c'"
    using Cons.IH[OF rest] by auto
  have "rows db = add_mset r (rows (w_DB c))" "qi_columns r = qi_columns qi"
    using inserted_item[OF ins[unfolded x]] by (simp_all add: qi1_def)
  then show ?case using N same_but_db_trans[OF same_but_db_update N(3)]
    by (intro conjI exI[of _ "add_mset r N"]) auto
qed

lemma replaced_queue:
  assumes "wrapping what (on_DB (FlushDeviceQueueForDevEUI (n_Queue E) (ds_DevEUI (dx_DeviceSession c)))) c1 = (Inr (), c2)"
    and "same_but_db c c1" and "w_DB c1 = w_DB c" and "enqueue_items E qis c2 = (Inr (), c')" and "class_a c"
    and "\<forall>qi \<in> set qis. qi_DevEUI qi = ds_DevEUI (dx_DeviceSession c)"
  shows "same_but_db c c' \<and> image_mset qi_columns (queue_of_device c') = image_mset qi_columns (mset qis)"
proof -
  let ?dev = "ds_DevEUI (dx_DeviceSession c)"
  obtain db where db: "FlushDeviceQueueForDevEUI (n_Queue E) ?dev (w_DB c) = (Inr (), db)" "c2 = c1\<lparr>w_DB := db\<rparr>"
    using assms(1,3) by (auto simp: wrapping_ok on_DB_ok)
  then have rows: "rows db = {#r \<in># rows (w_DB c). \<not> qi_DevEUI r = ?dev#}"
    using deleted_any by (auto simp: FlushDeviceQueueForDevEUI_def)
  have c2: "same_but_db c c2" using same_but_db_trans[OF assms(2) same_but_db_update] db(2) by simp
  then have "class_a c2" using assms(5) by (auto simp: class_a_def dest: same_but_db_fields)
  from enqueue_rows[OF assms(4) this] obtain N where N: "same_but_db c2 c'" "rows (w_DB c') = rows db + N"
    "image_mset qi_columns N = image_mset qi_columns (mset qis)" using db(2) by auto
  have c': "same_but_db c c'" using same_but_db_trans[OF c2 N(1)] .
  have dev: "qi_DevEUI r = ?dev" if "r \<in># N" for r
  proof -
    have "qi_columns r \<in># image_mset qi_columns N" using that by simp
    then obtain qi where "qi \<in> set qis" "qi_columns r = qi_columns qi" unfolding N(3) by auto
    then show ?thesis using assms(6) by (auto simp: qi_columns_def)
  qed
  have "queue_of_device c' = N"
  proof -
    have "{#r \<in># {#r \<in># rows (w_DB c). qi_DevEUI r \<noteq> ?dev#}. qi_DevEUI r = ?dev#} = {#}"
      by (auto simp: multiset_eq_iff)
    moreover have "{#r \<in># N. qi_DevEUI r = ?dev#} = N" using dev by (simp add: filter_mset_eq_conv)
    ultimately show ?thesis using same_but_db_fields(1)[OF c'] by (simp add: device_queue_def N(2) rows)
  qed
  then show ?thesis using c' N(3) by simp
qed

lemma queue_items:
  assumes "GetDeviceQueueItemsForDevEUI (n_Queue E) (ds_DevEUI (dx_DeviceSession c)) (w_DB c) = Inr items"
  shows "mset items = queue_of_device c"
proof -
  obtain rs where "mset rs = rows (w_DB c)" "items = sort_key qi_FCnt (items_of (ds_DevEUI (dx_DeviceSession c)) rs)"
    using select_rows[OF assms[unfolded GetDeviceQueueItemsForDevEUI_def]] by auto
  then show ?thesis by (simp add: device_queue_def items_of_def mset_filter)
qed

lemma columns_in_order:
  assumes "image_mset qi_columns N = image_mset qi_columns (mset qis)"
  shows "size N = length qis"
    and "\<forall>qi \<in> set qis. qi_EmitAtTimeSinceGPSEpoch qi = None \<Longrightarrow> \<forall>r \<in># N. qi_EmitAtTimeSinceGPSEpoch r = None"
    and "at_counter fCnt (mset qis) \<Longrightarrow> at_counter fCnt N"
proof -
  show "size N = length qis" using arg_cong[OF assms, of size] by simp
  have sets: "qi_columns ` set_mset N = qi_columns ` set qis" using arg_cong[OF assms, of set_mset] by simp
  have there: "\<exists>qi \<in> set qis. qi_columns qi = qi_columns r" if "r \<in># N" for r
  proof -
    have "qi_columns r \<in> qi_columns ` set qis" using that sets[symmetric] by simp
    then show ?thesis by (simp add: image_iff eq_commute)
  qed
  have here: "\<exists>r \<in># N. qi_columns r = qi_columns qi" if "qi \<in> set qis" for qi
  proof -
    have "qi_columns qi \<in> qi_columns ` set_mset N" using that sets by simp
    then show ?thesis by (simp add: image_iff eq_commute)
  qed
  show "\<forall>r \<in># N. qi_EmitAtTimeSinceGPSEpoch r = None" if "\<forall>qi \<in> set qis. qi_EmitAtTimeSinceGPSEpoch qi = None"
  proof
    fix r assume "r \<in># N"
    then obtain qi where "qi \<in> set qis" "qi_columns qi = qi_columns r" using there by blast
    then show "qi_EmitAtTimeSinceGPSEpoch r = None" using that by (auto simp: qi_columns_def)
  qed
  show "at_counter fCnt N" if at: "at_counter fCnt (mset qis)"
  proof -
    obtain qi where "qi \<in> set qis" "qi_FCnt qi = fCnt" using at by (auto simp: at_counter_def)
    then have "\<exists>r \<in># N. qi_FCnt r = fCnt" using here[of qi] by (auto simp: qi_columns_def)
    moreover have "fCnt \<le> qi_FCnt r" if "r \<in># N" for r
    proof -
      from there[OF that] obtain qi where "qi \<in> set qis" "qi_columns qi = qi_columns r" by blast
      then show ?thesis using at by (auto simp: at_counter_def qi_columns_def)
    qed
    ultimately show ?thesis by (simp add: at_counter_def)
  qed
qed

lemma reencrypted_queue:
  assumes "reencrypt_queue E fCnt c = (Inr (), c')" and "class_a c"
    and "unat fCnt + size (queue_of_device c) < 2 ^ 32"
  shows "same_but_db c c' \<and> size (queue_of_device c') \<le> size (queue_of_device c) \<and>
    weight fCnt (queue_of_device c') = 3 * size (queue_of_device c')"
proof -
  let ?ds = "dx_DeviceSession c"
  obtain items where items: "GetDeviceQueueItemsForDevEUI (n_Queue E) (ds_DevEUI ?ds) (w_DB c) = Inr items"
    using assms(1) by (auto simp: reencrypt_queue_def Let_def split: sum.splits)
  let ?req = "reencrypt_request_of ?ds fCnt items"
  obtain resp where resp: "n_ReEncrypt E ?req (w_Calls c) = Inr resp"
    using assms(1) items by (auto simp: reencrypt_queue_def Let_def split: sum.splits)
  let ?c1 = "call_out (ReEncryptDeviceQueueItems ?req) c"
  obtain c2 where c2: "wrapping ''flush device-queue error'' (on_DB (FlushDeviceQueueForDevEUI (n_Queue E) (ds_DevEUI ?ds))) ?c1 = (Inr (), c2)"
    "enqueue_items E (map (reencrypted_item ?ds) resp) c2 = (Inr (), c')"
    using assms(1) items resp by (auto simp: reencrypt_queue_def Let_def split: prod.splits sum.splits)
  have new: "same_but_db c c'" "image_mset qi_columns (queue_of_device c') = image_mset qi_columns (mset (map (reencrypted_item ?ds) resp))"
    using replaced_queue[OF c2(1) _ _ c2(2) assms(2)] by (simp_all add: reencrypted_item_def)
  have len: "length resp \<le> size (queue_of_device c)"
    and fcnt: "\<And>i. i < length resp \<Longrightarrow> re_FCnt (resp ! i) = fCnt + of_nat i"
    using reencrypts[OF resp] queue_items[OF items] by (auto simp: reencrypt_request_of_def simp flip: size_mset)
  have le: "fCnt \<le> fCnt + of_nat i" if "i < length resp" for i
    using that len assms(3) by (simp add: word_le_nat_alt unat_word_ariths unat_of_nat)
  have "at_counter fCnt (mset (map (reencrypted_item ?ds) resp))" if "resp \<noteq> []"
  proof -
    have "resp ! 0 \<in> set resp" "re_FCnt (resp ! 0) = fCnt" using that fcnt[of 0] by auto
    moreover have "fCnt \<le> re_FCnt i" if "i \<in> set resp" for i
      using that fcnt le by (auto simp: in_set_conv_nth)
    ultimately show ?thesis by (auto simp: at_counter_def reencrypted_item_def)
  qed
  then have "queue_of_device c' = {#} \<or> at_counter fCnt (queue_of_device c')"
    using columns_in_order(1,3)[OF new(2)] by (cases "resp = []") auto
  moreover have "\<forall>r \<in># queue_of_device c'. qi_EmitAtTimeSinceGPSEpoch r = None"
    by (rule columns_in_order(2)[OF new(2)]) (auto simp: reencrypted_item_def)
  ultimately show ?thesis using new(1) columns_in_order(1)[OF new(2)] len by (auto simp: weight_in_order)
qed

lemma rescheduled_queue:
  assumes "reschedule_queue E c = (Inr (), c')" and "class_a c" and "at_counter fCnt (queue_of_device c)"
  shows "same_but_db c c' \<and> size (queue_of_device c') = size (queue_of_device c) \<and>
    weight fCnt (queue_of_device c') = 3 * size (queue_of_device c')"
proof -
  let ?ds = "dx_DeviceSession c"
  obtain items where items: "GetDeviceQueueItemsForDevEUI (n_Queue E) (ds_DevEUI ?ds) (w_DB c) = Inr items"
    using assms(1) by (auto simp: reschedule_queue_def Let_def split: sum.splits)
  obtain c2 where c2: "wrapping ''flush device-queue error'' (on_DB (FlushDeviceQueueForDevEUI (n_Queue E) (ds_DevEUI ?ds))) c = (Inr (), c2)"
    "enqueue_items E (map unscheduled items) c2 = (Inr (), c')"
    using assms(1) items by (auto simp: reschedule_queue_def Let_def split: prod.splits sum.splits)
  have dev: "\<forall>qi \<in> set items. qi_DevEUI qi = ds_DevEUI ?ds"
    using arg_cong[OF queue_items[OF items], of set_mset] by (auto simp: device_queue_def)
  have new: "same_but_db c c'" "image_mset qi_columns (queue_of_device c') = image_mset qi_columns (mset (map unscheduled items))"
    using replaced_queue[OF c2(1) _ _ c2(2) assms(2)] dev by (simp_all add: unscheduled_def)
  have "at_counter fCnt (mset (map unscheduled items))"
    using assms(3) queue_items[OF items] by (auto simp: at_counter_def unscheduled_def simp flip: set_mset_mset)
  then have "at_counter fCnt (queue_of_device c')" using columns_in_order(3)[OF new(2)] by simp
  moreover have "\<forall>r \<in># queue_of_device c'. qi_EmitAtTimeSinceGPSEpoch r = None"
    by (rule columns_in_order(2)[OF new(2)]) (auto simp: unscheduled_def)
  ultimately show ?thesis using new(1) columns_in_order(1)[OF new(2)] arg_cong[OF queue_items[OF items], of size]
    by (auto simp: weight_in_order)
qed

lemma in_transaction_ok:
  assumes "in_transaction E t c = (Inr (), c')"
  obtains c1 c2 where "t c1 = (Inr (), c2)" "same_but_db c c1" "same_but_db c2 c'"
    "rows (w_DB c1) = rows (w_DB c)" "rows (w_DB c') = rows (w_DB c2)"
proof (cases "dx_InTransaction c")
  case True
  then show ?thesis using assms that[of c c'] by (simp add: in_transaction_def)
next
  case False
  then obtain c1 c2 where t: "on_DB (sx_Begin (n_Session E)) c = (Inr (), c1)" "t c1 = (Inr (), c2)"
    "on_DB (sx_Commit (n_Session E)) c2 = (Inr (), c')"
    using assms by (auto simp: in_transaction_def Transaction_ok)
  obtain db1 db2 where "c1 = c\<lparr>w_DB := db1\<rparr>" "sx_Begin (n_Session E) (w_DB c) = (Inr (), db1)"
    "c' = c2\<lparr>w_DB := db2\<rparr>" "sx_Commit (n_Session E) (w_DB c2) = (Inr (), db2)"
    using t(1,3) by (auto simp: on_DB_ok)
  then show ?thesis using that[OF t(2)] begin_ok[of "w_DB c" "()" db1] commit_ok[of "w_DB c2" "()" db2] by simp
qed

lemma dropped_item:
  assumes "drop_item E qi reply report c = (Inr (), c')" and "qi \<in># queue_of_device c"
  shows "same_but_db c c' \<and> size (queue_of_device c') < size (queue_of_device c)"
proof -
  obtain db where db: "DeleteDeviceQueueItem (n_Queue E) (qi_ID qi) (w_DB c) = (Inr (), db)" "c' = call_out report (c\<lparr>w_DB := db\<rparr>)"
  proof -
    obtain r db where "DeleteDeviceQueueItem (n_Queue E) (qi_ID qi) (w_DB c) = (r, db)" by fastforce
    then show ?thesis using that assms(1) by (cases r) (auto simp: drop_item_def wrapping_def on_DB_def split: sum.splits)
  qed
  then have rows: "rows db = {#r \<in># rows (w_DB c). qi_ID r \<noteq> qi_ID qi#}"
    using deleted by (auto simp: DeleteDeviceQueueItem_def)
  have same: "same_but_db c c'" using db(2) same_but_db_trans[OF same_but_db_update same_but_db_call] by simp
  have "queue_of_device c' = {#r \<in># queue_of_device c. qi_ID r \<noteq> qi_ID qi#}"
    using db(2) rows by (simp add: device_queue_def call_out_def filter_filter_mset conj_commute)
  moreover have "size {#r \<in># queue_of_device c. qi_ID r \<noteq> qi_ID qi#} < size (queue_of_device c)"
  proof -
    have "{#r \<in># queue_of_device c. qi_ID r \<noteq> qi_ID qi#} \<subset># queue_of_device c"
      using assms(2) by (auto intro!: subset_mset.le_neq_trans multiset_filter_subset simp: filter_mset_eq_conv)
    then show ?thesis by (rule mset_subset_size)
  qed
  ultimately show ?thesis using same by simp
qed

lemma same_queue:
  assumes "same_but_db c c'" and "rows (w_DB c') = rows (w_DB c)"
  shows "queue_of_device c' = queue_of_device c" "class_a c' = class_a c"
  using assms same_but_db_fields[OF assms(1)] by (simp_all add: device_queue_def class_a_def)

lemma next_of_queue:
  assumes "GetNextDeviceQueueItemForDevEUI (n_Queue E) (ds_DevEUI (dx_DeviceSession c)) (n_now E) (w_DB c) = Inr (qi, moreItems)"
  shows "qi \<in># queue_of_device c" "\<not> in_flight (n_now E) qi" "\<forall>r \<in># queue_of_device c. qi_FCnt qi \<le> qi_FCnt r"
    "moreItems \<longleftrightarrow> size (queue_of_device c) > 1"
  using next_item[of "ds_DevEUI (dx_DeviceSession c)" "n_now E" "w_DB c"] assms by (auto simp: device_queue_def)

lemma repaired_queue:
  assumes ok: "repair_queue E fCnt m qi c = (Inr (), c')" and qi: "qi \<in># queue_of_device c"
    and least: "\<forall>r \<in># queue_of_device c. qi_FCnt qi \<le> qi_FCnt r" and bad: "\<not> sendable_item (n_now E) fCnt m qi"
    and a: "class_a c" and room: "unat fCnt + size (queue_of_device c) < 2 ^ 32"
  shows "same_but_db c c' \<and> size (queue_of_device c') \<le> size (queue_of_device c) \<and>
    weight fCnt (queue_of_device c') < weight fCnt (queue_of_device c)"
proof -
  let ?N = "queue_of_device c"
  have steps: "drop_timed_out E qi c = (Inr (), c') \<or> drop_too_large E qi c = (Inr (), c') \<or>
      qi_FCnt qi \<noteq> fCnt \<and> in_transaction E (reencrypt_queue E fCnt) c = (Inr (), c') \<or>
      qi_FCnt qi = fCnt \<and> slot_passed (n_now E) qi \<and> in_transaction E (reschedule_queue E) c = (Inr (), c')"
    using ok bad by (auto simp: repair_queue_def sendable_item_def split: sum.splits if_splits)
  consider "drop_timed_out E qi c = (Inr (), c') \<or> drop_too_large E qi c = (Inr (), c')"
    | "qi_FCnt qi \<noteq> fCnt" "in_transaction E (reencrypt_queue E fCnt) c = (Inr (), c')"
    | "qi_FCnt qi = fCnt" "slot_passed (n_now E) qi" "in_transaction E (reschedule_queue E) c = (Inr (), c')"
    using steps by blast
  then show ?thesis
  proof cases
    case 1
    then have "same_but_db c c' \<and> size (queue_of_device c') < size ?N"
      using dropped_item[OF _ qi] by (auto simp: drop_timed_out_def drop_too_large_def Let_def)
    then show ?thesis using weight_bounds(2)[of fCnt "queue_of_device c'"] weight_bounds(1)[of ?N fCnt] by auto
  next
    case 2
    obtain c1 c2 where t: "reencrypt_queue E fCnt c1 = (Inr (), c2)" "same_but_db c c1" "same_but_db c2 c'"
      "rows (w_DB c1) = rows (w_DB c)" "rows (w_DB c') = rows (w_DB c2)"
      using in_transaction_ok[OF 2(2)] .
    note q1 = same_queue[OF t(2,4)] and q2 = same_queue(1)[OF t(3,5)]
    have "same_but_db c1 c2 \<and> size (queue_of_device c2) \<le> size ?N \<and> weight fCnt (queue_of_device c2) = 3 * size (queue_of_device c2)"
      using reencrypted_queue[OF t(1)] q1 a room by simp
    moreover have "weight fCnt ?N = 3 * size ?N + 2"
      using 2(1) qi least by (auto simp: weight_def disorder_def at_counter_def dest: antisym)
    ultimately show ?thesis using q2 same_but_db_trans[OF t(2)] same_but_db_trans[OF _ t(3)] by auto
  next
    case 3
    obtain c1 c2 where t: "reschedule_queue E c1 = (Inr (), c2)" "same_but_db c c1" "same_but_db c2 c'"
      "rows (w_DB c1) = rows (w_DB c)" "rows (w_DB c') = rows (w_DB c2)"
      using in_transaction_ok[OF 3(3)] .
    note q1 = same_queue[OF t(2,4)] and q2 = same_queue(1)[OF t(3,5)]
    have at: "at_counter fCnt ?N" using 3(1) qi least by (auto simp: at_counter_def)
    then have "same_but_db c1 c2 \<and> size (queue_of_device c2) = size ?N \<and> weight fCnt (queue_of_device c2) = 3 * size (queue_of_device c2)"
      using rescheduled_queue[OF t(1), of fCnt] q1 a by simp
    moreover have "weight fCnt ?N = 3 * size ?N + 1"
    proof -
      have "\<exists>r \<in># ?N. qi_EmitAtTimeSinceGPSEpoch r \<noteq> None"
        using 3(2) qi by (intro bexI[of _ qi]) (auto simp: slot_passed_def split: option.splits)
      then show ?thesis using at qi by (auto simp: weight_def disorder_def)
    qed
    ultimately show ?thesis using q2 same_but_db_trans[OF t(2)] same_but_db_trans[OF _ t(3)] by auto
  qed
qed

lemma finished_round:
  assumes "queue_round E fCnt m c = (Inr True, c')"
  shows "c' = c \<or> (\<exists>qi moreItems. handed_out E rows fCnt m qi moreItems c c')"
proof (cases "GetNextDeviceQueueItemForDevEUI (n_Queue E) (ds_DevEUI (dx_DeviceSession c)) (n_now E) (w_DB c)")
  case (Inl e)
  then show ?thesis using assms by (auto simp: queue_round_def split: if_splits)
next
  case (Inr p)
  obtain qi moreItems where p: "p = (qi, moreItems)" by fastforce
  note head = next_of_queue[OF Inr[unfolded p]]
  have "sendable_item (n_now E) fCnt m qi \<and> hand_out E qi moreItems c = (Inr (), c')"
    using assms Inr p by (auto simp: queue_round_def split: if_splits prod.splits sum.splits)
  then show ?thesis using head by (auto simp: handed_out_def)
qed

lemma unfinished_round:
  assumes "queue_round E fCnt m c = (Inr False, c')" and "class_a c" and "unat fCnt + size (queue_of_device c) < 2 ^ 32"
  shows "same_but_db c c' \<and> size (queue_of_device c') \<le> size (queue_of_device c) \<and>
    weight fCnt (queue_of_device c') < weight fCnt (queue_of_device c)"
proof (cases "GetNextDeviceQueueItemForDevEUI (n_Queue E) (ds_DevEUI (dx_DeviceSession c)) (n_now E) (w_DB c)")
  case (Inl e)
  then show ?thesis using assms by (auto simp: queue_round_def split: if_splits)
next
  case (Inr p)
  obtain qi moreItems where p: "p = (qi, moreItems)" by fastforce
  note head = next_of_queue[OF Inr[unfolded p]]
  have "\<not> sendable_item (n_now E) fCnt m qi \<and> repair_queue E fCnt m qi c = (Inr (), c')"
    using assms(1) Inr p by (auto simp: queue_round_def split: if_splits prod.splits sum.splits)
  then show ?thesis using repaired_queue[OF _ head(1,3) _ assms(2,3)] by blast
qed

lemma rounds_end:
  assumes "class_a c" and "unat fCnt + size (queue_of_device c) < 2 ^ 32"
  shows "\<exists>r c'. queue_rounds E fCnt m c = Some (r, c') \<and>
    (r = Inr () \<longrightarrow> (\<exists>c0. same_but_db c c0 \<and> (c' = c0 \<or> (\<exists>qi moreItems. handed_out E rows fCnt m qi moreItems c0 c'))))"
  using assms
proof (induction "weight fCnt (queue_of_device c)" arbitrary: c rule: less_induct)
  case less
  obtain r c1 where round: "queue_round E fCnt m c = (r, c1)" by fastforce
  consider e where "r = Inl e" | "r = Inr True" | "r = Inr False" by (cases r) auto
  then show ?case
  proof cases
    case 1
    then show ?thesis using round by (simp add: queue_rounds.simps)
  next
    case 2
    then have "queue_rounds E fCnt m c = Some (Inr (), c1)" using round by (simp add: queue_rounds.simps)
    moreover have "c1 = c \<or> (\<exists>qi moreItems. handed_out E rows fCnt m qi moreItems c c1)"
      using 2 round finished_round[of fCnt m c c1] by simp
    ultimately show ?thesis by (intro exI[of _ "Inr ()"] exI[of _ c1]) (auto intro!: exI[of _ c])
  next
    case 3
    note step = unfinished_round[OF round[unfolded 3] less.prems]
    have "class_a c1" using step less.prems(1) same_but_db_fields(1,2)[of c c1] by (simp add: class_a_def)
    moreover have "unat fCnt + size (queue_of_device c1) < 2 ^ 32" using step less.prems(2) by linarith
    ultimately obtain r' c' where r: "queue_rounds E fCnt m c1 = Some (r', c')"
      "r' = Inr () \<longrightarrow> (\<exists>c0. same_but_db c1 c0 \<and> (c' = c0 \<or> (\<exists>qi moreItems. handed_out E rows fCnt m qi moreItems c0 c')))"
      using less.hyps[of c1] step by blast
    have "queue_rounds E fCnt m c = Some (r', c')" using round 3 r(1) by (simp add: queue_rounds.simps)
    then show ?thesis using r(2) step same_but_db_trans by blast
  qed
qed

end

interpretation sample_queue: downlink_queue sample_dl_env queue_rows "\<lambda>r. r" "mem_keyed (\<lambda>k r. r\<lparr>qi_ID := k\<rparr>)"
  "mem_rows (\<lambda>db. t_queue (snd db))"
proof -
  have "queue_db memory_queue queue_rows (\<lambda>r. r) (mem_keyed (\<lambda>k r. r\<lparr>qi_ID := k\<rparr>))"
    by (intro queue_db.intro memory_queue.sql_table_axioms queue_db_axioms.intro)
      (auto simp: mem_keyed_def close_times_def intro: option.rel_refl)
  then show "downlink_queue sample_dl_env queue_rows (\<lambda>r. r) (mem_keyed (\<lambda>k r. r\<lparr>qi_ID := k\<rparr>)) (mem_rows (\<lambda>db. t_queue (snd db)))"
    using memory_queue.sql_transactions_axioms by (intro downlink_queue.intro downlink_queue_axioms.intro) auto
qed

section \<open>The end of the rounds\<close>

text \<open>
  C29: For a device that is not in Class-B, whose queue is shorter than the frame counters that are
  left, the search for the next queue item ends. When it ends without an error, either nothing is
  handed out (the queue is empty or its first item is in flight), or the item is the first of the
  queue as it then is, it is not in flight, and it is at the frame counter of the session, not
  timed out, not too large, and its ping slot has not passed.
\<close>

theorem queue_rounds_end:
  assumes "downlink_queue E rows columns keyed base" and "class_a c"
    and "unat fCnt + size (device_queue rows c) < 2 ^ 32"
  shows "\<exists>r c'. queue_rounds E fCnt maxPayloadSize c = Some (r, c') \<and>
    (r = Inr () \<longrightarrow> (\<exists>c0. same_but_db c c0 \<and>
       (c' = c0 \<or> (\<exists>qi moreItems. handed_out E rows fCnt maxPayloadSize qi moreItems c0 c'))))"
  by (rule downlink_queue.rounds_end[OF assms])

text \<open>A device whose first item has timed out and whose second has the counter of the first.\<close>

definition sample_queued :: "u32 \<Rightarrow> instant option \<Rightarrow> device_queue_item" where
  "sample_queued i timeout =
     (reencrypted_item device_7 \<lparr>re_FrmPayload = [1, 2, 3], re_FCnt = i, re_FPort = 10, re_Confirmed = False\<rparr>)
       \<lparr>qi_ID := uint i, qi_TimeoutAfter := timeout\<rparr>"

definition sample_queue_context :: "(memory_db, memory) dl_context" where
  "sample_queue_context =
     (let t = sample_tables\<lparr>t_queue := \<lparr>mt_up = True, mt_next = 2, mt_rows = [sample_queued 0 (Some (- 1)), sample_queued 1 None]\<rparr>\<rparr>
      in sample_dl_context\<lparr>w_DB := (t, t)\<rparr>)"

theorem queue_rounds_end_witness:
  "\<exists>r c'. queue_rounds sample_dl_env 0 51 sample_queue_context = Some (r, c') \<and>
    (r = Inr () \<longrightarrow> (\<exists>c0. same_but_db sample_queue_context c0 \<and>
       (c' = c0 \<or> (\<exists>qi moreItems. handed_out sample_dl_env queue_rows 0 51 qi moreItems c0 c'))))"
proof (rule queue_rounds_end[OF sample_queue.downlink_queue_axioms])
  show "class_a sample_queue_context"
    by (simp add: class_a_def sample_queue_context_def Let_def zero_device_profile_def)
  show "unat (0 :: u32) + size (device_queue queue_rows sample_queue_context) < 2 ^ 32"
    by (simp add: device_queue_def sample_queue_context_def Let_def mem_rows_def)
qed

end
