(* ===== verification/DownlinkFlow.thy ===== *)
theory DownlinkFlow
  imports DownlinkFrames DownlinkQueue
begin

text \<open>
  The downlink flows as a whole: \<open>HandleResponse\<close> answers an uplink, \<open>HandleScheduleNextQueueItem\<close>
  sends the next queue item to a Class-B or Class-C device, \<open>ScheduleDeviceQueueBatch\<close>
  (\<open>internal/downlink/scheduler.go\<close>) does so for a batch of devices in one transaction, and
  \<open>HandleRoamingFNS\<close> (\<open>data_roaming_fns.go\<close>) sends a frame for another network.
\<close>

section \<open>Stopping, saving and sending\<close>

definition stopOnNothingToSend :: "('db, 's) dl_task" where
  "stopOnNothingToSend c =
     (if dx_QueueItem c = None \<and> dx_MACCommands c = [] \<and> \<not> dx_ACK c \<and> \<not> dx_MustSend c
      then (Inl ErrAbort, c) else (Inr (), c))"

definition sent_frame :: "('db, 's) dl_context \<Rightarrow> stored_frame" where
  "sent_frame c =
     (let ds = dx_DeviceSession c in
      \<lparr>sf_Token = gd_Token (dx_Frame c), sf_DevEui = eui64_bytes (ds_DevEUI ds),
       sf_RoutingProfileId = uuid_bytes (ds_RoutingProfileID ds),
       sf_DeviceQueueItemId = (case dx_QueueItem c of None \<Rightarrow> 0 | Some qi \<Rightarrow> qi_ID qi),
       sf_MulticastGroupId = [], sf_MulticastQueueItemId = 0, sf_EncryptedFopts = (GetMACVersion ds \<noteq> LoRaWAN1_0),
       sf_NwkSEncKey = key_bytes (ds_NwkSEncKey ds), sf_DownlinkFrame = dx_Frame c\<rparr>)"

definition dn_saveDownlinkFrame :: "('db, 's, 'v) dl_env \<Rightarrow> ('db, 's) dl_task" where
  "dn_saveDownlinkFrame E c =
     wrapping ''save downlink-frame error'' (on_Redis (SaveDownlinkFrame (n_Redis E) (n_Frames E) (sent_frame c))) c"

definition dn_saveDeviceSession :: "('db, 's, 'v) dl_env \<Rightarrow> ('db, 's) dl_task" where
  "dn_saveDeviceSession E c =
     wrapping ''save device-session error''
       (on_Redis (SaveDeviceSession (n_Redis E) (n_Sessions E) (n_TTL E) (dx_DeviceSession c))) c"

definition dn_sendDownlinkFrame :: "('db, 's, 'v) dl_env \<Rightarrow> ('db, 's) dl_task" where
  "dn_sendDownlinkFrame E c =
     (if dx_Items c = [] then (Inr (), c)
      else case n_send E (dx_Frame c) (w_Calls c) of
        Inl e \<Rightarrow> (Inl (Wrap e ''send downlink-frame to gateway error''), c)
      | Inr _ \<Rightarrow> (Inr (), call_out (SendTXPacket (dx_Frame c)) c))"

text \<open>A frequency in MHz, a \<open>float64\<close>.\<close>

definition megahertz :: "u32 \<Rightarrow> rat" where
  "megahertz f = f64_div (of_int (uint f)) 1000000"

definition roaming_request :: "('db, 's, 'v) dl_env \<Rightarrow> dl_packet \<Rightarrow> roaming_meta \<Rightarrow> device_session \<Rightarrow> dl_meta_data res" where
  "roaming_request E p m ds =
     (case rp_TXInfo p of
        None \<Rightarrow> Inl (Panic ''nil TXInfo'')
      | Some t \<Rightarrow>
         (case bd_GetRX1Frequency (n_DL E) (ut_Frequency t) of
            Inl e \<Rightarrow> Inl (Wrap e ''get rx1 frequency error'')
          | Inr f1 \<Rightarrow>
             (case rx1_data_rate E ds of
                Inl e \<Rightarrow> Inl e
              | Inr dr1 \<Rightarrow> Inr
                  \<lparr>dm_ClassMode = Some ''A'', dm_DevEUI = Some (ds_DevEUI ds), dm_FNSULToken = rm_FNSULToken m,
                   dm_DLFreq1 = Some (megahertz f1), dm_DLFreq2 = Some (megahertz (ds_RX2Frequency ds)),
                   dm_DataRate1 = Some dr1, dm_DataRate2 = Some (uint (ds_RX2DR ds)), dm_RXDelay1 = Some (uint (ds_RXDelay ds)),
                   dm_GWInfo = map (\<lambda>g. \<lparr>gi_ID = [], gi_ULToken = gi_ULToken g, gi_DLAllowed = False\<rparr>)
                                 (filter gi_DLAllowed (rm_GWInfo m))\<rparr>)))"

text \<open>The partner answers an error, or whether it took the frame.\<close>

definition sendDownlinkFramePassiveRoaming :: "('db, 's, 'v) dl_env \<Rightarrow> ('db, 's) dl_task" where
  "sendDownlinkFramePassiveRoaming E c =
     (case (dx_RXPacket c, Option.bind (dx_RXPacket c) rp_RoamingMetaData) of
        (Some p, Some m) \<Rightarrow>
          (case n_ParseNetID E (rm_SenderID m) of
             Inl e \<Rightarrow> (Inl (Wrap e ''decode senderid error''), c)
           | Inr netID \<Rightarrow>
              (case n_GetClientForNetID E netID of
                 Inl e \<Rightarrow> (Inl (Wrap e ''get roaming client error''), c)
               | Inr _ \<Rightarrow>
                  (case gd_Items (dx_Frame c) of
                     [] \<Rightarrow> (Inl (Panic ''index out of range''), c)
                   | i # _ \<Rightarrow>
                      (case roaming_request E p m (dx_DeviceSession c) of
                         Inl e \<Rightarrow> (Inl e, c)
                       | Inr req \<Rightarrow>
                          (case n_XmitDataReq E netID (di_PhyPayload i) req (w_Calls c) of
                             Inl _ \<Rightarrow> (Inl ErrAbort, call_out (XmitDataReq netID (di_PhyPayload i) req) c)
                           | Inr success \<Rightarrow>
                               (if success then Inr () else Inl ErrAbort,
                                call_out (XmitDataReq netID (di_PhyPayload i) req) c))))))
      | _ \<Rightarrow> (Inl (Panic ''nil RoamingMetaData''), c))"

definition zero_queue_item :: device_queue_item where
  "zero_queue_item =
     \<lparr>qi_ID = 0, qi_CreatedAt = zero_time, qi_UpdatedAt = zero_time, qi_DevAddr = 0, qi_DevEUI = 0, qi_FRMPayload = [],
      qi_FCnt = 0, qi_FPort = 0, qi_Confirmed = False, qi_IsPending = False, qi_EmitAtTimeSinceGPSEpoch = None,
      qi_TimeoutAfter = None, qi_RetryAfter = None\<rparr>"

definition zero_stored_frame :: stored_frame where
  "zero_stored_frame =
     \<lparr>sf_Token = 0, sf_DevEui = [], sf_RoutingProfileId = [], sf_DeviceQueueItemId = 0, sf_MulticastGroupId = [],
      sf_MulticastQueueItemId = 0, sf_EncryptedFopts = False, sf_NwkSEncKey = [], sf_DownlinkFrame = empty_frame\<rparr>"

definition new_ack_context :: "downlink_tx_ack \<Rightarrow> ('db, 's) world \<Rightarrow> ('db, 's) ack_context" where
  "new_ack_context a w =
     \<lparr>w_DB = w_DB w, w_Redis = w_Redis w, w_Calls = w_Calls w, ac_Token = 0, ac_TXAck = a, ac_Status = TxAckStatus_OK,
      ac_Frame = zero_stored_frame, ac_Item = None, ac_DeviceSession = zero_device_session,
      ac_DeviceProfile = zero_device_profile, ac_QueueItem = zero_queue_item, ac_MType = JoinRequest, ac_MACPayload = None\<rparr>"

text \<open>The partner has taken the frame: it counts as acknowledged.\<close>

definition dn_handleRoamingTxAck :: "('db, 's, 'v) dl_env \<Rightarrow> ('db, 's) dl_task" where
  "dn_handleRoamingTxAck E c =
     (let a = \<lparr>ta_Token = gd_Token (dx_Frame c), ta_DownlinkId = gd_DownlinkId (dx_Frame c), ta_Error = [], ta_Items = []\<rparr> in
      case HandleRoamingTxAck (n_ack E) a (new_ack_context a (world.truncate c)) of
        (r, w) \<Rightarrow> (case r of Inl e \<Rightarrow> Inl (Wrap e ''Handle roaming tx ack'') | Inr _ \<Rightarrow> Inr (),
                   c\<lparr>w_DB := w_DB w, w_Redis := w_Redis w, w_Calls := w_Calls w\<rparr>))"

section \<open>Class-C locks and retries\<close>

definition getDownlinkDeviceLock :: "('db, 's, 'v) dl_env \<Rightarrow> ('db, 's) dl_task" where
  "getDownlinkDeviceLock E c =
     (case rd_SetNX (n_Redis E) (deviceDownlinkLockKey (ds_DevEUI (dx_DeviceSession c))) (n_lock E)
             (cf_classCDeviceLockDuration (n_conf E)) (w_Redis c) of
        (Inl e, s) \<Rightarrow> (Inl (Wrap e ''acquire downlink device lock error''), c\<lparr>w_Redis := s\<rparr>)
      | (Inr acquired, s) \<Rightarrow> (if acquired then Inr () else Inl ErrAbort, c\<lparr>w_Redis := s\<rparr>))"

definition frame_gateway :: "gw_downlink_frame \<Rightarrow> eui64" where
  "frame_gateway f = word_rcat (to_array 8 (gd_GatewayId f))"

definition getDownlinkGatewayLock :: "('db, 's, 'v) dl_env \<Rightarrow> ('db, 's) dl_task" where
  "getDownlinkGatewayLock E c =
     (if cf_classCGatewayLockDuration (n_conf E) = 0 then (Inr (), c)
      else case rd_SetNX (n_Redis E) (gatewayDownlinkLockKey (frame_gateway (dx_Frame c))) (n_lock E)
             (cf_classCGatewayLockDuration (n_conf E)) (w_Redis c) of
        (Inl e, s) \<Rightarrow> (Inl (Wrap e ''acquire downlink gateway lock error''), c\<lparr>w_Redis := s\<rparr>)
      | (Inr acquired, s) \<Rightarrow>
          if acquired then (Inr (), c\<lparr>w_Redis := s\<rparr>)
          else (Inl ErrAbort,
                c\<lparr>w_Redis := snd (rd_Del (n_Redis E) (deviceDownlinkLockKey (ds_DevEUI (dx_DeviceSession c))) s)\<rparr>))"

definition setDeviceQueueItemRetryAfter :: "('db, 's, 'v) dl_env \<Rightarrow> ('db, 's) dl_task" where
  "setDeviceQueueItemRetryAfter E c =
     (case dx_QueueItem c of
        None \<Rightarrow> (Inr (), c)
      | Some qi \<Rightarrow>
          (let qi = qi\<lparr>qi_RetryAfter := Some (n_now E + cf_DownlinkTimeout (n_conf E))\<rparr>
           in wrapping ''update device-queue item error'' (on_DB (UpdateDeviceQueueItem (n_Queue E) qi (n_now E)))
                (c\<lparr>dx_QueueItem := Some (qi\<lparr>qi_UpdatedAt := n_now E\<rparr>)\<rparr>)))"

definition returnInvalidDeviceClassError :: "('db, 's) dl_task" where
  "returnInvalidDeviceClassError c = (Inl (Errorf ''the device is in an invalid device-class for this action''), c)"

section \<open>The flows\<close>

definition responseTasks :: "('db, 's, 'v) dl_env \<Rightarrow> ('db, 's) dl_task list" where
  "responseTasks E =
     [dn_getDeviceProfile E, dn_getServiceProfile E, setDeviceGatewayRXInfo E, selectDownlinkGateway E, setDataTXInfo E,
      setToken E, getNextDeviceQueueItem E, setMACCommands E, stopOnNothingToSend, setPHYPayloads E,
      dn_saveDownlinkFrame E, dn_saveDeviceSession E, dn_isRoaming False [dn_sendDownlinkFrame E],
      dn_isRoaming True [sendDownlinkFramePassiveRoaming E], dn_isRoaming True [dn_handleRoamingTxAck E]]"

definition scheduleNextQueueItemTasks :: "('db, 's, 'v) dl_env \<Rightarrow> ('db, 's) dl_task list" where
  "scheduleNextQueueItemTasks E =
     [dn_getDeviceProfile E, dn_getServiceProfile E, forClass DeviceModeC [getDownlinkDeviceLock E],
      setDeviceGatewayRXInfo E, selectDownlinkGateway E,
      forClass DeviceModeC [getDownlinkGatewayLock E, setImmediately, setTXInfoForRX2 E],
      forClass DeviceModeB [setTXInfoForClassB E], forClass DeviceModeA [returnInvalidDeviceClassError],
      setToken E, getNextDeviceQueueItem E, stopOnNothingToSend, setPHYPayloads E, dn_saveDeviceSession E,
      dn_saveDownlinkFrame E, dn_sendDownlinkFrame E, setDeviceQueueItemRetryAfter E]"

definition zero_gw_rx_info :: gw_rx_info where
  "zero_gw_rx_info =
     \<lparr>gri_GatewayID = 0, gri_RSSI = 0, gri_LoRaSNR = 0, gri_Antenna = 0, gri_Board = 0, gri_Context = []\<rparr>"

definition new_dl_context :: "device_session \<Rightarrow> ('db, 's) world \<Rightarrow> ('db, 's) dl_context" where
  "new_dl_context ds w =
     \<lparr>w_DB = w_DB w, w_Redis = w_Redis w, w_Calls = w_Calls w, dx_InTransaction = False, dx_DeviceMode = None,
      dx_ServiceProfile = zero_service_profile, dx_DeviceProfile = zero_device_profile, dx_DeviceSession = ds,
      dx_GatewayRXInfo = [], dx_MustSend = False, dx_ACK = False, dx_RXPacket = None, dx_Immediately = False,
      dx_MACCommands = [], dx_QueueItem = None, dx_More = False, dx_Frame = empty_frame, dx_Items = [],
      dx_Gateway = zero_gw_rx_info\<rparr>"

definition HandleResponse ::
  "('db, 's, 'v) dl_env \<Rightarrow> dl_packet \<Rightarrow> service_profile \<Rightarrow> device_session \<Rightarrow> bool \<Rightarrow> bool \<Rightarrow> bool \<Rightarrow> mac_block list \<Rightarrow>
   ('db, 's) world \<Rightarrow> unit res \<times> ('db, 's) world" where
  "HandleResponse E p sp ds adr mustSend ack blocks w =
     (case flow_handle (responseTasks E) ((new_dl_context ds w)\<lparr>dx_ServiceProfile := sp, dx_ACK := ack,
             dx_MustSend := mustSend, dx_RXPacket := Some p, dx_MACCommands := blocks\<rparr>) of
        (r, c) \<Rightarrow> (r, world.truncate c))"

definition HandleScheduleNextQueueItem ::
  "('db, 's, 'v) dl_env \<Rightarrow> device_session \<Rightarrow> device_mode \<Rightarrow> ('db, 's) world \<Rightarrow> unit res \<times> ('db, 's) world" where
  "HandleScheduleNextQueueItem E ds mode w =
     (case flow_handle (scheduleNextQueueItemTasks E) ((new_dl_context ds w)\<lparr>dx_InTransaction := True, dx_DeviceMode := Some mode\<rparr>) of
        (r, c) \<Rightarrow> (r, world.truncate c))"

section \<open>The scheduler\<close>

text \<open>
  A device without a session and one whose flow fails are passed over. \<open>ids i\<close> is the identifier
  of the flow of the \<open>i\<close>-th device.
\<close>

fun schedule_devices ::
  "('db, 's, 'v) dl_env \<Rightarrow> (nat \<Rightarrow> byte list) \<Rightarrow> nat \<Rightarrow> device list \<Rightarrow> ('db, 's) world \<Rightarrow> ('db, 's) world" where
  "schedule_devices E ids i [] w = w"
| "schedule_devices E ids i (d # ds) w =
     (case GetDeviceSession (n_Redis E) (n_Sessions E) (d_DevEUI d) (w_Redis w) of
        Inl _ \<Rightarrow> schedule_devices E ids (i + 1) ds w
      | Inr s \<Rightarrow> schedule_devices E ids (i + 1) ds
                   (snd (HandleScheduleNextQueueItem (E\<lparr>n_ctxID := ids i\<rparr>) s (d_Mode d) w)))"

definition ScheduleDeviceQueueBatch ::
  "('db, 's, 'v) dl_env \<Rightarrow> ('db, device) table \<Rightarrow> duration \<Rightarrow> (eui64 \<Rightarrow> bool) \<Rightarrow> (nat \<Rightarrow> byte list) \<Rightarrow> nat \<Rightarrow>
   ('db, 's) world \<Rightarrow> unit res \<times> ('db, 's) world" where
  "ScheduleDeviceQueueBatch E D schedulerInterval locked ids batch =
     Transaction (n_Session E) (\<lambda>w.
       case GetDevicesWithClassBOrClassCDeviceQueueItems D (n_Queue E) schedulerInterval locked batch (n_now E) (n_now E) (w_DB w) of
         Inl e \<Rightarrow> (Inl (Wrap e ''get deveuis with class-c device-queue items error''), w)
       | Inr ds \<Rightarrow> (Inr (), schedule_devices E ids 0 ds w))"

section \<open>Downlinks for another network\<close>

fun DLMetaDataToUplinkRXInfoSet :: "(byte list \<Rightarrow> rx_info res) \<Rightarrow> gw_info_element list \<Rightarrow> rx_info list res" where
  "DLMetaDataToUplinkRXInfoSet unmarshal [] = Inr []"
| "DLMetaDataToUplinkRXInfoSet unmarshal (g # gs) =
     (case unmarshal (gi_ULToken g) of
        Inl e \<Rightarrow> Inl (Wrap e ''protobuf unmarshal error'')
      | Inr r \<Rightarrow> (case DLMetaDataToUplinkRXInfoSet unmarshal gs of Inl e \<Rightarrow> Inl e | Inr rs \<Rightarrow> Inr (r # rs)))"

text \<open>The conversion of a frequency in MHz to Hz cuts off the fraction.\<close>

definition hertz :: "rat \<Rightarrow> u32" where
  "hertz mhz = word_of_int (trunc (f64_mul mhz 1000000))"

text \<open>The item of one window, none when the partner left out a field of it.\<close>

definition partner_item ::
  "band \<Rightarrow> dl_band \<Rightarrow> byte list \<Rightarrow> rx_info \<Rightarrow> rat option \<Rightarrow> int option \<Rightarrow> int option \<Rightarrow> int \<Rightarrow> downlink_frame_item list res" where
  "partner_item b db bytes r freq dr delay extra =
     (case (freq, dr, delay) of
        (Some mhz, Some dr, Some d) \<Rightarrow>
          (case SetDownlinkTXInfoDataRate b dr (empty_tx_info\<lparr>dt_Frequency := hertz mhz, dt_Board := ri_Board r,
                   dt_Antenna := ri_Antenna r, dt_Context := ri_Context r,
                   dt_Timing := DELAY (go_int64 (go_int64 (d + extra) * second)),
                   dt_Power := sint (word_of_int (bd_GetDownlinkTXPower db (hertz mhz)) :: 32 word)\<rparr>) of
             Inl e \<Rightarrow> Inl (Wrap e ''set downlink txinfo data-rate error'')
           | Inr t \<Rightarrow> Inr [\<lparr>di_PhyPayload = bytes, di_TxInfo = Some t\<rparr>])
      | _ \<Rightarrow> Inr [])"

definition HandleRoamingFNS ::
  "('db, 's, 'v) dl_env \<Rightarrow> (byte list \<Rightarrow> rx_info res) \<Rightarrow> (rx_info list \<Rightarrow> rx_info list) \<Rightarrow> byte list \<Rightarrow> dl_meta_data \<Rightarrow>
   ('db, 's) world \<Rightarrow> unit res \<times> ('db, 's) world" where
  "HandleRoamingFNS E unmarshal sort_by bytes m w =
     (case DLMetaDataToUplinkRXInfoSet unmarshal (dm_GWInfo m) of
        Inl e \<Rightarrow> (Inl (Wrap e ''get uplink rxinfo error''), w)
      | Inr [] \<Rightarrow> (Inl (Errorf ''GWInfo must not be empty''), w)
      | Inr rs \<Rightarrow>
          let r = hd (sort_by rs) in
          (case partner_item (n_Band E) (n_DL E) bytes r (dm_DLFreq1 m) (dm_DataRate1 m) (dm_RXDelay1 m) 0 of
             Inl e \<Rightarrow> (Inl e, w)
           | Inr i1 \<Rightarrow>
              (case partner_item (n_Band E) (n_DL E) bytes r (dm_DLFreq2 m) (dm_DataRate2 m) (dm_RXDelay1 m) 1 of
                 Inl e \<Rightarrow> (Inl e, w)
               | Inr i2 \<Rightarrow>
                   let f = \<lparr>gd_GatewayId = ri_GatewayId r, gd_Token = ucast (word_rcat (take 2 (n_ctxID E)) :: u16),
                            gd_DownlinkId = n_ctxID E, gd_Items = i1 @ i2\<rparr> in
                   (case wrapping ''save downlink-frame error'' (on_Redis (SaveDownlinkFrame (n_Redis E) (n_Frames E)
                            (zero_stored_frame\<lparr>sf_Token := gd_Token f, sf_DownlinkFrame := f\<rparr>))) w of
                      (Inl e, w) \<Rightarrow> (Inl e, w)
                    | (Inr _, w) \<Rightarrow>
                       (case n_send E f (w_Calls w) of
                          Inl e \<Rightarrow> (Inl (Wrap e ''send downlink-frame to gateway error''), w)
                        | Inr _ \<Rightarrow> (Inr (), call_out (SendTXPacket f) w))))))"

end
