(* ===== verification/DownlinkEffects.thy ===== *)
theory DownlinkEffects
  imports DownlinkFlow
begin

text \<open>
  What the downlink flows leave alone, and what follows. \<open>calm\<close> says that a task keeps a view of
  its context; the view \<open>kept\<close> is the stored sessions and the locks, the identity and uplink
  counter of the session, and the frames sent. The tasks between the locks and the sending are
  calm, so a Class-C device is only served under its lock.
\<close>

section \<open>Tasks that keep a view\<close>

definition calm :: "('c \<Rightarrow> 'x) \<Rightarrow> 'c task \<Rightarrow> bool" where
  "calm f t \<longleftrightarrow> (\<forall>c r c'. t c = (r, c') \<longrightarrow> f c' = f c)"

named_theorems calm_intros "tasks that keep a view"

lemma calmI: "(\<And>c r c'. t c = (r, c') \<Longrightarrow> f c' = f c) \<Longrightarrow> calm f t"
  by (simp add: calm_def)

lemma calmD: "calm f t \<Longrightarrow> t c = (r, c') \<Longrightarrow> f c' = f c"
  by (simp add: calm_def)

lemma calm_run_tasks [calm_intros]: "(\<And>t. t \<in> set ts \<Longrightarrow> calm f t) \<Longrightarrow> calm f (run_tasks ts)"
  by (rule calmI, rule run_tasks_keep) (auto simp: calm_def)

lemma calm_task_when [calm_intros]: "calm f (run_tasks ts) \<Longrightarrow> calm f (task_when P ts)"
  by (auto simp: calm_def task_when_def)

lemma calm_wrapping [calm_intros]: "calm f t \<Longrightarrow> calm f (wrapping what t)"
  by (fastforce simp: calm_def wrapping_def split: prod.splits sum.splits)

lemma calm_reading [calm_intros]: "(\<And>x c. f (put x c) = f c) \<Longrightarrow> calm f (reading get put what)"
  by (auto simp: calm_def reading_def split: sum.splits)

lemma calm_update_ctx [calm_intros]: "(\<And>c. f (g c) = f c) \<Longrightarrow> calm f (update_ctx g)"
  by (simp add: calm_def update_ctx_def)

lemma calm_Transaction [calm_intros]:
  assumes "\<And>c db. f (c\<lparr>w_DB := db\<rparr>) = f c" and "calm f t"
  shows "calm f (Transaction X t)"
proof (rule calmI)
  fix c r c' assume "Transaction X t c = (r, c')"
  then show "f c' = f c"
    using assms(1) calmD[OF assms(2)]
    by (auto simp: Transaction_def on_DB_def split: prod.splits sum.splits)
qed

section \<open>What the flows keep\<close>

definition kept_key :: "redis_key \<Rightarrow> bool" where
  "kept_key k \<longleftrightarrow>
     (case k of deviceSessionKey _ \<Rightarrow> True | deviceDownlinkLockKey _ \<Rightarrow> True | gatewayDownlinkLockKey _ \<Rightarrow> True | _ \<Rightarrow> False)"

lemma kept_key_simps [simp]:
  "kept_key (deviceSessionKey e)" "kept_key (deviceDownlinkLockKey e)" "kept_key (gatewayDownlinkLockKey e)"
  "\<not> kept_key (deviceProfileKey i)" "\<not> kept_key (serviceProfileKey i)" "\<not> kept_key (macCommandQueueKey e)"
  "\<not> kept_key (macCommandPendingKey e cid)" "\<not> kept_key (downlinkFrameKey tk)"
  by (simp_all add: kept_key_def)

definition kept_values :: "('s \<Rightarrow> ('v, 'm) contents) \<Rightarrow> 's \<Rightarrow> redis_key \<Rightarrow> 'v option" where
  "kept_values holds s k = (if kept_key k then c_val (holds s) k else None)"

definition is_send :: "call \<Rightarrow> bool" where
  "is_send x \<longleftrightarrow> (case x of SendTXPacket _ \<Rightarrow> True | _ \<Rightarrow> False)"

lemma is_send_simps [simp]:
  "is_send (SendTXPacket f)" "\<not> is_send (HandleDownlinkACK d n b)" "\<not> is_send (HandleError d n t)"
  "\<not> is_send (ReEncryptDeviceQueueItems q)" "\<not> is_send (XmitDataReq i bs m)"
  by (simp_all add: is_send_def)

definition kept_base ::
  "('s \<Rightarrow> ('v, 'm) contents) \<Rightarrow> ('db, 's) dl_context \<Rightarrow>
   (redis_key \<Rightarrow> 'v option) \<times> u32 \<times> eui64 \<times> device_mode option \<times> dl_packet option \<times> call list" where
  "kept_base holds c = (kept_values holds (w_Redis c), ds_FCntUp (dx_DeviceSession c), ds_DevEUI (dx_DeviceSession c),
     dx_DeviceMode c, dx_RXPacket c, filter is_send (w_Calls c))"

text \<open>And the frame but for its items: the gateway that was chosen and the token.\<close>

definition kept where
  "kept holds c = (kept_base holds c, (dx_Frame c)\<lparr>gd_Items := []\<rparr>)"

lemma calm_base: "calm (kept holds) t \<Longrightarrow> calm (kept_base holds) t"
  by (auto simp: calm_def kept_def)

lemma kept_updates [simp]:
  "kept holds (c\<lparr>w_DB := db\<rparr>) = kept holds c"
  "kept holds (c\<lparr>dx_QueueItem := qi\<rparr>) = kept holds c"
  "kept holds (c\<lparr>dx_More := b\<rparr>) = kept holds c"
  "kept holds (c\<lparr>dx_Items := ws\<rparr>) = kept holds c"
  "f\<lparr>gd_Items := []\<rparr> = (dx_Frame c)\<lparr>gd_Items := []\<rparr> \<Longrightarrow> kept holds (c\<lparr>dx_Frame := f\<rparr>) = kept holds c"
  "kept holds (c\<lparr>dx_Gateway := g\<rparr>) = kept holds c"
  "kept holds (c\<lparr>dx_GatewayRXInfo := gs\<rparr>) = kept holds c"
  "kept holds (c\<lparr>dx_DeviceProfile := dp\<rparr>) = kept holds c"
  "kept holds (c\<lparr>dx_ServiceProfile := sp\<rparr>) = kept holds c"
  "kept holds (c\<lparr>dx_MACCommands := bs\<rparr>) = kept holds c"
  "kept holds (c\<lparr>dx_Immediately := b\<rparr>) = kept holds c"
  "\<not> is_send x \<Longrightarrow> kept holds (call_out x c) = kept holds c"
  by (simp_all add: kept_def kept_base_def call_out_def)

lemma kept_redis: "kept_values holds s = kept_values holds (w_Redis c) \<Longrightarrow> kept holds (c\<lparr>w_Redis := s\<rparr>) = kept holds c"
  by (simp add: kept_def kept_base_def)

lemma kept_session:
  "ds_FCntUp ds = ds_FCntUp (dx_DeviceSession c) \<Longrightarrow> ds_DevEUI ds = ds_DevEUI (dx_DeviceSession c) \<Longrightarrow>
   kept holds (c\<lparr>dx_DeviceSession := ds\<rparr>) = kept holds c"
  by (simp add: kept_def kept_base_def)

lemma calm_on_DB [calm_intros]: "(\<And>c db. f (c\<lparr>w_DB := db\<rparr>) = f c) \<Longrightarrow> calm f (on_DB g)"
  by (auto simp: calm_def on_DB_def split: prod.splits)

context redis_server
begin

lemma kept_Set: "rd_Set R k v ttl s = (r, s') \<Longrightarrow> 0 < ttl \<Longrightarrow> \<not> kept_key k \<Longrightarrow> kept_values holds s' = kept_values holds s"
  by (drule (1) Set) (auto simp: executed_def kept_values_def fun_eq_iff)

lemma kept_LRem: "rd_LRem R k v s = (r, s') \<Longrightarrow> kept_values holds s' = kept_values holds s"
  by (drule LRem) (auto simp: executed_def kept_values_def fun_eq_iff)

lemma kept_cache_create:
  assumes "cache_create R gob ttl a b k x s = (r, s')" and "0 < ttl" and "\<not> kept_key k"
  shows "kept_values holds s' = kept_values holds s"
  using assms kept_Set by (auto simp: cache_create_def split: sum.splits prod.splits)

lemma kept_cached:
  assumes "cached g row create what s = (r, s')"
    and "\<And>x r' s'. create x s = (r', s') \<Longrightarrow> kept_values holds s' = kept_values holds s"
  shows "kept_values holds s' = kept_values holds s"
proof -
  have "kept_values holds (snd (create x s)) = kept_values holds s" for x
    by (rule assms(2)[of x "fst (create x s)"]) simp
  then show ?thesis using assms(1) by (auto simp: cached_def split: sum.splits)
qed

lemma kept_DeviceProfile:
  assumes "GetAndCacheDeviceProfile R gob ttl T i db s = (r, s')" and "0 < ttl"
  shows "kept_values holds s' = kept_values holds s"
  using assms(1) unfolding GetAndCacheDeviceProfile_def CreateDeviceProfileCache_def
  by (rule kept_cached) (erule kept_cache_create[OF _ assms(2)], simp)

lemma kept_ServiceProfile:
  assumes "GetAndCacheServiceProfile R gob ttl T i db s = (r, s')" and "0 < ttl"
  shows "kept_values holds s' = kept_values holds s"
  using assms(1) unfolding GetAndCacheServiceProfile_def CreateServiceProfileCache_def
  by (rule kept_cached) (erule kept_cache_create[OF _ assms(2)], simp)

lemma kept_SetPending:
  "SetPendingMACCommand R c ttl dev b s = (r, s') \<Longrightarrow> 0 < ttl \<Longrightarrow> kept_values holds s' = kept_values holds s"
  using kept_Set by (force simp: SetPendingMACCommand_def split: sum.splits prod.splits)

lemma kept_DeleteItem:
  "DeleteMACCommandQueueItem R c dev b s = (r, s') \<Longrightarrow> kept_values holds s' = kept_values holds s"
  using kept_LRem by (force simp: DeleteMACCommandQueueItem_def split: sum.splits prod.splits if_splits)

lemma kept_SaveFrame:
  "SaveDownlinkFrame R c f s = (r, s') \<Longrightarrow> kept_values holds s' = kept_values holds s"
  using kept_Set by (force simp: SaveDownlinkFrame_def downlinkFrameTTL_def split: sum.splits prod.splits)

end

section \<open>The tasks\<close>

lemma calm_tokens [calm_intros]:
  "calm (kept holds) setImmediately" "calm (kept holds) stopOnNothingToSend"
  "calm (kept holds) (setDeviceGatewayRXInfo E)" "calm (kept holds) returnInvalidDeviceClassError"
  by (auto simp: calm_def setImmediately_def update_ctx_def stopOnNothingToSend_def
      setDeviceGatewayRXInfo_def returnInvalidDeviceClassError_def Let_def split: sum.splits option.splits)

lemma calm_select: "calm (kept_base holds) (selectDownlinkGateway E)"
  by (auto simp: calm_def selectDownlinkGateway_def kept_base_def split: sum.splits)

lemma calm_setToken: "calm (kept_base holds) (setToken E)" "calm (\<lambda>c. gd_GatewayId (dx_Frame c)) (setToken E)"
  by (auto simp: calm_def setToken_def update_ctx_def kept_base_def)

lemma kept_gateway:
  assumes "kept holds c' = kept holds c"
  shows "gd_GatewayId (dx_Frame c') = gd_GatewayId (dx_Frame c)" "gd_Token (dx_Frame c') = gd_Token (dx_Frame c)"
    "gd_DownlinkId (dx_Frame c') = gd_DownlinkId (dx_Frame c)"
  using assms arg_cong[of _ _ gd_GatewayId] arg_cong[of _ _ gd_Token] arg_cong[of _ _ gd_DownlinkId]
  by (auto simp: kept_def dest!: arg_cong[of _ _ "\<lambda>f. (gd_GatewayId f, gd_Token f, gd_DownlinkId f)"])

lemma calm_opportunity: "calm (kept holds) (add_opportunity E dr freq t)"
  by (auto simp: calm_def add_opportunity_def Let_def split: sum.splits)

lemma calm_windows [calm_intros]:
  "calm (kept holds) (setTXInfoForRX1 E)" "calm (kept holds) (setTXInfoForRX2 E)" "calm (kept holds) (setTXInfoForClassB E)"
  using calmD[OF calm_opportunity]
  by (auto simp: calm_def setTXInfoForRX1_def setTXInfoForRX2_def setTXInfoForClassB_def Let_def split: sum.splits)

lemma calm_setDataTXInfo [calm_intros]: "calm (kept holds) (setDataTXInfo E)"
proof (rule calmI)
  fix c r c' assume run: "setDataTXInfo E c = (r, c')"
  show "kept holds c' = kept holds c"
  proof (cases "prefer_rx2 E c")
    case (Inl e)
    then show ?thesis using run by (simp add: setDataTXInfo_def)
  next
    case (Inr b)
    have "calm (kept holds) (run_tasks (if b \<and> cf_rxWindow (n_conf E) = 0 then [setTXInfoForRX2 E, setTXInfoForRX1 E]
        else (if cf_rxWindow (n_conf E) = 0 \<or> cf_rxWindow (n_conf E) = 1 then [setTXInfoForRX1 E] else []) @
             (if cf_rxWindow (n_conf E) = 0 \<or> cf_rxWindow (n_conf E) = 2 then [setTXInfoForRX2 E] else [])))"
      by (rule calm_run_tasks) (auto split: if_splits intro: calm_windows)
    then show ?thesis using run Inr by (auto simp: setDataTXInfo_def Let_def calm_def)
  qed
qed

lemma calm_phy_payloads: "phy_payloads E done ws c = (r, c') \<Longrightarrow> kept holds c' = kept holds c"
  by (induction E "done" ws c rule: phy_payloads.induct) (auto split: sum.splits)

lemma calm_setPHYPayloads [calm_intros]: "calm (kept holds) (setPHYPayloads E)"
  using calm_phy_payloads by (auto simp: calm_def setPHYPayloads_def)

text \<open>The requests for mac-commands change the session, but not what is kept of it.\<close>

lemma kept_add_block [simp]: "kept holds (add_block b c) = kept holds c"
  by (simp add: add_block_def)

lemma calm_requests:
  "calm (kept holds) (requestDevStatus E)" "calm (kept holds) (requestRejoinParamSetup E)"
  "calm (kept holds) (setPingSlotParameters E)" "calm (kept holds) (setRXParameters E)"
  "calm (kept holds) (setTXParameters E)" "calm (kept holds) (requestChannelMaskReconfiguration E)"
  "calm (kept holds) (getMACCommandsFromQueue E)"
  subgoal by (simp add: calm_def requestDevStatus_def RequestDevStatus_def Let_def kept_session split: if_split)
  subgoal by (simp add: calm_def requestRejoinParamSetup_def Let_def split: if_split)
  subgoal by (simp add: calm_def setPingSlotParameters_def Let_def split: if_split)
  subgoal by (simp add: calm_def setRXParameters_def Let_def)
  subgoal by (simp add: calm_def setTXParameters_def Let_def)
  subgoal by (simp add: calm_def requestChannelMaskReconfiguration_def update_ctx_def)
  subgoal unfolding getMACCommandsFromQueue_def by (rule calm_reading) simp
  done

lemma calm_channels: "calm (kept holds) (requestCustomChannelReconfiguration E)"
  by (auto simp: calm_def requestCustomChannelReconfiguration_def Let_def kept_session split: sum.splits option.splits)

lemma calm_adr: "calm (kept holds) (requestADRChange E)"
proof -
  have "calm (kept holds) (apply_adr a)" for a
    by (auto simp: calm_def apply_adr_def split: sum.splits prod.splits)
  then show ?thesis by (auto simp: calm_def requestADRChange_def Let_def split: sum.splits option.splits if_splits)
qed

text \<open>The rounds for a queue item use the database and report to the application-server.\<close>

lemma calm_hand_out: "calm (kept holds) (hand_out E qi b)"
  by (auto simp: calm_def hand_out_def Let_def split: option.splits sum.splits list.splits)

lemma calm_drop_item: "\<not> is_send x \<Longrightarrow> calm (kept holds) (drop_item E qi reply x)"
  by (auto simp: calm_def drop_item_def wrapping_def on_DB_def split: prod.splits sum.splits)

lemma calm_enqueue: "calm (kept holds) (enqueue_items E qis)"
proof (rule calmI)
  show "enqueue_items E qis c = (r, c') \<Longrightarrow> kept holds c' = kept holds c" for c r c'
    by (induction E qis c rule: enqueue_items.induct) (auto split: option.splits sum.splits prod.splits)
qed

lemma calm_flush:
  "wrapping what (on_DB f) c = (r, c') \<Longrightarrow> kept holds c' = kept holds c"
  by (auto simp: wrapping_def on_DB_def split: prod.splits sum.splits)

lemma kept_refill:
  assumes "(case wrapping what (on_DB f) c1 of (Inl e, c) \<Rightarrow> (Inl e, c) | (Inr _, c) \<Rightarrow> enqueue_items E qis c) = (r, c')"
  shows "kept holds c' = kept holds c1"
proof -
  obtain r2 c2 where 2: "wrapping what (on_DB f) c1 = (r2, c2)" by fastforce
  note same = calm_flush[OF 2, where holds = holds]
  show ?thesis
  proof (cases r2)
    case (Inl e)
    then show ?thesis using assms 2 same by simp
  next
    case (Inr u)
    then show ?thesis using assms 2 same calmD[OF calm_enqueue[where holds = holds], of E qis c2 r c'] by simp
  qed
qed

lemma calm_reencrypt: "calm (kept holds) (reencrypt_queue E n)"
proof (rule calmI)
  fix c r c' assume run: "reencrypt_queue E n c = (r, c')"
  show "kept holds c' = kept holds c"
  proof (cases "GetDeviceQueueItemsForDevEUI (n_Queue E) (ds_DevEUI (dx_DeviceSession c)) (w_DB c)")
    case (Inl e)
    then show ?thesis using run by (simp add: reencrypt_queue_def Let_def)
  next
    case items: (Inr items)
    let ?req = "reencrypt_request_of (dx_DeviceSession c) n items"
    show ?thesis
    proof (cases "n_ReEncrypt E ?req (w_Calls c)")
      case (Inl e)
      then show ?thesis using run items by (simp add: reencrypt_queue_def Let_def)
    next
      case (Inr resp)
      have "kept holds c' = kept holds (call_out (ReEncryptDeviceQueueItems ?req) c)"
        using run items Inr by (intro kept_refill) (simp add: reencrypt_queue_def Let_def)
      then show ?thesis by simp
    qed
  qed
qed

lemma calm_reschedule: "calm (kept holds) (reschedule_queue E)"
proof (rule calmI)
  fix c r c' assume run: "reschedule_queue E c = (r, c')"
  show "kept holds c' = kept holds c"
  proof (cases "GetDeviceQueueItemsForDevEUI (n_Queue E) (ds_DevEUI (dx_DeviceSession c)) (w_DB c)")
    case (Inl e)
    then show ?thesis using run by (simp add: reschedule_queue_def Let_def)
  next
    case (Inr items)
    then show ?thesis using run by (intro kept_refill) (simp add: reschedule_queue_def Let_def)
  qed
qed

lemma calm_in_transaction: "calm (kept holds) t \<Longrightarrow> calm (kept holds) (in_transaction E t)"
  using calm_Transaction[of "kept holds" t "n_Session E"] by (auto simp: calm_def in_transaction_def)

lemma calm_repair: "calm (kept holds) (repair_queue E n m qi)"
proof (rule calmI)
  fix c r c' assume run: "repair_queue E n m qi c = (r, c')"
  consider "c' = c" | "drop_timed_out E qi c = (r, c')" | "drop_too_large E qi c = (r, c')"
    | "in_transaction E (reencrypt_queue E n) c = (r, c')" | "in_transaction E (reschedule_queue E) c = (r, c')"
    using run by (auto simp: repair_queue_def split: sum.splits if_splits)
  then show "kept holds c' = kept holds c"
  proof cases
    case 2
    then show ?thesis unfolding drop_timed_out_def Let_def by (rule calmD[OF calm_drop_item, rotated]) simp
  next
    case 3
    then show ?thesis unfolding drop_too_large_def Let_def by (rule calmD[OF calm_drop_item, rotated]) simp
  next
    case 4
    then show ?thesis by (rule calmD[OF calm_in_transaction[OF calm_reencrypt]])
  next
    case 5
    then show ?thesis by (rule calmD[OF calm_in_transaction[OF calm_reschedule]])
  qed simp
qed

lemma kept_queue_round: "queue_round E n m c = (r, c') \<Longrightarrow> kept holds c' = kept holds c"
  using calmD[OF calm_hand_out[where holds = holds]] calmD[OF calm_repair[where holds = holds]]
  by (auto simp: queue_round_def split: sum.splits prod.splits if_splits)

lemma kept_queue_rounds:
  assumes "queue_rounds E n m c = Some p"
  shows "kept holds (snd p) = kept holds c"
proof (rule queue_rounds.raw_induct[where P = "\<lambda>E n m c p. kept holds (snd p) = kept holds c", OF _ assms])
  fix rounds E n m c p
  assume IH: "\<And>E n m c p. rounds E n m c = Some p \<Longrightarrow> kept holds (snd p) = kept holds c"
    and step: "(case queue_round E n m c of (Inl e, c) \<Rightarrow> Some (Inl e, c)
      | (Inr finished, c) \<Rightarrow> if finished then Some (Inr (), c) else rounds E n m c) = Some p"
  obtain r c1 where round: "queue_round E n m c = (r, c1)" by fastforce
  note same = kept_queue_round[OF round, where holds = holds]
  show "kept holds (snd p) = kept holds c"
  proof (cases r)
    case (Inl e)
    then show ?thesis using step round same by auto
  next
    case (Inr finished)
    then show ?thesis using IH[of E n m c1 p] step round same by (auto split: if_splits)
  qed
qed

lemma calm_getNextDeviceQueueItem [calm_intros]: "calm (kept holds) (getNextDeviceQueueItem E)"
proof (rule calmI)
  fix c r c' assume run: "getNextDeviceQueueItem E c = (r, c')"
  show "kept holds c' = kept holds c"
  proof (cases "dx_Items c")
    case Nil
    then show ?thesis using run by (simp add: getNextDeviceQueueItem_def)
  next
    case (Cons w ws)
    show ?thesis
    proof (cases "queue_rounds E (expected_fcnt (dx_DeviceSession c)) (op_Remaining w) c")
      case None
      then show ?thesis using run Cons by (simp add: getNextDeviceQueueItem_def)
    next
      case (Some p)
      then show ?thesis using run Cons kept_queue_rounds[OF Some] by (simp add: getNextDeviceQueueItem_def)
    qed
  qed
qed

lemma calm_retry: "calm (kept holds) (setDeviceQueueItemRetryAfter E)"
proof (rule calmI)
  fix c r c' assume "setDeviceQueueItemRetryAfter E c = (r, c')"
  then show "kept holds c' = kept holds c"
    by (cases "dx_QueueItem c") (auto simp: setDeviceQueueItemRetryAfter_def Let_def dest!: calm_flush[where holds = holds])
qed

locale calm_downlink = session_store "n_Redis E" holds "n_Sessions E" "n_TTL E"
  for E :: "('db, 's, 'v) dl_env" and holds
begin

lemma calm_profiles: "calm (kept holds) (dn_getDeviceProfile E)" "calm (kept holds) (dn_getServiceProfile E)"
  using kept_DeviceProfile[OF _ ttl] kept_ServiceProfile[OF _ ttl]
  by (auto simp: calm_def dn_getDeviceProfile_def dn_getServiceProfile_def intro!: kept_redis split: prod.splits sum.splits)

lemma calm_saveDownlinkFrame: "calm (kept holds) (dn_saveDownlinkFrame E)"
  using kept_SaveFrame
  by (auto simp: calm_def dn_saveDownlinkFrame_def wrapping_def on_Redis_def intro!: kept_redis split: prod.splits sum.splits)

lemma kept_store_pending: "store_pending E bs c = (r, c') \<Longrightarrow> kept holds c' = kept holds c"
proof (induction bs arbitrary: c)
  case (Cons b bs)
  have pending: "kept holds (c\<lparr>w_Redis := s\<rparr>) = kept holds c"
    if "SetPendingMACCommand (n_Redis E) (n_Blocks E) (n_TTL E) d b (w_Redis c) = (x, s)" for d x s
    using kept_SetPending[OF that ttl] by (rule kept_redis)
  have del: "kept holds (c\<lparr>w_Redis := s2\<rparr>) = kept holds (c\<lparr>w_Redis := s1\<rparr>)"
    if "DeleteMACCommandQueueItem (n_Redis E) (n_Blocks E) d b s1 = (x, s2)" for d x s1 s2
    using kept_DeleteItem[OF that] by (simp add: kept_def kept_base_def)
  obtain r1 s1 where 1: "SetPendingMACCommand (n_Redis E) (n_Blocks E) (n_TTL E) (ds_DevEUI (dx_DeviceSession c)) b (w_Redis c) = (r1, s1)"
    by fastforce
  obtain r2 s2 where 2: "DeleteMACCommandQueueItem (n_Redis E) (n_Blocks E) (ds_DevEUI (dx_DeviceSession c)) b s1 = (r2, s2)"
    by fastforce
  have "c' = c\<lparr>w_Redis := s1\<rparr> \<or> c' = c\<lparr>w_Redis := s2\<rparr> \<or> store_pending E bs (c\<lparr>w_Redis := s1\<rparr>) = (r, c') \<or>
      store_pending E bs (c\<lparr>w_Redis := s2\<rparr>) = (r, c')"
    using Cons.prems 1 2 by (cases r1; cases r2; cases "mb_External b") (simp_all add: Let_def wrapping_def on_Redis_def)
  moreover have "kept holds (c\<lparr>w_Redis := s1\<rparr>) = kept holds c" "kept holds (c\<lparr>w_Redis := s2\<rparr>) = kept holds c"
    using pending[OF 1] del[OF 2] by simp_all
  ultimately show ?case using Cons.IH by fastforce
qed simp

lemma calm_setMACCommands: "calm (kept holds) (setMACCommands E)"
proof (rule calmI)
  fix c r c' assume run: "setMACCommands E c = (r, c')"
  have tasks: "calm (kept holds) (run_tasks (mac_command_tasks E))"
    by (rule calm_run_tasks) (auto simp: mac_command_tasks_def intro: calm_requests calm_channels calm_adr)
  obtain r1 c1 where 1: "run_tasks (mac_command_tasks E) c = (r1, c1)" by fastforce
  then have "kept holds c1 = kept holds c" using calmD[OF tasks] by blast
  moreover have "c' = c1 \<or> (\<exists>bs bs'. store_pending E bs (c1\<lparr>dx_MACCommands := bs'\<rparr>) = (r, c'))"
    using run 1 by (cases r1) (auto simp: setMACCommands_def Let_def)
  ultimately show "kept holds c' = kept holds c" using kept_store_pending by fastforce
qed

end

section \<open>Class-C locks\<close>

lemma run_tasks_split:
  assumes "run_tasks (ts @ us) c = (r, c')"
  obtains e where "run_tasks ts c = (Inl e, c')" | c1 where "run_tasks ts c = (Inr (), c1)" "run_tasks us c1 = (r, c')"
proof -
  obtain r1 c1 where 1: "run_tasks ts c = (r1, c1)" by fastforce
  show thesis using assms 1 that by (cases r1) (auto simp: run_tasks_append)
qed

lemma run_tasks_first:
  assumes "run_tasks (t # ts) c = (r, c')" and "t c = (r1, c1)"
  shows "r1 = Inr () \<longrightarrow> run_tasks ts c1 = (r, c')" "r1 \<noteq> Inr () \<longrightarrow> c' = c1"
proof -
  have "(case (r1, c1) of (Inl e, c) \<Rightarrow> (Inl e, c) | (Inr _, c) \<Rightarrow> run_tasks ts c) = (r, c')"
    using assms(1) unfolding run_tasks.simps(2) assms(2) .
  then have "(r1 = Inr () \<longrightarrow> run_tasks ts c1 = (r, c')) \<and> (r1 \<noteq> Inr () \<longrightarrow> c' = c1)" by (cases r1) auto
  then show "r1 = Inr () \<longrightarrow> run_tasks ts c1 = (r, c')" "r1 \<noteq> Inr () \<longrightarrow> c' = c1" by blast+
qed

lemma run_forClass:
  assumes "dx_DeviceMode c = Some m"
  shows "run_tasks (forClass m ts # us) c = run_tasks (ts @ us) c"
proof -
  have "forClass m ts c = run_tasks ts c" using assms by (simp add: forClass_def task_when_def)
  then show ?thesis unfolding run_tasks_append run_tasks.simps(2) by simp
qed

definition locked :: "('s \<Rightarrow> ('v, 'm) contents) \<Rightarrow> ('db, 's, 'z) world_scheme \<Rightarrow> redis_key \<Rightarrow> bool" where
  "locked holds w k \<longleftrightarrow> c_val (holds (w_Redis w)) k \<noteq> None"

definition sends :: "('db, 's, 'z) world_scheme \<Rightarrow> call list" where
  "sends w = filter is_send (w_Calls w)"

lemma kept_sends: "kept_base holds c' = kept_base holds c \<Longrightarrow> sends c' = sends c"
  by (simp add: kept_base_def sends_def)

lemma kept_locked:
  assumes "kept_base holds c' = kept_base holds c" and "kept_key k"
  shows "locked holds c' k = locked holds c k"
proof -
  have "kept_values holds (w_Redis c') k = kept_values holds (w_Redis c) k" using assms(1) by (simp add: kept_base_def)
  then show ?thesis using assms(2) by (simp add: kept_values_def locked_def)
qed

lemma kept_fields:
  assumes "kept_base holds c' = kept_base holds c"
  shows "ds_DevEUI (dx_DeviceSession c') = ds_DevEUI (dx_DeviceSession c)" "dx_DeviceMode c' = dx_DeviceMode c"
    "ds_FCntUp (dx_DeviceSession c') = ds_FCntUp (dx_DeviceSession c)" "dx_RXPacket c' = dx_RXPacket c"
  using assms by (simp_all add: kept_base_def)

definition lock_view where
  "lock_view holds dk gk c = (locked holds c dk, locked holds c gk, sends c, gd_GatewayId (dx_Frame c))"

lemma calm_lock_view:
  assumes "calm (kept_base holds) t" "calm (\<lambda>c. gd_GatewayId (dx_Frame c)) t" and "kept_key dk" "kept_key gk"
  shows "calm (lock_view holds dk gk) t"
proof (rule calmI)
  fix c r c' assume "t c = (r, c')"
  then have "kept_base holds c' = kept_base holds c" "gd_GatewayId (dx_Frame c') = gd_GatewayId (dx_Frame c)"
    using calmD[OF assms(1)] calmD[OF assms(2)] by blast+
  then show "lock_view holds dk gk c' = lock_view holds dk gk c"
    using kept_locked[of holds c' c] kept_sends[of holds c' c] assms(3,4) by (simp add: lock_view_def)
qed

context calm_downlink
begin

definition gateway_locking :: bool where
  "gateway_locking \<longleftrightarrow> cf_classCGatewayLockDuration (n_conf E) \<noteq> 0"

lemma device_lock:
  assumes "getDownlinkDeviceLock E c = (r, c')" and "0 < cf_classCDeviceLockDuration (n_conf E)"
  shows "\<exists>s. c' = c\<lparr>w_Redis := s\<rparr>"
    and "r = Inr () \<Longrightarrow> \<not> locked holds c (deviceDownlinkLockKey (ds_DevEUI (dx_DeviceSession c)))"
    and "r = Inr () \<Longrightarrow> locked holds c' (deviceDownlinkLockKey (ds_DevEUI (dx_DeviceSession c)))"
    and "k \<noteq> deviceDownlinkLockKey (ds_DevEUI (dx_DeviceSession c)) \<Longrightarrow> locked holds c' k = locked holds c k"
proof -
  let ?k = "deviceDownlinkLockKey (ds_DevEUI (dx_DeviceSession c))"
  obtain rb s where set: "rd_SetNX (n_Redis E) ?k (n_lock E) (cf_classCDeviceLockDuration (n_conf E)) (w_Redis c) = (rb, s)"
    by fastforce
  note law = SetNX[OF set assms(2)]
  have c': "c' = c\<lparr>w_Redis := s\<rparr>" and r: "r = Inr () \<Longrightarrow> rb = Inr True"
    using assms(1) set by (auto simp: getDownlinkDeviceLock_def split: sum.splits if_splits)
  show "\<exists>s. c' = c\<lparr>w_Redis := s\<rparr>" using c' by blast
  show "k \<noteq> ?k \<Longrightarrow> locked holds c' k = locked holds c k"
    using law c' by (auto simp: locked_def executed_def split: if_splits)
  show "r = Inr () \<Longrightarrow> \<not> locked holds c ?k" "r = Inr () \<Longrightarrow> locked holds c' ?k"
    using law c' r by (auto simp: locked_def executed_def)
qed

lemma gateway_lock:
  assumes "getDownlinkGatewayLock E c = (r, c')" and "0 \<le> cf_classCGatewayLockDuration (n_conf E)"
  shows "\<exists>s. c' = c\<lparr>w_Redis := s\<rparr>"
    and "r = Inr () \<Longrightarrow> gateway_locking \<Longrightarrow> \<not> locked holds c (gatewayDownlinkLockKey (frame_gateway (dx_Frame c)))"
    and "r = Inr () \<Longrightarrow> gateway_locking \<Longrightarrow> locked holds c' (gatewayDownlinkLockKey (frame_gateway (dx_Frame c)))"
    and "r = Inr () \<Longrightarrow> k \<noteq> gatewayDownlinkLockKey (frame_gateway (dx_Frame c)) \<Longrightarrow> locked holds c' k = locked holds c k"
proof -
  let ?k = "gatewayDownlinkLockKey (frame_gateway (dx_Frame c))"
  obtain rb s where set: "rd_SetNX (n_Redis E) ?k (n_lock E) (cf_classCGatewayLockDuration (n_conf E)) (w_Redis c) = (rb, s)"
    by fastforce
  show "\<exists>s. c' = c\<lparr>w_Redis := s\<rparr>"
  proof (cases "cf_classCGatewayLockDuration (n_conf E) = 0")
    case True
    then show ?thesis using assms(1) by (intro exI[of _ "w_Redis c"]) (simp add: getDownlinkGatewayLock_def)
  next
    case False
    then show ?thesis using assms(1) set by (auto simp: getDownlinkGatewayLock_def split: sum.splits if_splits)
  qed
  have c': "if gateway_locking then c' = c\<lparr>w_Redis := s\<rparr> \<and> rb = Inr True else c' = c" if "r = Inr ()"
    using assms set that by (auto simp: getDownlinkGatewayLock_def gateway_locking_def split: sum.splits if_splits)
  show "r = Inr () \<Longrightarrow> k \<noteq> ?k \<Longrightarrow> locked holds c' k = locked holds c k"
    using SetNX[OF set] assms(2) c' by (auto simp: locked_def executed_def gateway_locking_def split: if_splits)
  show "r = Inr () \<Longrightarrow> gateway_locking \<Longrightarrow> \<not> locked holds c ?k" "r = Inr () \<Longrightarrow> gateway_locking \<Longrightarrow> locked holds c' ?k"
    using SetNX[OF set] assms(2) c' by (auto simp: locked_def executed_def gateway_locking_def)
qed

lemma save_other:
  assumes "SaveDeviceSession (n_Redis E) (n_Sessions E) (n_TTL E) d s = (r, s')" and "k \<noteq> deviceSessionKey (ds_DevEUI d)"
  shows "c_val (holds s') k = c_val (holds s) k"
  using assms(1)
proof (rule Save_cases)
  fix s1 b r'
  assume 1: "c_val (holds s1) = c_val (holds s)" "rd_Set (n_Redis E) (deviceSessionKey (ds_DevEUI d)) b (n_TTL E) s1 = (r', s')"
  show ?thesis using Set[OF 1(2) ttl] 1(1) assms(2) by (auto simp: executed_def)
qed simp

lemma save_lock_view:
  assumes "dk \<notin> range deviceSessionKey" "gk \<notin> range deviceSessionKey"
  shows "calm (lock_view holds dk gk) (dn_saveDeviceSession E)"
proof (rule calmI)
  fix c r c' assume "dn_saveDeviceSession E c = (r, c')"
  then obtain r1 s where "SaveDeviceSession (n_Redis E) (n_Sessions E) (n_TTL E) (dx_DeviceSession c) (w_Redis c) = (r1, s)"
    "c' = c\<lparr>w_Redis := s\<rparr>"
    by (auto simp: dn_saveDeviceSession_def wrapping_def on_Redis_def split: prod.splits sum.splits)
  moreover have "c_val (holds s) k = c_val (holds (w_Redis c)) k" if "k \<notin> range deviceSessionKey" for k
    using save_other[OF calculation(1)] that by auto
  ultimately show "lock_view holds dk gk c' = lock_view holds dk gk c"
    using assms by (simp add: lock_view_def locked_def sends_def)
qed

lemmas calm_in_flow = calm_profiles calm_tokens calm_windows calm_getNextDeviceQueueItem calm_setPHYPayloads
  calm_saveDownlinkFrame calm_retry

lemma calm_flow_view:
  assumes "calm (kept holds) t"
  shows "calm (lock_view holds (deviceDownlinkLockKey d) (gatewayDownlinkLockKey g)) t"
proof -
  have "calm (\<lambda>c. gd_GatewayId (dx_Frame c)) t"
    by (rule calmI) (rule kept_gateway(1)[OF calmD[OF assms]])
  then show ?thesis using calm_lock_view[OF calm_base[OF assms]] by simp
qed

text \<open>Between the locks and the sending.\<close>

definition locked_tasks :: "('db, 's) dl_task list" where
  "locked_tasks = [forClass DeviceModeB [setTXInfoForClassB E], forClass DeviceModeA [returnInvalidDeviceClassError],
     setToken E, getNextDeviceQueueItem E, stopOnNothingToSend, setPHYPayloads E, dn_saveDeviceSession E, dn_saveDownlinkFrame E]"

lemma calm_locked_tasks:
  "calm (lock_view holds (deviceDownlinkLockKey d) (gatewayDownlinkLockKey g)) (run_tasks (setImmediately # setTXInfoForRX2 E # locked_tasks))"
proof (rule calm_run_tasks)
  have "calm (kept holds) (forClass m [t])" if "calm (kept holds) t" for m t
    unfolding forClass_def by (intro calm_intros) (use that in auto)
  then have modal: "calm (lock_view holds (deviceDownlinkLockKey d) (gatewayDownlinkLockKey g)) (forClass m [t])"
    if "calm (kept holds) t" for m t
    using that by (intro calm_flow_view) auto
  fix t assume "t \<in> set (setImmediately # setTXInfoForRX2 E # locked_tasks)"
  then show "calm (lock_view holds (deviceDownlinkLockKey d) (gatewayDownlinkLockKey g)) t"
    unfolding locked_tasks_def using save_lock_view[of "deviceDownlinkLockKey d" "gatewayDownlinkLockKey g"]
    by (auto intro: calm_flow_view modal calm_in_flow calm_lock_view[OF calm_setToken])
qed

lemma before_the_locks:
  assumes "run_tasks ts c = (r, c')" and "set ts \<subseteq> {dn_getDeviceProfile E, dn_getServiceProfile E, setDeviceGatewayRXInfo E, selectDownlinkGateway E}"
  shows "kept_base holds c' = kept_base holds c"
proof -
  have "calm (kept_base holds) (run_tasks ts)"
    using assms(2) by (intro calm_run_tasks) (auto intro: calm_base calm_select calm_in_flow)
  then show ?thesis using assms(1) by (rule calmD)
qed

text \<open>The device lock first; what follows runs under it.\<close>

definition served :: "('db, 's) dl_context \<Rightarrow> ('db, 's) dl_context \<Rightarrow> bool" where
  "served c c' \<longleftrightarrow>
     (\<exists>f. sends c' = sends c @ [SendTXPacket f] \<and>
        (gateway_locking \<longrightarrow> \<not> locked holds c (gatewayDownlinkLockKey (frame_gateway f)) \<and>
          locked holds c' (gatewayDownlinkLockKey (frame_gateway f))) \<and>
        locked holds c' (deviceDownlinkLockKey (ds_DevEUI (dx_DeviceSession c))))"

lemma under_gateway_lock:
  assumes run: "run_tasks (setImmediately # setTXInfoForRX2 E # locked_tasks @ [dn_sendDownlinkFrame E, setDeviceQueueItemRetryAfter E]) c = (r, c')"
    and held: "locked holds c dk" "gateway_locking \<Longrightarrow> locked holds c (gatewayDownlinkLockKey (frame_gateway (dx_Frame c)))"
    and dk: "dk = deviceDownlinkLockKey (ds_DevEUI (dx_DeviceSession c))"
  shows "sends c' = sends c \<or> (\<exists>f. sends c' = sends c @ [SendTXPacket f] \<and> frame_gateway f = frame_gateway (dx_Frame c) \<and>
    locked holds c' dk \<and> (gateway_locking \<longrightarrow> locked holds c' (gatewayDownlinkLockKey (frame_gateway f))))"
proof -
  let ?gk = "gatewayDownlinkLockKey (frame_gateway (dx_Frame c))"
  have view: "calm (lock_view holds dk ?gk) (run_tasks (setImmediately # setTXInfoForRX2 E # locked_tasks))"
    using calm_locked_tasks dk by simp
  from run have "run_tasks ((setImmediately # setTXInfoForRX2 E # locked_tasks) @ [dn_sendDownlinkFrame E, setDeviceQueueItemRetryAfter E]) c = (r, c')"
    by simp
  then show ?thesis
  proof (cases rule: run_tasks_split)
    case (1 e)
    then show ?thesis using calmD[OF view] by (simp add: lock_view_def)
  next
    case (2 c1)
    have c1: "lock_view holds dk ?gk c1 = lock_view holds dk ?gk c" using calmD[OF view 2(1)] .
    obtain r2 c2 where send: "dn_sendDownlinkFrame E c1 = (r2, c2)" by fastforce
    have c2: "c2 = c1 \<or> c2 = call_out (SendTXPacket (dx_Frame c1)) c1"
      using send by (auto simp: dn_sendDownlinkFrame_def split: if_splits sum.splits)
    have "calm (lock_view holds dk ?gk) (setDeviceQueueItemRetryAfter E)" using calm_flow_view[OF calm_retry] dk by simp
    then have c': "lock_view holds dk ?gk c' = lock_view holds dk ?gk c2"
      using 2(2) send by (cases r2) (auto simp: run_tasks.simps calm_def split: prod.splits sum.splits)
    have "frame_gateway (dx_Frame c1) = frame_gateway (dx_Frame c)" using c1 by (simp add: lock_view_def frame_gateway_def)
    then show ?thesis using c1 c' c2 held by (auto simp: lock_view_def locked_def sends_def)
  qed
qed

lemma before_the_locks_silent:
  assumes "run_tasks [dn_getDeviceProfile E, dn_getServiceProfile E] c = (r, c')"
  shows "w_DB c' = w_DB c \<and> w_Calls c' = w_Calls c"
proof -
  have "calm (\<lambda>c. (w_DB c, w_Calls c)) (run_tasks [dn_getDeviceProfile E, dn_getServiceProfile E])"
    by (rule calm_run_tasks) (auto simp: calm_def dn_getDeviceProfile_def dn_getServiceProfile_def split: prod.splits sum.splits)
  from calmD[OF this assms] show ?thesis by simp
qed

lemma class_c_flow:
  assumes run: "run_tasks (scheduleNextQueueItemTasks E) c = (r, c')" and mode: "dx_DeviceMode c = Some DeviceModeC"
    and long: "0 < cf_classCDeviceLockDuration (n_conf E)" "0 \<le> cf_classCGatewayLockDuration (n_conf E)"
    and dk: "dk = deviceDownlinkLockKey (ds_DevEUI (dx_DeviceSession c))"
  shows "sends c' = sends c \<or> \<not> locked holds c dk \<and> served c c'"
    and "locked holds c dk \<Longrightarrow> w_DB c' = w_DB c \<and> w_Calls c' = w_Calls c"
proof -
  have tasks: "scheduleNextQueueItemTasks E = [dn_getDeviceProfile E, dn_getServiceProfile E] @
      forClass DeviceModeC [getDownlinkDeviceLock E] # [setDeviceGatewayRXInfo E, selectDownlinkGateway E] @
      forClass DeviceModeC [getDownlinkGatewayLock E, setImmediately, setTXInfoForRX2 E] #
      locked_tasks @ [dn_sendDownlinkFrame E, setDeviceQueueItemRetryAfter E]"
    by (simp add: scheduleNextQueueItemTasks_def locked_tasks_def)
  let ?last = "locked_tasks @ [dn_sendDownlinkFrame E, setDeviceQueueItemRetryAfter E]"
  let ?rest = "[setDeviceGatewayRXInfo E, selectDownlinkGateway E] @
      forClass DeviceModeC [getDownlinkGatewayLock E, setImmediately, setTXInfoForRX2 E] # ?last"
  have "(sends c' = sends c \<or> \<not> locked holds c dk \<and> served c c') \<and>
      (locked holds c dk \<longrightarrow> w_DB c' = w_DB c \<and> w_Calls c' = w_Calls c)"
    using run unfolding tasks
  proof (cases rule: run_tasks_split)
    case (1 e)
    then show ?thesis using kept_sends[OF before_the_locks[OF 1]] before_the_locks_silent[OF 1] by simp
  next
    case (2 c1)
    have k1: "kept_base holds c1 = kept_base holds c" by (rule before_the_locks[OF 2(1)]) simp
    note f1 = kept_fields[OF k1] kept_sends[OF k1] before_the_locks_silent[OF 2(1)]
    obtain r2 c2 where lock: "getDownlinkDeviceLock E c1 = (r2, c2)" by fastforce
    obtain s2 where c2: "c2 = c1\<lparr>w_Redis := s2\<rparr>" using device_lock(1)[OF lock long(1)] by blast
    have "run_tasks (getDownlinkDeviceLock E # ?rest) c1 = (r, c')"
      using 2(2) run_forClass[of c1 DeviceModeC "[getDownlinkDeviceLock E]" ?rest] mode f1(2) by simp
    note step = run_tasks_first[OF this lock]
    show ?thesis
    proof (cases "r2 = Inr ()")
      case False
      then show ?thesis using step(2) c2 f1 by (simp add: sends_def)
    next
      case True
      have free: "\<not> locked holds c dk" "locked holds c2 dk"
        using device_lock(2,3)[OF lock long(1) True] kept_locked[OF k1, of dk] f1(1) dk by simp_all
      have rest: "run_tasks ?rest c2 = (r, c')" using step(1) True by simp
      have "sends c' = sends c \<or> served c c'"
        using rest
      proof (cases rule: run_tasks_split)
        case (1 e)
        then show ?thesis using kept_sends[OF before_the_locks[OF 1]] c2 f1 by (simp add: sends_def)
      next
        case (2 c3)
        have k3: "kept_base holds c3 = kept_base holds c2" by (rule before_the_locks[OF 2(1)]) simp
        note f3 = kept_fields[OF k3] kept_sends[OF k3]
        let ?gk = "gatewayDownlinkLockKey (frame_gateway (dx_Frame c3))"
        obtain r4 c4 where gate: "getDownlinkGatewayLock E c3 = (r4, c4)" by fastforce
        obtain s4 where c4: "c4 = c3\<lparr>w_Redis := s4\<rparr>" using gateway_lock(1)[OF gate long(2)] by blast
        have sends4: "sends c4 = sends c" using c4 f3 c2 f1 by (simp add: sends_def)
        have "run_tasks (getDownlinkGatewayLock E # setImmediately # setTXInfoForRX2 E # ?last) c3 = (r, c')"
          using 2(2) run_forClass[of c3 DeviceModeC "[getDownlinkGatewayLock E, setImmediately, setTXInfoForRX2 E]" ?last]
            mode f1(2) f3(2) c2 by simp
        note step4 = run_tasks_first[OF this gate]
        show ?thesis
        proof (cases "r4 = Inr ()")
          case False
          then show ?thesis using step4(2) sends4 by simp
        next
          case True
          note g = gateway_lock(2-4)[OF gate long(2) True]
          have "locked holds c4 dk" using g(3)[of dk] free(2) kept_locked[OF k3, of dk] dk by simp
          moreover have "\<not> locked holds c ?gk" if "gateway_locking"
            using g(1)[OF that] kept_locked[OF k3, of ?gk] device_lock(4)[OF lock long(1), of ?gk] kept_locked[OF k1, of ?gk] by simp
          moreover have "dk = deviceDownlinkLockKey (ds_DevEUI (dx_DeviceSession c4))" using c4 f3(1) c2 f1(1) dk by simp
          ultimately show ?thesis
            using under_gateway_lock[OF step4(1)[rule_format, OF True], of dk] g(2) c4 sends4 dk by (auto simp: served_def)
        qed
      qed
      then show ?thesis using free by blast
    qed
  qed
  then show "sends c' = sends c \<or> \<not> locked holds c dk \<and> served c c'"
    and "locked holds c dk \<Longrightarrow> w_DB c' = w_DB c \<and> w_Calls c' = w_Calls c" by blast+
qed

end

interpretation sample_downlink: calm_downlink sample_dl_env mem_holds
  using memory_sessions.session_store_axioms by (simp add: calm_downlink_def)

text \<open>
  C31: Class-C downlinks are sent under locks. Scheduling a Class-C device sends at most one frame. If
  it sends one, the device was not locked before and is locked when it is done, and so is the gateway of the
  frame when a duration of the gateway lock is configured (its duration is 0 otherwise): no
  other instance sends to the device, or through the gateway, in the meantime. If the device was locked,
  the flow neither changes the database nor calls out. The duration of the device lock is positive, as its default is.
\<close>

theorem class_c_sends_under_locks:
  assumes "session_store (n_Redis E) holds (n_Sessions E) (n_TTL E)"
    and "0 < cf_classCDeviceLockDuration (n_conf E)" "0 \<le> cf_classCGatewayLockDuration (n_conf E)"
    and "HandleScheduleNextQueueItem E ds DeviceModeC w = (r, w')"
  shows "(sends w' = sends w \<or>
      (\<exists>f. sends w' = sends w @ [SendTXPacket f] \<and>
        \<not> locked holds w (deviceDownlinkLockKey (ds_DevEUI ds)) \<and> locked holds w' (deviceDownlinkLockKey (ds_DevEUI ds)) \<and>
        (cf_classCGatewayLockDuration (n_conf E) \<noteq> 0 \<longrightarrow>
          \<not> locked holds w (gatewayDownlinkLockKey (frame_gateway f)) \<and> locked holds w' (gatewayDownlinkLockKey (frame_gateway f))))) \<and>
    (locked holds w (deviceDownlinkLockKey (ds_DevEUI ds)) \<longrightarrow> w_DB w' = w_DB w \<and> w_Calls w' = w_Calls w)"
proof -
  note env = calm_downlink.intro[OF assms(1)]
  note flow = calm_downlink.class_c_flow[OF env _ _ assms(2,3) refl]
  let ?c = "(new_dl_context ds w)\<lparr>dx_InTransaction := True, dx_DeviceMode := Some DeviceModeC\<rparr>"
  obtain x c' where run: "run_tasks (scheduleNextQueueItemTasks E) ?c = (x, c')" and w': "w' = world.truncate c'"
    using assms(4) by (auto simp: HandleScheduleNextQueueItem_def dest!: flow_handle_tasks split: prod.splits)
  have c: "w_DB ?c = w_DB w" "w_Calls ?c = w_Calls w" "w_Redis ?c = w_Redis w" "dx_DeviceMode ?c = Some DeviceModeC"
    "ds_DevEUI (dx_DeviceSession ?c) = ds_DevEUI ds"
    by (simp_all add: new_dl_context_def)
  have t: "w_DB w' = w_DB c'" "w_Calls w' = w_Calls c'" "w_Redis w' = w_Redis c'"
    by (simp_all add: w' world.defs)
  show ?thesis
    using flow[OF run c(4)] unfolding calm_downlink.served_def[OF env] calm_downlink.gateway_locking_def[OF env] sends_def locked_def c t
    by blast
qed

text \<open>
  Device 7 waits for the items of its queue and a gateway heard it. When it is locked nothing happens, otherwise the
  next item is sent under both locks, or under that of the device when the gateway lock is not configured.
\<close>

definition heard_world :: "(memory_db, memory) world" where
  "heard_world =
     \<lparr>w_DB = (sample_tables, sample_tables),
      w_Redis = memory_7\<lparr>m_val := (m_val memory_7)(deviceGatewayRXInfoSetKey 7 \<mapsto>
        (RxInfoValue (deviceGatewayRXInfoSetToPB \<lparr>gris_DevEUI = 7, gris_DR = 0,
           gris_Items = [\<lparr>gri_GatewayID = 1, gri_RSSI = 0, gri_LoRaSNR = 5, gri_Antenna = 0, gri_Board = 0, gri_Context = []\<rparr>]\<rparr>), 1000))\<rparr>,
      w_Calls = []\<rparr>"

definition locked_world :: "(memory_db, memory) world" where
  "locked_world = heard_world
     \<lparr>w_Redis := (w_Redis heard_world)\<lparr>m_val := (m_val (w_Redis heard_world))(deviceDownlinkLockKey 7 \<mapsto> (n_lock sample_dl_env, 1000))\<rparr>\<rparr>"

definition one_lock_env :: "(memory_db, memory, redis_value) dl_env" where
  "one_lock_env = sample_dl_env\<lparr>n_conf := sample_dl_conf\<lparr>cf_classCGatewayLockDuration := 0\<rparr>\<rparr>"

lemma sample_sends:
  "length (sends (snd (HandleScheduleNextQueueItem sample_dl_env device_7 DeviceModeC heard_world))) = 1"
  "length (sends (snd (HandleScheduleNextQueueItem one_lock_env device_7 DeviceModeC heard_world))) = 1"
  by code_simp+

theorem class_c_sends_under_locks_witness:
  "(\<exists>r w'. HandleScheduleNextQueueItem sample_dl_env device_7 DeviceModeC locked_world = (r, w') \<and>
      w_DB w' = (sample_tables, sample_tables) \<and> w_Calls w' = []) \<and>
   (\<exists>r w' f. HandleScheduleNextQueueItem sample_dl_env device_7 DeviceModeC heard_world = (r, w') \<and> sends w' = [SendTXPacket f] \<and>
      locked mem_holds w' (deviceDownlinkLockKey 7) \<and> locked mem_holds w' (gatewayDownlinkLockKey (frame_gateway f))) \<and>
   (\<exists>r w' f. HandleScheduleNextQueueItem one_lock_env device_7 DeviceModeC heard_world = (r, w') \<and> sends w' = [SendTXPacket f] \<and>
      locked mem_holds w' (deviceDownlinkLockKey 7))"
proof (intro conjI)
  have s: "session_store (n_Redis E) mem_holds (n_Sessions E) (n_TTL E)" if "E = sample_dl_env \<or> E = one_lock_env" for E
    using memory_sessions.session_store_axioms that by (auto simp: one_lock_env_def)
  have d: "0 < cf_classCDeviceLockDuration (n_conf E) \<and> 0 \<le> cf_classCGatewayLockDuration (n_conf E)"
    if "E = sample_dl_env \<or> E = one_lock_env" for E
    using that by (auto simp: one_lock_env_def sample_dl_conf_def second_def)
  have "sends heard_world = []" by (simp add: heard_world_def sends_def)
  then have sent: "\<exists>f. sends w' = [SendTXPacket f] \<and> locked mem_holds w' (deviceDownlinkLockKey 7) \<and>
      (cf_classCGatewayLockDuration (n_conf E) \<noteq> 0 \<longrightarrow> locked mem_holds w' (gatewayDownlinkLockKey (frame_gateway f)))"
    if run: "HandleScheduleNextQueueItem E device_7 DeviceModeC heard_world = (r, w')" and E: "E = sample_dl_env \<or> E = one_lock_env" for E r w'
    using class_c_sends_under_locks[OF s[OF E] _ _ run] d[OF E] sample_sends run E by fastforce
  obtain r w' where run: "HandleScheduleNextQueueItem sample_dl_env device_7 DeviceModeC locked_world = (r, w')" by fastforce
  have sample: "sample_dl_env = sample_dl_env \<or> sample_dl_env = one_lock_env" by simp
  have base: "w_DB locked_world = (sample_tables, sample_tables)" "w_Calls locked_world = []"
    by (simp_all add: locked_world_def heard_world_def)
  have "locked mem_holds locked_world (deviceDownlinkLockKey (ds_DevEUI device_7))"
    by (simp add: locked_def locked_world_def heard_world_def mem_holds_def mem_val_def live_def memory_7_def mem_empty_def)
  then show "\<exists>r w'. HandleScheduleNextQueueItem sample_dl_env device_7 DeviceModeC locked_world = (r, w') \<and>
      w_DB w' = (sample_tables, sample_tables) \<and> w_Calls w' = []"
    using class_c_sends_under_locks[OF s[OF sample] conjunct1[OF d[OF sample]] conjunct2[OF d[OF sample]] run] run base by auto
  obtain r w' where run: "HandleScheduleNextQueueItem sample_dl_env device_7 DeviceModeC heard_world = (r, w')" by fastforce
  show "\<exists>r w' f. HandleScheduleNextQueueItem sample_dl_env device_7 DeviceModeC heard_world = (r, w') \<and> sends w' = [SendTXPacket f] \<and>
      locked mem_holds w' (deviceDownlinkLockKey 7) \<and> locked mem_holds w' (gatewayDownlinkLockKey (frame_gateway f))"
    using sent[OF run] run by (auto simp: sample_dl_conf_def second_def)
  obtain r w' where run: "HandleScheduleNextQueueItem one_lock_env device_7 DeviceModeC heard_world = (r, w')" by fastforce
  show "\<exists>r w' f. HandleScheduleNextQueueItem one_lock_env device_7 DeviceModeC heard_world = (r, w') \<and> sends w' = [SendTXPacket f] \<and>
      locked mem_holds w' (deviceDownlinkLockKey 7)"
    using sent[OF run] run by auto
qed

end
