(* ===== verification/Exchange.thy ===== *)
theory Exchange
  imports DownlinkEffects UplinkData
begin

text \<open>
  An uplink with its answer. The uplink flow (\<open>UplinkData\<close>) calls the response flow and asks of it
  that it leaves the uplink counters of stored sessions alone (\<open>responses_keep_fcnt\<close>). Here the
  response flow of \<open>DownlinkFlow\<close> is shown to do so, with the transmission report it runs for a
  frame a roaming partner has taken, and the two are composed: an uplink that was processed, with
  whatever answer the server sent, is not accepted again.
\<close>

section \<open>Uplink counters of stored sessions\<close>

definition counters :: "('s \<Rightarrow> ('v, eui64) contents) \<Rightarrow> 'v session_codec \<Rightarrow> 's \<Rightarrow> eui64 \<Rightarrow> u32 option" where
  "counters holds codec s e = map_option ds_FCntUp (session_at codec (holds s) e)"

definition stored_at :: "('s \<Rightarrow> ('v, eui64) contents) \<Rightarrow> 'v session_codec \<Rightarrow> 's \<Rightarrow> eui64 \<Rightarrow> u32 \<Rightarrow> bool" where
  "stored_at holds codec s e f \<longleftrightarrow>
     (\<exists>d. session_at codec (holds s) e = Some d \<and> ds_DevEUI d = e \<and> ds_FCntUp d = f)"

lemma stored_for_at: "stored_for holds codec s d = stored_at holds codec s (ds_DevEUI d) (ds_FCntUp d)"
  by (simp add: stored_for_def stored_at_def)

text \<open>The counters, and whether the device \<open>e\<close> is at \<open>f\<close>.\<close>

definition counter_view where
  "counter_view holds codec e f s = (counters holds codec s, stored_at holds codec s e f)"

lemma counter_view_values:
  assumes "\<And>e. c_val (holds s') (deviceSessionKey e) = c_val (holds s) (deviceSessionKey e)"
  shows "counter_view holds codec e f s' = counter_view holds codec e f s"
  using assms by (simp add: counter_view_def counters_def stored_at_def session_at_def fun_eq_iff)

lemma kept_counters:
  assumes "kept_values holds s' = kept_values holds s"
  shows "counter_view holds codec e f s' = counter_view holds codec e f s"
proof (rule counter_view_values)
  fix e
  have "kept_values holds s' (deviceSessionKey e) = kept_values holds s (deviceSessionKey e)" using assms by simp
  then show "c_val (holds s') (deviceSessionKey e) = c_val (holds s) (deviceSessionKey e)" by (simp add: kept_values_def)
qed

context session_store
begin

lemma save_counters:
  assumes "SaveDeviceSession R c ttl d s = (r, s')" and "ds_DevEUI d = e" "ds_FCntUp d = f" and "stored_at holds c s e f"
  shows "counter_view holds c e f s' = counter_view holds c e f s"
  using assms(1)
proof (rule Save_cases)
  fix s1 assume "c_val (holds s1) = c_val (holds s)" "s' = s1"
  then show ?thesis by (intro counter_view_values) simp
next
  fix s1 b r'
  assume k: "c_val (holds s1) = c_val (holds s)" and b: "enc c (deviceSessionToPB d) = Inr b"
    and put: "rd_Set R (deviceSessionKey (ds_DevEUI d)) b ttl s1 = (r', s')"
  have "c_val (holds s') = c_val (holds s) \<or> c_val (holds s') = (c_val (holds s))(deviceSessionKey e \<mapsto> b)"
    using Set[OF put ttl] k assms(2) by (auto simp: executed_def)
  then show ?thesis
  proof
    assume "c_val (holds s') = c_val (holds s)"
    then show ?thesis by (intro counter_view_values) simp
  next
    assume v: "c_val (holds s') = (c_val (holds s))(deviceSessionKey e \<mapsto> b)"
    have at: "session_at c (holds s') x = (if x = e then Some (deviceSessionFromPB (deviceSessionToPB d)) else session_at c (holds s) x)" for x
      using codec_okD[OF codec b] by (simp add: session_at_def v)
    then show ?thesis
      using assms(2-4) by (auto simp: counter_view_def counters_def stored_at_def fromPB_toPB_fields fromPB_toPB_FCntUp)
  qed
qed

end

section \<open>Tasks with preconditions\<close>

text \<open>What holds when a task succeeds, and what when it fails.\<close>

definition triple :: "('c \<Rightarrow> bool) \<Rightarrow> 'c task \<Rightarrow> ('c \<Rightarrow> bool) \<Rightarrow> ('c \<Rightarrow> bool) \<Rightarrow> bool" where
  "triple P t Q X \<longleftrightarrow> (\<forall>c r c'. P c \<longrightarrow> t c = (r, c') \<longrightarrow> (case r of Inl _ \<Rightarrow> X c' | Inr _ \<Rightarrow> Q c'))"

lemma tripleI: "(\<And>c r c'. P c \<Longrightarrow> t c = (r, c') \<Longrightarrow> case r of Inl _ \<Rightarrow> X c' | Inr _ \<Rightarrow> Q c') \<Longrightarrow> triple P t Q X"
  by (simp add: triple_def)

lemma triple_nil: "triple P (run_tasks []) P X"
  by (simp add: triple_def)

lemma triple_cons:
  assumes "triple P t Q X" and "triple Q (run_tasks ts) S X"
  shows "triple P (run_tasks (t # ts)) S X"
proof (rule tripleI)
  fix c r c' assume P: "P c" and run: "run_tasks (t # ts) c = (r, c')"
  obtain r1 c1 where 1: "t c = (r1, c1)" by fastforce
  note first = run_tasks_first[OF run 1]
  have inside: "case r1 of Inl _ \<Rightarrow> X c1 | Inr _ \<Rightarrow> Q c1" using assms(1) P 1 unfolding triple_def by blast
  show "case r of Inl _ \<Rightarrow> X c' | Inr _ \<Rightarrow> S c'"
  proof (cases r1)
    case (Inl e)
    then have "run_tasks (t # ts) c = (Inl e, c1)" using 1 by (simp add: run_tasks.simps(2))
    then show ?thesis using run inside Inl by simp
  next
    case (Inr u)
    then have "run_tasks ts c1 = (r, c')" "Q c1" using first(1) inside by simp_all
    then show ?thesis using assms(2) unfolding triple_def by blast
  qed
qed

lemma triple_when:
  assumes "triple P (run_tasks ts) Q X" and "\<And>c. P c \<Longrightarrow> Q c"
  shows "triple P (task_when b ts) Q X"
  using assms by (simp add: triple_def task_when_def)

lemma triple_weaken:
  assumes "triple P t Q X" and "\<And>c. P' c \<Longrightarrow> P c" "\<And>c. Q c \<Longrightarrow> Q' c" "\<And>c. X c \<Longrightarrow> X' c"
  shows "triple P' t Q' X'"
proof (rule tripleI)
  fix c r c' assume "P' c" "t c = (r, c')"
  then have "case r of Inl _ \<Rightarrow> X c' | Inr _ \<Rightarrow> Q c'" using assms(1) assms(2)[of c] unfolding triple_def by blast
  then show "case r of Inl _ \<Rightarrow> X' c' | Inr _ \<Rightarrow> Q' c'" using assms(3,4) by (simp split: sum.splits)
qed

lemma triple_calm: "calm f t \<Longrightarrow> triple (\<lambda>c. P (f c)) t (\<lambda>c. P (f c)) (\<lambda>c. P (f c))"
  by (auto simp: triple_def calm_def split: sum.splits)

lemma triple_Transaction:
  assumes "triple P t Q X" and "\<And>c db. P (c\<lparr>w_DB := db\<rparr>) = P c" "\<And>c db. Q (c\<lparr>w_DB := db\<rparr>) = Q c" "\<And>c db. X (c\<lparr>w_DB := db\<rparr>) = X c"
    and "\<And>c. P c \<Longrightarrow> X c" "\<And>c. Q c \<Longrightarrow> X c"
  shows "triple P (Transaction Y t) Q X"
proof (rule tripleI)
  fix c r c' assume P: "P c" and run: "Transaction Y t c = (r, c')"
  obtain r1 db1 where b: "sx_Begin Y (w_DB c) = (r1, db1)" by fastforce
  obtain r2 c2 where t: "t (c\<lparr>w_DB := db1\<rparr>) = (r2, c2)" by fastforce
  have inside: "case r2 of Inl _ \<Rightarrow> X c2 | Inr _ \<Rightarrow> Q c2" using assms(1) t P assms(2)[of db1 c] unfolding triple_def by blast
  obtain r3 db3 where rb: "sx_Rollback Y (w_DB c2) = (r3, db3)" by fastforce
  obtain r4 db4 where cm: "sx_Commit Y (w_DB c2) = (r4, db4)" by fastforce
  show "case r of Inl _ \<Rightarrow> X c' | Inr _ \<Rightarrow> Q c'"
  proof (cases r1)
    case (Inl e)
    then have "r = Inl (Wrap e ''storage: begin transaction error'')" "c' = c\<lparr>w_DB := db1\<rparr>"
      using run b by (simp_all add: Transaction_def on_DB_def)
    then show ?thesis using assms(5)[OF P] assms(4)[of db1 c] by simp
  next
    case (Inr u)
    show ?thesis
    proof (cases r2)
      case (Inl e)
      then have "(\<exists>e'. r = Inl e') \<and> c' = c2\<lparr>w_DB := db3\<rparr>"
        using run b \<open>r1 = Inr u\<close> t rb by (cases r3) (auto simp: Transaction_def on_DB_def)
      then show ?thesis using inside Inl assms(4)[of db3 c2] by auto
    next
      case (Inr v)
      then have "c' = c2\<lparr>w_DB := db4\<rparr>"
        using run b \<open>r1 = Inr u\<close> t cm by (cases r4) (simp_all add: Transaction_def on_DB_def)
      moreover have "Q c2" "X c2" using inside Inr assms(6) by auto
      ultimately show ?thesis using assms(3)[of db4 c2] assms(4)[of db4 c2] by (simp split: sum.split)
    qed
  qed
qed

section \<open>The transmission report of a roaming partner\<close>

definition ack_view where
  "ack_view holds codec e f c = (counter_view holds codec e f (w_Redis c), ack_dev_eui c, ac_Status c,
     ds_DevEUI (ac_DeviceSession c), ds_FCntUp (ac_DeviceSession c))"

lemma ack_view_updates [simp]:
  "ack_view holds codec e f (c\<lparr>w_DB := db\<rparr>) = ack_view holds codec e f c"
  "ack_view holds codec e f (c\<lparr>ac_QueueItem := qi\<rparr>) = ack_view holds codec e f c"
  "ack_view holds codec e f (c\<lparr>ac_MType := mt\<rparr>) = ack_view holds codec e f c"
  "ack_view holds codec e f (c\<lparr>ac_MACPayload := pl\<rparr>) = ack_view holds codec e f c"
  "ack_view holds codec e f (c\<lparr>ac_DeviceProfile := dp\<rparr>) = ack_view holds codec e f c"
  "ack_view holds codec e f (c\<lparr>ac_Item := i\<rparr>) = ack_view holds codec e f c"
  "ack_view holds codec e f (call_out x c) = ack_view holds codec e f c"
  by (simp_all add: ack_view_def ack_dev_eui_def call_out_def)

text \<open>The counters are \<open>g\<close>, the frame is the device's, and the transmission succeeded.\<close>

definition reporting where
  "reporting holds codec e f g c \<longleftrightarrow> counter_view holds codec e f (w_Redis c) = (g, True) \<and> ack_dev_eui c = e \<and> ac_Status c = TxAckStatus_OK"

definition reporting_session where
  "reporting_session holds codec e f g c \<longleftrightarrow>
     reporting holds codec e f g c \<and> ds_DevEUI (ac_DeviceSession c) = e \<and> ds_FCntUp (ac_DeviceSession c) = f"

definition counters_are where
  "counters_are holds codec g c \<longleftrightarrow> counters holds codec (w_Redis c) = g"

lemma reporting_view: "ack_view holds codec e f c' = ack_view holds codec e f c \<Longrightarrow>
    reporting holds codec e f g c' = reporting holds codec e f g c \<and>
    reporting_session holds codec e f g c' = reporting_session holds codec e f g c \<and>
    counters_are holds codec g c' = counters_are holds codec g c"
  by (simp add: ack_view_def reporting_def reporting_session_def counters_are_def counter_view_def)

lemma reporting_counters: "reporting holds codec e f g c \<Longrightarrow> counters_are holds codec g c"
  by (simp add: reporting_def counters_are_def counter_view_def)

lemma reporting_session_reporting: "reporting_session holds codec e f g c \<Longrightarrow> reporting holds codec e f g c"
  by (simp add: reporting_session_def)

lemma triple_ack_calm:
  assumes "calm (ack_view holds codec e f) t"
  shows "triple (reporting holds codec e f g) t (reporting holds codec e f g) (counters_are holds codec g)"
    and "triple (reporting_session holds codec e f g) t (reporting_session holds codec e f g) (counters_are holds codec g)"
proof -
  have same: "reporting holds codec e f g c' = reporting holds codec e f g c \<and>
      reporting_session holds codec e f g c' = reporting_session holds codec e f g c \<and>
      counters_are holds codec g c' = counters_are holds codec g c" if "t c = (r, c')" for c r c'
    by (rule reporting_view) (rule calmD[OF assms that])
  show "triple (reporting holds codec e f g) t (reporting holds codec e f g) (counters_are holds codec g)"
    by (rule tripleI, drule same) (simp add: reporting_counters split: sum.split)
  show "triple (reporting_session holds codec e f g) t (reporting_session holds codec e f g) (counters_are holds codec g)"
    by (rule tripleI, drule same) (simp add: reporting_session_reporting[THEN reporting_counters] split: sum.split)
qed

lemma ack_calm:
  "calm (ack_view holds codec e f) (lockDevice K)" "calm (ack_view holds codec e f) (getDeviceQueueItem K)"
  "calm (ack_view holds codec e f) (deleteDeviceQueueItem K)" "calm (ack_view holds codec e f) (deleteMulticastQueueItem K)"
  "calm (ack_view holds codec e f) (setDeviceQueueItemPending K)" "calm (ack_view holds codec e f) (sendTxAckToApplicationServer K)"
  "calm (ack_view holds codec e f) (sendDownlinkMetaDataToNetworkController K)" "calm (ack_view holds codec e f) (logDownlinkFrame K)"
  "calm (ack_view holds codec e f) (decodePHYPayload K)"
  subgoal by (simp add: calm_def lockDevice_def reading_def split: sum.splits)
  subgoal by (simp add: calm_def getDeviceQueueItem_def reading_def split: sum.splits)
  subgoal by (auto simp: calm_def deleteDeviceQueueItem_def wrapping_def on_DB_def split: prod.splits sum.splits)
  subgoal by (auto simp: calm_def deleteMulticastQueueItem_def wrapping_def on_DB_def split: prod.splits sum.splits)
  subgoal by (auto simp: calm_def setDeviceQueueItemPending_def Let_def wrapping_def on_DB_def split: prod.splits sum.splits)
  subgoal by (auto simp: calm_def sendTxAckToApplicationServer_def split: sum.splits)
  subgoal by (simp add: calm_def sendDownlinkMetaDataToNetworkController_def Let_def)
  subgoal by (auto simp: calm_def logDownlinkFrame_def split: if_splits option.splits)
  subgoal by (auto simp: calm_def decodePHYPayload_def split: option.splits prod.splits)
  done

lemma ack_sessions_calm:
  "calm (ack_view holds codec e f) setDeviceSessionConfFcnt" "calm (ack_view holds codec e f) incrementAFCntDown"
  "calm (ack_view holds codec e f) incrementNFcntDown"
  by (simp_all add: calm_def update_ctx_def ack_view_def ack_dev_eui_def setDeviceSessionConfFcnt_def incrementAFCntDown_def
      incrementNFcntDown_def count_application_frame_def)

locale reported = session_store "k_Redis K" holds "k_Sessions K" "k_TTL K"
  for K :: "('db, 's, 'v) ack_env" and holds +
  fixes e :: eui64 and f :: u32 and g :: "eui64 \<Rightarrow> u32 option"
begin

abbreviation "frame_known \<equiv> reporting holds (k_Sessions K) e f g"
abbreviation "session_known \<equiv> reporting_session holds (k_Sessions K) e f g"
abbreviation "unchanged \<equiv> counters_are holds (k_Sessions K) g"

lemmas calm_known = triple_ack_calm[where holds = holds and codec = "k_Sessions K" and e = e and f = f and g = g]

lemma get_session: "triple frame_known (getDeviceSession K) session_known unchanged"
proof (rule tripleI)
  fix c r c' assume P: "frame_known c" and run: "getDeviceSession K c = (r, c')"
  show "case r of Inl _ \<Rightarrow> unchanged c' | Inr _ \<Rightarrow> session_known c'"
  proof (cases "GetDeviceSession (k_Redis K) (k_Sessions K) (ack_dev_eui c) (w_Redis c)")
    case (Inl x)
    then show ?thesis using run reporting_counters[OF P] by (auto simp: getDeviceSession_def reading_def)
  next
    case (Inr ds)
    then have c': "r = Inr ()" "c' = c\<lparr>ac_DeviceSession := ds\<rparr>" using run by (auto simp: getDeviceSession_def reading_def)
    have "session_at (k_Sessions K) (holds (w_Redis c)) e = Some ds"
      using GetDeviceSession_at(1)[OF Inr, of ds] P by (simp add: reporting_def)
    then have "ds_DevEUI ds = e" "ds_FCntUp ds = f"
      using P by (auto simp: reporting_def counter_view_def stored_at_def)
    then show ?thesis using P c' by (simp add: reporting_session_def reporting_def ack_dev_eui_def)
  qed
qed

lemma save_session: "triple session_known (saveDeviceSession K) session_known unchanged"
proof (rule tripleI)
  fix c r c' assume P: "session_known c" and run: "saveDeviceSession K c = (r, c')"
  obtain x s where save: "SaveDeviceSession (k_Redis K) (k_Sessions K) (k_TTL K) (ac_DeviceSession c) (w_Redis c) = (x, s)"
    by fastforce
  have c': "c' = c\<lparr>w_Redis := s\<rparr>"
    using run save by (cases x) (auto simp: saveDeviceSession_def wrapping_def on_Redis_def)
  have "counter_view holds (k_Sessions K) e f s = counter_view holds (k_Sessions K) e f (w_Redis c)"
    using save_counters[OF save] P by (auto simp: reporting_session_def reporting_def counter_view_def)
  then have "ack_view holds (k_Sessions K) e f c' = ack_view holds (k_Sessions K) e f c"
    by (simp add: ack_view_def ack_dev_eui_def c')
  from reporting_view[OF this, of g] show "case r of Inl _ \<Rightarrow> unchanged c' | Inr _ \<Rightarrow> session_known c'"
    using P reporting_session_reporting[THEN reporting_counters, OF P] by (simp split: sum.split)
qed

lemma calm_getDeviceProfile: "calm (ack_view holds (k_Sessions K) e f) (getDeviceProfile K)"
proof (rule calmI)
  fix c r c' assume run: "getDeviceProfile K c = (r, c')"
  obtain x s where get: "GetAndCacheDeviceProfile (k_Redis K) (k_Profiles K) (k_TTL K) (k_DeviceProfiles K)
      (ds_DeviceProfileID (ac_DeviceSession c)) (w_DB c) (w_Redis c) = (x, s)" by fastforce
  have "counter_view holds (k_Sessions K) e f s = counter_view holds (k_Sessions K) e f (w_Redis c)"
    by (rule kept_counters) (rule kept_DeviceProfile[OF get ttl])
  then show "ack_view holds (k_Sessions K) e f c' = ack_view holds (k_Sessions K) e f c"
    using run get by (cases x) (auto simp: getDeviceProfile_def ack_view_def ack_dev_eui_def)
qed

lemma application: "triple frame_known (run_tasks (application_tasks K)) frame_known unchanged"
proof -
  have class1: "triple session_known (forUnconfirmedDownlink [deleteDeviceQueueItem K]) session_known unchanged"
    unfolding forUnconfirmedDownlink_def
    by (rule triple_when[OF triple_cons[OF calm_known(2)[OF ack_calm(3)] triple_nil]]) assumption
  have class2: "triple session_known (forConfirmedDownlink [getDeviceProfile K, setDeviceQueueItemPending K, setDeviceSessionConfFcnt]) session_known unchanged"
    unfolding forConfirmedDownlink_def
    by (rule triple_when[OF triple_cons[OF calm_known(2)[OF calm_getDeviceProfile]
          triple_cons[OF calm_known(2)[OF ack_calm(5)] triple_cons[OF calm_known(2)[OF ack_sessions_calm(1)] triple_nil]]]]) assumption
  have "triple session_known (run_tasks [getDeviceQueueItem K, forUnconfirmedDownlink [deleteDeviceQueueItem K],
      forConfirmedDownlink [getDeviceProfile K, setDeviceQueueItemPending K, setDeviceSessionConfFcnt],
      incrementAFCntDown, saveDeviceSession K, sendTxAckToApplicationServer K]) session_known unchanged"
    by (rule triple_cons[OF calm_known(2)[OF ack_calm(2)] triple_cons[OF class1 triple_cons[OF class2
          triple_cons[OF calm_known(2)[OF ack_sessions_calm(2)] triple_cons[OF save_session
          triple_cons[OF calm_known(2)[OF ack_calm(6)] triple_nil]]]]]])
  from triple_cons[OF calm_known(1)[OF ack_calm(1)] triple_cons[OF get_session this]]
  have "triple frame_known (run_tasks (application_tasks K)) session_known unchanged"
    by (simp only: application_tasks_def)
  then show ?thesis by (rule triple_weaken) (auto intro: reporting_session_reporting)
qed

lemma mac_only: "triple frame_known (run_tasks [getDeviceSession K, incrementNFcntDown, saveDeviceSession K]) frame_known unchanged"
proof -
  have "triple session_known (run_tasks [incrementNFcntDown, saveDeviceSession K]) session_known unchanged"
    by (rule triple_cons[OF calm_known(2)[OF ack_sessions_calm(3)] triple_cons[OF save_session triple_nil]])
  from triple_cons[OF get_session this] show ?thesis by (rule triple_weaken) (auto intro: reporting_session_reporting)
qed

lemma after_decoding:
  "triple frame_known (run_tasks (drop 3 (handleDownlinkTXAckTasks K))) frame_known unchanged"
proof -
  have error: "triple frame_known (onError ts) frame_known unchanged" for ts
    by (rule tripleI) (auto simp: onError_def task_when_def reporting_def)
  have application': "triple frame_known (forApplicationPayload (application_tasks K)) frame_known unchanged"
    unfolding forApplicationPayload_def by (rule triple_when[OF application]) assumption
  have trans: "triple frame_known (Transaction (k_Session K) (run_tasks [forApplicationPayload (application_tasks K)])) frame_known unchanged"
    by (rule triple_Transaction[OF triple_cons[OF application' triple_nil]])
      (auto simp: reporting_def counters_are_def ack_dev_eui_def counter_view_def)
  have mac: "triple frame_known (forMACOnlyPayload [getDeviceSession K, incrementNFcntDown, saveDeviceSession K]) frame_known unchanged"
    unfolding forMACOnlyPayload_def by (rule triple_when[OF mac_only]) assumption
  have multicast: "triple frame_known (forMulticastPayload [deleteMulticastQueueItem K]) frame_known unchanged"
    unfolding forMulticastPayload_def
    by (rule triple_when[OF triple_cons[OF calm_known(1)[OF ack_calm(4)] triple_nil]]) assumption
  have "triple frame_known (run_tasks [Transaction (k_Session K) (run_tasks [forApplicationPayload (application_tasks K)]),
      forMACOnlyPayload [getDeviceSession K, incrementNFcntDown, saveDeviceSession K],
      forMulticastPayload [deleteMulticastQueueItem K], sendDownlinkMetaDataToNetworkController K, logDownlinkFrame K])
      frame_known unchanged"
    by (rule triple_cons[OF trans triple_cons[OF mac triple_cons[OF multicast
          triple_cons[OF calm_known(1)[OF ack_calm(7)] triple_cons[OF calm_known(1)[OF ack_calm(8)] triple_nil]]]]])
  then have "triple frame_known (onNoError [Transaction (k_Session K) (run_tasks [forApplicationPayload (application_tasks K)]),
      forMACOnlyPayload [getDeviceSession K, incrementNFcntDown, saveDeviceSession K],
      forMulticastPayload [deleteMulticastQueueItem K], sendDownlinkMetaDataToNetworkController K, logDownlinkFrame K])
      frame_known unchanged"
    unfolding onNoError_def by (rule triple_when) assumption
  from triple_cons[OF error triple_cons[OF this triple_nil]] show ?thesis
    by (simp add: handleDownlinkTXAckTasks_def)
qed

lemma roaming_report:
  assumes "HandleRoamingTxAck K a c = (r, c')" and "counter_view holds (k_Sessions K) e f (w_Redis c) = (g, True)"
    and "\<And>frame. GetDownlinkFrame (k_Redis K) (k_Frames K) (ack_token a (ac_Token c)) (w_Redis c) = Inr frame \<Longrightarrow>
      bytes_eui64 (sf_DevEui frame) = e"
  shows "unchanged c'"
proof -
  let ?c0 = "c\<lparr>ac_TXAck := a, ac_Status := TxAckStatus_OK\<rparr>"
  have "handleDownlinkTXAckTasks K = [getToken, getDownlinkFrame K, decodePHYPayload K] @ drop 3 (handleDownlinkTXAckTasks K)"
    by (simp add: handleDownlinkTXAckTasks_def)
  then have run: "run_tasks (getToken # getDownlinkFrame K # decodePHYPayload K # drop 3 (handleDownlinkTXAckTasks K)) ?c0 = (r, c')"
    using assms(1) by (simp add: HandleRoamingTxAck_def)
  let ?c1 = "?c0\<lparr>ac_Token := ack_token a (ac_Token c)\<rparr>"
  have "getToken ?c0 = (Inr (), ?c1)" by (simp add: getToken_def update_ctx_def)
  from run_tasks_first(1)[OF run this]
  have run1: "run_tasks (getDownlinkFrame K # decodePHYPayload K # drop 3 (handleDownlinkTXAckTasks K)) ?c1 = (r, c')" by simp
  obtain r2 c2 where get: "getDownlinkFrame K ?c1 = (r2, c2)" by fastforce
  have c2: "w_Redis c2 = w_Redis c" "r2 = Inr () \<longrightarrow> ack_dev_eui c2 = e \<and> ac_Status c2 = TxAckStatus_OK"
    using get assms(3) by (auto simp: getDownlinkFrame_def Let_def ack_dev_eui_def split: sum.splits if_splits)
  show ?thesis
  proof (cases "r2 = Inr ()")
    case False
    then have "c' = c2" using run_tasks_first(2)[OF run1 get] by simp
    then show ?thesis using c2(1) assms(2) by (simp add: counters_are_def counter_view_def)
  next
    case True
    then have "run_tasks (decodePHYPayload K # drop 3 (handleDownlinkTXAckTasks K)) c2 = (r, c')"
      using run_tasks_first(1)[OF run1 get] by simp
    moreover have "frame_known c2" using c2 True assms(2) by (simp add: reporting_def)
    ultimately have "case r of Inl _ \<Rightarrow> unchanged c' | Inr _ \<Rightarrow> frame_known c'"
      using triple_cons[OF calm_known(1)[OF ack_calm(9)] after_decoding] unfolding triple_def by blast
    then show ?thesis using reporting_counters by (auto split: sum.splits)
  qed
qed

end

section \<open>The response to an uplink\<close>

text \<open>The report runs on the same Redis, codecs and time to live; the identifier of the flow is a UUID.\<close>

locale exchange = calm_downlink E holds
  for E :: "('db, 's, 'v) dl_env" and holds :: "'s \<Rightarrow> ('v, eui64) contents" +
  assumes shared: "k_Redis (n_ack E) = n_Redis E" "k_Sessions (n_ack E) = n_Sessions E" "k_TTL (n_ack E) = n_TTL E"
      "k_Frames (n_ack E) = n_Frames E"
    and frames: "codec_ok (n_Frames E)" and ctxID: "length (n_ctxID E) = 16"
begin

definition flow_token :: u16 where
  "flow_token = word_rcat (take 2 (n_ctxID E))"

definition has_token :: "('db, 's) dl_context \<Rightarrow> bool" where
  "has_token c \<longleftrightarrow> gd_Token (dx_Frame c) = ucast flow_token \<and> gd_DownlinkId (dx_Frame c) = n_ctxID E"

definition frame_stored :: "eui64 \<Rightarrow> ('db, 's) dl_context \<Rightarrow> bool" where
  "frame_stored e c \<longleftrightarrow> (\<exists>v frame. c_val (holds (w_Redis c)) (downlinkFrameKey (ucast flow_token)) = Some v \<and>
     dec (n_Frames E) v = Inr frame \<and> bytes_eui64 (sf_DevEui frame) = e)"

lemma report_token:
  assumes "has_token c"
  shows "ack_token \<lparr>ta_Token = gd_Token (dx_Frame c), ta_DownlinkId = gd_DownlinkId (dx_Frame c), ta_Error = [], ta_Items = []\<rparr> 0 = flow_token"
proof (cases "gd_Token (dx_Frame c) = 0")
  case True
  then show ?thesis using assms ctxID by (simp add: ack_token_def has_token_def flow_token_def)
next
  case False
  have "ucast (ucast flow_token :: u32) = flow_token" by simp
  then show ?thesis using assms False by (simp add: ack_token_def has_token_def)
qed

lemma prepared:
  assumes "run_tasks [dn_getDeviceProfile E, dn_getServiceProfile E, setDeviceGatewayRXInfo E, selectDownlinkGateway E,
      setDataTXInfo E, setToken E, getNextDeviceQueueItem E, setMACCommands E, stopOnNothingToSend, setPHYPayloads E] c = (r, c')"
  shows "kept_base holds c' = kept_base holds c" and "r = Inr () \<Longrightarrow> has_token c'"
proof -
  have "calm (kept_base holds) (run_tasks [dn_getDeviceProfile E, dn_getServiceProfile E, setDeviceGatewayRXInfo E, selectDownlinkGateway E,
      setDataTXInfo E, setToken E, getNextDeviceQueueItem E, setMACCommands E, stopOnNothingToSend, setPHYPayloads E])"
    by (rule calm_run_tasks) (auto intro: calm_base calm_select calm_in_flow calm_setToken calm_setMACCommands calm_setDataTXInfo)
  from calmD[OF this assms] show "kept_base holds c' = kept_base holds c" .
next
  assume r: "r = Inr ()"
  let ?tasks = "[getNextDeviceQueueItem E, setMACCommands E, stopOnNothingToSend, setPHYPayloads E]"
  obtain c1 where 1: "run_tasks (setToken E # ?tasks) c1 = (Inr (), c')"
    using assms r run_tasks_append[of "[dn_getDeviceProfile E, dn_getServiceProfile E, setDeviceGatewayRXInfo E,
        selectDownlinkGateway E, setDataTXInfo E]" "setToken E # ?tasks" c]
    by (auto split: prod.splits sum.splits)
  obtain c2 where 2: "setToken E c1 = (Inr (), c2)" "has_token c2"
    by (simp add: setToken_def update_ctx_def has_token_def flow_token_def)
  have "run_tasks ?tasks c2 = (Inr (), c')" using run_tasks_first(1)[OF 1 2(1)] by simp
  moreover have "calm (kept holds) (run_tasks ?tasks)"
    by (rule calm_run_tasks) (auto intro: calm_in_flow calm_setMACCommands)
  ultimately have "kept holds c' = kept holds c2" by (rule calmD[rotated])
  from kept_gateway(2,3)[OF this] show "has_token c'" using 2(2) by (simp add: has_token_def)
qed

lemma frame_saved:
  assumes "dn_saveDownlinkFrame E c = (Inr (), c')" and "has_token c"
  shows "frame_stored (ds_DevEUI (dx_DeviceSession c)) c'"
proof -
  obtain s where s: "SaveDownlinkFrame (n_Redis E) (n_Frames E) (sent_frame c) (w_Redis c) = (Inr (), s)" "c' = c\<lparr>w_Redis := s\<rparr>"
    using assms(1) by (auto simp: dn_saveDownlinkFrame_def wrapping_ok on_Redis_ok)
  then obtain v where v: "enc (n_Frames E) (sent_frame c) = Inr v"
    "rd_Set (n_Redis E) (downlinkFrameKey (sf_Token (sent_frame c))) v downlinkFrameTTL (w_Redis c) = (Inr (), s)"
    by (auto simp: SaveDownlinkFrame_def split: sum.splits prod.splits)
  have "c_val (holds s) (downlinkFrameKey (sf_Token (sent_frame c))) = Some v"
    using Set[OF v(2)] by (auto simp: executed_def downlinkFrameTTL_def)
  moreover have "sf_Token (sent_frame c) = ucast flow_token" using assms(2) by (simp add: sent_frame_def Let_def has_token_def)
  moreover have "bytes_eui64 (sf_DevEui (sent_frame c)) = ds_DevEUI (dx_DeviceSession c)" by (simp add: sent_frame_def Let_def)
  ultimately show ?thesis using s(2) codec_okD[OF frames v(1)] unfolding frame_stored_def by auto
qed

lemma session_saved:
  assumes "dn_saveDeviceSession E c = (r, c')" and "counter_view holds (n_Sessions E) (ds_DevEUI (dx_DeviceSession c)) (ds_FCntUp (dx_DeviceSession c)) (w_Redis c) = (g, True)"
  shows "counter_view holds (n_Sessions E) (ds_DevEUI (dx_DeviceSession c)) (ds_FCntUp (dx_DeviceSession c)) (w_Redis c') = (g, True)"
    and "frame_stored e c' = frame_stored e c" and "\<exists>s. c' = c\<lparr>w_Redis := s\<rparr>"
proof -
  obtain x s where s: "SaveDeviceSession (n_Redis E) (n_Sessions E) (n_TTL E) (dx_DeviceSession c) (w_Redis c) = (x, s)" by fastforce
  have c': "c' = c\<lparr>w_Redis := s\<rparr>" using assms(1) s by (cases x) (auto simp: dn_saveDeviceSession_def wrapping_def on_Redis_def)
  show "counter_view holds (n_Sessions E) (ds_DevEUI (dx_DeviceSession c)) (ds_FCntUp (dx_DeviceSession c)) (w_Redis c') = (g, True)"
    using save_counters[OF s refl refl] assms(2) c' by (auto simp: counter_view_def)
  show "frame_stored e c' = frame_stored e c" using save_other[OF s] c' by (simp add: frame_stored_def)
  show "\<exists>s. c' = c\<lparr>w_Redis := s\<rparr>" using c' by blast
qed

text \<open>Sending does not touch Redis.\<close>

lemma sent_silently:
  assumes "dn_isRoaming b [t] c = (r, c')" and "t \<in> {dn_sendDownlinkFrame E, sendDownlinkFramePassiveRoaming E}"
  shows "w_Redis c' = w_Redis c \<and> dx_Frame c' = dx_Frame c"
proof -
  have calms: "calm (\<lambda>c. (w_Redis c, dx_Frame c)) t"
    using assms(2)
    by (auto simp: calm_def dn_sendDownlinkFrame_def sendDownlinkFramePassiveRoaming_def call_out_def split: if_splits sum.splits option.splits list.splits)
  then have "calm (\<lambda>c. (w_Redis c, dx_Frame c)) (run_tasks [t])" by (intro calm_run_tasks) simp
  from calmD[OF this] show ?thesis
    using assms(1) by (auto simp: dn_isRoaming_def task_when_def split: option.splits if_splits)
qed

lemma reported_partner:
  assumes "dn_handleRoamingTxAck E c = (r, c')" and "has_token c" and "frame_stored e c"
    and "counter_view holds (n_Sessions E) e f (w_Redis c) = (g, True)"
  shows "counters holds (n_Sessions E) (w_Redis c') = g"
proof -
  let ?a = "\<lparr>ta_Token = gd_Token (dx_Frame c), ta_DownlinkId = gd_DownlinkId (dx_Frame c), ta_Error = [], ta_Items = []\<rparr>"
  let ?c0 = "new_ack_context ?a (world.truncate c)"
  obtain x w where run: "HandleRoamingTxAck (n_ack E) ?a ?c0 = (x, w)" by fastforce
  have c': "w_Redis c' = w_Redis w" using assms(1) run by (auto simp: dn_handleRoamingTxAck_def)
  have c0: "w_Redis ?c0 = w_Redis c" "ac_Token ?c0 = 0" by (simp_all add: new_ack_context_def world.defs)
  have rep: "reported (n_ack E) holds" using session_store_axioms shared by (simp add: reported_def)
  have frame: "bytes_eui64 (sf_DevEui fr) = e"
    if "GetDownlinkFrame (k_Redis (n_ack E)) (k_Frames (n_ack E)) (ack_token ?a (ac_Token ?c0)) (w_Redis ?c0) = Inr fr" for fr
    using that assms(3) unfolding c0 report_token[OF assms(2)] shared
    by (auto simp: GetDownlinkFrame_def frame_stored_def split: sum.splits dest!: Get)
  have "counters_are holds (k_Sessions (n_ack E)) g w"
    by (rule reported.roaming_report[OF rep run _ frame]) (use assms(4) shared c0 in simp_all)
  then show ?thesis using c' shared by (simp add: counters_are_def)
qed

lemma answered_silently:
  assumes "run_tasks [dn_isRoaming False [dn_sendDownlinkFrame E], dn_isRoaming True [sendDownlinkFramePassiveRoaming E],
      dn_isRoaming True [dn_handleRoamingTxAck E]] c = (r, c')"
    and "has_token c" "frame_stored e c" "counter_view holds (n_Sessions E) e f (w_Redis c) = (g, True)"
  shows "counters holds (n_Sessions E) (w_Redis c') = g"
proof -
  have g: "counters holds (n_Sessions E) (w_Redis c) = g" using assms(4) by (simp add: counter_view_def)
  obtain r1 c1 where 1: "dn_isRoaming False [dn_sendDownlinkFrame E] c = (r1, c1)" by fastforce
  have s1: "w_Redis c1 = w_Redis c" "dx_Frame c1 = dx_Frame c" using sent_silently[OF 1] by simp_all
  obtain r2 c2 where 2: "dn_isRoaming True [sendDownlinkFramePassiveRoaming E] c1 = (r2, c2)" by fastforce
  have s2: "w_Redis c2 = w_Redis c" "dx_Frame c2 = dx_Frame c" using sent_silently[OF 2] s1 by simp_all
  note first = run_tasks_first[OF assms(1) 1]
  show ?thesis
  proof (cases "r1 = Inr ()")
    case False
    then show ?thesis using first(2) s1 g by simp
  next
    case True
    note second = run_tasks_first[OF first(1)[rule_format, OF True] 2]
    show ?thesis
    proof (cases "r2 = Inr ()")
      case False
      then show ?thesis using second(2) s2 g by simp
    next
      case True
      obtain r3 c3 where 3: "dn_isRoaming True [dn_handleRoamingTxAck E] c2 = (r3, c3)" by fastforce
      have "c' = c3"
        using run_tasks_first[OF second(1)[rule_format, OF True] 3] by (cases "r3 = Inr ()") (auto simp: run_tasks_ok run_tasks.simps)
      moreover have "c3 = c2 \<or> (\<exists>r. dn_handleRoamingTxAck E c2 = (r, c3))"
      proof -
        obtain r4 c4 where 4: "dn_handleRoamingTxAck E c2 = (r4, c4)" by fastforce
        have "run_tasks [dn_handleRoamingTxAck E] c2 = (r4, c4)" using 4 by (cases r4) (simp_all add: run_tasks.simps)
        then show ?thesis using 3 4 by (auto simp: dn_isRoaming_def task_when_def split: option.splits if_splits)
      qed
      moreover have "has_token c2" "frame_stored e c2" "counter_view holds (n_Sessions E) e f (w_Redis c2) = (g, True)"
        using assms(2-4) s2 by (simp_all add: has_token_def frame_stored_def)
      ultimately show ?thesis using reported_partner s2 g by auto
    qed
  qed
qed

lemma response_counters:
  assumes "run_tasks (responseTasks E) c = (r, c')"
    and "stored_at holds (n_Sessions E) (w_Redis c) (ds_DevEUI (dx_DeviceSession c)) (ds_FCntUp (dx_DeviceSession c))"
  shows "counters holds (n_Sessions E) (w_Redis c') = counters holds (n_Sessions E) (w_Redis c)"
proof -
  let ?e = "ds_DevEUI (dx_DeviceSession c)" and ?f = "ds_FCntUp (dx_DeviceSession c)"
  define g where "g = counters holds (n_Sessions E) (w_Redis c)"
  let ?pre = "[dn_getDeviceProfile E, dn_getServiceProfile E, setDeviceGatewayRXInfo E, selectDownlinkGateway E,
      setDataTXInfo E, setToken E, getNextDeviceQueueItem E, setMACCommands E, stopOnNothingToSend, setPHYPayloads E]"
  let ?last = "[dn_isRoaming False [dn_sendDownlinkFrame E], dn_isRoaming True [sendDownlinkFramePassiveRoaming E],
      dn_isRoaming True [dn_handleRoamingTxAck E]]"
  have view: "counter_view holds (n_Sessions E) ?e ?f (w_Redis c) = (g, True)"
    using assms(2) by (simp add: counter_view_def g_def)
  have "run_tasks (?pre @ dn_saveDownlinkFrame E # dn_saveDeviceSession E # ?last) c = (r, c')"
    using assms(1) by (simp add: responseTasks_def)
  then have "counters holds (n_Sessions E) (w_Redis c') = g"
  proof (cases rule: run_tasks_split)
    case (1 x)
    then show ?thesis using kept_counters[of holds "w_Redis c'" "w_Redis c"] prepared(1)[OF 1] view
      by (simp add: kept_base_def counter_view_def)
  next
    case (2 c1)
    note k1 = prepared(1)[OF 2(1)] and t1 = prepared(2)[OF 2(1) refl]
    have v1: "counter_view holds (n_Sessions E) ?e ?f (w_Redis c1) = (g, True)"
      using kept_counters[of holds "w_Redis c1" "w_Redis c"] k1 view by (simp add: kept_base_def)
    obtain r2 c2 where s2: "dn_saveDownlinkFrame E c1 = (r2, c2)" by fastforce
    have k2: "kept holds c2 = kept holds c1" using calmD[OF calm_saveDownlinkFrame s2] .
    have kb2: "kept_base holds c2 = kept_base holds c" using k1 k2 by (simp add: kept_def)
    have v2: "counter_view holds (n_Sessions E) ?e ?f (w_Redis c2) = (g, True)"
      using kept_counters[of holds "w_Redis c2" "w_Redis c"] kb2 view by (simp add: kept_base_def)
    note first = run_tasks_first[OF 2(2) s2]
    show ?thesis
    proof (cases "r2 = Inr ()")
      case False
      then show ?thesis using first(2) v2 by (simp add: counter_view_def)
    next
      case True
      have stored: "frame_stored ?e c2" using frame_saved[OF s2[unfolded True] t1] kept_fields(1)[OF k1] by simp
      have t2: "has_token c2" using t1 kept_gateway(2,3)[OF k2] by (simp add: has_token_def)
      obtain r3 c3 where s3: "dn_saveDeviceSession E c2 = (r3, c3)" by fastforce
      have f2: "ds_DevEUI (dx_DeviceSession c2) = ?e" "ds_FCntUp (dx_DeviceSession c2) = ?f" using kept_fields(1,3)[OF kb2] by simp_all
      have v3: "counter_view holds (n_Sessions E) ?e ?f (w_Redis c3) = (g, True)" "frame_stored ?e c3"
        using session_saved(1,2)[OF s3, unfolded f2, OF v2] stored by simp_all
      have t3: "has_token c3" using session_saved(3)[OF s3, unfolded f2, OF v2] t2 by (auto simp: has_token_def)
      note second = run_tasks_first[OF first(1)[rule_format, OF True] s3]
      show ?thesis
      proof (cases "r3 = Inr ()")
        case False
        then show ?thesis using second(2) v3 by (simp add: counter_view_def)
      next
        case True
        show ?thesis by (rule answered_silently[OF second(1)[rule_format, OF True] t3 v3(2,1)])
      qed
    qed
  qed
  then show ?thesis by (simp add: g_def)
qed

end

interpretation sample_exchange: exchange sample_dl_env mem_holds
  by (intro exchange.intro sample_downlink.calm_downlink_axioms exchange_axioms.intro)
    (simp_all add: sample_ack_env_def value_codecs_ok)

interpretation sample_reported: reported sample_ack_env mem_holds 7 5 "\<lambda>_. Some 5"
  using memory_sessions.session_store_axioms by (simp add: reported_def sample_ack_env_def)

section \<open>The exchange\<close>

lemma fcnt_at_counters: "fcnt_at holds U s = counters holds (u_Sessions U) s"
  by (simp add: fcnt_at_def counters_def fun_eq_iff)

lemma response_keeps_counters:
  assumes "exchange D holds" and "HandleResponse D q sp ds a b k ms w = (x, w')"
    and "stored_for holds (n_Sessions D) (w_Redis w) ds"
  shows "counters holds (n_Sessions D) (w_Redis w') = counters holds (n_Sessions D) (w_Redis w)"
proof -
  let ?c = "(new_dl_context ds w)\<lparr>dx_ServiceProfile := sp, dx_ACK := k, dx_MustSend := b, dx_RXPacket := Some q, dx_MACCommands := ms\<rparr>"
  obtain y c' where run: "run_tasks (responseTasks D) ?c = (y, c')" and w': "w' = world.truncate c'"
    using assms(2) by (auto simp: HandleResponse_def dest!: flow_handle_tasks split: prod.splits)
  have c: "w_Redis ?c = w_Redis w" "dx_DeviceSession ?c = ds" by (simp_all add: new_dl_context_def)
  have "counters holds (n_Sessions D) (w_Redis c') = counters holds (n_Sessions D) (w_Redis ?c)"
    by (rule exchange.response_counters[OF assms(1) run]) (use assms(3) c in \<open>simp add: stored_for_at\<close>)
  then show ?thesis using c(1) by (simp add: w' world.defs)
qed

text \<open>
  C28: an uplink and its answer. The uplink flow with the server's own response flow: when a frame was
  accepted at the counter \<open>f\<close> for a device that is not disabled, a gateway open to its
  service-profile heard it, and the flow returns without an error, then after everything the answer
  did (a saved session, pending commands, a re-encrypted queue, a frame sent or handed to a roaming
  partner and counted) the stored session of the device expects \<open>f + 1\<close> next.
\<close>

theorem answered_uplink_advances_the_session:
  assumes "exchange D holds" and "session_store (u_Redis U) holds (u_Sessions U) (u_TTL U)" and "frame_library_ok U"
    and "u_Sessions U = n_Sessions D" and "u_HandleResponse U = HandleResponse D"
    and "phy_MACPayload (rp_PHYPayload p) = Some (MACFrame pl)"
    and "\<not> IsRoamingDevAddr (u_roamingEnabled U) (u_IsNetID U) (mf_DevAddr pl)"
    and "rp_TXInfo p = Some t" and "u_UplinkChannelIndex U (ut_Frequency t) (rp_DR p) = Inr ch"
    and "GetDeviceSessionForPHYPayload (u_Redis U) (u_Sessions U) (u_validate U (rp_PHYPayload p))
           (MACPayload (mf_DevAddr pl) (mf_FCnt pl)) (rp_DR p) ch (w_Redis c) = ((f, Inr (ds, None)), s)"
    and "\<not> ds_IsDisabled ds" and "heard_openly U (ds_ServiceProfileID ds) p"
    and "Handle U p c = (Inr (), c')"
  shows "fcnt_at holds U (w_Redis c') (ds_DevEUI ds) = Some (f + 1)"
proof -
  have "responses_keep_fcnt holds U"
    unfolding responses_keep_fcnt_def
  proof (intro allI impI)
    fix q sp d a b k ms w x w' e
    assume stored: "stored_for holds (u_Sessions U) (w_Redis w) d" and run: "u_HandleResponse U q sp d a b k ms w = (x, w')"
    have "counters holds (n_Sessions D) (w_Redis w') = counters holds (n_Sessions D) (w_Redis w)"
      using response_keeps_counters[OF assms(1), of q sp d a b k ms w x w'] stored run assms(4,5) by simp
    then show "fcnt_at holds U (w_Redis w') e = fcnt_at holds U (w_Redis w) e"
      by (simp add: fcnt_at_counters assms(4))
  qed
  then show ?thesis using processed_uplink_advances_the_session[OF assms(2,3,6-12) _ assms(13)] by blast
qed

text \<open>A frame of device 7 that came through a roaming partner, answered by the response flow.\<close>

definition exchange_env :: "(memory_db, memory, redis_value, roaming_meta) up_env" where
  "exchange_env = sample_up_env\<lparr>u_HandleResponse := HandleResponse sample_dl_env\<rparr>"

definition forwarded_uplink :: "roaming_meta up_packet" where
  "forwarded_uplink = sample_uplink\<lparr>rp_RoamingMetaData := Some \<lparr>rm_SenderID = ''010203'', rm_FNSULToken = [], rm_GWInfo = []\<rparr>\<rparr>"

theorem answered_uplink_advances_the_session_witness:
  "\<exists>c'. Handle exchange_env forwarded_uplink sample_up_context = (Inr (), c') \<and>
     fcnt_at mem_holds exchange_env (w_Redis c') 7 = Some 6"
proof -
  obtain c' where c': "Handle exchange_env forwarded_uplink sample_up_context = (Inr (), c')"
    unfolding exchange_env_def forwarded_uplink_def by (rule exE[OF sample_roaming_uplink_runs])
  have store: "session_store (u_Redis exchange_env) mem_holds (u_Sessions exchange_env) (u_TTL exchange_env)"
    using memory_7_store by (simp add: exchange_env_def)
  have "fcnt_at mem_holds exchange_env (w_Redis c') (ds_DevEUI device_7) = Some (5 + 1)"
    by (rule answered_uplink_advances_the_session[OF sample_exchange.exchange_axioms store _ _ _ _ _ _ _ _ _ _ c',
          of sample_uplink_frame _ 0 5 device_7 memory_7])
      (auto simp: exchange_env_def forwarded_uplink_def frame_library_ok_def sample_uplink_def IsRoamingDevAddr_def sample_uplink_frame_def
        sample_up_context_def sample_uplink_lookup heard_openly_def gateway_is_private_def gomap_get_def)
  then show ?thesis using c' by simp
qed

end
