(* ===== verification/Multicast.thy ===== *)
theory Multicast
  imports MinGateway ClassB SessionStore Database DeviceQueue
begin

text \<open>
  Multicast groups and their queue (\<open>internal/storage/multicast_group.go\<close>,
  \<open>device_multicast_group.go\<close>) and the enqueueing of a multicast downlink
  (\<open>internal/downlink/multicast/enqueue.go\<close>): one queue-item for every gateway of the minimum
  gateway set, staggered in time for Class-C and at successive ping slots for Class-B.
\<close>

section \<open>Groups\<close>

record multicast_group =
  mg_ID :: uuid
  mg_CreatedAt :: instant
  mg_UpdatedAt :: instant
  mg_MCAddr :: devaddr
  mg_MCNwkSKey :: aeskey
  mg_FCnt :: u32
  mg_GroupType :: string
  mg_DR :: int
  mg_Frequency :: u32
  mg_PingSlotPeriod :: int
  mg_RoutingProfileID :: uuid
  mg_ServiceProfileID :: uuid

definition MulticastGroupB :: string where "MulticastGroupB = ''B''"
definition MulticastGroupC :: string where "MulticastGroupC = ''C''"

definition CreateMulticastGroup ::
  "('db, multicast_group) table \<Rightarrow> uuid res \<Rightarrow> multicast_group \<Rightarrow> instant \<Rightarrow> 'db \<Rightarrow> multicast_group res \<times> 'db" where
  "CreateMulticastGroup G newV4 mg now db =
     (let mg = mg\<lparr>mg_CreatedAt := now, mg_UpdatedAt := now\<rparr> in
      case (if mg_ID mg = 0 then newV4 else Inr (mg_ID mg)) of
        Inl e \<Rightarrow> (Inl (Wrap e ''new uuid v4 error''), db)
      | Inr i \<Rightarrow>
          let mg = mg\<lparr>mg_ID := i\<rparr> in
          (case sqlx_Insert G mg db of (Inl e, db) \<Rightarrow> (Inl e, db) | (Inr _, db) \<Rightarrow> (Inr mg, db)))"

definition GetMulticastGroup :: "('db, multicast_group) table \<Rightarrow> uuid \<Rightarrow> 'db \<Rightarrow> multicast_group res" where
  "GetMulticastGroup G i db = sqlx_Get G (filter (\<lambda>r. mg_ID r = i)) db"

definition UpdateMulticastGroup ::
  "('db, multicast_group) table \<Rightarrow> multicast_group \<Rightarrow> instant \<Rightarrow> 'db \<Rightarrow> unit res \<times> 'db" where
  "UpdateMulticastGroup G mg now db =
     affected (tb_update G (\<lambda>r. mg_ID r = mg_ID mg)
                 (\<lambda>r. mg\<lparr>mg_CreatedAt := mg_CreatedAt r, mg_UpdatedAt := now\<rparr>) db) ''update error''"

definition DeleteMulticastGroup :: "('db, multicast_group) table \<Rightarrow> uuid \<Rightarrow> 'db \<Rightarrow> unit res \<times> 'db" where
  "DeleteMulticastGroup G i db = affected (tb_delete G (\<lambda>r. mg_ID r = i) db) ''delete error''"

section \<open>Members\<close>

record multicast_member =
  mm_DevEUI :: eui64
  mm_GroupID :: uuid
  mm_CreatedAt :: instant

definition AddDeviceToMulticastGroup ::
  "('db, multicast_member) table \<Rightarrow> eui64 \<Rightarrow> uuid \<Rightarrow> instant \<Rightarrow> 'db \<Rightarrow> unit res \<times> 'db" where
  "AddDeviceToMulticastGroup M devEUI i now db =
     (case sqlx_Insert M \<lparr>mm_DevEUI = devEUI, mm_GroupID = i, mm_CreatedAt = now\<rparr> db of
        (Inl e, db) \<Rightarrow> (Inl e, db)
      | (Inr _, db) \<Rightarrow> (Inr (), db))"

definition RemoveDeviceFromMulticastGroup ::
  "('db, multicast_member) table \<Rightarrow> eui64 \<Rightarrow> uuid \<Rightarrow> 'db \<Rightarrow> unit res \<times> 'db" where
  "RemoveDeviceFromMulticastGroup M devEUI i db =
     affected (tb_delete M (\<lambda>r. mm_DevEUI r = devEUI \<and> mm_GroupID r = i) db) ''delete error''"

definition GetMulticastGroupsForDevEUI :: "('db, multicast_member) table \<Rightarrow> eui64 \<Rightarrow> 'db \<Rightarrow> uuid list res" where
  "GetMulticastGroupsForDevEUI M devEUI db =
     sqlx_Select M (\<lambda>rs. map mm_GroupID (filter (\<lambda>r. mm_DevEUI r = devEUI) rs)) db"

definition GetDevEUIsForMulticastGroup :: "('db, multicast_member) table \<Rightarrow> uuid \<Rightarrow> 'db \<Rightarrow> eui64 list res" where
  "GetDevEUIsForMulticastGroup M i db =
     sqlx_Select M (\<lambda>rs. map mm_DevEUI (filter (\<lambda>r. mm_GroupID r = i) rs)) db"

section \<open>The queue\<close>

record multicast_item =
  mi_ID :: int
  mi_CreatedAt :: instant
  mi_UpdatedAt :: instant
  mi_ScheduleAt :: instant
  mi_EmitAtTimeSinceGPSEpoch :: "duration option"
  mi_MulticastGroupID :: uuid
  mi_GatewayID :: eui64
  mi_FCnt :: u32
  mi_FPort :: byte
  mi_FRMPayload :: "byte list"
  mi_RetryAfter :: "instant option"

type_synonym 'db multicast_queue = "('db, multicast_item) table"

definition mc_Validate :: "multicast_item \<Rightarrow> unit res" where
  "mc_Validate m = (if mi_FPort m = 0 then Inl ErrInvalidFPort else Inr ())"

definition CreateMulticastQueueItem ::
  "'db multicast_queue \<Rightarrow> multicast_item \<Rightarrow> instant \<Rightarrow> 'db \<Rightarrow> multicast_item res \<times> 'db" where
  "CreateMulticastQueueItem Q qi now db =
     (case mc_Validate qi of
        Inl e \<Rightarrow> (Inl e, db)
      | Inr _ \<Rightarrow>
          let qi = qi\<lparr>mi_CreatedAt := now, mi_UpdatedAt := now\<rparr> in
          (case sqlx_Insert Q qi db of
             (Inl e, db) \<Rightarrow> (Inl e, db)
           | (Inr r, db) \<Rightarrow> (Inr (qi\<lparr>mi_ID := mi_ID r\<rparr>), db)))"

definition GetMulticastQueueItem :: "'db multicast_queue \<Rightarrow> int \<Rightarrow> 'db \<Rightarrow> multicast_item res" where
  "GetMulticastQueueItem Q i db = sqlx_Get Q (filter (\<lambda>r. mi_ID r = i)) db"

definition UpdateMulticastQueueItem ::
  "'db multicast_queue \<Rightarrow> multicast_item \<Rightarrow> instant \<Rightarrow> 'db \<Rightarrow> unit res \<times> 'db" where
  "UpdateMulticastQueueItem Q qi now db =
     affected (tb_update Q (\<lambda>r. mi_ID r = mi_ID qi)
                 (\<lambda>r. qi\<lparr>mi_CreatedAt := mi_CreatedAt r, mi_UpdatedAt := now\<rparr>) db) ''update error''"

definition DeleteMulticastQueueItem :: "'db multicast_queue \<Rightarrow> int \<Rightarrow> 'db \<Rightarrow> unit res \<times> 'db" where
  "DeleteMulticastQueueItem Q i db = affected (tb_delete Q (\<lambda>r. mi_ID r = i) db) ''delete error''"

definition FlushMulticastQueueForMulticastGroup :: "'db multicast_queue \<Rightarrow> uuid \<Rightarrow> 'db \<Rightarrow> unit res \<times> 'db" where
  "FlushMulticastQueueForMulticastGroup Q i db =
     executed_any (tb_delete Q (\<lambda>r. mi_MulticastGroupID r = i) db) ''delete error''"

definition GetMulticastQueueItemsForMulticastGroup ::
  "'db multicast_queue \<Rightarrow> uuid \<Rightarrow> 'db \<Rightarrow> multicast_item list res" where
  "GetMulticastQueueItemsForMulticastGroup Q i db =
     sqlx_Select Q (\<lambda>rs. sort_key mi_ID (filter (\<lambda>r. mi_MulticastGroupID r = i) rs)) db"

text \<open>\<open>locked\<close> are the rows another instance is working on (\<open>skip locked\<close>).\<close>

definition GetSchedulableMulticastQueueItems ::
  "'db multicast_queue \<Rightarrow> (int \<Rightarrow> bool) \<Rightarrow> nat \<Rightarrow> instant \<Rightarrow> 'db \<Rightarrow> multicast_item list res" where
  "GetSchedulableMulticastQueueItems Q locked n now db =
     sqlx_Select Q (\<lambda>rs. take n (filter (\<lambda>r. \<not> locked (mi_ID r))
       (sort_key mi_ID (filter (\<lambda>r. mi_ScheduleAt r \<le> now) rs)))) db"

fun max_of :: "int list \<Rightarrow> int option" where
  "max_of [] = None"
| "max_of (t # ts) = Some (fold max ts t)"

definition GetMaxEmitAtTimeSinceGPSEpochForMulticastGroup ::
  "'db multicast_queue \<Rightarrow> uuid \<Rightarrow> 'db \<Rightarrow> duration res" where
  "GetMaxEmitAtTimeSinceGPSEpochForMulticastGroup Q i db =
     sqlx_Get Q (\<lambda>rs. [case max_of (List.map_filter mi_EmitAtTimeSinceGPSEpoch (filter (\<lambda>r. mi_MulticastGroupID r = i) rs)) of
       None \<Rightarrow> 0 | Some t \<Rightarrow> t]) db"

definition GetMaxScheduleAtForMulticastGroup :: "'db multicast_queue \<Rightarrow> uuid \<Rightarrow> 'db \<Rightarrow> instant res" where
  "GetMaxScheduleAtForMulticastGroup Q i db =
     (case sqlx_Get Q (\<lambda>rs. [max_of (map mi_ScheduleAt (filter (\<lambda>r. mi_MulticastGroupID r = i) rs))]) db of
        Inl e \<Rightarrow> Inl e
      | Inr (Some ts) \<Rightarrow> Inr ts
      | Inr None \<Rightarrow> Inr zero_time)"

section \<open>Enqueueing\<close>

record ('db, 's, 'v) mc_env =
  m_Groups :: "('db, multicast_group) table"
  m_Members :: "('db, multicast_member) table"
  m_Queue :: "'db multicast_queue"
  m_Redis :: "('s, 'v, eui64) redis"
  m_RxInfo :: "'v rx_info_codec"
  m_kruskal :: spanning_forest
  m_order :: "eui64 list \<Rightarrow> eui64 list"
  m_Band :: band
  m_installationMargin :: rat
  m_gatewayDelay :: duration
  m_schedulerInterval :: duration
  m_aes :: "byte list \<Rightarrow> byte list \<Rightarrow> nat \<Rightarrow> byte"
  m_marshal_addr :: "devaddr \<Rightarrow> byte list res"

definition ErrInvalidFCnt :: error where "ErrInvalidFCnt = Errorf ''invalid frame-counter value''"

definition classBEnqueueMargin :: duration where "classBEnqueueMargin = 5 * second"

fun enqueue_class_c ::
  "('db, 's, 'v) mc_env \<Rightarrow> instant \<Rightarrow> multicast_item \<Rightarrow> instant \<Rightarrow> eui64 list \<Rightarrow> 'db \<Rightarrow> unit res \<times> 'db" where
  "enqueue_class_c E now qi ts [] db = (Inr (), db)"
| "enqueue_class_c E now qi ts (g # gs) db =
     (case CreateMulticastQueueItem (m_Queue E) (qi\<lparr>mi_GatewayID := g, mi_ScheduleAt := ts\<rparr>) now db of
        (Inl e, db) \<Rightarrow> (Inl (Wrap e ''create multicast queue-item error''), db)
      | (Inr qi, db) \<Rightarrow> enqueue_class_c E now qi (ts + m_gatewayDelay E) gs db)"

text \<open>\<open>None\<close> is a ping-slot search that does not end.\<close>

fun enqueue_class_b ::
  "('db, 's, 'v) mc_env \<Rightarrow> instant \<Rightarrow> devaddr \<Rightarrow> int \<Rightarrow> multicast_item \<Rightarrow> duration \<Rightarrow> eui64 list \<Rightarrow> 'db \<Rightarrow>
   (unit res \<times> 'db) option" where
  "enqueue_class_b E now addr pingSlotNb qi scheduleTS [] db = Some (Inr (), db)"
| "enqueue_class_b E now addr pingSlotNb qi scheduleTS (g # gs) db =
     (case GetNextPingSlotAfter (m_aes E) (m_marshal_addr E) scheduleTS addr pingSlotNb of
        None \<Rightarrow> None
      | Some (Inl e) \<Rightarrow> Some (Inl (Wrap e ''get next ping-slot after error''), db)
      | Some (Inr scheduleTS) \<Rightarrow>
         (case CreateMulticastQueueItem (m_Queue E)
                 (qi\<lparr>mi_EmitAtTimeSinceGPSEpoch := Some scheduleTS,
                    mi_ScheduleAt := NewFromTimeSinceGPSEpoch scheduleTS + go_int64 (- 2 * m_schedulerInterval E),
                    mi_GatewayID := g\<rparr>) now db of
            (Inl e, db) \<Rightarrow> Some (Inl (Wrap e ''create multicast queue-item error''), db)
          | (Inr qi, db) \<Rightarrow> enqueue_class_b E now addr pingSlotNb qi scheduleTS gs db))"

text \<open>Which gateways are to send.\<close>

definition multicast_gateways :: "('db, 's, 'v) mc_env \<Rightarrow> uuid \<Rightarrow> 's \<Rightarrow> 'db \<Rightarrow> eui64 list res" where
  "multicast_gateways E i s db =
     (case GetDevEUIsForMulticastGroup (m_Members E) i db of
        Inl e \<Rightarrow> Inl (Wrap e ''get deveuis for multicast-group error'')
      | Inr devEUIs \<Rightarrow>
         (case GetDeviceGatewayRXInfoSetForDevEUIs (m_Redis E) (m_RxInfo E) devEUIs s of
            Inl e \<Rightarrow> Inl (Wrap e ''get device gateway rx-info set for deveuis errors'')
          | Inr rxInfoSets \<Rightarrow>
             (case GetMinimumGatewaySet (m_kruskal E) (m_order E) (m_Band E) (m_installationMargin E) rxInfoSets of
                Inl e \<Rightarrow> Inl (Wrap e ''get minimum gateway set error'')
              | Inr gatewayIDs \<Rightarrow> Inr gatewayIDs)))"

definition enqueue_for_gateways ::
  "('db, 's, 'v) mc_env \<Rightarrow> instant \<Rightarrow> multicast_group \<Rightarrow> multicast_item \<Rightarrow> eui64 list \<Rightarrow> 'db \<Rightarrow> (unit res \<times> 'db) option" where
  "enqueue_for_gateways E now mg qi gatewayIDs db =
     (if mg_GroupType mg = MulticastGroupC then
        (case GetMaxScheduleAtForMulticastGroup (m_Queue E) (mg_ID mg) db of
           Inl e \<Rightarrow> Some (Inl (Wrap e ''get maximum schedule at error''), db)
         | Inr ts \<Rightarrow>
             Some (enqueue_class_c E now qi (if ts = zero_time then now else ts + m_gatewayDelay E) gatewayIDs db))
      else if mg_GroupType mg = MulticastGroupB then
        (let pingSlotNb = (if mg_PingSlotPeriod mg \<noteq> 0 then go_div 4096 (mg_PingSlotPeriod mg) else 0) in
         case GetMaxEmitAtTimeSinceGPSEpochForMulticastGroup (m_Queue E) (mg_ID mg) db of
           Inl e \<Rightarrow> Some (Inl (Wrap e ''get maximum emit at time since gps epoch error''), db)
         | Inr scheduleTS \<Rightarrow>
             enqueue_class_b E now (mg_MCAddr mg) pingSlotNb qi
               (if scheduleTS = 0 then TimeSinceGPSEpoch (now + classBEnqueueMargin) else scheduleTS) gatewayIDs db)
      else Some (Inr (), db))"

definition EnqueueQueueItem ::
  "('db, 's, 'v) mc_env \<Rightarrow> multicast_item \<Rightarrow> instant \<Rightarrow> 's \<Rightarrow> 'db \<Rightarrow> (unit res \<times> 'db) option" where
  "EnqueueQueueItem E qi now s db =
     (case GetMulticastGroup (m_Groups E) (mi_MulticastGroupID qi) db of
        Inl e \<Rightarrow> Some (Inl (Wrap e ''get multicast-group error''), db)
      | Inr mg \<Rightarrow>
          if mi_FCnt qi < mg_FCnt mg then Some (Inl ErrInvalidFCnt, db)
          else let mg = mg\<lparr>mg_FCnt := mi_FCnt qi + 1\<rparr> in
            (case UpdateMulticastGroup (m_Groups E) mg now db of
               (Inl e, db) \<Rightarrow> Some (Inl (Wrap e ''update multicast-group error''), db)
             | (Inr _, db) \<Rightarrow>
                (case multicast_gateways E (mi_MulticastGroupID qi) s db of
                   Inl e \<Rightarrow> Some (Inl e, db)
                 | Inr gatewayIDs \<Rightarrow> enqueue_for_gateways E now mg qi gatewayIDs db)))"

section \<open>The tables behind it\<close>

context slot_scheduler begin

lemma schedule_steps:
  assumes "schedule margin t ss" and "k < length ss"
  shows "next_slot ((t # ss) ! k + margin) = Some (Inr (ss ! k))"
  using assms by (induction arbitrary: k rule: schedule.induct) (auto simp: nth_Cons split: nat.splits)

end


text \<open>
  The columns that come back as they were written. Timestamps have microseconds; a statement on one
  table leaves the rows of the other alone.
\<close>

definition mi_columns :: "multicast_item \<Rightarrow> uuid \<times> eui64 \<times> u32 \<times> byte \<times> byte list \<times> duration option" where
  "mi_columns r = (mi_MulticastGroupID r, mi_GatewayID r, mi_FCnt r, mi_FPort r, mi_FRMPayload r, mi_EmitAtTimeSinceGPSEpoch r)"

lemma mi_columns_simps [simp]:
  "mi_columns (r\<lparr>mi_ID := k\<rparr>) = mi_columns r" "mi_columns (r\<lparr>mi_CreatedAt := t\<rparr>) = mi_columns r"
  "mi_columns (r\<lparr>mi_UpdatedAt := t\<rparr>) = mi_columns r" "mi_columns (r\<lparr>mi_ScheduleAt := t\<rparr>) = mi_columns r"
  by (simp_all add: mi_columns_def)

lemma max_of_greatest: "u \<in> set ts \<Longrightarrow> max_of ts = Some m \<Longrightarrow> u \<le> m"
proof (cases ts)
  case (Cons t ts')
  assume "u \<in> set ts" "max_of ts = Some m"
  then have "m = Max (set (t # ts'))" using Cons by (simp add: Max.set_eq_fold del: set_simps(2))
  then show "u \<le> m" using \<open>u \<in> set ts\<close> Cons by simp
qed simp

text \<open>A sequence of requests, and the ones that were accepted.\<close>

fun run_enqueues ::
  "('db, 's, 'v) mc_env \<Rightarrow> (multicast_item \<times> instant \<times> 's) list \<Rightarrow> 'db \<Rightarrow> (multicast_item list \<times> 'db) option" where
  "run_enqueues E [] db = Some ([], db)"
| "run_enqueues E ((qi, now, s) # rs) db =
     (case EnqueueQueueItem E qi now s db of
        None \<Rightarrow> None
      | Some (x, db) \<Rightarrow>
         (case run_enqueues E rs db of
            None \<Rightarrow> None
          | Some (accepted, db) \<Rightarrow> Some (case x of Inl _ \<Rightarrow> accepted | Inr _ \<Rightarrow> qi # accepted, db)))"

text \<open>The least counter a group still accepts.\<close>

definition expects :: "('db \<Rightarrow> multicast_group multiset) \<Rightarrow> uuid \<Rightarrow> u32 \<Rightarrow> 'db \<Rightarrow> bool" where
  "expects rows i n db \<longleftrightarrow> (\<forall>r \<in># rows db. mg_ID r = i \<longrightarrow> n \<le> mg_FCnt r)"

locale multicast_db =
  groups: sql_table "m_Groups E" grows gcolumns gkeyed + queue: sql_table "m_Queue E" qrows qcolumns qkeyed
  for E :: "('db, 's, 'v) mc_env" and grows gcolumns gkeyed qrows qcolumns qkeyed +
  assumes group_columns: "mg_ID (gcolumns r) = mg_ID r" "mg_FCnt (gcolumns r) = mg_FCnt r"
    and item_columns: "mi_columns (qcolumns q) = mi_columns q" "\<bar>mi_ScheduleAt (qcolumns q) - mi_ScheduleAt q\<bar> \<le> 1000"
    and item_keyed: "qkeyed q q' \<Longrightarrow> q' = q\<lparr>mi_ID := mi_ID q'\<rparr>"
    and group_rows: "grows (snd (tb_insert (m_Queue E) q db)) = grows db"
    and queue_rows: "qrows (snd (tb_update (m_Groups E) P f db)) = qrows db"
    and member_rows: "tb_scan (m_Members E) (snd (tb_update (m_Groups E) P f db)) = tb_scan (m_Members E) db"
begin

lemma created_item:
  assumes "CreateMulticastQueueItem (m_Queue E) qi now db = (x, db')"
  shows "grows db' = grows db" and "x = Inr qi' \<Longrightarrow> mi_columns qi' = mi_columns qi \<and> mi_FPort qi \<noteq> 0 \<and>
    (\<exists>r. qrows db' = add_mset r (qrows db) \<and> mi_columns r = mi_columns qi \<and> \<bar>mi_ScheduleAt r - mi_ScheduleAt qi\<bar> \<le> 1000)"
proof -
  let ?qi = "qi\<lparr>mi_CreatedAt := now, mi_UpdatedAt := now\<rparr>"
  obtain y db1 where ins: "sqlx_Insert (m_Queue E) ?qi db = (y, db1)" by fastforce
  have "db1 = snd (tb_insert (m_Queue E) ?qi db)"
    using ins by (auto simp: sqlx_Insert_def split: prod.splits sum.splits)
  then have "grows db1 = grows db" using group_rows by simp
  then show "grows db' = grows db"
    using assms ins by (auto simp: CreateMulticastQueueItem_def mc_Validate_def split: sum.splits if_splits)
  assume x: "x = Inr qi'"
  then obtain r where r: "y = Inr r" "qi' = ?qi\<lparr>mi_ID := mi_ID r\<rparr>" "db1 = db'" "mi_FPort qi \<noteq> 0"
    using assms ins by (cases y) (auto simp: CreateMulticastQueueItem_def mc_Validate_def split: if_splits)
  have q: "qkeyed (qcolumns ?qi) r" "qrows db' = add_mset r (qrows db)"
    using queue.inserted[OF ins[unfolded r(1)]] r(3) by auto
  have "r = (qcolumns ?qi)\<lparr>mi_ID := mi_ID r\<rparr>" by (rule item_keyed[OF q(1)])
  then have "mi_columns r = mi_columns (qcolumns ?qi)" "mi_ScheduleAt r = mi_ScheduleAt (qcolumns ?qi)"
    by (metis mi_columns_simps(1), metis multicast_item.select_convs(4) multicast_item.update_convs(1) multicast_item.surjective)
  then show "mi_columns qi' = mi_columns qi \<and> mi_FPort qi \<noteq> 0 \<and>
    (\<exists>r. qrows db' = add_mset r (qrows db) \<and> mi_columns r = mi_columns qi \<and> \<bar>mi_ScheduleAt r - mi_ScheduleAt qi\<bar> \<le> 1000)"
    using q(2) r(2,4) item_columns[of ?qi] by (intro conjI exI[of _ r]) simp_all
qed

lemma class_c_items:
  assumes "enqueue_class_c E now qi ts gs db = (x, db')"
  shows "grows db' = grows db \<and> (x = Inr () \<longrightarrow> (\<exists>items. qrows db' = mset items + qrows db \<and>
    map mi_columns items = map (\<lambda>g. mi_columns (qi\<lparr>mi_GatewayID := g\<rparr>)) gs \<and>
    (\<forall>k < length gs. \<bar>mi_ScheduleAt (items ! k) - (ts + int k * m_gatewayDelay E)\<bar> \<le> 1000)))"
  using assms
proof (induction gs arbitrary: qi ts db)
  case (Cons g gs)
  let ?q = "qi\<lparr>mi_GatewayID := g, mi_ScheduleAt := ts\<rparr>"
  obtain y db1 where c: "CreateMulticastQueueItem (m_Queue E) ?q now db = (y, db1)" by fastforce
  note made = created_item[OF c]
  show ?case
  proof (cases y)
    case (Inl e)
    then show ?thesis using Cons.prems c made(1) by auto
  next
    case (Inr qi1)
    then have run: "enqueue_class_c E now qi1 (ts + m_gatewayDelay E) gs db1 = (x, db')" using Cons.prems c by simp
    note IH = Cons.IH[OF run]
    obtain r where r: "qrows db1 = add_mset r (qrows db)" "mi_columns r = mi_columns ?q"
      "\<bar>mi_ScheduleAt r - ts\<bar> \<le> 1000" "mi_columns qi1 = mi_columns ?q"
      using made(2)[OF Inr] by auto
    have cols: "mi_columns (qi1\<lparr>mi_GatewayID := h\<rparr>) = mi_columns (qi\<lparr>mi_GatewayID := h\<rparr>)" for h
      using r(4) by (simp add: mi_columns_def)
    have "\<exists>items. qrows db' = mset items + qrows db \<and>
      map mi_columns items = map (\<lambda>g. mi_columns (qi\<lparr>mi_GatewayID := g\<rparr>)) (g # gs) \<and>
      (\<forall>k < length (g # gs). \<bar>mi_ScheduleAt (items ! k) - (ts + int k * m_gatewayDelay E)\<bar> \<le> 1000)" if "x = Inr ()"
    proof -
      obtain items where i: "qrows db' = mset items + qrows db1"
        "map mi_columns items = map (\<lambda>g. mi_columns (qi1\<lparr>mi_GatewayID := g\<rparr>)) gs"
        "\<forall>k < length gs. \<bar>mi_ScheduleAt (items ! k) - (ts + m_gatewayDelay E + int k * m_gatewayDelay E)\<bar> \<le> 1000"
        using IH \<open>x = Inr ()\<close> by blast
      have "\<bar>mi_ScheduleAt ((r # items) ! k) - (ts + int k * m_gatewayDelay E)\<bar> \<le> 1000" if "k < length (g # gs)" for k
        using that i(3) r(3) by (cases k) (auto simp: algebra_simps)
      then show ?thesis using i(1,2) r(1,2) cols by (intro exI[of _ "r # items"]) (simp add: mi_columns_def)
    qed
    then show ?thesis using IH made(1) by simp
  qed
qed simp

lemma class_b_items:
  assumes "enqueue_class_b E now addr pn qi t gs db = Some (x, db')"
  shows "grows db' = grows db \<and> (x = Inr () \<longrightarrow> (\<exists>items ts. qrows db' = mset items + qrows db \<and>
    map mi_columns items = map (\<lambda>(g, t). mi_columns (qi\<lparr>mi_GatewayID := g, mi_EmitAtTimeSinceGPSEpoch := Some t\<rparr>)) (zip gs ts) \<and>
    length ts = length gs \<and>
    slot_scheduler.schedule (\<lambda>t. GetNextPingSlotAfter (m_aes E) (m_marshal_addr E) t addr pn) 0 t ts \<and>
    (\<forall>k < length gs. \<bar>mi_ScheduleAt (items ! k) -
       (NewFromTimeSinceGPSEpoch (ts ! k) + go_int64 (- 2 * m_schedulerInterval E))\<bar> \<le> 1000)))"
  using assms
proof (induction gs arbitrary: qi t db)
  case Nil
  then show ?case by (auto intro: class_b.schedule.intros)
next
  case (Cons g gs)
  let ?next = "GetNextPingSlotAfter (m_aes E) (m_marshal_addr E) t addr pn"
  show ?case
  proof (cases "\<exists>u. ?next = Some (Inr u)")
    case False
    then show ?thesis using Cons.prems by (auto split: option.splits sum.splits)
  next
    case True
    then obtain u where u: "?next = Some (Inr u)" by blast
    let ?at = "NewFromTimeSinceGPSEpoch u + go_int64 (- 2 * m_schedulerInterval E)"
    let ?q = "qi\<lparr>mi_EmitAtTimeSinceGPSEpoch := Some u, mi_ScheduleAt := ?at, mi_GatewayID := g\<rparr>"
    obtain y db1 where c: "CreateMulticastQueueItem (m_Queue E) ?q now db = (y, db1)" by fastforce
    note made = created_item[OF c]
    show ?thesis
    proof (cases y)
      case (Inl e)
      then show ?thesis using Cons.prems c u made(1) by auto
    next
      case (Inr qi1)
      then have run: "enqueue_class_b E now addr pn qi1 u gs db1 = Some (x, db')" using Cons.prems c u by simp
      note IH = Cons.IH[OF run]
      obtain r where r: "qrows db1 = add_mset r (qrows db)" "mi_columns r = mi_columns ?q"
        "\<bar>mi_ScheduleAt r - ?at\<bar> \<le> 1000" "mi_columns qi1 = mi_columns ?q"
        using made(2)[OF Inr] by auto
      have cols: "mi_columns (qi1\<lparr>mi_GatewayID := h, mi_EmitAtTimeSinceGPSEpoch := v\<rparr>) =
          mi_columns (qi\<lparr>mi_GatewayID := h, mi_EmitAtTimeSinceGPSEpoch := v\<rparr>)" for h v
        using r(4) by (simp add: mi_columns_def)
      have "\<exists>items ts. qrows db' = mset items + qrows db \<and>
        map mi_columns items = map (\<lambda>(g, t). mi_columns (qi\<lparr>mi_GatewayID := g, mi_EmitAtTimeSinceGPSEpoch := Some t\<rparr>)) (zip (g # gs) ts) \<and>
        length ts = length (g # gs) \<and>
        slot_scheduler.schedule (\<lambda>t. GetNextPingSlotAfter (m_aes E) (m_marshal_addr E) t addr pn) 0 t ts \<and>
        (\<forall>k < length (g # gs). \<bar>mi_ScheduleAt (items ! k) -
           (NewFromTimeSinceGPSEpoch (ts ! k) + go_int64 (- 2 * m_schedulerInterval E))\<bar> \<le> 1000)" if "x = Inr ()"
      proof -
        obtain items ts where i: "qrows db' = mset items + qrows db1"
          "map mi_columns items = map (\<lambda>(g, t). mi_columns (qi1\<lparr>mi_GatewayID := g, mi_EmitAtTimeSinceGPSEpoch := Some t\<rparr>)) (zip gs ts)"
          "length ts = length gs"
          "slot_scheduler.schedule (\<lambda>t. GetNextPingSlotAfter (m_aes E) (m_marshal_addr E) t addr pn) 0 u ts"
          "\<forall>k < length gs. \<bar>mi_ScheduleAt (items ! k) -
             (NewFromTimeSinceGPSEpoch (ts ! k) + go_int64 (- 2 * m_schedulerInterval E))\<bar> \<le> 1000"
          using IH \<open>x = Inr ()\<close> by blast
        have "\<bar>mi_ScheduleAt ((r # items) ! k) -
            (NewFromTimeSinceGPSEpoch ((u # ts) ! k) + go_int64 (- 2 * m_schedulerInterval E))\<bar> \<le> 1000"
          if "k < length (g # gs)" for k
          using that i(5) r(3) by (cases k) auto
        moreover have "slot_scheduler.schedule (\<lambda>t. GetNextPingSlotAfter (m_aes E) (m_marshal_addr E) t addr pn) 0 t (u # ts)"
          by (rule class_b.schedule_Cons) (use u i(4) in simp_all)
        ultimately show ?thesis using i(1-3) r(1,2) cols
          by (intro exI[of _ "r # items"] exI[of _ "u # ts"]) (simp add: mi_columns_def)
      qed
      then show ?thesis using IH made(1) by simp
    qed
  qed
qed

lemma latest_schedule:
  assumes "GetMaxScheduleAtForMulticastGroup (m_Queue E) i db = Inr ts"
  shows "\<forall>r \<in># qrows db. mi_MulticastGroupID r = i \<longrightarrow> mi_ScheduleAt r \<le> ts"
    and "\<forall>r \<in># qrows db. mi_MulticastGroupID r \<noteq> i \<Longrightarrow> ts = zero_time"
proof -
  let ?q = "\<lambda>rs. map mi_ScheduleAt (filter (\<lambda>r. mi_MulticastGroupID r = i) rs)"
  obtain m where get: "sqlx_Get (m_Queue E) (\<lambda>rs. [max_of (?q rs)]) db = Inr m" and ts: "ts = (case m of None \<Rightarrow> zero_time | Some t \<Rightarrow> t)"
    using assms by (auto simp: GetMaxScheduleAtForMulticastGroup_def split: sum.splits option.splits)
  obtain rs where rs: "mset rs = qrows db" "m = max_of (?q rs)"
    using queue.get_row[OF get] by auto
  show "\<forall>r \<in># qrows db. mi_MulticastGroupID r = i \<longrightarrow> mi_ScheduleAt r \<le> ts"
  proof (intro ballI impI)
    fix r assume "r \<in># qrows db" "mi_MulticastGroupID r = i"
    then have mem: "mi_ScheduleAt r \<in> set (?q rs)" using rs(1)[symmetric] by auto
    then obtain t where "max_of (?q rs) = Some t" by (cases "?q rs") auto
    then show "mi_ScheduleAt r \<le> ts" using max_of_greatest[OF mem] rs(2) ts by simp
  qed
  show "ts = zero_time" if "\<forall>r \<in># qrows db. mi_MulticastGroupID r \<noteq> i"
  proof -
    have "filter (\<lambda>r. mi_MulticastGroupID r = i) rs = []" using that unfolding rs(1)[symmetric] by simp
    then show ?thesis using rs(2) ts by simp
  qed
qed

lemma latest_emit:
  assumes "GetMaxEmitAtTimeSinceGPSEpochForMulticastGroup (m_Queue E) i db = Inr m"
    and "r \<in># qrows db" "mi_MulticastGroupID r = i" "mi_EmitAtTimeSinceGPSEpoch r = Some u"
  shows "u \<le> m"
proof -
  obtain rs where rs: "mset rs = qrows db"
    "m = (case max_of (List.map_filter mi_EmitAtTimeSinceGPSEpoch (filter (\<lambda>r. mi_MulticastGroupID r = i) rs)) of None \<Rightarrow> 0 | Some t \<Rightarrow> t)"
    using queue.get_row[OF assms(1)[unfolded GetMaxEmitAtTimeSinceGPSEpochForMulticastGroup_def]] by auto
  have "r \<in> set rs" using assms(2) rs(1) by (metis set_mset_mset)
  then have u: "u \<in> set (List.map_filter mi_EmitAtTimeSinceGPSEpoch (filter (\<lambda>r. mi_MulticastGroupID r = i) rs))"
    using assms(3,4) by (force simp: List.map_filter_def image_iff)
  then obtain t where "max_of (List.map_filter mi_EmitAtTimeSinceGPSEpoch (filter (\<lambda>r. mi_MulticastGroupID r = i) rs)) = Some t"
    by (cases "List.map_filter mi_EmitAtTimeSinceGPSEpoch (filter (\<lambda>r. mi_MulticastGroupID r = i) rs)") auto
  then show ?thesis using max_of_greatest[OF u] rs(2) by auto
qed

lemma group_found:
  assumes "GetMulticastGroup (m_Groups E) i db = Inr mg"
  shows "mg \<in># grows db \<and> mg_ID mg = i"
proof -
  obtain rs where "mset rs = grows db" "filter (\<lambda>r. mg_ID r = i) rs \<noteq> []" "mg = hd (filter (\<lambda>r. mg_ID r = i) rs)"
    using groups.get_row[OF assms[unfolded GetMulticastGroup_def]] by auto
  moreover from this have "mg \<in> set (filter (\<lambda>r. mg_ID r = i) rs)" using hd_in_set by metis
  ultimately show ?thesis by (metis (mono_tags) filter_set mem_Collect_eq set_filter set_mset_mset)
qed

lemma group_updated:
  assumes "UpdateMulticastGroup (m_Groups E) mg now db = (x, db')" and "mg_FCnt mg = n"
  shows "qrows db' = qrows db"
    and "expects grows i k db \<Longrightarrow> (i = mg_ID mg \<Longrightarrow> k \<le> n) \<Longrightarrow> expects grows i k db'"
    and "x = Inr () \<Longrightarrow> expects grows (mg_ID mg) n db'"
proof -
  let ?f = "\<lambda>r. mg\<lparr>mg_CreatedAt := mg_CreatedAt r, mg_UpdatedAt := now\<rparr>"
  obtain y db1 where u: "tb_update (m_Groups E) (\<lambda>r. mg_ID r = mg_ID mg) ?f db = (y, db1)" by fastforce
  have db1: "db1 = db'" using assms(1) u by (auto simp: UpdateMulticastGroup_def affected_def split: sum.splits)
  show "qrows db' = qrows db" using queue_rows[of "\<lambda>r. mg_ID r = mg_ID mg" ?f db] u db1 by simp
  have ran: "sql_ran y (grows db) (image_mset (\<lambda>r. if mg_ID r = mg_ID mg then gcolumns (?f r) else r) (grows db)) (grows db')"
    using groups.update[OF u] db1 by simp
  show "expects grows i k db'" if "expects grows i k db" "i = mg_ID mg \<Longrightarrow> k \<le> n"
    using ran that assms(2) by (auto simp: sql_ran_def expects_def group_columns)
  show "expects grows (mg_ID mg) n db'" if "x = Inr ()"
  proof -
    obtain m where "y = Inr m"
      using assms(1) u \<open>x = Inr ()\<close> by (cases y) (auto simp: UpdateMulticastGroup_def affected_def)
    then show ?thesis using ran assms(2) by (auto simp: sql_ran_def expects_def group_columns)
  qed
qed

lemma for_gateways_groups:
  assumes "enqueue_for_gateways E now mg qi gs db = Some (x, db')"
  shows "grows db' = grows db"
  using assms class_c_items[of now qi _ gs db x db'] class_b_items[of now _ _ qi _ gs db x db']
  by (auto simp: enqueue_for_gateways_def Let_def split: if_splits sum.splits)

lemma gateways_same:
  assumes "UpdateMulticastGroup (m_Groups E) mg now db = (x, db')"
  shows "multicast_gateways E i s db' = multicast_gateways E i s db"
proof -
  have "db' = snd (tb_update (m_Groups E) (\<lambda>r. mg_ID r = mg_ID mg) (\<lambda>r. mg\<lparr>mg_CreatedAt := mg_CreatedAt r, mg_UpdatedAt := now\<rparr>) db)"
    using assms by (auto simp: UpdateMulticastGroup_def affected_def split: prod.splits sum.splits)
  then show ?thesis by (simp add: multicast_gateways_def GetDevEUIsForMulticastGroup_def sqlx_Select_def member_rows)
qed

text \<open>What an enqueue does to the counters, and what a successful one went through.\<close>

lemma enqueued:
  assumes "EnqueueQueueItem E qi now s db = Some (x, db')" and "mi_FCnt qi \<noteq> - 1"
  shows "(expects grows i k db \<longrightarrow> expects grows i k db') \<and>
    (x = Inr () \<longrightarrow> expects grows (mi_MulticastGroupID qi) (mi_FCnt qi + 1) db' \<and>
       (\<exists>mg db1 gs. mg \<in># grows db \<and> mg_ID mg = mi_MulticastGroupID qi \<and> mg_FCnt mg \<le> mi_FCnt qi \<and>
          qrows db1 = qrows db \<and> multicast_gateways E (mi_MulticastGroupID qi) s db = Inr gs \<and>
          enqueue_for_gateways E now (mg\<lparr>mg_FCnt := mi_FCnt qi + 1\<rparr>) qi gs db1 = Some (Inr (), db')))"
proof (cases "GetMulticastGroup (m_Groups E) (mi_MulticastGroupID qi) db")
  case (Inl e)
  then show ?thesis using assms(1) by (auto simp: EnqueueQueueItem_def)
next
  case (Inr mg)
  note found = group_found[OF Inr]
  show ?thesis
  proof (cases "mi_FCnt qi < mg_FCnt mg")
    case True
    then show ?thesis using assms(1) Inr by (auto simp: EnqueueQueueItem_def)
  next
    case False
    let ?mg = "mg\<lparr>mg_FCnt := mi_FCnt qi + 1\<rparr>"
    have next': "mi_FCnt qi < mi_FCnt qi + 1" using inc_less_eq_self_iff_eq[of "mi_FCnt qi"] assms(2) by (simp add: not_le)
    obtain y db1 where u: "UpdateMulticastGroup (m_Groups E) ?mg now db = (y, db1)" by fastforce
    note upd = group_updated[OF u, of "mi_FCnt qi + 1"]
    have kept: "expects grows i k db1" if "expects grows i k db"
    proof (rule upd(2)[OF _ that])
      assume "i = mg_ID ?mg"
      then have "k \<le> mg_FCnt mg" using that found by (auto simp: expects_def)
      then show "k \<le> mi_FCnt qi + 1" using False next' by (meson less_imp_le not_less order_trans)
    qed simp
    show ?thesis
    proof (cases y)
      case (Inl e)
      then show ?thesis using assms(1) Inr False u kept by (auto simp: EnqueueQueueItem_def Let_def)
    next
      case (Inr v)
      note ok = \<open>GetMulticastGroup (m_Groups E) (mi_MulticastGroupID qi) db = Inr mg\<close> False u Inr
      show ?thesis
      proof (cases "multicast_gateways E (mi_MulticastGroupID qi) s db1")
        case (Inl e)
        then show ?thesis using assms(1) ok kept by (auto simp: EnqueueQueueItem_def Let_def)
      next
        case (Inr gs)
        then have run: "enqueue_for_gateways E now ?mg qi gs db1 = Some (x, db')"
          using assms(1) ok by (simp add: EnqueueQueueItem_def Let_def)
        have same: "expects grows a n db' = expects grows a n db1" for a n
          using for_gateways_groups[OF run] by (simp add: expects_def)
        have "expects grows (mi_MulticastGroupID qi) (mi_FCnt qi + 1) db1"
          using upd(3) ok(4) found by (cases v) simp
        moreover have "qrows db1 = qrows db" using upd(1) by simp
        moreover have "mg_FCnt mg \<le> mi_FCnt qi" using False by simp
        ultimately show ?thesis using kept same found Inr run gateways_same[OF u] by metis
      qed
    qed
  qed
qed

text \<open>The queue a successful enqueue reads its times from is the one before it.\<close>

lemma enqueued_for:
  assumes "EnqueueQueueItem E qi now s db = Some (Inr (), db')" and "mi_FCnt qi \<noteq> - 1"
    and "\<forall>r \<in># grows db. mg_ID r = mi_MulticastGroupID qi \<longrightarrow> mg_GroupType r = ty"
  obtains mg db1 gs where "mg \<in># grows db" "mg_ID mg = mi_MulticastGroupID qi" "mg_GroupType mg = ty" "qrows db1 = qrows db"
    "multicast_gateways E (mi_MulticastGroupID qi) s db = Inr gs"
    "enqueue_for_gateways E now (mg\<lparr>mg_FCnt := mi_FCnt qi + 1\<rparr>) qi gs db1 = Some (Inr (), db')"
  using enqueued[OF assms(1,2)] assms(3) by blast

lemma staggered:
  assumes "EnqueueQueueItem E qi now s db = Some (Inr (), db')" and "mi_FCnt qi \<noteq> - 1"
    and "\<forall>r \<in># grows db. mg_ID r = mi_MulticastGroupID qi \<longrightarrow> mg_GroupType r = MulticastGroupC"
  shows "\<exists>gs items start. multicast_gateways E (mi_MulticastGroupID qi) s db = Inr gs \<and> qrows db' = mset items + qrows db \<and>
    map mi_columns items = map (\<lambda>g. mi_columns (qi\<lparr>mi_GatewayID := g\<rparr>)) gs \<and>
    (\<forall>k < length gs. \<bar>mi_ScheduleAt (items ! k) - (start + int k * m_gatewayDelay E)\<bar> \<le> 1000) \<and>
    (\<forall>r \<in># qrows db. mi_MulticastGroupID r = mi_MulticastGroupID qi \<longrightarrow> zero_time < mi_ScheduleAt r \<longrightarrow>
       mi_ScheduleAt r + m_gatewayDelay E \<le> start) \<and>
    ((\<forall>r \<in># qrows db. mi_MulticastGroupID r \<noteq> mi_MulticastGroupID qi) \<longrightarrow> start = now)"
proof -
  obtain mg db1 gs where run: "mg \<in># grows db" "mg_ID mg = mi_MulticastGroupID qi" "mg_GroupType mg = MulticastGroupC"
    "qrows db1 = qrows db" "multicast_gateways E (mi_MulticastGroupID qi) s db = Inr gs"
    "enqueue_for_gateways E now (mg\<lparr>mg_FCnt := mi_FCnt qi + 1\<rparr>) qi gs db1 = Some (Inr (), db')"
    by (rule enqueued_for[OF assms])
  obtain ts where ts: "GetMaxScheduleAtForMulticastGroup (m_Queue E) (mi_MulticastGroupID qi) db1 = Inr ts"
    "enqueue_class_c E now qi (if ts = zero_time then now else ts + m_gatewayDelay E) gs db1 = (Inr (), db')"
    using run(2,3,6) by (auto simp: enqueue_for_gateways_def split: sum.splits)
  note latest = latest_schedule[OF ts(1), unfolded run(4)]
  obtain items where items: "qrows db' = mset items + qrows db"
    "map mi_columns items = map (\<lambda>g. mi_columns (qi\<lparr>mi_GatewayID := g\<rparr>)) gs"
    "\<forall>k < length gs. \<bar>mi_ScheduleAt (items ! k) - ((if ts = zero_time then now else ts + m_gatewayDelay E) + int k * m_gatewayDelay E)\<bar> \<le> 1000"
    using class_c_items[OF ts(2)] run(4) by auto
  have "\<forall>r \<in># qrows db. mi_MulticastGroupID r = mi_MulticastGroupID qi \<longrightarrow> zero_time < mi_ScheduleAt r \<longrightarrow>
      mi_ScheduleAt r + m_gatewayDelay E \<le> (if ts = zero_time then now else ts + m_gatewayDelay E)"
    using latest(1) by fastforce
  then show ?thesis using items run(5) latest(2) by (intro exI[of _ gs] exI[of _ items] exI) auto
qed

lemma in_slots:
  assumes "EnqueueQueueItem E qi now s db = Some (Inr (), db')" and "mi_FCnt qi \<noteq> - 1"
    and "\<forall>r \<in># grows db. mg_ID r = mi_MulticastGroupID qi \<longrightarrow> mg_GroupType r = MulticastGroupB"
  shows "\<exists>mg gs items start ts. mg \<in># grows db \<and> mg_ID mg = mi_MulticastGroupID qi \<and>
    multicast_gateways E (mi_MulticastGroupID qi) s db = Inr gs \<and> qrows db' = mset items + qrows db \<and> length ts = length gs \<and>
    map mi_columns items = map (\<lambda>(g, t). mi_columns (qi\<lparr>mi_GatewayID := g, mi_EmitAtTimeSinceGPSEpoch := Some t\<rparr>)) (zip gs ts) \<and>
    (\<forall>k < length gs. GetNextPingSlotAfter (m_aes E) (m_marshal_addr E) ((start # ts) ! k) (mg_MCAddr mg)
       (if mg_PingSlotPeriod mg \<noteq> 0 then go_div 4096 (mg_PingSlotPeriod mg) else 0) = Some (Inr (ts ! k))) \<and>
    sorted_wrt (<) (start # ts) \<and>
    (\<forall>r \<in># qrows db. mi_MulticastGroupID r = mi_MulticastGroupID qi \<longrightarrow>
       (case mi_EmitAtTimeSinceGPSEpoch r of None \<Rightarrow> True | Some u \<Rightarrow> 0 < u \<longrightarrow> u \<le> start)) \<and>
    (\<forall>k < length gs. \<bar>mi_ScheduleAt (items ! k) -
       (NewFromTimeSinceGPSEpoch (ts ! k) + go_int64 (- 2 * m_schedulerInterval E))\<bar> \<le> 1000)"
proof -
  obtain mg db1 gs where run: "mg \<in># grows db" "mg_ID mg = mi_MulticastGroupID qi" "mg_GroupType mg = MulticastGroupB"
    "qrows db1 = qrows db" "multicast_gateways E (mi_MulticastGroupID qi) s db = Inr gs"
    "enqueue_for_gateways E now (mg\<lparr>mg_FCnt := mi_FCnt qi + 1\<rparr>) qi gs db1 = Some (Inr (), db')"
    by (rule enqueued_for[OF assms])
  let ?pn = "if mg_PingSlotPeriod mg \<noteq> 0 then go_div 4096 (mg_PingSlotPeriod mg) else 0"
  obtain m where m: "GetMaxEmitAtTimeSinceGPSEpochForMulticastGroup (m_Queue E) (mi_MulticastGroupID qi) db1 = Inr m"
    "enqueue_class_b E now (mg_MCAddr mg) ?pn qi (if m = 0 then TimeSinceGPSEpoch (now + classBEnqueueMargin) else m) gs db1 = Some (Inr (), db')"
    using run(2,3,6) by (auto simp: enqueue_for_gateways_def Let_def MulticastGroupB_def MulticastGroupC_def split: sum.splits cong: if_cong)
  let ?start = "if m = 0 then TimeSinceGPSEpoch (now + classBEnqueueMargin) else m"
  obtain items ts where items: "qrows db' = mset items + qrows db"
    "map mi_columns items = map (\<lambda>(g, t). mi_columns (qi\<lparr>mi_GatewayID := g, mi_EmitAtTimeSinceGPSEpoch := Some t\<rparr>)) (zip gs ts)"
    "length ts = length gs"
    "slot_scheduler.schedule (\<lambda>t. GetNextPingSlotAfter (m_aes E) (m_marshal_addr E) t (mg_MCAddr mg) ?pn) 0 ?start ts"
    "\<forall>k < length gs. \<bar>mi_ScheduleAt (items ! k) -
       (NewFromTimeSinceGPSEpoch (ts ! k) + go_int64 (- 2 * m_schedulerInterval E))\<bar> \<le> 1000"
    using class_b_items[OF m(2)] run(4) by auto
  have "sorted_wrt (<) (?start # ts)" by (rule class_b.schedule_sorted[OF items(4)]) simp
  moreover have "\<forall>k < length gs. GetNextPingSlotAfter (m_aes E) (m_marshal_addr E) ((?start # ts) ! k) (mg_MCAddr mg) ?pn = Some (Inr (ts ! k))"
    using class_b.schedule_steps[OF items(4)] items(3) by simp
  moreover have "\<forall>r \<in># qrows db. mi_MulticastGroupID r = mi_MulticastGroupID qi \<longrightarrow>
      (case mi_EmitAtTimeSinceGPSEpoch r of None \<Rightarrow> True | Some u \<Rightarrow> 0 < u \<longrightarrow> u \<le> ?start)"
    using latest_emit[OF m(1), unfolded run(4)] by (fastforce split: option.splits)
  ultimately show ?thesis using run(1,2,5) items by blast
qed

lemma other_group_kept:
  assumes "EnqueueQueueItem E qi now s db = Some (x, db')" and "mi_MulticastGroupID qi \<noteq> i" and "expects grows i k db"
  shows "expects grows i k db'"
proof (cases "GetMulticastGroup (m_Groups E) (mi_MulticastGroupID qi) db")
  case (Inl e)
  then show ?thesis using assms by (simp add: EnqueueQueueItem_def)
next
  case (Inr mg)
  let ?mg = "mg\<lparr>mg_FCnt := mi_FCnt qi + 1\<rparr>"
  obtain y db1 where u: "UpdateMulticastGroup (m_Groups E) ?mg now db = (y, db1)" by fastforce
  have "expects grows i k db1"
    by (rule group_updated(2)[OF u _ assms(3)]) (use group_found[OF Inr] assms(2) in simp_all)
  moreover have "grows db' = grows db1 \<or> db' = db"
    using assms(1) Inr u for_gateways_groups
    by (auto simp: EnqueueQueueItem_def Let_def split: if_splits sum.splits)
  ultimately show ?thesis using assms(3) by (auto simp: expects_def)
qed

lemma accepted_counters:
  assumes "run_enqueues E rs db = Some (acc, db')"
    and "list_all (\<lambda>(qi, _). mi_MulticastGroupID qi = i \<longrightarrow> mi_FCnt qi \<noteq> - 1) rs" and "expects grows i k db"
  shows "sorted_wrt (<) (map mi_FCnt (filter (\<lambda>qi. mi_MulticastGroupID qi = i) acc)) \<and>
    (\<forall>qi \<in> set acc. mi_MulticastGroupID qi = i \<longrightarrow> k \<le> mi_FCnt qi) \<and> expects grows i k db'"
  using assms
proof (induction rs arbitrary: db acc k)
  case (Cons r rs)
  obtain qi now s where r: "r = (qi, now, s)" by (cases r)
  obtain x db1 where e: "EnqueueQueueItem E qi now s db = Some (x, db1)"
    using Cons.prems(1) by (auto simp: r split: option.splits)
  obtain acc1 where rest: "run_enqueues E rs db1 = Some (acc1, db')" "acc = (case x of Inl _ \<Rightarrow> acc1 | Inr _ \<Rightarrow> qi # acc1)"
    using Cons.prems(1) e by (auto simp: r split: option.splits)
  have fcnt: "mi_MulticastGroupID qi = i \<longrightarrow> mi_FCnt qi \<noteq> - 1"
    "list_all (\<lambda>(qi, _). mi_MulticastGroupID qi = i \<longrightarrow> mi_FCnt qi \<noteq> - 1) rs" using Cons.prems(2) by (simp_all add: r)
  have kept: "expects grows i k db1"
    using other_group_kept[OF e _ Cons.prems(3)] enqueued[OF e] fcnt(1) Cons.prems(3) by blast
  note tail = Cons.IH[OF rest(1) fcnt(2)]
  show ?case
  proof (cases "x = Inr () \<and> mi_MulticastGroupID qi = i")
    case False
    then show ?thesis using tail[OF kept] rest(2) by (cases x) auto
  next
    case True
    then have last: "mi_FCnt qi \<noteq> - 1" using fcnt(1) by simp
    obtain mg where mg: "mg \<in># grows db" "mg_ID mg = i" "mg_FCnt mg \<le> mi_FCnt qi" "expects grows i (mi_FCnt qi + 1) db1"
      using enqueued[OF e last] True by blast
    have "k \<le> mi_FCnt qi" using mg(1-3) Cons.prems(3) by (auto simp: expects_def)
    have less: "mi_FCnt qi < f" if "mi_FCnt qi + 1 \<le> f" for f
      using inc_less_eq_self_iff_eq[of "mi_FCnt qi"] last that by (metis less_le_trans not_le)
    show ?thesis using tail[OF kept] tail[OF mg(4)] rest(2) True \<open>k \<le> mi_FCnt qi\<close> by (auto intro: less)
  qed
qed simp

end

section \<open>Properties\<close>

text \<open>
  C35: a multicast group does not use a frame counter twice before it is asked for the last one. Of any
  sequence of enqueue requests, to any groups and with any failures of the database in between, in which
  none asks this group for the counter \<open>2 ^ 32 - 1\<close>, the ones that succeed for the group have
  strictly increasing counters, all at or above what the group expected at first. (A request for the
  last counter sets the group back to 0: \<open>last_counter_restarts_the_group\<close>.)
\<close>

theorem multicast_counters_increase:
  assumes "multicast_db E grows gcolumns gkeyed qrows qcolumns qkeyed"
    and "run_enqueues E requests db = Some (accepted, db')"
    and "list_all (\<lambda>(qi, _). mi_MulticastGroupID qi = i \<longrightarrow> mi_FCnt qi \<noteq> - 1) requests"
    and "expects grows i n db"
  shows "sorted_wrt (<) (map mi_FCnt (filter (\<lambda>qi. mi_MulticastGroupID qi = i) accepted)) \<and>
    (\<forall>qi \<in> set accepted. mi_MulticastGroupID qi = i \<longrightarrow> n \<le> mi_FCnt qi) \<and> expects grows i n db'"
  by (rule multicast_db.accepted_counters[OF assms])

text \<open>
  C36: a Class-C multicast is staggered. A successful enqueue adds to the queue one item for each gateway
  of the minimum gateway set and nothing else, with the payload, port and counter of the request.
  The items are due one gateway delay after the other, the first one a delay after every item of
  the group that waits, or now when none does (to the microsecond a timestamp column has).
\<close>

theorem class_c_multicast_is_staggered:
  assumes "multicast_db E grows gcolumns gkeyed qrows qcolumns qkeyed"
    and "EnqueueQueueItem E qi now s db = Some (Inr (), db')" and "mi_FCnt qi \<noteq> - 1"
    and "\<forall>r \<in># grows db. mg_ID r = mi_MulticastGroupID qi \<longrightarrow> mg_GroupType r = MulticastGroupC"
  shows "\<exists>gs items start. multicast_gateways E (mi_MulticastGroupID qi) s db = Inr gs \<and> qrows db' = mset items + qrows db \<and>
    map mi_columns items = map (\<lambda>g. mi_columns (qi\<lparr>mi_GatewayID := g\<rparr>)) gs \<and>
    (\<forall>k < length gs. \<bar>mi_ScheduleAt (items ! k) - (start + int k * m_gatewayDelay E)\<bar> \<le> 1000) \<and>
    (\<forall>r \<in># qrows db. mi_MulticastGroupID r = mi_MulticastGroupID qi \<longrightarrow> zero_time < mi_ScheduleAt r \<longrightarrow>
       mi_ScheduleAt r + m_gatewayDelay E \<le> start) \<and>
    ((\<forall>r \<in># qrows db. mi_MulticastGroupID r \<noteq> mi_MulticastGroupID qi) \<longrightarrow> start = now)"
  by (rule multicast_db.staggered[OF assms])

text \<open>
  A Class-B multicast uses every ping slot once. A successful enqueue adds one item for each gateway
  of the minimum gateway set; the times they are emitted at are successive ping slots of the group's
  address, each the next one after the one before, all after every item of the group that waits.
  Each is due two scheduler intervals before its slot.
\<close>

theorem class_b_multicast_uses_distinct_slots:
  assumes "multicast_db E grows gcolumns gkeyed qrows qcolumns qkeyed"
    and "EnqueueQueueItem E qi now s db = Some (Inr (), db')" and "mi_FCnt qi \<noteq> - 1"
    and "\<forall>r \<in># grows db. mg_ID r = mi_MulticastGroupID qi \<longrightarrow> mg_GroupType r = MulticastGroupB"
  shows "\<exists>mg gs items start ts. mg \<in># grows db \<and> mg_ID mg = mi_MulticastGroupID qi \<and>
    multicast_gateways E (mi_MulticastGroupID qi) s db = Inr gs \<and> qrows db' = mset items + qrows db \<and> length ts = length gs \<and>
    map mi_columns items = map (\<lambda>(g, t). mi_columns (qi\<lparr>mi_GatewayID := g, mi_EmitAtTimeSinceGPSEpoch := Some t\<rparr>)) (zip gs ts) \<and>
    (\<forall>k < length gs. GetNextPingSlotAfter (m_aes E) (m_marshal_addr E) ((start # ts) ! k) (mg_MCAddr mg)
       (if mg_PingSlotPeriod mg \<noteq> 0 then go_div 4096 (mg_PingSlotPeriod mg) else 0) = Some (Inr (ts ! k))) \<and>
    sorted_wrt (<) (start # ts) \<and>
    (\<forall>r \<in># qrows db. mi_MulticastGroupID r = mi_MulticastGroupID qi \<longrightarrow>
       (case mi_EmitAtTimeSinceGPSEpoch r of None \<Rightarrow> True | Some u \<Rightarrow> 0 < u \<longrightarrow> u \<le> start)) \<and>
    (\<forall>k < length gs. \<bar>mi_ScheduleAt (items ! k) -
       (NewFromTimeSinceGPSEpoch (ts ! k) + go_int64 (- 2 * m_schedulerInterval E))\<bar> \<le> 1000)"
  by (rule multicast_db.in_slots[OF assms])

section \<open>A group in memory\<close>

record mc_tables =
  mt_groups :: "multicast_group memtable"
  mt_members :: "multicast_member memtable"
  mt_queue :: "multicast_item memtable"

type_synonym rx_memory = "(gw_rx_info_set_pb, eui64) mem"

definition sample_mc_env :: "(mc_tables, rx_memory, gw_rx_info_set_pb) mc_env" where
  "sample_mc_env =
     \<lparr>m_Groups = mem_table mt_groups (\<lambda>t. mt_groups_update (\<lambda>_. t)) (\<lambda>r. r) (\<lambda>_ r. r) (\<lambda>r r'. mg_ID r = mg_ID r'),
      m_Members = mem_table mt_members (\<lambda>t. mt_members_update (\<lambda>_. t)) (\<lambda>r. r) (\<lambda>_ r. r) (=),
      m_Queue = mem_table mt_queue (\<lambda>t. mt_queue_update (\<lambda>_. t)) (\<lambda>r. r) (\<lambda>k r. r\<lparr>mi_ID := k\<rparr>) (\<lambda>r r'. mi_ID r = mi_ID r'),
      m_Redis = mem_redis, m_RxInfo = plain_codec, m_kruskal = simple_kruskal, m_order = (\<lambda>xs. xs), m_Band = sample_band,
      m_installationMargin = 0, m_gatewayDelay = second, m_schedulerInterval = second, m_aes = (\<lambda>_ _ _. 0),
      m_marshal_addr = (\<lambda>_. Inr [4, 3, 2, 1])\<rparr>"

interpretation sample_mc: multicast_db sample_mc_env "mem_rows mt_groups" "\<lambda>r. r" "mem_keyed (\<lambda>_ r. r)"
  "mem_rows mt_queue" "\<lambda>r. r" "mem_keyed (\<lambda>k r. r\<lparr>mi_ID := k\<rparr>)"
proof (intro multicast_db.intro multicast_db_axioms.intro)
  show "sql_table (m_Groups sample_mc_env) (mem_rows mt_groups) (\<lambda>r. r) (mem_keyed (\<lambda>_ r. r))"
    unfolding sample_mc_env_def mc_env.select_convs by (rule mem_table_laws) simp
  show "sql_table (m_Queue sample_mc_env) (mem_rows mt_queue) (\<lambda>r. r) (mem_keyed (\<lambda>k r. r\<lparr>mi_ID := k\<rparr>))"
    unfolding sample_mc_env_def mc_env.select_convs by (rule mem_table_laws) simp
qed (auto simp: sample_mc_env_def mem_table_def mem_rows_def mem_keyed_def Let_def)

definition sample_group :: multicast_group where
  "sample_group =
     \<lparr>mg_ID = 1, mg_CreatedAt = 0, mg_UpdatedAt = 0, mg_MCAddr = 0x01020304, mg_MCNwkSKey = 0, mg_FCnt = 10, mg_GroupType = ''C'',
      mg_DR = 0, mg_Frequency = 869525000, mg_PingSlotPeriod = 128, mg_RoutingProfileID = 0, mg_ServiceProfileID = 0\<rparr>"

definition sample_mc_item :: multicast_item where
  "sample_mc_item =
     \<lparr>mi_ID = 0, mi_CreatedAt = 0, mi_UpdatedAt = 0, mi_ScheduleAt = 0, mi_EmitAtTimeSinceGPSEpoch = None,
      mi_MulticastGroupID = 1, mi_GatewayID = 0, mi_FCnt = 11, mi_FPort = 20, mi_FRMPayload = [1, 2], mi_RetryAfter = None\<rparr>"

text \<open>A group with two members, each heard by a gateway of its own.\<close>

definition group_tables :: "multicast_group \<Rightarrow> mc_tables" where
  "group_tables mg =
     \<lparr>mt_groups = \<lparr>mt_up = True, mt_next = 0, mt_rows = [mg]\<rparr>,
      mt_members = \<lparr>mt_up = True, mt_next = 0, mt_rows = map (\<lambda>e. \<lparr>mm_DevEUI = e, mm_GroupID = 1, mm_CreatedAt = 0\<rparr>) [1, 2]\<rparr>,
      mt_queue = \<lparr>mt_up = True, mt_next = 1, mt_rows = []\<rparr>\<rparr>"

definition heard_by :: "eui64 \<Rightarrow> eui64 \<Rightarrow> gw_rx_info_set_pb" where
  "heard_by dev gw = deviceGatewayRXInfoSetToPB \<lparr>gris_DevEUI = dev, gris_DR = 0,
     gris_Items = [\<lparr>gri_GatewayID = gw, gri_RSSI = 0, gri_LoRaSNR = 5, gri_Antenna = 0, gri_Board = 0, gri_Context = []\<rparr>]\<rparr>"

definition heard_memory :: rx_memory where
  "heard_memory = mem_empty\<lparr>m_val := [deviceGatewayRXInfoSetKey 1 \<mapsto> (heard_by 1 21, 1000),
     deviceGatewayRXInfoSetKey 2 \<mapsto> (heard_by 2 22, 1000)]\<rparr>"

lemma sample_requests_run:
  "map_option (\<lambda>(acc, _). map mi_FCnt acc) (run_enqueues sample_mc_env
     [(sample_mc_item, 5, heard_memory), (sample_mc_item\<lparr>mi_FCnt := 14\<rparr>, 6, heard_memory), (sample_mc_item, 7, heard_memory)]
     (group_tables sample_group)) = Some [11, 14]"
  by code_simp

theorem multicast_counters_increase_witness:
  "\<exists>acc db'. run_enqueues sample_mc_env
     [(sample_mc_item, 5, heard_memory), (sample_mc_item\<lparr>mi_FCnt := 14\<rparr>, 6, heard_memory), (sample_mc_item, 7, heard_memory)]
     (group_tables sample_group) = Some (acc, db') \<and> map mi_FCnt acc = [11, 14] \<and>
     sorted_wrt (<) (map mi_FCnt (filter (\<lambda>qi. mi_MulticastGroupID qi = 1) acc)) \<and> expects (mem_rows mt_groups) 1 10 db'"
proof -
  let ?rs = "[(sample_mc_item, 5, heard_memory), (sample_mc_item\<lparr>mi_FCnt := 14\<rparr>, 6, heard_memory), (sample_mc_item, 7, heard_memory)]"
  obtain acc db' where run: "run_enqueues sample_mc_env ?rs (group_tables sample_group) = Some (acc, db')" "map mi_FCnt acc = [11, 14]"
    using sample_requests_run[unfolded map_option_eq_Some] by (elim exE conjE) (auto simp only: split_paired_all split)
  have "expects (mem_rows mt_groups) 1 10 (group_tables sample_group)"
    by (simp add: expects_def mem_rows_def group_tables_def sample_group_def)
  from multicast_counters_increase[OF sample_mc.multicast_db_axioms run(1) _ this] show ?thesis
    using run by (simp add: sample_mc_item_def)
qed

lemma sample_class_c_runs:
  "case EnqueueQueueItem sample_mc_env sample_mc_item 5 heard_memory (group_tables sample_group) of
      Some (Inr _, db) \<Rightarrow> map (\<lambda>r. (mi_GatewayID r, mi_ScheduleAt r)) (mt_rows (mt_queue db)) = [(21, 5), (22, 1000000005)]
    | _ \<Rightarrow> False"
  by code_simp

lemma enqueue_result:
  assumes "case x of Some (Inr _, db) \<Rightarrow> P db | _ \<Rightarrow> False"
  shows "\<exists>db. x = Some (Inr (), db) \<and> P db"
proof (cases x)
  case (Some p)
  obtain r db where p: "p = (r, db)" by (cases p)
  show ?thesis using assms Some p by (cases r) simp_all
qed (use assms in simp)

text \<open>For Class-B, heard by one gateway.\<close>

lemma sample_class_b_gateway:
  "multicast_gateways sample_mc_env 1 (heard_memory\<lparr>m_val := (m_val heard_memory)(deviceGatewayRXInfoSetKey 2 := None)\<rparr>)
     (group_tables (sample_group\<lparr>mg_GroupType := ''B''\<rparr>)) = Inr [21]"
  by code_simp

lemma sample_class_b_runs:
  "\<exists>db'. EnqueueQueueItem sample_mc_env sample_mc_item (date 2020 1 1 0 0 0)
      (heard_memory\<lparr>m_val := (m_val heard_memory)(deviceGatewayRXInfoSetKey 2 := None)\<rparr>)
      (group_tables (sample_group\<lparr>mg_GroupType := ''B''\<rparr>)) = Some (Inr (), db') \<and> length (mt_rows (mt_queue db')) = 1"
proof -
  have now: "0 \<le> TimeSinceGPSEpoch (date 2020 1 1 0 0 0 + classBEnqueueMargin)"
    "TimeSinceGPSEpoch (date 2020 1 1 0 0 0 + classBEnqueueMargin) < 2 ^ 62"
    by (simp_all add: TimeSinceGPSEpoch_def time_sub_def gps_table_defs go_int64_def classBEnqueueMargin_def)
  obtain t where slot: "GetNextPingSlotAfter (\<lambda>_ _ _. 0) (\<lambda>_. Inr [4, 3, 2, 1])
      (TimeSinceGPSEpoch (date 2020 1 1 0 0 0 + classBEnqueueMargin)) 0x01020304 32 = Some (Inr t)"
    using next_ping_slot_after[where marshal = "\<lambda>_. Inr [4, 3, 2, 1]" and devAddr = "0x01020304" and pingNb = 32 and aes = "\<lambda>_ _ _. 0", OF refl _ _ now] by auto
  let ?mg = "sample_group\<lparr>mg_GroupType := ''B''\<rparr>"
  let ?mg1 = "?mg\<lparr>mg_FCnt := 12\<rparr>" and ?now = "date 2020 1 1 0 0 0"
  let ?s = "heard_memory\<lparr>m_val := (m_val heard_memory)(deviceGatewayRXInfoSetKey 2 := None)\<rparr>"
  have found: "GetMulticastGroup (m_Groups sample_mc_env) 1 (group_tables ?mg) = Inr ?mg"
    by (simp add: GetMulticastGroup_def sqlx_Get_def sample_mc_env_def mem_table_def group_tables_def sample_group_def)
  obtain db1 where upd: "UpdateMulticastGroup (m_Groups sample_mc_env) ?mg1 ?now (group_tables ?mg) = (Inr (), db1)"
    and q: "mt_queue db1 = mt_queue (group_tables ?mg)"
    by (simp add: UpdateMulticastGroup_def affected_def sample_mc_env_def mem_table_def group_tables_def sample_group_def)
  have "multicast_gateways sample_mc_env 1 ?s db1 = Inr [21]"
    using sample_mc.gateways_same[OF upd] sample_class_b_gateway by simp
  moreover have "\<exists>db'. enqueue_for_gateways sample_mc_env ?now ?mg1 sample_mc_item [21] db1 = Some (Inr (), db') \<and>
      length (mt_rows (mt_queue db')) = 1"
    using slot q
    by (simp add: enqueue_for_gateways_def MulticastGroupB_def MulticastGroupC_def sample_group_def sample_mc_env_def go_simps
        GetMaxEmitAtTimeSinceGPSEpochForMulticastGroup_def sqlx_Get_def mem_table_def group_tables_def List.map_filter_def
        CreateMulticastQueueItem_def mc_Validate_def sample_mc_item_def sqlx_Insert_def Let_def)
  ultimately show ?thesis using found upd
    by (simp add: EnqueueQueueItem_def sample_mc_item_def sample_group_def)
qed

lemma sample_group_rows:
  "mem_rows mt_queue (group_tables mg) = {#}" "\<forall>r \<in># mem_rows mt_groups (group_tables mg). mg_GroupType r = mg_GroupType mg"
  "mi_FCnt sample_mc_item \<noteq> - 1"
  by (simp_all add: mem_rows_def group_tables_def sample_mc_item_def)

theorem class_c_multicast_is_staggered_witness:
  "\<exists>db' items. EnqueueQueueItem sample_mc_env sample_mc_item 5 heard_memory (group_tables sample_group) = Some (Inr (), db') \<and>
     mem_rows mt_queue db' = mset items \<and> length items = 2 \<and> \<bar>mi_ScheduleAt (items ! 1) - (5 + second)\<bar> \<le> 1000"
proof -
  obtain db' where run: "EnqueueQueueItem sample_mc_env sample_mc_item 5 heard_memory (group_tables sample_group) = Some (Inr (), db')"
    and two: "map (\<lambda>r. (mi_GatewayID r, mi_ScheduleAt r)) (mt_rows (mt_queue db')) = [(21, 5), (22, 1000000005)]"
    using enqueue_result[OF sample_class_c_runs] by (elim exE conjE)
  have ty: "\<forall>r \<in># mem_rows mt_groups (group_tables sample_group). mg_ID r = mi_MulticastGroupID sample_mc_item \<longrightarrow> mg_GroupType r = MulticastGroupC"
    using sample_group_rows(2) by (simp add: sample_group_def MulticastGroupC_def)
  obtain gs items start where items: "mem_rows mt_queue db' = mset items + mem_rows mt_queue (group_tables sample_group)"
    "map mi_columns items = map (\<lambda>g. mi_columns (sample_mc_item\<lparr>mi_GatewayID := g\<rparr>)) gs"
    "\<forall>k < length gs. \<bar>mi_ScheduleAt (items ! k) - (start + int k * m_gatewayDelay sample_mc_env)\<bar> \<le> 1000"
    "(\<forall>r \<in># mem_rows mt_queue (group_tables sample_group). mi_MulticastGroupID r \<noteq> mi_MulticastGroupID sample_mc_item) \<longrightarrow> start = 5"
    using class_c_multicast_is_staggered[OF sample_mc.multicast_db_axioms run sample_group_rows(3) ty] by blast
  have q: "mem_rows mt_queue db' = mset items" "start = 5" using items(1,4) by (simp_all add: sample_group_rows(1))
  have "length items = length (mt_rows (mt_queue db'))" using q(1) by (metis mem_rows_def size_mset)
  also have "\<dots> = 2" using arg_cong[OF two, of length] by simp
  finally have "length items = 2" .
  moreover have "length gs = length items" using arg_cong[OF items(2), of length] by simp
  ultimately show ?thesis using run q items(3)[rule_format, of 1] by (auto simp: sample_mc_env_def)
qed

theorem class_b_multicast_uses_distinct_slots_witness:
  "\<exists>db' items. EnqueueQueueItem sample_mc_env sample_mc_item (date 2020 1 1 0 0 0)
       (heard_memory\<lparr>m_val := (m_val heard_memory)(deviceGatewayRXInfoSetKey 2 := None)\<rparr>)
       (group_tables (sample_group\<lparr>mg_GroupType := ''B''\<rparr>)) = Some (Inr (), db') \<and>
     mem_rows mt_queue db' = mset items \<and> length items = 1"
proof -
  let ?s = "heard_memory\<lparr>m_val := (m_val heard_memory)(deviceGatewayRXInfoSetKey 2 := None)\<rparr>"
  let ?t = "group_tables (sample_group\<lparr>mg_GroupType := ''B''\<rparr>)"
  obtain db' where run: "EnqueueQueueItem sample_mc_env sample_mc_item (date 2020 1 1 0 0 0) ?s ?t = Some (Inr (), db')"
    and two: "length (mt_rows (mt_queue db')) = 1"
    using sample_class_b_runs by (elim exE conjE)
  have ty: "\<forall>r \<in># mem_rows mt_groups ?t. mg_ID r = mi_MulticastGroupID sample_mc_item \<longrightarrow> mg_GroupType r = MulticastGroupB"
    using sample_group_rows(2)[of "sample_group\<lparr>mg_GroupType := ''B''\<rparr>"] by (simp add: MulticastGroupB_def)
  obtain items where "mem_rows mt_queue db' = mset items + mem_rows mt_queue ?t"
    using class_b_multicast_uses_distinct_slots[OF sample_mc.multicast_db_axioms run sample_group_rows(3) ty] by blast
  then have items: "mem_rows mt_queue db' = mset items" by (simp add: sample_group_rows(1))
  then have "length items = length (mt_rows (mt_queue db'))" by (metis mem_rows_def size_mset)
  then show ?thesis using run items two by auto
qed

text \<open>The last counter wraps: a group that no gateway hears accepts it and starts again at 0.\<close>

lemma last_counter_restarts_the_group:
  "(case EnqueueQueueItem sample_mc_env (sample_mc_item\<lparr>mi_FCnt := - 1\<rparr>) 5 mem_empty (group_tables sample_group) of
      Some (Inr (), db) \<Rightarrow> map mg_FCnt (mt_rows (mt_groups db)) = [0]
    | _ \<Rightarrow> False)"
  by code_simp

end
