(* ===== verification/MulticastFlow.thy ===== *)
theory MulticastFlow
  imports Multicast DownlinkFlow
begin

text \<open>
  Sending what the multicast queue holds (\<open>internal/downlink/multicast/multicast.go\<close>, and the
  multicast batch of \<open>internal/downlink/scheduler.go\<close>): the tasks of one item, the batch, and the
  way of an item from its frame to the acknowledgement that removes it.
\<close>

section \<open>Context\<close>

text \<open>
  \<open>f_random\<close> and \<open>f_ctxID\<close> are the two random bytes and the identifier drawn for one item.
\<close>

record ('db, 's, 'v) mf_env = "('db, 's, 'v) mc_env" +
  f_Frames :: "'v frame_codec"
  f_DL :: dl_band
  f_downlinkTXPower :: int
  f_SetDownlinkDataMIC :: "mac_version \<Rightarrow> u32 \<Rightarrow> aeskey \<Rightarrow> phy \<Rightarrow> byte list res"
  f_MarshalBinary :: "phy \<Rightarrow> byte list \<Rightarrow> byte list res"
  f_send :: "gw_downlink_frame \<Rightarrow> call list \<Rightarrow> unit res"
  f_random :: "u16 res"
  f_ctxID :: "byte list"
  f_Session :: "'db sql_session"
  f_now :: instant

record ('db, 's) mf_context = "('db, 's) world" +
  fx_Frame :: gw_downlink_frame
  fx_Group :: multicast_group
  fx_Item :: multicast_item

type_synonym ('db, 's) mf_task = "('db, 's) mf_context task"

section \<open>Tasks\<close>

definition mf_getMulticastGroup :: "('db, 's, 'v) mf_env \<Rightarrow> ('db, 's) mf_task" where
  "mf_getMulticastGroup E = reading (\<lambda>c. GetMulticastGroup (m_Groups E) (mi_MulticastGroupID (fx_Item c)) (w_DB c))
     (\<lambda>mg c. c\<lparr>fx_Group := mg\<rparr>) ''get multicast-group error''"

definition mf_setToken :: "('db, 's, 'v) mf_env \<Rightarrow> ('db, 's) mf_task" where
  "mf_setToken E c =
     (case f_random E of
        Inl e \<Rightarrow> (Inl (Wrap e ''read random error''), c)
      | Inr b \<Rightarrow> (Inr (), c\<lparr>fx_Frame := (fx_Frame c)\<lparr>gd_Token := ucast b, gd_DownlinkId := f_ctxID E\<rparr>\<rparr>))"

definition validatePayloadSize :: "('db, 's, 'v) mf_env \<Rightarrow> ('db, 's) mf_task" where
  "validatePayloadSize E c =
     (case bd_MaxPayloadSizeN (f_DL E) [] [] (mg_DR (fx_Group c)) of
        Inl e \<Rightarrow> (Inl (Wrap e ''get max payload-size for data-rate index error''), c)
      | Inr n \<Rightarrow>
          if int (length (mi_FRMPayload (fx_Item c))) > n
          then (case DeleteMulticastQueueItem (m_Queue E) (mi_ID (fx_Item c)) (w_DB c) of
                  (Inl e, db) \<Rightarrow> (Inl (Wrap e ''delete multicast-queue item error''), c\<lparr>w_DB := db\<rparr>)
                | (Inr _, db) \<Rightarrow> (Inl ErrAbort, c\<lparr>w_DB := db\<rparr>))
          else (Inr (), c))"

definition multicast_tx_info :: "('db, 's, 'v) mf_env \<Rightarrow> multicast_group \<Rightarrow> multicast_item \<Rightarrow> downlink_tx_info res" where
  "multicast_tx_info E mg qi =
     (let txInfo = empty_tx_info\<lparr>dt_Frequency := mg_Frequency mg,
            dt_Timing := (case mi_EmitAtTimeSinceGPSEpoch qi of None \<Rightarrow> IMMEDIATELY | Some t \<Rightarrow> GPS_EPOCH t)\<rparr>
      in case SetDownlinkTXInfoDataRate (m_Band E) (mg_DR mg) txInfo of
        Inl e \<Rightarrow> Inl (Wrap e ''set data-rate error'')
      | Inr txInfo \<Rightarrow> Inr (txInfo\<lparr>dt_Power :=
          (if f_downlinkTXPower E \<noteq> - 1 then f_downlinkTXPower E
           else bd_GetDownlinkTXPower (f_DL E) (mg_Frequency mg))\<rparr>))"

definition mf_setTXInfo :: "('db, 's, 'v) mf_env \<Rightarrow> ('db, 's) mf_task" where
  "mf_setTXInfo E c =
     (let frame = (fx_Frame c)\<lparr>gd_GatewayId := eui64_bytes (mi_GatewayID (fx_Item c))\<rparr> in
      case multicast_tx_info E (fx_Group c) (fx_Item c) of
        Inl e \<Rightarrow> (Inl e, c\<lparr>fx_Frame := frame\<rparr>)
      | Inr txInfo \<Rightarrow>
          (Inr (), c\<lparr>fx_Frame := frame\<lparr>gd_Items := [\<lparr>di_PhyPayload = [], di_TxInfo = Some txInfo\<rparr>]\<rparr>\<rparr>))"

definition multicast_phy :: "multicast_group \<Rightarrow> multicast_item \<Rightarrow> phy" where
  "multicast_phy mg qi =
     \<lparr>phy_MType = UnconfirmedDataDown, phy_MACPayload = Some (MACFrame
        \<lparr>mf_DevAddr = mg_MCAddr mg, mf_FCtrl = no_fctrl, mf_FCnt = mi_FCnt qi, mf_FOpts = [], mf_FPort = Some (mi_FPort qi),
         mf_FRMPayload = [DataItem (mi_FRMPayload qi)]\<rparr>)\<rparr>"

definition multicast_bytes :: "('db, 's, 'v) mf_env \<Rightarrow> multicast_group \<Rightarrow> multicast_item \<Rightarrow> byte list res" where
  "multicast_bytes E mg qi =
     (let phy = multicast_phy mg qi in
      case f_SetDownlinkDataMIC E LoRaWAN1_1 0 (mg_MCNwkSKey mg) phy of
        Inl e \<Rightarrow> Inl (Wrap e ''set downlink data mic error'')
      | Inr mic \<Rightarrow>
         (case f_MarshalBinary E phy mic of
            Inl e \<Rightarrow> Inl (Wrap e ''marshal phypayload error'')
          | Inr b \<Rightarrow> Inr b))"

definition mf_setPHYPayload :: "('db, 's, 'v) mf_env \<Rightarrow> ('db, 's) mf_task" where
  "mf_setPHYPayload E c =
     (case multicast_bytes E (fx_Group c) (fx_Item c) of
        Inl e \<Rightarrow> (Inl e, c)
      | Inr b \<Rightarrow> (Inr (), c\<lparr>fx_Frame := (fx_Frame c)\<lparr>gd_Items := map (\<lambda>i. i\<lparr>di_PhyPayload := b\<rparr>) (take 1 (gd_Items (fx_Frame c))) @
                     drop 1 (gd_Items (fx_Frame c))\<rparr>\<rparr>))"

definition multicast_stored :: "multicast_group \<Rightarrow> multicast_item \<Rightarrow> gw_downlink_frame \<Rightarrow> stored_frame" where
  "multicast_stored mg qi frame =
     zero_stored_frame\<lparr>sf_MulticastGroupId := uuid_bytes (mg_ID mg), sf_MulticastQueueItemId := mi_ID qi,
       sf_Token := gd_Token frame, sf_DownlinkFrame := frame\<rparr>"

definition mf_saveDownlinkFrame :: "('db, 's, 'v) mf_env \<Rightarrow> ('db, 's) mf_task" where
  "mf_saveDownlinkFrame E c =
     wrapping ''save downlink-frames error''
       (on_Redis (SaveDownlinkFrame (m_Redis E) (f_Frames E) (multicast_stored (fx_Group c) (fx_Item c) (fx_Frame c)))) c"

definition mf_sendDownlinkData :: "('db, 's, 'v) mf_env \<Rightarrow> ('db, 's) mf_task" where
  "mf_sendDownlinkData E c =
     (case f_send E (fx_Frame c) (w_Calls c) of
        Inl e \<Rightarrow> (Inl (Wrap e ''send downlink frame to gateway error''), c)
      | Inr _ \<Rightarrow> (Inr (), call_out (SendTXPacket (fx_Frame c)) c))"

definition multicastTasks :: "('db, 's, 'v) mf_env \<Rightarrow> ('db, 's) mf_task list" where
  "multicastTasks E =
     [mf_getMulticastGroup E, mf_setToken E, validatePayloadSize E, mf_setTXInfo E, mf_setPHYPayload E,
      mf_saveDownlinkFrame E, mf_sendDownlinkData E]"

section \<open>The flow and the batch\<close>

definition zero_multicast_group :: multicast_group where
  "zero_multicast_group =
     \<lparr>mg_ID = 0, mg_CreatedAt = zero_time, mg_UpdatedAt = zero_time, mg_MCAddr = 0, mg_MCNwkSKey = 0, mg_FCnt = 0,
      mg_GroupType = [], mg_DR = 0, mg_Frequency = 0, mg_PingSlotPeriod = 0, mg_RoutingProfileID = 0, mg_ServiceProfileID = 0\<rparr>"

definition HandleScheduleQueueItem ::
  "('db, 's, 'v) mf_env \<Rightarrow> multicast_item \<Rightarrow> ('db, 's) world \<Rightarrow> unit res \<times> ('db, 's) world" where
  "HandleScheduleQueueItem E qi w =
     (case flow_handle (multicastTasks E)
             \<lparr>w_DB = w_DB w, w_Redis = w_Redis w, w_Calls = w_Calls w, fx_Frame = empty_frame,
              fx_Group = zero_multicast_group, fx_Item = qi\<rparr> of
        (r, c) \<Rightarrow> (r, world.truncate c))"

text \<open>An item whose handling fails is left to the next batch; its error is logged.\<close>

fun schedule_items ::
  "('db, 's, 'v) mf_env \<Rightarrow> (nat \<Rightarrow> u16 res \<times> byte list) \<Rightarrow> nat \<Rightarrow> multicast_item list \<Rightarrow> ('db, 's) world \<Rightarrow> ('db, 's) world" where
  "schedule_items E draws i [] w = w"
| "schedule_items E draws i (qi # qis) w =
     schedule_items E draws (i + 1) qis
       (snd (HandleScheduleQueueItem (E\<lparr>f_random := fst (draws i), f_ctxID := snd (draws i)\<rparr>) qi w))"

definition ScheduleMulticastQueueBatch ::
  "('db, 's, 'v) mf_env \<Rightarrow> (int \<Rightarrow> bool) \<Rightarrow> (nat \<Rightarrow> u16 res \<times> byte list) \<Rightarrow> nat \<Rightarrow> ('db, 's) world \<Rightarrow>
   unit res \<times> ('db, 's) world" where
  "ScheduleMulticastQueueBatch E locked draws batch =
     Transaction (f_Session E) (\<lambda>w.
       case GetSchedulableMulticastQueueItems (m_Queue E) locked batch (f_now E) (w_DB w) of
         Inl e \<Rightarrow> (Inl (Wrap e ''get multicast queue-items error''), w)
       | Inr qis \<Rightarrow> (Inr (), schedule_items E draws 0 qis w))"

section \<open>What one item leads to\<close>

text \<open>The frame an item is sent as.\<close>

definition multicast_frame :: "('db, 's, 'v) mf_env \<Rightarrow> multicast_group \<Rightarrow> multicast_item \<Rightarrow> gw_downlink_frame res" where
  "multicast_frame E mg qi =
     (case (f_random E, multicast_tx_info E mg qi, multicast_bytes E mg qi) of
        (Inr token, Inr tx, Inr b) \<Rightarrow>
          Inr \<lparr>gd_GatewayId = eui64_bytes (mi_GatewayID qi), gd_Token = ucast token, gd_DownlinkId = f_ctxID E,
               gd_Items = [\<lparr>di_PhyPayload = b, di_TxInfo = Some tx\<rparr>]\<rparr>
      | _ \<Rightarrow> Inl (Errorf ''not sent''))"

lemma multicast_send_ok:
  "mf_sendDownlinkData E c = (Inr u, c') \<longleftrightarrow>
     f_send E (fx_Frame c) (w_Calls c) = Inr () \<and> c' = call_out (SendTXPacket (fx_Frame c)) c"
  by (cases "f_send E (fx_Frame c) (w_Calls c)") (auto simp: mf_sendDownlinkData_def)

lemma schedule_outcome:
  assumes "HandleScheduleQueueItem E qi w = (Inr (), w')"
  shows "\<exists>mg n. GetMulticastGroup (m_Groups E) (mi_MulticastGroupID qi) (w_DB w) = Inr mg \<and>
    bd_MaxPayloadSizeN (f_DL E) [] [] (mg_DR mg) = Inr n \<and>
    (if n < int (length (mi_FRMPayload qi))
     then \<exists>db. DeleteMulticastQueueItem (m_Queue E) (mi_ID qi) (w_DB w) = (Inr (), db) \<and> w' = w\<lparr>w_DB := db\<rparr>
     else \<exists>f s. multicast_frame E mg qi = Inr f \<and>
       SaveDownlinkFrame (m_Redis E) (f_Frames E) (multicast_stored mg qi f) (w_Redis w) = (Inr (), s) \<and>
       w' = w\<lparr>w_Redis := s, w_Calls := w_Calls w @ [SendTXPacket f]\<rparr>)"
proof -
  let ?c = "\<lparr>w_DB = w_DB w, w_Redis = w_Redis w, w_Calls = w_Calls w, fx_Frame = empty_frame,
              fx_Group = zero_multicast_group, fx_Item = qi\<rparr>"
  obtain c where run: "flow_handle (multicastTasks E) ?c = (Inr (), c)" "w' = world.truncate c"
    using assms by (auto simp: HandleScheduleQueueItem_def split: prod.splits)
  obtain mg where mg: "GetMulticastGroup (m_Groups E) (mi_MulticastGroupID qi) (w_DB w) = Inr mg"
    using run(1) by (cases "GetMulticastGroup (m_Groups E) (mi_MulticastGroupID qi) (w_DB w)")
      (auto simp: flow_handle_def multicastTasks_def run_tasks.simps mf_getMulticastGroup_def reading_def)
  obtain b where b: "f_random E = Inr b"
    using run(1) mg by (cases "f_random E")
      (auto simp: flow_handle_def multicastTasks_def run_tasks.simps mf_getMulticastGroup_def reading_def mf_setToken_def)
  let ?c1 = "?c\<lparr>fx_Group := mg, fx_Frame := empty_frame\<lparr>gd_Token := ucast b, gd_DownlinkId := f_ctxID E\<rparr>\<rparr>"
  have "flow_handle [validatePayloadSize E, mf_setTXInfo E, mf_setPHYPayload E, mf_saveDownlinkFrame E, mf_sendDownlinkData E] ?c1 = (Inr (), c)"
    using run(1) mg b
    by (simp add: flow_handle_def multicastTasks_def run_tasks.simps(2) mf_getMulticastGroup_def reading_def mf_setToken_def)
  note run1 = this
  obtain n where n: "bd_MaxPayloadSizeN (f_DL E) [] [] (mg_DR mg) = Inr n"
    using run1 by (cases "bd_MaxPayloadSizeN (f_DL E) [] [] (mg_DR mg)")
      (auto simp: flow_handle_def run_tasks.simps(2) validatePayloadSize_def)
  show ?thesis
  proof (cases "n < int (length (mi_FRMPayload qi))")
    case True
    obtain r db where d: "DeleteMulticastQueueItem (m_Queue E) (mi_ID qi) (w_DB w) = (r, db)" by fastforce
    have "r = Inr () \<and> c = ?c1\<lparr>w_DB := db\<rparr>"
      using run1 n True d by (cases r) (auto simp: flow_handle_def run_tasks.simps(2) validatePayloadSize_def)
    then show ?thesis using mg n True d run(2) by (auto simp: world.defs)
  next
    case False
    have run2: "flow_handle [mf_setTXInfo E, mf_setPHYPayload E, mf_saveDownlinkFrame E, mf_sendDownlinkData E] ?c1 = (Inr (), c)"
      using run1 n False by (simp add: flow_handle_def run_tasks.simps(2) validatePayloadSize_def)
    have "no_abort (mf_setTXInfo E)" "no_abort (mf_setPHYPayload E)" "no_abort (mf_saveDownlinkFrame E)" "no_abort (mf_sendDownlinkData E)"
      by (auto simp: no_abort_def mf_setTXInfo_def multicast_tx_info_def mf_setPHYPayload_def multicast_bytes_def
          mf_saveDownlinkFrame_def wrapping_def mf_sendDownlinkData_def Let_def split: sum.splits prod.splits)
    then have "no_abort (run_tasks [mf_setTXInfo E, mf_setPHYPayload E, mf_saveDownlinkFrame E, mf_sendDownlinkData E])"
      by (intro no_abort_run_tasks) auto
    from run2[unfolded flow_handle_ok[OF this]] obtain tx pb s where
      *: "multicast_tx_info E mg qi = Inr tx" "multicast_bytes E mg qi = Inr pb"
      and "SaveDownlinkFrame (m_Redis E) (f_Frames E) (multicast_stored mg qi \<lparr>gd_GatewayId = eui64_bytes (mi_GatewayID qi),
          gd_Token = ucast b, gd_DownlinkId = f_ctxID E, gd_Items = [\<lparr>di_PhyPayload = pb, di_TxInfo = Some tx\<rparr>]\<rparr>) (w_Redis w) = (Inr (), s)"
      and "c = call_out (SendTXPacket \<lparr>gd_GatewayId = eui64_bytes (mi_GatewayID qi), gd_Token = ucast b, gd_DownlinkId = f_ctxID E,
          gd_Items = [\<lparr>di_PhyPayload = pb, di_TxInfo = Some tx\<rparr>]\<rparr>)
          (?c1\<lparr>fx_Frame := \<lparr>gd_GatewayId = eui64_bytes (mi_GatewayID qi), gd_Token = ucast b, gd_DownlinkId = f_ctxID E,
          gd_Items = [\<lparr>di_PhyPayload = pb, di_TxInfo = Some tx\<rparr>]\<rparr>, w_Redis := s\<rparr>)"
      by (auto simp: run_tasks_ok mf_setTXInfo_def mf_setPHYPayload_def mf_saveDownlinkFrame_def multicast_send_ok
          wrapping_ok on_Redis_ok empty_frame_def Let_def split: sum.splits)
    then show ?thesis using mg n False run(2) b by (auto simp: multicast_frame_def world.defs call_out_def)
  qed
qed

section \<open>The acknowledgement\<close>

text \<open>A saved frame that Redis answers with is the one that was saved.\<close>

lemma frame_read_back:
  assumes "redis_server R holds" and "codec_ok codec" and "SaveDownlinkFrame R codec frame s = (Inr (), s')"
    and "rd_Get R (downlinkFrameKey (sf_Token frame)) s' = Inr v"
  shows "dec codec v = Inr frame"
proof -
  obtain b where b: "enc codec frame = Inr b" "rd_Set R (downlinkFrameKey (sf_Token frame)) b downlinkFrameTTL s = (Inr (), s')"
    using assms(3) by (auto simp: SaveDownlinkFrame_def split: sum.splits prod.splits)
  have "c_val (holds s') (downlinkFrameKey (sf_Token frame)) = Some b"
    using redis_server.Set[OF assms(1) b(2)] by (simp add: executed_def downlinkFrameTTL_def)
  then have "v = b" using redis_server.Get[OF assms(1,4)] by simp
  then show ?thesis using codec_okD[OF assms(2) b(1)] by simp
qed

lemma meta_data_call:
  "\<exists>md. \<forall>c. sendDownlinkMetaDataToNetworkController K c = (Inr (), call_out (HandleDownlinkMetaData (md c)) c)"
  unfolding sendDownlinkMetaDataToNetworkController_def Let_def by (rule exI, rule allI, rule refl)

text \<open>What an acknowledgement does to a frame of the multicast queue.\<close>

lemma acked_single: "length acks \<le> 1 \<Longrightarrow> acked_item acks [x] = x"
  by (cases acks) (auto simp: acked_item_def)

lemma multicast_acknowledged:
  assumes "HandleDownlinkTXAck K a c = (Inr (), c')" and "ack_token a (ac_Token c) = token"
    and "GetDownlinkFrame (k_Redis K) (k_Frames K) token (w_Redis c) = Inr (multicast_stored mg qi f)"
    and "gd_Items f = [item]" and "mi_ID qi \<noteq> 0" and "\<And>f i. k_log_error K f i \<noteq> Some ErrAbort"
  shows "if ack_outcome K a = Inr TxAckStatus_OK
    then \<exists>db1 db2 md. sx_Begin (k_Session K) (w_DB c) = (Inr (), db1) \<and> sx_Commit (k_Session K) db1 = (Inr (), db2) \<and>
      k_Delete_Multicast K (mi_ID qi) db2 = (Inr (), w_DB c') \<and> w_Redis c' = w_Redis c \<and>
      w_Calls c' = w_Calls c @ [HandleDownlinkMetaData md]
    else k_Delete_Multicast K (mi_ID qi) (w_DB c) = (Inr (), w_DB c') \<and> w_Redis c' = w_Redis c \<and> w_Calls c' = w_Calls c"
proof -
  let ?rest = "drop 3 (handleDownlinkTXAckTasks K)"
  obtain st where st: "ack_outcome K a = Inr st"
    using assms(1) by (cases "ack_outcome K a") (auto simp: HandleDownlinkTXAck_def)
  have group: "uuid_bytes (mg_ID mg) \<noteq> []" using bytes_lengths by (metis length_0_conv zero_neq_numeral)
  define c1 where "c1 = c\<lparr>ac_TXAck := a, ac_Status := st, ac_Token := token, ac_Frame := multicast_stored mg qi f, ac_Item := Some item\<rparr>"
  obtain c2 where dec: "decodePHYPayload K c1 = (Inr (), c2)"
    and c2: "w_DB c2 = w_DB c" "w_Redis c2 = w_Redis c" "w_Calls c2 = w_Calls c" "ac_Status c2 = st"
      "ac_Frame c2 = multicast_stored mg qi f"
    by (cases "k_decode K (di_PhyPayload item)") (auto simp: decodePHYPayload_def c1_def)
  have "flow_handle (getDownlinkFrame K # decodePHYPayload K # ?rest) (c\<lparr>ac_TXAck := a, ac_Status := st, ac_Token := token\<rparr>) = (Inr (), c')"
    using assms(1,2) st
    by (simp add: HandleDownlinkTXAck_def handleDownlinkTXAckTasks_def flow_handle_def run_tasks.simps(2) getToken_def update_ctx_def)
  then have "flow_handle (decodePHYPayload K # ?rest) c1 = (Inr (), c')"
    using assms(3,4) acked_single[of "ta_Items a" item]
    by (auto simp: flow_handle_def run_tasks.simps(2) getDownlinkFrame_def multicast_stored_def Let_def c1_def split: if_splits)
  then have "flow_handle ?rest c2 = (Inr (), c')" using dec by (simp add: flow_handle_def run_tasks.simps(2))
  then have run: "run_tasks ?rest c2 = (Inr (), c')" using flow_handle_ok[OF no_abort_after_frame[OF assms(6)]] by simp
  note flow = handleDownlinkTXAckTasks_def onError_def onNoError_def task_when_ok run_tasks_ok on_DB_ok
    forApplicationPayload_def forMACOnlyPayload_def forMulticastPayload_def multicast_stored_def zero_stored_frame_def
    deleteMulticastQueueItem_def wrapping_ok
  show ?thesis
  proof (cases "st = TxAckStatus_OK")
    case True
    obtain md where md: "\<And>c. sendDownlinkMetaDataToNetworkController K c = (Inr (), call_out (HandleDownlinkMetaData (md c)) c)"
      using meta_data_call[of K] by blast
    obtain db1 db2 db3 where t: "sx_Begin (k_Session K) (w_DB c) = (Inr (), db1)" "sx_Commit (k_Session K) db1 = (Inr (), db2)"
        "k_Delete_Multicast K (mi_ID qi) db2 = (Inr (), db3)"
      and c': "c' = call_out (HandleDownlinkMetaData (md (c2\<lparr>w_DB := db3\<rparr>))) (c2\<lparr>w_DB := db3\<rparr>)"
      using run md c2 group assms(5) True by (auto simp: flow Transaction_ok logDownlinkFrame_def call_out_def)
    then show ?thesis using c2 True st by auto
  next
    case False
    obtain db3 where "k_Delete_Multicast K (mi_ID qi) (w_DB c) = (Inr (), db3)" "c' = c2\<lparr>w_DB := db3\<rparr>"
      using run c2 group assms(4,5) False by (auto simp: flow saveDownlinkFrames_def sendDownlinkFrame_def Let_def)
    then show ?thesis using c2 False st by simp
  qed
qed

section \<open>Properties\<close>

text \<open>
  C37: the way of a multicast item. When the scheduler sends an item, one frame goes to the gateway of the
  item, and the database stays as it is. The acknowledgement of the frame, positive or negative and
  of the older format or per item, for which Redis still answers with the frame, removes this item from the
  queue, and no other, and leaves Redis alone. A positive one is reported to the network-controller, a negative
  one to nobody.
\<close>

theorem multicast_item_goes_with_its_acknowledgement:
  assumes "redis_server (m_Redis E) holds" and "codec_ok (f_Frames E)"
    and "sql_transactions (m_Queue E) qrows qcolumns qkeyed (f_Session E) base"
    and "k_Redis K = m_Redis E" "k_Frames K = f_Frames E" "k_Session K = f_Session E"
    and "k_Delete_Multicast K = DeleteMulticastQueueItem (m_Queue E)" and "\<And>f i. k_log_error K f i \<noteq> Some ErrAbort"
    and "HandleScheduleQueueItem E qi w = (Inr (), w')" and "w_Calls w' \<noteq> w_Calls w"
    and "f_random E = Inr token" "mi_ID qi \<noteq> 0"
    and "rd_Get (m_Redis E) (downlinkFrameKey (ucast token)) (w_Redis w') = Inr v"
    and "ack_token a 0 = token" and "HandleDownlinkTXAck K a (new_ack_context a w') = (Inr (), c')"
  shows "w_DB w' = w_DB w \<and>
    (\<exists>mg f cs. GetMulticastGroup (m_Groups E) (mi_MulticastGroupID qi) (w_DB w) = Inr mg \<and>
      multicast_frame E mg qi = Inr f \<and> w_Calls w' = w_Calls w @ [SendTXPacket f] \<and> w_Calls c' = w_Calls w' @ cs \<and>
      (if ack_outcome K a = Inr TxAckStatus_OK then \<exists>md. cs = [HandleDownlinkMetaData md] else cs = [])) \<and>
    qrows (w_DB c') = {#r \<in># qrows (w_DB w). mi_ID r \<noteq> mi_ID qi#} \<and> w_Redis c' = w_Redis w'"
proof -
  obtain mg f s where mg: "GetMulticastGroup (m_Groups E) (mi_MulticastGroupID qi) (w_DB w) = Inr mg"
    and f: "multicast_frame E mg qi = Inr f"
    and save: "SaveDownlinkFrame (m_Redis E) (f_Frames E) (multicast_stored mg qi f) (w_Redis w) = (Inr (), s)"
    and w': "w' = w\<lparr>w_Redis := s, w_Calls := w_Calls w @ [SendTXPacket f]\<rparr>"
    using schedule_outcome[OF assms(9)] assms(10) by (auto split: if_splits)
  obtain item where fields: "gd_Token f = ucast token" "gd_Items f = [item]"
    using f assms(11) by (auto simp: multicast_frame_def split: sum.splits)
  have "dec (f_Frames E) v = Inr (multicast_stored mg qi f)"
    by (rule frame_read_back[OF assms(1,2) save, of v]) (use assms(13) w' fields(1) in \<open>simp add: multicast_stored_def\<close>)
  then have "GetDownlinkFrame (k_Redis K) (k_Frames K) token (w_Redis (new_ack_context a w')) = Inr (multicast_stored mg qi f)"
    using assms(4,5,13) by (simp add: GetDownlinkFrame_def new_ack_context_def)
  note acked = multicast_acknowledged[OF assms(15) _ this fields(2) assms(12,8)]
  have start: "w_DB (new_ack_context a w') = w_DB w" "w_Redis (new_ack_context a w') = w_Redis w'"
    "w_Calls (new_ack_context a w') = w_Calls w'" "ack_token a (ac_Token (new_ack_context a w')) = token"
    using assms(14) by (simp_all add: new_ack_context_def w')
  obtain db cs where t: "DeleteMulticastQueueItem (m_Queue E) (mi_ID qi) db = (Inr (), w_DB c')" "qrows db = qrows (w_DB w)"
    "w_Redis c' = w_Redis w'" "w_Calls c' = w_Calls w' @ cs"
    "if ack_outcome K a = Inr TxAckStatus_OK then \<exists>md. cs = [HandleDownlinkMetaData md] else cs = []"
    using acked sql_transactions.begin_ok[OF assms(3)] sql_transactions.commit_ok[OF assms(3)]
    by (auto simp: start assms(6,7) split: if_splits)
  have "qrows (w_DB c') = {#r \<in># qrows (w_DB w). mi_ID r \<noteq> mi_ID qi#}"
    using sql_table.deleted[OF sql_transactions.axioms(1)[OF assms(3)] t(1)[unfolded DeleteMulticastQueueItem_def]] t(2) by simp
  then show ?thesis using mg f t(3-5) w' by auto
qed

text \<open>A group and its queue in a database with transactions.\<close>

type_synonym mc_db = "mc_tables \<times> mc_tables"

definition mc_db_table :: "(mc_tables \<Rightarrow> 'r memtable) \<Rightarrow> ('r memtable \<Rightarrow> mc_tables \<Rightarrow> mc_tables) \<Rightarrow> (int \<Rightarrow> 'r \<Rightarrow> 'r) \<Rightarrow>
    ('r \<Rightarrow> 'r \<Rightarrow> bool) \<Rightarrow> (mc_db, 'r) table" where
  "mc_db_table g p = mem_table (\<lambda>db. g (fst db)) (\<lambda>m db. (p m (fst db), snd db)) (\<lambda>r. r)"

definition mc_session :: "mc_db sql_session" where
  "mc_session =
     \<lparr>sx_Begin = (\<lambda>(t, _). (Inr (), (t, t))), sx_Commit = (\<lambda>db. (Inr (), db)),
      sx_Rollback = (\<lambda>(_, old). (Inr (), (old, old)))\<rparr>"

definition no_table :: "('db, 'r) table" where
  "no_table = \<lparr>tb_scan = (\<lambda>_. Inr []), tb_insert = (\<lambda>_ db. (Inl mem_gone, db)), tb_update = (\<lambda>_ _ db. (Inr 0, db)),
     tb_delete = (\<lambda>_ db. (Inr 0, db))\<rparr>"

definition sample_mf_env :: "(mc_db, memory, redis_value) mf_env" where
  "sample_mf_env =
     \<lparr>m_Groups = mc_db_table mt_groups (\<lambda>t. mt_groups_update (\<lambda>_. t)) (\<lambda>_ r. r) (\<lambda>r r'. mg_ID r = mg_ID r'),
      m_Members = mc_db_table mt_members (\<lambda>t. mt_members_update (\<lambda>_. t)) (\<lambda>_ r. r) (=),
      m_Queue = mc_db_table mt_queue (\<lambda>t. mt_queue_update (\<lambda>_. t)) (\<lambda>k r. r\<lparr>mi_ID := k\<rparr>) (\<lambda>r r'. mi_ID r = mi_ID r'),
      m_Redis = mem_redis, m_RxInfo = rx_info_values, m_kruskal = simple_kruskal, m_order = (\<lambda>xs. xs), m_Band = sample_band,
      m_installationMargin = 0, m_gatewayDelay = second, m_schedulerInterval = second, m_aes = (\<lambda>_ _ _. 0),
      m_marshal_addr = (\<lambda>_. Inr [4, 3, 2, 1]), f_Frames = frame_values, f_DL = sample_dl_band, f_downlinkTXPower = - 1,
      f_SetDownlinkDataMIC = (\<lambda>_ _ _ _. Inr [1, 2, 3, 4]), f_MarshalBinary = (\<lambda>_ mic. Inr mic), f_send = (\<lambda>_ _. Inr ()),
      f_random = Inr 5, f_ctxID = [], f_Session = mc_session, f_now = 0\<rparr>"

definition sample_mc_ack_env :: "(mc_db, memory, redis_value) ack_env" where
  "sample_mc_ack_env =
     \<lparr>k_Redis = mem_redis, k_Sessions = session_values, k_Frames = frame_values, k_Profiles = device_profile_values, k_TTL = 1000,
      k_Queue = no_table, k_Devices = no_table, k_DeviceProfiles = no_table, k_RoutingProfiles = no_table,
      k_Delete_Multicast = DeleteMulticastQueueItem (m_Queue sample_mf_env), k_Session = mc_session, k_pool = (\<lambda>_. Inr ()),
      k_send = (\<lambda>_ _. Inr ()), k_status = (\<lambda>_. None), k_decode = (\<lambda>_. (JoinRequest, None)), k_payload_size = (\<lambda>_. Inr 1),
      k_log_error = (\<lambda>_ _. None), k_now = 0\<rparr>"

definition queued_item :: "int \<Rightarrow> multicast_item" where
  "queued_item i = sample_mc_item\<lparr>mi_ID := i, mi_GatewayID := 21\<rparr>"

definition sample_mc_world :: "(mc_db, memory) world" where
  "sample_mc_world =
     (let t = (group_tables sample_group)\<lparr>mt_queue := \<lparr>mt_up = True, mt_next = 3, mt_rows = [queued_item 1, queued_item 2]\<rparr>\<rparr>
      in \<lparr>w_DB = (t, t), w_Redis = mem_empty, w_Calls = []\<rparr>)"

text \<open>A positive acknowledgement of the older format, and a negative one of the single item.\<close>

definition mc_ack :: "tx_ack_item list \<Rightarrow> downlink_tx_ack" where
  "mc_ack items = \<lparr>ta_Token = 5, ta_DownlinkId = [], ta_Error = [], ta_Items = items\<rparr>"

lemma sample_item_sent:
  "case HandleScheduleQueueItem sample_mf_env (queued_item 1) sample_mc_world of
      (Inr _, w) \<Rightarrow> w_Calls w \<noteq> [] \<and>
        (case rd_Get (m_Redis sample_mf_env) (downlinkFrameKey (ucast (5 :: u16))) (w_Redis w) of Inr _ \<Rightarrow> True | Inl _ \<Rightarrow> False) \<and>
        list_all (\<lambda>a. case HandleDownlinkTXAck sample_mc_ack_env a (new_ack_context a w) of (Inr _, _) \<Rightarrow> True | (Inl _, _) \<Rightarrow> False)
          [mc_ack [], mc_ack [\<lparr>ai_Status = TxAckStatus_Error 3\<rparr>]]
    | (Inl _, _) \<Rightarrow> False"
  by code_simp

lemma sample_mc_queue:
  "sql_transactions (m_Queue sample_mf_env) (mem_rows (\<lambda>db. mt_queue (fst db))) (\<lambda>r. r) (mem_keyed (\<lambda>k r. r\<lparr>mi_ID := k\<rparr>))
     (f_Session sample_mf_env) (mem_rows (\<lambda>db. mt_queue (snd db)))"
  unfolding sample_mf_env_def mf_env.select_convs mc_env.select_convs mc_db_table_def
  by (intro sql_transactions.intro mem_table_laws sql_transactions_axioms.intro mem_table_keeps)
    (auto simp: mc_session_def mem_rows_def)

theorem multicast_item_goes_with_its_acknowledgement_witness:
  "\<exists>w' c1 c2. HandleScheduleQueueItem sample_mf_env (queued_item 1) sample_mc_world = (Inr (), w') \<and>
     HandleDownlinkTXAck sample_mc_ack_env (mc_ack []) (new_ack_context (mc_ack []) w') = (Inr (), c1) \<and>
     HandleDownlinkTXAck sample_mc_ack_env (mc_ack [\<lparr>ai_Status = TxAckStatus_Error 3\<rparr>])
       (new_ack_context (mc_ack [\<lparr>ai_Status = TxAckStatus_Error 3\<rparr>]) w') = (Inr (), c2) \<and>
     mem_rows (\<lambda>db. mt_queue (fst db)) (w_DB c1) = {#queued_item 2#} \<and> length (w_Calls c1) = 2 \<and>
     mem_rows (\<lambda>db. mt_queue (fst db)) (w_DB c2) = {#queued_item 2#} \<and> length (w_Calls c2) = 1"
proof -
  obtain w' where sent: "HandleScheduleQueueItem sample_mf_env (queued_item 1) sample_mc_world = (Inr (), w')" "w_Calls w' \<noteq> []"
    and get: "case rd_Get (m_Redis sample_mf_env) (downlinkFrameKey (ucast (5 :: u16))) (w_Redis w') of Inr _ \<Rightarrow> True | Inl _ \<Rightarrow> False"
    and acked: "list_all (\<lambda>a. case HandleDownlinkTXAck sample_mc_ack_env a (new_ack_context a w') of (Inr _, _) \<Rightarrow> True | (Inl _, _) \<Rightarrow> False)
          [mc_ack [], mc_ack [\<lparr>ai_Status = TxAckStatus_Error 3\<rparr>]]"
    using sample_item_sent
    by (cases "HandleScheduleQueueItem sample_mf_env (queued_item 1) sample_mc_world") (simp split: sum.split_asm)
  obtain v where v: "rd_Get (m_Redis sample_mf_env) (downlinkFrameKey (ucast (5 :: u16))) (w_Redis w') = Inr v"
    using get by (simp split: sum.split_asm)
  have server: "redis_server (m_Redis sample_mf_env) mem_holds"
    using mem_server.redis_server_axioms by (simp add: sample_mf_env_def)
  have start: "mem_rows (\<lambda>db. mt_queue (fst db)) (w_DB sample_mc_world) = {#queued_item 1, queued_item 2#}"
    "w_Calls sample_mc_world = []" by (simp_all add: sample_mc_world_def Let_def mem_rows_def)
  have ids: "mi_ID (queued_item n) = n" for n by (simp add: queued_item_def)
  have gone: "\<exists>c'. HandleDownlinkTXAck sample_mc_ack_env (mc_ack as) (new_ack_context (mc_ack as) w') = (Inr (), c') \<and>
      mem_rows (\<lambda>db. mt_queue (fst db)) (w_DB c') = {#queued_item 2#} \<and>
      length (w_Calls c') = (if ack_outcome sample_mc_ack_env (mc_ack as) = Inr TxAckStatus_OK then 2 else 1)"
    if as: "as \<in> {[], [\<lparr>ai_Status = TxAckStatus_Error 3\<rparr>]}" for as
  proof -
    obtain c' where c': "HandleDownlinkTXAck sample_mc_ack_env (mc_ack as) (new_ack_context (mc_ack as) w') = (Inr (), c')"
      using as acked
      by (cases "HandleDownlinkTXAck sample_mc_ack_env (mc_ack as) (new_ack_context (mc_ack as) w')") (auto split: sum.split_asm)
    have token: "ack_token (mc_ack as) 0 = 5" by (simp add: ack_token_def mc_ack_def)
    show ?thesis
      using multicast_item_goes_with_its_acknowledgement[OF server _ sample_mc_queue _ _ _ _ _ sent(1) _ _ _ v token c'] sent(2) c'
      by (auto simp: start ids sample_mf_env_def sample_mc_ack_env_def value_codecs_ok split: if_splits)
  qed
  have "ack_outcome sample_mc_ack_env (mc_ack []) = Inr TxAckStatus_OK"
    "ack_outcome sample_mc_ack_env (mc_ack [\<lparr>ai_Status = TxAckStatus_Error 3\<rparr>]) \<noteq> Inr TxAckStatus_OK"
    by (simp_all add: ack_outcome_def mc_ack_def)
  then show ?thesis using sent(1) gone[of "[]"] gone[of "[\<lparr>ai_Status = TxAckStatus_Error 3\<rparr>]"] by auto
qed

end
