(* ===== verification/JoinDownlink.thy ===== *)
theory JoinDownlink
  imports DownlinkFlow UplinkData
begin

text \<open>
  What a join is made of: the environment of the join and rejoin flows, and the downlink that
  carries the join-accept (\<open>internal/downlink/join/join.go\<close>). The join-accept comes encrypted from
  the join-server; a frame of it is the decoded frame with its message integrity code.

  \<open>j_down\<close> holds the tables, codecs, band and configuration the downlinks use. The join-servers are
  \<open>j_GetClientForJoinEUI\<close>, \<open>j_JoinReq\<close> and \<open>j_RejoinReq\<close>, whose answers may depend on the calls made so
  far; \<open>j_random_\<dots>\<close> are the bytes drawn for each purpose.
\<close>

section \<open>Environment\<close>

datatype cflist_type = CFListChannel | CFListChannelMask | CFListOther nat

datatype cflist_payload = CFListChannelPayload "u32 list" | CFListChannelMaskPayload "bool list list"

record cflist =
  cl_CFListType :: cflist_type
  cl_Payload :: cflist_payload

record join_answer =
  ja_PHYPayload :: "byte list"
  ja_AppSKey :: "key_envelope option"
  ja_NwkSKey :: "key_envelope option"
  ja_SNwkSIntKey :: "key_envelope option"
  ja_FNwkSIntKey :: "key_envelope option"
  ja_NwkSEncKey :: "key_envelope option"

record ('db, 's, 'v) join_env =
  j_down :: "('db, 's, 'v) dl_env"
  j_Devices :: "('db, device) table"
  j_Activations :: "'db activation_table"
  j_JoinAcceptDelay1 :: duration
  j_JoinAcceptDelay2 :: duration
  j_RX2Frequency :: u32
  j_RX2DataRate :: int
  j_GetCFList :: "string \<Rightarrow> cflist option"
  j_MarshalCFList :: "cflist \<Rightarrow> byte list res"
  j_keks :: "string \<Rightarrow> byte list option"
  j_Unwrap :: "key_envelope \<Rightarrow> byte list \<Rightarrow> aeskey res"
  j_netID :: u32
  j_SetAddrPrefix :: "u32 \<Rightarrow> devaddr \<Rightarrow> devaddr"
  j_random_addr :: "byte list res"
  j_random_transaction :: "byte list res"
  j_random_token :: "byte list res"
  j_ForceGwsPrivate :: bool
  j_roamingEnabled :: bool
  j_has_controller :: bool
  j_MarshalRequest :: "phy \<Rightarrow> byte list res"
  j_UnmarshalAccept :: "byte list \<Rightarrow> (phy \<times> byte list) res"
  j_ValidateUplinkJoinMIC :: "phy \<Rightarrow> aeskey \<Rightarrow> bool res"
  j_log_error :: "dl_packet \<Rightarrow> error option"
  j_GetClientForJoinEUI :: "eui64 \<Rightarrow> unit res"
  j_JoinReq :: "join_request \<Rightarrow> call list \<Rightarrow> join_answer res"
  j_RejoinReq :: "join_request \<Rightarrow> call list \<Rightarrow> join_answer res"

text \<open>A flow of another component, on the world a context extends.\<close>

definition in_flow_world ::
  "(('db, 's) world \<Rightarrow> unit res \<times> ('db, 's) world) \<Rightarrow> ('db, 's, 'z) world_scheme task" where
  "in_flow_world f c =
     (case f (world.truncate c) of
        (r, w) \<Rightarrow> (r, c\<lparr>w_DB := w_DB w, w_Redis := w_Redis w, w_Calls := w_Calls w\<rparr>))"

section \<open>Context\<close>

record ('db, 's) jd_context = "('db, 's) world" +
  jd_DeviceSession :: device_session
  jd_GatewayRXInfo :: "gw_rx_info list"
  jd_RXPacket :: dl_packet
  jd_PHYPayload :: "phy \<times> byte list"
  jd_Gateway :: gw_rx_info
  jd_Frame :: gw_downlink_frame

type_synonym ('db, 's) jd_task = "('db, 's) jd_context task"

section \<open>Tasks\<close>

definition jd_setDeviceGatewayRXInfo :: "('db, 's) jd_task" where
  "jd_setDeviceGatewayRXInfo c =
     (let c = c\<lparr>jd_GatewayRXInfo := jd_GatewayRXInfo c @ map rx_info_of (rp_RXInfoSet (jd_RXPacket c))\<rparr>
      in (if jd_GatewayRXInfo c = [] then Inl (Errorf ''DeviceGatewayRXInfo is empty!'') else Inr (), c))"

definition jd_selectDownlinkGateway :: "('db, 's, 'v) join_env \<Rightarrow> ('db, 's) jd_task" where
  "jd_selectDownlinkGateway E c =
     (let D = j_down E in
      case SelectDownlinkGateway (n_sort D) (n_intn D) (n_Band D) (cf_gatewayPreferMinMargin (n_conf D))
             (rp_DR (jd_RXPacket c)) (jd_GatewayRXInfo c) of
        Inl e \<Rightarrow> (Inl e, c)
      | Inr g \<Rightarrow> (Inr (), c\<lparr>jd_Gateway := g, jd_Frame := (jd_Frame c)\<lparr>gd_GatewayId := eui64_bytes (gri_GatewayID g)\<rparr>\<rparr>))"

text \<open>What the two windows share.\<close>

definition jd_window :: "('db, 's, 'v) join_env \<Rightarrow> gw_rx_info \<Rightarrow> int \<Rightarrow> u32 res \<Rightarrow> duration \<Rightarrow> downlink_frame_item res" where
  "jd_window E g dr freq delay =
     (let txInfo = empty_tx_info\<lparr>dt_Board := gri_Board g, dt_Antenna := gri_Antenna g, dt_Context := gri_Context g,
            dt_Timing := DELAY delay\<rparr>
      in case SetDownlinkTXInfoDataRate (n_Band (j_down E)) dr txInfo of
        Inl e \<Rightarrow> Inl (Wrap e ''set downlink tx-info data-rate error'')
      | Inr txInfo \<Rightarrow>
         (case freq of
            Inl e \<Rightarrow> Inl e
          | Inr freq \<Rightarrow> Inr \<lparr>di_PhyPayload = [],
              di_TxInfo = Some (txInfo\<lparr>dt_Frequency := freq,
                dt_Power := sint (word_of_int (tx_power (j_down E) freq) :: 32 word)\<rparr>)\<rparr>))"

definition jd_add :: "downlink_frame_item res \<Rightarrow> ('db, 's) jd_task" where
  "jd_add item c =
     (case item of
        Inl e \<Rightarrow> (Inl e, c)
      | Inr i \<Rightarrow> (Inr (), c\<lparr>jd_Frame := (jd_Frame c)\<lparr>gd_Items := gd_Items (jd_Frame c) @ [i]\<rparr>\<rparr>))"

definition jd_rx1 :: "('db, 's, 'v) join_env \<Rightarrow> gw_rx_info \<Rightarrow> dl_packet \<Rightarrow> downlink_frame_item res" where
  "jd_rx1 E g p =
     (case bd_GetRX1DataRateIndex (n_DL (j_down E)) (rp_DR p) 0 of
        Inl e \<Rightarrow> Inl (Wrap e ''get rx1 data-rate index error'')
      | Inr rx1DR \<Rightarrow>
          jd_window E g rx1DR
            (case rp_TXInfo p of
               None \<Rightarrow> Inl (Panic ''nil TXInfo'')
             | Some t \<Rightarrow> (case bd_GetRX1Frequency (n_DL (j_down E)) (ut_Frequency t) of
                 Inl e \<Rightarrow> Inl (Wrap e ''get rx1 frequency error'') | Inr f \<Rightarrow> Inr f))
            (j_JoinAcceptDelay1 E))"

definition jd_rx2 :: "('db, 's, 'v) join_env \<Rightarrow> gw_rx_info \<Rightarrow> downlink_frame_item res" where
  "jd_rx2 E g = jd_window E g (j_RX2DataRate E) (Inr (j_RX2Frequency E)) (j_JoinAcceptDelay2 E)"

definition jd_setTXInfo :: "('db, 's, 'v) join_env \<Rightarrow> ('db, 's) jd_task" where
  "jd_setTXInfo E =
     (let rxWindow = cf_rxWindow (n_conf (j_down E)) in run_tasks
        ((if rxWindow = 0 \<or> rxWindow = 1 then [\<lambda>c. jd_add (jd_rx1 E (jd_Gateway c) (jd_RXPacket c)) c] else []) @
         (if rxWindow = 0 \<or> rxWindow = 2 then [\<lambda>c. jd_add (jd_rx2 E (jd_Gateway c)) c] else [])))"

definition jd_setToken :: "('db, 's, 'v) join_env \<Rightarrow> ('db, 's) jd_task" where
  "jd_setToken E c =
     (case j_random_token E of
        Inl e \<Rightarrow> (Inl (Wrap e ''read random error''), c)
      | Inr b \<Rightarrow> (Inr (), c\<lparr>jd_Frame := (jd_Frame c)
          \<lparr>gd_Token := ucast (word_rcat (to_array 2 b) :: u16), gd_DownlinkId := n_ctxID (j_down E)\<rparr>\<rparr>))"

definition with_payload :: "byte list \<Rightarrow> gw_downlink_frame \<Rightarrow> gw_downlink_frame" where
  "with_payload b f = f\<lparr>gd_Items := map (\<lambda>i. i\<lparr>di_PhyPayload := b\<rparr>) (gd_Items f)\<rparr>"

definition jd_setDownlinkFrame :: "('db, 's, 'v) join_env \<Rightarrow> ('db, 's) jd_task" where
  "jd_setDownlinkFrame E c =
     (case n_MarshalBinary (j_down E) (fst (jd_PHYPayload c)) (snd (jd_PHYPayload c)) of
        Inl e \<Rightarrow> (Inl (Wrap e ''marshal phypayload error''), c)
      | Inr b \<Rightarrow> (Inr (), c\<lparr>jd_Frame := with_payload b (jd_Frame c)\<rparr>))"

definition jd_sendJoinAcceptResponse :: "('db, 's, 'v) join_env \<Rightarrow> ('db, 's) jd_task" where
  "jd_sendJoinAcceptResponse E c =
     wrapping ''send downlink frame error'' (send_packet (n_send (j_down E)) (jd_Frame c)) c"

definition jd_stored :: "device_session \<Rightarrow> gw_downlink_frame \<Rightarrow> stored_frame" where
  "jd_stored ds f = zero_stored_frame\<lparr>sf_DevEui := eui64_bytes (ds_DevEUI ds), sf_Token := gd_Token f,
     sf_RoutingProfileId := uuid_bytes (ds_RoutingProfileID ds), sf_DownlinkFrame := f\<rparr>"

definition jd_saveDownlinkFrame :: "('db, 's, 'v) join_env \<Rightarrow> ('db, 's) jd_task" where
  "jd_saveDownlinkFrame E c =
     wrapping ''save downlink-frame error''
       (on_Redis (SaveDownlinkFrame (n_Redis (j_down E)) (n_Frames (j_down E)) (jd_stored (jd_DeviceSession c) (jd_Frame c)))) c"

definition jd_tasks :: "('db, 's, 'v) join_env \<Rightarrow> ('db, 's) jd_task list" where
  "jd_tasks E =
     [jd_setDeviceGatewayRXInfo, jd_selectDownlinkGateway E, jd_setTXInfo E, jd_setToken E, jd_setDownlinkFrame E,
      jd_sendJoinAcceptResponse E, jd_saveDownlinkFrame E]"

definition no_gateway :: gw_rx_info where
  "no_gateway = \<lparr>gri_GatewayID = 0, gri_RSSI = 0, gri_LoRaSNR = 0, gri_Antenna = 0, gri_Board = 0, gri_Context = []\<rparr>"

definition JoinAccept_Handle ::
  "('db, 's, 'v) join_env \<Rightarrow> device_session \<Rightarrow> dl_packet \<Rightarrow> phy \<times> byte list \<Rightarrow> ('db, 's) world \<Rightarrow>
   unit res \<times> ('db, 's) world" where
  "JoinAccept_Handle E ds rxPacket phy w =
     (case run_tasks (jd_tasks E)
             \<lparr>w_DB = w_DB w, w_Redis = w_Redis w, w_Calls = w_Calls w, jd_DeviceSession = ds, jd_GatewayRXInfo = [],
              jd_RXPacket = rxPacket, jd_PHYPayload = phy, jd_Gateway = no_gateway, jd_Frame = empty_frame\<rparr> of
        (r, c) \<Rightarrow> (r, world.truncate c))"

section \<open>What is sent\<close>

text \<open>The windows of a configuration, and the items for them.\<close>

definition accept_windows :: "int \<Rightarrow> nat list" where
  "accept_windows rxWindow = (if rxWindow = 0 then [1, 2] else if rxWindow = 1 then [1] else if rxWindow = 2 then [2] else [])"

definition accept_item :: "('db, 's, 'v) join_env \<Rightarrow> gw_rx_info \<Rightarrow> dl_packet \<Rightarrow> nat \<Rightarrow> downlink_frame_item res" where
  "accept_item E g p i = (if i = 1 then jd_rx1 E g p else jd_rx2 E g)"

definition accept_delay :: "('db, 's, 'v) join_env \<Rightarrow> nat \<Rightarrow> duration" where
  "accept_delay E i = (if i = 1 then j_JoinAcceptDelay1 E else j_JoinAcceptDelay2 E)"

text \<open>A frame that carries the join-accept \<open>b\<close> to the gateway \<open>g\<close>.\<close>

definition accept_frame :: "('db, 's, 'v) join_env \<Rightarrow> gw_rx_info \<Rightarrow> dl_packet \<Rightarrow> byte list \<Rightarrow> gw_downlink_frame \<Rightarrow> bool" where
  "accept_frame E g p b f \<longleftrightarrow>
     gd_GatewayId f = eui64_bytes (gri_GatewayID g) \<and> gd_DownlinkId f = n_ctxID (j_down E) \<and>
     (\<exists>t. j_random_token E = Inr t \<and> gd_Token f = ucast (word_rcat (to_array 2 t) :: u16)) \<and>
     list_all2 (\<lambda>w i. \<exists>i0. accept_item E g p w = Inr i0 \<and> i = i0\<lparr>di_PhyPayload := b\<rparr>)
       (accept_windows (cf_rxWindow (n_conf (j_down E)))) (gd_Items f)"

lemma jd_add_ok:
  "jd_add r c = (Inr u, c') \<longleftrightarrow> (\<exists>i. r = Inr i \<and> c' = c\<lparr>jd_Frame := (jd_Frame c)\<lparr>gd_Items := gd_Items (jd_Frame c) @ [i]\<rparr>\<rparr>)"
  by (cases r) (auto simp: jd_add_def)

lemma jd_setTXInfo_ok:
  assumes "jd_setTXInfo E c = (Inr u, c')"
  shows "\<exists>items. list_all2 (\<lambda>w i. accept_item E (jd_Gateway c) (jd_RXPacket c) w = Inr i)
      (accept_windows (cf_rxWindow (n_conf (j_down E)))) items \<and>
    c' = c\<lparr>jd_Frame := (jd_Frame c)\<lparr>gd_Items := gd_Items (jd_Frame c) @ items\<rparr>\<rparr>"
proof -
  let ?w = "cf_rxWindow (n_conf (j_down E))"
  consider "?w = 0" | "?w = 1" | "?w = 2" | "?w \<notin> {0, 1, 2}" by blast
  then show ?thesis
    using assms by cases (auto simp: jd_setTXInfo_def Let_def run_tasks_ok jd_add_ok accept_windows_def accept_item_def list_all2_Cons1)
qed

lemma send_packet_ok:
  "send_packet send f w = (Inr u, w') \<longleftrightarrow> send f (w_Calls w) = Inr () \<and> w' = call_out (SendTXPacket f) w"
  by (auto simp: send_packet_def split: sum.splits)

lemma accept_outcome:
  assumes "JoinAccept_Handle E ds p phy w = (Inr (), w')"
  shows "\<exists>g b f s. SelectDownlinkGateway (n_sort (j_down E)) (n_intn (j_down E)) (n_Band (j_down E))
      (cf_gatewayPreferMinMargin (n_conf (j_down E))) (rp_DR p) (map rx_info_of (rp_RXInfoSet p)) = Inr g \<and>
    n_MarshalBinary (j_down E) (fst phy) (snd phy) = Inr b \<and> accept_frame E g p b f \<and>
    SaveDownlinkFrame (n_Redis (j_down E)) (n_Frames (j_down E)) (jd_stored ds f) (w_Redis w) = (Inr (), s) \<and>
    w' = w\<lparr>w_Redis := s, w_Calls := w_Calls w @ [SendTXPacket f]\<rparr>"
proof -
  let ?c = "\<lparr>w_DB = w_DB w, w_Redis = w_Redis w, w_Calls = w_Calls w, jd_DeviceSession = ds, jd_GatewayRXInfo = [],
      jd_RXPacket = p, jd_PHYPayload = phy, jd_Gateway = no_gateway, jd_Frame = empty_frame\<rparr>"
  obtain c where run: "run_tasks (jd_tasks E) ?c = (Inr (), c)" "w' = world.truncate c"
    using assms by (auto simp: JoinAccept_Handle_def split: prod.splits)
  obtain g where g: "SelectDownlinkGateway (n_sort (j_down E)) (n_intn (j_down E)) (n_Band (j_down E))
      (cf_gatewayPreferMinMargin (n_conf (j_down E))) (rp_DR p) (map rx_info_of (rp_RXInfoSet p)) = Inr g"
    and run1: "run_tasks [jd_setTXInfo E, jd_setToken E, jd_setDownlinkFrame E, jd_sendJoinAcceptResponse E, jd_saveDownlinkFrame E]
      (?c\<lparr>jd_GatewayRXInfo := map rx_info_of (rp_RXInfoSet p), jd_Gateway := g,
          jd_Frame := empty_frame\<lparr>gd_GatewayId := eui64_bytes (gri_GatewayID g)\<rparr>\<rparr>) = (Inr (), c)"
    using run(1) by (auto simp: jd_tasks_def run_tasks_ok jd_setDeviceGatewayRXInfo_def jd_selectDownlinkGateway_def Let_def
        split: if_splits sum.splits)
  obtain items where items: "list_all2 (\<lambda>w i. accept_item E g p w = Inr i) (accept_windows (cf_rxWindow (n_conf (j_down E)))) items"
    and run2: "run_tasks [jd_setToken E, jd_setDownlinkFrame E, jd_sendJoinAcceptResponse E, jd_saveDownlinkFrame E]
      (?c\<lparr>jd_GatewayRXInfo := map rx_info_of (rp_RXInfoSet p), jd_Gateway := g,
          jd_Frame := empty_frame\<lparr>gd_GatewayId := eui64_bytes (gri_GatewayID g), gd_Items := items\<rparr>\<rparr>) = (Inr (), c)"
    using run1 unfolding run_tasks_ok(2)[of "jd_setTXInfo E"] by (auto dest!: jd_setTXInfo_ok simp: empty_frame_def)
  obtain t where t: "j_random_token E = Inr t" using run2 by (auto simp: run_tasks_ok jd_setToken_def split: sum.splits)
  obtain b where b: "n_MarshalBinary (j_down E) (fst phy) (snd phy) = Inr b"
    using run2 t by (auto simp: run_tasks_ok jd_setToken_def jd_setDownlinkFrame_def split: sum.splits)
  define f where "f = \<lparr>gd_GatewayId = eui64_bytes (gri_GatewayID g), gd_Token = ucast (word_rcat (to_array 2 t) :: u16),
      gd_DownlinkId = n_ctxID (j_down E), gd_Items = map (\<lambda>i. i\<lparr>di_PhyPayload := b\<rparr>) items\<rparr>"
  have "\<exists>s. SaveDownlinkFrame (n_Redis (j_down E)) (n_Frames (j_down E)) (jd_stored ds f) (w_Redis w) = (Inr (), s) \<and>
      w' = w\<lparr>w_Redis := s, w_Calls := w_Calls w @ [SendTXPacket f]\<rparr>"
    using run2 run(2) t b
    by (auto simp: run_tasks_ok jd_setToken_def jd_setDownlinkFrame_def jd_sendJoinAcceptResponse_def jd_saveDownlinkFrame_def
        wrapping_ok send_packet_ok on_Redis_ok with_payload_def world.defs call_out_def empty_frame_def f_def)
  moreover have "accept_frame E g p b f"
    using items t by (auto simp: accept_frame_def f_def list_all2_map2 elim!: list_all2_mono)
  ultimately show ?thesis using g b by blast
qed

lemma accept_item_timing:
  "accept_item E g p w = Inr i \<Longrightarrow> \<exists>t. di_TxInfo i = Some t \<and> dt_Timing t = DELAY (accept_delay E w)"
  by (auto simp: accept_item_def accept_delay_def jd_rx1_def jd_rx2_def jd_window_def SetDownlinkTXInfoDataRate_def empty_tx_info_def
      Let_def split: if_splits sum.splits modulation.splits)

end
