(* ===== verification/Roaming.thy ===== *)
theory Roaming
  imports JoinDownlink
begin

text \<open>
  Passive roaming as the network that receives the frames (\<open>fNS\<close>): the agreements with other
  networks (\<open>internal/roaming\<close>), the sessions of foreign devices
  (\<open>internal/storage/passive_roaming.go\<close>), forwarding an uplink (\<open>internal/uplink/data/data_roaming_fns.go\<close>),
  the downlink a partner asks for (\<open>internal/downlink/roaming\<close>) and starting a session for a
  join-request (\<open>internal/uplink/join/join_roaming_fns.go\<close>).

  The partners and join-servers are functions of \<open>pr_env\<close> whose answers may depend on the calls made
  so far; a UUID is drawn after those calls. The message of a session has the fields of the session, and
  the error of its time stamp is one of the encoding.
\<close>

section \<open>Agreements\<close>

record agreement =
  ag_netID :: u32
  ag_passiveRoaming :: bool
  ag_passiveRoamingLifetime :: duration
  ag_passiveRoamingKEKLabel :: string

record roaming_conf =
  rc_roamingEnabled :: bool
  rc_netID :: u32
  rc_agreements :: "agreement list"
  rc_keks :: "string \<Rightarrow> byte list option"
  rc_defaultEnabled :: bool
  rc_defaultPassiveRoamingLifetime :: duration
  rc_defaultPassiveRoamingKEKLabel :: string
  rc_NewClient :: "u32 \<Rightarrow> unit res"
  rc_IsNetID :: "devaddr \<Rightarrow> u32 \<Rightarrow> bool"

definition ErrNoAgreement :: error where
  "ErrNoAgreement = Errorf ''agreement not found''"

definition agreement_of :: "roaming_conf \<Rightarrow> u32 \<Rightarrow> agreement option" where
  "agreement_of C n = find (\<lambda>a. ag_netID a = n) (rc_agreements C)"

definition GetClientForNetID :: "roaming_conf \<Rightarrow> u32 \<Rightarrow> unit res" where
  "GetClientForNetID C clientNetID =
     (case agreement_of C clientNetID of
        Some _ \<Rightarrow> Inr ()
      | None \<Rightarrow>
          if rc_defaultEnabled C
          then (case rc_NewClient C clientNetID of Inl e \<Rightarrow> Inl (Wrap e ''new roaming client error'') | Inr _ \<Rightarrow> Inr ())
          else Inl ErrNoAgreement)"

definition GetPassiveRoamingLifetime :: "roaming_conf \<Rightarrow> u32 \<Rightarrow> duration" where
  "GetPassiveRoamingLifetime C n =
     (case agreement_of C n of
        Some a \<Rightarrow> ag_passiveRoamingLifetime a
      | None \<Rightarrow> if rc_defaultEnabled C then rc_defaultPassiveRoamingLifetime C else 0)"

definition GetKEKKey :: "roaming_conf \<Rightarrow> string \<Rightarrow> byte list res" where
  "GetKEKKey C label = (case rc_keks C label of None \<Rightarrow> Inl (Errorf ''kek label is not configured'') | Some k \<Rightarrow> Inr k)"

definition GetPassiveRoamingKEKLabel :: "roaming_conf \<Rightarrow> u32 \<Rightarrow> string" where
  "GetPassiveRoamingKEKLabel C n =
     (case agreement_of C n of
        Some a \<Rightarrow> ag_passiveRoamingKEKLabel a
      | None \<Rightarrow> if rc_defaultEnabled C then rc_defaultPassiveRoamingKEKLabel C else [])"

definition GetNetIDsForDevAddr :: "roaming_conf \<Rightarrow> devaddr \<Rightarrow> u32 list" where
  "GetNetIDsForDevAddr C devAddr =
     map ag_netID (filter (\<lambda>a. rc_IsNetID C devAddr (ag_netID a) \<and> ag_passiveRoaming a) (rc_agreements C))"

section \<open>Sessions of foreign devices\<close>

record pr_session =
  ps_SessionID :: uuid
  ps_NetID :: u32
  ps_DevAddr :: devaddr
  ps_DevEUI :: eui64
  ps_LoRaWAN11 :: bool
  ps_FNwkSIntKey :: aeskey
  ps_Lifetime :: instant
  ps_FCntUp :: u32
  ps_ValidateMIC :: bool

definition no_pr_session :: pr_session where
  "no_pr_session = \<lparr>ps_SessionID = 0, ps_NetID = 0, ps_DevAddr = 0, ps_DevEUI = 0, ps_LoRaWAN11 = False,
     ps_FNwkSIntKey = 0, ps_Lifetime = zero_time, ps_FCntUp = 0, ps_ValidateMIC = False\<rparr>"

record pr_start_answer =
  pa_Success :: bool
  pa_PHYPayload :: "byte list"
  pa_DevEUI :: "eui64 option"
  pa_DevAddr :: "devaddr option"
  pa_Lifetime :: "int option"
  pa_FNwkSIntKey :: "key_envelope option"
  pa_NwkSKey :: "key_envelope option"
  pa_FCntUp :: "u32 option"
  pa_DLMetaData :: "dl_meta_data option"

record ('s, 'v) pr_env =
  p_Redis :: "('s, 'v, uuid) redis"
  p_Sessions :: "(pr_session, 'v) codec"
  p_Frames :: "'v frame_codec"
  p_TTL :: duration
  p_conf :: roaming_conf
  p_now :: instant
  p_newUUID :: "call list \<Rightarrow> uuid res"
  p_Band :: band
  p_DL :: dl_band
  p_ForceGwsPrivate :: bool
  p_sort :: "rx_info list \<Rightarrow> rx_info list"
  p_Unwrap :: "key_envelope \<Rightarrow> byte list \<Rightarrow> aeskey res"
  p_MarshalRequest :: "phy \<Rightarrow> byte list res"
  p_MarshalRXInfo :: "rx_info \<Rightarrow> byte list res"
  p_ValidateMIC :: "phy \<Rightarrow> bool \<Rightarrow> aeskey \<Rightarrow> u32 \<Rightarrow> bool res"
  p_PRStartReq :: "u32 \<Rightarrow> byte list \<Rightarrow> ul_meta_data \<Rightarrow> call list \<Rightarrow> pr_start_answer res"
  p_XmitUplink :: "u32 \<Rightarrow> byte list \<Rightarrow> ul_meta_data \<Rightarrow> call list \<Rightarrow> bool res"
  p_GetClientForJoinEUI :: "eui64 \<Rightarrow> unit res"
  p_HomeNSReq :: "eui64 \<Rightarrow> eui64 \<Rightarrow> call list \<Rightarrow> u32 res"
  p_send :: "gw_downlink_frame \<Rightarrow> call list \<Rightarrow> unit res"

text \<open>\<open>time.Time.Sub\<close> stops at the ends of the 64 bits.\<close>

definition time_Sub :: "instant \<Rightarrow> instant \<Rightarrow> duration" where
  "time_Sub t u = max (- (2 ^ 63)) (min (2 ^ 63 - 1) (t - u))"

text \<open>
  A session is stored until its lifetime ends, with a pointer from the address and from the DevEUI. A
  nil identifier is replaced by a new one.
\<close>

definition SavePassiveRoamingDeviceSession ::
  "('s, 'v) pr_env \<Rightarrow> uuid res \<Rightarrow> pr_session \<Rightarrow> 's \<Rightarrow> unit res \<times> 's" where
  "SavePassiveRoamingDeviceSession E newUUID ds s =
     (let lifetime = time_Sub (ps_Lifetime ds) (p_now E); R = p_Redis E in
      if lifetime \<le> 0 then (Inr (), s)
      else case (if ps_SessionID ds = 0 then newUUID else Inr (ps_SessionID ds)) of
        Inl e \<Rightarrow> (Inl (Wrap e ''new uuid v4 error''), s)
      | Inr i \<Rightarrow>
         (case enc (p_Sessions E) (ds\<lparr>ps_SessionID := i\<rparr>) of
            Inl e \<Rightarrow> (Inl (Wrap e ''protobuf marshal error''), s)
          | Inr b \<Rightarrow>
             (case rd_SAdd_PExpire R (prDevAddrKey (ps_DevAddr ds)) i (p_TTL E) s of
                (Inl e, s) \<Rightarrow> (Inl (Wrap e ''exec error''), s)
              | (Inr _, s) \<Rightarrow>
                 (case rd_SAdd_PExpire R (prDevEUIKey (ps_DevEUI ds)) i (p_TTL E) s of
                    (Inl e, s) \<Rightarrow> (Inl (Wrap e ''exec error''), s)
                  | (Inr _, s) \<Rightarrow>
                     (case rd_Set R (prDeviceSessionKey i) b lifetime s of
                        (Inl e, s) \<Rightarrow> (Inl (Wrap e ''set error''), s)
                      | (Inr _, s) \<Rightarrow> (Inr (), s))))))"

definition GetPassiveRoamingDeviceSession :: "('s, 'v) pr_env \<Rightarrow> uuid \<Rightarrow> 's \<Rightarrow> pr_session res" where
  "GetPassiveRoamingDeviceSession E i s =
     (case rd_Get (p_Redis E) (prDeviceSessionKey i) s of
        Inl e \<Rightarrow> Inl (if e = RedisNil then ErrDoesNotExist else Wrap e ''get error'')
      | Inr v \<Rightarrow> (case dec (p_Sessions E) v of Inl e \<Rightarrow> Inl (Wrap e ''unmarshal protobuf error'') | Inr ds \<Rightarrow> Inr ds))"

definition GetPassiveRoamingIDsForDevAddr :: "('s, 'v) pr_env \<Rightarrow> devaddr \<Rightarrow> 's \<Rightarrow> uuid list res" where
  "GetPassiveRoamingIDsForDevAddr E devAddr s =
     (case rd_SMembers (p_Redis E) (prDevAddrKey devAddr) s of
        Inl e \<Rightarrow> if e = RedisNil then Inr [] else Inl (Wrap e ''get passive-roaming session ids for devaddr error'')
      | Inr ids \<Rightarrow> Inr ids)"

text \<open>A session that cannot be read is skipped.\<close>

definition GetPassiveRoamingDeviceSessionsForDevAddr :: "('s, 'v) pr_env \<Rightarrow> devaddr \<Rightarrow> 's \<Rightarrow> pr_session list res" where
  "GetPassiveRoamingDeviceSessionsForDevAddr E devAddr s =
     (case GetPassiveRoamingIDsForDevAddr E devAddr s of
        Inl e \<Rightarrow> Inl e
      | Inr ids \<Rightarrow> Inr (List.map_filter (\<lambda>i. case GetPassiveRoamingDeviceSession E i s of
                           Inl _ \<Rightarrow> None | Inr ds \<Rightarrow> Some ds) ids))"

text \<open>
  The sessions whose key authenticates the frame. The code sets the counter of the received frame to the one
  it tries, and leaves the last one there: it is the first component.
\<close>

fun pr_mic_loop :: "('s, 'v) pr_env \<Rightarrow> phy \<Rightarrow> u32 \<Rightarrow> pr_session list \<Rightarrow> u32 \<Rightarrow> pr_session list \<Rightarrow> u32 \<times> pr_session list res" where
  "pr_mic_loop E phy originalFCnt [] fCnt out = (fCnt, Inr out)"
| "pr_mic_loop E phy originalFCnt (ds # dss) fCnt out =
     (if \<not> ps_ValidateMIC ds then pr_mic_loop E phy originalFCnt dss fCnt (out @ [ds])
      else let fCnt = GetFullFCntUp (ps_FCntUp ds) originalFCnt in
        case p_ValidateMIC E phy (ps_LoRaWAN11 ds) (ps_FNwkSIntKey ds) fCnt of
          Inl e \<Rightarrow> (fCnt, Inl (Wrap e ''validate mic error''))
        | Inr ok \<Rightarrow> pr_mic_loop E phy originalFCnt dss fCnt (if ok then out @ [ds] else out))"

definition GetPassiveRoamingDeviceSessionsForPHYPayload ::
  "('s, 'v) pr_env \<Rightarrow> phy \<Rightarrow> 's \<Rightarrow> u32 \<times> pr_session list res" where
  "GetPassiveRoamingDeviceSessionsForPHYPayload E phy s =
     (case phy_MACPayload phy of
        Some (MACFrame m) \<Rightarrow>
          (case GetPassiveRoamingDeviceSessionsForDevAddr E (mf_DevAddr m) s of
             Inl e \<Rightarrow> (mf_FCnt m, Inl e)
           | Inr dss \<Rightarrow> pr_mic_loop E phy (mf_FCnt m) dss (mf_FCnt m) [])
      | _ \<Rightarrow> (0, Inl (Errorf ''expected *lorawan.MACPayload'')))"

section \<open>Meta-data of an uplink\<close>

definition RecvTimeFromRXInfo :: "instant \<Rightarrow> rx_info list \<Rightarrow> instant" where
  "RecvTimeFromRXInfo now rs =
     (case List.map_filter (\<lambda>r. case ri_Time r of Some (t, False) \<Rightarrow> Some t | _ \<Rightarrow> None) rs of [] \<Rightarrow> now | t # _ \<Rightarrow> t)"

definition fine_recv_time :: "rx_info \<Rightarrow> int option" where
  "fine_recv_time r =
     (case ri_FineTimestamp r of
        Some (PlainFineTimestamp t) \<Rightarrow> Some (case t of None \<Rightarrow> 0 | Some t \<Rightarrow> pt_Nanos t)
      | _ \<Rightarrow> None)"

definition gw_info_of :: "('s, 'v) pr_env \<Rightarrow> rx_info \<Rightarrow> ul_gw_info res" where
  "gw_info_of E r =
     (case p_MarshalRXInfo E r of
        Inl e \<Rightarrow> Inl (Wrap e ''marshal rxinfo error'')
      | Inr b \<Rightarrow> Inr
          \<lparr>ug_ID = (if length (ri_GatewayId r) = 8 then drop 4 (ri_GatewayId r) else ri_GatewayId r),
           ug_FineRecvTime = fine_recv_time r, ug_RSSI = Some (ri_Rssi r), ug_SNR = Some (ri_LoraSnr r),
           ug_Lat = map_option loc_Latitude (ri_Location r), ug_Lon = map_option loc_Longitude (ri_Location r),
           ug_ULToken = b, ug_DLAllowed = True\<rparr>)"

fun RXInfoToGWInfo :: "('s, 'v) pr_env \<Rightarrow> rx_info list \<Rightarrow> ul_gw_info list res" where
  "RXInfoToGWInfo E [] = Inr []"
| "RXInfoToGWInfo E (r # rs) =
     (case gw_info_of E r of
        Inl e \<Rightarrow> Inl e
      | Inr g \<Rightarrow> (case RXInfoToGWInfo E rs of Inl e \<Rightarrow> Inl e | Inr gs \<Rightarrow> Inr (g # gs)))"

definition uplink_meta ::
  "('s, 'v) pr_env \<Rightarrow> eui64 option \<Rightarrow> devaddr option \<Rightarrow> dl_packet \<Rightarrow> ul_meta_data res" where
  "uplink_meta E devEUI devAddr p =
     (case rp_TXInfo p of
        None \<Rightarrow> Inl (Panic ''nil TXInfo'')
      | Some t \<Rightarrow>
         (case RXInfoToGWInfo E (rp_RXInfoSet p) of
            Inl e \<Rightarrow> Inl (Wrap e ''rxinfo to gwinfo error'')
          | Inr gs \<Rightarrow> Inr
              \<lparr>um_DevEUI = devEUI, um_DevAddr = devAddr, um_DataRate = Some (rp_DR p),
               um_ULFreq = Some (megahertz (ut_Frequency t)), um_RecvTime = RecvTimeFromRXInfo (p_now E) (rp_RXInfoSet p),
               um_RFRegion = bd_Name (p_DL E), um_GWCnt = Some (int (length (rp_RXInfoSet p))), um_GWInfo = gs\<rparr>))"

section \<open>Session keys of an answer\<close>

definition unwrap_envelope ::
  "('s, 'v) pr_env \<Rightarrow> (error \<Rightarrow> error) \<Rightarrow> string \<Rightarrow> key_envelope \<Rightarrow> aeskey res" where
  "unwrap_envelope E no_kek what k =
     (if ke_KEKLabel k = [] then Inr (bytes_key (ke_AESKey k))
      else case GetKEKKey (p_conf E) (ke_KEKLabel k) of
        Inl e \<Rightarrow> Inl (no_kek e)
      | Inr kek \<Rightarrow> (case p_Unwrap E k kek of Inl e \<Rightarrow> Inl (Wrap e what) | Inr key \<Rightarrow> Inr key))"

text \<open>\<open>FNwkSIntKey\<close> is set by a LoRaWAN 1.1 network, \<open>NwkSKey\<close> by a 1.0 one; the second wins.\<close>

definition set_roaming_keys ::
  "('s, 'v) pr_env \<Rightarrow> (error \<Rightarrow> error) \<Rightarrow> string \<times> string \<Rightarrow> pr_start_answer \<Rightarrow> pr_session \<Rightarrow> pr_session res" where
  "set_roaming_keys E no_kek what a ds =
     (case (case pa_FNwkSIntKey a of
              None \<Rightarrow> Inr ds
            | Some k \<Rightarrow> (case unwrap_envelope E no_kek (fst what) k of
                Inl e \<Rightarrow> Inl e | Inr key \<Rightarrow> Inr (ds\<lparr>ps_LoRaWAN11 := True, ps_FNwkSIntKey := key\<rparr>))) of
        Inl e \<Rightarrow> Inl e
      | Inr ds \<Rightarrow>
         (case pa_NwkSKey a of
            None \<Rightarrow> Inr ds
          | Some k \<Rightarrow> (case unwrap_envelope E no_kek (snd what) k of
              Inl e \<Rightarrow> Inl e | Inr key \<Rightarrow> Inr (ds\<lparr>ps_FNwkSIntKey := key\<rparr>))))"

definition lifetime_end :: "instant \<Rightarrow> int \<Rightarrow> instant" where
  "lifetime_end now lifetime = now + go_int64 (lifetime * second)"

section \<open>Forwarding an uplink\<close>

text \<open>A request that is sent is recorded whatever the partner answers.\<close>

definition startPassiveRoamingSession ::
  "('s, 'v) pr_env \<Rightarrow> dl_packet \<Rightarrow> devaddr \<Rightarrow> u32 \<Rightarrow> call list \<Rightarrow> pr_session res \<times> call list" where
  "startPassiveRoamingSession E p devAddr netID cs =
     (case GetClientForNetID (p_conf E) netID of
        Inl e \<Rightarrow> (Inl (Wrap e ''get backend client error''), cs)
      | Inr _ \<Rightarrow>
         (case p_MarshalRequest E (rp_PHYPayload p) of
            Inl e \<Rightarrow> (Inl (Wrap e ''marshal phypayload error''), cs)
          | Inr b \<Rightarrow>
             (case uplink_meta E None None p of
                Inl e \<Rightarrow> (Inl e, cs)
              | Inr m \<Rightarrow>
                  let cs' = cs @ [PRStartReq netID b m] in
                  (case p_PRStartReq E netID b m cs of
                     Inl e \<Rightarrow> Inl (Wrap e ''request error'')
                   | Inr a \<Rightarrow>
                       if \<not> pa_Success a then Inl (Errorf ''expected: Success'')
                       else case p_newUUID E cs' of
                         Inl e \<Rightarrow> Inl (Wrap e ''new uuid error'')
                       | Inr i \<Rightarrow>
                           let out = no_pr_session\<lparr>ps_NetID := netID, ps_DevAddr := devAddr, ps_SessionID := i\<rparr>;
                               out = (case pa_DevEUI a of None \<Rightarrow> out | Some d \<Rightarrow> out\<lparr>ps_DevEUI := d\<rparr>);
                               out = (case pa_Lifetime a of None \<Rightarrow> out
                                      | Some l \<Rightarrow> if l = 0 then out else out\<lparr>ps_Lifetime := lifetime_end (p_now E) l\<rparr>)
                           in (case set_roaming_keys E (\<lambda>e. e) (''key unwrap error'', ''key unwrap error'') a out of
                                 Inl e \<Rightarrow> Inl e
                               | Inr out \<Rightarrow> Inr (case pa_FCntUp a of None \<Rightarrow> out | Some f \<Rightarrow> out\<lparr>ps_FCntUp := f + 1\<rparr>)),
                   cs'))))"

text \<open>A network that fails is skipped; a session without a lifetime is dropped.\<close>

fun start_sessions ::
  "('s, 'v) pr_env \<Rightarrow> dl_packet \<Rightarrow> devaddr \<Rightarrow> u32 list \<Rightarrow> pr_session list \<Rightarrow> call list \<Rightarrow> pr_session list res \<times> call list" where
  "start_sessions E p devAddr [] out cs = (Inr out, cs)"
| "start_sessions E p devAddr (n # ns) out cs =
     (case startPassiveRoamingSession E p devAddr n cs of
        (Inl e, cs) \<Rightarrow> if is_panic e then (Inl e, cs) else start_sessions E p devAddr ns out cs
      | (Inr ds, cs) \<Rightarrow> start_sessions E p devAddr ns (if ps_Lifetime ds \<noteq> zero_time then out @ [ds] else out) cs)"

text \<open>\<open>client\<close> is whether there is one: an error to get it is only logged.\<close>

definition xmitDataUplink ::
  "('s, 'v) pr_env \<Rightarrow> dl_packet \<Rightarrow> devaddr \<Rightarrow> u32 \<Rightarrow> bool \<Rightarrow> call list \<Rightarrow> unit res \<times> call list" where
  "xmitDataUplink E p devAddr netID client cs =
     (case p_MarshalRequest E (rp_PHYPayload p) of
        Inl e \<Rightarrow> (Inl (Wrap e ''marshal phypayload error''), cs)
      | Inr b \<Rightarrow>
         (case uplink_meta E None (Some devAddr) p of
            Inl e \<Rightarrow> (Inl e, cs)
          | Inr m \<Rightarrow>
              if \<not> client then (Inl (Panic ''nil client''), cs)
              else (case p_XmitUplink E netID b m cs of
                      Inl e \<Rightarrow> Inl (Wrap e ''request error'')
                    | Inr success \<Rightarrow> if success then Inr () else Inl (Errorf ''expected: Success''),
                    cs @ [XmitUplink netID b m])))"

fun forward_uplink ::
  "('s, 'v) pr_env \<Rightarrow> dl_packet \<Rightarrow> devaddr \<Rightarrow> pr_session list \<Rightarrow> call list \<Rightarrow> unit res \<times> call list" where
  "forward_uplink E p devAddr [] cs = (Inr (), cs)"
| "forward_uplink E p devAddr (ds # dss) cs =
     (case xmitDataUplink E p devAddr (ps_NetID ds) (\<not> is_error (GetClientForNetID (p_conf E) (ps_NetID ds))) cs of
        (r, cs) \<Rightarrow> (case r of
           Inl e \<Rightarrow> if is_panic e then (Inl e, cs) else forward_uplink E p devAddr dss cs
         | Inr _ \<Rightarrow> forward_uplink E p devAddr dss cs))"

definition saveSessions :: "('s, 'v) pr_env \<Rightarrow> uuid res \<Rightarrow> pr_session list \<Rightarrow> 's \<Rightarrow> 's" where
  "saveSessions E newUUID dss s = fold (\<lambda>ds s. snd (SavePassiveRoamingDeviceSession E newUUID ds s)) dss s"

text \<open>The sessions the uplink belongs to, started when there are none.\<close>

definition uplink_sessions ::
  "('s, 'v) pr_env \<Rightarrow> dl_packet \<Rightarrow> devaddr \<Rightarrow> 's \<Rightarrow> call list \<Rightarrow> pr_session list res \<times> call list" where
  "uplink_sessions E p devAddr s cs =
     (let (fCnt, r) = GetPassiveRoamingDeviceSessionsForPHYPayload E (rp_PHYPayload p) s;
          known = (case r of Inl _ \<Rightarrow> [] | Inr dss \<Rightarrow> map (\<lambda>ds. ds\<lparr>ps_FCntUp := fCnt + 1\<rparr>) dss)
      in if known \<noteq> [] then (Inr known, cs)
         else start_sessions E p devAddr (GetNetIDsForDevAddr (p_conf E) devAddr) [] cs)"

definition HandleRoamingFNS_uplink ::
  "('s, 'v) pr_env \<Rightarrow> devaddr \<Rightarrow> dl_packet \<Rightarrow> ('db, 's) world \<Rightarrow> unit res \<times> ('db, 's) world" where
  "HandleRoamingFNS_uplink E devAddr rxPacket w =
     (case FilterRxInfoByPublicOnly (p_ForceGwsPrivate E) rxPacket of
        Inl e \<Rightarrow> (if e = ErrNoElements then Inr () else Inl e, w)
      | Inr p \<Rightarrow>
         (case uplink_sessions E p devAddr (w_Redis w) (w_Calls w) of
            (Inl e, cs) \<Rightarrow> (Inl e, w\<lparr>w_Calls := cs\<rparr>)
          | (Inr dss, cs) \<Rightarrow>
             (case forward_uplink E p devAddr dss cs of
                (Inl e, cs) \<Rightarrow> (Inl e, w\<lparr>w_Calls := cs\<rparr>)
              | (Inr _, cs) \<Rightarrow> (Inr (), w\<lparr>w_Calls := cs, w_Redis := saveSessions E (p_newUUID E cs) dss (w_Redis w)\<rparr>))))"

section \<open>The downlink of a partner\<close>

text \<open>As \<open>partner_item\<close>, without the board and antenna of the gateway.\<close>

definition emitted_item ::
  "('s, 'v) pr_env \<Rightarrow> byte list \<Rightarrow> rx_info \<Rightarrow> rat option \<Rightarrow> int option \<Rightarrow> int option \<Rightarrow> int \<Rightarrow> downlink_frame_item list res" where
  "emitted_item E phy r freq dr delay extra =
     (case (freq, dr, delay) of
        (Some mhz, Some dr, Some d) \<Rightarrow>
          (case SetDownlinkTXInfoDataRate (p_Band E) dr (empty_tx_info\<lparr>dt_Frequency := hertz mhz, dt_Context := ri_Context r,
                   dt_Timing := DELAY (go_int64 (go_int64 (d + extra) * second)),
                   dt_Power := sint (word_of_int (bd_GetDownlinkTXPower (p_DL E) (hertz mhz)) :: 32 word)\<rparr>) of
             Inl e \<Rightarrow> Inl (Wrap e ''set txinfo data-rate error'')
           | Inr t \<Rightarrow> Inr [\<lparr>di_PhyPayload = phy, di_TxInfo = Some t\<rparr>])
      | _ \<Rightarrow> Inr [])"

definition emitted_items ::
  "('s, 'v) pr_env \<Rightarrow> byte list \<Rightarrow> rx_info \<Rightarrow> dl_meta_data \<Rightarrow> downlink_frame_item list res" where
  "emitted_items E phy r m =
     (if dm_ClassMode m \<noteq> Some ''A'' then Inr []
      else case emitted_item E phy r (dm_DLFreq1 m) (dm_DataRate1 m) (dm_RXDelay1 m) 0 of
        Inl e \<Rightarrow> Inl e
      | Inr i1 \<Rightarrow> (case emitted_item E phy r (dm_DLFreq2 m) (dm_DataRate2 m) (dm_RXDelay1 m) 1 of
          Inl e \<Rightarrow> Inl e | Inr i2 \<Rightarrow> Inr (i1 @ i2)))"

text \<open>The frame is saved even when it has no items; it is sent only when it has.\<close>

definition EmitPRDownlink ::
  "('s, 'v) pr_env \<Rightarrow> dl_packet \<Rightarrow> byte list \<Rightarrow> dl_meta_data \<Rightarrow> ('db, 's) world \<Rightarrow> unit res \<times> ('db, 's) world" where
  "EmitPRDownlink E rxPacket phy m w =
     (if rp_RXInfoSet rxPacket = [] then (Inl (Errorf ''rx-info must not be empty''), w)
      else let r = hd (p_sort E (rp_RXInfoSet rxPacket)) in
        case p_newUUID E (w_Calls w) of
          Inl e \<Rightarrow> (Inl (Wrap e ''new uuid error''), w)
        | Inr i \<Rightarrow>
           (case emitted_items E phy r m of
              Inl e \<Rightarrow> (Inl e, w)
            | Inr items \<Rightarrow>
                let f = \<lparr>gd_GatewayId = eui64_bytes (GetGatewayID r), gd_Token = ucast (word_rcat (take 2 (uuid_bytes i)) :: u16),
                         gd_DownlinkId = uuid_bytes i, gd_Items = items\<rparr>
                in (case wrapping ''save downlink-frame error'' (on_Redis (SaveDownlinkFrame (p_Redis E) (p_Frames E)
                           (zero_stored_frame\<lparr>sf_Token := gd_Token f, sf_DownlinkFrame := f\<rparr>))) w of
                      (Inl e, w) \<Rightarrow> (Inl e, w)
                    | (Inr _, w) \<Rightarrow>
                        if items = [] then (Inr (), w)
                        else wrapping ''send downlink-frame to gateway error'' (send_packet (p_send E) f) w)))"

section \<open>A join-request of a foreign device\<close>

definition getHomeNetID :: "('s, 'v) pr_env \<Rightarrow> eui64 \<Rightarrow> eui64 \<Rightarrow> ('db, 's) world \<Rightarrow> u32 res \<times> ('db, 's) world" where
  "getHomeNetID E joinEUI devEUI w =
     (case p_GetClientForJoinEUI E joinEUI of
        Inl e \<Rightarrow> (Inl (Wrap e ''get js client for joineui error''), w)
      | Inr _ \<Rightarrow>
          (case p_HomeNSReq E joinEUI devEUI (w_Calls w) of
             Inl e \<Rightarrow> Inl (Wrap e ''request home netid error'') | Inr n \<Rightarrow> Inr n,
           call_out (HomeNSReq joinEUI devEUI) w))"

definition startRoaming ::
  "('s, 'v) pr_env \<Rightarrow> dl_packet \<Rightarrow> eui64 \<Rightarrow> u32 \<Rightarrow> ('db, 's) world \<Rightarrow> pr_start_answer res \<times> ('db, 's) world" where
  "startRoaming E p devEUI netID w =
     (case p_MarshalRequest E (rp_PHYPayload p) of
        Inl e \<Rightarrow> (Inl (Wrap e ''marshal phypayload error''), w)
      | Inr b \<Rightarrow>
         (case RXInfoToGWInfo E (rp_RXInfoSet p) of
            Inl e \<Rightarrow> (Inl (Wrap e ''rxinfo to gwinfo error''), w)
          | Inr _ \<Rightarrow>
             (case uplink_meta E (Some devEUI) None p of
                Inl e \<Rightarrow> (Inl e, w)
              | Inr m \<Rightarrow>
                 (case p_PRStartReq E netID b m (w_Calls w) of
                    Inl e \<Rightarrow> (Inl (Wrap e ''PRStartReq error''), call_out (PRStartReq netID b m) w)
                  | Inr a \<Rightarrow>
                     (case pa_DLMetaData a of
                        None \<Rightarrow> (Inl (Errorf ''DLMetaData must not be nil''), call_out (PRStartReq netID b m) w)
                      | Some dl \<Rightarrow>
                         (case EmitPRDownlink E p (pa_PHYPayload a) dl (call_out (PRStartReq netID b m) w) of
                            (Inl e, w) \<Rightarrow> (Inl (Wrap e ''send passive-roaming downlink error''), w)
                          | (Inr _, w) \<Rightarrow> (Inr a, w)))))))"

definition saveRoamingSession ::
  "('s, 'v) pr_env \<Rightarrow> eui64 \<Rightarrow> u32 \<Rightarrow> pr_start_answer \<Rightarrow> ('db, 's) world \<Rightarrow> unit res \<times> ('db, 's) world" where
  "saveRoamingSession E devEUI netID a w =
     (case (pa_DevAddr a, pa_Lifetime a) of
        (Some devAddr, Some l) \<Rightarrow>
          if l = 0 then (Inr (), w)
          else (case p_newUUID E (w_Calls w) of
            Inl e \<Rightarrow> (Inl (Wrap e ''get new uuid error''), w)
          | Inr i \<Rightarrow>
             (case set_roaming_keys E (\<lambda>e. Wrap e ''get kek error'')
                     (''unwrap FNwkSIntKey with kek error'', ''unwrap NwkSKey with kek error'') a
                     (no_pr_session\<lparr>ps_SessionID := i, ps_NetID := netID, ps_DevEUI := devEUI, ps_DevAddr := devAddr,
                        ps_Lifetime := lifetime_end (p_now E) l\<rparr>) of
                Inl e \<Rightarrow> (Inl e, w)
              | Inr ds \<Rightarrow> wrapping ''save passive-roaming device-session error''
                  (on_Redis (SavePassiveRoamingDeviceSession E (p_newUUID E (w_Calls w)) ds)) w))
      | _ \<Rightarrow> (Inr (), w))"

definition StartPRFNS ::
  "('s, 'v) pr_env \<Rightarrow> dl_packet \<Rightarrow> eui64 \<Rightarrow> eui64 \<Rightarrow> ('db, 's) world \<Rightarrow> unit res \<times> ('db, 's) world" where
  "StartPRFNS E rxPacket joinEUI devEUI w =
     (case FilterRxInfoByPublicOnly (p_ForceGwsPrivate E) rxPacket of
        Inl e \<Rightarrow> (if e = ErrNoElements then Inr () else Inl e, w)
      | Inr p \<Rightarrow>
         (case getHomeNetID E joinEUI devEUI w of
            (Inl e, w) \<Rightarrow> (Inl e, w)
          | (Inr netID, w) \<Rightarrow>
             (case GetClientForNetID (p_conf E) netID of
                Inl e \<Rightarrow> (if e = ErrNoAgreement then Inr () else Inl (Wrap e ''get client for netid error''), w)
              | Inr _ \<Rightarrow>
                 (case startRoaming E p devEUI netID w of
                    (Inl e, w) \<Rightarrow> (Inl e, w)
                  | (Inr a, w) \<Rightarrow> saveRoamingSession E devEUI netID a w))))"

section \<open>What leaves the network\<close>

text \<open>Meta-data that only names public gateways.\<close>

definition public_only :: "('s, 'v) pr_env \<Rightarrow> dl_packet \<Rightarrow> ul_meta_data \<Rightarrow> bool" where
  "public_only E p m \<longleftrightarrow> \<not> p_ForceGwsPrivate E \<and>
     (\<forall>g \<in> set (um_GWInfo m). \<exists>r \<in> set (rp_RXInfoSet p). \<not> gateway_is_private p r \<and> gw_info_of E r = Inr g)"

text \<open>A request about an uplink of a foreign device: to start a session with one of \<open>ns\<close>, or the frame for one of \<open>ks\<close>.\<close>

definition partner_request :: "('s, 'v) pr_env \<Rightarrow> dl_packet \<Rightarrow> devaddr \<Rightarrow> u32 set \<Rightarrow> u32 set \<Rightarrow> call \<Rightarrow> bool" where
  "partner_request E p devAddr ns ks c \<longleftrightarrow>
     (\<exists>n b m. public_only E p m \<and> p_MarshalRequest E (rp_PHYPayload p) = Inr b \<and>
        (c = PRStartReq n b m \<and> n \<in> ns \<or> c = XmitUplink n b m \<and> n \<in> ks \<and> um_DevAddr m = Some devAddr))"

lemma RXInfoToGWInfo_from: "RXInfoToGWInfo E rs = Inr gs \<Longrightarrow> \<forall>g \<in> set gs. \<exists>r \<in> set rs. gw_info_of E r = Inr g"
  by (induction rs arbitrary: gs) (auto split: sum.splits)

lemma public_packet:
  assumes "FilterRxInfoByPublicOnly (p_ForceGwsPrivate E) p = Inr p'" and "uplink_meta E d a p' = Inr m"
  shows "public_only E p m \<and> um_DevAddr m = a \<and> rp_PHYPayload p' = rp_PHYPayload p"
  using assms
  by (fastforce simp: FilterRxInfoByPublicOnly_def uplink_meta_def public_only_def Let_def split: if_splits option.splits sum.splits
      dest: RXInfoToGWInfo_from)

lemma GetClientForNetID_cases: "agreement_of C n \<noteq> None \<Longrightarrow> GetClientForNetID C n = Inr ()"
  by (auto simp: GetClientForNetID_def)

lemma started_session:
  assumes "FilterRxInfoByPublicOnly (p_ForceGwsPrivate E) p = Inr p'"
    and "startPassiveRoamingSession E p' a n cs = (r, cs')"
  shows "(\<exists>new. cs' = cs @ new \<and> (\<forall>c \<in> set new. partner_request E p a {n} {} c)) \<and>
    (\<forall>ds. r = Inr ds \<longrightarrow> ps_NetID ds = n \<and> ps_DevAddr ds = a)"
proof -
  have req: "partner_request E p a {n} {} (PRStartReq n b m)"
    if "uplink_meta E None None p' = Inr m" "p_MarshalRequest E (rp_PHYPayload p') = Inr b" for b m
    using public_packet[OF assms(1) that(1)] that(2) by (auto simp: partner_request_def)
  have keys: "ps_NetID ds' = ps_NetID ds \<and> ps_DevAddr ds' = ps_DevAddr ds"
    if "set_roaming_keys E f what an ds = Inr ds'" for f what an ds ds'
    using that by (auto simp: set_roaming_keys_def split: sum.splits option.splits)
  have "\<exists>new. cs' = cs @ new \<and> (\<forall>c \<in> set new. partner_request E p a {n} {} c)"
    using assms(2) req by (auto simp: startPassiveRoamingSession_def Let_def split: sum.splits)
  moreover have "ps_NetID ds = n \<and> ps_DevAddr ds = a" if "r = Inr ds" for ds
    using assms(2) that
    by (auto simp: startPassiveRoamingSession_def Let_def no_pr_session_def split: sum.splits if_splits option.splits dest!: keys)
  ultimately show ?thesis by blast
qed

lemma partner_request_mono:
  "partner_request E p a ns ks c \<Longrightarrow> ns \<subseteq> ns' \<Longrightarrow> ks \<subseteq> ks' \<Longrightarrow> partner_request E p a ns' ks' c"
  by (fastforce simp: partner_request_def)

lemma started_sessions:
  assumes "FilterRxInfoByPublicOnly (p_ForceGwsPrivate E) p = Inr p'"
    and "start_sessions E p' a ns out cs = (r, cs')"
  shows "(\<exists>new. cs' = cs @ new \<and> (\<forall>c \<in> set new. partner_request E p a (set ns) {} c)) \<and>
    (\<forall>dss. r = Inr dss \<longrightarrow> ps_NetID ` set dss \<subseteq> ps_NetID ` set out \<union> set ns)"
  using assms(2)
proof (induction ns arbitrary: out cs)
  case (Cons n ns)
  obtain r1 cs1 where 1: "startPassiveRoamingSession E p' a n cs = (r1, cs1)" by fastforce
  obtain new1 where new1: "cs1 = cs @ new1" "\<forall>c \<in> set new1. partner_request E p a {n} {} c"
    and net: "\<And>ds. r1 = Inr ds \<Longrightarrow> ps_NetID ds = n"
    using started_session[OF assms(1) 1] by auto
  have here: "\<forall>c \<in> set new1. partner_request E p a (set (n # ns)) {} c"
    using new1(2) by (auto intro: partner_request_mono)
  have rest: ?case if run: "start_sessions E p' a ns out' cs1 = (r, cs')" and "ps_NetID ` set out' \<subseteq> ps_NetID ` set out \<union> {n}" for out'
  proof -
    obtain new2 where "cs' = cs1 @ new2" "\<forall>c \<in> set new2. partner_request E p a (set ns) {} c"
      and "\<forall>dss. r = Inr dss \<longrightarrow> ps_NetID ` set dss \<subseteq> ps_NetID ` set out' \<union> set ns"
      using Cons.IH[OF run] by blast
    then have "\<exists>new. cs' = cs @ new \<and> (\<forall>c \<in> set new. partner_request E p a (set (n # ns)) {} c)"
      using new1(1) here by (intro exI[of _ "new1 @ new2"]) (auto intro: partner_request_mono)
    moreover have "\<forall>dss. r = Inr dss \<longrightarrow> ps_NetID ` set dss \<subseteq> ps_NetID ` set out \<union> set (n # ns)"
      using \<open>\<forall>dss. r = Inr dss \<longrightarrow> ps_NetID ` set dss \<subseteq> ps_NetID ` set out' \<union> set ns\<close> that(2) by fastforce
    ultimately show ?thesis by blast
  qed
  show ?case
  proof (cases r1)
    case (Inl e)
    then show ?thesis
    proof (cases "is_panic e")
      case True
      then show ?thesis using Cons.prems 1 Inl new1(1) here by auto
    next
      case False
      then show ?thesis using Cons.prems 1 Inl by (intro rest[of out]) auto
    qed
  next
    case (Inr ds)
    have run: "start_sessions E p' a ns (if ps_Lifetime ds \<noteq> zero_time then out @ [ds] else out) cs1 = (r, cs')"
      using Cons.prems 1 Inr by simp
    show ?thesis by (rule rest[OF run]) (use net[OF Inr] in auto)
  qed
qed auto

lemma forwarded_uplink:
  assumes "FilterRxInfoByPublicOnly (p_ForceGwsPrivate E) p = Inr p'"
    and "forward_uplink E p' a dss cs = (r, cs')"
  shows "\<exists>new. cs' = cs @ new \<and> (\<forall>c \<in> set new. partner_request E p a {} (ps_NetID ` set dss) c)"
  using assms(2)
proof (induction dss arbitrary: cs)
  case (Cons ds dss)
  obtain r1 cs1 where 1: "xmitDataUplink E p' a (ps_NetID ds) (\<not> is_error (GetClientForNetID (p_conf E) (ps_NetID ds))) cs = (r1, cs1)"
    by fastforce
  obtain new1 where new1: "cs1 = cs @ new1" "\<forall>c \<in> set new1. partner_request E p a {} {ps_NetID ds} c"
    using 1 public_packet[OF assms(1)] by (fastforce simp: xmitDataUplink_def partner_request_def split: sum.splits if_splits)
  consider "cs' = cs1" | "forward_uplink E p' a dss cs1 = (r, cs')"
    using Cons.prems 1 by (auto split: sum.splits if_splits)
  then show ?case
  proof cases
    case 1
    then show ?thesis using new1 by (auto intro: partner_request_mono)
  next
    case 2
    obtain new2 where "cs' = cs1 @ new2" "\<forall>c \<in> set new2. partner_request E p a {} (ps_NetID ` set dss) c"
      using Cons.IH[OF 2] by blast
    then show ?thesis using new1
      by (intro exI[of _ "new1 @ new2"]) (auto intro: partner_request_mono)
  qed
qed simp

lemma pr_mic_loop_subset:
  "pr_mic_loop E phy f dss g out = (h, Inr found) \<Longrightarrow> set found \<subseteq> set out \<union> set dss"
proof (induction dss arbitrary: g out)
  case (Cons ds dss)
  have IH: "set found \<subseteq> insert ds (set out \<union> set dss)"
    if "pr_mic_loop E phy f dss g' out' = (h, Inr found)" "out' \<in> {out, out @ [ds]}" for g' out'
    using Cons.IH[OF that(1)] that(2) by auto
  show ?case using Cons.prems by (auto simp: Let_def split: if_splits sum.splits dest!: IH)
qed simp

text \<open>The networks a session of the address is stored for.\<close>

definition session_networks :: "('s, 'v) pr_env \<Rightarrow> devaddr \<Rightarrow> 's \<Rightarrow> u32 set" where
  "session_networks E a s =
     (case GetPassiveRoamingDeviceSessionsForDevAddr E a s of Inl _ \<Rightarrow> {} | Inr dss \<Rightarrow> ps_NetID ` set dss)"

lemma known_sessions:
  assumes "uplink_sessions E p a s cs = (Inr dss, cs')" and "phy_MACPayload (rp_PHYPayload p) = Some (MACFrame m)" "mf_DevAddr m = a"
    and "cs' = cs" "dss \<noteq> []" "start_sessions E p a (GetNetIDsForDevAddr (p_conf E) a) [] cs \<noteq> (Inr dss, cs)"
  shows "ps_NetID ` set dss \<subseteq> session_networks E a s"
proof -
  obtain f r where g: "GetPassiveRoamingDeviceSessionsForPHYPayload E (rp_PHYPayload p) s = (f, r)" by fastforce
  obtain found where found: "r = Inr found" "dss = map (\<lambda>ds. ds\<lparr>ps_FCntUp := f + 1\<rparr>) found"
    using assms(1,4,6) g by (auto simp: uplink_sessions_def Let_def split: sum.splits if_splits)
  then obtain all where all: "GetPassiveRoamingDeviceSessionsForDevAddr E a s = Inr all"
    "pr_mic_loop E (rp_PHYPayload p) (mf_FCnt m) all (mf_FCnt m) [] = (f, Inr found)"
    using g assms(2,3) by (auto simp: GetPassiveRoamingDeviceSessionsForPHYPayload_def split: sum.splits)
  then have "set found \<subseteq> set all" using pr_mic_loop_subset[of E _ _ all _ "[]"] by fastforce
  then show ?thesis using found(2) all(1) by (auto simp: session_networks_def)
qed

text \<open>
  The requests of an uplink: when sessions are known only frames for them, else requests to start sessions, and
  frames for the sessions started.
\<close>

lemma uplink_requests:
  assumes "FilterRxInfoByPublicOnly (p_ForceGwsPrivate E) p = Inr p'"
    and "phy_MACPayload (rp_PHYPayload p) = Some (MACFrame m)" "mf_DevAddr m = a"
    and "uplink_sessions E p' a s cs = (r, cs')"
  shows "\<exists>new. cs' = cs @ new \<and> (\<forall>c \<in> set new. partner_request E p a (set (GetNetIDsForDevAddr (p_conf E) a)) {} c) \<and>
    (\<forall>dss. r = Inr dss \<longrightarrow>
       (ps_NetID ` set dss \<subseteq> session_networks E a s \<and> new = [] \<or> ps_NetID ` set dss \<subseteq> set (GetNetIDsForDevAddr (p_conf E) a)))"
proof -
  have phy: "phy_MACPayload (rp_PHYPayload p') = Some (MACFrame m)"
    using assms(1,2) by (auto simp: FilterRxInfoByPublicOnly_def Let_def split: if_splits)
  show ?thesis
  proof (cases "start_sessions E p' a (GetNetIDsForDevAddr (p_conf E) a) [] cs = (r, cs')")
    case True
    from started_sessions[OF assms(1) this] show ?thesis by auto
  next
    case False
    then obtain dss where dss: "r = Inr dss" "cs' = cs" "dss \<noteq> []"
      using assms(4) by (auto simp: uplink_sessions_def Let_def split: prod.splits if_splits)
    have "ps_NetID ` set dss \<subseteq> session_networks E a s"
      by (rule known_sessions[OF assms(4)[unfolded dss(1)] phy assms(3) dss(2,3)]) (use False dss in auto)
    then show ?thesis using dss by auto
  qed
qed

text \<open>
  C11: an uplink of a foreign device. It leaves the database alone, and every request it makes names public
  gateways only: requests to start a session go to networks with a passive-roaming agreement whose NetID the
  address has, and the frame only goes to those and to networks a session of this address is stored for.
  With \<open>ForceGwsPrivate\<close>, or when only private gateways received it, nothing is sent.
\<close>

theorem foreign_uplink_stays_within_agreements:
  assumes "phy_MACPayload (rp_PHYPayload p) = Some (MACFrame m)"
    and "HandleRoamingFNS_uplink E (mf_DevAddr m) p w = (r, w')"
  shows "w_DB w' = w_DB w \<and> (\<exists>new. w_Calls w' = w_Calls w @ new \<and>
    (\<forall>c \<in> set new. partner_request E p (mf_DevAddr m) (set (GetNetIDsForDevAddr (p_conf E) (mf_DevAddr m)))
       (set (GetNetIDsForDevAddr (p_conf E) (mf_DevAddr m)) \<union> session_networks E (mf_DevAddr m) (w_Redis w)) c) \<and>
    (p_ForceGwsPrivate E \<or> list_all (gateway_is_private p) (rp_RXInfoSet p) \<longrightarrow> new = []))"
proof (cases "FilterRxInfoByPublicOnly (p_ForceGwsPrivate E) p")
  case (Inl e)
  then show ?thesis using assms(2) by (auto simp: HandleRoamingFNS_uplink_def)
next
  case (Inr p')
  let ?a = "mf_DevAddr m"
  define N where "N = set (GetNetIDsForDevAddr (p_conf E) ?a)"
  define K where "K = session_networks E ?a (w_Redis w)"
  have public: "\<not> (p_ForceGwsPrivate E \<or> list_all (gateway_is_private p) (rp_RXInfoSet p))"
    using Inr by (auto simp: FilterRxInfoByPublicOnly_def Let_def filter_empty_conv list_all_iff split: if_splits)
  obtain r1 cs1 where 1: "uplink_sessions E p' ?a (w_Redis w) (w_Calls w) = (r1, cs1)" by fastforce
  obtain new1 where new1: "cs1 = w_Calls w @ new1" "\<forall>c \<in> set new1. partner_request E p ?a N {} c"
    and split: "\<forall>dss. r1 = Inr dss \<longrightarrow> (ps_NetID ` set dss \<subseteq> K \<and> new1 = [] \<or> ps_NetID ` set dss \<subseteq> N)"
    using uplink_requests[OF Inr assms(1) refl 1, folded N_def K_def] by (elim exE conjE) (rule that)
  have nets: "ps_NetID ` set dss \<subseteq> K \<or> ps_NetID ` set dss \<subseteq> N" if "r1 = Inr dss" for dss
    using split[rule_format, OF that] by blast
  have req1: "\<forall>c \<in> set new1. partner_request E p ?a N (N \<union> K) c"
    using new1(2) by (auto intro: partner_request_mono)
  show ?thesis
  proof (cases r1)
    case (Inl e)
    then show ?thesis using assms(2) \<open>FilterRxInfoByPublicOnly _ p = Inr p'\<close> 1 new1(1) req1 public
      by (auto simp: HandleRoamingFNS_uplink_def N_def K_def)
  next
    case r1: (Inr dss)
    obtain r2 cs2 where 2: "forward_uplink E p' ?a dss cs1 = (r2, cs2)" by fastforce
    obtain new2 where new2: "cs2 = cs1 @ new2" "\<forall>c \<in> set new2. partner_request E p ?a {} (ps_NetID ` set dss) c"
      using forwarded_uplink[OF Inr 2] by blast
    have sub: "ps_NetID ` set dss \<subseteq> N \<union> K" using nets[OF r1] by (elim disjE) (simp_all add: le_supI1 le_supI2)
    have "\<forall>c \<in> set new2. partner_request E p ?a N (N \<union> K) c"
      by (rule ballI, rule partner_request_mono[OF bspec[OF new2(2)] empty_subsetI sub])
    moreover have "w_DB w' = w_DB w \<and> w_Calls w' = cs2"
      using assms(2) Inr 1 r1 2 by (auto simp: HandleRoamingFNS_uplink_def split: sum.splits)
    ultimately show ?thesis using new1(1) new2(1) req1 public unfolding N_def K_def by (intro conjI exI[of _ "new1 @ new2"]) auto
  qed
qed

section \<open>A sample\<close>

text \<open>One partner, network 3, which starts a session of an hour; two gateways, the second one private.\<close>

type_synonym pr_value = "pr_session + stored_frame"

definition pr_codec :: "(pr_session, pr_value) codec" where
  "pr_codec = \<lparr>enc = \<lambda>x. Inr (Inl x), dec = \<lambda>v. case v of Inl x \<Rightarrow> Inr x | Inr _ \<Rightarrow> Inl (Errorf ''proto'')\<rparr>"

definition sample_roaming_conf :: roaming_conf where
  "sample_roaming_conf =
     \<lparr>rc_roamingEnabled = True, rc_netID = 1,
      rc_agreements = [\<lparr>ag_netID = 3, ag_passiveRoaming = True, ag_passiveRoamingLifetime = 0, ag_passiveRoamingKEKLabel = []\<rparr>],
      rc_keks = (\<lambda>_. None), rc_defaultEnabled = False, rc_defaultPassiveRoamingLifetime = 0,
      rc_defaultPassiveRoamingKEKLabel = [], rc_NewClient = (\<lambda>_. Inr ()), rc_IsNetID = (\<lambda>a n. n = 3 \<and> a = 5)\<rparr>"

definition sample_pr_env :: "((pr_value, uuid) mem, pr_value) pr_env" where
  "sample_pr_env =
     \<lparr>p_Redis = mem_redis, p_Sessions = pr_codec,
      p_Frames = \<lparr>enc = \<lambda>x. Inr (Inr x), dec = \<lambda>v. case v of Inr x \<Rightarrow> Inr x | Inl _ \<Rightarrow> Inl (Errorf ''proto'')\<rparr>,
      p_TTL = 1000, p_conf = sample_roaming_conf, p_now = 0, p_newUUID = (\<lambda>_. Inr 9), p_Band = sample_band, p_DL = sample_dl_band,
      p_ForceGwsPrivate = False, p_sort = (\<lambda>rs. rs), p_Unwrap = (\<lambda>_ _. Inr 0), p_MarshalRequest = (\<lambda>_. Inr [1]),
      p_MarshalRXInfo = (\<lambda>_. Inr [2]), p_ValidateMIC = (\<lambda>_ _ _ _. Inr True),
      p_PRStartReq = (\<lambda>_ _ _ _. Inr \<lparr>pa_Success = True, pa_PHYPayload = [], pa_DevEUI = Some 7, pa_DevAddr = None,
        pa_Lifetime = Some 3600, pa_FNwkSIntKey = None, pa_NwkSKey = Some \<lparr>ke_KEKLabel = [], ke_AESKey = [1]\<rparr>,
        pa_FCntUp = Some 10, pa_DLMetaData = None\<rparr>),
      p_XmitUplink = (\<lambda>_ _ _ _. Inr True), p_GetClientForJoinEUI = (\<lambda>_. Inr ()), p_HomeNSReq = (\<lambda>_ _ _. Inr 3),
      p_send = (\<lambda>_ _. Inr ())\<rparr>"

definition foreign_frame :: mac_frame where
  "foreign_frame =
     \<lparr>mf_DevAddr = 5, mf_FCtrl = no_fctrl, mf_FCnt = 10, mf_FOpts = [], mf_FPort = Some 1, mf_FRMPayload = [DataItem [1, 2]]\<rparr>"

definition foreign_packet :: dl_packet where
  "foreign_packet = sample_dl_packet\<lparr>rp_PHYPayload := \<lparr>phy_MType = UnconfirmedDataUp, phy_MACPayload = Some (MACFrame foreign_frame)\<rparr>,
     rp_RXInfoSet := [hd (rp_RXInfoSet sample_dl_packet), (hd (rp_RXInfoSet sample_dl_packet))\<lparr>ri_GatewayId := [1]\<rparr>],
     rp_GatewayIsPrivate := Some [(bytes_eui64 [1], True)]\<rparr>"

definition empty_world :: "(unit, (pr_value, uuid) mem) world" where
  "empty_world = \<lparr>w_DB = (), w_Redis = mem_empty, w_Calls = []\<rparr>"

lemma sample_gateways:
  "GetGatewayID (hd (rp_RXInfoSet sample_dl_packet)) \<noteq> bytes_eui64 [1]"
  by code_simp

lemma sample_filter:
  "FilterRxInfoByPublicOnly False foreign_packet = Inr (foreign_packet\<lparr>rp_RXInfoSet := rp_RXInfoSet sample_dl_packet\<rparr>)"
proof -
  obtain r where r: "rp_RXInfoSet sample_dl_packet = [r]" by (simp add: sample_dl_packet_def)
  have "GetGatewayID (r\<lparr>ri_GatewayId := [1]\<rparr>) = bytes_eui64 [1]" by (simp add: GetGatewayID_def)
  then show ?thesis using sample_gateways r
    by (simp add: FilterRxInfoByPublicOnly_def Let_def foreign_packet_def gateway_is_private_def gomap_get_def)
qed

lemma sample_conf_simps:
  "GetNetIDsForDevAddr sample_roaming_conf 5 = [3]" "GetClientForNetID sample_roaming_conf 3 = Inr ()"
  by (simp_all add: GetNetIDsForDevAddr_def GetClientForNetID_def agreement_of_def sample_roaming_conf_def)

lemma sample_meta: "\<exists>m. uplink_meta sample_pr_env d a (foreign_packet\<lparr>rp_RXInfoSet := rp_RXInfoSet sample_dl_packet\<rparr>) = Inr m"
  by (simp add: uplink_meta_def foreign_packet_def sample_dl_packet_def gw_info_of_def sample_pr_env_def)

theorem foreign_uplink_stays_within_agreements_witness:
  "\<exists>w'. HandleRoamingFNS_uplink sample_pr_env 5 foreign_packet empty_world = (Inr (), w') \<and> length (w_Calls w') = 2 \<and>
     (\<forall>c \<in> set (w_Calls w'). partner_request sample_pr_env foreign_packet 5 {3} {3} c)"
proof -
  let ?p = "foreign_packet\<lparr>rp_RXInfoSet := rp_RXInfoSet sample_dl_packet\<rparr>"
  let ?s = "mem_empty :: (pr_value, uuid) mem"
  obtain m1 where m1: "uplink_meta sample_pr_env None None ?p = Inr m1" using sample_meta by blast
  obtain m2 where m2: "uplink_meta sample_pr_env None (Some 5) ?p = Inr m2" using sample_meta by blast
  have none: "GetPassiveRoamingDeviceSessionsForDevAddr sample_pr_env 5 ?s = Inr []"
    by (simp add: GetPassiveRoamingDeviceSessionsForDevAddr_def GetPassiveRoamingIDsForDevAddr_def sample_pr_env_def mem_redis_run
        mem_empty_def mem_set_def)
  have phy: "phy_MACPayload (rp_PHYPayload ?p) = Some (MACFrame foreign_frame)" "mf_DevAddr foreign_frame = 5"
    by (simp_all add: foreign_packet_def foreign_frame_def)
  obtain ds where start: "startPassiveRoamingSession sample_pr_env ?p 5 3 [] = (Inr ds, [PRStartReq 3 [1] m1])"
    and ds: "ps_Lifetime ds = 3600 * second" "ps_NetID ds = 3"
    using m1 by (auto simp: startPassiveRoamingSession_def sample_pr_env_def sample_conf_simps set_roaming_keys_def unwrap_envelope_def
        lifetime_end_def no_pr_session_def Let_def go_int64_id second_def)
  have late: "3600 * second \<noteq> zero_time" by code_simp
  have sessions: "uplink_sessions sample_pr_env ?p 5 ?s [] = (Inr [ds], [PRStartReq 3 [1] m1])"
    using none phy start ds late
    by (simp add: uplink_sessions_def GetPassiveRoamingDeviceSessionsForPHYPayload_def sample_conf_simps)
      (simp add: sample_pr_env_def sample_conf_simps)
  obtain w' where run: "HandleRoamingFNS_uplink sample_pr_env 5 foreign_packet empty_world = (Inr (), w')"
    and calls: "w_Calls w' = [PRStartReq 3 [1] m1, XmitUplink 3 [1] m2]"
    using sample_filter sessions m2 ds(2)
    by (auto simp: HandleRoamingFNS_uplink_def xmitDataUplink_def empty_world_def sample_pr_env_def sample_conf_simps)
  have "phy_MACPayload (rp_PHYPayload foreign_packet) = Some (MACFrame foreign_frame)" using phy(1) by simp
  from foreign_uplink_stays_within_agreements[OF this run[folded phy(2)]] obtain new where
    "w_Calls w' = new" "\<forall>c \<in> set new. partner_request sample_pr_env foreign_packet 5 {3} ({3} \<union> session_networks sample_pr_env 5 ?s) c"
    by (auto simp: phy(2) empty_world_def sample_pr_env_def sample_conf_simps)
  then show ?thesis using run calls none by (auto simp: session_networks_def)
qed

end
