(* ===== verification/Join.thy ===== *)
theory Join
  imports Roaming
begin

text \<open>
  A join-request (\<open>internal/uplink/join/join.go\<close>, \<open>key_wrap.go\<close>): the device is looked up, the nonce
  checked, the join-server asked for the accept and the keys, a fresh session stored, the activation
  recorded and the accept sent, in one SQL transaction. An unknown device is tried as a roaming one.
  What the code does with one \<open>rand.Read\<close> each is a parameter each.
\<close>

section \<open>Keys\<close>

definition unwrapNSKeyEnvelope :: "('db, 's, 'v) join_env \<Rightarrow> key_envelope \<Rightarrow> aeskey res" where
  "unwrapNSKeyEnvelope E ke =
     (if ke_KEKLabel ke = [] then Inr (bytes_key (ke_AESKey ke))
      else case j_keks E (ke_KEKLabel ke) of
        None \<Rightarrow> Inl (Errorf ''unknown kek label'')
      | Some kek \<Rightarrow> (case j_Unwrap E ke kek of Inl e \<Rightarrow> Inl (Wrap e ''unwrap error'') | Inr k \<Rightarrow> Inr k))"

definition with_key ::
  "('db, 's, 'v) join_env \<Rightarrow> key_envelope option \<Rightarrow> (aeskey \<Rightarrow> device_session \<Rightarrow> device_session) \<Rightarrow>
   device_session \<Rightarrow> device_session res" where
  "with_key E ke put ds =
     (case ke of
        None \<Rightarrow> Inr ds
      | Some ke \<Rightarrow> (case unwrapNSKeyEnvelope E ke of Inl e \<Rightarrow> Inl e | Inr k \<Rightarrow> Inr (put k ds)))"

text \<open>The keys of an answer: \<open>NwkSKey\<close> is all three, the others one each.\<close>

definition set_session_keys ::
  "('db, 's, 'v) join_env \<Rightarrow> join_answer \<Rightarrow> device_session \<Rightarrow> device_session res" where
  "set_session_keys E a ds =
     (let ds = (case ja_AppSKey a of None \<Rightarrow> ds
                | Some k \<Rightarrow> ds\<lparr>ds_AppSKeyEvelope := Some \<lparr>ke_KEKLabel = ke_KEKLabel k, ke_AESKey = ke_AESKey k\<rparr>\<rparr>)
      in case with_key E (ja_NwkSKey a) (\<lambda>k ds. ds\<lparr>ds_SNwkSIntKey := k, ds_FNwkSIntKey := k, ds_NwkSEncKey := k\<rparr>) ds of
        Inl e \<Rightarrow> Inl e
      | Inr ds \<Rightarrow>
         (case with_key E (ja_SNwkSIntKey a) (\<lambda>k ds. ds\<lparr>ds_SNwkSIntKey := k\<rparr>) ds of
            Inl e \<Rightarrow> Inl e
          | Inr ds \<Rightarrow>
             (case with_key E (ja_FNwkSIntKey a) (\<lambda>k ds. ds\<lparr>ds_FNwkSIntKey := k\<rparr>) ds of
                Inl e \<Rightarrow> Inl e
              | Inr ds \<Rightarrow> with_key E (ja_NwkSEncKey a) (\<lambda>k ds. ds\<lparr>ds_NwkSEncKey := k\<rparr>) ds)))"

section \<open>Channels\<close>

text \<open>A frequency the band does not know is only logged. The map of extra channels is fresh.\<close>

fun add_cflist_channels :: "band \<Rightarrow> u32 list \<Rightarrow> device_session \<Rightarrow> device_session res" where
  "add_cflist_channels b [] ds = Inr ds"
| "add_cflist_channels b (f # fs) ds =
     (if f = 0 then add_cflist_channels b fs ds
      else case GetUplinkChannelIndex b f False of
        Inl _ \<Rightarrow> add_cflist_channels b fs ds
      | Inr i \<Rightarrow>
          let ds = ds\<lparr>ds_EnabledUplinkChannels := ds_EnabledUplinkChannels ds @ [i]\<rparr> in
          (case GetUplinkChannel b i of
             Inl e \<Rightarrow> Inl (Wrap e ''get uplink channel error'')
           | Inr c \<Rightarrow>
              (case gomap_put (ds_ExtraUplinkChannels ds) i c of
                 Inl e \<Rightarrow> Inl e
               | Inr m \<Rightarrow> add_cflist_channels b fs (ds\<lparr>ds_ExtraUplinkChannels := m\<rparr>))))"

definition masked_channels :: "bool list list \<Rightarrow> int list" where
  "masked_channels masks =
     concat (map (\<lambda>blockI. map (\<lambda>channelI. int channelI + int blockI * 16)
       (filter (\<lambda>channelI. masks ! blockI ! channelI) [0..<length (masks ! blockI)])) [0..<length masks])"

definition set_cflist :: "('db, 's, 'v) join_env \<Rightarrow> cflist option \<Rightarrow> device_session \<Rightarrow> device_session res" where
  "set_cflist E cl ds =
     (case cl of
        None \<Rightarrow> Inr ds
      | Some cl \<Rightarrow>
         (case (cl_CFListType cl, cl_Payload cl) of
            (CFListChannel, CFListChannelPayload fs) \<Rightarrow> add_cflist_channels (n_Band (j_down E)) fs ds
          | (CFListChannel, _) \<Rightarrow> Inl (Errorf ''expected *lorawan.CFListChannelPayload'')
          | (CFListChannelMask, CFListChannelMaskPayload masks) \<Rightarrow> Inr (ds\<lparr>ds_EnabledUplinkChannels := masked_channels masks\<rparr>)
          | (CFListChannelMask, _) \<Rightarrow> Inl (Errorf ''expected *lorawan.CFListChannelMaskPayload'')
          | (CFListOther _, _) \<Rightarrow> Inr ds))"

section \<open>Context\<close>

record ('db, 's) join_context = "('db, 's) world" +
  jx_RXPacket :: dl_packet
  jx_JoinEUI :: eui64
  jx_DevEUI :: eui64
  jx_DevNonce :: u16
  jx_Device :: device
  jx_ServiceProfile :: service_profile
  jx_DeviceProfile :: device_profile
  jx_DevAddr :: devaddr
  jx_JoinAnsPayload :: join_answer
  jx_DeviceSession :: device_session

type_synonym ('db, 's) join_task = "('db, 's) join_context task"

section \<open>The device\<close>

definition setContextFromJoinRequestPHYPayload :: "('db, 's) join_task" where
  "setContextFromJoinRequestPHYPayload c =
     (case phy_MACPayload (rp_PHYPayload (jx_RXPacket c)) of
        Some (JoinRequestFrame joinEUI devEUI nonce) \<Rightarrow>
          (Inr (), c\<lparr>jx_JoinEUI := joinEUI, jx_DevEUI := devEUI, jx_DevNonce := nonce\<rparr>)
      | _ \<Rightarrow> (Inl (Errorf ''expected *lorawan.JoinRequestPayload''), c))"

definition getDeviceOrTryRoaming :: "('db, 's, 'v) join_env \<Rightarrow> ('s, 'v) pr_env \<Rightarrow> ('db, 's) join_task" where
  "getDeviceOrTryRoaming E P c =
     (case GetDevice (j_Devices E) (jx_DevEUI c) (w_DB c) of
        Inr d \<Rightarrow> (Inr (), c\<lparr>jx_Device := d\<rparr>)
      | Inl e \<Rightarrow>
          if error_cause e = ErrDoesNotExist \<and> rc_roamingEnabled (p_conf P)
          then (case in_flow_world (StartPRFNS P (jx_RXPacket c) (jx_JoinEUI c) (jx_DevEUI c)) c of
                  (Inl e, c) \<Rightarrow> (Inl e, c) | (Inr _, c) \<Rightarrow> (Inl ErrAbort, c))
          else (Inl (Wrap e ''get device error''), c))"

definition join_getDeviceProfile :: "('db, 's, 'v) join_env \<Rightarrow> ('db, 's) join_task" where
  "join_getDeviceProfile E c =
     (case GetDeviceProfile (n_DeviceProfiles (j_down E)) (d_DeviceProfileID (jx_Device c)) (w_DB c) of
        Inl e \<Rightarrow> (Inl (Wrap e ''get device-profile error''), c)
      | Inr dp \<Rightarrow>
          (if dp_SupportsJoin dp then Inr () else Inl (Errorf ''device does not support join''), c\<lparr>jx_DeviceProfile := dp\<rparr>))"

definition join_getServiceProfile :: "('db, 's, 'v) join_env \<Rightarrow> ('db, 's) join_task" where
  "join_getServiceProfile E =
     reading (\<lambda>c. GetServiceProfile (n_ServiceProfiles (j_down E)) (d_ServiceProfileID (jx_Device c)) (w_DB c))
       (\<lambda>sp c. c\<lparr>jx_ServiceProfile := sp\<rparr>) ''get service-profile error''"

definition join_filterRxInfo :: "('db, 's, 'v) join_env \<Rightarrow> ('db, 's) join_task" where
  "join_filterRxInfo E c =
     (case FilterRxInfoByServiceProfileID (j_ForceGwsPrivate E) (d_ServiceProfileID (jx_Device c)) (jx_RXPacket c) of
        Inl e \<Rightarrow> (Inl (if e = ErrNoElements then ErrAbort else e), c)
      | Inr p \<Rightarrow> (Inr (), c\<lparr>jx_RXPacket := p\<rparr>))"

definition logJoinRequestFramesCollected :: "('db, 's, 'v) join_env \<Rightarrow> ('db, 's) join_task" where
  "logJoinRequestFramesCollected E c =
     (case j_log_error E (jx_RXPacket c) of
        None \<Rightarrow> (Inr (), c) | Some e \<Rightarrow> (Inl (Wrap e ''create uplink frame-set error''), c))"

definition join_abortOnDeviceIsDisabled :: "('db, 's) join_task" where
  "join_abortOnDeviceIsDisabled c = (if d_IsDisabled (jx_Device c) then Inl ErrAbort else Inr (), c)"

section \<open>The nonce and the answer of the join-server\<close>

text \<open>Telling the application-server is best effort.\<close>

definition report_join_error :: "('db, 's, 'v) join_env \<Rightarrow> ('db, 's) join_context \<Rightarrow> ('db, 's) join_context" where
  "report_join_error E c =
     (case GetASClientForRoutingProfileID (n_RoutingProfiles (j_down E)) (n_pool (j_down E))
             (d_RoutingProfileID (jx_Device c)) (w_DB c) of
        Inl _ \<Rightarrow> c
      | Inr _ \<Rightarrow> call_out (HandleError (eui64_bytes (d_DevEUI (jx_Device c))) 0 OTAA) c)"

definition validateNonce :: "('db, 's, 'v) join_env \<Rightarrow> ('db, 's) join_task" where
  "validateNonce E c =
     (case ValidateDevNonce (j_Activations E) (jx_JoinEUI c) (jx_DevEUI c) (jx_DevNonce c) JoinRequestType (w_DB c) of
        Inl e \<Rightarrow> (Inl (Wrap e ''validate dev-nonce error''), report_join_error E c)
      | Inr _ \<Rightarrow> (Inr (), c))"

definition GetRandomDevAddr :: "('db, 's, 'v) join_env \<Rightarrow> devaddr res" where
  "GetRandomDevAddr E =
     (case j_random_addr E of
        Inl e \<Rightarrow> Inl (Wrap e ''read random bytes error'')
      | Inr b \<Rightarrow> Inr (j_SetAddrPrefix E (j_netID E) (word_rcat (to_array 4 b))))"

definition getRandomDevAddr :: "('db, 's, 'v) join_env \<Rightarrow> ('db, 's) join_task" where
  "getRandomDevAddr E =
     reading (\<lambda>c. GetRandomDevAddr E) (\<lambda>a c. c\<lparr>jx_DevAddr := a\<rparr>) ''get random DevAddr error''"

definition opt_neg :: "string \<Rightarrow> bool" where
  "opt_neg macVersion \<longleftrightarrow> take 3 macVersion \<noteq> ''1.0''"

text \<open>The request, but for the encoding of the channel list.\<close>

definition request_to_server ::
  "('db, 's, 'v) join_env \<Rightarrow> eui64 \<Rightarrow> byte list \<Rightarrow> byte list \<Rightarrow> string \<Rightarrow> eui64 \<Rightarrow> devaddr \<Rightarrow> byte list \<Rightarrow> join_request" where
  "request_to_server E joinEUI b random macVersion devEUI devAddr cFListB =
     \<lparr>jq_ReceiverID = joinEUI, jq_TransactionID = word_rcat (rev (to_array 4 random)), jq_MACVersion = macVersion,
      jq_PHYPayload = b, jq_DevEUI = devEUI, jq_DevAddr = devAddr, jq_OptNeg = opt_neg macVersion,
      jq_RX2DataRate = word_of_int (cf_rx2DR (n_conf (j_down E))), jq_RX1DROffset = word_of_int (cf_rx1DROffset (n_conf (j_down E))),
      jq_RxDelay = cf_rx1Delay (n_conf (j_down E)), jq_CFList = cFListB\<rparr>"

definition marshalled_cflist :: "('db, 's, 'v) join_env \<Rightarrow> cflist option \<Rightarrow> byte list res" where
  "marshalled_cflist E cl =
     (case cl of
        None \<Rightarrow> Inr []
      | Some cl \<Rightarrow> (case j_MarshalCFList E cl of Inl e \<Rightarrow> Inl (Wrap e ''marshal cflist error'') | Inr b \<Rightarrow> Inr b))"

definition join_request_of :: "('db, 's, 'v) join_env \<Rightarrow> ('db, 's) join_context \<Rightarrow> join_request res" where
  "join_request_of E c =
     (case j_MarshalRequest E (rp_PHYPayload (jx_RXPacket c)) of
        Inl e \<Rightarrow> Inl (Wrap e ''PHYPayload marshal binary error'')
      | Inr b \<Rightarrow>
         (case j_random_transaction E of
            Inl e \<Rightarrow> Inl (Wrap e ''read random bytes error'')
          | Inr random \<Rightarrow>
             (case marshalled_cflist E (j_GetCFList E (dp_MACVersion (jx_DeviceProfile c))) of
                Inl e \<Rightarrow> Inl e
              | Inr cl \<Rightarrow> Inr (request_to_server E (jx_JoinEUI c) b random (dp_MACVersion (jx_DeviceProfile c))
                  (jx_DevEUI c) (jx_DevAddr c) cl))))"

definition getJoinAcceptFromAS :: "('db, 's, 'v) join_env \<Rightarrow> ('db, 's) join_task" where
  "getJoinAcceptFromAS E c =
     (case join_request_of E c of
        Inl e \<Rightarrow> (Inl e, c)
      | Inr req \<Rightarrow>
         (case j_GetClientForJoinEUI E (jx_JoinEUI c) of
            Inl e \<Rightarrow> (Inl (Wrap e ''get join-server client error''), c)
          | Inr _ \<Rightarrow>
             (case j_JoinReq E req (w_Calls c) of
                Inl e \<Rightarrow> (Inl (Wrap e ''join-request to join-server error''), report_join_error E (call_out (JoinReq req) c))
              | Inr a \<Rightarrow> (Inr (), call_out (JoinReq req) (c\<lparr>jx_JoinAnsPayload := a\<rparr>)))))"

definition request_size :: "('db, 's, 'v) join_env \<Rightarrow> phy \<Rightarrow> u32" where
  "request_size E p = (case j_MarshalRequest E p of Inl _ \<Rightarrow> 0 | Inr b \<Rightarrow> of_nat (length b))"

definition request_meta :: "('db, 's, 'v) join_env \<Rightarrow> mtype \<Rightarrow> eui64 \<Rightarrow> dl_packet \<Rightarrow> call" where
  "request_meta E mtype devEUI p =
     HandleUplinkMetaData \<lparr>md_GatewayId = [], md_DevEui = eui64_bytes devEUI, md_MulticastGroupId = [],
       md_MessageType = Some mtype, md_PhyPayloadByteCount = request_size E (rp_PHYPayload p), md_MacCommandByteCount = 0,
       md_ApplicationPayloadByteCount = 0\<rparr> (rp_TXInfo p) (rp_RXInfoSet p)"

definition join_sendUplinkMetaData :: "('db, 's, 'v) join_env \<Rightarrow> ('db, 's) join_task" where
  "join_sendUplinkMetaData E c =
     (Inr (), if j_has_controller E then call_out (request_meta E JoinRequest (jx_DevEUI c) (jx_RXPacket c)) c else c)"

section \<open>The session\<close>

definition join_flushDeviceQueue :: "('db, 's, 'v) join_env \<Rightarrow> ('db, 's) join_task" where
  "join_flushDeviceQueue E c =
     wrapping ''flush device-queue error'' (on_DB (FlushDeviceQueueForDevEUI (n_Queue (j_down E)) (d_DevEUI (jx_Device c)))) c"

text \<open>The literal both flows start from; a nil map of error counts.\<close>

definition fresh_session ::
  "('db, 's, 'v) join_env \<Rightarrow> device \<Rightarrow> device_profile \<Rightarrow> eui64 \<Rightarrow> eui64 \<Rightarrow> devaddr \<Rightarrow> device_session" where
  "fresh_session E d dp joinEUI devEUI devAddr =
     (let conf = n_conf (j_down E) in zero_device_session
        \<lparr>ds_DeviceProfileID := d_DeviceProfileID d, ds_ServiceProfileID := d_ServiceProfileID d,
         ds_RoutingProfileID := d_RoutingProfileID d, ds_MACVersion := dp_MACVersion dp, ds_DevAddr := devAddr,
         ds_JoinEUI := joinEUI, ds_DevEUI := devEUI, ds_RXWindow := 0, ds_RXDelay := word_of_int (cf_rx1Delay conf),
         ds_RX1DROffset := word_of_int (cf_rx1DROffset conf), ds_RX2DR := word_of_int (cf_rx2DR conf),
         ds_RX2Frequency := j_RX2Frequency E,
         ds_EnabledUplinkChannels := GetStandardUplinkChannelIndices (n_Band (j_down E)), ds_ExtraUplinkChannels := Some [],
         ds_SkipFCntValidation := d_SkipFCntCheck d, ds_PingSlotDR := dp_PingSlotDR dp, ds_PingSlotFrequency := dp_PingSlotFreq dp,
         ds_NbTrans := 1, ds_MACCommandErrorCount := None\<rparr>)"

definition set_ping_slots :: "device_profile \<Rightarrow> device_session \<Rightarrow> device_session" where
  "set_ping_slots dp ds =
     (if dp_PingSlotPeriod dp \<noteq> 0 then ds\<lparr>ds_PingSlotNb := go_div (2 ^ 12) (dp_PingSlotPeriod dp)\<rparr> else ds)"

definition joined_session ::
  "('db, 's, 'v) join_env \<Rightarrow> join_answer \<Rightarrow> device \<Rightarrow> device_profile \<Rightarrow> eui64 \<Rightarrow> eui64 \<Rightarrow> devaddr \<Rightarrow> device_session res" where
  "joined_session E a d dp joinEUI devEUI devAddr =
     (case set_session_keys E a
             ((fresh_session E d dp joinEUI devEUI devAddr)\<lparr>ds_ReferenceAltitude := d_ReferenceAltitude d\<rparr>) of
        Inl e \<Rightarrow> Inl e
      | Inr ds \<Rightarrow>
         (case set_cflist E (j_GetCFList E (dp_MACVersion dp)) ds of
            Inl e \<Rightarrow> Inl e
          | Inr ds \<Rightarrow> Inr (set_ping_slots dp ds)))"

definition createDeviceSession :: "('db, 's, 'v) join_env \<Rightarrow> ('db, 's) join_task" where
  "createDeviceSession E c =
     (case joined_session E (jx_JoinAnsPayload c) (jx_Device c) (jx_DeviceProfile c) (jx_JoinEUI c) (jx_DevEUI c) (jx_DevAddr c) of
        Inl e \<Rightarrow> (Inl e, c)
      | Inr ds \<Rightarrow>
          run_tasks
            [wrapping ''save node-session error'' (on_Redis (SaveDeviceSession (n_Redis (j_down E)) (n_Sessions (j_down E)) (n_TTL (j_down E)) ds)),
             wrapping ''flush mac-command queue error'' (on_Redis (FlushMACCommandQueue (n_Redis (j_down E)) (ds_DevEUI ds)))]
            (c\<lparr>jx_DeviceSession := ds\<rparr>))"

text \<open>The activation of a session, with the nonce or rejoin counter of the request.\<close>

definition activation_of :: "device_session \<Rightarrow> u16 \<Rightarrow> join_type \<Rightarrow> device_activation" where
  "activation_of ds nonce t =
     \<lparr>da_ID = 0, da_CreatedAt = zero_time, da_DevEUI = ds_DevEUI ds, da_JoinEUI = ds_JoinEUI ds, da_DevAddr = ds_DevAddr ds,
      da_FNwkSIntKey = ds_FNwkSIntKey ds, da_SNwkSIntKey = ds_SNwkSIntKey ds, da_NwkSEncKey = ds_NwkSEncKey ds,
      da_DevNonce = nonce, da_JoinReqType = t\<rparr>"

definition createDeviceActivation :: "('db, 's, 'v) join_env \<Rightarrow> ('db, 's) join_task" where
  "createDeviceActivation E c =
     wrapping ''create device-activation error'' (\<lambda>c. forget (on_DB (CreateDeviceActivation (j_Activations E)
       (activation_of (jx_DeviceSession c) (jx_DevNonce c) JoinRequestType) (n_now (j_down E))) c)) c"

definition joined_mode :: "device_profile \<Rightarrow> device_mode" where
  "joined_mode dp = (if dp_SupportsClassC dp then DeviceModeC else DeviceModeA)"

definition setDeviceMode :: "('db, 's, 'v) join_env \<Rightarrow> ('db, 's) join_task" where
  "setDeviceMode E c =
     (let c = c\<lparr>jx_Device := (jx_Device c)\<lparr>d_Mode := joined_mode (jx_DeviceProfile c)\<rparr>\<rparr> in
      wrapping ''update device error'' (on_DB (UpdateDevice (j_Devices E) (n_now (j_down E)) (jx_Device c))) c)"

definition sendJoinAcceptDownlink :: "('db, 's, 'v) join_env \<Rightarrow> ('db, 's) join_task" where
  "sendJoinAcceptDownlink E c =
     (case j_UnmarshalAccept E (ja_PHYPayload (jx_JoinAnsPayload c)) of
        Inl e \<Rightarrow> (Inl (Wrap e ''unmarshal downlink phypayload error''), c)
      | Inr phy \<Rightarrow> wrapping ''run join-response flow error''
          (in_flow_world (JoinAccept_Handle E (jx_DeviceSession c) (jx_RXPacket c) phy)) c)"

section \<open>The flow\<close>

definition join_tasks :: "('db, 's, 'v) join_env \<Rightarrow> ('s, 'v) pr_env \<Rightarrow> ('db, 's) join_task list" where
  "join_tasks E P =
     [setContextFromJoinRequestPHYPayload, getDeviceOrTryRoaming E P, join_getDeviceProfile E, join_getServiceProfile E,
      join_filterRxInfo E, logJoinRequestFramesCollected E, join_abortOnDeviceIsDisabled, validateNonce E, getRandomDevAddr E,
      getJoinAcceptFromAS E, join_sendUplinkMetaData E, join_flushDeviceQueue E, createDeviceSession E,
      createDeviceActivation E, setDeviceMode E, sendJoinAcceptDownlink E]"

definition no_join_answer :: join_answer where
  "no_join_answer = \<lparr>ja_PHYPayload = [], ja_AppSKey = None, ja_NwkSKey = None, ja_SNwkSIntKey = None,
     ja_FNwkSIntKey = None, ja_NwkSEncKey = None\<rparr>"

definition new_join_context :: "dl_packet \<Rightarrow> ('db, 's) world \<Rightarrow> ('db, 's) join_context" where
  "new_join_context p w =
     \<lparr>w_DB = w_DB w, w_Redis = w_Redis w, w_Calls = w_Calls w, jx_RXPacket = p, jx_JoinEUI = 0, jx_DevEUI = 0, jx_DevNonce = 0,
      jx_Device = zero_device, jx_ServiceProfile = zero_service_profile, jx_DeviceProfile = zero_device_profile, jx_DevAddr = 0,
      jx_JoinAnsPayload = no_join_answer, jx_DeviceSession = zero_device_session\<rparr>"

definition Join_Handle ::
  "('db, 's, 'v) join_env \<Rightarrow> ('s, 'v) pr_env \<Rightarrow> dl_packet \<Rightarrow> ('db, 's) world \<Rightarrow> unit res \<times> ('db, 's) world" where
  "Join_Handle E P rxPacket w =
     (case Transaction (n_Session (j_down E)) (flow_handle (join_tasks E P)) (new_join_context rxPacket w) of
        (r, c) \<Rightarrow> (r, world.truncate c))"

section \<open>When a task succeeds\<close>

lemma in_flow_world_ok:
  "in_flow_world f c = (Inr u, c') \<longleftrightarrow>
     (\<exists>w. f (world.truncate c) = (Inr (), w) \<and> c' = c\<lparr>w_DB := w_DB w, w_Redis := w_Redis w, w_Calls := w_Calls w\<rparr>)"
  by (auto simp: in_flow_world_def split: prod.splits)

lemma forget_ok: "forget r = (Inr u, c) \<longleftrightarrow> (\<exists>x. r = (Inr x, c))"
  by (cases r) (auto simp: forget_def split: sum.splits)

lemma join_lookup_ok:
  "setContextFromJoinRequestPHYPayload c = (Inr u, c') \<longleftrightarrow>
     (\<exists>j d n. phy_MACPayload (rp_PHYPayload (jx_RXPacket c)) = Some (JoinRequestFrame j d n) \<and>
        c' = c\<lparr>jx_JoinEUI := j, jx_DevEUI := d, jx_DevNonce := n\<rparr>)"
  "getDeviceOrTryRoaming E P c = (Inr u, c') \<longleftrightarrow>
     (\<exists>d. GetDevice (j_Devices E) (jx_DevEUI c) (w_DB c) = Inr d \<and> c' = c\<lparr>jx_Device := d\<rparr>)"
  "join_getDeviceProfile E c = (Inr u, c') \<longleftrightarrow>
     (\<exists>dp. GetDeviceProfile (n_DeviceProfiles (j_down E)) (d_DeviceProfileID (jx_Device c)) (w_DB c) = Inr dp \<and>
        dp_SupportsJoin dp \<and> c' = c\<lparr>jx_DeviceProfile := dp\<rparr>)"
  "join_filterRxInfo E c = (Inr u, c') \<longleftrightarrow>
     (\<exists>p. FilterRxInfoByServiceProfileID (j_ForceGwsPrivate E) (d_ServiceProfileID (jx_Device c)) (jx_RXPacket c) = Inr p \<and>
        c' = c\<lparr>jx_RXPacket := p\<rparr>)"
  "logJoinRequestFramesCollected E c = (Inr u, c') \<longleftrightarrow> j_log_error E (jx_RXPacket c) = None \<and> c' = c"
  "join_abortOnDeviceIsDisabled c = (Inr u, c') \<longleftrightarrow> \<not> d_IsDisabled (jx_Device c) \<and> c' = c"
  by (auto simp: setContextFromJoinRequestPHYPayload_def getDeviceOrTryRoaming_def join_getDeviceProfile_def join_filterRxInfo_def
      logJoinRequestFramesCollected_def join_abortOnDeviceIsDisabled_def
      split: option.splits frame_payload.splits sum.splits prod.splits)

lemma join_answer_ok:
  "validateNonce E c = (Inr u, c') \<longleftrightarrow>
     ValidateDevNonce (j_Activations E) (jx_JoinEUI c) (jx_DevEUI c) (jx_DevNonce c) JoinRequestType (w_DB c) = Inr () \<and> c' = c"
  "getRandomDevAddr E c = (Inr u, c') \<longleftrightarrow> (\<exists>a. GetRandomDevAddr E = Inr a \<and> c' = c\<lparr>jx_DevAddr := a\<rparr>)"
  "getJoinAcceptFromAS E c = (Inr u, c') \<longleftrightarrow>
     (\<exists>req a. join_request_of E c = Inr req \<and> j_GetClientForJoinEUI E (jx_JoinEUI c) = Inr () \<and>
        j_JoinReq E req (w_Calls c) = Inr a \<and> c' = call_out (JoinReq req) (c\<lparr>jx_JoinAnsPayload := a\<rparr>))"
  "join_sendUplinkMetaData E c = (Inr u, c') \<longleftrightarrow>
     c' = (if j_has_controller E then call_out (request_meta E JoinRequest (jx_DevEUI c) (jx_RXPacket c)) c else c)"
  by (auto simp: validateNonce_def getRandomDevAddr_def reading_ok getJoinAcceptFromAS_def join_sendUplinkMetaData_def
      split: sum.splits)

lemma join_session_ok:
  "join_flushDeviceQueue E c = (Inr u, c') \<longleftrightarrow>
     (\<exists>db. FlushDeviceQueueForDevEUI (n_Queue (j_down E)) (d_DevEUI (jx_Device c)) (w_DB c) = (Inr (), db) \<and> c' = c\<lparr>w_DB := db\<rparr>)"
  "createDeviceSession E c = (Inr u, c') \<longleftrightarrow>
     (\<exists>ds s1 s2. joined_session E (jx_JoinAnsPayload c) (jx_Device c) (jx_DeviceProfile c) (jx_JoinEUI c) (jx_DevEUI c) (jx_DevAddr c) = Inr ds \<and>
        SaveDeviceSession (n_Redis (j_down E)) (n_Sessions (j_down E)) (n_TTL (j_down E)) ds (w_Redis c) = (Inr (), s1) \<and>
        FlushMACCommandQueue (n_Redis (j_down E)) (ds_DevEUI ds) s1 = (Inr (), s2) \<and>
        c' = c\<lparr>jx_DeviceSession := ds, w_Redis := s2\<rparr>)"
  "createDeviceActivation E c = (Inr u, c') \<longleftrightarrow>
     (\<exists>da db. CreateDeviceActivation (j_Activations E) (activation_of (jx_DeviceSession c) (jx_DevNonce c) JoinRequestType)
        (n_now (j_down E)) (w_DB c) = (Inr da, db) \<and> c' = c\<lparr>w_DB := db\<rparr>)"
  "setDeviceMode E c = (Inr u, c') \<longleftrightarrow>
     (\<exists>db. UpdateDevice (j_Devices E) (n_now (j_down E)) ((jx_Device c)\<lparr>d_Mode := joined_mode (jx_DeviceProfile c)\<rparr>) (w_DB c) = (Inr (), db) \<and>
        c' = c\<lparr>jx_Device := (jx_Device c)\<lparr>d_Mode := joined_mode (jx_DeviceProfile c)\<rparr>, w_DB := db\<rparr>)"
  "sendJoinAcceptDownlink E c = (Inr u, c') \<longleftrightarrow>
     (\<exists>phy w. j_UnmarshalAccept E (ja_PHYPayload (jx_JoinAnsPayload c)) = Inr phy \<and>
        JoinAccept_Handle E (jx_DeviceSession c) (jx_RXPacket c) phy (world.truncate c) = (Inr (), w) \<and>
        c' = c\<lparr>w_DB := w_DB w, w_Redis := w_Redis w, w_Calls := w_Calls w\<rparr>)"
  by (auto simp: join_flushDeviceQueue_def createDeviceSession_def createDeviceActivation_def setDeviceMode_def Let_def
      sendJoinAcceptDownlink_def wrapping_ok on_DB_ok on_Redis_ok forget_ok in_flow_world_ok run_tasks_ok split: sum.splits)

lemmas join_ok = join_lookup_ok join_answer_ok join_session_ok

text \<open>The tasks after the lookup do not end the flow silently.\<close>

definition join_rest :: "('db, 's, 'v) join_env \<Rightarrow> ('db, 's) join_task list" where
  "join_rest E =
     [validateNonce E, getRandomDevAddr E, getJoinAcceptFromAS E, join_sendUplinkMetaData E, join_flushDeviceQueue E,
      createDeviceSession E, createDeviceActivation E, setDeviceMode E, sendJoinAcceptDownlink E]"

definition join_lookup :: "('db, 's, 'v) join_env \<Rightarrow> ('s, 'v) pr_env \<Rightarrow> ('db, 's) join_task list" where
  "join_lookup E P =
     [setContextFromJoinRequestPHYPayload, getDeviceOrTryRoaming E P, join_getDeviceProfile E, join_getServiceProfile E,
      join_filterRxInfo E, logJoinRequestFramesCollected E, join_abortOnDeviceIsDisabled]"

lemma join_tasks_split: "join_tasks E P = join_lookup E P @ join_rest E"
  by (simp add: join_tasks_def join_lookup_def join_rest_def)

lemma set_session_keys_no_abort: "set_session_keys E a ds \<noteq> Inl ErrAbort"
proof -
  have "with_key E k put ds \<noteq> Inl ErrAbort" for k put ds
    by (auto simp: with_key_def unwrapNSKeyEnvelope_def split: sum.splits option.splits)
  then show ?thesis by (auto simp: set_session_keys_def Let_def split: sum.splits option.splits)
qed

lemma set_cflist_no_abort: "set_cflist E cl ds \<noteq> Inl ErrAbort"
proof -
  have "add_cflist_channels b fs ds \<noteq> Inl ErrAbort" for b fs ds
    by (induction b fs ds rule: add_cflist_channels.induct) (auto simp: Let_def gomap_put_def split: sum.splits option.splits)
  then show ?thesis by (auto simp: set_cflist_def split: option.splits cflist_type.splits cflist_payload.splits)
qed

lemma no_abort_join_rest: "no_abort (run_tasks (join_rest E))"
proof -
  have "\<nexists>c'. getJoinAcceptFromAS E c = (Inl ErrAbort, c')" for c :: "('a, 'b) join_context"
    by (auto simp: getJoinAcceptFromAS_def join_request_of_def marshalled_cflist_def split: sum.splits option.splits)
  moreover have "joined_session E a d dp j dev addr \<noteq> Inl ErrAbort" for a d dp j dev addr
    using set_session_keys_no_abort[of E a] set_cflist_no_abort[of E] by (auto simp: joined_session_def split: sum.splits)
  then have "\<nexists>c'. createDeviceSession E c = (Inl ErrAbort, c')" for c :: "('a, 'b) join_context"
    by (auto simp: createDeviceSession_def run_tasks.simps wrapping_def split: sum.splits prod.splits)
  ultimately have "no_abort t" if "t \<in> set (join_rest E)" for t :: "('a, 'b) join_task"
    using that
    by (auto simp: join_rest_def no_abort_def validateNonce_def getRandomDevAddr_def reading_def join_sendUplinkMetaData_def
        join_flushDeviceQueue_def createDeviceActivation_def setDeviceMode_def sendJoinAcceptDownlink_def wrapping_def Let_def
        split: sum.splits prod.splits)
  then show ?thesis by (rule no_abort_run_tasks)
qed

text \<open>What a lookup that succeeds has found.\<close>

lemma join_found:
  assumes "run_tasks (join_lookup E P) (new_join_context p w) = (Inr (), c)"
  shows "\<exists>j dev n d dp. phy_MACPayload (rp_PHYPayload p) = Some (JoinRequestFrame j dev n) \<and>
    GetDevice (j_Devices E) dev (w_DB w) = Inr d \<and> \<not> d_IsDisabled d \<and>
    GetDeviceProfile (n_DeviceProfiles (j_down E)) (d_DeviceProfileID d) (w_DB w) = Inr dp \<and> dp_SupportsJoin dp \<and>
    FilterRxInfoByServiceProfileID (j_ForceGwsPrivate E) (d_ServiceProfileID d) p = Inr (jx_RXPacket c) \<and>
    w_DB c = w_DB w \<and> w_Redis c = w_Redis w \<and> w_Calls c = w_Calls w \<and> jx_JoinEUI c = j \<and> jx_DevEUI c = dev \<and> jx_DevNonce c = n \<and>
    jx_Device c = d \<and> jx_DeviceProfile c = dp"
  using assms
  by (auto simp: join_lookup_def run_tasks_ok join_ok join_getServiceProfile_def reading_ok new_join_context_def)

text \<open>What the rest has done.\<close>

lemma join_done:
  assumes "run_tasks (join_rest E) c = (Inr (), c')"
  shows "\<exists>addr req a db1 ds s1 s2 da db2 cs phy w1 w2.
    ValidateDevNonce (j_Activations E) (jx_JoinEUI c) (jx_DevEUI c) (jx_DevNonce c) JoinRequestType (w_DB c) = Inr () \<and>
    GetRandomDevAddr E = Inr addr \<and> join_request_of E (c\<lparr>jx_DevAddr := addr\<rparr>) = Inr req \<and> j_JoinReq E req (w_Calls c) = Inr a \<and>
    FlushDeviceQueueForDevEUI (n_Queue (j_down E)) (d_DevEUI (jx_Device c)) (w_DB c) = (Inr (), db1) \<and>
    joined_session E a (jx_Device c) (jx_DeviceProfile c) (jx_JoinEUI c) (jx_DevEUI c) addr = Inr ds \<and>
    SaveDeviceSession (n_Redis (j_down E)) (n_Sessions (j_down E)) (n_TTL (j_down E)) ds (w_Redis c) = (Inr (), s1) \<and>
    FlushMACCommandQueue (n_Redis (j_down E)) (ds_DevEUI ds) s1 = (Inr (), s2) \<and>
    CreateDeviceActivation (j_Activations E) (activation_of ds (jx_DevNonce c) JoinRequestType) (n_now (j_down E)) db1 = (Inr da, db2) \<and>
    UpdateDevice (j_Devices E) (n_now (j_down E)) ((jx_Device c)\<lparr>d_Mode := joined_mode (jx_DeviceProfile c)\<rparr>) db2 = (Inr (), w_DB c') \<and>
    cs = (if j_has_controller E then [request_meta E JoinRequest (jx_DevEUI c) (jx_RXPacket c)] else []) \<and>
    j_UnmarshalAccept E (ja_PHYPayload a) = Inr phy \<and> w_Redis w1 = s2 \<and> w_Calls w1 = w_Calls c @ JoinReq req # cs \<and>
    JoinAccept_Handle E ds (jx_RXPacket c) phy w1 = (Inr (), w2) \<and> w_DB w1 = w_DB c' \<and> w_DB w2 = w_DB c' \<and>
    w_Redis w2 = w_Redis c' \<and> w_Calls w2 = w_Calls c'"
proof -
  obtain addr req a where 1: "ValidateDevNonce (j_Activations E) (jx_JoinEUI c) (jx_DevEUI c) (jx_DevNonce c) JoinRequestType (w_DB c) = Inr ()"
    "GetRandomDevAddr E = Inr addr" "join_request_of E (c\<lparr>jx_DevAddr := addr\<rparr>) = Inr req" "j_JoinReq E req (w_Calls c) = Inr a"
    and run1: "run_tasks (drop 3 (join_rest E)) (call_out (JoinReq req) (c\<lparr>jx_DevAddr := addr, jx_JoinAnsPayload := a\<rparr>)) = (Inr (), c')"
    using assms by (auto simp: join_rest_def run_tasks_ok(2) join_answer_ok)
  define cs where "cs = (if j_has_controller E then [request_meta E JoinRequest (jx_DevEUI c) (jx_RXPacket c)] else [])"
  define c1 where "c1 = c\<lparr>jx_DevAddr := addr, jx_JoinAnsPayload := a, w_Calls := w_Calls c @ JoinReq req # cs\<rparr>"
  have run2: "run_tasks (drop 4 (join_rest E)) c1 = (Inr (), c')"
    using run1 by (auto simp: join_rest_def run_tasks_ok(2)[of "join_sendUplinkMetaData E"] join_answer_ok c1_def cs_def call_out_def split: if_splits)
  have c1: "w_DB c1 = w_DB c" "w_Redis c1 = w_Redis c" "jx_Device c1 = jx_Device c" "jx_DeviceProfile c1 = jx_DeviceProfile c"
    "jx_JoinEUI c1 = jx_JoinEUI c" "jx_DevEUI c1 = jx_DevEUI c" "jx_DevAddr c1 = addr" "jx_JoinAnsPayload c1 = a"
    "jx_RXPacket c1 = jx_RXPacket c" "jx_DevNonce c1 = jx_DevNonce c" "w_Calls c1 = w_Calls c @ JoinReq req # cs"
    by (simp_all add: c1_def)
  obtain db1 ds s1 s2 da db2 db3 phy w2 where
    2: "FlushDeviceQueueForDevEUI (n_Queue (j_down E)) (d_DevEUI (jx_Device c)) (w_DB c) = (Inr (), db1)"
    "joined_session E a (jx_Device c) (jx_DeviceProfile c) (jx_JoinEUI c) (jx_DevEUI c) addr = Inr ds"
    "SaveDeviceSession (n_Redis (j_down E)) (n_Sessions (j_down E)) (n_TTL (j_down E)) ds (w_Redis c) = (Inr (), s1)"
    "FlushMACCommandQueue (n_Redis (j_down E)) (ds_DevEUI ds) s1 = (Inr (), s2)"
    "CreateDeviceActivation (j_Activations E) (activation_of ds (jx_DevNonce c) JoinRequestType) (n_now (j_down E)) db1 = (Inr da, db2)"
    "UpdateDevice (j_Devices E) (n_now (j_down E)) ((jx_Device c)\<lparr>d_Mode := joined_mode (jx_DeviceProfile c)\<rparr>) db2 = (Inr (), db3)"
    "j_UnmarshalAccept E (ja_PHYPayload a) = Inr phy"
    and accept: "JoinAccept_Handle E ds (jx_RXPacket c) phy \<lparr>w_DB = db3, w_Redis = s2, w_Calls = w_Calls c @ JoinReq req # cs\<rparr> = (Inr (), w2)"
    and c': "w_DB c' = w_DB w2" "w_Redis c' = w_Redis w2" "w_Calls c' = w_Calls w2"
    using run2 by (auto simp: join_rest_def run_tasks_ok join_session_ok c1 world.defs)
  have "w_DB w2 = db3" using accept_outcome[OF accept] by auto
  then show ?thesis using 1 2 accept c' cs_def
    by (intro exI[of _ addr] exI[of _ req] exI[of _ a] exI[of _ db1] exI[of _ ds] exI[of _ s1] exI[of _ s2] exI[of _ da] exI[of _ db2]
        exI[of _ cs] exI[of _ phy] exI[of _ "\<lparr>w_DB = db3, w_Redis = s2, w_Calls = w_Calls c @ JoinReq req # cs\<rparr>"] exI[of _ w2]) simp
qed

section \<open>The tables\<close>

text \<open>Every task changes the database by at most one of three statements.\<close>

definition join_statement :: "('db, 's, 'v) join_env \<Rightarrow> 'db \<Rightarrow> 'db \<Rightarrow> bool" where
  "join_statement E db db' \<longleftrightarrow>
     db' = db \<or> (\<exists>P. db' = snd (tb_delete (n_Queue (j_down E)) P db)) \<or> (\<exists>r. db' = snd (tb_insert (j_Activations E) r db)) \<or>
     (\<exists>P f. db' = snd (tb_update (j_Devices E) P f db))"

lemma in_flow_world_DB:
  "in_flow_world f c = (r, c') \<Longrightarrow> (\<And>w r w'. f w = (r, w') \<Longrightarrow> w_DB w' = w_DB w) \<Longrightarrow> w_DB c' = w_DB c"
  by (fastforce simp: in_flow_world_def world.defs split: prod.splits)

lemma redis_task_DB: "wrapping what (on_Redis f) w = (r, w') \<Longrightarrow> w_DB w' = w_DB w"
  by (auto simp: wrapping_def on_Redis_def split: prod.splits sum.splits)

lemma send_packet_DB: "wrapping what (send_packet send f) w = (r, w') \<Longrightarrow> w_DB w' = w_DB w"
  by (auto simp: wrapping_def send_packet_def split: sum.splits prod.splits)

lemma EmitPRDownlink_DB: "EmitPRDownlink P p phy m w = (r, w') \<Longrightarrow> w_DB w' = w_DB w"
  by (auto simp: EmitPRDownlink_def Let_def split: if_splits sum.splits prod.splits dest!: redis_task_DB send_packet_DB)

lemma startRoaming_DB: "startRoaming P p dev n w = (r, w') \<Longrightarrow> w_DB w' = w_DB w"
  by (auto simp: startRoaming_def split: sum.splits option.splits prod.splits dest!: EmitPRDownlink_DB)

lemma saveRoamingSession_DB: "saveRoamingSession P dev n a w = (r, w') \<Longrightarrow> w_DB w' = w_DB w"
  by (auto simp: saveRoamingSession_def split: sum.splits option.splits if_splits dest!: redis_task_DB)

lemma getHomeNetID_DB: "getHomeNetID P j dev w = (r, w') \<Longrightarrow> w_DB w' = w_DB w"
  by (auto simp: getHomeNetID_def split: sum.splits)

lemma StartPRFNS_DB: "StartPRFNS P p j dev w = (r, w') \<Longrightarrow> w_DB w' = w_DB w"
  by (auto simp: StartPRFNS_def split: sum.splits prod.splits if_splits
      dest!: getHomeNetID_DB startRoaming_DB saveRoamingSession_DB)

lemma jd_task_DB: "t \<in> set (jd_tasks E) \<Longrightarrow> t c = (r, c') \<Longrightarrow> w_DB c' = w_DB c"
proof -
  have add: "w_DB c' = w_DB c" if "jd_add i c = (r, c')" for i and c c' :: "('a, 'b) jd_context" and r
    using that by (auto simp: jd_add_def split: sum.splits)
  have windows: "w_DB c' = w_DB c" if "jd_setTXInfo E c = (r, c')" for c c' :: "('a, 'b) jd_context" and r
    using that unfolding jd_setTXInfo_def Let_def
    by (rule run_tasks_keep) (auto split: if_splits dest: add)
  show "t \<in> set (jd_tasks E) \<Longrightarrow> t c = (r, c') \<Longrightarrow> w_DB c' = w_DB c"
    by (auto simp: jd_tasks_def jd_setDeviceGatewayRXInfo_def jd_selectDownlinkGateway_def jd_setToken_def jd_setDownlinkFrame_def
        jd_sendJoinAcceptResponse_def jd_saveDownlinkFrame_def Let_def split: sum.splits if_splits
        dest!: windows redis_task_DB send_packet_DB)
qed

lemma JoinAccept_DB: "JoinAccept_Handle E ds p phy w = (r, w') \<Longrightarrow> w_DB w' = w_DB w"
  by (auto simp: JoinAccept_Handle_def world.defs split: prod.splits dest!: run_tasks_keep[where f = w_DB, OF _ jd_task_DB])

lemma wrapping_DB:
  "wrapping what t c = (r, c') \<Longrightarrow> (\<And>r c'. t c = (r, c') \<Longrightarrow> S (w_DB c) (w_DB c')) \<Longrightarrow> S (w_DB c) (w_DB c')"
  by (fastforce simp: wrapping_def split: prod.splits sum.splits)

lemma report_join_error_DB [simp]: "w_DB (report_join_error E c) = w_DB c"
  by (simp add: report_join_error_def split: sum.splits)

lemma join_task_statement:
  assumes "t \<in> set (join_tasks E P)" and "t c = (r, c')"
  shows "join_statement E (w_DB c) (w_DB c')"
proof -
  have same: "w_DB c' = w_DB c \<Longrightarrow> join_statement E (w_DB c) (w_DB c')" by (simp add: join_statement_def)
  have flush: "join_statement E (w_DB c) (w_DB c')" if "join_flushDeviceQueue E c = (r, c')"
    using that
    by (auto simp: join_flushDeviceQueue_def wrapping_def on_DB_def FlushDeviceQueueForDevEUI_def executed_any_def join_statement_def
        split: prod.splits sum.splits) (metis snd_conv)+
  have insert: "join_statement E (w_DB c) (w_DB c')" if "createDeviceActivation E c = (r, c')"
    using that
    by (auto simp: createDeviceActivation_def wrapping_def forget_def on_DB_def CreateDeviceActivation_def sqlx_Insert_def Let_def
        join_statement_def split: prod.splits sum.splits) (metis snd_conv)+
  have update: "join_statement E (w_DB c) (w_DB c')" if "setDeviceMode E c = (r, c')"
    using that
    by (auto simp: setDeviceMode_def wrapping_def on_DB_def UpdateDevice_def affected_def Let_def
        join_statement_def split: prod.splits sum.splits if_splits) (metis snd_conv)+
  have accept: "w_DB c' = w_DB c" if "sendJoinAcceptDownlink E c = (r, c')"
    using that by (auto simp: sendJoinAcceptDownlink_def wrapping_def split: sum.splits prod.splits
        dest!: in_flow_world_DB[OF _ JoinAccept_DB])
  have roam: "w_DB c' = w_DB c" if "getDeviceOrTryRoaming E P c = (r, c')"
    using that by (auto simp: getDeviceOrTryRoaming_def split: sum.splits prod.splits if_splits
        dest!: in_flow_world_DB[OF _ StartPRFNS_DB])
  have session: "w_DB c' = w_DB c" if "createDeviceSession E c = (r, c')"
    using that by (auto simp: createDeviceSession_def run_tasks.simps split: sum.splits prod.splits dest!: redis_task_DB)
  show ?thesis
    using assms flush insert update accept roam session same
    by (auto simp: join_tasks_def setContextFromJoinRequestPHYPayload_def join_getDeviceProfile_def join_getServiceProfile_def
        join_filterRxInfo_def logJoinRequestFramesCollected_def join_abortOnDeviceIsDisabled_def validateNonce_def getRandomDevAddr_def
        reading_def getJoinAcceptFromAS_def join_sendUplinkMetaData_def
        split: sum.splits option.splits frame_payload.splits if_splits)
qed

text \<open>
  The three tables a join writes to, in one database with transactions: a statement on one of them
  leaves the rows of the others alone.
\<close>

locale join_db =
  queue: sql_transactions "n_Queue (j_down E)" qrows qcolumns qkeyed "n_Session (j_down E)" qbase +
  acts: sql_transactions "j_Activations E" arows acolumns akeyed "n_Session (j_down E)" abase +
  devs: sql_transactions "j_Devices E" drows dcolumns dkeyed "n_Session (j_down E)" dbase
  for E :: "('db, 's, 'v) join_env" and qrows qcolumns qkeyed qbase arows acolumns akeyed abase drows dcolumns dkeyed dbase +
  assumes act_columns: "\<exists>t. acolumns r = r\<lparr>da_CreatedAt := t\<rparr>"
    and act_keyed: "akeyed r r' \<Longrightarrow> \<exists>k. r' = r\<lparr>da_ID := k\<rparr>"
    and device_columns: "d_DevEUI (dcolumns d) = d_DevEUI d" "d_Mode (dcolumns d) = d_Mode d"
    and queue_apart: "arows (snd (tb_delete (n_Queue (j_down E)) P db)) = arows db" "drows (snd (tb_delete (n_Queue (j_down E)) P db)) = drows db"
      "abase (snd (tb_delete (n_Queue (j_down E)) P db)) = abase db" "dbase (snd (tb_delete (n_Queue (j_down E)) P db)) = dbase db"
    and acts_apart: "qrows (snd (tb_insert (j_Activations E) r db)) = qrows db" "drows (snd (tb_insert (j_Activations E) r db)) = drows db"
      "qbase (snd (tb_insert (j_Activations E) r db)) = qbase db" "dbase (snd (tb_insert (j_Activations E) r db)) = dbase db"
    and devs_apart: "qrows (snd (tb_update (j_Devices E) Q f db)) = qrows db" "arows (snd (tb_update (j_Devices E) Q f db)) = arows db"
      "qbase (snd (tb_update (j_Devices E) Q f db)) = qbase db" "abase (snd (tb_update (j_Devices E) Q f db)) = abase db"
begin

sublocale activations: activation_db "j_Activations E" arows acolumns akeyed
  by unfold_locales (fact act_columns, fact act_keyed)

lemma statement_base:
  assumes "join_statement E db db'"
  shows "qbase db' = qbase db \<and> abase db' = abase db \<and> dbase db' = dbase db"
  using assms
  by (auto simp: join_statement_def queue_apart acts_apart devs_apart queue.delete_base acts.insert_base devs.update_base)

lemma flow_base:
  assumes "flow_handle (join_tasks E P) c = (r, c')"
  shows "qbase (w_DB c') = qbase (w_DB c) \<and> abase (w_DB c') = abase (w_DB c) \<and> dbase (w_DB c') = dbase (w_DB c)"
proof -
  obtain r1 where "run_tasks (join_tasks E P) c = (r1, c')" using flow_handle_tasks[OF assms] by blast
  then have "(\<lambda>c. (qbase (w_DB c), abase (w_DB c), dbase (w_DB c))) c' = (\<lambda>c. (qbase (w_DB c), abase (w_DB c), dbase (w_DB c))) c"
    by (rule run_tasks_keep) (use statement_base join_task_statement in fastforce)
  then show ?thesis by simp
qed

lemma failed_join:
  assumes "Join_Handle E P p w = (Inl e, w')"
    and "\<And>db e db'. sx_Rollback (n_Session (j_down E)) db \<noteq> (Inl e, db')" "\<And>db e db'. sx_Commit (n_Session (j_down E)) db \<noteq> (Inl e, db')"
  shows "qrows (w_DB w') = qrows (w_DB w) \<and> arows (w_DB w') = arows (w_DB w) \<and> drows (w_DB w') = drows (w_DB w)"
proof -
  obtain c where c: "Transaction (n_Session (j_down E)) (flow_handle (join_tasks E P)) (new_join_context p w) = (Inl e, c)" "w' = world.truncate c"
    using assms(1) by (auto simp: Join_Handle_def split: prod.splits)
  have "qrows (w_DB c) = qrows (w_DB (new_join_context p w))"
    by (rule queue.transaction_rolls_back[OF c(1)]) (use flow_base assms(2,3) in blast)+
  moreover have "arows (w_DB c) = arows (w_DB (new_join_context p w))"
    by (rule acts.transaction_rolls_back[OF c(1)]) (use flow_base assms(2,3) in blast)+
  moreover have "drows (w_DB c) = drows (w_DB (new_join_context p w))"
    by (rule devs.transaction_rolls_back[OF c(1)]) (use flow_base assms(2,3) in blast)+
  ultimately show ?thesis by (simp add: c(2) new_join_context_def world.defs)
qed

lemma validated:
  assumes "ValidateDevNonce (j_Activations E) joinEUI devEUI nonce joinType db = Inr ()"
  shows "\<not> (\<exists>r \<in># arows db. nonce_used joinEUI devEUI nonce joinType r)"
  using assms by (rule activations.validate(1))

lemma refused:
  assumes "\<exists>r \<in># arows db. nonce_used joinEUI devEUI nonce joinType r"
  shows "\<exists>e. ValidateDevNonce (j_Activations E) joinEUI devEUI nonce joinType db = Inl e"
  using assms by (rule activations.validate(2))

text \<open>The rows after the three statements of a join.\<close>

lemma join_rows:
  assumes "FlushDeviceQueueForDevEUI (n_Queue (j_down E)) dev db = (Inr (), db1)"
    and "CreateDeviceActivation (j_Activations E) da now db1 = (Inr da', db2)"
    and "UpdateDevice (j_Devices E) now' d db2 = (Inr (), db3)"
  shows "qrows db3 = {#r \<in># qrows db. qi_DevEUI r \<noteq> dev#}" (is ?queue)
    and "\<exists>r. arows db3 = add_mset r (arows db) \<and> nonce_used (da_JoinEUI da) (da_DevEUI da) (da_DevNonce da) (da_JoinReqType da) r" (is ?acts)
    and "\<exists>r \<in># drows db3. d_DevEUI r = d_DevEUI d \<and> d_Mode r = d_Mode d" (is ?devs)
proof -
  obtain x1 where t1: "tb_delete (n_Queue (j_down E)) (\<lambda>r. qi_DevEUI r = dev) db = (x1, db1)"
    using assms(1) by (auto simp: FlushDeviceQueueForDevEUI_def executed_any_def split: prod.splits sum.splits)
  obtain x2 r2 where t2: "tb_insert (j_Activations E) r2 db1 = (x2, db2)"
    using assms(2) by (auto simp: CreateDeviceActivation_def sqlx_Insert_def Let_def split: prod.splits sum.splits)
  obtain x3 P3 f3 where t3: "tb_update (j_Devices E) P3 f3 db2 = (x3, db3)"
    using assms(3) by (auto simp: UpdateDevice_def affected_def split: prod.splits sum.splits)
  have db1: "db1 = snd (tb_delete (n_Queue (j_down E)) (\<lambda>r. qi_DevEUI r = dev) db)" by (simp add: t1)
  have db2: "db2 = snd (tb_insert (j_Activations E) r2 db1)" by (simp add: t2)
  have db3: "db3 = snd (tb_update (j_Devices E) P3 f3 db2)" by (simp add: t3)
  have q3: "qrows db3 = qrows db1" unfolding db3 db2 by (simp add: devs_apart acts_apart)
  have "qrows db1 = {#r \<in># qrows db. \<not> qi_DevEUI r = dev#}"
    by (rule queue.deleted_any[of _ _ "''delete error''"]) (use assms(1) in \<open>simp add: FlushDeviceQueueForDevEUI_def\<close>)
  then show ?queue using q3 by simp
  have "arows db3 = arows db2" "arows db1 = arows db" unfolding db3 db1 by (simp_all add: devs_apart queue_apart)
  then show ?acts using activations.created[OF assms(2)] by simp
  have u: "drows db3 = image_mset (\<lambda>r. if d_DevEUI r = d_DevEUI d then dcolumns (d\<lparr>d_CreatedAt := d_CreatedAt r, d_UpdatedAt := now'\<rparr>) else r) (drows db2)"
    "\<exists>r \<in># drows db2. d_DevEUI r = d_DevEUI d"
    using devs.updated[OF assms(3)[unfolded UpdateDevice_def]] by auto
  then obtain r where r: "r \<in># drows db2" "d_DevEUI r = d_DevEUI d" by blast
  let ?r = "dcolumns (d\<lparr>d_CreatedAt := d_CreatedAt r, d_UpdatedAt := now'\<rparr>)"
  have "?r \<in># drows db3" unfolding u(1) using r by (auto intro!: image_eqI[of _ _ r])
  moreover have "d_DevEUI ?r = d_DevEUI d" "d_Mode ?r = d_Mode d" by (simp_all add: device_columns)
  ultimately show ?devs by blast
qed

end

section \<open>The session of a join\<close>

text \<open>Which envelope of the answer a key comes from.\<close>

definition answer_key :: "('db, 's, 'v) join_env \<Rightarrow> key_envelope option \<Rightarrow> key_envelope option \<Rightarrow> aeskey res" where
  "answer_key E specific general =
     (case specific of
        Some k \<Rightarrow> unwrapNSKeyEnvelope E k
      | None \<Rightarrow> (case general of Some k \<Rightarrow> unwrapNSKeyEnvelope E k | None \<Rightarrow> Inr 0))"

text \<open>A session as it is after a join: its keys are those of the answer, its counters and its history are empty.\<close>

definition starts_afresh :: "('db, 's, 'v) join_env \<Rightarrow> join_answer \<Rightarrow> eui64 \<Rightarrow> eui64 \<Rightarrow> devaddr \<Rightarrow> device_session \<Rightarrow> bool" where
  "starts_afresh E a joinEUI devEUI devAddr ds \<longleftrightarrow>
     ds_DevEUI ds = devEUI \<and> ds_JoinEUI ds = joinEUI \<and> ds_DevAddr ds = devAddr \<and> ds_FCntUp ds = 0 \<and> ds_NFCntDown ds = 0 \<and>
     ds_AFCntDown ds = 0 \<and> ds_ConfFCnt ds = 0 \<and> ds_RejoinCount0 ds = 0 \<and> ds_UplinkHistory ds = [] \<and> ds_Pending ds = [] \<and>
     answer_key E (ja_SNwkSIntKey a) (ja_NwkSKey a) = Inr (ds_SNwkSIntKey ds) \<and>
     answer_key E (ja_FNwkSIntKey a) (ja_NwkSKey a) = Inr (ds_FNwkSIntKey ds) \<and>
     answer_key E (ja_NwkSEncKey a) (ja_NwkSKey a) = Inr (ds_NwkSEncKey ds)"

lemma zero_device_session_fields:
  "ds_FCntUp zero_device_session = 0" "ds_NFCntDown zero_device_session = 0" "ds_AFCntDown zero_device_session = 0"
  "ds_ConfFCnt zero_device_session = 0" "ds_RejoinCount0 zero_device_session = 0" "ds_UplinkHistory zero_device_session = []"
  "ds_Pending zero_device_session = []" "ds_SNwkSIntKey zero_device_session = 0" "ds_FNwkSIntKey zero_device_session = 0"
  "ds_NwkSEncKey zero_device_session = 0"
  by (simp_all add: zero_device_session_def with_pending_def session.defs device_session.defs zero_session_def)

text \<open>What the keys and the channels do not touch.\<close>

definition join_view :: "device_session \<Rightarrow> (eui64 \<times> eui64 \<times> devaddr) \<times> (u32 \<times> u32 \<times> u32 \<times> u32 \<times> u16) \<times> uplink_history list \<times> session list" where
  "join_view ds = ((ds_DevEUI ds, ds_JoinEUI ds, ds_DevAddr ds),
     (ds_FCntUp ds, ds_NFCntDown ds, ds_AFCntDown ds, ds_ConfFCnt ds, ds_RejoinCount0 ds), ds_UplinkHistory ds, ds_Pending ds)"

definition key_view :: "device_session \<Rightarrow> aeskey \<times> aeskey \<times> aeskey" where
  "key_view ds = (ds_SNwkSIntKey ds, ds_FNwkSIntKey ds, ds_NwkSEncKey ds)"

lemma set_session_keys_ok:
  assumes "set_session_keys E a ds = Inr ds'"
  shows "join_view ds' = join_view ds" and "key_view ds = (0, 0, 0) \<Longrightarrow>
    answer_key E (ja_SNwkSIntKey a) (ja_NwkSKey a) = Inr (ds_SNwkSIntKey ds') \<and>
    answer_key E (ja_FNwkSIntKey a) (ja_NwkSKey a) = Inr (ds_FNwkSIntKey ds') \<and>
    answer_key E (ja_NwkSEncKey a) (ja_NwkSKey a) = Inr (ds_NwkSEncKey ds')"
  using assms
  by (auto simp: set_session_keys_def with_key_def answer_key_def join_view_def key_view_def Let_def split: option.splits sum.splits)

lemma add_cflist_channels_ok:
  "add_cflist_channels b fs ds = Inr ds' \<Longrightarrow> join_view ds' = join_view ds \<and> key_view ds' = key_view ds"
proof (induction fs arbitrary: ds)
  case (Cons f fs)
  then show ?case
    by (auto simp: Let_def join_view_def key_view_def split: if_splits sum.splits dest!: Cons.IH)
qed simp

lemma joined_session_ok:
  assumes "joined_session E a d dp j dev addr = Inr ds"
  shows "starts_afresh E a j dev addr ds"
proof -
  let ?ds0 = "(fresh_session E d dp j dev addr)\<lparr>ds_ReferenceAltitude := d_ReferenceAltitude d\<rparr>"
  obtain ds1 ds2 where 1: "set_session_keys E a ?ds0 = Inr ds1" and 2: "set_cflist E (j_GetCFList E (dp_MACVersion dp)) ds1 = Inr ds2"
    and ds: "ds = set_ping_slots dp ds2"
    using assms by (auto simp: joined_session_def split: sum.splits)
  have "join_view ?ds0 = ((dev, j, addr), (0, 0, 0, 0, 0), [], [])" "key_view ?ds0 = (0, 0, 0)"
    by (simp_all add: join_view_def key_view_def fresh_session_def Let_def zero_device_session_fields)
  moreover have "join_view ds2 = join_view ds1 \<and> key_view ds2 = key_view ds1"
    using 2 add_cflist_channels_ok
    by (auto simp: set_cflist_def join_view_def key_view_def split: option.splits cflist_type.splits cflist_payload.splits)
  moreover have "join_view ds = join_view ds2" "key_view ds = key_view ds2"
    by (simp_all add: ds set_ping_slots_def join_view_def key_view_def)
  ultimately have "join_view ds = ((dev, j, addr), (0, 0, 0, 0, 0), [], [])" "key_view ds = key_view ds1"
    using set_session_keys_ok(1)[OF 1] by simp_all
  then show ?thesis
    using set_session_keys_ok(2)[OF 1] \<open>key_view ?ds0 = (0, 0, 0)\<close>
    by (auto simp: starts_afresh_def join_view_def key_view_def)
qed

section \<open>Redis\<close>

text \<open>What Redis holds of a device after the session was saved, the commands were flushed and the frame was saved.\<close>

context session_store
begin

lemma FlushMAC_holds:
  "FlushMACCommandQueue R dev s = (Inr u, s') \<Longrightarrow> holds s' = without (holds s) (macCommandQueueKey dev)"
  using Del by (fastforce simp: FlushMACCommandQueue_def executed_def split: sum.splits prod.splits)

lemma SaveFrame_holds:
  assumes "SaveDownlinkFrame R codec frame s = (Inr u, s')"
  shows "\<exists>v. holds s' = (holds s)\<lparr>c_val := (c_val (holds s))(downlinkFrameKey (sf_Token frame) \<mapsto> v)\<rparr>"
proof -
  obtain b where b: "rd_Set R (downlinkFrameKey (sf_Token frame)) b downlinkFrameTTL s = (Inr (), s')"
    using assms by (auto simp: SaveDownlinkFrame_def split: sum.splits prod.splits)
  show ?thesis using Set[OF b] by (auto simp: executed_def downlinkFrameTTL_def)
qed

lemma joined_holds:
  assumes "SaveDeviceSession R c ttl ds s = (Inr (), s1)" and "FlushMACCommandQueue R (ds_DevEUI ds) s1 = (Inr (), s2)"
    and "SaveDownlinkFrame R codec frame s2 = (Inr (), s3)"
  shows "session_at c (holds s3) e = (if e = ds_DevEUI ds then Some (deviceSessionFromPB (deviceSessionToPB ds)) else session_at c (holds s) e)"
    and "ds_DevEUI ds \<in> c_set (holds s3) (devAddrKey (ds_DevAddr ds))"
    and "c_list (holds s3) (macCommandQueueKey (ds_DevEUI ds)) = []"
proof -
  obtain v where v: "holds s3 = (holds s2)\<lparr>c_val := (c_val (holds s2))(downlinkFrameKey (sf_Token frame) \<mapsto> v)\<rparr>"
    using SaveFrame_holds[OF assms(3)] by blast
  note f = FlushMAC_holds[OF assms(2)]
  have "session_at c (holds s3) e = session_at c (holds s1) e" by (simp add: session_at_def v f without_def)
  then show "session_at c (holds s3) e = (if e = ds_DevEUI ds then Some (deviceSessionFromPB (deviceSessionToPB ds)) else session_at c (holds s) e)"
    using Save_stores(1)[OF assms(1)] by simp
  have "ds_DevAddr ds \<in> addresses ds" by (simp add: addresses_def)
  then show "ds_DevEUI ds \<in> c_set (holds s3) (devAddrKey (ds_DevAddr ds))"
    using Save_stores(2)[OF assms(1)] by (simp add: v f without_def)
  show "c_list (holds s3) (macCommandQueueKey (ds_DevEUI ds)) = []" by (simp add: v f without_def)
qed

end

section \<open>The lookup\<close>

lemma join_lookup_quiet:
  assumes "t \<in> set (join_lookup E P)" and "t c = (r, c')"
  shows "w_DB c' = w_DB c" and "rc_roamingEnabled (p_conf P) \<or> w_Redis c' = w_Redis c \<and> w_Calls c' = w_Calls c"
proof -
  have roam: "w_DB c' = w_DB c" if "getDeviceOrTryRoaming E P c = (r, c')"
    using that by (auto simp: getDeviceOrTryRoaming_def split: sum.splits prod.splits if_splits
        dest!: in_flow_world_DB[OF _ StartPRFNS_DB])
  show "w_DB c' = w_DB c"
    using assms roam
    by (auto simp: join_lookup_def setContextFromJoinRequestPHYPayload_def join_getDeviceProfile_def join_getServiceProfile_def
        join_filterRxInfo_def logJoinRequestFramesCollected_def join_abortOnDeviceIsDisabled_def reading_def
        split: sum.splits option.splits frame_payload.splits if_splits)
  show "rc_roamingEnabled (p_conf P) \<or> w_Redis c' = w_Redis c \<and> w_Calls c' = w_Calls c"
    using assms
    by (auto simp: join_lookup_def setContextFromJoinRequestPHYPayload_def join_getDeviceProfile_def join_getServiceProfile_def
        join_filterRxInfo_def logJoinRequestFramesCollected_def join_abortOnDeviceIsDisabled_def reading_def getDeviceOrTryRoaming_def
        split: sum.splits option.splits frame_payload.splits if_splits)
qed

lemma lookup_keeps:
  assumes "run_tasks (join_lookup E P) c = (r, c')"
  shows "w_DB c' = w_DB c" and "rc_roamingEnabled (p_conf P) \<or> w_Redis c' = w_Redis c \<and> w_Calls c' = w_Calls c"
proof -
  show "w_DB c' = w_DB c" using assms by (rule run_tasks_keep) (rule join_lookup_quiet(1))
  show "rc_roamingEnabled (p_conf P) \<or> w_Redis c' = w_Redis c \<and> w_Calls c' = w_Calls c"
  proof (cases "rc_roamingEnabled (p_conf P)")
    case False
    have "(\<lambda>c. (w_Redis c, w_Calls c)) c' = (\<lambda>c. (w_Redis c, w_Calls c)) c"
      using assms by (rule run_tasks_keep) (use join_lookup_quiet(2) False in fastforce)
    then show ?thesis by simp
  qed simp
qed

text \<open>A flow that ends without error has ended in the lookup, or done everything.\<close>

lemma join_flow_cases:
  assumes "flow_handle (join_tasks E P) c = (Inr u, c')"
  shows "run_tasks (join_lookup E P) c = (Inl ErrAbort, c') \<or>
    (\<exists>c1. run_tasks (join_lookup E P) c = (Inr (), c1) \<and> run_tasks (join_rest E) c1 = (Inr (), c'))"
proof -
  obtain r1 c1 where 1: "run_tasks (join_lookup E P) c = (r1, c1)" by fastforce
  show ?thesis
  proof (cases r1)
    case (Inl e)
    then show ?thesis using assms 1 by (auto simp: flow_handle_def join_tasks_split run_tasks_append split: if_splits)
  next
    case (Inr v)
    have "flow_handle (join_rest E) c1 = (Inr u, c')"
      using assms 1 Inr by (simp add: flow_handle_def join_tasks_split run_tasks_append)
    then show ?thesis using 1 Inr flow_handle_ok[OF no_abort_join_rest] by auto
  qed
qed

section \<open>Properties\<close>

lemma found_device: "GetDevice T dev db = Inr d \<Longrightarrow> d_DevEUI d = dev"
  by (auto simp: GetDevice_def sqlx_Get_def split: sum.splits list.splits)
    (metis (mono_tags, lifting) filter_eq_Cons_iff)

lemma selected_gateway:
  assumes "sorts_by_signal srt" and "SelectDownlinkGateway srt intn b m dr xs = Inr g"
  shows "g \<in> set xs"
proof -
  have set: "set (srt xs) = set xs" using assms(1) by (auto simp: sorts_by_signal_def dest: mset_eq_setD)
  obtain d where ne: "xs \<noteq> []" and d: "GetDataRate b dr = Inr d"
    using assms(2) by (auto simp: SelectDownlinkGateway_def split: if_splits sum.splits)
  let ?good = "filter (with_margin m d) (srt xs)"
  have "srt xs \<noteq> []" using set ne by (metis set_empty)
  moreover have "?good ! (intn (length ?good) mod length ?good) \<in> set ?good" if "?good \<noteq> []"
    using that by (intro nth_mem) simp
  ultimately have "g \<in> set (srt xs)" using assms(2) ne d
    by (auto simp: SelectDownlinkGateway_def Let_def split: if_splits)
  then show ?thesis using set by simp
qed

lemma accept_frame_packet:
  "rp_DR p' = rp_DR p \<Longrightarrow> rp_TXInfo p' = rp_TXInfo p \<Longrightarrow> accept_frame E g p' b f = accept_frame E g p b f"
proof -
  assume "rp_DR p' = rp_DR p" "rp_TXInfo p' = rp_TXInfo p"
  then have "jd_rx1 E g p' = jd_rx1 E g p" by (simp only: jd_rx1_def)
  then have "accept_item E g p' = accept_item E g p" by (simp only: accept_item_def[abs_def])
  then show ?thesis by (simp add: accept_frame_def)
qed

lemma filtered_packet:
  "FilterRxInfoByServiceProfileID force i p = Inr p' \<Longrightarrow>
     rp_DR p' = rp_DR p \<and> rp_TXInfo p' = rp_TXInfo p \<and> set (rp_RXInfoSet p') \<subseteq> set (rp_RXInfoSet p)"
  by (auto simp: FilterRxInfoByServiceProfileID_def Let_def split: if_splits)

text \<open>
  C7: joining. A join-request that is handled without an error either changes none of the tables
  (an unknown or disabled device, or no gateway that may serve it; then, without roaming, nothing at all
  happens), or it completes: its nonce was new for this device and JoinEUI and is recorded; the session in
  Redis is a fresh one, with counters at zero and the address and keys the join-server was told and answered;
  the queue of the device and its mac-commands are gone and no other queue item; the device is in Class-A or
  C; and after the request to the join-server exactly one frame is sent, with the join-accept.
\<close>

theorem join_starts_a_session:
  assumes "join_db E qrows qcolumns qkeyed qbase arows acolumns akeyed abase drows dcolumns dkeyed dbase"
    and "session_store (n_Redis (j_down E)) holds (n_Sessions (j_down E)) (n_TTL (j_down E))" and "sorts_by_signal (n_sort (j_down E))"
    and "phy_MACPayload (rp_PHYPayload p) = Some (JoinRequestFrame joinEUI devEUI nonce)"
    and "Join_Handle E P p w = (Inr (), w')"
  shows "qrows (w_DB w') = qrows (w_DB w) \<and> arows (w_DB w') = arows (w_DB w) \<and> drows (w_DB w') = drows (w_DB w) \<and>
      (rc_roamingEnabled (p_conf P) \<or> w_Redis w' = w_Redis w \<and> w_Calls w' = w_Calls w) \<or>
    (\<exists>req a ds f cs g b phy.
      \<not> (\<exists>r \<in># arows (w_DB w). nonce_used joinEUI devEUI nonce JoinRequestType r) \<and>
      (\<exists>r \<in># arows (w_DB w'). nonce_used joinEUI devEUI nonce JoinRequestType r) \<and>
      j_JoinReq E req (w_Calls w) = Inr a \<and> jq_ReceiverID req = joinEUI \<and> jq_DevEUI req = devEUI \<and>
      starts_afresh E a joinEUI devEUI (jq_DevAddr req) ds \<and>
      session_at (n_Sessions (j_down E)) (holds (w_Redis w')) devEUI = Some (deviceSessionFromPB (deviceSessionToPB ds)) \<and>
      devEUI \<in> c_set (holds (w_Redis w')) (devAddrKey (jq_DevAddr req)) \<and>
      c_list (holds (w_Redis w')) (macCommandQueueKey devEUI) = [] \<and>
      qrows (w_DB w') = {#r \<in># qrows (w_DB w). qi_DevEUI r \<noteq> devEUI#} \<and>
      (\<exists>r \<in># drows (w_DB w'). d_DevEUI r = devEUI \<and> d_Mode r \<in> {DeviceModeA, DeviceModeC}) \<and>
      gri_GatewayID g \<in> GetGatewayID ` set (rp_RXInfoSet p) \<and> j_UnmarshalAccept E (ja_PHYPayload a) = Inr phy \<and>
      n_MarshalBinary (j_down E) (fst phy) (snd phy) = Inr b \<and> accept_frame E g p b f \<and>
      w_Calls w' = w_Calls w @ JoinReq req # cs @ [SendTXPacket f] \<and> (\<forall>c \<in> set cs. \<exists>m t r. c = HandleUplinkMetaData m t r))"
proof -
  note queue = join_db.axioms(1)[OF assms(1)] and acts = join_db.axioms(2)[OF assms(1)] and devs = join_db.axioms(3)[OF assms(1)]
  let ?X = "n_Session (j_down E)"
  obtain db0 c where opened: "sx_Begin ?X (w_DB w) = (Inr (), db0)" and closed: "sx_Commit ?X (w_DB c) = (Inr (), w_DB w')"
    and run: "flow_handle (join_tasks E P) ((new_join_context p w)\<lparr>w_DB := db0\<rparr>) = (Inr (), c)"
    and w': "w_Redis w' = w_Redis c" "w_Calls w' = w_Calls c"
    using assms(5) by (auto simp: Join_Handle_def Transaction_ok on_DB_ok new_join_context_def world.defs split: prod.splits)
  have start: "(new_join_context p w)\<lparr>w_DB := db0\<rparr> = new_join_context p (w\<lparr>w_DB := db0\<rparr>)" by (simp add: new_join_context_def)
  have rows0: "qrows db0 = qrows (w_DB w)" "arows db0 = arows (w_DB w)" "drows db0 = drows (w_DB w)"
    using sql_transactions.begin_ok[OF queue opened] sql_transactions.begin_ok[OF acts opened] sql_transactions.begin_ok[OF devs opened]
    by simp_all
  have rows1: "qrows (w_DB w') = qrows (w_DB c)" "arows (w_DB w') = arows (w_DB c)" "drows (w_DB w') = drows (w_DB c)"
    using sql_transactions.commit_ok[OF queue closed] sql_transactions.commit_ok[OF acts closed] sql_transactions.commit_ok[OF devs closed]
    by simp_all
  from join_flow_cases[OF run[unfolded start]] show ?thesis
  proof
    assume "run_tasks (join_lookup E P) (new_join_context p (w\<lparr>w_DB := db0\<rparr>)) = (Inl ErrAbort, c)"
    from lookup_keeps[OF this] show ?thesis using rows0 rows1 w' by (auto simp: new_join_context_def)
  next
    assume "\<exists>c2. run_tasks (join_lookup E P) (new_join_context p (w\<lparr>w_DB := db0\<rparr>)) = (Inr (), c2) \<and> run_tasks (join_rest E) c2 = (Inr (), c)"
    then obtain c2 where look: "run_tasks (join_lookup E P) (new_join_context p (w\<lparr>w_DB := db0\<rparr>)) = (Inr (), c2)"
      and rest: "run_tasks (join_rest E) c2 = (Inr (), c)" by blast
    obtain d dp where found: "GetDevice (j_Devices E) devEUI db0 = Inr d"
      "FilterRxInfoByServiceProfileID (j_ForceGwsPrivate E) (d_ServiceProfileID d) p = Inr (jx_RXPacket c2)"
      and c2: "w_DB c2 = db0" "w_Redis c2 = w_Redis w" "w_Calls c2 = w_Calls w" "jx_JoinEUI c2 = joinEUI" "jx_DevEUI c2 = devEUI"
        "jx_DevNonce c2 = nonce" "jx_Device c2 = d" "jx_DeviceProfile c2 = dp"
      using join_found[OF look] assms(4) by auto
    have dev: "d_DevEUI d = devEUI" by (rule found_device[OF found(1)])
    obtain addr req a db1 ds s1 s2 da db2 cs phy w1 w2 where
      valid: "ValidateDevNonce (j_Activations E) joinEUI devEUI nonce JoinRequestType db0 = Inr ()"
      and req: "join_request_of E (c2\<lparr>jx_DevAddr := addr\<rparr>) = Inr req" "j_JoinReq E req (w_Calls w) = Inr a"
      and flush: "FlushDeviceQueueForDevEUI (n_Queue (j_down E)) devEUI db0 = (Inr (), db1)"
      and ds: "joined_session E a d dp joinEUI devEUI addr = Inr ds"
      and save: "SaveDeviceSession (n_Redis (j_down E)) (n_Sessions (j_down E)) (n_TTL (j_down E)) ds (w_Redis w) = (Inr (), s1)"
      and mac: "FlushMACCommandQueue (n_Redis (j_down E)) (ds_DevEUI ds) s1 = (Inr (), s2)"
      and act: "CreateDeviceActivation (j_Activations E) (activation_of ds nonce JoinRequestType) (n_now (j_down E)) db1 = (Inr da, db2)"
      and upd: "UpdateDevice (j_Devices E) (n_now (j_down E)) (d\<lparr>d_Mode := joined_mode dp\<rparr>) db2 = (Inr (), w_DB c)"
      and cs: "cs = (if j_has_controller E then [request_meta E JoinRequest devEUI (jx_RXPacket c2)] else [])"
      and phy: "j_UnmarshalAccept E (ja_PHYPayload a) = Inr phy" "w_Redis w1 = s2" "w_Calls w1 = w_Calls w @ JoinReq req # cs"
      and accept: "JoinAccept_Handle E ds (jx_RXPacket c2) phy w1 = (Inr (), w2)" "w_Redis w2 = w_Redis c" "w_Calls w2 = w_Calls c"
      using join_done[OF rest] unfolding c2 dev by (elim exE conjE) (rule that)
    note fresh = joined_session_ok[OF ds]
    obtain g b f s3 where g: "SelectDownlinkGateway (n_sort (j_down E)) (n_intn (j_down E)) (n_Band (j_down E))
        (cf_gatewayPreferMinMargin (n_conf (j_down E))) (rp_DR (jx_RXPacket c2)) (map rx_info_of (rp_RXInfoSet (jx_RXPacket c2))) = Inr g"
      and b: "n_MarshalBinary (j_down E) (fst phy) (snd phy) = Inr b" and f: "accept_frame E g (jx_RXPacket c2) b f"
      and frame: "SaveDownlinkFrame (n_Redis (j_down E)) (n_Frames (j_down E)) (jd_stored ds f) (w_Redis w1) = (Inr (), s3)"
      and w2: "w2 = w1\<lparr>w_Redis := s3, w_Calls := w_Calls w1 @ [SendTXPacket f]\<rparr>"
      using accept_outcome[OF accept(1)] by blast
    have redis: "w_Redis w' = s3" "w_Calls w' = w_Calls w @ JoinReq req # cs @ [SendTXPacket f]"
      using w' accept(2,3) w2 phy(3) by simp_all
    note packet = filtered_packet[OF found(2)]
    have g': "gri_GatewayID g \<in> GetGatewayID ` set (rp_RXInfoSet p)"
      using selected_gateway[OF assms(3) g] packet by (auto simp: rx_info_of_def)
    have f': "accept_frame E g p b f" using f accept_frame_packet packet by blast
    have req': "jq_DevAddr req = addr" "jq_ReceiverID req = joinEUI" "jq_DevEUI req = devEUI"
      using req(1) c2 by (auto simp: join_request_of_def request_to_server_def split: sum.splits)
    have ids: "ds_DevEUI ds = devEUI" "ds_DevAddr ds = addr" "ds_JoinEUI ds = joinEUI" using fresh by (simp_all add: starts_afresh_def)
    note held = session_store.joined_holds[OF assms(2) save mac frame[unfolded phy(2)]]
    note rows = join_db.join_rows[OF assms(1) flush act upd]
    have used: "\<exists>r \<in># arows (w_DB w'). nonce_used joinEUI devEUI nonce JoinRequestType r"
      using rows(2) ids rows1(2) by (auto simp: activation_of_def)
    have mode: "\<exists>r \<in># drows (w_DB w'). d_DevEUI r = devEUI \<and> d_Mode r \<in> {DeviceModeA, DeviceModeC}"
      using rows(3) dev rows1(3) by (auto simp: joined_mode_def split: if_splits)
    have new: "\<not> (\<exists>r \<in># arows (w_DB w). nonce_used joinEUI devEUI nonce JoinRequestType r)"
      using join_db.validated[OF assms(1) valid] rows0(2) by simp
    have meta: "\<forall>c \<in> set cs. \<exists>m t r. c = HandleUplinkMetaData m t r" using cs by (auto simp: request_meta_def)
    show ?thesis
      by (rule disjI2, rule exI[of _ req], rule exI[of _ a], rule exI[of _ ds], rule exI[of _ f], rule exI[of _ cs], rule exI[of _ g],
          rule exI[of _ b], rule exI[of _ phy])
        (use new used req(2) req' fresh held ids rows(1) rows0 rows1 mode g' phy(1) b f' redis meta in simp)
  qed
qed

text \<open>A nonce that was used ends the flow.\<close>

lemma used_nonce:
  assumes "join_db E qrows qcolumns qkeyed qbase arows acolumns akeyed abase drows dcolumns dkeyed dbase"
    and "phy_MACPayload (rp_PHYPayload p) = Some (JoinRequestFrame joinEUI devEUI nonce)"
    and "\<exists>r \<in># arows (w_DB w). nonce_used joinEUI devEUI nonce JoinRequestType r"
    and "\<not> rc_roamingEnabled (p_conf P)"
    and "flow_handle (join_tasks E P) (new_join_context p w) = (r, c)"
  shows "w_DB c = w_DB w \<and> w_Redis c = w_Redis w \<and> (\<exists>cs. w_Calls c = w_Calls w @ cs \<and> (\<forall>x \<in> set cs. \<exists>b. x = HandleError b 0 OTAA))"
proof -
  obtain r1 c1 where look: "run_tasks (join_lookup E P) (new_join_context p w) = (r1, c1)" by fastforce
  have same: "w_DB c1 = w_DB w" "w_Redis c1 = w_Redis w" "w_Calls c1 = w_Calls w"
    using lookup_keeps[OF look] assms(4) by (simp_all add: new_join_context_def)
  have run: "run_tasks (join_tasks E P) (new_join_context p w) =
      (case r1 of Inl e \<Rightarrow> (Inl e, c1) | Inr _ \<Rightarrow> run_tasks (join_rest E) c1)"
    using look by (simp add: join_tasks_split run_tasks_append split: sum.splits)
  show ?thesis
  proof (cases r1)
    case (Inl e)
    then show ?thesis using assms(5) run same by (auto simp: flow_handle_def split: if_splits)
  next
    case (Inr u)
    then have "jx_JoinEUI c1 = joinEUI" "jx_DevEUI c1 = devEUI" "jx_DevNonce c1 = nonce"
      using join_found[of E P p w c1] look assms(2) by auto
    then obtain e where "ValidateDevNonce (j_Activations E) (jx_JoinEUI c1) (jx_DevEUI c1) (jx_DevNonce c1) JoinRequestType (w_DB c1) = Inl e"
      using join_db.refused[OF assms(1,3)] same(1) by auto
    then have "run_tasks (join_rest E) c1 = (Inl (Wrap e ''validate dev-nonce error''), report_join_error E c1)"
      by (simp add: join_rest_def run_tasks.simps(2) validateNonce_def)
    then have "c = report_join_error E c1" using assms(5) run Inr by (simp add: flow_handle_def)
    then show ?thesis using same by (auto simp: report_join_error_def call_out_def split: sum.splits)
  qed
qed

text \<open>
  C8: a join-request is answered once. When its nonce is recorded, a request with the same nonce,
  DevEUI and JoinEUI changes no table and nothing in Redis, the join-server is not asked and no frame is sent:
  the application-server may be told of the error, and that is all. (Roaming is off, and a rollback or commit
  does not fail.)
\<close>

theorem join_request_is_answered_once:
  assumes "join_db E qrows qcolumns qkeyed qbase arows acolumns akeyed abase drows dcolumns dkeyed dbase"
    and "phy_MACPayload (rp_PHYPayload p) = Some (JoinRequestFrame joinEUI devEUI nonce)"
    and "\<exists>r \<in># arows (w_DB w). nonce_used joinEUI devEUI nonce JoinRequestType r"
    and "\<not> rc_roamingEnabled (p_conf P)"
    and "\<And>db e db'. sx_Rollback (n_Session (j_down E)) db \<noteq> (Inl e, db')" "\<And>db e db'. sx_Commit (n_Session (j_down E)) db \<noteq> (Inl e, db')"
    and "Join_Handle E P p w = (r, w')"
  shows "qrows (w_DB w') = qrows (w_DB w) \<and> arows (w_DB w') = arows (w_DB w) \<and> drows (w_DB w') = drows (w_DB w) \<and>
    w_Redis w' = w_Redis w \<and> (\<exists>cs. w_Calls w' = w_Calls w @ cs \<and> (\<forall>x \<in> set cs. \<exists>b. x = HandleError b 0 OTAA))"
proof -
  note queue = join_db.axioms(1)[OF assms(1)] and acts = join_db.axioms(2)[OF assms(1)] and devs = join_db.axioms(3)[OF assms(1)]
  let ?X = "n_Session (j_down E)"
  obtain c where c: "Transaction ?X (flow_handle (join_tasks E P)) (new_join_context p w) = (r, c)" "w' = world.truncate c"
    using assms(7) by (auto simp: Join_Handle_def split: prod.splits)
  obtain r0 db0 where opened: "sx_Begin ?X (w_DB w) = (r0, db0)" by fastforce
  have start: "(new_join_context p w)\<lparr>w_DB := db0\<rparr> = new_join_context p (w\<lparr>w_DB := db0\<rparr>)"
    "w_DB (new_join_context p w) = w_DB w" "w_Redis (new_join_context p w) = w_Redis w" "w_Calls (new_join_context p w) = w_Calls w"
    by (simp_all add: new_join_context_def)
  have rows: "qrows (w_DB c) = qrows (w_DB w)" "arows (w_DB c) = arows (w_DB w)" "drows (w_DB c) = drows (w_DB w)" if "r = Inl e" for e
    using join_db.failed_join[OF assms(1) assms(7)[unfolded that] assms(5,6)] c(2) by (simp_all add: world.defs)
  show ?thesis
  proof (cases r0)
    case (Inl e)
    then have "c = (new_join_context p w)\<lparr>w_DB := db0\<rparr>" "\<exists>e. r = Inl e"
      using c(1) opened start by (auto simp: Transaction_def on_DB_def)
    then show ?thesis using rows c(2) by (auto simp: new_join_context_def world.defs)
  next
    case (Inr u)
    have rows0: "arows db0 = arows (w_DB w)" "qrows db0 = qrows (w_DB w)" "drows db0 = drows (w_DB w)"
      using sql_transactions.begin_ok[OF acts opened[unfolded Inr]] sql_transactions.begin_ok[OF queue opened[unfolded Inr]]
        sql_transactions.begin_ok[OF devs opened[unfolded Inr]] by simp_all
    obtain r2 c2 where run: "flow_handle (join_tasks E P) (new_join_context p (w\<lparr>w_DB := db0\<rparr>)) = (r2, c2)" by fastforce
    have kept: "w_DB c2 = db0" "w_Redis c2 = w_Redis w" "\<exists>cs. w_Calls c2 = w_Calls w @ cs \<and> (\<forall>x \<in> set cs. \<exists>b. x = HandleError b 0 OTAA)"
      using used_nonce[OF assms(1,2) _ assms(4) run] assms(3) rows0(1) by simp_all
    have outside: "w_Redis c = w_Redis c2" "w_Calls c = w_Calls c2"
      using c(1) opened Inr run start by (auto simp: Transaction_def on_DB_def split: prod.splits sum.splits)
    have "qrows (w_DB c) = qrows (w_DB w) \<and> arows (w_DB c) = arows (w_DB w) \<and> drows (w_DB c) = drows (w_DB w)"
    proof (cases r)
      case (Inl e)
      then show ?thesis using rows by simp
    next
      case r: (Inr v)
      have closed: "sx_Commit ?X (w_DB c2) = (Inr (), w_DB c)"
        using c(1) opened Inr run start r by (auto simp: Transaction_ok on_DB_ok)
      show ?thesis
        using sql_transactions.commit_ok[OF queue closed] sql_transactions.commit_ok[OF acts closed]
          sql_transactions.commit_ok[OF devs closed] kept(1) rows0 by simp
    qed
    then show ?thesis using kept outside c(2) by (simp add: world.defs)
  qed
qed

section \<open>A sample\<close>

text \<open>
  Device 7 again, with a profile for devices that join. Its join-server answers with one key and no
  channel list. Roaming is off, and so is its Redis server.
\<close>

definition sample_join_env :: "(memory_db, memory, redis_value) join_env" where
  "sample_join_env =
     \<lparr>j_down = sample_dl_env, j_Devices = memory_devices, j_Activations = memory_activations, j_JoinAcceptDelay1 = 5 * second,
      j_JoinAcceptDelay2 = 6 * second, j_RX2Frequency = 869525000, j_RX2DataRate = 0, j_GetCFList = (\<lambda>_. None),
      j_MarshalCFList = (\<lambda>_. Inr []), j_keks = (\<lambda>_. None), j_Unwrap = (\<lambda>_ _. Inl (Errorf ''no kek'')), j_netID = 1,
      j_SetAddrPrefix = (\<lambda>_ a. a), j_random_addr = Inr [1, 2, 3, 4], j_random_transaction = Inr [1, 0, 0, 0], j_random_token = Inr [0, 9],
      j_ForceGwsPrivate = False, j_roamingEnabled = False, j_has_controller = True, j_MarshalRequest = (\<lambda>_. Inr [0]),
      j_UnmarshalAccept = (\<lambda>b. Inr (\<lparr>phy_MType = JoinAccept, phy_MACPayload = Some (BytesFrame b)\<rparr>, [1, 2, 3, 4])),
      j_ValidateUplinkJoinMIC = (\<lambda>_ _. Inr True), j_log_error = (\<lambda>_. None), j_GetClientForJoinEUI = (\<lambda>_. Inr ()),
      j_JoinReq = (\<lambda>_ _. Inr (no_join_answer\<lparr>ja_PHYPayload := [32], ja_NwkSKey := Some \<lparr>ke_KEKLabel = [], ke_AESKey = [5]\<rparr>\<rparr>)),
      j_RejoinReq = (\<lambda>_ _. Inr (no_join_answer\<lparr>ja_PHYPayload := [32], ja_NwkSKey := Some \<lparr>ke_KEKLabel = [], ke_AESKey = [6]\<rparr>\<rparr>))\<rparr>"

definition no_redis :: "('s, 'v, 'm) redis" where
  "no_redis =
     \<lparr>rd_Set = \<lambda>_ _ _ s. (Inl mem_down, s), rd_SetNX = \<lambda>_ _ _ s. (Inl mem_down, s), rd_Get = \<lambda>_ _. Inl mem_down,
      rd_MGet = \<lambda>_ _. Inl mem_down, rd_Exists = \<lambda>_ _. Inl mem_down, rd_Del = \<lambda>_ s. (Inl mem_down, s),
      rd_SAdd_PExpire = \<lambda>_ _ _ s. (Inl mem_down, s), rd_SMembers = \<lambda>_ _. Inl mem_down,
      rd_SMembers_Del = \<lambda>_ s. (Inl mem_down, s), rd_SRem = \<lambda>_ _ s. (Inl mem_down, s),
      rd_RPush_PExpire = \<lambda>_ _ _ s. (Inl mem_down, s), rd_LRange = \<lambda>_ _. Inl mem_down, rd_LRem = \<lambda>_ _ s. (Inl mem_down, s)\<rparr>"

definition no_roaming_env :: "(memory, redis_value) pr_env" where
  "no_roaming_env =
     \<lparr>p_Redis = no_redis, p_Sessions = \<lparr>enc = \<lambda>_. Inl (Errorf ''proto''), dec = \<lambda>_. Inl (Errorf ''proto'')\<rparr>, p_Frames = frame_values,
      p_TTL = 1000, p_conf = sample_roaming_conf\<lparr>rc_roamingEnabled := False\<rparr>, p_now = 0, p_newUUID = (\<lambda>_. Inr 9),
      p_Band = sample_band, p_DL = sample_dl_band, p_ForceGwsPrivate = False, p_sort = (\<lambda>rs. rs), p_Unwrap = (\<lambda>_ _. Inr 0),
      p_MarshalRequest = (\<lambda>_. Inr [1]), p_MarshalRXInfo = (\<lambda>_. Inr [2]),
      p_ValidateMIC = (\<lambda>_ _ _ _. Inr True), p_PRStartReq = (\<lambda>_ _ _ _. Inl (Errorf ''no partner'')),
      p_XmitUplink = (\<lambda>_ _ _ _. Inr True), p_GetClientForJoinEUI = (\<lambda>_. Inr ()), p_HomeNSReq = (\<lambda>_ _ _. Inr 3),
      p_send = (\<lambda>_ _. Inr ())\<rparr>"

abbreviation device_rows :: "memory_db \<Rightarrow> device multiset" where
  "device_rows \<equiv> mem_rows (\<lambda>db. t_devices (fst db))"

abbreviation activation_rows :: "memory_db \<Rightarrow> device_activation multiset" where
  "activation_rows \<equiv> mem_rows (\<lambda>db. t_activations (fst db))"

lemma sample_join_env_simps [simp]:
  "j_down sample_join_env = sample_dl_env"
  "j_Devices sample_join_env = memory_devices"
  "j_Activations sample_join_env = memory_activations"
  "j_JoinAcceptDelay1 sample_join_env = 5 * second"
  "j_JoinAcceptDelay2 sample_join_env = 6 * second"
  "j_RX2Frequency sample_join_env = 869525000"
  "j_RX2DataRate sample_join_env = 0"
  "j_GetCFList sample_join_env = (\<lambda>_. None)"
  "j_MarshalCFList sample_join_env = (\<lambda>_. Inr [])"
  "j_keks sample_join_env = (\<lambda>_. None)"
  "j_Unwrap sample_join_env = (\<lambda>_ _. Inl (Errorf ''no kek''))"
  "j_netID sample_join_env = 1"
  "j_SetAddrPrefix sample_join_env = (\<lambda>_ a. a)"
  "j_random_addr sample_join_env = Inr [1, 2, 3, 4]"
  "j_random_transaction sample_join_env = Inr [1, 0, 0, 0]"
  "j_random_token sample_join_env = Inr [0, 9]"
  "j_ForceGwsPrivate sample_join_env = False"
  "j_roamingEnabled sample_join_env = False"
  "j_has_controller sample_join_env = True"
  "j_MarshalRequest sample_join_env = (\<lambda>_. Inr [0])"
  "j_UnmarshalAccept sample_join_env = (\<lambda>b. Inr (\<lparr>phy_MType = JoinAccept, phy_MACPayload = Some (BytesFrame b)\<rparr>, [1, 2, 3, 4]))"
  "j_ValidateUplinkJoinMIC sample_join_env = (\<lambda>_ _. Inr True)"
  "j_log_error sample_join_env = (\<lambda>_. None)"
  "j_GetClientForJoinEUI sample_join_env = (\<lambda>_. Inr ())"
  "j_JoinReq sample_join_env = (\<lambda>_ _. Inr (no_join_answer\<lparr>ja_PHYPayload := [32], ja_NwkSKey := Some \<lparr>ke_KEKLabel = [], ke_AESKey = [5]\<rparr>\<rparr>))"
  "j_RejoinReq sample_join_env = (\<lambda>_ _. Inr (no_join_answer\<lparr>ja_PHYPayload := [32], ja_NwkSKey := Some \<lparr>ke_KEKLabel = [], ke_AESKey = [6]\<rparr>\<rparr>))"
  by (simp_all add: sample_join_env_def)

text \<open>A statement on one table of the memory leaves the others alone.\<close>

lemma memory_table_keeps:
  assumes "\<And>m t. g' (p m t) = g' t"
  shows "mem_rows (\<lambda>db. g' (fst db)) (snd (tb_insert (memory_table g p assign clash) r db)) = mem_rows (\<lambda>db. g' (fst db)) db"
    "mem_rows (\<lambda>db. g' (fst db)) (snd (tb_update (memory_table g p assign clash) P f db)) = mem_rows (\<lambda>db. g' (fst db)) db"
    "mem_rows (\<lambda>db. g' (fst db)) (snd (tb_delete (memory_table g p assign clash) P db)) = mem_rows (\<lambda>db. g' (fst db)) db"
    "mem_rows (\<lambda>db. g' (snd db)) (snd (tb_insert (memory_table g p assign clash) r db)) = mem_rows (\<lambda>db. g' (snd db)) db"
    "mem_rows (\<lambda>db. g' (snd db)) (snd (tb_update (memory_table g p assign clash) P f db)) = mem_rows (\<lambda>db. g' (snd db)) db"
    "mem_rows (\<lambda>db. g' (snd db)) (snd (tb_delete (memory_table g p assign clash) P db)) = mem_rows (\<lambda>db. g' (snd db)) db"
  unfolding memory_table_def by (rule mem_table_keeps; simp add: mem_rows_def assms)+

interpretation sample_join: join_db sample_join_env
  queue_rows "\<lambda>r. r" "mem_keyed (\<lambda>k r. r\<lparr>qi_ID := k\<rparr>)" "mem_rows (\<lambda>db. t_queue (snd db))"
  activation_rows "\<lambda>r. r" "mem_keyed (\<lambda>k r. r\<lparr>da_ID := k\<rparr>)" "mem_rows (\<lambda>db. t_activations (snd db))"
  device_rows "\<lambda>r. r" "mem_keyed (\<lambda>_ r. r)" "mem_rows (\<lambda>db. t_devices (snd db))"
proof (intro join_db.intro join_db_axioms.intro)
  show "sql_transactions (n_Queue (j_down sample_join_env)) queue_rows (\<lambda>r. r) (mem_keyed (\<lambda>k r. r\<lparr>qi_ID := k\<rparr>))
      (n_Session (j_down sample_join_env)) (mem_rows (\<lambda>db. t_queue (snd db)))"
    using memory_queue.sql_transactions_axioms by simp
  show "sql_transactions (j_Activations sample_join_env) activation_rows (\<lambda>r. r) (mem_keyed (\<lambda>k r. r\<lparr>da_ID := k\<rparr>))
      (n_Session (j_down sample_join_env)) (mem_rows (\<lambda>db. t_activations (snd db)))"
    unfolding memory_activations_def sample_join_env_simps sample_dl_env_simps by (rule memory_table_laws) simp
  show "sql_transactions (j_Devices sample_join_env) device_rows (\<lambda>r. r) (mem_keyed (\<lambda>_ r. r))
      (n_Session (j_down sample_join_env)) (mem_rows (\<lambda>db. t_devices (snd db)))"
    unfolding memory_devices_def sample_join_env_simps sample_dl_env_simps by (rule memory_table_laws) simp
qed (auto simp: activation_same mem_keyed_def memory_queue_def memory_devices_def memory_activations_def intro!: memory_table_keeps)

definition joining_tables :: tables where
  "joining_tables = sample_tables\<lparr>t_profiles := \<lparr>mt_up = True, mt_next = 0, mt_rows = [zero_device_profile\<lparr>dp_SupportsJoin := True\<rparr>]\<rparr>\<rparr>"

definition joining_world :: "(memory_db, memory) world" where
  "joining_world = \<lparr>w_DB = (joining_tables, joining_tables), w_Redis = memory_7, w_Calls = []\<rparr>"

abbreviation "joining_device \<equiv> zero_device\<lparr>d_DevEUI := 7\<rparr>"
abbreviation "joining_profile \<equiv> zero_device_profile\<lparr>dp_SupportsJoin := True\<rparr>"

lemma joining_rows:
  "GetDevice memory_devices 7 (joining_tables, t) = Inr joining_device"
  "GetDeviceProfile memory_profiles 0 (joining_tables, t) = Inr joining_profile"
  "GetServiceProfile memory_services 0 (joining_tables, t) = Inr zero_service_profile"
  "ValidateDevNonce memory_activations 8 7 300 JoinRequestType (joining_tables, t) = Inr ()"
  by (simp_all add: GetDevice_def GetDeviceProfile_def GetServiceProfile_def ValidateDevNonce_def sqlx_Get_def memory_tables
      joining_tables_def sample_tables_def zero_device_profile_def zero_service_profile_def)

lemma joining_statements:
  "\<exists>t1. FlushDeviceQueueForDevEUI memory_queue 7 (joining_tables, t) = (Inr (), (t1, t)) \<and>
     (\<exists>da' t2. CreateDeviceActivation memory_activations da 0 (t1, t) = (Inr da', (t2, t)) \<and>
     (\<exists>t3. UpdateDevice memory_devices 0 (joining_device\<lparr>d_Mode := m\<rparr>) (t2, t) = (Inr (), (t3, t))))"
  by (simp add: FlushDeviceQueueForDevEUI_def executed_any_def CreateDeviceActivation_def sqlx_Insert_def UpdateDevice_def affected_def
      memory_tables joining_tables_def sample_tables_def Let_def)

definition sample_packet :: "phy \<Rightarrow> dl_packet" where
  "sample_packet phy = sample_dl_packet\<lparr>rp_PHYPayload := phy\<rparr>"

lemma sample_packet_simps:
  "rp_PHYPayload (sample_packet phy) = phy" "rp_RXInfoSet (sample_packet phy) = rp_RXInfoSet sample_dl_packet"
  "rp_RXInfoSet sample_dl_packet \<noteq> []" "rp_DR (sample_packet phy) = 0"
  by (simp_all add: sample_packet_def sample_dl_packet_def)

lemma joining_filter: "FilterRxInfoByServiceProfileID False 0 (sample_packet phy) = Inr (sample_packet phy)"
  by (simp add: FilterRxInfoByServiceProfileID_def sample_packet_def sample_dl_packet_def gateway_is_private_def gomap_get_def Let_def)

lemma joining_session: "\<exists>ds. joined_session sample_join_env (no_join_answer\<lparr>ja_PHYPayload := [32], ja_NwkSKey := Some \<lparr>ke_KEKLabel = [], ke_AESKey = [5]\<rparr>\<rparr>)
   joining_device joining_profile 8 7 0x01020304 = Inr ds \<and> ds_DevEUI ds = 7 \<and> PendingRejoinDeviceSession ds = None"
  by (simp add: joined_session_def set_session_keys_def no_join_answer_def with_key_def unwrapNSKeyEnvelope_def set_cflist_def sample_join_env_def set_ping_slots_def zero_device_profile_def fresh_session_def Let_def PendingRejoinDeviceSession_def zero_device_session_fields)

lemma joining_redis:
  "PendingRejoinDeviceSession ds = None \<Longrightarrow> ds_DevEUI ds = 7 \<Longrightarrow>
   \<exists>s1. SaveDeviceSession mem_redis session_values 1000 ds memory_7 = (Inr (), s1) \<and>
   (\<exists>s2. FlushMACCommandQueue mem_redis 7 s1 = (Inr (), s2) \<and> m_up s2)"
  by (simp add: SaveDeviceSession_def FlushMACCommandQueue_def mem_redis_run value_codecs_run memory_7_def mem_empty_def)

lemma joining_windows:
  "SelectDownlinkGateway sort_by_signal (\<lambda>_. 0) sample_band 10 0 (map rx_info_of (rp_RXInfoSet sample_dl_packet)) = Inr (rx_info_of (hd (rp_RXInfoSet sample_dl_packet)))"
  "\<exists>i. jd_rx1 sample_join_env g (sample_packet phy) = Inr i" "\<exists>i. jd_rx2 sample_join_env g = Inr i"
proof -
  show "SelectDownlinkGateway sort_by_signal (\<lambda>_. 0) sample_band 10 0 (map rx_info_of (rp_RXInfoSet sample_dl_packet)) = Inr (rx_info_of (hd (rp_RXInfoSet sample_dl_packet)))"
    by code_simp
  have "SetDownlinkTXInfoDataRate sample_band 0 i \<noteq> Inl e" for i :: downlink_tx_info and e
    by (simp add: SetDownlinkTXInfoDataRate_def sample_band_def sample_data_rates_def)
  then show "\<exists>i. jd_rx1 sample_join_env g (sample_packet phy) = Inr i" "\<exists>i. jd_rx2 sample_join_env g = Inr i"
    by (auto simp: jd_rx1_def jd_rx2_def jd_window_def sample_packet_def sample_dl_packet_def Let_def split: sum.splits)
qed

lemma joining_accept:
  assumes "m_up s"
  shows "\<exists>w. JoinAccept_Handle sample_join_env ds (sample_packet phy) (\<lparr>phy_MType = JoinAccept, phy_MACPayload = Some (BytesFrame b)\<rparr>, m) \<lparr>w_DB = db, w_Redis = s, w_Calls = cs\<rparr> = (Inr (), w) \<and> w_DB w = db \<and> w_Calls w \<noteq> []"
proof -
  let ?g = "rx_info_of (hd (rp_RXInfoSet sample_dl_packet))"
  obtain i1 i2 where "jd_rx1 sample_join_env ?g (sample_packet phy) = Inr i1" "jd_rx2 sample_join_env ?g = Inr i2"
    using joining_windows(2,3) by blast
  then show ?thesis
    using assms joining_windows(1) sample_packet_simps
    by (simp add: JoinAccept_Handle_def jd_tasks_def run_tasks.simps jd_setDeviceGatewayRXInfo_def jd_selectDownlinkGateway_def Let_def
        jd_setTXInfo_def jd_add_def jd_setToken_def jd_setDownlinkFrame_def jd_sendJoinAcceptResponse_def jd_saveDownlinkFrame_def
        wrapping_def send_packet_def on_Redis_def call_out_def SaveDownlinkFrame_def mem_redis_run value_codecs_run)
qed

definition join_frame :: dl_packet where
  "join_frame = sample_packet \<lparr>phy_MType = JoinRequest, phy_MACPayload = Some (JoinRequestFrame 8 7 300)\<rparr>"

lemma joined_runs:
  "\<exists>w'. Join_Handle sample_join_env no_roaming_env join_frame joining_world = (Inr (), w') \<and> w_Calls w' \<noteq> []"
proof -
  let ?c = "new_join_context join_frame joining_world"
  let ?a = "no_join_answer\<lparr>ja_PHYPayload := [32], ja_NwkSKey := Some \<lparr>ke_KEKLabel = [], ke_AESKey = [5]\<rparr>\<rparr>"
  obtain ds where ds: "joined_session sample_join_env ?a joining_device joining_profile 8 7 0x01020304 = Inr ds" "ds_DevEUI ds = 7"
    "PendingRejoinDeviceSession ds = None" using joining_session by blast
  obtain s1 s2 where s: "SaveDeviceSession mem_redis session_values 1000 ds memory_7 = (Inr (), s1)"
    "FlushMACCommandQueue mem_redis 7 s1 = (Inr (), s2)" "m_up s2" using joining_redis[OF ds(3,2)] by blast
  obtain t1 da t2 t3 where t: "FlushDeviceQueueForDevEUI memory_queue 7 (joining_tables, joining_tables) = (Inr (), (t1, joining_tables))"
    "CreateDeviceActivation memory_activations (activation_of ds 300 JoinRequestType) 0 (t1, joining_tables) = (Inr da, (t2, joining_tables))"
    "UpdateDevice memory_devices 0 (joining_device\<lparr>d_Mode := DeviceModeA\<rparr>) (t2, joining_tables) = (Inr (), (t3, joining_tables))"
    using joining_statements by blast
  have addr: "GetRandomDevAddr sample_join_env = Inr 0x01020304"
    by (simp add: GetRandomDevAddr_def to_array_def word_rcat_def)
  have mode: "joined_mode joining_profile = DeviceModeA" "dp_SupportsJoin joining_profile" by (simp_all add: joined_mode_def zero_device_profile_def)
  let ?c1 = "?c\<lparr>jx_JoinEUI := 8, jx_DevEUI := 7, jx_DevNonce := 300, jx_Device := joining_device, jx_DeviceProfile := joining_profile,
        jx_ServiceProfile := zero_service_profile\<rparr>"
  have frame: "phy_MACPayload (rp_PHYPayload join_frame) = Some (JoinRequestFrame 8 7 300)" by (simp add: join_frame_def sample_packet_simps)
  have packet: "join_frame = sample_packet (rp_PHYPayload join_frame)" by (simp add: join_frame_def sample_packet_simps)
  have ids: "d_DeviceProfileID joining_device = 0" "d_ServiceProfileID joining_device = 0" "\<not> d_IsDisabled joining_device"
    by (simp_all add: zero_device_def)
  have c: "w_DB ?c = (joining_tables, joining_tables)" "w_Redis ?c = memory_7" "w_Calls ?c = []" "jx_RXPacket ?c = join_frame"
    by (simp_all add: new_join_context_def joining_world_def)
  have look: "run_tasks (join_lookup sample_join_env no_roaming_env) ?c = (Inr (), ?c1)"
    by (simp add: join_lookup_def run_tasks_ok join_lookup_ok join_getServiceProfile_def reading_ok c frame ids joining_rows joining_filter[of "rp_PHYPayload join_frame", folded packet] mode)
  obtain req where req: "join_request_of sample_join_env (?c1\<lparr>jx_DevAddr := 0x01020304\<rparr>) = Inr req"
    by (auto simp: join_request_of_def marshalled_cflist_def)
  obtain w where accept: "JoinAccept_Handle sample_join_env ds join_frame (\<lparr>phy_MType = JoinAccept, phy_MACPayload = Some (BytesFrame [32])\<rparr>, [1, 2, 3, 4])
      \<lparr>w_DB = (t3, joining_tables), w_Redis = s2, w_Calls = [JoinReq req, request_meta sample_join_env JoinRequest 7 join_frame]\<rparr> = (Inr (), w)"
    "w_Calls w \<noteq> []"
    using joining_accept[OF s(3), of ds "rp_PHYPayload join_frame"] unfolding packet[symmetric] by blast
  have "\<exists>c'. run_tasks (join_rest sample_join_env) ?c1 = (Inr (), c') \<and> w_Calls c' \<noteq> []"
    using accept
    by (simp add: join_rest_def run_tasks.simps validateNonce_def getRandomDevAddr_def getJoinAcceptFromAS_def join_sendUplinkMetaData_def
        join_flushDeviceQueue_def createDeviceSession_def createDeviceActivation_def setDeviceMode_def sendJoinAcceptDownlink_def
        reading_def wrapping_def on_DB_def on_Redis_def forget_def in_flow_world_def call_out_def Let_def
        c joining_rows addr req t s ds mode)
  then obtain c' where run: "flow_handle (join_tasks sample_join_env no_roaming_env) ?c = (Inr (), c')" "w_Calls c' \<noteq> []"
    using look by (auto simp: flow_handle_def join_tasks_split run_tasks_append)
  have same: "?c\<lparr>w_DB := (joining_tables, joining_tables)\<rparr> = ?c" by (simp add: new_join_context_def joining_world_def)
  show ?thesis using run by (simp add: same Join_Handle_def Transaction_def on_DB_def memory_session_def c(1))
qed

theorem join_starts_a_session_witness:
  "\<exists>w'. Join_Handle sample_join_env no_roaming_env join_frame joining_world = (Inr (), w') \<and>
     queue_rows (w_DB w') = {#} \<and> (\<exists>r \<in># activation_rows (w_DB w'). nonce_used 8 7 300 JoinRequestType r) \<and>
     (\<exists>ds. session_at session_values (mem_holds (w_Redis w')) 7 = Some ds)"
proof -
  obtain w' where run: "Join_Handle sample_join_env no_roaming_env join_frame joining_world = (Inr (), w')" "w_Calls w' \<noteq> []"
    using joined_runs by blast
  have store: "session_store (n_Redis (j_down sample_join_env)) mem_holds (n_Sessions (j_down sample_join_env)) (n_TTL (j_down sample_join_env))"
    using memory_sessions.session_store_axioms by simp
  have "queue_rows (w_DB joining_world) = {#sample_item, sample_item\<lparr>qi_ID := 2, qi_FCnt := 11\<rparr>#}" "qi_DevEUI sample_item = 7"
    by (simp_all add: joining_world_def joining_tables_def sample_tables_def mem_rows_def sample_item_def)
  then have empty: "{#r \<in># queue_rows (w_DB joining_world). qi_DevEUI r \<noteq> 7#} = {#}" by simp
  have start: "w_Calls joining_world = []" by (simp add: joining_world_def)
  have off: "\<not> rc_roamingEnabled (p_conf no_roaming_env)" by (simp add: no_roaming_env_def)
  show ?thesis
    using join_starts_a_session[OF sample_join.join_db_axioms store _ _ run(1), of 8 7 300] run off start
    unfolding empty by (auto simp: sort_by_signal_sorts join_frame_def sample_packet_simps)
qed

text \<open>The device has used the nonce before.\<close>

definition joined_world :: "(memory_db, memory) world" where
  "joined_world =
     (let t = joining_tables\<lparr>t_activations := \<lparr>mt_up = True, mt_next = 2, mt_rows = [activation_of device_7 300 JoinRequestType]\<rparr>\<rparr>
      in joining_world\<lparr>w_DB := (t, t)\<rparr>)"

theorem join_request_is_answered_once_witness:
  "\<exists>r w'. Join_Handle sample_join_env no_roaming_env
      (join_frame\<lparr>rp_PHYPayload := \<lparr>phy_MType = JoinRequest, phy_MACPayload = Some (JoinRequestFrame 0 7 300)\<rparr>\<rparr>) joined_world = (r, w') \<and>
     w_Redis w' = memory_7 \<and> queue_rows (w_DB w') = queue_rows (w_DB joining_world) \<and> (\<forall>f. SendTXPacket f \<notin> set (w_Calls w'))"
proof -
  let ?p = "join_frame\<lparr>rp_PHYPayload := \<lparr>phy_MType = JoinRequest, phy_MACPayload = Some (JoinRequestFrame 0 7 300)\<rparr>\<rparr>"
  obtain r w' where run: "Join_Handle sample_join_env no_roaming_env ?p joined_world = (r, w')" by fastforce
  have used: "\<exists>r \<in># activation_rows (w_DB joined_world). nonce_used 0 7 300 JoinRequestType r"
    by (simp add: joined_world_def mem_rows_def nonce_used_def activation_of_def Let_def device_7_def zero_device_session_def with_pending_def
        session.defs device_session.defs zero_session_def)
  have world: "w_Redis joined_world = memory_7" "w_Calls joined_world = []" "queue_rows (w_DB joined_world) = queue_rows (w_DB joining_world)"
    by (simp_all add: joined_world_def joining_world_def Let_def mem_rows_def)
  show ?thesis
    using join_request_is_answered_once[OF sample_join.join_db_axioms _ used _ _ _ run] run world
    by (auto simp: no_roaming_env_def memory_session_def split: prod.splits)
qed

end
