(* ===== verification/Rejoin.thy ===== *)
theory Rejoin
  imports Join
begin

text \<open>
  A rejoin-request (\<open>internal/uplink/rejoin/rejoin.go\<close>): unlike a join, it is answered for a device that
  has a session, whose counter and key it must match, and what it starts is a pending session beside
  the active one. A request of type 0 resets the radio parameters, type 2 keeps them; type 1 is not
  supported. Nothing of it runs in an SQL transaction. The environment is that of the joins.
\<close>

section \<open>Context\<close>

record ('db, 's) rejoin_context = "('db, 's) world" +
  rx_RXPacket :: dl_packet
  rx_RejoinType :: nat
  rx_RJCount :: u16
  rx_NetID :: u32
  rx_DevEUI :: eui64
  rx_JoinEUI :: eui64
  rx_Device :: device
  rx_ServiceProfile :: service_profile
  rx_DeviceProfile :: device_profile
  rx_DeviceSession :: device_session
  rx_DevAddr :: devaddr
  rx_RejoinAnsPayload :: join_answer

type_synonym ('db, 's) rejoin_task = "('db, 's) rejoin_context task"

definition forRejoinType :: "nat list \<Rightarrow> ('db, 's) rejoin_task list \<Rightarrow> ('db, 's) rejoin_task" where
  "forRejoinType types tasks c = (if rx_RejoinType c \<in> set types then run_tasks tasks c else (Inr (), c))"

section \<open>The device\<close>

definition setContextFromRejoinRequestPHY :: "('db, 's) rejoin_task" where
  "setContextFromRejoinRequestPHY c =
     (case phy_MACPayload (rp_PHYPayload (rx_RXPacket c)) of
        Some (RejoinFrame02 t netID devEUI rjCount) \<Rightarrow>
          (Inr (), c\<lparr>rx_NetID := netID, rx_DevEUI := devEUI, rx_RJCount := rjCount, rx_RejoinType := t\<rparr>)
      | Some (RejoinFrame1 joinEUI devEUI rjCount) \<Rightarrow>
          (Inr (), c\<lparr>rx_JoinEUI := joinEUI, rx_DevEUI := devEUI, rx_RJCount := rjCount, rx_RejoinType := 1\<rparr>)
      | _ \<Rightarrow> (Inl (Errorf ''expected *lorawan.RejoinRequestType02Payload or *lorawan.RejoinRequestType1Payload''), c))"

definition logRejoinRequestFramesCollected :: "('db, 's, 'v) join_env \<Rightarrow> ('db, 's) rejoin_task" where
  "logRejoinRequestFramesCollected E c =
     (case j_log_error E (rx_RXPacket c) of
        None \<Rightarrow> (Inr (), c) | Some e \<Rightarrow> (Inl (Wrap e ''create uplink frame-set error''), c))"

definition getDeviceAndProfiles :: "('db, 's, 'v) join_env \<Rightarrow> ('db, 's) rejoin_task" where
  "getDeviceAndProfiles E =
     run_tasks
       [reading (\<lambda>c. GetDevice (j_Devices E) (rx_DevEUI c) (w_DB c)) (\<lambda>d c. c\<lparr>rx_Device := d\<rparr>) ''get device error'',
        reading (\<lambda>c. GetDeviceProfile (n_DeviceProfiles (j_down E)) (d_DeviceProfileID (rx_Device c)) (w_DB c))
          (\<lambda>dp c. c\<lparr>rx_DeviceProfile := dp\<rparr>) ''get device-profile error'',
        reading (\<lambda>c. GetServiceProfile (n_ServiceProfiles (j_down E)) (d_ServiceProfileID (rx_Device c)) (w_DB c))
          (\<lambda>sp c. c\<lparr>rx_ServiceProfile := sp\<rparr>) ''get service-profile error'',
        \<lambda>c. (if dp_SupportsJoin (rx_DeviceProfile c) then Inr () else Inl (Errorf ''device does not support join''), c)]"

definition rejoin_abortOnDeviceIsDisabled :: "('db, 's) rejoin_task" where
  "rejoin_abortOnDeviceIsDisabled c = (if d_IsDisabled (rx_Device c) then Inl ErrAbort else Inr (), c)"

definition rejoin_filterRxInfo :: "('db, 's, 'v) join_env \<Rightarrow> ('db, 's) rejoin_task" where
  "rejoin_filterRxInfo E c =
     (case FilterRxInfoByServiceProfileID (j_ForceGwsPrivate E) (d_ServiceProfileID (rx_Device c)) (rx_RXPacket c) of
        Inl e \<Rightarrow> (Inl (if e = ErrNoElements then ErrAbort else e), c)
      | Inr p \<Rightarrow> (Inr (), c\<lparr>rx_RXPacket := p\<rparr>))"

section \<open>Authentication\<close>

definition rejoin_getDeviceSession :: "('db, 's, 'v) join_env \<Rightarrow> ('db, 's) rejoin_task" where
  "rejoin_getDeviceSession E =
     reading (\<lambda>c. GetDeviceSession (n_Redis (j_down E)) (n_Sessions (j_down E)) (rx_DevEUI c) (w_Redis c))
       (\<lambda>ds c. c\<lparr>rx_DeviceSession := ds\<rparr>) ''get device-session error''"

text \<open>The counter is 16 bits wide; its last value is refused, as the next one would be 0.\<close>

definition validateRejoinCounter0 :: "('db, 's) rejoin_task" where
  "validateRejoinCounter0 c =
     (if ds_RejoinCount0 (rx_DeviceSession c) \<le> rx_RJCount c then
        let c = c\<lparr>rx_DeviceSession := (rx_DeviceSession c)\<lparr>ds_RejoinCount0 := rx_RJCount c + 1\<rparr>\<rparr> in
        (if ds_RejoinCount0 (rx_DeviceSession c) = 0 then Inl (Errorf ''RJcount0 rollover detected'') else Inr (), c)
      else (Inl (Errorf ''invalid RJcount0''), c))"

definition rejoin_validateMIC :: "('db, 's, 'v) join_env \<Rightarrow> ('db, 's) rejoin_task" where
  "rejoin_validateMIC E c =
     (case j_ValidateUplinkJoinMIC E (rp_PHYPayload (rx_RXPacket c)) (ds_SNwkSIntKey (rx_DeviceSession c)) of
        Inl e \<Rightarrow> (Inl e, c)
      | Inr ok \<Rightarrow> (if ok then Inr () else Inl (Errorf ''invalid MIC''), c))"

section \<open>The answer of the join-server\<close>

definition rejoin_getRandomDevAddr :: "('db, 's, 'v) join_env \<Rightarrow> ('db, 's) rejoin_task" where
  "rejoin_getRandomDevAddr E =
     reading (\<lambda>c. GetRandomDevAddr E) (\<lambda>a c. c\<lparr>rx_DevAddr := a\<rparr>) ''get random DevAddr error''"

definition rejoin_request_of :: "('db, 's, 'v) join_env \<Rightarrow> ('db, 's) rejoin_context \<Rightarrow> join_request res" where
  "rejoin_request_of E c =
     (case j_MarshalRequest E (rp_PHYPayload (rx_RXPacket c)) of
        Inl e \<Rightarrow> Inl (Wrap e ''PHYPayload marshal binary error'')
      | Inr b \<Rightarrow>
         (case j_random_transaction E of
            Inl e \<Rightarrow> Inl (Wrap e ''read random bytes error'')
          | Inr random \<Rightarrow>
             (case (if rx_RejoinType c = 0 \<or> rx_RejoinType c = 1
                    then marshalled_cflist E (j_GetCFList E (ds_MACVersion (rx_DeviceSession c))) else Inr []) of
                Inl e \<Rightarrow> Inl e
              | Inr cl \<Rightarrow> Inr (request_to_server E (ds_JoinEUI (rx_DeviceSession c)) b random
                  (dp_MACVersion (rx_DeviceProfile c)) (rx_DevEUI c) (rx_DevAddr c) cl))))"

definition getRejoinAcceptFromJS :: "('db, 's, 'v) join_env \<Rightarrow> ('db, 's) rejoin_task" where
  "getRejoinAcceptFromJS E c =
     (case rejoin_request_of E c of
        Inl e \<Rightarrow> (Inl e, c)
      | Inr req \<Rightarrow>
         (case j_GetClientForJoinEUI E (ds_JoinEUI (rx_DeviceSession c)) of
            Inl e \<Rightarrow> (Inl (Wrap e ''get join-server client error''), c)
          | Inr _ \<Rightarrow>
             (case j_RejoinReq E req (w_Calls c) of
                Inl e \<Rightarrow> (Inl (Wrap e ''rejoin-request to join-server error''), call_out (RejoinReq req) c)
              | Inr a \<Rightarrow> (Inr (), call_out (RejoinReq req) (c\<lparr>rx_RejoinAnsPayload := a\<rparr>)))))"

definition rejoin_sendUplinkMetaData :: "('db, 's, 'v) join_env \<Rightarrow> ('db, 's) rejoin_task" where
  "rejoin_sendUplinkMetaData E c =
     (Inr (), if j_has_controller E then call_out (request_meta E RejoinRequest (rx_DevEUI c) (rx_RXPacket c)) c else c)"

section \<open>The pending session\<close>

text \<open>\<open>&pendingDS\<close>: the pending session and what is pending beyond it.\<close>

definition with_rejoin :: "device_session \<Rightarrow> device_session \<Rightarrow> device_session" where
  "with_rejoin pendingDS ds = ds\<lparr>ds_Pending := session.truncate pendingDS # ds_Pending pendingDS\<rparr>"

definition save_pending :: "('db, 's, 'v) join_env \<Rightarrow> device_session res \<Rightarrow> ('db, 's) rejoin_task" where
  "save_pending E r c =
     (case r of
        Inl e \<Rightarrow> (Inl e, c)
      | Inr pendingDS \<Rightarrow>
          let c = c\<lparr>rx_DeviceSession := with_rejoin pendingDS (rx_DeviceSession c)\<rparr> in
          wrapping ''save device-session error''
            (on_Redis (SaveDeviceSession (n_Redis (j_down E)) (n_Sessions (j_down E)) (n_TTL (j_down E)) (rx_DeviceSession c))) c)"

text \<open>A channel-mask list is passed over here; the reference altitude of the device is not copied.\<close>

definition rejoin0_session ::
  "('db, 's, 'v) join_env \<Rightarrow> join_answer \<Rightarrow> device \<Rightarrow> device_profile \<Rightarrow> device_session \<Rightarrow> devaddr \<Rightarrow> device_session res" where
  "rejoin0_session E a d dp ds devAddr =
     (case set_session_keys E a (fresh_session E d dp (ds_JoinEUI ds) (ds_DevEUI ds) devAddr) of
        Inl e \<Rightarrow> Inl e
      | Inr p \<Rightarrow>
         (case (case j_GetCFList E (ds_MACVersion ds) of
                  Some cl \<Rightarrow> if cl_CFListType cl = CFListChannel then set_cflist E (Some cl) p else Inr p
                | None \<Rightarrow> Inr p) of
            Inl e \<Rightarrow> Inl e
          | Inr p \<Rightarrow> Inr (set_ping_slots dp p)))"

definition setRejoin0PendingDeviceSession :: "('db, 's, 'v) join_env \<Rightarrow> ('db, 's) rejoin_task" where
  "setRejoin0PendingDeviceSession E c =
     save_pending E (rejoin0_session E (rx_RejoinAnsPayload c) (rx_Device c) (rx_DeviceProfile c) (rx_DeviceSession c) (rx_DevAddr c)) c"

text \<open>A copy of the session, with what is pending in it.\<close>

definition rejoin2_session ::
  "('db, 's, 'v) join_env \<Rightarrow> join_answer \<Rightarrow> device_session \<Rightarrow> devaddr \<Rightarrow> device_session res" where
  "rejoin2_session E a ds devAddr =
     set_session_keys E a
       (ds\<lparr>ds_DevAddr := devAddr, ds_FCntUp := 0, ds_NFCntDown := 0, ds_AFCntDown := 0, ds_RejoinCount0 := 0\<rparr>)"

definition setRejoin2PendingDeviceSession :: "('db, 's, 'v) join_env \<Rightarrow> ('db, 's) rejoin_task" where
  "setRejoin2PendingDeviceSession E c =
     save_pending E (rejoin2_session E (rx_RejoinAnsPayload c) (rx_DeviceSession c) (rx_DevAddr c)) c"

section \<open>The flow\<close>

text \<open>The types of the join-requests are bytes; those of a rejoin are 0, 1 and 2.\<close>

definition join_type_of :: "nat \<Rightarrow> join_type" where
  "join_type_of t =
     (if t = 0 then RejoinRequestType0 else if t = 1 then RejoinRequestType1 else if t = 2 then RejoinRequestType2
      else JoinRequestType)"

definition rejoin_createDeviceActivation :: "('db, 's, 'v) join_env \<Rightarrow> ('db, 's) rejoin_task" where
  "rejoin_createDeviceActivation E c =
     (case PendingRejoinDeviceSession (rx_DeviceSession c) of
        None \<Rightarrow> (Inl (Errorf ''pending rejoin device-session must not be nil''), c)
      | Some p \<Rightarrow>
          wrapping ''create device-activation error'' (\<lambda>c. forget (on_DB (CreateDeviceActivation (j_Activations E)
            (activation_of p (rx_RJCount c) (join_type_of (rx_RejoinType c))) (n_now (j_down E))) c)) c)"

definition rejoin_sendJoinAcceptDownlink :: "('db, 's, 'v) join_env \<Rightarrow> ('db, 's) rejoin_task" where
  "rejoin_sendJoinAcceptDownlink E c =
     (case j_UnmarshalAccept E (ja_PHYPayload (rx_RejoinAnsPayload c)) of
        Inl e \<Rightarrow> (Inl (Wrap e ''unmarshal downlink phypayload error''), c)
      | Inr phy \<Rightarrow> wrapping ''join join-response flow error''
          (in_flow_world (JoinAccept_Handle E (rx_DeviceSession c) (rx_RXPacket c) phy)) c)"

definition errNotSupported :: "('db, 's) rejoin_task" where
  "errNotSupported c = (Inl (Errorf ''rejoin not implemented for type''), c)"

definition rejoin_authentication :: "('db, 's, 'v) join_env \<Rightarrow> ('db, 's) rejoin_task list" where
  "rejoin_authentication E =
     [rejoin_getDeviceSession E, validateRejoinCounter0, rejoin_validateMIC E, rejoin_getRandomDevAddr E, getRejoinAcceptFromJS E,
      rejoin_sendUplinkMetaData E]"

definition rejoin_tasks :: "('db, 's, 'v) join_env \<Rightarrow> ('db, 's) rejoin_task list" where
  "rejoin_tasks E =
     [setContextFromRejoinRequestPHY, logRejoinRequestFramesCollected E, getDeviceAndProfiles E, rejoin_abortOnDeviceIsDisabled,
      rejoin_filterRxInfo E, forRejoinType [0, 2] (rejoin_authentication E), forRejoinType [0] [setRejoin0PendingDeviceSession E],
      forRejoinType [1] [errNotSupported], forRejoinType [2] [setRejoin2PendingDeviceSession E],
      rejoin_createDeviceActivation E, rejoin_sendJoinAcceptDownlink E]"

definition new_rejoin_context :: "dl_packet \<Rightarrow> ('db, 's) world \<Rightarrow> ('db, 's) rejoin_context" where
  "new_rejoin_context p w =
     \<lparr>w_DB = w_DB w, w_Redis = w_Redis w, w_Calls = w_Calls w, rx_RXPacket = p, rx_RejoinType = 0, rx_RJCount = 0, rx_NetID = 0,
      rx_DevEUI = 0, rx_JoinEUI = 0, rx_Device = zero_device, rx_ServiceProfile = zero_service_profile,
      rx_DeviceProfile = zero_device_profile, rx_DeviceSession = zero_device_session, rx_DevAddr = 0,
      rx_RejoinAnsPayload = no_join_answer\<rparr>"

definition Rejoin_Handle :: "('db, 's, 'v) join_env \<Rightarrow> dl_packet \<Rightarrow> ('db, 's) world \<Rightarrow> unit res \<times> ('db, 's) world" where
  "Rejoin_Handle E rxPacket w =
     (case flow_handle (rejoin_tasks E) (new_rejoin_context rxPacket w) of (r, c) \<Rightarrow> (r, world.truncate c))"

section \<open>When a task succeeds\<close>

lemma forRejoinType_ok:
  "forRejoinType ts tasks c = (Inr u, c') \<longleftrightarrow> (if rx_RejoinType c \<in> set ts then run_tasks tasks c = (Inr (), c') else c' = c)"
  by (auto simp: forRejoinType_def)

lemma rejoin_lookup_ok:
  "setContextFromRejoinRequestPHY c = (Inr u, c') \<longleftrightarrow>
     (\<exists>t n e k. phy_MACPayload (rp_PHYPayload (rx_RXPacket c)) = Some (RejoinFrame02 t n e k) \<and>
        c' = c\<lparr>rx_NetID := n, rx_DevEUI := e, rx_RJCount := k, rx_RejoinType := t\<rparr>) \<or>
     (\<exists>j e k. phy_MACPayload (rp_PHYPayload (rx_RXPacket c)) = Some (RejoinFrame1 j e k) \<and>
        c' = c\<lparr>rx_JoinEUI := j, rx_DevEUI := e, rx_RJCount := k, rx_RejoinType := 1\<rparr>)"
  "logRejoinRequestFramesCollected E c = (Inr u, c') \<longleftrightarrow> j_log_error E (rx_RXPacket c) = None \<and> c' = c"
  "rejoin_abortOnDeviceIsDisabled c = (Inr u, c') \<longleftrightarrow> \<not> d_IsDisabled (rx_Device c) \<and> c' = c"
  "rejoin_filterRxInfo E c = (Inr u, c') \<longleftrightarrow>
     (\<exists>p. FilterRxInfoByServiceProfileID (j_ForceGwsPrivate E) (d_ServiceProfileID (rx_Device c)) (rx_RXPacket c) = Inr p \<and>
        c' = c\<lparr>rx_RXPacket := p\<rparr>)"
  by (auto simp: setContextFromRejoinRequestPHY_def logRejoinRequestFramesCollected_def rejoin_abortOnDeviceIsDisabled_def
      rejoin_filterRxInfo_def split: option.splits frame_payload.splits sum.splits)

lemma rejoin_authentication_ok:
  "validateRejoinCounter0 c = (Inr u, c') \<longleftrightarrow>
     ds_RejoinCount0 (rx_DeviceSession c) \<le> rx_RJCount c \<and> rx_RJCount c + 1 \<noteq> 0 \<and>
     c' = c\<lparr>rx_DeviceSession := (rx_DeviceSession c)\<lparr>ds_RejoinCount0 := rx_RJCount c + 1\<rparr>\<rparr>"
  "rejoin_validateMIC E c = (Inr u, c') \<longleftrightarrow>
     j_ValidateUplinkJoinMIC E (rp_PHYPayload (rx_RXPacket c)) (ds_SNwkSIntKey (rx_DeviceSession c)) = Inr True \<and> c' = c"
  "getRejoinAcceptFromJS E c = (Inr u, c') \<longleftrightarrow>
     (\<exists>req a. rejoin_request_of E c = Inr req \<and> j_GetClientForJoinEUI E (ds_JoinEUI (rx_DeviceSession c)) = Inr () \<and>
        j_RejoinReq E req (w_Calls c) = Inr a \<and> c' = call_out (RejoinReq req) (c\<lparr>rx_RejoinAnsPayload := a\<rparr>))"
  "rejoin_sendUplinkMetaData E c = (Inr u, c') \<longleftrightarrow>
     c' = (if j_has_controller E then call_out (request_meta E RejoinRequest (rx_DevEUI c) (rx_RXPacket c)) c else c)"
  by (auto simp: validateRejoinCounter0_def rejoin_validateMIC_def getRejoinAcceptFromJS_def rejoin_sendUplinkMetaData_def Let_def
      split: sum.splits if_splits)

lemma rejoin_session_ok:
  "save_pending E r c = (Inr u, c') \<longleftrightarrow>
     (\<exists>p s. r = Inr p \<and> SaveDeviceSession (n_Redis (j_down E)) (n_Sessions (j_down E)) (n_TTL (j_down E))
        (with_rejoin p (rx_DeviceSession c)) (w_Redis c) = (Inr (), s) \<and>
        c' = c\<lparr>rx_DeviceSession := with_rejoin p (rx_DeviceSession c), w_Redis := s\<rparr>)"
  "rejoin_createDeviceActivation E c = (Inr u, c') \<longleftrightarrow>
     (\<exists>p da db. PendingRejoinDeviceSession (rx_DeviceSession c) = Some p \<and>
        CreateDeviceActivation (j_Activations E) (activation_of p (rx_RJCount c) (join_type_of (rx_RejoinType c)))
          (n_now (j_down E)) (w_DB c) = (Inr da, db) \<and> c' = c\<lparr>w_DB := db\<rparr>)"
  "rejoin_sendJoinAcceptDownlink E c = (Inr u, c') \<longleftrightarrow>
     (\<exists>phy w. j_UnmarshalAccept E (ja_PHYPayload (rx_RejoinAnsPayload c)) = Inr phy \<and>
        JoinAccept_Handle E (rx_DeviceSession c) (rx_RXPacket c) phy (world.truncate c) = (Inr (), w) \<and>
        c' = c\<lparr>w_DB := w_DB w, w_Redis := w_Redis w, w_Calls := w_Calls w\<rparr>)"
  by (auto simp: save_pending_def rejoin_createDeviceActivation_def rejoin_sendJoinAcceptDownlink_def Let_def wrapping_ok on_DB_ok
      on_Redis_ok forget_ok in_flow_world_ok split: sum.splits option.splits)

lemmas rejoin_ok = rejoin_lookup_ok rejoin_authentication_ok rejoin_session_ok getDeviceAndProfiles_def
  rejoin_getDeviceSession_def rejoin_getRandomDevAddr_def reading_ok

section \<open>What a refused request leaves alone\<close>

text \<open>Tasks that neither write nor call; the first of the flow and of its authentication are of them.\<close>

definition quiet_task :: "('db, 's) rejoin_task \<Rightarrow> bool" where
  "quiet_task t \<longleftrightarrow> (\<forall>c r c'. t c = (r, c') \<longrightarrow> world.truncate c' = world.truncate c)"

lemma quiet_taskD: "quiet_task t \<Longrightarrow> t c = (r, c') \<Longrightarrow> world.truncate c' = world.truncate c"
  by (simp only: quiet_task_def)

lemma quiet_tasks: "(\<And>t. t \<in> set ts \<Longrightarrow> quiet_task t) \<Longrightarrow> quiet_task (run_tasks ts)"
  unfolding quiet_task_def by (blast intro: run_tasks_keep[where f = world.truncate])

lemma quiet_reading: "(\<And>x c. world.truncate (put x c) = world.truncate c) \<Longrightarrow> quiet_task (reading get put what)"
  by (auto simp: quiet_task_def reading_def split: sum.splits)

definition rejoin_lookup :: "('db, 's, 'v) join_env \<Rightarrow> ('db, 's) rejoin_task list" where
  "rejoin_lookup E =
     [setContextFromRejoinRequestPHY, logRejoinRequestFramesCollected E, getDeviceAndProfiles E, rejoin_abortOnDeviceIsDisabled,
      rejoin_filterRxInfo E]"

definition rejoin_rest :: "('db, 's, 'v) join_env \<Rightarrow> ('db, 's) rejoin_task list" where
  "rejoin_rest E =
     [forRejoinType [0] [setRejoin0PendingDeviceSession E], forRejoinType [1] [errNotSupported],
      forRejoinType [2] [setRejoin2PendingDeviceSession E], rejoin_createDeviceActivation E, rejoin_sendJoinAcceptDownlink E]"

lemma rejoin_tasks_split: "rejoin_tasks E = rejoin_lookup E @ forRejoinType [0, 2] (rejoin_authentication E) # rejoin_rest E"
  by (simp add: rejoin_tasks_def rejoin_lookup_def rejoin_rest_def)

lemma quiet_lookup: "quiet_task (run_tasks (rejoin_lookup E))"
proof (rule quiet_tasks)
  fix t :: "('a, 'b) rejoin_task"
  have "quiet_task (getDeviceAndProfiles E :: ('a, 'b) rejoin_task)"
    unfolding getDeviceAndProfiles_def by (rule quiet_tasks) (auto simp: quiet_task_def reading_def split: sum.splits)
  moreover assume "t \<in> set (rejoin_lookup E)"
  ultimately show "quiet_task t"
    by (auto simp: rejoin_lookup_def quiet_task_def setContextFromRejoinRequestPHY_def logRejoinRequestFramesCollected_def
        rejoin_abortOnDeviceIsDisabled_def rejoin_filterRxInfo_def split: option.splits frame_payload.splits sum.splits)
qed

lemma quiet_authentication:
  "quiet_task (run_tasks [rejoin_getDeviceSession E, validateRejoinCounter0, rejoin_validateMIC E, rejoin_getRandomDevAddr E])"
proof (rule quiet_tasks)
  fix t :: "('a, 'b) rejoin_task"
  assume "t \<in> set [rejoin_getDeviceSession E, validateRejoinCounter0, rejoin_validateMIC E, rejoin_getRandomDevAddr E]"
  then show "quiet_task t"
    by (auto simp: rejoin_getDeviceSession_def rejoin_getRandomDevAddr_def intro!: quiet_reading)
      (auto simp: quiet_task_def validateRejoinCounter0_def rejoin_validateMIC_def Let_def split: sum.splits)
qed

lemma rejoin_sessions_no_abort: "rejoin0_session E a d dp ds addr \<noteq> Inl ErrAbort" "rejoin2_session E a ds addr \<noteq> Inl ErrAbort"
  using set_session_keys_no_abort[of E a] set_cflist_no_abort[of E]
  by (auto simp: rejoin0_session_def rejoin2_session_def split: sum.splits option.splits if_splits)

lemma no_abort_rejoin_rest: "no_abort (run_tasks (rejoin_rest E))"
proof (rule no_abort_run_tasks)
  fix t :: "('a, 'b) rejoin_task"
  have save: "save_pending E r c \<noteq> (Inl ErrAbort, c')" if "r \<noteq> Inl ErrAbort" for r and c c' :: "('a, 'b) rejoin_context"
    using that by (auto simp: save_pending_def wrapping_def Let_def split: sum.splits prod.splits)
  assume "t \<in> set (rejoin_rest E)"
  then show "no_abort t"
    by (auto simp: rejoin_rest_def no_abort_def forRejoinType_def run_tasks.simps setRejoin0PendingDeviceSession_def
        setRejoin2PendingDeviceSession_def errNotSupported_def rejoin_createDeviceActivation_def rejoin_sendJoinAcceptDownlink_def
        wrapping_def save rejoin_sessions_no_abort split: sum.splits prod.splits option.splits if_splits)
qed


text \<open>A flow that is aborted has done nothing.\<close>

lemma rejoin_aborts:
  assumes "run_tasks (rejoin_tasks E) c = (Inl ErrAbort, c')"
  shows "world.truncate c' = world.truncate c"
proof -
  obtain r1 c1 where 1: "run_tasks (rejoin_lookup E) c = (r1, c1)" by fastforce
  have q1: "world.truncate c1 = world.truncate c" using quiet_lookup 1 by (auto simp: quiet_task_def)
  have auth: "world.truncate c' = world.truncate c1" if "run_tasks (rejoin_authentication E) c1 = (Inl ErrAbort, c')"
  proof -
    let ?ts = "[rejoin_getDeviceSession E, validateRejoinCounter0, rejoin_validateMIC E, rejoin_getRandomDevAddr E]"
    have split: "rejoin_authentication E = ?ts @ [getRejoinAcceptFromJS E, rejoin_sendUplinkMetaData E]"
      by (simp add: rejoin_authentication_def)
    have "no_abort (run_tasks [getRejoinAcceptFromJS E, rejoin_sendUplinkMetaData E :: ('a, 'b) rejoin_task])"
      by (rule no_abort_run_tasks)
        (auto simp: no_abort_def getRejoinAcceptFromJS_def rejoin_request_of_def marshalled_cflist_def rejoin_sendUplinkMetaData_def
          split: sum.splits option.splits if_splits)
    then have "run_tasks ?ts c1 = (Inl ErrAbort, c')"
      using that unfolding split run_tasks_append by (auto simp: no_abort_def split: prod.splits sum.splits)
    then show ?thesis using quiet_authentication unfolding quiet_task_def by blast
  qed
  show ?thesis
    using assms 1 q1 auth no_abort_rejoin_rest[of E]
    by (auto simp: rejoin_tasks_split run_tasks_append run_tasks.simps(2) forRejoinType_def no_abort_def
        split: sum.splits prod.splits if_splits)
qed

text \<open>What a lookup that succeeds has found.\<close>

lemma rejoin_found:
  assumes "run_tasks (rejoin_lookup E) (new_rejoin_context p w) = (Inr (), c)"
    and "phy_MACPayload (rp_PHYPayload p) = Some (RejoinFrame02 t netID devEUI n)"
  shows "\<exists>d dp. GetDevice (j_Devices E) devEUI (w_DB w) = Inr d \<and> \<not> d_IsDisabled d \<and> dp_SupportsJoin dp \<and>
    FilterRxInfoByServiceProfileID (j_ForceGwsPrivate E) (d_ServiceProfileID d) p = Inr (rx_RXPacket c) \<and>
    w_DB c = w_DB w \<and> w_Redis c = w_Redis w \<and> w_Calls c = w_Calls w \<and> rx_RejoinType c = t \<and> rx_RJCount c = n \<and> rx_DevEUI c = devEUI \<and>
    rx_Device c = d \<and> rx_DeviceProfile c = dp \<and> rx_DeviceSession c = zero_device_session"
  using assms by (auto simp: rejoin_lookup_def run_tasks_ok rejoin_ok new_rejoin_context_def split: if_splits)

lemma new_rejoin_world: "world.truncate (new_rejoin_context p w) = (w :: ('db, 's) world)"
  by (simp add: new_rejoin_context_def)

text \<open>A counter below the stored one ends the flow.\<close>

lemma old_rejoin_counter:
  assumes "session_store (n_Redis (j_down E)) holds (n_Sessions (j_down E)) (n_TTL (j_down E))"
    and "phy_MACPayload (rp_PHYPayload p) = Some (RejoinFrame02 t netID devEUI n)"
    and "\<And>ds. session_at (n_Sessions (j_down E)) (holds (w_Redis w)) devEUI = Some ds \<Longrightarrow> n < ds_RejoinCount0 ds"
    and "Rejoin_Handle E p w = (r, w')"
  shows "w' = w"
proof -
  let ?c = "new_rejoin_context p w"
  obtain x c' where run: "run_tasks (rejoin_tasks E) ?c = (x, c')" and w': "w' = world.truncate c'"
    using assms(4) by (auto simp: Rejoin_Handle_def dest!: flow_handle_tasks split: prod.splits)
  obtain r1 c1 where look: "run_tasks (rejoin_lookup E) ?c = (r1, c1)" by fastforce
  have q1: "world.truncate c1 = w" unfolding quiet_taskD[OF quiet_lookup look] by (rule new_rejoin_world)
  have "world.truncate c' = w"
  proof (cases r1)
    case (Inl e)
    then show ?thesis using run look q1 by (auto simp: rejoin_tasks_split run_tasks_append simp del: world_simps)
  next
    case (Inr u)
    then have found: "rx_RejoinType c1 = t" "rx_RJCount c1 = n" "rx_DevEUI c1 = devEUI" "rx_DeviceSession c1 = zero_device_session"
      "w_Redis c1 = w_Redis w"
      using rejoin_found[of E p w c1 t netID devEUI n] look assms(2) by auto
    have run1: "run_tasks (forRejoinType [0, 2] (rejoin_authentication E) # rejoin_rest E) c1 = (x, c')"
      using run look Inr by (simp add: rejoin_tasks_split run_tasks_append)
    show ?thesis
    proof (cases "t = 0 \<or> t = 2")
      case True
      have "run_tasks (rejoin_authentication E) c1 = (y, c2) \<Longrightarrow> (\<exists>e. y = Inl e) \<and> world.truncate c2 = w" for y c2
        using session_store.GetDeviceSession_at(1)[OF assms(1) refl] assms(3) found q1
        by (auto simp: rejoin_authentication_def run_tasks.simps(2) rejoin_getDeviceSession_def reading_def validateRejoinCounter0_def
            Let_def not_le[symmetric] split: sum.splits)
      then show ?thesis using run1 True found(1) by (auto simp: run_tasks.simps(2) forRejoinType_def simp del: world_simps split: sum.splits prod.splits)
    next
      case False
      then show ?thesis using run1 found q1
        by (auto simp: run_tasks.simps(2) forRejoinType_def rejoin_rest_def errNotSupported_def run_tasks.simps(1)
            rejoin_createDeviceActivation_def PendingRejoinDeviceSession_def zero_device_session_fields split: if_splits)
    qed
  qed
  then show ?thesis using w' by simp
qed


section \<open>The session a rejoin prepares\<close>

text \<open>The keys of \<open>ds'\<close>: those the join-server answered, and those of \<open>ds\<close> where it answered none.\<close>

definition rekeyed_to :: "('db, 's, 'v) join_env \<Rightarrow> key_envelope option \<Rightarrow> key_envelope option \<Rightarrow> aeskey \<Rightarrow> aeskey \<Rightarrow> bool" where
  "rekeyed_to E specific general old new \<longleftrightarrow>
     (if specific = None \<and> general = None then new = old else answer_key E specific general = Inr new)"

definition rekeyed :: "('db, 's, 'v) join_env \<Rightarrow> join_answer \<Rightarrow> device_session \<Rightarrow> device_session \<Rightarrow> bool" where
  "rekeyed E a ds ds' \<longleftrightarrow>
     rekeyed_to E (ja_SNwkSIntKey a) (ja_NwkSKey a) (ds_SNwkSIntKey ds) (ds_SNwkSIntKey ds') \<and>
     rekeyed_to E (ja_FNwkSIntKey a) (ja_NwkSKey a) (ds_FNwkSIntKey ds) (ds_FNwkSIntKey ds') \<and>
     rekeyed_to E (ja_NwkSEncKey a) (ja_NwkSKey a) (ds_NwkSEncKey ds) (ds_NwkSEncKey ds')"

definition starts_pending :: "('db, 's, 'v) join_env \<Rightarrow> nat \<Rightarrow> join_answer \<Rightarrow> device_session \<Rightarrow> devaddr \<Rightarrow> device_session \<Rightarrow> bool" where
  "starts_pending E t a ds devAddr p \<longleftrightarrow>
     ds_DevEUI p = ds_DevEUI ds \<and> ds_JoinEUI p = ds_JoinEUI ds \<and> ds_DevAddr p = devAddr \<and> ds_FCntUp p = 0 \<and> ds_NFCntDown p = 0 \<and>
     ds_AFCntDown p = 0 \<and> ds_RejoinCount0 p = 0 \<and> rekeyed E a (if t = 0 then zero_device_session else ds) p"

lemma set_session_keys_rekeyed: "set_session_keys E a ds = Inr ds' \<Longrightarrow> rekeyed E a ds ds'"
  by (auto simp: set_session_keys_def with_key_def rekeyed_def rekeyed_to_def answer_key_def Let_def split: option.splits sum.splits)

lemma rekeyed_view: "key_view ds1 = key_view ds2 \<Longrightarrow> rekeyed E a ds ds1 = rekeyed E a ds ds2"
  "key_view ds1 = key_view ds2 \<Longrightarrow> rekeyed E a ds1 ds = rekeyed E a ds2 ds"
  by (simp_all add: rekeyed_def key_view_def)

lemma set_cflist_views: "set_cflist E cl ds = Inr ds' \<Longrightarrow> join_view ds' = join_view ds \<and> key_view ds' = key_view ds"
  using add_cflist_channels_ok
  by (auto simp: set_cflist_def join_view_def key_view_def split: option.splits cflist_type.splits cflist_payload.splits)

lemma rejoin0_session_ok:
  assumes "rejoin0_session E a d dp ds addr = Inr p"
  shows "starts_pending E 0 a ds addr p"
proof -
  let ?ds0 = "fresh_session E d dp (ds_JoinEUI ds) (ds_DevEUI ds) addr"
  obtain p1 p2 where 1: "set_session_keys E a ?ds0 = Inr p1" and 2: "join_view p2 = join_view p1 \<and> key_view p2 = key_view p1"
    and p: "p = set_ping_slots dp p2"
    using assms by (auto simp: rejoin0_session_def split: sum.splits option.splits if_splits dest: set_cflist_views)
  have "join_view ?ds0 = ((ds_DevEUI ds, ds_JoinEUI ds, addr), (0, 0, 0, 0, 0), [], [])" "key_view ?ds0 = key_view zero_device_session"
    by (simp_all add: join_view_def key_view_def fresh_session_def Let_def zero_device_session_fields)
  moreover have "join_view p = join_view p2" "key_view p = key_view p2"
    by (simp_all add: p set_ping_slots_def join_view_def key_view_def)
  ultimately have "join_view p = ((ds_DevEUI ds, ds_JoinEUI ds, addr), (0, 0, 0, 0, 0), [], [])" "rekeyed E a zero_device_session p"
    using 2 set_session_keys_ok(1)[OF 1] set_session_keys_rekeyed[OF 1] rekeyed_view by metis+
  then show ?thesis by (simp add: starts_pending_def join_view_def)
qed

lemma rejoin2_session_ok:
  assumes "rejoin2_session E a ds addr = Inr p"
  shows "starts_pending E 2 a ds addr p"
proof -
  let ?ds0 = "ds\<lparr>ds_DevAddr := addr, ds_FCntUp := 0, ds_NFCntDown := 0, ds_AFCntDown := 0, ds_RejoinCount0 := 0\<rparr>"
  have 1: "set_session_keys E a ?ds0 = Inr p" using assms by (simp add: rejoin2_session_def)
  have "key_view ?ds0 = key_view ds" by (simp add: key_view_def)
  have "rekeyed E a ds p" using set_session_keys_rekeyed[OF 1] unfolding rekeyed_view(2)[OF \<open>key_view ?ds0 = key_view ds\<close>] by this
  then show ?thesis using set_session_keys_ok(1)[OF 1] by (simp add: starts_pending_def join_view_def)
qed

lemma PendingRejoin_with_rejoin: "PendingRejoinDeviceSession (with_rejoin p ds) = Some p"
  by (simp add: PendingRejoinDeviceSession_def with_rejoin_def with_pending_def session.defs device_session.defs)

lemma rejoin_session_read:
  "rejoin_getDeviceSession E c = (Inr u, c') \<longleftrightarrow>
     (\<exists>ds. GetDeviceSession (n_Redis (j_down E)) (n_Sessions (j_down E)) (rx_DevEUI c) (w_Redis c) = Inr ds \<and>
        c' = c\<lparr>rx_DeviceSession := ds\<rparr>)"
  by (simp add: rejoin_getDeviceSession_def reading_ok)

lemma for_type_first:
  "run_tasks (forRejoinType ts tasks # rest) c = (Inr u, c') \<longleftrightarrow>
     (if rx_RejoinType c \<in> set ts then \<exists>c1. run_tasks tasks c = (Inr (), c1) \<and> run_tasks rest c1 = (Inr u, c')
      else run_tasks rest c = (Inr u, c'))"
  by (auto simp: run_tasks_ok(2) forRejoinType_ok)

lemma single_task: "run_tasks [t] c = (Inr u, c') \<longleftrightarrow> t c = (Inr (), c')"
  by (auto simp: run_tasks_ok)

lemma rejoin_request_ids:
  "rejoin_request_of E c = Inr req \<Longrightarrow>
     jq_ReceiverID req = ds_JoinEUI (rx_DeviceSession c) \<and> jq_DevEUI req = rx_DevEUI c \<and> jq_DevAddr req = rx_DevAddr c"
  by (auto simp: rejoin_request_of_def request_to_server_def split: sum.splits)

text \<open>What the rest has done.\<close>

lemma rejoin_done:
  assumes "run_tasks (forRejoinType [0, 2] (rejoin_authentication E) # rejoin_rest E) c = (Inr (), c')" and "rx_RejoinType c \<in> {0, 2}"
  shows "\<exists>ds addr req a p s1 da db cs phy w1 w2.
    GetDeviceSession (n_Redis (j_down E)) (n_Sessions (j_down E)) (rx_DevEUI c) (w_Redis c) = Inr ds \<and>
    ds_RejoinCount0 ds \<le> rx_RJCount c \<and> rx_RJCount c + 1 \<noteq> 0 \<and>
    j_ValidateUplinkJoinMIC E (rp_PHYPayload (rx_RXPacket c)) (ds_SNwkSIntKey ds) = Inr True \<and>
    jq_ReceiverID req = ds_JoinEUI ds \<and> jq_DevEUI req = rx_DevEUI c \<and> jq_DevAddr req = addr \<and> j_RejoinReq E req (w_Calls c) = Inr a \<and>
    starts_pending E (rx_RejoinType c) a ds addr p \<and>
    SaveDeviceSession (n_Redis (j_down E)) (n_Sessions (j_down E)) (n_TTL (j_down E))
      (with_rejoin p (ds\<lparr>ds_RejoinCount0 := rx_RJCount c + 1\<rparr>)) (w_Redis c) = (Inr (), s1) \<and>
    CreateDeviceActivation (j_Activations E) (activation_of p (rx_RJCount c) (join_type_of (rx_RejoinType c)))
      (n_now (j_down E)) (w_DB c) = (Inr da, db) \<and>
    cs = (if j_has_controller E then [request_meta E RejoinRequest (rx_DevEUI c) (rx_RXPacket c)] else []) \<and>
    j_UnmarshalAccept E (ja_PHYPayload a) = Inr phy \<and> w1 = \<lparr>w_DB = db, w_Redis = s1, w_Calls = w_Calls c @ RejoinReq req # cs\<rparr> \<and>
    JoinAccept_Handle E (with_rejoin p (ds\<lparr>ds_RejoinCount0 := rx_RJCount c + 1\<rparr>)) (rx_RXPacket c) phy w1 = (Inr (), w2) \<and>
    world.truncate c' = w2"
proof -
  obtain c1 where auth: "run_tasks (rejoin_authentication E) c = (Inr (), c1)" and rest: "run_tasks (rejoin_rest E) c1 = (Inr (), c')"
    using assms by (auto simp: run_tasks_ok(2) forRejoinType_ok)
  let ?ts = "[rejoin_getRandomDevAddr E, getRejoinAcceptFromJS E, rejoin_sendUplinkMetaData E]"
  obtain ds where ds: "GetDeviceSession (n_Redis (j_down E)) (n_Sessions (j_down E)) (rx_DevEUI c) (w_Redis c) = Inr ds"
    "ds_RejoinCount0 ds \<le> rx_RJCount c" "rx_RJCount c + 1 \<noteq> 0"
    "j_ValidateUplinkJoinMIC E (rp_PHYPayload (rx_RXPacket c)) (ds_SNwkSIntKey ds) = Inr True"
    and auth2: "run_tasks ?ts (c\<lparr>rx_DeviceSession := ds\<lparr>ds_RejoinCount0 := rx_RJCount c + 1\<rparr>\<rparr>) = (Inr (), c1)"
    using auth
    by (auto simp: rejoin_authentication_def run_tasks_ok(2)[of "rejoin_getDeviceSession E"] run_tasks_ok(2)[of validateRejoinCounter0]
        run_tasks_ok(2)[of "rejoin_validateMIC E"] rejoin_session_read rejoin_authentication_ok)
  define cs where "cs = (if j_has_controller E then [request_meta E RejoinRequest (rx_DevEUI c) (rx_RXPacket c)] else [])"
  obtain addr req a where req: "rejoin_request_of E (c\<lparr>rx_DeviceSession := ds\<lparr>ds_RejoinCount0 := rx_RJCount c + 1\<rparr>, rx_DevAddr := addr\<rparr>) = Inr req"
    "j_RejoinReq E req (w_Calls c) = Inr a"
    and c1: "c1 = c\<lparr>rx_DeviceSession := ds\<lparr>ds_RejoinCount0 := rx_RJCount c + 1\<rparr>, rx_DevAddr := addr, rx_RejoinAnsPayload := a,
      w_Calls := w_Calls c @ RejoinReq req # cs\<rparr>"
    using auth2 by (auto simp: run_tasks_ok rejoin_getRandomDevAddr_def reading_ok rejoin_authentication_ok call_out_def cs_def)
  note 1 = ds req(2) cs_def
  have ids: "jq_ReceiverID req = ds_JoinEUI ds" "jq_DevEUI req = rx_DevEUI c" "jq_DevAddr req = addr"
    using rejoin_request_ids[OF req(1)] by simp_all
  let ?ds = "ds\<lparr>ds_RejoinCount0 := rx_RJCount c + 1\<rparr>"
  let ?S = "\<lambda>p s. SaveDeviceSession (n_Redis (j_down E)) (n_Sessions (j_down E)) (n_TTL (j_down E)) (with_rejoin p ?ds) (w_Redis c) = (Inr (), s)"
  obtain p s1 where p: "starts_pending E (rx_RejoinType c) a ?ds addr p" and save: "?S p s1"
    and tail: "run_tasks [rejoin_createDeviceActivation E, rejoin_sendJoinAcceptDownlink E] (c1\<lparr>rx_DeviceSession := with_rejoin p ?ds, w_Redis := s1\<rparr>) = (Inr (), c')"
  proof (cases "rx_RejoinType c = 0")
    case True
    then show ?thesis using rest that
      by (auto simp: rejoin_rest_def c1 for_type_first single_task setRejoin0PendingDeviceSession_def rejoin_session_ok(1)
          dest: rejoin0_session_ok)
  next
    case False
    then have "rx_RejoinType c = 2" using assms(2) by simp
    then show ?thesis using rest that
      by (auto simp: rejoin_rest_def c1 for_type_first single_task setRejoin2PendingDeviceSession_def rejoin_session_ok(1)
          dest: rejoin2_session_ok)
  qed
  obtain da db phy w2 where act: "CreateDeviceActivation (j_Activations E) (activation_of p (rx_RJCount c) (join_type_of (rx_RejoinType c)))
      (n_now (j_down E)) (w_DB c) = (Inr da, db)"
    and phy: "j_UnmarshalAccept E (ja_PHYPayload a) = Inr phy"
    and accept: "JoinAccept_Handle E (with_rejoin p ?ds) (rx_RXPacket c) phy \<lparr>w_DB = db, w_Redis = s1, w_Calls = w_Calls c @ RejoinReq req # cs\<rparr> = (Inr (), w2)"
    "world.truncate c' = w2"
    using tail by (auto simp: run_tasks_ok rejoin_session_ok PendingRejoin_with_rejoin c1)
  have "starts_pending E (rx_RejoinType c) a ds addr p"
    using p rekeyed_view(2)[of ?ds ds] by (auto simp: starts_pending_def key_view_def split: if_splits)
  then show ?thesis using 1 ids save act phy accept
    by (intro exI[of _ ds] exI[of _ addr] exI[of _ req] exI[of _ a] exI[of _ p] exI[of _ s1] exI[of _ da] exI[of _ db] exI[of _ cs]
        exI[of _ phy] exI[of _ "\<lparr>w_DB = db, w_Redis = s1, w_Calls = w_Calls c @ RejoinReq req # cs\<rparr>"] exI[of _ w2]) simp
qed


section \<open>Properties\<close>

lemma filtered_frame: "FilterRxInfoByServiceProfileID force i p = Inr p' \<Longrightarrow> rp_PHYPayload p' = rp_PHYPayload p"
  by (auto simp: FilterRxInfoByServiceProfileID_def Let_def split: if_splits)

lemma stored_rejoin_count: "ds_RejoinCount0 (deviceSessionFromPB (deviceSessionToPB ds)) = ds_RejoinCount0 ds"
  by (simp add: deviceSessionFromPB_def deviceSessionToPB_def with_pending_def session.defs device_session_pb.defs
      session_from_pb_def session_to_pb_def session_pb.defs)

lemma below_next: "n' \<le> n \<Longrightarrow> n + 1 \<noteq> 0 \<Longrightarrow> n' < n + (1 :: 'a::len word)"
  using unatSuc[of n] by (simp add: word_less_nat_alt word_le_nat_alt add.commute)

text \<open>What a rejoin that is handled without an error has done, if it has done anything.\<close>

lemma rejoin_outcome:
  assumes "activation_db (j_Activations E) arows acolumns akeyed"
    and "session_store (n_Redis (j_down E)) holds (n_Sessions (j_down E)) (n_TTL (j_down E))" and "sorts_by_signal (n_sort (j_down E))"
    and "phy_MACPayload (rp_PHYPayload p) = Some (RejoinFrame02 t netID devEUI n)" and "t \<in> {0, 2}"
    and "\<And>ds. session_at (n_Sessions (j_down E)) (holds (w_Redis w)) devEUI = Some ds \<Longrightarrow> ds_DevEUI ds = devEUI"
    and "Rejoin_Handle E p w = (Inr (), w')"
  shows "w' = w \<or>
    (\<exists>ds req a pending f cs g b phy.
      session_at (n_Sessions (j_down E)) (holds (w_Redis w)) devEUI = Some ds \<and> ds_RejoinCount0 ds \<le> n \<and> n + 1 \<noteq> 0 \<and>
      j_ValidateUplinkJoinMIC E (rp_PHYPayload p) (ds_SNwkSIntKey ds) = Inr True \<and>
      j_RejoinReq E req (w_Calls w) = Inr a \<and> jq_ReceiverID req = ds_JoinEUI ds \<and> jq_DevEUI req = devEUI \<and>
      starts_pending E t a ds (jq_DevAddr req) pending \<and>
      session_at (n_Sessions (j_down E)) (holds (w_Redis w')) devEUI =
        Some (deviceSessionFromPB (deviceSessionToPB (with_rejoin pending (ds\<lparr>ds_RejoinCount0 := n + 1\<rparr>)))) \<and>
      devEUI \<in> c_set (holds (w_Redis w')) (devAddrKey (ds_DevAddr ds)) \<and>
      devEUI \<in> c_set (holds (w_Redis w')) (devAddrKey (jq_DevAddr req)) \<and>
      (\<exists>r. arows (w_DB w') = add_mset r (arows (w_DB w)) \<and> nonce_used (ds_JoinEUI ds) devEUI n (join_type_of t) r) \<and>
      gri_GatewayID g \<in> GetGatewayID ` set (rp_RXInfoSet p) \<and> j_UnmarshalAccept E (ja_PHYPayload a) = Inr phy \<and>
      n_MarshalBinary (j_down E) (fst phy) (snd phy) = Inr b \<and> accept_frame E g p b f \<and>
      w_Calls w' = w_Calls w @ RejoinReq req # cs @ [SendTXPacket f] \<and> (\<forall>c \<in> set cs. \<exists>m t r. c = HandleUplinkMetaData m t r))"
proof -
  let ?c = "new_rejoin_context p w"
  obtain x c' where run: "run_tasks (rejoin_tasks E) ?c = (x, c')" "x = Inr () \<or> x = Inl ErrAbort" and w': "w' = world.truncate c'"
    using assms(7) by (auto simp: Rejoin_Handle_def flow_handle_def split: prod.splits sum.splits if_splits)
  show ?thesis
  proof (cases "x = Inl ErrAbort")
    case True
    have "world.truncate c' = world.truncate ?c" by (rule rejoin_aborts) (use run(1) True in simp)
    then have "w' = w" unfolding w' by (simp only: new_rejoin_world)
    then show ?thesis by simp
  next
    case False
    then have full: "run_tasks (rejoin_tasks E) ?c = (Inr (), c')" using run by simp
    then obtain c1 where look: "run_tasks (rejoin_lookup E) ?c = (Inr (), c1)"
      and rest: "run_tasks (forRejoinType [0, 2] (rejoin_authentication E) # rejoin_rest E) c1 = (Inr (), c')"
      by (auto simp: rejoin_tasks_split run_tasks_append split: prod.splits sum.splits)
    obtain d :: device where filter: "FilterRxInfoByServiceProfileID (j_ForceGwsPrivate E) (d_ServiceProfileID d) p = Inr (rx_RXPacket c1)"
      and c1: "w_DB c1 = w_DB w" "w_Redis c1 = w_Redis w" "w_Calls c1 = w_Calls w" "rx_RejoinType c1 = t" "rx_RJCount c1 = n"
        "rx_DevEUI c1 = devEUI"
      using rejoin_found[OF look assms(4)] by (elim exE conjE) (rule that)
    obtain ds addr req a pending s1 da db cs phy w1 w2 where
      get: "GetDeviceSession (n_Redis (j_down E)) (n_Sessions (j_down E)) devEUI (w_Redis w) = Inr ds"
      and auth: "ds_RejoinCount0 ds \<le> n" "n + 1 \<noteq> 0" "j_ValidateUplinkJoinMIC E (rp_PHYPayload (rx_RXPacket c1)) (ds_SNwkSIntKey ds) = Inr True"
      and req: "jq_ReceiverID req = ds_JoinEUI ds" "jq_DevEUI req = devEUI" "jq_DevAddr req = addr" "j_RejoinReq E req (w_Calls w) = Inr a"
      and pend: "starts_pending E t a ds addr pending"
      and save: "SaveDeviceSession (n_Redis (j_down E)) (n_Sessions (j_down E)) (n_TTL (j_down E))
          (with_rejoin pending (ds\<lparr>ds_RejoinCount0 := n + 1\<rparr>)) (w_Redis w) = (Inr (), s1)"
      and act: "CreateDeviceActivation (j_Activations E) (activation_of pending n (join_type_of t)) (n_now (j_down E)) (w_DB w) = (Inr da, db)"
      and cs: "cs = (if j_has_controller E then [request_meta E RejoinRequest devEUI (rx_RXPacket c1)] else [])"
      and phy: "j_UnmarshalAccept E (ja_PHYPayload a) = Inr phy" "w1 = \<lparr>w_DB = db, w_Redis = s1, w_Calls = w_Calls w @ RejoinReq req # cs\<rparr>"
      and accept: "JoinAccept_Handle E (with_rejoin pending (ds\<lparr>ds_RejoinCount0 := n + 1\<rparr>)) (rx_RXPacket c1) phy w1 = (Inr (), w2)"
        "world.truncate c' = w2"
      using rejoin_done[OF rest, unfolded c1, OF assms(5)] by (elim exE conjE) (rule that)
    let ?ds = "with_rejoin pending (ds\<lparr>ds_RejoinCount0 := n + 1\<rparr>)"
    have at: "session_at (n_Sessions (j_down E)) (holds (w_Redis w)) devEUI = Some ds"
      by (rule session_store.GetDeviceSession_at(1)[OF assms(2) get]) simp
    note dev = assms(6)[OF at]
    obtain g b f s3 where g: "SelectDownlinkGateway (n_sort (j_down E)) (n_intn (j_down E)) (n_Band (j_down E))
        (cf_gatewayPreferMinMargin (n_conf (j_down E))) (rp_DR (rx_RXPacket c1)) (map rx_info_of (rp_RXInfoSet (rx_RXPacket c1))) = Inr g"
      and b: "n_MarshalBinary (j_down E) (fst phy) (snd phy) = Inr b" and f: "accept_frame E g (rx_RXPacket c1) b f"
      and frame: "SaveDownlinkFrame (n_Redis (j_down E)) (n_Frames (j_down E)) (jd_stored ?ds f) s1 = (Inr (), s3)"
      and w2: "w2 = w1\<lparr>w_Redis := s3, w_Calls := w_Calls w1 @ [SendTXPacket f]\<rparr>"
      using accept_outcome[OF accept(1)] phy(2) by auto
    have fin: "w_Redis w' = s3" "w_DB w' = db" "w_Calls w' = w_Calls w @ RejoinReq req # cs @ [SendTXPacket f]"
      using w' accept(2) w2 phy(2) by simp_all
    note packet = filtered_packet[OF filter] and phy_same = filtered_frame[OF filter]
    have g': "gri_GatewayID g \<in> GetGatewayID ` set (rp_RXInfoSet p)"
      using selected_gateway[OF assms(3) g] packet by (auto simp: rx_info_of_def)
    have f': "accept_frame E g p b f" using f accept_frame_packet packet by blast
    have ids: "ds_DevEUI ?ds = devEUI" "ds_DevAddr ?ds = ds_DevAddr ds" "addr \<in> addresses ?ds" "ds_DevAddr ds \<in> addresses ?ds"
      using dev pend by (simp_all add: with_rejoin_def addresses_def starts_pending_def session.defs)
    obtain v where v: "holds s3 = (holds s1)\<lparr>c_val := (c_val (holds s1))(downlinkFrameKey (sf_Token (jd_stored ?ds f)) \<mapsto> v)\<rparr>"
      using session_store.SaveFrame_holds[OF assms(2) frame] by blast
    have held: "session_at (n_Sessions (j_down E)) (holds s3) devEUI = Some (deviceSessionFromPB (deviceSessionToPB ?ds))"
      "devEUI \<in> c_set (holds s3) (devAddrKey (ds_DevAddr ds))" "devEUI \<in> c_set (holds s3) (devAddrKey addr)"
      using session_store.Save_stores[OF assms(2) save, unfolded ids(1)] ids(3,4) by (simp_all add: session_at_def v)
    have used: "\<exists>r. arows db = add_mset r (arows (w_DB w)) \<and> nonce_used (ds_JoinEUI ds) devEUI n (join_type_of t) r"
      using activation_db.created[OF assms(1) act] pend dev by (simp add: activation_of_def starts_pending_def)
    have meta: "\<forall>c \<in> set cs. \<exists>m t r. c = HandleUplinkMetaData m t r" using cs by (auto simp: request_meta_def)
    show ?thesis
      by (rule disjI2, rule exI[of _ ds], rule exI[of _ req], rule exI[of _ a], rule exI[of _ pending], rule exI[of _ f], rule exI[of _ cs],
          rule exI[of _ g], rule exI[of _ b], rule exI[of _ phy])
        (use at auth[unfolded phy_same] req pend held used g' phy(1) b f' fin meta in simp)
  qed
qed

text \<open>
  C9: a rejoin leaves the session in use. A rejoin-request of type 0 or 2 that is handled without an
  error either does nothing at all, or it was authentic under the key of the stored session of the device and its
  counter was not used before; then the stored session is as it was but for the next rejoin counter, and
  beside it is a pending session with the address the join-server was told, the keys it answered and
  counters at zero; the device is found at both addresses, the activation is recorded, and after the request
  to the join-server one frame is sent, with the join-accept.
\<close>

theorem rejoin_prepares_a_session:
  assumes "activation_db (j_Activations E) arows acolumns akeyed"
    and "session_store (n_Redis (j_down E)) holds (n_Sessions (j_down E)) (n_TTL (j_down E))" and "sorts_by_signal (n_sort (j_down E))"
    and "phy_MACPayload (rp_PHYPayload p) = Some (RejoinFrame02 t netID devEUI n)" and "t \<in> {0, 2}"
    and "\<And>ds. session_at (n_Sessions (j_down E)) (holds (w_Redis w)) devEUI = Some ds \<Longrightarrow> ds_DevEUI ds = devEUI"
    and "Rejoin_Handle E p w = (Inr (), w')"
  shows "w' = w \<or>
    (\<exists>ds req a pending f cs g b phy.
      session_at (n_Sessions (j_down E)) (holds (w_Redis w)) devEUI = Some ds \<and> ds_RejoinCount0 ds \<le> n \<and> n + 1 \<noteq> 0 \<and>
      j_ValidateUplinkJoinMIC E (rp_PHYPayload p) (ds_SNwkSIntKey ds) = Inr True \<and>
      j_RejoinReq E req (w_Calls w) = Inr a \<and> jq_ReceiverID req = ds_JoinEUI ds \<and> jq_DevEUI req = devEUI \<and>
      starts_pending E t a ds (jq_DevAddr req) pending \<and>
      session_at (n_Sessions (j_down E)) (holds (w_Redis w')) devEUI =
        Some (deviceSessionFromPB (deviceSessionToPB (with_rejoin pending (ds\<lparr>ds_RejoinCount0 := n + 1\<rparr>)))) \<and>
      devEUI \<in> c_set (holds (w_Redis w')) (devAddrKey (ds_DevAddr ds)) \<and>
      devEUI \<in> c_set (holds (w_Redis w')) (devAddrKey (jq_DevAddr req)) \<and>
      (\<exists>r. arows (w_DB w') = add_mset r (arows (w_DB w)) \<and> nonce_used (ds_JoinEUI ds) devEUI n (join_type_of t) r) \<and>
      gri_GatewayID g \<in> GetGatewayID ` set (rp_RXInfoSet p) \<and> j_UnmarshalAccept E (ja_PHYPayload a) = Inr phy \<and>
      n_MarshalBinary (j_down E) (fst phy) (snd phy) = Inr b \<and> accept_frame E g p b f \<and>
      w_Calls w' = w_Calls w @ RejoinReq req # cs @ [SendTXPacket f] \<and> (\<forall>c \<in> set cs. \<exists>m t r. c = HandleUplinkMetaData m t r))"
  using assms by (rule rejoin_outcome)

text \<open>
  C10: a rejoin counter is used once. After a rejoin-request that was answered, no other
  rejoin-request of the device with a counter that is not above it does anything: tables, Redis and
  the calls that were made stay as they are, whatever its type and its integrity code.
\<close>

theorem rejoin_counter_is_used_once:
  assumes "activation_db (j_Activations E) arows acolumns akeyed"
    and "session_store (n_Redis (j_down E)) holds (n_Sessions (j_down E)) (n_TTL (j_down E))" and "sorts_by_signal (n_sort (j_down E))"
    and "phy_MACPayload (rp_PHYPayload p) = Some (RejoinFrame02 t netID devEUI n)" and "t \<in> {0, 2}"
    and "\<And>ds. session_at (n_Sessions (j_down E)) (holds (w_Redis w)) devEUI = Some ds \<Longrightarrow> ds_DevEUI ds = devEUI"
    and "Rejoin_Handle E p w = (Inr (), w1)" and "w1 \<noteq> w"
    and "phy_MACPayload (rp_PHYPayload q) = Some (RejoinFrame02 t' netID' devEUI n')" and "n' \<le> n"
    and "Rejoin_Handle E q w1 = (r, w2)"
  shows "w2 = w1"
proof -
  obtain ds pending where "n + 1 \<noteq> 0" "session_at (n_Sessions (j_down E)) (holds (w_Redis w1)) devEUI =
      Some (deviceSessionFromPB (deviceSessionToPB (with_rejoin pending (ds\<lparr>ds_RejoinCount0 := n + 1\<rparr>))))"
    using rejoin_outcome[OF assms(1-5) assms(6) assms(7)] assms(8) by blast
  then have "n' < ds_RejoinCount0 x" if "session_at (n_Sessions (j_down E)) (holds (w_Redis w1)) devEUI = Some x" for x
    using that assms(10) by (auto simp: stored_rejoin_count with_rejoin_def below_next)
  then show ?thesis by (rule old_rejoin_counter[OF assms(2,9) _ assms(11)])
qed


section \<open>A sample\<close>

text \<open>Device 7, whose session expects any counter, sends a rejoin-request of type 2.\<close>

definition rejoin_frame :: dl_packet where
  "rejoin_frame = sample_packet \<lparr>phy_MType = RejoinRequest, phy_MACPayload = Some (RejoinFrame02 2 1 7 5)\<rparr>"

abbreviation rejoin_answer :: join_answer where
  "rejoin_answer \<equiv> no_join_answer\<lparr>ja_PHYPayload := [32], ja_NwkSKey := Some \<lparr>ke_KEKLabel = [], ke_AESKey = [6]\<rparr>\<rparr>"

lemma rejoining_session:
  "GetDeviceSession mem_redis session_values 7 memory_7 = Inr device_7" "ds_RejoinCount0 device_7 = 0" "ds_JoinEUI device_7 = 0"
  "\<exists>p. rejoin2_session sample_join_env rejoin_answer (device_7\<lparr>ds_RejoinCount0 := 6\<rparr>) a = Inr p"
proof -
  show "GetDeviceSession mem_redis session_values 7 memory_7 = Inr device_7"
    by (simp add: GetDeviceSession_def mem_redis_run mem_val_def memory_7_def mem_empty_def value_codecs_run)
  show "\<exists>p. rejoin2_session sample_join_env rejoin_answer (device_7\<lparr>ds_RejoinCount0 := 6\<rparr>) a = Inr p"
    by (simp add: rejoin2_session_def set_session_keys_def no_join_answer_def with_key_def unwrapNSKeyEnvelope_def Let_def)
qed (simp_all add: device_7_def zero_device_session_def with_pending_def session.defs device_session.defs zero_session_def)

lemma rejoining_redis:
  "PendingRejoinDeviceSession ds = Some p \<Longrightarrow> \<exists>s1. SaveDeviceSession mem_redis session_values 1000 ds memory_7 = (Inr (), s1) \<and> m_up s1"
  by (simp add: SaveDeviceSession_def mem_redis_run value_codecs_run memory_7_def mem_empty_def)

lemma rejoining_activation:
  "\<exists>da' t2. CreateDeviceActivation memory_activations da 0 (joining_tables, t) = (Inr da', (t2, t))"
  by (simp add: CreateDeviceActivation_def sqlx_Insert_def memory_tables joining_tables_def sample_tables_def Let_def)

lemma rejoined_runs:
  "\<exists>w'. Rejoin_Handle sample_join_env rejoin_frame joining_world = (Inr (), w') \<and> w_Calls w' \<noteq> []"
proof -
  let ?c = "new_rejoin_context rejoin_frame joining_world"
  let ?ds = "device_7\<lparr>ds_RejoinCount0 := 6\<rparr>"
  obtain p where p: "rejoin2_session sample_join_env rejoin_answer ?ds 0x01020304 = Inr p" using rejoining_session(4) by blast
  note pending = PendingRejoin_with_rejoin[of p ?ds]
  obtain s1 where s: "SaveDeviceSession mem_redis session_values 1000 (with_rejoin p ?ds) memory_7 = (Inr (), s1)" "m_up s1"
    using rejoining_redis[OF pending] by blast
  obtain da t2 where t: "CreateDeviceActivation memory_activations (activation_of p 5 RejoinRequestType2) 0 (joining_tables, joining_tables) =
      (Inr da, (t2, joining_tables))"
    using rejoining_activation by blast
  have addr: "GetRandomDevAddr sample_join_env = Inr 0x01020304" by (simp add: GetRandomDevAddr_def to_array_def word_rcat_def)
  have frame: "phy_MACPayload (rp_PHYPayload rejoin_frame) = Some (RejoinFrame02 2 1 7 5)"
    and packet: "rejoin_frame = sample_packet (rp_PHYPayload rejoin_frame)"
    by (simp_all add: rejoin_frame_def sample_packet_simps)
  have ids: "d_DeviceProfileID joining_device = 0" "d_ServiceProfileID joining_device = 0" "\<not> d_IsDisabled joining_device"
    "dp_SupportsJoin joining_profile"
    by (simp_all add: zero_device_def zero_device_profile_def)
  have c: "w_DB ?c = (joining_tables, joining_tables)" "w_Redis ?c = memory_7" "w_Calls ?c = []" "rx_RXPacket ?c = rejoin_frame"
    by (simp_all add: new_rejoin_context_def joining_world_def)
  let ?c1 = "?c\<lparr>rx_NetID := 1, rx_DevEUI := 7, rx_RJCount := 5, rx_RejoinType := 2, rx_Device := joining_device,
      rx_DeviceProfile := joining_profile, rx_ServiceProfile := zero_service_profile\<rparr>"
  have look: "run_tasks (rejoin_lookup sample_join_env) ?c = (Inr (), ?c1)"
    by (simp add: rejoin_lookup_def run_tasks_ok rejoin_lookup_ok getDeviceAndProfiles_def reading_ok c frame ids joining_rows
        joining_filter[of "rp_PHYPayload rejoin_frame", folded packet])
  obtain req where req: "rejoin_request_of sample_join_env (?c1\<lparr>rx_DeviceSession := ?ds, rx_DevAddr := 0x01020304\<rparr>) = Inr req"
    by (auto simp: rejoin_request_of_def)
  obtain w where accept: "JoinAccept_Handle sample_join_env (with_rejoin p ?ds) rejoin_frame
      (\<lparr>phy_MType = JoinAccept, phy_MACPayload = Some (BytesFrame [32])\<rparr>, [1, 2, 3, 4])
      \<lparr>w_DB = (t2, joining_tables), w_Redis = s1, w_Calls = [RejoinReq req, request_meta sample_join_env RejoinRequest 7 rejoin_frame]\<rparr> = (Inr (), w)"
    "w_Calls w \<noteq> []"
    using joining_accept[OF s(2), of "with_rejoin p ?ds" "rp_PHYPayload rejoin_frame"] unfolding packet[symmetric] by blast
  have "\<exists>c'. run_tasks (forRejoinType [0, 2] (rejoin_authentication sample_join_env) # rejoin_rest sample_join_env) ?c1 = (Inr (), c') \<and>
      w_Calls c' \<noteq> []"
    using accept
    by (simp add: rejoin_authentication_def rejoin_rest_def forRejoinType_def run_tasks.simps rejoin_getDeviceSession_def
        validateRejoinCounter0_def rejoin_validateMIC_def rejoin_getRandomDevAddr_def getRejoinAcceptFromJS_def rejoin_sendUplinkMetaData_def
        setRejoin2PendingDeviceSession_def save_pending_def rejoin_createDeviceActivation_def rejoin_sendJoinAcceptDownlink_def
        reading_def wrapping_def on_DB_def on_Redis_def forget_def in_flow_world_def call_out_def Let_def join_type_of_def
        c rejoining_session addr req t s p pending)
  then show ?thesis
    using look by (auto simp: Rejoin_Handle_def flow_handle_def rejoin_tasks_split run_tasks_append)
qed

lemma joining_sessions:
  "session_at session_values (mem_holds (w_Redis joining_world)) 7 = Some ds \<Longrightarrow> ds_DevEUI ds = 7"
  by (auto simp: joining_world_def session_at_def mem_val_def memory_7_def mem_empty_def value_codecs_run)

theorem rejoin_prepares_a_session_witness:
  "\<exists>w'. Rejoin_Handle sample_join_env rejoin_frame joining_world = (Inr (), w') \<and>
     (\<exists>ds. session_at session_values (mem_holds (w_Redis w')) 7 = Some ds \<and> ds_RejoinCount0 ds = 6)"
proof -
  obtain w' where run: "Rejoin_Handle sample_join_env rejoin_frame joining_world = (Inr (), w')" "w_Calls w' \<noteq> []"
    using rejoined_runs by blast
  have store: "session_store (n_Redis (j_down sample_join_env)) mem_holds (n_Sessions (j_down sample_join_env)) (n_TTL (j_down sample_join_env))"
    using memory_sessions.session_store_axioms by simp
  have other: "w' \<noteq> joining_world" using run(2) by (auto simp: joining_world_def)
  show ?thesis
    using rejoin_prepares_a_session[OF sample_join.activations.activation_db_axioms store _ _ _ _ run(1), of 2 1 7 5] run other joining_sessions
    by (auto simp: sort_by_signal_sorts rejoin_frame_def sample_packet_simps stored_rejoin_count with_rejoin_def)
qed

theorem rejoin_counter_is_used_once_witness:
  "\<exists>w1 r. Rejoin_Handle sample_join_env rejoin_frame joining_world = (Inr (), w1) \<and> w1 \<noteq> joining_world \<and>
     Rejoin_Handle sample_join_env rejoin_frame w1 = (r, w1)"
proof -
  obtain w1 where run: "Rejoin_Handle sample_join_env rejoin_frame joining_world = (Inr (), w1)" "w_Calls w1 \<noteq> []"
    using rejoined_runs by blast
  have store: "session_store (n_Redis (j_down sample_join_env)) mem_holds (n_Sessions (j_down sample_join_env)) (n_TTL (j_down sample_join_env))"
    using memory_sessions.session_store_axioms by simp
  have other: "w1 \<noteq> joining_world" using run(2) by (auto simp: joining_world_def)
  obtain r w2 where again: "Rejoin_Handle sample_join_env rejoin_frame w1 = (r, w2)" by fastforce
  have "w2 = w1"
    by (rule rejoin_counter_is_used_once[OF sample_join.activations.activation_db_axioms store _ _ _ _ run(1) other _ _ again, of 2 1 7 5 2 1 5])
      (use joining_sessions in \<open>auto simp: sort_by_signal_sorts rejoin_frame_def sample_packet_simps\<close>)
  then show ?thesis using run(1) other again by blast
qed

end
