(* ===== verification/Collect.thy ===== *)
theory Collect
  imports Downlink
begin

text \<open>
  The receptions of one uplink by several gateways (\<open>internal/uplink/collect.go\<close>): every handler puts its
  reception into a set in Redis, one of them takes the lock, waits, reads the set and goes on with the packet.

  The handlers of one frame run beside each other, also on several servers. So \<open>collect_step\<close> is a relation on
  the handlers and Redis in which one handler makes one command at a time, others may write what
  they like outside the keys of the collection, and new receptions may arrive at any time. The keys do
  not expire in it: it describes what happens within their lifetime, which starts with the first command.
\<close>

section \<open>Environment\<close>

record gw_uplink_frame =
  uf_PhyPayload :: "byte list"
  uf_TxInfo :: "uplink_tx_info option"
  uf_RxInfo :: "rx_info option"

record ('s, 'v) collect_env =
  q_Redis :: "('s, 'v, byte list) redis"
  q_lock :: 'v
  q_deduplicationDelay :: duration
  q_Frames :: "(gw_uplink_frame, byte list) codec"
  q_MarshalTXInfo :: "uplink_tx_info option \<Rightarrow> byte list res"
  q_UnmarshalPHY :: "byte list \<Rightarrow> phy res"
  q_Band :: band

section \<open>Collecting\<close>

definition hex_digit :: "byte \<Rightarrow> char" where
  "hex_digit n = ''0123456789abcdef'' ! unat n"

definition hex_string :: "byte list \<Rightarrow> string" where
  "hex_string bs = concat (map (\<lambda>b. [hex_digit (drop_bit 4 b), hex_digit (take_bit 4 b)]) bs)"

definition deduplicationTTL :: "('s, 'v) collect_env \<Rightarrow> duration" where
  "deduplicationTTL Q =
     (let ttl = go_int64 (q_deduplicationDelay Q * 2) in if ttl < 200 * millisecond then 200 * millisecond else ttl)"

definition collectAndCallOncePut :: "('s, 'v) collect_env \<Rightarrow> redis_key \<Rightarrow> gw_uplink_frame \<Rightarrow> 's \<Rightarrow> unit res \<times> 's" where
  "collectAndCallOncePut Q key f s =
     (case enc (q_Frames Q) f of
        Inl e \<Rightarrow> (Inl (Wrap e ''marshal uplink frame error''), s)
      | Inr b \<Rightarrow>
         (case rd_SAdd_PExpire (q_Redis Q) key b (deduplicationTTL Q) s of
            (Inl e, s) \<Rightarrow> (Inl (Wrap e ''add uplink frame to set error''), s)
          | (Inr _, s) \<Rightarrow> (Inr (), s)))"

text \<open>Whether it was locked already.\<close>

definition collectAndCallOnceLocked :: "('s, 'v) collect_env \<Rightarrow> redis_key \<Rightarrow> 's \<Rightarrow> bool res \<times> 's" where
  "collectAndCallOnceLocked Q key s =
     (case rd_SetNX (q_Redis Q) key (q_lock Q) (deduplicationTTL Q) s of
        (Inl e, s) \<Rightarrow> (Inl (Wrap e ''acquire deduplication lock error''), s)
      | (Inr acquired, s) \<Rightarrow> (Inr (\<not> acquired), s))"

text \<open>A pipeline that is no transaction: the set is read, then deleted, and both are sent whatever the first returns.\<close>

definition collected :: "byte list list res \<Rightarrow> int res \<Rightarrow> byte list list res" where
  "collected members deleted =
     (case members of
        Inl e \<Rightarrow> Inl (Wrap e ''get set members error'')
      | Inr bs \<Rightarrow> (case deleted of Inl e \<Rightarrow> Inl (Wrap e ''get set members error'') | Inr _ \<Rightarrow> Inr bs))"

definition no_packet :: dl_packet where
  "no_packet = \<lparr>rp_DR = 0, rp_PHYPayload = \<lparr>phy_MType = JoinRequest, phy_MACPayload = None\<rparr>, rp_TXInfo = None, rp_RXInfoSet = [],
     rp_GatewayIsPrivate = None, rp_GatewayServiceProfile = None, rp_RoamingMetaData = None\<rparr>"

definition with_reception :: "uplink_tx_info \<Rightarrow> rx_info \<Rightarrow> dl_packet \<Rightarrow> dl_packet" where
  "with_reception t r out =
     out\<lparr>rp_TXInfo := Some t, rp_RXInfoSet := rp_RXInfoSet out @ [r], rp_GatewayIsPrivate := Some [], rp_GatewayServiceProfile := Some []\<rparr>"

text \<open>The frame is decoded from the first member; when that one is skipped it is not decoded at all.\<close>

fun collect_receptions :: "('s, 'v) collect_env \<Rightarrow> bool \<Rightarrow> byte list list \<Rightarrow> dl_packet \<Rightarrow> dl_packet res" where
  "collect_receptions Q is_first [] out = Inr out"
| "collect_receptions Q is_first (b # bs) out =
     (case dec (q_Frames Q) b of
        Inl e \<Rightarrow> Inl (Wrap e ''unmarshal uplink frame error'')
      | Inr f \<Rightarrow>
         (case (uf_TxInfo f, uf_RxInfo f) of
            (Some t, Some r) \<Rightarrow>
              if is_first then
                (case q_UnmarshalPHY Q (uf_PhyPayload f) of
                   Inl e \<Rightarrow> Inl (Wrap e ''unmarshal phypayload error'')
                 | Inr phy \<Rightarrow>
                    (case GetDataRateIndex (q_Band Q) True t of
                       Inl e \<Rightarrow> Inl (Wrap e ''get data-rate index error'')
                     | Inr dr \<Rightarrow> collect_receptions Q False bs (with_reception t r (out\<lparr>rp_PHYPayload := phy, rp_DR := dr\<rparr>))))
              else collect_receptions Q False bs (with_reception t r out)
          | _ \<Rightarrow> collect_receptions Q False bs out))"

definition collected_packet :: "('s, 'v) collect_env \<Rightarrow> byte list list res \<Rightarrow> dl_packet res" where
  "collected_packet Q payloads =
     (case payloads of
        Inl e \<Rightarrow> Inl (Wrap e ''get deduplication set members error'')
      | Inr bs \<Rightarrow> if bs = [] then Inl (Errorf ''zero items in collect set'') else collect_receptions Q True bs no_packet)"

section \<open>The handler of a reception\<close>

text \<open>
  Where it is: before its first command, after putting the frame in the set, holding the lock and
  sleeping, having read the set, having a packet to call back with, or ended.
\<close>

datatype collect_phase =
    Received | Stored | Locked | Fetched "byte list list res" | CallingBack "dl_packet res" | Ended "unit res"

record collect_handler =
  ch_frame :: gw_uplink_frame
  ch_phase :: collect_phase

definition collect_id :: "('s, 'v) collect_env \<Rightarrow> gw_uplink_frame \<Rightarrow> (string \<times> string) res" where
  "collect_id Q f =
     (case q_MarshalTXInfo Q (uf_TxInfo f) of
        Inl e \<Rightarrow> Inl (Wrap e ''marshal protobuf error'')
      | Inr t \<Rightarrow> Inr (hex_string t, hex_string (uf_PhyPayload f)))"

text \<open>The next command of a handler; one that has ended or calls back has none.\<close>

definition collect_advance :: "('s, 'v) collect_env \<Rightarrow> collect_handler \<Rightarrow> 's \<Rightarrow> (collect_phase \<times> 's) option" where
  "collect_advance Q h s =
     (case collect_id Q (ch_frame h) of
        Inl e \<Rightarrow> (case ch_phase h of Received \<Rightarrow> Some (Ended (Inl e), s) | _ \<Rightarrow> None)
      | Inr (tx, phy) \<Rightarrow>
         (case ch_phase h of
            Received \<Rightarrow>
              (case collectAndCallOncePut Q (collectKey tx phy) (ch_frame h) s of
                 (Inl e, s) \<Rightarrow> Some (Ended (Inl e), s) | (Inr _, s) \<Rightarrow> Some (Stored, s))
          | Stored \<Rightarrow>
              (case collectAndCallOnceLocked Q (collectLockKey tx phy) s of
                 (Inl e, s) \<Rightarrow> Some (Ended (Inl e), s)
               | (Inr locked, s) \<Rightarrow> Some (if locked then Ended (Inr ()) else Locked, s))
          | Locked \<Rightarrow> Some (Fetched (rd_SMembers (q_Redis Q) (collectKey tx phy) s), s)
          | Fetched members \<Rightarrow>
              (case rd_Del (q_Redis Q) (collectKey tx phy) s of
                 (deleted, s) \<Rightarrow> Some (CallingBack (collected_packet Q (collected members deleted)), s))
          | _ \<Rightarrow> None))"

text \<open>The function of the code: all phases of one handler, \<open>meanwhile\<close> is what happens to Redis while it sleeps.\<close>

definition collectAndCallOnce ::
  "('s, 'v) collect_env \<Rightarrow> ('s \<Rightarrow> 's) \<Rightarrow> gw_uplink_frame \<Rightarrow> (dl_packet \<Rightarrow> ('db, 's) world \<Rightarrow> unit res \<times> ('db, 's) world) \<Rightarrow>
   ('db, 's) world \<Rightarrow> unit res \<times> ('db, 's) world" where
  "collectAndCallOnce Q meanwhile f callback w =
     (case collect_id Q f of
        Inl e \<Rightarrow> (Inl e, w)
      | Inr (tx, phy) \<Rightarrow>
         (case collectAndCallOncePut Q (collectKey tx phy) f (w_Redis w) of
            (Inl e, s) \<Rightarrow> (Inl e, w\<lparr>w_Redis := s\<rparr>)
          | (Inr _, s) \<Rightarrow>
             (case collectAndCallOnceLocked Q (collectLockKey tx phy) s of
                (Inl e, s) \<Rightarrow> (Inl e, w\<lparr>w_Redis := s\<rparr>)
              | (Inr locked, s) \<Rightarrow>
                  if locked then (Inr (), w\<lparr>w_Redis := s\<rparr>)
                  else let s = meanwhile s; members = rd_SMembers (q_Redis Q) (collectKey tx phy) s in
                    (case rd_Del (q_Redis Q) (collectKey tx phy) s of
                       (deleted, s) \<Rightarrow>
                         (case collected_packet Q (collected members deleted) of
                            Inl e \<Rightarrow> (Inl e, w\<lparr>w_Redis := s\<rparr>)
                          | Inr p \<Rightarrow> callback p (w\<lparr>w_Redis := s\<rparr>))))))"

section \<open>Interleaving\<close>

text \<open>What the handlers of receptions use of Redis.\<close>

definition collect_part :: "('v, byte list) contents \<Rightarrow> (string \<Rightarrow> string \<Rightarrow> byte list set) \<times> (string \<Rightarrow> string \<Rightarrow> 'v option)" where
  "collect_part C = (\<lambda>tx phy. c_set C (collectKey tx phy), \<lambda>tx phy. c_val C (collectLockKey tx phy))"

inductive collect_step ::
  "('s, 'v) collect_env \<Rightarrow> ('s \<Rightarrow> ('v, byte list) contents) \<Rightarrow> collect_handler list \<times> 's \<Rightarrow> collect_handler list \<times> 's \<Rightarrow> bool"
  for Q holds where
  arrives: "collect_step Q holds (hs, s) (hs @ [\<lparr>ch_frame = f, ch_phase = Received\<rparr>], s)"
| moves: "i < length hs \<Longrightarrow> collect_advance Q (hs ! i) s = Some (p, s') \<Longrightarrow>
    collect_step Q holds (hs, s) (hs[i := (hs ! i)\<lparr>ch_phase := p\<rparr>], s')"
| others: "collect_part (holds s') = collect_part (holds s) \<Longrightarrow> collect_step Q holds (hs, s) (hs, s')"

inductive_cases collect_stepE: "collect_step Q holds (hs, s) c"


section \<open>One handler goes on\<close>

definition goes_on :: "collect_phase \<Rightarrow> bool" where
  "goes_on p \<longleftrightarrow> (case p of Locked \<Rightarrow> True | Fetched _ \<Rightarrow> True | CallingBack _ \<Rightarrow> True | _ \<Rightarrow> False)"

text \<open>Its frame is in the set and nobody has read it, as far as this handler knows.\<close>

definition is_stored :: "collect_phase \<Rightarrow> bool" where
  "is_stored p \<longleftrightarrow> (case p of Stored \<Rightarrow> True | Locked \<Rightarrow> True | Ended (Inr _) \<Rightarrow> True | _ \<Rightarrow> False)"

definition has_failed :: "collect_phase \<Rightarrow> bool" where
  "has_failed p \<longleftrightarrow> (case p of Ended (Inl _) \<Rightarrow> True | _ \<Rightarrow> False)"

lemma phase_simps [simp]:
  "\<not> goes_on Received" "\<not> goes_on Stored" "goes_on Locked" "goes_on (Fetched r)" "goes_on (CallingBack p)" "\<not> goes_on (Ended u)"
  "\<not> is_stored Received" "is_stored Stored" "is_stored Locked" "\<not> is_stored (Fetched r)" "\<not> is_stored (CallingBack p)"
  "is_stored (Ended (Inr x))" "\<not> is_stored (Ended (Inl e))"
  "has_failed q \<longleftrightarrow> (\<exists>e. q = Ended (Inl e))"
  by (auto simp: goes_on_def is_stored_def has_failed_def split: collect_phase.splits sum.splits)

definition is_handler :: "('s, 'v) collect_env \<Rightarrow> collect_handler list \<Rightarrow> string \<Rightarrow> string \<Rightarrow> nat \<Rightarrow> bool" where
  "is_handler Q hs tx phy i \<longleftrightarrow> i < length hs \<and> collect_id Q (ch_frame (hs ! i)) = Inr (tx, phy)"

definition in_phase :: "('s, 'v) collect_env \<Rightarrow> collect_handler list \<Rightarrow> string \<Rightarrow> string \<Rightarrow> (collect_phase \<Rightarrow> bool) \<Rightarrow> nat \<Rightarrow> bool" where
  "in_phase Q hs tx phy P i \<longleftrightarrow> is_handler Q hs tx phy i \<and> P (ch_phase (hs ! i))"

text \<open>
  Of the handlers of one frame at most one goes on, and while one does the lock is held; until one
  has the packet, everything that was stored is in the set; and a handler leaves the frame only when there
  is another that goes on or has failed.
\<close>

definition collect_invariant ::
  "('s, 'v) collect_env \<Rightarrow> ('v, byte list) contents \<Rightarrow> ('v, byte list) contents \<Rightarrow> collect_handler list \<Rightarrow>
   string \<Rightarrow> string \<Rightarrow> bool" where
  "collect_invariant Q C0 C hs tx phy \<longleftrightarrow>
     (\<forall>i. in_phase Q hs tx phy (\<lambda>p. goes_on p \<or> p = Ended (Inr ())) i \<longrightarrow> c_val C (collectLockKey tx phy) \<noteq> None) \<and>
     (\<forall>i j. in_phase Q hs tx phy goes_on i \<longrightarrow> in_phase Q hs tx phy goes_on j \<longrightarrow> i = j) \<and>
     (\<forall>i. in_phase Q hs tx phy is_stored i \<longrightarrow>
        (\<exists>j r. in_phase Q hs tx phy (\<lambda>p. p = CallingBack r) j) \<or>
        (\<exists>b \<in> c_set C (collectKey tx phy). enc (q_Frames Q) (ch_frame (hs ! i)) = Inr b)) \<and>
     (c_val C0 (collectLockKey tx phy) = None \<longrightarrow> c_val C (collectLockKey tx phy) \<noteq> None \<longrightarrow>
        (\<exists>j. in_phase Q hs tx phy (\<lambda>p. goes_on p \<or> has_failed p) j))"

lemma in_phase_update:
  "i < length hs \<Longrightarrow> in_phase Q (hs[i := (hs ! i)\<lparr>ch_phase := p\<rparr>]) tx phy P j \<longleftrightarrow>
     (if j = i then is_handler Q hs tx phy i \<and> P p else in_phase Q hs tx phy P j)"
  by (auto simp: in_phase_def is_handler_def)

lemma in_phase_append:
  "in_phase Q (hs @ [\<lparr>ch_frame = f, ch_phase = Received\<rparr>]) tx phy P j \<longleftrightarrow>
     in_phase Q hs tx phy P j \<or> j = length hs \<and> collect_id Q f = Inr (tx, phy) \<and> P Received"
  by (auto simp: in_phase_def is_handler_def nth_append)

lemma frames_update: "i < length hs \<Longrightarrow> ch_frame (hs[i := (hs ! i)\<lparr>ch_phase := p\<rparr>] ! j) = ch_frame (hs ! j)"
  by (cases "j = i") simp_all

lemma in_phaseD: "in_phase Q hs tx phy P i \<Longrightarrow> i < length hs \<and> collect_id Q (ch_frame (hs ! i)) = Inr (tx, phy) \<and> P (ch_phase (hs ! i))"
  by (simp add: in_phase_def is_handler_def)

lemma in_phase_self: "is_handler Q hs tx phy i \<Longrightarrow> in_phase Q hs tx phy P i \<longleftrightarrow> P (ch_phase (hs ! i))"
  by (simp add: in_phase_def)

text \<open>The invariant in parts, to be taken apart and put together.\<close>

lemma collect_invariantI:
  assumes "\<And>i. in_phase Q hs tx phy (\<lambda>p. goes_on p \<or> p = Ended (Inr ())) i \<Longrightarrow> c_val C (collectLockKey tx phy) \<noteq> None"
    and "\<And>i j. in_phase Q hs tx phy goes_on i \<Longrightarrow> in_phase Q hs tx phy goes_on j \<Longrightarrow> i = j"
    and "\<And>i. in_phase Q hs tx phy is_stored i \<Longrightarrow>
        (\<exists>j r. in_phase Q hs tx phy (\<lambda>p. p = CallingBack r) j) \<or>
        (\<exists>b \<in> c_set C (collectKey tx phy). enc (q_Frames Q) (ch_frame (hs ! i)) = Inr b)"
    and "c_val C0 (collectLockKey tx phy) = None \<Longrightarrow> c_val C (collectLockKey tx phy) \<noteq> None \<Longrightarrow>
        \<exists>j. in_phase Q hs tx phy (\<lambda>p. goes_on p \<or> has_failed p) j"
  shows "collect_invariant Q C0 C hs tx phy"
  unfolding collect_invariant_def using assms by blast

lemma collect_invariantD:
  assumes "collect_invariant Q C0 C hs tx phy"
  shows "in_phase Q hs tx phy (\<lambda>p. goes_on p \<or> p = Ended (Inr ())) i \<Longrightarrow> c_val C (collectLockKey tx phy) \<noteq> None"
    and "in_phase Q hs tx phy goes_on i \<Longrightarrow> in_phase Q hs tx phy goes_on j \<Longrightarrow> i = j"
    and "in_phase Q hs tx phy is_stored i \<Longrightarrow>
        (\<exists>j r. in_phase Q hs tx phy (\<lambda>p. p = CallingBack r) j) \<or>
        (\<exists>b \<in> c_set C (collectKey tx phy). enc (q_Frames Q) (ch_frame (hs ! i)) = Inr b)"
    and "c_val C0 (collectLockKey tx phy) = None \<Longrightarrow> c_val C (collectLockKey tx phy) \<noteq> None \<Longrightarrow>
        \<exists>j. in_phase Q hs tx phy (\<lambda>p. goes_on p \<or> has_failed p) j"
  using assms unfolding collect_invariant_def by blast+

lemma deduplicationTTL_pos: "0 < deduplicationTTL Q"
  by (simp add: deduplicationTTL_def Let_def millisecond_def)

text \<open>What a command of a handler does to what the handlers use.\<close>

locale collecting = redis_server "q_Redis Q" holds
  for Q :: "('s, 'v) collect_env" and holds
begin

lemma put_effect:
  assumes "collectAndCallOncePut Q k f s = (r, s')"
  shows "c_val (holds s') = c_val (holds s) \<and> (\<forall>k'. c_set (holds s) k' \<subseteq> c_set (holds s') k') \<and>
    (r = Inr () \<longrightarrow> (\<exists>b \<in> c_set (holds s') k. enc (q_Frames Q) f = Inr b))"
proof (cases "enc (q_Frames Q) f")
  case (Inl e)
  then show ?thesis using assms by (auto simp: collectAndCallOncePut_def)
next
  case (Inr b)
  obtain r1 s1 where add: "rd_SAdd_PExpire (q_Redis Q) k b (deduplicationTTL Q) s = (r1, s1)" by fastforce
  then have "s1 = s'" using assms Inr by (auto simp: collectAndCallOncePut_def split: sum.splits)
  then show ?thesis using SAdd[OF add deduplicationTTL_pos] assms Inr add
    by (auto simp: executed_def collectAndCallOncePut_def split: sum.splits)
qed

lemma lock_effect:
  assumes "collectAndCallOnceLocked Q k s = (r, s')"
  shows "c_set (holds s') = c_set (holds s)" and "c_val (holds s) k' \<noteq> None \<Longrightarrow> c_val (holds s') k' = c_val (holds s) k'"
    and "k' \<noteq> k \<Longrightarrow> c_val (holds s') k' = c_val (holds s) k'"
    and "r = Inr False \<Longrightarrow> c_val (holds s) k = None \<and> c_val (holds s') k \<noteq> None"
    and "r = Inr True \<Longrightarrow> c_val (holds s) k \<noteq> None"
proof -
  obtain r1 s1 where nx: "rd_SetNX (q_Redis Q) k (q_lock Q) (deduplicationTTL Q) s = (r1, s1)" by fastforce
  then have s1: "s1 = s'" using assms by (auto simp: collectAndCallOnceLocked_def split: sum.splits)
  have eff: "(case r1 of Inl _ \<Rightarrow> True | Inr b \<Rightarrow> b \<longleftrightarrow> c_val (holds s) k = None) \<and>
      executed r1 (holds s) (if c_val (holds s) k = None then (holds s)\<lparr>c_val := (c_val (holds s))(k \<mapsto> q_lock Q)\<rparr> else holds s) (holds s')"
    using SetNX[OF nx deduplicationTTL_pos] s1 by simp
  then show "c_set (holds s') = c_set (holds s)" "k' \<noteq> k \<Longrightarrow> c_val (holds s') k' = c_val (holds s) k'"
    "c_val (holds s) k' \<noteq> None \<Longrightarrow> c_val (holds s') k' = c_val (holds s) k'"
    by (auto simp: executed_def split: if_splits)
  show "r = Inr False \<Longrightarrow> c_val (holds s) k = None \<and> c_val (holds s') k \<noteq> None"
    "r = Inr True \<Longrightarrow> c_val (holds s) k \<noteq> None"
    using eff assms nx by (auto simp: executed_def collectAndCallOnceLocked_def split: sum.splits)
qed

lemma del_effect:
  assumes "rd_Del (q_Redis Q) k s = (r, s')"
  shows "k' \<noteq> k \<Longrightarrow> c_val (holds s') k' = c_val (holds s) k'" and "k' \<noteq> k \<Longrightarrow> c_set (holds s') k' = c_set (holds s) k'"
  using Del[OF assms] by (auto simp: executed_def without_def)


text \<open>A command of a handler: what it keeps of every frame, and what it does for its own.\<close>

lemma advance_put:
  assumes "collect_advance Q h s = Some (p, s')" and "ch_phase h = Received" and "collect_id Q (ch_frame h) = Inr (tx, phy)"
  shows "c_val (holds s') = c_val (holds s)" "c_set (holds s) k \<subseteq> c_set (holds s') k"
    "p = Stored \<and> (\<exists>b \<in> c_set (holds s') (collectKey tx phy). enc (q_Frames Q) (ch_frame h) = Inr b) \<or> (\<exists>e. p = Ended (Inl e))"
proof -
  obtain r s1 where put: "collectAndCallOncePut Q (collectKey tx phy) (ch_frame h) s = (r, s1)" by fastforce
  note e = put_effect[OF put]
  then have "s1 = s'" using assms put by (auto simp: collect_advance_def split: sum.splits)
  then show "c_val (holds s') = c_val (holds s)" "c_set (holds s) k \<subseteq> c_set (holds s') k"
    "p = Stored \<and> (\<exists>b \<in> c_set (holds s') (collectKey tx phy). enc (q_Frames Q) (ch_frame h) = Inr b) \<or> (\<exists>e. p = Ended (Inl e))"
    using e assms put by (auto simp: collect_advance_def split: sum.splits)
qed

lemma advance_lock:
  assumes "collect_advance Q h s = Some (p, s')" and "ch_phase h = Stored" and "collect_id Q (ch_frame h) = Inr (tx, phy)"
  shows "c_set (holds s') = c_set (holds s)"
    "c_val (holds s) k \<noteq> None \<Longrightarrow> c_val (holds s') k \<noteq> None"
    "k \<noteq> collectLockKey tx phy \<Longrightarrow> c_val (holds s') k = c_val (holds s) k"
    "p = Locked \<and> c_val (holds s) (collectLockKey tx phy) = None \<and> c_val (holds s') (collectLockKey tx phy) \<noteq> None \<or>
     p = Ended (Inr ()) \<and> c_val (holds s) (collectLockKey tx phy) \<noteq> None \<or> (\<exists>e. p = Ended (Inl e))"
proof -
  obtain r s1 where lock: "collectAndCallOnceLocked Q (collectLockKey tx phy) s = (r, s1)" by fastforce
  then have s1: "s1 = s'" using assms by (auto simp: collect_advance_def split: sum.splits)
  note e = lock_effect[OF lock[unfolded s1]]
  show "c_set (holds s') = c_set (holds s)" "k \<noteq> collectLockKey tx phy \<Longrightarrow> c_val (holds s') k = c_val (holds s) k"
    "c_val (holds s) k \<noteq> None \<Longrightarrow> c_val (holds s') k \<noteq> None"
    using e(1) e(2)[of k] e(3)[of k] by auto
  show "p = Locked \<and> c_val (holds s) (collectLockKey tx phy) = None \<and> c_val (holds s') (collectLockKey tx phy) \<noteq> None \<or>
     p = Ended (Inr ()) \<and> c_val (holds s) (collectLockKey tx phy) \<noteq> None \<or> (\<exists>e. p = Ended (Inl e))"
    using assms lock e(4,5) by (auto simp: collect_advance_def split: sum.splits if_splits)
qed

lemma advance_read:
  assumes "collect_advance Q h s = Some (p, s')" and "ch_phase h = Locked" and "collect_id Q (ch_frame h) = Inr (tx, phy)"
  shows "s' = s" "p = Fetched (rd_SMembers (q_Redis Q) (collectKey tx phy) s)"
  using assms by (auto simp: collect_advance_def)

lemma advance_del:
  assumes "collect_advance Q h s = Some (p, s')" and "ch_phase h = Fetched r" and "collect_id Q (ch_frame h) = Inr (tx, phy)"
  shows "c_val (holds s') (collectLockKey tx' phy') = c_val (holds s) (collectLockKey tx' phy')"
    "(tx', phy') \<noteq> (tx, phy) \<Longrightarrow> c_set (holds s') (collectKey tx' phy') = c_set (holds s) (collectKey tx' phy')"
    "\<exists>d. p = CallingBack (collected_packet Q (collected r d))"
proof -
  obtain d s1 where del: "rd_Del (q_Redis Q) (collectKey tx phy) s = (d, s1)" by fastforce
  then have s1: "s1 = s'" "p = CallingBack (collected_packet Q (collected r d))"
    using assms by (auto simp: collect_advance_def)
  note e = del_effect[OF del[unfolded s1(1)]]
  show "c_val (holds s') (collectLockKey tx' phy') = c_val (holds s) (collectLockKey tx' phy')"
    "(tx', phy') \<noteq> (tx, phy) \<Longrightarrow> c_set (holds s') (collectKey tx' phy') = c_set (holds s) (collectKey tx' phy')"
    "\<exists>d. p = CallingBack (collected_packet Q (collected r d))"
    using e s1(2) by auto
qed

lemma advance_phases:
  assumes "collect_advance Q h s = Some (p, s')"
  shows "ch_phase h \<in> {Received, Stored, Locked} \<or> (\<exists>r. ch_phase h = Fetched r)"
    "collect_id Q (ch_frame h) = Inl e \<Longrightarrow> s' = s"
  using assms by (auto simp: collect_advance_def split: sum.splits collect_phase.splits)


text \<open>A step that is none of the frame's.\<close>

lemma invariant_elsewhere:
  assumes "collect_invariant Q C0 C hs tx phy"
    and "\<And>P j. \<not> P Received \<Longrightarrow> in_phase Q hs' tx phy P j \<longleftrightarrow> in_phase Q hs tx phy P j"
    and "\<And>j. is_handler Q hs tx phy j \<Longrightarrow> ch_frame (hs' ! j) = ch_frame (hs ! j)"
    and "c_val C' (collectLockKey tx phy) = c_val C (collectLockKey tx phy)"
    and "c_set C (collectKey tx phy) \<subseteq> c_set C' (collectKey tx phy)"
  shows "collect_invariant Q C0 C' hs' tx phy"
proof (rule collect_invariantI)
  note I = collect_invariantD[OF assms(1)]
  have same: "in_phase Q hs' tx phy (\<lambda>p. goes_on p \<or> p = Ended (Inr ())) j \<longleftrightarrow> in_phase Q hs tx phy (\<lambda>p. goes_on p \<or> p = Ended (Inr ())) j"
    "in_phase Q hs' tx phy goes_on j \<longleftrightarrow> in_phase Q hs tx phy goes_on j"
    "in_phase Q hs' tx phy is_stored j \<longleftrightarrow> in_phase Q hs tx phy is_stored j"
    "in_phase Q hs' tx phy (\<lambda>p. p = CallingBack r) j \<longleftrightarrow> in_phase Q hs tx phy (\<lambda>p. p = CallingBack r) j"
    "in_phase Q hs' tx phy (\<lambda>p. goes_on p \<or> has_failed p) j \<longleftrightarrow> in_phase Q hs tx phy (\<lambda>p. goes_on p \<or> has_failed p) j" for r j
    by (intro assms(2); simp)+
  show "in_phase Q hs' tx phy (\<lambda>p. goes_on p \<or> p = Ended (Inr ())) i \<Longrightarrow> c_val C' (collectLockKey tx phy) \<noteq> None" for i
    unfolding same assms(4) by (rule I(1))
  show "in_phase Q hs' tx phy goes_on i \<Longrightarrow> in_phase Q hs' tx phy goes_on j \<Longrightarrow> i = j" for i j
    unfolding same by (rule I(2))
  show "in_phase Q hs' tx phy is_stored i \<Longrightarrow> (\<exists>j r. in_phase Q hs' tx phy (\<lambda>p. p = CallingBack r) j) \<or>
      (\<exists>b \<in> c_set C' (collectKey tx phy). enc (q_Frames Q) (ch_frame (hs' ! i)) = Inr b)" for i
    using I(3)[of i] assms(3)[of i] assms(5) unfolding same by (auto simp: in_phase_def)
  show "c_val C0 (collectLockKey tx phy) = None \<Longrightarrow> c_val C' (collectLockKey tx phy) \<noteq> None \<Longrightarrow>
      \<exists>j. in_phase Q hs' tx phy (\<lambda>p. goes_on p \<or> has_failed p) j"
    unfolding same assms(4) by (rule I(4))
qed

text \<open>A step of a handler of the frame, which does not read nor delete the set.\<close>

lemma invariant_here:
  assumes "collect_invariant Q C0 C hs tx phy" and "is_handler Q hs tx phy i"
    and "\<not> goes_on (ch_phase (hs ! i))" "\<not> has_failed (ch_phase (hs ! i))"
    and "c_val C (collectLockKey tx phy) \<noteq> None \<Longrightarrow> c_val C' (collectLockKey tx phy) \<noteq> None"
    and "c_set C (collectKey tx phy) \<subseteq> c_set C' (collectKey tx phy)"
    and "c_val C (collectLockKey tx phy) = None \<Longrightarrow> c_val C' (collectLockKey tx phy) \<noteq> None \<Longrightarrow> p = Locked \<or> has_failed p"
    and "p = Stored \<and> (\<exists>b \<in> c_set C' (collectKey tx phy). enc (q_Frames Q) (ch_frame (hs ! i)) = Inr b) \<or>
      p = Locked \<and> is_stored (ch_phase (hs ! i)) \<and> c_val C (collectLockKey tx phy) = None \<and> c_val C' (collectLockKey tx phy) \<noteq> None \<or>
      p = Ended (Inr ()) \<and> is_stored (ch_phase (hs ! i)) \<and> c_val C (collectLockKey tx phy) \<noteq> None \<or> has_failed p"
  shows "collect_invariant Q C0 C' (hs[i := (hs ! i)\<lparr>ch_phase := p\<rparr>]) tx phy"
proof (rule collect_invariantI)
  note I = collect_invariantD[OF assms(1)]
  have i: "i < length hs" using assms(2) by (simp add: is_handler_def)
  note u = in_phase_update[OF i] frames_update[OF i]
  have free: "\<not> in_phase Q hs tx phy goes_on j" if "c_val C (collectLockKey tx phy) = None" for j
    using I(1)[of j] that by (auto simp: in_phase_def)
  show "in_phase Q (hs[i := (hs ! i)\<lparr>ch_phase := p\<rparr>]) tx phy (\<lambda>p. goes_on p \<or> p = Ended (Inr ())) j \<Longrightarrow>
      c_val C' (collectLockKey tx phy) \<noteq> None" for j
    using I(1)[of j] assms(2,5,8) by (auto simp: u split: if_splits)
  show "in_phase Q (hs[i := (hs ! i)\<lparr>ch_phase := p\<rparr>]) tx phy goes_on j \<Longrightarrow>
      in_phase Q (hs[i := (hs ! i)\<lparr>ch_phase := p\<rparr>]) tx phy goes_on k \<Longrightarrow> j = k" for j k
    using I(2)[of j k] assms(8) free by (auto simp: u split: if_splits)
  show "(\<exists>j r. in_phase Q (hs[i := (hs ! i)\<lparr>ch_phase := p\<rparr>]) tx phy (\<lambda>p. p = CallingBack r) j) \<or>
      (\<exists>b \<in> c_set C' (collectKey tx phy). enc (q_Frames Q) (ch_frame (hs[i := (hs ! i)\<lparr>ch_phase := p\<rparr>] ! j)) = Inr b)"
    if j: "in_phase Q (hs[i := (hs ! i)\<lparr>ch_phase := p\<rparr>]) tx phy is_stored j" for j
  proof (cases "j = i \<and> p = Stored")
    case True
    then show ?thesis using assms(8) by (auto simp: u)
  next
    case False
    then have "in_phase Q hs tx phy is_stored j" using j assms(2,8) by (auto simp: u in_phase_self split: if_splits)
    from I(3)[OF this] show ?thesis
    proof (elim disjE exE)
      fix k r
      assume k: "in_phase Q hs tx phy (\<lambda>p. p = CallingBack r) k"
      then have "k \<noteq> i" using assms(3) by (auto simp: in_phase_def)
      then show ?thesis using k by (intro disjI1 exI[of _ k] exI[of _ r]) (simp add: u)
    qed (use assms(6) in \<open>auto simp: u\<close>)
  qed
  show "\<exists>j. in_phase Q (hs[i := (hs ! i)\<lparr>ch_phase := p\<rparr>]) tx phy (\<lambda>p. goes_on p \<or> has_failed p) j"
    if v: "c_val C0 (collectLockKey tx phy) = None" "c_val C' (collectLockKey tx phy) \<noteq> None"
  proof (cases "c_val C (collectLockKey tx phy) = None")
    case True
    then show ?thesis using assms(2,7) v by (intro exI[of _ i]) (auto simp: u)
  next
    case False
    then obtain k where k: "in_phase Q hs tx phy (\<lambda>p. goes_on p \<or> has_failed p) k" using I(4) v by auto
    then have "k \<noteq> i" using assms(3,4) by (auto simp: in_phase_def)
    then show ?thesis using k by (intro exI[of _ k]) (simp add: u)
  qed
qed


text \<open>A step of the handler that goes on.\<close>

lemma invariant_on:
  assumes "collect_invariant Q C0 C hs tx phy" and "is_handler Q hs tx phy i"
    and "goes_on (ch_phase (hs ! i))" "goes_on p"
    and "c_val C' (collectLockKey tx phy) = c_val C (collectLockKey tx phy)"
    and "(\<exists>r. p = CallingBack r) \<or>
      c_set C (collectKey tx phy) \<subseteq> c_set C' (collectKey tx phy) \<and> (\<forall>r. ch_phase (hs ! i) \<noteq> CallingBack r) \<and> \<not> is_stored p"
  shows "collect_invariant Q C0 C' (hs[i := (hs ! i)\<lparr>ch_phase := p\<rparr>]) tx phy"
proof (rule collect_invariantI)
  note I = collect_invariantD[OF assms(1)]
  have i: "i < length hs" using assms(2) by (simp add: is_handler_def)
  note u = in_phase_update[OF i] frames_update[OF i]
  have on: "in_phase Q hs tx phy goes_on i" using assms(2,3) by (simp add: in_phase_self)
  have only: "in_phase Q hs tx phy goes_on j \<Longrightarrow> j = i" for j using I(2)[OF on, of j] by simp
  show "c_val C' (collectLockKey tx phy) \<noteq> None"
    using I(1)[of i] assms(2,3,5) by (simp add: in_phase_self)
  show "in_phase Q (hs[i := (hs ! i)\<lparr>ch_phase := p\<rparr>]) tx phy goes_on j \<Longrightarrow>
      in_phase Q (hs[i := (hs ! i)\<lparr>ch_phase := p\<rparr>]) tx phy goes_on k \<Longrightarrow> j = k" for j k
    unfolding u using only[of j] only[of k] by (auto split: if_splits)
  show "(\<exists>j r. in_phase Q (hs[i := (hs ! i)\<lparr>ch_phase := p\<rparr>]) tx phy (\<lambda>p. p = CallingBack r) j) \<or>
      (\<exists>b \<in> c_set C' (collectKey tx phy). enc (q_Frames Q) (ch_frame (hs[i := (hs ! i)\<lparr>ch_phase := p\<rparr>] ! j)) = Inr b)"
    if j: "in_phase Q (hs[i := (hs ! i)\<lparr>ch_phase := p\<rparr>]) tx phy is_stored j" for j
  proof (cases "\<exists>r. p = CallingBack r")
    case True
    then show ?thesis using assms(2) by (auto simp: u)
  next
    case False
    then have "in_phase Q hs tx phy is_stored j" "c_set C (collectKey tx phy) \<subseteq> c_set C' (collectKey tx phy)"
      "\<forall>r. ch_phase (hs ! i) \<noteq> CallingBack r"
      using j assms(6) by (auto simp: u split: if_splits)
    then have "\<not> in_phase Q hs tx phy (\<lambda>p. p = CallingBack r) k" for k r
      using only[of k] by (auto simp: in_phase_def)
    then show ?thesis using I(3)[OF \<open>in_phase Q hs tx phy is_stored j\<close>] \<open>c_set C (collectKey tx phy) \<subseteq> _\<close>
      by (auto simp: u)
  qed
  show "\<exists>j. in_phase Q (hs[i := (hs ! i)\<lparr>ch_phase := p\<rparr>]) tx phy (\<lambda>p. goes_on p \<or> has_failed p) j"
    using assms(2,4) by (intro exI[of _ i]) (simp add: u)
qed

lemma invariant_moves:
  assumes I: "collect_invariant Q C0 (holds s) hs tx phy" and i: "i < length hs"
    and adv: "collect_advance Q (hs ! i) s = Some (p, s')"
  shows "collect_invariant Q C0 (holds s') (hs[i := (hs ! i)\<lparr>ch_phase := p\<rparr>]) tx phy"
proof (cases "collect_id Q (ch_frame (hs ! i)) = Inr (tx, phy)")
  case True
  then have h: "is_handler Q hs tx phy i" using i by (simp add: is_handler_def)
  consider "ch_phase (hs ! i) = Received" | "ch_phase (hs ! i) = Stored" | "ch_phase (hs ! i) = Locked"
    | r where "ch_phase (hs ! i) = Fetched r"
    using advance_phases(1)[OF adv] by auto
  then show ?thesis
  proof cases
    case 1
    note e = advance_put[OF adv 1 True]
    show ?thesis using 1 e by (intro invariant_here[OF I h]) auto
  next
    case 2
    note e = advance_lock[OF adv 2 True]
    show ?thesis using 2 e(1) e(2)[of "collectLockKey tx phy"] e(4) by (intro invariant_here[OF I h]) auto
  next
    case 3
    note e = advance_read[OF adv 3 True]
    show ?thesis using 3 e by (intro invariant_on[OF I h]) auto
  next
    case 4
    note e = advance_del[OF adv 4 True]
    show ?thesis using 4 e(1)[of tx phy] e(3) by (intro invariant_on[OF I h]) auto
  qed
next
  case False
  have other: "in_phase Q (hs[i := (hs ! i)\<lparr>ch_phase := p\<rparr>]) tx phy P j \<longleftrightarrow> in_phase Q hs tx phy P j" for P j
    using False unfolding in_phase_update[OF i] by (auto simp: in_phase_def is_handler_def)
  have "c_val (holds s') (collectLockKey tx phy) = c_val (holds s) (collectLockKey tx phy) \<and>
    c_set (holds s) (collectKey tx phy) \<subseteq> c_set (holds s') (collectKey tx phy)"
  proof (cases "collect_id Q (ch_frame (hs ! i))")
    case (Inl e)
    then show ?thesis using advance_phases(2)[OF adv] by simp
  next
    case (Inr k)
    then obtain tx' phy' where k: "collect_id Q (ch_frame (hs ! i)) = Inr (tx', phy')" "(tx, phy) \<noteq> (tx', phy')"
      using False by (cases k) auto
    then have "collectLockKey tx phy \<noteq> collectLockKey tx' phy'" by auto
    then show ?thesis
      using advance_phases(1)[OF adv] advance_put[OF adv _ k(1)] advance_lock[OF adv _ k(1)] advance_read[OF adv _ k(1)]
        advance_del[OF adv _ k(1)] k(2) by (elim disjE insertE exE) auto
  qed
  then show ?thesis using other frames_update[OF i] by (intro invariant_elsewhere[OF I]) auto
qed

lemma invariant_step:
  assumes "collect_step Q holds c c'" and "collect_invariant Q C0 (holds (snd c)) (fst c) tx phy"
  shows "collect_invariant Q C0 (holds (snd c')) (fst c') tx phy"
  using assms
proof (induction rule: collect_step.cases)
  case (arrives hs s f)
  then show ?case
    using invariant_elsewhere[of C0 "holds s" hs tx phy "hs @ [\<lparr>ch_frame = f, ch_phase = Received\<rparr>]" "holds s"]
    by (simp add: in_phase_append is_handler_def nth_append)
next
  case (moves i hs s p s')
  then show ?case using invariant_moves[of C0 s hs tx phy i p s'] by simp
next
  case (others s' s hs)
  then have "c_val (holds s') (collectLockKey tx phy) = c_val (holds s) (collectLockKey tx phy)"
    "c_set (holds s') (collectKey tx phy) = c_set (holds s) (collectKey tx phy)"
    by (auto simp: collect_part_def fun_eq_iff)
  then show ?case using others invariant_elsewhere[of C0 "holds s" hs tx phy hs "holds s'"] by simp
qed

lemma reachable_invariant:
  assumes "(collect_step Q holds)\<^sup>*\<^sup>* ([], s0) c"
  shows "collect_invariant Q (holds s0) (holds (snd c)) (fst c) tx phy"
  using assms
proof (induction rule: rtranclp_induct)
  case base
  then show ?case by (intro collect_invariantI) (auto simp: in_phase_def is_handler_def)
next
  case (step c c')
  then show ?case using invariant_step by blast
qed

end

section \<open>The packet\<close>

text \<open>The reception of a frame, when it has both parts.\<close>

definition reception :: "gw_uplink_frame \<Rightarrow> rx_info option" where
  "reception f = (case uf_TxInfo f of None \<Rightarrow> None | Some _ \<Rightarrow> uf_RxInfo f)"

lemma collect_receptions_set:
  assumes "collect_receptions Q is_first bs out = Inr p"
  shows "set (rp_RXInfoSet p) = set (rp_RXInfoSet out) \<union> {r. \<exists>b \<in> set bs. \<exists>f. dec (q_Frames Q) b = Inr f \<and> reception f = Some r}"
  using assms
proof (induction bs arbitrary: is_first out)
  case (Cons b bs)
  obtain f where f: "dec (q_Frames Q) b = Inr f" using Cons.prems by (auto split: sum.splits)
  obtain out' where out': "collect_receptions Q False bs out' = Inr p"
    "set (rp_RXInfoSet out') = set (rp_RXInfoSet out) \<union> set_option (reception f)"
    using Cons.prems f by (auto simp: reception_def with_reception_def split: option.splits sum.splits if_splits)
  show ?case using Cons.IH[OF out'(1)] out'(2) f by auto
qed simp

section \<open>The function is its steps\<close>

lemma collect_moves:
  assumes "i < length hs" "hs ! i = \<lparr>ch_frame = f, ch_phase = p\<rparr>"
    and "collect_advance Q \<lparr>ch_frame = f, ch_phase = p\<rparr> s = Some (p', s')"
  shows "\<exists>hs'. collect_step Q holds (hs, s) (hs', s') \<and> i < length hs' \<and> hs' ! i = \<lparr>ch_frame = f, ch_phase = p'\<rparr>"
  using collect_step.moves[of i hs Q s p' s' holds] assms
  by (intro exI[of _ "hs[i := \<lparr>ch_frame = f, ch_phase = p'\<rparr>]"]) simp

text \<open>
  What \<open>collectAndCallOnce\<close> does beside other handlers is a run of the steps of its handler, with what
  the others do while it sleeps in between.
\<close>

definition ends_as ::
  "collect_phase \<Rightarrow> (dl_packet \<Rightarrow> ('db, 's) world \<Rightarrow> unit res \<times> ('db, 's) world) \<Rightarrow> ('db, 's) world \<Rightarrow>
   unit res \<times> ('db, 's) world \<Rightarrow> bool" where
  "ends_as p callback w x =
     (case p of Ended r \<Rightarrow> x = (r, w) | CallingBack (Inl e) \<Rightarrow> x = (Inl e, w) | CallingBack (Inr k) \<Rightarrow> x = callback k w
      | _ \<Rightarrow> False)"

lemma collectAndCallOnce_is_steps:
  assumes "i < length hs" "hs ! i = \<lparr>ch_frame = f, ch_phase = Received\<rparr>"
    and others: "\<And>hs s. i < length hs \<Longrightarrow> \<exists>hs'. (collect_step Q holds)\<^sup>*\<^sup>* (hs, s) (hs', meanwhile s) \<and> i < length hs' \<and> hs' ! i = hs ! i"
  shows "\<exists>hs' p s'. (collect_step Q holds)\<^sup>*\<^sup>* (hs, w_Redis w) (hs', s') \<and> i < length hs' \<and> hs' ! i = \<lparr>ch_frame = f, ch_phase = p\<rparr> \<and>
    ends_as p callback (w\<lparr>w_Redis := s'\<rparr>) (collectAndCallOnce Q meanwhile f callback w)"
proof -
  note [trans] = rtranclp_trans
  have move: "\<exists>hs'. (collect_step Q holds)\<^sup>*\<^sup>* (hs, s) (hs', s') \<and> i < length hs' \<and> hs' ! i = \<lparr>ch_frame = f, ch_phase = p'\<rparr>"
    if "i < length hs" "hs ! i = \<lparr>ch_frame = f, ch_phase = p\<rparr>"
      "collect_advance Q \<lparr>ch_frame = f, ch_phase = p\<rparr> s = Some (p', s')" for hs p s p' s'
    using collect_moves[OF that, of holds] by blast
  show ?thesis
  proof (cases "collect_id Q f")
    case (Inl e)
    obtain hs1 where "(collect_step Q holds)\<^sup>*\<^sup>* (hs, w_Redis w) (hs1, w_Redis w)" "i < length hs1"
      "hs1 ! i = \<lparr>ch_frame = f, ch_phase = Ended (Inl e)\<rparr>"
      using move[OF assms(1,2), of "w_Redis w" "Ended (Inl e)" "w_Redis w"] Inl by (auto simp: collect_advance_def)
    then show ?thesis using Inl
      by (intro exI[of _ hs1] exI[of _ "Ended (Inl e)"] exI[of _ "w_Redis w"]) (simp add: collectAndCallOnce_def ends_as_def)
  next
    case (Inr k)
    obtain tx phy where k: "collect_id Q f = Inr (tx, phy)" using Inr by (cases k) auto
    obtain r1 s1 where put: "collectAndCallOncePut Q (collectKey tx phy) f (w_Redis w) = (r1, s1)" by fastforce
    show ?thesis
    proof (cases r1)
      case (Inl e)
      obtain hs1 where "(collect_step Q holds)\<^sup>*\<^sup>* (hs, w_Redis w) (hs1, s1)" "i < length hs1"
        "hs1 ! i = \<lparr>ch_frame = f, ch_phase = Ended (Inl e)\<rparr>"
        using move[OF assms(1,2), of "w_Redis w" "Ended (Inl e)" s1] k put Inl by (auto simp: collect_advance_def)
      then show ?thesis using k put Inl
        by (intro exI[of _ hs1] exI[of _ "Ended (Inl e)"] exI[of _ s1]) (simp add: collectAndCallOnce_def ends_as_def)
    next
      case (Inr u1)
      obtain hs1 where h1: "(collect_step Q holds)\<^sup>*\<^sup>* (hs, w_Redis w) (hs1, s1)" "i < length hs1"
        "hs1 ! i = \<lparr>ch_frame = f, ch_phase = Stored\<rparr>"
        using move[OF assms(1,2), of "w_Redis w" Stored s1] k put Inr by (auto simp: collect_advance_def)
      obtain r2 s2 where lock: "collectAndCallOnceLocked Q (collectLockKey tx phy) s1 = (r2, s2)" by fastforce
      define p2 where "p2 = (case r2 of Inl e \<Rightarrow> Ended (Inl e) | Inr l \<Rightarrow> if l then Ended (Inr ()) else Locked)"
      obtain hs2 where h2: "(collect_step Q holds)\<^sup>*\<^sup>* (hs1, s1) (hs2, s2)" "i < length hs2"
        "hs2 ! i = \<lparr>ch_frame = f, ch_phase = p2\<rparr>"
        using move[OF h1(2,3), of s1 p2 s2] k lock by (cases r2) (auto simp: collect_advance_def p2_def)
      note run2 = rtranclp_trans[OF h1(1) h2(1)]
      show ?thesis
      proof (cases "p2 = Locked")
        case False
        then show ?thesis using run2 h2(2,3) k put Inr lock
          by (intro exI[of _ hs2] exI[of _ p2] exI[of _ s2])
            (auto simp: collectAndCallOnce_def ends_as_def p2_def split: sum.splits if_splits)
      next
        case True
        then have r2: "r2 = Inr False" by (auto simp: p2_def split: sum.splits if_splits)
        obtain hs3 where h3: "(collect_step Q holds)\<^sup>*\<^sup>* (hs2, s2) (hs3, meanwhile s2)" "i < length hs3"
          "hs3 ! i = \<lparr>ch_frame = f, ch_phase = Locked\<rparr>"
          using others[OF h2(2), of s2] h2(3) True by auto
        define m where "m = rd_SMembers (q_Redis Q) (collectKey tx phy) (meanwhile s2)"
        obtain d s4 where del: "rd_Del (q_Redis Q) (collectKey tx phy) (meanwhile s2) = (d, s4)" by fastforce
        obtain hs4 where h4: "(collect_step Q holds)\<^sup>*\<^sup>* (hs3, meanwhile s2) (hs4, meanwhile s2)" "i < length hs4"
          "hs4 ! i = \<lparr>ch_frame = f, ch_phase = Fetched m\<rparr>"
          using move[OF h3(2,3), of "meanwhile s2" "Fetched m" "meanwhile s2"] k by (auto simp: collect_advance_def m_def)
        obtain hs5 where h5: "(collect_step Q holds)\<^sup>*\<^sup>* (hs4, meanwhile s2) (hs5, s4)" "i < length hs5"
          "hs5 ! i = \<lparr>ch_frame = f, ch_phase = CallingBack (collected_packet Q (collected m d))\<rparr>"
          using move[OF h4(2,3), of "meanwhile s2" "CallingBack (collected_packet Q (collected m d))" s4] k del
          by (auto simp: collect_advance_def)
        have "(collect_step Q holds)\<^sup>*\<^sup>* (hs, w_Redis w) (hs5, s4)"
          using run2 h3(1) h4(1) h5(1) by (meson rtranclp_trans)
        moreover have "ends_as (CallingBack (collected_packet Q (collected m d))) callback (w\<lparr>w_Redis := s4\<rparr>)
            (collectAndCallOnce Q meanwhile f callback w)"
          using k put Inr lock r2 del by (auto simp: collectAndCallOnce_def ends_as_def m_def Let_def split: sum.splits)
        ultimately show ?thesis using h5(2,3) by blast
      qed
    qed
  qed
qed

section \<open>An uplink is handled once\<close>

text \<open>
  C6: an uplink received by several gateways. However the handlers of its receptions interleave, on
  this server or others, at most one of them goes on after the lock; the packet it makes when it reads the set has
  every reception that any handler had stored by then; and when the frame was not locked before, a handler
  that leaves it has one that goes on, or has failed, beside it.
\<close>

theorem uplink_is_handled_once:
  assumes "redis_server (q_Redis Q) holds" and "codec_ok (q_Frames Q)"
    and "(collect_step Q holds)\<^sup>*\<^sup>* ([], s0) (hs, s)"
  shows "(in_phase Q hs tx phy goes_on i \<longrightarrow> in_phase Q hs tx phy goes_on j \<longrightarrow> i = j) \<and>
    (in_phase Q hs tx phy (\<lambda>p. p = Locked) i \<longrightarrow> collect_advance Q (hs ! i) s = Some (Fetched (Inr bs), s') \<longrightarrow>
       collected_packet Q (Inr bs) = Inr p \<longrightarrow> in_phase Q hs tx phy is_stored j \<longrightarrow>
       reception (ch_frame (hs ! j)) = Some r \<longrightarrow> r \<in> set (rp_RXInfoSet p)) \<and>
    (c_val (holds s0) (collectLockKey tx phy) = None \<longrightarrow> in_phase Q hs tx phy (\<lambda>p. p = Ended (Inr ())) i \<longrightarrow>
       (\<exists>j. in_phase Q hs tx phy (\<lambda>p. goes_on p \<or> has_failed p) j))"
proof -
  note I = collect_invariantD[OF collecting.reachable_invariant[OF collecting.intro[OF assms(1)] assms(3)], of tx phy, simplified]
  have "r \<in> set (rp_RXInfoSet p)" if l: "in_phase Q hs tx phy (\<lambda>p. p = Locked) i"
    and a: "collect_advance Q (hs ! i) s = Some (Fetched (Inr bs), s')"
    and p: "collected_packet Q (Inr bs) = Inr p" and j: "in_phase Q hs tx phy is_stored j"
    and r: "reception (ch_frame (hs ! j)) = Some r"
  proof -
    have "rd_SMembers (q_Redis Q) (collectKey tx phy) s = Inr bs"
      using l a by (auto simp: in_phase_def is_handler_def collect_advance_def)
    from redis_server.SMembers[OF assms(1) this] have bs: "set bs = c_set (holds s) (collectKey tx phy)" by simp
    have "\<not> in_phase Q hs tx phy (\<lambda>p. p = CallingBack x) k" for k x
      using I(2)[of i k] l by (auto simp: in_phase_def)
    then obtain b where "b \<in> set bs" "enc (q_Frames Q) (ch_frame (hs ! j)) = Inr b"
      using I(3)[OF j] bs by auto
    moreover have "collect_receptions Q True bs no_packet = Inr p"
      using p by (auto simp: collected_packet_def split: if_splits)
    ultimately show ?thesis
      using collect_receptions_set[of Q True bs no_packet p] codec_okD[OF assms(2)] r by fastforce
  qed
  then show ?thesis using I(1)[of i] I(2)[of i j] I(4) by (auto simp: in_phase_def)
qed


section \<open>A sample\<close>

text \<open>One frame at SF12, heard by two gateways.\<close>

definition sf12_tx_info :: uplink_tx_info where
  "sf12_tx_info =
     \<lparr>mi_Modulation = Modulation_LORA, mi_ModulationInfo = Some (LoraModulationInfo
        \<lparr>li_Bandwidth = 125, li_SpreadingFactor = 12, li_CodeRate = defaultCodeRate, li_PolarizationInversion = False\<rparr>),
      ut_Frequency = 868100000\<rparr>"

definition heard_by :: "byte \<Rightarrow> gw_uplink_frame" where
  "heard_by g = \<lparr>uf_PhyPayload = [64], uf_TxInfo = Some sf12_tx_info,
     uf_RxInfo = Some ((hd (rp_RXInfoSet sample_dl_packet))\<lparr>ri_GatewayId := [g]\<rparr>)\<rparr>"

definition sample_collect :: "((unit, byte list) mem, unit) collect_env" where
  "sample_collect =
     \<lparr>q_Redis = mem_redis, q_lock = (), q_deduplicationDelay = 200 * millisecond,
      q_Frames = \<lparr>enc = \<lambda>f. if f = heard_by 1 then Inr [1] else if f = heard_by 2 then Inr [2] else Inl (Errorf ''proto''),
        dec = \<lambda>b. if b = [1] then Inr (heard_by 1) else if b = [2] then Inr (heard_by 2) else Inl (Errorf ''proto'')\<rparr>,
      q_MarshalTXInfo = (\<lambda>_. Inr []), q_UnmarshalPHY = (\<lambda>_. Inr (rp_PHYPayload sample_dl_packet)), q_Band = sample_band\<rparr>"

interpretation sample_collecting: collecting sample_collect mem_holds
  by (intro collecting.intro) (simp add: sample_collect_def mem_server.redis_server_axioms)

lemma heard_by_other: "heard_by 1 \<noteq> heard_by 2"
proof -
  have "map_option ri_GatewayId (uf_RxInfo (heard_by g)) = Some [g]" for g by (simp add: heard_by_def)
  from this[of 1] this[of 2] show ?thesis by auto
qed

lemma sample_collect_run:
  "q_Redis sample_collect = mem_redis" "deduplicationTTL sample_collect = 400000000"
  "enc (q_Frames sample_collect) (heard_by 1) = Inr [1]" "enc (q_Frames sample_collect) (heard_by 2) = Inr [2]"
  "dec (q_Frames sample_collect) [1] = Inr (heard_by 1)" "dec (q_Frames sample_collect) [2] = Inr (heard_by 2)"
  "collect_id sample_collect (heard_by g) = Inr ([], hex_string [64])"
  using heard_by_other
  by (auto simp: sample_collect_def deduplicationTTL_def millisecond_def go_int64_id collect_id_def heard_by_def hex_string_def[of "[]"])

lemma sample_reception_codec: "codec_ok (q_Frames sample_collect)"
  using heard_by_other by (auto simp: codec_ok_def sample_collect_def)

lemma sf12_data_rate: "GetDataRateIndex sample_band True sf12_tx_info = Inr 0"
  by code_simp

lemma sample_packet_made:
  "\<exists>p. collected_packet sample_collect (Inr [[1], [2]]) = Inr p"
  using sample_collect_run(5,6) sf12_data_rate
  by (auto simp: collected_packet_def heard_by_def sample_collect_def)

theorem uplink_is_handled_once_witness:
  "\<exists>hs s s' p. (collect_step sample_collect mem_holds)\<^sup>*\<^sup>* ([], mem_empty) (hs, s) \<and>
     map ch_phase hs = [Locked, Ended (Inr ())] \<and>
     collect_advance sample_collect (hs ! 0) s = Some (Fetched (Inr [[1], [2]]), s') \<and>
     collected_packet sample_collect (Inr [[1], [2]]) = Inr p \<and>
     set_option (reception (heard_by 1)) \<union> set_option (reception (heard_by 2)) \<subseteq> set (rp_RXInfoSet p)"
proof -
  note run = sample_collect_run collect_advance_def collectAndCallOncePut_def collectAndCallOnceLocked_def mem_redis_run
  let ?h = "\<lambda>g ph. \<lparr>ch_frame = heard_by g, ch_phase = ph\<rparr>" and ?step = "collect_step sample_collect mem_holds"
  let ?k = "collectKey [] (hex_string [64])" and ?l = "collectLockKey [] (hex_string [64])"
  let ?s1 = "(mem_empty :: (unit, byte list) mem)\<lparr>m_set := [?k \<mapsto> ([[1]], 400000000)]\<rparr>"
  let ?s2 = "?s1\<lparr>m_set := [?k \<mapsto> ([[1], [2]], 400000000)]\<rparr>"
  let ?s3 = "?s2\<lparr>m_val := [?l \<mapsto> (q_lock sample_collect, 400000000)]\<rparr>"
  let ?e = "mem_empty :: (unit, byte list) mem"
  have up: "m_up ?e" "m_now ?e = 0" "m_set ?e = (\<lambda>_. None)" "m_val ?e = (\<lambda>_. None)"
    by (simp_all add: mem_empty_def)
  have arrived: "?step ([], mem_empty) ([?h 1 Received], mem_empty)"
    "?step ([?h 1 Received], mem_empty) ([?h 1 Received, ?h 2 Received], mem_empty)"
    using collect_step.arrives[of sample_collect mem_holds "[]"] collect_step.arrives[of sample_collect mem_holds "[?h 1 Received]"]
    by simp_all
  have "collect_advance sample_collect (?h 1 Received) mem_empty = Some (Stored, ?s1)"
    using up by (simp add: run mem_set_def)
  then have put1: "?step ([?h 1 Received, ?h 2 Received], mem_empty) ([?h 1 Stored, ?h 2 Received], ?s1)"
    using collect_step.moves[of 0 "[?h 1 Received, ?h 2 Received]" sample_collect mem_empty Stored ?s1 mem_holds] by simp
  have "collect_advance sample_collect (?h 2 Received) ?s1 = Some (Stored, ?s2)"
    using up by (simp add: run mem_set_def)
  then have put2: "?step ([?h 1 Stored, ?h 2 Received], ?s1) ([?h 1 Stored, ?h 2 Stored], ?s2)"
    using collect_step.moves[of 1 "[?h 1 Stored, ?h 2 Received]" sample_collect ?s1 Stored ?s2 mem_holds] by simp
  have "collect_advance sample_collect (?h 1 Stored) ?s2 = Some (Locked, ?s3)"
    using up by (simp add: run mem_val_def)
  then have lock1: "?step ([?h 1 Stored, ?h 2 Stored], ?s2) ([?h 1 Locked, ?h 2 Stored], ?s3)"
    using collect_step.moves[of 0 "[?h 1 Stored, ?h 2 Stored]" sample_collect ?s2 Locked ?s3 mem_holds] by simp
  have "collect_advance sample_collect (?h 2 Stored) ?s3 = Some (Ended (Inr ()), ?s3)"
    using up by (simp add: run mem_val_def)
  then have lock2: "?step ([?h 1 Locked, ?h 2 Stored], ?s3) ([?h 1 Locked, ?h 2 (Ended (Inr ()))], ?s3)"
    using collect_step.moves[of 1 "[?h 1 Locked, ?h 2 Stored]" sample_collect ?s3 "Ended (Inr ())" ?s3 mem_holds] by simp
  have reached: "?step\<^sup>*\<^sup>* ([], mem_empty) ([?h 1 Locked, ?h 2 (Ended (Inr ()))], ?s3)"
    using arrived put1 put2 lock1 lock2 by (meson converse_rtranclp_into_rtranclp r_into_rtranclp)
  have read: "collect_advance sample_collect (?h 1 Locked) ?s3 = Some (Fetched (Inr [[1], [2]]), ?s3)"
    using up by (simp add: run mem_set_def)
  obtain p where p: "collected_packet sample_collect (Inr [[1], [2]]) = Inr p" using sample_packet_made by blast
  note once = uplink_is_handled_once[OF sample_collecting.redis_server_axioms sample_reception_codec reached,
      where tx = "[]" and phy = "hex_string [64]" and i = 0 and bs = "[[1], [2]]" and s' = ?s3 and p = p]
  have "r \<in> set (rp_RXInfoSet p)" if "reception (heard_by 1) = Some r" for r
    using once[where j = 0 and r = r] that read p by (simp add: in_phase_def is_handler_def sample_collect_run)
  moreover have "r \<in> set (rp_RXInfoSet p)" if "reception (heard_by 2) = Some r" for r
    using once[where j = 1 and r = r] that read p by (simp add: in_phase_def is_handler_def sample_collect_run)
  ultimately show ?thesis using reached read p
    by (intro exI[of _ "[?h 1 Locked, ?h 2 (Ended (Inr ()))]"] exI[of _ ?s3] exI[of _ p]) auto
qed

end
