(* ===== verification/Uplink.thy ===== *)
theory Uplink
  imports Rejoin Collect
begin

text \<open>
  The entry of an uplink (\<open>internal/uplink/uplink.go\<close>): the collected packet gets the meta-data of its gateways
  (\<open>internal/gateway/rx_info.go\<close>) and goes to the flow of its message type; a proprietary frame
  (\<open>internal/uplink/proprietary\<close>) goes to all application-servers. A frame that a flow rejects is
  reported to the network-controller.
\<close>

section \<open>Environment\<close>

text \<open>
  \<open>g_Decrypt\<close> is AES of one block, \<open>g_TimestampProto\<close> the conversion of the protocol buffer library, and
  \<open>g_nil_time\<close> what its inverse returns, next to an error, for a missing timestamp.
\<close>

record ('db, 's, 'v) gateway_env =
  g_Redis :: "('s, 'v, eui64) redis"
  g_MetaCodec :: "(gateway_meta, 'v) codec"
  g_TTL :: duration
  g_Gateways :: "'db gateway_table"
  g_Boards :: "'db board_table"
  g_ServiceProfiles :: "('db, service_profile) table"
  g_Decrypt :: "aeskey \<Rightarrow> byte list \<Rightarrow> byte list"
  g_TimestampProto :: "instant \<Rightarrow> proto_timestamp res"
  g_nil_time :: instant

record ('db, 's, 'v) server_env =
  s_Collect :: "('s, 'v) collect_env"
  s_Gateway :: "('db, 's, 'v) gateway_env"
  s_Data :: "('db, 's, 'v, roaming_meta) up_env"
  s_Join :: "('db, 's, 'v) join_env"
  s_Roaming :: "('s, 'v) pr_env"
  s_RoutingProfiles :: "('db, routing_profile) table"
  s_pool :: "routing_profile \<Rightarrow> unit res"
  s_MIC :: "phy \<Rightarrow> byte list"

section \<open>The gateways of a packet\<close>

definition decryptFineTimestamp :: "('db, 's, 'v) gateway_env \<Rightarrow> aeskey \<Rightarrow> instant \<Rightarrow> byte list \<Rightarrow> fine_timestamp res" where
  "decryptFineTimestamp E key rxTime encryptedNs =
     (if length encryptedNs \<noteq> 16 then Inl (Errorf ''invalid block-size or ciphertext length'')
      else let ct = g_Decrypt E key encryptedNs; nanoSec = uint (word_rcat (drop (length ct - 8) ct) :: 64 word) div 32
        in if nanoSec \<ge> second then Inl (Errorf ''expected fine-timestamp nanosecond remainder must be < 1 second'')
           else case g_TimestampProto E (rxTime + nanoSec) of
             Inl e \<Rightarrow> Inl (Wrap e ''timestamp proto error'')
           | Inr t \<Rightarrow> Inr (PlainFineTimestamp (Some t)))"

definition board_of :: "gateway_meta \<Rightarrow> rx_info \<Rightarrow> gateway_board" where
  "board_of g r =
     (if unat (ri_Board r) < length (gm_Boards g) then gm_Boards g ! unat (ri_Board r)
      else \<lparr>gb_FPGAID = None, gb_FineTimestampKey = None\<rparr>)"

definition set_fpga_id :: "gateway_board \<Rightarrow> rx_info \<Rightarrow> rx_info" where
  "set_fpga_id board r =
     (case (ri_FineTimestamp r, gb_FPGAID board) of
        (Some (EncryptedFineTimestamp ns fpga), Some i) \<Rightarrow>
          if fpga = [] then r\<lparr>ri_FineTimestamp := Some (EncryptedFineTimestamp ns (eui64_bytes i))\<rparr> else r
      | _ \<Rightarrow> r)"

text \<open>The time of a reception whose timestamp is invalid is only logged.\<close>

definition decrypt_reception :: "('db, 's, 'v) gateway_env \<Rightarrow> gateway_board \<Rightarrow> rx_info \<Rightarrow> rx_info res" where
  "decrypt_reception E board r =
     (case (ri_FineTimestamp r, gb_FineTimestampKey board) of
        (Some (EncryptedFineTimestamp ns _), Some key) \<Rightarrow>
          (case decryptFineTimestamp E key (case ri_Time r of None \<Rightarrow> g_nil_time E | Some (t, _) \<Rightarrow> t) ns of
             Inl e \<Rightarrow> Inl e
           | Inr t \<Rightarrow> Inr (r\<lparr>ri_FineTimestamp := Some t\<rparr>))
      | _ \<Rightarrow> Inr r)"

definition gateway_meta_of :: "('db, 's, 'v) gateway_env \<Rightarrow> eui64 \<Rightarrow> 'db \<Rightarrow> 's \<Rightarrow> gateway_meta res \<times> 's" where
  "gateway_meta_of E i db s =
     GetAndCacheGatewayMeta (g_Redis E) (g_MetaCodec E) (g_TTL E) (g_Gateways E) (g_Boards E) (g_ServiceProfiles E) i db s"

text \<open>One reception, which is changed in place, and its gateway when the reception stays in the packet.\<close>

definition update_reception ::
  "('db, 's, 'v) gateway_env \<Rightarrow> 'db \<Rightarrow> rx_info \<Rightarrow> 's \<Rightarrow> (rx_info \<times> gateway_meta option) \<times> 's" where
  "update_reception E db r s =
     (case gateway_meta_of E (GetGatewayID r) db s of
        (Inl _, s) \<Rightarrow> ((r, None), s)
      | (Inr g, s) \<Rightarrow>
          let l = \<lparr>loc_Latitude = Latitude (gm_Location g), loc_Longitude = Longitude (gm_Location g), loc_Altitude = gm_Altitude g\<rparr>;
              r = set_fpga_id (board_of g r) (r\<lparr>ri_Location := Some l\<rparr>)
          in case decrypt_reception E (board_of g r) r of
            Inl _ \<Rightarrow> ((r, None), s)
          | Inr r \<Rightarrow> ((r, Some g), s))"

definition add_reception :: "rx_info \<Rightarrow> gateway_meta \<Rightarrow> dl_packet \<Rightarrow> dl_packet res" where
  "add_reception r g p =
     (case gomap_put (rp_GatewayIsPrivate p) (gm_GatewayID g) (gm_IsPrivate g) of
        Inl e \<Rightarrow> Inl e
      | Inr private \<Rightarrow>
          let p = p\<lparr>rp_RXInfoSet := rp_RXInfoSet p @ [r], rp_GatewayIsPrivate := private\<rparr>
          in case gm_ServiceProfileID g of
            None \<Rightarrow> Inr p
          | Some i \<Rightarrow> (case gomap_put (rp_GatewayServiceProfile p) (gm_GatewayID g) i of
              Inl e \<Rightarrow> Inl e
            | Inr profiles \<Rightarrow> Inr (p\<lparr>rp_GatewayServiceProfile := profiles\<rparr>)))"

text \<open>All receptions as they are afterwards, and the packet with those that stay.\<close>

fun update_receptions ::
  "('db, 's, 'v) gateway_env \<Rightarrow> 'db \<Rightarrow> rx_info list \<Rightarrow> dl_packet \<Rightarrow> 's \<Rightarrow> (rx_info list \<times> dl_packet res) \<times> 's" where
  "update_receptions E db [] p s = (([], Inr p), s)"
| "update_receptions E db (r # rs) p s =
     (case update_reception E db r s of
        ((r, kept), s) \<Rightarrow>
          (case (case kept of None \<Rightarrow> Inr p | Some g \<Rightarrow> add_reception r g p) of
             Inl e \<Rightarrow> ((r # rs, Inl e), s)
           | Inr p \<Rightarrow> (case update_receptions E db rs p s of ((rs, x), s) \<Rightarrow> ((r # rs, x), s))))"

definition UpdateMetaDataInRXPacket ::
  "('db, 's, 'v) gateway_env \<Rightarrow> dl_packet \<Rightarrow> ('db, 's) world \<Rightarrow> (rx_info list \<times> dl_packet res) \<times> ('db, 's) world" where
  "UpdateMetaDataInRXPacket E p w =
     (case update_receptions E (w_DB w) (rp_RXInfoSet p) (p\<lparr>rp_RXInfoSet := []\<rparr>) (w_Redis w) of
        (x, s) \<Rightarrow> (x, w\<lparr>w_Redis := s\<rparr>))"

section \<open>Proprietary frames\<close>

definition locate :: "(eui64, gateway) gomap \<Rightarrow> rx_info \<Rightarrow> rx_info" where
  "locate gws r =
     (case gomap_get gws (GetGatewayID r) of
        None \<Rightarrow> r
      | Some g \<Rightarrow> r\<lparr>ri_Location := Some \<lparr>loc_Latitude = Latitude (gw_Location g), loc_Longitude = Longitude (gw_Location g),
          loc_Altitude = gw_Altitude g\<rparr>\<rparr>)"

text \<open>The requests leave in goroutines of their own, after the task; what they return is only logged.\<close>

definition sendProprietaryPayloadToApplicationServer ::
  "('db, 's, 'v) server_env \<Rightarrow> byte list \<Rightarrow> dl_packet \<Rightarrow> ('db, 's) world \<Rightarrow> unit res \<times> ('db, 's) world" where
  "sendProprietaryPayloadToApplicationServer E bytes p w =
     (let gws = (case GetGatewaysForIDs (g_Gateways (s_Gateway E)) (map GetGatewayID (rp_RXInfoSet p)) (w_DB w) of
            Inl _ \<Rightarrow> Some [] | Inr gws \<Rightarrow> gws);
          request = HandleProprietaryUplink bytes (s_MIC E (rp_PHYPayload p)) (rp_TXInfo p) (map (locate gws) (rp_RXInfoSet p))
      in case GetAllRoutingProfiles (s_RoutingProfiles E) (w_DB w) of
        Inl e \<Rightarrow> (Inl (Wrap e ''get all routing-profiles error''), w)
      | Inr rps \<Rightarrow> (Inr (), fold (\<lambda>rp w. if is_error (s_pool E rp) then w else call_out request w) rps w))"

definition Proprietary_Handle ::
  "('db, 's, 'v) server_env \<Rightarrow> dl_packet \<Rightarrow> ('db, 's) world \<Rightarrow> unit res \<times> ('db, 's) world" where
  "Proprietary_Handle E p w =
     (case phy_MACPayload (rp_PHYPayload p) of
        Some (BytesFrame bytes) \<Rightarrow> sendProprietaryPayloadToApplicationServer E bytes p w
      | _ \<Rightarrow> (Inl (Errorf ''expected *lorawan.DataPayload''), w))"

section \<open>Dispatch\<close>

definition new_uplink_context :: "dl_packet \<Rightarrow> ('db, 's) world \<Rightarrow> ('db, 's, roaming_meta) uplink_context" where
  "new_uplink_context p w =
     \<lparr>w_DB = w_DB w, w_Redis = w_Redis w, w_Calls = w_Calls w, ux_RXPacket = p,
      ux_MACPayload = \<lparr>mf_DevAddr = 0, mf_FCtrl = no_fctrl, mf_FCnt = 0, mf_FOpts = [], mf_FPort = None, mf_FRMPayload = []\<rparr>,
      ux_DeviceSession = zero_device_session, ux_DeviceProfile = zero_device_profile, ux_ServiceProfile = zero_service_profile,
      ux_MACCommandResponses = [], ux_MustSendDownlink = False\<rparr>"

definition Data_Handle ::
  "('db, 's, 'v) server_env \<Rightarrow> dl_packet \<Rightarrow> ('db, 's) world \<Rightarrow> unit res \<times> ('db, 's) world" where
  "Data_Handle E p w = (case Handle (s_Data E) p (new_uplink_context p w) of (r, c) \<Rightarrow> (r, world.truncate c))"

definition handle_by_type ::
  "('db, 's, 'v) server_env \<Rightarrow> dl_packet \<Rightarrow> ('db, 's) world \<Rightarrow> unit res \<times> ('db, 's) world" where
  "handle_by_type E p w =
     (case phy_MType (rp_PHYPayload p) of
        JoinRequest \<Rightarrow> Join_Handle (s_Join E) (s_Roaming E) p w
      | RejoinRequest \<Rightarrow> Rejoin_Handle (s_Join E) p w
      | UnconfirmedDataUp \<Rightarrow> Data_Handle E p w
      | ConfirmedDataUp \<Rightarrow> Data_Handle E p w
      | Proprietary \<Rightarrow> Proprietary_Handle E p w
      | _ \<Rightarrow> (Inr (), w))"

text \<open>With the receptions as they are afterwards, for the report of a rejection.\<close>

definition handleCollectedUplink ::
  "('db, 's, 'v) server_env \<Rightarrow> dl_packet \<Rightarrow> ('db, 's) world \<Rightarrow> (rx_info list \<times> unit res) \<times> ('db, 's) world" where
  "handleCollectedUplink E p w =
     (case UpdateMetaDataInRXPacket (s_Gateway E) p w of
        ((all, Inl e), w) \<Rightarrow> ((all, Inl e), w)
      | ((all, Inr p), w) \<Rightarrow>
          if rp_RXInfoSet p = [] then ((all, Inr ()), w)
          else (case handle_by_type E p w of (r, w) \<Rightarrow> ((all, r), w)))"

definition rejecting_errors :: "error set" where
  "rejecting_errors = {ErrDoesNotExist, ErrFrameCounterReset, ErrInvalidMIC, ErrFrameCounterRetransmission}"

definition collected_callback ::
  "('db, 's, 'v) server_env \<Rightarrow> gw_uplink_frame \<Rightarrow> dl_packet \<Rightarrow> ('db, 's) world \<Rightarrow> unit res \<times> ('db, 's) world" where
  "collected_callback E f p w =
     (case handleCollectedUplink E p w of
        ((all, Inl e), w) \<Rightarrow>
          (Inl e, if error_cause e \<in> rejecting_errors
                  then call_out (HandleRejectedUplinkFrameSet (uf_PhyPayload f) (rp_TXInfo p) all) w else w)
      | ((all, Inr _), w) \<Rightarrow> (Inr (), w))"

definition collectUplinkFrames ::
  "('db, 's, 'v) server_env \<Rightarrow> ('s \<Rightarrow> 's) \<Rightarrow> gw_uplink_frame \<Rightarrow> ('db, 's) world \<Rightarrow> unit res \<times> ('db, 's) world" where
  "collectUplinkFrames E meanwhile f w = collectAndCallOnce (s_Collect E) meanwhile f (collected_callback E f) w"

section \<open>What the flows get\<close>

definition gateway_row :: "('db, 's, 'v) gateway_env \<Rightarrow> 'db \<Rightarrow> eui64 \<Rightarrow> gateway_meta \<Rightarrow> bool" where
  "gateway_row E db i g \<longleftrightarrow> GetGatewayMeta (g_Gateways E) (g_Boards E) (g_ServiceProfiles E) i db = Inr g"

lemma gateway_row_id: "gateway_row E db i g \<Longrightarrow> gm_GatewayID g = i"
  by (auto simp: gateway_row_def GetGatewayMeta_def sqlx_Get_def sqlx_Select_def dest!: filter_eq_ConsD split: sum.splits list.splits)

lemma gateway_row_unique: "gateway_row E db i g \<Longrightarrow> gateway_row E db i g' \<Longrightarrow> g' = g"
  by (simp add: gateway_row_def)

definition metas_coherent :: "('db, 's, 'v) gateway_env \<Rightarrow> ('v, eui64) contents \<Rightarrow> 'db \<Rightarrow> bool" where
  "metas_coherent E C db \<longleftrightarrow> (\<forall>i. cache_ok (g_MetaCodec E) C (gatewayMetaKey i) (gateway_row E db i))"

lemma gateway_meta_of_row:
  assumes "redis_server (g_Redis E) holds" "codec_ok (g_MetaCodec E)" "0 < g_TTL E"
    and "metas_coherent E (holds s) db" and "gateway_meta_of E i db s = (r, s')"
  shows "metas_coherent E (holds s') db" "r = Inr g \<Longrightarrow> gateway_row E db i g"
proof -
  have key: "gatewayMetaKey (gm_GatewayID g) = gatewayMetaKey i"
    if "GetGatewayMeta (g_Gateways E) (g_Boards E) (g_ServiceProfiles E) i db = Inr g" for g
    using that gateway_row_id[of E db i g] by (simp add: gateway_row_def)
  have good: "(\<forall>g. r = Inr g \<longrightarrow> gateway_row E db i g) \<and> cache_ok (g_MetaCodec E) (holds s') (gatewayMetaKey i) (gateway_row E db i) \<and>
      (\<forall>k. k \<noteq> gatewayMetaKey i \<longrightarrow> c_val (holds s') k = c_val (holds s) k)"
  proof (rule redis_server.cached_coherent[OF assms(1) _ assms(2,3)])
    show "cached (cache_get (g_Redis E) (g_MetaCodec E) (gatewayMetaKey i))
        (GetGatewayMeta (g_Gateways E) (g_Boards E) (g_ServiceProfiles E) i db)
        (\<lambda>g. cache_create (g_Redis E) (g_MetaCodec E) (g_TTL E) ''gob encode gateway meta error'' ''set gateway meta error''
          (gatewayMetaKey (gm_GatewayID g)) g) ''get gateway error'' s = (r, s')"
      using assms(5) unfolding gateway_meta_of_def GetAndCacheGatewayMeta_def GetGatewayMetaCache_def[abs_def]
        CreateGatewayMetaCache_def[abs_def] .
    show "cache_ok (g_MetaCodec E) (holds s) (gatewayMetaKey i) (gateway_row E db i)"
      using assms(4) by (simp add: metas_coherent_def)
  qed (simp_all add: gateway_row_def key)
  then show "r = Inr g \<Longrightarrow> gateway_row E db i g" by simp
  show "metas_coherent E (holds s') db" unfolding metas_coherent_def
  proof (rule allI)
    fix j
    show "cache_ok (g_MetaCodec E) (holds s') (gatewayMetaKey j) (gateway_row E db j)"
      using good assms(4) by (cases "j = i") (simp_all add: metas_coherent_def cache_ok_def)
  qed
qed

text \<open>A reception \<open>r\<close> as the flows get it, of gateway \<open>g\<close>.\<close>

definition located :: "rx_info \<Rightarrow> gateway_meta \<Rightarrow> rx_info \<Rightarrow> bool" where
  "located r0 g r \<longleftrightarrow>
     r = r0\<lparr>ri_Location := Some \<lparr>loc_Latitude = Latitude (gm_Location g), loc_Longitude = Longitude (gm_Location g),
         loc_Altitude = gm_Altitude g\<rparr>, ri_FineTimestamp := ri_FineTimestamp r\<rparr> \<and>
     (gb_FineTimestampKey (board_of g r0) = None \<or> (\<forall>ns i. ri_FineTimestamp r \<noteq> Some (EncryptedFineTimestamp ns i)))"

lemma located_gateway: "located r0 g r \<Longrightarrow> GetGatewayID r = GetGatewayID r0"
proof -
  assume "located r0 g r"
  then obtain l t where "r = r0\<lparr>ri_Location := l, ri_FineTimestamp := t\<rparr>" unfolding located_def by blast
  then show ?thesis by (simp add: GetGatewayID_def)
qed

lemma decrypted_is_plain: "decryptFineTimestamp E key t ns = Inr f \<Longrightarrow> \<exists>p. f = PlainFineTimestamp p"
  by (auto simp: decryptFineTimestamp_def Let_def split: if_splits sum.splits)

lemma update_reception_kept:
  assumes "update_reception E db r0 s = ((r, Some g), s')"
  shows "gateway_meta_of E (GetGatewayID r0) db s = (Inr g, s')" "located r0 g r"
proof -
  show "gateway_meta_of E (GetGatewayID r0) db s = (Inr g, s')"
    using assms by (auto simp: update_reception_def Let_def split: prod.splits sum.splits)
  show "located r0 g r"
    using assms by (auto simp: update_reception_def Let_def decrypt_reception_def set_fpga_id_def located_def board_of_def
        dest: decrypted_is_plain split: prod.splits sum.splits option.splits fine_timestamp.splits if_splits)
qed

text \<open>What the code read about the gateways of a packet is their rows.\<close>

definition gateway_maps :: "('db, 's, 'v) gateway_env \<Rightarrow> 'db \<Rightarrow> dl_packet \<Rightarrow> bool" where
  "gateway_maps E db p \<longleftrightarrow>
     rp_GatewayIsPrivate p \<noteq> None \<and> rp_GatewayServiceProfile p \<noteq> None \<and>
     (\<forall>i b. gomap_get (rp_GatewayIsPrivate p) i = Some b \<longrightarrow> (\<exists>g. gateway_row E db i g \<and> gm_IsPrivate g = b)) \<and>
     (\<forall>i v. gomap_get (rp_GatewayServiceProfile p) i = Some v \<longrightarrow> (\<exists>g. gateway_row E db i g \<and> gm_ServiceProfileID g = Some v))"

definition from_gateway :: "('db, 's, 'v) gateway_env \<Rightarrow> 'db \<Rightarrow> rx_info list \<Rightarrow> dl_packet \<Rightarrow> rx_info \<Rightarrow> bool" where
  "from_gateway E db r0s p r \<longleftrightarrow>
     (\<exists>r0 \<in> set r0s. \<exists>g. gateway_row E db (GetGatewayID r) g \<and> located r0 g r \<and>
        gomap_get (rp_GatewayIsPrivate p) (GetGatewayID r) = Some (gm_IsPrivate g) \<and>
        gomap_get (rp_GatewayServiceProfile p) (GetGatewayID r) = gm_ServiceProfileID g)"

definition same_frame :: "dl_packet \<Rightarrow> dl_packet \<Rightarrow> bool" where
  "same_frame p p' \<longleftrightarrow> rp_DR p' = rp_DR p \<and> rp_PHYPayload p' = rp_PHYPayload p \<and> rp_TXInfo p' = rp_TXInfo p \<and>
     rp_RoamingMetaData p' = rp_RoamingMetaData p"

lemma add_reception_known:
  assumes maps: "gateway_maps E db p" and all: "\<forall>r \<in> set (rp_RXInfoSet p). from_gateway E db r0s p r"
    and row: "gateway_row E db (GetGatewayID r0) g" and r: "located r0 g r" "r0 \<in> set r0s"
  shows "\<exists>p'. add_reception r g p = Inr p' \<and> gateway_maps E db p' \<and> same_frame p p' \<and>
    (\<forall>r \<in> set (rp_RXInfoSet p'). from_gateway E db r0s p' r)"
proof -
  have id: "gm_GatewayID g = GetGatewayID r" using gateway_row_id[OF row] located_gateway[OF r(1)] by simp
  note row' = row[folded located_gateway[OF r(1)]]
  obtain m1 m2 where m: "rp_GatewayIsPrivate p = Some m1" "rp_GatewayServiceProfile p = Some m2"
    using maps by (auto simp: gateway_maps_def)
  then obtain m1' m2' where puts:
    "gomap_put (rp_GatewayIsPrivate p) (GetGatewayID r) (gm_IsPrivate g) = Inr m1'"
    "case gm_ServiceProfileID g of None \<Rightarrow> m2' = rp_GatewayServiceProfile p
     | Some v \<Rightarrow> gomap_put (rp_GatewayServiceProfile p) (GetGatewayID r) v = Inr m2'"
    by (cases "gm_ServiceProfileID g") (auto simp: gomap_put_def)
  define p' where "p' = p\<lparr>rp_RXInfoSet := rp_RXInfoSet p @ [r], rp_GatewayIsPrivate := m1', rp_GatewayServiceProfile := m2'\<rparr>"
  have add: "add_reception r g p = Inr p'"
    using puts id by (cases "gm_ServiceProfileID g") (simp_all add: add_reception_def p'_def)
  have got: "gomap_get m1' i = (if i = GetGatewayID r then Some (gm_IsPrivate g) else gomap_get (rp_GatewayIsPrivate p) i)"
    "gomap_get m2' i = (if i = GetGatewayID r then gm_ServiceProfileID g else gomap_get (rp_GatewayServiceProfile p) i)" for i
  proof -
    show "gomap_get m1' i = (if i = GetGatewayID r then Some (gm_IsPrivate g) else gomap_get (rp_GatewayIsPrivate p) i)"
      using gomap_get_put[OF puts(1)] .
    have "gomap_get (rp_GatewayServiceProfile p) (GetGatewayID r) = None" if "gm_ServiceProfileID g = None"
    proof (rule ccontr)
      assume "\<not> ?thesis"
      then obtain v g' where "gateway_row E db (GetGatewayID r) g'" "gm_ServiceProfileID g' = Some v"
        using maps unfolding gateway_maps_def by blast
      then show False using gateway_row_unique[OF row'] that by fastforce
    qed
    then show "gomap_get m2' i = (if i = GetGatewayID r then gm_ServiceProfileID g else gomap_get (rp_GatewayServiceProfile p) i)"
      using puts(2) gomap_get_put[of "rp_GatewayServiceProfile p" "GetGatewayID r" _ m2' i]
      by (cases "gm_ServiceProfileID g") auto
  qed
  have "m1' \<noteq> None" "m2' \<noteq> None" using puts m by (auto simp: gomap_put_def split: option.splits)
  then have "gateway_maps E db p'"
    using maps row' unfolding gateway_maps_def p'_def by (auto simp: got)
  moreover have "from_gateway E db r0s p' x" if "x \<in> set (rp_RXInfoSet p')" for x
  proof (cases "x = r")
    case True
    then show ?thesis using row' r unfolding from_gateway_def by (intro bexI[of _ r0] exI[of _ g]) (simp_all add: p'_def got)
  next
    case False
    then have "from_gateway E db r0s p x" using that all by (simp add: p'_def)
    then show ?thesis using gateway_row_unique[OF row'] unfolding from_gateway_def p'_def by (fastforce simp: got)
  qed
  ultimately show ?thesis using add by (intro exI[of _ p']) (simp add: same_frame_def p'_def)
qed

lemma update_receptions_known:
  assumes "redis_server (g_Redis E) holds" "codec_ok (g_MetaCodec E)" "0 < g_TTL E"
    and "update_receptions E db rs p s = ((all, x), s')" and "metas_coherent E (holds s) db"
    and "gateway_maps E db p" and "\<forall>r \<in> set (rp_RXInfoSet p). from_gateway E db r0s p r" and "set rs \<subseteq> set r0s"
  shows "\<exists>p'. x = Inr p' \<and> gateway_maps E db p' \<and> same_frame p p' \<and> (\<forall>r \<in> set (rp_RXInfoSet p'). from_gateway E db r0s p' r) \<and>
    metas_coherent E (holds s') db"
  using assms(4-8)
proof (induction rs arbitrary: p s all x)
  case Nil
  then show ?case by (auto simp: same_frame_def)
next
  case (Cons r0 rs)
  obtain r k s1 where u: "update_reception E db r0 s = ((r, k), s1)" by (metis surj_pair)
  obtain m s2 where m: "gateway_meta_of E (GetGatewayID r0) db s = (m, s2)" by fastforce
  then have "s2 = s1" using u by (auto simp: update_reception_def Let_def split: sum.splits)
  then have c: "metas_coherent E (holds s1) db" using gateway_meta_of_row(1)[OF assms(1-3) Cons.prems(2) m] by simp
  have "\<exists>p1. (case k of None \<Rightarrow> Inr p | Some g \<Rightarrow> add_reception r g p) = Inr p1 \<and> gateway_maps E db p1 \<and> same_frame p p1 \<and>
      (\<forall>r \<in> set (rp_RXInfoSet p1). from_gateway E db r0s p1 r)"
  proof (cases k)
    case None
    then show ?thesis using Cons.prems by (simp add: same_frame_def)
  next
    case (Some g)
    note kept = update_reception_kept[OF u[unfolded Some]]
    show ?thesis using add_reception_known[OF Cons.prems(3,4) gateway_meta_of_row(2)[OF assms(1-3) Cons.prems(2) kept(1) refl] kept(2)]
      Cons.prems(5) Some by simp
  qed
  then obtain p1 where p1: "(case k of None \<Rightarrow> Inr p | Some g \<Rightarrow> add_reception r g p) = Inr p1" "gateway_maps E db p1" "same_frame p p1"
    "\<forall>r \<in> set (rp_RXInfoSet p1). from_gateway E db r0s p1 r" by blast
  obtain all1 x1 s3 where rest: "update_receptions E db rs p1 s1 = ((all1, x1), s3)" by (metis surj_pair)
  then have same: "x1 = x" "s3 = s'" using Cons.prems(1) u p1(1) by auto
  show ?case using Cons.IH[OF rest[unfolded same] c p1(2,4)] Cons.prems(5) p1(3) by (auto simp: same_frame_def)
qed

lemma collected_maps:
  assumes "collect_receptions Q is_first bs out = Inr p" and "rp_RXInfoSet out \<noteq> [] \<Longrightarrow> gateway_maps E db out"
    and "rp_RXInfoSet p \<noteq> []"
  shows "gateway_maps E db p"
  using assms(1,2)
proof (induction bs arbitrary: is_first out)
  case Nil
  then show ?case using assms(3) by simp
next
  case (Cons b bs)
  have new: "gateway_maps E db (with_reception t r out')" for t r out'
    by (simp add: gateway_maps_def with_reception_def gomap_get_def)
  show ?case using Cons new
    by (auto split: sum.splits option.splits if_splits)
qed

text \<open>
  C12: what a collected uplink may trigger. A flow gets the packet with the receptions of known
  gateways only: each with the location of its gateway's row, decrypted when the board has a key, and with the
  privacy and service-profile of that row, as long as the cached meta-data was coherent, which it then
  stays. Without such a reception nothing happens: no call, and the database is untouched.
\<close>

theorem flows_get_known_gateways:
  assumes "redis_server (g_Redis (s_Gateway E)) holds" and "codec_ok (g_MetaCodec (s_Gateway E))" and "0 < g_TTL (s_Gateway E)"
    and "metas_coherent (s_Gateway E) (holds (w_Redis w)) (w_DB w)"
    and "collected_packet Q payloads = Inr p" and "handleCollectedUplink E p w = ((all, r), w')"
  shows "\<exists>p1 s1. (r, w') = (if rp_RXInfoSet p1 = [] then (Inr (), w\<lparr>w_Redis := s1\<rparr>) else handle_by_type E p1 (w\<lparr>w_Redis := s1\<rparr>)) \<and>
    same_frame p p1 \<and> metas_coherent (s_Gateway E) (holds s1) (w_DB w) \<and>
    (\<forall>x \<in> set (rp_RXInfoSet p1). from_gateway (s_Gateway E) (w_DB w) (rp_RXInfoSet p) p1 x)"
proof -
  let ?G = "s_Gateway E"
  obtain x s1 where u: "update_receptions ?G (w_DB w) (rp_RXInfoSet p) (p\<lparr>rp_RXInfoSet := []\<rparr>) (w_Redis w) = ((all, x), s1)"
    using assms(6) by (auto simp: handleCollectedUplink_def UpdateMetaDataInRXPacket_def Let_def split: prod.splits sum.splits if_splits)
  have "\<exists>p1. x = Inr p1 \<and> same_frame p p1 \<and> (\<forall>r \<in> set (rp_RXInfoSet p1). from_gateway ?G (w_DB w) (rp_RXInfoSet p) p1 r) \<and>
    metas_coherent ?G (holds s1) (w_DB w)"
  proof (cases "rp_RXInfoSet p = []")
    case True
    then show ?thesis using u assms(4) by (auto simp: same_frame_def)
  next
    case False
    obtain bs where "collect_receptions Q True bs no_packet = Inr p"
      using assms(5) by (auto simp: collected_packet_def split: sum.splits if_splits)
    from collected_maps[OF this _ False, of ?G "w_DB w"]
    have "gateway_maps ?G (w_DB w) (p\<lparr>rp_RXInfoSet := []\<rparr>)" by (simp add: no_packet_def gateway_maps_def)
    from update_receptions_known[OF assms(1-3) u assms(4) this, of "rp_RXInfoSet p"]
    show ?thesis by (auto simp: same_frame_def)
  qed
  then obtain p1 where p1: "x = Inr p1" "same_frame p p1" "metas_coherent ?G (holds s1) (w_DB w)"
    "\<forall>r \<in> set (rp_RXInfoSet p1). from_gateway ?G (w_DB w) (rp_RXInfoSet p) p1 r" by blast
  have "(r, w') = (if rp_RXInfoSet p1 = [] then (Inr (), w\<lparr>w_Redis := s1\<rparr>) else handle_by_type E p1 (w\<lparr>w_Redis := s1\<rparr>))"
    using assms(6) u p1(1) by (auto simp: handleCollectedUplink_def UpdateMetaDataInRXPacket_def split: prod.splits if_splits)
  with p1 show ?thesis by blast
qed

section \<open>A sample\<close>

text \<open>A proprietary frame, heard by a gateway of the table and by one that is not in it.\<close>

definition sample_gateway_env :: "(memory_db, memory, redis_value) gateway_env" where
  "sample_gateway_env =
     \<lparr>g_Redis = mem_redis, g_MetaCodec = gateway_meta_values, g_TTL = 1000, g_Gateways = memory_gateways, g_Boards = memory_boards,
      g_ServiceProfiles = memory_services, g_Decrypt = (\<lambda>_ b. b), g_TimestampProto = (\<lambda>t. Inr \<lparr>pt_Seconds = t div second,
      pt_Nanos = t mod second\<rparr>), g_nil_time = 0\<rparr>"

definition sample_server :: "(memory_db, memory, redis_value) server_env" where
  "sample_server =
     \<lparr>s_Collect = \<lparr>q_Redis = no_redis, q_lock = DeviceProfileValue zero_device_profile, q_deduplicationDelay = 200 * millisecond,
        q_Frames = \<lparr>enc = \<lambda>_. Inr [], dec = \<lambda>_. Inr (heard_by 1)\<rparr>, q_MarshalTXInfo = (\<lambda>_. Inr []),
        q_UnmarshalPHY = (\<lambda>_. Inr (rp_PHYPayload sample_dl_packet)), q_Band = sample_band\<rparr>,
      s_Gateway = sample_gateway_env, s_Data = sample_up_env, s_Join = sample_join_env, s_Roaming = no_roaming_env,
      s_RoutingProfiles = memory_routing, s_pool = (\<lambda>_. Inr ()), s_MIC = (\<lambda>_. [1, 2, 3, 4])\<rparr>"

definition proprietary_phy :: phy where
  "proprietary_phy = \<lparr>phy_MType = Proprietary, phy_MACPayload = Some (BytesFrame [9])\<rparr>"

definition proprietary_packet :: dl_packet where
  "proprietary_packet =
     with_reception sf12_tx_info (the (uf_RxInfo (heard_by 2)))
       (with_reception sf12_tx_info (the (uf_RxInfo (heard_by 1))) (no_packet\<lparr>rp_PHYPayload := proprietary_phy, rp_DR := 0\<rparr>))"

definition gateway_1_tables :: tables where
  "gateway_1_tables = sample_tables
     \<lparr>t_gateways := \<lparr>mt_up = True, mt_next = 0, mt_rows = [sample_gateway\<lparr>gw_GatewayID := bytes_eui64 [1]\<rparr>]\<rparr>\<rparr>"

definition gateway_1_world :: "(memory_db, memory) world" where
  "gateway_1_world = \<lparr>w_DB = (gateway_1_tables, gateway_1_tables), w_Redis = mem_empty, w_Calls = []\<rparr>"

lemma proprietary_packet_collected:
  "collected_packet (sample_collect\<lparr>q_UnmarshalPHY := \<lambda>_. Inr proprietary_phy\<rparr>) (Inr [[1], [2]]) = Inr proprietary_packet"
  using sample_collect_run(5,6) sf12_data_rate
  by (simp add: collected_packet_def heard_by_def sample_collect_def proprietary_packet_def)

definition gateway_1_meta :: gateway_meta where
  "gateway_1_meta =
     \<lparr>gm_GatewayID = bytes_eui64 [1], gm_RoutingProfileID = 0, gm_GatewayProfileID = None, gm_ServiceProfileID = Some 0,
      gm_Location = \<lparr>Latitude = 50, Longitude = 4\<rparr>, gm_Altitude = 10, gm_IsPrivate = False, gm_Boards = []\<rparr>"

lemma gateway_1_id: "gm_GatewayID gateway_1_meta = bytes_eui64 [1]"
  by (simp add: gateway_1_meta_def)

lemma gateway_ids: "bytes_eui64 [1] \<noteq> bytes_eui64 [2]"
  by code_simp

lemma sample_meta_rows:
  "GetGatewayMeta memory_gateways memory_boards memory_services (bytes_eui64 [1]) (gateway_1_tables, t) = Inr gateway_1_meta"
  "GetGatewayMeta memory_gateways memory_boards memory_services (bytes_eui64 [2]) (gateway_1_tables, t) = Inl ErrDoesNotExist"
  using gateway_ids
  by (simp_all add: GetGatewayMeta_def sqlx_Get_def sqlx_Select_def memory_tables gateway_1_tables_def sample_tables_def sample_gateway_def
      gateway_1_meta_def boards_of_def is_private_def zero_service_profile_def handlePSQLError_def)

lemma sample_metas:
  "\<exists>s. gateway_meta_of sample_gateway_env (bytes_eui64 [1]) (gateway_1_tables, t) mem_empty = (Inr gateway_1_meta, s) \<and> m_up s \<and> mem_val s (gatewayMetaKey (bytes_eui64 [2])) = None"
  "m_up s \<Longrightarrow> mem_val s (gatewayMetaKey (bytes_eui64 [2])) = None \<Longrightarrow>
     fst (gateway_meta_of sample_gateway_env (bytes_eui64 [2]) (gateway_1_tables, t) s) = Inl (Wrap ErrDoesNotExist ''get gateway error'')"
  using gateway_ids gateway_ids[symmetric] sample_meta_rows gateway_1_id
  by (simp_all add: gateway_meta_of_def GetAndCacheGatewayMeta_def cached_def GetGatewayMetaCache_def cache_get_def
      CreateGatewayMetaCache_def cache_create_def sample_gateway_env_def gateway_meta_values_def mem_redis_run mem_empty_def mem_val_def)

lemma sample_receptions:
  "\<exists>r1 r2. rp_RXInfoSet proprietary_packet = [r1, r2] \<and> GetGatewayID r1 = bytes_eui64 [1] \<and> GetGatewayID r2 = bytes_eui64 [2] \<and>
     ri_FineTimestamp r1 = None"
  by (simp add: proprietary_packet_def with_reception_def heard_by_def no_packet_def GetGatewayID_def sample_dl_packet_def)

lemma proprietary_run:
  "\<exists>all w'. handleCollectedUplink sample_server proprietary_packet gateway_1_world = ((all, Inr ()), w') \<and> length (w_Calls w') = 1"
proof -
  obtain r1 r2 where r: "rp_RXInfoSet proprietary_packet = [r1, r2]" "GetGatewayID r1 = bytes_eui64 [1]"
    "GetGatewayID r2 = bytes_eui64 [2]" "ri_FineTimestamp r1 = None" using sample_receptions by blast
  have p: "rp_GatewayIsPrivate proprietary_packet = Some []" "rp_GatewayServiceProfile proprietary_packet = Some []"
    "rp_PHYPayload proprietary_packet = proprietary_phy"
    by (simp_all add: proprietary_packet_def with_reception_def no_packet_def)
  have env: "s_Gateway sample_server = sample_gateway_env" "s_RoutingProfiles sample_server = memory_routing"
    "s_pool sample_server = (\<lambda>_. Inr ())" by (simp_all add: sample_server_def)
  obtain s1 where m1: "gateway_meta_of sample_gateway_env (bytes_eui64 [1]) (gateway_1_tables, gateway_1_tables) mem_empty = (Inr gateway_1_meta, s1)"
    "m_up s1" "mem_val s1 (gatewayMetaKey (bytes_eui64 [2])) = None" using sample_metas(1) by blast
  obtain e s2 where m2: "gateway_meta_of sample_gateway_env (bytes_eui64 [2]) (gateway_1_tables, gateway_1_tables) s1 = (Inl e, s2)"
    using sample_metas(2)[OF m1(2,3)] by (metis prod.collapse)
  obtain r1' where u1: "update_reception sample_gateway_env (gateway_1_tables, gateway_1_tables) r1 mem_empty = ((r1', Some gateway_1_meta), s1)"
    using r m1 by (auto simp: update_reception_def Let_def set_fpga_id_def decrypt_reception_def)
  have u2: "update_reception sample_gateway_env (gateway_1_tables, gateway_1_tables) r2 s1 = ((r2, None), s2)"
    using r m2 by (simp add: update_reception_def)
  obtain p1 where a: "add_reception r1' gateway_1_meta (proprietary_packet\<lparr>rp_RXInfoSet := []\<rparr>) = Inr p1"
    and p1: "rp_RXInfoSet p1 = [r1']" "rp_PHYPayload p1 = proprietary_phy"
    using p by (auto simp: add_reception_def gomap_put_def gateway_1_meta_def Let_def)
  have "GetAllRoutingProfiles memory_routing (gateway_1_tables, gateway_1_tables) = Inr [sample_routing]"
    by (simp add: GetAllRoutingProfiles_def sqlx_Select_def memory_tables gateway_1_tables_def sample_tables_def)
  then show ?thesis using r(1) u1 u2 a p1 env
    by (simp add: handleCollectedUplink_def UpdateMetaDataInRXPacket_def gateway_1_world_def handle_by_type_def proprietary_phy_def
        Proprietary_Handle_def sendProprietaryPayloadToApplicationServer_def Let_def)
qed

theorem flows_get_known_gateways_witness:
  "\<exists>all w' p1 s1. handleCollectedUplink sample_server proprietary_packet gateway_1_world = ((all, Inr ()), w') \<and> length (w_Calls w') = 1 \<and>
     (Inr (), w') = handle_by_type sample_server p1 (gateway_1_world\<lparr>w_Redis := s1\<rparr>) \<and> rp_RXInfoSet p1 \<noteq> [] \<and>
     (\<forall>x \<in> set (rp_RXInfoSet p1). GetGatewayID x = bytes_eui64 [1] \<and>
        ri_Location x = Some \<lparr>loc_Latitude = 50, loc_Longitude = 4, loc_Altitude = 10\<rparr>)"
proof -
  obtain all w' where run: "handleCollectedUplink sample_server proprietary_packet gateway_1_world = ((all, Inr ()), w')"
    and calls: "length (w_Calls w') = 1" using proprietary_run by blast
  have env: "s_Gateway sample_server = sample_gateway_env" "g_Redis sample_gateway_env = mem_redis"
    "g_MetaCodec sample_gateway_env = gateway_meta_values" "g_TTL sample_gateway_env = 1000"
    by (simp_all add: sample_server_def sample_gateway_env_def)
  have w: "w_DB gateway_1_world = (gateway_1_tables, gateway_1_tables)" "w_Redis gateway_1_world = mem_empty" "w_Calls gateway_1_world = []"
    by (simp_all add: gateway_1_world_def)
  have fresh: "metas_coherent sample_gateway_env (mem_holds mem_empty) db" for db
    by (simp add: metas_coherent_def cache_ok_def mem_empty_def mem_val_def)
  have row: "g = gateway_1_meta \<and> i = bytes_eui64 [1]"
    if "gateway_row sample_gateway_env (gateway_1_tables, gateway_1_tables) i g" "i \<in> {bytes_eui64 [1], bytes_eui64 [2]}" for i g
    using that sample_meta_rows by (auto simp: gateway_row_def sample_gateway_env_def)
  from flows_get_known_gateways[where holds = mem_holds, OF _ _ _ _ proprietary_packet_collected run, unfolded env w,
      OF mem_server.redis_server_axioms gateway_meta_values_ok _ fresh]
  obtain p1 s1 where p1: "(Inr (), w') = (if rp_RXInfoSet p1 = [] then (Inr (), gateway_1_world\<lparr>w_Redis := s1\<rparr>)
      else handle_by_type sample_server p1 (gateway_1_world\<lparr>w_Redis := s1\<rparr>))"
    and known: "\<forall>x \<in> set (rp_RXInfoSet p1).
      from_gateway sample_gateway_env (gateway_1_tables, gateway_1_tables) (rp_RXInfoSet proprietary_packet) p1 x" by auto
  have some: "rp_RXInfoSet p1 \<noteq> []" using p1 calls w by auto
  have "GetGatewayID x = bytes_eui64 [1] \<and> ri_Location x = Some \<lparr>loc_Latitude = 50, loc_Longitude = 4, loc_Altitude = 10\<rparr>"
    if x: "x \<in> set (rp_RXInfoSet p1)" for x
  proof -
    obtain r0 g where g: "r0 \<in> set (rp_RXInfoSet proprietary_packet)" "located r0 g x"
      "gateway_row sample_gateway_env (gateway_1_tables, gateway_1_tables) (GetGatewayID x) g"
      using known x by (auto simp: from_gateway_def)
    have "GetGatewayID x \<in> {bytes_eui64 [1], bytes_eui64 [2]}"
      using g(1) located_gateway[OF g(2)] sample_receptions by auto
    from row[OF g(3) this] have "g = gateway_1_meta" "GetGatewayID x = bytes_eui64 [1]" by simp_all
    moreover obtain t where "x = r0\<lparr>ri_Location := Some \<lparr>loc_Latitude = Latitude (gm_Location g), loc_Longitude = Longitude (gm_Location g),
         loc_Altitude = gm_Altitude g\<rparr>, ri_FineTimestamp := t\<rparr>" using g(2) unfolding located_def by blast
    ultimately show ?thesis by (simp add: gateway_1_meta_def)
  qed
  then show ?thesis using run calls p1 some by (intro exI[of _ all] exI[of _ w'] exI[of _ p1] exI[of _ s1]) simp
qed

end
