(* ===== verification/ProprietaryDownlink.thy ===== *)
theory ProprietaryDownlink
  imports DownlinkFlow
begin

text \<open>
  Proprietary downlinks (\<open>internal/downlink/proprietary\<close>): the API sends a payload, with the MIC it brings,
  through a list of gateways at once. The two tasks are to save the frames and to send them, in this
  order, and it is the second that makes the frames.

  \<open>newUUID\<close> is the draw of \<open>uuid.NewV4\<close> after the calls made so far.
\<close>

section \<open>The tasks\<close>

record ('db, 's) pd_context = "('db, 's) world" +
  pd_MACPayload :: "byte list"
  pd_MIC :: "byte list"
  pd_GatewayMACs :: "eui64 list"
  pd_IPol :: bool
  pd_Frequency :: u32
  pd_DR :: int
  pd_DownlinkFrames :: "gw_downlink_frame list"

definition proprietary_phy_of :: "byte list \<Rightarrow> phy" where
  "proprietary_phy_of bytes = \<lparr>phy_MType = Proprietary, phy_MACPayload = Some (BytesFrame bytes)\<rparr>"

definition set_polarization :: "bool \<Rightarrow> downlink_tx_info \<Rightarrow> downlink_tx_info" where
  "set_polarization iPol t =
     (case (mi_Modulation t, GetLoraModulationInfo t) of
        (Modulation_LORA, Some i) \<Rightarrow> t\<lparr>mi_ModulationInfo := Some (LoraModulationInfo (i\<lparr>li_PolarizationInversion := iPol\<rparr>))\<rparr>
      | _ \<Rightarrow> t)"

definition proprietary_tx_info :: "('db, 's, 'v) dl_env \<Rightarrow> bool \<Rightarrow> u32 \<Rightarrow> int \<Rightarrow> downlink_tx_info res" where
  "proprietary_tx_info E iPol frequency dr =
     (case SetDownlinkTXInfoDataRate (n_Band E) dr
             (empty_tx_info\<lparr>dt_Frequency := frequency, dt_Power := sint (word_of_int (tx_power E frequency) :: 32 word),
                dt_Timing := IMMEDIATELY\<rparr>) of
        Inl e \<Rightarrow> Inl (Wrap e ''set downlink tx-info data-rate error'')
      | Inr t \<Rightarrow> Inr (set_polarization iPol t))"

fun send_proprietary ::
  "('db, 's, 'v) dl_env \<Rightarrow> (call list \<Rightarrow> uuid res) \<Rightarrow> byte list \<Rightarrow> eui64 list \<Rightarrow> ('db, 's) pd_context task" where
  "send_proprietary E newUUID phyB [] c = (Inr (), c)"
| "send_proprietary E newUUID phyB (mac # macs) c =
     (case newUUID (w_Calls c) of
        Inl e \<Rightarrow> (Inl (Wrap e ''new uuid error''), c)
      | Inr i \<Rightarrow>
         (case proprietary_tx_info E (pd_IPol c) (pd_Frequency c) (pd_DR c) of
            Inl e \<Rightarrow> (Inl e, c)
          | Inr t \<Rightarrow>
              let f = \<lparr>gd_GatewayId = eui64_bytes mac, gd_Token = ucast (word_rcat (take 2 (uuid_bytes i)) :: u16),
                       gd_DownlinkId = uuid_bytes i, gd_Items = [\<lparr>di_PhyPayload = phyB, di_TxInfo = Some t\<rparr>]\<rparr>;
                  c = c\<lparr>pd_DownlinkFrames := pd_DownlinkFrames c @ [f]\<rparr>
              in (case send_packet (n_send E) f c of
                    (Inl e, c) \<Rightarrow> (Inl (Wrap e ''send downlink frame to gateway error''), c)
                  | (Inr _, c) \<Rightarrow> send_proprietary E newUUID phyB macs c)))"

definition sendProprietaryDown ::
  "('db, 's, 'v) dl_env \<Rightarrow> (call list \<Rightarrow> uuid res) \<Rightarrow> ('db, 's) pd_context task" where
  "sendProprietaryDown E newUUID c =
     (case n_MarshalBinary E (proprietary_phy_of (pd_MACPayload c)) (pd_MIC c) of
        Inl e \<Rightarrow> (Inl (Wrap e ''marshal phypayload error''), c)
      | Inr phyB \<Rightarrow> send_proprietary E newUUID phyB (pd_GatewayMACs c) c)"

fun save_proprietary :: "('db, 's, 'v) dl_env \<Rightarrow> gw_downlink_frame list \<Rightarrow> ('db, 's) pd_context task" where
  "save_proprietary E [] c = (Inr (), c)"
| "save_proprietary E (f # fs) c =
     (case on_Redis (SaveDownlinkFrame (n_Redis E) (n_Frames E) (zero_stored_frame\<lparr>sf_Token := gd_Token f, sf_DownlinkFrame := f\<rparr>)) c of
        (Inl e, c) \<Rightarrow> (Inl (Wrap e ''save downlink-frame error''), c)
      | (Inr _, c) \<Rightarrow> save_proprietary E fs c)"

definition pd_saveDownlinkFrames :: "('db, 's, 'v) dl_env \<Rightarrow> ('db, 's) pd_context task" where
  "pd_saveDownlinkFrames E c = save_proprietary E (pd_DownlinkFrames c) c"

definition pd_tasks :: "('db, 's, 'v) dl_env \<Rightarrow> (call list \<Rightarrow> uuid res) \<Rightarrow> ('db, 's) pd_context task list" where
  "pd_tasks E newUUID = [pd_saveDownlinkFrames E, sendProprietaryDown E newUUID]"

definition pd_Handle ::
  "('db, 's, 'v) dl_env \<Rightarrow> (call list \<Rightarrow> uuid res) \<Rightarrow> byte list \<Rightarrow> byte list \<Rightarrow> eui64 list \<Rightarrow> bool \<Rightarrow> u32 \<Rightarrow> int \<Rightarrow>
   ('db, 's) world \<Rightarrow> unit res \<times> ('db, 's) world" where
  "pd_Handle E newUUID macPayload mic gwMACs iPol frequency dr w =
     (case run_tasks (pd_tasks E newUUID)
             \<lparr>w_DB = w_DB w, w_Redis = w_Redis w, w_Calls = w_Calls w, pd_MACPayload = macPayload, pd_MIC = mic,
              pd_GatewayMACs = gwMACs, pd_IPol = iPol, pd_Frequency = frequency, pd_DR = dr, pd_DownlinkFrames = []\<rparr> of
        (r, c) \<Rightarrow> (r, world.truncate c))"

section \<open>What is sent\<close>

text \<open>A frame for a gateway, sent at once.\<close>

definition proprietary_frame_for :: "('db, 's, 'v) dl_env \<Rightarrow> byte list \<Rightarrow> bool \<Rightarrow> u32 \<Rightarrow> int \<Rightarrow> eui64 \<Rightarrow> gw_downlink_frame \<Rightarrow> bool" where
  "proprietary_frame_for E phyB iPol frequency dr mac f \<longleftrightarrow>
     gd_GatewayId f = eui64_bytes mac \<and> gd_Token f = ucast (word_rcat (take 2 (gd_DownlinkId f)) :: u16) \<and>
     (\<exists>t. proprietary_tx_info E iPol frequency dr = Inr t \<and> gd_Items f = [\<lparr>di_PhyPayload = phyB, di_TxInfo = Some t\<rparr>])"

lemma send_proprietary_frames:
  assumes "send_proprietary E newUUID phyB macs c = (r, c')"
  shows "w_DB c' = w_DB c \<and> w_Redis c' = w_Redis c \<and>
    (\<exists>fs. w_Calls c' = w_Calls c @ map SendTXPacket fs \<and> length fs \<le> length macs \<and> (r = Inr () \<longrightarrow> length fs = length macs) \<and>
      (\<forall>i < length fs. proprietary_frame_for E phyB (pd_IPol c) (pd_Frequency c) (pd_DR c) (macs ! i) (fs ! i)))"
  using assms
proof (induction macs arbitrary: c)
  case (Cons mac macs)
  show ?case
  proof (cases "\<exists>e. newUUID (w_Calls c) = Inl e \<or> proprietary_tx_info E (pd_IPol c) (pd_Frequency c) (pd_DR c) = Inl e")
    case True
    then show ?thesis using Cons.prems by (auto split: sum.splits intro!: exI[of _ "[]"])
  next
    case False
    then obtain i t where it: "newUUID (w_Calls c) = Inr i" "proprietary_tx_info E (pd_IPol c) (pd_Frequency c) (pd_DR c) = Inr t"
      by (metis res_cases)
    define f where "f = \<lparr>gd_GatewayId = eui64_bytes mac, gd_Token = ucast (word_rcat (take 2 (uuid_bytes i)) :: u16),
      gd_DownlinkId = uuid_bytes i, gd_Items = [\<lparr>di_PhyPayload = phyB, di_TxInfo = Some t\<rparr>]\<rparr>"
    have f: "proprietary_frame_for E phyB (pd_IPol c) (pd_Frequency c) (pd_DR c) mac f"
      using it(2) by (simp add: proprietary_frame_for_def f_def)
    let ?c = "c\<lparr>pd_DownlinkFrames := pd_DownlinkFrames c @ [f]\<rparr>"
    show ?thesis
    proof (cases "n_send E f (w_Calls c)")
      case (Inl e)
      then show ?thesis using Cons.prems it by (auto simp: send_packet_def f_def[symmetric] Let_def intro!: exI[of _ "[]"])
    next
      case (Inr u)
      then have rest: "send_proprietary E newUUID phyB macs (call_out (SendTXPacket f) ?c) = (r, c')"
        using Cons.prems it by (simp add: send_packet_def f_def[symmetric] Let_def)
      have same: "pd_IPol (call_out (SendTXPacket f) ?c) = pd_IPol c" "pd_Frequency (call_out (SendTXPacket f) ?c) = pd_Frequency c"
        "pd_DR (call_out (SendTXPacket f) ?c) = pd_DR c" by (simp_all add: call_out_def)
      from Cons.IH[OF rest, unfolded same] obtain fs where fs: "w_DB c' = w_DB c" "w_Redis c' = w_Redis c"
        "w_Calls c' = w_Calls c @ SendTXPacket f # map SendTXPacket fs" "length fs \<le> length macs" "r = Inr () \<longrightarrow> length fs = length macs"
        "\<forall>i < length fs. proprietary_frame_for E phyB (pd_IPol c) (pd_Frequency c) (pd_DR c) (macs ! i) (fs ! i)"
        by auto
      then show ?thesis using f by (auto intro!: exI[of _ "f # fs"] simp: nth_Cons split: nat.split)
    qed
  qed
qed auto

text \<open>What the parameters of a frame are, with the steps that set them unfolded.\<close>

lemma proprietary_parameters:
  assumes "proprietary_tx_info E iPol frequency dr = Inr t"
  obtains d where "GetDataRate (n_Band E) dr = Inr d" "Modulation d \<noteq> LRFHSSModulation"
    "t = \<lparr>mi_Modulation = (if Modulation d = LoRaModulation then Modulation_LORA else Modulation_FSK),
          mi_ModulationInfo = Some (if Modulation d = LoRaModulation
            then LoraModulationInfo \<lparr>li_Bandwidth = word_of_int (Bandwidth d), li_SpreadingFactor = word_of_int (SpreadFactor d),
              li_CodeRate = ''4/5'', li_PolarizationInversion = iPol\<rparr>
            else FskModulationInfo \<lparr>fi_FrequencyDeviation = word_of_int (go_div (BitRate d) 2), fi_Datarate = word_of_int (BitRate d)\<rparr>),
          dt_Frequency = frequency,
          dt_Power = sint (word_of_int (if cf_downlinkTXPower (n_conf E) \<noteq> - 1 then cf_downlinkTXPower (n_conf E)
            else bd_GetDownlinkTXPower (n_DL E) frequency) :: 32 word),
          dt_Board = 0, dt_Antenna = 0, dt_Timing = IMMEDIATELY, dt_Context = []\<rparr>"
proof (cases "GetDataRate (n_Band E) dr")
  case (Inr d)
  then show ?thesis using assms
    by (cases "Modulation d"; intro that[of d])
      (auto simp: proprietary_tx_info_def SetDownlinkTXInfoDataRate_def set_polarization_def GetLoraModulationInfo_def
        empty_tx_info_def tx_power_def defaultCodeRate_def)
qed (use assms in \<open>simp add: proprietary_tx_info_def SetDownlinkTXInfoDataRate_def\<close>)

lemma proprietary_downlink_run:
  assumes "pd_Handle E newUUID macPayload mic gwMACs iPol frequency dr w = (r, w')"
  shows "w_DB w' = w_DB w \<and> w_Redis w' = w_Redis w \<and>
    (\<exists>fs. w_Calls w' = w_Calls w @ map SendTXPacket fs \<and> length fs \<le> length gwMACs \<and> (r = Inr () \<longrightarrow> length fs = length gwMACs) \<and>
      (\<forall>i < length fs. \<exists>phyB. n_MarshalBinary E (proprietary_phy_of macPayload) mic = Inr phyB \<and>
         proprietary_frame_for E phyB iPol frequency dr (gwMACs ! i) (fs ! i)))"
proof -
  let ?c = "\<lparr>w_DB = w_DB w, w_Redis = w_Redis w, w_Calls = w_Calls w, pd_MACPayload = macPayload, pd_MIC = mic,
    pd_GatewayMACs = gwMACs, pd_IPol = iPol, pd_Frequency = frequency, pd_DR = dr, pd_DownlinkFrames = []\<rparr>"
  obtain c where run: "sendProprietaryDown E newUUID ?c = (r, c)" and w': "w' = world.truncate c"
    using assms by (auto simp: pd_Handle_def pd_tasks_def pd_saveDownlinkFrames_def run_tasks.simps split: prod.splits sum.splits)
  show ?thesis
  proof (cases "n_MarshalBinary E (proprietary_phy_of macPayload) mic")
    case (Inl e)
    then show ?thesis using run w' by (auto simp: sendProprietaryDown_def world.defs)
  next
    case (Inr phyB)
    then have "send_proprietary E newUUID phyB gwMACs ?c = (r, c)" using run by (simp add: sendProprietaryDown_def)
    from send_proprietary_frames[OF this] show ?thesis using w' Inr by (auto simp: world.defs)
  qed
qed

text \<open>The frames are saved before they are made, so none is.\<close>

lemma no_proprietary_frame_is_stored:
  "w_Redis (snd (pd_Handle E newUUID macPayload mic gwMACs iPol frequency dr w)) = w_Redis w"
  by (rule proprietary_downlink_run[OF prod.collapse[symmetric], THEN conjunct2, THEN conjunct1])

section \<open>Properties\<close>

text \<open>
  C38: a proprietary downlink reaches its gateways. They get one frame each, in the order of the request and
  with a downlink id and its token, until one fails; with no error all of them have it. Every frame has
  the encoded payload with the MIC of the request, to be sent immediately on its frequency, at the configured
  power or else that of the band, with the data-rate of the band and, for LoRa, the polarization of the
  request. The tables stay as they were.
\<close>

theorem proprietary_downlink_reaches_its_gateways:
  assumes "pd_Handle E newUUID macPayload mic gwMACs iPol frequency dr w = (r, w')"
  shows "w_DB w' = w_DB w \<and>
    (\<exists>fs. w_Calls w' = w_Calls w @ map SendTXPacket fs \<and> length fs \<le> length gwMACs \<and> (r = Inr () \<longrightarrow> length fs = length gwMACs) \<and>
      (\<forall>i < length fs. \<exists>phyB d.
         n_MarshalBinary E \<lparr>phy_MType = Proprietary, phy_MACPayload = Some (BytesFrame macPayload)\<rparr> mic = Inr phyB \<and>
         GetDataRate (n_Band E) dr = Inr d \<and> Modulation d \<noteq> LRFHSSModulation \<and>
         gd_GatewayId (fs ! i) = eui64_bytes (gwMACs ! i) \<and>
         gd_Token (fs ! i) = ucast (word_rcat (take 2 (gd_DownlinkId (fs ! i))) :: u16) \<and>
         gd_Items (fs ! i) = [\<lparr>di_PhyPayload = phyB, di_TxInfo = Some
           \<lparr>mi_Modulation = (if Modulation d = LoRaModulation then Modulation_LORA else Modulation_FSK),
            mi_ModulationInfo = Some (if Modulation d = LoRaModulation
              then LoraModulationInfo \<lparr>li_Bandwidth = word_of_int (Bandwidth d), li_SpreadingFactor = word_of_int (SpreadFactor d),
                li_CodeRate = ''4/5'', li_PolarizationInversion = iPol\<rparr>
              else FskModulationInfo \<lparr>fi_FrequencyDeviation = word_of_int (go_div (BitRate d) 2), fi_Datarate = word_of_int (BitRate d)\<rparr>),
            dt_Frequency = frequency,
            dt_Power = sint (word_of_int (if cf_downlinkTXPower (n_conf E) \<noteq> - 1 then cf_downlinkTXPower (n_conf E)
              else bd_GetDownlinkTXPower (n_DL E) frequency) :: 32 word),
            dt_Board = 0, dt_Antenna = 0, dt_Timing = IMMEDIATELY, dt_Context = []\<rparr>\<rparr>]))"
proof -
  obtain fs where fs: "w_DB w' = w_DB w" "w_Calls w' = w_Calls w @ map SendTXPacket fs" "length fs \<le> length gwMACs"
    "r = Inr () \<longrightarrow> length fs = length gwMACs"
    "\<forall>i < length fs. \<exists>phyB. n_MarshalBinary E (proprietary_phy_of macPayload) mic = Inr phyB \<and>
       proprietary_frame_for E phyB iPol frequency dr (gwMACs ! i) (fs ! i)"
    using proprietary_downlink_run[OF assms] by (elim conjE exE)
  show ?thesis
  proof (intro conjI exI[of _ fs] allI impI; (rule fs | rule fs(4)[rule_format])?)
    fix i assume "i < length fs"
    then obtain phyB t where f: "n_MarshalBinary E (proprietary_phy_of macPayload) mic = Inr phyB"
      "gd_GatewayId (fs ! i) = eui64_bytes (gwMACs ! i)"
      "gd_Token (fs ! i) = ucast (word_rcat (take 2 (gd_DownlinkId (fs ! i))) :: u16)"
      "proprietary_tx_info E iPol frequency dr = Inr t" "gd_Items (fs ! i) = [\<lparr>di_PhyPayload = phyB, di_TxInfo = Some t\<rparr>]"
      using fs(5) by (auto simp: proprietary_frame_for_def)
    show "\<exists>phyB d.
         n_MarshalBinary E \<lparr>phy_MType = Proprietary, phy_MACPayload = Some (BytesFrame macPayload)\<rparr> mic = Inr phyB \<and>
         GetDataRate (n_Band E) dr = Inr d \<and> Modulation d \<noteq> LRFHSSModulation \<and>
         gd_GatewayId (fs ! i) = eui64_bytes (gwMACs ! i) \<and>
         gd_Token (fs ! i) = ucast (word_rcat (take 2 (gd_DownlinkId (fs ! i))) :: u16) \<and>
         gd_Items (fs ! i) = [\<lparr>di_PhyPayload = phyB, di_TxInfo = Some
           \<lparr>mi_Modulation = (if Modulation d = LoRaModulation then Modulation_LORA else Modulation_FSK),
            mi_ModulationInfo = Some (if Modulation d = LoRaModulation
              then LoraModulationInfo \<lparr>li_Bandwidth = word_of_int (Bandwidth d), li_SpreadingFactor = word_of_int (SpreadFactor d),
                li_CodeRate = ''4/5'', li_PolarizationInversion = iPol\<rparr>
              else FskModulationInfo \<lparr>fi_FrequencyDeviation = word_of_int (go_div (BitRate d) 2), fi_Datarate = word_of_int (BitRate d)\<rparr>),
            dt_Frequency = frequency,
            dt_Power = sint (word_of_int (if cf_downlinkTXPower (n_conf E) \<noteq> - 1 then cf_downlinkTXPower (n_conf E)
              else bd_GetDownlinkTXPower (n_DL E) frequency) :: 32 word),
            dt_Board = 0, dt_Antenna = 0, dt_Timing = IMMEDIATELY, dt_Context = []\<rparr>\<rparr>]" 
      by (rule proprietary_parameters[OF f(4)]) (use f(1,2,3,5) in \<open>simp add: proprietary_phy_of_def\<close>)
  qed
qed

section \<open>A sample\<close>

theorem proprietary_downlink_reaches_its_gateways_witness:
  "\<exists>w' fs. pd_Handle sample_dl_env (\<lambda>cs. Inr (length cs)) [1, 2] [1, 2, 3, 4] [5, 6] True 868100000 0
       \<lparr>w_DB = (sample_tables, sample_tables), w_Redis = memory_7, w_Calls = []\<rparr> = (Inr (), w') \<and>
     w_Calls w' = map SendTXPacket fs \<and> map gd_GatewayId fs = [eui64_bytes 5, eui64_bytes 6] \<and>
     (\<forall>f \<in> set fs. \<exists>item t. gd_Items f = [item] \<and> di_TxInfo item = Some t \<and> dt_Frequency t = 868100000 \<and> dt_Timing t = IMMEDIATELY)"
proof -
  let ?w = "\<lparr>w_DB = (sample_tables, sample_tables), w_Redis = memory_7, w_Calls = []\<rparr>"
  obtain w' where run: "pd_Handle sample_dl_env (\<lambda>cs. Inr (length cs)) [1, 2] [1, 2, 3, 4] [5, 6] True 868100000 0 ?w = (Inr (), w')"
    by (auto simp: pd_Handle_def pd_tasks_def pd_saveDownlinkFrames_def run_tasks.simps sendProprietaryDown_def send_packet_def
        proprietary_tx_info_def SetDownlinkTXInfoDataRate_def sample_band_def sample_data_rates_def Let_def call_out_def
        world.defs)
  from proprietary_downlink_reaches_its_gateways[OF run] obtain fs where sent: "w_Calls w' = map SendTXPacket fs" "length fs = 2"
    and each: "\<forall>i < length fs. gd_GatewayId (fs ! i) = eui64_bytes ([5, 6] ! i) \<and>
       (\<exists>item t. gd_Items (fs ! i) = [item] \<and> di_TxInfo item = Some t \<and> dt_Frequency t = 868100000 \<and> dt_Timing t = IMMEDIATELY)"
  proof (elim conjE exE, goal_cases)
    case (1 fs)
    then show ?case by (intro 1(1)[of fs]) (simp, simp, metis (no_types, lifting) downlink_frame_item.select_convs(2) downlink_tx_info.select_convs(1,5))
  qed
  note fs = sent each[unfolded sent(2)]
  from fs have "map gd_GatewayId fs = [eui64_bytes 5, eui64_bytes 6]"
    by (auto simp: numeral_2_eq_2 length_Suc_conv less_Suc_eq nth_Cons split: nat.splits)
  moreover have "\<forall>f \<in> set fs. \<exists>item t. gd_Items f = [item] \<and> di_TxInfo item = Some t \<and> dt_Frequency t = 868100000 \<and> dt_Timing t = IMMEDIATELY"
    using fs(2,3) by (metis in_set_conv_nth)
  ultimately show ?thesis using run fs(1) by (intro exI[of _ w'] exI[of _ fs] conjI)
qed

end
