(* ===== verification/HomeNetwork.thy ===== *)
theory HomeNetwork
  imports Uplink
begin

text \<open>
  Passive roaming as the home network of a device (\<open>hNS\<close>): the meta-data of an uplink as a partner sends it
  (\<open>internal/roaming/ul_metadata.go\<close>), the uplink it forwards (\<open>internal/uplink/data/data_roaming_hns.go\<close>), and the
  requests of the roaming API for data frames (\<open>internal/api/roaming\<close>): starting a session, which hands out
  the session key, and transmitting a frame. Requests come decoded; the answer to a request is its payload.
\<close>

section \<open>Frequencies between networks\<close>

text \<open>
  A frequency goes over the wire as a \<open>float64\<close> of MHz and is truncated to Hz by the receiver. It loses at most
  one Hz, and does for some frequencies.
\<close>

lemma f64_error:
  assumes "1 / 1000000 \<le> x"
  shows "\<bar>f64 x - x\<bar> \<le> x / 2 ^ 53"
proof -
  have "2 powi - 20 \<le> (1 :: rat) / 1000000" by (simp add: power_int_minus)
  then have "- 20 \<le> bexp x" using assms by (intro bexp_lower) linarith
  then have "\<bar>f64 x - x\<bar> \<le> \<bar>x\<bar> / 2 powi 53"
    unfolding f64_def using assms by (intro fl_error) auto
  then show ?thesis using assms powi_nat[of 53] by simp
qed

text \<open>
  C39: a frequency that one network sends and another receives is the same, or one Hz less.
\<close>

theorem frequency_survives_roaming:
  "hertz (megahertz f) \<in> {f, f - 1} \<and> uint (hertz (megahertz f)) \<le> uint f"
proof (cases "f = 0")
  case True
  then show ?thesis by (simp add: hertz_def megahertz_def f64_div_def f64_mul_def f64_def trunc_def)
next
  case False
  define n where "n = uint f"
  have "n \<noteq> 0" using False by (simp add: n_def uint_0_iff)
  moreover have "0 \<le> n" "n < 2 ^ 32" using uint_lt2p[of f] uint_ge_0[of f] unfolding n_def by simp_all
  ultimately have n: "1 \<le> n" "n < 2 ^ 32" by linarith+
  then have rn: "(1::rat) \<le> of_int n" "(of_int n :: rat) < 2 ^ 32" by simp_all
  define q where "q = (of_int n :: rat) / 1000000"
  define y where "y = f64 q"
  have q: "1 / 1000000 \<le> q" "q < 5000" using rn by (simp_all add: q_def)
  have y: "\<bar>y - q\<bar> \<le> q / 2 ^ 53" unfolding y_def by (rule f64_error[OF q(1)])
  have "q / 2 ^ 53 \<le> q / 2" using q by (intro divide_left_mono) auto
  with y q have y_pos: "q / 2 \<le> y" "y \<le> 2 * q" by linarith+
  define z where "z = f64 (y * 1000000)"
  have "\<bar>z - y * 1000000\<bar> \<le> y * 1000000 / 2 ^ 53" unfolding z_def using y_pos q by (intro f64_error) linarith
  moreover have "y * 1000000 / 2 ^ 53 \<le> of_int n / 2 ^ 52" using y_pos(2) by (simp add: q_def)
  moreover have "\<bar>y * 1000000 - of_int n\<bar> \<le> of_int n / 2 ^ 53"
  proof -
    have "y * 1000000 - of_int n = (y - q) * 1000000" by (simp add: q_def algebra_simps)
    then have "\<bar>y * 1000000 - of_int n\<bar> = \<bar>y - q\<bar> * 1000000" by (simp only: abs_mult abs_numeral)
    also have "\<dots> \<le> q / 2 ^ 53 * 1000000" using y by (intro mult_right_mono) simp_all
    finally show ?thesis by (simp add: q_def)
  qed
  moreover have "(of_int n :: rat) / 2 ^ 52 < 1 / 4" "(of_int n :: rat) / 2 ^ 53 < 1 / 4" using rn(2) by simp_all
  ultimately have z: "of_int n - 1 < z" "z < of_int n + 1" "0 \<le> z" using rn by linarith+
  have t: "trunc z = \<lfloor>z\<rfloor>" using z(3) by (simp add: trunc_def)
  have "n - 1 \<le> \<lfloor>z\<rfloor>" "\<lfloor>z\<rfloor> \<le> n" using z(1,2) by linarith+
  then have "trunc z = n \<or> trunc z = n - 1" using t by linarith
  moreover have "hertz (megahertz f) = word_of_int (trunc z)"
    by (simp add: hertz_def megahertz_def f64_div_def f64_mul_def z_def y_def q_def n_def)
  moreover have "word_of_int n = f" "word_of_int (n - 1) = f - 1" by (simp_all add: n_def)
  moreover have "uint (f - 1) = n - 1" using n by (simp add: n_def uint_sub_if')
  ultimately show ?thesis by (auto simp: n_def)
qed

lemma a_hertz_is_lost: "hertz (megahertz 128000500) = 128000499"
  by code_simp

section \<open>The meta-data of an uplink\<close>

record roaming_ul_meta = ul_meta_data +
  um_FNSULToken :: "byte list"

record ('db, 's, 'v) home_env =
  h_Data :: "('db, 's, 'v, roaming_meta) up_env"
  h_Down :: "('db, 's, 'v) dl_env"
  h_conf :: roaming_conf
  h_TimestampProto :: "instant \<Rightarrow> proto_timestamp res"
  h_UnmarshalPHY :: "byte list \<Rightarrow> phy res"
  h_UnmarshalNetID :: "string \<Rightarrow> u32 res"
  h_NewKeyEnvelope :: "string \<Rightarrow> byte list \<Rightarrow> aeskey \<Rightarrow> key_envelope res"
  h_unmarshalRXInfo :: "byte list \<Rightarrow> rx_info res"
  h_sort :: "rx_info list \<Rightarrow> rx_info list"

definition ULMetaDataToTXInfo :: "band \<Rightarrow> 'a ul_meta_data_scheme \<Rightarrow> uplink_tx_info res" where
  "ULMetaDataToTXInfo b m =
     (let out = \<lparr>mi_Modulation = Modulation_LORA, mi_ModulationInfo = None,
            ut_Frequency = (case um_ULFreq m of None \<Rightarrow> 0 | Some f \<Rightarrow> hertz f)\<rparr>
      in case um_DataRate m of
        None \<Rightarrow> Inr out
      | Some dr \<Rightarrow> (case SetUplinkTXInfoDataRate b dr out of
          Inl e \<Rightarrow> Inl (Wrap e ''set uplink txinfo data-rate error'')
        | Inr out \<Rightarrow> Inr out))"

text \<open>\<open>time.Time.Round\<close> rounds half seconds up.\<close>

definition round_second :: "instant \<Rightarrow> instant" where
  "round_second t = (t + second div 2) div second * second"

definition partner_fine_timestamp ::
  "(instant \<Rightarrow> proto_timestamp res) \<Rightarrow> instant \<Rightarrow> int option \<Rightarrow> fine_timestamp option res" where
  "partner_fine_timestamp to_proto recvTime fine =
     (case fine of
        None \<Rightarrow> Inr None
      | Some ns \<Rightarrow> (case to_proto (round_second recvTime + ns) of
          Inl e \<Rightarrow> Inl (Wrap e ''timestamp proto error'')
        | Inr t \<Rightarrow> Inr (Some (PlainFineTimestamp (Some t)))))"

definition partner_rx_info :: "ul_gw_info \<Rightarrow> fine_timestamp option \<Rightarrow> rx_info" where
  "partner_rx_info g fine =
     \<lparr>ri_GatewayId = ug_ID g, ri_Time = None, ri_TimeSinceGpsEpoch = None,
      ri_Rssi = (case ug_RSSI g of None \<Rightarrow> 0 | Some r \<Rightarrow> sint (word_of_int r :: 32 word)),
      ri_LoraSnr = (case ug_SNR g of None \<Rightarrow> 0 | Some s \<Rightarrow> s), ri_Channel = 0, ri_RfChain = 0, ri_Board = 0, ri_Antenna = 0,
      ri_Location = (case (ug_Lat g, ug_Lon g) of
         (Some lat, Some lon) \<Rightarrow> Some \<lparr>loc_Latitude = lat, loc_Longitude = lon, loc_Altitude = 0\<rparr> | _ \<Rightarrow> None),
      ri_Context = ug_ULToken g, ri_UplinkId = [], ri_FineTimestamp = fine\<rparr>"

fun ULMetaDataToRXInfo ::
  "(instant \<Rightarrow> proto_timestamp res) \<Rightarrow> instant \<Rightarrow> ul_gw_info list \<Rightarrow> rx_info list res" where
  "ULMetaDataToRXInfo to_proto recvTime [] = Inr []"
| "ULMetaDataToRXInfo to_proto recvTime (g # gs) =
     (case partner_fine_timestamp to_proto recvTime (ug_FineRecvTime g) of
        Inl e \<Rightarrow> Inl e
      | Inr fine \<Rightarrow> (case ULMetaDataToRXInfo to_proto recvTime gs of
          Inl e \<Rightarrow> Inl e | Inr rs \<Rightarrow> Inr (partner_rx_info g fine # rs)))"

section \<open>A forwarded uplink\<close>

definition forwarded_packet ::
  "('db, 's, 'v) home_env \<Rightarrow> string \<Rightarrow> byte list \<Rightarrow> roaming_ul_meta \<Rightarrow> dl_packet res" where
  "forwarded_packet H senderID phyPayload m =
     (case h_UnmarshalPHY H phyPayload of
        Inl e \<Rightarrow> Inl (Wrap e ''unmarshal phypayload error'')
      | Inr phy \<Rightarrow>
         (case ULMetaDataToTXInfo (u_Band (h_Data H)) m of
            Inl e \<Rightarrow> Inl (Wrap e ''up meta-data to txinfo error'')
          | Inr t \<Rightarrow>
             (case ULMetaDataToRXInfo (h_TimestampProto H) (um_RecvTime m) (um_GWInfo m) of
                Inl e \<Rightarrow> Inl (Wrap e ''ul meta-data to rxinfo error'')
              | Inr rs \<Rightarrow> Inr
                  \<lparr>rp_DR = (case um_DataRate m of None \<Rightarrow> 0 | Some dr \<Rightarrow> dr), rp_PHYPayload = phy, rp_TXInfo = Some t,
                   rp_RXInfoSet = rs, rp_GatewayIsPrivate = None, rp_GatewayServiceProfile = None,
                   rp_RoamingMetaData = Some \<lparr>rm_SenderID = senderID, rm_FNSULToken = um_FNSULToken m,
                     rm_GWInfo = map (\<lambda>g. \<lparr>gi_ID = ug_ID g, gi_ULToken = ug_ULToken g, gi_DLAllowed = ug_DLAllowed g\<rparr>) (um_GWInfo m)\<rparr>\<rparr>)))"

definition HandleRoamingHNS ::
  "('db, 's, 'v) home_env \<Rightarrow> string \<Rightarrow> byte list \<Rightarrow> roaming_ul_meta \<Rightarrow> ('db, 's) world \<Rightarrow> unit res \<times> ('db, 's) world" where
  "HandleRoamingHNS H senderID phyPayload m w =
     (case forwarded_packet H senderID phyPayload m of
        Inl e \<Rightarrow> (Inl e, w)
      | Inr p \<Rightarrow>
         (case Handle (h_Data H) p (new_uplink_context p w) of
            (Inl e, c) \<Rightarrow> (Inl (Wrap e ''handle uplink error''), world.truncate c)
          | (Inr _, c) \<Rightarrow> (Inr (), world.truncate c)))"

section \<open>The roaming API\<close>

text \<open>The KEK is nil without a label. One of the two keys goes out, by the version of the device.\<close>

definition answered_keys ::
  "('db, 's, 'v) home_env \<Rightarrow> u32 \<Rightarrow> device_session \<Rightarrow> (key_envelope option \<times> key_envelope option) res" where
  "answered_keys H netID ds =
     (let kekLabel = GetPassiveRoamingKEKLabel (h_conf H) netID in
      case (if kekLabel = [] then Inr [] else GetKEKKey (h_conf H) kekLabel) of
        Inl e \<Rightarrow> Inl (Wrap e ''get kek key error'')
      | Inr kek \<Rightarrow>
         (case h_NewKeyEnvelope H kekLabel kek (if GetMACVersion ds = LoRaWAN1_0 then ds_NwkSEncKey ds else ds_FNwkSIntKey ds) of
            Inl e \<Rightarrow> Inl (Wrap e ''new key envelope error'')
          | Inr k \<Rightarrow> Inr (if GetMACVersion ds = LoRaWAN1_0 then (None, Some k) else (Some k, None))))"

definition session_for_frame ::
  "('db, 's, 'v) home_env \<Rightarrow> roaming_ul_meta \<Rightarrow> phy \<Rightarrow> 's \<Rightarrow> device_session res \<times> 's" where
  "session_for_frame H m phy s =
     (let U = h_Data H; freq = (case um_ULFreq m of None \<Rightarrow> 0 | Some f \<Rightarrow> hertz f); dr = (case um_DataRate m of None \<Rightarrow> 0 | Some dr \<Rightarrow> dr)
      in case u_UplinkChannelIndex U freq dr of
        Inl e \<Rightarrow> (Inl (Wrap e ''get uplink channel index for frequency and dr error''), s)
      | Inr ch \<Rightarrow>
         (case GetDeviceSessionForPHYPayload (u_Redis U) (u_Sessions U) (u_validate U phy)
                 (case phy_MACPayload phy of Some (MACFrame f) \<Rightarrow> MACPayload (mf_DevAddr f) (mf_FCnt f) | _ \<Rightarrow> OtherPayload) dr ch s of
            ((_, Inl e), s) \<Rightarrow> (Inl (Wrap e ''get device-session for phypayload error''), s)
          | ((_, Inr (ds, Some e)), s) \<Rightarrow> (Inl (Wrap e ''get device-session for phypayload error''), s)
          | ((_, Inr (ds, None)), s) \<Rightarrow> (Inr ds, s)))"

definition handlePRStartReqData ::
  "('db, 's, 'v) home_env \<Rightarrow> string \<Rightarrow> byte list \<Rightarrow> roaming_ul_meta \<Rightarrow> phy \<Rightarrow> ('db, 's) world \<Rightarrow>
   pr_start_answer res \<times> ('db, 's) world" where
  "handlePRStartReqData H senderID phyPayload m phy w =
     (case h_UnmarshalNetID H senderID of
        Inl e \<Rightarrow> (Inl (Wrap e ''unmarshal netid error''), w)
      | Inr netID \<Rightarrow>
         (case session_for_frame H m phy (w_Redis w) of
            (Inl e, s) \<Rightarrow> (Inl e, w\<lparr>w_Redis := s\<rparr>)
          | (Inr ds, s) \<Rightarrow>
              let w = w\<lparr>w_Redis := s\<rparr>; lifetime = go_div (GetPassiveRoamingLifetime (h_conf H) netID) second;
                  answer = (\<lambda>f n. \<lparr>pa_Success = True, pa_PHYPayload = [], pa_DevEUI = Some (ds_DevEUI ds), pa_DevAddr = None,
                     pa_Lifetime = Some lifetime, pa_FNwkSIntKey = f, pa_NwkSKey = n, pa_FCntUp = Some (ds_FCntUp ds),
                     pa_DLMetaData = None\<rparr>)
              in if lifetime \<noteq> 0
                 then (case answered_keys H netID ds of Inl e \<Rightarrow> (Inl e, w) | Inr (f, n) \<Rightarrow> (Inr (answer f n), w))
                 else (case HandleRoamingHNS H senderID phyPayload m w of
                         (Inl e, w) \<Rightarrow> (Inl (Wrap e ''handle passive-roaming uplink error''), w)
                       | (Inr _, w) \<Rightarrow> (Inr (answer None None), w))))"

definition handleXmitDataReq ::
  "('db, 's, 'v) home_env \<Rightarrow> string \<Rightarrow> byte list \<Rightarrow> roaming_ul_meta option \<Rightarrow> dl_meta_data option \<Rightarrow> ('db, 's) world \<Rightarrow>
   unit res \<times> ('db, 's) world" where
  "handleXmitDataReq H senderID phyPayload ul dl w =
     (if phyPayload = [] then (Inl (Errorf ''unexpected payload''), w)
      else case ul of
        Some m \<Rightarrow> wrapping ''handle passive-roaming uplink error'' (HandleRoamingHNS H senderID phyPayload m) w
      | None \<Rightarrow>
         (case dl of
            Some m \<Rightarrow> wrapping ''handle passive-roaming downlink error''
              (HandleRoamingFNS (h_Down H) (h_unmarshalRXInfo H) (h_sort H) phyPayload m) w
          | None \<Rightarrow> (Inl (Errorf ''unexpected payload''), w)))"

datatype result_code = Success | UnknownDevAddr | MICFailed | OtherResult

definition errToResultCode :: "error \<Rightarrow> result_code" where
  "errToResultCode e =
     (let cause = error_cause e in
      if cause = ErrDoesNotExist then UnknownDevAddr
      else if cause \<in> {ErrFrameCounterReset, ErrFrameCounterRetransmission, ErrInvalidMIC} then MICFailed
      else OtherResult)"

lemma answered_keys_ok:
  "answered_keys H netID x = Inr (f, n) \<longleftrightarrow>
     (\<exists>kek k. (if GetPassiveRoamingKEKLabel (h_conf H) netID = [] then kek = []
               else GetKEKKey (h_conf H) (GetPassiveRoamingKEKLabel (h_conf H) netID) = Inr kek) \<and>
        (if GetMACVersion x = LoRaWAN1_0
         then h_NewKeyEnvelope H (GetPassiveRoamingKEKLabel (h_conf H) netID) kek (ds_NwkSEncKey x) = Inr k \<and> n = Some k \<and> f = None
         else h_NewKeyEnvelope H (GetPassiveRoamingKEKLabel (h_conf H) netID) kek (ds_FNwkSIntKey x) = Inr k \<and> f = Some k \<and> n = None))"
  by (auto simp: answered_keys_def Let_def split: sum.splits if_splits)

text \<open>
  C13: a session key leaves the server for an authentic frame only. A partner that starts a session is answered only
  when a stored session of the address of its frame validates the integrity code, at a counter that is not below
  the expected one unless the session skips the validation of counters. The answer names that device and
  the counter it expects. When the agreement has a lifetime it has one key of this session, wrapped with the
  key of the agreement: the network session key of a LoRaWAN 1.0 device, else the forwarding
  integrity key, and never both; the database stays as it is and no call is made. Without a
  lifetime it has no key, and the frame is handled at once.
\<close>

theorem keys_are_given_for_authentic_frames:
  assumes "redis_server (u_Redis (h_Data H)) holds" and "codec_ok (u_Sessions (h_Data H))"
    and "h_UnmarshalNetID H senderID = Inr netID"
    and "handlePRStartReqData H senderID phyPayload m phy w = (Inr a, w')"
    and "label = GetPassiveRoamingKEKLabel (h_conf H) netID"
  shows "\<exists>frame f d x y e dr ch. phy_MACPayload phy = Some (MACFrame frame) \<and>
     session_at (u_Sessions (h_Data H)) (holds (w_Redis w)) e = Some y \<and> (x = y \<or> PendingRejoinDeviceSession y = Some x) \<and>
     ds_DevAddr x = mf_DevAddr frame \<and>
     u_validate (h_Data H) phy (GetMACVersion x) (ds_ConfFCnt x) dr ch (ds_FNwkSIntKey x) (ds_SNwkSIntKey x) f = Inr True \<and>
     (if ds_FCntUp x \<le> f then d = x else ds_SkipFCntValidation x \<and> d = x\<lparr>ds_FCntUp := 0, ds_UplinkHistory := []\<rparr>) \<and>
     pa_DevEUI a = Some (ds_DevEUI x) \<and> pa_FCntUp a = Some (ds_FCntUp d) \<and>
     (if go_div (GetPassiveRoamingLifetime (h_conf H) netID) second = 0
      then pa_FNwkSIntKey a = None \<and> pa_NwkSKey a = None \<and>
        (\<exists>s. HandleRoamingHNS H senderID phyPayload m (w\<lparr>w_Redis := s\<rparr>) = (Inr (), w'))
      else (\<exists>kek k. (if label = [] then kek = [] else GetKEKKey (h_conf H) label = Inr kek) \<and>
          (if GetMACVersion x = LoRaWAN1_0
           then h_NewKeyEnvelope H label kek (ds_NwkSEncKey x) = Inr k \<and> pa_NwkSKey a = Some k \<and> pa_FNwkSIntKey a = None
           else h_NewKeyEnvelope H label kek (ds_FNwkSIntKey x) = Inr k \<and> pa_FNwkSIntKey a = Some k \<and> pa_NwkSKey a = None)) \<and>
        w_DB w' = w_DB w \<and> w_Calls w' = w_Calls w)"
proof -
  obtain d s where look: "session_for_frame H m phy (w_Redis w) = (Inr d, s)"
    using assms(3,4) by (auto simp: handlePRStartReqData_def split: prod.splits sum.splits)
  obtain f dr ch where got: "GetDeviceSessionForPHYPayload (u_Redis (h_Data H)) (u_Sessions (h_Data H)) (u_validate (h_Data H) phy)
      (case phy_MACPayload phy of Some (MACFrame f) \<Rightarrow> MACPayload (mf_DevAddr f) (mf_FCnt f) | _ \<Rightarrow> OtherPayload) dr ch (w_Redis w) =
      ((f, Inr (d, None)), s)"
    using look by (auto simp: session_for_frame_def Let_def split: sum.splits prod.splits option.splits)
  then obtain frame where frame: "phy_MACPayload phy = Some (MACFrame frame)"
    by (auto simp: GetDeviceSessionForPHYPayload_def split: option.splits frame_payload.splits)
  from lookup_accepts[OF assms(1,2) got[unfolded frame, simplified]] obtain x e y where x:
    "session_at (u_Sessions (h_Data H)) (holds (w_Redis w)) e = Some y" "x = y \<or> PendingRejoinDeviceSession y = Some x"
    "ds_DevAddr x = mf_DevAddr frame"
    "u_validate (h_Data H) phy (GetMACVersion x) (ds_ConfFCnt x) (word_of_int dr) (word_of_int ch) (ds_FNwkSIntKey x)
       (ds_SNwkSIntKey x) f = Inr True"
    "if ds_FCntUp x \<le> f then d = x else ds_SkipFCntValidation x \<and> d = x\<lparr>ds_FCntUp := 0, ds_UplinkHistory := []\<rparr>"
    by auto
  have keys: "ds_DevEUI d = ds_DevEUI x" "ds_NwkSEncKey d = ds_NwkSEncKey x" "ds_FNwkSIntKey d = ds_FNwkSIntKey x"
    "GetMACVersion d = GetMACVersion x"
    using x(5) by (auto simp: GetMACVersion_def split: if_splits)
  have same: "ds_DevEUI d = ds_DevEUI x" "answered_keys H netID d = answered_keys H netID x"
    unfolding answered_keys_def keys by (rule refl)+
  define lifetime where "lifetime = go_div (GetPassiveRoamingLifetime (h_conf H) netID) second"
  have answer: "pa_DevEUI a = Some (ds_DevEUI d) \<and> pa_FCntUp a = Some (ds_FCntUp d) \<and>
     (if lifetime = 0
      then pa_FNwkSIntKey a = None \<and> pa_NwkSKey a = None \<and> (\<exists>s. HandleRoamingHNS H senderID phyPayload m (w\<lparr>w_Redis := s\<rparr>) = (Inr (), w'))
      else answered_keys H netID d = Inr (pa_FNwkSIntKey a, pa_NwkSKey a) \<and> w_DB w' = w_DB w \<and> w_Calls w' = w_Calls w)"
  proof (cases "lifetime = 0")
    case True
    then obtain w1 where "HandleRoamingHNS H senderID phyPayload m (w\<lparr>w_Redis := s\<rparr>) = (Inr (), w1)"
      using assms(3,4) look by (auto simp: handlePRStartReqData_def lifetime_def[symmetric] split: prod.splits sum.splits)
    then show ?thesis using assms(3,4) look True
      by (auto simp: handlePRStartReqData_def lifetime_def[symmetric])
  next
    case False
    then obtain fk nk where "answered_keys H netID d = Inr (fk, nk)"
      using assms(3,4) look by (auto simp: handlePRStartReqData_def lifetime_def[symmetric] Let_def split: prod.splits sum.splits)
    then show ?thesis using assms(3,4) look False
      by (auto simp: handlePRStartReqData_def lifetime_def[symmetric])
  qed
  show ?thesis
    using frame x answer[unfolded same answered_keys_ok] unfolding lifetime_def assms(5) by blast
qed

section \<open>A sample\<close>

text \<open>
  The network of the agreement asks for the session of a frame with counter 5 of device 7; its agreement has a lifetime
  of one hour.
\<close>

definition sample_home :: "(memory_db, memory, redis_value) home_env" where
  "sample_home =
     \<lparr>h_Data = sample_up_env, h_Down = sample_dl_env,
      h_conf = sample_roaming_conf\<lparr>rc_agreements := [\<lparr>ag_netID = 3, ag_passiveRoaming = True, ag_passiveRoamingLifetime = 3600 * second,
        ag_passiveRoamingKEKLabel = []\<rparr>]\<rparr>,
      h_TimestampProto = (\<lambda>t. Inr \<lparr>pt_Seconds = t div second, pt_Nanos = t mod second\<rparr>),
      h_UnmarshalPHY = (\<lambda>_. Inr (rp_PHYPayload sample_dl_packet)), h_UnmarshalNetID = (\<lambda>_. Inr 3),
      h_NewKeyEnvelope = (\<lambda>l _ k. Inr \<lparr>ke_KEKLabel = l, ke_AESKey = key_bytes k\<rparr>),
      h_unmarshalRXInfo = (\<lambda>_. Inl (Errorf ''proto'')), h_sort = (\<lambda>rs. rs)\<rparr>"

definition sample_ul_meta :: roaming_ul_meta where
  "sample_ul_meta =
     \<lparr>um_DevEUI = None, um_DevAddr = None, um_DataRate = Some 0, um_ULFreq = Some (8681 / 10), um_RecvTime = 0, um_RFRegion = ''EU868'',
      um_GWCnt = None, um_GWInfo = [], um_FNSULToken = []\<rparr>"

definition home_world :: "(memory_db, memory) world" where
  "home_world = \<lparr>w_DB = (sample_tables, sample_tables), w_Redis = memory_7, w_Calls = []\<rparr>"

definition sample_home_phy :: phy where
  "sample_home_phy = \<lparr>phy_MType = UnconfirmedDataUp, phy_MACPayload = Some (MACFrame sample_uplink_frame)\<rparr>"

theorem keys_are_given_for_authentic_frames_witness:
  "\<exists>a w'. handlePRStartReqData sample_home ''000003'' [64] sample_ul_meta sample_home_phy home_world = (Inr a, w') \<and>
     pa_DevEUI a = Some 7 \<and> pa_FNwkSIntKey a = None \<and> w_Calls w' = [] \<and>
     pa_NwkSKey a = Some \<lparr>ke_KEKLabel = [], ke_AESKey = key_bytes (ds_NwkSEncKey device_7)\<rparr>"
proof -
  have env: "h_Data sample_home = sample_up_env" "h_UnmarshalNetID sample_home ''000003'' = Inr 3"
    by (simp_all add: sample_home_def)
  have lifetime: "go_div (GetPassiveRoamingLifetime (h_conf sample_home) 3) second = 3600"
    by (simp add: sample_home_def GetPassiveRoamingLifetime_def agreement_of_def go_div_def second_def)
  have look: "session_for_frame sample_home sample_ul_meta sample_home_phy (w_Redis home_world) = (Inr device_7, memory_7)"
    using sample_uplink_lookup by (simp add: session_for_frame_def env sample_ul_meta_def sample_home_phy_def sample_uplink_frame_def home_world_def)
  obtain fk nk where keys: "answered_keys sample_home 3 device_7 = Inr (fk, nk)"
    by (simp add: answered_keys_def sample_home_def GetPassiveRoamingKEKLabel_def agreement_of_def)
  obtain a w' where run: "handlePRStartReqData sample_home ''000003'' [64] sample_ul_meta sample_home_phy home_world = (Inr a, w')"
    using look keys lifetime env by (simp add: handlePRStartReqData_def)
  have only: "y = device_7" if "session_at session_values (mem_holds memory_7) e = Some y" for e y
    using that by (auto simp: session_at_def memory_7_def mem_empty_def mem_val_def session_values_def split: if_splits)
  have single: "PendingRejoinDeviceSession device_7 = None" by (simp add: PendingRejoinDeviceSession_def)
  have server: "redis_server (u_Redis (h_Data sample_home)) mem_holds" "codec_ok (u_Sessions (h_Data sample_home))"
    using mem_server.redis_server_axioms value_codecs_ok(1) by (simp_all add: env)
  have label: "GetPassiveRoamingKEKLabel (h_conf sample_home) 3 = []"
    by (simp add: sample_home_def GetPassiveRoamingKEKLabel_def agreement_of_def)
  have envelope: "h_NewKeyEnvelope sample_home l kek key = Inr k \<longleftrightarrow> k = \<lparr>ke_KEKLabel = l, ke_AESKey = key_bytes key\<rparr>" for l kek key k
    by (auto simp: sample_home_def)
  have calls: "w_Calls home_world = []" by (simp add: home_world_def)
  have "GetMACVersion device_7 = LoRaWAN1_0" by (simp add: GetMACVersion_def device_7_def)
  moreover from keys_are_given_for_authentic_frames[OF server env(2) run refl]
  have "pa_DevEUI a = Some 7 \<and> w_Calls w' = [] \<and>
     (if GetMACVersion device_7 = LoRaWAN1_0
      then pa_NwkSKey a = Some \<lparr>ke_KEKLabel = [], ke_AESKey = key_bytes (ds_NwkSEncKey device_7)\<rparr> \<and> pa_FNwkSIntKey a = None
      else pa_FNwkSIntKey a = Some \<lparr>ke_KEKLabel = [], ke_AESKey = key_bytes (ds_FNwkSIntKey device_7)\<rparr> \<and> pa_NwkSKey a = None)"
  proof (elim exE conjE, goal_cases)
    case (1 frame f d x y e dr ch)
    have "y = device_7" using only[of e y] 1(2) by (simp add: env home_world_def)
    then have x: "x = device_7" using 1(3) single by auto
    show ?case using 1(7,9) calls by (simp add: x lifetime label envelope split: if_splits)
  qed
  ultimately show ?thesis using run by auto
qed

end
