(* ===== verification/GatewayStats.thy ===== *)
theory GatewayStats
  imports World
begin

text \<open>
  The statistics a gateway sends (\<open>internal/gateway/stats/stats.go\<close>): its state is updated, its configuration is
  sent when the version it reports is not the current one, and the statistics go to the application-server
  with the counts per data-rate.

  A version string is what \<open>GatewayStore.GetVersion\<close> formats it from, \<open>None\<close> when it is no such string. The
  fields that are only copied into the request are the message itself.
\<close>

section \<open>Messages\<close>

record per_modulation_count =
  pc_Modulation :: "modulation_info option"
  pc_Count :: u32

record gateway_stats =
  gs_GatewayId :: "byte list"
  gs_Location :: "gw_location option"
  gs_ConfigVersion :: "(uuid \<times> int) option"
  gs_meta_concentratord_version :: string
  gs_meta_config_version :: "(uuid \<times> int) option"
  gs_TxPacketsPerModulation :: "per_modulation_count list"
  gs_RxPacketsPerModulation :: "per_modulation_count list"

datatype modulation_config =
    LoraModulationConfig (lc_Bandwidth: u32) (lc_SpreadingFactors: "u32 list")
  | FskModulationConfig u32 u32

record channel_configuration =
  cc_Frequency :: u32
  cc_Modulation :: gw_modulation
  cc_Config :: "modulation_config option"

record gateway_configuration =
  cf_GatewayId :: "byte list"
  cf_StatsInterval :: duration
  cf_Version :: "uuid \<times> int"
  cf_Channels :: "channel_configuration list"

datatype stats_call =
    SendGatewayConfigPacket gateway_configuration
  | HandleGatewayStats uuid gateway_stats "(u32 \<times> u32) list" "(u32 \<times> u32) list"

record ('db, 's, 'v) stats_env =
  t_Redis :: "('s, 'v, eui64) redis"
  t_MetaCodec :: "(gateway_meta, 'v) codec"
  t_TTL :: duration
  t_Gateways :: "'db gateway_table"
  t_Boards :: "'db board_table"
  t_ServiceProfiles :: "('db, service_profile) table"
  t_GatewayProfiles :: "('db, gateway_profile) table"
  t_ExtraChannels :: "'db extra_table"
  t_RoutingProfiles :: "('db, routing_profile) table"
  t_pool :: "routing_profile \<Rightarrow> unit res"
  t_Band :: band
  t_now :: instant
  t_send_config :: "gateway_configuration \<Rightarrow> unit res"
  t_HandleGatewayStats :: "uuid \<Rightarrow> gateway_stats \<Rightarrow> unit res"

record ('db, 's) stats_context = "('db, 's) world" +
  st_gatewayID :: eui64
  st_gatewayStats :: gateway_stats
  st_gatewayMeta :: gateway_meta
  st_Sent :: "stats_call list"

type_synonym ('db, 's) stats_task = "('db, 's) stats_context task"

section \<open>State and meta-data\<close>

text \<open>A missing location is read as zeros, which leaves the stored one.\<close>

definition updateGatewayState :: "('db, 's, 'v) stats_env \<Rightarrow> ('db, 's) stats_task" where
  "updateGatewayState E c =
     (let (lat, lon, alt) = (case gs_Location (st_gatewayStats c) of None \<Rightarrow> (0, 0, 0)
            | Some l \<Rightarrow> (loc_Latitude l, loc_Longitude l, loc_Altitude l))
      in case UpdateGatewayState (t_Redis E) (t_Gateways E) (st_gatewayID c) lat lon alt (t_now E) (w_DB c) (w_Redis c) of
        (Inl e, db, s) \<Rightarrow> (Inl (Wrap e ''update gateway state error''), c\<lparr>w_DB := db, w_Redis := s\<rparr>)
      | (Inr _, db, s) \<Rightarrow> (Inr (), c\<lparr>w_DB := db, w_Redis := s\<rparr>))"

definition getGatewayMeta :: "('db, 's, 'v) stats_env \<Rightarrow> ('db, 's) stats_task" where
  "getGatewayMeta E c =
     (case GetAndCacheGatewayMeta (t_Redis E) (t_MetaCodec E) (t_TTL E) (t_Gateways E) (t_Boards E) (t_ServiceProfiles E)
             (st_gatewayID c) (w_DB c) (w_Redis c) of
        (Inl e, s) \<Rightarrow> (Inl (Wrap e ''get gateway meta error''), c\<lparr>w_Redis := s\<rparr>)
      | (Inr g, s) \<Rightarrow> (Inr (), c\<lparr>w_Redis := s, st_gatewayMeta := g\<rparr>))"

section \<open>Configuration\<close>

text \<open>The data-rates of a channel from the highest to the lowest, as far as they are LoRa at 125 kHz.\<close>

fun lora_config :: "band \<Rightarrow> int list \<Rightarrow> u32 \<times> u32 list \<Rightarrow> (u32 \<times> u32 list) res" where
  "lora_config b [] cfg = Inr cfg"
| "lora_config b (drI # drs) (bandwidth, sfs) =
     (case GetDataRate b drI of
        Inl e \<Rightarrow> Inl (Wrap e ''get data-rate error'')
      | Inr dr \<Rightarrow>
          if Modulation dr \<noteq> LoRaModulation \<or> Bandwidth dr \<noteq> 125 then lora_config b drs (bandwidth, sfs)
          else lora_config b drs (word_of_int (Bandwidth dr), sfs @ [word_of_int (SpreadFactor dr)]))"

definition channel_config :: "band \<Rightarrow> int \<Rightarrow> channel_configuration res" where
  "channel_config b i =
     (case GetUplinkChannel b i of
        Inl e \<Rightarrow> Inl (Wrap e ''get channel error'')
      | Inr ch \<Rightarrow>
         (case lora_config b (rev [ch_MinDR ch .. ch_MaxDR ch]) (0, []) of
            Inl e \<Rightarrow> Inl e
          | Inr (bandwidth, sfs) \<Rightarrow> Inr \<lparr>cc_Frequency = ch_Frequency ch, cc_Modulation = Modulation_LORA,
              cc_Config = Some (LoraModulationConfig bandwidth sfs)\<rparr>))"

fun channel_configs :: "band \<Rightarrow> int list \<Rightarrow> channel_configuration list res" where
  "channel_configs b [] = Inr []"
| "channel_configs b (i # is) =
     (case channel_config b i of
        Inl e \<Rightarrow> Inl e
      | Inr c \<Rightarrow> (case channel_configs b is of Inl e \<Rightarrow> Inl e | Inr cs \<Rightarrow> Inr (c # cs)))"

text \<open>An unknown modulation leaves the zero value, which is LoRa, without parameters.\<close>

definition extra_config :: "extra_channel \<Rightarrow> channel_configuration" where
  "extra_config ec =
     \<lparr>cc_Frequency = word_of_int (ec_Frequency ec),
      cc_Modulation = (if ec_Modulation ec = ''FSK'' then Modulation_FSK else Modulation_LORA),
      cc_Config =
        (if ec_Modulation ec = ''LORA'' then Some (LoraModulationConfig (word_of_int (ec_Bandwidth ec)) (map word_of_int (ec_SpreadingFactors ec)))
         else if ec_Modulation ec = ''FSK'' then Some (FskModulationConfig (word_of_int (ec_Bandwidth ec)) (word_of_int (ec_Bitrate ec)))
         else None)\<rparr>"

definition config_packet :: "('db, 's, 'v) stats_env \<Rightarrow> eui64 \<Rightarrow> gateway_profile \<Rightarrow> gateway_configuration res" where
  "config_packet E gatewayID p =
     (case channel_configs (t_Band E) (gp_Channels p) of
        Inl e \<Rightarrow> Inl e
      | Inr cs \<Rightarrow> Inr \<lparr>cf_GatewayId = eui64_bytes gatewayID, cf_StatsInterval = gp_StatsInterval p, cf_Version = GetVersion p,
          cf_Channels = cs @ map extra_config (gp_ExtraChannels p)\<rparr>)"

definition up_to_date :: "gateway_stats \<Rightarrow> gateway_profile \<Rightarrow> bool" where
  "up_to_date st p \<longleftrightarrow> gs_ConfigVersion st = Some (GetVersion p) \<or> gs_meta_config_version st = Some (GetVersion p)"

definition handleGatewayConfigurationUpdate :: "('db, 's, 'v) stats_env \<Rightarrow> ('db, 's) stats_task" where
  "handleGatewayConfigurationUpdate E c =
     (case gm_GatewayProfileID (st_gatewayMeta c) of
        None \<Rightarrow> (Inr (), c)
      | Some i \<Rightarrow>
          if gs_meta_concentratord_version (st_gatewayStats c) = [] then (Inr (), c)
          else case GetGatewayProfile (t_GatewayProfiles E) (t_ExtraChannels E) i (w_DB c) of
            Inl e \<Rightarrow> (Inl (Wrap e ''get gateway-profile error''), c)
          | Inr p \<Rightarrow>
              if up_to_date (st_gatewayStats c) p then (Inr (), c)
              else case config_packet E (gm_GatewayID (st_gatewayMeta c)) p of
                Inl e \<Rightarrow> (Inl e, c)
              | Inr cfg \<Rightarrow>
                 (case t_send_config E cfg of
                    Inl e \<Rightarrow> (Inl (Wrap e ''send gateway-configuration packet error''), c)
                  | Inr _ \<Rightarrow> (Inr (), c\<lparr>st_Sent := st_Sent c @ [SendGatewayConfigPacket cfg]\<rparr>)))"

section \<open>Counts per data-rate\<close>

definition data_rate_of :: "modulation_info option \<Rightarrow> data_rate" where
  "data_rate_of m =
     (case m of
        Some (LoraModulationInfo i) \<Rightarrow> no_data_rate\<lparr>Modulation := LoRaModulation, SpreadFactor := uint (li_SpreadingFactor i),
          Bandwidth := uint (li_Bandwidth i)\<rparr>
      | Some (FskModulationInfo i) \<Rightarrow> no_data_rate\<lparr>Modulation := FSKModulation, BitRate := uint (fi_Datarate i)\<rparr>
      | Some (LrFhssModulationInfo i) \<Rightarrow> no_data_rate\<lparr>Modulation := LRFHSSModulation, CodingRate := hi_CodeRate i,
          OccupiedChannelWidth := uint (hi_OperatingChannelWidth i)\<rparr>
      | None \<Rightarrow> no_data_rate)"

definition item_index :: "band \<Rightarrow> bool \<Rightarrow> per_modulation_count \<Rightarrow> u32 option" where
  "item_index b uplink item =
     (case BandDataRateIndex b uplink (data_rate_of (pc_Modulation item)) of Inl _ \<Rightarrow> None | Inr dr \<Rightarrow> Some (word_of_int dr))"

definition count_item :: "band \<Rightarrow> bool \<Rightarrow> per_modulation_count \<Rightarrow> (u32 \<times> u32) list \<Rightarrow> (u32 \<times> u32) list" where
  "count_item b uplink item out =
     (case item_index b uplink item of
        None \<Rightarrow> out
      | Some dr \<Rightarrow> AList.update dr ((case map_of out dr of None \<Rightarrow> 0 | Some n \<Rightarrow> n) + pc_Count item) out)"

definition perModulationToPerDR :: "band \<Rightarrow> bool \<Rightarrow> per_modulation_count list \<Rightarrow> (u32 \<times> u32) list" where
  "perModulationToPerDR b uplink items = fold (count_item b uplink) items []"

definition forwardGatewayStats :: "('db, 's, 'v) stats_env \<Rightarrow> ('db, 's) stats_task" where
  "forwardGatewayStats E c =
     (let i = gm_RoutingProfileID (st_gatewayMeta c); st = st_gatewayStats c in
      case GetRoutingProfile (t_RoutingProfiles E) i (w_DB c) of
        Inl e \<Rightarrow> (Inl (Wrap e ''get routing-profile error''), c)
      | Inr rp \<Rightarrow>
         (case t_pool E rp of
            Inl e \<Rightarrow> (Inl (Wrap (Wrap e ''get application-server client error'') ''get application-server client error''), c)
          | Inr _ \<Rightarrow>
              let c = c\<lparr>st_Sent := st_Sent c @ [HandleGatewayStats i st (perModulationToPerDR (t_Band E) False (gs_TxPacketsPerModulation st))
                     (perModulationToPerDR (t_Band E) True (gs_RxPacketsPerModulation st))]\<rparr>
              in (case t_HandleGatewayStats E i st of
                    Inl e \<Rightarrow> (Inl (Wrap e ''handle gateway stats error''), c)
                  | Inr _ \<Rightarrow> (Inr (), c))))"

definition stats_tasks :: "('db, 's, 'v) stats_env \<Rightarrow> ('db, 's) stats_task list" where
  "stats_tasks E = [updateGatewayState E, getGatewayMeta E, handleGatewayConfigurationUpdate E, forwardGatewayStats E]"

definition no_gateway_meta :: gateway_meta where
  "no_gateway_meta = \<lparr>gm_GatewayID = 0, gm_RoutingProfileID = 0, gm_GatewayProfileID = None, gm_ServiceProfileID = None,
     gm_Location = \<lparr>Latitude = 0, Longitude = 0\<rparr>, gm_Altitude = 0, gm_IsPrivate = False, gm_Boards = []\<rparr>"

definition stats_Handle ::
  "('db, 's, 'v) stats_env \<Rightarrow> gateway_stats \<Rightarrow> ('db, 's) world \<Rightarrow> unit res \<times> ('db, 's) stats_context" where
  "stats_Handle E st w = flow_handle (stats_tasks E)
     \<lparr>w_DB = w_DB w, w_Redis = w_Redis w, w_Calls = w_Calls w, st_gatewayID = bytes_eui64 (gs_GatewayId st), st_gatewayStats = st,
      st_gatewayMeta = no_gateway_meta, st_Sent = []\<rparr>"

section \<open>Properties\<close>

lemma count_item_get:
  "map_of (count_item b uplink item out) dr =
     (if item_index b uplink item = Some dr then Some ((case map_of out dr of None \<Rightarrow> 0 | Some n \<Rightarrow> n) + pc_Count item) else map_of out dr)"
  by (auto simp: count_item_def update_conv' split: option.splits)

text \<open>The counts add up: a data-rate has the sum of the counts of its items, modulo \<open>2 ^ 32\<close>, and none without items.\<close>

theorem counts_add_up:
  "map_of (perModulationToPerDR b uplink items) dr =
     (let own = filter (\<lambda>item. item_index b uplink item = Some dr) items
      in if own = [] then None else Some (sum_list (map pc_Count own)))"
proof -
  have "map_of (fold (count_item b uplink) items out) dr =
     (let own = filter (\<lambda>item. item_index b uplink item = Some dr) items
      in if own = [] then map_of out dr
         else Some ((case map_of out dr of None \<Rightarrow> 0 | Some n \<Rightarrow> n) + sum_list (map pc_Count own)))" for out
    by (induction items arbitrary: out) (auto simp: count_item_get Let_def add.assoc)
  from this[of "[]"] show ?thesis by (simp add: perModulationToPerDR_def Let_def)
qed

lemma lora_config_factors:
  assumes "lora_config b drs (bw, sfs) = Inr (bw', sfs')"
  shows "sfs' = sfs @ List.map_filter (\<lambda>i. case GetDataRate b i of
      Inr d \<Rightarrow> if Modulation d = LoRaModulation \<and> Bandwidth d = 125 then Some (word_of_int (SpreadFactor d)) else None
    | Inl _ \<Rightarrow> None) drs"
  using assms
proof (induction drs arbitrary: bw sfs)
  case Nil
  then show ?case by (simp add: map_filter_simps)
next
  case (Cons i drs)
  obtain d where d: "GetDataRate b i = Inr d" using Cons.prems by (auto split: sum.splits)
  show ?case
    using Cons.prems Cons.IH[of "word_of_int (Bandwidth d)" "sfs @ [word_of_int (SpreadFactor d)]"] Cons.IH[of bw sfs] d
    by (auto simp: map_filter_simps split: if_splits)
qed

text \<open>
  A gateway gets at most one configuration for its statistics. It has the version of its profile in the table, and
  a gateway that reports this version is not sent it again.
\<close>

theorem configuration_is_pushed_until_reported:
  assumes "handleGatewayConfigurationUpdate E c = (Inr (), c')"
  shows "c' = c \<or>
    (\<exists>cfg i p. c' = c\<lparr>st_Sent := st_Sent c @ [SendGatewayConfigPacket cfg]\<rparr> \<and> gm_GatewayProfileID (st_gatewayMeta c) = Some i \<and>
       GetGatewayProfile (t_GatewayProfiles E) (t_ExtraChannels E) i (w_DB c) = Inr p \<and>
       config_packet E (gm_GatewayID (st_gatewayMeta c)) p = Inr cfg \<and>
       (\<forall>st. gs_ConfigVersion st = Some (cf_Version cfg) \<longrightarrow>
          handleGatewayConfigurationUpdate E (c'\<lparr>st_gatewayStats := st\<rparr>) = (Inr (), c'\<lparr>st_gatewayStats := st\<rparr>)))"
proof -
  have version: "cf_Version cfg = GetVersion p" if "config_packet E i p = Inr cfg" for i p cfg
    using that by (auto simp: config_packet_def split: sum.splits)
  show ?thesis
    using assms
    by (auto simp: handleGatewayConfigurationUpdate_def up_to_date_def version
        split: option.splits if_splits sum.splits)
qed

end
