(* ===== verification/Spec2Isabelle.thy ===== *)
theory Spec2Isabelle
  imports Prelude Gps GoFloat Lorawan Profiles Adr ClassB DeviceSession SessionPB Redis SessionStore MacQueue Gateway MacCommand Database DeviceQueue Devices GatewayStore MinGateway Frames World MemoryWorld Ack UplinkData DownlinkEffects Exchange Multicast MulticastFlow JoinDownlink Roaming Join Rejoin Collect Uplink ProprietaryDownlink HomeNetwork GatewayStats
begin

text \<open>
  ChirpStack Network Server: verification development.

  The server stands between LoRaWAN gateways and application-servers. An uplink arrives through one or
  more gateways and is a join-request, a rejoin-request or data of a device that has a session. Sessions,
  mac-command queues, locks and sent frames live in Redis; devices, profiles, gateways, queues and
  activations live in PostgreSQL. A downlink leaves as the answer to an uplink, from the queue of a
  Class-B or Class-C device, or as a multicast; the gateway acknowledges that it was transmitted. Below,
  paths are relative to \<open>src/internal\<close>.

  \<^bold>\<open>The world.\<close> Every flow of the code is a list of tasks over a context, run until one fails
  (\<open>World\<close>: \<open>run_tasks\<close>, \<open>flow_handle\<close>, \<open>Transaction\<close>). The context extends \<open>world\<close>: the database, the
  Redis state and the calls made so far, in order. Database and Redis are not part of the repository:
  \<open>Database\<close> and \<open>Redis\<close> have a record with one function per statement or command, and a locale each with
  what is documented of them (\<open>sql_table\<close>, \<open>redis_server\<close>), including that a command that fails may
  or may not have been executed. \<open>sql_transactions\<close> adds transactions; Redis is outside of them, as in the
  code. \<open>MemoryWorld\<close> is a database and a Redis server in memory that satisfy all of it, on which the
  flows are run for the witnesses. A flow reads one clock value and its environment gives each random draw.

  \<^bold>\<open>Theories and the code they model.\<close>
  \<^item> \<open>Prelude\<close>, \<open>GoFloat\<close>, \<open>Lorawan\<close>, \<open>Profiles\<close>, \<open>Frames\<close>, \<open>Gateway\<close>: machine integers, Go's maps and errors,
    finite floats as rationals, the types shared with the lorawan library, the messages of the gateways and
    the data-rate conversions of \<open>helpers/helpers.go\<close>.
  \<^item> \<open>Gps\<close> (\<open>gps/gps.go\<close>), \<open>ClassB\<close> (\<open>helpers/classb\<close>): leap-seconds, beacon and ping-slot arithmetic.
  \<^item> \<open>Adr\<close> (\<open>adr\<close>): the three data-rate algorithms.
  \<^item> \<open>DeviceSession\<close>, \<open>SessionPB\<close>, \<open>SessionStore\<close> (\<open>storage/device_session.go\<close>): the session, its message,
    and the store with its index of addresses and the choice of the session of an uplink.
  \<^item> \<open>MacQueue\<close> (\<open>storage/mac_command.go\<close>), \<open>MacCommand\<close> (\<open>maccommand\<close>): queued and pending blocks, and
    every handler and request of a mac-command.
  \<^item> \<open>DeviceQueue\<close>, \<open>Devices\<close>, \<open>GatewayStore\<close> (\<open>storage\<close>): the tables and the caches in front of them.
    \<open>GatewayStats\<close> (\<open>gateway/stats\<close>): the statistics of a gateway and the configuration it is sent.
  \<^item> \<open>Collect\<close>, \<open>Uplink\<close> (\<open>uplink/collect.go\<close>, \<open>uplink/uplink.go\<close>, \<open>gateway/rx_info.go\<close>, \<open>uplink/proprietary\<close>): the
    receptions of one frame are collected by handlers that run beside each other (\<open>collect_step\<close>, one Redis
    command a step), get the meta-data of their gateways and go to the flow of their message type.
  \<^item> \<open>UplinkData\<close> (\<open>uplink/data/data.go\<close>): a data uplink, from the session to the response.
  \<^item> \<open>DownlinkGateway\<close>, \<open>Downlink\<close>, \<open>DownlinkCommands\<close>, \<open>DownlinkFrames\<close>, \<open>DownlinkQueue\<close>, \<open>DownlinkFlow\<close>,
    \<open>DownlinkEffects\<close> (\<open>downlink/data\<close>, \<open>downlink/gateway\<close>, \<open>downlink/scheduler.go\<close>): the choice of gateway and
    window, the mac-commands of a downlink, how much fits which frame, the search for a queue item, the two flows,
    and what they keep. \<open>Ack\<close> (\<open>downlink/ack\<close>): the acknowledgement of a transmission.
  \<^item> \<open>Exchange\<close>: an uplink with its answer and the acknowledgement of that; it discharges what \<open>UplinkData\<close>
    asks of a response flow on the modelled one.
  \<^item> \<open>MinGateway\<close>, \<open>Multicast\<close>, \<open>MulticastFlow\<close> (\<open>downlink/multicast\<close>, \<open>storage/multicast_group.go\<close>): the gateways
    that reach a group, enqueueing and sending.
  \<^item> \<open>JoinDownlink\<close>, \<open>Join\<close>, \<open>Rejoin\<close> (\<open>downlink/join\<close>, \<open>uplink/join\<close>, \<open>uplink/rejoin\<close>): the join-accept and
    the two flows that start a session.
  \<^item> \<open>Roaming\<close> (\<open>roaming\<close>, \<open>storage/passive_roaming.go\<close>, \<open>downlink/roaming\<close>): frames of foreign devices.
    \<open>HomeNetwork\<close> (\<open>api/roaming\<close>, \<open>uplink/data/data_roaming_hns.go\<close>): the requests of partners that serve our devices.
  \<^item> \<open>ProprietaryDownlink\<close> (\<open>downlink/proprietary\<close>): frames the API sends as they are.

  A record of the code is a record here with the same fields and a prefix; a method is a definition of the
  same name where that is free. A panic is the error \<open>Panic\<close>, a map that may be nil a \<open>gomap\<close>.

  \<^bold>\<open>What is shown.\<close> Sessions: what is accepted is authentic and fresh, a frame that was processed, the last or
  an older one, is refused, the index is complete whatever fails, a session survives its message, and an uplink that is processed advances the
  counter also through its answer. Joins: a join starts afresh and is answered once; a rejoin leaves the
  session in use and its counter is used once. Mac-commands: no handler panics or touches keys and counters,
  the requests for parameters, channels and the data-rate settle once the device accepts them, what is sent
  is pending.
  Queues: ping slots are distinct, an item in flight blocks, the search ends. Downlinks: frames fit, Class-C
  frames are sent under locks, an acknowledgement settles exactly its item, a proprietary payload reaches its
  gateways. Multicast: counters increase until a group is asked for the last one, every device is covered,
  an item goes with the acknowledgement of its frame, positive or negative. Receptions: one handler of a frame goes on, with
  all receptions stored by then, and a flow gets known gateways only. Roaming: a frame goes to partners with an
  agreement only, a partner gets one session key for an authentic frame only, and a frequency loses at most one Hz
  on the way. Statistics: counts add up, and a configuration is sent until its version is reported. The locales are interpreted on the model's own definitions: the tables in memory, the Redis server, the
  ADR handlers, Kruskal's algorithm, the flows on a sample environment.

  \<^bold>\<open>Parameters.\<close> AES and the integrity codes, the encodings of the lorawan library, of protocol buffers and gob, the
  band, network clients, the sorting of the standard library (any sorted permutation) and random draws
  are functions of the environments, each with the documented behaviour as a named hypothesis where a
  property needs it. The error of the frame log is one too; what it logs is not modelled.

  \<^bold>\<open>Bounds.\<close> Loops whose end the code does not guarantee are partial functions or options: the ping-slot search
  (\<open>None\<close> when no slot follows; \<open>next_ping_slot_is_least\<close> shows it returns for up to 4096 pings, above
  which the code divides by zero), the rounds of the queue search (\<open>queue_rounds_end\<close>), and the search for
  a free ping slot when enqueueing. The loop over transmit powers is bounded by the 256 values of a byte.

  In \<open>collect_step\<close> the keys of a frame do not expire while its handlers run.

  \<^bold>\<open>Not modelled.\<close> The channels and goroutines that feed the handlers of uplinks and statistics; a request that is
  sent in a goroutine is recorded where it is started. The joins of roaming devices at their home network
  (\<open>uplink/join/join_roaming_sns.go\<close>), and the HTTP server, JSON and asynchronous answers of \<open>api/roaming\<close>. The gRPC API
  (\<open>api/ns\<close>), which converts messages and calls the operations of \<open>storage\<close>. Connections to brokers,
  configuration, logging, metrics, generated code and migrations. The scheduler's endless loops around the
  batches.
\<close>

end
